(* ===== verification/Ndctl_Prelude.thy ===== *)
theory Ndctl_Prelude
  imports Main "HOL-Library.Word"
begin

text \<open>
  The prelude of the development: the machine types of the C sources, the errno values their
  return codes use, byte-addressed memory with the little-endian accessors the on-media
  structures are read and written through, and the generic lemmas on words, lists and memories
  that the component theories share.

  The model is that of an LP64 little-endian host (the \<open>le32_to_cpu\<close> family of
  \<open>ccan/endian/endian.h\<close> is the identity there, \<open>unsigned long\<close> and \<open>size_t\<close> have 64 bits and
  \<open>int\<close> has 32).  A memory is a total function from byte addresses to bytes; the C objects laid
  over it are regions of it, so that aliasing and overlap are visible.
\<close>

unbundle bit_operations_syntax

type_synonym u8 = "8 word"
type_synonym u16 = "16 word"
type_synonym u32 = "32 word"
type_synonym u64 = "64 word"
type_synonym mem = "nat \<Rightarrow> u8"

named_theorems layout_simps \<open>offsets and accessors of the on-media structures\<close>
named_theorems bitmap_bits \<open>bit-level characterisations of word masks\<close>

subsection \<open>Return codes\<close>

definition EPERM :: int where [simp]: "EPERM = 1"
definition EIO :: int where [simp]: "EIO = 5"
definition ENXIO :: int where [simp]: "ENXIO = 6"
definition EAGAIN :: int where [simp]: "EAGAIN = 11"
definition ENOMEM :: int where [simp]: "ENOMEM = 12"
definition EACCES :: int where [simp]: "EACCES = 13"
definition EFAULT :: int where [simp]: "EFAULT = 14"
definition EBUSY :: int where [simp]: "EBUSY = 16"
definition ENODEV :: int where [simp]: "ENODEV = 19"
definition EINVAL :: int where [simp]: "EINVAL = 22"
definition ENOTTY :: int where [simp]: "ENOTTY = 25"
definition ENOSPC :: int where [simp]: "ENOSPC = 28"
definition ERANGE :: int where [simp]: "ERANGE = 34"
definition EOPNOTSUPP :: int where [simp]: "EOPNOTSUPP = 95"
definition ETIMEDOUT :: int where [simp]: "ETIMEDOUT = 110"

definition ULLONG_MAX :: u64 where [simp]: "ULLONG_MAX = 0xFFFFFFFFFFFFFFFF"

lemma ULLONG_MAX_minus_one: "ULLONG_MAX = - 1"
  by simp

subsection \<open>Byte memories\<close>

text \<open>\<open>mem_copy dst d src s n\<close> is \<open>memcpy(dst + d, src + s, n)\<close>, \<open>mem_fill m o n b\<close> is
  \<open>memset(m + o, b, n)\<close> and \<open>mem_eq\<close> is \<open>memcmp(...) == 0\<close>.\<close>

definition mem_copy :: "mem \<Rightarrow> nat \<Rightarrow> mem \<Rightarrow> nat \<Rightarrow> nat \<Rightarrow> mem" where
  "mem_copy dst d src s n = (\<lambda>a. if d \<le> a \<and> a < d + n then src (s + (a - d)) else dst a)"

definition mem_fill :: "mem \<Rightarrow> nat \<Rightarrow> nat \<Rightarrow> u8 \<Rightarrow> mem" where
  "mem_fill m ofs n b = (\<lambda>a. if ofs \<le> a \<and> a < ofs + n then b else m a)"

definition mem_bytes :: "mem \<Rightarrow> nat \<Rightarrow> nat \<Rightarrow> u8 list" where
  "mem_bytes m ofs n = map (\<lambda>i. m (ofs + i)) [0..<n]"

definition mem_eq :: "mem \<Rightarrow> nat \<Rightarrow> mem \<Rightarrow> nat \<Rightarrow> nat \<Rightarrow> bool" where
  "mem_eq m ofs m' ofs' n = (mem_bytes m ofs n = mem_bytes m' ofs' n)"

definition mem_store :: "mem \<Rightarrow> nat \<Rightarrow> u8 list \<Rightarrow> mem" where
  "mem_store m ofs bs = (\<lambda>a. if ofs \<le> a \<and> a < ofs + length bs then bs ! (a - ofs) else m a)"

lemma mem_bytes_nth [simp]: "i < n \<Longrightarrow> mem_bytes m ofs n ! i = m (ofs + i)"
  by (simp add: mem_bytes_def)

lemma length_mem_bytes [simp]: "length (mem_bytes m ofs n) = n"
  by (simp add: mem_bytes_def)

lemma mem_bytes_cong: "(\<And>i. i < n \<Longrightarrow> m (ofs + i) = m' (ofs' + i)) \<Longrightarrow> mem_bytes m ofs n = mem_bytes m' ofs' n"
  by (simp add: mem_bytes_def)

lemma mem_eq_iff: "mem_eq m ofs m' ofs' n = (\<forall>i < n. m (ofs + i) = m' (ofs' + i))"
  by (auto simp: mem_eq_def list_eq_iff_nth_eq)

lemma mem_store_out: "a < ofs \<or> ofs + length bs \<le> a \<Longrightarrow> mem_store m ofs bs a = m a"
  by (auto simp: mem_store_def)

lemma mem_bytes_store_same [simp]: "n = length bs \<Longrightarrow> mem_bytes (mem_store m ofs bs) ofs n = bs"
  by (auto simp: list_eq_iff_nth_eq mem_store_def)

lemma mem_bytes_store_disj:
  "o1 + n \<le> o2 \<or> o2 + length bs \<le> o1 \<Longrightarrow> mem_bytes (mem_store m o2 bs) o1 n = mem_bytes m o1 n"
  by (auto simp: mem_bytes_def mem_store_def)

subsection \<open>Little-endian integers in memory\<close>

text \<open>\<open>le_get n m o\<close> reads the \<open>n\<close>-byte little-endian integer at \<open>o\<close>, \<open>le_put\<close> stores one.\<close>

fun le_get :: "nat \<Rightarrow> mem \<Rightarrow> nat \<Rightarrow> 'a::len word" where
  "le_get 0 m ofs = 0"
| "le_get (Suc n) m ofs = ucast (m ofs) + 256 * le_get n m (Suc ofs)"

fun le_put :: "nat \<Rightarrow> 'a::len word \<Rightarrow> mem \<Rightarrow> nat \<Rightarrow> mem" where
  "le_put 0 w m ofs = m"
| "le_put (Suc n) w m ofs = (le_put n (drop_bit 8 w) m (Suc ofs))(ofs := ucast w)"

lemma le_put_out: "a < ofs \<or> ofs + n \<le> a \<Longrightarrow> le_put n w m ofs a = m a"
  by (induction n w m ofs rule: le_put.induct) auto

lemma le_get_cong:
  "(\<And>i. i < n \<Longrightarrow> m (ofs + i) = m' (ofs' + i)) \<Longrightarrow> le_get n m ofs = le_get n m' ofs'"
proof (induction n m ofs arbitrary: ofs' rule: le_get.induct)
  case (1 m ofs)
  then show ?case by simp
next
  case (2 n m ofs)
  have "le_get n m (Suc ofs) = (le_get n m' (Suc ofs') :: 'a word)"
    by (rule "2.IH") (use "2.prems" in force)
  moreover have "m ofs = m' ofs'"
    using "2.prems" [of 0] by simp
  ultimately show ?case by simp
qed

lemma le_get_put_disj:
  "o1 + n1 \<le> o2 \<or> o2 + n2 \<le> o1 \<Longrightarrow> le_get n1 (le_put n2 w m o2) o1 = le_get n1 m o1"
  by (rule le_get_cong) (auto simp: le_put_out)

lemma le_get_store_disj:
  "o1 + n \<le> o2 \<or> o2 + length bs \<le> o1 \<Longrightarrow> le_get n (mem_store m o2 bs) o1 = le_get n m o1"
  by (rule le_get_cong) (auto simp: mem_store_def)

lemma mem_bytes_put_disj:
  "o1 + n1 \<le> o2 \<or> o2 + n2 \<le> o1 \<Longrightarrow> mem_bytes (le_put n2 w m o2) o1 n1 = mem_bytes m o1 n1"
  by (rule mem_bytes_cong) (auto simp: le_put_out)

lemma le_get_fill_disj:
  "o1 + n \<le> o2 \<or> o2 + k \<le> o1 \<Longrightarrow> le_get n (mem_fill m o2 k v) o1 = le_get n m o1"
  by (rule le_get_cong) (auto simp: mem_fill_def)

lemma le_get_upd_disj: "x < ofs \<or> ofs + n \<le> x \<Longrightarrow> le_get n (m(x := v)) ofs = le_get n m ofs"
  by (rule le_get_cong) auto

lemma mem_bytes_fill_disj:
  "o1 + n \<le> o2 \<or> o2 + k \<le> o1 \<Longrightarrow> mem_bytes (mem_fill m o2 k v) o1 n = mem_bytes m o1 n"
  by (rule mem_bytes_cong) (auto simp: mem_fill_def)

lemma mem_bytes_upd_disj: "x < ofs \<or> ofs + n \<le> x \<Longrightarrow> mem_bytes (m(x := v)) ofs n = mem_bytes m ofs n"
  by (rule mem_bytes_cong) auto

lemma mem_fill_out: "x < ofs \<or> ofs + n \<le> x \<Longrightarrow> mem_fill m ofs n v x = m x"
  by (auto simp: mem_fill_def)

lemmas mem_disj = le_get_put_disj le_get_store_disj le_get_fill_disj le_get_upd_disj
  mem_bytes_put_disj mem_bytes_store_disj mem_bytes_fill_disj mem_bytes_upd_disj
  le_put_out mem_store_out mem_fill_out

lemma word_byte_split: "(w :: 'a::len word) = ucast (ucast w :: u8) + 256 * drop_bit 8 w"
proof -
  have "w = take_bit 8 w + push_bit 8 (drop_bit 8 w)"
    using bits_ident [of 8 w] by (simp add: add.commute)
  moreover have "take_bit 8 w = ucast (ucast w :: u8)"
    by (rule bit_word_eqI) (auto simp: bit_simps)
  moreover have "push_bit 8 (drop_bit 8 w) = 256 * drop_bit 8 w"
    by (simp add: push_bit_eq_mult mult.commute)
  ultimately show ?thesis by metis
qed

lemma drop_bit_zero_of_len: "LENGTH('a::len) \<le> n \<Longrightarrow> drop_bit n (w :: 'a word) = 0"
  by (rule bit_word_eqI) (auto simp: bit_simps dest: bit_imp_le_length)

lemma le_get_put_aux:
  "drop_bit (8 * n) w = 0 \<Longrightarrow> le_get n (le_put n w m ofs) ofs = (w :: 'a::len word)"
proof (induction n w m ofs rule: le_put.induct)
  case (1 w m ofs)
  then show ?case by simp
next
  case (2 n w m ofs)
  have "drop_bit (8 * n) (drop_bit 8 w) = 0"
    using "2.prems" by (simp add: add.commute)
  then have IH: "le_get n (le_put n (drop_bit 8 w) m (Suc ofs)) (Suc ofs) = drop_bit 8 w"
    by (rule "2.IH")
  have "le_get n ((le_put n (drop_bit 8 w) m (Suc ofs))(ofs := ucast w)) (Suc ofs)
      = (le_get n (le_put n (drop_bit 8 w) m (Suc ofs)) (Suc ofs) :: 'a word)"
    by (rule le_get_cong) auto
  with IH show ?case
    by (simp only: le_put.simps le_get.simps fun_upd_same word_byte_split [symmetric])
qed

lemma le_get_put_same:
  "LENGTH('a) \<le> 8 * n \<Longrightarrow> le_get n (le_put n w m ofs) ofs = (w :: 'a::len word)"
  by (rule le_get_put_aux) (rule drop_bit_zero_of_len)

lemma le_put_at:
  "le_put n w m ofs a =
     (if ofs \<le> a \<and> a < ofs + n then ucast (drop_bit (8 * (a - ofs)) w) else m a)"
proof (induction n w m ofs rule: le_put.induct)
  case (1 w m ofs)
  then show ?case by auto
next
  case (2 n w m ofs)
  show ?case
  proof (cases "Suc ofs \<le> a")
    case True
    then obtain d where "a = Suc ofs + d" using le_iff_add by blast
    then have "drop_bit (8 * (a - Suc ofs)) (drop_bit 8 w) = drop_bit (8 * (a - ofs)) w"
      by (simp add: add.commute)
    with 2 True show ?thesis by auto
  next
    case False
    with 2 show ?thesis by auto
  qed
qed

lemma le_put_overwrite: "le_put n w (le_put n w' m ofs) ofs = le_put n w m ofs"
  by (rule ext) (simp add: le_put_at)

lemma ucast_le_get:
  "n * 8 \<le> LENGTH('a) \<Longrightarrow> i < n \<Longrightarrow>
    ucast (drop_bit (8 * i) (le_get n m ofs :: 'a::len word)) = m (ofs + i)"
proof (induction n m ofs arbitrary: i rule: le_get.induct)
  case (1 m ofs)
  then show ?case by simp
next
  case (2 n m ofs)
  let ?r = "le_get n m (Suc ofs) :: 'a word"
  have or: "(ucast (m ofs) + 256 * ?r) = (ucast (m ofs) OR push_bit 8 ?r :: 'a word)"
  proof -
    have "256 * ?r = push_bit 8 ?r"
      by (simp add: push_bit_eq_mult mult.commute)
    moreover have "ucast (m ofs) + push_bit 8 ?r = (ucast (m ofs) OR push_bit 8 ?r :: 'a word)"
      by (rule disjunctive_add) (auto simp: bit_simps dest: bit_imp_le_length)
    ultimately show ?thesis by simp
  qed
  show ?case
  proof (cases i)
    case 0
    then show ?thesis
      using "2.prems" by (simp add: or) (rule bit_word_eqI, auto simp: bit_simps)
  next
    case (Suc j)
    have "drop_bit (8 * i) (ucast (m ofs) OR push_bit 8 ?r) = drop_bit (8 * j) (take_bit (LENGTH('a) - 8) ?r)"
      using Suc by (intro bit_word_eqI) (auto simp: bit_simps dest: bit_imp_le_length)
    moreover have "ucast (drop_bit (8 * j) (take_bit (LENGTH('a) - 8) ?r)) = (ucast (drop_bit (8 * j) ?r) :: u8)"
      using "2.prems" Suc by (intro bit_word_eqI) (auto simp: bit_simps)
    ultimately show ?thesis
      using "2.IH" [of j] "2.prems" Suc by (simp add: or)
  qed
qed

lemma le_put_get_same:
  "n * 8 \<le> LENGTH('a) \<Longrightarrow> le_put n (le_get n m ofs :: 'a::len word) m ofs = m"
  by (rule ext) (auto simp: le_put_at ucast_le_get)

subsection \<open>Words\<close>

lemma mask_and_power2: "unat ((x :: 'a::len word) AND mask n) = unat x mod 2 ^ n"
  by (metis take_bit_eq_mask take_bit_eq_mod unsigned_take_bit_eq)

lemma unat_u32_less: "unat (n :: u32) < 4294967296"
  using unsigned_less [of n, where ?'a = nat] by simp

lemma unat_u64_less: "unat (n :: u64) < 18446744073709551616"
  using unsigned_less [of n, where ?'a = nat] by simp

lemma unat_ucast_u32_u64 [simp]: "unat (ucast (n :: u32) :: u64) = unat n"
  by (simp add: unsigned_ucast_eq take_bit_nat_eq_self_iff less_trans [OF unat_u32_less])

lemma unat_of_nat_u64: "n < 18446744073709551616 \<Longrightarrow> unat (of_nat n :: u64) = n"
  by (simp add: unat_of_nat take_bit_nat_eq_self)

lemma unat_of_nat_u32: "n < 4294967296 \<Longrightarrow> unat (of_nat n :: u32) = n"
  by (simp add: unat_of_nat take_bit_nat_eq_self)

lemma unat_le_of_nat: "unat (of_nat n :: 'a::len word) \<le> n"
  by (simp add: unat_of_nat take_bit_nat_eq_self_iff)

lemma mod_2p32_mod_64: "(x mod 4294967296) mod 64 = (x :: nat) mod 64"
  by (simp add: mod_mod_cancel)

lemma unat_word_of_int32:
  "0 \<le> k \<Longrightarrow> unat (word_of_int k :: u32) = nat k mod 4294967296"
  by (simp add: unsigned_of_int take_bit_eq_mod nat_mod_distrib)

lemma mod_64_complement:
  "(a + b) mod 64 = 0 \<Longrightarrow> a < 64 \<Longrightarrow> b < 64 \<Longrightarrow> b \<noteq> 0 \<Longrightarrow> a = 64 - (b :: nat)"
  by (cases "a + b < 64") (auto simp: le_mod_geq)

end
