(* ===== verification/Bitmap.thy ===== *)
theory Bitmap
  imports Ndctl_Prelude
begin

text \<open>
  The bitmap library of \<open>util/bitmap.c\<close> and the mask macros of \<open>util/bitmap.h\<close>.  A bitmap is the
  list of its \<open>unsigned long\<close> words; \<open>bitmap_bit m i\<close> is its \<open>i\<close>-th bit, the abstraction every
  operation is specified against.  The locale \<open>bit_set\<close> is the contract a client of the bitmap
  relies on (allocate, set one bit, test one bit); \<open>bit_marker\<close> extends it with the
  mark-each-block-once loop that the BTT checker runs over it.
\<close>

subsection \<open>Model\<close>

type_synonym bitmap = "u64 list"

definition BITS_TO_LONGS :: "u64 \<Rightarrow> u64" where
  "BITS_TO_LONGS nr = (nr + 64 - 1) div 64"

definition BITMAP_FIRST_WORD_MASK :: "nat \<Rightarrow> u64" where
  "BITMAP_FIRST_WORD_MASK start = push_bit (start mod 64) (- 1)"

definition BITMAP_LAST_WORD_MASK :: "u32 \<Rightarrow> u64" where
  "BITMAP_LAST_WORD_MASK nbits = drop_bit (unat ((- nbits) AND 63)) (- 1)"

definition bitmap_alloc :: "u64 \<Rightarrow> bitmap" where
  "bitmap_alloc nbits = replicate (unat (BITS_TO_LONGS nbits)) 0"

text \<open>The \<open>while\<close> loops of \<open>bitmap_set\<close> and \<open>bitmap_clear\<close>: the word index stands for the pointer
  \<open>p\<close>.  \<open>bits_to_set\<close> is at least 1 in every call the functions below make; the guard
  \<open>0 < bits\<close> records it for the termination proof.\<close>

function bitmap_set_loop ::
  "bitmap \<Rightarrow> nat \<Rightarrow> int \<Rightarrow> int \<Rightarrow> u64 \<Rightarrow> bitmap \<times> nat \<times> int \<times> u64" where
  "bitmap_set_loop m p len bits_to_set mask_to_set =
     (if 0 < bits_to_set \<and> len - bits_to_set \<ge> 0
      then bitmap_set_loop (m[p := m ! p OR mask_to_set]) (Suc p) (len - bits_to_set) 64 (- 1)
      else (m, p, len, mask_to_set))"
  by pat_completeness auto
termination
  by (relation "measure (\<lambda>(m, p, len, b, w). nat len)") auto

definition bitmap_set :: "bitmap \<Rightarrow> u32 \<Rightarrow> int \<Rightarrow> bitmap" where
  "bitmap_set m start len =
     (let sz = start + word_of_int len;
          bits_to_set = 64 - int (unat start mod 64);
          (m', p, len', mask_to_set) =
            bitmap_set_loop m (unat start div 64) len bits_to_set
              (BITMAP_FIRST_WORD_MASK (unat start))
      in if len' \<noteq> 0
         then m'[p := m' ! p OR (mask_to_set AND BITMAP_LAST_WORD_MASK sz)] else m')"

function bitmap_clear_loop ::
  "bitmap \<Rightarrow> nat \<Rightarrow> int \<Rightarrow> int \<Rightarrow> u64 \<Rightarrow> bitmap \<times> nat \<times> int \<times> u64" where
  "bitmap_clear_loop m p len bits_to_clear mask_to_clear =
     (if 0 < bits_to_clear \<and> len - bits_to_clear \<ge> 0
      then bitmap_clear_loop (m[p := m ! p AND NOT mask_to_clear]) (Suc p) (len - bits_to_clear) 64 (- 1)
      else (m, p, len, mask_to_clear))"
  by pat_completeness auto
termination
  by (relation "measure (\<lambda>(m, p, len, b, w). nat len)") auto

definition bitmap_clear :: "bitmap \<Rightarrow> u32 \<Rightarrow> int \<Rightarrow> bitmap" where
  "bitmap_clear m start len =
     (let sz = start + word_of_int len;
          bits_to_clear = 64 - int (unat start mod 64);
          (m', p, len', mask_to_clear) =
            bitmap_clear_loop m (unat start div 64) len bits_to_clear
              (BITMAP_FIRST_WORD_MASK (unat start))
      in if len' \<noteq> 0
         then m'[p := m' ! p AND NOT (mask_to_clear AND BITMAP_LAST_WORD_MASK sz)] else m')"

definition test_bit :: "u32 \<Rightarrow> bitmap \<Rightarrow> int" where
  "test_bit nr addr = uint (1 AND drop_bit (unat (nr AND 63)) (addr ! (unat nr div 64)))"

text \<open>\<open>__builtin_ffsl\<close>: one plus the index of the least significant set bit, 0 for 0.\<close>

definition ffsl :: "u64 \<Rightarrow> nat" where
  "ffsl w = (case find (bit w) [0..<64] of None \<Rightarrow> 0 | Some i \<Rightarrow> Suc i)"

text \<open>Positions are natural numbers here: a bitmap with more than \<open>2 ^ 63\<close> bits does not fit in
  the address space, so \<open>start + BITS_PER_LONG\<close> does not wrap.\<close>

function find_next_bit_loop :: "bitmap \<Rightarrow> nat \<Rightarrow> nat \<Rightarrow> u64 \<Rightarrow> u64 \<Rightarrow> nat" where
  "find_next_bit_loop addr nbits start invert tmp =
     (if tmp = 0
      then let start' = start + 64
           in if start' \<ge> nbits then nbits
              else find_next_bit_loop addr nbits start' invert (addr ! (start' div 64) XOR invert)
      else min (start + ffsl tmp) nbits)"
  by pat_completeness auto
termination
  by (relation "measure (\<lambda>(addr, nbits, start, invert, tmp). nbits - start)") auto

definition find_next_bit_aux :: "bitmap \<Rightarrow> nat \<Rightarrow> nat \<Rightarrow> u64 \<Rightarrow> nat" where
  "find_next_bit_aux addr nbits start invert =
     (if nbits = 0 \<or> start \<ge> nbits then nbits
      else let tmp = (addr ! (start div 64) XOR invert) AND BITMAP_FIRST_WORD_MASK start
           in find_next_bit_loop addr nbits (start - start mod 64) invert tmp)"

definition find_next_bit :: "bitmap \<Rightarrow> nat \<Rightarrow> nat \<Rightarrow> nat" where
  "find_next_bit addr sz offset = find_next_bit_aux addr sz offset 0"

definition find_next_zero_bit :: "bitmap \<Rightarrow> nat \<Rightarrow> nat \<Rightarrow> nat" where
  "find_next_zero_bit addr sz offset = find_next_bit_aux addr sz offset (- 1)"

text \<open>\<open>small_const_nbits\<close> is false in \<open>bitmap_full\<close>: its \<open>nbits\<close> is never a compile-time constant.\<close>

definition bitmap_full :: "bitmap \<Rightarrow> u32 \<Rightarrow> bool" where
  "bitmap_full src nbits = (find_next_zero_bit src (unat nbits) 0 = unat nbits)"

subsection \<open>Abstraction: the bits of a bitmap\<close>

definition bitmap_bit :: "bitmap \<Rightarrow> nat \<Rightarrow> bool" where
  "bitmap_bit m i = bit (m ! (i div 64)) (i mod 64)"

definition bitmap_fits :: "bitmap \<Rightarrow> nat \<Rightarrow> bool" where
  "bitmap_fits m n = (n \<le> 64 * length m)"

declare bitmap_set_loop.simps [simp del] bitmap_clear_loop.simps [simp del]
  find_next_bit_loop.simps [simp del]

lemma nat_div64_less: "i < 64 * n \<Longrightarrow> i div 64 < (n :: nat)"
  by (simp add: less_mult_imp_div_less mult.commute)

lemma bitmap_pos_cases:
  obtains q j where "i = 64 * q + j" and "j < (64 :: nat)"
  using that [of "i div 64" "i mod 64"] by simp

lemma bit_first_word_mask [bitmap_bits]:
  "bit (BITMAP_FIRST_WORD_MASK s) j = (s mod 64 \<le> j \<and> j < 64)"
  by (auto simp: BITMAP_FIRST_WORD_MASK_def bit_simps)

lemma unat_and_63: "unat ((w :: 'a::len word) AND 63) = unat w mod 64"
  using mask_and_power2 [of w 6] by (simp add: mask_eq_exp_minus_1)

lemma bit_last_word_mask [bitmap_bits]:
  assumes "unat n mod 64 \<noteq> 0"
  shows "bit (BITMAP_LAST_WORD_MASK n) j = (j < unat n mod 64)"
proof -
  have "unat (- n) mod 64 = 64 - unat n mod 64"
  proof -
    have "(unat (- n) + unat n) mod 4294967296 = 0"
      using unat_word_ariths(1) [of "- n" n] by simp
    then have "(unat (- n) mod 64 + unat n mod 64) mod 64 = 0"
      by (metis mod_2p32_mod_64 mod_0 mod_add_eq)
    moreover have "unat (- n) mod 64 < 64" "unat n mod 64 < 64"
      by simp_all
    ultimately show ?thesis using assms by (rule mod_64_complement)
  qed
  then show ?thesis
    by (auto simp: BITMAP_LAST_WORD_MASK_def bit_simps unat_and_63)
qed

lemma bitmap_bit_update:
  assumes "p < length m"
  shows "bitmap_bit (m[p := w]) i = (if i div 64 = p then bit w (i mod 64) else bitmap_bit m i)"
  using assms by (auto simp: bitmap_bit_def nth_list_update)

lemma bitmap_bit_pos [simp]: "j < 64 \<Longrightarrow> bitmap_bit m (64 * q + j) = bit (m ! q) j"
  by (simp add: bitmap_bit_def)

lemma word_range_split:
  assumes "0 < n"
  shows "(64 * p \<le> i \<and> i < 64 * (p + n)) \<longleftrightarrow>
    i div 64 = p \<or> (64 * Suc p \<le> i \<and> i < 64 * (p + n :: nat))"
proof -
  obtain q j where "i = 64 * q + j" and "j < 64" by (rule bitmap_pos_cases)
  with assms show ?thesis by auto
qed

subsection \<open>Setting and clearing runs of bits\<close>

text \<open>The whole-word part of the loop: from the second word on, \<open>bits\<close> is 64 and the mask is full.\<close>

lemma bitmap_set_loop_words:
  assumes "0 \<le> len" and "64 * p + nat len \<le> 64 * length m"
  shows "\<exists>m'. bitmap_set_loop m p len 64 (- 1) = (m', p + nat len div 64, len mod 64, - 1) \<and>
           length m' = length m \<and>
           (\<forall>i < 64 * length m. bitmap_bit m' i =
              (bitmap_bit m i \<or> (64 * p \<le> i \<and> i < 64 * (p + nat len div 64))))"
  using assms
proof (induction "nat len" arbitrary: m p len rule: less_induct)
  case less
  show ?case
  proof (cases "len < 64")
    case True
    with less.prems show ?thesis
      by (auto simp: bitmap_set_loop.simps [of m p len])
  next
    case False
    let ?m = "m[p := m ! p OR - 1]"
    have p: "p < length m" using less.prems False by linarith
    have ex: "\<exists>m'. bitmap_set_loop ?m (Suc p) (len - 64) 64 (- 1)
          = (m', Suc p + nat (len - 64) div 64, (len - 64) mod 64, - 1) \<and>
           length m' = length ?m \<and>
           (\<forall>i < 64 * length ?m. bitmap_bit m' i =
              (bitmap_bit ?m i \<or> (64 * Suc p \<le> i \<and> i < 64 * (Suc p + nat (len - 64) div 64))))"
      by (rule less.hyps) (use less.prems False in \<open>auto simp: nat_diff_distrib\<close>)
    have q: "Suc p + nat (len - 64) div 64 = p + nat len div 64"
      using False by (simp add: nat_diff_distrib)
    have r: "(len - 64) mod 64 = len mod 64" by simp
    from ex [unfolded q r length_list_update] obtain m' where m': "bitmap_set_loop ?m (Suc p) (len - 64) 64 (- 1)
          = (m', p + nat len div 64, len mod 64, - 1)" "length m' = length m"
        "\<forall>i < 64 * length m. bitmap_bit m' i =
              (bitmap_bit ?m i \<or> (64 * Suc p \<le> i \<and> i < 64 * (p + nat len div 64)))"
      by blast
    have w: "(64 * p \<le> i \<and> i < 64 * (p + nat len div 64)) \<longleftrightarrow>
        i div 64 = p \<or> (64 * Suc p \<le> i \<and> i < 64 * (p + nat len div 64))" for i
      using False by (intro word_range_split) (simp add: div_greater_zero_iff)
    show ?thesis
      using m' False p unfolding w
      by (subst bitmap_set_loop.simps) (auto simp: bitmap_bit_update)
  qed
qed

lemma unat_add_mod_64:
  assumes "0 \<le> len"
  shows "unat (start + word_of_int len :: u32) mod 64 = (unat start + nat len) mod 64"
proof -
  have "unat (start + word_of_int len :: u32) = (unat start + nat len mod 4294967296) mod 4294967296"
    using assms by (simp add: unat_word_ariths(1) unat_word_of_int32)
  then show ?thesis
    by (simp only: mod_2p32_mod_64 mod_add_right_eq)
qed

lemma bitmap_set_bits_short:
  assumes "0 < L" and "r + L < 64" and "p < length m" and n: "unat n mod 64 = r + L"
    and "i < 64 * length m"
  shows "bitmap_bit (m[p := m ! p OR (BITMAP_FIRST_WORD_MASK (64 * p + r) AND BITMAP_LAST_WORD_MASK n)]) i
    = (bitmap_bit m i \<or> (64 * p + r \<le> i \<and> i < 64 * p + r + L))"
proof -
  have mask: "bit (BITMAP_FIRST_WORD_MASK (64 * p + r)) j = (r \<le> j \<and> j < 64)"
    "bit (BITMAP_LAST_WORD_MASK n) j = (j < r + L)" for j
    using assms n by (simp_all add: bit_first_word_mask bit_last_word_mask)
  obtain q j where i: "i = 64 * q + j" and j: "j < 64" by (rule bitmap_pos_cases)
  then have "q < length m" using assms by linarith
  show ?thesis
  proof (cases "q = p")
    case True
    then show ?thesis using i j assms by (auto simp: bit_or_iff bit_and_iff mask)
  next
    case False
    then have "\<not> (64 * p + r \<le> i \<and> i < 64 * p + r + L)"
      using i j assms by linarith
    then show ?thesis using False i j assms by auto
  qed
qed

lemma bitmap_set_bits_tail:
  assumes "0 < k" and "k < 64" and "unat n mod 64 = k" and "q < length m" and "i < 64 * length m"
  shows "bitmap_bit (m[q := m ! q OR (- 1 AND BITMAP_LAST_WORD_MASK n)]) i
    = (bitmap_bit m i \<or> (64 * q \<le> i \<and> i < 64 * q + k))"
proof -
  have "BITMAP_FIRST_WORD_MASK (64 * q + 0) = - 1"
    by (simp add: BITMAP_FIRST_WORD_MASK_def)
  with assms bitmap_set_bits_short [of k 0 q m n i] show ?thesis by simp
qed

lemma word_run_union:
  assumes "r < 64" and "p < q"
  shows "((i div 64 = p \<and> r \<le> i mod 64) \<or> (64 * Suc p \<le> i \<and> i < 64 * q) \<or>
      (64 * q \<le> i \<and> i < 64 * q + k)) \<longleftrightarrow> 64 * p + r \<le> i \<and> i < 64 * q + (k :: nat)"
proof -
  obtain a j where i: "i = 64 * a + j" and j: "j < 64" by (rule bitmap_pos_cases)
  then have "i div 64 = a" "i mod 64 = j" by simp_all
  with assms i j show ?thesis by (cases "a = p") auto
qed

definition bits_or_run :: "bitmap \<Rightarrow> bitmap \<Rightarrow> nat \<Rightarrow> nat \<Rightarrow> bool" where
  "bits_or_run m m' s n = (length m' = length m \<and>
     (\<forall>i < 64 * length m. bitmap_bit m' i = (bitmap_bit m i \<or> (s \<le> i \<and> i < n))))"

lemma bitmap_set_one_word:
  assumes s: "unat start = 64 * p + r" and r: "r < 64" and len: "0 \<le> len" "len < 64 - int r"
    and fits: "unat start + nat len \<le> 64 * length m"
    and n: "unat (start + word_of_int len) mod 64 = (r + nat len) mod 64"
  shows "bits_or_run m (bitmap_set m start len) (unat start) (unat start + nat len)"
proof -
  have loop: "bitmap_set_loop m p len (64 - int r) w = (m, p, len, w)" for w
    using r len by (subst bitmap_set_loop.simps) simp
  have set: "bitmap_set m start len = (if len \<noteq> 0 then m[p := m ! p OR
      (BITMAP_FIRST_WORD_MASK (64 * p + r) AND BITMAP_LAST_WORD_MASK (start + word_of_int len))] else m)"
    using r by (simp add: bitmap_set_def Let_def s loop)
  show ?thesis
  proof (cases "len = 0")
    case True
    then show ?thesis unfolding set by (auto simp: bits_or_run_def)
  next
    case False
    have "p < length m" and "r + nat len < 64" and "0 < nat len"
      using False s fits r len by linarith+
    with False n s show ?thesis
      by (simp add: set bits_or_run_def bitmap_set_bits_short)
  qed
qed

lemma bitmap_set_many_words:
  assumes s: "unat start = 64 * p + r" and r: "r < 64" and l: "len = 64 - int r + l" "0 \<le> l"
    and fits: "unat start + nat len \<le> 64 * length m"
    and n: "unat (start + word_of_int len) mod 64 = (r + nat len) mod 64"
  shows "bits_or_run m (bitmap_set m start len) (unat start) (unat start + nat len)"
proof -
  let ?m = "m[p := m ! p OR BITMAP_FIRST_WORD_MASK (unat start)]" and ?q = "Suc p + nat l div 64"
  have len: "nat len = 64 - r + nat l" using l r by auto
  have fin: "unat start + nat len = 64 * ?q + nat l mod 64"
    using s len r by simp
  have p: "p < length m" using fits s len r by linarith
  have loop: "bitmap_set_loop m p len (64 - int r) (BITMAP_FIRST_WORD_MASK (unat start))
      = bitmap_set_loop ?m (Suc p) l 64 (- 1)"
    using l r by (subst bitmap_set_loop.simps) simp
  have "64 * Suc p + nat l \<le> 64 * length ?m" using fits s len r by simp
  from bitmap_set_loop_words [OF l(2) this] obtain m' where
      m': "bitmap_set_loop ?m (Suc p) l 64 (- 1) = (m', ?q, l mod 64, - 1)" "length m' = length m"
      "\<And>i. i < 64 * length m \<Longrightarrow> bitmap_bit m' i =
            (bitmap_bit ?m i \<or> (64 * Suc p \<le> i \<and> i < 64 * ?q))"
    by auto
  have first: "bitmap_bit ?m i = (bitmap_bit m i \<or> (i div 64 = p \<and> r \<le> i mod 64))" for i
    using s r by (cases "i div 64 = p")
      (auto simp: bitmap_bit_update [OF p] bit_or_iff bit_first_word_mask bitmap_bit_def [of m])
  have k: "nat (l mod 64) = nat l mod 64" using l by (simp add: nat_mod_distrib)
  let ?n = "start + word_of_int len"
  have set: "bitmap_set m start len = (if l mod 64 \<noteq> 0
      then m'[?q := m' ! ?q OR (- 1 AND BITMAP_LAST_WORD_MASK ?n)] else m')"
    using r by (simp add: bitmap_set_def Let_def s loop [unfolded s] m'(1) [unfolded s])
  have bits: "bitmap_bit (bitmap_set m start len) i = (bitmap_bit m' i \<or>
      (64 * ?q \<le> i \<and> i < 64 * ?q + nat l mod 64))" if i: "i < 64 * length m" for i
  proof (cases "l mod 64 = 0")
    case True
    then show ?thesis using k by (auto simp: set)
  next
    case False
    have mod: "unat ?n mod 64 = nat l mod 64" using n len r by simp
    have pos: "0 < nat l mod 64" using False k l by (cases "nat l mod 64") auto
    then have "64 * ?q < unat start + nat len" unfolding fin by (simp only: less_add_same_cancel1)
    also have "\<dots> \<le> 64 * length m'" using fits m'(2) by simp
    finally have "?q < length m'" by (rule mult_less_cancel1 [THEN iffD1, THEN conjunct2])
    with mod pos show ?thesis
      using bitmap_set_bits_tail [of "nat l mod 64" ?n ?q m' i] i m'(2) False by (simp add: set)
  qed
  have "length (bitmap_set m start len) = length m" by (simp add: set m'(2))
  moreover have "bitmap_bit (bitmap_set m start len) i =
      (bitmap_bit m i \<or> (unat start \<le> i \<and> i < unat start + nat len))" if "i < 64 * length m" for i
    unfolding fin unfolding s
    using word_run_union [OF r, of p ?q i "nat l mod 64"] bits [OF that] m'(3) [OF that] first [of i]
    by (simp only: less_Suc_eq_le le_add1 add_Suc disj_assoc)
  ultimately show ?thesis by (simp add: bits_or_run_def)
qed

lemma bitmap_set_run:
  assumes "0 \<le> len" and "unat start + nat len \<le> 64 * length m"
  shows "bits_or_run m (bitmap_set m start len) (unat start) (unat start + nat len)"
proof -
  obtain p r where s: "unat start = 64 * p + r" and r: "r < 64" by (rule bitmap_pos_cases)
  have n: "unat (start + word_of_int len) mod 64 = (r + nat len) mod 64"
    using unat_add_mod_64 [OF assms(1), of start] s by (simp add: add.assoc)
  show ?thesis
  proof (cases "len < 64 - int r")
    case True
    with bitmap_set_one_word [OF s r assms(1)] assms(2) n show ?thesis by simp
  next
    case False
    with bitmap_set_many_words [OF s r, of len "len - (64 - int r)"] assms n show ?thesis by simp
  qed
qed

text \<open>Clearing is setting in the complement, loop step by loop step.\<close>

lemma update_complement:
  "(map NOT m)[p := map NOT m ! p OR w] = map NOT (m[p := m ! p AND NOT (w :: u64)])"
  by (cases "p < length m") (simp_all add: map_update list_update_beyond)

lemma bitmap_clear_loop_complement:
  "bitmap_clear_loop m p len b w = (case bitmap_set_loop (map NOT m) p len b w of
     (m', p', len', w') \<Rightarrow> (map NOT m', p', len', w'))"
proof (induction m p len b w rule: bitmap_clear_loop.induct)
  case (1 m p len b w)
  show ?case
  proof (cases "0 < b \<and> len - b \<ge> 0")
    case True
    then show ?thesis
      using "1.IH" [OF True] bitmap_clear_loop.simps [of m p len b w]
        bitmap_set_loop.simps [of "map NOT m" p len b w]
      by (simp add: update_complement)
  next
    case False
    have "bitmap_clear_loop m p len b w = (m, p, len, w)"
      by (subst bitmap_clear_loop.simps) (use False in auto)
    moreover have "bitmap_set_loop (map NOT m) p len b w = (map NOT m, p, len, w)"
      by (subst bitmap_set_loop.simps) (use False in auto)
    ultimately show ?thesis by (simp add: o_def)
  qed
qed

lemma bitmap_clear_complement: "bitmap_clear m start len = map NOT (bitmap_set (map NOT m) start len)"
proof -
  have *: "map NOT (m[p := m ! p OR w]) = (map NOT m)[p := map NOT m ! p AND NOT (w :: u64)]" for m p w
    using update_complement [of "map NOT m" p w] by (simp add: o_def)
  show ?thesis
    by (simp add: bitmap_clear_def bitmap_set_def Let_def bitmap_clear_loop_complement *
        split: prod.splits)
qed

lemma bitmap_bit_complement: "i < 64 * length m \<Longrightarrow> bitmap_bit (map NOT m) i = (\<not> bitmap_bit m i)"
  by (simp add: bitmap_bit_def bit_not_iff nat_div64_less)

lemma bitmap_clear_run:
  assumes "0 \<le> len" and "unat start + nat len \<le> 64 * length m"
  shows "length (bitmap_clear m start len) = length m \<and>
    (\<forall>i < 64 * length m. bitmap_bit (bitmap_clear m start len) i =
      (bitmap_bit m i \<and> \<not> (unat start \<le> i \<and> i < unat start + nat len)))"
  using bitmap_set_run [OF assms(1), of start "map NOT m"] assms(2)
  by (auto simp: bits_or_run_def bitmap_clear_complement bitmap_bit_complement)

lemma test_bit_bitmap_bit: "test_bit nr m = of_bool (bitmap_bit m (unat nr))"
proof -
  have "(1 :: u64) AND w = of_bool (bit w 0)" for w
    by (rule bit_word_eqI) (auto simp: bit_simps)
  then show ?thesis
    by (simp add: test_bit_def bitmap_bit_def unat_and_63 bit_drop_bit_eq)
qed

lemma bitmap_alloc_bits:
  assumes "i < 64 * length (bitmap_alloc n)"
  shows "\<not> bitmap_bit (bitmap_alloc n) i"
  using assms by (auto simp: bitmap_alloc_def bitmap_bit_def dest: nat_div64_less)

lemma bitmap_alloc_fits: "unat n \<le> 2 ^ 63 \<Longrightarrow> unat n \<le> 64 * length (bitmap_alloc n)"
proof -
  assume n: "unat n \<le> 2 ^ 63"
  then have "unat (63 + n) = unat n + 63"
    by (simp add: unat_word_ariths(1))
  then have "unat (BITS_TO_LONGS n) = (unat n + 63) div 64"
    by (simp add: BITS_TO_LONGS_def unat_div_distrib)
  then show ?thesis
    by (simp add: bitmap_alloc_def)
qed

subsection \<open>Searching\<close>

text \<open>\<open>first_bit p n s\<close> is the reference: the first position from \<open>s\<close> on where \<open>p\<close> holds, below \<open>n\<close>.\<close>

definition first_bit :: "(nat \<Rightarrow> bool) \<Rightarrow> nat \<Rightarrow> nat \<Rightarrow> nat option" where
  "first_bit P n s = find P [s..<n]"

lemma first_bit_None: "first_bit P n s = None \<longleftrightarrow> (\<forall>i. s \<le> i \<longrightarrow> i < n \<longrightarrow> \<not> P i)"
  by (auto simp: first_bit_def find_None_iff)

lemma first_bit_Some:
  "first_bit P n s = Some i \<longleftrightarrow> s \<le> i \<and> i < n \<and> P i \<and> (\<forall>j. s \<le> j \<longrightarrow> j < i \<longrightarrow> \<not> P j)"
proof -
  have "first_bit P n s = Some i \<longleftrightarrow> (\<exists>k < n - s. P (s + k) \<and> i = s + k \<and> (\<forall>j < k. \<not> P (s + j)))"
    by (auto simp: first_bit_def find_Some_iff)
  also have "\<dots> \<longleftrightarrow> s \<le> i \<and> i < n \<and> P i \<and> (\<forall>j. s \<le> j \<longrightarrow> j < i \<longrightarrow> \<not> P j)"
    by (auto simp: le_iff_add intro!: exI [of _ "i - s"])
  finally show ?thesis .
qed

lemma ffsl_cases:
  obtains "w = 0" and "ffsl w = 0"
  | i where "i < 64" and "bit w i" and "\<forall>j < i. \<not> bit w j" and "ffsl w = Suc i"
proof (cases "find (bit w) [0..<64]")
  case None
  then have "w = 0"
    by (intro bit_word_eqI) (auto simp: find_None_iff)
  with None that show thesis by (simp add: ffsl_def)
next
  case (Some i)
  then have "first_bit (bit w) 64 0 = Some i" by (simp add: first_bit_def)
  with Some that(2) [of i] show thesis by (simp add: ffsl_def first_bit_Some)
qed

lemma first_bit_skip:
  assumes "s \<le> s'" and "\<And>i. s \<le> i \<Longrightarrow> i < s' \<Longrightarrow> \<not> P i"
  shows "first_bit P n s = first_bit P n s'"
proof (cases "first_bit P n s'")
  case None
  with assms have "first_bit P n s = None" by (simp add: first_bit_None) (meson not_le)
  with None show ?thesis by simp
next
  case (Some i)
  with assms have "first_bit P n s = Some i" by (simp add: first_bit_Some) (meson le_trans not_le)
  with Some show ?thesis by simp
qed

definition xor_bit :: "bitmap \<Rightarrow> u64 \<Rightarrow> nat \<Rightarrow> bool" where
  "xor_bit m iv i = bit (m ! (i div 64) XOR iv) (i mod 64)"

lemma xor_bit_pos: "j < 64 \<Longrightarrow> xor_bit m iv (64 * q + j) = bit (m ! q XOR iv) j"
  by (simp add: xor_bit_def)

lemma find_next_bit_loop_correct:
  assumes "64 * q < n" and "r \<le> 64"
    and "\<And>j. j < 64 \<Longrightarrow> bit tmp j = (r \<le> j \<and> xor_bit m iv (64 * q + j))"
  shows "find_next_bit_loop m n (64 * q) iv tmp =
    (case first_bit (xor_bit m iv) n (64 * q + r) of None \<Rightarrow> n | Some i \<Rightarrow> Suc i)"
  using assms
proof (induction "n - q" arbitrary: q r tmp rule: less_induct)
  case less
  show ?case
  proof (cases rule: ffsl_cases [of tmp])
    case 1
    have none: "\<not> xor_bit m iv i" if "64 * q + r \<le> i" "i < 64 * q + 64" for i
      using less.prems(3) [of "i - 64 * q"] that 1(1) by auto
    show ?thesis
    proof (cases "64 * q + 64 \<ge> n")
      case True
      with none have "first_bit (xor_bit m iv) n (64 * q + r) = None"
        by (simp add: first_bit_None)
      with True 1 show ?thesis by (subst find_next_bit_loop.simps) simp
    next
      case False
      have "find_next_bit_loop m n (64 * Suc q) iv (m ! Suc q XOR iv) =
          (case first_bit (xor_bit m iv) n (64 * Suc q + 0) of None \<Rightarrow> n | Some i \<Rightarrow> Suc i)"
        by (rule less.hyps) (use False in \<open>simp_all add: xor_bit_pos del: mult_Suc_right, simp_all\<close>)
      moreover have "first_bit (xor_bit m iv) n (64 * q + r) = first_bit (xor_bit m iv) n (64 * Suc q)"
        by (rule first_bit_skip) (use none less.prems in auto)
      ultimately show ?thesis
        using False 1 by (subst find_next_bit_loop.simps) (simp add: add.commute)
    qed
  next
    case (2 i)
    have bit: "r \<le> i" "xor_bit m iv (64 * q + i)"
      using less.prems(3) [of i] 2 by auto
    have none: "\<not> xor_bit m iv j" if "64 * q + r \<le> j" "j < 64 * q + i" for j
      using less.prems(3) [of "j - 64 * q"] that 2 by auto
    have "tmp \<noteq> 0" using 2 by auto
    then have res: "find_next_bit_loop m n (64 * q) iv tmp = min (64 * q + Suc i) n"
      using 2 by (subst find_next_bit_loop.simps) simp
    show ?thesis
    proof (cases "64 * q + i < n")
      case True
      with bit none have "first_bit (xor_bit m iv) n (64 * q + r) = Some (64 * q + i)"
        by (simp add: first_bit_Some)
      with True res show ?thesis by simp
    next
      case False
      with none have "first_bit (xor_bit m iv) n (64 * q + r) = None"
        by (simp add: first_bit_None)
      with False res show ?thesis by simp
    qed
  qed
qed

lemma find_next_bit_aux_correct:
  assumes "s < n"
  shows "find_next_bit_aux m n s iv =
    (case first_bit (xor_bit m iv) n s of None \<Rightarrow> n | Some i \<Rightarrow> Suc i)"
proof -
  obtain q r where s: "s = 64 * q + r" and r: "r < 64" by (rule bitmap_pos_cases)
  let ?tmp = "(m ! q XOR iv) AND BITMAP_FIRST_WORD_MASK s"
  have "find_next_bit_loop m n (64 * q) iv ?tmp =
      (case first_bit (xor_bit m iv) n (64 * q + r) of None \<Rightarrow> n | Some i \<Rightarrow> Suc i)"
    by (rule find_next_bit_loop_correct)
       (use assms s r in \<open>auto simp: bit_and_iff bit_first_word_mask xor_bit_def\<close>)
  with assms s r show ?thesis by (simp add: find_next_bit_aux_def Let_def)
qed

lemma xor_bit_zero: "xor_bit m 0 = bitmap_bit m"
  by (rule ext) (simp add: xor_bit_def bitmap_bit_def)

lemma xor_bit_ones: "xor_bit m (- 1) = (\<lambda>i. \<not> bitmap_bit m i)"
  by (rule ext) (simp add: xor_bit_def bitmap_bit_def bit_not_iff)

subsection \<open>The contract of a bit set, and the marking loop over one\<close>

text \<open>\<open>room s\<close> is the set of keys the allocation can hold; outside it the C code reads and writes
  memory it does not own, so every law is conditional on it.\<close>

locale bit_set =
  fixes set1 :: "'s \<Rightarrow> 'k \<Rightarrow> 's"
    and tst :: "'s \<Rightarrow> 'k \<Rightarrow> bool"
    and bits :: "'s \<Rightarrow> 'k set"
    and room :: "'s \<Rightarrow> 'k set"
  assumes tst_iff: "k \<in> room s \<Longrightarrow> tst s k = (k \<in> bits s)"
    and bits_set1: "k \<in> room s \<Longrightarrow> bits (set1 s k) = insert k (bits s)"
    and room_set1: "k \<in> room s \<Longrightarrow> room (set1 s k) = room s"

locale bit_marker = bit_set set1 tst bits room
  for set1 :: "'s \<Rightarrow> 'k \<Rightarrow> 's" and tst :: "'s \<Rightarrow> 'k \<Rightarrow> bool"
    and bits :: "'s \<Rightarrow> 'k set" and room :: "'s \<Rightarrow> 'k set" +
  fixes mark :: "'k list \<Rightarrow> 's \<Rightarrow> 's option"
  assumes mark_Nil: "mark [] s = Some s"
    and mark_Cons: "mark (k # ks) s = (if tst s k then None else mark ks (set1 s k))"
begin

lemma mark_fails_iff:
  "set ks \<subseteq> room s \<Longrightarrow> mark ks s = None \<longleftrightarrow> \<not> (distinct ks \<and> set ks \<inter> bits s = {})"
proof (induction ks arbitrary: s)
  case Nil
  then show ?case by (simp add: mark_Nil)
next
  case (Cons k ks)
  show ?case
  proof (cases "tst s k")
    case True
    with Cons.prems show ?thesis by (simp add: mark_Cons tst_iff)
  next
    case False
    from Cons.prems have "set ks \<subseteq> room (set1 s k)" by (simp add: room_set1)
    from Cons.IH [OF this] False Cons.prems show ?thesis
      by (auto simp: mark_Cons tst_iff bits_set1)
  qed
qed

lemma mark_Some:
  "set ks \<subseteq> room s \<Longrightarrow> mark ks s = Some s' \<Longrightarrow> bits s' = bits s \<union> set ks \<and> room s' = room s"
proof (induction ks arbitrary: s)
  case Nil
  then show ?case by (simp add: mark_Nil)
next
  case (Cons k ks)
  then have "set ks \<subseteq> room (set1 s k)" and "mark ks (set1 s k) = Some s'"
    by (auto simp: room_set1 mark_Cons split: if_splits)
  from Cons.IH [OF this] Cons.prems show ?case by (auto simp: bits_set1 room_set1)
qed

end

definition bitmap_keys :: "bitmap \<Rightarrow> u32 set" where
  "bitmap_keys m = {k. unat k < 64 * length m \<and> bitmap_bit m (unat k)}"

definition bitmap_room :: "bitmap \<Rightarrow> u32 set" where
  "bitmap_room m = {k. unat k < 64 * length m}"

lemma bitmap_set_single:
  assumes "unat k < 64 * length m"
  shows "length (bitmap_set m k 1) = length m"
    and "i < 64 * length m \<Longrightarrow> bitmap_bit (bitmap_set m k 1) i = (bitmap_bit m i \<or> i = unat k)"
  using bitmap_set_run [of 1 k m] assms by (auto simp: bits_or_run_def)

interpretation bm: bit_set "\<lambda>m k. bitmap_set m k 1" "\<lambda>m k. test_bit k m \<noteq> 0" bitmap_keys bitmap_room
  by unfold_locales
     (auto simp: bitmap_keys_def bitmap_room_def test_bit_bitmap_bit bitmap_set_single word_unat_eq_iff)

subsection \<open>Properties of the bitmap library\<close>

text \<open>On a bitmap that holds \<open>start + len\<close> bits, \<open>bitmap_set\<close> sets exactly the bits of the run
  \<open>[start, start + len)\<close>, \<open>bitmap_clear\<close> clears exactly those, neither changes the allocation,
  and \<open>test_bit\<close> reads any bit back.\<close>

theorem bitmap_set_clear_correct:
  assumes "0 \<le> len" and "unat start + nat len \<le> 64 * length m" and "unat nr < 64 * length m"
  shows "length (bitmap_set m start len) = length m \<and>
    length (bitmap_clear m start len) = length m \<and>
    test_bit nr (bitmap_set m start len) =
      (if unat start \<le> unat nr \<and> unat nr < unat start + nat len then 1 else test_bit nr m) \<and>
    test_bit nr (bitmap_clear m start len) =
      (if unat start \<le> unat nr \<and> unat nr < unat start + nat len then 0 else test_bit nr m)"
  using bitmap_set_run [OF assms(1,2)] bitmap_clear_run [OF assms(1,2)] assms(3)
  by (auto simp: bits_or_run_def test_bit_bitmap_bit)

theorem bitmap_set_clear_correct_witness:
  "test_bit 70 (bitmap_set [0, 0] 60 20) = 1 \<and> test_bit 70 (bitmap_clear [- 1, - 1] 60 20) = 0"
  using bitmap_set_clear_correct [of 20 60 "[0, 0]" 70] bitmap_set_clear_correct [of 20 60 "[- 1, - 1]" 70]
  by simp

text \<open>\<open>find_next_bit\<close> and \<open>find_next_zero_bit\<close> locate the first set (clear) bit at or after
  \<open>offset\<close>, but, because \<open>__builtin_ffsl\<close> counts from one, they return the position \<^emph>\<open>after\<close> it;
  \<open>size\<close> is returned when there is none, and also when the bit found is the last one.\<close>

theorem find_next_bit_correct:
  assumes "offset < sz"
  shows "find_next_bit m sz offset =
      (case first_bit (bitmap_bit m) sz offset of None \<Rightarrow> sz | Some i \<Rightarrow> Suc i) \<and>
    find_next_zero_bit m sz offset =
      (case first_bit (\<lambda>i. \<not> bitmap_bit m i) sz offset of None \<Rightarrow> sz | Some i \<Rightarrow> Suc i)"
  using find_next_bit_aux_correct [OF assms, of m 0] find_next_bit_aux_correct [OF assms, of m "- 1"]
  by (simp add: find_next_bit_def find_next_zero_bit_def xor_bit_zero xor_bit_ones)

theorem find_next_bit_correct_witness:
  "first_bit (bitmap_bit [4]) 8 0 = Some 2 \<and> find_next_bit [4] 8 0 = 3"
proof -
  have "first_bit (bitmap_bit [4]) 8 0 = Some 2" by code_simp
  then show ?thesis using find_next_bit_correct [of 0 8 "[4]"] by simp
qed

lemma bitmap_full_iff: "bitmap_full m n \<longleftrightarrow> (\<forall>i. Suc i < unat n \<longrightarrow> bitmap_bit m i)"
proof (cases "unat n = 0")
  case True
  then show ?thesis
    by (simp add: bitmap_full_def find_next_zero_bit_def find_next_bit_aux_def)
next
  case False
  then have "bitmap_full m n \<longleftrightarrow>
      (case first_bit (\<lambda>i. \<not> bitmap_bit m i) (unat n) 0 of None \<Rightarrow> True | Some i \<Rightarrow> Suc i = unat n)"
    using find_next_bit_aux_correct [of 0 "unat n" m "- 1"]
    by (auto simp: bitmap_full_def find_next_zero_bit_def xor_bit_ones split: option.splits)
  also have "\<dots> \<longleftrightarrow> (\<forall>i. Suc i < unat n \<longrightarrow> bitmap_bit m i)"
    by (auto simp: first_bit_None first_bit_Some split: option.splits) (metis Suc_lessI)
  finally show ?thesis .
qed

text \<open>\<open>bitmap_full\<close> answers whether all of the \<open>nbits\<close> bits but the last are set: a bitmap whose
  only clear bit is bit \<open>nbits - 1\<close> is reported full (the off-by-one of \<open>_find_next_bit\<close>).\<close>

theorem bitmap_full_ignores_last_bit:
  "bitmap_full m nbits \<longleftrightarrow> (\<forall>i. Suc i < unat nbits \<longrightarrow> bitmap_bit m i)"
  by (rule bitmap_full_iff)

theorem bitmap_full_ignores_last_bit_witness: "bitmap_full [3] 3 \<and> \<not> bitmap_bit [3] 2"
proof -
  have "bitmap_bit [3] 0" and "bitmap_bit [3] 1" and "\<not> bitmap_bit [3] 2" by code_simp+
  moreover have "i = 0 \<or> i = 1" if "Suc i < 3" for i using that by linarith
  ultimately show ?thesis using bitmap_full_ignores_last_bit [of "[3]" 3] by auto
qed

end
