(* ===== verification/Infoblock.thy ===== *)
theory Infoblock
  imports Ndctl_Prelude
begin

text \<open>
  The checksum of the on-media metadata, \<open>util/fletcher.h\<close>, and the 4 KiB information blocks that
  carry one, \<open>struct btt_sb\<close> and \<open>verify_infoblock_checksum\<close> of \<open>ndctl/namespace.h\<close>.  A block is a
  byte memory indexed from 0; its fields are little-endian integers at fixed offsets.  The locale
  \<open>sealed_block\<close> is the contract between a checksummed structure and the code that seals and
  verifies it; it is interpreted here for the information blocks and in \<open>Label_Area\<close> for the
  namespace index.
\<close>

subsection \<open>Fletcher-64\<close>

text \<open>The loop over the 32-bit words; \<open>k\<close> words are left, the next is at \<open>ofs\<close>.  On a little-endian
  host the two arms of \<open>le ? le32_to_cpu(buf[i]) : buf[i]\<close> are the same value.\<close>

fun fletcher64_loop :: "mem \<Rightarrow> nat \<Rightarrow> nat \<Rightarrow> u32 \<Rightarrow> u64 \<Rightarrow> u32 \<times> u64" where
  "fletcher64_loop m ofs 0 lo32 hi32 = (lo32, hi32)"
| "fletcher64_loop m ofs (Suc k) lo32 hi32 =
     (let lo32' = lo32 + le_get 4 m ofs
      in fletcher64_loop m (ofs + 4) k lo32' (hi32 + ucast lo32'))"

definition fletcher64 :: "mem \<Rightarrow> nat \<Rightarrow> nat \<Rightarrow> u64" where
  "fletcher64 m ofs len =
     (let (lo32, hi32) = fletcher64_loop m ofs (len div 4) 0 0
      in push_bit 32 hi32 OR ucast lo32)"

subsection \<open>Sealed blocks\<close>

locale sealed_block =
  fixes get :: "'b \<Rightarrow> u64"
    and put :: "u64 \<Rightarrow> 'b \<Rightarrow> 'b"
    and sum :: "'b \<Rightarrow> u64"
  assumes get_put: "get (put c b) = c"
    and put_put: "put c (put d b) = put c b"
    and put_get: "put (get b) b = b"
begin

definition intact :: "'b \<Rightarrow> bool" where
  "intact b = (sum (put 0 b) = get b)"

definition seal :: "'b \<Rightarrow> 'b" where
  "seal b = put (sum (put 0 b)) b"

lemma seal_intact: "intact (seal b)"
  by (simp add: intact_def seal_def get_put put_put)

lemma intact_seal_id: "intact b \<Longrightarrow> seal b = b"
  by (simp add: intact_def seal_def put_get)

lemma seal_idem: "seal (seal b) = seal b"
  by (rule intact_seal_id) (rule seal_intact)

end

subsection \<open>Information blocks\<close>

type_synonym info_block = mem

definition sb_signature :: "info_block \<Rightarrow> u8 list" where "sb_signature sb = mem_bytes sb 0 16"
definition sb_parent_uuid :: "info_block \<Rightarrow> u8 list" where "sb_parent_uuid sb = mem_bytes sb 32 16"
definition sb_flags :: "info_block \<Rightarrow> u32" where "sb_flags sb = le_get 4 sb 48"
definition sb_version_major :: "info_block \<Rightarrow> u16" where "sb_version_major sb = le_get 2 sb 52"
definition sb_version_minor :: "info_block \<Rightarrow> u16" where "sb_version_minor sb = le_get 2 sb 54"
definition sb_external_lbasize :: "info_block \<Rightarrow> u32" where "sb_external_lbasize sb = le_get 4 sb 56"
definition sb_external_nlba :: "info_block \<Rightarrow> u32" where "sb_external_nlba sb = le_get 4 sb 60"
definition sb_internal_lbasize :: "info_block \<Rightarrow> u32" where "sb_internal_lbasize sb = le_get 4 sb 64"
definition sb_internal_nlba :: "info_block \<Rightarrow> u32" where "sb_internal_nlba sb = le_get 4 sb 68"
definition sb_nfree :: "info_block \<Rightarrow> u32" where "sb_nfree sb = le_get 4 sb 72"
definition sb_nextoff :: "info_block \<Rightarrow> u64" where "sb_nextoff sb = le_get 8 sb 80"
definition sb_dataoff :: "info_block \<Rightarrow> u64" where "sb_dataoff sb = le_get 8 sb 88"
definition sb_mapoff :: "info_block \<Rightarrow> u64" where "sb_mapoff sb = le_get 8 sb 96"
definition sb_logoff :: "info_block \<Rightarrow> u64" where "sb_logoff sb = le_get 8 sb 104"
definition sb_info2off :: "info_block \<Rightarrow> u64" where "sb_info2off sb = le_get 8 sb 112"
definition sb_checksum :: "info_block \<Rightarrow> u64" where "sb_checksum sb = le_get 8 sb 4088"

definition sb_set_checksum :: "u64 \<Rightarrow> info_block \<Rightarrow> info_block" where
  "sb_set_checksum c sb = le_put 8 c sb 4088"

text \<open>\<open>verify_infoblock_checksum\<close> works in place: on a mismatch the buffer keeps the zeroed field.\<close>

definition verify_infoblock_checksum :: "info_block \<Rightarrow> bool \<times> info_block" where
  "verify_infoblock_checksum sb =
     (let sum_save = sb_checksum sb;
          sb' = sb_set_checksum 0 sb;
          sum = fletcher64 sb' 0 4096
      in if sum \<noteq> sum_save then (False, sb') else (True, sb_set_checksum sum_save sb'))"

interpretation ib: sealed_block sb_checksum sb_set_checksum "\<lambda>sb. fletcher64 sb 0 4096"
  by unfold_locales
     (simp_all add: sb_checksum_def sb_set_checksum_def le_get_put_same le_put_overwrite le_put_get_same)

lemma verify_infoblock_checksum_iff: "fst (verify_infoblock_checksum sb) = ib.intact sb"
  by (auto simp: verify_infoblock_checksum_def Let_def ib.intact_def)

lemma verify_infoblock_checksum_keeps: "ib.intact sb \<Longrightarrow> snd (verify_infoblock_checksum sb) = sb"
  by (simp add: verify_infoblock_checksum_def Let_def ib.intact_def ib.put_put ib.put_get)

subsection \<open>What the checksum detects\<close>

lemma fletcher64_loop_lo:
  "fst (fletcher64_loop m ofs k lo hi) = lo + (\<Sum>i<k. le_get 4 m (ofs + 4 * i))"
proof (induction m ofs k lo hi rule: fletcher64_loop.induct)
  case (1 m ofs lo hi)
  then show ?case by simp
next
  case (2 m ofs k lo hi)
  have "(\<Sum>i<Suc k. le_get 4 m (ofs + 4 * i)) = le_get 4 m ofs + (\<Sum>i<k. le_get 4 m (ofs + 4 + 4 * i) :: u32)"
    by (subst sum.lessThan_Suc_shift) (simp add: add.assoc)
  with 2 show ?case by (simp add: Let_def add.assoc)
qed

lemma fletcher64_low_word:
  "ucast (fletcher64 m ofs len) = (\<Sum>i<len div 4. le_get 4 m (ofs + 4 * i) :: u32)"
proof -
  have "ucast (push_bit 32 hi OR ucast lo :: u64) = (lo :: u32)" for hi lo
    by (rule bit_word_eqI) (auto simp: bit_simps)
  moreover have "fst (fletcher64_loop m ofs (len div 4) 0 0) = (\<Sum>i<len div 4. le_get 4 m (ofs + 4 * i))"
    by (simp add: fletcher64_loop_lo)
  ultimately show ?thesis
    by (cases "fletcher64_loop m ofs (len div 4) 0 0") (simp add: fletcher64_def)
qed

lemma fletcher64_cong:
  "(\<And>i. i < len \<Longrightarrow> m (ofs + i) = m' (ofs' + i)) \<Longrightarrow> fletcher64 m ofs len = fletcher64 m' ofs' len"
proof -
  have loop: "(\<And>i. i < 4 * k \<Longrightarrow> m (ofs + i) = m' (ofs' + i)) \<Longrightarrow>
      fletcher64_loop m ofs k lo hi = fletcher64_loop m' ofs' k lo hi" for m m' :: mem and ofs ofs' k lo hi
  proof (induction m ofs k lo hi arbitrary: ofs' rule: fletcher64_loop.induct)
    case (1 m ofs lo hi)
    then show ?case by simp
  next
    case (2 m ofs k lo hi)
    have "le_get 4 m ofs = (le_get 4 m' ofs' :: u32)"
      by (rule le_get_cong) (use "2.prems" in auto)
    moreover have "m (ofs + 4 + i) = m' (ofs' + 4 + i)" if "i < 4 * k" for i
      using "2.prems" [of "4 + i"] that by (simp add: add.assoc)
    ultimately show ?case using "2.IH" [OF refl, of "ofs' + 4"] by (simp add: Let_def)
  qed
  assume "\<And>i. i < len \<Longrightarrow> m (ofs + i) = m' (ofs' + i)"
  then have "fletcher64_loop m ofs (len div 4) 0 0 = fletcher64_loop m' ofs' (len div 4) 0 0"
    by (intro loop) auto
  then show ?thesis by (simp add: fletcher64_def)
qed

lemma fletcher64_single_word:
  assumes "k < len div 4" and "le_get 4 m (ofs + 4 * k) \<noteq> (le_get 4 m' (ofs + 4 * k) :: u32)"
    and "\<And>i. i < len div 4 \<Longrightarrow> i \<noteq> k \<Longrightarrow> le_get 4 m (ofs + 4 * i) = (le_get 4 m' (ofs + 4 * i) :: u32)"
  shows "fletcher64 m ofs len \<noteq> fletcher64 m' ofs len"
proof -
  let ?S = "\<lambda>m. \<Sum>i<len div 4. le_get 4 m (ofs + 4 * i) :: u32"
  have "?S m - ?S m' = (\<Sum>i<len div 4. le_get 4 m (ofs + 4 * i) - le_get 4 m' (ofs + 4 * i))"
    by (simp add: sum_subtractf)
  also have "\<dots> = (\<Sum>i\<in>{k}. le_get 4 m (ofs + 4 * i) - le_get 4 m' (ofs + 4 * i))"
    by (rule sum.mono_neutral_right) (use assms in auto)
  also have "\<dots> \<noteq> 0" using assms(2) by simp
  finally show ?thesis using fletcher64_low_word [of m ofs len] fletcher64_low_word [of m' ofs len] by auto
qed

end
