(* ===== verification/Btt_Model.thy ===== *)
theory Btt_Model
  imports Bitmap Infoblock
begin

text \<open>
  The BTT metadata checker, \<open>ndctl/check.c\<close>, with the on-media structures of \<open>ndctl/namespace.h\<close>:
  the definitions.  The raw namespace is a block device whose content is a byte memory; the
  mappings that \<open>btt_create_mappings\<close> sets up are \<open>MAP_SHARED\<close>, so the map, the log and the two
  info blocks of an arena are regions of that memory at the arena's offsets, and a store through
  a mapping is a store to the device.  The errno of a failing \<open>pread\<close>, \<open>pwrite\<close>, \<open>fsync\<close>, \<open>msync\<close>
  or allocation is part of the device's state, so that every error return is reachable.
  Messages are not modelled.  The theories \<open>Btt_Check\<close> and \<open>Btt_Recover\<close> hold the lemmas.
\<close>

subsection \<open>The device\<close>

record blkdev =
  bd_data :: mem
  bd_size :: nat
  bd_pread_errno :: "u64 \<Rightarrow> int"
  bd_pwrite_errno :: "u64 \<Rightarrow> int"
  bd_fsync_errno :: int
  bd_msync_errno :: "nat \<Rightarrow> int"
  bd_mmap_errno :: "u64 \<Rightarrow> int"

text \<open>\<open>pread\<close> and \<open>pwrite\<close> return the number of bytes transferred, short at the end of the device; a
  negative offset is \<open>EINVAL\<close>.\<close>

definition dev_pread :: "blkdev \<Rightarrow> nat \<Rightarrow> u64 \<Rightarrow> int + nat" where
  "dev_pread d n off =
     (if sint off < 0 then Inl EINVAL
      else if bd_pread_errno d off \<noteq> 0 then Inl (bd_pread_errno d off)
      else Inr (min n (bd_size d - unat off)))"

definition dev_pwrite :: "blkdev \<Rightarrow> mem \<Rightarrow> nat \<Rightarrow> u64 \<Rightarrow> (int + nat) \<times> blkdev" where
  "dev_pwrite d buf n off =
     (if sint off < 0 then (Inl EINVAL, d)
      else if bd_pwrite_errno d off \<noteq> 0 then (Inl (bd_pwrite_errno d off), d)
      else let k = min n (bd_size d - unat off)
           in (Inr k, d\<lparr>bd_data := mem_copy (bd_data d) (unat off) buf 0 k\<rparr>))"

subsection \<open>Checker state\<close>

record check_opts =
  co_verbose :: bool
  co_force :: bool
  co_repair :: bool
  co_logfix :: bool

record log_entry =
  lg_lba :: u32
  lg_old_map :: u32
  lg_new_map :: u32
  lg_seq :: u32

type_synonym log_group = "log_entry list"

record arena_info =
  ai_size :: u64
  ai_external_lba_start :: u64
  ai_internal_nlba :: u32
  ai_internal_lbasize :: u32
  ai_external_nlba :: u32
  ai_external_lbasize :: u32
  ai_nfree :: u32
  ai_version_major :: u16
  ai_version_minor :: u16
  ai_nextoff :: u64
  ai_infooff :: u64
  ai_dataoff :: u64
  ai_mapoff :: u64
  ai_logoff :: u64
  ai_info2off :: u64
  ai_flags :: u32
  ai_num :: nat
  ai_log_index :: "nat \<times> nat"

text \<open>The allocations of the checker, by call site; \<open>bc_calloc_ok\<close> says which of them succeed.\<close>

datatype alloc_site = Alloc_bitmap | Alloc_arena nat | Alloc_sb | Alloc_sb_pair | Alloc_bttc

record btt_chk =
  bc_dev :: blkdev
  bc_parent_uuid :: "u8 list"
  bc_rawsize :: u64
  bc_nlba :: u64
  bc_start_off :: int
  bc_num_arenas :: nat
  bc_arena :: "arena_info list"
  bc_opts :: check_opts
  bc_calloc_ok :: "alloc_site \<Rightarrow> bool"

definition zero_arena :: arena_info where
  "zero_arena = \<lparr>ai_size = 0, ai_external_lba_start = 0, ai_internal_nlba = 0, ai_internal_lbasize = 0,
     ai_external_nlba = 0, ai_external_lbasize = 0, ai_nfree = 0, ai_version_major = 0,
     ai_version_minor = 0, ai_nextoff = 0, ai_infooff = 0, ai_dataoff = 0, ai_mapoff = 0,
     ai_logoff = 0, ai_info2off = 0, ai_flags = 0, ai_num = 0, ai_log_index = (0, 0)\<rparr>"

definition ARENA_MIN_SIZE :: u64 where "ARENA_MIN_SIZE = push_bit 24 1"
definition ARENA_MAX_SIZE :: u64 where "ARENA_MAX_SIZE = push_bit 39 1"
definition BTT_INFO_SIZE :: nat where [simp]: "BTT_INFO_SIZE = 4096"
definition MAP_ENT_NORMAL :: u32 where "MAP_ENT_NORMAL = 0xC0000000"
definition MAP_LBA_MASK :: u32 where "MAP_LBA_MASK = NOT (push_bit 31 1 OR push_bit 30 1)"
definition IB_FLAG_ERROR_MASK :: u32 where "IB_FLAG_ERROR_MASK = 1"
definition BTT1_START_OFFSET :: int where [simp]: "BTT1_START_OFFSET = 4096"
definition BTT2_START_OFFSET :: int where [simp]: "BTT2_START_OFFSET = 0"

definition BTT_SIG :: "u8 list" where
  "BTT_SIG = map (of_nat \<circ> of_char) ''BTT_ARENA_INFO'' @ [0, 0]"

definition BTT_OK :: int where [simp]: "BTT_OK = 0"
definition BTT_LOG_EQL_SEQ :: int where [simp]: "BTT_LOG_EQL_SEQ = 0x100"
definition BTT_LOG_OOB_SEQ :: int where [simp]: "BTT_LOG_OOB_SEQ = 0x101"
definition BTT_LOG_OOB_LBA :: int where [simp]: "BTT_LOG_OOB_LBA = 0x102"
definition BTT_LOG_OOB_OLD :: int where [simp]: "BTT_LOG_OOB_OLD = 0x103"
definition BTT_LOG_OOB_NEW :: int where [simp]: "BTT_LOG_OOB_NEW = 0x104"
definition BTT_LOG_MAP_ERR :: int where [simp]: "BTT_LOG_MAP_ERR = 0x105"
definition BTT_MAP_OOB :: int where [simp]: "BTT_MAP_OOB = 0x106"
definition BTT_BITMAP_ERROR :: int where [simp]: "BTT_BITMAP_ERROR = 0x107"
definition BTT_LOGFIX_ERR :: int where [simp]: "BTT_LOGFIX_ERR = 0x108"

subsection \<open>Info blocks\<close>

definition btt_read_info :: "btt_chk \<Rightarrow> u64 \<Rightarrow> int + info_block" where
  "btt_read_info bttc off =
     (case dev_pread (bc_dev bttc) 4096 off of
        Inl e \<Rightarrow> Inl (- e)
      | Inr sz \<Rightarrow> if sz \<noteq> 4096 then Inl (- ENXIO)
                  else Inr (\<lambda>i. bd_data (bc_dev bttc) (unat off + i)))"

definition btt_write_info :: "btt_chk \<Rightarrow> info_block \<Rightarrow> u64 \<Rightarrow> int \<times> btt_chk" where
  "btt_write_info bttc sb off =
     (if \<not> co_repair (bc_opts bttc) then (- EIO, bttc)
      else case dev_pwrite (bc_dev bttc) sb 4096 off of
        (Inl e, d) \<Rightarrow> (- e, bttc\<lparr>bc_dev := d\<rparr>)
      | (Inr sz, d) \<Rightarrow>
          if sz \<noteq> 4096 then (- ENXIO, bttc\<lparr>bc_dev := d\<rparr>)
          else if bd_fsync_errno d \<noteq> 0 then (- bd_fsync_errno d, bttc\<lparr>bc_dev := d\<rparr>)
          else (0, bttc\<lparr>bc_dev := d\<rparr>))"

text \<open>Both info blocks are mapped; \<open>memcpy\<close> and \<open>msync\<close> act on the device.\<close>

definition btt_copy_to_info2 :: "btt_chk \<Rightarrow> arena_info \<Rightarrow> int \<times> btt_chk" where
  "btt_copy_to_info2 bttc a =
     (if \<not> co_repair (bc_opts bttc) then (0, bttc)
      else let d = bc_dev bttc;
               d' = d\<lparr>bd_data := mem_copy (bd_data d) (unat (ai_info2off a))
                                  (bd_data d) (unat (ai_infooff a)) BTT_INFO_SIZE\<rparr>;
               e = bd_msync_errno d (unat (ai_info2off a))
           in (if e \<noteq> 0 then - e else 0, bttc\<lparr>bc_dev := d'\<rparr>))"

text \<open>\<open>uuid_is_null\<close> and \<open>uuid_compare\<close> of libuuid on 16-byte uuids.\<close>

definition btt_info_verify :: "btt_chk \<Rightarrow> info_block \<Rightarrow> int" where
  "btt_info_verify bttc sb =
     (if sb_signature sb \<noteq> BTT_SIG then - ENXIO
      else if sb_parent_uuid sb \<noteq> replicate 16 0 \<and> bc_parent_uuid bttc \<noteq> sb_parent_uuid sb then - ENXIO
      else if \<not> fst (verify_infoblock_checksum sb) then - ENXIO
      else 0)"

definition btt_info_read_verify :: "btt_chk \<Rightarrow> u64 \<Rightarrow> int + info_block" where
  "btt_info_read_verify bttc off =
     (case btt_read_info bttc off of
        Inl rc \<Rightarrow> Inl rc
      | Inr sb \<Rightarrow> if btt_info_verify bttc sb \<noteq> 0 then Inl (btt_info_verify bttc sb) else Inr sb)"

subsection \<open>Map and log\<close>

definition map_addr :: "arena_info \<Rightarrow> u32 \<Rightarrow> nat" where
  "map_addr a lba = unat (ai_mapoff a) + 4 * unat lba"

definition log_addr :: "arena_info \<Rightarrow> u32 \<Rightarrow> nat \<Rightarrow> nat" where
  "log_addr a lane j = unat (ai_logoff a) + 64 * unat lane + 16 * j"

definition btt_map_lookup :: "btt_chk \<Rightarrow> arena_info \<Rightarrow> u32 \<Rightarrow> u32" where
  "btt_map_lookup bttc a lba =
     (let raw_mapping = le_get 4 (bd_data (bc_dev bttc)) (map_addr a lba)
      in if raw_mapping AND MAP_ENT_NORMAL \<noteq> 0 then raw_mapping AND MAP_LBA_MASK else lba)"

definition btt_map_write :: "btt_chk \<Rightarrow> arena_info \<Rightarrow> u32 \<Rightarrow> u32 \<Rightarrow> int \<times> btt_chk" where
  "btt_map_write bttc a lba mapping =
     (if \<not> co_repair (bc_opts bttc) then (0, bttc)
      else let d = bc_dev bttc;
               d' = d\<lparr>bd_data := le_put 4 (mapping OR MAP_ENT_NORMAL) (bd_data d) (map_addr a lba)\<rparr>;
               e = bd_msync_errno d (map_addr a lba)
           in (if e \<noteq> 0 then - e else 0, bttc\<lparr>bc_dev := d'\<rparr>))"

definition log_entry_get :: "mem \<Rightarrow> nat \<Rightarrow> log_entry" where
  "log_entry_get m o' = \<lparr>lg_lba = le_get 4 m o', lg_old_map = le_get 4 m (o' + 4),
     lg_new_map = le_get 4 m (o' + 8), lg_seq = le_get 4 m (o' + 12)\<rparr>"

definition log_entry_put :: "log_entry \<Rightarrow> mem \<Rightarrow> nat \<Rightarrow> mem" where
  "log_entry_put e m o' =
     le_put 4 (lg_seq e) (le_put 4 (lg_new_map e) (le_put 4 (lg_old_map e)
       (le_put 4 (lg_lba e) m o') (o' + 4)) (o' + 8)) (o' + 12)"

definition btt_log_group_read :: "btt_chk \<Rightarrow> arena_info \<Rightarrow> u32 \<Rightarrow> log_group" where
  "btt_log_group_read bttc a lane =
     map (\<lambda>j. log_entry_get (bd_data (bc_dev bttc)) (log_addr a lane j)) [0, 1, 2, 3]"

definition btt_log_group_write :: "btt_chk \<Rightarrow> arena_info \<Rightarrow> u32 \<Rightarrow> log_group \<Rightarrow> btt_chk" where
  "btt_log_group_write bttc a lane log =
     (let d = bc_dev bttc;
          m = log_entry_put (log ! 3) (log_entry_put (log ! 2) (log_entry_put (log ! 1)
                (log_entry_put (log ! 0) (bd_data d) (log_addr a lane 0))
                (log_addr a lane 1)) (log_addr a lane 2)) (log_addr a lane 3)
      in bttc\<lparr>bc_dev := d\<lparr>bd_data := m\<rparr>\<rparr>)"

definition log_seq :: "log_group \<Rightarrow> nat \<Rightarrow> u32" where
  "log_seq log log_idx = lg_seq (log ! log_idx)"

text \<open>The function may rewrite a zero sequence number in the caller's copy of the group.\<close>

definition btt_log_get_old :: "arena_info \<Rightarrow> log_group \<Rightarrow> nat \<times> log_group" where
  "btt_log_get_old a log =
     (let idx0 = fst (ai_log_index a); idx1 = snd (ai_log_index a) in
      if log_seq log idx0 = 0 then (0, log[idx0 := (log ! idx0)\<lparr>lg_seq := 1\<rparr>])
      else if log_seq log idx0 < log_seq log idx1
      then (if log_seq log idx1 - log_seq log idx0 = 1 then 0 else 1, log)
      else (if log_seq log idx0 - log_seq log idx1 = 1 then 1 else 0, log))"

text \<open>\<open>btt_log_read\<close> fails only for a NULL \<open>ent\<close>, which no caller passes: the entry is returned.\<close>

definition btt_log_read :: "btt_chk \<Rightarrow> arena_info \<Rightarrow> u32 \<Rightarrow> log_entry" where
  "btt_log_read bttc a lane =
     (let (old, log) = btt_log_get_old a (btt_log_group_read bttc a lane);
          new_ent = 1 - old
      in log ! (if new_ent = 0 then fst (ai_log_index a) else snd (ai_log_index a)))"

definition u32_range :: "u32 \<Rightarrow> u32 list" where
  "u32_range n = map of_nat [0..<unat n]"

subsection \<open>The checks of one arena\<close>

primrec check_log_seqs :: "btt_chk \<Rightarrow> arena_info \<Rightarrow> u32 list \<Rightarrow> int" where
  "check_log_seqs bttc a [] = 0"
| "check_log_seqs bttc a (i # is) =
     (let log = btt_log_group_read bttc a i;
          idx0 = fst (ai_log_index a); idx1 = snd (ai_log_index a) in
      if log_seq log idx0 = log_seq log idx1 then BTT_LOG_EQL_SEQ
      else if log_seq log idx0 > 3 \<or> log_seq log idx1 > 3 then BTT_LOG_OOB_SEQ
      else check_log_seqs bttc a is)"

primrec check_log_bounds :: "btt_chk \<Rightarrow> arena_info \<Rightarrow> u32 list \<Rightarrow> int" where
  "check_log_bounds bttc a [] = 0"
| "check_log_bounds bttc a (i # is) =
     (let ent = btt_log_read bttc a i in
      if lg_lba ent \<ge> ai_external_nlba a then BTT_LOG_OOB_LBA
      else if lg_old_map ent \<ge> ai_internal_nlba a then BTT_LOG_OOB_OLD
      else if lg_new_map ent \<ge> ai_internal_nlba a then BTT_LOG_OOB_NEW
      else check_log_bounds bttc a is)"

definition btt_check_log_entries :: "btt_chk \<Rightarrow> arena_info \<Rightarrow> int" where
  "btt_check_log_entries bttc a =
     (let rc = check_log_seqs bttc a (u32_range (ai_nfree a))
      in if rc \<noteq> 0 then rc else check_log_bounds bttc a (u32_range (ai_nfree a)))"

primrec check_map_bounds :: "btt_chk \<Rightarrow> arena_info \<Rightarrow> u32 list \<Rightarrow> int" where
  "check_map_bounds bttc a [] = 0"
| "check_map_bounds bttc a (i # is) =
     (if btt_map_lookup bttc a i \<ge> ai_internal_nlba a then BTT_MAP_OOB else check_map_bounds bttc a is)"

definition btt_check_map_entries :: "btt_chk \<Rightarrow> arena_info \<Rightarrow> int" where
  "btt_check_map_entries bttc a = check_map_bounds bttc a (u32_range (ai_external_nlba a))"

primrec check_log_map_loop :: "btt_chk \<Rightarrow> arena_info \<Rightarrow> u32 list \<Rightarrow> int \<Rightarrow> int \<times> btt_chk" where
  "check_log_map_loop bttc a [] rc_saved = (rc_saved, bttc)"
| "check_log_map_loop bttc a (i # is) rc_saved =
     (let ent = btt_log_read bttc a i;
          mapping = btt_map_lookup bttc a (lg_lba ent) in
      if lg_new_map ent \<noteq> mapping \<and> lg_old_map ent = mapping
      then (case btt_map_write bttc a (lg_lba ent) (lg_new_map ent) of (rc, bttc') \<Rightarrow>
              check_log_map_loop bttc' a is (if rc \<noteq> 0 then rc else rc_saved))
      else check_log_map_loop bttc a is rc_saved)"

definition btt_check_log_map :: "btt_chk \<Rightarrow> arena_info \<Rightarrow> int \<times> btt_chk" where
  "btt_check_log_map bttc a =
     (let (rc_saved, bttc') = check_log_map_loop bttc a (u32_range (ai_nfree a)) 0
      in (if rc_saved \<noteq> 0 then BTT_LOG_MAP_ERR else 0, bttc'))"

definition btt_check_info2 :: "btt_chk \<Rightarrow> arena_info \<Rightarrow> int \<times> btt_chk" where
  "btt_check_info2 bttc a =
     (let m = bd_data (bc_dev bttc) in
      if \<not> mem_eq m (unat (ai_info2off a)) m (unat (ai_infooff a)) BTT_INFO_SIZE
      then btt_copy_to_info2 bttc a else (0, bttc))"

text \<open>The two marking loops of \<open>btt_check_bitmap\<close>, over the blocks they look up: a block that is
  already marked ends the check (\<open>goto out\<close>).\<close>

primrec btt_bitmap_mark :: "u32 list \<Rightarrow> bitmap \<Rightarrow> bitmap option" where
  "btt_bitmap_mark [] bm = Some bm"
| "btt_bitmap_mark (blk # blks) bm =
     (if test_bit blk bm \<noteq> 0 then None else btt_bitmap_mark blks (bitmap_set bm blk 1))"

definition btt_check_bitmap :: "btt_chk \<Rightarrow> arena_info \<Rightarrow> int" where
  "btt_check_bitmap bttc a =
     (if \<not> bc_calloc_ok bttc Alloc_bitmap then - ENOMEM
      else let bm = bitmap_alloc (ucast (ai_internal_nlba a)) in
      case btt_bitmap_mark (map (btt_map_lookup bttc a) (u32_range (ai_external_nlba a))) bm of
        None \<Rightarrow> BTT_BITMAP_ERROR
      | Some bm' \<Rightarrow>
          (case btt_bitmap_mark (map (\<lambda>i. lg_old_map (btt_log_read bttc a i)) (u32_range (ai_nfree a))) bm' of
             None \<Rightarrow> BTT_BITMAP_ERROR
           | Some bm'' \<Rightarrow>
               let rc = (if ai_nfree a = 0 then BTT_BITMAP_ERROR else 0)
               in if \<not> bitmap_full bm'' (ai_internal_nlba a) then BTT_BITMAP_ERROR else rc))"

definition zero_log_entry :: log_entry where
  "zero_log_entry = \<lparr>lg_lba = 0, lg_old_map = 0, lg_new_map = 0, lg_seq = 0\<rparr>"

primrec rewrite_log_loop :: "btt_chk \<Rightarrow> arena_info \<Rightarrow> u32 list \<Rightarrow> btt_chk" where
  "rewrite_log_loop bttc a [] = bttc"
| "rewrite_log_loop bttc a (i # is) =
     (let ent = btt_log_read bttc a i;
          log = [ent\<lparr>lg_seq := 1\<rparr>, zero_log_entry, zero_log_entry, zero_log_entry]
      in rewrite_log_loop (btt_log_group_write bttc a i log) a is)"

definition btt_rewrite_log :: "btt_chk \<Rightarrow> arena_info \<Rightarrow> int \<times> btt_chk" where
  "btt_rewrite_log bttc a = (0, rewrite_log_loop bttc a (u32_range (ai_nfree a)))"

definition btt_check_arena :: "btt_chk \<Rightarrow> arena_info \<Rightarrow> int \<times> btt_chk" where
  "btt_check_arena bttc a =
     (let rc = btt_check_log_entries bttc a in
      if rc \<noteq> 0 then (rc, bttc) else
      let rc = btt_check_map_entries bttc a in
      if rc \<noteq> 0 then (rc, bttc) else
      let (rc, bttc) = btt_check_log_map bttc a in
      if rc \<noteq> 0 then (rc, bttc) else
      let (rc, bttc) = btt_check_info2 bttc a in
      if rc \<noteq> 0 then (rc, bttc) else
      let rc = btt_check_bitmap bttc a in
      if rc \<noteq> 0 then (rc, bttc) else
      if co_logfix (bc_opts bttc) then btt_rewrite_log bttc a else (rc, bttc))"

primrec check_arenas_loop :: "btt_chk \<Rightarrow> arena_info list \<Rightarrow> int \<times> btt_chk" where
  "check_arenas_loop bttc [] = (0, bttc)"
| "check_arenas_loop bttc (a # as) =
     (case btt_check_arena bttc a of (rc, bttc') \<Rightarrow>
        if rc \<noteq> 0 then (rc, bttc') else check_arenas_loop bttc' as)"

definition btt_check_arenas :: "btt_chk \<Rightarrow> int \<times> btt_chk" where
  "btt_check_arenas bttc =
     (let (rc, bttc') = check_arenas_loop bttc (bc_arena bttc)
      in (if rc \<noteq> BTT_OK then - ENXIO else 0, bttc'))"

subsection \<open>Arena discovery\<close>

definition btt_parse_meta :: "arena_info \<Rightarrow> info_block \<Rightarrow> u64 \<Rightarrow> int \<times> arena_info" where
  "btt_parse_meta arena sb arena_off =
     (let arena = arena\<lparr>ai_internal_nlba := sb_internal_nlba sb,
                        ai_internal_lbasize := sb_internal_lbasize sb,
                        ai_external_nlba := sb_external_nlba sb,
                        ai_external_lbasize := sb_external_lbasize sb,
                        ai_nfree := sb_nfree sb\<rparr> in
      if ai_internal_nlba arena - ai_external_nlba arena \<noteq> ai_nfree arena then (- ENXIO, arena)
      else if ai_internal_lbasize arena \<noteq> ai_external_lbasize arena then (- ENXIO, arena)
      else let arena = arena\<lparr>ai_version_major := sb_version_major sb,
                             ai_version_minor := sb_version_minor sb,
                             ai_nextoff := (if sb_nextoff sb = 0 then 0 else arena_off + sb_nextoff sb),
                             ai_infooff := arena_off,
                             ai_dataoff := arena_off + sb_dataoff sb,
                             ai_mapoff := arena_off + sb_mapoff sb,
                             ai_logoff := arena_off + sb_logoff sb,
                             ai_info2off := arena_off + sb_info2off sb\<rparr>;
               arena = arena\<lparr>ai_size := (if sb_nextoff sb > 0 then sb_nextoff sb
                                          else ai_info2off arena - ai_infooff arena + 4096),
                             ai_flags := sb_flags sb\<rparr>
           in if sb_flags sb AND IB_FLAG_ERROR_MASK \<noteq> 0 then (- ENXIO, arena) else (0, arena))"

definition ent_is_padding :: "log_entry \<Rightarrow> bool" where
  "ent_is_padding ent = (lg_lba ent = 0 \<and> lg_old_map ent = 0 \<and> lg_new_map ent = 0 \<and> lg_seq ent = 0)"

text \<open>The local variables of \<open>log_set_indices\<close>.\<close>

record idx_state =
  is_idx_set :: bool
  is_initial_state :: bool
  is_log_index0 :: int
  is_log_index1 :: int
  is_next_idx :: nat
  is_pad_count :: nat

text \<open>The body of the inner loop for slot \<open>j\<close>; \<open>None\<close> is \<open>return -ENXIO\<close>.  (\<open>next_idx > 2\<close> is the
  \<open>else if\<close> that can never be reached, because \<open>idx_set\<close> becomes true at 2.)\<close>

definition log_slot_step :: "log_entry \<Rightarrow> nat \<Rightarrow> idx_state \<Rightarrow> idx_state option" where
  "log_slot_step ent j st =
     (if \<not> is_idx_set st then
        (if ent_is_padding ent then Some (st\<lparr>is_pad_count := Suc (is_pad_count st)\<rparr>)
         else if is_next_idx st = 1 \<and> int j = is_log_index0 st then Some st
         else let st = (if is_next_idx st = 0 then st\<lparr>is_log_index0 := int j\<rparr>
                        else st\<lparr>is_log_index1 := int j\<rparr>);
                  st = st\<lparr>is_next_idx := Suc (is_next_idx st)\<rparr>
              in if is_next_idx st = 2 then Some (st\<lparr>is_idx_set := True\<rparr>)
                 else if is_next_idx st > 2 then None
                 else Some st)
      else if int j = is_log_index0 st then (if ent_is_padding ent then None else Some st)
      else if int j = is_log_index1 st then Some st
      else if \<not> ent_is_padding ent then None else Some st)"

primrec log_slots_loop :: "log_group \<Rightarrow> nat list \<Rightarrow> idx_state \<Rightarrow> idx_state option" where
  "log_slots_loop log [] st = Some st"
| "log_slots_loop log (j # js) st =
     (case log_slot_step (log ! j) j st of None \<Rightarrow> None | Some st' \<Rightarrow> log_slots_loop log js st')"

primrec log_groups_loop :: "btt_chk \<Rightarrow> arena_info \<Rightarrow> u32 list \<Rightarrow> idx_state \<Rightarrow> idx_state option" where
  "log_groups_loop bttc a [] st = Some st"
| "log_groups_loop bttc a (i # is) st =
     (case log_slots_loop (btt_log_group_read bttc a i) [0, 1, 2, 3] st of
        None \<Rightarrow> None
      | Some st' \<Rightarrow>
          log_groups_loop bttc a is
            (st'\<lparr>is_initial_state := (if is_pad_count st' < 3 then False else is_initial_state st'),
                 is_pad_count := 0\<rparr>))"

definition log_set_indices :: "btt_chk \<Rightarrow> arena_info \<Rightarrow> int \<times> arena_info" where
  "log_set_indices bttc arena =
     (let st0 = \<lparr>is_idx_set = False, is_initial_state = True, is_log_index0 = - 1, is_log_index1 = - 1,
                 is_next_idx = 0, is_pad_count = 0\<rparr> in
      case log_groups_loop bttc arena (u32_range (ai_nfree arena)) st0 of
        None \<Rightarrow> (- ENXIO, arena)
      | Some st \<Rightarrow>
          if \<not> is_initial_state st \<and> \<not> is_idx_set st then (- ENXIO, arena)
          else let li0 = is_log_index0 st;
                   li1 = (if is_initial_state st then 1 else is_log_index1 st)
               in if li0 = 0 \<and> (li1 = 1 \<or> li1 = 2)
                  then (0, arena\<lparr>ai_log_index := (nat li0, nat li1)\<rparr>)
                  else (- ENXIO, arena))"

text \<open>One iteration of the \<open>while (remaining)\<close> loop: read and, if need be, restore the info block of
  the arena at \<open>cur_off\<close>, then parse it.\<close>

definition discover_one_arena ::
  "btt_chk \<Rightarrow> nat \<Rightarrow> u64 \<Rightarrow> u64 \<Rightarrow> u64 \<Rightarrow> (int \<times> arena_info) \<times> btt_chk" where
  "discover_one_arena bttc i remaining cur_off cur_nlba =
     (if \<not> bc_calloc_ok bttc (Alloc_arena i) then ((- ENOMEM, zero_arena), bttc)
      else let arena = zero_arena\<lparr>ai_infooff := cur_off\<rparr>;
               fin = (\<lambda>sb bttc. (btt_parse_meta (arena\<lparr>ai_num := i, ai_external_lba_start := cur_nlba\<rparr>)
                                   sb cur_off, bttc)) in
      case btt_read_info bttc cur_off of
        Inl ret \<Rightarrow> ((ret, arena), bttc)
      | Inr sb \<Rightarrow>
          if btt_info_verify bttc sb = 0 then fin sb bttc
          else let offset = (if remaining \<le> ARENA_MAX_SIZE
                             then (bc_rawsize bttc - bc_rawsize bttc mod 4096) - 4096
                             else cur_off + ARENA_MAX_SIZE - 4096) in
            (case btt_read_info bttc offset of
               Inl ret \<Rightarrow> ((ret, arena), bttc)
             | Inr sb2 \<Rightarrow>
                 if btt_info_verify bttc sb2 \<noteq> 0 then ((btt_info_verify bttc sb2, arena), bttc)
                 else case btt_write_info bttc sb2 cur_off of (ret, bttc') \<Rightarrow>
                   if ret \<noteq> 0 then ((ret, arena), bttc') else fin sb2 bttc'))"

text \<open>The loop takes fuel: metadata that steps backwards can keep it going for ever.  \<open>None\<close> is
  running out of fuel.\<close>

fun discover_arenas_loop ::
  "nat \<Rightarrow> btt_chk \<Rightarrow> u64 \<Rightarrow> u64 \<Rightarrow> u64 \<Rightarrow> arena_info list \<Rightarrow> (int \<times> btt_chk) option" where
  "discover_arenas_loop 0 bttc remaining cur_off cur_nlba as = None"
| "discover_arenas_loop (Suc fuel) bttc remaining cur_off cur_nlba as =
     (if remaining = 0
      then Some (0, bttc\<lparr>bc_arena := as, bc_num_arenas := length as, bc_nlba := cur_nlba\<rparr>)
      else case discover_one_arena bttc (length as) remaining cur_off cur_nlba of
        ((ret, arena), bttc') \<Rightarrow>
          if ret \<noteq> 0 then Some (ret, bttc'\<lparr>bc_arena := []\<rparr>)
          else if ai_nextoff arena = 0
          then Some (0, bttc'\<lparr>bc_arena := as @ [arena], bc_num_arenas := Suc (length as),
                              bc_nlba := cur_nlba + ucast (ai_external_nlba arena)\<rparr>)
          else discover_arenas_loop fuel bttc' (remaining - ai_size arena) (cur_off + ai_size arena)
                 (cur_nlba + ucast (ai_external_nlba arena)) (as @ [arena]))"

definition btt_discover_arenas :: "nat \<Rightarrow> btt_chk \<Rightarrow> (int \<times> btt_chk) option" where
  "btt_discover_arenas fuel bttc =
     (if \<not> bc_calloc_ok bttc Alloc_sb then Some (- ENOMEM, bttc)
      else discover_arenas_loop fuel bttc (bc_rawsize bttc) (word_of_int (bc_start_off bttc)) 0 [])"

text \<open>\<open>btt_create_mappings\<close> maps five regions per arena and stops at the first \<open>mmap\<close> that fails.\<close>

definition arena_map_offsets :: "arena_info \<Rightarrow> u64 list" where
  "arena_map_offsets a = [ai_infooff a, ai_dataoff a, ai_mapoff a, ai_logoff a, ai_info2off a]"

definition btt_create_mappings :: "btt_chk \<Rightarrow> int" where
  "btt_create_mappings bttc =
     (case find (\<lambda>off. bd_mmap_errno (bc_dev bttc) off \<noteq> 0)
             (concat (map arena_map_offsets (bc_arena bttc))) of
        None \<Rightarrow> 0 | Some off \<Rightarrow> - bd_mmap_errno (bc_dev bttc) off)"

subsection \<open>Recovery of the first info block\<close>

definition btt_sb_get_expected_offset :: "info_block \<Rightarrow> int" where
  "btt_sb_get_expected_offset sb =
     (if sb_version_major sb = 1 \<and> sb_version_minor sb = 1 then BTT1_START_OFFSET
      else if sb_version_major sb = 2 \<and> sb_version_minor sb = 0 then BTT2_START_OFFSET
      else - ENXIO)"

lemma arena_max_step: "remaining > ARENA_MAX_SIZE \<Longrightarrow> unat (remaining - ARENA_MAX_SIZE) < unat remaining"
  by (simp add: ARENA_MAX_SIZE_def unat_sub_if' word_less_nat_alt)

function estimate_arenas :: "u64 \<Rightarrow> nat \<Rightarrow> int + (nat \<times> u64)" where
  "estimate_arenas remaining est_arenas =
     (if remaining = 0 then Inr (est_arenas, 0)
      else if remaining < ARENA_MIN_SIZE \<and> est_arenas = 0 then Inl (- EINVAL)
      else if remaining > ARENA_MAX_SIZE then estimate_arenas (remaining - ARENA_MAX_SIZE) (Suc est_arenas)
      else if remaining < ARENA_MIN_SIZE then Inr (est_arenas, remaining)
      else Inr (Suc est_arenas, 0))"
  by pat_completeness auto
termination
  by (relation "measure (\<lambda>(r, e). unat r)") (auto simp: arena_max_step)

declare estimate_arenas.simps [simp del]

text \<open>The fields that attempt 2 takes from the damaged first block.\<close>

definition copy_arena0_fields :: "info_block \<Rightarrow> info_block \<Rightarrow> info_block" where
  "copy_arena0_fields sb1 sb0 =
     foldl (\<lambda>sb (f, n). mem_copy sb f sb0 f n) sb1
       [(48, 4), (60, 4), (68, 4), (80, 8), (88, 8), (96, 8), (104, 8), (112, 8), (4088, 8)]"

definition recover_attempt3 :: "btt_chk \<Rightarrow> info_block \<Rightarrow> u64 \<Rightarrow> int \<times> btt_chk" where
  "recover_attempt3 bttc sb0 off =
     (let offset = ucast (ucast (sb_info2off sb0) :: u32) in
      if offset > min (bc_rawsize bttc - 4096) (ARENA_MAX_SIZE - 4096 + off) then (- ENXIO, bttc)
      else if offset \<noteq> 0 then
        (case btt_info_read_verify bttc (offset + off) of
           Inr sb1 \<Rightarrow> btt_write_info bttc sb1 off
         | Inl rc \<Rightarrow> (rc, bttc))
      else (- ENXIO, bttc))"

definition recover_first_sb_at :: "btt_chk \<Rightarrow> int \<Rightarrow> int \<times> btt_chk" where
  "recover_first_sb_at bttc off =
     (let uoff = word_of_int off in
      case estimate_arenas (bc_rawsize bttc - uoff) 0 of
        Inl rc \<Rightarrow> (rc, bttc)
      | Inr (est_arenas, remaining) \<Rightarrow>
      if \<not> bc_calloc_ok bttc Alloc_sb_pair then (- ENOMEM, bttc) else
      (case btt_read_info bttc uoff of
        Inl rc \<Rightarrow> (rc, bttc)
      | Inr sb0 \<Rightarrow>
      let last = (bc_rawsize bttc - remaining) - (bc_rawsize bttc - remaining) mod 4096 - 4096;
          offset = (if est_arenas = 1 then last else ARENA_MAX_SIZE - 4096 + uoff) in
      (case btt_info_read_verify bttc offset of
        Inr sb1 \<Rightarrow>
          (let expected_offset = btt_sb_get_expected_offset sb1 in
           if expected_offset < 0 \<or> expected_offset \<noteq> off then (- ENXIO, bttc)
           else btt_write_info bttc sb1 uoff)
      | Inl _ \<Rightarrow>
          if est_arenas > 1 then
            (case btt_info_read_verify bttc last of
              Inl rc \<Rightarrow> (rc, bttc)
            | Inr sb1 \<Rightarrow>
                let sb1' = copy_arena0_fields sb1 sb0 in
                if btt_info_verify bttc sb1' = 0 then btt_write_info bttc sb1' uoff
                else recover_attempt3 bttc sb0 uoff)
          else recover_attempt3 bttc sb0 uoff)))"

definition btt_recover_first_sb :: "btt_chk \<Rightarrow> int \<times> btt_chk" where
  "btt_recover_first_sb bttc =
     (case recover_first_sb_at bttc BTT1_START_OFFSET of (rc, bttc1) \<Rightarrow>
      if rc = 0 then (rc, bttc1\<lparr>bc_start_off := BTT1_START_OFFSET\<rparr>)
      else case recover_first_sb_at bttc1 BTT2_START_OFFSET of (rc, bttc2) \<Rightarrow>
        if rc = 0 then (rc, bttc2\<lparr>bc_start_off := BTT2_START_OFFSET\<rparr>) else (rc, bttc2))"

end
