(* ===== verification/Btt_Check.thy ===== *)
theory Btt_Check
  imports Btt_Model
begin

text \<open>
  Correctness of the checks of \<open>ndctl/check.c\<close>: what a zero return of each check means, what a repair
  writes, and that the map and the log together name every internal block exactly once when the
  bitmap check passes.  The marking loop is an instance of the locale \<open>bit_marker\<close>; the map of an
  arena is an instance of the locale \<open>block_map\<close> below.
\<close>

subsection \<open>Index ranges\<close>

lemma set_u32_range [simp]: "set (u32_range n) = {..<n}"
proof
  show "set (u32_range n) \<subseteq> {..<n}"
    by (auto simp: u32_range_def word_less_nat_alt intro: le_less_trans [OF unat_le_of_nat])
next
  show "{..<n} \<subseteq> set (u32_range n)"
  proof
    fix x assume "x \<in> {..<n}"
    then have "unat x < unat n" by (simp add: word_less_nat_alt)
    then show "x \<in> set (u32_range n)"
      by (auto simp: u32_range_def intro!: image_eqI [of _ _ "unat x"])
  qed
qed

lemma length_u32_range [simp]: "length (u32_range n) = unat n"
  by (simp add: u32_range_def)

lemma bij_unat_below: "bij_betw unat {..<n :: u32} {..<unat n}"
proof (rule bij_betwI')
  fix k assume "k \<in> {..<unat n}"
  moreover have "unat n < 2 ^ 32" using unat_u32_less [of n] by simp
  ultimately have "unat (of_nat k :: u32) = k" by (simp add: unat_of_nat take_bit_nat_eq_self)
  with \<open>k \<in> {..<unat n}\<close> show "\<exists>x \<in> {..<n}. k = unat x"
    by (intro bexI [of _ "of_nat k"]) (auto simp: word_less_nat_alt)
qed (auto simp: word_less_nat_alt word_unat_eq_iff)

lemma card_u32_below [simp]: "card {..<n :: u32} = unat n"
  using bij_betw_same_card [OF bij_unat_below [of n]] by simp

lemma distinct_u32_range [simp]: "distinct (u32_range n)"
  by (rule card_distinct) simp

subsection \<open>What the bounds checks establish\<close>

text \<open>A lane is well formed when its two live slots have distinct sequence numbers of at most 3, and
  the newer entry refers to existing blocks.\<close>

definition lane_seqs_ok :: "btt_chk \<Rightarrow> arena_info \<Rightarrow> u32 \<Rightarrow> bool" where
  "lane_seqs_ok bttc a i =
     (let log = btt_log_group_read bttc a i;
          s0 = log_seq log (fst (ai_log_index a)); s1 = log_seq log (snd (ai_log_index a))
      in s0 \<noteq> s1 \<and> s0 \<le> 3 \<and> s1 \<le> 3)"

definition lane_entry_ok :: "btt_chk \<Rightarrow> arena_info \<Rightarrow> u32 \<Rightarrow> bool" where
  "lane_entry_ok bttc a i =
     (let ent = btt_log_read bttc a i
      in lg_lba ent < ai_external_nlba a \<and> lg_old_map ent < ai_internal_nlba a \<and>
         lg_new_map ent < ai_internal_nlba a)"

lemma check_log_seqs_iff: "check_log_seqs bttc a is = 0 \<longleftrightarrow> (\<forall>i \<in> set is. lane_seqs_ok bttc a i)"
  by (induction "is") (auto simp: lane_seqs_ok_def Let_def not_less)

lemma check_log_bounds_iff: "check_log_bounds bttc a is = 0 \<longleftrightarrow> (\<forall>i \<in> set is. lane_entry_ok bttc a i)"
  by (induction "is") (auto simp: lane_entry_ok_def Let_def not_le)

lemma check_map_bounds_iff:
  "check_map_bounds bttc a is = 0 \<longleftrightarrow> (\<forall>i \<in> set is. btt_map_lookup bttc a i < ai_internal_nlba a)"
  by (induction "is") (auto simp: not_le)

definition log_wf :: "btt_chk \<Rightarrow> arena_info \<Rightarrow> bool" where
  "log_wf bttc a = (\<forall>i < ai_nfree a. lane_seqs_ok bttc a i \<and> lane_entry_ok bttc a i)"

definition map_wf :: "btt_chk \<Rightarrow> arena_info \<Rightarrow> bool" where
  "map_wf bttc a = (\<forall>i < ai_external_nlba a. btt_map_lookup bttc a i < ai_internal_nlba a)"

lemma btt_check_log_entries_iff: "btt_check_log_entries bttc a = 0 \<longleftrightarrow> log_wf bttc a"
  by (auto simp: btt_check_log_entries_def Let_def log_wf_def check_log_seqs_iff check_log_bounds_iff)

lemma btt_check_map_entries_iff: "btt_check_map_entries bttc a = 0 \<longleftrightarrow> map_wf bttc a"
  by (simp add: btt_check_map_entries_def map_wf_def check_map_bounds_iff Ball_def)

subsection \<open>The bitmap check\<close>

interpretation mk: bit_marker "\<lambda>m k. bitmap_set m k 1" "\<lambda>m k. test_bit k m \<noteq> 0"
  bitmap_keys bitmap_room btt_bitmap_mark
  by unfold_locales simp_all

text \<open>The internal blocks the arena's metadata names: by the map, then free ones by the log.\<close>

definition map_refs :: "btt_chk \<Rightarrow> arena_info \<Rightarrow> u32 list" where
  "map_refs bttc a = map (btt_map_lookup bttc a) (u32_range (ai_external_nlba a))"

definition free_refs :: "btt_chk \<Rightarrow> arena_info \<Rightarrow> u32 list" where
  "free_refs bttc a = map (\<lambda>i. lg_old_map (btt_log_read bttc a i)) (u32_range (ai_nfree a))"

definition blocks_partitioned :: "btt_chk \<Rightarrow> arena_info \<Rightarrow> bool" where
  "blocks_partitioned bttc a =
     (distinct (map_refs bttc a @ free_refs bttc a) \<and>
      set (map_refs bttc a @ free_refs bttc a) = {..<ai_internal_nlba a})"

lemma refs_in_bounds:
  "map_wf bttc a \<Longrightarrow> log_wf bttc a \<Longrightarrow> set (map_refs bttc a @ free_refs bttc a) \<subseteq> {..<ai_internal_nlba a}"
  by (auto simp: map_wf_def log_wf_def map_refs_def free_refs_def lane_entry_ok_def Let_def)

lemma alloc_room: "{..<n} \<subseteq> bitmap_room (bitmap_alloc (ucast (n :: u32)))"
proof -
  have "unat n \<le> 2 ^ 63"
    using unat_u32_less [of n] by simp
  then have "unat n \<le> 64 * length (bitmap_alloc (ucast n))"
    using bitmap_alloc_fits [of "ucast n"] by simp
  then show ?thesis by (auto simp: bitmap_room_def word_less_nat_alt)
qed

lemma alloc_keys [simp]: "bitmap_keys (bitmap_alloc n) = {}"
  by (auto simp: bitmap_keys_def bitmap_alloc_bits)

lemma mark_append:
  "btt_bitmap_mark (ks @ ls) m =
     (case btt_bitmap_mark ks m of None \<Rightarrow> None | Some m' \<Rightarrow> btt_bitmap_mark ls m')"
  by (induction ks arbitrary: m) auto

lemma bitmap_full_keys:
  assumes "{..<n} \<subseteq> bitmap_room m"
  shows "bitmap_full m n \<longleftrightarrow> {i. Suc (unat i) < unat n} \<subseteq> bitmap_keys m"
proof -
  have "bitmap_full m n \<longleftrightarrow> (\<forall>i. Suc (unat i) < unat n \<longrightarrow> bitmap_bit m (unat (i :: u32)))"
    unfolding bitmap_full_iff
  proof (intro iffI allI impI)
    fix k assume *: "\<forall>i. Suc (unat i) < unat n \<longrightarrow> bitmap_bit m (unat (i :: u32))" and "Suc k < unat n"
    then have "k \<in> unat ` {..<n}"
      using bij_betw_imp_surj_on [OF bij_unat_below [of n]] by auto
    with * \<open>Suc k < unat n\<close> show "bitmap_bit m k" by blast
  qed auto
  then show ?thesis using assms
    by (auto simp: bitmap_keys_def bitmap_room_def word_less_nat_alt subset_iff)
qed

text \<open>Pigeonhole: \<open>external_nlba + nfree\<close> distinct blocks below \<open>internal_nlba\<close> are all of them.  (The
  subtraction \<open>btt_parse_meta\<close> tests is modulo \<open>2 ^ 32\<close>; an arena with \<open>external_nlba > internal_nlba\<close>
  passes that test but not the bitmap check.)\<close>

lemma refs_cover:
  assumes nf: "ai_internal_nlba a - ai_external_nlba a = ai_nfree a"
    and sub: "set (map_refs bttc a @ free_refs bttc a) \<subseteq> {..<ai_internal_nlba a}"
    and dist: "distinct (map_refs bttc a @ free_refs bttc a)"
  shows "set (map_refs bttc a @ free_refs bttc a) = {..<ai_internal_nlba a}"
proof (rule card_subset_eq [OF _ sub])
  have len: "length (map_refs bttc a @ free_refs bttc a) = unat (ai_external_nlba a) + unat (ai_nfree a)"
    by (simp add: map_refs_def free_refs_def)
  have "unat (ai_external_nlba a) + unat (ai_nfree a) \<le> unat (ai_internal_nlba a)"
    using card_mono [OF _ sub] distinct_card [OF dist] len by simp
  moreover from this have "unat (ai_internal_nlba a) = unat (ai_external_nlba a) + unat (ai_nfree a)"
    using unat_u32_less [of "ai_external_nlba a"] by (auto simp: nf [symmetric] unat_sub_if' split: if_splits)
  ultimately show "card (set (map_refs bttc a @ free_refs bttc a)) = card {..<ai_internal_nlba a}"
    using distinct_card [OF dist] len by simp
qed simp

lemma btt_check_bitmap_iff:
  assumes al: "bc_calloc_ok bttc Alloc_bitmap" and wf: "map_wf bttc a" "log_wf bttc a"
    and nf: "ai_internal_nlba a - ai_external_nlba a = ai_nfree a"
  shows "btt_check_bitmap bttc a = 0 \<longleftrightarrow> ai_nfree a \<noteq> 0 \<and> blocks_partitioned bttc a"
proof -
  let ?n = "ai_internal_nlba a" and ?refs = "map_refs bttc a @ free_refs bttc a"
  let ?bm = "bitmap_alloc (ucast ?n)"
  have sub: "set ?refs \<subseteq> {..<?n}" by (rule refs_in_bounds [OF wf])
  have room: "set ?refs \<subseteq> bitmap_room ?bm" using sub alloc_room by blast
  have unf: "btt_check_bitmap bttc a = (case btt_bitmap_mark ?refs ?bm of
      None \<Rightarrow> BTT_BITMAP_ERROR
    | Some m \<Rightarrow> if \<not> bitmap_full m ?n \<or> ai_nfree a = 0 then BTT_BITMAP_ERROR else 0)"
    using al by (simp add: btt_check_bitmap_def mark_append map_refs_def free_refs_def Let_def
        split: option.splits)
  show ?thesis
  proof (cases "btt_bitmap_mark ?refs ?bm")
    case None
    with mk.mark_fails_iff [OF room] have "\<not> distinct ?refs" by simp
    with None show ?thesis unfolding unf blocks_partitioned_def by (auto simp del: distinct_append)
  next
    case (Some m)
    have dist: "distinct ?refs" using mk.mark_fails_iff [OF room] Some by simp
    have cover: "set ?refs = {..<?n}" by (rule refs_cover [OF nf sub dist])
    have m: "bitmap_keys m = set ?refs" "bitmap_room m = bitmap_room ?bm"
      using mk.mark_Some [OF room Some] by simp_all
    have "bitmap_full m ?n"
      using bitmap_full_keys [of ?n m] alloc_room [of ?n] m cover by (auto simp: word_less_nat_alt)
    with Some dist cover show ?thesis unfolding unf by (simp add: blocks_partitioned_def)
  qed
qed

subsection \<open>Regions of an arena, and what a step writes\<close>

definition map_region :: "arena_info \<Rightarrow> nat set" where
  "map_region a = {unat (ai_mapoff a)..<unat (ai_mapoff a) + 4 * unat (ai_external_nlba a)}"

definition log_region :: "arena_info \<Rightarrow> nat set" where
  "log_region a = {unat (ai_logoff a)..<unat (ai_logoff a) + 64 * unat (ai_nfree a)}"

definition info_region :: "arena_info \<Rightarrow> nat set" where
  "info_region a = {unat (ai_infooff a)..<unat (ai_infooff a) + 4096}"

definition info2_region :: "arena_info \<Rightarrow> nat set" where
  "info2_region a = {unat (ai_info2off a)..<unat (ai_info2off a) + 4096}"

text \<open>The layout of an arena as the kernel lays it out: the metadata regions do not overlap, and a block
  number fits beside the two flag bits of a map entry.\<close>

definition regions_apart :: "nat \<Rightarrow> nat \<Rightarrow> nat \<Rightarrow> nat \<Rightarrow> bool" where
  "regions_apart o1 n1 o2 n2 = (o1 + n1 \<le> o2 \<or> o2 + n2 \<le> o1)"

definition arena_layout :: "arena_info \<Rightarrow> bool" where
  "arena_layout a =
     (let mo = unat (ai_mapoff a); ml = 4 * unat (ai_external_nlba a);
          lo = unat (ai_logoff a); ll = 64 * unat (ai_nfree a);
          io = unat (ai_infooff a); i2 = unat (ai_info2off a)
      in regions_apart mo ml lo ll \<and> regions_apart mo ml io 4096 \<and> regions_apart mo ml i2 4096 \<and>
         regions_apart lo ll io 4096 \<and> regions_apart lo ll i2 4096 \<and> regions_apart io 4096 i2 4096 \<and>
         unat (ai_internal_nlba a) \<le> 2 ^ 30)"

lemma regions_apart_disjoint: "regions_apart o1 n1 o2 n2 \<Longrightarrow> {o1..<o1 + n1} \<inter> {o2..<o2 + n2} = {}"
  by (auto simp: regions_apart_def)

lemma arena_layout_disjoint:
  assumes "arena_layout a"
  shows "map_region a \<inter> log_region a = {}" and "map_region a \<inter> info_region a = {}"
    and "map_region a \<inter> info2_region a = {}" and "log_region a \<inter> info_region a = {}"
    and "log_region a \<inter> info2_region a = {}" and "info_region a \<inter> info2_region a = {}"
  using assms
  unfolding arena_layout_def Let_def map_region_def log_region_def info_region_def info2_region_def
  by (simp_all only: regions_apart_disjoint)

text \<open>\<open>dev_writes R s s'\<close>: \<open>s'\<close> differs from \<open>s\<close> at most in the device bytes of \<open>R\<close>.\<close>

definition dev_writes :: "nat set \<Rightarrow> btt_chk \<Rightarrow> btt_chk \<Rightarrow> bool" where
  "dev_writes R s s' =
     (\<exists>m. s' = s\<lparr>bc_dev := (bc_dev s)\<lparr>bd_data := m\<rparr>\<rparr> \<and>
          (\<forall>x. x \<notin> R \<longrightarrow> m x = bd_data (bc_dev s) x))"

lemma dev_writes_refl [simp]: "dev_writes R s s"
  by (auto simp: dev_writes_def intro!: exI [of _ "bd_data (bc_dev s)"])

lemma dev_writes_trans: "dev_writes R s s' \<Longrightarrow> dev_writes R s' s'' \<Longrightarrow> dev_writes R s s''"
  by (auto simp: dev_writes_def)

lemma dev_writes_mono: "dev_writes R s s' \<Longrightarrow> R \<subseteq> R' \<Longrightarrow> dev_writes R' s s'"
  unfolding dev_writes_def by blast

lemma dev_writesD:
  assumes "dev_writes R s s'"
  shows "bc_opts s' = bc_opts s" and "bc_calloc_ok s' = bc_calloc_ok s" and "bc_arena s' = bc_arena s"
    and "bc_parent_uuid s' = bc_parent_uuid s" and "bc_rawsize s' = bc_rawsize s"
    and "x \<notin> R \<Longrightarrow> bd_data (bc_dev s') x = bd_data (bc_dev s) x"
  using assms by (auto simp: dev_writes_def)

lemma log_read_cong:
  assumes "\<And>x. x \<in> log_region a \<Longrightarrow> bd_data (bc_dev s') x = bd_data (bc_dev s) x" and "i < ai_nfree a"
  shows "btt_log_group_read s' a i = btt_log_group_read s a i"
proof -
  have "log_addr a i j + k \<in> log_region a" if "j < 4" "k < 16" for j k
    using that assms(2) by (simp add: log_region_def log_addr_def word_less_nat_alt)
  then have "log_entry_get (bd_data (bc_dev s')) (log_addr a i j)
      = log_entry_get (bd_data (bc_dev s)) (log_addr a i j)" if "j < 4" for j
    using that assms(1) unfolding log_entry_get_def
    by (simp add: add.assoc) (intro conjI le_get_cong; simp add: add.assoc)
  then show ?thesis by (simp add: btt_log_group_read_def)
qed

lemma map_lookup_cong:
  assumes "\<And>x. x \<in> map_region a \<Longrightarrow> bd_data (bc_dev s') x = bd_data (bc_dev s) x"
    and "i < ai_external_nlba a"
  shows "btt_map_lookup s' a i = btt_map_lookup s a i"
proof -
  have "map_addr a i + k \<in> map_region a" if "k < 4" for k
    using that assms(2) by (simp add: map_region_def map_addr_def word_less_nat_alt)
  then have "le_get 4 (bd_data (bc_dev s')) (map_addr a i) = (le_get 4 (bd_data (bc_dev s)) (map_addr a i) :: u32)"
    using assms(1) by (intro le_get_cong) simp
  then show ?thesis by (simp add: btt_map_lookup_def)
qed

lemma log_frame:
  assumes "dev_writes R s s'" and "R \<inter> log_region a = {}" and "i < ai_nfree a"
  shows "btt_log_group_read s' a i = btt_log_group_read s a i"
    and "btt_log_read s' a i = btt_log_read s a i"
proof -
  show "btt_log_group_read s' a i = btt_log_group_read s a i"
    by (rule log_read_cong) (use assms in \<open>auto dest: dev_writesD(6)\<close>)
  then show "btt_log_read s' a i = btt_log_read s a i"
    by (simp add: btt_log_read_def)
qed

lemma log_wf_frame:
  "dev_writes R s s' \<Longrightarrow> R \<inter> log_region a = {} \<Longrightarrow> log_wf s' a = log_wf s a"
  by (simp add: log_wf_def lane_seqs_ok_def lane_entry_ok_def log_frame cong: imp_cong)

lemma map_frame:
  assumes "dev_writes R s s'" and "R \<inter> map_region a = {}" and "i < ai_external_nlba a"
  shows "btt_map_lookup s' a i = btt_map_lookup s a i"
  by (rule map_lookup_cong) (use assms in \<open>auto dest: dev_writesD(6)\<close>)

subsection \<open>Map entries\<close>

lemma bit_map_ent_normal: "bit MAP_ENT_NORMAL n = (n = 30 \<or> n = 31)"
proof -
  have e: "MAP_ENT_NORMAL = push_bit 30 1 OR push_bit 31 1"
    by (simp add: MAP_ENT_NORMAL_def)
  have "bit MAP_ENT_NORMAL n = (bit (push_bit 30 1 :: u32) n \<or> bit (push_bit 31 1 :: u32) n)"
    unfolding e by (rule bit_or_iff)
  also have "\<dots> = (n = 30 \<or> n = 31)"
    by (simp only: bit_push_bit_iff bit_1_iff) auto
  finally show ?thesis .
qed

lemma bit_map_lba_mask: "bit MAP_LBA_MASK n = (n < 30)"
proof -
  have "bit MAP_LBA_MASK n = (n < 32 \<and> n \<noteq> 30 \<and> n \<noteq> 31)"
    by (simp only: MAP_LBA_MASK_def bit_not_iff bit_or_iff bit_push_bit_iff bit_1_iff) auto
  then show ?thesis by auto
qed

lemma bits_below_30:
  assumes "unat (w :: u32) < 2 ^ 30" and "bit w n"
  shows "n < 30"
proof -
  have "take_bit 30 w = w"
    using assms(1) by (simp add: word_unat_eq_iff unsigned_take_bit_eq take_bit_nat_eq_self)
  with assms(2) show ?thesis by (metis bit_take_bit_iff)
qed

lemma map_entry_decode:
  assumes "unat (w :: u32) < 2 ^ 30"
  shows "(w OR MAP_ENT_NORMAL) AND MAP_LBA_MASK = w" and "(w OR MAP_ENT_NORMAL) AND MAP_ENT_NORMAL \<noteq> 0"
proof -
  show "(w OR MAP_ENT_NORMAL) AND MAP_LBA_MASK = w"
    by (rule bit_word_eqI)
       (auto simp: bit_and_iff bit_or_iff bit_map_ent_normal bit_map_lba_mask dest: bits_below_30 [OF assms])
  have "bit ((w OR MAP_ENT_NORMAL) AND MAP_ENT_NORMAL) 30"
    by (simp add: bit_and_iff bit_or_iff bit_map_ent_normal)
  then show "(w OR MAP_ENT_NORMAL) AND MAP_ENT_NORMAL \<noteq> 0"
    by (metis bit_0_eq bot_apply bot_bool_def)
qed

lemma map_ent_normal_nonzero [simp]: "MAP_ENT_NORMAL \<noteq> 0"
  by (simp add: MAP_ENT_NORMAL_def)

lemma map_write_lookup:
  assumes "co_repair (bc_opts s)" and "unat v < 2 ^ 30"
  shows "btt_map_lookup (snd (btt_map_write s a k v)) a k' = (if k' = k then v else btt_map_lookup s a k')"
proof (cases "k' = k")
  case True
  with assms show ?thesis
    by (simp add: btt_map_lookup_def btt_map_write_def Let_def le_get_put_same map_entry_decode)
next
  case False
  then have "map_addr a k' + 4 \<le> map_addr a k \<or> map_addr a k + 4 \<le> map_addr a k'"
    by (simp add: map_addr_def word_unat_eq_iff) linarith
  with False assms show ?thesis
    by (simp add: btt_map_lookup_def btt_map_write_def Let_def le_get_put_disj)
qed

lemma map_write_writes:
  assumes "k < ai_external_nlba a"
  shows "dev_writes (map_region a) s (snd (btt_map_write s a k v))"
proof (cases "co_repair (bc_opts s)")
  case True
  with assms show ?thesis
    by (auto simp: dev_writes_def btt_map_write_def Let_def map_region_def map_addr_def
        word_less_nat_alt le_put_out)
qed (simp add: btt_map_write_def)

subsection \<open>Replaying the log into the map\<close>

text \<open>The specification of the repair: an entry whose old block is still what the map holds is an
  interrupted write, and completing it stores the new block.\<close>

primrec replay :: "('k \<times> 'v \<times> 'v) list \<Rightarrow> ('k \<Rightarrow> 'v) \<Rightarrow> ('k \<Rightarrow> 'v)" where
  "replay [] m = m"
| "replay (e # es) m =
     (case e of (k, old, new) \<Rightarrow> replay es (if m k = old then m(k := new) else m))"

text \<open>A map with a journal beside it: what the repair loop needs of the accessors.\<close>

locale journaled_map =
  fixes look :: "'s \<Rightarrow> 'k \<Rightarrow> 'v"
    and wr :: "'s \<Rightarrow> 'k \<Rightarrow> 'v \<Rightarrow> 's"
    and ent :: "'s \<Rightarrow> 'l \<Rightarrow> 'k \<times> 'v \<times> 'v"
    and wf :: "'s \<Rightarrow> bool"
    and lanes :: "'s \<Rightarrow> 'l set"
    and keys :: "'s \<Rightarrow> 'k set"
    and vals :: "'s \<Rightarrow> 'v set"
  assumes look_wr: "wf s \<Longrightarrow> k \<in> keys s \<Longrightarrow> v \<in> vals s \<Longrightarrow>
      look (wr s k v) k' = (if k' = k then v else look s k')"
    and ent_wr: "wf s \<Longrightarrow> k \<in> keys s \<Longrightarrow> l \<in> lanes s \<Longrightarrow> ent (wr s k v) l = ent s l"
    and wf_wr: "wf s \<Longrightarrow> k \<in> keys s \<Longrightarrow> wf (wr s k v)"
    and frame_wr: "lanes (wr s k v) = lanes s" "keys (wr s k v) = keys s" "vals (wr s k v) = vals s"
    and ent_ok: "wf s \<Longrightarrow> l \<in> lanes s \<Longrightarrow> ent s l = (k, old, new) \<Longrightarrow> k \<in> keys s \<and> new \<in> vals s"

locale journal_replay = journaled_map look wr ent wf lanes keys vals
  for look :: "'s \<Rightarrow> 'k \<Rightarrow> 'v" and wr :: "'s \<Rightarrow> 'k \<Rightarrow> 'v \<Rightarrow> 's" and ent :: "'s \<Rightarrow> 'l \<Rightarrow> 'k \<times> 'v \<times> 'v"
    and wf :: "'s \<Rightarrow> bool" and lanes :: "'s \<Rightarrow> 'l set" and keys :: "'s \<Rightarrow> 'k set"
    and vals :: "'s \<Rightarrow> 'v set" +
  fixes run :: "'l list \<Rightarrow> 's \<Rightarrow> 's"
  assumes run_Nil: "run [] s = s"
    and run_Cons: "ent s l = (k, old, new) \<Longrightarrow>
      run (l # ls) s = run ls (if new \<noteq> look s k \<and> old = look s k then wr s k new else s)"
begin

lemma run_step:
  assumes "wf s" and "l \<in> lanes s" and "ent s l = (k, old, new)"
  obtains s' where "run (l # ls) s = run ls s'" and "wf s'" and "lanes s' = lanes s" and "keys s' = keys s"
    and "vals s' = vals s" and "\<And>i. i \<in> lanes s \<Longrightarrow> ent s' i = ent s i"
    and "look s' = (if look s k = old then (look s)(k := new) else look s)"
proof (cases "new \<noteq> look s k \<and> old = look s k")
  case True
  have "k \<in> keys s" and "new \<in> vals s" using ent_ok [OF assms] by auto
  moreover from this have "look (wr s k new) = (look s)(k := new)"
    using look_wr [OF assms(1)] by (auto simp: fun_upd_def)
  ultimately show thesis using True that [of "wr s k new"] assms
    by (simp add: run_Cons frame_wr wf_wr ent_wr)
next
  case False
  with that [of s] assms show thesis by (auto simp: run_Cons fun_upd_idem)
qed

lemma run_replay:
  "wf s \<Longrightarrow> set ls \<subseteq> lanes s \<Longrightarrow>
    look (run ls s) = replay (map (ent s) ls) (look s) \<and> wf (run ls s) \<and>
    lanes (run ls s) = lanes s \<and> keys (run ls s) = keys s \<and> vals (run ls s) = vals s \<and>
    (\<forall>i \<in> lanes s. ent (run ls s) i = ent s i)"
proof (induction ls arbitrary: s)
  case Nil
  then show ?case by (simp add: run_Nil)
next
  case (Cons l ls)
  obtain k old new where e: "ent s l = (k, old, new)" by (cases "ent s l") auto
  from Cons.prems have "l \<in> lanes s" by simp
  with Cons.prems(1) e obtain s' where s': "run (l # ls) s = run ls s'" "wf s'" "lanes s' = lanes s"
    "keys s' = keys s" "vals s' = vals s" "\<And>i. i \<in> lanes s \<Longrightarrow> ent s' i = ent s i"
    "look s' = (if look s k = old then (look s)(k := new) else look s)"
    by (metis run_step)
  have m: "map (ent s') ls = map (ent s) ls" using Cons.prems s'(6) by auto
  have "set ls \<subseteq> lanes s'" using Cons.prems s'(3) by simp
  from Cons.IH [OF s'(2) this] show ?case
    unfolding s'(1) m s'(3-5,7) using s'(6) by (simp add: e)
qed

end

text \<open>The keys a replay changes hold an entry's new block.\<close>

lemma replay_cases:
  "replay es m k = m k \<or> (\<exists>old new. (k, old, new) \<in> set es \<and> replay es m k = new)"
proof (induction es arbitrary: m)
  case Nil
  then show ?case by simp
next
  case (Cons e es)
  obtain k' old new where e: "e = (k', old, new)" by (cases e) auto
  from Cons.IH [of "if m k' = old then m(k' := new) else m"] show ?case
    by (auto simp: e split: if_splits)
qed

definition journal_entry :: "btt_chk \<Rightarrow> arena_info \<Rightarrow> u32 \<Rightarrow> u32 \<times> u32 \<times> u32" where
  "journal_entry bttc a i =
     (let e = btt_log_read bttc a i in (lg_lba e, lg_old_map e, lg_new_map e))"

definition repairable :: "btt_chk \<times> arena_info \<Rightarrow> bool" where
  "repairable = (\<lambda>(s, a). co_repair (bc_opts s) \<and> arena_layout a \<and> log_wf s a)"

lemma check_log_map_loop_rc: "snd (check_log_map_loop s a is rc) = snd (check_log_map_loop s a is 0)"
proof (induction "is" arbitrary: s rc)
  case Nil
  then show ?case by simp
next
  case (Cons i "is")
  show ?case
    by (simp add: Let_def split: prod.splits) (metis Cons.IH)
qed

lemma check_log_map_loop_step:
  assumes "journal_entry s a i = (k, old, new)"
  shows "snd (check_log_map_loop s a (i # is) rc) =
    snd (check_log_map_loop (if new \<noteq> btt_map_lookup s a k \<and> old = btt_map_lookup s a k
                             then snd (btt_map_write s a k new) else s) a is 0)"
proof (cases "btt_map_write s a k new")
  case (Pair rc' s')
  with assms show ?thesis
    by (auto simp: journal_entry_def Let_def) (rule check_log_map_loop_rc)+
qed

interpretation jm: journal_replay
  "\<lambda>(s, a). btt_map_lookup s a" "\<lambda>(s, a) k v. (snd (btt_map_write s a k v), a)"
  "\<lambda>(s, a). journal_entry s a" repairable "\<lambda>(s, a). {..<ai_nfree a}"
  "\<lambda>(s, a). {..<ai_external_nlba a}" "\<lambda>(s, a). {v. unat v < 2 ^ 30}"
  "\<lambda>is (s, a). (snd (check_log_map_loop s a is 0), a)"
proof (unfold_locales, goal_cases)
  case (1 s k v k')
  then show ?case by (auto simp: repairable_def map_write_lookup split: prod.splits)
next
  case (2 s k l v)
  then show ?case
    using arena_layout_disjoint(1) [of "snd s"]
    by (auto simp: repairable_def journal_entry_def log_frame(2) [OF map_write_writes])
next
  case (3 s k v)
  then show ?case
    using arena_layout_disjoint(1) [of "snd s"]
    by (auto simp: repairable_def log_wf_frame [OF map_write_writes] dev_writesD(1) [OF map_write_writes])
next
  case (7 s l k old new)
  then show ?case
    by (auto simp: repairable_def log_wf_def lane_entry_ok_def journal_entry_def Let_def
        arena_layout_def word_less_nat_alt split: prod.splits)
next
  case (9 s l k old new ls)
  then show ?case
    by (cases s) (simp add: check_log_map_loop_step del: check_log_map_loop.simps)
qed (auto split: prod.splits)

subsection \<open>Repairing the log/map and the second info block\<close>

lemma log_map_loop_writes:
  "arena_layout a \<Longrightarrow> log_wf s a \<Longrightarrow> set is \<subseteq> {..<ai_nfree a} \<Longrightarrow>
    dev_writes (map_region a) s (snd (check_log_map_loop s a is rc))"
proof (induction "is" arbitrary: s rc)
  case Nil
  then show ?case by simp
next
  case (Cons i "is")
  obtain k old new where e: "journal_entry s a i = (k, old, new)" by (cases "journal_entry s a i") auto
  have k: "k < ai_external_nlba a"
    using Cons.prems e by (auto simp: log_wf_def lane_entry_ok_def journal_entry_def Let_def)
  let ?s = "if new \<noteq> btt_map_lookup s a k \<and> old = btt_map_lookup s a k
            then snd (btt_map_write s a k new) else s"
  have w: "dev_writes (map_region a) s ?s" using map_write_writes [OF k] by simp
  have "log_wf ?s a"
    using log_wf_frame [OF w] arena_layout_disjoint(1) [OF Cons.prems(1)] Cons.prems(2) by simp
  then have "dev_writes (map_region a) ?s (snd (check_log_map_loop ?s a is 0))"
    using Cons.IH [of ?s 0] Cons.prems by simp
  then show ?case
    unfolding check_log_map_loop_step [OF e] by (rule dev_writes_trans [OF w])
qed

lemma check_log_map_state:
  "snd (btt_check_log_map s a) = snd (check_log_map_loop s a (u32_range (ai_nfree a)) 0)"
  by (simp add: btt_check_log_map_def split: prod.splits)

lemma check_log_map_writes:
  "arena_layout a \<Longrightarrow> log_wf s a \<Longrightarrow> dev_writes (map_region a) s (snd (btt_check_log_map s a))"
  unfolding check_log_map_state by (rule log_map_loop_writes) auto

lemma check_log_map_replay:
  assumes "co_repair (bc_opts s)" and "arena_layout a" and "log_wf s a"
  shows "btt_map_lookup (snd (btt_check_log_map s a)) a =
    replay (map (journal_entry s a) (u32_range (ai_nfree a))) (btt_map_lookup s a)"
  using jm.run_replay [of "(s, a)" "u32_range (ai_nfree a)"] assms
  by (simp add: repairable_def check_log_map_state)

lemma check_log_map_wf:
  assumes "arena_layout a" and "log_wf s a" and "map_wf s a"
  shows "map_wf (snd (btt_check_log_map s a)) a"
proof (cases "co_repair (bc_opts s)")
  case True
  have new: "new < ai_internal_nlba a"
    if "(k, old, new) \<in> set (map (journal_entry s a) (u32_range (ai_nfree a)))" for k old new
    using that assms(2) by (auto simp: log_wf_def lane_entry_ok_def journal_entry_def Let_def)
  show ?thesis unfolding map_wf_def check_log_map_replay [OF True assms(1,2)]
  proof (intro allI impI)
    fix k assume "k < ai_external_nlba a"
    then have "btt_map_lookup s a k < ai_internal_nlba a" using assms(3) by (simp add: map_wf_def)
    with replay_cases [of "map (journal_entry s a) (u32_range (ai_nfree a))" "btt_map_lookup s a" k] new
    show "replay (map (journal_entry s a) (u32_range (ai_nfree a))) (btt_map_lookup s a) k < ai_internal_nlba a"
      by metis
  qed
next
  case False
  have "snd (check_log_map_loop s a is rc) = s" for "is" rc
    using False by (induction "is" arbitrary: rc) (auto simp: btt_map_write_def Let_def)
  with assms show ?thesis by (simp add: check_log_map_state)
qed

lemma check_info2_writes: "dev_writes (info2_region a) s (snd (btt_check_info2 s a))"
  by (auto simp: dev_writes_def btt_check_info2_def btt_copy_to_info2_def Let_def info2_region_def mem_copy_def
      intro: exI [of _ "bd_data (bc_dev s)"])

lemma check_info2_equal:
  assumes "co_repair (bc_opts s)" and "arena_layout a" and "i < 4096"
  defines "m \<equiv> bd_data (bc_dev (snd (btt_check_info2 s a)))"
  shows "m (unat (ai_info2off a) + i) = m (unat (ai_infooff a) + i)"
proof -
  have "unat (ai_infooff a) + i \<in> info_region a"
    using assms(3) by (simp add: info_region_def)
  then have "unat (ai_infooff a) + i \<notin> info2_region a"
    using arena_layout_disjoint(6) [OF assms(2)] by blast
  then show ?thesis using assms(1,3)
    by (auto simp: m_def btt_check_info2_def btt_copy_to_info2_def Let_def mem_copy_def mem_eq_iff
        info2_region_def)
qed

subsection \<open>Rewriting the log\<close>

lemma log_entry_get_put_same [simp]: "log_entry_get (log_entry_put e m ofs) ofs = e"
  by (simp add: log_entry_get_def log_entry_put_def le_get_put_same le_get_put_disj)

lemma log_entry_get_put_disj [simp]:
  "o1 + 16 \<le> o2 \<or> o2 + 16 \<le> o1 \<Longrightarrow> log_entry_get (log_entry_put e m o2) o1 = log_entry_get m o1"
  by (auto simp: log_entry_get_def log_entry_put_def le_get_put_disj)

lemma log_entry_put_out: "x < ofs \<or> ofs + 16 \<le> x \<Longrightarrow> log_entry_put e m ofs x = m x"
  by (auto simp: log_entry_put_def le_put_out)

lemma group_read_write:
  assumes "length log = 4"
  shows "btt_log_group_read (btt_log_group_write s a i log) a j =
    (if j = i then log else btt_log_group_read s a j)"
proof (cases "j = i")
  case True
  from assms have "log = [log ! 0, log ! 1, log ! 2, log ! 3]"
    by (auto simp: numeral_eq_Suc length_Suc_conv)
  with True show ?thesis
    by (simp add: btt_log_group_read_def btt_log_group_write_def Let_def log_addr_def)
next
  case False
  then have "unat j < unat i \<or> unat i < unat j" by (auto simp: word_unat_eq_iff)
  then have "log_addr a j x + 16 \<le> log_addr a i y \<or> log_addr a i y + 16 \<le> log_addr a j x"
    if "x < 4" "y < 4" for x y
    using that by (auto simp: log_addr_def)
  with False show ?thesis
    by (simp add: btt_log_group_read_def btt_log_group_write_def Let_def)
qed

lemma group_write_writes:
  assumes "i < ai_nfree a"
  shows "dev_writes (log_region a) s (btt_log_group_write s a i log)"
  using assms
  by (auto simp: dev_writes_def btt_log_group_write_def Let_def log_region_def log_addr_def
      word_less_nat_alt log_entry_put_out)

lemma rewrite_log_loop_writes:
  "set is \<subseteq> {..<ai_nfree a} \<Longrightarrow> dev_writes (log_region a) s (rewrite_log_loop s a is)"
  by (induction "is" arbitrary: s) (auto simp: Let_def intro: dev_writes_trans [OF group_write_writes])

definition initial_group :: "log_entry \<Rightarrow> log_group" where
  "initial_group e = [e\<lparr>lg_seq := 1\<rparr>, zero_log_entry, zero_log_entry, zero_log_entry]"

lemma log_read_group_cong:
  "btt_log_group_read s' a i = btt_log_group_read s a i \<Longrightarrow> btt_log_read s' a i = btt_log_read s a i"
  by (simp add: btt_log_read_def)

lemma rewrite_log_loop_groups:
  "distinct is \<Longrightarrow> btt_log_group_read (rewrite_log_loop s a is) a j =
    (if j \<in> set is then initial_group (btt_log_read s a j) else btt_log_group_read s a j)"
proof (induction "is" arbitrary: s)
  case Nil
  then show ?case by simp
next
  case (Cons i "is")
  let ?log = "initial_group (btt_log_read s a i)" and ?s = "btt_log_group_write s a i (initial_group (btt_log_read s a i))"
  have g: "btt_log_group_read ?s a j = (if j = i then ?log else btt_log_group_read s a j)" for j
    by (rule group_read_write) (simp add: initial_group_def)
  have "rewrite_log_loop s a (i # is) = rewrite_log_loop ?s a is"
    by (simp add: Let_def initial_group_def)
  with Cons g log_read_group_cong [of ?s a j s] show ?case by (cases "j = i") auto
qed

definition log_index_ok :: "arena_info \<Rightarrow> bool" where
  "log_index_ok a = (fst (ai_log_index a) = 0 \<and> (snd (ai_log_index a) = 1 \<or> snd (ai_log_index a) = 2))"

lemma log_read_initial:
  assumes "btt_log_group_read s a i = initial_group e" and "log_index_ok a"
  shows "btt_log_read s a i = e\<lparr>lg_seq := 1\<rparr>"
  using assms
  by (auto simp: btt_log_read_def btt_log_get_old_def Let_def initial_group_def log_index_ok_def log_seq_def
      zero_log_entry_def)

lemma rewrite_log_read:
  assumes "log_index_ok a" and "i < ai_nfree a"
  shows "btt_log_read (snd (btt_rewrite_log s a)) a i = (btt_log_read s a i)\<lparr>lg_seq := 1\<rparr>"
  using rewrite_log_loop_groups [of "u32_range (ai_nfree a)" s a i] assms
  by (intro log_read_initial) (simp_all add: btt_rewrite_log_def)

subsection \<open>Sequence numbers and padding\<close>

text \<open>The sequence numbers cycle 1, 2, 3, 1, ...: of two distinct ones the later is the successor.\<close>

definition seq_next :: "u32 \<Rightarrow> u32" where
  "seq_next s = (if s = 3 then 1 else s + 1)"

lemma u32_le_3_cases: "(w :: u32) \<le> 3 \<Longrightarrow> w = 0 \<or> w = 1 \<or> w = 2 \<or> w = 3"
proof -
  assume "w \<le> 3"
  then have "unat w \<le> 3" by (simp add: word_le_nat_alt)
  then have "unat w = 0 \<or> unat w = 1 \<or> unat w = 2 \<or> unat w = 3" by linarith
  then show ?thesis by (auto simp: word_unat_eq_iff)
qed

lemma log_read_newer_slot:
  assumes "lane_seqs_ok s a i"
    and "log_seq (btt_log_group_read s a i) (fst (ai_log_index a)) \<noteq> 0"
    and "log_seq (btt_log_group_read s a i) (snd (ai_log_index a)) \<noteq> 0"
  defines "s0 \<equiv> log_seq (btt_log_group_read s a i) (fst (ai_log_index a))"
    and "s1 \<equiv> log_seq (btt_log_group_read s a i) (snd (ai_log_index a))"
  shows "btt_log_read s a i = btt_log_group_read s a i !
    (if s1 = seq_next s0 then snd (ai_log_index a) else fst (ai_log_index a))"
    and "s1 = seq_next s0 \<or> s0 = seq_next s1"
proof -
  have "s0 \<noteq> s1" and c: "s0 = 1 \<or> s0 = 2 \<or> s0 = 3" "s1 = 1 \<or> s1 = 2 \<or> s1 = 3"
    using assms u32_le_3_cases [of s0] u32_le_3_cases [of s1] by (auto simp: lane_seqs_ok_def Let_def)
  then show "btt_log_read s a i = btt_log_group_read s a i !
      (if s1 = seq_next s0 then snd (ai_log_index a) else fst (ai_log_index a))"
    and "s1 = seq_next s0 \<or> s0 = seq_next s1"
    by (auto simp: btt_log_read_def btt_log_get_old_def Let_def s0_def [symmetric] s1_def [symmetric]
        seq_next_def word_less_nat_alt)
qed

lemma log_set_indices_ok: "log_set_indices s a = (0, a') \<Longrightarrow> log_index_ok a' \<and> a' = a\<lparr>ai_log_index := ai_log_index a'\<rparr>"
  by (auto simp: log_set_indices_def Let_def log_index_ok_def split: option.splits if_splits)

text \<open>On a log of initial groups \<open>log_set_indices\<close> sees three padding slots per group.\<close>

definition idx_after_initial :: idx_state where
  "idx_after_initial = \<lparr>is_idx_set = False, is_initial_state = True, is_log_index0 = 0,
     is_log_index1 = - 1, is_next_idx = 1, is_pad_count = 0\<rparr>"

lemma initial_group_padding [simp]:
  "\<not> ent_is_padding (e\<lparr>lg_seq := 1\<rparr>)" "ent_is_padding zero_log_entry"
  by (simp_all add: ent_is_padding_def zero_log_entry_def)

lemma log_slots_initial:
  "log_slots_loop (initial_group e) [0, Suc 0, 2, 3] idx_after_initial = Some (idx_after_initial\<lparr>is_pad_count := 3\<rparr>)"
  "log_slots_loop (initial_group e) [0, Suc 0, 2, 3] \<lparr>is_idx_set = False, is_initial_state = True,
     is_log_index0 = - 1, is_log_index1 = - 1, is_next_idx = 0, is_pad_count = 0\<rparr>
   = Some (idx_after_initial\<lparr>is_pad_count := 3\<rparr>)"
  by (simp_all add: initial_group_def idx_after_initial_def log_slot_step_def)

lemma log_groups_initial:
  "\<forall>i \<in> set is. \<exists>e. btt_log_group_read s a i = initial_group e \<Longrightarrow>
    log_groups_loop s a is idx_after_initial = Some idx_after_initial"
proof (induction "is")
  case Nil
  then show ?case by simp
next
  case (Cons i "is")
  then obtain e where "btt_log_group_read s a i = initial_group e" by auto
  with Cons show ?case
    by (simp add: log_slots_initial del: log_slots_loop.simps) (simp add: idx_after_initial_def)
qed

lemma log_set_indices_initial:
  assumes "\<forall>i < ai_nfree a. \<exists>e. btt_log_group_read s a i = initial_group e" and "ai_nfree a \<noteq> 0"
  shows "log_set_indices s a = (0, a\<lparr>ai_log_index := (0, 1)\<rparr>)"
proof -
  obtain i "is" where r: "u32_range (ai_nfree a) = i # is"
    using assms(2) length_u32_range [of "ai_nfree a"]
    by (cases "u32_range (ai_nfree a)") (auto simp: unat_eq_zero)
  have all: "\<forall>j \<in> set (i # is). \<exists>e. btt_log_group_read s a j = initial_group e"
    using assms(1) unfolding r [symmetric] by simp
  then obtain e where "btt_log_group_read s a i = initial_group e" by auto
  moreover have "idx_after_initial\<lparr>is_pad_count := 0\<rparr> = idx_after_initial"
    by (simp add: idx_after_initial_def)
  moreover have "is_initial_state idx_after_initial"
    by (simp add: idx_after_initial_def)
  ultimately show ?thesis
    using log_groups_initial [of "is" s a] all
    by (simp add: log_set_indices_def r log_slots_initial Let_def del: log_slots_loop.simps) (simp add: idx_after_initial_def)
qed

subsection \<open>A whole arena\<close>

definition arena_consistent :: "btt_chk \<Rightarrow> arena_info \<Rightarrow> bool" where
  "arena_consistent s a = (log_wf s a \<and> map_wf s a \<and> blocks_partitioned s a)"

definition info_blocks_equal :: "btt_chk \<Rightarrow> arena_info \<Rightarrow> bool" where
  "info_blocks_equal s a =
     (\<forall>i < 4096. bd_data (bc_dev s) (unat (ai_info2off a) + i) = bd_data (bc_dev s) (unat (ai_infooff a) + i))"

definition repair_region :: "arena_info \<Rightarrow> nat set" where
  "repair_region a = map_region a \<union> log_region a \<union> info2_region a"

definition meta_region :: "arena_info \<Rightarrow> nat set" where
  "meta_region a = repair_region a \<union> info_region a"

text \<open>What \<open>btt_parse_meta\<close> and \<open>log_set_indices\<close> established before the checks run.\<close>

definition arena_ready :: "arena_info \<Rightarrow> bool" where
  "arena_ready a = (arena_layout a \<and> log_index_ok a \<and>
     ai_internal_nlba a - ai_external_nlba a = ai_nfree a)"

lemma consistent_frame:
  assumes w: "dev_writes R s s'" and "R \<inter> meta_region a = {}"
  shows "arena_consistent s' a = arena_consistent s a" and "info_blocks_equal s' a = info_blocks_equal s a"
proof -
  have d: "R \<inter> log_region a = {}" "R \<inter> map_region a = {}" "R \<inter> (info_region a \<union> info2_region a) = {}"
    using assms(2) by (auto simp: meta_region_def repair_region_def)
  have "map_refs s' a = map_refs s a" "free_refs s' a = free_refs s a"
    using map_frame [OF w d(2)] log_frame(2) [OF w d(1)] by (simp_all add: map_refs_def free_refs_def)
  moreover have "map_wf s' a = map_wf s a"
    using map_frame [OF w d(2)] by (simp add: map_wf_def cong: imp_cong)
  ultimately show "arena_consistent s' a = arena_consistent s a"
    using log_wf_frame [OF w d(1)] by (simp add: arena_consistent_def blocks_partitioned_def)
  have "bd_data (bc_dev s') x = bd_data (bc_dev s) x" if "x \<in> info_region a \<union> info2_region a" for x
    using dev_writesD(6) [OF w, of x] d(3) that by blast
  then have "bd_data (bc_dev s') (unat (ai_info2off a) + i) = bd_data (bc_dev s) (unat (ai_info2off a) + i)"
    "bd_data (bc_dev s') (unat (ai_infooff a) + i) = bd_data (bc_dev s) (unat (ai_infooff a) + i)"
    if "i < 4096" for i
    using that by (simp_all add: info_region_def info2_region_def)
  then show "info_blocks_equal s' a = info_blocks_equal s a"
    by (simp add: info_blocks_equal_def cong: imp_cong)
qed

lemma rewrite_log_consistent:
  assumes r: "arena_ready a" and c: "arena_consistent s a"
  shows "arena_consistent (snd (btt_rewrite_log s a)) a"
proof -
  let ?s = "snd (btt_rewrite_log s a)"
  have l: "arena_layout a" and ix: "log_index_ok a" using r by (simp_all add: arena_ready_def)
  have w: "dev_writes (log_region a) s ?s"
    by (simp add: btt_rewrite_log_def rewrite_log_loop_writes)
  have m: "btt_map_lookup ?s a k = btt_map_lookup s a k" if "k < ai_external_nlba a" for k
    using map_frame [OF w _ that] arena_layout_disjoint(1) [OF l] by blast
  have g: "btt_log_group_read ?s a i = initial_group (btt_log_read s a i)" if "i < ai_nfree a" for i
    using rewrite_log_loop_groups [of "u32_range (ai_nfree a)" s a i] that by (simp add: btt_rewrite_log_def)
  have e: "btt_log_read ?s a i = (btt_log_read s a i)\<lparr>lg_seq := 1\<rparr>" if "i < ai_nfree a" for i
    by (rule rewrite_log_read [OF ix that])
  have "lane_seqs_ok ?s a i" if "i < ai_nfree a" for i
    using ix by (auto simp: lane_seqs_ok_def g [OF that] initial_group_def log_index_ok_def log_seq_def
        zero_log_entry_def)
  then have "log_wf ?s a"
    using c e by (simp add: arena_consistent_def log_wf_def lane_entry_ok_def Let_def)
  moreover have "map_refs ?s a = map_refs s a" "free_refs ?s a = free_refs s a"
    using m e by (simp_all add: map_refs_def free_refs_def)
  ultimately show ?thesis
    using c m by (simp add: arena_consistent_def blocks_partitioned_def map_wf_def)
qed

lemma check_arena_ok:
  assumes r: "arena_ready a" and rc: "fst (btt_check_arena s a) = 0"
  defines "s' \<equiv> snd (btt_check_arena s a)"
  shows "arena_consistent s' a" and "co_repair (bc_opts s) \<Longrightarrow> info_blocks_equal s' a"
    and "dev_writes (repair_region a) s s'"
proof -
  have l: "arena_layout a" using r by (simp add: arena_ready_def)
  note dj = arena_layout_disjoint [OF l]
  define s1 where "s1 = snd (btt_check_log_map s a)"
  define s2 where "s2 = snd (btt_check_info2 s1 a)"
  have lw: "log_wf s a" and mw: "map_wf s a" and bm: "btt_check_bitmap s2 a = 0"
    and s': "s' = (if co_logfix (bc_opts s2) then snd (btt_rewrite_log s2 a) else s2)"
    using rc by (auto simp: btt_check_arena_def s'_def s1_def s2_def Let_def
        btt_check_log_entries_iff [symmetric] btt_check_map_entries_iff [symmetric]
        split: prod.splits if_splits)
  have w1: "dev_writes (map_region a) s s1"
    unfolding s1_def by (rule check_log_map_writes [OF l lw])
  have w2: "dev_writes (info2_region a) s1 s2"
    unfolding s2_def by (rule check_info2_writes)
  have lw1: "log_wf s1 a" using log_wf_frame [OF w1 dj(1)] lw by simp
  then have lw2: "log_wf s2 a" using log_wf_frame [OF w2] dj(5) by (simp add: Int_commute)
  have "map_wf s1 a" unfolding s1_def by (rule check_log_map_wf [OF l lw mw])
  then have mw2: "map_wf s2 a"
    using map_frame [OF w2] dj(3) by (simp add: map_wf_def Int_commute)
  have "bc_calloc_ok s2 Alloc_bitmap" using bm by (auto simp: btt_check_bitmap_def split: if_splits)
  from btt_check_bitmap_iff [OF this mw2 lw2] bm r have c2: "arena_consistent s2 a"
    by (simp add: arena_ready_def arena_consistent_def lw2 mw2)
  have w3: "dev_writes (log_region a) s2 s'"
    by (simp add: s' btt_rewrite_log_def rewrite_log_loop_writes)
  show "arena_consistent s' a"
    using c2 rewrite_log_consistent [OF r c2] by (simp add: s')
  have o1: "bc_opts s1 = bc_opts s" by (rule dev_writesD(1) [OF w1])
  show "info_blocks_equal s' a" if "co_repair (bc_opts s)"
  proof -
    have "info_blocks_equal s2 a"
      using check_info2_equal [of s1 a] that o1 l by (simp add: info_blocks_equal_def s2_def)
    moreover have "log_region a \<inter> (info_region a \<union> info2_region a) = {}" using dj by blast
    then have "bd_data (bc_dev s') x = bd_data (bc_dev s2) x" if "x \<in> info_region a \<union> info2_region a" for x
      using dev_writesD(6) [OF w3, of x] that by blast
    ultimately show ?thesis
      by (simp add: info_blocks_equal_def info_region_def info2_region_def)
  qed
  show "dev_writes (repair_region a) s s'"
    using dev_writes_mono [OF w1, of "repair_region a"] dev_writes_mono [OF w2, of "repair_region a"]
      dev_writes_mono [OF w3, of "repair_region a"]
    by (auto simp: repair_region_def intro: dev_writes_trans)
qed

subsection \<open>Properties of the checker\<close>

lemma check_arenas_loop_ok:
  "fst (check_arenas_loop s as) = 0 \<Longrightarrow> \<forall>a \<in> set as. arena_ready a \<Longrightarrow>
    sorted_wrt (\<lambda>a b. meta_region a \<inter> meta_region b = {}) as \<Longrightarrow>
    (\<forall>a \<in> set as. arena_consistent (snd (check_arenas_loop s as)) a \<and>
      (co_repair (bc_opts s) \<longrightarrow> info_blocks_equal (snd (check_arenas_loop s as)) a)) \<and>
    dev_writes (\<Union>a \<in> set as. repair_region a) s (snd (check_arenas_loop s as))"
proof (induction as arbitrary: s)
  case Nil
  then show ?case by simp
next
  case (Cons a as)
  obtain s1 where c: "btt_check_arena s a = (0, s1)" and rest: "check_arenas_loop s (a # as) = check_arenas_loop s1 as"
    using Cons.prems(1) by (auto split: prod.splits if_splits)
  let ?s' = "snd (check_arenas_loop s1 as)" and ?R = "\<Union>b \<in> set as. repair_region b"
  have a: "arena_consistent s1 a" "co_repair (bc_opts s) \<Longrightarrow> info_blocks_equal s1 a"
    "dev_writes (repair_region a) s s1"
    using check_arena_ok [of a s] Cons.prems(2) c by simp_all
  have IH: "\<forall>b \<in> set as. arena_consistent ?s' b \<and> (co_repair (bc_opts s1) \<longrightarrow> info_blocks_equal ?s' b)"
    "dev_writes ?R s1 ?s'"
    using Cons.IH [of s1] Cons.prems rest by auto
  have "meta_region b \<inter> meta_region a = {}" if "b \<in> set as" for b
    using Cons.prems(3) that by auto
  then have "?R \<inter> meta_region a = {}" by (auto simp: meta_region_def)
  note fr = consistent_frame [OF IH(2) this]
  have "dev_writes (?R \<union> repair_region a) s ?s'"
    using dev_writes_mono [OF a(3)] dev_writes_mono [OF IH(2)] by (blast intro: dev_writes_trans)
  then show ?case
    unfolding rest using IH(1) a(1,2) fr dev_writesD(1) [OF a(3)] by (simp add: Un_commute)
qed

lemma check_arenas_ok:
  assumes "fst (btt_check_arenas s) = 0" and "\<forall>a \<in> set (bc_arena s). arena_ready a"
    and "sorted_wrt (\<lambda>a b. meta_region a \<inter> meta_region b = {}) (bc_arena s)"
  shows "(\<forall>a \<in> set (bc_arena s). arena_consistent (snd (btt_check_arenas s)) a \<and>
        (co_repair (bc_opts s) \<longrightarrow> info_blocks_equal (snd (btt_check_arenas s)) a)) \<and>
      dev_writes (\<Union>a \<in> set (bc_arena s). repair_region a) s (snd (btt_check_arenas s))"
proof -
  have "btt_check_arenas s = (fst (btt_check_arenas s), snd (check_arenas_loop s (bc_arena s)))"
    and "fst (check_arenas_loop s (bc_arena s)) = 0"
    using assms(1) by (auto simp: btt_check_arenas_def split: prod.splits if_splits)
  then show ?thesis using check_arenas_loop_ok [OF _ assms(2,3)] by (metis snd_conv)
qed

text \<open>C1: a check that succeeds leaves every arena consistent, with or without \<open>--repair\<close> and
  \<open>--rewrite-log\<close>: the log's sequence numbers and all entries are in bounds, and the map entries together
  with the old blocks of the log name every internal block exactly once.  With \<open>--repair\<close> the two info
  blocks of each arena are equal as well.  Writes stay within the map, log and second info block of the
  arenas, so the data blocks are never touched.\<close>

theorem btt_check_arenas_sound:
  assumes "fst (btt_check_arenas s) = 0" and "\<forall>a \<in> set (bc_arena s). arena_ready a"
    and "sorted_wrt (\<lambda>a b. meta_region a \<inter> meta_region b = {}) (bc_arena s)"
  shows "(\<forall>a \<in> set (bc_arena s). arena_consistent (snd (btt_check_arenas s)) a \<and>
        (co_repair (bc_opts s) \<longrightarrow> info_blocks_equal (snd (btt_check_arenas s)) a)) \<and>
      dev_writes (\<Union>a \<in> set (bc_arena s). repair_region a) s (snd (btt_check_arenas s))"
  by (rule check_arenas_ok [OF assms])

text \<open>A small device for the witnesses: one external and two internal blocks, an identity map at 0, one
  log lane at 64 in its initial state (block 1 free), info blocks at 4096 and 8192.\<close>

definition demo_data :: mem where
  "demo_data = log_entry_put \<lparr>lg_lba = 0, lg_old_map = 1, lg_new_map = 1, lg_seq = 1\<rparr> (\<lambda>_. 0) 64"

definition demo_dev :: blkdev where
  "demo_dev = \<lparr>bd_data = demo_data, bd_size = 16384, bd_pread_errno = (\<lambda>_. 0), bd_pwrite_errno = (\<lambda>_. 0),
     bd_fsync_errno = 0, bd_msync_errno = (\<lambda>_. 0), bd_mmap_errno = (\<lambda>_. 0)\<rparr>"

definition demo_arena :: arena_info where
  "demo_arena = zero_arena\<lparr>ai_internal_nlba := 2, ai_external_nlba := 1, ai_nfree := 1, ai_infooff := 4096,
     ai_mapoff := 0, ai_logoff := 64, ai_info2off := 8192, ai_dataoff := 12288, ai_log_index := (0, 1)\<rparr>"

definition demo_chk :: "bool \<Rightarrow> bool \<Rightarrow> btt_chk" where
  "demo_chk repair logfix = \<lparr>bc_dev = demo_dev, bc_parent_uuid = replicate 16 0, bc_rawsize = 16384, bc_nlba = 1,
     bc_start_off = 4096, bc_num_arenas = 1, bc_arena = [demo_arena],
     bc_opts = \<lparr>co_verbose = False, co_force = False, co_repair = repair, co_logfix = logfix\<rparr>,
     bc_calloc_ok = (\<lambda>_. True)\<rparr>"

lemma demo_ready: "arena_ready demo_arena"
  by (simp add: arena_ready_def arena_layout_def demo_arena_def regions_apart_def log_index_ok_def zero_arena_def)

lemma le_get_zeros [simp]: "le_get n (\<lambda>_. 0) ofs = 0"
  by (induction n arbitrary: ofs) auto

lemma demo_log: "btt_log_group_read (demo_chk r l) demo_arena 0 =
    initial_group \<lparr>lg_lba = 0, lg_old_map = 1, lg_new_map = 1, lg_seq = 1\<rparr>"
proof -
  have "log_entry_get (\<lambda>_. 0) ofs = zero_log_entry" for ofs
    by (simp add: log_entry_get_def zero_log_entry_def)
  then show ?thesis
    by (simp add: btt_log_group_read_def demo_chk_def demo_dev_def demo_data_def demo_arena_def log_addr_def
        initial_group_def)
qed

lemma demo_map: "btt_map_lookup (demo_chk r l) demo_arena 0 = 0"
  by (simp add: btt_map_lookup_def demo_chk_def demo_dev_def demo_data_def demo_arena_def map_addr_def
      log_entry_put_def le_get_put_disj)

lemma u32_range_1 [simp]: "u32_range 1 = [0]"
  by (simp add: u32_range_def)

lemma demo_log_read: "btt_log_read (demo_chk r l) demo_arena 0 =
    \<lparr>lg_lba = 0, lg_old_map = 1, lg_new_map = 1, lg_seq = 1\<rparr>"
  using log_read_initial [OF demo_log] by (simp add: log_index_ok_def demo_arena_def)

lemma demo_consistent: "arena_consistent (demo_chk r l) demo_arena"
proof -
  have n: "ai_nfree demo_arena = 1" "ai_external_nlba demo_arena = 1" "ai_internal_nlba demo_arena = 2"
    by (simp_all add: demo_arena_def)
  have z: "x < 1 \<longleftrightarrow> x = 0" for x :: u32 by simp
  have "lane_seqs_ok (demo_chk r l) demo_arena 0" "lane_entry_ok (demo_chk r l) demo_arena 0"
    by (simp_all add: lane_seqs_ok_def lane_entry_ok_def demo_log demo_log_read n)
       (simp add: initial_group_def log_seq_def zero_log_entry_def demo_arena_def)
  moreover have "{..<2 :: u32} = {0, 1}"
    using set_u32_range [of 2] by (simp add: u32_range_def upt_conv_Cons)
  ultimately show ?thesis
    by (simp add: arena_consistent_def log_wf_def map_wf_def blocks_partitioned_def map_refs_def free_refs_def
        n z demo_map demo_log_read)
qed

theorem btt_check_arenas_sound_witness:
  "arena_consistent (snd (btt_check_arenas (demo_chk False False))) demo_arena"
proof -
  let ?s = "demo_chk False False"
  have fst0: "fst (btt_check_arenas ?s) = 0"
  proof -
    have "log_wf ?s demo_arena" "map_wf ?s demo_arena" "blocks_partitioned ?s demo_arena"
      using demo_consistent by (simp_all add: arena_consistent_def)
    moreover have "btt_check_log_map ?s demo_arena = (0, ?s)" "btt_check_info2 ?s demo_arena = (0, ?s)"
      by (simp_all add: btt_check_log_map_def btt_check_info2_def btt_copy_to_info2_def demo_chk_def Let_def
          demo_arena_def) (simp_all add: Let_def btt_map_write_def)
    moreover have "btt_check_bitmap ?s demo_arena = 0"
      using btt_check_bitmap_iff [of ?s demo_arena] calculation
      by (simp add: demo_chk_def demo_arena_def)
    ultimately have "btt_check_arena ?s demo_arena = (0, ?s)"
      by (simp add: btt_check_arena_def btt_check_log_entries_iff btt_check_map_entries_iff)
         (simp add: demo_chk_def)
    moreover have "bc_arena ?s = [demo_arena]" by (simp add: demo_chk_def)
    ultimately show ?thesis by (simp add: btt_check_arenas_def)
  qed
  have "bc_arena ?s = [demo_arena]" by (simp add: demo_chk_def)
  with btt_check_arenas_sound [OF fst0] demo_ready show ?thesis by simp
qed

lemma consistent_no_pending:
  assumes "blocks_partitioned s a" and "k < ai_external_nlba a" and "i < ai_nfree a"
  shows "lg_old_map (btt_log_read s a i) \<noteq> btt_map_lookup s a k"
proof -
  have "lg_old_map (btt_log_read s a i) \<in> set (free_refs s a)" "btt_map_lookup s a k \<in> set (map_refs s a)"
    using assms(2,3) by (auto simp: free_refs_def map_refs_def)
  with assms(1) show ?thesis by (auto simp: blocks_partitioned_def)
qed

lemma log_map_loop_consistent:
  assumes "arena_consistent s a"
  shows "set is \<subseteq> {..<ai_nfree a} \<Longrightarrow> check_log_map_loop s a is rc = (rc, s)"
proof (induction "is" arbitrary: rc)
  case Nil
  then show ?case by simp
next
  case (Cons i "is")
  let ?e = "btt_log_read s a i"
  have "lg_lba ?e < ai_external_nlba a" "i < ai_nfree a"
    using assms Cons.prems by (auto simp: arena_consistent_def log_wf_def lane_entry_ok_def Let_def)
  then have "lg_old_map ?e \<noteq> btt_map_lookup s a (lg_lba ?e)"
    using assms consistent_no_pending by (simp add: arena_consistent_def)
  with Cons show ?case by (simp add: Let_def)
qed

lemma check_arena_complete:
  assumes r: "arena_ready a" and c: "arena_consistent s a" and nf: "ai_nfree a \<noteq> 0"
    and al: "bc_calloc_ok s Alloc_bitmap" and ms: "bd_msync_errno (bc_dev s) (unat (ai_info2off a)) = 0"
  shows "fst (btt_check_arena s a) = 0"
proof -
  have l: "arena_layout a" using r by (simp add: arena_ready_def)
  note dj = arena_layout_disjoint [OF l]
  define s2 where "s2 = snd (btt_check_info2 s a)"
  have lm: "btt_check_log_map s a = (0, s)"
    using log_map_loop_consistent [OF c] by (simp add: btt_check_log_map_def)
  have i2: "btt_check_info2 s a = (0, s2)"
    using ms by (auto simp: s2_def btt_check_info2_def btt_copy_to_info2_def Let_def)
  have w: "dev_writes (info2_region a) s s2" unfolding s2_def by (rule check_info2_writes)
  have "info2_region a \<inter> log_region a = {}" "info2_region a \<inter> map_region a = {}" using dj by auto
  then have wf: "log_wf s2 a" "map_wf s2 a" and "map_refs s2 a = map_refs s a" "free_refs s2 a = free_refs s a"
    using c log_wf_frame [OF w] map_frame [OF w] log_frame(2) [OF w]
    by (simp_all add: arena_consistent_def map_wf_def map_refs_def free_refs_def)
  then have "blocks_partitioned s2 a" using c by (simp add: arena_consistent_def blocks_partitioned_def)
  then have "btt_check_bitmap s2 a = 0"
    using btt_check_bitmap_iff [OF _ wf(2,1)] r nf al dev_writesD(2) [OF w] by (simp add: arena_ready_def)
  with c lm i2 show ?thesis
    by (simp add: btt_check_arena_def arena_consistent_def btt_check_log_entries_iff
        btt_check_map_entries_iff btt_rewrite_log_def)
qed

lemma map_write_no_repair [simp]: "\<not> co_repair (bc_opts s) \<Longrightarrow> btt_map_write s a k v = (0, s)"
  by (simp add: btt_map_write_def)

lemma log_map_no_repair: "\<not> co_repair (bc_opts s) \<Longrightarrow> btt_check_log_map s a = (0, s)"
proof -
  assume "\<not> co_repair (bc_opts s)"
  then have "check_log_map_loop s a is rc = (rc, s)" for "is" rc
    by (induction "is" arbitrary: rc) (auto simp: Let_def)
  then show ?thesis by (simp add: btt_check_log_map_def)
qed

lemma info2_no_repair: "\<not> co_repair (bc_opts s) \<Longrightarrow> btt_check_info2 s a = (0, s)"
  by (simp add: btt_check_info2_def btt_copy_to_info2_def Let_def)

lemma check_arena_no_repair:
  "\<not> co_repair (bc_opts s) \<Longrightarrow> \<not> co_logfix (bc_opts s) \<Longrightarrow> snd (btt_check_arena s a) = s"
  by (simp add: btt_check_arena_def log_map_no_repair info2_no_repair Let_def)

lemma check_arenas_no_repair:
  assumes "\<not> co_repair (bc_opts s)" and "\<not> co_logfix (bc_opts s)"
  shows "snd (btt_check_arenas s) = s"
proof -
  have "snd (check_arenas_loop s as) = s" for as
  proof (induction as)
    case (Cons a as)
    then show ?case
      using check_arena_no_repair [OF assms, of a] by (cases "btt_check_arena s a") auto
  qed simp
  then show ?thesis by (simp add: btt_check_arenas_def split: prod.splits) (metis snd_conv)
qed

text \<open>C4: without \<open>--repair\<close> the checker reads only, and it accepts an arena exactly when the arena is
  consistent and has at least one free block (an arena with \<open>nfree = 0\<close> is always rejected, because
  \<open>btt_check_bitmap\<close> leaves its initial \<open>BTT_BITMAP_ERROR\<close> in place when the log loop does not run).\<close>

theorem btt_check_arena_decides:
  assumes "arena_ready a" and "bc_calloc_ok s Alloc_bitmap"
    and "bd_msync_errno (bc_dev s) (unat (ai_info2off a)) = 0"
    and "\<not> co_repair (bc_opts s)" and "\<not> co_logfix (bc_opts s)"
  shows "snd (btt_check_arena s a) = s \<and>
    (fst (btt_check_arena s a) = 0 \<longleftrightarrow> arena_consistent s a \<and> ai_nfree a \<noteq> 0)"
proof -
  have same: "snd (btt_check_arena s a) = s" by (rule check_arena_no_repair [OF assms(4,5)])
  have "arena_consistent s a \<and> ai_nfree a \<noteq> 0" if rc: "fst (btt_check_arena s a) = 0"
  proof -
    have c: "arena_consistent s a" using check_arena_ok(1) [OF assms(1) rc] same by simp
    moreover have "btt_check_bitmap s a = 0"
      using rc assms(4) by (auto simp: btt_check_arena_def log_map_no_repair info2_no_repair Let_def
          split: if_splits)
    ultimately show ?thesis
      using btt_check_bitmap_iff [of s a] assms(1,2) by (simp add: arena_consistent_def arena_ready_def)
  qed
  with same check_arena_complete [OF assms(1) _ _ assms(2,3)] show ?thesis by blast
qed

theorem btt_check_arena_decides_witness: "fst (btt_check_arena (demo_chk False False) demo_arena) = 0"
  using btt_check_arena_decides [OF demo_ready, of "demo_chk False False"] demo_consistent
  by (simp add: demo_chk_def demo_dev_def demo_arena_def)

text \<open>C6: with \<open>--repair\<close>, \<open>btt_check_log_map\<close> is the replay of the log into the map: lane by lane, an entry
  whose old block is still what the map holds for its LBA is an interrupted write, and it is completed.
  The log itself is not changed, nor is anything outside the map.\<close>

theorem btt_check_log_map_replays:
  assumes "co_repair (bc_opts s)" and "arena_layout a" and "log_wf s a"
  shows "btt_map_lookup (snd (btt_check_log_map s a)) a =
      replay (map (journal_entry s a) (u32_range (ai_nfree a))) (btt_map_lookup s a) \<and>
    (\<forall>i < ai_nfree a. btt_log_read (snd (btt_check_log_map s a)) a i = btt_log_read s a i) \<and>
    dev_writes (map_region a) s (snd (btt_check_log_map s a))"
  using check_log_map_replay [OF assms] check_log_map_writes [OF assms(2,3)]
    log_frame(2) [OF check_log_map_writes [OF assms(2,3)] arena_layout_disjoint(1) [OF assms(2)]]
  by simp

text \<open>A device whose write of LBA 0 (block 0 to block 1) was interrupted after the log entry.\<close>

definition torn_chk :: btt_chk where
  "torn_chk = (demo_chk True False)\<lparr>bc_dev := demo_dev\<lparr>bd_data :=
     log_entry_put \<lparr>lg_lba = 0, lg_old_map = 0, lg_new_map = 1, lg_seq = 1\<rparr> (\<lambda>_. 0) 64\<rparr>\<rparr>"

lemma torn_log: "btt_log_group_read torn_chk demo_arena 0 =
    initial_group \<lparr>lg_lba = 0, lg_old_map = 0, lg_new_map = 1, lg_seq = 1\<rparr>"
proof -
  have "log_entry_get (\<lambda>_. 0) ofs = zero_log_entry" for ofs
    by (simp add: log_entry_get_def zero_log_entry_def)
  then show ?thesis
    by (simp add: btt_log_group_read_def torn_chk_def demo_chk_def demo_dev_def demo_arena_def log_addr_def
        initial_group_def)
qed

theorem btt_check_log_map_replays_witness:
  "btt_map_lookup torn_chk demo_arena 0 = 0 \<and>
   btt_map_lookup (snd (btt_check_log_map torn_chk demo_arena)) demo_arena 0 = 1"
proof -
  have n: "ai_nfree demo_arena = 1" "ai_external_nlba demo_arena = 1" "ai_internal_nlba demo_arena = 2"
    by (simp_all add: demo_arena_def)
  have z: "x < 1 \<longleftrightarrow> x = 0" for x :: u32 by simp
  have e: "btt_log_read torn_chk demo_arena 0 = \<lparr>lg_lba = 0, lg_old_map = 0, lg_new_map = 1, lg_seq = 1\<rparr>"
    using log_read_initial [OF torn_log] by (simp add: log_index_ok_def demo_arena_def)
  have m: "btt_map_lookup torn_chk demo_arena 0 = 0"
    by (simp add: btt_map_lookup_def torn_chk_def demo_arena_def map_addr_def log_entry_put_def le_get_put_disj)
  have "lane_seqs_ok torn_chk demo_arena 0"
    by (simp add: lane_seqs_ok_def torn_log)
       (simp add: initial_group_def log_seq_def zero_log_entry_def demo_arena_def)
  then have "log_wf torn_chk demo_arena"
    by (simp add: log_wf_def n z lane_entry_ok_def e)
  moreover have "co_repair (bc_opts torn_chk)" by (simp add: torn_chk_def demo_chk_def)
  ultimately show ?thesis
    using btt_check_log_map_replays [of torn_chk demo_arena] demo_ready m
    by (simp add: arena_ready_def n journal_entry_def e)
qed

text \<open>\<open>--rewrite-log\<close> keeps every lane's current entry (its LBA, old and new block), restarts the
  sequence at 1, leaves the arena consistent, and the result is a log that \<open>log_set_indices\<close> accepts as
  freshly initialised, with the log slots (0, 1).\<close>

theorem btt_rewrite_log_keeps_entries:
  assumes "arena_ready a" and "arena_consistent s a" and "ai_nfree a \<noteq> 0"
  shows "fst (btt_rewrite_log s a) = 0 \<and>
    (\<forall>i < ai_nfree a. btt_log_read (snd (btt_rewrite_log s a)) a i = (btt_log_read s a i)\<lparr>lg_seq := 1\<rparr>) \<and>
    arena_consistent (snd (btt_rewrite_log s a)) a \<and>
    log_set_indices (snd (btt_rewrite_log s a)) a = (0, a\<lparr>ai_log_index := (0, 1)\<rparr>)"
proof -
  have "log_index_ok a" using assms(1) by (simp add: arena_ready_def)
  moreover have "\<exists>e. btt_log_group_read (snd (btt_rewrite_log s a)) a i = initial_group e" if "i < ai_nfree a" for i
    using rewrite_log_loop_groups [of "u32_range (ai_nfree a)" s a i] that by (auto simp: btt_rewrite_log_def)
  ultimately show ?thesis
    using rewrite_log_read [of a _ s] rewrite_log_consistent [OF assms(1,2)]
      log_set_indices_initial [of a "snd (btt_rewrite_log s a)"] assms(3)
    by (simp add: btt_rewrite_log_def)
qed

theorem btt_rewrite_log_keeps_entries_witness:
  "arena_consistent (snd (btt_rewrite_log (demo_chk True True) demo_arena)) demo_arena"
  using btt_rewrite_log_keeps_entries [OF demo_ready demo_consistent [of True True]]
  by (simp add: demo_arena_def)

end
