(* ===== verification/Btt_Recover.thy ===== *)
theory Btt_Recover
  imports Btt_Check
begin

text \<open>
  The outer part of \<open>ndctl/check.c\<close>: locating or restoring the first info block, discovering the
  arenas, and the sequence of steps \<open>namespace_check\<close> runs on the open device, with the theorems that
  a run without \<open>--repair\<close> never writes, that recovery only ever installs a block that verifies, and
  that a successful run ends with every arena consistent.
\<close>

subsection \<open>The metadata pass of namespace_check\<close>

text \<open>\<open>check_prologue\<close> is the option check at the head of \<open>namespace_check\<close>, \<open>find_first_sb\<close> the search
  for the first info block, \<open>set_all_indices\<close> the loop over \<open>log_set_indices\<close>; \<open>check_media\<close> composes
  them with the steps of \<open>Btt_Model\<close>.  The namespace's raw mode and the opening of the device are
  around it.  \<open>None\<close> is running out of fuel in the arena discovery.\<close>

definition check_prologue :: "check_opts \<Rightarrow> int" where
  "check_prologue opts = (if co_logfix opts \<and> \<not> co_repair opts then - EINVAL else 0)"

definition find_first_sb :: "btt_chk \<Rightarrow> int \<times> btt_chk" where
  "find_first_sb bttc =
     (case btt_info_read_verify bttc (word_of_int BTT1_START_OFFSET) of
        Inr _ \<Rightarrow> (0, bttc\<lparr>bc_start_off := BTT1_START_OFFSET\<rparr>)
      | Inl _ \<Rightarrow>
          (case btt_info_read_verify bttc (word_of_int BTT2_START_OFFSET) of
             Inr _ \<Rightarrow> (0, bttc\<lparr>bc_start_off := BTT2_START_OFFSET\<rparr>)
           | Inl _ \<Rightarrow>
               (case btt_recover_first_sb bttc of (rc, bttc') \<Rightarrow>
                  if rc \<noteq> 0 then (rc, bttc')
                  else case btt_info_read_verify bttc' (word_of_int (bc_start_off bttc')) of
                    Inl rc \<Rightarrow> (rc, bttc') | Inr _ \<Rightarrow> (0, bttc'))))"

primrec set_all_indices :: "btt_chk \<Rightarrow> arena_info list \<Rightarrow> int \<times> arena_info list" where
  "set_all_indices bttc [] = (0, [])"
| "set_all_indices bttc (a # as) =
     (case log_set_indices bttc a of (rc, a') \<Rightarrow>
        if rc \<noteq> 0 then (rc, a' # as)
        else case set_all_indices bttc as of (rc, as') \<Rightarrow> (rc, a' # as'))"

definition check_media :: "nat \<Rightarrow> btt_chk \<Rightarrow> (int \<times> btt_chk) option" where
  "check_media fuel bttc =
     (if check_prologue (bc_opts bttc) \<noteq> 0 then Some (check_prologue (bc_opts bttc), bttc)
      else case find_first_sb bttc of (rc, bttc) \<Rightarrow>
      if rc \<noteq> 0 then Some (rc, bttc)
      else case btt_discover_arenas fuel bttc of
        None \<Rightarrow> None
      | Some (rc, bttc) \<Rightarrow>
          if rc \<noteq> 0 then Some (rc, bttc)
          else if btt_create_mappings bttc \<noteq> 0 then Some (btt_create_mappings bttc, bttc)
          else (case set_all_indices bttc (bc_arena bttc) of (rc, as) \<Rightarrow>
            let bttc = bttc\<lparr>bc_arena := as\<rparr> in
            if rc \<noteq> 0 then Some (rc, bttc) else Some (btt_check_arenas bttc)))"

subsection \<open>Without repair nothing is written\<close>

lemma write_info_no_repair: "\<not> co_repair (bc_opts s) \<Longrightarrow> btt_write_info s sb off = (- EIO, s)"
  by (simp add: btt_write_info_def)

text \<open>Every way through the recovery ends in an error that writes nothing or in installing a block
  that verifies.\<close>

definition installs_verified :: "btt_chk \<Rightarrow> u64 \<Rightarrow> int \<times> btt_chk \<Rightarrow> bool" where
  "installs_verified s off r =
     ((fst r \<noteq> 0 \<and> snd r = s) \<or>
      (\<exists>sb sb0. btt_read_info s off = Inr sb0 \<and> btt_info_verify s sb = 0 \<and> r = btt_write_info s sb off))"

lemma installs_error [simp]: "rc \<noteq> 0 \<Longrightarrow> installs_verified s off (rc, s)"
  by (simp add: installs_verified_def)

lemma installs_write:
  "btt_read_info s off = Inr sb0 \<Longrightarrow> btt_info_verify s sb = 0 \<Longrightarrow> installs_verified s off (btt_write_info s sb off)"
  by (auto simp: installs_verified_def)

lemma read_info_Inl: "btt_read_info s off = Inl rc \<Longrightarrow> rc \<noteq> 0"
  by (auto simp: btt_read_info_def dev_pread_def split: if_splits)

lemma read_verify_Inl: "btt_info_read_verify s off = Inl rc \<Longrightarrow> rc \<noteq> 0"
  by (auto simp: btt_info_read_verify_def read_info_Inl split: sum.splits if_splits)

lemma read_verify_Inr:
  "btt_info_read_verify s off = Inr sb \<longleftrightarrow> btt_read_info s off = Inr sb \<and> btt_info_verify s sb = 0"
  by (auto simp: btt_info_read_verify_def split: sum.splits if_splits)

lemma attempt3_installs:
  "btt_read_info s off = Inr sb0 \<Longrightarrow> installs_verified s off (recover_attempt3 s sb0 off)"
  by (auto simp: recover_attempt3_def Let_def read_verify_Inl read_verify_Inr installs_write split: sum.splits)

lemma estimate_arenas_Inl: "estimate_arenas r e = Inl rc \<Longrightarrow> rc = - EINVAL"
proof (induction r e rule: estimate_arenas.induct)
  case (1 r e)
  then show ?case by (subst (asm) (2) estimate_arenas.simps) (auto split: if_splits)
qed

lemma recover_at_installs: "installs_verified s (word_of_int off) (recover_first_sb_at s off)"
proof (cases "estimate_arenas (bc_rawsize s - word_of_int off) 0")
  case (Inl rc)
  from estimate_arenas_Inl [OF this] have "rc \<noteq> 0" by simp
  with Inl show ?thesis by (simp add: recover_first_sb_at_def)
next
  case (Inr er)
  obtain est remaining where er: "er = (est, remaining)" by (cases er)
  show ?thesis
  proof (cases "btt_read_info s (word_of_int off)")
    case (Inl rc)
    then have "rc \<noteq> 0" by (rule read_info_Inl)
    with Inl Inr er show ?thesis by (simp add: recover_first_sb_at_def Let_def)
  next
    case sb0: (Inr sb0)
    with Inr er show ?thesis
      unfolding recover_first_sb_at_def Let_def
      by (auto simp: read_verify_Inl read_verify_Inr attempt3_installs installs_write
          split: sum.splits)
  qed
qed

lemma installs_no_repair:
  "installs_verified s off r \<Longrightarrow> \<not> co_repair (bc_opts s) \<Longrightarrow> fst r \<noteq> 0 \<and> snd r = s"
  by (auto simp: installs_verified_def write_info_no_repair)

lemma recover_no_repair:
  assumes "\<not> co_repair (bc_opts s)"
  shows "fst (btt_recover_first_sb s) \<noteq> 0 \<and> snd (btt_recover_first_sb s) = s"
proof -
  have "fst (recover_first_sb_at s off) \<noteq> 0" "snd (recover_first_sb_at s off) = s" for off
    using installs_no_repair [OF recover_at_installs assms] by auto
  then show ?thesis
    by (simp add: btt_recover_first_sb_def split: prod.splits) (metis fst_conv snd_conv)
qed

subsection \<open>Recovery installs a block that verifies\<close>

lemma info_verify_cong:
  assumes "\<And>i. i < 4096 \<Longrightarrow> sb i = sb' i"
  shows "btt_info_verify s sb = btt_info_verify s sb'"
proof -
  have "sb_signature sb = sb_signature sb'" "sb_parent_uuid sb = sb_parent_uuid sb'"
    unfolding sb_signature_def sb_parent_uuid_def by (rule mem_bytes_cong; simp add: assms)+
  moreover have "fst (verify_infoblock_checksum sb) = fst (verify_infoblock_checksum sb')"
  proof -
    have "sb_checksum sb = sb_checksum sb'"
      unfolding sb_checksum_def by (rule le_get_cong) (simp add: assms)
    moreover have "fletcher64 (sb_set_checksum 0 sb) 0 4096 = fletcher64 (sb_set_checksum 0 sb') 0 4096"
      by (rule fletcher64_cong) (auto simp: sb_set_checksum_def le_put_at assms)
    ultimately show ?thesis by (simp add: verify_infoblock_checksum_def Let_def)
  qed
  ultimately show ?thesis by (simp add: btt_info_verify_def)
qed

lemma write_info_reads_back:
  assumes "fst (btt_write_info s sb off) = 0" and "btt_read_info s off = Inr sb0" and "btt_info_verify s sb = 0"
  defines "s' \<equiv> snd (btt_write_info s sb off)"
  shows "co_repair (bc_opts s) \<and>
    (\<exists>sb'. btt_info_read_verify s' off = Inr sb' \<and> (\<forall>i < 4096. sb' i = sb i)) \<and>
    dev_writes {unat off..<unat off + 4096} s s'"
proof -
  have rd: "\<not> sint off < 0" "bd_pread_errno (bc_dev s) off = 0" "min 4096 (bd_size (bc_dev s) - unat off) = 4096"
    using assms(2) by (auto simp: btt_read_info_def dev_pread_def split: if_splits)
  have s': "s' = s\<lparr>bc_dev := (bc_dev s)\<lparr>bd_data := mem_copy (bd_data (bc_dev s)) (unat off) sb 0 4096\<rparr>\<rparr>"
    and r: "co_repair (bc_opts s)"
    using assms(1) rd by (auto simp: s'_def btt_write_info_def dev_pwrite_def Let_def split: if_splits)
  let ?sb = "\<lambda>i. bd_data (bc_dev s') (unat off + i)"
  have eq: "\<forall>i < 4096. ?sb i = sb i" by (simp add: s' mem_copy_def)
  have "btt_info_verify s ?sb = 0" using info_verify_cong [of ?sb sb s] eq assms(3) by simp
  moreover have "bc_parent_uuid s' = bc_parent_uuid s" by (simp add: s')
  ultimately have "btt_info_verify s' ?sb = 0" by (simp add: btt_info_verify_def split: if_splits)
  moreover have "btt_read_info s' off = Inr ?sb" using rd by (simp add: btt_read_info_def dev_pread_def s')
  ultimately have "btt_info_read_verify s' off = Inr ?sb" by (simp add: read_verify_Inr)
  with r eq show ?thesis by (auto simp: s' dev_writes_def mem_copy_def)
qed

lemma recover_at_ok:
  assumes "fst (recover_first_sb_at s off) = 0"
  shows "co_repair (bc_opts s) \<and>
    (\<exists>sb. btt_info_read_verify (snd (recover_first_sb_at s off)) (word_of_int off) = Inr sb)"
  using recover_at_installs [of s off] assms write_info_reads_back
  unfolding installs_verified_def by metis

subsection \<open>Arena discovery\<close>

lemma parse_meta_ok:
  "btt_parse_meta a sb off = (0, a') \<Longrightarrow>
    ai_internal_nlba a' - ai_external_nlba a' = ai_nfree a' \<and> ai_infooff a' = off \<and>
    ai_internal_lbasize a' = ai_external_lbasize a' \<and>
    ai_nextoff a' = (if sb_nextoff sb = 0 then 0 else off + sb_nextoff sb) \<and>
    (sb_nextoff sb \<noteq> 0 \<longrightarrow> ai_size a' = sb_nextoff sb)"
  by (auto simp: btt_parse_meta_def Let_def word_neq_0_conv split: if_splits)

lemma write_info_frame:
  "\<exists>d. snd (btt_write_info s sb off) = s\<lparr>bc_dev := d\<rparr>"
  by (auto simp: btt_write_info_def split: prod.splits sum.splits intro: exI [of _ "bc_dev s"])

lemma discover_one_frame:
  "\<exists>d. snd (discover_one_arena s i rem off nlba) = s\<lparr>bc_dev := d\<rparr> \<and>
     (\<not> co_repair (bc_opts s) \<longrightarrow> d = bc_dev s)"
proof -
  have same: "\<exists>d. s = s\<lparr>bc_dev := d\<rparr> \<and> (\<not> co_repair (bc_opts s) \<longrightarrow> d = bc_dev s)"
    by (rule exI [of _ "bc_dev s"]) simp
  have "\<exists>d. snd (btt_write_info s sb off) = s\<lparr>bc_dev := d\<rparr> \<and> (\<not> co_repair (bc_opts s) \<longrightarrow> d = bc_dev s)" for sb
    using write_info_frame [of s sb off] same write_info_no_repair [of s sb off] by (cases "co_repair (bc_opts s)") auto
  then show ?thesis using same
    by (auto simp: discover_one_arena_def Let_def split: sum.splits prod.splits) (metis snd_conv)+
qed

lemma discover_one_ok:
  assumes "discover_one_arena s i rem off nlba = ((0, a), s')"
  shows "ai_internal_nlba a - ai_external_nlba a = ai_nfree a \<and> ai_infooff a = off"
  using assms
  by (auto simp: discover_one_arena_def Let_def read_info_Inl dest: parse_meta_ok
      split: sum.splits prod.splits if_splits)

definition arena_counts_ok :: "arena_info \<Rightarrow> bool" where
  "arena_counts_ok a = (ai_internal_nlba a - ai_external_nlba a = ai_nfree a)"

lemma discover_loop_ok:
  "discover_arenas_loop fuel s rem off nlba as = Some (rc, s') \<Longrightarrow>
    (\<forall>a \<in> set as. arena_counts_ok a) \<Longrightarrow>
    bc_opts s' = bc_opts s \<and> (rc = 0 \<longrightarrow> (\<forall>a \<in> set (bc_arena s'). arena_counts_ok a)) \<and>
    (\<not> co_repair (bc_opts s) \<longrightarrow> bc_dev s' = bc_dev s)"
proof (induction fuel s rem off nlba as rule: discover_arenas_loop.induct)
  case (1 s rem off nlba as)
  then show ?case by simp
next
  case (2 fuel s rem off nlba as)
  show ?case
  proof (cases "rem = 0")
    case True
    with 2 show ?thesis by auto
  next
    case False
    obtain ret a s1 where one: "discover_one_arena s (length as) rem off nlba = ((ret, a), s1)"
      by (metis prod.collapse)
    obtain d where s1: "s1 = s\<lparr>bc_dev := d\<rparr>" and d: "\<not> co_repair (bc_opts s) \<Longrightarrow> d = bc_dev s"
      using discover_one_frame [of s "length as" rem off nlba] one by auto
    show ?thesis
    proof (cases "ret = 0")
      case ret: True
      then have a: "arena_counts_ok a" using discover_one_ok one by (simp add: arena_counts_ok_def)
      show ?thesis
      proof (cases "ai_nextoff a = 0")
        case True
        with 2 False one ret s1 d a show ?thesis by auto
      next
        case more: False
        have "bc_opts s' = bc_opts s1 \<and> (rc = 0 \<longrightarrow> (\<forall>a \<in> set (bc_arena s'). arena_counts_ok a)) \<and>
            (\<not> co_repair (bc_opts s1) \<longrightarrow> bc_dev s' = bc_dev s1)"
          by (rule "2.IH" [OF False one [symmetric] refl])
             (use 2 False one ret more a in auto)
        with s1 d show ?thesis by auto
      qed
    next
      case ret: False
      with 2 False one s1 d show ?thesis by auto
    qed
  qed
qed

subsection \<open>The whole pass\<close>

text \<open>\<open>dev_only s s'\<close>: \<open>s'\<close> is \<open>s\<close> with another device state.\<close>

definition dev_only :: "btt_chk \<Rightarrow> btt_chk \<Rightarrow> bool" where
  "dev_only s s' = (\<exists>d. s' = s\<lparr>bc_dev := d\<rparr>)"

lemma dev_only_refl [simp]: "dev_only s s"
  by (auto simp: dev_only_def intro: exI [of _ "bc_dev s"])

lemma dev_only_trans: "dev_only s s' \<Longrightarrow> dev_only s' s'' \<Longrightarrow> dev_only s s''"
  by (auto simp: dev_only_def)

lemma dev_onlyD: "dev_only s s' \<Longrightarrow> bc_arena s' = bc_arena s \<and> bc_opts s' = bc_opts s"
  by (auto simp: dev_only_def)

lemma dev_only_log_map: "dev_only s (snd (btt_check_log_map s a))"
proof -
  have w: "dev_only s (snd (btt_map_write s a k v))" for s k v
    by (auto simp: btt_map_write_def Let_def dev_only_def intro: exI [of _ "bc_dev s"])
  have "dev_only s (snd (check_log_map_loop s a is rc))" for "is" rc
  proof (induction "is" arbitrary: s rc)
    case (Cons i "is")
    then show ?case using w dev_only_trans
      by (simp add: Let_def split: prod.splits) (metis snd_conv)
  qed simp
  then show ?thesis by (simp add: check_log_map_state)
qed

lemma dev_only_rewrite: "dev_only s (rewrite_log_loop s a is)"
proof (induction "is" arbitrary: s)
  case (Cons i "is")
  have "dev_only s (btt_log_group_write s a i log)" for log
    by (auto simp: btt_log_group_write_def Let_def dev_only_def)
  with Cons show ?case by (auto simp: Let_def intro: dev_only_trans)
qed simp

lemma dev_only_check_arena: "dev_only s (snd (btt_check_arena s a))"
proof -
  have i2: "dev_only s (snd (btt_check_info2 s a))" for s
    by (auto simp: btt_check_info2_def btt_copy_to_info2_def Let_def dev_only_def
        intro: exI [of _ "bc_dev s"])
  show ?thesis
    using dev_only_log_map [of s a] i2 [of "snd (btt_check_log_map s a)"]
      dev_only_rewrite [of "snd (btt_check_info2 (snd (btt_check_log_map s a)) a)" a]
    by (auto simp: btt_check_arena_def Let_def btt_rewrite_log_def split: prod.splits
        intro: dev_only_trans)
qed

lemma dev_only_check_arenas: "dev_only s (snd (btt_check_arenas s))"
proof -
  have "dev_only s (snd (check_arenas_loop s as))" for as
  proof (induction as arbitrary: s)
    case (Cons a as)
    then show ?case using dev_only_check_arena [of s a]
      by (cases "btt_check_arena s a") (auto intro: dev_only_trans)
  qed simp
  then show ?thesis by (simp add: btt_check_arenas_def split: prod.splits) (metis snd_conv)
qed

lemma dev_only_recover_at: "dev_only s (snd (recover_first_sb_at s off))"
  using recover_at_installs [of s off] write_info_frame
  by (auto simp: installs_verified_def dev_only_def intro: exI [of _ "bc_dev s"])

lemma find_first_sb_frame:
  assumes "find_first_sb s = (rc, s')"
  shows "bc_opts s' = bc_opts s" and "\<not> co_repair (bc_opts s) \<Longrightarrow> bc_dev s' = bc_dev s"
proof -
  have "bc_opts (snd (btt_recover_first_sb s)) = bc_opts s"
    using dev_onlyD [OF dev_only_recover_at [of s BTT1_START_OFFSET]] dev_onlyD [OF dev_only_recover_at [of "snd (recover_first_sb_at s BTT1_START_OFFSET)" BTT2_START_OFFSET]]
    by (auto simp: btt_recover_first_sb_def split: prod.splits)
  with assms show "bc_opts s' = bc_opts s"
    by (auto simp: find_first_sb_def split: sum.splits prod.splits if_splits)
  show "bc_dev s' = bc_dev s" if "\<not> co_repair (bc_opts s)"
    using assms recover_no_repair [OF that]
    by (auto simp: find_first_sb_def split: sum.splits prod.splits if_splits)
qed

lemma arena_counts_ok_log_index [simp]: "arena_counts_ok (a\<lparr>ai_log_index := x\<rparr>) = arena_counts_ok a"
  by (simp add: arena_counts_ok_def)

lemma set_all_indices_ok:
  "set_all_indices s as = (0, as') \<Longrightarrow> (\<forall>a \<in> set as. arena_counts_ok a) \<Longrightarrow>
    \<forall>a \<in> set as'. log_index_ok a \<and> arena_counts_ok a"
proof (induction as arbitrary: as')
  case (Cons a as)
  then obtain a' bs where a': "log_set_indices s a = (0, a')" and bs: "set_all_indices s as = (0, bs)"
    and as': "as' = a' # bs"
    by (auto split: prod.splits if_splits)
  from log_set_indices_ok [OF a'] have "log_index_ok a'"
    and "a' = a\<lparr>ai_log_index := ai_log_index a'\<rparr>" by auto
  then have "log_index_ok a' \<and> arena_counts_ok a'"
    using Cons.prems(2) by (metis arena_counts_ok_log_index list.set_intros(1))
  with Cons.IH [OF bs] Cons.prems(2) as' show ?case by simp
qed simp

text \<open>The stages of a run: the state after each, and where the run may have stopped.\<close>

lemma check_media_stages:
  assumes "check_media fuel s = Some (rc, s')" and "check_prologue (bc_opts s) = 0"
  obtains rc1 s1 where "find_first_sb s = (rc1, s1)" and "rc = rc1" and "s' = s1" and "rc1 \<noteq> 0"
  | s1 rc2 s2 where "find_first_sb s = (0, s1)" and "btt_discover_arenas fuel s1 = Some (rc2, s2)"
    and "rc \<noteq> 0" and "bc_dev s' = bc_dev s2"
  | s1 s2 as where "find_first_sb s = (0, s1)" and "btt_discover_arenas fuel s1 = Some (0, s2)"
    and "set_all_indices s2 (bc_arena s2) = (0, as)" and "(rc, s') = btt_check_arenas (s2\<lparr>bc_arena := as\<rparr>)"
proof -
  obtain rc1 s1 where f: "find_first_sb s = (rc1, s1)" by (cases "find_first_sb s")
  show thesis
  proof (cases "rc1 = 0")
    case False
    with f assms that(1) show thesis by (simp add: check_media_def)
  next
    case True
    with f assms obtain rc2 s2 where d: "btt_discover_arenas fuel s1 = Some (rc2, s2)"
      by (auto simp: check_media_def split: option.splits)
    obtain rc3 as where i: "set_all_indices s2 (bc_arena s2) = (rc3, as)" by (metis prod.collapse)
    show thesis
    proof (cases "rc2 = 0 \<and> btt_create_mappings s2 = 0 \<and> rc3 = 0")
      case ok: True
      with f True d i assms that(3) show thesis by (simp add: check_media_def)
    next
      case False
      have "rc \<noteq> 0 \<and> bc_dev s' = bc_dev s2"
        using f True d i assms False by (auto simp: check_media_def split: if_splits)
      with f True d that(2) show thesis by blast
    qed
  qed
qed

lemma discover_ok:
  assumes "btt_discover_arenas fuel s1 = Some (rc, s2)"
  shows "bc_opts s2 = bc_opts s1" and "rc = 0 \<Longrightarrow> \<forall>a \<in> set (bc_arena s2). arena_counts_ok a"
    and "\<not> co_repair (bc_opts s1) \<Longrightarrow> bc_dev s2 = bc_dev s1"
  using assms discover_loop_ok [of fuel s1 "bc_rawsize s1" "word_of_int (bc_start_off s1)" 0 "[]" rc s2]
  by (auto simp: btt_discover_arenas_def split: if_splits)

subsection \<open>Properties of the pass\<close>

text \<open>C35: without \<open>--repair\<close> no run of the pass, successful or not, changes a byte of the device:
  recovery, discovery and the checks are read-only, and \<open>--rewrite-log\<close> alone is refused.\<close>

theorem check_media_read_only:
  assumes "check_media fuel s = Some (rc, s')" and "\<not> co_repair (bc_opts s)"
  shows "bc_dev s' = bc_dev s \<and> (co_logfix (bc_opts s) \<longrightarrow> rc = - EINVAL)"
proof (cases "co_logfix (bc_opts s)")
  case True
  with assms show ?thesis by (auto simp: check_media_def check_prologue_def)
next
  case False
  then have "check_prologue (bc_opts s) = 0" by (simp add: check_prologue_def)
  with assms(1) have "bc_dev s' = bc_dev s"
  proof (cases rule: check_media_stages)
    case (1 rc1 s1)
    then show ?thesis using find_first_sb_frame(2) assms(2) by auto
  next
    case (2 s1 rc2 s2)
    then show ?thesis using find_first_sb_frame [OF 2(1)] discover_ok(3) [OF 2(2)] assms(2) by auto
  next
    case (3 s1 s2 as)
    have "bc_opts s2 = bc_opts s" "bc_dev s2 = bc_dev s"
      using find_first_sb_frame [OF 3(1)] discover_ok(1,3) [OF 3(2)] assms(2) by auto
    moreover from this have "snd (btt_check_arenas (s2\<lparr>bc_arena := as\<rparr>)) = s2\<lparr>bc_arena := as\<rparr>"
      using check_arenas_no_repair [of "s2\<lparr>bc_arena := as\<rparr>"] assms(2) False by simp
    ultimately show ?thesis using arg_cong [OF 3(4), of snd] by simp
  qed
  with False show ?thesis by simp
qed

theorem check_media_read_only_witness:
  "\<exists>rc s'. check_media 1 (demo_chk False True) = Some (rc, s') \<and> rc = - EINVAL \<and>
     bc_dev s' = bc_dev (demo_chk False True)"
proof -
  have "check_media 1 (demo_chk False True) = Some (- EINVAL, demo_chk False True)"
    by (simp add: check_media_def check_prologue_def demo_chk_def)
  moreover have "\<not> co_repair (bc_opts (demo_chk False True))" by (simp add: demo_chk_def)
  ultimately show ?thesis
    using check_media_read_only [of 1 "demo_chk False True"] by (simp add: demo_chk_def)
qed

text \<open>C2: a successful run of the whole pass (with or without \<open>--repair\<close>) ends with every discovered
  arena consistent, provided their metadata regions do not overlap, which the code does not check.\<close>

theorem check_media_sound:
  assumes "check_media fuel s = Some (0, s')" and "\<forall>a \<in> set (bc_arena s'). arena_layout a"
    and "sorted_wrt (\<lambda>a b. meta_region a \<inter> meta_region b = {}) (bc_arena s')"
  shows "\<forall>a \<in> set (bc_arena s'). arena_consistent s' a"
proof -
  have "check_prologue (bc_opts s) = 0"
    using assms(1) by (auto simp: check_media_def check_prologue_def split: if_splits)
  with assms(1) show ?thesis
  proof (cases rule: check_media_stages)
    case (3 s1 s2 as)
    let ?s = "s2\<lparr>bc_arena := as\<rparr>"
    have s': "s' = snd (btt_check_arenas ?s)" and rc: "fst (btt_check_arenas ?s) = 0"
      using 3(4) by (metis fst_conv snd_conv)+
    have as: "bc_arena s' = as" using dev_onlyD [OF dev_only_check_arenas [of ?s]] s' by simp
    have "\<forall>a \<in> set as. log_index_ok a \<and> arena_counts_ok a"
      by (rule set_all_indices_ok [OF 3(3) discover_ok(2) [OF 3(2)]]) simp
    then have "\<forall>a \<in> set (bc_arena ?s). arena_ready a"
      using assms(2) as by (simp add: arena_ready_def arena_counts_ok_def)
    from check_arenas_ok [OF rc this] assms(3) as s' show ?thesis by simp
  qed auto
qed

text \<open>A device for the witness: a sealed info block at 4096 that describes one arena with one external
  and two internal blocks, an identity map and a log lane in its initial state.\<close>

definition demo_sb_fields :: info_block where
  "demo_sb_fields =
     le_put 4 (512 :: u32) (le_put 4 (1 :: u32) (le_put 4 (512 :: u32) (le_put 4 (2 :: u32)
       (le_put 4 (1 :: u32) (le_put 8 (4096 :: u64) (le_put 8 (8192 :: u64) (le_put 8 (12288 :: u64)
         (le_put 8 (16384 :: u64) (le_put 2 (1 :: u16) (le_put 2 (1 :: u16) (mem_store (\<lambda>_. 0) 0 BTT_SIG)
           52) 54) 112) 104) 96) 88) 72) 68) 64) 60) 56"

definition demo_sb :: info_block where
  "demo_sb = ib.seal demo_sb_fields"

lemma mem_bytes_zeros: "mem_bytes (\<lambda>_. 0) ofs n = replicate n 0"
  by (simp add: list_eq_iff_nth_eq)

lemma length_BTT_SIG [simp]: "length BTT_SIG = 16"
  by (simp add: BTT_SIG_def)

lemma demo_sb_fields:
  "sb_signature demo_sb = BTT_SIG" "sb_parent_uuid demo_sb = replicate 16 0" "sb_flags demo_sb = 0"
  "sb_external_lbasize demo_sb = 512" "sb_external_nlba demo_sb = 1" "sb_internal_lbasize demo_sb = 512"
  "sb_internal_nlba demo_sb = 2" "sb_nfree demo_sb = 1" "sb_nextoff demo_sb = 0" "sb_dataoff demo_sb = 4096"
  "sb_version_major demo_sb = 1" "sb_version_minor demo_sb = 1"
  "sb_mapoff demo_sb = 8192" "sb_logoff demo_sb = 12288" "sb_info2off demo_sb = 16384"
  by (simp_all add: demo_sb_def demo_sb_fields_def ib.seal_def sb_set_checksum_def layout_simps
      sb_signature_def sb_parent_uuid_def sb_flags_def sb_external_lbasize_def sb_external_nlba_def
      sb_internal_lbasize_def sb_internal_nlba_def sb_nfree_def sb_nextoff_def sb_dataoff_def sb_mapoff_def
      sb_logoff_def sb_info2off_def sb_version_major_def sb_version_minor_def mem_bytes_put_disj le_get_put_disj le_get_put_same le_get_store_disj
      mem_bytes_store_disj mem_bytes_zeros)

lemma demo_sb_verifies: "bc_parent_uuid s = replicate 16 0 \<Longrightarrow> btt_info_verify s demo_sb = 0"
  by (simp add: btt_info_verify_def demo_sb_fields verify_infoblock_checksum_iff)
     (simp add: demo_sb_def ib.seal_intact)

definition media_data :: mem where
  "media_data = mem_copy (log_entry_put \<lparr>lg_lba = 0, lg_old_map = 1, lg_new_map = 1, lg_seq = 1\<rparr> (\<lambda>_. 0) 16384)
     4096 demo_sb 0 4096"

definition media_chk :: btt_chk where
  "media_chk = (demo_chk False False)\<lparr>bc_dev := demo_dev\<lparr>bd_data := media_data, bd_size := 32768\<rparr>,
     bc_rawsize := 32768, bc_arena := []\<rparr>"

definition media_arena :: arena_info where
  "media_arena = \<lparr>ai_size = 20480, ai_external_lba_start = 0, ai_internal_nlba = 2, ai_internal_lbasize = 512,
     ai_external_nlba = 1, ai_external_lbasize = 512, ai_nfree = 1, ai_version_major = 1,
     ai_version_minor = 1, ai_nextoff = 0, ai_infooff = 4096, ai_dataoff = 8192, ai_mapoff = 12288,
     ai_logoff = 16384, ai_info2off = 20480, ai_flags = 0, ai_num = 0, ai_log_index = (0, 0)\<rparr>"

lemma media_sb: "i < 4096 \<Longrightarrow> media_data (4096 + i) = demo_sb i"
  by (simp add: media_data_def mem_copy_def)

lemma media_read: "btt_read_info s 4096 = Inr (\<lambda>i. media_data (4096 + i))" if "bc_dev s = bc_dev media_chk"
  unfolding btt_read_info_def that by (simp add: dev_pread_def media_chk_def demo_dev_def)

lemma media_verify: "btt_info_verify s (\<lambda>i. media_data (4096 + i)) = 0" if "bc_parent_uuid s = replicate 16 0"
  using info_verify_cong [of "\<lambda>i. media_data (4096 + i)" demo_sb s] media_sb demo_sb_verifies that by simp

lemma media_parse:
  "btt_parse_meta (zero_arena\<lparr>ai_infooff := 4096, ai_num := 0, ai_external_lba_start := 0\<rparr>)
     (\<lambda>i. media_data (4096 + i)) 4096 = (0, media_arena)"
proof -
  have g: "le_get n (\<lambda>i. media_data (4096 + i)) ofs = (le_get n demo_sb ofs :: 'a::len word)" if "ofs + n \<le> 4096" for n ofs
    by (rule le_get_cong) (use that media_sb in simp)
  note f = demo_sb_fields [unfolded sb_flags_def sb_external_lbasize_def sb_external_nlba_def
      sb_internal_lbasize_def sb_internal_nlba_def sb_nfree_def sb_nextoff_def sb_dataoff_def sb_mapoff_def
      sb_logoff_def sb_info2off_def sb_version_major_def sb_version_minor_def]
  show ?thesis
    by (simp add: btt_parse_meta_def sb_flags_def sb_external_lbasize_def sb_external_nlba_def
      sb_internal_lbasize_def sb_internal_nlba_def sb_nfree_def sb_nextoff_def sb_dataoff_def sb_mapoff_def
      sb_logoff_def sb_info2off_def sb_version_major_def sb_version_minor_def g f media_arena_def zero_arena_def)
qed

lemma log_entry_get_cong:
  "(\<And>i. i < 16 \<Longrightarrow> m (ofs + i) = m' (ofs + i)) \<Longrightarrow> log_entry_get m ofs = log_entry_get m' ofs"
  unfolding log_entry_get_def by (simp add: le_get_cong [where m = m and m' = m'] add.assoc)

definition media_state :: "arena_info list \<Rightarrow> btt_chk" where
  "media_state as = media_chk\<lparr>bc_start_off := 4096, bc_arena := as, bc_num_arenas := 1, bc_nlba := 1\<rparr>"

lemma media_find: "find_first_sb media_chk = (0, media_chk\<lparr>bc_start_off := 4096\<rparr>)"
  using media_verify [of media_chk]
  by (simp add: find_first_sb_def btt_info_read_verify_def media_read)
     (simp add: media_chk_def demo_chk_def)

lemma media_discover: "btt_discover_arenas 1 (media_chk\<lparr>bc_start_off := 4096\<rparr>) = Some (0, media_state [media_arena])"
proof -
  let ?s = "media_chk\<lparr>bc_start_off := 4096\<rparr>"
  have "btt_read_info ?s 4096 = Inr (\<lambda>i. media_data (4096 + i))"
    by (rule media_read) (simp add: media_chk_def)
  moreover have "btt_info_verify ?s (\<lambda>i. media_data (4096 + i)) = 0"
    by (rule media_verify) (simp add: media_chk_def demo_chk_def)
  moreover have "bc_rawsize ?s = 32768" "bc_calloc_ok ?s = (\<lambda>_. True)"
    by (simp_all add: media_chk_def demo_chk_def)
  ultimately have "discover_one_arena ?s 0 32768 4096 0 = ((0, media_arena), ?s)"
    using media_parse by (simp add: discover_one_arena_def)
  then show ?thesis
    by (simp add: btt_discover_arenas_def media_state_def)
       (simp add: media_chk_def demo_chk_def media_arena_def)
qed

lemma media_log: "btt_log_group_read (media_state as) (media_arena\<lparr>ai_log_index := x\<rparr>) 0 =
    initial_group \<lparr>lg_lba = 0, lg_old_map = 1, lg_new_map = 1, lg_seq = 1\<rparr>"
proof -
  have z: "log_entry_get (\<lambda>_. 0) ofs = zero_log_entry" for ofs
    by (simp add: log_entry_get_def zero_log_entry_def)
  have "log_entry_get media_data ofs = log_entry_get (log_entry_put \<lparr>lg_lba = 0, lg_old_map = 1, lg_new_map = 1, lg_seq = 1\<rparr> (\<lambda>_. 0) 16384) ofs"
    if "8192 \<le> ofs" for ofs
    by (rule log_entry_get_cong) (use that in \<open>simp add: media_data_def mem_copy_def\<close>)
  then show ?thesis
    by (simp add: btt_log_group_read_def media_state_def media_chk_def demo_chk_def demo_dev_def media_arena_def
        log_addr_def initial_group_def z)
qed

lemma media_consistent:
  "arena_consistent (media_state as) (media_arena\<lparr>ai_log_index := (0, 1)\<rparr>)"
proof -
  let ?a = "media_arena\<lparr>ai_log_index := (0, 1)\<rparr>" and ?s = "media_state as"
  have n: "ai_nfree ?a = 1" "ai_external_nlba ?a = 1" "ai_internal_nlba ?a = 2"
    by (simp_all add: media_arena_def)
  have z: "x < 1 \<longleftrightarrow> x = 0" for x :: u32 by simp
  have e: "btt_log_read ?s ?a 0 = \<lparr>lg_lba = 0, lg_old_map = 1, lg_new_map = 1, lg_seq = 1\<rparr>"
    using log_read_initial [OF media_log] by (simp add: log_index_ok_def)
  have m: "btt_map_lookup ?s ?a 0 = 0"
  proof -
    have "le_get 4 media_data 12288 = (le_get 4 (\<lambda>_. 0) 12288 :: u32)"
      by (rule le_get_cong) (simp add: media_data_def mem_copy_def log_entry_put_out)
    then show ?thesis
      by (simp add: btt_map_lookup_def media_state_def media_chk_def media_arena_def map_addr_def)
  qed
  have "lane_seqs_ok ?s ?a 0" "lane_entry_ok ?s ?a 0"
    by (simp_all add: lane_seqs_ok_def lane_entry_ok_def media_log e n del: One_nat_def)
       (simp add: initial_group_def log_seq_def zero_log_entry_def)
  moreover have "{..<2 :: u32} = {0, 1}"
    using set_u32_range [of 2] by (simp add: u32_range_def upt_conv_Cons)
  ultimately show ?thesis
    by (simp add: arena_consistent_def log_wf_def map_wf_def blocks_partitioned_def map_refs_def free_refs_def
        n z m e del: One_nat_def)
qed

lemma media_check: "check_media 1 media_chk = Some (btt_check_arenas (media_state [media_arena\<lparr>ai_log_index := (0, 1)\<rparr>]))"
  and media_check_rc: "fst (btt_check_arenas (media_state [media_arena\<lparr>ai_log_index := (0, 1)\<rparr>])) = 0"
proof -
  let ?a = "media_arena\<lparr>ai_log_index := (0, 1)\<rparr>" and ?s = "media_state [media_arena]"
  have z: "x < 1 \<longleftrightarrow> x = 0" for x :: u32 by simp
  have "media_arena\<lparr>ai_log_index := (0, 0)\<rparr> = media_arena" by (simp add: media_arena_def)
  then have "log_set_indices ?s media_arena = (0, ?a)"
    using media_log [of "[media_arena]" "(0, 0)"]
    by (intro log_set_indices_initial) (auto simp: z media_arena_def)
  moreover have "bc_arena ?s = [media_arena]" "?s\<lparr>bc_arena := [?a]\<rparr> = media_state [?a]"
    by (simp_all add: media_state_def)
  moreover have "btt_create_mappings ?s = 0"
    by (simp add: btt_create_mappings_def media_state_def media_chk_def demo_dev_def arena_map_offsets_def)
  moreover have "check_prologue (bc_opts media_chk) = 0"
    by (simp add: check_prologue_def media_chk_def demo_chk_def)
  ultimately show "check_media 1 media_chk = Some (btt_check_arenas (media_state [?a]))"
    by (simp add: check_media_def media_find media_discover del: One_nat_def)
  have "arena_ready ?a"
    by (simp add: arena_ready_def arena_layout_def media_arena_def regions_apart_def log_index_ok_def)
  from check_arena_complete [OF this media_consistent]
  have "fst (btt_check_arena (media_state [?a]) ?a) = 0"
    by (simp add: media_arena_def media_state_def media_chk_def demo_chk_def demo_dev_def)
  moreover have "bc_arena (media_state [?a]) = [?a]" by (simp add: media_state_def)
  ultimately show "fst (btt_check_arenas (media_state [?a])) = 0"
    by (auto simp: btt_check_arenas_def split: prod.splits)
qed

theorem check_media_sound_witness:
  "\<exists>s' a. check_media 1 media_chk = Some (0, s') \<and> bc_arena s' = [a] \<and> arena_consistent s' a"
proof -
  let ?a = "media_arena\<lparr>ai_log_index := (0, 1)\<rparr>" and ?s = "media_state [media_arena\<lparr>ai_log_index := (0, 1)\<rparr>]"
  have run: "check_media 1 media_chk = Some (0, snd (btt_check_arenas ?s))"
    using media_check media_check_rc by (metis prod.collapse)
  have as: "bc_arena (snd (btt_check_arenas ?s)) = [?a]"
    using dev_onlyD [OF dev_only_check_arenas [of ?s]] by (simp add: media_state_def)
  have "arena_layout ?a" by (simp add: arena_layout_def media_arena_def regions_apart_def)
  with check_media_sound [OF run] run as show ?thesis by simp
qed

text \<open>When the recovery of the first info block succeeds, \<open>--repair\<close> was given, \<open>start_off\<close> is one of the
  two offsets tried, and reading that offset now yields an info block that verifies (signature, parent
  uuid and checksum), so a corrupt block is never installed.\<close>

theorem btt_recover_first_sb_sound:
  assumes "fst (btt_recover_first_sb s) = 0"
  shows "co_repair (bc_opts s) \<and> bc_start_off (snd (btt_recover_first_sb s)) \<in> {BTT1_START_OFFSET, BTT2_START_OFFSET} \<and>
    (\<exists>sb. btt_info_read_verify (snd (btt_recover_first_sb s))
             (word_of_int (bc_start_off (snd (btt_recover_first_sb s)))) = Inr sb)"
proof -
  let ?s1 = "snd (recover_first_sb_at s BTT1_START_OFFSET)"
  have upd: "btt_info_read_verify (s\<lparr>bc_start_off := x\<rparr>) off = btt_info_read_verify s off" for s x off
  proof -
    have "btt_read_info (s\<lparr>bc_start_off := x\<rparr>) off = btt_read_info s off"
      by (auto simp: btt_read_info_def split: sum.splits)
    moreover have "btt_info_verify (s\<lparr>bc_start_off := x\<rparr>) sb = btt_info_verify s sb" for sb
      by (auto simp: btt_info_verify_def)
    ultimately show ?thesis by (auto simp: btt_info_read_verify_def split: sum.splits)
  qed
  have opts: "bc_opts ?s1 = bc_opts s"
    using dev_onlyD [OF dev_only_recover_at [of s BTT1_START_OFFSET]] by simp
  show ?thesis
  proof (cases "fst (recover_first_sb_at s BTT1_START_OFFSET) = 0")
    case True
    then have "btt_recover_first_sb s = (0, ?s1\<lparr>bc_start_off := BTT1_START_OFFSET\<rparr>)"
      by (auto simp: btt_recover_first_sb_def split: prod.splits)
    with recover_at_ok [OF True] upd show ?thesis by simp
  next
    case False
    let ?r2 = "recover_first_sb_at ?s1 BTT2_START_OFFSET"
    have r: "btt_recover_first_sb s = (if fst ?r2 = 0 then (0, (snd ?r2)\<lparr>bc_start_off := BTT2_START_OFFSET\<rparr>) else ?r2)"
      using False by (auto simp: btt_recover_first_sb_def split: prod.splits)
    with assms have "fst ?r2 = 0" by (auto split: if_splits)
    with r recover_at_ok [OF this] upd opts show ?thesis by simp
  qed
qed

text \<open>The backup block alone, at the end of a device of 16 MiB and 4 KiB.\<close>

definition backup_chk :: btt_chk where
  "backup_chk = (demo_chk True False)\<lparr>bc_dev := demo_dev\<lparr>bd_data := mem_copy (\<lambda>_. 0) 16777216 demo_sb 0 4096,
     bd_size := 16781312\<rparr>, bc_rawsize := 16781312\<rparr>"

definition backup_sb :: info_block where
  "backup_sb i = mem_copy (\<lambda>_. 0) 16777216 demo_sb 0 4096 (16777216 + i)"

lemma backup_sb: "i < 4096 \<Longrightarrow> backup_sb i = demo_sb i"
  by (simp add: backup_sb_def mem_copy_def)

lemma backup_read:
  "btt_read_info backup_chk 16777216 = Inr backup_sb" "btt_info_verify backup_chk backup_sb = 0"
  "btt_read_info backup_chk 4096 = Inr (\<lambda>i. mem_copy (\<lambda>_. 0) 16777216 demo_sb 0 4096 (4096 + i))"
proof -
  show "btt_read_info backup_chk 16777216 = Inr backup_sb"
    "btt_read_info backup_chk 4096 = Inr (\<lambda>i. mem_copy (\<lambda>_. 0) 16777216 demo_sb 0 4096 (4096 + i))"
    by (simp_all add: btt_read_info_def dev_pread_def backup_chk_def demo_dev_def backup_sb_def [abs_def])
  have "bc_parent_uuid backup_chk = replicate 16 0" by (simp add: backup_chk_def demo_chk_def)
  then show "btt_info_verify backup_chk backup_sb = 0"
    using info_verify_cong [of backup_sb demo_sb backup_chk] backup_sb demo_sb_verifies by simp
qed

lemma backup_recovers: "recover_first_sb_at backup_chk 4096 = btt_write_info backup_chk backup_sb 4096"
  "fst (btt_write_info backup_chk backup_sb 4096) = 0"
proof -
  have "le_get 2 backup_sb ofs = (le_get 2 demo_sb ofs :: u16)" if "ofs < 4000" for ofs
    by (rule le_get_cong) (use that backup_sb in simp)
  then have "sb_version_major backup_sb = 1" "sb_version_minor backup_sb = 1"
    using demo_sb_fields by (simp_all add: sb_version_major_def sb_version_minor_def)
  moreover have "estimate_arenas 16777216 0 = Inr (1, 0)"
    by (subst estimate_arenas.simps) (simp add: ARENA_MIN_SIZE_def ARENA_MAX_SIZE_def)
  moreover have "bc_rawsize backup_chk = 16781312" "bc_calloc_ok backup_chk = (\<lambda>_. True)"
    by (simp_all add: backup_chk_def demo_chk_def)
  ultimately show "recover_first_sb_at backup_chk 4096 = btt_write_info backup_chk backup_sb 4096"
    using backup_read by (simp add: recover_first_sb_at_def btt_sb_get_expected_offset_def btt_info_read_verify_def)
  show "fst (btt_write_info backup_chk backup_sb 4096) = 0"
    by (simp add: btt_write_info_def dev_pwrite_def backup_chk_def demo_dev_def demo_chk_def)
qed

lemma backup_recover_first:
  "btt_recover_first_sb backup_chk = (0, (snd (btt_write_info backup_chk backup_sb 4096))\<lparr>bc_start_off := 4096\<rparr>)"
  using backup_recovers by (auto simp: btt_recover_first_sb_def split: prod.splits)

theorem btt_recover_first_sb_sound_witness:
  "\<exists>sb. btt_info_read_verify (snd (btt_recover_first_sb backup_chk)) 4096 = Inr sb"
proof -
  have "fst (btt_recover_first_sb backup_chk) = 0" by (simp add: backup_recover_first)
  from btt_recover_first_sb_sound [OF this] show ?thesis by (simp add: backup_recover_first)
qed

subsection \<open>Termination\<close>

lemma read_verify_start_off:
  "btt_info_read_verify (s\<lparr>bc_start_off := x\<rparr>) off = btt_info_read_verify s off"
proof -
  have "btt_read_info (s\<lparr>bc_start_off := x\<rparr>) off = btt_read_info s off"
    by (auto simp: btt_read_info_def split: sum.splits)
  moreover have "btt_info_verify (s\<lparr>bc_start_off := x\<rparr>) sb = btt_info_verify s sb" for sb
    by (auto simp: btt_info_verify_def)
  ultimately show ?thesis by (auto simp: btt_info_read_verify_def split: sum.splits)
qed

lemma discover_one_next:
  assumes "discover_one_arena s i rem off nlba = ((0, a), s')"
  shows "ai_nextoff a \<noteq> 0 \<longrightarrow> ai_size a \<noteq> 0" and
    "btt_info_read_verify s off = Inr sb \<Longrightarrow> s' = s \<and> (ai_nextoff a \<noteq> 0 \<longrightarrow> ai_size a = sb_nextoff sb)"
  using assms
  by (auto simp: discover_one_arena_def Let_def read_info_Inl read_verify_Inr dest: parse_meta_ok
      split: sum.splits prod.splits if_splits)

lemma find_first_sb_rawsize: "find_first_sb s = (rc, s') \<Longrightarrow> bc_rawsize s' = bc_rawsize s"
proof -
  have "bc_rawsize (snd (btt_recover_first_sb s)) = bc_rawsize s"
    using dev_only_recover_at [of s BTT1_START_OFFSET]
      dev_only_recover_at [of "snd (recover_first_sb_at s BTT1_START_OFFSET)" BTT2_START_OFFSET]
    by (auto simp: btt_recover_first_sb_def dev_only_def split: prod.splits)
  then show "find_first_sb s = (rc, s') \<Longrightarrow> bc_rawsize s' = bc_rawsize s"
    by (auto simp: find_first_sb_def split: sum.splits prod.splits if_splits)
qed

text \<open>The states in which the discovery loop looks for the next arena: the number of arenas found, the state of the
  check, the bytes remaining, the offset and the block number there.\<close>

inductive discovery :: "btt_chk \<Rightarrow> nat \<Rightarrow> btt_chk \<Rightarrow> u64 \<Rightarrow> u64 \<Rightarrow> u64 \<Rightarrow> bool" for s where
  first_arena: "find_first_sb s = (0, s1) \<Longrightarrow> discovery s 0 s1 (bc_rawsize s1) (word_of_int (bc_start_off s1)) 0"
| next_arena: "discovery s i s1 rem off nlba \<Longrightarrow> rem \<noteq> 0 \<Longrightarrow>
    discover_one_arena s1 i rem off nlba = ((0, a), s2) \<Longrightarrow> ai_nextoff a \<noteq> 0 \<Longrightarrow>
    discovery s (Suc i) s2 (rem - ai_size a) (off + ai_size a) (nlba + ucast (ai_external_nlba a))"

text \<open>Every arena found that names a next one ends inside the device.\<close>

definition arenas_in_device :: "btt_chk \<Rightarrow> bool" where
  "arenas_in_device s \<longleftrightarrow>
     (\<forall>i s1 rem off nlba a s2. discovery s i s1 rem off nlba \<longrightarrow> rem \<noteq> 0 \<longrightarrow>
        discover_one_arena s1 i rem off nlba = ((0, a), s2) \<longrightarrow> ai_nextoff a \<noteq> 0 \<longrightarrow>
        unat off + unat (ai_size a) \<le> unat (bc_rawsize s))"

lemma discover_loop_terminates:
  assumes "arenas_in_device s"
  shows "discovery s (length as) s1 rem off nlba \<Longrightarrow> unat (bc_rawsize s) \<le> unat off + unat rem \<Longrightarrow> unat rem < fuel \<Longrightarrow>
    \<exists>r. discover_arenas_loop fuel s1 rem off nlba as = Some r"
proof (induction fuel arbitrary: s1 rem off nlba as)
  case (Suc fuel)
  obtain ret a s2 where one: "discover_one_arena s1 (length as) rem off nlba = ((ret, a), s2)"
    by (metis prod.collapse)
  show ?case
  proof (cases "rem = 0 \<or> ret \<noteq> 0 \<or> ai_nextoff a = 0")
    case True
    then show ?thesis using one by auto
  next
    case False
    then have one: "discover_one_arena s1 (length as) rem off nlba = ((0, a), s2)" and c: "rem \<noteq> 0" "ai_nextoff a \<noteq> 0"
      using one by auto
    have le: "unat off + unat (ai_size a) \<le> unat (bc_rawsize s)"
      using assms Suc.prems(1) one c unfolding arenas_in_device_def by blast
    then have "unat (ai_size a) \<le> unat rem" using Suc.prems(2) by simp
    then have rem: "unat (rem - ai_size a) = unat rem - unat (ai_size a)" by (simp add: unat_sub word_le_nat_alt)
    have off: "unat (off + ai_size a) = unat off + unat (ai_size a)"
      using le unat_u64_less [of "bc_rawsize s"] by (simp add: unat_plus_if')
    have "0 < unat (ai_size a)" using discover_one_next(1) [OF one] c by (simp add: unat_gt_0)
    moreover have "discovery s (length (as @ [a])) s2 (rem - ai_size a) (off + ai_size a)
        (nlba + ucast (ai_external_nlba a))"
      using next_arena [OF Suc.prems(1) c(1) one c(2)] by simp
    ultimately have "\<exists>r. discover_arenas_loop fuel s2 (rem - ai_size a) (off + ai_size a)
        (nlba + ucast (ai_external_nlba a)) (as @ [a]) = Some r"
      using Suc.IH Suc.prems(2,3) \<open>unat (ai_size a) \<le> unat rem\<close> rem off by simp
    then show ?thesis using one c by simp
  qed
qed simp

text \<open>C3: the check ends, with and without \<open>--repair\<close>, in at most one step of the arena discovery per byte of the
  device, if every arena found on the way that names a next one ends inside the device.  (The code does not check
  this: two info blocks that point at each other keep the loop going until memory runs out.)\<close>

theorem check_media_terminates:
  assumes "arenas_in_device s"
  shows "\<exists>r. check_media (Suc (unat (bc_rawsize s))) s = Some r"
proof -
  obtain rc s1 where f: "find_first_sb s = (rc, s1)" by fastforce
  show ?thesis
  proof (cases "rc = 0")
    case True
    have "\<exists>r. discover_arenas_loop (Suc (unat (bc_rawsize s))) s1 (bc_rawsize s1) (word_of_int (bc_start_off s1)) 0 [] = Some r"
      by (rule discover_loop_terminates [OF assms])
        (use f True first_arena [of s s1] find_first_sb_rawsize [OF f] in auto)
    then obtain rc2 s2 where "btt_discover_arenas (Suc (unat (bc_rawsize s))) s1 = Some (rc2, s2)"
      unfolding btt_discover_arenas_def by (metis surj_pair)
    then show ?thesis using f True by (auto simp: check_media_def Let_def split: prod.splits)
  next
    case False
    then show ?thesis using f by (simp add: check_media_def)
  qed
qed

text \<open>Without \<open>--repair\<close> the condition can be read off the device: every info block that verifies names a next arena
  inside it.\<close>

lemma no_repair_in_device:
  assumes "\<not> co_repair (bc_opts s)"
    and "\<And>off sb. btt_info_read_verify s off = Inr sb \<Longrightarrow> unat off + unat (sb_nextoff sb) \<le> unat (bc_rawsize s)"
  shows "arenas_in_device s"
proof -
  have one: "s2 = s1 \<and> (\<exists>sb. btt_info_read_verify s1 off = Inr sb)"
    if "discover_one_arena s1 i rem off nlba = ((0, a), s2)" and "\<not> co_repair (bc_opts s1)" for s1 i rem off nlba a s2
    using that
    by (auto simp: discover_one_arena_def Let_def read_info_Inl read_verify_Inr write_info_no_repair
        split: sum.splits prod.splits if_splits)
  have same: "\<exists>x. s1 = s\<lparr>bc_start_off := x\<rparr>" if "discovery s i s1 rem off nlba" for i s1 rem off nlba
    using that
  proof induction
    case (first_arena s1)
    then show ?case using recover_no_repair [OF assms(1)]
      by (auto simp: find_first_sb_def split: sum.splits prod.splits if_splits)
  next
    case (next_arena i s1 rem off nlba a s2)
    then show ?case using one [OF next_arena.hyps(3)] assms(1) by auto
  qed
  show ?thesis
    unfolding arenas_in_device_def
  proof (intro allI impI)
    fix i s1 rem off nlba a s2
    assume d: "discovery s i s1 rem off nlba" and o: "discover_one_arena s1 i rem off nlba = ((0, a), s2)" and "ai_nextoff a \<noteq> 0"
    from same [OF d] obtain x where s1: "s1 = s\<lparr>bc_start_off := x\<rparr>" by blast
    then obtain sb where sb: "btt_info_read_verify s1 off = Inr sb" using one [OF o] assms(1) by auto
    then have "ai_size a = sb_nextoff sb" using discover_one_next(2) [OF o sb] \<open>ai_nextoff a \<noteq> 0\<close> by simp
    then show "unat off + unat (ai_size a) \<le> unat (bc_rawsize s)"
      using assms(2) sb by (simp add: s1 read_verify_start_off)
  qed
qed

text \<open>The backup block restored by \<open>--repair\<close> names no next arena.\<close>

lemma backup_finds:
  "find_first_sb backup_chk = (rc, s1) \<Longrightarrow>
     s1 = (snd (btt_write_info backup_chk backup_sb 4096))\<lparr>bc_start_off := 4096\<rparr>"
proof -
  have "btt_info_read_verify backup_chk off \<noteq> Inr sb" if "unat off \<le> 4096" for off sb
  proof
    assume "btt_info_read_verify backup_chk off = Inr sb"
    then have "btt_read_info backup_chk off = Inr sb" and "btt_info_verify backup_chk sb = 0"
      by (simp_all add: read_verify_Inr)
    then have "sb 0 = 0" and "mem_bytes sb 0 16 = BTT_SIG"
      using that
      by (auto simp: btt_read_info_def dev_pread_def backup_chk_def demo_dev_def mem_copy_def btt_info_verify_def
          sb_signature_def split: if_splits)
    moreover have "sb 0 = BTT_SIG ! 0" using calculation(2) by (metis add_0 mem_bytes_nth zero_less_numeral)
    ultimately show False by (simp add: BTT_SIG_def)
  qed
  from this [of 4096] this [of 0]
  show "find_first_sb backup_chk = (rc, s1) \<Longrightarrow>
     s1 = (snd (btt_write_info backup_chk backup_sb 4096))\<lparr>bc_start_off := 4096\<rparr>"
    by (auto simp: find_first_sb_def backup_recover_first split: sum.splits if_splits)
qed

lemma backup_in_device: "arenas_in_device backup_chk"
proof -
  let ?s1 = "(snd (btt_write_info backup_chk backup_sb 4096))\<lparr>bc_start_off := 4096\<rparr>"
  obtain sb where rd: "btt_info_read_verify ?s1 4096 = Inr sb" and eq: "\<forall>i < 4096. sb i = backup_sb i"
    using write_info_reads_back [OF backup_recovers(2) backup_read(3,2)] by (auto simp: read_verify_start_off)
  have "sb_nextoff sb = sb_nextoff demo_sb"
    unfolding sb_nextoff_def by (rule le_get_cong) (simp add: eq backup_sb)
  then have stop: "ai_nextoff a = 0" if "discover_one_arena ?s1 i rem 4096 nlba = ((0, a), s2)" for i rem nlba a s2
    using discover_one_next(2) [OF that rd] discover_one_next(1) [OF that] by (auto simp: demo_sb_fields)
  have only: "s1 = ?s1 \<and> off = 4096" if "discovery backup_chk i s1 rem off nlba" for i s1 rem off nlba
    using that
  proof induction
    case (first_arena s1)
    then show ?case using backup_finds [OF first_arena] by simp
  next
    case (next_arena i s1 rem off nlba a s2)
    then show ?case using stop by auto
  qed
  show ?thesis unfolding arenas_in_device_def using only stop by blast
qed

theorem check_media_terminates_witness:
  "co_repair (bc_opts backup_chk) \<and> (\<exists>r. check_media (Suc (unat (bc_rawsize backup_chk))) backup_chk = Some r)"
  using check_media_terminates [OF backup_in_device] by (simp add: backup_chk_def demo_chk_def)

end
