(* ===== verification/Size.thy ===== *)
theory Size
  imports Ndctl_Prelude
begin

text \<open>
  Sizes: the alignment macros and overflow-checked arithmetic of \<open>util/size.h\<close>, and the size parser of
  \<open>util/size.c\<close> with the part of \<open>strtoull\<close> (base 0) it uses.
\<close>

definition SZ_1K :: u64 where "SZ_1K = 0x400"
definition SZ_1M :: u64 where "SZ_1M = 0x100000"
definition SZ_1G :: u64 where "SZ_1G = 0x40000000"
definition SZ_1T :: u64 where "SZ_1T = 0x10000000000"

definition is_power_of_2 :: "u64 \<Rightarrow> bool" where
  "is_power_of_2 v = (v \<noteq> 0 \<and> v AND (v - 1) = 0)"

definition ALIGN :: "u64 \<Rightarrow> u64 \<Rightarrow> u64" where
  "ALIGN x a = (x + (a - 1)) AND NOT (a - 1)"

definition ALIGN_DOWN :: "u64 \<Rightarrow> u64 \<Rightarrow> u64" where
  "ALIGN_DOWN x a = ((x + a) AND NOT (a - 1)) - a"

definition IS_ALIGNED :: "u64 \<Rightarrow> u64 \<Rightarrow> bool" where
  "IS_ALIGNED x a = (x AND (a - 1) = 0)"

text \<open>\<open>__ab_c_size\<close>, with the fallback definitions of the overflow checks on unsigned types (\<open>b\<close> is
  \<open>sizeof\<close> in every use, so \<open>__builtin_constant_p\<close> holds).\<close>

definition unsigned_mul_overflow :: "u64 \<Rightarrow> u64 \<Rightarrow> bool \<times> u64" where
  "unsigned_mul_overflow a b = (b > 0 \<and> a > (- 1) div b, a * b)"

definition unsigned_add_overflow :: "u64 \<Rightarrow> u64 \<Rightarrow> bool \<times> u64" where
  "unsigned_add_overflow a b = (a + b < a, a + b)"

definition ab_c_size :: "u64 \<Rightarrow> u64 \<Rightarrow> u64 \<Rightarrow> u64" where
  "ab_c_size a b c =
     (case unsigned_mul_overflow a b of (ovf, bytes) \<Rightarrow>
        if ovf then - 1
        else case unsigned_add_overflow bytes c of (ovf, bytes) \<Rightarrow> if ovf then - 1 else bytes)"

subsection \<open>strtoull\<close>

definition is_space :: "char \<Rightarrow> bool" where
  "is_space c = (c \<in> {CHR '' '', CHR 0x09, CHR 0x0A, CHR 0x0B, CHR 0x0C, CHR 0x0D})"

text \<open>The value of a digit in a base of at most 36.\<close>

definition digit_value :: "char \<Rightarrow> nat option" where
  "digit_value c =
     (let n = of_char c :: nat in
      if 48 \<le> n \<and> n \<le> 57 then Some (n - 48)
      else if 97 \<le> n \<and> n \<le> 122 then Some (n - 87)
      else if 65 \<le> n \<and> n \<le> 90 then Some (n - 55)
      else None)"

fun scan_digits :: "nat \<Rightarrow> string \<Rightarrow> nat \<Rightarrow> nat \<times> string" where
  "scan_digits base [] acc = (acc, [])"
| "scan_digits base (c # cs) acc =
     (case digit_value c of
        None \<Rightarrow> (acc, c # cs)
      | Some d \<Rightarrow> if d < base then scan_digits base cs (base * acc + d) else (acc, c # cs))"

definition starts_digit :: "nat \<Rightarrow> string \<Rightarrow> bool" where
  "starts_digit base s =
     (case s of [] \<Rightarrow> False | c # cs \<Rightarrow> (case digit_value c of None \<Rightarrow> False | Some d \<Rightarrow> d < base))"

text \<open>The unsigned part after white space and sign: the base comes from the prefix; \<open>None\<close> when there is
  no number.\<close>

definition scan_unsigned :: "string \<Rightarrow> (nat \<times> string) option" where
  "scan_unsigned s =
     (case s of
        [] \<Rightarrow> None
      | c # cs \<Rightarrow>
          if c = CHR ''0'' then
            (case cs of
               [] \<Rightarrow> Some (0, [])
             | x # cs' \<Rightarrow>
                 if (x = CHR ''x'' \<or> x = CHR ''X'') \<and> starts_digit 16 cs' then Some (scan_digits 16 cs' 0)
                 else Some (scan_digits 8 s 0))
          else if starts_digit 10 s then Some (scan_digits 10 s 0) else None)"

definition scan_sign :: "string \<Rightarrow> bool \<times> string" where
  "scan_sign s =
     (case s of
        [] \<Rightarrow> (False, [])
      | c # cs \<Rightarrow> if c = CHR ''-'' then (True, cs) else if c = CHR ''+'' then (False, cs) else (False, s))"

definition strtoull :: "string \<Rightarrow> u64 \<times> string" where
  "strtoull str =
     (let (neg, s) = scan_sign (dropWhile is_space str)
      in case scan_unsigned s of
           None \<Rightarrow> (0, str)
         | Some (n, rest) \<Rightarrow>
             if n \<ge> 2 ^ 64 then (ULLONG_MAX, rest)
             else (if neg then - of_nat n else of_nat n, rest))"

text \<open>The value of \<open>strtol\<close> for a number with that sign, which stops at the limits of \<open>long\<close>, and the conversion of a \<open>long\<close> to \<open>int\<close>.\<close>

definition to_long :: "bool \<Rightarrow> nat \<Rightarrow> int" where
  "to_long neg n = (if neg then max (- int n) (- (2 ^ 63)) else min (int n) (2 ^ 63 - 1))"

definition to_int :: "int \<Rightarrow> int" where
  "to_int v = sint (word_of_int v :: u32)"

text \<open>\<open>strtol\<close> with base 10.\<close>

definition strtol10 :: "string \<Rightarrow> int \<times> string" where
  "strtol10 s =
     (case scan_sign (dropWhile is_space s) of (neg, t) \<Rightarrow>
        if starts_digit 10 t
        then (case scan_digits 10 t 0 of (n, rest) \<Rightarrow> (to_long neg n, rest))
        else (0, s))"

subsection \<open>Parsing a size\<close>

definition size_unit :: "string \<Rightarrow> u64 \<times> string" where
  "size_unit s =
     (case s of
        [] \<Rightarrow> (1, [])
      | c # cs \<Rightarrow>
          if c = CHR ''k'' \<or> c = CHR ''K'' then (SZ_1K, cs)
          else if c = CHR ''m'' \<or> c = CHR ''M'' then (SZ_1M, cs)
          else if c = CHR ''g'' \<or> c = CHR ''G'' then (SZ_1G, cs)
          else if c = CHR ''t'' \<or> c = CHR ''T'' then (SZ_1T, cs)
          else (1, s))"

text \<open>\<open>__parse_size64\<close> returns the value and, when it gets that far, the units.\<close>

definition parse_size64_units :: "string \<Rightarrow> u64 \<times> u64 option" where
  "parse_size64_units str =
     (let (val, rest) = strtoull str in
      if val = ULLONG_MAX then (val, None)
      else let (units, rest') = size_unit rest;
               check = val;
               val = val * units
           in (if val < check \<or> rest' \<noteq> [] then ULLONG_MAX else val, Some units))"

definition parse_size64 :: "string option \<Rightarrow> u64" where
  "parse_size64 str = (case str of None \<Rightarrow> 0 | Some s \<Rightarrow> fst (parse_size64_units s))"

subsection \<open>Alignment\<close>

lemma unat_and_mask: "unat (w AND mask k :: u64) = unat w mod 2 ^ k"
  by (rule mask_and_power2)

lemma unat_and_not_mask: "unat (w AND NOT (mask k) :: u64) = unat w - unat w mod 2 ^ k"
proof -
  have "(w AND mask k) + (w AND NOT (mask k)) = w"
    by (subst disjunctive_add) (auto simp: bit_simps intro!: bit_word_eqI)
  then have "w AND NOT (mask k) = w - (w AND mask k)"
    by (simp add: algebra_simps)
  moreover have "w AND mask k \<le> w"
    by (simp add: word_le_nat_alt unat_and_mask)
  ultimately show ?thesis by (simp add: unat_sub unat_and_mask)
qed

lemma power_minus_one_mask: "(2 ^ k - 1 :: u64) = mask k"
  by (simp add: mask_eq_exp_minus_1)

lemma unat_pow2: "k < 64 \<Longrightarrow> unat (2 ^ k :: u64) = 2 ^ k"
proof -
  assume "k < 64"
  then have "(2 :: nat) ^ k < 2 ^ 64" by (rule power_strict_increasing) simp
  moreover have "(2 ^ k :: u64) = of_nat (2 ^ k)" by simp
  ultimately show ?thesis by (simp only: unat_of_nat) (simp add: take_bit_nat_eq_self)
qed

lemma ALIGN_unat:
  assumes "k < 64" and "unat x + 2 ^ k \<le> 2 ^ 64"
  shows "unat (ALIGN x (2 ^ k)) = (unat x + 2 ^ k - 1) div 2 ^ k * 2 ^ k"
proof -
  have one: "(1 :: u64) \<le> 2 ^ k" by (simp add: word_le_nat_alt unat_pow2 assms(1))
  have "unat (2 ^ k - 1 :: u64) = 2 ^ k - 1"
    using one by (simp add: unat_sub unat_pow2 assms(1))
  moreover have "(0 :: nat) < 2 ^ k" by simp
  ultimately have "unat (x + (2 ^ k - 1)) = unat x + 2 ^ k - 1"
    using assms(2) by (simp add: unat_plus_if' del: zero_less_power)
  then show ?thesis
    by (simp add: ALIGN_def power_minus_one_mask unat_and_not_mask minus_mod_eq_div_mult)
qed

lemma bit_top:
  assumes "2 ^ k \<le> unat (v :: u64)" and "unat v < 2 ^ Suc k"
  shows "bit v k"
proof -
  have "unat v div 2 ^ k = 1"
    using assms by (intro div_nat_eqI) simp_all
  then have "bit (unat v) k" by (simp add: bit_iff_odd)
  then show ?thesis by (simp add: bit_unsigned_iff)
qed

lemma is_power_of_2_iff: "is_power_of_2 v \<longleftrightarrow> (\<exists>k < 64. v = 2 ^ k)"
proof
  assume "\<exists>k < 64. v = 2 ^ k"
  then obtain k where k: "k < 64" "v = 2 ^ k" by blast
  have "bit (2 ^ k :: u64) n = (n = k)" for n using k(1) by (auto simp: bit_exp_iff)
  then have "(2 ^ k AND mask k :: u64) = 0"
    by (intro bit_word_eqI) (simp add: bit_and_iff bit_mask_iff)
  moreover have "(2 ^ k :: u64) \<noteq> 0" using unat_pow2 [OF k(1)] k(1) by auto
  ultimately show "is_power_of_2 v" by (simp add: k(2) is_power_of_2_def power_minus_one_mask)
next
  assume p: "is_power_of_2 v"
  then have "1 \<le> unat v" by (simp add: is_power_of_2_def word_unat_eq_iff)
  then obtain k where k: "2 ^ k \<le> unat v" "unat v < 2 ^ (k + 1)" using ex_power_ivl1 [of 2 "unat v"] by auto
  have k64: "k < 64"
  proof (rule ccontr)
    assume "\<not> k < 64"
    then have "(2 :: nat) ^ 64 \<le> 2 ^ k" by (intro power_increasing) simp_all
    with k(1) unat_u64_less [of v] show False by simp
  qed
  have "unat v = 2 ^ k"
  proof (rule ccontr)
    assume ne: "unat v \<noteq> 2 ^ k"
    have "unat (v - 1) = unat v - 1" using \<open>1 \<le> unat v\<close> by (simp add: unat_sub word_le_nat_alt)
    then have "bit (v - 1) k" using ne k by (intro bit_top) simp_all
    moreover have "bit v k" using k by (intro bit_top) simp_all
    ultimately have "bit (v AND (v - 1)) k" by (simp add: bit_and_iff)
    with p show False by (simp add: is_power_of_2_def)
  qed
  then have "v = 2 ^ k" using unat_pow2 [OF k64] by (simp add: word_unat_eq_iff)
  with k64 show "\<exists>k < 64. v = 2 ^ k" by blast
qed

lemma IS_ALIGNED_iff: "k < 64 \<Longrightarrow> IS_ALIGNED x (2 ^ k) \<longleftrightarrow> 2 ^ k dvd unat x"
  by (simp add: IS_ALIGNED_def power_minus_one_mask word_unat_eq_iff unat_and_mask dvd_eq_mod_eq_0)

lemma ALIGN_DOWN_unat:
  assumes "k < 64" and "unat x + 2 ^ k < 2 ^ 64"
  shows "unat (ALIGN_DOWN x (2 ^ k)) = unat x div 2 ^ k * 2 ^ k"
proof -
  have s: "unat (x + 2 ^ k) = unat x + 2 ^ k"
    using assms by (simp add: unat_plus_if' unat_pow2)
  let ?y = "(x + 2 ^ k) AND NOT (mask k)"
  have y: "unat ?y = unat x div 2 ^ k * 2 ^ k + 2 ^ k"
    by (simp add: unat_and_not_mask s diff_add_assoc2 minus_mod_eq_div_mult)
  then have "2 ^ k \<le> ?y" by (simp add: word_le_nat_alt unat_pow2 assms(1))
  then show ?thesis
    by (simp add: ALIGN_DOWN_def power_minus_one_mask unat_sub y unat_pow2 assms(1))
qed

subsection \<open>Decimal numbers\<close>

text \<open>The decimal representation that \<open>printf("%llu")\<close> produces.\<close>

fun dec_digits :: "nat \<Rightarrow> string" where
  "dec_digits n = (if n < 10 then [char_of (48 + n)] else dec_digits (n div 10) @ [char_of (48 + n mod 10)])"

declare dec_digits.simps [simp del]

definition dec_int :: "int \<Rightarrow> string" where
  "dec_int i = (if i < 0 then CHR ''-'' # dec_digits (nat (- i)) else dec_digits (nat i))"

lemma digit_value_char_of [simp]: "d < 10 \<Longrightarrow> digit_value (char_of (48 + d)) = Some d"
  by (simp add: digit_value_def Let_def)

lemma scan_digits_append:
  "(\<forall>c \<in> set cs. \<exists>d < base. digit_value c = Some d) \<Longrightarrow>
    scan_digits base (cs @ rest) acc = scan_digits base rest (fst (scan_digits base cs acc))"
  by (induction cs arbitrary: acc) (auto split: option.splits)

lemma dec_digits_valid: "c \<in> set (dec_digits n) \<Longrightarrow> \<exists>d < 10. digit_value c = Some d"
proof (induction n rule: dec_digits.induct)
  case (1 n)
  show ?case
  proof (cases "n < 10")
    case True
    with 1(2) show ?thesis by (auto simp: dec_digits.simps [of n])
  next
    case False
    with 1(2) have "c \<in> set (dec_digits (n div 10)) \<or> c = char_of (48 + n mod 10)"
      by (auto simp: dec_digits.simps [of n])
    with 1(1) [OF False] show ?thesis by auto
  qed
qed

lemma scan_dec_digits: "scan_digits 10 (dec_digits n @ rest) 0 = scan_digits 10 rest n"
proof (induction n arbitrary: rest rule: dec_digits.induct)
  case (1 n)
  show ?case
  proof (cases "n < 10")
    case True
    then show ?thesis by (simp add: dec_digits.simps [of n])
  next
    case False
    then show ?thesis
      using 1 [OF False, of "char_of (48 + n mod 10) # rest"] by (simp add: dec_digits.simps [of n])
  qed
qed

lemma dec_digits_hd:
  assumes "0 < n"
  obtains d :: nat and cs where "dec_digits n = char_of (48 + d) # cs" and "0 < d" and "d < 10"
  using assms
proof (induction n arbitrary: thesis rule: dec_digits.induct)
  case (1 n)
  show ?case
  proof (cases "n < 10")
    case True
    with 1 show ?thesis by (auto simp: dec_digits.simps [of n])
  next
    case False
    show ?thesis
    proof (rule 1(1) [OF False])
      fix d :: nat and cs assume "dec_digits (n div 10) = char_of (48 + d) # cs" and "0 < d" "d < 10"
      with False 1(2) show thesis by (auto simp: dec_digits.simps [of n])
    qed (use False in auto)
  qed
qed

lemma digit_char_props:
  assumes "0 < d" and "d < (10 :: nat)"
  shows "char_of (48 + d) \<noteq> CHR ''0''" "char_of (48 + d) \<noteq> CHR ''-''" "char_of (48 + d) \<noteq> CHR ''+''"
    "\<not> is_space (char_of (48 + d))"
proof -
  have n: "(of_char (char_of (48 + d)) :: nat) = 48 + d" using assms(2) by simp
  have "char_of (48 + d) \<noteq> c" if "(of_char c :: nat) \<le> 48" for c
    using n that assms(1) by auto
  then show "char_of (48 + d) \<noteq> CHR ''0''" "char_of (48 + d) \<noteq> CHR ''-''" "char_of (48 + d) \<noteq> CHR ''+''"
    "\<not> is_space (char_of (48 + d))"
    by (auto simp: is_space_def)
qed

lemma strtoull_dec:
  assumes "0 < n" and "n < 2 ^ 64" and "rest = [] \<or> \<not> starts_digit 10 rest"
  shows "strtoull (dec_digits n @ rest) = (of_nat n, rest)"
proof -
  obtain d :: nat and cs where h: "dec_digits n = char_of (48 + d) # cs" and d: "0 < d" "d < 10"
    using assms(1) by (rule dec_digits_hd)
  note p = digit_char_props [OF d]
  have "scan_digits 10 rest n = (n, rest)"
    using assms(3) by (cases rest) (auto simp: starts_digit_def split: option.splits)
  then have "scan_unsigned (dec_digits n @ rest) = Some (n, rest)"
    using scan_dec_digits [of n rest] d p by (simp add: h scan_unsigned_def starts_digit_def)
  moreover have "scan_sign (dropWhile is_space (dec_digits n @ rest)) = (False, dec_digits n @ rest)"
    using p by (simp add: h scan_sign_def)
  ultimately show ?thesis using assms(2) by (simp add: strtoull_def)
qed

lemma strtol10_dec:
  assumes "0 < n" "int n < 2 ^ 63"
  shows "strtol10 (dec_digits n) = (int n, [])"
proof -
  obtain d :: nat and cs where h: "dec_digits n = char_of (48 + d) # cs" and d: "0 < d" "d < 10"
    using assms(1) by (rule dec_digits_hd)
  have "scan_sign (dropWhile is_space (dec_digits n)) = (False, dec_digits n)"
    using digit_char_props [OF d] by (simp add: h scan_sign_def)
  moreover have "starts_digit 10 (dec_digits n)"
    using d by (simp add: h starts_digit_def)
  moreover have "scan_digits 10 (dec_digits n) 0 = (n, [])"
    using scan_dec_digits [of n "[]"] by simp
  ultimately show ?thesis
    using assms(2) by (simp add: strtol10_def to_long_def)
qed

lemma to_int_small: "- (2 ^ 31) \<le> v \<Longrightarrow> v < 2 ^ 31 \<Longrightarrow> to_int v = v"
  by (simp add: to_int_def signed_of_int signed_take_bit_int_eq_self)

lemma dec_chars:
  "char_of (48 :: nat) = CHR ''0''"
  "char_of (49 :: nat) = CHR ''1''"
  "char_of (50 :: nat) = CHR ''2''"
  "char_of (51 :: nat) = CHR ''3''"
  "char_of (52 :: nat) = CHR ''4''"
  "char_of (53 :: nat) = CHR ''5''"
  "char_of (54 :: nat) = CHR ''6''"
  "char_of (55 :: nat) = CHR ''7''"
  "char_of (56 :: nat) = CHR ''8''"
  "char_of (57 :: nat) = CHR ''9''"
  by code_simp+

lemma strtol10_dec_int:
  assumes "- (2 ^ 63) \<le> z" "z < 2 ^ 63"
  shows "strtol10 (dec_int z) = (z, [])"
proof (cases "z < 0")
  case False
  then show ?thesis
    using strtol10_dec [of "nat z"] assms
    by (cases "z = 0") (simp_all add: dec_int_def strtol10_def to_long_def scan_sign_def is_space_def starts_digit_def digit_value_def dec_digits.simps dec_chars)
next
  case True
  then have "0 < nat (- z)" by simp
  then obtain d :: nat and cs where h: "dec_digits (nat (- z)) = char_of (48 + d) # cs" and d: "0 < d" "d < 10"
    by (rule dec_digits_hd)
  have "scan_digits 10 (dec_digits (nat (- z))) 0 = (nat (- z), [])"
    using scan_dec_digits [of "nat (- z)" "[]"] by simp
  then show ?thesis
    using True assms d by (simp add: dec_int_def strtol10_def to_long_def scan_sign_def is_space_def h starts_digit_def)
qed

subsection \<open>Properties\<close>

definition size_suffixes :: "(string \<times> u64) list" where
  "size_suffixes = [([], 1), (''k'', SZ_1K), (''K'', SZ_1K), (''m'', SZ_1M), (''M'', SZ_1M),
     (''g'', SZ_1G), (''G'', SZ_1G), (''t'', SZ_1T), (''T'', SZ_1T)]"

lemma size_suffix_scan:
  assumes "(sfx, u) \<in> set size_suffixes"
  shows "sfx = [] \<or> \<not> starts_digit 10 sfx" and "size_unit sfx = (u, [])" and "1 \<le> unat u"
  using assms
  by (auto simp: size_suffixes_def size_unit_def starts_digit_def digit_value_def Let_def
      SZ_1K_def SZ_1M_def SZ_1G_def SZ_1T_def)

text \<open>The size parser reads back what is printed: a positive decimal number followed by nothing or
  by one of the suffixes k, m, g, t (either case) denotes the number times its unit, whenever that fits
  in 64 bits.\<close>

theorem parse_size64_decimal:
  assumes "(sfx, u) \<in> set size_suffixes" and "0 < n" and "n * unat u < 2 ^ 64"
  shows "parse_size64 (Some (dec_digits n @ sfx)) = of_nat n * u"
proof -
  note sx = size_suffix_scan [OF assms(1)]
  have n: "n < 2 ^ 64" using assms(3) sx(3) by (rule_tac le_less_trans [OF _ assms(3)]) simp
  then have un: "unat (of_nat n :: u64) = n" by (simp add: unat_of_nat take_bit_nat_eq_self)
  have m: "unat (of_nat n * u) = n * unat u"
    using assms(3) un by (simp add: unat_word_ariths(2))
  have "of_nat n \<le> of_nat n * u" using sx(3) by (simp add: word_le_nat_alt m un)
  moreover have "u = 1" if "of_nat n = ULLONG_MAX"
  proof -
    from that have "n = 18446744073709551615" using un by simp
    with assms(3) sx(3) have "unat u = 1" by simp
    then show ?thesis by (simp add: word_unat_eq_iff)
  qed
  ultimately show ?thesis
    using strtoull_dec [OF assms(2) n sx(1)] sx(2)
    by (auto simp: parse_size64_def parse_size64_units_def not_less Let_def)
qed

theorem parse_size64_decimal_witness: "parse_size64 (Some ''16K'') = 16384"
proof -
  have "dec_digits 16 @ ''K'' = ''16K''" by code_simp
  then show ?thesis using parse_size64_decimal [of "''K''" SZ_1K 16] by (simp add: size_suffixes_def SZ_1K_def)
qed

text \<open>The overflow check of the size parser (\<open>val < check\<close>) accepts some products that wrapped: a
  number of 2^54 + 2^53 KiB is more than 64 bits can hold, and it is read as 2^63 bytes.\<close>

theorem parse_size64_misses_overflow:
  "parse_size64 (Some ''27021597764222976K'') = 2 ^ 63 \<and>
   2 ^ 64 \<le> 27021597764222976 * (1024 :: nat)"
proof -
  have "dec_digits 27021597764222976 @ ''K'' = ''27021597764222976K''"
    by (simp add: dec_digits.simps dec_chars)
  then have "strtoull ''27021597764222976K'' = (27021597764222976, ''K'')"
    using strtoull_dec [of 27021597764222976 "''K''"] by (simp add: starts_digit_def digit_value_def)
  then show ?thesis
    by (simp add: parse_size64_def parse_size64_units_def size_unit_def SZ_1K_def Let_def)
qed

text \<open>The alignment helpers: for a power of two, \<open>ALIGN\<close> is the least multiple not below \<open>x\<close>,
  \<open>ALIGN_DOWN\<close> the greatest not above it (when no intermediate value wraps), \<open>IS_ALIGNED\<close> is divisibility
  and \<open>is_power_of_2\<close> recognises exactly the powers of two.\<close>

theorem align_correct:
  assumes "k < 64" and "unat x + 2 ^ k < 2 ^ 64"
  shows "unat (ALIGN x (2 ^ k)) = (unat x + 2 ^ k - 1) div 2 ^ k * 2 ^ k \<and>
    unat (ALIGN_DOWN x (2 ^ k)) = unat x div 2 ^ k * 2 ^ k \<and>
    (IS_ALIGNED x (2 ^ k) \<longleftrightarrow> 2 ^ k dvd unat x) \<and>
    (is_power_of_2 v \<longleftrightarrow> (\<exists>j < 64. v = 2 ^ j))"
  using ALIGN_unat [of k x] ALIGN_DOWN_unat [of k x] IS_ALIGNED_iff [of k x] is_power_of_2_iff [of v] assms
  by simp

theorem align_correct_witness: "unat (ALIGN 4097 (2 ^ 12)) = 8192 \<and> is_power_of_2 (2 ^ 5)"
  using align_correct [of 12 4097 "2 ^ 5"] by (auto intro: exI [of _ 5])

text \<open>\<open>__ab_c_size\<close> is \<open>a * b + c\<close> when that fits and \<open>SIZE_MAX\<close> when it does not.\<close>

theorem ab_c_size_saturates:
  "unat (ab_c_size a b c) =
    (if unat a * unat b + unat c < 2 ^ 64 then unat a * unat b + unat c else 2 ^ 64 - 1)"
proof -
  have mx: "unat (- 1 :: u64) = 2 ^ 64 - 1"
    by (simp add: unsigned_minus_1_eq_mask mask_eq_exp_minus_1)
  have m: "fst (unsigned_mul_overflow a b) \<longleftrightarrow> 2 ^ 64 \<le> unat a * unat b"
  proof (cases "unat b = 0")
    case True
    then have "b = 0" by (simp add: word_unat_eq_iff)
    then show ?thesis by (simp add: unsigned_mul_overflow_def)
  next
    case False
    have "unat ((- 1 :: u64) div b) = (2 ^ 64 - 1) div unat b" by (simp only: unat_div_distrib mx)
    then have "fst (unsigned_mul_overflow a b) \<longleftrightarrow> (2 ^ 64 - 1) div unat b < unat a"
      using False by (simp add: unsigned_mul_overflow_def word_less_nat_alt)
    also have "\<dots> \<longleftrightarrow> 2 ^ 64 \<le> unat a * unat b"
      using False by (simp add: div_less_iff_less_mult mult.commute) linarith
    finally show ?thesis .
  qed
  have mv: "unat (a * b) = unat a * unat b" if "unat a * unat b < 2 ^ 64"
    using that by (simp add: unat_word_ariths(2))
  have ad: "unat (x + c) = (if unat x + unat c < 2 ^ 64 then unat x + unat c else unat x + unat c - 2 ^ 64)"
    for x :: u64 by (simp add: unat_plus_if')
  have ao: "fst (unsigned_add_overflow x c) \<longleftrightarrow> 2 ^ 64 \<le> unat x + unat c" for x :: u64
    using unat_u64_less [of c] by (auto simp: unsigned_add_overflow_def word_less_nat_alt ad)
  show ?thesis
    using m mv ao [of "a * b"] ad [of "a * b"] mx
    by (auto simp: ab_c_size_def unsigned_mul_overflow_def unsigned_add_overflow_def)
qed

end
