(* ===== verification/Cfg_Cmd.thy ===== *)
theory Cfg_Cmd
  imports Ndctl_Prelude
begin

text \<open>
  The label-area commands of \<open>ndctl/lib/libndctl.c\<close>: creating, submitting and releasing the
  \<open>GET_CONFIG_SIZE\<close>, \<open>GET_CONFIG_DATA\<close> and \<open>SET_CONFIG_DATA\<close> commands, and the iteration that moves
  the label area in pieces of at most \<open>max_xfer\<close> bytes.

  Commands live in a heap and refer to one another (\<open>source\<close>) and to the shared data buffer
  (\<open>iter.total_buf\<close>, which a write command takes over from its read command) by identifier, so that
  sharing and reference counts are as in the code.  The kernel and the device behind \<open>ioctl\<close> are
  parameters (\<open>nd_env\<close>), over an arbitrary device state; the theorems name what they need of them.
\<close>

datatype nd_cmd_type = ND_CMD_VENDOR | ND_CMD_GET_CONFIG_SIZE | ND_CMD_GET_CONFIG_DATA | ND_CMD_SET_CONFIG_DATA

datatype iter_dir = READ | WRITE

text \<open>The part of \<open>cmd_buf\<close> the config commands use: \<open>pl_config_size\<close> and \<open>pl_max_xfer\<close> are the outputs of
  \<open>GET_CONFIG_SIZE\<close>; \<open>pl_buf\<close> is \<open>out_buf\<close> or \<open>in_buf\<close>, to which \<open>iter.data\<close> points.\<close>

record nd_payload =
  pl_offset :: u32
  pl_length :: u32
  pl_status :: u32
  pl_config_size :: u32
  pl_max_xfer :: u32
  pl_buf :: mem

record ndctl_cmd_iter =
  it_init_offset :: u32
  it_max_xfer :: u32
  it_total_buf :: "nat option"
  it_total_xfer :: u32
  it_dir :: iter_dir

record ndctl_cmd =
  c_refcount :: int
  c_type :: nd_cmd_type
  c_status :: int
  c_payload :: nd_payload
  c_iter :: ndctl_cmd_iter
  c_source :: "nat option"

record 'd nd_state =
  st_dev :: 'd
  st_cmds :: "nat \<Rightarrow> ndctl_cmd option"
  st_bufs :: "nat \<Rightarrow> mem option"
  st_next :: nat

text \<open>The environment: which commands the DIMM supports, which allocations succeed (by the identifier the
  object would get), the result of opening and checking the device node (0 or a negative errno), the
  \<open>ioctl\<close> (a negative result is \<open>-errno\<close>, a positive one the residue), and \<open>ops->xlat_firmware_status\<close>.\<close>

record 'd nd_env =
  env_supported :: "nd_cmd_type \<Rightarrow> bool"
  env_calloc :: "nat \<Rightarrow> bool"
  env_open :: int
  env_ioctl :: "nd_cmd_type \<Rightarrow> nd_payload \<Rightarrow> 'd \<Rightarrow> int \<times> nd_payload \<times> 'd"
  env_xlat :: "ndctl_cmd \<Rightarrow> int"

definition zero_payload :: nd_payload where
  "zero_payload = \<lparr>pl_offset = 0, pl_length = 0, pl_status = 0, pl_config_size = 0, pl_max_xfer = 0,
     pl_buf = (\<lambda>_. 0)\<rparr>"

definition zero_iter :: ndctl_cmd_iter where
  "zero_iter = \<lparr>it_init_offset = 0, it_max_xfer = 0, it_total_buf = None, it_total_xfer = 0, it_dir = READ\<rparr>"

subsection \<open>Transfer parameters\<close>

definition cmd_get_firmware_status :: "ndctl_cmd \<Rightarrow> u32" where
  "cmd_get_firmware_status cmd = pl_status (c_payload cmd)"

definition cmd_set_xfer :: "ndctl_cmd \<Rightarrow> u32 \<Rightarrow> ndctl_cmd" where
  "cmd_set_xfer cmd xfer = cmd\<lparr>c_payload := (c_payload cmd)\<lparr>pl_length := xfer\<rparr>\<rparr>"

definition cmd_get_xfer :: "ndctl_cmd \<Rightarrow> u32" where
  "cmd_get_xfer cmd = pl_length (c_payload cmd)"

definition cmd_set_offset :: "ndctl_cmd \<Rightarrow> u32 \<Rightarrow> ndctl_cmd" where
  "cmd_set_offset cmd offset = cmd\<lparr>c_payload := (c_payload cmd)\<lparr>pl_offset := offset\<rparr>\<rparr>"

definition iter_set_extent :: "ndctl_cmd \<Rightarrow> u32 \<Rightarrow> u32 \<Rightarrow> ndctl_cmd" where
  "iter_set_extent cmd len offset =
     (let cmd = cmd\<lparr>c_iter := (c_iter cmd)\<lparr>it_init_offset := offset\<rparr>\<rparr>;
          cmd = cmd_set_offset cmd offset;
          cmd = cmd_set_xfer cmd (min (cmd_get_xfer cmd) len)
      in cmd\<lparr>c_iter := (c_iter cmd)\<lparr>it_total_xfer := len\<rparr>\<rparr>)"

text \<open>\<open>iter_access\<close> returns the length to copy, in an \<open>unsigned int\<close>; \<open>None\<close> is \<open>-EINVAL\<close>.\<close>

definition iter_access :: "ndctl_cmd_iter \<Rightarrow> u32 \<Rightarrow> u32 \<Rightarrow> u32 option" where
  "iter_access iter len offset =
     (if offset < it_init_offset iter \<or> offset > it_init_offset iter + it_total_xfer iter
         \<or> len + offset < len then None
      else if len + offset > it_init_offset iter + it_total_xfer iter
      then Some (it_total_xfer iter - offset)
      else Some len)"

subsection \<open>Creating commands\<close>

definition put_cmd :: "'d nd_state \<Rightarrow> nat \<Rightarrow> ndctl_cmd \<Rightarrow> 'd nd_state" where
  "put_cmd s i cmd = s\<lparr>st_cmds := (st_cmds s)(i \<mapsto> cmd)\<rparr>"

definition ndctl_cmd_ref :: "'d nd_state \<Rightarrow> nat \<Rightarrow> 'd nd_state" where
  "ndctl_cmd_ref s i =
     (case st_cmds s i of None \<Rightarrow> s | Some c \<Rightarrow> put_cmd s i (c\<lparr>c_refcount := c_refcount c + 1\<rparr>))"

text \<open>A constructor returns the new command's identifier, \<open>None\<close> for NULL.\<close>

definition ndctl_dimm_cmd_new_cfg_size :: "'d nd_env \<Rightarrow> 'd nd_state \<Rightarrow> nat option \<times> 'd nd_state" where
  "ndctl_dimm_cmd_new_cfg_size env s =
     (if \<not> env_supported env ND_CMD_GET_CONFIG_SIZE then (None, s)
      else if \<not> env_calloc env (st_next s) then (None, s)
      else let i = st_next s;
               cmd = \<lparr>c_refcount = 1, c_type = ND_CMD_GET_CONFIG_SIZE, c_status = 1,
                      c_payload = zero_payload, c_iter = zero_iter, c_source = None\<rparr>
           in (Some i, (put_cmd s i cmd)\<lparr>st_next := i + 1\<rparr>))"

definition ndctl_dimm_cmd_new_cfg_read :: "'d nd_env \<Rightarrow> 'd nd_state \<Rightarrow> nat \<Rightarrow> nat option \<times> 'd nd_state" where
  "ndctl_dimm_cmd_new_cfg_read env s cfg_size =
     (case st_cmds s cfg_size of
        None \<Rightarrow> (None, s)
      | Some cs \<Rightarrow>
          if c_type cs \<noteq> ND_CMD_GET_CONFIG_SIZE \<or> c_status cs \<noteq> 0 then (None, s)
          else if pl_config_size (c_payload cs) = 0 then (None, s)
          else if \<not> env_supported env ND_CMD_GET_CONFIG_DATA then (None, s)
          else if \<not> env_calloc env (st_next s) then (None, s)
          else if \<not> env_calloc env (st_next s + 1) then (None, s)
          else let i = st_next s; b = st_next s + 1;
                   cmd = \<lparr>c_refcount = 1, c_type = ND_CMD_GET_CONFIG_DATA, c_status = 1,
                          c_payload = zero_payload\<lparr>pl_offset := 0, pl_length := pl_max_xfer (c_payload cs)\<rparr>,
                          c_iter = \<lparr>it_init_offset = 0, it_max_xfer = pl_max_xfer (c_payload cs),
                                    it_total_buf = Some b, it_total_xfer = pl_config_size (c_payload cs),
                                    it_dir = READ\<rparr>,
                          c_source = Some cfg_size\<rparr>;
                   s = (put_cmd s i cmd)\<lparr>st_bufs := (st_bufs s)(b \<mapsto> (\<lambda>_. 0)), st_next := i + 2\<rparr>
               in (Some i, ndctl_cmd_ref s cfg_size))"

definition ndctl_dimm_cmd_new_cfg_write :: "'d nd_env \<Rightarrow> 'd nd_state \<Rightarrow> nat \<Rightarrow> nat option \<times> 'd nd_state" where
  "ndctl_dimm_cmd_new_cfg_write env s cfg_read =
     (case st_cmds s cfg_read of
        None \<Rightarrow> (None, s)
      | Some cr \<Rightarrow>
          if c_type cr \<noteq> ND_CMD_GET_CONFIG_DATA \<or> c_status cr \<noteq> 0 then (None, s)
          else if pl_length (c_payload cr) = 0 then (None, s)
          else if \<not> env_supported env ND_CMD_SET_CONFIG_DATA then (None, s)
          else if \<not> env_calloc env (st_next s) then (None, s)
          else let i = st_next s; it = c_iter cr;
                   cmd = \<lparr>c_refcount = 1, c_type = ND_CMD_SET_CONFIG_DATA, c_status = 1,
                          c_payload = zero_payload\<lparr>pl_offset := it_init_offset it, pl_length := it_max_xfer it\<rparr>,
                          c_iter = it\<lparr>it_dir := WRITE\<rparr>,
                          c_source = Some cfg_read\<rparr>
               in (Some i, ndctl_cmd_ref ((put_cmd s i cmd)\<lparr>st_next := i + 1\<rparr>) cfg_read))"

subsection \<open>Extents and data\<close>

definition source_config_size :: "'d nd_state \<Rightarrow> nat option \<Rightarrow> u32" where
  "source_config_size s src =
     (case Option.bind src (st_cmds s) of None \<Rightarrow> 0 | Some cs \<Rightarrow> pl_config_size (c_payload cs))"

definition ndctl_cmd_cfg_size_get_size :: "'d nd_state \<Rightarrow> nat \<Rightarrow> u32" where
  "ndctl_cmd_cfg_size_get_size s i =
     (case st_cmds s i of
        None \<Rightarrow> 0
      | Some c \<Rightarrow> if c_type c = ND_CMD_GET_CONFIG_SIZE \<and> c_status c = 0
                  then pl_config_size (c_payload c) else 0)"

definition ndctl_cmd_cfg_read_set_extent :: "'d nd_state \<Rightarrow> nat \<Rightarrow> u32 \<Rightarrow> u32 \<Rightarrow> int \<times> 'd nd_state" where
  "ndctl_cmd_cfg_read_set_extent s i len offset =
     (case st_cmds s i of
        None \<Rightarrow> (- EINVAL, s)
      | Some c \<Rightarrow>
          if c_type c \<noteq> ND_CMD_GET_CONFIG_DATA \<or> c_status c \<le> 0 then (- EINVAL, s)
          else if offset + len > source_config_size s (c_source c) then (- EINVAL, s)
          else (0, put_cmd s i (iter_set_extent c len offset)))"

definition ndctl_cmd_cfg_write_set_extent :: "'d nd_state \<Rightarrow> nat \<Rightarrow> u32 \<Rightarrow> u32 \<Rightarrow> int \<times> 'd nd_state" where
  "ndctl_cmd_cfg_write_set_extent s i len offset =
     (case st_cmds s i of
        None \<Rightarrow> (- EINVAL, s)
      | Some c \<Rightarrow>
          if c_type c \<noteq> ND_CMD_SET_CONFIG_DATA \<or> c_status c \<le> 0 then (- EINVAL, s)
          else if offset + len > source_config_size s
                    (Option.bind (Option.bind (c_source c) (st_cmds s)) c_source) then (- EINVAL, s)
          else (0, put_cmd s i (iter_set_extent c len offset)))"

text \<open>\<open>get_data\<close> returns the bytes it copies to the caller's buffer, \<open>set_data\<close> the length it copied;
  errors are negative.\<close>

definition iter_buf :: "'d nd_state \<Rightarrow> ndctl_cmd_iter \<Rightarrow> mem" where
  "iter_buf s it = (case Option.bind (it_total_buf it) (st_bufs s) of None \<Rightarrow> (\<lambda>_. 0) | Some m \<Rightarrow> m)"

definition set_iter_buf :: "'d nd_state \<Rightarrow> ndctl_cmd_iter \<Rightarrow> mem \<Rightarrow> 'd nd_state" where
  "set_iter_buf s it m =
     (case it_total_buf it of None \<Rightarrow> s | Some b \<Rightarrow> s\<lparr>st_bufs := (st_bufs s)(b \<mapsto> m)\<rparr>)"

definition ndctl_cmd_cfg_read_get_data :: "'d nd_state \<Rightarrow> nat \<Rightarrow> u32 \<Rightarrow> u32 \<Rightarrow> int + u8 list" where
  "ndctl_cmd_cfg_read_get_data s i len offset =
     (case st_cmds s i of
        None \<Rightarrow> Inl (- EINVAL)
      | Some c \<Rightarrow>
          if c_type c \<noteq> ND_CMD_GET_CONFIG_DATA \<or> c_status c > 0 then Inl (- EINVAL)
          else if c_status c < 0 then Inl (c_status c)
          else case iter_access (c_iter c) len offset of
            None \<Rightarrow> Inl (- EINVAL)
          | Some n \<Rightarrow> Inr (mem_bytes (iter_buf s (c_iter c)) (unat offset) (unat n)))"

definition ndctl_cmd_cfg_read_get_size :: "'d nd_state \<Rightarrow> nat \<Rightarrow> int" where
  "ndctl_cmd_cfg_read_get_size s i =
     (case st_cmds s i of
        None \<Rightarrow> - EINVAL
      | Some c \<Rightarrow>
          if c_type c \<noteq> ND_CMD_GET_CONFIG_DATA \<or> c_status c > 0 then - EINVAL
          else if c_status c < 0 then c_status c
          else uint (it_total_xfer (c_iter c)))"

definition ndctl_cmd_cfg_write_set_data :: "'d nd_state \<Rightarrow> nat \<Rightarrow> mem \<Rightarrow> u32 \<Rightarrow> u32 \<Rightarrow> int \<times> 'd nd_state" where
  "ndctl_cmd_cfg_write_set_data s i buf len offset =
     (case st_cmds s i of
        None \<Rightarrow> (- EINVAL, s)
      | Some c \<Rightarrow>
          if c_type c \<noteq> ND_CMD_SET_CONFIG_DATA \<or> c_status c < 1 then (- EINVAL, s)
          else case iter_access (c_iter c) len offset of
            None \<Rightarrow> (- EINVAL, s)
          | Some n \<Rightarrow> (uint n, set_iter_buf s (c_iter c)
                               (mem_copy (iter_buf s (c_iter c)) (unat offset) buf 0 (unat n))))"

definition ndctl_cmd_cfg_write_zero_data :: "'d nd_state \<Rightarrow> nat \<Rightarrow> int \<times> 'd nd_state" where
  "ndctl_cmd_cfg_write_zero_data s i =
     (case st_cmds s i of
        None \<Rightarrow> (- EINVAL, s)
      | Some c \<Rightarrow>
          if c_type c \<noteq> ND_CMD_SET_CONFIG_DATA \<or> c_status c < 1 then (- EINVAL, s)
          else let it = c_iter c
               in (uint (it_total_xfer it), set_iter_buf s it
                     (mem_fill (iter_buf s it) (unat (it_init_offset it)) (unat (it_total_xfer it)) 0)))"

subsection \<open>Releasing commands\<close>

text \<open>A source is created before the commands that refer to it, so identifiers decrease along the
  chain; the guard records it.\<close>

function ndctl_cmd_unref :: "'d nd_state \<Rightarrow> nat \<Rightarrow> 'd nd_state" where
  "ndctl_cmd_unref s i =
     (case st_cmds s i of
        None \<Rightarrow> s
      | Some c \<Rightarrow>
          if c_refcount c - 1 \<noteq> 0 then put_cmd s i (c\<lparr>c_refcount := c_refcount c - 1\<rparr>)
          else let s = (case c_source c of
                          Some src \<Rightarrow> if src < i then ndctl_cmd_unref s src else s
                        | None \<Rightarrow> (case it_total_buf (c_iter c) of
                                     None \<Rightarrow> s | Some b \<Rightarrow> s\<lparr>st_bufs := (st_bufs s)(b := None)\<rparr>))
               in s\<lparr>st_cmds := (st_cmds s)(i := None)\<rparr>)"
  by pat_completeness auto
termination
  by (relation "measure snd") auto

declare ndctl_cmd_unref.simps [simp del]

subsection \<open>Submission\<close>

text \<open>The loop of \<open>do_cmd\<close> over the pieces; \<open>None\<close> is running out of fuel.  A result is the return
  code, the command, the data buffer and the device.\<close>

fun do_cmd_loop ::
  "'d nd_env \<Rightarrow> nat \<Rightarrow> ndctl_cmd \<Rightarrow> mem \<Rightarrow> 'd \<Rightarrow> u32 \<Rightarrow> int \<Rightarrow> (int \<times> ndctl_cmd \<times> mem \<times> 'd) option" where
  "do_cmd_loop env 0 cmd buf d offset rc = None"
| "do_cmd_loop env (Suc fuel) cmd buf d offset rc =
     (let it = c_iter cmd in
      if \<not> offset < it_total_xfer it then Some (rc, cmd, buf, d)
      else let cmd = cmd_set_xfer cmd (min (it_total_xfer it - offset) (it_max_xfer it));
               cmd = cmd_set_offset cmd offset;
               cmd = (if it_dir it = WRITE
                      then cmd\<lparr>c_payload := (c_payload cmd)\<lparr>pl_buf := mem_copy (pl_buf (c_payload cmd)) 0 buf
                                                  (unat offset) (unat (cmd_get_xfer cmd))\<rparr>\<rparr>
                      else cmd) in
        case env_ioctl env (c_type cmd) (c_payload cmd) d of (rc, pl, d) \<Rightarrow>
          let cmd = cmd\<lparr>c_payload := pl\<rparr> in
          if rc < 0 then Some (rc, cmd, buf, d)
          else let buf = (if it_dir it = READ
                          then mem_copy buf (unat offset) (pl_buf pl) 0
                                 (unat (cmd_get_xfer cmd - word_of_int rc))
                          else buf) in
            if cmd_get_firmware_status cmd \<noteq> 0 \<or> rc \<noteq> 0
            then Some (sint (offset + cmd_get_xfer cmd - word_of_int rc), cmd, buf, d)
            else do_cmd_loop env fuel cmd buf d (offset + it_max_xfer it) rc)"

definition do_cmd :: "'d nd_env \<Rightarrow> nat \<Rightarrow> ndctl_cmd \<Rightarrow> mem \<Rightarrow> 'd \<Rightarrow> (int \<times> ndctl_cmd \<times> mem \<times> 'd) option" where
  "do_cmd env fuel cmd buf d =
     (if it_total_xfer (c_iter cmd) = 0
      then case env_ioctl env (c_type cmd) (c_payload cmd) d of (rc, pl, d) \<Rightarrow>
             Some (rc, cmd\<lparr>c_payload := pl\<rparr>, buf, d)
      else do_cmd_loop env fuel cmd buf d 0 0)"

text \<open>\<open>ndctl_cmd_submit\<close>: \<open>env_open\<close> stands for the errors of locating and opening the device node.  All
  the commands of this theory have an ioctl number, so \<open>to_ioctl_cmd\<close> is never 0.\<close>

definition ndctl_cmd_submit :: "'d nd_env \<Rightarrow> nat \<Rightarrow> 'd nd_state \<Rightarrow> nat \<Rightarrow> (int \<times> 'd nd_state) option" where
  "ndctl_cmd_submit env fuel s i =
     (case st_cmds s i of
        None \<Rightarrow> Some (- EINVAL, s)
      | Some cmd \<Rightarrow>
          if env_open env \<noteq> 0 then Some (env_open env, put_cmd s i (cmd\<lparr>c_status := env_open env\<rparr>))
          else case do_cmd env fuel cmd (iter_buf s (c_iter cmd)) (st_dev s) of
            None \<Rightarrow> None
          | Some (rc, cmd, buf, d) \<Rightarrow>
              Some (rc, put_cmd ((set_iter_buf s (c_iter cmd) buf)\<lparr>st_dev := d\<rparr>) i (cmd\<lparr>c_status := rc\<rparr>)))"

definition ndctl_cmd_submit_xlat :: "'d nd_env \<Rightarrow> nat \<Rightarrow> 'd nd_state \<Rightarrow> nat \<Rightarrow> (int \<times> 'd nd_state) option" where
  "ndctl_cmd_submit_xlat env fuel s i =
     (case ndctl_cmd_submit env fuel s i of
        None \<Rightarrow> None
      | Some (rc, s) \<Rightarrow>
          if rc < 0 then Some (rc, s)
          else let xlat_rc = (case st_cmds s i of None \<Rightarrow> 0 | Some c \<Rightarrow> env_xlat env c)
               in Some (if xlat_rc = 0 then rc else xlat_rc, s))"

subsection \<open>Transfers in pieces\<close>

text \<open>What the kernel documents of the two ioctls, for a label area of \<open>n\<close> bytes with content \<open>lsa d\<close>: an
  access inside the area succeeds, a read returns the bytes, a write stores them.\<close>

definition lsa_ioctl :: "'d nd_env \<Rightarrow> ('d \<Rightarrow> mem) \<Rightarrow> nat \<Rightarrow> bool" where
  "lsa_ioctl env lsa n =
     (\<forall>pl d. unat (pl_offset pl) + unat (pl_length pl) \<le> n \<longrightarrow>
        (case env_ioctl env ND_CMD_GET_CONFIG_DATA pl d of (rc, pl', d') \<Rightarrow>
           rc = 0 \<and> pl_status pl' = 0 \<and> pl_length pl' = pl_length pl \<and> lsa d' = lsa d \<and>
           (\<forall>k < unat (pl_length pl). pl_buf pl' k = lsa d (unat (pl_offset pl) + k))) \<and>
        (case env_ioctl env ND_CMD_SET_CONFIG_DATA pl d of (rc, pl', d') \<Rightarrow>
           rc = 0 \<and> pl_status pl' = 0 \<and> pl_length pl' = pl_length pl \<and>
           lsa d' = mem_copy (lsa d) (unat (pl_offset pl)) (pl_buf pl) 0 (unat (pl_length pl))))"

lemma lsa_read:
  assumes "lsa_ioctl env lsa n" and "env_ioctl env ND_CMD_GET_CONFIG_DATA pl d = (rc, pl', d')"
    and "unat (pl_offset pl) + unat (pl_length pl) \<le> n"
  shows "rc = 0" and "pl_status pl' = 0" and "pl_length pl' = pl_length pl" and "lsa d' = lsa d"
    and "k < unat (pl_length pl) \<Longrightarrow> pl_buf pl' k = lsa d (unat (pl_offset pl) + k)"
  using assms(1) [unfolded lsa_ioctl_def, rule_format, OF assms(3), of d] assms(2) by auto

lemma lsa_write:
  assumes "lsa_ioctl env lsa n" and "env_ioctl env ND_CMD_SET_CONFIG_DATA pl d = (rc, pl', d')"
    and "unat (pl_offset pl) + unat (pl_length pl) \<le> n"
  shows "rc = 0" and "pl_status pl' = 0" and "pl_length pl' = pl_length pl"
    and "lsa d' = mem_copy (lsa d) (unat (pl_offset pl)) (pl_buf pl) 0 (unat (pl_length pl))"
  using assms(1) [unfolded lsa_ioctl_def, rule_format, OF assms(3), of d] assms(2) by auto

definition iter_ok :: "ndctl_cmd_iter \<Rightarrow> nat \<Rightarrow> bool" where
  "iter_ok it n = (0 < it_max_xfer it \<and> unat (it_total_xfer it) \<le> n \<and>
     unat (it_total_xfer it) + unat (it_max_xfer it) < 2 ^ 32)"

lemma piece_bounds:
  assumes "iter_ok it n" and "offset < it_total_xfer it"
  defines "x \<equiv> min (it_total_xfer it - offset) (it_max_xfer it)"
  shows "unat offset + unat x \<le> n" and "unat x = min (unat (it_total_xfer it) - unat offset) (unat (it_max_xfer it))"
    and "unat (offset + it_max_xfer it) = unat offset + unat (it_max_xfer it)" and "0 < unat (it_max_xfer it)"
proof -
  have o: "unat offset < unat (it_total_xfer it)" using assms(2) by (simp add: word_less_nat_alt)
  then have "unat (it_total_xfer it - offset) = unat (it_total_xfer it) - unat offset"
    by (simp add: unat_sub word_le_nat_alt)
  then show x: "unat x = min (unat (it_total_xfer it) - unat offset) (unat (it_max_xfer it))"
    by (simp add: x_def min_def word_le_nat_alt)
  show "unat offset + unat x \<le> n" using assms(1) o by (auto simp: x iter_ok_def)
  show "unat (offset + it_max_xfer it) = unat offset + unat (it_max_xfer it)"
    using assms(1) o by (simp add: iter_ok_def unat_word_ariths(1))
  show "0 < unat (it_max_xfer it)" using assms(1) by (simp add: iter_ok_def word_less_nat_alt)
qed

lemma read_loop:
  assumes "lsa_ioctl env lsa n"
  shows "iter_ok (c_iter cmd) n \<Longrightarrow> c_type cmd = ND_CMD_GET_CONFIG_DATA \<Longrightarrow> it_dir (c_iter cmd) = READ \<Longrightarrow>
    unat (it_total_xfer (c_iter cmd)) - unat offset < fuel \<Longrightarrow>
    \<exists>cmd' buf' d'. do_cmd_loop env fuel cmd buf d offset 0 = Some (0, cmd', buf', d') \<and>
      c_iter cmd' = c_iter cmd \<and> c_type cmd' = c_type cmd \<and> c_source cmd' = c_source cmd \<and> c_refcount cmd' = c_refcount cmd \<and> lsa d' = lsa d \<and>
      (offset < it_total_xfer (c_iter cmd) \<or> pl_length (c_payload cmd) \<noteq> 0 \<longrightarrow> pl_length (c_payload cmd') \<noteq> 0) \<and>
      (\<forall>x. buf' x = (if unat offset \<le> x \<and> x < unat (it_total_xfer (c_iter cmd)) then lsa d x else buf x))"
proof (induction fuel arbitrary: cmd buf d offset)
  case 0
  then show ?case by simp
next
  case (Suc fuel)
  let ?it = "c_iter cmd"
  show ?case
  proof (cases "offset < it_total_xfer ?it")
    case False
    then show ?thesis by (auto simp: Let_def word_less_nat_alt)
  next
    case True
    define x where "x = min (it_total_xfer ?it - offset) (it_max_xfer ?it)"
    define pl where "pl = (c_payload cmd)\<lparr>pl_length := x, pl_offset := offset\<rparr>"
    note b = piece_bounds [OF Suc.prems(1) True, folded x_def]
    obtain rc pl' d' where io: "env_ioctl env ND_CMD_GET_CONFIG_DATA pl d = (rc, pl', d')"
      by (metis prod.collapse)
    have r: "rc = 0" "pl_status pl' = 0" "pl_length pl' = x" "lsa d' = lsa d"
      "\<And>k. k < unat x \<Longrightarrow> pl_buf pl' k = lsa d (unat offset + k)"
      using lsa_read [OF assms io] b(1) by (simp_all add: pl_def)
    let ?buf = "mem_copy buf (unat offset) (pl_buf pl') 0 (unat x)" and ?cmd = "cmd\<lparr>c_payload := pl'\<rparr>"
    have step: "do_cmd_loop env (Suc fuel) cmd buf d offset 0 =
        do_cmd_loop env fuel ?cmd ?buf d' (offset + it_max_xfer ?it) 0"
      using True Suc.prems io r
      by (simp add: Let_def cmd_set_xfer_def cmd_set_offset_def cmd_get_xfer_def cmd_get_firmware_status_def
          pl_def x_def)
    have IH: "\<exists>cmd' buf' d''. do_cmd_loop env fuel ?cmd ?buf d' (offset + it_max_xfer ?it) 0 = Some (0, cmd', buf', d'') \<and>
        c_iter cmd' = c_iter ?cmd \<and> c_type cmd' = c_type ?cmd \<and> c_source cmd' = c_source ?cmd \<and> c_refcount cmd' = c_refcount ?cmd \<and> lsa d'' = lsa d' \<and>
        (offset + it_max_xfer ?it < it_total_xfer (c_iter ?cmd) \<or> pl_length (c_payload ?cmd) \<noteq> 0 \<longrightarrow> pl_length (c_payload cmd') \<noteq> 0) \<and>
        (\<forall>y. buf' y = (if unat (offset + it_max_xfer ?it) \<le> y \<and> y < unat (it_total_xfer (c_iter ?cmd))
                       then lsa d' y else ?buf y))"
      by (rule Suc.IH) (use Suc.prems b True in \<open>auto simp: word_less_nat_alt\<close>)
    have eq: "(if unat (offset + it_max_xfer ?it) \<le> y \<and> y < unat (it_total_xfer ?it) then lsa d y else ?buf y)
        = (if unat offset \<le> y \<and> y < unat (it_total_xfer ?it) then lsa d y else buf y)" for y
    proof -
      have "?buf y = (if unat offset \<le> y \<and> y < unat offset + unat x then lsa d y else buf y)"
        using r(5) [of "y - unat offset"] by (auto simp: mem_copy_def)
      then show ?thesis using b True by (auto simp: word_less_nat_alt)
    qed
    have "unat x \<noteq> 0" using b(2,4) True by (simp add: word_less_nat_alt)
    then have x: "x \<noteq> 0" by auto
    from IH obtain cmd' buf' d'' where
      f: "do_cmd_loop env fuel ?cmd ?buf d' (offset + it_max_xfer ?it) 0 = Some (0, cmd', buf', d'')"
        "c_iter cmd' = ?it" "c_type cmd' = c_type cmd" "c_source cmd' = c_source cmd" "c_refcount cmd' = c_refcount cmd" "lsa d'' = lsa d"
        "pl_length (c_payload cmd') \<noteq> 0"
      and g: "\<And>y. buf' y = (if unat (offset + it_max_xfer ?it) \<le> y \<and> y < unat (it_total_xfer ?it)
        then lsa d y else ?buf y)"
      by (auto simp: r(3,4) x simp del: do_cmd_loop.simps)
    from f show ?thesis unfolding step using g [unfolded eq] by blast
  qed
qed

lemma write_loop:
  assumes "lsa_ioctl env lsa n"
  shows "iter_ok (c_iter cmd) n \<Longrightarrow> c_type cmd = ND_CMD_SET_CONFIG_DATA \<Longrightarrow> it_dir (c_iter cmd) = WRITE \<Longrightarrow>
    unat (it_total_xfer (c_iter cmd)) - unat offset < fuel \<Longrightarrow>
    \<exists>cmd' d'. do_cmd_loop env fuel cmd buf d offset 0 = Some (0, cmd', buf, d') \<and>
      c_iter cmd' = c_iter cmd \<and> c_type cmd' = c_type cmd \<and> c_source cmd' = c_source cmd \<and> c_refcount cmd' = c_refcount cmd \<and>
      (\<forall>x. lsa d' x = (if unat offset \<le> x \<and> x < unat (it_total_xfer (c_iter cmd)) then buf x else lsa d x))"
proof (induction fuel arbitrary: cmd d offset)
  case 0
  then show ?case by simp
next
  case (Suc fuel)
  let ?it = "c_iter cmd"
  show ?case
  proof (cases "offset < it_total_xfer ?it")
    case False
    then show ?thesis by (auto simp: Let_def word_less_nat_alt)
  next
    case True
    define x where "x = min (it_total_xfer ?it - offset) (it_max_xfer ?it)"
    define pl where "pl = (c_payload cmd)\<lparr>pl_length := x, pl_offset := offset,
      pl_buf := mem_copy (pl_buf (c_payload cmd)) 0 buf (unat offset) (unat x)\<rparr>"
    note b = piece_bounds [OF Suc.prems(1) True, folded x_def]
    obtain rc pl' d' where io: "env_ioctl env ND_CMD_SET_CONFIG_DATA pl d = (rc, pl', d')"
      by (metis prod.collapse)
    have r: "rc = 0" "pl_status pl' = 0" "pl_length pl' = x"
      "lsa d' = mem_copy (lsa d) (unat offset) (pl_buf pl) 0 (unat x)"
      using lsa_write [OF assms io] b(1) by (simp_all add: pl_def)
    let ?cmd = "cmd\<lparr>c_payload := pl'\<rparr>"
    have step: "do_cmd_loop env (Suc fuel) cmd buf d offset 0 =
        do_cmd_loop env fuel ?cmd buf d' (offset + it_max_xfer ?it) 0"
      using True Suc.prems io r
      by (simp add: Let_def cmd_set_xfer_def cmd_set_offset_def cmd_get_xfer_def cmd_get_firmware_status_def
          pl_def x_def)
    have IH: "\<exists>cmd' d''. do_cmd_loop env fuel ?cmd buf d' (offset + it_max_xfer ?it) 0 = Some (0, cmd', buf, d'') \<and>
        c_iter cmd' = c_iter ?cmd \<and> c_type cmd' = c_type ?cmd \<and> c_source cmd' = c_source ?cmd \<and> c_refcount cmd' = c_refcount ?cmd \<and>
        (\<forall>y. lsa d'' y = (if unat (offset + it_max_xfer ?it) \<le> y \<and> y < unat (it_total_xfer (c_iter ?cmd))
                          then buf y else lsa d' y))"
      by (rule Suc.IH) (use Suc.prems b True in \<open>auto simp: word_less_nat_alt\<close>)
    have eq: "(if unat (offset + it_max_xfer ?it) \<le> y \<and> y < unat (it_total_xfer ?it) then buf y else lsa d' y)
        = (if unat offset \<le> y \<and> y < unat (it_total_xfer ?it) then buf y else lsa d y)" for y
      using b True by (auto simp: r(4) pl_def mem_copy_def word_less_nat_alt)
    from IH obtain cmd' d'' where
      f: "do_cmd_loop env fuel ?cmd buf d' (offset + it_max_xfer ?it) 0 = Some (0, cmd', buf, d'')"
        "c_iter cmd' = ?it" "c_type cmd' = c_type cmd" "c_source cmd' = c_source cmd" "c_refcount cmd' = c_refcount cmd"
      and g: "\<And>y. lsa d'' y = (if unat (offset + it_max_xfer ?it) \<le> y \<and> y < unat (it_total_xfer ?it)
        then buf y else lsa d' y)"
      by (auto simp del: do_cmd_loop.simps)
    from f show ?thesis unfolding step using g [unfolded eq] by blast
  qed
qed

subsection \<open>Reading and writing the label area\<close>

lemma do_cmd_read:
  assumes "lsa_ioctl env lsa n" and "iter_ok (c_iter cmd) n" and "c_type cmd = ND_CMD_GET_CONFIG_DATA"
    and "it_dir (c_iter cmd) = READ" and "it_total_xfer (c_iter cmd) \<noteq> 0"
    and "unat (it_total_xfer (c_iter cmd)) < fuel"
  obtains cmd' buf' d' where "do_cmd env fuel cmd buf d = Some (0, cmd', buf', d')"
    and "c_iter cmd' = c_iter cmd" and "c_type cmd' = c_type cmd" and "c_source cmd' = c_source cmd" and "c_refcount cmd' = c_refcount cmd" and "lsa d' = lsa d"
    and "pl_length (c_payload cmd') \<noteq> 0"
    and "\<And>x. buf' x = (if x < unat (it_total_xfer (c_iter cmd)) then lsa d x else buf x)"
proof -
  have "0 < it_total_xfer (c_iter cmd)" using assms(5) by (simp add: word_neq_0_conv)
  then show thesis using read_loop [OF assms(1-4), of 0 fuel buf d] assms(5,6) that by (auto simp: do_cmd_def)
qed

lemma do_cmd_write:
  assumes "lsa_ioctl env lsa n" and "iter_ok (c_iter cmd) n" and "c_type cmd = ND_CMD_SET_CONFIG_DATA"
    and "it_dir (c_iter cmd) = WRITE" and "it_total_xfer (c_iter cmd) \<noteq> 0"
    and "unat (it_total_xfer (c_iter cmd)) < fuel"
  obtains cmd' d' where "do_cmd env fuel cmd buf d = Some (0, cmd', buf, d')"
    and "c_iter cmd' = c_iter cmd" and "c_type cmd' = c_type cmd" and "c_source cmd' = c_source cmd" and "c_refcount cmd' = c_refcount cmd"
    and "\<And>x. lsa d' x = (if x < unat (it_total_xfer (c_iter cmd)) then buf x else lsa d x)"
  using write_loop [OF assms(1-4), of 0 fuel buf d] assms(5,6) that by (auto simp: do_cmd_def)

text \<open>A command of the heap that is ready to be submitted, with its buffer allocated.\<close>

definition ready_cmd :: "'d nd_state \<Rightarrow> nat \<Rightarrow> ndctl_cmd \<Rightarrow> nat \<Rightarrow> mem \<Rightarrow> bool" where
  "ready_cmd s i cmd b buf =
     (st_cmds s i = Some cmd \<and> it_total_buf (c_iter cmd) = Some b \<and> st_bufs s b = Some buf \<and>
      it_total_xfer (c_iter cmd) \<noteq> 0 \<and>
      (case c_type cmd of ND_CMD_GET_CONFIG_DATA \<Rightarrow> it_dir (c_iter cmd) = READ
       | ND_CMD_SET_CONFIG_DATA \<Rightarrow> it_dir (c_iter cmd) = WRITE | _ \<Rightarrow> False))"

lemma submit_read:
  assumes "lsa_ioctl env lsa n" and "env_open env = 0" and "ready_cmd s i cmd b buf"
    and "c_type cmd = ND_CMD_GET_CONFIG_DATA" and "iter_ok (c_iter cmd) n"
    and "unat (it_total_xfer (c_iter cmd)) < fuel"
  obtains cmd' d' buf' where "ndctl_cmd_submit env fuel s i =
        Some (0, s\<lparr>st_dev := d', st_cmds := (st_cmds s)(i \<mapsto> cmd'), st_bufs := (st_bufs s)(b \<mapsto> buf')\<rparr>)"
    and "c_iter cmd' = c_iter cmd" and "c_type cmd' = c_type cmd" and "c_source cmd' = c_source cmd" and "c_refcount cmd' = c_refcount cmd" and "c_status cmd' = 0"
    and "lsa d' = lsa (st_dev s)" and "pl_length (c_payload cmd') \<noteq> 0"
    and "\<And>x. buf' x = (if x < unat (it_total_xfer (c_iter cmd)) then lsa (st_dev s) x else buf x)"
proof -
  have d: "it_dir (c_iter cmd) = READ" and nz: "it_total_xfer (c_iter cmd) \<noteq> 0"
    using assms(3,4) by (auto simp: ready_cmd_def)
  obtain cmd' buf' d' where r: "do_cmd env fuel cmd buf (st_dev s) = Some (0, cmd', buf', d')"
    "c_iter cmd' = c_iter cmd" "c_type cmd' = c_type cmd" "c_source cmd' = c_source cmd" "c_refcount cmd' = c_refcount cmd" "lsa d' = lsa (st_dev s)"
    "pl_length (c_payload cmd') \<noteq> 0" "\<And>x. buf' x = (if x < unat (it_total_xfer (c_iter cmd)) then lsa (st_dev s) x else buf x)"
    by (rule do_cmd_read [OF assms(1,5,4) d nz assms(6), of buf "st_dev s"]) (rule that)
  then show thesis
    using that [of buf' "cmd'\<lparr>c_status := 0\<rparr>" d'] assms(2,3)
    by (simp add: ndctl_cmd_submit_def ready_cmd_def iter_buf_def set_iter_buf_def put_cmd_def)
qed

lemma submit_write:
  assumes "lsa_ioctl env lsa n" and "env_open env = 0" and "ready_cmd s i cmd b buf"
    and "c_type cmd = ND_CMD_SET_CONFIG_DATA" and "iter_ok (c_iter cmd) n"
    and "unat (it_total_xfer (c_iter cmd)) < fuel"
  obtains cmd' d' where "ndctl_cmd_submit env fuel s i =
        Some (0, s\<lparr>st_dev := d', st_cmds := (st_cmds s)(i \<mapsto> cmd')\<rparr>)"
    and "c_iter cmd' = c_iter cmd" and "c_type cmd' = c_type cmd" and "c_source cmd' = c_source cmd" and "c_refcount cmd' = c_refcount cmd" and "c_status cmd' = 0"
    and "\<And>x. lsa d' x = (if x < unat (it_total_xfer (c_iter cmd)) then buf x else lsa (st_dev s) x)"
proof -
  have d: "it_dir (c_iter cmd) = WRITE" and nz: "it_total_xfer (c_iter cmd) \<noteq> 0"
    using assms(3,4) by (auto simp: ready_cmd_def)
  obtain cmd' d' where r: "do_cmd env fuel cmd buf (st_dev s) = Some (0, cmd', buf, d')"
    "c_iter cmd' = c_iter cmd" "c_type cmd' = c_type cmd" "c_source cmd' = c_source cmd" "c_refcount cmd' = c_refcount cmd"
    "\<And>x. lsa d' x = (if x < unat (it_total_xfer (c_iter cmd)) then buf x else lsa (st_dev s) x)"
    by (rule do_cmd_write [OF assms(1,5,4) d nz assms(6), of buf "st_dev s"]) (rule that)
  have "(st_bufs s)(b \<mapsto> buf) = st_bufs s" using assms(3) by (auto simp: ready_cmd_def)
  with r show thesis
    using that [of "cmd'\<lparr>c_status := 0\<rparr>" d'] assms(2,3)
    by (simp add: ndctl_cmd_submit_def ready_cmd_def iter_buf_def set_iter_buf_def put_cmd_def)
qed

subsection \<open>Properties of the commands\<close>

text \<open>C7: on a device that behaves as documented, submitting a read command terminates with status 0 and
  leaves in its buffer exactly the first \<open>total_xfer\<close> bytes of the label area, for every piece size
  \<open>max_xfer\<close>, without changing the area; submitting a write command stores the buffer over the same
  bytes and nothing else.\<close>

theorem submit_transfers_label_area:
  assumes "lsa_ioctl env lsa n" and "env_open env = 0" and "ready_cmd s i cmd b buf"
    and "iter_ok (c_iter cmd) n" and "unat (it_total_xfer (c_iter cmd)) < fuel"
  shows "\<exists>s' cmd'. ndctl_cmd_submit env fuel s i = Some (0, s') \<and> st_cmds s' i = Some cmd' \<and> c_status cmd' = 0 \<and>
    (\<forall>x. iter_buf s' (c_iter cmd') x =
       (if c_type cmd = ND_CMD_GET_CONFIG_DATA \<and> x < unat (it_total_xfer (c_iter cmd)) then lsa (st_dev s) x else buf x)) \<and>
    (\<forall>x. lsa (st_dev s') x =
       (if c_type cmd = ND_CMD_SET_CONFIG_DATA \<and> x < unat (it_total_xfer (c_iter cmd)) then buf x else lsa (st_dev s) x))"
proof (cases "c_type cmd = ND_CMD_GET_CONFIG_DATA")
  case True
  obtain cmd' d' buf' where r: "ndctl_cmd_submit env fuel s i =
      Some (0, s\<lparr>st_dev := d', st_cmds := (st_cmds s)(i \<mapsto> cmd'), st_bufs := (st_bufs s)(b \<mapsto> buf')\<rparr>)"
    "c_iter cmd' = c_iter cmd" "c_status cmd' = 0" "lsa d' = lsa (st_dev s)"
    "\<And>x. buf' x = (if x < unat (it_total_xfer (c_iter cmd)) then lsa (st_dev s) x else buf x)"
    by (rule submit_read [OF assms(1-3) True assms(4,5)]) (rule that)
  with True assms(3) show ?thesis by (simp add: ready_cmd_def iter_buf_def)
next
  case False
  then have w: "c_type cmd = ND_CMD_SET_CONFIG_DATA"
    using assms(3) by (auto simp: ready_cmd_def split: nd_cmd_type.splits)
  obtain cmd' d' where r: "ndctl_cmd_submit env fuel s i =
      Some (0, s\<lparr>st_dev := d', st_cmds := (st_cmds s)(i \<mapsto> cmd')\<rparr>)"
    "c_iter cmd' = c_iter cmd" "c_status cmd' = 0"
    "\<And>x. lsa d' x = (if x < unat (it_total_xfer (c_iter cmd)) then buf x else lsa (st_dev s) x)"
    by (rule submit_write [OF assms(1-3) w assms(4,5)]) (rule that)
  with w assms(3) show ?thesis by (simp add: ready_cmd_def iter_buf_def)
qed

text \<open>A device for the witnesses: a memory, served by the two ioctls as documented.\<close>

definition mem_env :: "mem nd_env" where
  "mem_env = \<lparr>env_supported = (\<lambda>_. True), env_calloc = (\<lambda>_. True), env_open = 0,
     env_ioctl = (\<lambda>t pl d. case t of
        ND_CMD_GET_CONFIG_DATA \<Rightarrow> (0, pl\<lparr>pl_status := 0, pl_buf := (\<lambda>k. d (unat (pl_offset pl) + k))\<rparr>, d)
      | ND_CMD_SET_CONFIG_DATA \<Rightarrow>
          (0, pl\<lparr>pl_status := 0\<rparr>, mem_copy d (unat (pl_offset pl)) (pl_buf pl) 0 (unat (pl_length pl)))
      | ND_CMD_GET_CONFIG_SIZE \<Rightarrow> (0, pl\<lparr>pl_status := 0, pl_config_size := 64, pl_max_xfer := 16\<rparr>, d)
      | ND_CMD_VENDOR \<Rightarrow> (- ENOTTY, pl, d)),
     env_xlat = (\<lambda>_. 0)\<rparr>"

lemma mem_env_lsa: "lsa_ioctl mem_env (\<lambda>d. d) n"
  by (simp add: lsa_ioctl_def mem_env_def)

definition read_cmd :: "u32 \<Rightarrow> u32 \<Rightarrow> ndctl_cmd" where
  "read_cmd len offset = iter_set_extent \<lparr>c_refcount = 1, c_type = ND_CMD_GET_CONFIG_DATA, c_status = 1,
     c_payload = zero_payload\<lparr>pl_length := 16\<rparr>,
     c_iter = \<lparr>it_init_offset = 0, it_max_xfer = 16, it_total_buf = Some 2, it_total_xfer = 64, it_dir = READ\<rparr>,
     c_source = None\<rparr> len offset"

definition read_state :: "u32 \<Rightarrow> u32 \<Rightarrow> mem nd_state" where
  "read_state len offset = \<lparr>st_dev = (\<lambda>x. of_nat x), st_cmds = [1 \<mapsto> read_cmd len offset],
     st_bufs = [2 \<mapsto> (\<lambda>_. 0)], st_next = 3\<rparr>"

theorem submit_transfers_label_area_witness:
  "\<exists>s'. ndctl_cmd_submit mem_env 65 (read_state 64 0) 1 = Some (0, s')"
  using submit_transfers_label_area [OF mem_env_lsa [of 64], of "read_state 64 0" 1 "read_cmd 64 0" 2 "\<lambda>_. 0" 65]
  by (auto simp: mem_env_def read_state_def ready_cmd_def read_cmd_def iter_set_extent_def iter_ok_def Let_def
      cmd_set_offset_def cmd_set_xfer_def cmd_get_xfer_def)

text \<open>A read extent is not honoured: \<open>do_cmd\<close> starts at offset 0 whatever \<open>init_offset\<close> the extent set,
  so after \<open>ndctl_cmd_cfg_read_set_extent (len, offset)\<close> with \<open>len \<le> offset\<close> the data that
  \<open>ndctl_cmd_cfg_read_get_data\<close> returns for the extent is what the buffer held before the command was
  submitted (zeroes, for a new command), not the content of the label area.\<close>

theorem read_extent_returns_stale_data:
  assumes "lsa_ioctl env lsa n" and "env_open env = 0" and "ready_cmd s i cmd b buf"
    and "c_type cmd = ND_CMD_GET_CONFIG_DATA" and "iter_ok (c_iter cmd) n"
    and "unat (it_total_xfer (c_iter cmd)) < fuel"
    and "it_init_offset (c_iter cmd) = offset" and "it_total_xfer (c_iter cmd) = len" and "len \<le> offset"
    and "unat offset + unat len < 2 ^ 32"
  shows "\<exists>s'. ndctl_cmd_submit env fuel s i = Some (0, s') \<and>
    ndctl_cmd_cfg_read_get_data s' i len offset = Inr (mem_bytes buf (unat offset) (unat len))"
proof -
  obtain cmd' d' buf' where r: "ndctl_cmd_submit env fuel s i =
      Some (0, s\<lparr>st_dev := d', st_cmds := (st_cmds s)(i \<mapsto> cmd'), st_bufs := (st_bufs s)(b \<mapsto> buf')\<rparr>)"
    "c_iter cmd' = c_iter cmd" "c_type cmd' = c_type cmd" "c_status cmd' = 0"
    "\<And>x. buf' x = (if x < unat (it_total_xfer (c_iter cmd)) then lsa (st_dev s) x else buf x)"
    by (rule submit_read [OF assms(1-6)]) (rule that)
  have "unat (len + offset) = unat len + unat offset"
    using assms(10) by (simp add: unat_plus_if')
  then have "iter_access (c_iter cmd) len offset = Some len"
    using assms(7,8) by (simp add: iter_access_def word_less_nat_alt add.commute [of offset len])
  moreover have "mem_bytes buf' (unat offset) (unat len) = mem_bytes buf (unat offset) (unat len)"
    using assms(8,9) by (intro mem_bytes_cong) (simp add: r(5) word_le_nat_alt)
  ultimately show ?thesis
    using r assms(3,4) by (simp add: ndctl_cmd_cfg_read_get_data_def iter_buf_def ready_cmd_def)
qed

theorem read_extent_returns_stale_data_witness:
  "\<exists>s'. ndctl_cmd_submit mem_env 17 (read_state 16 32) 1 = Some (0, s') \<and>
     ndctl_cmd_cfg_read_get_data s' 1 16 32 = Inr (mem_bytes (\<lambda>_. 0) 32 16)"
  using read_extent_returns_stale_data
    [OF mem_env_lsa [of 64], of "read_state 16 32" 1 "read_cmd 16 32" 2 "\<lambda>_. 0" 17 32 16]
  by (auto simp: mem_env_def read_state_def ready_cmd_def read_cmd_def iter_set_extent_def iter_ok_def Let_def
      cmd_set_offset_def cmd_set_xfer_def cmd_get_xfer_def)

text \<open>With no extent set, an access that \<open>iter_access\<close> grants stays inside the transferred bytes and is the
  requested one cut at their end; with a non-zero \<open>init_offset\<close> the cut is computed from the wrong base
  and wraps to a length of almost 4 GiB.\<close>

theorem iter_access_bounds:
  "(it_init_offset it = 0 \<longrightarrow> iter_access it len offset = Some k \<longrightarrow>
      unat offset + unat k \<le> unat (it_total_xfer it) \<and>
      unat k = min (unat len) (unat (it_total_xfer it) - unat offset)) \<and>
   iter_access \<lparr>it_init_offset = 4096, it_max_xfer = 256, it_total_buf = b, it_total_xfer = 256, it_dir = READ\<rparr>
     100 4300 = Some 4294963252"
proof -
  have "unat offset + unat k \<le> unat (it_total_xfer it) \<and>
      unat k = min (unat len) (unat (it_total_xfer it) - unat offset)"
    if "it_init_offset it = 0" and a: "iter_access it len offset = Some k"
  proof -
    have g: "offset \<le> it_total_xfer it" "len \<le> len + offset"
      and k: "k = (if it_total_xfer it < len + offset then it_total_xfer it - offset else len)"
      using that by (auto simp: iter_access_def not_less split: if_splits)
    then have o: "unat offset \<le> unat (it_total_xfer it)" by (simp add: word_le_nat_alt)
    have "unat (len + offset) = unat len + unat offset"
      using g(2) unat_u32_less [of offset] by (auto simp: word_le_nat_alt unat_plus_if' split: if_splits)
    then show ?thesis
      using o by (auto simp: k unat_sub g(1) word_less_nat_alt)
  qed
  moreover have "iter_access \<lparr>it_init_offset = 4096, it_max_xfer = 256, it_total_buf = b, it_total_xfer = 256,
      it_dir = READ\<rparr> 100 4300 = Some 4294963252"
    by (simp add: iter_access_def)
  ultimately show ?thesis by blast
qed

theorem iter_access_bounds_witness:
  "iter_access \<lparr>it_init_offset = 0, it_max_xfer = 16, it_total_buf = None, it_total_xfer = 64, it_dir = READ\<rparr> 100 60
     = Some 4 \<and> unat (60 :: u32) + unat (4 :: u32) \<le> 64"
  using iter_access_bounds [of "\<lparr>it_init_offset = 0, it_max_xfer = 16, it_total_buf = None, it_total_xfer = 64,
      it_dir = READ\<rparr>" 100 60 4 None]
  by (simp add: iter_access_def)

subsection \<open>Reference counts\<close>

text \<open>The heaps the constructors build: a buffer belongs to a command that has a source, and identifiers
  below \<open>st_next\<close> only are in use.\<close>

definition cmd_wf :: "nat \<Rightarrow> nat \<Rightarrow> ndctl_cmd \<Rightarrow> bool" where
  "cmd_wf n i c =
     (i < n \<and> (case c_source c of None \<Rightarrow> it_total_buf (c_iter c) = None | Some src \<Rightarrow> src < i))"

definition heap_inv :: "'d nd_state \<Rightarrow> bool" where
  "heap_inv s = (\<forall>i c. st_cmds s i = Some c \<longrightarrow> cmd_wf (st_next s) i c)"

lemma heap_inv_put:
  assumes "heap_inv s" and "st_cmds s i = Some c"
  shows "heap_inv (put_cmd s i (c\<lparr>c_refcount := r\<rparr>))"
proof -
  have "cmd_wf (st_next s) i c" using assms by (simp add: heap_inv_def)
  then have "cmd_wf (st_next s) i (c\<lparr>c_refcount := r\<rparr>)"
    by (auto simp: cmd_wf_def split: option.splits)
  with assms(1) show ?thesis by (simp add: heap_inv_def put_cmd_def)
qed

lemma heap_inv_ref: "heap_inv s \<Longrightarrow> heap_inv (ndctl_cmd_ref s i)"
  by (auto simp: ndctl_cmd_ref_def heap_inv_put split: option.splits)

lemma cmd_wf_mono: "cmd_wf n i c \<Longrightarrow> n \<le> m \<Longrightarrow> cmd_wf m i c"
  by (simp add: cmd_wf_def)

lemma heap_inv_new:
  assumes "heap_inv s" and "cmd_wf n i c" and "st_next s \<le> n"
  shows "heap_inv ((put_cmd s i c)\<lparr>st_next := n\<rparr>)"
    and "heap_inv ((put_cmd s i c)\<lparr>st_bufs := bufs, st_next := n\<rparr>)"
  using assms by (auto simp: heap_inv_def put_cmd_def dest: cmd_wf_mono)

lemma heap_inv_cfg_size: "heap_inv s \<Longrightarrow> heap_inv (snd (ndctl_dimm_cmd_new_cfg_size env s))"
  by (auto simp: ndctl_dimm_cmd_new_cfg_size_def Let_def zero_iter_def cmd_wf_def intro: heap_inv_new)

lemma heap_inv_cfg_read:
  assumes "heap_inv s"
  shows "heap_inv (snd (ndctl_dimm_cmd_new_cfg_read env s i))"
proof (cases "fst (ndctl_dimm_cmd_new_cfg_read env s i)")
  case None
  with assms show ?thesis
    by (auto simp: ndctl_dimm_cmd_new_cfg_read_def Let_def split: option.splits if_splits)
next
  case (Some j)
  then obtain c where "st_cmds s i = Some c" and "i < st_next s"
    using assms by (auto simp: ndctl_dimm_cmd_new_cfg_read_def heap_inv_def cmd_wf_def split: option.splits)
  with assms Some show ?thesis
    unfolding ndctl_dimm_cmd_new_cfg_read_def
    by (auto simp: Let_def cmd_wf_def intro!: heap_inv_ref heap_inv_new split: if_splits)
qed

lemma heap_inv_cfg_write:
  assumes "heap_inv s"
  shows "heap_inv (snd (ndctl_dimm_cmd_new_cfg_write env s i))"
proof (cases "fst (ndctl_dimm_cmd_new_cfg_write env s i)")
  case None
  with assms show ?thesis
    by (auto simp: ndctl_dimm_cmd_new_cfg_write_def Let_def split: option.splits if_splits)
next
  case (Some j)
  then obtain c where "st_cmds s i = Some c" and "i < st_next s"
    using assms by (auto simp: ndctl_dimm_cmd_new_cfg_write_def heap_inv_def cmd_wf_def split: option.splits)
  with assms Some show ?thesis
    unfolding ndctl_dimm_cmd_new_cfg_write_def
    by (auto simp: Let_def cmd_wf_def intro!: heap_inv_ref heap_inv_new split: if_splits)
qed

lemma unref_keeps: "heap_inv s \<Longrightarrow> st_bufs (ndctl_cmd_unref s i) = st_bufs s \<and> heap_inv (ndctl_cmd_unref s i)"
proof (induction s i rule: ndctl_cmd_unref.induct)
  case (1 s i)
  show ?case
  proof (cases "st_cmds s i")
    case None
    then show ?thesis using 1 by (simp add: ndctl_cmd_unref.simps)
  next
    case (Some c)
    show ?thesis
    proof (cases "c_refcount c - 1 = 0")
      case False
      with Some 1(2) show ?thesis
        by (subst (1 2) ndctl_cmd_unref.simps) (auto simp: heap_inv_put, simp add: put_cmd_def)
    next
      case True
      show ?thesis
      proof (cases "c_source c")
        case None
        then have "it_total_buf (c_iter c) = None" using 1(2) Some by (force simp: heap_inv_def cmd_wf_def)
        with None Some True 1(2) show ?thesis
          by (subst (1 2) ndctl_cmd_unref.simps) (auto simp: heap_inv_def Let_def split: if_splits)
      next
        case src: (Some j)
        then have "j < i" using 1(2) Some by (force simp: heap_inv_def cmd_wf_def)
        have IH: "st_bufs (ndctl_cmd_unref s j) = st_bufs s \<and> heap_inv (ndctl_cmd_unref s j)"
          using 1(1) [OF Some _ src \<open>j < i\<close> 1(2)] True by simp
        with Some True src \<open>j < i\<close> show ?thesis
          by (subst (1 2) ndctl_cmd_unref.simps) (auto simp: heap_inv_def Let_def split: if_splits)
      qed
    qed
  qed
qed

text \<open>The constructors keep the heap well formed, and releasing a command of such a heap never frees a
  data buffer: \<open>ndctl_cmd_unref\<close> frees \<open>iter.total_buf\<close> only for a command without a source, and the
  only command with a buffer of its own, \<open>cfg_read\<close>, has one.\<close>

theorem cfg_buffers_are_never_freed:
  assumes "heap_inv s"
  shows "heap_inv (snd (ndctl_dimm_cmd_new_cfg_size env s)) \<and>
    heap_inv (snd (ndctl_dimm_cmd_new_cfg_read env s i)) \<and>
    heap_inv (snd (ndctl_dimm_cmd_new_cfg_write env s i)) \<and>
    heap_inv (ndctl_cmd_unref s i) \<and> st_bufs (ndctl_cmd_unref s i) = st_bufs s"
  using heap_inv_cfg_size heap_inv_cfg_read heap_inv_cfg_write unref_keeps assms by blast

theorem cfg_buffers_are_never_freed_witness:
  "st_bufs (ndctl_cmd_unref \<lparr>st_dev = (), st_cmds = [1 \<mapsto> (read_cmd 16 0)\<lparr>c_source := Some 0\<rparr>],
     st_bufs = [2 \<mapsto> (\<lambda>_. 0)], st_next = 3\<rparr> 1) 2 = Some (\<lambda>_. 0)"
proof -
  let ?s = "\<lparr>st_dev = (), st_cmds = [1 \<mapsto> (read_cmd 16 0)\<lparr>c_source := Some 0\<rparr>],
     st_bufs = [2 \<mapsto> (\<lambda>_. 0)], st_next = 3\<rparr>"
  have "heap_inv ?s" by (simp add: heap_inv_def cmd_wf_def)
  from cfg_buffers_are_never_freed [OF this] show ?thesis by simp
qed

end
