(* ===== verification/Label_Area.thy ===== *)
theory Label_Area
  imports Size Infoblock Cfg_Cmd
begin

text \<open>
  The label storage area of a DIMM, \<open>ndctl/lib/dimm.c\<close>: the sizes of the index blocks, their
  validation and the choice of the current one, initialising an area, and reading and zeroing it
  through the commands of \<open>Cfg_Cmd\<close>.  The buffer the label code works on is the data buffer of the
  read command that \<open>init_ndd\<close> remembers.
\<close>

subsection \<open>Sequence numbers\<close>

definition NSINDEX_SEQ_MASK :: u32 where "NSINDEX_SEQ_MASK = 3"
definition NSINDEX_ALIGN :: u64 where "NSINDEX_ALIGN = 256"

definition inc_seq :: "u32 \<Rightarrow> u32" where
  "inc_seq seq = [0, 2, 3, 1] ! unat (seq AND 3)"

definition best_seq :: "u32 \<Rightarrow> u32 \<Rightarrow> u32" where
  "best_seq a b =
     (let a = a AND NSINDEX_SEQ_MASK; b = b AND NSINDEX_SEQ_MASK in
      if a = 0 \<or> a = b then b
      else if b = 0 then a
      else if inc_seq a = b then b
      else a)"

subsection \<open>Index block sizes\<close>

text \<open>\<open>sizeof(struct namespace_index)\<close> is 72.  The arithmetic is that of the code: \<open>DIV_ROUND_UP\<close> of a
  \<open>u32\<close>, \<open>size_t\<close> otherwise, truncated to \<open>int\<close> and \<open>u32\<close> where it is assigned.\<close>

definition sizeof_namespace_index_nslot :: "u32 \<Rightarrow> u64" where
  "sizeof_namespace_index_nslot nslot = ALIGN (72 + ucast ((nslot + 8 - 1) div 8)) NSINDEX_ALIGN"

definition num_label_slots_index :: "u64 \<Rightarrow> u32 \<Rightarrow> u64 \<Rightarrow> u32" where
  "num_label_slots_index config_size label index_size =
     ucast ((config_size - index_size * 2) div ucast label)"

definition nvdimm_num_label_slots :: "u64 \<Rightarrow> u32 \<Rightarrow> u32" where
  "nvdimm_num_label_slots config_size label =
     (let tmp_nslot = ucast (config_size div ucast label) :: u32;
          n = ucast (sizeof_namespace_index_nslot tmp_nslot div NSINDEX_ALIGN) :: u32
      in num_label_slots_index config_size label (ucast (256 * n)))"

definition sizeof_namespace_index :: "u64 \<Rightarrow> u32 \<Rightarrow> u32" where
  "sizeof_namespace_index config_size label =
     (let nslot = nvdimm_num_label_slots config_size label;
          space = ucast (config_size - ucast (nslot * label)) :: u32;
          sz = ucast (sizeof_namespace_index_nslot nslot * 2) :: u32
      in if sz \<le> space \<and> nslot \<ge> 2 then sz div 2 else 0)"

subsection \<open>Index blocks\<close>

definition NSINDEX_SIGNATURE :: "u8 list" where
  "NSINDEX_SIGNATURE = map (of_nat \<circ> of_char) ''NAMESPACE_INDEX'' @ [0]"

text \<open>The fields of the index block at \<open>o\<close>.\<close>

definition ns_sig :: "mem \<Rightarrow> nat \<Rightarrow> u8 list" where "ns_sig m b = mem_bytes m b 16"
definition ns_labelsize :: "mem \<Rightarrow> nat \<Rightarrow> u8" where "ns_labelsize m b = m (b + 19)"
definition ns_seq :: "mem \<Rightarrow> nat \<Rightarrow> u32" where "ns_seq m b = le_get 4 m (b + 20)"
definition ns_myoff :: "mem \<Rightarrow> nat \<Rightarrow> u64" where "ns_myoff m b = le_get 8 m (b + 24)"
definition ns_mysize :: "mem \<Rightarrow> nat \<Rightarrow> u64" where "ns_mysize m b = le_get 8 m (b + 32)"
definition ns_otheroff :: "mem \<Rightarrow> nat \<Rightarrow> u64" where "ns_otheroff m b = le_get 8 m (b + 40)"
definition ns_labeloff :: "mem \<Rightarrow> nat \<Rightarrow> u64" where "ns_labeloff m b = le_get 8 m (b + 48)"
definition ns_nslot :: "mem \<Rightarrow> nat \<Rightarrow> u32" where "ns_nslot m b = le_get 4 m (b + 56)"
definition ns_major :: "mem \<Rightarrow> nat \<Rightarrow> u16" where "ns_major m b = le_get 2 m (b + 60)"
definition ns_minor :: "mem \<Rightarrow> nat \<Rightarrow> u16" where "ns_minor m b = le_get 2 m (b + 62)"
definition ns_checksum :: "nat \<Rightarrow> mem \<Rightarrow> u64" where "ns_checksum b m = le_get 8 m (b + 64)"
definition ns_set_checksum :: "nat \<Rightarrow> u64 \<Rightarrow> mem \<Rightarrow> mem" where "ns_set_checksum b c m = le_put 8 c m (b + 64)"

lemmas ns_field_defs = ns_sig_def ns_labelsize_def ns_seq_def ns_myoff_def ns_mysize_def ns_otheroff_def
  ns_labeloff_def ns_nslot_def ns_major_def ns_minor_def

interpretation nsi: sealed_block "ns_checksum b" "ns_set_checksum b" "\<lambda>m. fletcher64 m b n" for b n
  by unfold_locales
     (simp_all add: ns_checksum_def ns_set_checksum_def le_get_put_same le_put_overwrite le_put_get_same)

text \<open>One pass of the validation loop for index \<open>i\<close>; the checksum field is zeroed for the sum and
  restored, so the buffer is unchanged.  (The shift \<open>1 << (7 + labelsize)\<close> is taken modulo the register
  width, as on the hosts the library runs on.)\<close>

definition index_labelsize :: "mem \<Rightarrow> nat \<Rightarrow> u32" where
  "index_labelsize m b =
     (let version = uint (ns_major m b) * 100 + uint (ns_minor m b)
      in if version \<ge> 102 then push_bit ((7 + unat (ns_labelsize m b)) mod 32) 1 else 128)"

definition index_valid :: "u64 \<Rightarrow> u32 \<Rightarrow> mem \<Rightarrow> nat \<Rightarrow> bool" where
  "index_valid config_size label m i =
     (let sz = sizeof_namespace_index config_size label; b = unat sz * i in
      ns_sig m b = NSINDEX_SIGNATURE \<and>
      index_labelsize m b = label \<and>
      fletcher64 (ns_set_checksum b 0 m) b (unat sz) = ns_checksum b m \<and>
      ns_seq m b AND NSINDEX_SEQ_MASK \<noteq> 0 \<and>
      ns_myoff m b = ucast (of_nat i * sz) \<and>
      ns_otheroff m b = ucast (of_nat (1 - i) * sz) \<and>
      \<not> (ns_mysize m b > ucast sz \<or> ns_mysize m b < 72) \<and>
      \<not> (ucast (ns_nslot m b * label + 2 * sz) > config_size))"

definition label_validate_size :: "u64 \<Rightarrow> u32 \<Rightarrow> mem \<Rightarrow> int" where
  "label_validate_size config_size label m =
     (let v0 = index_valid config_size label m 0; v1 = index_valid config_size label m 1;
          b1 = unat (sizeof_namespace_index config_size label) in
      if \<not> v0 \<and> \<not> v1 then - EINVAL
      else if v0 \<and> \<not> v1 then 0
      else if \<not> v0 \<and> v1 then 1
      else if best_seq (ns_seq m 0) (ns_seq m b1) = ns_seq m b1 AND NSINDEX_SEQ_MASK then 1 else 0)"

text \<open>\<open>label_validate\<close> returns the number of slots (or \<open>-EINVAL\<close>) and the label size it leaves behind.\<close>

definition label_validate :: "u64 \<Rightarrow> mem \<Rightarrow> int \<times> u32" where
  "label_validate config_size m =
     (if label_validate_size config_size 128 m \<ge> 0
      then (sint (nvdimm_num_label_slots config_size 128), 128)
      else if label_validate_size config_size 256 m \<ge> 0
      then (sint (nvdimm_num_label_slots config_size 256), 256)
      else (- EINVAL, 256))"

subsection \<open>Building an index block\<close>

datatype ndctl_namespace_version = NDCTL_NS_VERSION_1_1 | NDCTL_NS_VERSION_1_2

definition version_label :: "ndctl_namespace_version \<Rightarrow> u32" where
  "version_label ver = (case ver of NDCTL_NS_VERSION_1_1 \<Rightarrow> 128 | NDCTL_NS_VERSION_1_2 \<Rightarrow> 256)"

definition label_next_nsindex :: "int \<Rightarrow> int" where
  "label_next_nsindex index = (if index < 0 then - 1 else (index + 1) mod 2)"

text \<open>The stores of \<open>write_label_index\<close> into the buffer, up to the checksum.\<close>

definition build_label_index :: "u64 \<Rightarrow> u32 \<Rightarrow> nat \<Rightarrow> u32 \<Rightarrow> mem \<Rightarrow> mem" where
  "build_label_index config_size label index seq m =
     (let sz = sizeof_namespace_index config_size label;
          b = unat sz * index;
          nslot = nvdimm_num_label_slots config_size label;
          m = mem_store m b NSINDEX_SIGNATURE;
          m = mem_fill m (b + 16) 3 0;
          m = m(b + 19 := ucast (drop_bit 8 label));
          m = le_put 4 seq m (b + 20);
          m = le_put 8 (of_nat b :: u64) m (b + 24);
          m = le_put 8 (ucast sz :: u64) m (b + 32);
          m = le_put 8 (of_nat (unat sz * nat (label_next_nsindex (int index))) :: u64) m (b + 40);
          m = le_put 8 (of_nat (2 * unat sz) :: u64) m (b + 48);
          m = le_put 4 nslot m (b + 56);
          m = le_put 2 (1 :: u16) m (b + 60);
          m = le_put 2 (if label < 256 then 1 else 2 :: u16) m (b + 62);
          m = ns_set_checksum b 0 m;
          m = mem_fill m (b + 72) (unat (ALIGN (ucast nslot) 64) div 8) 0xff
      in ns_set_checksum b (fletcher64 m b (unat sz)) m)"

subsection \<open>The DIMM's label operations\<close>

record nvdimm_data =
  nd_cmd_read :: "nat option"
  nd_config_size :: u64
  nd_nslabel_size :: u32
  nd_ns_current :: int
  nd_ns_next :: int

text \<open>\<open>dm_wait_probe\<close> is the result of \<open>ndctl_bus_wait_probe\<close>, \<open>dm_active\<close> and \<open>dm_enabled\<close> what sysfs says of the
  DIMM, \<open>dm_disable_rc\<close> and \<open>dm_enable_rc\<close> the results of unbinding and binding its driver.\<close>

record 'd ndctl_dimm =
  dm_st :: "'d nd_state"
  dm_ndd :: nvdimm_data
  dm_wait_probe :: int
  dm_active :: bool
  dm_enabled :: bool
  dm_disable_rc :: int
  dm_enable_rc :: int

definition ndd_cmd :: "'d ndctl_dimm \<Rightarrow> ndctl_cmd option" where
  "ndd_cmd dimm = Option.bind (nd_cmd_read (dm_ndd dimm)) (st_cmds (dm_st dimm))"

definition ndd_data :: "'d ndctl_dimm \<Rightarrow> mem" where
  "ndd_data dimm = (case ndd_cmd dimm of None \<Rightarrow> (\<lambda>_. 0) | Some c \<Rightarrow> iter_buf (dm_st dimm) (c_iter c))"

definition set_ndd_data :: "'d ndctl_dimm \<Rightarrow> mem \<Rightarrow> 'd ndctl_dimm" where
  "set_ndd_data dimm m =
     (case ndd_cmd dimm of
        None \<Rightarrow> dimm | Some c \<Rightarrow> dimm\<lparr>dm_st := set_iter_buf (dm_st dimm) (c_iter c) m\<rparr>)"

text \<open>The default label size: probe the versions at the first two possible index positions.  \<open>stack\<close> is the
  initial content of the local \<open>nsindex\<close>.\<close>

primrec probe_versions :: "'d nd_state \<Rightarrow> nat option \<Rightarrow> u32 list \<Rightarrow> mem \<Rightarrow> nat \<Rightarrow> nat \<Rightarrow> nat \<times> nat" where
  "probe_versions s cmd_read [] nsindex v1 v2 = (v1, v2)"
| "probe_versions s cmd_read (offset # offsets) nsindex v1 v2 =
     (case (case cmd_read of None \<Rightarrow> Inl (- EINVAL) | Some r \<Rightarrow> ndctl_cmd_cfg_read_get_data s r 72 offset) of
        Inl _ \<Rightarrow> (v1, v2)
      | Inr bs \<Rightarrow>
          let nsindex = mem_store nsindex 0 bs in
          if ns_major nsindex 0 = 1 \<and> ns_minor nsindex 0 = 1
          then probe_versions s cmd_read offsets nsindex (Suc v1) v2
          else if ns_major nsindex 0 = 1 \<and> ns_minor nsindex 0 = 2
          then probe_versions s cmd_read offsets nsindex v1 (Suc v2)
          else probe_versions s cmd_read offsets nsindex v1 v2)"

definition ndctl_dimm_sizeof_namespace_label :: "mem \<Rightarrow> 'd ndctl_dimm \<Rightarrow> u32 \<times> 'd ndctl_dimm" where
  "ndctl_dimm_sizeof_namespace_label stack dimm =
     (if nd_nslabel_size (dm_ndd dimm) \<noteq> 0 then (nd_nslabel_size (dm_ndd dimm), dimm)
      else let (v1, v2) = probe_versions (dm_st dimm) (nd_cmd_read (dm_ndd dimm)) [0, 256] stack 0 0;
               sz = (if v2 > v1 then 256 else 128)
           in (sz, dimm\<lparr>dm_ndd := (dm_ndd dimm)\<lparr>nd_nslabel_size := sz\<rparr>\<rparr>))"

definition nvdimm_set_config_data ::
  "'d nd_env \<Rightarrow> nat \<Rightarrow> 'd nd_state \<Rightarrow> nat \<Rightarrow> u32 \<Rightarrow> mem \<Rightarrow> u32 \<Rightarrow> (int \<times> 'd nd_state) option" where
  "nvdimm_set_config_data env fuel s cmd_read offset buf len =
     (case ndctl_dimm_cmd_new_cfg_write env s cmd_read of
        (None, s) \<Rightarrow> Some (- ENXIO, s)
      | (Some w, s) \<Rightarrow>
          (case ndctl_cmd_cfg_write_set_data s w buf len offset of (rc, s) \<Rightarrow>
             if rc < 0 then Some (rc, ndctl_cmd_unref s w)
             else case ndctl_cmd_submit_xlat env fuel s w of
               None \<Rightarrow> None
             | Some (rc, s) \<Rightarrow> Some (if rc < 0 then - ENXIO else rc, ndctl_cmd_unref s w)))"

definition write_label_index ::
  "'d nd_env \<Rightarrow> nat \<Rightarrow> 'd ndctl_dimm \<Rightarrow> ndctl_namespace_version \<Rightarrow> nat \<Rightarrow> u32 \<Rightarrow> (int \<times> 'd ndctl_dimm) option" where
  "write_label_index env fuel dimm ver index seq =
     (let dimm = dimm\<lparr>dm_ndd := (dm_ndd dimm)\<lparr>nd_nslabel_size := version_label ver\<rparr>\<rparr>;
          ndd = dm_ndd dimm;
          sz = sizeof_namespace_index (nd_config_size ndd) (nd_nslabel_size ndd);
          m = build_label_index (nd_config_size ndd) (nd_nslabel_size ndd) index seq (ndd_data dimm);
          dimm = set_ndd_data dimm m;
          b = unat sz * index in
      case nd_cmd_read ndd of
        None \<Rightarrow> Some (- ENXIO, dimm)
      | Some r \<Rightarrow>
          (case nvdimm_set_config_data env fuel (dm_st dimm) r (ucast (ns_myoff m b)) (\<lambda>x. m (b + x)) sz of
             None \<Rightarrow> None
           | Some (rc, s) \<Rightarrow> Some (rc, dimm\<lparr>dm_st := s\<rparr>)))"

text \<open>\<open>ndctl_dimm_init_labels\<close> (the refresh of the regions' flags has no effect on the labels).\<close>

definition ndctl_dimm_init_labels ::
  "'d nd_env \<Rightarrow> nat \<Rightarrow> 'd ndctl_dimm \<Rightarrow> ndctl_namespace_version \<Rightarrow> (int \<times> 'd ndctl_dimm) option" where
  "ndctl_dimm_init_labels env fuel dimm v =
     (if nd_cmd_read (dm_ndd dimm) = None then Some (- EINVAL, dimm)
      else case write_label_index env fuel dimm v 0 3 of
        None \<Rightarrow> None
      | Some (rc, dimm) \<Rightarrow>
          if rc < 0 then Some (rc, dimm)
          else case write_label_index env fuel dimm v 1 2 of
            None \<Rightarrow> None
          | Some (rc, dimm) \<Rightarrow>
              if rc < 0 then Some (rc, dimm)
              else Some (sint (nvdimm_num_label_slots (nd_config_size (dm_ndd dimm)) (nd_nslabel_size (dm_ndd dimm))),
                         dimm))"

definition ndctl_dimm_validate_labels :: "'d ndctl_dimm \<Rightarrow> int \<times> 'd ndctl_dimm" where
  "ndctl_dimm_validate_labels dimm =
     (if nd_cmd_read (dm_ndd dimm) = None then (- EINVAL, dimm)
      else case label_validate (nd_config_size (dm_ndd dimm)) (ndd_data dimm) of (rc, label) \<Rightarrow>
        (rc, dimm\<lparr>dm_ndd := (dm_ndd dimm)\<lparr>nd_nslabel_size := label\<rparr>\<rparr>))"

subsection \<open>Reading and zeroing\<close>

definition init_ndd :: "'d ndctl_dimm \<Rightarrow> nat \<Rightarrow> nat \<Rightarrow> 'd ndctl_dimm" where
  "init_ndd dimm cmd_read cmd_size =
     (let s = (case nd_cmd_read (dm_ndd dimm) of None \<Rightarrow> dm_st dimm | Some r \<Rightarrow> ndctl_cmd_unref (dm_st dimm) r);
          ndd = \<lparr>nd_cmd_read = Some cmd_read,
                 nd_config_size = (case st_cmds s cmd_size of None \<Rightarrow> 0 | Some c \<Rightarrow> ucast (pl_config_size (c_payload c))),
                 nd_nslabel_size = 0, nd_ns_current = - 1, nd_ns_next = - 1\<rparr>
      in dimm\<lparr>dm_st := ndctl_cmd_ref s cmd_read, dm_ndd := ndd\<rparr>)"

text \<open>The common tail of the two read functions: set the extent, submit, release what is not returned.\<close>

definition finish_read ::
  "'d nd_env \<Rightarrow> nat \<Rightarrow> 'd ndctl_dimm \<Rightarrow> nat \<Rightarrow> nat \<Rightarrow> u32 \<Rightarrow> u32 \<Rightarrow> (nat option \<times> 'd ndctl_dimm) option" where
  "finish_read env fuel dimm cmd_size cmd_read len offset =
     (case ndctl_cmd_cfg_read_set_extent (dm_st dimm) cmd_read len offset of (rc, s) \<Rightarrow>
        if rc < 0 then Some (None, dimm\<lparr>dm_st := ndctl_cmd_unref (ndctl_cmd_unref s cmd_read) cmd_size\<rparr>)
        else case ndctl_cmd_submit_xlat env fuel s cmd_read of
          None \<Rightarrow> None
        | Some (rc, s) \<Rightarrow>
            if rc < 0 then Some (None, dimm\<lparr>dm_st := ndctl_cmd_unref (ndctl_cmd_unref s cmd_read) cmd_size\<rparr>)
            else Some (Some cmd_read, dimm\<lparr>dm_st := ndctl_cmd_unref s cmd_size\<rparr>))"

text \<open>The common head: the size command and the read command.\<close>

definition start_read ::
  "'d nd_env \<Rightarrow> nat \<Rightarrow> 'd ndctl_dimm \<Rightarrow> ((nat \<times> nat) option \<times> 'd ndctl_dimm) option" where
  "start_read env fuel dimm =
     (if dm_wait_probe dimm < 0 then Some (None, dimm)
      else case ndctl_dimm_cmd_new_cfg_size env (dm_st dimm) of
        (None, s) \<Rightarrow> Some (None, dimm\<lparr>dm_st := s\<rparr>)
      | (Some cs, s) \<Rightarrow>
          (case ndctl_cmd_submit_xlat env fuel s cs of
             None \<Rightarrow> None
           | Some (rc, s) \<Rightarrow>
               if rc < 0 then Some (None, dimm\<lparr>dm_st := ndctl_cmd_unref s cs\<rparr>)
               else case ndctl_dimm_cmd_new_cfg_read env s cs of
                 (None, s) \<Rightarrow> Some (None, dimm\<lparr>dm_st := ndctl_cmd_unref s cs\<rparr>)
               | (Some cr, s) \<Rightarrow> Some (Some (cs, cr), dimm\<lparr>dm_st := s\<rparr>)))"

definition ndctl_dimm_read_label_index ::
  "'d nd_env \<Rightarrow> nat \<Rightarrow> 'd ndctl_dimm \<Rightarrow> (nat option \<times> 'd ndctl_dimm) option" where
  "ndctl_dimm_read_label_index env fuel dimm =
     (case start_read env fuel dimm of
        None \<Rightarrow> None
      | Some (None, dimm) \<Rightarrow> Some (None, dimm)
      | Some (Some (cs, cr), dimm) \<Rightarrow>
          let dimm = init_ndd dimm cr cs;
              dimm = dimm\<lparr>dm_ndd := (dm_ndd dimm)\<lparr>nd_nslabel_size := 128\<rparr>\<rparr>;
              sz = sizeof_namespace_index (nd_config_size (dm_ndd dimm)) 128
          in finish_read env fuel dimm cs cr (sz * 2) 0)"

definition ndctl_dimm_read_label_extent ::
  "'d nd_env \<Rightarrow> nat \<Rightarrow> 'd ndctl_dimm \<Rightarrow> u32 \<Rightarrow> u32 \<Rightarrow> (nat option \<times> 'd ndctl_dimm) option" where
  "ndctl_dimm_read_label_extent env fuel dimm len offset =
     (case start_read env fuel dimm of
        None \<Rightarrow> None
      | Some (None, dimm) \<Rightarrow> Some (None, dimm)
      | Some (Some (cs, cr), dimm) \<Rightarrow>
          let dimm = (if len = 0 \<and> offset = 0 then init_ndd dimm cr cs else dimm);
              len = (if len = 0 then source_config_size (dm_st dimm) (Some cs) else len)
          in finish_read env fuel dimm cs cr len offset)"

definition ndctl_dimm_read_labels ::
  "'d nd_env \<Rightarrow> nat \<Rightarrow> 'd ndctl_dimm \<Rightarrow> (nat option \<times> 'd ndctl_dimm) option" where
  "ndctl_dimm_read_labels env fuel dimm = ndctl_dimm_read_label_extent env fuel dimm 0 0"

definition ndctl_dimm_zero_label_extent ::
  "'d nd_env \<Rightarrow> nat \<Rightarrow> 'd ndctl_dimm \<Rightarrow> u32 \<Rightarrow> u32 \<Rightarrow> (int \<times> 'd ndctl_dimm) option" where
  "ndctl_dimm_zero_label_extent env fuel dimm len offset =
     (case ndctl_dimm_read_label_extent env fuel dimm len offset of
        None \<Rightarrow> None
      | Some (None, dimm) \<Rightarrow> Some (- EINVAL, dimm)
      | Some (Some cr, dimm) \<Rightarrow>
          let out_read = (\<lambda>rc s. Some (rc, dimm\<lparr>dm_st := ndctl_cmd_unref s cr\<rparr>)) in
          if dm_active dimm then out_read (- EBUSY) (dm_st dimm)
          else case ndctl_dimm_cmd_new_cfg_write env (dm_st dimm) cr of
            (None, s) \<Rightarrow> out_read (- ENOTTY) s
          | (Some cw, s) \<Rightarrow>
              let out_write = (\<lambda>rc s. out_read rc (ndctl_cmd_unref s cw)) in
              (case ndctl_cmd_cfg_write_zero_data s cw of (rc, s) \<Rightarrow>
                 if rc < 0 then out_write (- ENXIO) s
                 else case ndctl_cmd_submit_xlat env fuel s cw of
                   None \<Rightarrow> None
                 | Some (rc, s) \<Rightarrow>
                     if rc < 0 then out_write rc s
                     else if \<not> dm_enabled dimm then out_write rc s
                     else if dm_disable_rc dimm \<noteq> 0 then out_write (dm_disable_rc dimm) s
                     else out_write (dm_enable_rc dimm) s))"

definition ndctl_dimm_zero_labels :: "'d nd_env \<Rightarrow> nat \<Rightarrow> 'd ndctl_dimm \<Rightarrow> (int \<times> 'd ndctl_dimm) option" where
  "ndctl_dimm_zero_labels env fuel dimm = ndctl_dimm_zero_label_extent env fuel dimm 0 0"

subsection \<open>The sizes as natural numbers\<close>

definition idx_size :: "nat \<Rightarrow> nat" where
  "idx_size k = (72 + (k + 7) div 8 + 255) div 256 * 256"

definition slots :: "nat \<Rightarrow> nat \<Rightarrow> nat" where
  "slots cs l = (cs - 2 * idx_size (cs div l)) div l"

text \<open>A label area that is below 2 GiB and has room for two index blocks and two labels.\<close>

definition area_ok :: "u64 \<Rightarrow> u32 \<Rightarrow> bool" where
  "area_ok cs label = ((label = 128 \<or> label = 256) \<and> unat cs < 2 ^ 31 \<and>
     2 * idx_size (unat cs div unat label) + 2 * unat label \<le> unat cs)"

lemma idx_size_mono: "j \<le> k \<Longrightarrow> idx_size j \<le> idx_size k"
  by (simp add: idx_size_def div_le_mono)

lemma idx_size_bounds: "72 + (k + 7) div 8 \<le> idx_size k" "idx_size k < 328 + (k + 7) div 8"
proof -
  let ?x = "72 + (k + 7) div 8"
  have "(?x + 255) div 256 * 256 + (?x + 255) mod 256 = ?x + 255" by (rule div_mult_mod_eq)
  moreover have "(?x + 255) mod 256 < 256" by simp
  ultimately show "?x \<le> idx_size k" "idx_size k < 328 + (k + 7) div 8"
    unfolding idx_size_def by linarith+
qed

lemma ucast_u64_u32: "unat x < 4294967296 \<Longrightarrow> unat (ucast (x :: u64) :: u32) = unat x"
  by (simp add: unsigned_ucast_eq take_bit_nat_eq_self)

lemma index_nslot_unat:
  assumes "unat k < 2 ^ 31"
  shows "unat (sizeof_namespace_index_nslot k) = idx_size (unat k)"
proof -
  have "unat (7 + k) = unat k + 7"
    using assms by (simp add: unat_plus_if')
  then have d: "unat ((7 + k) div 8) = (unat k + 7) div 8"
    by (simp add: unat_div_distrib)
  have "(unat k + 7) div 8 < 2 ^ 31"
    by (rule less_mult_imp_div_less) (use assms in simp)
  then have x: "unat (72 + ucast ((7 + k) div 8) :: u64) = 72 + (unat k + 7) div 8"
    using d by (simp add: unat_plus_if')
  have "unat (ALIGN y (2 ^ 8)) = idx_size (unat k)" if "unat y = 72 + (unat k + 7) div 8" for y
    using \<open>(unat k + 7) div 8 < 2 ^ 31\<close> that by (subst ALIGN_unat) (simp_all add: idx_size_def add.commute)
  from this [OF x] have "unat (ALIGN (72 + ucast ((7 + k) div 8)) (2 ^ 8)) = idx_size (unat k)" .
  then show ?thesis by (simp add: sizeof_namespace_index_nslot_def NSINDEX_ALIGN_def)
qed

lemma area_sizes:
  assumes "area_ok cs label"
  defines "k \<equiv> slots (unat cs) (unat label)"
  shows "unat (nvdimm_num_label_slots cs label) = k" and "unat (sizeof_namespace_index cs label) = idx_size k"
    and "2 \<le> k" and "2 * idx_size k + k * unat label \<le> unat cs" and "k \<le> unat cs div unat label"
proof -
  let ?l = "unat label" and ?c = "unat cs"
  have l: "?l = 128 \<or> ?l = 256" and c: "?c < 2 ^ 31" and fit: "2 * idx_size (?c div ?l) + 2 * ?l \<le> ?c"
    using assms(1) by (auto simp: area_ok_def)
  have lp: "0 < ?l" using l by auto
  let ?t = "?c div ?l" and ?i = "idx_size (?c div ?l)"
  have t: "?t < 2 ^ 31" using c div_le_dividend [of ?c ?l] by linarith
  have ul: "unat (ucast label :: u64) = ?l" by simp
  have tmp: "unat (ucast (cs div ucast label) :: u32) = ?t"
    using t by (subst ucast_u64_u32) (simp_all add: unat_div_distrib)
  have ix: "unat (sizeof_namespace_index_nslot (ucast (cs div ucast label))) = ?i"
    using index_nslot_unat [of "ucast (cs div ucast label)"] t tmp by simp
  have d: "256 dvd ?i" by (simp add: idx_size_def)
  have n: "unat (ucast (sizeof_namespace_index_nslot (ucast (cs div ucast label)) div NSINDEX_ALIGN) :: u32) = ?i div 256"
    using fit c by (subst ucast_u64_u32) (simp_all add: unat_div_distrib ix NSINDEX_ALIGN_def)
  have n2: "unat (ucast (256 * ucast (sizeof_namespace_index_nslot (ucast (cs div ucast label)) div NSINDEX_ALIGN) :: u32) :: u64) = ?i"
    using n fit c d by (simp add: unat_word_ariths(2))
  have "unat (cs - ucast (256 * ucast (sizeof_namespace_index_nslot (ucast (cs div ucast label)) div NSINDEX_ALIGN) :: u32) * 2) = ?c - ?i * 2"
  proof -
    have "unat (ucast (256 * ucast (sizeof_namespace_index_nslot (ucast (cs div ucast label)) div NSINDEX_ALIGN) :: u32) * 2 :: u64) = ?i * 2"
      using n2 fit c by (simp add: unat_word_ariths(2))
    with fit show ?thesis by (simp add: unat_sub word_le_nat_alt)
  qed
  then have ns: "unat (nvdimm_num_label_slots cs label) = (?c - ?i * 2) div ?l"
    unfolding nvdimm_num_label_slots_def num_label_slots_index_def Let_def
    using le_less_trans [OF div_le_dividend [of "?c - ?i * 2" ?l], of 4294967296] c
    by (subst ucast_u64_u32) (simp_all add: unat_div_distrib)
  then show k: "unat (nvdimm_num_label_slots cs label) = k" by (simp add: k_def slots_def mult.commute)
  have kl: "k * ?l \<le> ?c - 2 * ?i" by (simp add: k_def slots_def div_times_less_eq_dividend)
  show "k \<le> ?t" unfolding k_def slots_def by (simp add: div_le_mono)
  then have ik: "idx_size k \<le> ?i" by (rule idx_size_mono)
  show fits: "2 * idx_size k + k * ?l \<le> ?c" using kl ik fit by linarith
  have "2 * ?l div ?l \<le> (?c - 2 * ?i) div ?l" using fit by (intro div_le_mono) linarith
  then show k2: "2 \<le> k" using lp by (simp add: k_def slots_def)
  have kk: "unat (nvdimm_num_label_slots cs label * label) = k * ?l"
    using fits c by (simp add: unat_word_ariths(2) k)
  have sp: "unat (ucast (cs - ucast (nvdimm_num_label_slots cs label * label)) :: u32) = ?c - k * ?l"
  proof -
    have "unat (cs - ucast (nvdimm_num_label_slots cs label * label)) = ?c - k * ?l"
      using fits by (simp add: unat_sub word_le_nat_alt kk)
    with c show ?thesis by (subst ucast_u64_u32) simp_all
  qed
  have isz: "unat (sizeof_namespace_index_nslot (nvdimm_num_label_slots cs label)) = idx_size k"
    using index_nslot_unat [of "nvdimm_num_label_slots cs label"] k t \<open>k \<le> ?t\<close> by simp
  have sz: "unat (ucast (sizeof_namespace_index_nslot (nvdimm_num_label_slots cs label) * 2) :: u32) = idx_size k * 2"
  proof -
    have "unat (sizeof_namespace_index_nslot (nvdimm_num_label_slots cs label) * 2) = idx_size k * 2"
      using isz fits c by (simp add: unat_word_ariths(2))
    with fits c show ?thesis by (subst ucast_u64_u32) simp_all
  qed
  show "unat (sizeof_namespace_index cs label) = idx_size k"
    using k k2 fits
    by (simp add: sizeof_namespace_index_def Let_def word_le_nat_alt sp sz unat_div_distrib)
qed

subsection \<open>A freshly built index block is valid\<close>

lemma length_NSINDEX_SIGNATURE [simp]: "length NSINDEX_SIGNATURE = 16"
  by (simp add: NSINDEX_SIGNATURE_def)

text \<open>The free bitmap, rounded up to whole 64-bit words, ends inside the index block.\<close>

lemma round_up_8: "y + 72 \<le> 8 * q \<Longrightarrow> 8 * z \<le> y + 7 \<Longrightarrow> 72 + z * 8 \<le> 8 * (q :: nat)"
  by presburger

lemma free_bitmap_fits: "72 + (k + 63) div 64 * 8 \<le> idx_size k"
proof -
  let ?y = "(k + 7) div 8" and ?q = "(72 + (k + 7) div 8 + 255) div 256 * 32" and ?z = "((k + 7) div 8 + 7) div 8"
  have e: "(k + 63) div 64 = ?z"
  proof -
    have "?z = (k + 7 + 7 * 8) div 8 div 8" by (simp only: div_mult_self3)
    also have "\<dots> = (k + 63) div 64" by (simp add: div_mult2_eq [symmetric])
    finally show ?thesis by simp
  qed
  have q: "idx_size k = 8 * ?q" by (simp add: idx_size_def)
  have "?y + 72 \<le> idx_size k" using idx_size_bounds(1) [of k] by linarith
  moreover have "8 * ?z \<le> ?y + 7" by (simp only: mult.commute [of 8] div_times_less_eq_dividend)
  ultimately show ?thesis unfolding e q by (rule round_up_8)
qed

lemma free_bytes_unat: "unat (ALIGN (ucast (n :: u32)) 64) div 8 = (unat n + 63) div 64 * 8"
proof -
  have "unat (ALIGN (ucast n) (2 ^ 6)) = (unat n + 63) div 64 * 64"
    using unat_u32_less [of n] by (subst ALIGN_unat) simp_all
  then show ?thesis by simp
qed

lemma build_frame:
  assumes "area_ok cs label"
  defines "S \<equiv> unat (sizeof_namespace_index cs label)"
  assumes "x < S * i \<or> S * i + S \<le> x"
  shows "build_label_index cs label i seq m x = m x"
proof -
  have "72 + (unat (nvdimm_num_label_slots cs label) + 63) div 64 * 8 \<le> S"
    using free_bitmap_fits area_sizes(1,2) [OF assms(1)] by (simp add: S_def)
  with assms(3) show ?thesis
    by (auto simp: build_label_index_def Let_def ns_set_checksum_def mem_disj free_bytes_unat S_def [symmetric])
qed

lemma build_fields:
  fixes i seq m
  assumes "area_ok cs label"
  defines "sz \<equiv> sizeof_namespace_index cs label" and "M \<equiv> build_label_index cs label i seq m"
  defines "b \<equiv> unat sz * i"
  shows "ns_sig M b = NSINDEX_SIGNATURE" and "ns_labelsize M b = ucast (drop_bit 8 label)" and "ns_seq M b = seq"
    and "ns_myoff M b = of_nat b" and "ns_mysize M b = ucast sz"
    and "ns_otheroff M b = of_nat (unat sz * nat (label_next_nsindex (int i)))"
    and "ns_nslot M b = nvdimm_num_label_slots cs label" and "ns_major M b = 1"
    and "ns_minor M b = (if label < 256 then 1 else 2)"
  unfolding M_def b_def sz_def
  by (simp_all add: build_label_index_def Let_def ns_field_defs ns_set_checksum_def mem_disj le_get_put_same)

lemma build_intact:
  "nsi.intact (unat (sizeof_namespace_index cs label) * i) (unat (sizeof_namespace_index cs label))
     (build_label_index cs label i seq m)"
proof -
  let ?b = "unat (sizeof_namespace_index cs label) * i" and ?n = "unat (sizeof_namespace_index cs label)"
  let ?k = "unat (ALIGN (ucast (nvdimm_num_label_slots cs label)) 64) div 8"
  have comm: "ns_set_checksum ?b 0 (mem_fill (ns_set_checksum ?b 0 m') (?b + 72) ?k v) =
      mem_fill (ns_set_checksum ?b 0 m') (?b + 72) ?k v" for m' v
    by (rule ext) (simp add: ns_set_checksum_def le_put_at mem_fill_def)
  obtain M where "build_label_index cs label i seq m = ns_set_checksum ?b (fletcher64 M ?b ?n) M"
    and "ns_set_checksum ?b 0 M = M"
    using comm by (simp add: build_label_index_def Let_def)
  then have "build_label_index cs label i seq m = nsi.seal ?b ?n M" by (simp add: nsi.seal_def)
  then show ?thesis by (simp add: nsi.seal_intact)
qed

lemma build_labelsize:
  assumes "area_ok cs label"
  shows "index_labelsize (build_label_index cs label i seq m) (unat (sizeof_namespace_index cs label) * i) = label"
proof -
  have "label = 128 \<or> label = 256" using assms by (simp add: area_ok_def)
  then show ?thesis
    using build_fields(2,8,9) [OF assms, of i seq m] by (auto simp: index_labelsize_def)
qed

lemma build_index_valid:
  assumes a: "area_ok cs label" and i: "i = 0 \<or> i = 1" and seq: "seq AND NSINDEX_SEQ_MASK \<noteq> 0"
  shows "index_valid cs label (build_label_index cs label i seq m) i"
proof -
  let ?sz = "sizeof_namespace_index cs label" and ?k = "slots (unat cs) (unat label)"
  let ?M = "build_label_index cs label i seq m"
  note sz = area_sizes [OF a] and f = build_fields [OF a, of i seq m]
  have c: "unat cs < 2 ^ 31" using a by (simp add: area_ok_def)
  have off: "of_nat (unat ?sz * j) = (ucast (of_nat j * ?sz) :: u64)" if "j = 0 \<or> j = 1" for j
    using that by auto
  have nx: "nat (label_next_nsindex (int i)) = 1 - i" using i by (auto simp: label_next_nsindex_def)
  have "ns_myoff ?M (unat ?sz * i) = ucast (of_nat i * ?sz)" using f(4) off [OF i] by simp
  moreover have "ns_otheroff ?M (unat ?sz * i) = ucast (of_nat (1 - i) * ?sz)"
    using f(6) nx off [of "1 - i"] i by auto
  moreover have "\<not> ns_mysize ?M (unat ?sz * i) < 72"
    using f(5) sz(2) idx_size_bounds(1) [of ?k] by (simp add: word_less_nat_alt)
  moreover have "unat (nvdimm_num_label_slots cs label * label) = ?k * unat label" "unat (2 * ?sz) = 2 * idx_size ?k"
    using sz c by (simp_all add: unat_word_ariths(2))
  then have "unat (nvdimm_num_label_slots cs label * label + 2 * ?sz) = ?k * unat label + 2 * idx_size ?k"
    using sz(4) c by (simp add: unat_plus_if')
  then have "\<not> ucast (ns_nslot ?M (unat ?sz * i) * label + 2 * ?sz) > cs"
    using f(7) sz(4) by (simp add: word_less_nat_alt)
  ultimately show ?thesis
    using f(1,3,5) build_labelsize [OF a, of i seq m] build_intact [of cs label i seq m] seq
    by (simp add: index_valid_def Let_def nsi.intact_def)
qed

text \<open>Validity depends only on the bytes of the block.\<close>

lemma index_valid_cong:
  assumes a: "area_ok cs label"
    and eq: "\<And>x. unat (sizeof_namespace_index cs label) * i \<le> x \<Longrightarrow>
      x < unat (sizeof_namespace_index cs label) * i + unat (sizeof_namespace_index cs label) \<Longrightarrow> m x = m' x"
  shows "index_valid cs label m i = index_valid cs label m' i"
    and "ns_seq m (unat (sizeof_namespace_index cs label) * i) = ns_seq m' (unat (sizeof_namespace_index cs label) * i)"
proof -
  let ?n = "unat (sizeof_namespace_index cs label)" and ?b = "unat (sizeof_namespace_index cs label) * i"
  have n: "72 \<le> ?n" using area_sizes(2) [OF a] idx_size_bounds(1) [of "slots (unat cs) (unat label)"] by linarith
  have g: "le_get k m (?b + ofs) = (le_get k m' (?b + ofs) :: 'a::len word)" if "ofs + k \<le> 72" for k ofs
    by (rule le_get_cong) (use eq n that in simp)
  show "ns_seq m ?b = ns_seq m' ?b" by (simp add: ns_seq_def g)
  have "ns_sig m ?b = ns_sig m' ?b" unfolding ns_sig_def by (rule mem_bytes_cong) (use eq n in simp)
  moreover have "m (?b + 19) = m' (?b + 19)" using eq n by simp
  moreover have "fletcher64 (ns_set_checksum ?b 0 m) ?b ?n = fletcher64 (ns_set_checksum ?b 0 m') ?b ?n"
    by (rule fletcher64_cong) (use eq in \<open>simp add: ns_set_checksum_def le_put_at\<close>)
  ultimately show "index_valid cs label m i = index_valid cs label m' i"
    by (simp add: index_valid_def index_labelsize_def Let_def ns_field_defs ns_checksum_def g)
qed

definition init_label_area :: "u64 \<Rightarrow> u32 \<Rightarrow> mem \<Rightarrow> mem" where
  "init_label_area cs label m = build_label_index cs label 1 2 (build_label_index cs label 0 3 m)"

lemma init_area_valid:
  fixes m
  assumes a: "area_ok cs label"
  defines "M \<equiv> init_label_area cs label m" and "n \<equiv> unat (sizeof_namespace_index cs label)"
  shows "index_valid cs label M 0" and "index_valid cs label M 1" and "ns_seq M 0 = 3" and "ns_seq M n = 2"
    and "2 * n \<le> x \<Longrightarrow> M x = m x"
proof -
  let ?m0 = "build_label_index cs label 0 3 m"
  have fr: "M x = ?m0 x" if "x < n" for x
    using build_frame [OF a, of x 1 2 ?m0] that by (simp add: M_def init_label_area_def n_def)
  have "index_valid cs label M 0 = index_valid cs label ?m0 0" "ns_seq M (n * 0) = ns_seq ?m0 (n * 0)"
    unfolding n_def by (rule index_valid_cong [OF a]; use fr n_def in simp)+
  moreover have "index_valid cs label ?m0 0" "ns_seq ?m0 0 = 3"
    using build_index_valid [OF a, of 0 3 m] build_fields(3) [OF a, of 0 3 m] by (simp_all add: NSINDEX_SEQ_MASK_def)
  ultimately show "index_valid cs label M 0" "ns_seq M 0 = 3" by simp_all
  show "index_valid cs label M 1" "ns_seq M n = 2"
    using build_index_valid [OF a, of 1 2 ?m0] build_fields(3) [OF a, of 1 2 ?m0]
    by (simp_all add: M_def init_label_area_def n_def NSINDEX_SEQ_MASK_def)
  show "M x = m x" if "2 * n \<le> x"
    using build_frame [OF a, of x 1 2 ?m0] build_frame [OF a, of x 0 3 m] that
    by (simp add: M_def init_label_area_def n_def)
qed

lemma init_area_current:
  assumes "area_ok cs label"
  shows "label_validate_size cs label (init_label_area cs label m) = 0"
proof -
  note v = init_area_valid [OF assms, where m = m]
  have "best_seq 3 2 = 3" by (simp add: best_seq_def inc_seq_def NSINDEX_SEQ_MASK_def)
  with v show ?thesis
    by (simp add: label_validate_size_def Let_def NSINDEX_SEQ_MASK_def)
qed

subsection \<open>Writing through the commands\<close>

text \<open>A read command that completed: what \<open>ndctl_dimm_read_label_index\<close> leaves behind.\<close>

definition read_done :: "'d nd_state \<Rightarrow> nat \<Rightarrow> ndctl_cmd \<Rightarrow> nat \<Rightarrow> mem \<Rightarrow> nat \<Rightarrow> bool" where
  "read_done s r cr b m n =
     (st_cmds s r = Some cr \<and> r < st_next s \<and> (\<forall>i. st_next s \<le> i \<longrightarrow> st_cmds s i = None) \<and>
      c_type cr = ND_CMD_GET_CONFIG_DATA \<and> c_status cr = 0 \<and> 1 \<le> c_refcount cr \<and> pl_length (c_payload cr) \<noteq> 0 \<and>
      it_init_offset (c_iter cr) = 0 \<and> it_total_buf (c_iter cr) = Some b \<and> it_total_xfer (c_iter cr) \<noteq> 0 \<and>
      iter_ok (c_iter cr) n \<and> st_bufs s b = Some m)"

text \<open>An environment in which label writes can succeed.\<close>

definition write_env_ok :: "'d nd_env \<Rightarrow> ('d \<Rightarrow> mem) \<Rightarrow> nat \<Rightarrow> bool" where
  "write_env_ok env lsa n =
     (lsa_ioctl env lsa n \<and> env_open env = 0 \<and> env_supported env ND_CMD_SET_CONFIG_DATA \<and>
      (\<forall>i. env_calloc env i) \<and> (\<forall>c. env_xlat env c = 0))"

lemma unref_new_write:
  assumes "st_cmds s w = Some cw" and "c_refcount cw = 1" and "c_source cw = Some r" and "r < w"
    and "st_cmds s r = Some cr" and "c_refcount cr \<noteq> 1"
  shows "ndctl_cmd_unref s w =
    s\<lparr>st_cmds := (st_cmds s)(r \<mapsto> cr\<lparr>c_refcount := c_refcount cr - 1\<rparr>, w := None)\<rparr>"
  using assms by (subst ndctl_cmd_unref.simps, subst ndctl_cmd_unref.simps) (simp add: put_cmd_def)

lemma set_config_data_ok:
  assumes env: "write_env_ok env lsa n" and rd: "read_done s r cr b m n"
    and fuel: "unat (it_total_xfer (c_iter cr)) < fuel"
    and rng: "unat offset + unat len \<le> unat (it_total_xfer (c_iter cr))"
    and src: "\<And>x. x < unat len \<Longrightarrow> buf x = m (unat offset + x)"
  obtains d' where "nvdimm_set_config_data env fuel s r offset buf len =
      Some (0, s\<lparr>st_dev := d', st_next := st_next s + 1\<rparr>)"
    and "\<And>x. lsa d' x = (if x < unat (it_total_xfer (c_iter cr)) then m x else lsa (st_dev s) x)"
proof -
  let ?w = "st_next s" and ?it = "(c_iter cr)\<lparr>it_dir := WRITE\<rparr>"
  define cw where "cw = \<lparr>c_refcount = 1, c_type = ND_CMD_SET_CONFIG_DATA, c_status = 1,
      c_payload = zero_payload\<lparr>pl_offset := 0, pl_length := it_max_xfer (c_iter cr)\<rparr>,
      c_iter = ?it, c_source = Some r\<rparr>"
  define s1 where "s1 = s\<lparr>st_cmds := (st_cmds s)(?w \<mapsto> cw, r \<mapsto> cr\<lparr>c_refcount := c_refcount cr + 1\<rparr>), st_next := ?w + 1\<rparr>"
  have ne: "r \<noteq> ?w" using rd by (auto simp: read_done_def)
  have new: "ndctl_dimm_cmd_new_cfg_write env s r = (Some ?w, s1)"
    using env rd ne
    by (simp add: ndctl_dimm_cmd_new_cfg_write_def read_done_def write_env_ok_def Let_def ndctl_cmd_ref_def
        put_cmd_def s1_def cw_def)
  have acc: "iter_access ?it len offset = Some len"
  proof -
    have "unat (len + offset) = unat len + unat offset"
      using rng unat_u32_less [of "it_total_xfer (c_iter cr)"] by (simp add: unat_plus_if')
    with rd rng show ?thesis by (simp add: iter_access_def read_done_def word_less_nat_alt)
  qed
  have copy: "mem_copy m (unat offset) buf 0 (unat len) = m"
    by (rule ext) (use src in \<open>auto simp: mem_copy_def\<close>)
  have b1: "(st_bufs s)(b \<mapsto> m) = st_bufs s" using rd by (auto simp: read_done_def)
  have set: "ndctl_cmd_cfg_write_set_data s1 ?w buf len offset = (uint len, s1)"
    using rd acc ne b1
    by (simp add: ndctl_cmd_cfg_write_set_data_def s1_def cw_def read_done_def iter_buf_def set_iter_buf_def copy)
  have ready: "ready_cmd s1 ?w cw b m" and ok: "iter_ok (c_iter cw) n" and ty: "c_type cw = ND_CMD_SET_CONFIG_DATA"
    using rd ne by (auto simp: ready_cmd_def s1_def cw_def read_done_def iter_ok_def)
  have fu: "unat (it_total_xfer (c_iter cw)) < fuel" using fuel by (simp add: cw_def)
  have io: "lsa_ioctl env lsa n" "env_open env = 0" using env by (simp_all add: write_env_ok_def)
  obtain cmd' d' where sub: "ndctl_cmd_submit env fuel s1 ?w = Some (0, s1\<lparr>st_dev := d', st_cmds := (st_cmds s1)(?w \<mapsto> cmd')\<rparr>)"
    and c': "c_source cmd' = c_source cw" "c_refcount cmd' = c_refcount cw"
    and d': "\<And>x. lsa d' x = (if x < unat (it_total_xfer (c_iter cw)) then m x else lsa (st_dev s1) x)"
    by (rule submit_write [OF io ready ty ok fu]) (rule that)
  let ?s2 = "s1\<lparr>st_dev := d', st_cmds := (st_cmds s1)(?w \<mapsto> cmd')\<rparr>"
  have xl: "ndctl_cmd_submit_xlat env fuel s1 ?w = Some (0, ?s2)"
    using env by (simp add: ndctl_cmd_submit_xlat_def sub write_env_ok_def)
  have "ndctl_cmd_unref ?s2 ?w = s\<lparr>st_dev := d', st_next := ?w + 1\<rparr>"
  proof -
    have "ndctl_cmd_unref ?s2 ?w = ?s2\<lparr>st_cmds := (st_cmds ?s2)(r \<mapsto> cr\<lparr>c_refcount := c_refcount cr\<rparr>, ?w := None)\<rparr>"
      using rd ne c' by (subst unref_new_write [of _ _ cmd' r "cr\<lparr>c_refcount := c_refcount cr + 1\<rparr>"])
        (auto simp: s1_def read_done_def cw_def)
    moreover have "(st_cmds ?s2)(r \<mapsto> cr\<lparr>c_refcount := c_refcount cr\<rparr>, ?w := None) = st_cmds s"
      using rd ne by (auto simp: s1_def read_done_def fun_eq_iff)
    ultimately show ?thesis by (simp add: s1_def)
  qed
  with new set xl have "nvdimm_set_config_data env fuel s r offset buf len =
      Some (0, s\<lparr>st_dev := d', st_next := ?w + 1\<rparr>)"
    by (simp add: nvdimm_set_config_data_def)
  with d' that show thesis by (simp add: cw_def s1_def)
qed

text \<open>The state of a DIMM whose labels have been read, or the start of the area: \<open>m\<close> is the buffer, \<open>cs\<close> the size of
  the area.\<close>

definition labels_read :: "'d ndctl_dimm \<Rightarrow> nat \<Rightarrow> ndctl_cmd \<Rightarrow> nat \<Rightarrow> mem \<Rightarrow> u64 \<Rightarrow> bool" where
  "labels_read dimm r cr b m cs =
     (nd_cmd_read (dm_ndd dimm) = Some r \<and> nd_config_size (dm_ndd dimm) = cs \<and>
      read_done (dm_st dimm) r cr b m (unat cs))"

lemma write_index_ok:
  fixes seq
  assumes env: "write_env_ok env lsa (unat cs)" and rd: "labels_read dimm r cr b m cs"
    and a: "area_ok cs (version_label v)" and fuel: "unat cs < fuel"
    and both: "2 * unat (sizeof_namespace_index cs (version_label v)) \<le> unat (it_total_xfer (c_iter cr))"
    and i: "i = 0 \<or> i = 1"
  defines "M \<equiv> build_label_index cs (version_label v) i seq m"
  obtains dimm' where "write_label_index env fuel dimm v i seq = Some (0, dimm')"
    and "labels_read dimm' r cr b M cs" and "nd_nslabel_size (dm_ndd dimm') = version_label v"
    and "\<And>x. lsa (st_dev (dm_st dimm')) x =
      (if x < unat (it_total_xfer (c_iter cr)) then M x else lsa (st_dev (dm_st dimm)) x)"
proof -
  let ?sz = "sizeof_namespace_index cs (version_label v)" and ?b = "unat (sizeof_namespace_index cs (version_label v)) * i"
  let ?k = "slots (unat cs) (unat (version_label v))"
  note sz = area_sizes [OF a]
  have c: "unat cs < 2 ^ 31" using a by (simp add: area_ok_def)
  have fit: "?b + unat ?sz \<le> unat cs" using i sz(2,4) by auto
  define d1 where "d1 = (dm_ndd dimm)\<lparr>nd_nslabel_size := version_label v\<rparr>"
  define s1 where "s1 = (dm_st dimm)\<lparr>st_bufs := (st_bufs (dm_st dimm))(b \<mapsto> M)\<rparr>"
  have rd1: "read_done s1 r cr b M (unat cs)" using rd by (auto simp: labels_read_def read_done_def s1_def)
  have off: "unat (ucast (ns_myoff M ?b) :: u32) = ?b"
  proof -
    have "?b < 18446744073709551616" "?b < 4294967296" using fit c by simp_all
    then have "unat (ns_myoff M ?b) = ?b"
      unfolding M_def build_fields(4) [OF a, of i seq m] by (intro unat_of_nat_u64)
    with \<open>?b < 4294967296\<close> show ?thesis by (subst ucast_u64_u32) simp_all
  qed
  have tot: "unat (it_total_xfer (c_iter cr)) \<le> unat cs" using rd by (simp add: labels_read_def read_done_def iter_ok_def)
  have fitt: "?b + unat ?sz \<le> unat (it_total_xfer (c_iter cr))" using i both by auto
  obtain d' where w: "nvdimm_set_config_data env fuel s1 r (ucast (ns_myoff M ?b)) (\<lambda>x. M (?b + x)) ?sz =
      Some (0, s1\<lparr>st_dev := d', st_next := st_next s1 + 1\<rparr>)"
    and d': "\<And>x. lsa d' x = (if x < unat (it_total_xfer (c_iter cr)) then M x else lsa (st_dev s1) x)"
    by (rule set_config_data_ok [OF env rd1, of fuel "ucast (ns_myoff M ?b)" ?sz "\<lambda>x. M (?b + x)"])
       (use fuel tot off fitt in \<open>simp_all, (rule that)?\<close>)
  let ?dimm' = "dimm\<lparr>dm_ndd := d1, dm_st := s1\<lparr>st_dev := d', st_next := st_next s1 + 1\<rparr>\<rparr>"
  have "write_label_index env fuel dimm v i seq = Some (0, ?dimm')"
  proof -
    have d1: "nd_config_size d1 = cs" "nd_nslabel_size d1 = version_label v" "nd_cmd_read d1 = Some r"
      using rd by (simp_all add: d1_def labels_read_def)
    have "ndd_cmd (dimm\<lparr>dm_ndd := d1\<rparr>) = Some cr"
      using rd d1 by (simp add: ndd_cmd_def labels_read_def read_done_def)
    then have "ndd_data (dimm\<lparr>dm_ndd := d1\<rparr>) = m" "set_ndd_data (dimm\<lparr>dm_ndd := d1\<rparr>) M = dimm\<lparr>dm_ndd := d1, dm_st := s1\<rparr>"
      using rd by (simp_all add: ndd_data_def set_ndd_data_def labels_read_def read_done_def iter_buf_def
          set_iter_buf_def s1_def)
    with w d1 show ?thesis
      by (simp add: write_label_index_def Let_def d1_def [symmetric] M_def [symmetric])
  qed
  moreover have "labels_read ?dimm' r cr b M cs"
    using rd rd1 by (auto simp: labels_read_def read_done_def d1_def)
  ultimately show thesis using that d' by (simp add: d1_def s1_def)
qed

subsection \<open>Properties of the label area\<close>

text \<open>Of two sequence numbers, each masked to two bits, \<open>best_seq\<close> picks the valid (non-zero) one, and of
  two distinct valid ones the successor in the cycle 1, 2, 3; it never invents a number.\<close>

theorem best_seq_correct:
  assumes "a \<le> 3" and "b \<le> 3"
  shows "best_seq a b \<in> {a, b} \<and> (best_seq a b = 0 \<longrightarrow> a = 0 \<and> b = 0) \<and>
    (a \<noteq> 0 \<longrightarrow> best_seq a (inc_seq a) = inc_seq a \<and> best_seq (inc_seq a) a = inc_seq a)"
proof -
  have c: "w = 0 \<or> w = 1 \<or> w = 2 \<or> w = 3" if "w \<le> 3" for w :: u32
  proof -
    have "unat w \<le> 3" using that by (simp add: word_le_nat_alt)
    then have "unat w = 0 \<or> unat w = 1 \<or> unat w = 2 \<or> unat w = 3" by linarith
    then show ?thesis by (auto simp: word_unat_eq_iff)
  qed
  show ?thesis using c [OF assms(1)] c [OF assms(2)]
    by (elim disjE) (simp_all add: best_seq_def inc_seq_def NSINDEX_SEQ_MASK_def)
qed

theorem best_seq_correct_witness: "best_seq 3 1 = 1 \<and> best_seq 1 3 = 1"
  using best_seq_correct [of 3 1] by (simp add: inc_seq_def)

text \<open>Sizes fit: for a label area of at least two index blocks and two labels (and below 2 GiB), the
  index block holds its header and the whole free bitmap as \<open>write_label_index\<close> stores it, and two index
  blocks and all label slots fit in the area, so \<open>sizeof_namespace_index\<close> does not report the area as
  too small.\<close>

theorem label_area_layout:
  assumes "area_ok cs label"
  defines "n \<equiv> unat (nvdimm_num_label_slots cs label)" and "sz \<equiv> unat (sizeof_namespace_index cs label)"
  shows "2 \<le> n \<and> 2 * sz + n * unat label \<le> unat cs \<and> 72 + (n + 63) div 64 * 8 \<le> sz \<and> sz mod 256 = 0"
  using area_sizes [OF assms(1)] free_bitmap_fits [of n]
  by (simp add: n_def sz_def) (simp add: idx_size_def)

theorem label_area_layout_witness: "2 \<le> unat (nvdimm_num_label_slots 131072 256)"
  using label_area_layout [of 131072 256] by (simp add: area_ok_def idx_size_def)

text \<open>Initialising the labels of a DIMM whose read command covers both index blocks.\<close>

lemma init_labels_ok:
  assumes "write_env_ok env lsa (unat cs)" and "labels_read dimm r cr b m cs"
    and "area_ok cs (version_label v)" and "unat cs < fuel"
  defines "label \<equiv> version_label v" and "t \<equiv> unat (it_total_xfer (c_iter cr))"
  assumes fit: "2 * unat (sizeof_namespace_index cs label) \<le> t"
  obtains dimm' where
    "ndctl_dimm_init_labels env fuel dimm v = Some (sint (nvdimm_num_label_slots cs label), dimm')"
    and "\<And>x. lsa (st_dev (dm_st dimm')) x = (if x < t then init_label_area cs label m x else lsa (st_dev (dm_st dimm)) x)"
proof -
  let ?m0 = "build_label_index cs label 0 3 m"
  obtain d1 where w1: "write_label_index env fuel dimm v 0 3 = Some (0, d1)" and r1: "labels_read d1 r cr b ?m0 cs"
    and l1: "\<And>x. lsa (st_dev (dm_st d1)) x = (if x < t then ?m0 x else lsa (st_dev (dm_st dimm)) x)"
    by (rule write_index_ok [OF assms(1-4) fit [unfolded label_def t_def], of 0 3, folded label_def t_def]) (simp, rule that)
  obtain d2 where w2: "write_label_index env fuel d1 v 1 2 = Some (0, d2)"
    and r2: "labels_read d2 r cr b (init_label_area cs label m) cs" and s2: "nd_nslabel_size (dm_ndd d2) = label"
    and l2: "\<And>x. lsa (st_dev (dm_st d2)) x = (if x < t then init_label_area cs label m x else lsa (st_dev (dm_st d1)) x)"
    by (rule write_index_ok [OF assms(1) r1 assms(3,4) fit [unfolded label_def t_def], of 1 2, folded label_def t_def,
          folded init_label_area_def])
       (simp, rule that)
  have "ndctl_dimm_init_labels env fuel dimm v = Some (sint (nvdimm_num_label_slots cs label), d2)"
    using assms(2) w1 w2 r2 s2 by (simp add: ndctl_dimm_init_labels_def labels_read_def)
  then show thesis by (rule that) (simp add: l1 l2)
qed

subsection \<open>Reading the index blocks\<close>

text \<open>What the kernel documents of \<open>GET_CONFIG_SIZE\<close>: the size of the area and of the largest transfer.\<close>

definition size_ioctl :: "'d nd_env \<Rightarrow> ('d \<Rightarrow> mem) \<Rightarrow> u32 \<Rightarrow> u32 \<Rightarrow> bool" where
  "size_ioctl env lsa cs mx =
     (\<forall>pl d. case env_ioctl env ND_CMD_GET_CONFIG_SIZE pl d of (rc, pl', d') \<Rightarrow>
        rc = 0 \<and> pl_config_size pl' = cs \<and> pl_max_xfer pl' = mx \<and> lsa d' = lsa d)"

definition label_env_ok :: "'d nd_env \<Rightarrow> ('d \<Rightarrow> mem) \<Rightarrow> u32 \<Rightarrow> u32 \<Rightarrow> bool" where
  "label_env_ok env lsa cs mx =
     (write_env_ok env lsa (unat cs) \<and> size_ioctl env lsa cs mx \<and> env_supported env ND_CMD_GET_CONFIG_SIZE \<and>
      env_supported env ND_CMD_GET_CONFIG_DATA \<and> mx \<noteq> 0 \<and> unat cs + unat mx < 2 ^ 32)"

text \<open>A DIMM whose labels have not been read yet.\<close>

definition unread_dimm :: "'d ndctl_dimm \<Rightarrow> bool" where
  "unread_dimm dimm =
     (0 \<le> dm_wait_probe dimm \<and> nd_cmd_read (dm_ndd dimm) = None \<and>
      (\<forall>i. st_next (dm_st dimm) \<le> i \<longrightarrow> st_cmds (dm_st dimm) i = None))"

text \<open>The size command completed and the read command created.\<close>

definition size_cmd :: "nd_payload \<Rightarrow> ndctl_cmd" where
  "size_cmd pl = \<lparr>c_refcount = 2, c_type = ND_CMD_GET_CONFIG_SIZE, c_status = 0, c_payload = pl, c_iter = zero_iter,
     c_source = None\<rparr>"

definition new_read_cmd :: "nat \<Rightarrow> u32 \<Rightarrow> u32 \<Rightarrow> ndctl_cmd" where
  "new_read_cmd i cs mx = \<lparr>c_refcount = 1, c_type = ND_CMD_GET_CONFIG_DATA, c_status = 1,
     c_payload = zero_payload\<lparr>pl_length := mx\<rparr>,
     c_iter = \<lparr>it_init_offset = 0, it_max_xfer = mx, it_total_buf = Some (i + 2), it_total_xfer = cs, it_dir = READ\<rparr>,
     c_source = Some i\<rparr>"

lemma start_read_ok:
  assumes "label_env_ok env lsa cs mx" and "unread_dimm dimm" and "cs \<noteq> 0"
  defines "s \<equiv> dm_st dimm" and "i \<equiv> st_next (dm_st dimm)"
  obtains d pl where "start_read env fuel dimm = Some (Some (i, i + 1), dimm\<lparr>dm_st := s\<lparr>st_dev := d,
      st_cmds := (st_cmds s)(i \<mapsto> size_cmd pl, i + 1 \<mapsto> new_read_cmd i cs mx),
      st_bufs := (st_bufs s)(i + 2 \<mapsto> (\<lambda>_. 0)), st_next := i + 3\<rparr>\<rparr>)"
    and "lsa d = lsa (st_dev s)" and "pl_config_size pl = cs"
proof -
  obtain rc pl d where io: "env_ioctl env ND_CMD_GET_CONFIG_SIZE zero_payload (st_dev s) = (rc, pl, d)"
    by (metis prod.collapse)
  have "size_ioctl env lsa cs mx" using assms(1) by (simp add: label_env_ok_def)
  then have r: "rc = 0" "pl_config_size pl = cs" "pl_max_xfer pl = mx" "lsa d = lsa (st_dev s)"
    unfolding size_ioctl_def using io by (smt (verit, best) case_prod_conv)+
  have env: "env_supported env ND_CMD_GET_CONFIG_SIZE" "env_supported env ND_CMD_GET_CONFIG_DATA" "env_open env = 0"
    "\<And>i. env_calloc env i" "\<And>c. env_xlat env c = 0"
    using assms(1) by (simp_all add: label_env_ok_def write_env_ok_def)
  have "start_read env fuel dimm = Some (Some (i, i + 1), dimm\<lparr>dm_st := s\<lparr>st_dev := d,
      st_cmds := (st_cmds s)(i \<mapsto> size_cmd pl, i + 1 \<mapsto> new_read_cmd i cs mx),
      st_bufs := (st_bufs s)(i + 2 \<mapsto> (\<lambda>_. 0)), st_next := i + 3\<rparr>\<rparr>)"
    using assms(2,3) env io [unfolded s_def] r
    by (simp add: start_read_def unread_dimm_def ndctl_dimm_cmd_new_cfg_size_def ndctl_dimm_cmd_new_cfg_read_def
        ndctl_cmd_submit_xlat_def ndctl_cmd_submit_def do_cmd_def zero_iter_def set_iter_buf_def put_cmd_def
        ndctl_cmd_ref_def size_cmd_def new_read_cmd_def i_def s_def Let_def
        fun_upd_twist numeral_3_eq_3 zero_payload_def)
  then show thesis using that r by blast
qed

lemma read_label_index_ok:
  assumes "label_env_ok env lsa cs mx" and "unread_dimm dimm" and "area_ok (ucast cs) 128" and "unat cs < fuel"
  defines "t \<equiv> 2 * unat (sizeof_namespace_index (ucast cs) 128)"
  obtains dimm' r cr b m where "ndctl_dimm_read_label_index env fuel dimm = Some (Some r, dimm')"
    and "labels_read dimm' r cr b m (ucast cs)" and "unat (it_total_xfer (c_iter cr)) = t"
    and "lsa (st_dev (dm_st dimm')) = lsa (st_dev (dm_st dimm))"
    and "\<And>x. x < t \<Longrightarrow> m x = lsa (st_dev (dm_st dimm)) x"
proof -
  define s where "s = dm_st dimm"
  define i where "i = st_next s"
  define len where "len = sizeof_namespace_index (ucast cs) 128 * 2"
  have c: "unat (ucast cs :: u64) = unat cs" by simp
  have fit: "t \<le> unat cs" and t0: "0 < t"
    using area_sizes(2,4) [OF assms(3)] idx_size_bounds(1) [of "slots (unat cs) 128"] by (simp_all add: t_def)
  have len: "unat len = t" using fit unat_u32_less [of cs] by (simp add: len_def t_def unat_word_ariths(2))
  have cs0: "cs \<noteq> 0" using fit t0 by auto
  obtain d pl where st: "start_read env fuel dimm = Some (Some (i, i + 1), dimm\<lparr>dm_st := s\<lparr>st_dev := d,
      st_cmds := (st_cmds s)(i \<mapsto> size_cmd pl, i + 1 \<mapsto> new_read_cmd i cs mx),
      st_bufs := (st_bufs s)(i + 2 \<mapsto> (\<lambda>_. 0)), st_next := i + 3\<rparr>\<rparr>)"
    and d: "lsa d = lsa (st_dev s)" and pl: "pl_config_size pl = cs"
    by (rule start_read_ok [OF assms(1,2) cs0, folded s_def, folded i_def]) (rule that)
  define cr where "cr = iter_set_extent ((new_read_cmd i cs mx)\<lparr>c_refcount := 2\<rparr>) len 0"
  define s1 where "s1 = s\<lparr>st_dev := d, st_cmds := (st_cmds s)(i \<mapsto> size_cmd pl, i + 1 \<mapsto> cr),
      st_bufs := (st_bufs s)(i + 2 \<mapsto> (\<lambda>_. 0)), st_next := i + 3\<rparr>"
  define ndd where "ndd = \<lparr>nd_cmd_read = Some (i + 1), nd_config_size = ucast cs, nd_nslabel_size = 128,
      nd_ns_current = - 1, nd_ns_next = - 1\<rparr>"
  have it: "c_iter cr = \<lparr>it_init_offset = 0, it_max_xfer = mx, it_total_buf = Some (i + 2), it_total_xfer = len, it_dir = READ\<rparr>"
    "c_type cr = ND_CMD_GET_CONFIG_DATA" "c_source cr = Some i" "c_refcount cr = 2"
    by (simp_all add: cr_def iter_set_extent_def Let_def cmd_set_offset_def cmd_set_xfer_def new_read_cmd_def)
  define s0 where "s0 = s\<lparr>st_dev := d, st_cmds := (st_cmds s)(i \<mapsto> size_cmd pl, i + 1 \<mapsto> (new_read_cmd i cs mx)\<lparr>c_refcount := 2\<rparr>),
      st_bufs := (st_bufs s)(i + 2 \<mapsto> (\<lambda>_. 0)), st_next := i + 3\<rparr>"
  have ini: "init_ndd (dimm\<lparr>dm_st := s\<lparr>st_dev := d, st_cmds := (st_cmds s)(i \<mapsto> size_cmd pl, i + 1 \<mapsto> new_read_cmd i cs mx),
      st_bufs := (st_bufs s)(i + 2 \<mapsto> (\<lambda>_. 0)), st_next := i + 3\<rparr>\<rparr>) (i + 1) i =
      dimm\<lparr>dm_st := s0, dm_ndd := ndd\<lparr>nd_nslabel_size := 0\<rparr>\<rparr>"
    using assms(2) pl
    by (simp add: init_ndd_def unread_dimm_def ndctl_cmd_ref_def put_cmd_def s0_def ndd_def size_cmd_def new_read_cmd_def)
  have "\<not> cs < len" using fit len by (simp add: word_less_nat_alt)
  then have ext: "ndctl_cmd_cfg_read_set_extent s0 (i + 1) len 0 = (0, s1)"
    using pl by (simp add: ndctl_cmd_cfg_read_set_extent_def s0_def s1_def cr_def new_read_cmd_def source_config_size_def
        size_cmd_def put_cmd_def)
  have head: "ndctl_dimm_read_label_index env fuel dimm =
      (case ndctl_cmd_submit_xlat env fuel s1 (i + 1) of
         None \<Rightarrow> None
       | Some (rc, s) \<Rightarrow>
           if rc < 0 then Some (None, dimm\<lparr>dm_ndd := ndd, dm_st := ndctl_cmd_unref (ndctl_cmd_unref s (i + 1)) i\<rparr>)
           else Some (Some (i + 1), dimm\<lparr>dm_ndd := ndd, dm_st := ndctl_cmd_unref s i\<rparr>))"
    unfolding ndctl_dimm_read_label_index_def st option.case prod.case ini Let_def
    using ext by (auto simp: finish_read_def ndd_def len_def split: option.splits)
  have ok: "iter_ok (c_iter cr) (unat cs)"
    using assms(1) fit len by (auto simp: iter_ok_def it label_env_ok_def word_neq_0_conv)
  have ready: "ready_cmd s1 (i + 1) cr (i + 2) (\<lambda>_. 0)"
    using len t0 by (auto simp: ready_cmd_def s1_def it)
  have io: "lsa_ioctl env lsa (unat cs)" "env_open env = 0" and xl: "\<And>c. env_xlat env c = 0"
    using assms(1) by (simp_all add: label_env_ok_def write_env_ok_def)
  have fu: "unat (it_total_xfer (c_iter cr)) < fuel" using len fit assms(4) by (simp add: it)
  obtain cmd' d' buf' where sub: "ndctl_cmd_submit env fuel s1 (i + 1) =
        Some (0, s1\<lparr>st_dev := d', st_cmds := (st_cmds s1)(i + 1 \<mapsto> cmd'), st_bufs := (st_bufs s1)(i + 2 \<mapsto> buf')\<rparr>)"
    and c': "c_iter cmd' = c_iter cr" "c_type cmd' = c_type cr" "c_refcount cmd' = c_refcount cr" "c_status cmd' = 0"
      "pl_length (c_payload cmd') \<noteq> 0"
    and d': "lsa d' = lsa (st_dev s1)"
    and buf': "\<And>x. buf' x = (if x < unat (it_total_xfer (c_iter cr)) then lsa (st_dev s1) x else 0)"
    by (rule submit_read [OF io ready it(2) ok fu]) (rule that)
  let ?s2 = "s1\<lparr>st_dev := d', st_cmds := (st_cmds s1)(i + 1 \<mapsto> cmd'), st_bufs := (st_bufs s1)(i + 2 \<mapsto> buf')\<rparr>"
  let ?s3 = "?s2\<lparr>st_cmds := (st_cmds ?s2)(i \<mapsto> (size_cmd pl)\<lparr>c_refcount := 1\<rparr>)\<rparr>"
  have "ndctl_cmd_unref ?s2 i = ?s3"
    by (subst ndctl_cmd_unref.simps) (simp add: s1_def size_cmd_def put_cmd_def)
  then have run: "ndctl_dimm_read_label_index env fuel dimm = Some (Some (i + 1), dimm\<lparr>dm_ndd := ndd, dm_st := ?s3\<rparr>)"
    unfolding head ndctl_cmd_submit_xlat_def sub by (simp add: xl)
  have "labels_read (dimm\<lparr>dm_ndd := ndd, dm_st := ?s3\<rparr>) (i + 1) cmd' (i + 2) buf' (ucast cs)"
    using assms(2) ok c' it len t0
    by (auto simp: labels_read_def read_done_def ndd_def s1_def unread_dimm_def s_def i_def)
  then show thesis
    by (rule that [OF run]) (use c' it len d d' buf' in \<open>simp_all add: s1_def s_def\<close>)
qed

text \<open>The index blocks for labels of 256 bytes are not larger than those for 128 bytes, which are read.\<close>

lemma idx_size_scaled: "256 \<le> idx_size (c div 128)" "1024 * idx_size (c div 128) < 337000 + c"
proof -
  show "256 \<le> idx_size (c div 128)" by (simp add: idx_size_def)
  have "8 * ((c div 128 + 7) div 8) \<le> c div 128 + 7" by simp
  moreover have "128 * (c div 128) \<le> c" by simp
  ultimately show "1024 * idx_size (c div 128) < 337000 + c" using idx_size_bounds(2) [of "c div 128"] by linarith
qed

lemma index_fits_read:
  assumes "area_ok cs (version_label v)"
  shows "area_ok cs 128" and "unat (sizeof_namespace_index cs (version_label v)) \<le> unat (sizeof_namespace_index cs 128)"
proof -
  let ?c = "unat cs" and ?i = "idx_size (unat cs div 128)"
  have big: "256 \<le> idx_size k" for k by (simp add: idx_size_def)
  have "area_ok cs 128 \<and> unat (sizeof_namespace_index cs 256) \<le> unat (sizeof_namespace_index cs 128)" if "area_ok cs 256"
  proof -
    have c: "1024 \<le> ?c" "?c < 2 ^ 31" using that big [of "?c div 256"] by (auto simp: area_ok_def)
    then have a: "area_ok cs 128" using idx_size_scaled(2) [of ?c] by (simp add: area_ok_def)
    have "slots ?c 256 \<le> slots ?c 128"
    proof -
      have "slots ?c 256 * 256 \<le> ?c - 512"
        unfolding slots_def using big [of "?c div 256"] div_times_less_eq_dividend [of "?c - 2 * idx_size (?c div 256)" 256] by linarith
      moreover have "?c - 2 * ?i < slots ?c 128 * 128 + 128"
        unfolding slots_def using dividend_less_div_times [of 128 "?c - 2 * ?i"] by (simp add: add.commute)
      ultimately show ?thesis using idx_size_scaled(2) [of ?c] c by linarith
    qed
    then show ?thesis
      using a idx_size_mono by (simp add: area_sizes(2) [OF a] area_sizes(2) [OF that])
  qed
  then show "area_ok cs 128" "unat (sizeof_namespace_index cs (version_label v)) \<le> unat (sizeof_namespace_index cs 128)"
    using assms by (auto simp: version_label_def split: if_splits ndctl_namespace_version.splits)
qed

subsection \<open>Initialising the labels\<close>

text \<open>C5: initialising the labels works the way \<open>init-labels\<close> does it: on a DIMM that has not been read yet and a device
  that behaves as documented (label area of \<open>cs\<close> bytes, room for two index blocks and two labels),
  \<open>ndctl_dimm_read_label_index\<close> returns a command, \<open>ndctl_dimm_init_labels\<close> then terminates and returns the number of
  slots, and leaves on the device a label area in which both index blocks validate and block 0 is the current one;
  the device's label slots and everything past the area are as they were.\<close>

theorem init_labels_validates:
  assumes "label_env_ok env lsa cs mx" and "unread_dimm dimm" and "area_ok (ucast cs) (version_label v)" and "unat cs < fuel"
  defines "label \<equiv> version_label v" and "n \<equiv> unat (sizeof_namespace_index (ucast cs) (version_label v))"
  shows "\<exists>r dimm1 dimm2. ndctl_dimm_read_label_index env fuel dimm = Some (Some r, dimm1) \<and>
    ndctl_dimm_init_labels env fuel dimm1 v = Some (sint (nvdimm_num_label_slots (ucast cs) label), dimm2) \<and>
    (let M = lsa (st_dev (dm_st dimm2)) in
     index_valid (ucast cs) label M 0 \<and> index_valid (ucast cs) label M 1 \<and> label_validate_size (ucast cs) label M = 0 \<and>
     (\<forall>x. 2 * n \<le> x \<longrightarrow> M x = lsa (st_dev (dm_st dimm)) x))"
proof -
  let ?c = "ucast cs :: u64" and ?t = "2 * unat (sizeof_namespace_index (ucast cs) 128)"
  have a: "area_ok ?c label" using assms(3) by (simp add: label_def)
  have env: "write_env_ok env lsa (unat ?c)" using assms(1) by (simp add: label_env_ok_def)
  have nt: "2 * n \<le> ?t" unfolding n_def using index_fits_read(2) [OF assms(3)] by simp
  obtain d1 r cr b m where rd: "ndctl_dimm_read_label_index env fuel dimm = Some (Some r, d1)"
    "labels_read d1 r cr b m ?c" "unat (it_total_xfer (c_iter cr)) = ?t"
    "lsa (st_dev (dm_st d1)) = lsa (st_dev (dm_st dimm))" and m: "\<And>x. x < ?t \<Longrightarrow> m x = lsa (st_dev (dm_st dimm)) x"
    by (rule read_label_index_ok [OF assms(1,2) index_fits_read(1) [OF assms(3)] assms(4)]) (rule that)
  obtain d2 where run: "ndctl_dimm_init_labels env fuel d1 v = Some (sint (nvdimm_num_label_slots ?c label), d2)"
    and M: "\<And>x. lsa (st_dev (dm_st d2)) x =
      (if x < ?t then init_label_area ?c label m x else lsa (st_dev (dm_st dimm)) x)"
    by (rule init_labels_ok [OF env rd(2) assms(3), of fuel, folded label_def])
      (use assms(4) nt rd(3,4) in \<open>simp_all add: n_def label_def, (rule that)?\<close>)
  let ?M = "lsa (st_dev (dm_st d2))"
  have v: "index_valid ?c label ?M i = index_valid ?c label (init_label_area ?c label m) i"
    "ns_seq ?M (n * i) = ns_seq (init_label_area ?c label m) (n * i)" if "i = 0 \<or> i = 1" for i
    unfolding n_def label_def [symmetric]
    by (rule index_valid_cong [OF a]; use that nt M in \<open>auto simp: n_def label_def\<close>)+
  have "label_validate_size ?c label ?M = label_validate_size ?c label (init_label_area ?c label m)"
    using v [of 0] v [of 1] by (simp add: label_validate_size_def Let_def n_def label_def)
  then have "label_validate_size ?c label ?M = 0" by (simp add: init_area_current [OF a])
  moreover have "index_valid ?c label ?M 0" "index_valid ?c label ?M 1"
    using v init_area_valid(1,2) [OF a, where m = m] by auto
  moreover have "?M x = lsa (st_dev (dm_st dimm)) x" if "2 * n \<le> x" for x
    using M m init_area_valid(5) [OF a, where m = m and x = x] that by (simp add: n_def label_def)
  ultimately show ?thesis using rd(1) run by (auto simp: Let_def)
qed

text \<open>A DIMM with a 128 KiB label area of zeroes, transferred in pieces of 4 KiB.\<close>

definition label_env :: "mem nd_env" where
  "label_env = mem_env\<lparr>env_ioctl := (\<lambda>t pl d.
     if t = ND_CMD_GET_CONFIG_SIZE then (0, pl\<lparr>pl_status := 0, pl_config_size := 131072, pl_max_xfer := 4096\<rparr>, d)
     else env_ioctl mem_env t pl d)\<rparr>"

definition blank_dimm :: "mem ndctl_dimm" where
  "blank_dimm = \<lparr>dm_st = \<lparr>st_dev = (\<lambda>_. 0), st_cmds = Map.empty, st_bufs = Map.empty, st_next = 0\<rparr>,
     dm_ndd = \<lparr>nd_cmd_read = None, nd_config_size = 0, nd_nslabel_size = 0, nd_ns_current = - 1, nd_ns_next = - 1\<rparr>,
     dm_wait_probe = 0, dm_active = False, dm_enabled = False, dm_disable_rc = 0, dm_enable_rc = 0\<rparr>"

lemma blank_env: "label_env_ok label_env (\<lambda>d. d) 131072 4096"
  by (simp add: label_env_ok_def write_env_ok_def size_ioctl_def lsa_ioctl_def label_env_def mem_env_def)

theorem init_labels_validates_witness:
  "\<exists>r dimm1 dimm2. ndctl_dimm_read_label_index label_env 131073 blank_dimm = Some (Some r, dimm1) \<and>
     ndctl_dimm_init_labels label_env 131073 dimm1 NDCTL_NS_VERSION_1_2 =
       Some (sint (nvdimm_num_label_slots 131072 256), dimm2)"
  using init_labels_validates [OF blank_env, of blank_dimm NDCTL_NS_VERSION_1_2 131073]
  by (auto simp: version_label_def area_ok_def idx_size_def unread_dimm_def blank_dimm_def)

text \<open>\<open>write_label_index\<close> marks as free every bit of the last 64-bit word of the free bitmap, also the
  bits past the number of slots; the description of \<open>struct namespace_index\<close> wants those to be zero.\<close>

theorem free_bits_beyond_slots_are_set:
  assumes "area_ok cs label" and "unat (nvdimm_num_label_slots cs label) mod 64 \<noteq> 0"
  shows "build_label_index cs label i seq m
      (unat (sizeof_namespace_index cs label) * i + 72 + (unat (nvdimm_num_label_slots cs label) + 63) div 64 * 8 - 1) = 0xff"
proof -
  let ?n = "unat (nvdimm_num_label_slots cs label)"
  have "0 < (?n + 63) div 64 * 8" using assms(2) by (cases "?n = 0") (auto simp: div_greater_zero_iff)
  then show ?thesis
    by (simp add: build_label_index_def Let_def ns_set_checksum_def free_bytes_unat le_put_out mem_fill_def)
qed

theorem free_bits_beyond_slots_are_set_witness:
  "unat (nvdimm_num_label_slots 131072 256) = 510 \<and>
   build_label_index 131072 256 0 3 (\<lambda>_. 0) (72 + 8 * 8 - 1) = 0xff"
proof -
  have a: "area_ok 131072 256" by (simp add: area_ok_def idx_size_def)
  have n: "unat (nvdimm_num_label_slots 131072 256) = 510"
    using area_sizes(1) [OF a] by (simp add: slots_def idx_size_def)
  from free_bits_beyond_slots_are_set [OF a, of 0 3 "\<lambda>_. 0"] n show ?thesis by simp
qed

end
