(* ===== verification/Bus_Cmd.thy ===== *)
theory Bus_Cmd
  imports Size
begin

text \<open>
  The bus commands of libndctl: the address range scrub family of \<open>ndctl/lib/ars.c\<close> (capabilities, start,
  status, clear error) and the firmware calls of \<open>ndctl/lib/nfit.c\<close> (address translation, error injection,
  clearing and status), with \<open>ndctl_cmd_submit\<close> of \<open>ndctl/lib/libndctl.c\<close> for commands that move no iterated
  data.

  The union at the end of \<open>struct ndctl_cmd\<close> is a datatype whose constructor is the command's type
  (\<open>nd_command\<close> for the calls); an \<open>ioctl\<close> updates the buffer in place, so it keeps the constructor.  The
  kernel and the device behind \<open>ioctl\<close> are parameters, over an arbitrary device state.
\<close>

subsection \<open>Data\<close>

record nd_cmd_ars_cap =
  cap_address :: u64
  cap_length :: u64
  cap_status :: u32
  cap_max_ars_out :: u32
  cap_clear_err_unit :: u32

record nd_cmd_ars_start =
  sta_address :: u64
  sta_length :: u64
  sta_type :: u16
  sta_status :: u32

record nd_ars_record =
  rec_err_address :: u64
  rec_length :: u64

record nd_cmd_ars_status =
  ars_status :: u32
  ars_out_length :: u32
  ars_flags :: u16
  ars_num_records :: u32
  ars_records :: "nat \<Rightarrow> nd_ars_record"

record nd_cmd_clear_error =
  clr_address :: u64
  clr_length :: u64
  clr_status :: u32
  clr_cleared :: u64

record nd_cmd_translate_spa =
  xlat_spa :: u64
  xlat_status :: u32
  xlat_translate_length :: u64
  xlat_handle :: u32
  xlat_dpa :: u64

record nd_cmd_ars_err_inj =
  inj_base :: u64
  inj_length :: u64
  inj_options :: u8
  inj_status :: u32

record nd_cmd_ars_err_inj_clr =
  injclr_base :: u64
  injclr_length :: u64
  injclr_status :: u32

record nd_error_stat_query_record =
  stat_base :: u64
  stat_length :: u64

record nd_cmd_ars_err_inj_stat =
  stat_status :: u32
  stat_rec_count :: u32
  stat_record :: "nat \<Rightarrow> nd_error_stat_query_record"

record nd_cmd_pkg =
  nd_command :: u64
  nd_size_in :: u32
  nd_size_out :: u32
  nd_fw_size :: u32

datatype nd_bus_payload =
    ARS_CAP nd_cmd_ars_cap
  | ARS_START nd_cmd_ars_start
  | ARS_STATUS nd_cmd_ars_status
  | CLEAR_ERROR nd_cmd_clear_error
  | TRANSLATE_SPA nd_cmd_pkg nd_cmd_translate_spa
  | ARS_INJECT_SET nd_cmd_pkg nd_cmd_ars_err_inj
  | ARS_INJECT_CLEAR nd_cmd_pkg nd_cmd_ars_err_inj_clr
  | ARS_INJECT_GET nd_cmd_pkg nd_cmd_ars_err_inj_stat

record bus_cmd =
  bc_size :: nat
  bc_status :: int
  bc_buf :: nd_bus_payload

text \<open>The bus and its environment: the two command masks, the regions, which allocations succeed (by size),
  the errors of locating and opening the control node (0 or a negative errno), and the \<open>ioctl\<close> of each
  command (a negative result is \<open>-errno\<close>).\<close>

record ndctl_region =
  region_resource :: u64
  region_size :: u64

record 'd ndctl_bus =
  bus_cmd_mask :: u64
  bus_has_nfit :: bool
  bus_nfit_dsm_mask :: u64
  bus_regions :: "ndctl_region list"
  bus_calloc :: "nat \<Rightarrow> bool"
  bus_open :: int
  io_ars_cap :: "nd_cmd_ars_cap \<Rightarrow> 'd \<Rightarrow> int \<times> nd_cmd_ars_cap \<times> 'd"
  io_ars_start :: "nd_cmd_ars_start \<Rightarrow> 'd \<Rightarrow> int \<times> nd_cmd_ars_start \<times> 'd"
  io_ars_status :: "nd_cmd_ars_status \<Rightarrow> 'd \<Rightarrow> int \<times> nd_cmd_ars_status \<times> 'd"
  io_clear_error :: "nd_cmd_clear_error \<Rightarrow> 'd \<Rightarrow> int \<times> nd_cmd_clear_error \<times> 'd"
  io_translate_spa :: "nd_cmd_translate_spa \<Rightarrow> 'd \<Rightarrow> int \<times> nd_cmd_translate_spa \<times> 'd"
  io_inject_set :: "nd_cmd_ars_err_inj \<Rightarrow> 'd \<Rightarrow> int \<times> nd_cmd_ars_err_inj \<times> 'd"
  io_inject_clear :: "nd_cmd_ars_err_inj_clr \<Rightarrow> 'd \<Rightarrow> int \<times> nd_cmd_ars_err_inj_clr \<times> 'd"
  io_inject_get :: "nd_cmd_ars_err_inj_stat \<Rightarrow> 'd \<Rightarrow> int \<times> nd_cmd_ars_err_inj_stat \<times> 'd"

text \<open>Sizes of the C structures on an LP64 host.\<close>

definition sizeof_ndctl_cmd :: nat where "sizeof_ndctl_cmd = 120"
definition sizeof_pkg :: nat where "sizeof_pkg = 64"
definition sizeof_ars_cap :: nat where "sizeof_ars_cap = 32"
definition sizeof_ars_start :: nat where "sizeof_ars_start = 32"
definition sizeof_clear_error :: nat where "sizeof_clear_error = 32"
definition sizeof_translate_spa :: nat where "sizeof_translate_spa = 28"
definition sizeof_nvdimm_device :: nat where "sizeof_nvdimm_device = 16"
definition sizeof_err_inj :: nat where "sizeof_err_inj = 21"
definition sizeof_err_inj_clr :: nat where "sizeof_err_inj_clr = 20"
definition sizeof_err_inj_stat :: nat where "sizeof_err_inj_stat = 8"

definition NFIT_CMD_TRANSLATE_SPA :: nat where [simp]: "NFIT_CMD_TRANSLATE_SPA = 5"
definition NFIT_CMD_ARS_INJECT_SET :: nat where [simp]: "NFIT_CMD_ARS_INJECT_SET = 7"
definition NFIT_CMD_ARS_INJECT_CLEAR :: nat where [simp]: "NFIT_CMD_ARS_INJECT_CLEAR = 8"
definition NFIT_CMD_ARS_INJECT_GET :: nat where [simp]: "NFIT_CMD_ARS_INJECT_GET = 9"

definition ND_CMD_ARS_CAP :: nat where [simp]: "ND_CMD_ARS_CAP = 1"
definition ND_CMD_ARS_START :: nat where [simp]: "ND_CMD_ARS_START = 2"
definition ND_CMD_ARS_STATUS :: nat where [simp]: "ND_CMD_ARS_STATUS = 3"
definition ARS_STATUS_MASK :: u32 where [simp]: "ARS_STATUS_MASK = 0xFFFF"
definition ARS_EXT_STATUS_SHIFT :: nat where [simp]: "ARS_EXT_STATUS_SHIFT = 16"

definition ndctl_bus_is_cmd_supported :: "'d ndctl_bus \<Rightarrow> nat \<Rightarrow> bool" where
  "ndctl_bus_is_cmd_supported bus cmd = (bus_cmd_mask bus AND push_bit cmd 1 \<noteq> 0)"

definition ndctl_bus_is_nfit_cmd_supported :: "'d ndctl_bus \<Rightarrow> nat \<Rightarrow> bool" where
  "ndctl_bus_is_nfit_cmd_supported bus cmd = (bus_nfit_dsm_mask bus AND push_bit cmd 1 \<noteq> 0)"

subsection \<open>Submission\<close>

fun get_ars_command_status :: "nd_bus_payload \<Rightarrow> u32" where
  "get_ars_command_status (ARS_CAP c) = cap_status c"
| "get_ars_command_status (ARS_START c) = sta_status c"
| "get_ars_command_status (ARS_STATUS c) = ars_status c"
| "get_ars_command_status (CLEAR_ERROR c) = clr_status c"
| "get_ars_command_status _ = - 1"

fun bus_get_firmware_status :: "nd_bus_payload \<Rightarrow> u32" where
  "bus_get_firmware_status (TRANSLATE_SPA p c) = xlat_status c"
| "bus_get_firmware_status (ARS_INJECT_SET p c) = inj_status c"
| "bus_get_firmware_status (ARS_INJECT_CLEAR p c) = injclr_status c"
| "bus_get_firmware_status (ARS_INJECT_GET p c) = stat_status c"
| "bus_get_firmware_status _ = - 1"

text \<open>The constructors below install \<open>get_ars_command_status\<close> in the scrub commands and
  \<open>bus_get_firmware_status\<close> in the calls.\<close>

definition ndctl_cmd_get_firmware_status :: "bus_cmd \<Rightarrow> u32" where
  "ndctl_cmd_get_firmware_status cmd =
     (case bc_buf cmd of
        ARS_CAP c \<Rightarrow> get_ars_command_status (bc_buf cmd)
      | ARS_START c \<Rightarrow> get_ars_command_status (bc_buf cmd)
      | ARS_STATUS c \<Rightarrow> get_ars_command_status (bc_buf cmd)
      | CLEAR_ERROR c \<Rightarrow> get_ars_command_status (bc_buf cmd)
      | _ \<Rightarrow> bus_get_firmware_status (bc_buf cmd))"

fun bus_ioctl :: "'d ndctl_bus \<Rightarrow> nd_bus_payload \<Rightarrow> 'd \<Rightarrow> int \<times> nd_bus_payload \<times> 'd" where
  "bus_ioctl bus (ARS_CAP c) d = (case io_ars_cap bus c d of (rc, c, d) \<Rightarrow> (rc, ARS_CAP c, d))"
| "bus_ioctl bus (ARS_START c) d = (case io_ars_start bus c d of (rc, c, d) \<Rightarrow> (rc, ARS_START c, d))"
| "bus_ioctl bus (ARS_STATUS c) d = (case io_ars_status bus c d of (rc, c, d) \<Rightarrow> (rc, ARS_STATUS c, d))"
| "bus_ioctl bus (CLEAR_ERROR c) d = (case io_clear_error bus c d of (rc, c, d) \<Rightarrow> (rc, CLEAR_ERROR c, d))"
| "bus_ioctl bus (TRANSLATE_SPA p c) d = (case io_translate_spa bus c d of (rc, c, d) \<Rightarrow> (rc, TRANSLATE_SPA p c, d))"
| "bus_ioctl bus (ARS_INJECT_SET p c) d = (case io_inject_set bus c d of (rc, c, d) \<Rightarrow> (rc, ARS_INJECT_SET p c, d))"
| "bus_ioctl bus (ARS_INJECT_CLEAR p c) d =
     (case io_inject_clear bus c d of (rc, c, d) \<Rightarrow> (rc, ARS_INJECT_CLEAR p c, d))"
| "bus_ioctl bus (ARS_INJECT_GET p c) d = (case io_inject_get bus c d of (rc, c, d) \<Rightarrow> (rc, ARS_INJECT_GET p c, d))"

text \<open>\<open>ndctl_cmd_submit\<close> on a bus command: every type has an ioctl number, and \<open>iter.total_xfer\<close> is 0.\<close>

definition bus_cmd_submit :: "'d ndctl_bus \<Rightarrow> bus_cmd \<Rightarrow> 'd \<Rightarrow> int \<times> bus_cmd \<times> 'd" where
  "bus_cmd_submit bus cmd d =
     (if bus_open bus \<noteq> 0 then (bus_open bus, cmd\<lparr>bc_status := bus_open bus\<rparr>, d)
      else case bus_ioctl bus (bc_buf cmd) d of (rc, buf, d) \<Rightarrow>
        (rc, cmd\<lparr>bc_buf := buf, bc_status := rc\<rparr>, d))"

subsection \<open>Address range scrub\<close>

text \<open>A constructor returns \<open>None\<close> for NULL; the buffer is zeroed by \<open>calloc\<close>.\<close>

definition ndctl_bus_cmd_new_ars_cap :: "'d ndctl_bus \<Rightarrow> u64 \<Rightarrow> u64 \<Rightarrow> bus_cmd option" where
  "ndctl_bus_cmd_new_ars_cap bus address len =
     (if \<not> ndctl_bus_is_cmd_supported bus ND_CMD_ARS_CAP then None
      else let size = sizeof_ndctl_cmd + sizeof_ars_cap in
        if \<not> bus_calloc bus size then None
        else Some \<lparr>bc_size = size, bc_status = 1,
               bc_buf = ARS_CAP \<lparr>cap_address = address, cap_length = len, cap_status = 0, cap_max_ars_out = 0,
                                 cap_clear_err_unit = 0\<rparr>\<rparr>)"

definition validate_clear_error :: "nd_cmd_ars_cap \<Rightarrow> bool" where
  "validate_clear_error c = is_power_of_2 (ucast (cap_clear_err_unit c))"

definition validate_ars_cap :: "bus_cmd \<Rightarrow> bool" where
  "validate_ars_cap cmd =
     (case bc_buf cmd of
        ARS_CAP c \<Rightarrow>
          if bc_status cmd \<noteq> 0 then False
          else if ndctl_cmd_get_firmware_status cmd AND ARS_STATUS_MASK \<noteq> 0 then False
          else validate_clear_error c
      | _ \<Rightarrow> False)"

definition ndctl_bus_cmd_new_ars_start :: "'d ndctl_bus \<Rightarrow> bus_cmd \<Rightarrow> 32 word \<Rightarrow> bus_cmd option" where
  "ndctl_bus_cmd_new_ars_start bus ars_cap type =
     (if \<not> ndctl_bus_is_cmd_supported bus ND_CMD_ARS_START then None
      else if \<not> validate_ars_cap ars_cap then None
      else if drop_bit ARS_EXT_STATUS_SHIFT (ndctl_cmd_get_firmware_status ars_cap) AND type = 0 then None
      else let size = sizeof_ndctl_cmd + sizeof_ars_start in
        if \<not> bus_calloc bus size then None
        else case bc_buf ars_cap of
          ARS_CAP c \<Rightarrow> Some \<lparr>bc_size = size, bc_status = 1,
             bc_buf = ARS_START \<lparr>sta_address = cap_address c, sta_length = cap_length c, sta_type = ucast type,
                                 sta_status = 0\<rparr>\<rparr>
        | _ \<Rightarrow> None)"

definition ndctl_bus_cmd_new_ars_status :: "'d ndctl_bus \<Rightarrow> bus_cmd \<Rightarrow> bus_cmd option" where
  "ndctl_bus_cmd_new_ars_status bus ars_cap =
     (if \<not> ndctl_bus_is_cmd_supported bus ND_CMD_ARS_STATUS then None
      else if \<not> validate_ars_cap ars_cap then None
      else case bc_buf ars_cap of
        ARS_CAP c \<Rightarrow>
          if cap_max_ars_out c = 0 then None
          else let size = sizeof_ndctl_cmd + unat (cap_max_ars_out c) in
            if \<not> bus_calloc bus (size + 4) then None
            else Some \<lparr>bc_size = size, bc_status = 1,
                   bc_buf = ARS_STATUS \<lparr>ars_status = 0, ars_out_length = cap_max_ars_out c, ars_flags = 0,
                      ars_num_records = 0, ars_records = (\<lambda>_. \<lparr>rec_err_address = 0, rec_length = 0\<rparr>)\<rparr>\<rparr>
      | _ \<Rightarrow> None)"

definition ndctl_cmd_ars_cap_get_size :: "bus_cmd \<Rightarrow> u32" where
  "ndctl_cmd_ars_cap_get_size ars_cap =
     (case bc_buf ars_cap of
        ARS_CAP c \<Rightarrow> if bc_status ars_cap = 0 then cap_max_ars_out c else 0
      | _ \<Rightarrow> 0)"

definition ndctl_cmd_ars_cap_get_range :: "bus_cmd \<Rightarrow> int + u64 \<times> u64" where
  "ndctl_cmd_ars_cap_get_range ars_cap =
     (case bc_buf ars_cap of
        ARS_CAP c \<Rightarrow> if bc_status ars_cap = 0 then Inr (cap_address c, cap_length c) else Inl (- EINVAL)
      | _ \<Rightarrow> Inl (- EINVAL))"

definition ndctl_cmd_ars_cap_get_clear_unit :: "bus_cmd \<Rightarrow> u32" where
  "ndctl_cmd_ars_cap_get_clear_unit ars_cap =
     (case bc_buf ars_cap of
        ARS_CAP c \<Rightarrow> if bc_status ars_cap = 0 then cap_clear_err_unit c else 0
      | _ \<Rightarrow> 0)"

definition validate_ars_stat :: "bus_cmd \<Rightarrow> bool" where
  "validate_ars_stat cmd =
     (case bc_buf cmd of
        ARS_STATUS c \<Rightarrow>
          if bc_status cmd < 0 then False
          else ndctl_cmd_get_firmware_status cmd AND ARS_STATUS_MASK = 0
      | _ \<Rightarrow> False)"

definition ndctl_cmd_ars_in_progress :: "bus_cmd \<Rightarrow> bool" where
  "ndctl_cmd_ars_in_progress cmd =
     (if \<not> validate_ars_stat cmd then False else ndctl_cmd_get_firmware_status cmd = push_bit 16 1)"

definition ndctl_cmd_ars_num_records :: "bus_cmd \<Rightarrow> u32" where
  "ndctl_cmd_ars_num_records ars_stat =
     (if \<not> validate_ars_stat ars_stat then 0
      else case bc_buf ars_stat of ARS_STATUS c \<Rightarrow> ars_num_records c | _ \<Rightarrow> 0)"

definition ndctl_cmd_ars_get_record_addr :: "bus_cmd \<Rightarrow> u32 \<Rightarrow> u64" where
  "ndctl_cmd_ars_get_record_addr ars_stat rec_index =
     (if \<not> validate_ars_stat ars_stat then 0
      else case bc_buf ars_stat of
        ARS_STATUS c \<Rightarrow> if rec_index \<ge> ars_num_records c then 0
                        else rec_err_address (ars_records c (unat rec_index))
      | _ \<Rightarrow> 0)"

definition ndctl_cmd_ars_get_record_len :: "bus_cmd \<Rightarrow> u32 \<Rightarrow> u64" where
  "ndctl_cmd_ars_get_record_len ars_stat rec_index =
     (if \<not> validate_ars_stat ars_stat then 0
      else case bc_buf ars_stat of
        ARS_STATUS c \<Rightarrow> if rec_index \<ge> ars_num_records c then 0
                        else rec_length (ars_records c (unat rec_index))
      | _ \<Rightarrow> 0)"

definition ndctl_cmd_ars_stat_get_flag_overflow :: "bus_cmd \<Rightarrow> int" where
  "ndctl_cmd_ars_stat_get_flag_overflow ars_stat =
     (if \<not> validate_ars_stat ars_stat then - EINVAL
      else case bc_buf ars_stat of ARS_STATUS c \<Rightarrow> (if ars_flags c AND 1 \<noteq> 0 then 1 else 0) | _ \<Rightarrow> - EINVAL)"

definition ndctl_bus_cmd_new_clear_error :: "'d ndctl_bus \<Rightarrow> u64 \<Rightarrow> u64 \<Rightarrow> bus_cmd \<Rightarrow> bus_cmd option" where
  "ndctl_bus_cmd_new_clear_error bus address len ars_cap =
     (if \<not> ndctl_bus_is_cmd_supported bus ND_CMD_ARS_STATUS then None
      else if \<not> validate_ars_cap ars_cap then None
      else case bc_buf ars_cap of
        ARS_CAP cap \<Rightarrow>
          if address < cap_address cap \<or> address > cap_address cap + cap_length cap
             \<or> address + len > cap_address cap + cap_length cap then None
          else let mask = cap_clear_err_unit cap - 1 in
            if (address OR len) AND ucast mask \<noteq> 0 then None
            else let size = sizeof_ndctl_cmd + sizeof_clear_error in
              if \<not> bus_calloc bus size then None
              else Some \<lparr>bc_size = size, bc_status = 1,
                     bc_buf = CLEAR_ERROR \<lparr>clr_address = address, clr_length = len, clr_status = 0,
                                           clr_cleared = 0\<rparr>\<rparr>
      | _ \<Rightarrow> None)"

definition ndctl_cmd_clear_error_get_cleared :: "bus_cmd \<Rightarrow> u64" where
  "ndctl_cmd_clear_error_get_cleared clear_err =
     (case bc_buf clear_err of
        CLEAR_ERROR c \<Rightarrow> if bc_status clear_err = 0 then clr_cleared c else 0
      | _ \<Rightarrow> 0)"

subsection \<open>Firmware calls\<close>

definition ndctl_bus_cmd_new_translate_spa :: "'d ndctl_bus \<Rightarrow> bus_cmd option" where
  "ndctl_bus_cmd_new_translate_spa bus =
     (let spa_length = sizeof_translate_spa + sizeof_nvdimm_device;
          size = sizeof_ndctl_cmd + sizeof_pkg + spa_length in
      if \<not> bus_calloc bus size then None
      else Some \<lparr>bc_size = size, bc_status = 1,
             bc_buf = TRANSLATE_SPA
               \<lparr>nd_command = of_nat NFIT_CMD_TRANSLATE_SPA, nd_size_in = 8, nd_size_out = of_nat spa_length,
                nd_fw_size = of_nat spa_length\<rparr>
               \<lparr>xlat_spa = 0, xlat_status = 0, xlat_translate_length = of_nat spa_length, xlat_handle = 0,
                xlat_dpa = 0\<rparr>\<rparr>)"

definition ndctl_bus_cmd_new_err_inj :: "'d ndctl_bus \<Rightarrow> bus_cmd option" where
  "ndctl_bus_cmd_new_err_inj bus =
     (let cmd_length = sizeof_err_inj; size = sizeof_ndctl_cmd + sizeof_pkg + cmd_length; size_in = 17 in
      if \<not> bus_calloc bus size then None
      else Some \<lparr>bc_size = size, bc_status = 1,
             bc_buf = ARS_INJECT_SET
               \<lparr>nd_command = of_nat NFIT_CMD_ARS_INJECT_SET, nd_size_in = of_nat size_in,
                nd_size_out = of_nat (cmd_length - size_in), nd_fw_size = of_nat (cmd_length - size_in)\<rparr>
               \<lparr>inj_base = 0, inj_length = 0, inj_options = 0, inj_status = 0\<rparr>\<rparr>)"

definition ndctl_bus_cmd_new_err_inj_clr :: "'d ndctl_bus \<Rightarrow> bus_cmd option" where
  "ndctl_bus_cmd_new_err_inj_clr bus =
     (let cmd_length = sizeof_err_inj_clr; size = sizeof_ndctl_cmd + sizeof_pkg + cmd_length; size_in = 16 in
      if \<not> bus_calloc bus size then None
      else Some \<lparr>bc_size = size, bc_status = 1,
             bc_buf = ARS_INJECT_CLEAR
               \<lparr>nd_command = of_nat NFIT_CMD_ARS_INJECT_CLEAR, nd_size_in = of_nat size_in,
                nd_size_out = of_nat (cmd_length - size_in), nd_fw_size = of_nat (cmd_length - size_in)\<rparr>
               \<lparr>injclr_base = 0, injclr_length = 0, injclr_status = 0\<rparr>\<rparr>)"

definition ndctl_bus_cmd_new_err_inj_stat :: "'d ndctl_bus \<Rightarrow> u32 \<Rightarrow> bus_cmd option" where
  "ndctl_bus_cmd_new_err_inj_stat bus buf_size =
     (let cmd_length = sizeof_err_inj_stat;
          size = sizeof_ndctl_cmd + sizeof_pkg + cmd_length + unat buf_size in
      if \<not> bus_calloc bus size then None
      else Some \<lparr>bc_size = size, bc_status = 1,
             bc_buf = ARS_INJECT_GET
               \<lparr>nd_command = of_nat NFIT_CMD_ARS_INJECT_GET, nd_size_in = 0,
                nd_size_out = of_nat (cmd_length + unat buf_size), nd_fw_size = of_nat (cmd_length + unat buf_size)\<rparr>
               \<lparr>stat_status = 0, stat_rec_count = 0, stat_record = (\<lambda>_. \<lparr>stat_base = 0, stat_length = 0\<rparr>)\<rparr>\<rparr>)"

definition bus_has_translate_spa :: "'d ndctl_bus \<Rightarrow> bool" where
  "bus_has_translate_spa bus =
     (if \<not> bus_has_nfit bus then False else ndctl_bus_is_nfit_cmd_supported bus NFIT_CMD_TRANSLATE_SPA)"

fun region_by_physical_address :: "ndctl_region list \<Rightarrow> u64 \<Rightarrow> ndctl_region option" where
  "region_by_physical_address [] address = None"
| "region_by_physical_address (r # rs) address =
     (let region_start = region_resource r; region_end = region_start + region_size r in
      if region_start \<le> address \<and> address < region_end then Some r
      else region_by_physical_address rs address)"

definition ndctl_bus_get_region_by_physical_address :: "'d ndctl_bus \<Rightarrow> u64 \<Rightarrow> ndctl_region option" where
  "ndctl_bus_get_region_by_physical_address bus address = region_by_physical_address (bus_regions bus) address"

definition is_valid_spa :: "'d ndctl_bus \<Rightarrow> u64 \<Rightarrow> bool" where
  "is_valid_spa bus spa = (ndctl_bus_get_region_by_physical_address bus spa \<noteq> None)"

definition ndctl_bus_cmd_get_translate_spa :: "nd_cmd_translate_spa \<Rightarrow> int + u32 \<times> u64" where
  "ndctl_bus_cmd_get_translate_spa c =
     (if xlat_status c = 2 then Inl (- EINVAL) else Inr (xlat_handle c, xlat_dpa c))"

text \<open>\<open>Inr\<close> is return value 0 with \<open>*handle\<close> and \<open>*dpa\<close> stored, \<open>Inl\<close> the error code; the pointer arguments
  are not NULL.\<close>

definition ndctl_bus_nfit_translate_spa :: "'d ndctl_bus \<Rightarrow> u64 \<Rightarrow> 'd \<Rightarrow> (int + u32 \<times> u64) \<times> 'd" where
  "ndctl_bus_nfit_translate_spa bus address d =
     (if \<not> bus_has_translate_spa bus then (Inl (- ENOTTY), d)
      else if \<not> is_valid_spa bus address then (Inl (- EINVAL), d)
      else case ndctl_bus_cmd_new_translate_spa bus of
        None \<Rightarrow> (Inl (- ENOMEM), d)
      | Some cmd \<Rightarrow>
          case bc_buf cmd of
            TRANSLATE_SPA p c \<Rightarrow>
              (case bus_cmd_submit bus (cmd\<lparr>bc_buf := TRANSLATE_SPA p (c\<lparr>xlat_spa := address\<rparr>)\<rparr>) d of
                 (rc, cmd, d) \<Rightarrow>
                   if rc < 0 then (Inl rc, d)
                   else case bc_buf cmd of
                     TRANSLATE_SPA p c \<Rightarrow> (ndctl_bus_cmd_get_translate_spa c, d)
                   | _ \<Rightarrow> (Inl (- EINVAL), d))
          | _ \<Rightarrow> (Inl (- EINVAL), d))"

subsection \<open>What the checks establish\<close>

lemma unat_pow2_u32: "k < 32 \<Longrightarrow> unat (2 ^ k :: u32) = 2 ^ k"
proof -
  assume "k < 32"
  then have "(2 :: nat) ^ k < 2 ^ 32" by (rule power_strict_increasing) simp
  moreover have "(2 ^ k :: u32) = of_nat (2 ^ k)" by simp
  ultimately show ?thesis by (simp only: unat_of_nat) (simp add: take_bit_nat_eq_self)
qed

lemma unat_minus_word: "unat (- x :: u64) = (if x = 0 then 0 else 2 ^ 64 - unat x)"
  using unat_sub_if_size [of 0 x] by (auto simp: word_size word_le_nat_alt unat_eq_0)

lemma validate_ars_cap_D:
  assumes "validate_ars_cap ars_cap" and "bc_buf ars_cap = ARS_CAP cap"
  shows "bc_status ars_cap = 0" and "cap_status cap AND 0xFFFF = 0"
    and "\<exists>k < 32. cap_clear_err_unit cap = 2 ^ k"
proof -
  show "bc_status ars_cap = 0" and "cap_status cap AND 0xFFFF = 0"
    using assms by (auto simp: validate_ars_cap_def ndctl_cmd_get_firmware_status_def split: if_splits)
  have "is_power_of_2 (ucast (cap_clear_err_unit cap))"
    using assms by (auto simp: validate_ars_cap_def validate_clear_error_def split: if_splits)
  then obtain k where k: "k < 64" "ucast (cap_clear_err_unit cap) = (2 ^ k :: u64)"
    unfolding is_power_of_2_iff by blast
  then have u: "unat (cap_clear_err_unit cap) = 2 ^ k"
    using unat_ucast_u32_u64 [of "cap_clear_err_unit cap"] by (simp add: unat_pow2)
  have "(2 :: nat) ^ k < 2 ^ 32"
    using unat_u32_less [of "cap_clear_err_unit cap"] u by simp
  then have k32: "k < 32" by (rule power_less_imp_less_exp [rotated]) simp
  with u unat_pow2_u32 show "\<exists>k < 32. cap_clear_err_unit cap = 2 ^ k"
    by (auto simp: word_unat_eq_iff)
qed

lemma clear_mask_aligned:
  assumes "k < 32"
  shows "(address OR len) AND ucast ((2 ^ k :: u32) - 1) = (0 :: u64) \<longleftrightarrow> 2 ^ k dvd unat address \<and> 2 ^ k dvd unat len"
proof -
  have "(ucast ((2 ^ k :: u32) - 1) :: u64) = mask k"
    by (rule bit_word_eqI) (use assms in \<open>auto simp: bit_simps simp flip: mask_eq_exp_minus_1\<close>)
  then have "(address OR len) AND ucast ((2 ^ k :: u32) - 1) = (address AND mask k) OR (len AND mask k)"
    by (simp add: bit.conj_disj_distrib2)
  moreover have "x AND mask k = 0 \<longleftrightarrow> 2 ^ k dvd unat x" for x :: u64
    by (simp add: word_unat_eq_iff unat_and_mask dvd_eq_mod_eq_0)
  ultimately show ?thesis by (simp add: or_eq_0_iff)
qed

text \<open>\<open>ndctl_bus_cmd_new_clear_error\<close> accepts exactly the requests that lie inside the range of a
  successfully completed \<open>ars_cap\<close> command and are aligned to its clear unit (a power of two), as long as
  neither range wraps around; the command it builds carries the request and is marked as not submitted.\<close>

theorem clear_error_accepts:
  assumes "bc_buf ars_cap = ARS_CAP cap"
    and "unat (cap_address cap) + unat (cap_length cap) < 2 ^ 64"
    and "unat address + unat len < 2 ^ 64"
  shows "ndctl_bus_cmd_new_clear_error bus address len ars_cap = Some cmd \<longleftrightarrow>
    ndctl_bus_is_cmd_supported bus ND_CMD_ARS_STATUS \<and> validate_ars_cap ars_cap \<and>
    unat (cap_address cap) \<le> unat address \<and>
    unat address + unat len \<le> unat (cap_address cap) + unat (cap_length cap) \<and>
    unat (cap_clear_err_unit cap) dvd unat address \<and> unat (cap_clear_err_unit cap) dvd unat len \<and>
    bus_calloc bus (sizeof_ndctl_cmd + sizeof_clear_error) \<and>
    cmd = \<lparr>bc_size = sizeof_ndctl_cmd + sizeof_clear_error, bc_status = 1,
           bc_buf = CLEAR_ERROR \<lparr>clr_address = address, clr_length = len, clr_status = 0, clr_cleared = 0\<rparr>\<rparr>"
proof (cases "validate_ars_cap ars_cap")
  case True
  then obtain k where k: "k < 32" "cap_clear_err_unit cap = 2 ^ k"
    using validate_ars_cap_D(3) [OF True assms(1)] by blast
  have u: "unat (cap_clear_err_unit cap) = 2 ^ k" using k by (simp add: unat_pow2_u32)
  have r: "address < cap_address cap \<or> address > cap_address cap + cap_length cap
             \<or> address + len > cap_address cap + cap_length cap \<longleftrightarrow>
      \<not> (unat (cap_address cap) \<le> unat address \<and>
         unat address + unat len \<le> unat (cap_address cap) + unat (cap_length cap))"
    using assms(2,3) by (auto simp: word_less_nat_alt unat_plus_if')
  show ?thesis
    using True by (auto simp: ndctl_bus_cmd_new_clear_error_def assms(1) Let_def r k(2)
        clear_mask_aligned [OF k(1)] unat_pow2_u32 [OF k(1)] simp del: de_Morgan_conj)
qed (simp add: ndctl_bus_cmd_new_clear_error_def)

definition demo_bus :: "unit ndctl_bus" where
  "demo_bus = \<lparr>bus_cmd_mask = 0x1E, bus_has_nfit = True, bus_nfit_dsm_mask = 0x3A0, bus_regions = [],
     bus_calloc = (\<lambda>_. True), bus_open = 0, io_ars_cap = (\<lambda>c d. (0, c, d)), io_ars_start = (\<lambda>c d. (0, c, d)),
     io_ars_status = (\<lambda>c d. (0, c, d)), io_clear_error = (\<lambda>c d. (0, c, d)),
     io_translate_spa = (\<lambda>c d. (0, c, d)), io_inject_set = (\<lambda>c d. (0, c, d)),
     io_inject_clear = (\<lambda>c d. (0, c, d)), io_inject_get = (\<lambda>c d. (0, c, d))\<rparr>"

definition demo_cap :: nd_cmd_ars_cap where
  "demo_cap = \<lparr>cap_address = 0x10000, cap_length = 0x8000, cap_status = 0x30000, cap_max_ars_out = 4096,
     cap_clear_err_unit = 256\<rparr>"

definition demo_ars_cap :: bus_cmd where
  "demo_ars_cap = \<lparr>bc_size = 152, bc_status = 0, bc_buf = ARS_CAP demo_cap\<rparr>"

lemma demo_ars_cap_valid: "validate_ars_cap demo_ars_cap"
  by (simp add: validate_ars_cap_def demo_ars_cap_def demo_cap_def ndctl_cmd_get_firmware_status_def
      validate_clear_error_def is_power_of_2_def)

theorem clear_error_accepts_witness:
  "ndctl_bus_cmd_new_clear_error demo_bus 0x10200 0x400 demo_ars_cap =
     Some \<lparr>bc_size = 152, bc_status = 1,
           bc_buf = CLEAR_ERROR \<lparr>clr_address = 0x10200, clr_length = 0x400, clr_status = 0, clr_cleared = 0\<rparr>\<rparr>"
proof (subst clear_error_accepts [where cap = demo_cap])
  show "bc_buf demo_ars_cap = ARS_CAP demo_cap" by (simp add: demo_ars_cap_def)
qed (simp_all add: demo_ars_cap_valid demo_cap_def demo_bus_def ndctl_bus_is_cmd_supported_def sizeof_ndctl_cmd_def
    sizeof_clear_error_def)

text \<open>The range check adds in 64 bits and does not see a wrap: for every aligned address of the range,
  the length that leads around to address 0 is accepted, although the request covers all memory above.\<close>

theorem clear_error_accepts_wrapped_range:
  assumes "bc_buf ars_cap = ARS_CAP cap" and "validate_ars_cap ars_cap"
    and "ndctl_bus_is_cmd_supported bus ND_CMD_ARS_STATUS"
    and "bus_calloc bus (sizeof_ndctl_cmd + sizeof_clear_error)"
    and "cap_address cap \<le> address" and "address \<le> cap_address cap + cap_length cap"
    and "unat (cap_clear_err_unit cap) dvd unat address"
  shows "ndctl_bus_cmd_new_clear_error bus address (- address) ars_cap \<noteq> None"
proof -
  obtain k where k: "k < 32" "cap_clear_err_unit cap = 2 ^ k"
    using validate_ars_cap_D(3) [OF assms(2,1)] by blast
  have d: "2 ^ k dvd unat address" using assms(7) k by (simp add: unat_pow2_u32)
  have "(2 :: nat) ^ k dvd 2 ^ 64" by (rule le_imp_power_dvd) (use k(1) in simp)
  then have "2 ^ k dvd unat (- address)"
    using d by (auto simp: unat_minus_word intro: dvd_diff_nat)
  then have "(address OR - address) AND ucast ((2 ^ k :: u32) - 1) = (0 :: u64)"
    using d by (simp only: clear_mask_aligned [OF k(1)])
  then show ?thesis
    using assms by (auto simp: ndctl_bus_cmd_new_clear_error_def Let_def k(2))
qed

theorem clear_error_accepts_wrapped_range_witness:
  "ndctl_bus_cmd_new_clear_error demo_bus 0x10200 (- 0x10200) demo_ars_cap \<noteq> None"
proof (rule clear_error_accepts_wrapped_range [where cap = demo_cap])
  show "bc_buf demo_ars_cap = ARS_CAP demo_cap" by (simp add: demo_ars_cap_def)
qed (simp_all add: demo_ars_cap_valid demo_cap_def demo_bus_def ndctl_bus_is_cmd_supported_def)

end
