(* ===== verification/Inject.thy ===== *)
theory Inject
  imports Bus_Cmd
begin

text \<open>
  Error injection, \<open>ndctl/lib/inject.c\<close>: injecting and clearing media errors block by block, reading back the
  firmware's list of injected ranges, and the sorted list of bad blocks (\<open>bb_add_record\<close>) kept for a
  namespace.  The linked list \<open>injected_bb\<close> is a list of its entries; a new entry is inserted by the walk of
  the code and the second pass merges entries.  The abstract value of the list is the set of 512-byte blocks
  it covers.
\<close>

subsection \<open>Namespaces\<close>

record ndctl_bb =
  bb_block :: u64
  bb_count :: u64

text \<open>What the code asks of a namespace: resource and size of its personality (pfn or dax instance, if any),
  whether it is claimed by a BTT, its own resource and size, and the list of bad blocks.\<close>

record ndctl_namespace =
  ns_pfn :: "(u64 \<times> u64) option"
  ns_dax :: "(u64 \<times> u64) option"
  ns_btt :: bool
  ns_resource :: u64
  ns_raw_size :: u64
  injected_bb :: "ndctl_bb list"

definition ndctl_bus_has_error_injection :: "'d ndctl_bus \<Rightarrow> bool" where
  "ndctl_bus_has_error_injection bus =
     (if \<not> bus_has_nfit bus then False
      else ndctl_bus_is_nfit_cmd_supported bus NFIT_CMD_ARS_INJECT_SET \<and>
           ndctl_bus_is_nfit_cmd_supported bus NFIT_CMD_ARS_INJECT_GET \<and>
           ndctl_bus_is_nfit_cmd_supported bus NFIT_CMD_ARS_INJECT_CLEAR)"

definition ndctl_namespace_get_injection_bounds :: "ndctl_namespace \<Rightarrow> int + u64 \<times> u64" where
  "ndctl_namespace_get_injection_bounds ndns =
     (case ns_pfn ndns of
        Some (res, sz) \<Rightarrow> Inr (res, sz)
      | None \<Rightarrow>
          case ns_dax ndns of
            Some (res, sz) \<Rightarrow> Inr (res, sz)
          | None \<Rightarrow> if ns_btt ndns then Inl (- EOPNOTSUPP) else Inr (ns_resource ndns, ns_raw_size ndns))"

definition block_to_spa_offset :: "ndctl_namespace \<Rightarrow> u64 \<Rightarrow> u64 \<Rightarrow> int + u64 \<times> u64" where
  "block_to_spa_offset ndns block count =
     (case ndctl_namespace_get_injection_bounds ndns of
        Inl rc \<Rightarrow> Inl rc
      | Inr (ns_offset, ns_size) \<Rightarrow>
          let offset = ns_offset + block * 512; len = count * 512 in
          if offset + len > ns_offset + ns_size then Inl (- EINVAL) else Inr (offset, len))"

definition translate_status :: "u32 \<Rightarrow> int" where
  "translate_status status = (if status = 1 then - EOPNOTSUPP else if status = 2 then - EINVAL else 0)"

text \<open>The result is an \<open>int\<close>: the unit, or a negative error.\<close>

definition ndctl_namespace_get_clear_unit :: "'d ndctl_bus \<Rightarrow> ndctl_namespace \<Rightarrow> 'd \<Rightarrow> int \<times> 'd" where
  "ndctl_namespace_get_clear_unit bus ndns d =
     (case ndctl_namespace_get_injection_bounds ndns of
        Inl rc \<Rightarrow> (rc, d)
      | Inr (ns_offset, ns_size) \<Rightarrow>
          case ndctl_bus_cmd_new_ars_cap bus ns_offset ns_size of
            None \<Rightarrow> (- ENOTTY, d)
          | Some cmd \<Rightarrow>
              case bus_cmd_submit bus cmd d of (rc, cmd, d) \<Rightarrow>
                if rc < 0 then (rc, d)
                else let clear_unit = ndctl_cmd_ars_cap_get_clear_unit cmd in
                  if clear_unit = 0 then (- EINVAL, d) else (sint clear_unit, d))"

subsection \<open>Injecting and clearing errors\<close>

definition NDCTL_NS_INJECT_NOTIFY :: u32 where [simp]: "NDCTL_NS_INJECT_NOTIFY = 1"
definition NDCTL_NS_INJECT_SATURATE :: u32 where [simp]: "NDCTL_NS_INJECT_SATURATE = 2"

definition clamp_to_clear_unit :: "u32 \<Rightarrow> int \<Rightarrow> u64 \<Rightarrow> u64" where
  "clamp_to_clear_unit flags clear_unit len =
     (if flags AND NDCTL_NS_INJECT_SATURATE = 0
      then if len > word_of_int clear_unit then word_of_int clear_unit else len
      else len)"

definition ndctl_namespace_inject_one_error ::
  "'d ndctl_bus \<Rightarrow> ndctl_namespace \<Rightarrow> u32 \<Rightarrow> u64 \<Rightarrow> 'd \<Rightarrow> int \<times> 'd" where
  "ndctl_namespace_inject_one_error bus ndns flags block d =
     (case block_to_spa_offset ndns block 1 of
        Inl rc \<Rightarrow> (rc, d)
      | Inr (offset, len) \<Rightarrow>
          case ndctl_namespace_get_clear_unit bus ndns d of (clear_unit, d) \<Rightarrow>
            if clear_unit < 0 then (clear_unit, d)
            else let len = clamp_to_clear_unit flags clear_unit len in
              case ndctl_bus_cmd_new_err_inj bus of
                None \<Rightarrow> (- ENOMEM, d)
              | Some cmd \<Rightarrow>
                  case bc_buf cmd of
                    ARS_INJECT_SET pkg err_inj \<Rightarrow>
                      let err_inj = err_inj\<lparr>inj_base := offset, inj_length := len\<rparr>;
                          err_inj = (if flags AND NDCTL_NS_INJECT_NOTIFY \<noteq> 0
                                     then err_inj\<lparr>inj_options := inj_options err_inj OR 1\<rparr> else err_inj) in
                      (case bus_cmd_submit bus (cmd\<lparr>bc_buf := ARS_INJECT_SET pkg err_inj\<rparr>) d of
                         (rc, cmd, d) \<Rightarrow>
                           if rc < 0 then (rc, d)
                           else (translate_status (bus_get_firmware_status (bc_buf cmd)), d))
                  | _ \<Rightarrow> (- EINVAL, d))"

definition ndctl_namespace_uninject_one_error ::
  "'d ndctl_bus \<Rightarrow> ndctl_namespace \<Rightarrow> u32 \<Rightarrow> u64 \<Rightarrow> 'd \<Rightarrow> int \<times> 'd" where
  "ndctl_namespace_uninject_one_error bus ndns flags block d =
     (case block_to_spa_offset ndns block 1 of
        Inl rc \<Rightarrow> (rc, d)
      | Inr (offset, len) \<Rightarrow>
          case ndctl_namespace_get_clear_unit bus ndns d of (clear_unit, d) \<Rightarrow>
            if clear_unit < 0 then (clear_unit, d)
            else let len = clamp_to_clear_unit flags clear_unit len in
              case ndctl_bus_cmd_new_err_inj_clr bus of
                None \<Rightarrow> (- ENOMEM, d)
              | Some cmd \<Rightarrow>
                  case bc_buf cmd of
                    ARS_INJECT_CLEAR pkg err_inj_clr \<Rightarrow>
                      let err_inj_clr = err_inj_clr\<lparr>injclr_base := offset, injclr_length := len\<rparr> in
                      (case bus_cmd_submit bus (cmd\<lparr>bc_buf := ARS_INJECT_CLEAR pkg err_inj_clr\<rparr>) d of
                         (rc, cmd, d) \<Rightarrow>
                           if rc < 0 then (rc, d)
                           else (translate_status (bus_get_firmware_status (bc_buf cmd)), d))
                  | _ \<Rightarrow> (- EINVAL, d))"

text \<open>The loop \<open>for (i = 0; i < count; i++)\<close> over the blocks \<open>block + i\<close>, \<open>n\<close> of them left.\<close>

fun block_loop :: "(u64 \<Rightarrow> 'd \<Rightarrow> int \<times> 'd) \<Rightarrow> u64 \<Rightarrow> nat \<Rightarrow> int \<Rightarrow> 'd \<Rightarrow> int \<times> 'd" where
  "block_loop one blk 0 rc d = (rc, d)"
| "block_loop one blk (Suc n) rc d =
     (case one blk d of (rc, d) \<Rightarrow> if rc \<noteq> 0 then (rc, d) else block_loop one (blk + 1) n rc d)"

definition ndctl_namespace_inject_error2 ::
  "'d ndctl_bus \<Rightarrow> ndctl_namespace \<Rightarrow> u64 \<Rightarrow> u64 \<Rightarrow> u32 \<Rightarrow> 'd \<Rightarrow> int \<times> 'd" where
  "ndctl_namespace_inject_error2 bus ndns block count flags d =
     (if \<not> ndctl_bus_has_error_injection bus then (- EOPNOTSUPP, d)
      else if \<not> bus_has_nfit bus then (- EOPNOTSUPP, d)
      else block_loop (ndctl_namespace_inject_one_error bus ndns flags) block (unat count) (- EINVAL) d)"

definition ndctl_namespace_inject_error ::
  "'d ndctl_bus \<Rightarrow> ndctl_namespace \<Rightarrow> u64 \<Rightarrow> u64 \<Rightarrow> bool \<Rightarrow> 'd \<Rightarrow> int \<times> 'd" where
  "ndctl_namespace_inject_error bus ndns block count notify d =
     ndctl_namespace_inject_error2 bus ndns block count (if notify then NDCTL_NS_INJECT_NOTIFY else 0) d"

definition ndctl_namespace_uninject_error2 ::
  "'d ndctl_bus \<Rightarrow> ndctl_namespace \<Rightarrow> u64 \<Rightarrow> u64 \<Rightarrow> u32 \<Rightarrow> 'd \<Rightarrow> int \<times> 'd" where
  "ndctl_namespace_uninject_error2 bus ndns block count flags d =
     (if \<not> ndctl_bus_has_error_injection bus then (- EOPNOTSUPP, d)
      else if \<not> bus_has_nfit bus then (- EOPNOTSUPP, d)
      else block_loop (ndctl_namespace_uninject_one_error bus ndns flags) block (unat count) (- EINVAL) d)"

definition ndctl_namespace_uninject_error ::
  "'d ndctl_bus \<Rightarrow> ndctl_namespace \<Rightarrow> u64 \<Rightarrow> u64 \<Rightarrow> 'd \<Rightarrow> int \<times> 'd" where
  "ndctl_namespace_uninject_error bus ndns block count d =
     ndctl_namespace_uninject_error2 bus ndns block count 0 d"

subsection \<open>The list of bad blocks\<close>

text \<open>The walk for the insertion point: \<open>prev\<close> is the entry before the current one.  \<open>None\<close> is leaving the
  loop with \<open>bb\<close> not consumed.\<close>

fun bb_insert_loop :: "ndctl_bb option \<Rightarrow> ndctl_bb \<Rightarrow> ndctl_bb list \<Rightarrow> ndctl_bb list option" where
  "bb_insert_loop bb_prev bb [] = None"
| "bb_insert_loop bb_prev bb (bb_iter # rest) =
     (if bb_prev = None \<and> bb_block bb < bb_block bb_iter then Some (bb # bb_iter # rest)
      else case rest of
        [] \<Rightarrow> Some [bb_iter, bb]
      | bb_next # _ \<Rightarrow>
          if bb_block bb \<le> bb_block bb_iter \<and>
             (case bb_prev of None \<Rightarrow> False | Some p \<Rightarrow> bb_block p \<le> bb_block bb)
          then Some (bb # bb_iter # rest)
          else if bb_block bb_iter \<le> bb_block bb \<and> bb_block bb \<le> bb_block bb_next
          then Some (bb_iter # bb # rest)
          else map_option (Cons bb_iter) (bb_insert_loop (Some bb_iter) bb rest))"

text \<open>The inner \<open>do ... while (merged)\<close> for one entry, and the pass over the list.\<close>

fun bb_merge :: "ndctl_bb \<Rightarrow> ndctl_bb list \<Rightarrow> ndctl_bb \<times> ndctl_bb list" where
  "bb_merge bb_iter [] = (bb_iter, [])"
| "bb_merge bb_iter (bb_next # rest) =
     (let cur_start = bb_block bb_iter;
          next_start = bb_block bb_next;
          cur_end = bb_block bb_iter + bb_count bb_iter - 1;
          next_end = bb_block bb_next + bb_count bb_next - 1 in
      if cur_end \<ge> next_start
      then bb_merge (if next_end > cur_end then bb_iter\<lparr>bb_count := next_end - cur_start + 1\<rparr> else bb_iter) rest
      else if next_start = cur_end + 1
      then bb_merge (bb_iter\<lparr>bb_count := next_end - cur_start + 1\<rparr>) rest
      else (bb_iter, bb_next # rest))"

lemma bb_merge_length: "length (snd (bb_merge b bs)) \<le> length bs"
  by (induction b bs rule: bb_merge.induct) (auto simp: Let_def le_SucI)

function bb_merge_pass :: "ndctl_bb list \<Rightarrow> ndctl_bb list" where
  "bb_merge_pass [] = []"
| "bb_merge_pass (b # bs) = fst (bb_merge b bs) # bb_merge_pass (snd (bb_merge b bs))"
  by pat_completeness auto
termination
  by (relation "measure length") (auto simp: less_Suc_eq_le bb_merge_length)

text \<open>\<open>alloc\<close> says whether \<open>calloc\<close> succeeds.\<close>

definition bb_add_record :: "bool \<Rightarrow> ndctl_bb list \<Rightarrow> u64 \<Rightarrow> u64 \<Rightarrow> int \<times> ndctl_bb list" where
  "bb_add_record alloc h block count =
     (if \<not> alloc then (- ENOMEM, h)
      else let bb = \<lparr>bb_block = block, bb_count = count\<rparr> in
        if h = [] then (0, [bb])
        else case bb_insert_loop None bb h of
          None \<Rightarrow> (- ENXIO, h)
        | Some h \<Rightarrow> (0, bb_merge_pass h))"

text \<open>The records from \<open>i\<close> on, \<open>n\<close> of them left.\<close>

fun status_to_bb_loop ::
  "(nat \<Rightarrow> bool) \<Rightarrow> nd_cmd_ars_err_inj_stat \<Rightarrow> u64 \<Rightarrow> u64 \<Rightarrow> nat \<Rightarrow> nat \<Rightarrow> int \<Rightarrow> ndctl_bb list \<Rightarrow> int \<times> ndctl_bb list" where
  "status_to_bb_loop alloc stat ns_spa ns_size 0 i rc h = (rc, h)"
| "status_to_bb_loop alloc stat ns_spa ns_size (Suc n) i rc h =
     (let rec_off = stat_base (stat_record stat i); rec_len = stat_length (stat_record stat i) in
      if rec_off < ns_spa then status_to_bb_loop alloc stat ns_spa ns_size n (i + 1) rc h
      else if rec_off \<ge> ns_spa + ns_size then status_to_bb_loop alloc stat ns_spa ns_size n (i + 1) rc h
      else let ns_off = rec_off - ns_spa;
               block = ALIGN_DOWN ns_off 512 div 512;
               start_pad = ns_off - (block * 512);
               count = ALIGN (start_pad + rec_len) 512 div 512 in
        case bb_add_record (alloc i) h block count of (rc, h) \<Rightarrow>
          if rc \<noteq> 0 then (rc, h) else status_to_bb_loop alloc stat ns_spa ns_size n (i + 1) rc h)"

definition injection_status_to_bb ::
  "(nat \<Rightarrow> bool) \<Rightarrow> ndctl_bb list \<Rightarrow> nd_cmd_ars_err_inj_stat \<Rightarrow> u64 \<Rightarrow> u64 \<Rightarrow> int \<times> ndctl_bb list" where
  "injection_status_to_bb alloc h stat ns_spa ns_size =
     status_to_bb_loop alloc stat ns_spa ns_size (unat (stat_rec_count stat)) 0 0 h"

definition ndctl_namespace_injection_status ::
  "'d ndctl_bus \<Rightarrow> (nat \<Rightarrow> bool) \<Rightarrow> ndctl_namespace \<Rightarrow> 'd \<Rightarrow> int \<times> ndctl_namespace \<times> 'd" where
  "ndctl_namespace_injection_status bus alloc ndns d =
     (if \<not> ndctl_bus_has_error_injection bus then (- EOPNOTSUPP, ndns, d)
      else if \<not> bus_has_nfit bus then (- EOPNOTSUPP, ndns, d)
      else case ndctl_namespace_get_injection_bounds ndns of
        Inl rc \<Rightarrow> (rc, ndns, d)
      | Inr (ns_offset, ns_size) \<Rightarrow>
          case ndctl_bus_cmd_new_ars_cap bus ns_offset ns_size of
            None \<Rightarrow> (- ENOTTY, ndns, d)
          | Some cmd \<Rightarrow>
              case bus_cmd_submit bus cmd d of (rc, cmd, d) \<Rightarrow>
                if rc < 0 then (rc, ndns, d)
                else let buf_size = ndctl_cmd_ars_cap_get_size cmd in
                  if buf_size = 0 then (- EINVAL, ndns, d)
                  else case ndctl_bus_cmd_new_err_inj_stat bus buf_size of
                    None \<Rightarrow> (- ENOMEM, ndns, d)
                  | Some cmd \<Rightarrow>
                      case bus_cmd_submit bus cmd d of (rc, cmd, d) \<Rightarrow>
                        if rc < 0 then (rc, ndns, d)
                        else case bc_buf cmd of
                          ARS_INJECT_GET pkg err_inj_stat \<Rightarrow>
                            (case injection_status_to_bb alloc (injected_bb ndns) err_inj_stat ns_offset ns_size of
                               (rc, h) \<Rightarrow> (rc, ndns\<lparr>injected_bb := h\<rparr>, d))
                        | _ \<Rightarrow> (- EINVAL, ndns, d))"

text \<open>The iterator over the list (by position), and the accessors, where \<open>None\<close> is the NULL entry.\<close>

definition ndctl_namespace_injection_get_first_bb :: "ndctl_namespace \<Rightarrow> nat option" where
  "ndctl_namespace_injection_get_first_bb ndns = (if injected_bb ndns = [] then None else Some 0)"

definition ndctl_namespace_injection_get_next_bb :: "ndctl_namespace \<Rightarrow> nat \<Rightarrow> nat option" where
  "ndctl_namespace_injection_get_next_bb ndns i =
     (if i + 1 < length (injected_bb ndns) then Some (i + 1) else None)"

definition ndctl_bb_get_block :: "ndctl_bb option \<Rightarrow> u64" where
  "ndctl_bb_get_block bb = (case bb of Some b \<Rightarrow> bb_block b | None \<Rightarrow> ULLONG_MAX)"

definition ndctl_bb_get_count :: "ndctl_bb option \<Rightarrow> u64" where
  "ndctl_bb_get_count bb = (case bb of Some b \<Rightarrow> bb_count b | None \<Rightarrow> ULLONG_MAX)"

subsection \<open>The list as a set of blocks\<close>

definition bb_start :: "ndctl_bb \<Rightarrow> nat" where "bb_start b = unat (bb_block b)"
definition bb_stop :: "ndctl_bb \<Rightarrow> nat" where "bb_stop b = unat (bb_block b) + unat (bb_count b)"
definition bb_span :: "ndctl_bb \<Rightarrow> nat set" where "bb_span b = {bb_start b..<bb_stop b}"
definition bb_blocks :: "ndctl_bb list \<Rightarrow> nat set" where "bb_blocks h = (\<Union>b \<in> set h. bb_span b)"

text \<open>An entry covers at least one block and does not wrap; a list is normal when its entries are sorted,
  disjoint and not adjacent.\<close>

definition bb_ok :: "ndctl_bb \<Rightarrow> bool" where "bb_ok b = (0 < unat (bb_count b) \<and> bb_stop b < 2 ^ 64)"
definition bb_sorted :: "ndctl_bb list \<Rightarrow> bool" where "bb_sorted h = sorted_wrt (\<lambda>a b. bb_start a \<le> bb_start b) h"
definition bb_normal :: "ndctl_bb list \<Rightarrow> bool" where
  "bb_normal h = (list_all bb_ok h \<and> sorted_wrt (\<lambda>a b. bb_stop a < bb_start b) h)"

lemma bb_start_less_stop: "bb_ok b \<Longrightarrow> bb_start b < bb_stop b"
  by (simp add: bb_ok_def bb_start_def bb_stop_def)

lemma bb_blocks_Cons [simp]: "bb_blocks (b # h) = bb_span b \<union> bb_blocks h"
  by (simp add: bb_blocks_def)

lemma bb_blocks_Nil [simp]: "bb_blocks [] = {}"
  by (simp add: bb_blocks_def)

lemma bb_blocks_append [simp]: "bb_blocks (g @ h) = bb_blocks g \<union> bb_blocks h"
  by (simp add: bb_blocks_def)

lemma bb_normal_Cons:
  "bb_normal (b # h) \<longleftrightarrow> bb_ok b \<and> (\<forall>c \<in> set h. bb_stop b < bb_start c) \<and> bb_normal h"
  by (auto simp: bb_normal_def)

lemma bb_normal_sorted: "bb_normal h \<Longrightarrow> bb_sorted h"
proof (induction h)
  case (Cons b h)
  then have "bb_start b \<le> bb_start c" if "c \<in> set h" for c
    using that bb_start_less_stop [of b] by (fastforce simp: bb_normal_Cons)
  then show ?case using Cons by (simp add: bb_normal_Cons bb_sorted_def)
qed (simp add: bb_sorted_def)

lemma bb_insert_loop_spec:
  assumes "bb_sorted h" and "h \<noteq> []" and "prev \<noteq> None \<Longrightarrow> bb_start (hd h) \<le> bb_start bb"
  shows "\<exists>xs ys. h = xs @ ys \<and> bb_insert_loop prev bb h = Some (xs @ bb # ys) \<and>
    (\<forall>x \<in> set xs. bb_start x \<le> bb_start bb) \<and> (\<forall>y \<in> set ys. bb_start bb \<le> bb_start y)"
  using assms
proof (induction prev bb h rule: bb_insert_loop.induct)
  case (1 prev bb)
  then show ?case by simp
next
  case (2 prev bb it rest)
  note conv = bb_start_def word_less_nat_alt word_le_nat_alt
  have srt: "bb_sorted rest" "\<forall>y \<in> set rest. bb_start it \<le> bb_start y"
    using "2.prems"(1) by (auto simp: bb_sorted_def)
  show ?case
  proof (cases "prev = None \<and> bb_block bb < bb_block it")
    case True
    then have "bb_start bb \<le> bb_start y" if "y \<in> set (it # rest)" for y
      using srt(2) that by (auto simp: conv)
    with True show ?thesis by (intro exI [of _ "[]"] exI [of _ "it # rest"]) auto
  next
    case False
    then have it: "bb_start it \<le> bb_start bb"
      using "2.prems"(3) by (auto simp: conv)
    show ?thesis
    proof (cases rest)
      case Nil
      with False it show ?thesis by (intro exI [of _ "[it]"] exI [of _ "[]"]) auto
    next
      case (Cons nx more)
      show ?thesis
      proof (cases "bb_block bb \<le> bb_block nx")
        case True
        have le: "bb_start bb \<le> bb_start y" if "y \<in> set rest" for y
          using True srt(1) that Cons by (auto simp: bb_sorted_def conv)
        show ?thesis
        proof (cases "bb_block bb \<le> bb_block it \<and> (case prev of None \<Rightarrow> False | Some p \<Rightarrow> bb_block p \<le> bb_block bb)")
          case left: True
          then have "bb_start bb \<le> bb_start it" by (simp add: conv)
          with le left False Cons show ?thesis
            by (intro exI [of _ "[]"] exI [of _ "it # rest"]) auto
        next
          case right: False
          with le False Cons True it show ?thesis
            by (intro exI [of _ "[it]"] exI [of _ "rest"]) (auto simp: conv)
        qed
      next
        case past: False
        then have gt: "bb_start nx < bb_start bb" by (simp add: conv)
        then have nl: "\<not> (bb_block bb \<le> bb_block it)"
          using srt(2) Cons by (auto simp: conv)
        have "\<exists>xs ys. rest = xs @ ys \<and> bb_insert_loop (Some it) bb rest = Some (xs @ bb # ys) \<and>
            (\<forall>x \<in> set xs. bb_start x \<le> bb_start bb) \<and> (\<forall>y \<in> set ys. bb_start bb \<le> bb_start y)"
          using "2.IH" [OF False Cons] nl past srt(1) gt Cons by auto
        then obtain xs ys where "rest = xs @ ys" "bb_insert_loop (Some it) bb rest = Some (xs @ bb # ys)"
          "\<forall>x \<in> set xs. bb_start x \<le> bb_start bb" "\<forall>y \<in> set ys. bb_start bb \<le> bb_start y" by blast
        with False Cons nl past it show ?thesis
          by (intro exI [of _ "it # xs"] exI [of _ ys]) auto
      qed
    qed
  qed
qed

lemma bb_last: "bb_ok b \<Longrightarrow> unat (bb_block b + bb_count b - 1) = bb_stop b - 1"
proof -
  assume ok: "bb_ok b"
  then have "unat (bb_block b + bb_count b) = bb_stop b"
    by (simp add: bb_ok_def bb_stop_def unat_plus_if')
  moreover have "(1 :: u64) \<le> bb_block b + bb_count b"
    using ok calculation by (auto simp: word_le_nat_alt bb_ok_def bb_stop_def)
  ultimately show ?thesis by (simp add: unat_sub)
qed

lemma bb_extend:
  assumes "bb_ok a" and "bb_ok b" and "bb_start a \<le> bb_start b"
  defines "c \<equiv> a\<lparr>bb_count := (bb_block b + bb_count b - 1) - bb_block a + 1\<rparr>"
  shows "bb_ok c" and "bb_start c = bb_start a" and "bb_stop c = bb_stop b"
proof -
  have lt: "bb_start b < bb_stop b" "bb_stop b < 2 ^ 64"
    using assms(2) bb_start_less_stop [of b] by (auto simp: bb_ok_def)
  then have "bb_block a \<le> bb_block b + bb_count b - 1"
    using assms(3) by (simp add: word_le_nat_alt bb_last [OF assms(2)] bb_start_def)
  then have "unat ((bb_block b + bb_count b - 1) - bb_block a) = bb_stop b - 1 - bb_start a"
    by (simp add: unat_sub bb_last [OF assms(2)] bb_start_def)
  then have "unat ((bb_block b + bb_count b - 1) - bb_block a + 1) = bb_stop b - 1 - bb_start a + 1"
    using lt assms(3) unat_plus_if' [of "(bb_block b + bb_count b - 1) - bb_block a" 1]
    by (simp only: unat_1) simp
  then have cnt: "unat (bb_count c) = bb_stop b - bb_start a"
    using lt assms(3) by (simp add: c_def)
  show "bb_start c = bb_start a" by (simp add: c_def bb_start_def)
  show stop: "bb_stop c = bb_stop b"
  proof -
    have "bb_block c = bb_block a" by (simp add: c_def)
    then show ?thesis using cnt lt assms(3) by (simp only: bb_stop_def [of c]) (simp add: bb_start_def)
  qed
  show "bb_ok c" using cnt lt assms(3) by (simp add: bb_ok_def stop)
qed

lemma bb_merge_spec:
  assumes "bb_ok b" and "list_all bb_ok bs" and "bb_sorted (b # bs)" and "bb_merge b bs = (c, cs)"
  shows "bb_ok c \<and> bb_start c = bb_start b \<and> bb_span c \<union> bb_blocks cs = bb_span b \<union> bb_blocks bs \<and>
    (\<forall>y \<in> set cs. bb_stop c < bb_start y) \<and> list_all bb_ok cs \<and> bb_sorted cs"
  using assms
proof (induction b bs rule: bb_merge.induct)
  case (1 b)
  then show ?case by (auto simp: bb_sorted_def)
next
  case (2 b nx rest)
  define e where "e = b\<lparr>bb_count := (bb_block nx + bb_count nx - 1) - bb_block b + 1\<rparr>"
  have ok: "bb_ok b" "bb_ok nx" "list_all bb_ok rest" "bb_start b \<le> bb_start nx"
    and srt: "bb_sorted (nx # rest)" "bb_sorted (b # rest)"
    using "2.prems" by (auto simp: bb_sorted_def)
  note last = bb_last [OF ok(1)] bb_last [OF ok(2)]
  note pos = bb_start_less_stop [OF ok(1)] bb_start_less_stop [OF ok(2)]
  note ext = bb_extend [OF ok(1,2,4), folded e_def]
  have srt': "bb_sorted (e # rest)" using srt(2) ext(2) by (simp add: bb_sorted_def)
  have ge: "bb_block b + bb_count b - 1 \<ge> bb_block nx \<longleftrightarrow> bb_start nx < bb_stop b"
    using pos by (auto simp: word_le_nat_alt last bb_start_def)
  have gt: "bb_block nx + bb_count nx - 1 > bb_block b + bb_count b - 1 \<longleftrightarrow> bb_stop b < bb_stop nx"
    using pos by (auto simp: word_less_nat_alt last)
  have adj: "bb_block nx = bb_block b + bb_count b - 1 + 1 \<longleftrightarrow> bb_start nx = bb_stop b"
    using ok(1) by (simp add: word_unat_eq_iff bb_start_def bb_stop_def bb_ok_def unat_plus_if')
  have step: "bb_merge b (nx # rest) =
      (if bb_start nx < bb_stop b then bb_merge (if bb_stop b < bb_stop nx then e else b) rest
       else if bb_start nx = bb_stop b then bb_merge e rest else (b, nx # rest))"
    by (simp only: bb_merge.simps Let_def ge gt adj e_def)
  note IH1 = "2.IH"(1) [OF refl refl refl refl, unfolded ge gt, folded e_def]
  note IH2 = "2.IH"(2) [OF refl refl refl refl, unfolded ge gt adj, folded e_def]
  note prem = "2.prems"(4) [unfolded step]
  consider (inside) "bb_start nx < bb_stop b" "bb_stop nx \<le> bb_stop b"
    | (extend) "bb_start nx \<le> bb_stop b" "bb_stop b < bb_stop nx"
    | (apart) "bb_stop b < bb_start nx"
    using pos by linarith
  then show ?case
  proof cases
    case inside
    then have "bb_merge b rest = (c, cs)"
      using prem by (simp split: if_splits)
    moreover have "bb_span nx \<subseteq> bb_span b" using inside ok(4) by (auto simp: bb_span_def)
    ultimately show ?thesis
      using IH1 inside ok srt(2) by auto
  next
    case extend
    then have m: "bb_merge e rest = (c, cs)"
      using prem by (auto split: if_splits)
    have "bb_span e = bb_span b \<union> bb_span nx"
      using extend pos ok(4) by (auto simp: bb_span_def ext)
    then show ?thesis
      using IH1 IH2 m extend ok(3) ext srt' by (cases "bb_start nx < bb_stop b") auto
  next
    case apart
    then have "c = b \<and> cs = nx # rest"
      using prem by simp
    then show ?thesis using apart ok srt by (auto simp: bb_sorted_def)
  qed
qed

lemma bb_merge_pass_spec:
  "list_all bb_ok h \<Longrightarrow> bb_sorted h \<Longrightarrow>
    bb_normal (bb_merge_pass h) \<and> bb_blocks (bb_merge_pass h) = bb_blocks h"
proof (induction h rule: bb_merge_pass.induct)
  case 1
  then show ?case by (simp add: bb_normal_def)
next
  case (2 b bs)
  obtain c cs where m: "bb_merge b bs = (c, cs)" by fastforce
  have spec: "bb_ok c" "bb_span c \<union> bb_blocks cs = bb_span b \<union> bb_blocks bs"
    "\<forall>y \<in> set cs. bb_stop c < bb_start y" "list_all bb_ok cs" "bb_sorted cs"
    using bb_merge_spec [OF _ _ _ m] "2.prems" by auto
  then have IH: "bb_normal (bb_merge_pass cs)" "bb_blocks (bb_merge_pass cs) = bb_blocks cs"
    using "2.IH" m by auto
  have "bb_stop c < bb_start y" if y: "y \<in> set (bb_merge_pass cs)" for y
  proof -
    have "bb_ok y" using y IH(1) by (simp add: bb_normal_def list_all_iff)
    then have "bb_start y \<in> bb_blocks (bb_merge_pass cs)"
      using y by (force simp: bb_blocks_def bb_span_def dest: bb_start_less_stop)
    then obtain z where "z \<in> set cs" "bb_start y \<in> bb_span z" unfolding IH(2) by (auto simp: bb_blocks_def)
    then show ?thesis using spec(3) by (auto simp: bb_span_def)
  qed
  then show ?case using IH spec by (simp add: m bb_normal_Cons)
qed

lemma bb_add_record_spec:
  assumes "bb_normal h" and "bb_ok \<lparr>bb_block = block, bb_count = count\<rparr>"
  shows "fst (bb_add_record True h block count) = 0 \<and> bb_normal (snd (bb_add_record True h block count)) \<and>
    bb_blocks (snd (bb_add_record True h block count)) = bb_blocks h \<union> bb_span \<lparr>bb_block = block, bb_count = count\<rparr>"
proof (cases "h = []")
  case True
  then show ?thesis using assms by (simp add: bb_add_record_def Let_def bb_normal_def)
next
  case False
  let ?b = "\<lparr>bb_block = block, bb_count = count\<rparr>"
  obtain xs ys where ins: "h = xs @ ys" "bb_insert_loop None ?b h = Some (xs @ ?b # ys)"
    "\<forall>x \<in> set xs. bb_start x \<le> bb_start ?b" "\<forall>y \<in> set ys. bb_start ?b \<le> bb_start y"
    using bb_insert_loop_spec [OF bb_normal_sorted [OF assms(1)] False, of None ?b] by blast
  have "bb_sorted (xs @ ?b # ys)"
    using bb_normal_sorted [OF assms(1)] ins by (auto simp: bb_sorted_def sorted_wrt_append)
  moreover have "list_all bb_ok (xs @ ?b # ys)"
    using assms ins(1) by (simp add: bb_normal_def)
  ultimately show ?thesis
    using bb_merge_pass_spec [of "xs @ ?b # ys"] ins(1,2) False
    by (auto simp: bb_add_record_def Let_def)
qed

lemma bb_eqI: "bb_start a = bb_start b \<Longrightarrow> bb_stop a = bb_stop b \<Longrightarrow> a = (b :: ndctl_bb)"
  by (cases a; cases b) (simp add: bb_start_def bb_stop_def word_unat_eq_iff)

lemma bb_normal_first:
  assumes "bb_normal (b # h)" and "x \<in> bb_blocks (b # h)"
  shows "bb_start b \<le> x" and "x \<noteq> bb_stop b" and "bb_stop b \<le> x \<Longrightarrow> x \<in> bb_blocks h"
    and "x \<in> bb_blocks h \<Longrightarrow> x \<notin> bb_span b"
  using assms bb_start_less_stop [of b]
  by (fastforce simp: bb_normal_Cons bb_blocks_def bb_span_def)+

lemma bb_normal_stop:
  assumes "bb_normal (b # h)" and "bb_start b \<le> n" and "n \<notin> bb_blocks (b # h)"
    and "\<And>m. bb_start b \<le> m \<Longrightarrow> m < n \<Longrightarrow> m \<in> bb_blocks (b # h)"
  shows "n = bb_stop b"
proof (rule ccontr)
  assume "n \<noteq> bb_stop b"
  moreover have "bb_stop b \<le> n" using assms(2,3) by (auto simp: bb_span_def not_less)
  ultimately have "bb_stop b \<in> bb_blocks (b # h)"
    using assms(1,4) bb_start_less_stop [of b] by (simp add: bb_normal_Cons)
  then show False using bb_normal_first(2) [OF assms(1)] by blast
qed

lemma bb_normal_stop_free: "bb_normal (b # h) \<Longrightarrow> bb_stop b \<notin> bb_blocks (b # h)"
  using bb_normal_first(2) by blast

lemma bb_normal_canonical: "bb_normal g \<Longrightarrow> bb_normal h \<Longrightarrow> bb_blocks g = bb_blocks h \<Longrightarrow> g = h"
proof (induction g arbitrary: h)
  case Nil
  then show ?case
    by (cases h) (auto simp: bb_normal_Cons bb_span_def dest: bb_start_less_stop)
next
  case (Cons a g)
  have start_in: "bb_start b \<in> bb_blocks (b # l)" if "bb_normal (b # l)" for b l
    using that bb_start_less_stop [of b] by (simp add: bb_normal_Cons bb_span_def)
  from Cons.prems obtain b l where h: "h = b # l"
    using start_in [of a g] by (cases h) auto
  note nb = Cons.prems(2) [unfolded h] and eq = Cons.prems(3) [unfolded h]
  have st: "bb_start a = bb_start b"
    using bb_normal_first(1) [OF Cons.prems(1), of "bb_start b"] bb_normal_first(1) [OF nb, of "bb_start a"]
      start_in [OF Cons.prems(1)] start_in [OF nb] eq by (simp del: bb_blocks_Cons)
  have "bb_stop a = bb_stop b"
  proof (rule bb_normal_stop [OF nb])
    show "bb_start b \<le> bb_stop a" using st Cons.prems(1) bb_start_less_stop [of a] by (simp add: bb_normal_Cons)
    show "bb_stop a \<notin> bb_blocks (b # l)" using bb_normal_stop_free [OF Cons.prems(1)] eq by (simp del: bb_blocks_Cons)
    fix m assume "bb_start b \<le> m" "m < bb_stop a"
    then have "m \<in> bb_blocks (a # g)" using st by (simp add: bb_span_def)
    then show "m \<in> bb_blocks (b # l)" using eq by (simp del: bb_blocks_Cons)
  qed
  with st have ab: "a = b" by (rule bb_eqI)
  have "bb_blocks g = bb_blocks l"
    using bb_normal_first(4) [OF Cons.prems(1)] bb_normal_first(4) [OF nb] eq ab by auto
  then show ?case using Cons.IH [of l] Cons.prems(1) nb h ab by (simp add: bb_normal_Cons)
qed

text \<open>The interface of a cover: a collection with an invariant, whose abstract value is a set, to which
  records are added one by one.  When the representation of a set is unique, the collection depends neither on
  the order nor on the repetition of the records.\<close>

locale cover_list =
  fixes add :: "'s \<Rightarrow> 'r \<Rightarrow> 's" and inv :: "'s \<Rightarrow> bool" and abs :: "'s \<Rightarrow> 'b set"
    and ok :: "'r \<Rightarrow> bool" and cover :: "'r \<Rightarrow> 'b set"
  assumes add_inv: "inv s \<Longrightarrow> ok r \<Longrightarrow> inv (add s r)"
    and add_abs: "inv s \<Longrightarrow> ok r \<Longrightarrow> abs (add s r) = abs s \<union> cover r"
    and canonical: "inv s \<Longrightarrow> inv t \<Longrightarrow> abs s = abs t \<Longrightarrow> s = t"
begin

lemma foldl_cover:
  "inv s \<Longrightarrow> \<forall>r \<in> set rs. ok r \<Longrightarrow>
    inv (foldl add s rs) \<and> abs (foldl add s rs) = abs s \<union> (\<Union>r \<in> set rs. cover r)"
  by (induction rs arbitrary: s) (auto simp: add_inv add_abs)

lemma foldl_order:
  assumes "inv s" and "\<forall>r \<in> set rs. ok r" and "set rs = set qs"
  shows "foldl add s rs = foldl add s qs"
  using foldl_cover [of s rs] foldl_cover [of s qs] assms by (intro canonical) auto

lemma foldl_again:
  assumes "inv s" and "\<forall>r \<in> set rs. ok r"
  shows "foldl add (foldl add s rs) rs = foldl add s rs"
proof -
  note f = foldl_cover [OF assms]
  then show ?thesis using foldl_cover [of "foldl add s rs" rs] assms(2) by (intro canonical) auto
qed

end

definition bb_add :: "ndctl_bb list \<Rightarrow> ndctl_bb \<Rightarrow> ndctl_bb list" where
  "bb_add h b = snd (bb_add_record True h (bb_block b) (bb_count b))"

interpretation bl: cover_list bb_add bb_normal bb_blocks bb_ok bb_span
proof
  show "bb_normal (bb_add s r)" and "bb_blocks (bb_add s r) = bb_blocks s \<union> bb_span r"
    if "bb_normal s" "bb_ok r" for s r
    using bb_add_record_spec [of s "bb_block r" "bb_count r"] that by (cases r; simp add: bb_add_def)+
qed (rule bb_normal_canonical)

subsection \<open>Reading back the injected ranges\<close>

definition rec_in_ns :: "u64 \<Rightarrow> u64 \<Rightarrow> nd_error_stat_query_record \<Rightarrow> bool" where
  "rec_in_ns ns_spa ns_size r = (ns_spa \<le> stat_base r \<and> stat_base r < ns_spa + ns_size)"

definition rec_bb :: "u64 \<Rightarrow> nd_error_stat_query_record \<Rightarrow> ndctl_bb" where
  "rec_bb ns_spa r =
     (let ns_off = stat_base r - ns_spa; block = ALIGN_DOWN ns_off 512 div 512; start_pad = ns_off - block * 512
      in \<lparr>bb_block = block, bb_count = ALIGN (start_pad + stat_length r) 512 div 512\<rparr>)"

text \<open>A record the list can take: it names at least one byte and ends well below the top of the address space;
  \<open>rec_touched\<close> is the set of 512-byte blocks, counted from the start of the namespace, that hold one of its bytes.\<close>

definition rec_fits :: "nd_error_stat_query_record \<Rightarrow> bool" where
  "rec_fits r = (0 < unat (stat_length r) \<and> unat (stat_base r) + unat (stat_length r) + 512 < 2 ^ 64)"

definition rec_touched :: "u64 \<Rightarrow> nd_error_stat_query_record \<Rightarrow> nat set" where
  "rec_touched ns_spa r =
     {(a - unat ns_spa) div 512 |a. unat (stat_base r) \<le> a \<and> a < unat (stat_base r) + unat (stat_length r)}"

lemma blocks_of_bytes:
  assumes "0 < n"
  shows "{(p + j) div 512 |j. j < n} = {p div 512..<p div 512 + (p mod 512 + n + 511) div (512 :: nat)}"
proof -
  have top: "p div 512 + (p mod 512 + n + 511) div 512 = (p + n + 511) div 512"
    by (metis add.assoc div_mult_mod_eq div_mult_self3 zero_neq_numeral)
  have "(\<exists>j < n. x = (p + j) div 512) \<longleftrightarrow> p div 512 \<le> x \<and> x < (p + n + 511) div 512" for x
  proof
    assume "\<exists>j < n. x = (p + j) div 512"
    then obtain j where j: "j < n" "x = (p + j) div 512" by blast
    then show "p div 512 \<le> x \<and> x < (p + n + 511) div 512"
      using div_le_mono [of p "p + j" 512] by simp
  next
    assume "p div 512 \<le> x \<and> x < (p + n + 511) div 512"
    then have "p div 512 \<le> x" "512 * x < p + n" by linarith+
    then have "x = (p + (512 * x - p)) div 512 \<and> 512 * x - p < n"
      using assms by (cases "p \<le> 512 * x") auto
    then show "\<exists>j < n. x = (p + j) div 512" by blast
  qed
  then show ?thesis unfolding top by (auto simp: set_eq_iff)
qed

lemma rec_bb_spec:
  assumes "rec_in_ns ns_spa ns_size r" and "rec_fits r"
  shows "bb_ok (rec_bb ns_spa r) \<and> bb_span (rec_bb ns_spa r) = rec_touched ns_spa r"
proof -
  define p where "p = unat (stat_base r) - unat ns_spa"
  define n where "n = unat (stat_length r)"
  have le: "ns_spa \<le> stat_base r" using assms(1) by (simp add: rec_in_ns_def)
  have bnd: "p + n + 512 < 18446744073709551616" "0 < n"
    using assms(2) diff_le_self [of "unat (stat_base r)" "unat ns_spa"]
    by (auto simp: p_def n_def rec_fits_def simp del: diff_le_self)
  have off: "unat (stat_base r - ns_spa) = p" using le by (simp add: unat_sub p_def)
  let ?blk = "ALIGN_DOWN (stat_base r - ns_spa) 512 div 512"
  have blk: "unat ?blk = p div 512"
    using ALIGN_DOWN_unat [of 9 "stat_base r - ns_spa"] bnd off by (simp add: unat_div_distrib)
  have "unat (?blk * 512) = p div 512 * 512"
    using blk bnd by (simp add: unat_word_ariths)
  then have "unat (stat_base r - ns_spa - ?blk * 512) = p mod 512"
    using off by (subst unat_sub) (simp_all add: word_le_nat_alt minus_div_mult_eq_mod)
  then have "unat (stat_base r - ns_spa - ?blk * 512 + stat_length r) = p mod 512 + n"
    using bnd mod_less_eq_dividend [of p 512] by (subst unat_plus_if') (simp add: n_def)
  then have cnt: "unat (bb_count (rec_bb ns_spa r)) = (p mod 512 + n + 511) div 512"
    using ALIGN_unat [of 9 "stat_base r - ns_spa - ?blk * 512 + stat_length r"] bnd mod_less_eq_dividend [of p 512]
    by (simp add: rec_bb_def Let_def unat_div_distrib)
  have start: "bb_start (rec_bb ns_spa r) = p div 512"
    using blk by (simp add: rec_bb_def Let_def bb_start_def)
  have stop: "bb_stop (rec_bb ns_spa r) = p div 512 + (p mod 512 + n + 511) div 512"
    using start cnt by (simp add: bb_stop_def bb_start_def)
  have "rec_touched ns_spa r = {(p + j) div 512 |j. j < n}"
  proof -
    have le': "unat ns_spa \<le> unat (stat_base r)" using le by (simp add: word_le_nat_alt)
    have "(\<exists>a. x = (a - unat ns_spa) div 512 \<and> unat (stat_base r) \<le> a \<and> a < unat (stat_base r) + n)
        \<longleftrightarrow> (\<exists>j. x = (p + j) div 512 \<and> j < n)" (is "(\<exists>a. ?P a) \<longleftrightarrow> (\<exists>j. ?Q j)") for x
    proof
      assume "\<exists>a. ?P a"
      then obtain a where "?P a" by blast
      then have "?Q (a - unat (stat_base r))" using le' by (auto simp: p_def)
      then show "\<exists>j. ?Q j" by blast
    next
      assume "\<exists>j. ?Q j"
      then obtain j where "?Q j" by blast
      then have "?P (unat (stat_base r) + j)" using le' by (simp add: p_def)
      then show "\<exists>a. ?P a" by blast
    qed
    then show ?thesis by (simp add: rec_touched_def n_def [symmetric])
  qed
  then have "bb_span (rec_bb ns_spa r) = rec_touched ns_spa r"
    using blocks_of_bytes [OF bnd(2), of p] by (simp add: bb_span_def start stop)
  moreover have "0 < (p mod 512 + n + 511) div 512" using bnd(2) by simp
  ultimately show ?thesis using bnd(1) by (simp add: bb_ok_def cnt stop)
qed

definition stat_recs :: "nd_cmd_ars_err_inj_stat \<Rightarrow> nd_error_stat_query_record list" where
  "stat_recs stat = map (stat_record stat) [0..<unat (stat_rec_count stat)]"

text \<open>The records of a status that the namespace keeps, as entries of the list.\<close>

definition ns_recs :: "u64 \<Rightarrow> u64 \<Rightarrow> nd_error_stat_query_record list \<Rightarrow> ndctl_bb list" where
  "ns_recs ns_spa ns_size rs = map (rec_bb ns_spa) (filter (rec_in_ns ns_spa ns_size) rs)"

definition stat_fits :: "u64 \<Rightarrow> u64 \<Rightarrow> nd_cmd_ars_err_inj_stat \<Rightarrow> bool" where
  "stat_fits ns_spa ns_size stat = (\<forall>r \<in> set (stat_recs stat). rec_in_ns ns_spa ns_size r \<longrightarrow> rec_fits r)"

lemma ns_recs_ok: "stat_fits ns_spa ns_size stat \<Longrightarrow> \<forall>b \<in> set (ns_recs ns_spa ns_size (stat_recs stat)). bb_ok b"
  using rec_bb_spec by (auto simp: stat_fits_def ns_recs_def)

lemma status_to_bb_loop_fold:
  "bb_normal h \<Longrightarrow> \<forall>k < i + n. rec_in_ns ns_spa ns_size (stat_record stat k) \<longrightarrow> rec_fits (stat_record stat k) \<Longrightarrow>
    status_to_bb_loop (\<lambda>_. True) stat ns_spa ns_size n i 0 h =
      (0, foldl bb_add h (ns_recs ns_spa ns_size (map (stat_record stat) [i..<i + n])))"
proof (induction n arbitrary: i h)
  case 0
  then show ?case by (simp add: ns_recs_def)
next
  case (Suc n)
  let ?r = "stat_record stat i"
  have up: "[i..<i + Suc n] = i # [Suc i..<Suc i + n]" by (simp add: upt_conv_Cons)
  have IH: "status_to_bb_loop (\<lambda>_. True) stat ns_spa ns_size n (i + 1) 0 h' =
      (0, foldl bb_add h' (ns_recs ns_spa ns_size (map (stat_record stat) [Suc i..<Suc i + n])))"
    if "bb_normal h'" for h'
    using Suc.IH [OF that, of "i + 1"] Suc.prems(2) by simp
  show ?case
  proof (cases "rec_in_ns ns_spa ns_size ?r")
    case True
    then have ok: "bb_ok (rec_bb ns_spa ?r)" using rec_bb_spec [OF True] Suc.prems(2) by simp
    have "fst (bb_add_record True h (bb_block (rec_bb ns_spa ?r)) (bb_count (rec_bb ns_spa ?r))) = 0"
      using bb_add_record_spec [OF Suc.prems(1)] ok by (cases "rec_bb ns_spa ?r") simp
    then have add: "bb_add_record True h (bb_block (rec_bb ns_spa ?r)) (bb_count (rec_bb ns_spa ?r))
        = (0, bb_add h (rec_bb ns_spa ?r))"
      by (simp add: bb_add_def prod_eq_iff)
    have "status_to_bb_loop (\<lambda>_. True) stat ns_spa ns_size (Suc n) i 0 h =
        status_to_bb_loop (\<lambda>_. True) stat ns_spa ns_size n (i + 1) 0 (bb_add h (rec_bb ns_spa ?r))"
      using True add by (auto simp: Let_def rec_bb_def rec_in_ns_def)
    then show ?thesis
      using IH [OF bl.add_inv [OF Suc.prems(1) ok]] True unfolding up by (simp add: ns_recs_def)
  next
    case False
    then have "status_to_bb_loop (\<lambda>_. True) stat ns_spa ns_size (Suc n) i 0 h =
        status_to_bb_loop (\<lambda>_. True) stat ns_spa ns_size n (i + 1) 0 h"
      by (auto simp: Let_def rec_in_ns_def)
    then show ?thesis using IH [OF Suc.prems(1)] False unfolding up by (simp add: ns_recs_def)
  qed
qed

lemma injection_status_to_bb_fold:
  assumes "bb_normal h" and "stat_fits ns_spa ns_size stat"
  shows "injection_status_to_bb (\<lambda>_. True) h stat ns_spa ns_size =
    (0, foldl bb_add h (ns_recs ns_spa ns_size (stat_recs stat)))"
  using status_to_bb_loop_fold [of h 0 "unat (stat_rec_count stat)" ns_spa ns_size stat] assms
  by (simp add: injection_status_to_bb_def stat_recs_def stat_fits_def)

text \<open>C36: \<open>bb_add_record\<close> keeps the list of bad blocks sorted, disjoint and without adjacent entries, and
  adds exactly the blocks of the new record to the set it stands for; when the allocation fails the list
  stays as it is.\<close>

theorem bb_add_record_normal:
  assumes "bb_normal h" and "bb_ok \<lparr>bb_block = block, bb_count = count\<rparr>"
  shows "\<exists>h'. bb_add_record True h block count = (0, h') \<and> bb_normal h' \<and>
    bb_blocks h' = bb_blocks h \<union> {unat block..<unat block + unat count} \<and>
    bb_add_record False h block count = (- ENOMEM, h)"
  using bb_add_record_spec [OF assms]
  by (cases "bb_add_record True h block count")
    (simp add: bb_span_def bb_start_def bb_stop_def, simp add: bb_add_record_def)

theorem bb_add_record_normal_witness:
  "\<exists>h'. bb_add_record True [\<lparr>bb_block = 2, bb_count = 3\<rparr>, \<lparr>bb_block = 9, bb_count = 1\<rparr>] 5 4 = (0, h') \<and>
     bb_normal h' \<and> bb_blocks h' = {2..<10} \<and> h' = [\<lparr>bb_block = 2, bb_count = 8\<rparr>]"
proof -
  have "{2..<5} \<union> {9..<10} \<union> {5..<9} = {2..<10 :: nat}" by auto
  then show ?thesis
    using bb_add_record_normal [of "[\<lparr>bb_block = 2, bb_count = 3\<rparr>, \<lparr>bb_block = 9, bb_count = 1\<rparr>]" 5 4]
    by (auto simp: bb_normal_def bb_ok_def bb_start_def bb_stop_def bb_span_def bb_add_record_def Let_def)
qed

text \<open>C37: reading back the firmware's status adds to the list exactly the 512-byte blocks that hold a byte of a reported range that starts
  inside the namespace, and keeps the list in normal form.  Ranges that start outside are skipped, even if they reach into the
  namespace; of a range that starts inside the blocks behind the end are added too.  The ranges are not empty and end well below the
  top of the address space.\<close>

theorem injection_status_covers_ranges:
  assumes "bb_normal h" and "stat_fits ns_spa ns_size stat"
  shows "\<exists>h'. injection_status_to_bb (\<lambda>_. True) h stat ns_spa ns_size = (0, h') \<and> bb_normal h' \<and>
    bb_blocks h' = bb_blocks h \<union> (\<Union>r \<in> {r \<in> set (stat_recs stat). rec_in_ns ns_spa ns_size r}. rec_touched ns_spa r)"
proof -
  have "(\<Union>b \<in> set (ns_recs ns_spa ns_size (stat_recs stat)). bb_span b) =
      (\<Union>r \<in> {r \<in> set (stat_recs stat). rec_in_ns ns_spa ns_size r}. rec_touched ns_spa r)"
    using rec_bb_spec assms(2) by (auto simp: ns_recs_def stat_fits_def)
  then show ?thesis
    using bl.foldl_cover [OF assms(1) ns_recs_ok [OF assms(2)]] by (simp add: injection_status_to_bb_fold assms)
qed

definition demo_stat :: nd_cmd_ars_err_inj_stat where
  "demo_stat = \<lparr>stat_status = 0, stat_rec_count = 3, stat_record =
     (\<lambda>i. if i = 0 then \<lparr>stat_base = 0x1000, stat_length = 0x200\<rparr>
          else if i = 1 then \<lparr>stat_base = 0x1100, stat_length = 0x100\<rparr>
          else \<lparr>stat_base = 0x80, stat_length = 0x10000\<rparr>)\<rparr>"

lemma demo_stat_recs: "stat_recs demo_stat = [\<lparr>stat_base = 0x1000, stat_length = 0x200\<rparr>,
    \<lparr>stat_base = 0x1100, stat_length = 0x100\<rparr>, \<lparr>stat_base = 0x80, stat_length = 0x10000\<rparr>]"
  by (simp add: stat_recs_def demo_stat_def upt_rec)

lemma demo_stat_fits: "stat_fits 0x1000 0x1000 demo_stat"
  by (simp add: stat_fits_def demo_stat_recs rec_fits_def)

theorem injection_status_covers_ranges_witness:
  "\<exists>h'. injection_status_to_bb (\<lambda>_. True) [] demo_stat 0x1000 0x1000 = (0, h') \<and> bb_normal h' \<and>
     bb_blocks h' = bb_blocks [] \<union> (\<Union>r \<in> {r \<in> set (stat_recs demo_stat). rec_in_ns 0x1000 0x1000 r}. rec_touched 0x1000 r)"
  by (rule injection_status_covers_ranges [OF _ demo_stat_fits]) (simp add: bb_normal_def)

text \<open>The list that results does not depend on the order in which the firmware reports the ranges nor on
  repetitions, and reading the same status again changes nothing.\<close>

theorem injection_status_order_irrelevant:
  assumes "bb_normal h" and "stat_fits ns_spa ns_size stat" and "set (stat_recs stat) = set (stat_recs stat')"
  shows "injection_status_to_bb (\<lambda>_. True) h stat' ns_spa ns_size = injection_status_to_bb (\<lambda>_. True) h stat ns_spa ns_size
    \<and> injection_status_to_bb (\<lambda>_. True) (snd (injection_status_to_bb (\<lambda>_. True) h stat ns_spa ns_size)) stat' ns_spa ns_size
      = injection_status_to_bb (\<lambda>_. True) h stat ns_spa ns_size"
proof -
  let ?l = "ns_recs ns_spa ns_size (stat_recs stat)" and ?l' = "ns_recs ns_spa ns_size (stat_recs stat')"
  have fits': "stat_fits ns_spa ns_size stat'" using assms(2,3) by (simp add: stat_fits_def)
  have same: "set ?l = set ?l'" using assms(3) by (auto simp: ns_recs_def)
  note ok = ns_recs_ok [OF assms(2)]
  have norm: "bb_normal (foldl bb_add h ?l)" using bl.foldl_cover [OF assms(1) ok] by simp
  have "foldl bb_add (foldl bb_add h ?l) ?l' = foldl bb_add h ?l"
    using bl.foldl_order [OF norm ok same] bl.foldl_again [OF assms(1) ok] by simp
  then show ?thesis
    using bl.foldl_order [OF assms(1) ok same] injection_status_to_bb_fold [OF norm fits']
    by (simp add: injection_status_to_bb_fold assms fits')
qed

definition demo_stat' :: nd_cmd_ars_err_inj_stat where
  "demo_stat' = demo_stat\<lparr>stat_record := (\<lambda>i. stat_record demo_stat (2 - i))\<rparr>"

theorem injection_status_order_irrelevant_witness:
  "injection_status_to_bb (\<lambda>_. True) [] demo_stat' 0x1000 0x1000 = injection_status_to_bb (\<lambda>_. True) [] demo_stat 0x1000 0x1000"
proof -
  have "stat_recs demo_stat' = rev (stat_recs demo_stat)"
    by (simp add: stat_recs_def demo_stat'_def demo_stat_def upt_rec)
  then show ?thesis
    using injection_status_order_irrelevant [OF _ demo_stat_fits, of "[]" demo_stat'] by (simp add: bb_normal_def)
qed

subsection \<open>The requests sent to the firmware\<close>












text \<open>A block number whose byte address wraps around is taken for the block it wraps to, so the check of the bounds accepts it.\<close>

lemma wrapped_block_accepted: "block_to_spa_offset ndns (2 ^ 55 + block) count = block_to_spa_offset ndns block count"
proof -
  have "(2 ^ 55 + block) * 512 = block * 512" unfolding distrib_right by simp
  then show ?thesis by (simp only: block_to_spa_offset_def)
qed






end
