(* ===== verification/Ns_Options.thy ===== *)
theory Ns_Options
  imports Size
begin

text \<open>
  The parameters of the namespace commands, \<open>ndctl/namespace.c\<close>: the defaults and syntax checks of
  \<open>set_defaults\<close> and \<open>parse_namespace_options\<close>, and \<open>validate_namespace_options\<close>, which turns them into the
  mode, size, alignment, sector size and memmap location of a namespace to create or reconfigure.

  The attributes of regions, namespaces and their seed devices that the code reads from libndctl are fields of
  records; the system's page size and the functions of libuuid are parameters (\<open>ns_sys\<close>).  The global
  \<open>param\<close> is a record that is passed along, with \<open>None\<close> for the NULL strings.
\<close>

subsection \<open>Parameters\<close>

datatype device_action = ACTION_ENABLE | ACTION_DISABLE | ACTION_CREATE | ACTION_DESTROY | ACTION_CHECK
  | ACTION_WAIT | ACTION_START | ACTION_CLEAR | ACTION_ACTIVATE | ACTION_READ_INFOBLOCK | ACTION_WRITE_INFOBLOCK

datatype ndctl_namespace_mode = NS_MODE_FSDAX | NS_MODE_SECTOR | NS_MODE_RAW | NS_MODE_DEVDAX | NS_MODE_UNKNOWN

datatype ndctl_pfn_loc = PFN_LOC_NONE | PFN_LOC_RAM | PFN_LOC_PMEM

type_synonym uuid = "u8 list"

record parameters =
  par_do_scan :: bool
  par_mode_default :: bool
  par_autolabel :: bool
  par_greedy :: bool
  par_verify :: bool
  par_autorecover :: bool
  par_human :: bool
  par_json :: bool
  par_std_out :: bool
  par_bus :: "string option"
  par_map :: "string option"
  par_type :: "string option"
  par_uuid :: "string option"
  par_name :: "string option"
  par_size :: "string option"
  par_mode :: "string option"
  par_region :: "string option"
  par_reconfig :: "string option"
  par_sector_size :: "string option"
  par_align :: "string option"
  par_offset :: "string option"
  par_outfile :: "string option"
  par_infile :: "string option"
  par_parent_uuid :: "string option"

record ns_sys =
  sys_page_size :: u64
  sys_uuid_parse :: "string \<Rightarrow> uuid option"
  sys_uuid_generate :: uuid
  sys_uuid_unparse :: "uuid \<Rightarrow> string"

definition to_lower :: "char \<Rightarrow> char" where
  "to_lower c = (let n = of_char c :: nat in if 65 \<le> n \<and> n \<le> 90 then char_of (n + 32) else c)"

definition strcaseeq :: "string \<Rightarrow> string \<Rightarrow> bool" where
  "strcaseeq s t = (map to_lower s = map to_lower t)"

definition util_nsmode :: "string option \<Rightarrow> ndctl_namespace_mode" where
  "util_nsmode mode =
     (case mode of
        None \<Rightarrow> NS_MODE_UNKNOWN
      | Some m \<Rightarrow>
          if strcaseeq m ''memory'' then NS_MODE_FSDAX
          else if strcaseeq m ''fsdax'' then NS_MODE_FSDAX
          else if strcaseeq m ''sector'' then NS_MODE_SECTOR
          else if strcaseeq m ''safe'' then NS_MODE_SECTOR
          else if strcaseeq m ''dax'' then NS_MODE_DEVDAX
          else if strcaseeq m ''devdax'' then NS_MODE_DEVDAX
          else if strcaseeq m ''raw'' then NS_MODE_RAW
          else NS_MODE_UNKNOWN)"

subsection \<open>Defaults\<close>

text \<open>Each step of \<open>set_defaults\<close> reads and may set the parameters, and overwrites \<open>rc\<close> when it finds an
  error.\<close>

definition default_type :: "device_action \<Rightarrow> int \<times> parameters \<Rightarrow> int \<times> parameters" where
  "default_type action st =
     (case st of (rc, p) \<Rightarrow>
        (case par_type p of
           Some t \<Rightarrow> if t = ''pmem'' then (rc, p) else if t = ''blk'' then (rc, p) else (- EINVAL, p)
         | None \<Rightarrow> if par_reconfig p = None \<and> action = ACTION_CREATE then (rc, p\<lparr>par_type := Some ''pmem''\<rparr>)
                   else (rc, p)))"

definition default_mode :: "device_action \<Rightarrow> int \<times> parameters \<Rightarrow> int \<times> parameters" where
  "default_mode action st =
     (case st of (rc, p) \<Rightarrow>
        (case par_mode p of
           Some m \<Rightarrow>
             (case util_nsmode (Some m) of
                NS_MODE_UNKNOWN \<Rightarrow> (- EINVAL, p)
              | NS_MODE_FSDAX \<Rightarrow> (rc, p)
              | NS_MODE_DEVDAX \<Rightarrow> (rc, p)
              | _ \<Rightarrow> (if action = ACTION_WRITE_INFOBLOCK then - EINVAL else rc, p))
         | None \<Rightarrow>
             if action = ACTION_WRITE_INFOBLOCK then (rc, p\<lparr>par_mode := Some ''fsdax''\<rparr>)
             else (case par_type p of
                     Some t \<Rightarrow>
                       if par_reconfig p = None
                       then (rc, p\<lparr>par_mode := Some (if t = ''pmem'' then ''fsdax'' else ''sector''),
                                   par_mode_default := True\<rparr>)
                       else (rc, p)
                   | None \<Rightarrow> (rc, p))))"

definition default_map :: "int \<times> parameters \<Rightarrow> int \<times> parameters" where
  "default_map st =
     (case st of (rc, p) \<Rightarrow>
        (case par_map p of
           Some m \<Rightarrow>
             let rc = (if m = ''mem'' then rc else if m = ''dev'' then rc else - EINVAL);
                 rc = (case par_mode p of
                         Some mode \<Rightarrow> if par_reconfig p = None \<and> mode \<noteq> ''fsdax'' \<and> mode \<noteq> ''devdax'' then - EINVAL else rc
                       | None \<Rightarrow> rc)
             in (rc, p)
         | None \<Rightarrow> if par_reconfig p = None then (rc, p\<lparr>par_map := Some ''dev''\<rparr>) else (rc, p)))"

definition check_type_mode :: "int \<times> parameters \<Rightarrow> int \<times> parameters" where
  "check_type_mode st =
     (case st of (rc, p) \<Rightarrow>
        (if par_type p = Some ''blk'' \<and> (par_mode p = Some ''fsdax'' \<or> par_mode p = Some ''devdax'') then - ENXIO else rc, p))"

definition check_sizes :: "ns_sys \<Rightarrow> int \<times> parameters \<Rightarrow> int \<times> parameters" where
  "check_sizes sys st =
     (case st of (rc, p) \<Rightarrow>
        let rc = (if par_size p \<noteq> None \<and> parse_size64 (par_size p) = ULLONG_MAX then - EINVAL else rc);
            rc = (if par_offset p \<noteq> None \<and> parse_size64 (par_offset p) = ULLONG_MAX then - EINVAL else rc);
            rc = (if par_align p \<noteq> None
                  then let align = parse_size64 (par_align p) in
                    if align = ULLONG_MAX then - EINVAL
                    else if \<not> is_power_of_2 align \<or> align < sys_page_size sys then - EINVAL else rc
                  else rc);
            rc = (if par_size p \<noteq> None \<and> parse_size64 (par_size p) = ULLONG_MAX then - EINVAL else rc)
        in (rc, p))"

definition check_uuids :: "ns_sys \<Rightarrow> int \<times> parameters \<Rightarrow> int \<times> parameters" where
  "check_uuids sys st =
     (case st of (rc, p) \<Rightarrow>
        let rc = (case par_uuid p of Some u \<Rightarrow> if sys_uuid_parse sys u = None then - EINVAL else rc | None \<Rightarrow> rc);
            rc = (case par_parent_uuid p of Some u \<Rightarrow> if sys_uuid_parse sys u = None then - EINVAL else rc | None \<Rightarrow> rc)
        in (rc, p))"

definition default_sector_size :: "int \<times> parameters \<Rightarrow> int \<times> parameters" where
  "default_sector_size st =
     (case st of (rc, p) \<Rightarrow>
        if par_sector_size p \<noteq> None
        then (if parse_size64 (par_sector_size p) = ULLONG_MAX then - EINVAL else rc, p)
        else if par_type p = Some ''blk'' \<or> util_nsmode (par_mode p) = NS_MODE_SECTOR
        then (rc, p\<lparr>par_sector_size := Some ''4096''\<rparr>)
        else (rc, p))"

definition set_defaults :: "ns_sys \<Rightarrow> device_action \<Rightarrow> parameters \<Rightarrow> int \<times> parameters" where
  "set_defaults sys action p =
     default_sector_size (check_uuids sys (check_sizes sys (check_type_mode (default_map
       (default_mode action (default_type action (0, p)))))))"

text \<open>\<open>parse_namespace_options\<close> from the point where \<open>parse_options\<close> has left the arguments \<open>argv\<close>: \<open>Inl\<close> is the
  exit through \<open>usage_with_options\<close>, \<open>Inr\<close> the returned namespace name (\<open>None\<close> for NULL) with the parameters.\<close>

definition parse_namespace_options ::
  "ns_sys \<Rightarrow> device_action \<Rightarrow> parameters \<Rightarrow> string list \<Rightarrow> int + string option \<times> parameters" where
  "parse_namespace_options sys action p argv =
     (let argc = length argv;
          (rc, p) = set_defaults sys action p;
          rc = (if argc = 0 \<and> action \<noteq> ACTION_CREATE
                   \<and> ((action \<noteq> ACTION_READ_INFOBLOCK \<and> action \<noteq> ACTION_WRITE_INFOBLOCK)
                      \<or> (action = ACTION_WRITE_INFOBLOCK \<and> par_outfile p = None \<and> \<not> par_std_out p))
                then - EINVAL else rc);
          rc = (if argc > (if action = ACTION_CREATE then 0 else 1) then - EINVAL else rc);
          rc = (if action = ACTION_READ_INFOBLOCK \<and> par_infile p \<noteq> None \<and> argc \<noteq> 0 then - EINVAL else rc);
          rc = (if action = ACTION_WRITE_INFOBLOCK \<and> (par_outfile p \<noteq> None \<or> par_std_out p) \<and> argc \<noteq> 0
                then - EINVAL else rc);
          rc = (if action = ACTION_WRITE_INFOBLOCK \<and> par_std_out p \<and> par_size p = None then - EINVAL else rc)
      in if rc \<noteq> 0 then Inl rc
         else if action = ACTION_READ_INFOBLOCK \<and> par_infile p = None \<and> argc = 0 then Inr (None, p)
         else Inr (if action = ACTION_CREATE then par_reconfig p
                   else (case argv of [] \<Rightarrow> None | a # _ \<Rightarrow> Some a), p))"

subsection \<open>Regions and namespaces\<close>

datatype nd_device_type = ND_DEVICE_REGION_PMEM | ND_DEVICE_REGION_BLK | ND_DEVICE_NAMESPACE_IO
  | ND_DEVICE_NAMESPACE_PMEM | ND_DEVICE_NAMESPACE_BLK

record ndctl_pfn =
  pfn_alignments :: "u64 list"
  pfn_has_align :: bool
  pfn_align :: u64

record ndctl_btt =
  btt_sector_sizes :: "u64 list"
  btt_sector_size :: u64

record nd_namespace =
  nsp_id :: nat
  nsp_devname :: string
  nsp_type :: nd_device_type
  nsp_size :: u64
  nsp_resource :: u64
  nsp_uuid :: uuid
  nsp_alt_name :: string
  nsp_mode :: ndctl_namespace_mode
  nsp_pfn :: "ndctl_pfn option"
  nsp_dax :: "ndctl_pfn option"
  nsp_btt :: "ndctl_btt option"
  nsp_sector_sizes :: "u64 list"
  nsp_sector_size :: u64

record nd_region =
  reg_enabled :: bool
  reg_ro :: bool
  reg_type :: nd_device_type
  reg_nstype :: nd_device_type
  reg_size :: u64
  reg_max_available_extent :: u64
  reg_available_size :: u64
  reg_resource :: u64
  reg_align :: u64
  reg_interleave_ways :: u32
  reg_pfn_seed :: "ndctl_pfn option"
  reg_dax_seed :: "ndctl_pfn option"
  reg_btt_seed :: "ndctl_btt option"
  reg_namespace_seed :: "nd_namespace option"

record parsed_parameters =
  pp_loc :: ndctl_pfn_loc
  pp_uuid :: uuid
  pp_name :: string
  pp_mode :: ndctl_namespace_mode
  pp_size :: u64
  pp_sector_size :: u64
  pp_align :: u64
  pp_autolabel :: bool
  pp_autorecover :: bool

definition SZ_2M :: u64 where "SZ_2M = 0x200000"
definition SZ_16M :: u64 where "SZ_16M = 0x1000000"
definition UINT_MAX :: u64 where "UINT_MAX = 0xFFFFFFFF"
definition NSLABEL_NAME_LEN :: nat where "NSLABEL_NAME_LEN = 64"

text \<open>\<open>memset(p, 0, sizeof( *p))\<close>: mode 0 is \<open>fsdax\<close>.\<close>

definition zero_parsed :: parsed_parameters where
  "zero_parsed = \<lparr>pp_loc = PFN_LOC_NONE, pp_uuid = replicate 16 0, pp_name = [], pp_mode = NS_MODE_FSDAX, pp_size = 0,
     pp_sector_size = 0, pp_align = 0, pp_autolabel = False, pp_autorecover = False\<rparr>"

definition do_setup_pfn :: "nd_namespace option \<Rightarrow> parsed_parameters \<Rightarrow> bool" where
  "do_setup_pfn ndns p =
     (if pp_mode p \<noteq> NS_MODE_FSDAX then False
      else (case ndns of
              None \<Rightarrow> True
            | Some n \<Rightarrow> nsp_mode n \<noteq> NS_MODE_FSDAX \<or> pp_loc p = PFN_LOC_PMEM))"

definition check_dax_align :: "bool \<Rightarrow> nd_namespace \<Rightarrow> int" where
  "check_dax_align force ndns =
     (if nsp_resource ndns = ULLONG_MAX then 0
      else if IS_ALIGNED (nsp_resource ndns) SZ_16M \<or> force then 0 else - EINVAL)"

definition validate_available_capacity :: "nd_region \<Rightarrow> parsed_parameters \<Rightarrow> int + parsed_parameters" where
  "validate_available_capacity region p =
     (let available =
        (if reg_nstype region = ND_DEVICE_NAMESPACE_IO then reg_size region
         else if reg_max_available_extent region = ULLONG_MAX then reg_available_size region
         else reg_max_available_extent region) in
      if available = 0 \<or> pp_size p > available then Inl (- EAGAIN)
      else Inr (if pp_size p = 0 then p\<lparr>pp_size := available\<rparr> else p))"

subsection \<open>Validation\<close>

text \<open>The parts of \<open>validate_namespace_options\<close> in the order of the code.  A part returns the error or the updated
  parameters.\<close>

text \<open>The size as given on the command line, with its units, or that of the namespace.\<close>

definition validate_size ::
  "parameters \<Rightarrow> nd_region \<Rightarrow> nd_namespace option \<Rightarrow> parsed_parameters \<Rightarrow> int + parsed_parameters \<times> u64 \<times> bool" where
  "validate_size param region ndns p =
     (let (p, units, default_size) =
        (case par_size param of
           Some s \<Rightarrow> (case parse_size64_units s of (v, u) \<Rightarrow>
                        (p\<lparr>pp_size := v\<rparr>, case u of None \<Rightarrow> 1 | Some u \<Rightarrow> u, False))
         | None \<Rightarrow> (case ndns of Some n \<Rightarrow> (p\<lparr>pp_size := nsp_size n\<rparr>, 1, False) | None \<Rightarrow> (p, 1, True))) in
      case (if ndns = None then validate_available_capacity region p else Inr p) of
        Inl rc \<Rightarrow> Inl rc
      | Inr p \<Rightarrow>
          if reg_nstype region = ND_DEVICE_NAMESPACE_IO \<and> pp_size p \<noteq> reg_size region then Inl (- EINVAL)
          else Inr (p, units, default_size))"

definition validate_ident ::
  "ns_sys \<Rightarrow> parameters \<Rightarrow> nd_namespace option \<Rightarrow> parsed_parameters \<Rightarrow> int + parsed_parameters" where
  "validate_ident sys param ndns p =
     (case (case par_uuid param of Some u \<Rightarrow> sys_uuid_parse sys u | None \<Rightarrow> Some (sys_uuid_generate sys)) of
        None \<Rightarrow> Inl (- EINVAL)
      | Some uu \<Rightarrow>
          let p = p\<lparr>pp_uuid := uu\<rparr>;
              name = (case par_name param of
                        Some n \<Rightarrow> n
                      | None \<Rightarrow> (case ndns of Some n \<Rightarrow> nsp_alt_name n | None \<Rightarrow> [])) in
          if length name \<ge> NSLABEL_NAME_LEN then Inl (- EINVAL) else Inr (p\<lparr>pp_name := name\<rparr>))"

text \<open>The mode; the result carries the pfn and dax seeds the later parts use.\<close>

definition validate_mode ::
  "parameters \<Rightarrow> nd_region \<Rightarrow> nd_namespace option \<Rightarrow> parsed_parameters \<Rightarrow>
    int + parsed_parameters \<times> ndctl_pfn option \<times> ndctl_pfn option" where
  "validate_mode param region ndns p =
     (case (case par_mode param of
              Some m \<Rightarrow>
                let mode = util_nsmode (Some m) in
                if reg_type region \<noteq> ND_DEVICE_REGION_PMEM \<and> (mode = NS_MODE_FSDAX \<or> mode = NS_MODE_DEVDAX)
                then Inl (- EAGAIN) else Inr (p\<lparr>pp_mode := mode\<rparr>)
            | None \<Rightarrow> Inr (case ndns of Some n \<Rightarrow> p\<lparr>pp_mode := nsp_mode n\<rparr> | None \<Rightarrow> p)) of
        Inl rc \<Rightarrow> Inl rc
      | Inr p \<Rightarrow>
          (case pp_mode p of
             NS_MODE_FSDAX \<Rightarrow>
               Inr (if reg_pfn_seed region = None \<and> par_mode_default param then p\<lparr>pp_mode := NS_MODE_RAW\<rparr> else p,
                    reg_pfn_seed region, None)
           | NS_MODE_DEVDAX \<Rightarrow>
               (case reg_dax_seed region of None \<Rightarrow> Inl (- ENODEV) | Some dax \<Rightarrow> Inr (p, None, Some dax))
           | _ \<Rightarrow> Inr (p, None, None)))"

definition seed_alignments :: "ndctl_pfn option \<Rightarrow> u64 list" where
  "seed_alignments d = (case d of None \<Rightarrow> [] | Some d \<Rightarrow> pfn_alignments d)"

text \<open>The default alignment when none is given.\<close>

definition default_align ::
  "ns_sys \<Rightarrow> nd_region \<Rightarrow> nd_namespace option \<Rightarrow> ndctl_pfn option \<Rightarrow> ndctl_pfn option \<Rightarrow> parsed_parameters \<Rightarrow> u64" where
  "default_align sys region ndns pfn dax p =
     (let same = (case ndns of Some n \<Rightarrow> pp_mode p = nsp_mode n | None \<Rightarrow> False);
          align =
            (if same then
               (case ndns of
                  Some n \<Rightarrow> (case nsp_pfn n of
                               Some d \<Rightarrow> pfn_align d
                             | None \<Rightarrow> (case nsp_dax n of Some d \<Rightarrow> pfn_align d | None \<Rightarrow> sys_page_size sys))
                | None \<Rightarrow> sys_page_size sys)
             else if pp_mode p = NS_MODE_FSDAX then
               (case pfn of Some d \<Rightarrow> if pfn_has_align d then pfn_align d else SZ_2M | None \<Rightarrow> SZ_2M)
             else if pp_mode p = NS_MODE_DEVDAX then (case dax of Some d \<Rightarrow> pfn_align d | None \<Rightarrow> 0)
             else sys_page_size sys)
      in if reg_resource region < ULLONG_MAX \<and> reg_resource region AND (align - 1) \<noteq> 0 then sys_page_size sys else align)"

definition validate_align ::
  "ns_sys \<Rightarrow> parameters \<Rightarrow> nd_region \<Rightarrow> nd_namespace option \<Rightarrow> ndctl_pfn option \<Rightarrow> ndctl_pfn option \<Rightarrow>
    parsed_parameters \<Rightarrow> int + parsed_parameters" where
  "validate_align sys param region ndns pfn dax p =
     (case par_align param of
        Some a \<Rightarrow>
          let align = parse_size64 (Some a) in
          (case pp_mode p of
             NS_MODE_FSDAX \<Rightarrow>
               if pfn = None then Inl (- EINVAL)
               else if align \<in> set (seed_alignments pfn) then Inr (p\<lparr>pp_align := align\<rparr>) else Inl (- ENXIO)
           | NS_MODE_DEVDAX \<Rightarrow>
               if align \<in> set (seed_alignments dax) then Inr (p\<lparr>pp_align := align\<rparr>) else Inl (- ENXIO)
           | _ \<Rightarrow> Inl (- ENXIO))
      | None \<Rightarrow> Inr (p\<lparr>pp_align := default_align sys region ndns pfn dax p\<rparr>))"

text \<open>The recommendation printed for a size that is not aligned, in \<open>units\<close>; \<open>None\<close> when it overflows.\<close>

definition suggest_size :: "u64 \<Rightarrow> u64 \<Rightarrow> u64 \<Rightarrow> u64 \<Rightarrow> u64 option" where
  "suggest_size sz units align ways =
     (let size_align = max units align * ways;
          sz = sz div size_align;
          sz = sz + 1
      in if sz > ULLONG_MAX div size_align then None else Some (sz * size_align div units))"

text \<open>The size checks; \<open>None\<close> is a division by zero.\<close>

definition validate_size_align ::
  "nd_region \<Rightarrow> u64 \<Rightarrow> bool \<Rightarrow> parsed_parameters \<Rightarrow> (int + parsed_parameters) option" where
  "validate_size_align region units default_size p =
     (let ways = ucast (reg_interleave_ways region) :: u64 in
      if reg_align region = 0 then None
      else if reg_align region < ULLONG_MAX \<and> pp_size p mod reg_align region \<noteq> 0 then Some (Inl (- EINVAL))
      else if pp_align p * ways = 0 then None
      else if pp_size p mod (pp_align p * ways) \<noteq> 0
      then if max units (pp_align p) * ways = 0 then None else Some (Inl (- EINVAL))
      else if pp_size p < SZ_16M \<and> pp_mode p \<noteq> NS_MODE_RAW
      then Some (Inl (if default_size then - EAGAIN else - EINVAL))
      else Some (Inr p))"

definition validate_sector_size ::
  "parameters \<Rightarrow> nd_region \<Rightarrow> nd_namespace option \<Rightarrow> parsed_parameters \<Rightarrow> int + parsed_parameters" where
  "validate_sector_size param region ndns p =
     (case par_sector_size param of
        Some s \<Rightarrow>
          let p = p\<lparr>pp_sector_size := parse_size64 (Some s)\<rparr> in
          if pp_mode p = NS_MODE_SECTOR then
            (case reg_btt_seed region of
               None \<Rightarrow> Inl (- EINVAL)
             | Some btt \<Rightarrow> if pp_sector_size p \<in> set (btt_sector_sizes btt) then Inr p else Inl (- EINVAL))
          else
            (case (case ndns of Some n \<Rightarrow> Some n | None \<Rightarrow> reg_namespace_seed region) of
               None \<Rightarrow> Inl (- ENXIO)
             | Some seed \<Rightarrow> if pp_sector_size p \<in> set (nsp_sector_sizes seed) then Inr p else Inl (- EINVAL))
      | None \<Rightarrow>
          (case ndns of
             Some n \<Rightarrow>
               Inr (p\<lparr>pp_sector_size :=
                 (case nsp_btt n of
                    Some btt \<Rightarrow> if pp_mode p = NS_MODE_SECTOR then btt_sector_size btt else nsp_sector_size n
                  | None \<Rightarrow> nsp_sector_size n)\<rparr>)
           | None \<Rightarrow>
               (case reg_namespace_seed region of
                  None \<Rightarrow> Inl (- ENXIO)
                | Some seed \<Rightarrow> Inr (p\<lparr>pp_sector_size := if nsp_sector_sizes seed = [] then UINT_MAX else 512\<rparr>))))"

definition validate_map ::
  "parameters \<Rightarrow> nd_namespace option \<Rightarrow> ndctl_pfn option \<Rightarrow> parsed_parameters \<Rightarrow> int + parsed_parameters" where
  "validate_map param ndns pfn p =
     (case (case par_map param of
              Some m \<Rightarrow>
                let p = p\<lparr>pp_loc := if m = ''mem'' then PFN_LOC_RAM else PFN_LOC_PMEM\<rparr> in
                if ndns \<noteq> None \<and> pp_mode p \<noteq> NS_MODE_FSDAX \<and> pp_mode p \<noteq> NS_MODE_DEVDAX then Inl (- EINVAL) else Inr p
            | None \<Rightarrow>
                Inr (if pp_mode p = NS_MODE_FSDAX \<or> pp_mode p = NS_MODE_DEVDAX then p\<lparr>pp_loc := PFN_LOC_PMEM\<rparr> else p)) of
        Inl rc \<Rightarrow> Inl rc
      | Inr p \<Rightarrow>
          if pfn = None \<and> do_setup_pfn ndns p then Inl (- EINVAL)
          else Inr (p\<lparr>pp_autolabel := par_autolabel param, pp_autorecover := par_autorecover param\<rparr>))"

text \<open>The whole function: \<open>Some (Inl rc)\<close> an error, \<open>Some (Inr p)\<close> success, \<open>None\<close> a division by zero.\<close>

definition validate_namespace_options ::
  "ns_sys \<Rightarrow> parameters \<Rightarrow> nd_region \<Rightarrow> nd_namespace option \<Rightarrow> (int + parsed_parameters) option" where
  "validate_namespace_options sys param region ndns =
     (if \<not> reg_enabled region then Some (Inl (- EAGAIN))
      else case validate_size param region ndns zero_parsed of
        Inl rc \<Rightarrow> Some (Inl rc)
      | Inr (p, units, default_size) \<Rightarrow>
      case validate_ident sys param ndns p of
        Inl rc \<Rightarrow> Some (Inl rc)
      | Inr p \<Rightarrow>
      case validate_mode param region ndns p of
        Inl rc \<Rightarrow> Some (Inl rc)
      | Inr (p, pfn, dax) \<Rightarrow>
      case validate_align sys param region ndns pfn dax p of
        Inl rc \<Rightarrow> Some (Inl rc)
      | Inr p \<Rightarrow>
      case validate_size_align region units default_size p of
        None \<Rightarrow> None
      | Some (Inl rc) \<Rightarrow> Some (Inl rc)
      | Some (Inr p) \<Rightarrow>
      case validate_sector_size param region ndns p of
        Inl rc \<Rightarrow> Some (Inl rc)
      | Inr p \<Rightarrow> Some (validate_map param ndns pfn p))"

subsection \<open>What validation establishes\<close>

text \<open>The capacity a new namespace can take.\<close>

definition region_available :: "nd_region \<Rightarrow> u64" where
  "region_available region =
     (if reg_nstype region = ND_DEVICE_NAMESPACE_IO then reg_size region
      else if reg_max_available_extent region = ULLONG_MAX then reg_available_size region
      else reg_max_available_extent region)"

lemma validate_size_D:
  assumes "validate_size param region ndns q = Inr (p, units, ds)"
  shows "p = q\<lparr>pp_size := pp_size p\<rparr>"
    and "ndns = None \<Longrightarrow> pp_size p \<noteq> 0 \<and> pp_size p \<le> region_available region"
    and "reg_nstype region = ND_DEVICE_NAMESPACE_IO \<Longrightarrow> pp_size p = reg_size region"
    and "ndns = Some n \<Longrightarrow> par_size param = None \<Longrightarrow> pp_size p = nsp_size n"
    and "par_size param = Some z \<Longrightarrow> pp_size p = fst (parse_size64_units z) \<or> fst (parse_size64_units z) = 0 \<and> ndns = None"
  using assms
  by (auto simp: validate_size_def validate_available_capacity_def region_available_def Let_def
      split: option.splits prod.splits sum.splits if_splits)

lemma validate_ident_D:
  assumes "validate_ident sys param ndns q = Inr p"
  shows "p = q\<lparr>pp_uuid := pp_uuid p, pp_name := pp_name p\<rparr>" and "length (pp_name p) < NSLABEL_NAME_LEN"
    and "par_uuid param = Some u \<Longrightarrow> sys_uuid_parse sys u = Some (pp_uuid p)"
    and "par_uuid param = None \<Longrightarrow> pp_uuid p = sys_uuid_generate sys"
    and "par_name param = Some z \<Longrightarrow> pp_name p = z"
  using assms by (auto simp: validate_ident_def Let_def split: option.splits if_splits)

lemma validate_mode_D:
  assumes "validate_mode param region ndns q = Inr (p, pfn, dax)"
  shows "p = q\<lparr>pp_mode := pp_mode p\<rparr>"
    and "pp_mode p = NS_MODE_FSDAX \<Longrightarrow> pfn = reg_pfn_seed region"
    and "pp_mode p = NS_MODE_DEVDAX \<Longrightarrow> dax = reg_dax_seed region \<and> dax \<noteq> None"
    and "par_mode param = Some m \<Longrightarrow> pp_mode p = util_nsmode (Some m) \<or>
      pp_mode p = NS_MODE_RAW \<and> util_nsmode (Some m) = NS_MODE_FSDAX \<and> par_mode_default param \<and> reg_pfn_seed region = None"
    and "par_mode param = Some m \<Longrightarrow> pp_mode p = NS_MODE_FSDAX \<or> pp_mode p = NS_MODE_DEVDAX \<Longrightarrow>
      reg_type region = ND_DEVICE_REGION_PMEM"
    and "pfn \<noteq> None \<Longrightarrow> pfn = reg_pfn_seed region"
    and "par_mode param = None \<Longrightarrow> pp_mode p = (case ndns of Some n \<Rightarrow> nsp_mode n | None \<Rightarrow> pp_mode q) \<or>
      pp_mode p = NS_MODE_RAW \<and> reg_pfn_seed region = None"
  using assms
  by (auto simp: validate_mode_def Let_def dest!: sym [of "Some _"]
      split: option.splits sum.splits if_splits ndctl_namespace_mode.splits)

lemma default_align_fits:
  "default_align sys region ndns pfn dax p = sys_page_size sys \<or> reg_resource region = ULLONG_MAX \<or>
     reg_resource region AND (default_align sys region ndns pfn dax p - 1) = 0"
proof (cases "reg_resource region < ULLONG_MAX")
  case False
  then have "reg_resource region = ULLONG_MAX"
    using unat_u64_less [of "reg_resource region"] by (simp add: not_less word_le_nat_alt word_unat_eq_iff)
  then show ?thesis by simp
qed (simp add: default_align_def Let_def)

lemma validate_align_D:
  assumes "validate_align sys param region ndns pfn dax q = Inr p"
  shows "p = q\<lparr>pp_align := pp_align p\<rparr>"
    and "par_align param = Some a \<Longrightarrow> pp_align p = parse_size64 (Some a) \<and>
      (pp_mode q = NS_MODE_FSDAX \<and> pp_align p \<in> set (seed_alignments pfn) \<or>
       pp_mode q = NS_MODE_DEVDAX \<and> pp_align p \<in> set (seed_alignments dax))"
    and "par_align param = None \<Longrightarrow> pp_align p = sys_page_size sys \<or> reg_resource region = ULLONG_MAX \<or>
      reg_resource region AND (pp_align p - 1) = 0"
  using assms default_align_fits [of sys region ndns pfn dax q]
  by (auto simp: validate_align_def Let_def split: option.splits if_splits ndctl_namespace_mode.splits)

lemma word_mod_zero_dvd: "(x :: u64) mod y = 0 \<longleftrightarrow> unat y dvd unat x"
  by (simp add: word_unat_eq_iff unat_mod_distrib dvd_eq_mod_eq_0)

lemma validate_size_align_D:
  assumes "validate_size_align region units ds q = Some (Inr p)"
  shows "p = q" and "pp_align p * ucast (reg_interleave_ways region) \<noteq> 0"
    and "unat (pp_align p * ucast (reg_interleave_ways region)) dvd unat (pp_size p)"
    and "reg_align region < ULLONG_MAX \<Longrightarrow> unat (reg_align region) dvd unat (pp_size p)"
    and "pp_mode p = NS_MODE_RAW \<or> SZ_16M \<le> pp_size p"
  using assms
  by (auto simp: validate_size_align_def Let_def word_mod_zero_dvd not_less split: if_splits simp del: ULLONG_MAX_def)

lemma validate_sector_size_D:
  assumes "validate_sector_size param region ndns q = Inr p"
  shows "p = q\<lparr>pp_sector_size := pp_sector_size p\<rparr>"
    and "par_sector_size param = Some s \<Longrightarrow> pp_mode q = NS_MODE_SECTOR \<Longrightarrow>
      \<exists>btt. reg_btt_seed region = Some btt \<and> pp_sector_size p \<in> set (btt_sector_sizes btt)"
    and "par_sector_size param = Some s \<Longrightarrow> pp_mode q \<noteq> NS_MODE_SECTOR \<Longrightarrow>
      \<exists>seed. (ndns = Some seed \<or> ndns = None \<and> reg_namespace_seed region = Some seed) \<and>
        pp_sector_size p \<in> set (nsp_sector_sizes seed)"
    and "par_sector_size param = Some s \<Longrightarrow> pp_sector_size p = parse_size64 (Some s)"
    and "par_sector_size param = None \<Longrightarrow> ndns = None \<Longrightarrow> pp_sector_size p = UINT_MAX \<or> pp_sector_size p = 512"
    and "par_sector_size param = None \<Longrightarrow> ndns = Some n \<Longrightarrow> pp_mode q = NS_MODE_SECTOR \<Longrightarrow>
      pp_sector_size p = (case nsp_btt n of Some btt \<Rightarrow> btt_sector_size btt | None \<Rightarrow> nsp_sector_size n)"
  using assms by (auto simp: validate_sector_size_def Let_def split: option.splits if_splits)

lemma validate_map_D:
  assumes "validate_map param ndns pfn q = Inr p"
  shows "p = q\<lparr>pp_loc := pp_loc p, pp_autolabel := par_autolabel param, pp_autorecover := par_autorecover param\<rparr>"
    and "do_setup_pfn ndns p \<Longrightarrow> pfn \<noteq> None"
    and "pp_mode p = NS_MODE_FSDAX \<or> pp_mode p = NS_MODE_DEVDAX \<Longrightarrow>
      pp_loc p = (if par_map param = Some ''mem'' then PFN_LOC_RAM else PFN_LOC_PMEM)"
  using assms
  by (auto simp: validate_map_def do_setup_pfn_def Let_def split: option.splits sum.splits if_splits)

text \<open>The chain of parts behind a successful validation.\<close>

lemma validate_namespace_options_parts:
  assumes "validate_namespace_options sys param region ndns = Some (Inr p)"
  obtains p1 units ds p2 p3 pfn dax p4 p5 p6 where
    "reg_enabled region" and
    "validate_size param region ndns zero_parsed = Inr (p1, units, ds)" and
    "validate_ident sys param ndns p1 = Inr p2" and
    "validate_mode param region ndns p2 = Inr (p3, pfn, dax)" and
    "validate_align sys param region ndns pfn dax p3 = Inr p4" and
    "validate_size_align region units ds p4 = Some (Inr p5)" and
    "validate_sector_size param region ndns p5 = Inr p6" and
    "validate_map param ndns pfn p6 = Inr p"
  using assms
  by (auto simp: validate_namespace_options_def
      split: if_splits sum.splits prod.splits option.splits)

text \<open>C8: a successful validation yields parameters the kernel can honour: the size is a multiple of the alignment
  times the interleave ways and of the region's alignment, at least 16M outside raw mode, for a new namespace not
  zero and within the available capacity, and that of the whole region for label-less regions; an alignment or
  sector size given on the command line is one the seed device supports; dax modes have their seed device; the
  name fits its label field.\<close>

theorem validate_namespace_options_sound:
  assumes "validate_namespace_options sys param region ndns = Some (Inr p)"
  shows "reg_enabled region \<and>
    unat (pp_align p * ucast (reg_interleave_ways region)) dvd unat (pp_size p) \<and>
    (reg_align region < ULLONG_MAX \<longrightarrow> unat (reg_align region) dvd unat (pp_size p)) \<and>
    (pp_mode p = NS_MODE_RAW \<or> SZ_16M \<le> pp_size p) \<and>
    (ndns = None \<longrightarrow> pp_size p \<noteq> 0 \<and> pp_size p \<le> region_available region) \<and>
    (reg_nstype region = ND_DEVICE_NAMESPACE_IO \<longrightarrow> pp_size p = reg_size region) \<and>
    (par_align param \<noteq> None \<longrightarrow>
       pp_mode p = NS_MODE_FSDAX \<and> pp_align p \<in> set (seed_alignments (reg_pfn_seed region)) \<or>
       pp_mode p = NS_MODE_DEVDAX \<and> pp_align p \<in> set (seed_alignments (reg_dax_seed region))) \<and>
    (pp_mode p = NS_MODE_DEVDAX \<longrightarrow> reg_dax_seed region \<noteq> None) \<and>
    (do_setup_pfn ndns p \<longrightarrow> reg_pfn_seed region \<noteq> None) \<and>
    (par_sector_size param \<noteq> None \<longrightarrow> pp_mode p = NS_MODE_SECTOR \<longrightarrow>
       (\<exists>btt. reg_btt_seed region = Some btt \<and> pp_sector_size p \<in> set (btt_sector_sizes btt))) \<and>
    length (pp_name p) < NSLABEL_NAME_LEN"
proof -
  obtain p1 units ds p2 p3 pfn dax p4 p5 p6 where en: "reg_enabled region"
    and sz: "validate_size param region ndns zero_parsed = Inr (p1, units, ds)"
    and ident: "validate_ident sys param ndns p1 = Inr p2"
    and mode: "validate_mode param region ndns p2 = Inr (p3, pfn, dax)"
    and align: "validate_align sys param region ndns pfn dax p3 = Inr p4"
    and fit: "validate_size_align region units ds p4 = Some (Inr p5)"
    and sec: "validate_sector_size param region ndns p5 = Inr p6"
    and loc: "validate_map param ndns pfn p6 = Inr p"
    by (rule validate_namespace_options_parts [OF assms]) (rule that)
  note sz = validate_size_D [OF sz] and ident = validate_ident_D [OF ident] and mode = validate_mode_D [OF mode]
    and align = validate_align_D [OF align] and fit = validate_size_align_D [OF fit]
    and sec = validate_sector_size_D [OF sec] and loc = validate_map_D [OF loc]
  have flow: "pp_size p1 = pp_size p" "pp_size p5 = pp_size p" "pp_mode p3 = pp_mode p" "pp_mode p5 = pp_mode p"
    "pp_align p4 = pp_align p" "pp_align p5 = pp_align p" "pp_name p2 = pp_name p" "pp_sector_size p6 = pp_sector_size p"
    by (metis (no_types, lifting) sz(1) ident(1) mode(1) align(1) fit(1) sec(1) loc(1)
        parsed_parameters.select_convs parsed_parameters.update_convs parsed_parameters.surjective)+
  have dev: "pp_mode p = NS_MODE_FSDAX \<Longrightarrow> pfn = reg_pfn_seed region"
    "pp_mode p = NS_MODE_DEVDAX \<Longrightarrow> dax = reg_dax_seed region \<and> dax \<noteq> None"
    using mode(2,3) flow by auto
  have "par_align param \<noteq> None \<longrightarrow>
       pp_mode p = NS_MODE_FSDAX \<and> pp_align p \<in> set (seed_alignments (reg_pfn_seed region)) \<or>
       pp_mode p = NS_MODE_DEVDAX \<and> pp_align p \<in> set (seed_alignments (reg_dax_seed region))"
    using align(2) dev flow by auto
  moreover have "do_setup_pfn ndns p \<longrightarrow> reg_pfn_seed region \<noteq> None"
    using loc(2) mode(6) by auto
  moreover have "par_sector_size param \<noteq> None \<longrightarrow> pp_mode p = NS_MODE_SECTOR \<longrightarrow>
       (\<exists>btt. reg_btt_seed region = Some btt \<and> pp_sector_size p \<in> set (btt_sector_sizes btt))"
    using sec(2) flow by auto
  moreover have "pp_mode p = NS_MODE_DEVDAX \<longrightarrow> reg_dax_seed region \<noteq> None" using dev(2) by auto
  moreover have "ndns = None \<longrightarrow> pp_size p \<noteq> 0 \<and> pp_size p \<le> region_available region"
    "reg_nstype region = ND_DEVICE_NAMESPACE_IO \<longrightarrow> pp_size p = reg_size region"
    "length (pp_name p) < NSLABEL_NAME_LEN"
    using sz(2,3) ident(2) flow by simp_all
  ultimately show ?thesis
    using en fit(3,4,5) [unfolded flow] by blast
qed

definition demo_sys :: ns_sys where
  "demo_sys = \<lparr>sys_page_size = 4096, sys_uuid_parse = (\<lambda>_. None), sys_uuid_generate = replicate 16 7,
     sys_uuid_unparse = (\<lambda>_. ''uuid'')\<rparr>"

definition demo_param :: parameters where
  "demo_param = \<lparr>par_do_scan = False, par_mode_default = True, par_autolabel = True, par_greedy = False, par_verify = False,
     par_autorecover = True, par_human = False, par_json = False, par_std_out = False, par_bus = None,
     par_map = Some ''dev'', par_type = Some ''pmem'', par_uuid = None, par_name = None, par_size = None,
     par_mode = Some ''fsdax'', par_region = None, par_reconfig = None, par_sector_size = None, par_align = None,
     par_offset = None, par_outfile = None, par_infile = None, par_parent_uuid = None\<rparr>"

definition demo_pfn :: ndctl_pfn where
  "demo_pfn = \<lparr>pfn_alignments = [0x1000, 0x200000], pfn_has_align = True, pfn_align = 0x200000\<rparr>"

definition demo_ns :: nd_namespace where
  "demo_ns = \<lparr>nsp_id = 0, nsp_devname = ''namespace0.0'', nsp_type = ND_DEVICE_NAMESPACE_PMEM, nsp_size = 0,
     nsp_resource = ULLONG_MAX, nsp_uuid = replicate 16 0, nsp_alt_name = [], nsp_mode = NS_MODE_RAW, nsp_pfn = None,
     nsp_dax = None, nsp_btt = None, nsp_sector_sizes = [512, 4096], nsp_sector_size = 512\<rparr>"

definition demo_region :: nd_region where
  "demo_region = \<lparr>reg_enabled = True, reg_ro = False, reg_type = ND_DEVICE_REGION_PMEM,
     reg_nstype = ND_DEVICE_NAMESPACE_PMEM, reg_size = 0x10000000, reg_max_available_extent = 0xC000000,
     reg_available_size = 0xC000000, reg_resource = 0x100000000, reg_align = 0x1000000, reg_interleave_ways = 2,
     reg_pfn_seed = Some demo_pfn, reg_dax_seed = None, reg_btt_seed = None, reg_namespace_seed = Some demo_ns\<rparr>"

definition demo_parsed :: parsed_parameters where
  "demo_parsed = \<lparr>pp_loc = PFN_LOC_PMEM, pp_uuid = replicate 16 7, pp_name = [], pp_mode = NS_MODE_FSDAX,
     pp_size = 0xC000000, pp_sector_size = 512, pp_align = 0x200000, pp_autolabel = True, pp_autorecover = True\<rparr>"

lemma nsmode_fsdax: "util_nsmode (Some ''fsdax'') = NS_MODE_FSDAX"
  by (simp add: util_nsmode_def strcaseeq_def to_lower_def)

lemma demo_validates: "validate_namespace_options demo_sys demo_param demo_region None = Some (Inr demo_parsed)"
  by (simp add: validate_namespace_options_def validate_size_def validate_available_capacity_def validate_ident_def
      validate_mode_def validate_align_def default_align_def validate_size_align_def validate_sector_size_def
      validate_map_def do_setup_pfn_def nsmode_fsdax demo_sys_def demo_param_def demo_region_def demo_parsed_def
      demo_pfn_def demo_ns_def zero_parsed_def Let_def SZ_16M_def NSLABEL_NAME_LEN_def)

theorem validate_namespace_options_sound_witness:
  "unat (pp_align demo_parsed * 2) dvd unat (pp_size demo_parsed) \<and> SZ_16M \<le> pp_size demo_parsed"
  using validate_namespace_options_sound [OF demo_validates] by (simp add: demo_region_def demo_parsed_def)

lemma pow2_dvd_max:
  assumes "is_power_of_2 a" and "is_power_of_2 b"
  shows "unat a dvd unat (max a b) \<and> unat b dvd unat (max a b)"
proof -
  obtain i j where ij: "i < 64" "a = 2 ^ i" "j < 64" "b = 2 ^ j"
    using assms unfolding is_power_of_2_iff by blast
  have dvd: "(2 :: nat) ^ i dvd 2 ^ j" if "(2 :: nat) ^ i \<le> 2 ^ j" for i j
    using that by (simp add: le_imp_power_dvd)
  show ?thesis
    using ij dvd [of i j] dvd [of j i] by (auto simp: max_def word_le_nat_alt unat_pow2)
qed

lemma next_multiple:
  fixes n m :: nat
  assumes "0 < m"
  shows "n < (n div m + 1) * m" and "n < t \<Longrightarrow> m dvd t \<Longrightarrow> (n div m + 1) * m \<le> t"
proof -
  show "n < (n div m + 1) * m"
    using mod_less_divisor [OF assms, of n] div_mult_mod_eq [of n m] by (simp only: add_mult_distrib mult_1)
  assume "n < t" "m dvd t"
  from \<open>m dvd t\<close> obtain k where t: "t = m * k" by (rule dvdE)
  then have "n div m < k" using \<open>n < t\<close> assms by (simp add: less_mult_imp_div_less mult.commute)
  then have "(n div m + 1) * m \<le> k * m" by (intro mult_le_mono1) simp
  then show "(n div m + 1) * m \<le> t" by (simp add: t mult.commute)
qed

lemma suggest_size_value:
  assumes sa: "unat (max units align * ways) = M" and "1 < M" and "units \<noteq> 0" and "unat units dvd M"
    and "suggest_size sz units align ways = Some r"
  shows "unat r * unat units = (unat sz div M + 1) * M \<and> (unat sz div M + 1) * M < 2 ^ 64"
proof -
  define A where "A = max units align * ways"
  note sa = sa [folded A_def]
  have lim: "\<not> sz div A + 1 > ULLONG_MAX div A" and r: "r = (sz div A + 1) * A div units"
    using assms(5) by (auto simp: suggest_size_def Let_def A_def split: if_splits)
  have "unat sz div M < unat sz \<or> unat sz = 0" using \<open>1 < M\<close> by (cases "unat sz = 0") auto
  then have small: "unat sz div M + 1 < 2 ^ 64" using unat_u64_less [of sz] by auto
  have q: "unat (sz div A + 1) = unat sz div M + 1"
    using small by (simp add: unat_plus_if' unat_div_distrib sa)
  have "unat sz div M + 1 \<le> (2 ^ 64 - 1) div M"
    using lim q by (simp add: word_less_nat_alt unat_div_distrib sa)
  then have bound: "(unat sz div M + 1) * M \<le> 2 ^ 64 - 1"
    using \<open>1 < M\<close> by (simp add: less_eq_div_iff_mult_less_eq)
  then have "unat ((sz div A + 1) * A) = (unat sz div M + 1) * M"
    by (subst unat_mult_lem [THEN iffD1]) (simp_all add: q sa)
  then have "unat r = (unat sz div M + 1) * M div unat units"
    by (simp add: r unat_div_distrib)
  moreover have "unat units dvd (unat sz div M + 1) * M" using assms(4) by (rule dvd_mult)
  ultimately have "unat r * unat units = (unat sz div M + 1) * M" by (metis dvd_div_mult_self)
  with bound show ?thesis by simp
qed

text \<open>The size recommended for a misaligned \<open>--size\<close>, read back in the units of the option, is the next larger
  multiple of the alignment (or of the unit, if that is larger) times the interleave ways; it satisfies the
  alignment that was violated.\<close>

theorem suggest_size_fixes_alignment:
  assumes "units \<in> {1, SZ_1K, SZ_1M, SZ_1G, SZ_1T}" and "is_power_of_2 align" and "ways \<noteq> 0"
    and "unat (max units align) * unat ways < 2 ^ 64" and "\<not> unat align * unat ways dvd unat sz"
    and "suggest_size sz units align ways = Some r"
  shows "unat sz < unat r * unat units \<and> unat align * unat ways dvd unat r * unat units \<and> unat r * unat units < 2 ^ 64 \<and>
    (\<forall>t. unat sz < t \<and> unat (max units align) * unat ways dvd t \<longrightarrow> unat r * unat units \<le> t)"
proof -
  define M where "M = unat (max units align) * unat ways"
  have pu: "is_power_of_2 units"
    using assms(1) by (auto simp: is_power_of_2_def SZ_1K_def SZ_1M_def SZ_1G_def SZ_1T_def)
  have nz: "units \<noteq> 0" "align \<noteq> 0" using pu assms(2) by (auto simp: is_power_of_2_def)
  have dv: "unat units dvd M" "unat align * unat ways dvd M"
    using pow2_dvd_max [OF pu assms(2)] by (auto simp: M_def intro: dvd_mult2 mult_dvd_mono)
  have "0 < M" using nz assms(3) by (auto simp: M_def max_def unat_gt_0)
  moreover have "M \<noteq> 1" using dv(2) assms(5) by auto
  ultimately have M1: "1 < M" by simp
  have sa: "unat (max units align * ways) = M"
    using assms(4) by (simp add: M_def unat_mult_lem [symmetric])
  note val = suggest_size_value [OF sa M1 nz(1) dv(1) assms(6)]
  have "unat align * unat ways dvd (unat sz div M + 1) * M" using dv(2) by (rule dvd_mult)
  then show ?thesis
    using val next_multiple [of M "unat sz"] M1 by (auto simp: M_def [symmetric])
qed

theorem suggest_size_fixes_alignment_witness:
  "suggest_size 0x3100000 SZ_1M 0x200000 3 = Some 54 \<and> 0x3100000 < unat (54 :: u64) * unat SZ_1M"
proof -
  have "suggest_size 0x3100000 SZ_1M 0x200000 3 = Some 54" by (simp add: suggest_size_def Let_def SZ_1M_def)
  then show ?thesis
    using suggest_size_fixes_alignment [of SZ_1M "0x200000" 3 "0x3100000" 54]
    by (simp add: SZ_1M_def is_power_of_2_def)
qed

subsection \<open>The defaults\<close>

lemma nsmode_sector: "util_nsmode (Some ''sector'') = NS_MODE_SECTOR"
  by (simp add: util_nsmode_def strcaseeq_def to_lower_def)

lemma default_type_D:
  assumes "default_type action (r, p) = (0, q)"
  shows "r = 0" and "q = p\<lparr>par_type := par_type q\<rparr>"
    and "par_type q = None \<or> par_type q = Some ''pmem'' \<or> par_type q = Some ''blk''"
    and "action = ACTION_CREATE \<Longrightarrow> par_reconfig p = None \<Longrightarrow> par_type q \<noteq> None"
  using assms by (auto simp: default_type_def split: option.splits if_splits)

lemma default_mode_D:
  assumes "default_mode action (r, p) = (0, q)"
  shows "r = 0" and "q = p\<lparr>par_mode := par_mode q, par_mode_default := par_mode_default q\<rparr>"
    and "par_mode q \<noteq> None \<Longrightarrow> util_nsmode (par_mode q) \<noteq> NS_MODE_UNKNOWN"
    and "par_type p \<noteq> None \<Longrightarrow> par_reconfig p = None \<Longrightarrow> par_mode q \<noteq> None"
  using assms
  by (auto simp: default_mode_def nsmode_fsdax nsmode_sector
      split: option.splits if_splits ndctl_namespace_mode.splits)

lemma default_map_D:
  assumes "default_map (r, p) = (0, q)"
  shows "r = 0" and "q = p\<lparr>par_map := par_map q\<rparr>" and "par_reconfig p = None \<Longrightarrow> par_map q \<noteq> None"
  using assms by (auto simp: default_map_def Let_def split: option.splits if_splits)

lemma check_type_mode_D:
  assumes "check_type_mode (r, p) = (0, q)"
  shows "r = 0" and "q = p"
    and "par_type q = Some ''blk'' \<Longrightarrow> par_mode q \<noteq> Some ''fsdax'' \<and> par_mode q \<noteq> Some ''devdax''"
  using assms by (auto simp: check_type_mode_def split: if_splits)

lemma check_sizes_D:
  assumes "check_sizes sys (r, p) = (0, q)"
  shows "r = 0" and "q = p" and "par_size q \<noteq> None \<Longrightarrow> parse_size64 (par_size q) \<noteq> ULLONG_MAX"
    and "par_offset q \<noteq> None \<Longrightarrow> parse_size64 (par_offset q) \<noteq> ULLONG_MAX"
    and "par_align q \<noteq> None \<Longrightarrow>
      is_power_of_2 (parse_size64 (par_align q)) \<and> sys_page_size sys \<le> parse_size64 (par_align q)"
  using assms by (auto simp: check_sizes_def Let_def not_less split: if_splits simp del: ULLONG_MAX_def)

lemma check_uuids_D:
  assumes "check_uuids sys (r, p) = (0, q)"
  shows "r = 0" and "q = p"
    and "par_uuid q = Some u \<or> par_parent_uuid q = Some u \<Longrightarrow> sys_uuid_parse sys u \<noteq> None"
  using assms by (auto simp: check_uuids_def Let_def split: option.splits if_splits)

lemma default_sector_size_D:
  assumes "default_sector_size (r, p) = (0, q)"
  shows "r = 0" and "q = p\<lparr>par_sector_size := par_sector_size q\<rparr>"
  using assms by (auto simp: default_sector_size_def split: if_splits)

text \<open>When \<open>set_defaults\<close> reports no error, the type is pmem or blk, the mode is a known one and no dax mode on
  a blk namespace, sizes and offset parse, an alignment is a power of two not below the page size, the uuids
  parse, and for a new namespace type, mode and map location are set.\<close>

theorem set_defaults_checks:
  assumes "set_defaults sys action p = (0, q)"
  shows "(par_type q = None \<or> par_type q = Some ''pmem'' \<or> par_type q = Some ''blk'') \<and>
    (par_mode q \<noteq> None \<longrightarrow> util_nsmode (par_mode q) \<noteq> NS_MODE_UNKNOWN) \<and>
    (par_type q = Some ''blk'' \<longrightarrow> par_mode q \<noteq> Some ''fsdax'' \<and> par_mode q \<noteq> Some ''devdax'') \<and>
    (par_size q \<noteq> None \<longrightarrow> parse_size64 (par_size q) \<noteq> ULLONG_MAX) \<and>
    (par_offset q \<noteq> None \<longrightarrow> parse_size64 (par_offset q) \<noteq> ULLONG_MAX) \<and>
    (par_align q \<noteq> None \<longrightarrow> is_power_of_2 (parse_size64 (par_align q)) \<and> sys_page_size sys \<le> parse_size64 (par_align q)) \<and>
    (\<forall>u. par_uuid q = Some u \<or> par_parent_uuid q = Some u \<longrightarrow> sys_uuid_parse sys u \<noteq> None) \<and>
    (action = ACTION_CREATE \<and> par_reconfig q = None \<longrightarrow> par_type q \<noteq> None \<and> par_mode q \<noteq> None \<and> par_map q \<noteq> None)"
proof -
  obtain r1 p1 where s1: "default_type action (0, p) = (r1, p1)" by fastforce
  obtain r2 p2 where s2: "default_mode action (r1, p1) = (r2, p2)" by fastforce
  obtain r3 p3 where s3: "default_map (r2, p2) = (r3, p3)" by fastforce
  obtain r4 p4 where s4: "check_type_mode (r3, p3) = (r4, p4)" by fastforce
  obtain r5 p5 where s5: "check_sizes sys (r4, p4) = (r5, p5)" by fastforce
  obtain r6 p6 where s6: "check_uuids sys (r5, p5) = (r6, p6)" by fastforce
  have s7: "default_sector_size (r6, p6) = (0, q)" using assms by (simp add: set_defaults_def s1 s2 s3 s4 s5 s6)
  note d7 = default_sector_size_D [OF s7]
  note d6 = check_uuids_D [OF s6 [unfolded d7(1)]]
  note d5 = check_sizes_D [OF s5 [unfolded d6(1)]]
  note d4 = check_type_mode_D [OF s4 [unfolded d5(1)]]
  note d3 = default_map_D [OF s3 [unfolded d4(1)]]
  note d2 = default_mode_D [OF s2 [unfolded d3(1)]]
  note d1 = default_type_D [OF s1 [unfolded d2(1)]]
  have f1: "par_reconfig p1 = par_reconfig p" by (subst d1(2)) simp
  have f2: "par_type p2 = par_type p1" "par_reconfig p2 = par_reconfig p1" by (subst d2(2), simp)+
  have f3: "par_type p3 = par_type p2" "par_mode p3 = par_mode p2" "par_reconfig p3 = par_reconfig p2"
    by (subst d3(2), simp)+
  have f7: "par_type q = par_type p6" "par_mode q = par_mode p6" "par_map q = par_map p6"
    "par_reconfig q = par_reconfig p6" "par_size q = par_size p6" "par_offset q = par_offset p6"
    "par_align q = par_align p6" "par_uuid q = par_uuid p6" "par_parent_uuid q = par_parent_uuid p6"
    by (subst d7(2), simp)+
  have flow: "par_type p1 = par_type q" "par_mode p2 = par_mode q" "par_map p3 = par_map q"
    "par_reconfig p = par_reconfig q" "par_reconfig p1 = par_reconfig q" "par_reconfig p2 = par_reconfig q"
    "par_type p4 = par_type q" "par_mode p4 = par_mode q" "par_size p5 = par_size q" "par_offset p5 = par_offset q"
    "par_align p5 = par_align q" "par_uuid p6 = par_uuid q" "par_parent_uuid p6 = par_parent_uuid q"
    by (simp_all only: f7 d6(2) d5(2) d4(2) f3 f2 f1)
  note facts = d6(3) [unfolded flow] d5(3-5) [unfolded flow] d4(3) [unfolded flow] d3(3) [unfolded flow]
    d2(3,4) [unfolded flow] d1(3,4) [unfolded flow]
  show ?thesis
    by (intro conjI allI impI; (elim conjE)?) (use facts in blast)+
qed

definition demo_create :: parameters where
  "demo_create = demo_param\<lparr>par_mode_default := False, par_map := None, par_type := None, par_mode := None,
     par_size := Some ''64M'', par_align := Some ''2M''\<rparr>"

lemma demo_create_parse: "parse_size64 (Some ''64M'') = 0x4000000" "parse_size64 (Some ''2M'') = 0x200000"
  by (simp_all add: parse_size64_def parse_size64_units_def strtoull_def scan_sign_def scan_unsigned_def starts_digit_def
      is_space_def digit_value_def size_unit_def SZ_1M_def Let_def)

lemma demo_create_defaults:
  "set_defaults demo_sys ACTION_CREATE demo_create = (0, demo_create\<lparr>par_type := Some ''pmem'', par_mode := Some ''fsdax'',
     par_mode_default := True, par_map := Some ''dev''\<rparr>)"
  by (simp add: set_defaults_def default_type_def default_mode_def default_map_def check_type_mode_def check_sizes_def
      check_uuids_def default_sector_size_def nsmode_fsdax demo_create_def demo_param_def demo_sys_def
      demo_create_parse Let_def is_power_of_2_def)

theorem set_defaults_checks_witness:
  "is_power_of_2 (parse_size64 (Some ''2M'')) \<and> 4096 \<le> parse_size64 (Some ''2M'')"
  using set_defaults_checks [OF demo_create_defaults] by (simp add: demo_create_def demo_sys_def demo_param_def)

text \<open>\<open>--map\<close> is checked against the spelling of the mode, not against the mode: a mode given by an alias
  (\<open>memory\<close>, \<open>dax\<close>) or in other case, which \<open>util_nsmode\<close> accepts, is rejected together with \<open>--map\<close>.\<close>

theorem map_rejects_mode_alias:
  assumes "par_map p = Some l" and "par_reconfig p = None" and "par_mode p = Some m"
    and "m \<noteq> ''fsdax''" and "m \<noteq> ''devdax''"
  shows "fst (set_defaults sys action p) \<noteq> 0"
proof
  obtain r1 p1 where s1: "default_type action (0, p) = (r1, p1)" by fastforce
  obtain r2 p2 where s2: "default_mode action (r1, p1) = (r2, p2)" by fastforce
  obtain r3 p3 where s3: "default_map (r2, p2) = (r3, p3)" by fastforce
  have "par_map p2 = Some l \<and> par_reconfig p2 = None \<and> par_mode p2 = Some m"
    using s1 s2 assms(1-3)
    by (auto simp: default_type_def default_mode_def split: option.splits if_splits ndctl_namespace_mode.splits)
  then have r3: "r3 = - EINVAL" using s3 assms(4,5) by (simp add: default_map_def Let_def)
  obtain r4 p4 where s4: "check_type_mode (r3, p3) = (r4, p4)" by fastforce
  obtain r5 p5 where s5: "check_sizes sys (r4, p4) = (r5, p5)" by fastforce
  obtain r6 p6 where s6: "check_uuids sys (r5, p5) = (r6, p6)" by fastforce
  obtain r7 p7 where s7: "default_sector_size (r6, p6) = (r7, p7)" by fastforce
  assume "fst (set_defaults sys action p) = 0"
  then have "r7 = 0" by (simp add: set_defaults_def s1 s2 s3 s4 s5 s6 s7)
  then have "r3 = 0"
    using default_sector_size_D(1) check_uuids_D(1) check_sizes_D(1) check_type_mode_D(1) s4 s5 s6 s7 by blast
  with r3 show False by simp
qed

theorem map_rejects_mode_alias_witness:
  "fst (set_defaults demo_sys ACTION_CREATE (demo_param\<lparr>par_mode := Some ''memory''\<rparr>)) \<noteq> 0 \<and>
   util_nsmode (Some ''memory'') = NS_MODE_FSDAX"
proof
  show "fst (set_defaults demo_sys ACTION_CREATE (demo_param\<lparr>par_mode := Some ''memory''\<rparr>)) \<noteq> 0"
    by (rule map_rejects_mode_alias [where l = "''dev''" and m = "''memory''"]) (simp_all add: demo_param_def)
qed (simp add: util_nsmode_def strcaseeq_def to_lower_def)

end
