(* ===== verification/Pfn_Infoblock.thy ===== *)
theory Pfn_Infoblock
  imports Ns_Options Infoblock
begin

text \<open>
  The \<open>write-infoblock\<close> and \<open>read-infoblock\<close> commands of \<open>ndctl/namespace.c\<close>: building the pfn and dax information
  blocks (\<open>struct pfn_sb\<close> of \<open>ndctl/namespace.h\<close>, at 4K of the 8K buffer), and recognising, verifying and reporting
  the information blocks of a buffer.  JSON values are a datatype; allocations inside the JSON library succeed.
\<close>

subsection \<open>The pfn information block\<close>

definition SZ_4K :: u64 where "SZ_4K = 0x1000"
definition SZ_8K :: u64 where "SZ_8K = 0x2000"
definition SUBSECTION_SIZE :: u64 where "SUBSECTION_SIZE = 0x200000"
definition MAX_STRUCT_PAGE_SIZE :: u64 where "MAX_STRUCT_PAGE_SIZE = 64"

text \<open>The signatures with their terminating NUL.\<close>

definition ascii :: "string \<Rightarrow> u8 list" where
  "ascii s = map of_char s"

definition PFN_SIG :: "u8 list" where "PFN_SIG = ascii ''NVDIMM_PFN_INFO'' @ [0]"
definition DAX_SIG :: "u8 list" where "DAX_SIG = ascii ''NVDIMM_DAX_INFO'' @ [0]"
definition BTT_SIG_ib :: "u8 list" where "BTT_SIG_ib = ascii ''BTT_ARENA_INFO'' @ [0, 0]"

datatype pfn_mode = PFN_MODE_NONE | PFN_MODE_RAM | PFN_MODE_PMEM

fun pfn_mode_code :: "pfn_mode \<Rightarrow> u32" where
  "pfn_mode_code PFN_MODE_NONE = 0"
| "pfn_mode_code PFN_MODE_RAM = 1"
| "pfn_mode_code PFN_MODE_PMEM = 2"

definition PHYS_PFN :: "ns_sys \<Rightarrow> u64 \<Rightarrow> u64" where
  "PHYS_PFN sys phys = phys div sys_page_size sys"

text \<open>The fields of a \<open>struct pfn_sb\<close> at offset \<open>b\<close>.\<close>

definition pfn_signature :: "mem \<Rightarrow> nat \<Rightarrow> u8 list" where "pfn_signature m b = mem_bytes m b 16"
definition pfn_uuid :: "mem \<Rightarrow> nat \<Rightarrow> u8 list" where "pfn_uuid m b = mem_bytes m (b + 16) 16"
definition pfn_parent_uuid :: "mem \<Rightarrow> nat \<Rightarrow> u8 list" where "pfn_parent_uuid m b = mem_bytes m (b + 32) 16"
definition pfn_flags :: "mem \<Rightarrow> nat \<Rightarrow> u32" where "pfn_flags m b = le_get 4 m (b + 48)"
definition pfn_version_major :: "mem \<Rightarrow> nat \<Rightarrow> u16" where "pfn_version_major m b = le_get 2 m (b + 52)"
definition pfn_version_minor :: "mem \<Rightarrow> nat \<Rightarrow> u16" where "pfn_version_minor m b = le_get 2 m (b + 54)"
definition pfn_dataoff :: "mem \<Rightarrow> nat \<Rightarrow> u64" where "pfn_dataoff m b = le_get 8 m (b + 56)"
definition pfn_npfns :: "mem \<Rightarrow> nat \<Rightarrow> u64" where "pfn_npfns m b = le_get 8 m (b + 64)"
definition pfn_mode_field :: "mem \<Rightarrow> nat \<Rightarrow> u32" where "pfn_mode_field m b = le_get 4 m (b + 72)"
definition pfn_start_pad :: "mem \<Rightarrow> nat \<Rightarrow> u32" where "pfn_start_pad m b = le_get 4 m (b + 76)"
definition pfn_end_trunc :: "mem \<Rightarrow> nat \<Rightarrow> u32" where "pfn_end_trunc m b = le_get 4 m (b + 80)"
definition pfn_align_field :: "mem \<Rightarrow> nat \<Rightarrow> u32" where "pfn_align_field m b = le_get 4 m (b + 84)"
definition pfn_page_size :: "mem \<Rightarrow> nat \<Rightarrow> u32" where "pfn_page_size m b = le_get 4 m (b + 88)"
definition pfn_page_struct_size :: "mem \<Rightarrow> nat \<Rightarrow> u16" where "pfn_page_struct_size m b = le_get 2 m (b + 92)"

lemmas pfn_field_defs = pfn_signature_def pfn_uuid_def pfn_parent_uuid_def pfn_flags_def pfn_version_major_def
  pfn_version_minor_def pfn_dataoff_def pfn_npfns_def pfn_mode_field_def pfn_start_pad_def pfn_end_trunc_def
  pfn_align_field_def pfn_page_size_def pfn_page_struct_size_def

text \<open>The geometry \<open>write_pfn_sb\<close> computes: \<open>Inr (offset, npfns, start_pad, end_trunc)\<close>.\<close>

definition pfn_geometry :: "ns_sys \<Rightarrow> pfn_mode \<Rightarrow> u64 \<Rightarrow> u64 \<Rightarrow> u64 \<Rightarrow> int + u64 \<times> u64 \<times> u32 \<times> u32" where
  "pfn_geometry sys mode start sz palign =
     (let npfns = PHYS_PFN sys (sz - SZ_8K);
          align = max palign SUBSECTION_SIZE;
          start_pad = ucast (ALIGN start align - start) :: u32;
          end_trunc = ucast (start + sz - ALIGN_DOWN (start + sz) align) :: u32 in
      if mode = PFN_MODE_PMEM \<and> start > ULLONG_MAX - (SZ_8K + MAX_STRUCT_PAGE_SIZE * npfns) then Inl (- EINVAL)
      else let offset = (if mode = PFN_MODE_PMEM
                         then ALIGN (start + SZ_8K + MAX_STRUCT_PAGE_SIZE * npfns) align - start
                         else ALIGN (start + SZ_8K) align - start) in
        if offset \<ge> sz then Inl (- ENXIO)
        else Inr (offset, PHYS_PFN sys (sz - offset - ucast end_trunc - ucast start_pad), start_pad, end_trunc))"

text \<open>Storing the fields, in the order of the code.\<close>

definition pfn_fill :: "ns_sys \<Rightarrow> mem \<Rightarrow> nat \<Rightarrow> u8 list \<Rightarrow> uuid \<Rightarrow> uuid \<Rightarrow> pfn_mode \<Rightarrow> u64 \<Rightarrow> u64 \<times> u64 \<times> u32 \<times> u32 \<Rightarrow> mem" where
  "pfn_fill sys m b sig uu parent mode palign g =
     (case g of (offset, npfns, start_pad, end_trunc) \<Rightarrow>
        let m = le_put 4 (pfn_mode_code mode) m (b + 72);
            m = le_put 8 offset m (b + 56);
            m = le_put 8 npfns m (b + 64);
            m = mem_store m b sig;
            m = mem_store m (b + 16) uu;
            m = mem_store m (b + 32) parent;
            m = le_put 2 (1 :: u16) m (b + 52);
            m = le_put 2 (4 :: u16) m (b + 54);
            m = le_put 4 start_pad m (b + 76);
            m = le_put 4 end_trunc m (b + 80);
            m = le_put 4 (ucast palign :: u32) m (b + 84);
            m = le_put 2 (ucast MAX_STRUCT_PAGE_SIZE :: u16) m (b + 92);
            m = le_put 4 (ucast (sys_page_size sys) :: u32) m (b + 88)
        in le_put 8 (fletcher64 m b 4096) m (b + 4088))"

text \<open>\<open>write_pfn_sb\<close> on the zeroed buffer \<open>buf\<close>; \<open>wr\<close> says whether \<open>write\<close> stores the whole buffer.  \<open>Inr\<close> is the
  buffer written, with return value 0.\<close>

definition write_pfn_sb :: "ns_sys \<Rightarrow> parameters \<Rightarrow> bool \<Rightarrow> u64 \<Rightarrow> u8 list \<Rightarrow> mem \<Rightarrow> int + mem" where
  "write_pfn_sb sys param wr sz sig buf =
     (let start = parse_size64 (par_offset param) in
      if start = ULLONG_MAX then Inl (- EINVAL)
      else let palign = parse_size64 (par_align param) in
      case (case par_uuid param of Some u \<Rightarrow> sys_uuid_parse sys u | None \<Rightarrow> Some (sys_uuid_generate sys)) of
        None \<Rightarrow> Inl (- EINVAL)
      | Some uu \<Rightarrow>
      case (case par_parent_uuid param of Some u \<Rightarrow> sys_uuid_parse sys u | None \<Rightarrow> Some (replicate 16 0)) of
        None \<Rightarrow> Inl (- EINVAL)
      | Some parent \<Rightarrow>
      let mode = (if par_map param = Some ''dev'' then PFN_MODE_PMEM else PFN_MODE_RAM) in
      case pfn_geometry sys mode start sz palign of
        Inl rc \<Rightarrow> Inl rc
      | Inr g \<Rightarrow>
          let buf = pfn_fill sys buf 4096 sig uu parent mode palign g in
          if wr then Inr buf else Inl (- EIO))"

text \<open>\<open>file_write_infoblock\<close> after the output is open: \<open>stat_size\<close> is what \<open>fstat\<close> or the size ioctl report, asked
  only for a file and without \<open>--size\<close>.\<close>

definition file_write_infoblock :: "ns_sys \<Rightarrow> parameters \<Rightarrow> bool \<Rightarrow> int + u64 \<Rightarrow> bool \<Rightarrow> int + mem" where
  "file_write_infoblock sys param wr stat_size calloc_ok =
     (let sz = parse_size64 (par_size param) in
      case (if \<not> par_std_out param \<and> sz = 0 then stat_size else Inr sz) of
        Inl rc \<Rightarrow> Inl rc
      | Inr sz \<Rightarrow>
          if \<not> calloc_ok then Inl (- ENOMEM)
          else (case util_nsmode (par_mode param) of
                  NS_MODE_FSDAX \<Rightarrow> write_pfn_sb sys param wr sz PFN_SIG (\<lambda>_. 0)
                | NS_MODE_DEVDAX \<Rightarrow> write_pfn_sb sys param wr sz DAX_SIG (\<lambda>_. 0)
                | _ \<Rightarrow> Inl (- EINVAL)))"

text \<open>\<open>None\<close> is a read past the array of alignments, which the index check lets through for \<open>i = num\<close>.\<close>

definition ndctl_pfn_get_supported_alignment :: "ndctl_pfn \<Rightarrow> nat \<Rightarrow> u64 option" where
  "ndctl_pfn_get_supported_alignment pfn i =
     (let num = length (pfn_alignments pfn) in
      if num = 0 then Some 0
      else if i > num then Some (word_of_int (- EINVAL))
      else if i = num then None else Some (pfn_alignments pfn ! i))"

definition ndctl_get_default_alignment :: "ns_sys \<Rightarrow> nd_namespace \<Rightarrow> u64 option" where
  "ndctl_get_default_alignment sys ndns =
     map_option (\<lambda>align. if align = 0 then sys_page_size sys else align)
       (case (nsp_mode ndns, nsp_pfn ndns, nsp_dax ndns) of
          (NS_MODE_FSDAX, Some pfn, _) \<Rightarrow> ndctl_pfn_get_supported_alignment pfn 1
        | (NS_MODE_DEVDAX, _, Some dax) \<Rightarrow> ndctl_pfn_get_supported_alignment dax 1
        | _ \<Rightarrow> Some 0)"

text \<open>The checks \<open>namespace_rw_infoblock\<close> makes before it writes: \<open>align_str\<close> is \<open>--align\<close> or the printed default.\<close>

definition rw_infoblock_check :: "parameters \<Rightarrow> string option \<Rightarrow> int" where
  "rw_infoblock_check param align_str =
     (if par_size param = None then 0
      else let sz = parse_size64 (par_size param);
               align = parse_size64 align_str;
               rc = (if align = 0 \<or> align = ULLONG_MAX then - EINVAL else 0)
           in if \<not> IS_ALIGNED sz align then - EINVAL else rc)"

subsection \<open>Reading information blocks\<close>

datatype json = JStr string | JInt int | JHex u64

type_synonym json_object = "(string \<times> json) list"

text \<open>A NUL-terminated string in a byte array.\<close>

definition c_string :: "u8 list \<Rightarrow> string" where
  "c_string bs = map (\<lambda>b. char_of (unat b)) (takeWhile (\<lambda>b. b \<noteq> 0) bs)"

fun digits :: "nat \<Rightarrow> string" where
  "digits n = (if n < 10 then [char_of (48 + n)] else digits (n div 10) @ [char_of (48 + n mod 10)])"

declare digits.simps [simp del]

definition version_string :: "u16 \<Rightarrow> u16 \<Rightarrow> string" where
  "version_string major minor = digits (unat major) @ ''.'' @ digits (unat minor)"

text \<open>\<open>json_object_new_int(le32_to_cpu(...))\<close>: the value passes through a 32-bit \<open>int\<close>.\<close>

definition jint :: "u32 \<Rightarrow> json" where
  "jint w = JInt (sint w)"

definition block_at :: "mem \<Rightarrow> nat \<Rightarrow> info_block" where
  "block_at m b = (\<lambda>i. m (b + i))"

text \<open>The verification both parsers start with: the checksum, which is zeroed in the buffer when it does not match,
  and the parent uuid.  The comparison is \<open>memcmp(uuid, parent_uuid, sizeof(uuid) != 0)\<close>: of one byte.\<close>

definition infoblock_accepted :: "bool \<Rightarrow> nd_namespace option \<Rightarrow> mem \<Rightarrow> nat \<Rightarrow> bool \<times> mem" where
  "infoblock_accepted verify ndns m b =
     (if verify \<and> \<not> fst (verify_infoblock_checksum (block_at m b)) then (False, le_put 8 (0 :: u64) m (b + 4088))
      else (case ndns of
              Some n \<Rightarrow> (\<not> (verify \<and> nsp_uuid n \<noteq> replicate 16 0 \<and>
                            take 1 (nsp_uuid n) \<noteq> take 1 (pfn_parent_uuid m b)), m)
            | None \<Rightarrow> (True, m)))"

definition block_source :: "nd_namespace option \<Rightarrow> string \<Rightarrow> string \<times> json" where
  "block_source ndns path =
     (case ndns of Some n \<Rightarrow> (''dev'', JStr (nsp_devname n)) | None \<Rightarrow> (''file'', JStr path))"

definition btt_parse ::
  "ns_sys \<Rightarrow> bool \<Rightarrow> nd_namespace option \<Rightarrow> string \<Rightarrow> mem \<Rightarrow> nat \<Rightarrow> json_object option \<times> mem" where
  "btt_parse sys verify ndns path m b =
     (case infoblock_accepted verify ndns m b of (ok, m) \<Rightarrow>
        if \<not> ok then (None, m)
        else let version = version_string (pfn_version_major m b) (pfn_version_minor m b) in
          if length version \<ge> 4 then (None, m)
          else (Some [block_source ndns path, (''signature'', JStr (c_string (pfn_signature m b))),
                 (''uuid'', JStr (sys_uuid_unparse sys (pfn_uuid m b))),
                 (''parent_uuid'', JStr (sys_uuid_unparse sys (pfn_parent_uuid m b))),
                 (''flags'', JHex (ucast (pfn_flags m b))), (''version'', JStr version),
                 (''external_lbasize'', jint (le_get 4 m (b + 56))), (''external_nlba'', jint (le_get 4 m (b + 60))),
                 (''internal_lbasize'', jint (le_get 4 m (b + 64))), (''internal_nlba'', jint (le_get 4 m (b + 68))),
                 (''nfree'', jint (le_get 4 m (b + 72))), (''infosize'', jint (le_get 4 m (b + 76))),
                 (''nextoff'', JHex (le_get 8 m (b + 80))), (''dataoff'', JHex (le_get 8 m (b + 88))),
                 (''mapoff'', JHex (le_get 8 m (b + 96))), (''logoff'', JHex (le_get 8 m (b + 104))),
                 (''info2off'', JHex (le_get 8 m (b + 112)))], m))"

definition pfn_parse ::
  "ns_sys \<Rightarrow> bool \<Rightarrow> nd_namespace option \<Rightarrow> string \<Rightarrow> mem \<Rightarrow> nat \<Rightarrow> json_object option \<times> mem" where
  "pfn_parse sys verify ndns path m b =
     (case infoblock_accepted verify ndns m b of (ok, m) \<Rightarrow>
        if \<not> ok then (None, m)
        else let version = version_string (pfn_version_major m b) (pfn_version_minor m b) in
          if length version \<ge> 4 then (None, m)
          else (Some [block_source ndns path, (''signature'', JStr (c_string (pfn_signature m b))),
                 (''uuid'', JStr (sys_uuid_unparse sys (pfn_uuid m b))),
                 (''parent_uuid'', JStr (sys_uuid_unparse sys (pfn_parent_uuid m b))),
                 (''flags'', JHex (ucast (pfn_flags m b))), (''version'', JStr version),
                 (''dataoff'', JHex (pfn_dataoff m b)), (''npfns'', JHex (pfn_npfns m b)),
                 (''mode'', jint (pfn_mode_field m b)), (''start_pad'', JHex (ucast (pfn_start_pad m b))),
                 (''end_trunc'', JHex (ucast (pfn_end_trunc m b))), (''align'', JHex (ucast (pfn_align_field m b))),
                 (''page_size'', JHex (ucast (pfn_page_size m b))),
                 (''page_struct_size'', JHex (ucast (pfn_page_struct_size m b)))], m))"

definition parse_if ::
  "bool \<Rightarrow> (mem \<Rightarrow> json_object option \<times> mem) \<Rightarrow> json_object list \<times> mem \<Rightarrow> json_object list \<times> mem" where
  "parse_if c parser st =
     (case st of (jblocks, m) \<Rightarrow>
        if c then (case parser m of (Some j, m) \<Rightarrow> (jblocks @ [j], m) | (None, m) \<Rightarrow> (jblocks, m)) else (jblocks, m))"

text \<open>\<open>parse_namespace_infoblock\<close> with \<open>--json\<close> or \<open>--human\<close>: the array gets one object per recognised block.\<close>

definition parse_namespace_infoblock ::
  "ns_sys \<Rightarrow> bool \<Rightarrow> nd_namespace option \<Rightarrow> string \<Rightarrow> json_object list \<Rightarrow> mem \<Rightarrow> json_object list" where
  "parse_namespace_infoblock sys verify ndns path jblocks m =
     (let st = (jblocks, m);
          st = parse_if (mem_bytes (snd st) 4096 16 = BTT_SIG_ib) (\<lambda>m. btt_parse sys verify ndns path m 4096) st;
          st = parse_if (mem_bytes (snd st) 0 16 = BTT_SIG_ib) (\<lambda>m. btt_parse sys verify ndns path m 0) st;
          st = parse_if (mem_bytes (snd st) 4096 16 = PFN_SIG) (\<lambda>m. pfn_parse sys verify ndns path m 4096) st;
          st = parse_if (mem_bytes (snd st) 4096 16 = DAX_SIG) (\<lambda>m. pfn_parse sys verify ndns path m 4096) st
      in fst st)"

subsection \<open>Written blocks verify and read back\<close>

lemma le_get_block_at: "le_get n (block_at m b) ofs = le_get n m (b + ofs)"
  by (rule le_get_cong) (simp add: block_at_def add.assoc)

text \<open>Storing the checksum of a block whose checksum field is zero makes it verify.\<close>

lemma verify_after_seal:
  assumes "\<And>i. i < 8 \<Longrightarrow> m (b + 4088 + i) = 0"
  shows "ib.intact (block_at (le_put 8 (fletcher64 m b 4096) m (b + 4088)) b)"
proof -
  let ?m = "le_put 8 (fletcher64 m b 4096) m (b + 4088)"
  have "fletcher64 (sb_set_checksum 0 (block_at ?m b)) 0 4096 = fletcher64 m b 4096"
  proof (rule fletcher64_cong)
    fix i :: nat assume "i < 4096"
    then show "sb_set_checksum 0 (block_at ?m b) (0 + i) = m (b + i)"
      using assms [of "i - 4088"] by (auto simp: sb_set_checksum_def le_put_at block_at_def)
  qed
  then show ?thesis
    by (simp add: ib.intact_def sb_checksum_def le_get_block_at le_get_put_same)
qed

lemma sig_bytes:
  "PFN_SIG = [78, 86, 68, 73, 77, 77, 95, 80, 70, 78, 95, 73, 78, 70, 79, 0]"
  "DAX_SIG = [78, 86, 68, 73, 77, 77, 95, 68, 65, 88, 95, 73, 78, 70, 79, 0]"
  "BTT_SIG_ib = [66, 84, 84, 95, 65, 82, 69, 78, 65, 95, 73, 78, 70, 79, 0, 0]"
  by (simp_all add: PFN_SIG_def DAX_SIG_def BTT_SIG_ib_def ascii_def)

lemma sig_props:
  shows "length PFN_SIG = 16" and "length DAX_SIG = 16" and "PFN_SIG \<noteq> BTT_SIG_ib" and "DAX_SIG \<noteq> BTT_SIG_ib"
    and "PFN_SIG \<noteq> DAX_SIG" and "BTT_SIG_ib ! 0 \<noteq> 0"
  by (simp_all add: sig_bytes)

lemma le_get_zero [simp]: "le_get n (\<lambda>_. 0) b = 0"
  by (induction n arbitrary: b) simp_all

lemma pfn_fill_fields:
  assumes "length sig = 16" and "length uu = 16" and "length parent = 16" and "g = (off, n, pad, trunc)"
    and m_def: "m = pfn_fill sys (\<lambda>_. 0) b sig uu parent mode palign g"
  shows "pfn_signature m b = sig" and "pfn_uuid m b = uu" and "pfn_parent_uuid m b = parent"
    and "pfn_version_major m b = 1" and "pfn_version_minor m b = 4" and "pfn_dataoff m b = off" and "pfn_npfns m b = n"
    and "pfn_mode_field m b = pfn_mode_code mode" and "pfn_start_pad m b = pad" and "pfn_end_trunc m b = trunc"
    and "pfn_align_field m b = ucast palign" and "ib.intact (block_at m b)"
    and "a < b \<Longrightarrow> m a = 0" and "pfn_flags m b = 0" and "pfn_page_size m b = ucast (sys_page_size sys)"
    and "pfn_page_struct_size m b = 64"
proof -
  show "ib.intact (block_at m b)"
    unfolding m_def pfn_fill_def assms(4) Let_def prod.case
    by (rule verify_after_seal) (simp add: mem_disj assms(1-3))
qed (simp_all add: m_def pfn_fill_def assms(1-4) Let_def pfn_field_defs mem_disj le_get_put_same MAX_STRUCT_PAGE_SIZE_def)

lemma version_1_4: "version_string 1 4 = ''1.4''"
  by (simp add: version_string_def digits.simps dec_chars)

lemma accepted_intact:
  "ib.intact (block_at m b) \<Longrightarrow> infoblock_accepted verify None m b = (True, m)"
  by (simp add: infoblock_accepted_def verify_infoblock_checksum_iff)

lemma parse_written:
  assumes sig: "pfn_signature m 4096 = sig" "sig = PFN_SIG \<or> sig = DAX_SIG" and "m 0 = 0"
    and "ib.intact (block_at m 4096)" and "pfn_version_major m 4096 = 1" and "pfn_version_minor m 4096 = 4"
  shows "\<exists>j. parse_namespace_infoblock sys True None path [] m = [j] \<and> pfn_parse sys True None path m 4096 = (Some j, m)"
proof -
  have no_btt: "mem_bytes m 0 16 \<noteq> BTT_SIG_ib"
    using \<open>m 0 = 0\<close> sig_props(6) by (metis add_0 mem_bytes_nth zero_less_numeral)
  obtain j where j: "pfn_parse sys True None path m 4096 = (Some j, m)"
    by (simp add: pfn_parse_def accepted_intact assms(4-6) version_1_4 block_source_def)
  have "parse_namespace_infoblock sys True None path [] m = [j]"
    using sig no_btt sig_props j by (auto simp: parse_namespace_infoblock_def Let_def parse_if_def pfn_signature_def)
  then show ?thesis using j by blast
qed

text \<open>libuuid works on 16-byte uuids.\<close>

definition uuids_wf :: "ns_sys \<Rightarrow> bool" where
  "uuids_wf sys \<longleftrightarrow> (\<forall>s u. sys_uuid_parse sys s = Some u \<longrightarrow> length u = 16) \<and> length (sys_uuid_generate sys) = 16"

lemma write_pfn_sb_D:
  assumes "write_pfn_sb sys param wr sz sig buf = Inr m"
    and "uuids_wf sys"
  shows "\<exists>uu parent g. length uu = 16 \<and> length parent = 16 \<and>
    (case par_uuid param of Some u \<Rightarrow> sys_uuid_parse sys u | None \<Rightarrow> Some (sys_uuid_generate sys)) = Some uu \<and>
    (case par_parent_uuid param of Some u \<Rightarrow> sys_uuid_parse sys u | None \<Rightarrow> Some (replicate 16 0)) = Some parent \<and>
    pfn_geometry sys (if par_map param = Some ''dev'' then PFN_MODE_PMEM else PFN_MODE_RAM) (parse_size64 (par_offset param))
      sz (parse_size64 (par_align param)) = Inr g \<and>
    m = pfn_fill sys buf 4096 sig uu parent (if par_map param = Some ''dev'' then PFN_MODE_PMEM else PFN_MODE_RAM)
      (parse_size64 (par_align param)) g"
proof -
  let ?mode = "if par_map param = Some ''dev'' then PFN_MODE_PMEM else PFN_MODE_RAM"
  let ?u = "case par_uuid param of Some u \<Rightarrow> sys_uuid_parse sys u | None \<Rightarrow> Some (sys_uuid_generate sys)"
  let ?p = "case par_parent_uuid param of Some u \<Rightarrow> sys_uuid_parse sys u | None \<Rightarrow> Some (replicate 16 0)"
  let ?g = "pfn_geometry sys ?mode (parse_size64 (par_offset param)) sz (parse_size64 (par_align param))"
  have ok: "parse_size64 (par_offset param) \<noteq> ULLONG_MAX"
    using assms(1) by (auto simp: write_pfn_sb_def Let_def)
  obtain uu where u: "?u = Some uu" using assms(1) ok by (cases ?u) (auto simp: write_pfn_sb_def Let_def)
  obtain parent where p: "?p = Some parent" using assms(1) ok u by (cases ?p) (auto simp: write_pfn_sb_def Let_def)
  obtain g where g: "?g = Inr g" using assms(1) ok u p by (cases ?g) (auto simp: write_pfn_sb_def Let_def)
  have "length uu = 16" using u assms(2) by (cases "par_uuid param") (auto simp: uuids_wf_def)
  moreover have "length parent = 16" using p assms(2) by (cases "par_parent_uuid param") (auto simp: uuids_wf_def)
  moreover have "m = pfn_fill sys buf 4096 sig uu parent ?mode (parse_size64 (par_align param)) g"
    using assms(1) ok u p g by (simp add: write_pfn_sb_def Let_def split: if_splits)
  ultimately show ?thesis using g u p by blast
qed

text \<open>C12: what \<open>write-infoblock\<close> writes, \<open>read-infoblock --verify\<close> reads back: the buffer holds exactly one recognised
  block, it verifies, and every field that is reported is the one asked for: the signature of the mode, the uuids given (or a fresh
  one and zero), the place of the memmap, the alignment and the page size, and the geometry computed for the size given or found.\<close>

theorem infoblock_write_read:
  assumes "file_write_infoblock sys param True stat_size True = Inr m"
    and "uuids_wf sys"
  shows "\<exists>sz uu parent off n pad trunc.
    (if \<not> par_std_out param \<and> parse_size64 (par_size param) = 0 then stat_size else Inr (parse_size64 (par_size param))) = Inr sz \<and>
    (case par_uuid param of Some u \<Rightarrow> sys_uuid_parse sys u | None \<Rightarrow> Some (sys_uuid_generate sys)) = Some uu \<and>
    (case par_parent_uuid param of Some u \<Rightarrow> sys_uuid_parse sys u | None \<Rightarrow> Some (replicate 16 0)) = Some parent \<and>
    pfn_geometry sys (if par_map param = Some ''dev'' then PFN_MODE_PMEM else PFN_MODE_RAM) (parse_size64 (par_offset param))
      sz (parse_size64 (par_align param)) = Inr (off, n, pad, trunc) \<and>
    parse_namespace_infoblock sys True None path [] m =
      [[(''file'', JStr path),
        (''signature'', JStr (if util_nsmode (par_mode param) = NS_MODE_FSDAX then ''NVDIMM_PFN_INFO'' else ''NVDIMM_DAX_INFO'')),
        (''uuid'', JStr (sys_uuid_unparse sys uu)), (''parent_uuid'', JStr (sys_uuid_unparse sys parent)),
        (''flags'', JHex 0), (''version'', JStr ''1.4''), (''dataoff'', JHex off), (''npfns'', JHex n),
        (''mode'', JInt (if par_map param = Some ''dev'' then 2 else 1)),
        (''start_pad'', JHex (ucast pad)), (''end_trunc'', JHex (ucast trunc)),
        (''align'', JHex (ucast (ucast (parse_size64 (par_align param)) :: u32))),
        (''page_size'', JHex (ucast (ucast (sys_page_size sys) :: u32))), (''page_struct_size'', JHex 64)]]"
proof -
  let ?mode = "if par_map param = Some ''dev'' then PFN_MODE_PMEM else PFN_MODE_RAM"
  let ?sig = "if util_nsmode (par_mode param) = NS_MODE_FSDAX then PFN_SIG else DAX_SIG"
  let ?size = "if \<not> par_std_out param \<and> parse_size64 (par_size param) = 0 then stat_size else Inr (parse_size64 (par_size param))"
  obtain sz where sz: "?size = Inr sz" and w: "write_pfn_sb sys param True sz ?sig (\<lambda>_. 0) = Inr m"
    using assms(1)
    by (cases ?size) (simp_all add: file_write_infoblock_def Let_def split: if_splits ndctl_namespace_mode.splits)
  then obtain uu parent g where g: "pfn_geometry sys ?mode (parse_size64 (par_offset param)) sz (parse_size64 (par_align param)) = Inr g"
    and uu: "(case par_uuid param of Some u \<Rightarrow> sys_uuid_parse sys u | None \<Rightarrow> Some (sys_uuid_generate sys)) = Some uu"
    and parent: "(case par_parent_uuid param of Some u \<Rightarrow> sys_uuid_parse sys u | None \<Rightarrow> Some (replicate 16 0)) = Some parent"
    and len: "length uu = 16" "length parent = 16"
    and m: "m = pfn_fill sys (\<lambda>_. 0) 4096 ?sig uu parent ?mode (parse_size64 (par_align param)) g"
    using write_pfn_sb_D [OF w assms(2)] by blast
  obtain off n pad trunc where geq: "g = (off, n, pad, trunc)" by (cases g) auto
  have slen: "length ?sig = 16" by (simp add: sig_props)
  note f = pfn_fill_fields [OF slen len geq m]
  have sig: "?sig = PFN_SIG \<or> ?sig = DAX_SIG" by simp
  obtain j where j: "parse_namespace_infoblock sys True None path [] m = [j]" "pfn_parse sys True None path m 4096 = (Some j, m)"
    using parse_written [OF f(1) sig f(13) f(12) f(4,5), of sys path] by auto
  have name: "c_string ?sig = (if util_nsmode (par_mode param) = NS_MODE_FSDAX then ''NVDIMM_PFN_INFO'' else ''NVDIMM_DAX_INFO'')"
    by (simp add: sig_bytes c_string_def char_of_def bit_Suc_0_iff)
  have "jint (pfn_mode_code ?mode) = JInt (if par_map param = Some ''dev'' then 2 else 1)"
    by (simp add: jint_def)
  then have "parse_namespace_infoblock sys True None path [] m =
      [[(''file'', JStr path), (''signature'', JStr (c_string ?sig)),
        (''uuid'', JStr (sys_uuid_unparse sys uu)), (''parent_uuid'', JStr (sys_uuid_unparse sys parent)),
        (''flags'', JHex 0), (''version'', JStr ''1.4''), (''dataoff'', JHex off), (''npfns'', JHex n),
        (''mode'', JInt (if par_map param = Some ''dev'' then 2 else 1)),
        (''start_pad'', JHex (ucast pad)), (''end_trunc'', JHex (ucast trunc)),
        (''align'', JHex (ucast (ucast (parse_size64 (par_align param)) :: u32))),
        (''page_size'', JHex (ucast (ucast (sys_page_size sys) :: u32))), (''page_struct_size'', JHex 64)]]"
    using j by (simp add: pfn_parse_def accepted_intact f version_1_4 block_source_def del: if_split_asm cong del: if_weak_cong)
  then show ?thesis unfolding name using sz uu parent g [unfolded geq] by blast
qed

definition demo_wparam :: parameters where
  "demo_wparam = demo_param\<lparr>par_size := Some ''64M'', par_align := Some ''2M''\<rparr>"

lemma demo_geometry: "pfn_geometry demo_sys PFN_MODE_PMEM 0 0x4000000 0x200000 = Inr (0x200000, 0x3E00, 0, 0)"
  by (simp add: pfn_geometry_def PHYS_PFN_def demo_sys_def ALIGN_def ALIGN_DOWN_def SZ_8K_def SUBSECTION_SIZE_def
      MAX_STRUCT_PAGE_SIZE_def Let_def)

lemma demo_written: "\<exists>m. file_write_infoblock demo_sys demo_wparam True (Inl 0) True = Inr m"
  using demo_geometry
  by (simp add: file_write_infoblock_def write_pfn_sb_def demo_wparam_def demo_param_def demo_create_parse nsmode_fsdax
      parse_size64_def [of None] demo_sys_def Let_def)

theorem infoblock_write_read_witness:
  "\<exists>m j. file_write_infoblock demo_sys demo_wparam True (Inl 0) True = Inr m \<and>
     parse_namespace_infoblock demo_sys True None ''out'' [] m = [j]"
proof -
  obtain m where m: "file_write_infoblock demo_sys demo_wparam True (Inl 0) True = Inr m"
    using demo_written by blast
  moreover have "uuids_wf demo_sys" by (simp add: uuids_wf_def demo_sys_def)
  ultimately show ?thesis using infoblock_write_read by blast
qed

subsection \<open>The geometry\<close>

lemma round_up_dist:
  fixes x A :: nat
  assumes "0 < A"
  shows "x \<le> (x + A - 1) div A * A" and "(x + A - 1) div A * A - x < A" and "(x + A - 1) div A * A < x + A"
proof -
  have e: "(x + A - 1) div A * A = x + A - 1 - (x + A - 1) mod A" by (simp add: minus_mod_eq_div_mult)
  have "(x + A - 1) mod A \<le> A - 1" using mod_less_divisor [OF assms, of "x + A - 1"] by linarith
  then show "x \<le> (x + A - 1) div A * A" unfolding e using assms by linarith
  show "(x + A - 1) div A * A - x < A" unfolding e using assms by linarith
  show "(x + A - 1) div A * A < x + A" unfolding e using assms by linarith
qed

lemma ALIGN_sub:
  assumes "k < 64" and "unat x + 2 ^ k \<le> 2 ^ 64" and "s \<le> x"
  shows "unat s + unat (ALIGN x (2 ^ k) - s) = (unat x + 2 ^ k - 1) div 2 ^ k * 2 ^ k"
proof -
  have r: "unat x \<le> (unat x + 2 ^ k - 1) div 2 ^ k * 2 ^ k" by (rule round_up_dist) simp
  then have "s \<le> ALIGN x (2 ^ k)" using assms(3) ALIGN_unat [OF assms(1,2)] by (simp add: word_le_nat_alt)
  then show ?thesis
    using ALIGN_unat [OF assms(1,2)] by (simp add: unat_sub word_le_nat_alt)
qed

lemma unat_ucast_u32_small: "unat (x :: u64) < 2 ^ 32 \<Longrightarrow> unat (ucast x :: u32) = unat x"
  by (simp add: unsigned_ucast_eq take_bit_nat_eq_self)

lemma align_pow2:
  assumes "is_power_of_2 palign" and "unat palign < 2 ^ 32"
  shows "\<exists>k < 32. max palign SUBSECTION_SIZE = 2 ^ k \<and> max (unat palign) 0x200000 = 2 ^ k"
proof -
  obtain i where i: "i < 64" "palign = 2 ^ i" using assms(1) unfolding is_power_of_2_iff by blast
  then have u: "unat palign = 2 ^ i" by (simp add: unat_pow2)
  have "i < 32" using assms(2) unfolding u by (rule power_less_imp_less_exp [rotated]) simp
  have sub: "unat SUBSECTION_SIZE = 2 ^ 21" "SUBSECTION_SIZE = 2 ^ 21" by (simp_all add: SUBSECTION_SIZE_def)
  show ?thesis
  proof (cases "21 \<le> i")
    case True
    then have "(2 :: nat) ^ 21 \<le> 2 ^ i" by (rule power_increasing) simp
    then have "max palign SUBSECTION_SIZE = palign" "max (unat palign) 0x200000 = 2 ^ i"
      using u sub(1) by (simp_all add: max_def word_le_nat_alt word_unat_eq_iff)
    then show ?thesis using \<open>i < 32\<close> i(2) by blast
  next
    case False
    then have "(2 :: nat) ^ i \<le> 2 ^ 21" by (intro power_increasing) simp_all
    then have "max palign SUBSECTION_SIZE = 2 ^ 21" "max (unat palign) 0x200000 = 2 ^ 21"
      using u sub by (simp_all add: max_def word_le_nat_alt)
    then show ?thesis by (intro exI [of _ 21]) simp
  qed
qed

lemma pfn_base:
  assumes "SZ_8K \<le> sz" and "64 \<le> unat (sys_page_size sys)" and "unat start + unat sz < 2 ^ 64"
  shows "unat (if pm then start + SZ_8K + MAX_STRUCT_PAGE_SIZE * PHYS_PFN sys (sz - SZ_8K) else start + SZ_8K) =
      unat start + 0x2000 + (if pm then 64 * ((unat sz - 0x2000) div unat (sys_page_size sys)) else 0)"
    and "unat start + 0x2000 + (if pm then 64 * ((unat sz - 0x2000) div unat (sys_page_size sys)) else 0) \<le> unat start + unat sz"
proof -
  let ?N = "(unat sz - 0x2000) div unat (sys_page_size sys)"
  have sz: "0x2000 \<le> unat sz" using assms(1) by (simp add: word_le_nat_alt SZ_8K_def)
  have "64 * ?N \<le> unat (sys_page_size sys) * ?N" using assms(2) by (rule mult_le_mono1)
  also have "\<dots> \<le> unat sz - 0x2000" by (rule times_div_less_eq_dividend)
  finally have N: "64 * ?N \<le> unat sz - 0x2000" .
  then show "unat start + 0x2000 + (if pm then 64 * ?N else 0) \<le> unat start + unat sz" using sz by auto
  have "unat (PHYS_PFN sys (sz - SZ_8K)) = ?N"
    using assms(1) by (simp add: PHYS_PFN_def unat_div_distrib unat_sub) (simp add: SZ_8K_def)
  then have "unat (MAX_STRUCT_PAGE_SIZE * PHYS_PFN sys (sz - SZ_8K)) = 64 * ?N"
    using N assms(3) by (subst unat_mult_lem [THEN iffD1]) (simp_all add: MAX_STRUCT_PAGE_SIZE_def)
  moreover have "unat (start + SZ_8K) = unat start + 0x2000"
    using assms(3) sz by (simp add: unat_plus_if' SZ_8K_def)
  ultimately show "unat (if pm then start + SZ_8K + MAX_STRUCT_PAGE_SIZE * PHYS_PFN sys (sz - SZ_8K) else start + SZ_8K) =
      unat start + 0x2000 + (if pm then 64 * ?N else 0)"
    using N assms(3) sz by (auto simp: unat_plus_if')
qed

lemma pfn_trunc:
  assumes "k < 64" and "unat start + unat sz + 2 ^ k < 2 ^ 64"
  shows "unat (start + sz - ALIGN_DOWN (start + sz) (2 ^ k)) = (unat start + unat sz) mod 2 ^ k"
proof -
  have e: "unat (start + sz) = unat start + unat sz" using assms(2) by (simp add: unat_plus_if')
  then have d: "unat (ALIGN_DOWN (start + sz) (2 ^ k)) = (unat start + unat sz) div 2 ^ k * 2 ^ k"
    using ALIGN_DOWN_unat [of k "start + sz"] assms by simp
  then have "ALIGN_DOWN (start + sz) (2 ^ k) \<le> start + sz"
    by (simp add: word_le_nat_alt e)
  then show ?thesis by (simp add: unat_sub d e minus_div_mult_eq_mod)
qed

text \<open>In the geometry of a written block, when no sum wraps around and the alignment is a power of two below 4G,
  the data area starts at a multiple of the alignment behind the info block (and behind the memmap, when that is
  kept on the device) and inside the namespace, \<open>start_pad\<close> and \<open>end_trunc\<close> round the ends inwards to the
  alignment, and \<open>npfns\<close> counts the pages between them.\<close>

theorem pfn_geometry_correct:
  assumes "is_power_of_2 palign" and "unat palign < 2 ^ 32" and "SZ_8K \<le> sz"
    and "unat start + unat sz + 2 ^ 32 < 2 ^ 63" and "64 \<le> unat (sys_page_size sys)"
    and "pfn_geometry sys mode start sz palign = Inr (off, n, pad, trunc)"
  shows "let A = max (unat palign) 0x200000 in
    A dvd unat start + unat off \<and> unat off < unat sz \<and>
    0x2000 + (if mode = PFN_MODE_PMEM then 64 * ((unat sz - 0x2000) div unat (sys_page_size sys)) else 0) \<le> unat off \<and>
    A dvd unat start + unat pad \<and> unat pad < A \<and>
    A dvd unat start + unat sz - unat trunc \<and> unat trunc < A \<and>
    (unat off + unat trunc + unat pad \<le> unat sz \<longrightarrow>
       unat n = (unat sz - unat off - unat trunc - unat pad) div unat (sys_page_size sys))"
proof -
  obtain k where k: "k < 32" and A: "max palign SUBSECTION_SIZE = 2 ^ k" and Ak: "max (unat palign) 0x200000 = 2 ^ k"
    using align_pow2 [OF assms(1,2)] by blast
  have Alt: "(2 :: nat) ^ k < 2 ^ 32" using k by (rule power_strict_increasing) simp
  let ?N = "(unat sz - 0x2000) div unat (sys_page_size sys)"
  let ?B = "(if mode = PFN_MODE_PMEM then start + SZ_8K + MAX_STRUCT_PAGE_SIZE * PHYS_PFN sys (sz - SZ_8K) else start + SZ_8K)"
  let ?b = "unat start + 0x2000 + (if mode = PFN_MODE_PMEM then 64 * ?N else 0)"
  have fit: "unat start + unat sz < 2 ^ 64" using assms(4) by simp
  note B = pfn_base [OF assms(3,5) fit, of "mode = PFN_MODE_PMEM"]
  have geo: "off = ALIGN ?B (2 ^ k) - start" "pad = ucast (ALIGN start (2 ^ k) - start)"
    "trunc = ucast (start + sz - ALIGN_DOWN (start + sz) (2 ^ k))" "off < sz"
    "n = PHYS_PFN sys (sz - off - ucast trunc - ucast pad)"
    using assms(6) by (auto simp: pfn_geometry_def Let_def A not_le split: if_splits)
  have "unat ?B + 2 ^ k \<le> 2 ^ 64" using B Alt assms(4) by simp
  moreover have "start \<le> ?B" using B(1) by (simp add: word_le_nat_alt)
  ultimately have off: "unat start + unat off = (?b + 2 ^ k - 1) div 2 ^ k * 2 ^ k"
    unfolding geo(1) using ALIGN_sub [of k ?B start] k by (simp only: B(1))
  have "?b \<le> (?b + 2 ^ k - 1) div 2 ^ k * 2 ^ k" by (rule round_up_dist(1)) simp
  then have off': "2 ^ k dvd unat start + unat off" "?b \<le> unat start + unat off" unfolding off by simp_all
  have "unat start + 2 ^ k \<le> 2 ^ 64" using Alt assms(4) by simp
  then have pad0: "unat start + unat (ALIGN start (2 ^ k) - start) = (unat start + 2 ^ k - 1) div 2 ^ k * 2 ^ k"
    using ALIGN_sub [of k start start] k by simp
  then have "unat (ALIGN start (2 ^ k) - start) < 2 ^ k"
    using round_up_dist(3) [of "2 ^ k" "unat start"] by simp
  then have pad: "unat pad < 2 ^ k" "2 ^ k dvd unat start + unat pad"
    using pad0 Alt by (simp_all add: geo(2) unat_ucast_u32_small)
  have t0: "unat (start + sz - ALIGN_DOWN (start + sz) (2 ^ k)) = (unat start + unat sz) mod 2 ^ k"
    using pfn_trunc [of k start sz] k Alt assms(4) by simp
  have "(unat start + unat sz) mod 2 ^ k < 2 ^ k" by simp
  then have "unat (start + sz - ALIGN_DOWN (start + sz) (2 ^ k)) < 2 ^ 32" unfolding t0 using Alt by (rule less_trans)
  then have tr: "unat trunc = (unat start + unat sz) mod 2 ^ k"
    by (simp only: geo(3) unat_ucast_u32_small t0)
  have trd: "2 ^ k dvd unat start + unat sz - unat trunc" unfolding tr by simp
  have n: "unat n = (unat sz - unat off - unat trunc - unat pad) div unat (sys_page_size sys)"
    if "unat off + unat trunc + unat pad \<le> unat sz"
    using that by (simp add: geo(5) PHYS_PFN_def unat_div_distrib unat_sub word_le_nat_alt)
  have "unat trunc < 2 ^ k" unfolding tr by simp
  then show ?thesis
    unfolding Let_def Ak using off' pad trd n geo(4) by (simp add: word_less_nat_alt)
qed

theorem pfn_geometry_correct_witness:
  "0x200000 dvd (0 :: nat) + unat (0x200000 :: u64) \<and> unat (0x3E00 :: u64) = (0x4000000 - 0x200000) div 4096"
  using pfn_geometry_correct [OF _ _ _ _ _ demo_geometry] by (simp add: is_power_of_2_def SZ_8K_def demo_sys_def Let_def)

text \<open>The subtraction that yields \<open>npfns\<close> can wrap around: only \<open>offset\<close> is compared with the size, not the sum
  with the padding at both ends.\<close>

lemma pfn_geometry_npfns_wraps:
  "pfn_geometry demo_sys PFN_MODE_RAM 0x100000 0x280000 0x200000 = Inr (0x100000, 0xFFFFFFFFFFF00, 0x100000, 0x180000)"
  by (simp add: pfn_geometry_def PHYS_PFN_def demo_sys_def ALIGN_def ALIGN_DOWN_def SZ_8K_def SUBSECTION_SIZE_def
      MAX_STRUCT_PAGE_SIZE_def Let_def)

text \<open>The parent uuid of a verified block is compared in its first byte only: a block that belongs to another
  namespace is accepted whenever the two uuids start with the same byte.\<close>

theorem infoblock_uuid_first_byte:
  assumes "ib.intact (block_at m b)" and "nsp_uuid n = u # us" and "m (b + 32) = u"
  shows "infoblock_accepted True (Some n) m b = (True, m)"
proof -
  have "take 1 (pfn_parent_uuid m b) = [m (b + 32)]"
    by (simp add: pfn_parent_uuid_def mem_bytes_def upt_rec)
  then show ?thesis
    using assms by (simp add: infoblock_accepted_def verify_infoblock_checksum_iff)
qed

definition demo_foreign :: mem where
  "demo_foreign = pfn_fill demo_sys (\<lambda>_. 0) 4096 PFN_SIG (replicate 16 1) (7 # replicate 15 2) PFN_MODE_RAM 0x200000
     (0x200000, 0x3E00, 0, 0)"

theorem infoblock_uuid_first_byte_witness:
  "infoblock_accepted True (Some (demo_ns\<lparr>nsp_uuid := 7 # replicate 15 9\<rparr>)) demo_foreign 4096 = (True, demo_foreign) \<and>
   pfn_parent_uuid demo_foreign 4096 \<noteq> 7 # replicate 15 9"
proof -
  note f = pfn_fill_fields [OF sig_props(1) _ _ refl demo_foreign_def]
  have parent: "pfn_parent_uuid demo_foreign 4096 = 7 # replicate 15 2" by (rule f(3)) simp_all
  then have "pfn_parent_uuid demo_foreign 4096 ! 0 = 7" by simp
  then have "demo_foreign (4096 + 32) = 7" by (simp add: pfn_parent_uuid_def)
  moreover have "ib.intact (block_at demo_foreign 4096)" by (rule f(12)) simp_all
  ultimately have "infoblock_accepted True (Some (demo_ns\<lparr>nsp_uuid := 7 # replicate 15 9\<rparr>)) demo_foreign 4096 = (True, demo_foreign)"
    by (intro infoblock_uuid_first_byte) simp_all
  moreover have "replicate 15 (2 :: u8) \<noteq> replicate 15 9" by (simp add: replicate_eq_replicate)
  ultimately show ?thesis using parent by simp
qed

end
