(* ===== verification/Ns_Action.thy ===== *)
theory Ns_Action
  imports Ns_Options Bus_Cmd
begin

text \<open>
  The namespace commands of \<open>ndctl/namespace.c\<close> on top of the validated parameters: setting up, creating,
  reconfiguring and destroying namespaces, clearing media errors, and the walk over buses, regions and namespaces
  (\<open>do_xaction_namespace\<close>).

  The kernel is a parameter over an arbitrary state: \<open>k_req\<close> executes one libndctl request on a namespace (or on
  the seed device of its region) and returns its result code; the other fields are what the code observes of the
  state.  \<open>k_dax_range\<close> and \<open>k_pfn_range\<close>
  are resource and size of the dax or pfn instance, if there is one.  The attributes in the records of regions and
  namespaces are read once; what the commands themselves change and read again (the namespaces of a region, its
  seed and type, whether a namespace is idle or active) is looked up in the state.  The bus commands are those of \<open>Bus_Cmd\<close>, over the same state.
\<close>

subsection \<open>Requests\<close>

datatype ns_req = Set_uuid uuid | Set_alt_name string | Set_size u64 | Set_sector_size u64
  | Set_enforce_mode ndctl_namespace_mode | Set_raw_mode bool | Enable | Disable_safe | Disable_invalidate | Delete
  | Pfn_set_uuid uuid | Pfn_set_location ndctl_pfn_loc | Pfn_set_align u64 | Pfn_set_namespace bool | Pfn_enable
  | Dax_set_uuid uuid | Dax_set_location ndctl_pfn_loc | Dax_set_align u64 | Dax_set_namespace bool | Dax_enable
  | Btt_set_uuid uuid | Btt_set_sector_size u64 | Btt_set_namespace | Btt_enable

text \<open>\<open>k_pread\<close> is the result of reading the info block (number of bytes, or negative) with the resulting buffer,
  \<open>k_pwrite\<close> that of writing it; \<open>k_open\<close> and \<open>k_memalign\<close> say whether opening the block device and the two
  allocations succeed.  \<open>k_dimm_labels\<close> (are the three
  label commands supported), \<open>k_read_index\<close>, \<open>k_init_labels\<close> (\<open>True\<close> for version 1.2), \<open>k_dimm_reset\<close> (disable and
  enable) and \<open>k_available_labels\<close> are per DIMM.  \<open>k_check\<close> and \<open>k_rw_infoblock\<close> are the metadata check and the info
  block commands, which other theories model.\<close>

record 'd nd_kern =
  k_bus :: "'d ndctl_bus"
  k_req :: "nd_namespace \<Rightarrow> ns_req \<Rightarrow> 'd \<Rightarrow> int \<times> 'd"
  k_sector_sizes :: "nd_namespace \<Rightarrow> 'd \<Rightarrow> u64 list"
  k_namespaces :: "nd_region \<Rightarrow> 'd \<Rightarrow> nd_namespace list"
  k_seed :: "nd_region \<Rightarrow> 'd \<Rightarrow> nd_namespace option"
  k_idle :: "nd_namespace \<Rightarrow> 'd \<Rightarrow> bool"
  k_active :: "nd_namespace \<Rightarrow> 'd \<Rightarrow> bool"
  k_nstype :: "nd_region \<Rightarrow> 'd \<Rightarrow> nd_device_type"
  k_memalign :: bool
  k_open :: "nd_namespace \<Rightarrow> 'd \<Rightarrow> bool"
  k_pread :: "nd_namespace \<Rightarrow> 'd \<Rightarrow> int \<times> u8 list"
  k_pwrite :: "nd_namespace \<Rightarrow> u8 list \<Rightarrow> 'd \<Rightarrow> int \<times> 'd"
  k_badblocks :: "nd_region \<Rightarrow> 'd \<Rightarrow> (u64 \<times> u32) list"
  k_scrub_state :: "'d \<Rightarrow> int"
  k_start_scrub :: "'d \<Rightarrow> int \<times> 'd"
  k_wait_scrub :: "'d \<Rightarrow> int \<times> 'd"
  k_dimms :: "nd_region \<Rightarrow> nat list"
  k_mappings :: "nd_region \<Rightarrow> nat"
  k_dimm_labels :: "nat \<Rightarrow> bool"
  k_dimm_active :: "nat \<Rightarrow> 'd \<Rightarrow> bool"
  k_region_invalidate :: "nd_region \<Rightarrow> 'd \<Rightarrow> 'd"
  k_region_enable :: "nd_region \<Rightarrow> 'd \<Rightarrow> 'd"
  k_read_index :: "nat \<Rightarrow> 'd \<Rightarrow> bool \<times> 'd"
  k_init_labels :: "nat \<Rightarrow> bool \<Rightarrow> 'd \<Rightarrow> int \<times> 'd"
  k_dimm_reset :: "nat \<Rightarrow> 'd \<Rightarrow> 'd"
  k_available_labels :: "nat \<Rightarrow> 'd \<Rightarrow> int"
  k_errno :: int
  k_dax_range :: "nd_namespace \<Rightarrow> 'd \<Rightarrow> (u64 \<times> u64) option"
  k_pfn_range :: "nd_namespace \<Rightarrow> 'd \<Rightarrow> (u64 \<times> u64) option"
  k_check :: "nd_namespace \<Rightarrow> 'd \<Rightarrow> int \<times> 'd"
  k_rw_infoblock :: "bool \<Rightarrow> nd_namespace \<Rightarrow> 'd \<Rightarrow> int \<times> 'd"

text \<open>The macro \<open>try\<close>, several times in a row: requests until one fails.\<close>

fun try_reqs :: "'d nd_kern \<Rightarrow> nd_namespace \<Rightarrow> ns_req list \<Rightarrow> 'd \<Rightarrow> int \<times> 'd" where
  "try_reqs k ndns [] d = (0, d)"
| "try_reqs k ndns (r # rs) d =
     (case k_req k ndns r d of (rc, d) \<Rightarrow> if rc \<noteq> 0 then (rc, d) else try_reqs k ndns rs d)"

text \<open>A request whose result is not looked at.\<close>

definition ignore_req :: "'d nd_kern \<Rightarrow> nd_namespace \<Rightarrow> ns_req \<Rightarrow> 'd \<Rightarrow> 'd" where
  "ignore_req k ndns r d = snd (k_req k ndns r d)"

subsection \<open>Setting up a namespace\<close>

definition setup_sector_size :: "'d nd_kern \<Rightarrow> nd_namespace \<Rightarrow> parsed_parameters \<Rightarrow> 'd \<Rightarrow> int \<times> 'd" where
  "setup_sector_size k ndns p d =
     (if pp_sector_size p \<noteq> 0 \<and> pp_sector_size p < UINT_MAX then
        if pp_sector_size p \<in> set (k_sector_sizes k ndns d)
        then try_reqs k ndns [Set_sector_size (pp_sector_size p)] d
        else if pp_mode p = NS_MODE_SECTOR then (0, d)
        else if pp_sector_size p \<noteq> 512 then (- EINVAL, d) else (0, d)
      else (0, d))"

definition setup_pfn :: "'d nd_kern \<Rightarrow> bool \<Rightarrow> uuid \<Rightarrow> ndctl_pfn option \<Rightarrow> nd_namespace \<Rightarrow> parsed_parameters \<Rightarrow> 'd \<Rightarrow> int \<times> 'd" where
  "setup_pfn k force uu seed ndns p d =
     (case seed of
        None \<Rightarrow> (- ENXIO, d)
      | Some pfn \<Rightarrow>
          if check_dax_align force ndns \<noteq> 0 then (check_dax_align force ndns, d)
          else (case try_reqs k ndns ([Pfn_set_uuid uu, Pfn_set_location (pp_loc p)]
                       @ (if pfn_has_align pfn then [Pfn_set_align (pp_align p)] else []) @ [Pfn_set_namespace True]) d of
                  (rc, d) \<Rightarrow>
                    if rc \<noteq> 0 then (rc, d)
                    else case k_req k ndns Pfn_enable d of (rc, d) \<Rightarrow>
                      (rc, if rc \<noteq> 0 \<and> pp_autorecover p then ignore_req k ndns (Pfn_set_namespace False) d else d)))"

definition setup_dax :: "'d nd_kern \<Rightarrow> bool \<Rightarrow> uuid \<Rightarrow> ndctl_pfn option \<Rightarrow> nd_namespace \<Rightarrow> parsed_parameters \<Rightarrow> 'd \<Rightarrow> int \<times> 'd" where
  "setup_dax k force uu seed ndns p d =
     (case seed of
        None \<Rightarrow> (- ENXIO, d)
      | Some dax \<Rightarrow>
          if check_dax_align force ndns \<noteq> 0 then (check_dax_align force ndns, d)
          else (case try_reqs k ndns [Dax_set_uuid uu, Dax_set_location (pp_loc p), Dax_set_align (pp_align p),
                       Dax_set_namespace True] d of
                  (rc, d) \<Rightarrow>
                    if rc \<noteq> 0 then (rc, d)
                    else case k_req k ndns Dax_enable d of (rc, d) \<Rightarrow>
                      (rc, if rc \<noteq> 0 \<and> pp_autorecover p then ignore_req k ndns (Dax_set_namespace False) d else d)))"

definition setup_btt :: "'d nd_kern \<Rightarrow> uuid \<Rightarrow> ndctl_btt option \<Rightarrow> nd_namespace \<Rightarrow> parsed_parameters \<Rightarrow> 'd \<Rightarrow> int \<times> 'd" where
  "setup_btt k uu seed ndns p d =
     (case seed of
        None \<Rightarrow> (- ENXIO, d)
      | Some btt \<Rightarrow>
          let sector_size = (if pp_sector_size p = UINT_MAX then 4096 else pp_sector_size p) in
          case try_reqs k ndns [Btt_set_uuid uu, Btt_set_sector_size sector_size, Btt_set_namespace] d of
            (rc, d) \<Rightarrow> if rc \<noteq> 0 then (rc, d) else k_req k ndns Btt_enable d)"

definition setup_namespace ::
  "ns_sys \<Rightarrow> 'd nd_kern \<Rightarrow> bool \<Rightarrow> nd_region \<Rightarrow> nd_namespace \<Rightarrow> parsed_parameters \<Rightarrow> 'd \<Rightarrow> int \<times> 'd" where
  "setup_namespace sys k force region ndns p d =
     (case (if nsp_type ndns \<noteq> ND_DEVICE_NAMESPACE_IO
            then try_reqs k ndns [Set_uuid (pp_uuid p), Set_alt_name (pp_name p), Set_size (pp_size p)] d
            else (0, d)) of
        (rc, d) \<Rightarrow>
      if rc \<noteq> 0 then (rc, d) else
      case setup_sector_size k ndns p d of (rc, d) \<Rightarrow>
      if rc \<noteq> 0 then (rc, d) else
      let uu = sys_uuid_generate sys;
          d = ignore_req k ndns (Set_enforce_mode (pp_mode p)) d in
      if do_setup_pfn (Some ndns) p then setup_pfn k force uu (reg_pfn_seed region) ndns p d
      else if pp_mode p = NS_MODE_DEVDAX then setup_dax k force uu (reg_dax_seed region) ndns p d
      else if pp_mode p = NS_MODE_SECTOR then setup_btt k uu (reg_btt_seed region) ndns p d
      else k_req k ndns Enable d)"

definition region_get_namespace :: "'d nd_kern \<Rightarrow> nd_region \<Rightarrow> 'd \<Rightarrow> nd_namespace option" where
  "region_get_namespace k region d =
     (case find (\<lambda>n. nsp_id n = 0 \<and> k_idle k n d) (k_namespaces k region d) of
        Some n \<Rightarrow> Some n
      | None \<Rightarrow> k_seed k region d)"

text \<open>\<open>None\<close> is the division by zero of the validation.\<close>

definition namespace_create ::
  "ns_sys \<Rightarrow> 'd nd_kern \<Rightarrow> parameters \<Rightarrow> bool \<Rightarrow> nd_region \<Rightarrow> 'd \<Rightarrow> (int \<times> 'd) option" where
  "namespace_create sys k param force region d =
     (case validate_namespace_options sys param region None of
        None \<Rightarrow> None
      | Some (Inl rc) \<Rightarrow> Some (rc, d)
      | Some (Inr p) \<Rightarrow>
          if reg_ro region then Some (- EAGAIN, d)
          else (case region_get_namespace k region d of
                  None \<Rightarrow> Some (- EAGAIN, d)
                | Some ndns \<Rightarrow>
                    if \<not> k_idle k ndns d then Some (- EAGAIN, d)
                    else case setup_namespace sys k force region ndns p d of (rc, d) \<Rightarrow>
                      Some (rc, if rc \<noteq> 0 \<and> pp_autorecover p
                                then ignore_req k ndns Delete (ignore_req k ndns (Set_enforce_mode NS_MODE_RAW) d)
                                else d)))"

subsection \<open>Preparing for reconfiguration and destroying\<close>

definition info_size :: nat where "info_size = 8192"

text \<open>The exit path of \<open>zero_info_block\<close>.\<close>

definition leave_raw_mode :: "'d nd_kern \<Rightarrow> nd_namespace \<Rightarrow> 'd \<Rightarrow> 'd" where
  "leave_raw_mode k ndns d = ignore_req k ndns Disable_invalidate (ignore_req k ndns (Set_raw_mode False) d)"

definition zero_info_block :: "'d nd_kern \<Rightarrow> nd_namespace \<Rightarrow> 'd \<Rightarrow> int \<times> 'd" where
  "zero_info_block k ndns d =
     (let d = ignore_req k ndns (Set_raw_mode True) d in
      case k_req k ndns Enable d of (rc, d) \<Rightarrow>
      if rc < 0 then (1, leave_raw_mode k ndns d)
      else if \<not> k_memalign k then (- ENOMEM, leave_raw_mode k ndns d)
      else if \<not> k_open k ndns d then (rc, leave_raw_mode k ndns d)
      else case k_pread k ndns d of (_, read_buf) \<Rightarrow>
        if read_buf = replicate info_size 0 then (1, leave_raw_mode k ndns d)
        else case k_pwrite k ndns (replicate info_size 0) d of (rc, d) \<Rightarrow>
          (if rc < int info_size then - ENXIO else 0, leave_raw_mode k ndns d))"

definition namespace_prep_reconfig :: "'d nd_kern \<Rightarrow> bool \<Rightarrow> nd_region \<Rightarrow> nd_namespace \<Rightarrow> 'd \<Rightarrow> int \<times> 'd" where
  "namespace_prep_reconfig k force region ndns d =
     (if reg_ro region then (- ENXIO, d)
      else if k_active k ndns d \<and> \<not> force then (- EBUSY, d)
      else case k_req k ndns Disable_safe d of (rc, d) \<Rightarrow>
        if rc \<noteq> 0 then (rc, d)
        else let d = ignore_req k ndns (Set_enforce_mode NS_MODE_RAW) d in
          case zero_info_block k ndns d of (rc, d) \<Rightarrow>
            if rc < 0 then (rc, d)
            else let did_zero = (rc = 0) in
              (case nsp_type ndns of
                 ND_DEVICE_NAMESPACE_PMEM \<Rightarrow> 2
               | ND_DEVICE_NAMESPACE_BLK \<Rightarrow> 2
               | _ \<Rightarrow> if did_zero then 0 else 1, d))"

definition namespace_destroy :: "'d nd_kern \<Rightarrow> bool \<Rightarrow> nd_region \<Rightarrow> nd_namespace \<Rightarrow> 'd \<Rightarrow> int \<times> 'd" where
  "namespace_destroy k force region ndns d =
     (case namespace_prep_reconfig k force region ndns d of (rc, d) \<Rightarrow>
        if rc < 0 then (rc, d)
        else if rc = 2 then k_req k ndns Delete d else (rc, d))"

subsection \<open>Reconfiguring\<close>

text \<open>One pass of the loop at \<open>retry\<close> over the DIMMs with labels of version 1.2 or not; the result says whether to
  retry with version 1.1.\<close>

fun label_pass :: "'d nd_kern \<Rightarrow> bool \<Rightarrow> nat list \<Rightarrow> 'd \<Rightarrow> bool \<times> 'd" where
  "label_pass k v12 [] d = (False, d)"
| "label_pass k v12 (dimm # dimms) d =
     (case k_read_index k dimm d of (ok, d) \<Rightarrow>
        if \<not> ok then label_pass k v12 dimms d
        else case k_init_labels k dimm v12 d of (num_labels, d) \<Rightarrow>
          if num_labels < 0 then label_pass k v12 dimms d
          else let d = k_dimm_reset k dimm d;
                   avail = k_available_labels k dimm d + 1
               in if num_labels \<noteq> avail \<and> v12 then (True, d) else label_pass k v12 dimms d)"

definition enable_labels :: "'d nd_kern \<Rightarrow> nd_region \<Rightarrow> 'd \<Rightarrow> int \<times> 'd" where
  "enable_labels k region d =
     (let dimms = k_dimms k region in
      if k_mappings k region = 0 then (- ENODEV, d)
      else if length (takeWhile (k_dimm_labels k) dimms) \<noteq> k_mappings k region then (- ENODEV, d)
      else let d = k_region_invalidate k region d;
               d = (if \<exists>dimm \<in> set dimms. k_dimm_active k dimm d then d
                    else (case label_pass k True dimms d of
                            (True, d) \<Rightarrow> snd (label_pass k False dimms d)
                          | (False, d) \<Rightarrow> d));
               d = k_region_enable k region d
           in (if k_nstype k region d \<noteq> ND_DEVICE_NAMESPACE_PMEM then - EBUSY else 0, d))"

definition namespace_reconfig ::
  "ns_sys \<Rightarrow> 'd nd_kern \<Rightarrow> parameters \<Rightarrow> bool \<Rightarrow> nd_region \<Rightarrow> nd_namespace \<Rightarrow> 'd \<Rightarrow> (int \<times> 'd) option" where
  "namespace_reconfig sys k param force region ndns d =
     (case validate_namespace_options sys param region (Some ndns) of
        None \<Rightarrow> None
      | Some (Inl rc) \<Rightarrow> Some (rc, d)
      | Some (Inr p) \<Rightarrow>
          case namespace_prep_reconfig k force region ndns d of (rc, d) \<Rightarrow>
            if rc < 0 then Some (rc, d)
            else if k_nstype k region d = ND_DEVICE_NAMESPACE_IO \<and> pp_autolabel p then
              (case enable_labels k region d of (rc, d) \<Rightarrow>
                 let ndns = (if rc \<noteq> - ENODEV then region_get_namespace k region d else Some ndns) in
                 (case ndns of
                    None \<Rightarrow> Some (- ENODEV, d)
                  | Some n \<Rightarrow>
                      if rc \<noteq> - ENODEV \<and> \<not> k_idle k n d then Some (- ENODEV, d)
                      else Some (setup_namespace sys k force region n p d)))
            else Some (setup_namespace sys k force region ndns p d))"

subsection \<open>Clearing media errors\<close>

definition bus_send_clear :: "'d nd_kern \<Rightarrow> u64 \<Rightarrow> u64 \<Rightarrow> 'd \<Rightarrow> int \<times> 'd" where
  "bus_send_clear k start sz d =
     (let bus = k_bus k in
      case ndctl_bus_cmd_new_ars_cap bus start sz of
        None \<Rightarrow> (- ENOTTY, d)
      | Some cmd_cap \<Rightarrow>
          case bus_cmd_submit bus cmd_cap d of (rc, cmd_cap, d) \<Rightarrow>
            if rc < 0 then (rc, d)
            else case ndctl_cmd_ars_cap_get_range cmd_cap of
              Inl _ \<Rightarrow> (- ENXIO, d)
            | Inr (address, len) \<Rightarrow>
                case ndctl_bus_cmd_new_clear_error bus address len cmd_cap of
                  None \<Rightarrow> (- ENOTTY, d)
                | Some cmd_clear \<Rightarrow>
                    case bus_cmd_submit bus cmd_clear d of (rc, cmd_clear, d) \<Rightarrow>
                      if rc < 0 then (rc, d)
                      else (if ndctl_cmd_clear_error_get_cleared cmd_clear \<noteq> len then - ENXIO else rc, d))"

text \<open>The loop over the bad blocks of the region.\<close>

fun clear_loop :: "'d nd_kern \<Rightarrow> u64 \<Rightarrow> u64 \<Rightarrow> u64 \<Rightarrow> (u64 \<times> u32) list \<Rightarrow> int \<Rightarrow> 'd \<Rightarrow> int \<times> 'd" where
  "clear_loop k region_begin dev_begin dev_end [] rc d = (rc, d)"
| "clear_loop k region_begin dev_begin dev_end (bb # bbs) rc d =
     (let bb_begin = region_begin + push_bit 9 (fst bb);
          bb_len = push_bit 9 (ucast (snd bb) :: u64);
          bb_end = bb_begin + bb_len - 1 in
      if bb_begin < dev_begin \<or> bb_end > dev_end then clear_loop k region_begin dev_begin dev_end bbs rc d
      else case bus_send_clear k bb_begin bb_len d of (rc, d) \<Rightarrow>
        if rc \<noteq> 0 then (rc, d) else clear_loop k region_begin dev_begin dev_end bbs rc d)"

definition nstype_clear_badblocks :: "'d nd_kern \<Rightarrow> nd_region \<Rightarrow> nd_namespace \<Rightarrow> u64 \<Rightarrow> u64 \<Rightarrow> 'd \<Rightarrow> int \<times> 'd" where
  "nstype_clear_badblocks k region ndns dev_begin dev_size d =
     (let region_begin = reg_resource region in
      if region_begin = ULLONG_MAX then (- k_errno k, ignore_req k ndns Enable d)
      else let dev_end = dev_begin + dev_size - 1;
               d = snd (clear_loop k region_begin dev_begin dev_end (k_badblocks k region d) 0 d) in
        case k_req k ndns Enable d of (rc, d) \<Rightarrow> (if rc < 0 then rc else 0, d))"

text \<open>\<open>dax_clear_badblocks\<close>, \<open>pfn_clear_badblocks\<close> and \<open>raw_clear_badblocks\<close> differ in where the range comes from.\<close>

definition range_clear_badblocks :: "'d nd_kern \<Rightarrow> nd_region \<Rightarrow> nd_namespace \<Rightarrow> u64 \<Rightarrow> u64 \<Rightarrow> 'd \<Rightarrow> int \<times> 'd" where
  "range_clear_badblocks k region ndns dev_begin sz d =
     (if dev_begin = ULLONG_MAX then (- ENXIO, d)
      else if sz = ULLONG_MAX then (- ENXIO, d)
      else case k_req k ndns Disable_safe d of (rc, d) \<Rightarrow>
        if rc \<noteq> 0 then (rc, d) else nstype_clear_badblocks k region ndns dev_begin sz d)"

definition namespace_wait_scrub :: "'d nd_kern \<Rightarrow> bool \<Rightarrow> 'd \<Rightarrow> int \<times> 'd" where
  "namespace_wait_scrub k do_scrub d =
     (let in_progress = k_scrub_state k d in
      if in_progress < 0 then (in_progress, d)
      else case (if do_scrub \<and> in_progress = 0 then k_start_scrub k d else (0, d)) of (rc, d) \<Rightarrow>
        if rc \<noteq> 0 then (rc, d) else k_wait_scrub k d)"

definition namespace_clear_bb ::
  "'d nd_kern \<Rightarrow> bool \<Rightarrow> nd_region \<Rightarrow> nd_namespace \<Rightarrow> 'd \<Rightarrow> int \<times> 'd" where
  "namespace_clear_bb k do_scrub region ndns d =
     (if nsp_btt ndns \<noteq> None then (1, d)
      else case namespace_wait_scrub k do_scrub d of (rc, d) \<Rightarrow>
        if rc \<noteq> 0 then (rc, d)
        else (case k_dax_range k ndns d of
                Some (res, sz) \<Rightarrow> range_clear_badblocks k region ndns res sz d
              | None \<Rightarrow> (case k_pfn_range k ndns d of
                           Some (res, sz) \<Rightarrow> range_clear_badblocks k region ndns res sz d
                         | None \<Rightarrow> range_clear_badblocks k region ndns (nsp_resource ndns) (nsp_size ndns) d)))"

subsection \<open>The walk over regions and namespaces\<close>

definition type_selected :: "parameters \<Rightarrow> nd_region \<Rightarrow> bool" where
  "type_selected param region =
     (case par_type param of
        None \<Rightarrow> True
      | Some t \<Rightarrow> (t = ''pmem'' \<and> reg_type region = ND_DEVICE_REGION_PMEM)
                  \<or> (t = ''blk'' \<and> reg_type region = ND_DEVICE_REGION_BLK))"

text \<open>Creation: \<open>rc\<close>, \<open>saved_rc\<close>, \<open>processed\<close> and the state are carried along; the flag says that the walk was left
  through \<open>out_close\<close>.  The regions are those that pass the bus and region filters, in order.\<close>

fun create_walk ::
  "ns_sys \<Rightarrow> 'd nd_kern \<Rightarrow> parameters \<Rightarrow> bool \<Rightarrow> nd_region list \<Rightarrow> int \<times> int \<times> nat \<times> 'd \<Rightarrow> (bool \<times> int \<times> int \<times> nat \<times> 'd) option" where
  "create_walk sys k param force [] st = Some (False, st)"
| "create_walk sys k param force (region # regions) (rc, saved_rc, processed, d) =
     (if \<not> type_selected param region then create_walk sys k param force regions (rc, saved_rc, processed, d)
      else case namespace_create sys k param force region d of
        None \<Rightarrow> None
      | Some (rc, d) \<Rightarrow>
          if rc = - EAGAIN then create_walk sys k param force regions (rc, saved_rc, processed, d)
          else if rc = 0 then
            if par_greedy param then create_walk sys k param force regions (rc, saved_rc, processed + 1, d)
            else Some (True, rc, saved_rc, processed + 1, d)
          else if par_greedy param \<and> force then create_walk sys k param force regions (rc, rc, processed, d)
          else Some (True, rc, saved_rc, processed, d))"

definition xaction_create ::
  "ns_sys \<Rightarrow> 'd nd_kern \<Rightarrow> parameters \<Rightarrow> bool \<Rightarrow> nd_region list \<Rightarrow> 'd \<Rightarrow> (int \<times> nat \<times> 'd) option" where
  "xaction_create sys k param force regions d =
     (case create_walk sys k param force regions (- ENXIO, 0, 0, d) of
        None \<Rightarrow> None
      | Some (closed, rc, saved_rc, processed, d) \<Rightarrow>
          let rc = (if \<not> closed \<and> rc = - EAGAIN then if par_greedy param \<and> processed > 0 then 0 else - ENOSPC else rc)
          in Some (if saved_rc \<noteq> 0 then saved_rc else rc, processed, d))"

text \<open>The other actions on one namespace: the result code as the walk keeps it, whether it counts as processed, and
  the state.\<close>

definition ns_action ::
  "'d nd_kern \<Rightarrow> device_action \<Rightarrow> bool \<Rightarrow> bool \<Rightarrow> nd_region \<Rightarrow> nd_namespace \<Rightarrow> 'd \<Rightarrow> int \<times> bool \<times> 'd" where
  "ns_action k action force do_scrub region ndns d =
     (case action of
        ACTION_DISABLE \<Rightarrow> (case k_req k ndns Disable_safe d of (rc, d) \<Rightarrow> (rc, rc = 0, d))
      | ACTION_ENABLE \<Rightarrow> (case k_req k ndns Enable d of (rc, d) \<Rightarrow> if rc \<ge> 0 then (0, True, d) else (rc, False, d))
      | ACTION_DESTROY \<Rightarrow>
          (case namespace_destroy k force region ndns d of (rc, d) \<Rightarrow> (if rc > 0 then 0 else rc, rc = 0, d))
      | ACTION_CHECK \<Rightarrow> (case k_check k ndns d of (rc, d) \<Rightarrow> (rc, rc = 0, d))
      | ACTION_CLEAR \<Rightarrow>
          (case namespace_clear_bb k do_scrub region ndns d of (rc, d) \<Rightarrow> (rc, rc = 0, d))
      | ACTION_READ_INFOBLOCK \<Rightarrow> (case k_rw_infoblock k False ndns d of (rc, d) \<Rightarrow> (rc, rc = 0, d))
      | ACTION_WRITE_INFOBLOCK \<Rightarrow> (case k_rw_infoblock k True ndns d of (rc, d) \<Rightarrow> (rc, rc = 0, d))
      | _ \<Rightarrow> (- EINVAL, False, d))"

definition ns_selected :: "string \<Rightarrow> nd_namespace \<Rightarrow> bool" where
  "ns_selected name ndns =
     (if name = ''all'' then \<not> (nsp_size ndns = 0 \<and> nsp_uuid ndns = replicate 16 0) else name = nsp_devname ndns)"

fun ns_walk ::
  "'d nd_kern \<Rightarrow> device_action \<Rightarrow> bool \<Rightarrow> string \<Rightarrow> nd_region \<Rightarrow> nd_namespace list \<Rightarrow> bool \<times> int \<times> nat \<times> 'd \<Rightarrow> bool \<times> int \<times> nat \<times> 'd" where
  "ns_walk k action force name region [] st = st"
| "ns_walk k action force name region (ndns # rest) (do_scrub, rc, processed, d) =
     (if \<not> ns_selected name ndns then ns_walk k action force name region rest (do_scrub, rc, processed, d)
      else case ns_action k action force do_scrub region ndns d of (rc, counted, d) \<Rightarrow>
        ns_walk k action force name region rest
          (if action = ACTION_CLEAR then False else do_scrub, rc, if counted then processed + 1 else processed, d))"

fun region_walk ::
  "'d nd_kern \<Rightarrow> parameters \<Rightarrow> device_action \<Rightarrow> bool \<Rightarrow> string \<Rightarrow> nd_region list \<Rightarrow> bool \<times> int \<times> nat \<times> 'd \<Rightarrow> bool \<times> int \<times> nat \<times> 'd" where
  "region_walk k param action force name [] st = st"
| "region_walk k param action force name (region # regions) (do_scrub, rc, processed, d) =
     (if \<not> type_selected param region then region_walk k param action force name regions (do_scrub, rc, processed, d)
      else region_walk k param action force name regions
             (ns_walk k action force name region (k_namespaces k region d) (do_scrub, rc, processed, d)))"

text \<open>The walk over the buses for every action but creation; each bus is the list of its selected regions.\<close>

fun bus_walk ::
  "'d nd_kern \<Rightarrow> parameters \<Rightarrow> device_action \<Rightarrow> bool \<Rightarrow> bool \<Rightarrow> string \<Rightarrow> nd_region list list \<Rightarrow> int \<times> nat \<times> 'd \<Rightarrow> int \<times> nat \<times> 'd" where
  "bus_walk k param action force scrub name [] st = st"
| "bus_walk k param action force scrub name (regions # buses) (rc, processed, d) =
     (case region_walk k param action force name regions (scrub, rc, processed, d) of
        (_, rc, processed, d) \<Rightarrow> bus_walk k param action force scrub name buses (rc, processed, d))"

definition xaction_namespace ::
  "'d nd_kern \<Rightarrow> parameters \<Rightarrow> device_action \<Rightarrow> bool \<Rightarrow> bool \<Rightarrow> string \<Rightarrow> nd_region list list \<Rightarrow> 'd \<Rightarrow> int \<times> nat \<times> 'd" where
  "xaction_namespace k param action force scrub name buses d =
     bus_walk k param action force scrub name buses (if name = ''all'' then 0 else - ENXIO, 0, d)"

text \<open>Reconfiguration: the first selected namespace of the selected regions, then the walk ends.\<close>

definition xaction_reconfig ::
  "ns_sys \<Rightarrow> 'd nd_kern \<Rightarrow> parameters \<Rightarrow> bool \<Rightarrow> string \<Rightarrow> nd_region list \<Rightarrow> 'd \<Rightarrow> (int \<times> nat \<times> 'd) option" where
  "xaction_reconfig sys k param force name regions d =
     (case List.find (\<lambda>(region, ndns). ns_selected name ndns)
             (concat (map (\<lambda>region. map (Pair region) (k_namespaces k region d)) (filter (type_selected param) regions))) of
        None \<Rightarrow> Some (if name = ''all'' then 0 else - ENXIO, 0, d)
      | Some (region, ndns) \<Rightarrow>
          (case namespace_reconfig sys k param force region ndns d of
             None \<Rightarrow> None
           | Some (rc, d) \<Rightarrow> Some (rc, if rc = 0 then 1 else 0, d)))"

definition zero_parameters :: parameters where
  "zero_parameters = \<lparr>par_do_scan = False, par_mode_default = False, par_autolabel = False, par_greedy = False,
     par_verify = False, par_autorecover = False, par_human = False, par_json = False, par_std_out = False, par_bus = None,
     par_map = None, par_type = None, par_uuid = None, par_name = None, par_size = None, par_mode = None, par_region = None,
     par_reconfig = None, par_sector_size = None, par_align = None, par_offset = None, par_outfile = None,
     par_infile = None, par_parent_uuid = None\<rparr>"

text \<open>\<open>cmd_create_namespace\<close> after the options have been parsed; \<open>no_err\<close> says that \<open>err_count\<close> is still 0 at the end.
  A run without any option has no bus and region filters, so the second attempt walks the same regions.\<close>

definition cmd_create_namespace ::
  "ns_sys \<Rightarrow> 'd nd_kern \<Rightarrow> parameters \<Rightarrow> bool \<Rightarrow> bool \<Rightarrow> string option \<Rightarrow> nd_region list \<Rightarrow> 'd \<Rightarrow> (int \<times> nat \<times> 'd) option" where
  "cmd_create_namespace sys k param force no_err name regions d =
     (case (case name of
              None \<Rightarrow> xaction_create sys k param force regions d
            | Some n \<Rightarrow> xaction_reconfig sys k param force n regions d) of
        None \<Rightarrow> None
      | Some (rc, created, d) \<Rightarrow>
          (case (if rc < 0 \<and> created < 1 \<and> par_do_scan param
                 then xaction_create sys k (snd (set_defaults sys ACTION_CREATE (zero_parameters\<lparr>par_type := Some ''blk''\<rparr>)))
                        force regions d
                 else Some (rc, created, d)) of
             None \<Rightarrow> None
           | Some (rc, created, d) \<Rightarrow>
               Some (if (rc < 0 \<or> (name = None \<and> created < 1)) \<and> no_err \<and> name = None then - ENODEV else rc, created, d)))"

subsection \<open>Only valid requests reach the kernel\<close>










text \<open>A property of the state that requests satisfying \<open>ok\<close> keep, and one that writing the info block and
  initialising labels keep.\<close>

definition keeps :: "'d nd_kern \<Rightarrow> (nd_namespace \<Rightarrow> ns_req \<Rightarrow> 'd \<Rightarrow> bool) \<Rightarrow> ('d \<Rightarrow> bool) \<Rightarrow> bool" where
  "keeps k ok Inv \<longleftrightarrow> (\<forall>ndns r d. Inv d \<longrightarrow> ok ndns r d \<longrightarrow> Inv (snd (k_req k ndns r d)))"


lemma keepsD: "keeps k ok Inv \<Longrightarrow> Inv d \<Longrightarrow> ok ndns r d \<Longrightarrow> k_req k ndns r d = (rc, d') \<Longrightarrow> Inv d'"
  unfolding keeps_def by (metis snd_conv)

lemma ignore_req_keeps: "keeps k ok Inv \<Longrightarrow> Inv d \<Longrightarrow> ok ndns r d \<Longrightarrow> Inv (ignore_req k ndns r d)"
  by (simp add: keeps_def ignore_req_def)














text \<open>A kernel that logs the requests it accepts, over the media of one namespace.\<close>

record demo_state =
  st_media :: "u8 list"
  st_log :: "(nd_namespace \<times> ns_req) list"
  st_cleared :: "(u64 \<times> u64) list"

definition demo_ns_bus :: "demo_state ndctl_bus" where
  "demo_ns_bus = \<lparr>bus_cmd_mask = 0x1E, bus_has_nfit = True, bus_nfit_dsm_mask = 0x3A0, bus_regions = [],
     bus_calloc = (\<lambda>_. True), bus_open = 0, io_ars_cap = (\<lambda>c d. (0, c\<lparr>cap_clear_err_unit := 256\<rparr>, d)),
     io_ars_start = (\<lambda>c d. (0, c, d)), io_ars_status = (\<lambda>c d. (0, c, d)),
     io_clear_error = (\<lambda>c d. (0, c\<lparr>clr_cleared := clr_length c\<rparr>,
       d\<lparr>st_cleared := (clr_address c, clr_length c) # st_cleared d\<rparr>)),
     io_translate_spa = (\<lambda>c d. (0, c, d)), io_inject_set = (\<lambda>c d. (0, c, d)),
     io_inject_clear = (\<lambda>c d. (0, c, d)), io_inject_get = (\<lambda>c d. (0, c, d))\<rparr>"

definition demo_kern :: "demo_state nd_kern" where
  "demo_kern = \<lparr>k_bus = demo_ns_bus, k_req = (\<lambda>ndns r d. (0, d\<lparr>st_log := (ndns, r) # st_log d\<rparr>)),
     k_sector_sizes = (\<lambda>_ _. [512, 4096]), k_namespaces = (\<lambda>_ _. [demo_ns]), k_seed = (\<lambda>_ _. Some demo_ns),
     k_idle = (\<lambda>_ _. True), k_active = (\<lambda>_ _. False), k_nstype = (\<lambda>_ _. ND_DEVICE_NAMESPACE_PMEM), k_memalign = True,
     k_open = (\<lambda>_ _. True), k_pread = (\<lambda>_ d. (8192, st_media d)),
     k_pwrite = (\<lambda>_ buf d. (int (length buf), d\<lparr>st_media := buf\<rparr>)), k_badblocks = (\<lambda>_ _. [(8, 1), (4096, 8)]),
     k_scrub_state = (\<lambda>_. 0), k_start_scrub = (\<lambda>d. (0, d)), k_wait_scrub = (\<lambda>d. (0, d)), k_dimms = (\<lambda>_. []),
     k_mappings = (\<lambda>_. 0), k_dimm_labels = (\<lambda>_. True), k_dimm_active = (\<lambda>_ _. False), k_region_invalidate = (\<lambda>_ d. d),
     k_region_enable = (\<lambda>_ d. d), k_read_index = (\<lambda>_ d. (True, d)), k_init_labels = (\<lambda>_ _ d. (0, d)),
     k_dimm_reset = (\<lambda>_ d. d), k_available_labels = (\<lambda>_ _. 0), k_errno = 6, k_dax_range = (\<lambda>_ _. None),
     k_pfn_range = (\<lambda>_ _. None), k_check = (\<lambda>_ d. (0, d)), k_rw_infoblock = (\<lambda>_ _ d. (0, d))\<rparr>"

definition demo_state0 :: demo_state where
  "demo_state0 = \<lparr>st_media = replicate info_size 1, st_log = [], st_cleared = []\<rparr>"

lemma demo_kern_sel [simp]:
  "k_bus demo_kern = demo_ns_bus" "k_req demo_kern ndns r d = (0, d\<lparr>st_log := (ndns, r) # st_log d\<rparr>)"
  "k_sector_sizes demo_kern ndns d = [512, 4096]" "k_namespaces demo_kern region d = [demo_ns]"
  "k_idle demo_kern ndns d" "\<not> k_active demo_kern ndns d" "k_memalign demo_kern" "k_open demo_kern ndns d"
  "k_pread demo_kern ndns d = (8192, st_media d)"
  "k_pwrite demo_kern ndns buf d = (int (length buf), d\<lparr>st_media := buf\<rparr>)"
  "k_badblocks demo_kern region d = [(8, 1), (4096, 8)]" "k_read_index demo_kern dimm d = (True, d)"
  "k_init_labels demo_kern dimm v d = (0, d)" "k_dimm_reset demo_kern dimm d = d" "k_region_invalidate demo_kern region d = d"
  "k_region_enable demo_kern region d = d"
  by (simp_all add: demo_kern_def)

lemma demo_ns_sel [simp]:
  "nsp_id demo_ns = 0" "nsp_type demo_ns = ND_DEVICE_NAMESPACE_PMEM" "nsp_resource demo_ns = ULLONG_MAX"
  "nsp_mode demo_ns = NS_MODE_RAW"
  by (simp_all add: demo_ns_def)

lemma info_size_pos [simp]: "info_size \<noteq> 0"
  by (simp add: info_size_def)




lemma demo_region_sel [simp]: "\<not> reg_ro demo_region" "reg_pfn_seed demo_region = Some demo_pfn"
  by (simp_all add: demo_region_def)

lemma demo_setup:
  "setup_namespace demo_sys demo_kern False demo_region demo_ns demo_parsed d =
     (0, d\<lparr>st_log := map (Pair demo_ns) [Pfn_enable, Pfn_set_namespace True, Pfn_set_align 0x200000,
        Pfn_set_location PFN_LOC_PMEM, Pfn_set_uuid (replicate 16 7), Set_enforce_mode NS_MODE_FSDAX, Set_sector_size 512,
        Set_size 0xC000000, Set_alt_name [], Set_uuid (replicate 16 7)] @ st_log d\<rparr>)"
  by (simp add: setup_namespace_def setup_sector_size_def setup_pfn_def do_setup_pfn_def check_dax_align_def
      ignore_req_def demo_parsed_def demo_sys_def demo_pfn_def Let_def UINT_MAX_def)

lemma demo_create:
  "namespace_create demo_sys demo_kern demo_param False demo_region demo_state0 =
     Some (setup_namespace demo_sys demo_kern False demo_region demo_ns demo_parsed demo_state0)"
  by (simp add: namespace_create_def demo_validates demo_setup region_get_namespace_def)


subsection \<open>Destroying erases the info block\<close>

text \<open>The media of a namespace behind its block device: only a complete write changes it, reading returns it, and
  \<open>ndctl_namespace_disable_safe\<close> returns 0 or a negative error.\<close>

definition media_kern :: "'d nd_kern \<Rightarrow> nd_namespace \<Rightarrow> ('d \<Rightarrow> u8 list) \<Rightarrow> bool" where
  "media_kern k ndns media \<longleftrightarrow>
     (\<forall>r d. media (snd (k_req k ndns r d)) = media d) \<and>
     (\<forall>d. fst (k_req k ndns Disable_safe d) \<le> 0) \<and>
     (\<forall>d. snd (k_pread k ndns d) = media d) \<and>
     (\<forall>buf d. fst (k_pwrite k ndns buf d) \<ge> int (length buf) \<longrightarrow> media (snd (k_pwrite k ndns buf d)) = buf)"


lemma leave_raw_mode_media: "media_kern k ndns media \<Longrightarrow> media (leave_raw_mode k ndns d) = media d"
  by (simp add: media_kern_def leave_raw_mode_def ignore_req_def)





text \<open>When the block device cannot be opened, \<open>zero_info_block\<close> returns the 0 of the preceding enable: the result that
  reports a cleared info block, although nothing was written.\<close>

lemma zero_info_block_open_failure:
  assumes "media_kern k ndns media" and "\<And>d. fst (k_req k ndns Enable d) = 0" and "k_memalign k" and "\<And>d. \<not> k_open k ndns d"
  shows "fst (zero_info_block k ndns d) = 0" and "media (snd (zero_info_block k ndns d)) = media d"
proof -
  define d1 where "d1 = ignore_req k ndns (Set_raw_mode True) d"
  obtain rc2 d2 where e: "k_req k ndns Enable d1 = (rc2, d2)" by fastforce
  have "rc2 = 0" using assms(2) [of d1] e by simp
  then have eq: "zero_info_block k ndns d = (0, leave_raw_mode k ndns d2)"
    by (simp add: zero_info_block_def Let_def d1_def [symmetric] e assms(3,4))
  moreover have m: "media d1 = media d" "media d2 = media d1"
    using assms(1) e unfolding media_kern_def d1_def ignore_req_def by (auto, metis snd_conv)
  ultimately show "fst (zero_info_block k ndns d) = 0" "media (snd (zero_info_block k ndns d)) = media d"
    by (simp_all add: leave_raw_mode_media [OF assms(1)])
qed

subsection \<open>Clearing stays inside the namespace\<close>

text \<open>A bus that does not rewrite the range of an \<open>ars_cap\<close> command, with a property that clearing inside the \<open>n\<close>
  bytes at \<open>lo\<close> keeps.\<close>

definition clear_keeps :: "'d ndctl_bus \<Rightarrow> nat \<Rightarrow> nat \<Rightarrow> ('d \<Rightarrow> bool) \<Rightarrow> bool" where
  "clear_keeps bus lo n Inv \<longleftrightarrow>
     (\<forall>c d. Inv d \<longrightarrow> (case io_ars_cap bus c d of (rc, c', d') \<Rightarrow>
        Inv d' \<and> cap_address c' = cap_address c \<and> cap_length c' = cap_length c)) \<and>
     (\<forall>c d. Inv d \<longrightarrow> lo \<le> unat (clr_address c) \<longrightarrow> unat (clr_address c) + unat (clr_length c) \<le> lo + n \<longrightarrow>
        Inv (snd (snd (io_clear_error bus c d))))"

lemma new_ars_cap_buf:
  "ndctl_bus_cmd_new_ars_cap bus address len = Some cmd \<Longrightarrow>
     \<exists>c. bc_buf cmd = ARS_CAP c \<and> cap_address c = address \<and> cap_length c = len"
  by (auto simp: ndctl_bus_cmd_new_ars_cap_def Let_def split: if_splits)

lemma new_clear_error_buf:
  "ndctl_bus_cmd_new_clear_error bus address len ars_cap = Some cmd \<Longrightarrow>
     \<exists>c. bc_buf cmd = CLEAR_ERROR c \<and> clr_address c = address \<and> clr_length c = len"
  by (auto simp: ndctl_bus_cmd_new_clear_error_def Let_def split: if_splits nd_bus_payload.splits)

lemma submit_ars_cap_keeps:
  assumes "clear_keeps bus lo n Inv" and "Inv d" and "bc_buf cmd = ARS_CAP c" and "bus_cmd_submit bus cmd d = (rc, cmd', d')"
  shows "Inv d' \<and> (\<exists>c'. bc_buf cmd' = ARS_CAP c' \<and> cap_address c' = cap_address c \<and> cap_length c' = cap_length c)"
proof -
  obtain rc1 c1 d1 where io: "io_ars_cap bus c d = (rc1, c1, d1)" by (cases "io_ars_cap bus c d")
  have "case io_ars_cap bus c d of (rc, c', d') \<Rightarrow> Inv d' \<and> cap_address c' = cap_address c \<and> cap_length c' = cap_length c"
    using assms(1) [unfolded clear_keeps_def, THEN conjunct1, rule_format, OF assms(2)] .
  then have "Inv d1 \<and> cap_address c1 = cap_address c \<and> cap_length c1 = cap_length c" by (simp add: io)
  then show ?thesis
    using assms(2,3,4) io by (auto simp: bus_cmd_submit_def split: if_splits)
qed

lemma submit_clear_error_keeps:
  assumes "clear_keeps bus lo n Inv" and "Inv d" and "bc_buf cmd = CLEAR_ERROR c" and "bus_cmd_submit bus cmd d = (rc, cmd', d')"
    and "lo \<le> unat (clr_address c)" and "unat (clr_address c) + unat (clr_length c) \<le> lo + n"
  shows "Inv d'"
proof -
  obtain rc1 c1 d1 where io: "io_clear_error bus c d = (rc1, c1, d1)" by (cases "io_clear_error bus c d")
  have "Inv d1" using assms(1,2,5,6) io unfolding clear_keeps_def by (metis snd_conv)
  then show ?thesis
    using assms(2,3,4) io by (auto simp: bus_cmd_submit_def split: if_splits)
qed

lemma bus_send_clear_keeps:
  assumes k: "clear_keeps (k_bus k) lo n Inv" and "Inv d" and "lo \<le> unat start" and "unat start + unat sz \<le> lo + n"
    and "bus_send_clear k start sz d = (rc, d')"
  shows "Inv d'"
proof (cases "ndctl_bus_cmd_new_ars_cap (k_bus k) start sz")
  case None
  then show ?thesis using assms(2,5) by (simp add: bus_send_clear_def Let_def)
next
  case (Some cap)
  obtain c where c: "bc_buf cap = ARS_CAP c" "cap_address c = start" "cap_length c = sz"
    using new_ars_cap_buf [OF Some] by blast
  obtain rc1 cap1 d1 where s1: "bus_cmd_submit (k_bus k) cap d = (rc1, cap1, d1)"
    by (cases "bus_cmd_submit (k_bus k) cap d")
  obtain c1 where i1: "Inv d1" and c1: "bc_buf cap1 = ARS_CAP c1" "cap_address c1 = start" "cap_length c1 = sz"
    using submit_ars_cap_keeps [OF k assms(2) c(1) s1] c by auto
  show ?thesis
  proof (cases "0 \<le> rc1 \<and> bc_status cap1 = 0")
    case True
    then have range: "ndctl_cmd_ars_cap_get_range cap1 = Inr (start, sz)"
      by (simp add: ndctl_cmd_ars_cap_get_range_def c1)
    show ?thesis
    proof (cases "ndctl_bus_cmd_new_clear_error (k_bus k) start sz cap1")
      case None
      then show ?thesis using assms(5) i1 True range by (simp add: bus_send_clear_def Let_def Some s1)
    next
      case (Some clr)
      note cap = \<open>ndctl_bus_cmd_new_ars_cap (k_bus k) start sz = Some cap\<close>
      obtain e where e: "bc_buf clr = CLEAR_ERROR e" "clr_address e = start" "clr_length e = sz"
        using new_clear_error_buf [OF Some] by blast
      obtain rc2 clr2 d2 where s2: "bus_cmd_submit (k_bus k) clr d1 = (rc2, clr2, d2)"
        by (cases "bus_cmd_submit (k_bus k) clr d1")
      have "Inv d2" using submit_clear_error_keeps [OF k i1 e(1) s2] e assms(3,4) by simp
      then show ?thesis
        using assms(5) True range by (auto simp: bus_send_clear_def Let_def cap s1 Some s2 split: if_splits)
    qed
  next
    case False
    then show ?thesis
      using assms(5) i1 by (auto simp: bus_send_clear_def Let_def Some s1 ndctl_cmd_ars_cap_get_range_def c1 split: if_splits)
  qed
qed

text \<open>A bad block of a region, none of whose addresses wraps.\<close>

definition bb_fits :: "u64 \<Rightarrow> u64 \<times> u32 \<Rightarrow> bool" where
  "bb_fits region_begin bb \<longleftrightarrow> unat region_begin + 512 * (unat (fst bb) + unat (snd bb)) < 2 ^ 64"

lemma bb_fits_unat:
  assumes "bb_fits region_begin bb"
  shows "unat (region_begin + push_bit 9 (fst bb)) = unat region_begin + 512 * unat (fst bb)"
    and "unat (push_bit 9 (ucast (snd bb) :: u64)) = 512 * unat (snd bb)"
proof -
  have u: "unat (ucast (snd bb) :: u64) = unat (snd bb)" by (rule unat_ucast_u32_u64)
  have "unat (push_bit 9 x) = 512 * unat x" if "512 * unat x < 2 ^ 64" for x :: u64
    using that by (simp add: push_bit_eq_mult unat_word_ariths mult.commute)
  from this [of "fst bb"] this [of "ucast (snd bb)"] u
  show "unat (region_begin + push_bit 9 (fst bb)) = unat region_begin + 512 * unat (fst bb)"
    "unat (push_bit 9 (ucast (snd bb) :: u64)) = 512 * unat (snd bb)"
    using assms unfolding bb_fits_def by (simp_all add: unat_plus_if')
qed

lemma bb_contained:
  fixes b l lo n :: u64
  assumes "\<not> (b < lo \<or> b + l - 1 > lo + n - 1)" and "unat b + unat l < 2 ^ 64" and "unat lo + unat n < 2 ^ 64" and "n \<noteq> 0"
  shows "unat lo \<le> unat b" and "unat b + unat l \<le> unat lo + unat n"
proof -
  show lo: "unat lo \<le> unat b" using assms(1) by (simp add: not_less word_le_nat_alt)
  have s: "unat (b + l) = unat b + unat l" "unat (lo + n) = unat lo + unat n"
    using assms(2,3) by (simp_all add: unat_plus_if')
  have "0 < unat n" using assms(4) by (simp add: unat_gt_0)
  then have hi: "unat (lo + n - 1) = unat lo + unat n - 1"
    using s(2) by (subst unat_sub) (simp_all add: word_le_nat_alt)
  have le: "unat (b + l - 1) \<le> unat lo + unat n - 1" using assms(1) hi by (simp add: not_less word_le_nat_alt)
  show "unat b + unat l \<le> unat lo + unat n"
  proof (cases "b + l = 0")
    case True
    then show ?thesis using s(1) by simp
  next
    case False
    then have "unat (b + l - 1) = unat b + unat l - 1"
      using s(1) by (subst unat_sub) (auto simp: word_le_nat_alt unat_gt_0 Suc_le_eq)
    with le \<open>0 < unat n\<close> show ?thesis by simp
  qed
qed

lemma clear_loop_keeps:
  assumes "clear_keeps (k_bus k) (unat lo) (unat n) Inv" and "unat lo + unat n < 2 ^ 64" and "n \<noteq> 0"
  shows "\<forall>bb \<in> set bbs. bb_fits rb bb \<Longrightarrow> Inv d \<Longrightarrow> clear_loop k rb lo (lo + n - 1) bbs rc d = (rc', d') \<Longrightarrow> Inv d'"
proof (induction bbs arbitrary: rc d)
  case (Cons bb bbs)
  define b l where "b = rb + push_bit 9 (fst bb)" and "l = push_bit 9 (ucast (snd bb) :: u64)"
  have "bb_fits rb bb" using Cons.prems(1) by simp
  then have nowrap: "unat b + unat l < 2 ^ 64"
    using bb_fits_unat [of rb bb] by (simp add: b_def l_def bb_fits_def)
  note step = Cons.prems(3) [unfolded clear_loop.simps Let_def b_def [symmetric] l_def [symmetric]]
  show ?case
  proof (cases "b < lo \<or> b + l - 1 > lo + n - 1")
    case True
    with step Cons show ?thesis by simp
  next
    case False
    obtain rc1 d1 where c: "bus_send_clear k b l d = (rc1, d1)" by fastforce
    have "Inv d1"
      using bus_send_clear_keeps [OF assms(1) Cons.prems(2) _ _ c] bb_contained [OF False nowrap assms(2,3)] by simp
    with step False c Cons show ?thesis by (auto split: if_splits)
  qed
qed simp

text \<open>C11: \<open>clear-errors\<close> on a namespace (raw, pfn or dax) sends clear-error commands only for bad blocks that lie
  completely inside its data area, whatever the region reports: a property of the bus that clearing inside the area
  and disabling and enabling the namespace keep still holds afterwards, on every path.\<close>

theorem clear_stays_in_range:
  assumes "clear_keeps (k_bus k) (unat dev_begin) (unat sz) Inv" and "keeps k (\<lambda>_ r _. r = Enable \<or> r = Disable_safe) Inv"
    and "unat dev_begin + unat sz < 2 ^ 64" and "sz \<noteq> 0"
    and "\<And>d bb. bb \<in> set (k_badblocks k region d) \<Longrightarrow> bb_fits (reg_resource region) bb"
    and "Inv d" and "range_clear_badblocks k region ndns dev_begin sz d = (rc, d')"
  shows "Inv d'"
proof -
  note req = keepsD [OF assms(2)] ignore_req_keeps [OF assms(2)]
  obtain rc1 d1 where s: "k_req k ndns Disable_safe d = (rc1, d1)" by fastforce
  have i1: "Inv d1" by (rule req(1) [OF assms(6) _ s]) simp
  obtain rc2 d2 where l: "clear_loop k (reg_resource region) dev_begin (dev_begin + sz - 1) (k_badblocks k region d1) 0 d1
      = (rc2, d2)" by fastforce
  have i2: "Inv d2" by (rule clear_loop_keeps [OF assms(1,3,4) _ i1 l]) (use assms(5) in blast)
  obtain rc3 d3 where e: "k_req k ndns Enable d2 = (rc3, d3)" by fastforce
  have i3: "Inv d3" by (rule req(1) [OF i2 _ e]) simp
  have "Inv (ignore_req k ndns Enable d1)" by (rule req(2) [OF i1]) simp
  then show ?thesis
    using assms(6,7) i1 i3
    by (auto simp: range_clear_badblocks_def nstype_clear_badblocks_def s l e Let_def simp del: ULLONG_MAX_def split: if_splits)
qed

definition demo_cleared_ok :: "demo_state \<Rightarrow> bool" where
  "demo_cleared_ok d \<longleftrightarrow> (\<forall>(a, l) \<in> set (st_cleared d). 0x100000000 \<le> unat a \<and> unat a + unat l \<le> 0x100100000)"

lemma demo_clear_keeps: "clear_keeps (k_bus demo_kern) (unat (0x100000000 :: u64)) (unat (0x100000 :: u64)) demo_cleared_ok"
  by (auto simp: clear_keeps_def demo_ns_bus_def demo_cleared_ok_def)

lemma demo_req_keeps: "keeps demo_kern (\<lambda>_ r _. r = Enable \<or> r = Disable_safe) demo_cleared_ok"
  by (simp add: keeps_def demo_cleared_ok_def)

theorem clear_stays_in_range_witness:
  "demo_cleared_ok (snd (range_clear_badblocks demo_kern demo_region demo_ns 0x100000000 0x100000 demo_state0)) \<and>
   st_cleared (snd (range_clear_badblocks demo_kern demo_region demo_ns 0x100000000 0x100000 demo_state0))
     = [(0x100001000, 0x200)]"
proof
  let ?r = "range_clear_badblocks demo_kern demo_region demo_ns 0x100000000 0x100000 demo_state0"
  have init: "demo_cleared_ok demo_state0" by (simp add: demo_cleared_ok_def demo_state0_def)
  have fits: "bb_fits (reg_resource demo_region) bb" if "bb \<in> set (k_badblocks demo_kern demo_region d)" for d bb
    using that by (auto simp: bb_fits_def demo_region_def)
  show "demo_cleared_ok (snd ?r)"
    by (rule clear_stays_in_range [OF demo_clear_keeps demo_req_keeps _ _ _ init, where region = demo_region
        and ndns = demo_ns and rc = "fst ?r"]) (simp_all add: fits)
  show "st_cleared (snd (range_clear_badblocks demo_kern demo_region demo_ns 0x100000000 0x100000 demo_state0))
     = [(0x100001000, 0x200)]"
    by (simp add: range_clear_badblocks_def nstype_clear_badblocks_def bus_send_clear_def demo_region_def demo_ns_bus_def
        ndctl_bus_cmd_new_ars_cap_def ndctl_bus_is_cmd_supported_def bus_cmd_submit_def ndctl_cmd_ars_cap_get_range_def
        ndctl_bus_cmd_new_clear_error_def validate_ars_cap_def ndctl_cmd_get_firmware_status_def validate_clear_error_def
        is_power_of_2_def ndctl_cmd_clear_error_get_cleared_def demo_state0_def Let_def)
qed

text \<open>A failure to clear is not reported: the result is that of enabling the namespace again.\<close>

lemma clear_failure_unreported:
  assumes "reg_resource region \<noteq> ULLONG_MAX" and "\<And>d. fst (k_req k ndns Enable d) = 0"
  shows "fst (nstype_clear_badblocks k region ndns dev_begin dev_size d) = 0"
proof -
  let ?d = "snd (clear_loop k (reg_resource region) dev_begin (dev_begin + dev_size - 1) (k_badblocks k region d) 0 d)"
  obtain rc d1 where e: "k_req k ndns Enable ?d = (rc, d1)" by fastforce
  moreover have "rc = 0" using assms(2) [of ?d] e by simp
  ultimately show ?thesis
    using assms(1) by (simp add: nstype_clear_badblocks_def Let_def del: ULLONG_MAX_def)
qed

subsection \<open>The result of creation\<close>

lemma create_walk_count:
  "create_walk sys k param force regions (rc0, s0, n0, d) = Some (closed, rc, saved, n, d') \<Longrightarrow> (rc0 = 0 \<longrightarrow> 0 < n0) \<Longrightarrow>
     n0 \<le> n \<and> (rc = 0 \<longrightarrow> 0 < n) \<and>
     (\<not> par_greedy param \<longrightarrow> saved = s0 \<and> n \<le> n0 + 1 \<and> (n = n0 + 1 \<longrightarrow> rc = 0) \<and> (n = n0 \<longrightarrow> rc = 0 \<longrightarrow> rc0 = 0))"
proof (induction regions arbitrary: rc0 s0 n0 d)
  case (Cons region regions)
  show ?case
  proof (cases "type_selected param region")
    case True
    then obtain rc1 d1 where c: "namespace_create sys k param force region d = Some (rc1, d1)"
      using Cons.prems(1) by (auto split: option.splits)
    note step = Cons.prems(1) [unfolded create_walk.simps c option.case prod.case]
    note IH = Cons.IH [of rc1 s0 n0 d1] Cons.IH [of rc1 s0 "n0 + 1" d1] Cons.IH [of rc1 rc1 n0 d1]
    consider "rc1 = - EAGAIN" | "rc1 = 0" | "rc1 \<noteq> - EAGAIN" "rc1 \<noteq> 0" by blast
    then show ?thesis
    proof cases
      case 1
      then show ?thesis using True step IH(1) by auto
    next
      case 2
      then show ?thesis using True step IH(2) by (auto split: if_splits)
    next
      case 3
      then show ?thesis using True step IH(3) by (auto split: if_splits)
    qed
  next
    case False
    then have "create_walk sys k param force regions (rc0, s0, n0, d) = Some (closed, rc, saved, n, d')"
      using Cons.prems(1) by simp
    then show ?thesis using Cons.prems(2) by (rule Cons.IH)
  qed
qed simp

lemma xaction_create_count:
  assumes "xaction_create sys k param force regions d = Some (rc, n, d')"
  shows "(rc = 0 \<longrightarrow> 0 < n) \<and> (\<not> par_greedy param \<longrightarrow> n \<le> 1 \<and> (n = 1 \<longrightarrow> rc = 0))"
proof -
  obtain closed rc1 saved d1 where w: "create_walk sys k param force regions (- ENXIO, 0, 0, d) = Some (closed, rc1, saved, n, d1)"
    using assms by (auto simp: xaction_create_def Let_def split: option.splits)
  show ?thesis
    using create_walk_count [OF w] assms w by (auto simp: xaction_create_def Let_def split: if_splits)
qed

text \<open>\<open>create-namespace\<close> reports success only after a namespace was created; without \<open>--continue\<close> at most one
  namespace is created, and creating it is reported as success, also when the default scan falls back from pmem to
  blk regions.\<close>

theorem create_namespace_reports:
  assumes "cmd_create_namespace sys k param force no_err None regions d = Some (rc, created, d')"
  shows "(rc = 0 \<longrightarrow> 0 < created) \<and> (\<not> par_greedy param \<longrightarrow> created \<le> 1 \<and> (created = 1 \<longrightarrow> rc = 0))"
proof -
  obtain rc1 n1 d1 where x: "xaction_create sys k param force regions d = Some (rc1, n1, d1)"
    using assms by (auto simp: cmd_create_namespace_def split: option.splits)
  let ?p = "snd (set_defaults sys ACTION_CREATE (zero_parameters\<lparr>par_type := Some ''blk''\<rparr>))"
  have "\<not> par_greedy ?p"
    by (simp add: set_defaults_def default_type_def default_mode_def default_map_def check_type_mode_def check_sizes_def
        check_uuids_def default_sector_size_def zero_parameters_def Let_def split: prod.splits)
  then show ?thesis
    using assms x xaction_create_count [OF x] xaction_create_count [of sys k ?p force regions d1]
    by (auto simp: cmd_create_namespace_def split: if_splits option.splits)
qed

theorem create_namespace_reports_witness:
  "\<exists>d'. cmd_create_namespace demo_sys demo_kern demo_param False True None [demo_region] demo_state0 = Some (0, 1, d') \<and>
     (\<not> par_greedy demo_param \<longrightarrow> (1 :: nat) \<le> 1)"
proof -
  have t: "type_selected demo_param demo_region" "\<not> par_greedy demo_param"
    by (simp_all add: type_selected_def demo_param_def demo_region_def)
  have "cmd_create_namespace demo_sys demo_kern demo_param False True None [demo_region] demo_state0 =
      Some (0, 1, snd (setup_namespace demo_sys demo_kern False demo_region demo_ns demo_parsed demo_state0))"
    by (simp add: cmd_create_namespace_def xaction_create_def demo_create demo_setup t Let_def)
  with create_namespace_reports [OF this] show ?thesis by blast
qed

end
