(* ===== verification/Dev_Filter.thy ===== *)
theory Dev_Filter
  imports Ns_Options
begin

text \<open>
  Selection of devices by name: \<open>ndctl/filter.c\<close> with \<open>ndctl_filter_walk\<close>, the identifier filters of
  \<open>cxl/filter.c\<close>, and \<open>daxctl/filter.c\<close>.

  A filter that returns its device or NULL is a predicate here.  Devices are records of the attributes the filters
  read; \<open>strdup\<close> succeeds.  \<open>sscanf\<close> with \<open>%d\<close> yields an unbounded integer.
\<close>

subsection \<open>Splitting and scanning\<close>

text \<open>\<open>strtok_r\<close> with a separator of one character: the first token and what is left behind it.\<close>

definition strtok :: "char \<Rightarrow> string \<Rightarrow> (string \<times> string) option" where
  "strtok sep s =
     (let s = dropWhile (\<lambda>c. c = sep) s in
      if s = [] then None else Some (takeWhile (\<lambda>c. c \<noteq> sep) s, drop 1 (dropWhile (\<lambda>c. c \<noteq> sep) s)))"

lemma strtok_shorter: "strtok sep s = Some (t, rest) \<Longrightarrow> length rest < length s"
proof -
  assume "strtok sep s = Some (t, rest)"
  then have ne: "dropWhile (\<lambda>c. c = sep) s \<noteq> []" and r: "rest = drop 1 (dropWhile (\<lambda>c. c \<noteq> sep) (dropWhile (\<lambda>c. c = sep) s))"
    by (auto simp: strtok_def Let_def split: if_splits)
  have "length rest \<le> length (dropWhile (\<lambda>c. c = sep) s) - 1"
  proof (cases "dropWhile (\<lambda>c. c = sep) s")
    case (Cons a as)
    then have "a \<noteq> sep" by (metis (mono_tags) hd_dropWhile list.sel(1) list.discI)
    with Cons r show ?thesis using length_dropWhile_le [of "\<lambda>c. c \<noteq> sep" as] by (simp add: le_diff_conv)
  qed (use ne in simp)
  also have "\<dots> < length s"
    using ne length_dropWhile_le [of "\<lambda>c. c = sep" s] by (cases s) auto
  finally show ?thesis .
qed

text \<open>The loop \<open>for (t = strtok_r(s, sep, &save); t; t = strtok_r(NULL, sep, &save))\<close>.\<close>

function strtoks :: "char \<Rightarrow> string \<Rightarrow> string list" where
  "strtoks sep s = (case strtok sep s of None \<Rightarrow> [] | Some (t, rest) \<Rightarrow> t # strtoks sep rest)"
  by pat_completeness auto
termination by (relation "measure (\<lambda>(sep, s). length s)") (auto simp: strtok_shorter)

declare strtoks.simps [simp del]

definition which_sep :: "string \<Rightarrow> char" where
  "which_sep filt = (if CHR '' '' \<in> set filt then CHR '' '' else if CHR '','' \<in> set filt then CHR '','' else CHR '' '')"

text \<open>One conversion \<open>%d\<close> of \<open>sscanf\<close>, which converts like \<open>strtol\<close> and stores an \<open>int\<close>, and a literal prefix of its format.\<close>

definition scan_int :: "string \<Rightarrow> (int \<times> string) option" where
  "scan_int s =
     (case scan_sign (dropWhile is_space s) of (neg, s) \<Rightarrow>
        if starts_digit 10 s
        then (case scan_digits 10 s 0 of (n, rest) \<Rightarrow> Some (to_int (to_long neg n), rest))
        else None)"

fun scan_literal :: "string \<Rightarrow> string \<Rightarrow> string option" where
  "scan_literal [] s = Some s"
| "scan_literal (c # cs) [] = None"
| "scan_literal (c # cs) (d # s) = (if c = d then scan_literal cs s else None)"

definition scan_id :: "string \<Rightarrow> string \<Rightarrow> int option" where
  "scan_id prefix s =
     (case scan_literal prefix s of None \<Rightarrow> None | Some r \<Rightarrow> (case scan_int r of None \<Rightarrow> None | Some (n, _) \<Rightarrow> Some n))"

text \<open>The formats \<open>%d.%d\<close> and \<open>decoder%d.%d\<close>.\<close>

definition scan_id2 :: "string \<Rightarrow> string \<Rightarrow> (int \<times> int) option" where
  "scan_id2 prefix s =
     (case scan_literal prefix s of
        None \<Rightarrow> None
      | Some r \<Rightarrow>
          (case scan_int r of
             None \<Rightarrow> None
           | Some (a, r) \<Rightarrow>
               (case scan_literal ''.'' r of
                  None \<Rightarrow> None
                | Some r \<Rightarrow> (case scan_int r of None \<Rightarrow> None | Some (b, _) \<Rightarrow> Some (a, b)))))"

text \<open>The condition \<open>(sscanf(s, "%d", &id) == 1 || sscanf(s, "<name>%d", &id) == 1) && id == dev\<close>.\<close>

definition id_matches :: "string \<Rightarrow> string \<Rightarrow> int \<Rightarrow> bool" where
  "id_matches prefix s dev =
     (case scan_id [] s of Some n \<Rightarrow> n = dev | None \<Rightarrow> scan_id prefix s = Some dev)"

definition id2_matches :: "string \<Rightarrow> string \<Rightarrow> int \<times> int \<Rightarrow> bool" where
  "id2_matches prefix s dev =
     (case scan_id2 [] s of Some n \<Rightarrow> n = dev | None \<Rightarrow> scan_id2 prefix s = Some dev)"

subsection \<open>Identifier filters of cxl\<close>

record cxl_endpoint =
  ep_id :: int
  ep_devname :: string
  ep_host :: string

record cxl_port =
  po_id :: int
  po_devname :: string
  po_host :: string
  po_is_root :: bool
  po_is_switch :: bool
  po_is_endpoint :: bool

record cxl_bus =
  cb_id :: int
  cb_devname :: string
  cb_provider :: string

record cxl_memdev =
  md_id :: int
  md_devname :: string
  md_host :: string
  md_serial :: u64
  md_ram_size :: u64
  md_pmem_size :: u64
  md_ram_qos_class :: int
  md_pmem_qos_class :: int

record cxl_decoder =
  de_port :: cxl_port
  de_id :: int
  de_devname :: string
  de_volatile_capable :: bool
  de_pmem_capable :: bool
  de_qos_class :: int
  de_max_available_extent :: u64
  de_interleave_granularity :: int
  de_interleave_ways :: int

record cxl_region =
  rg_id :: int
  rg_devname :: string

text \<open>Is there a token of \<open>ident\<close> that the condition accepts?  NULL accepts.\<close>

definition some_token :: "string option \<Rightarrow> (string \<Rightarrow> bool) \<Rightarrow> bool" where
  "some_token ident P = (case ident of None \<Rightarrow> True | Some s \<Rightarrow> list_ex P (strtoks (which_sep s) s))"

definition contains :: "string \<Rightarrow> string \<Rightarrow> bool" where
  "contains s needle = list_ex (\<lambda>i. take (length needle) (drop i s) = needle) [0..<Suc (length s)]"

definition cxl_filter_has :: "string option \<Rightarrow> string option \<Rightarrow> bool" where
  "cxl_filter_has filt needle =
     (case needle of
        None \<Rightarrow> True
      | Some n \<Rightarrow> (case filt of None \<Rightarrow> False | Some f \<Rightarrow> some_token (Some f) (\<lambda>arg. contains arg n)))"

definition util_cxl_endpoint_filter :: "cxl_endpoint \<Rightarrow> string option \<Rightarrow> bool" where
  "util_cxl_endpoint_filter endpoint ident =
     some_token ident (\<lambda>arg. arg = ''all'' \<or> id_matches ''endpoint'' arg (ep_id endpoint)
       \<or> arg = ep_devname endpoint \<or> arg = ep_host endpoint)"

definition util_cxl_port_filter1 :: "cxl_port \<Rightarrow> string option \<Rightarrow> bool" where
  "util_cxl_port_filter1 port ident =
     some_token ident (\<lambda>arg. arg = ''all'' \<or> (arg = ''root'' \<and> po_is_root port) \<or> (arg = ''switch'' \<and> po_is_switch port)
       \<or> (arg = ''endpoint'' \<and> po_is_endpoint port) \<or> id_matches ''port'' arg (po_id port)
       \<or> arg = po_devname port \<or> arg = po_host port)"

datatype cxl_port_filter_mode = CXL_PF_SINGLE | CXL_PF_ANCESTRY

text \<open>A port is given with its chain of ancestors.\<close>

fun util_cxl_port_filter :: "cxl_port list \<Rightarrow> string option \<Rightarrow> cxl_port_filter_mode \<Rightarrow> bool" where
  "util_cxl_port_filter [] ident mode = False"
| "util_cxl_port_filter (iter # ancestors) ident mode =
     (if util_cxl_port_filter1 iter ident then True
      else if mode = CXL_PF_SINGLE then False
      else util_cxl_port_filter ancestors ident mode)"

definition util_cxl_endpoint_filter_by_port :: "cxl_port list \<Rightarrow> string option \<Rightarrow> cxl_port_filter_mode \<Rightarrow> bool" where
  "util_cxl_endpoint_filter_by_port chain ident mode =
     (if util_cxl_port_filter chain ident CXL_PF_SINGLE then True
      else if drop 1 chain = [] then False
      else util_cxl_port_filter (drop 1 chain) ident mode)"

definition util_cxl_dport_filter :: "string \<Rightarrow> string option \<Rightarrow> bool" where
  "util_cxl_dport_filter devname ident = some_token ident (\<lambda>arg. arg = devname)"

definition util_cxl_bus_filter :: "cxl_bus \<Rightarrow> string option \<Rightarrow> bool" where
  "util_cxl_bus_filter bus ident =
     some_token ident (\<lambda>arg. arg = ''all'' \<or> id_matches ''root'' arg (cb_id bus)
       \<or> arg = cb_devname bus \<or> arg = cb_provider bus)"

text \<open>A serial number filter skips what is not a number; the test \<open>!arg[0]\<close> is never true of a token.\<close>

definition util_cxl_memdev_serial_filter :: "cxl_memdev \<Rightarrow> string option \<Rightarrow> bool" where
  "util_cxl_memdev_serial_filter memdev serials =
     some_token serials (\<lambda>arg. case strtoull arg of (serial, end) \<Rightarrow> end = [] \<and> md_serial memdev = serial)"

definition util_cxl_memdev_filter :: "cxl_memdev \<Rightarrow> string option \<Rightarrow> string option \<Rightarrow> bool" where
  "util_cxl_memdev_filter memdev ident serials =
     (some_token ident (\<lambda>name. name = ''all'' \<or> id_matches ''mem'' name (md_id memdev)
        \<or> name = md_devname memdev \<or> name = md_host memdev)
      \<and> util_cxl_memdev_serial_filter memdev serials)"

definition util_cxl_decoder_filter :: "cxl_decoder \<Rightarrow> string option \<Rightarrow> bool" where
  "util_cxl_decoder_filter decoder ident =
     (let port = de_port decoder in
      some_token ident (\<lambda>name. name = ''all'' \<or> (name = ''root'' \<and> po_is_root port) \<or> (name = ''switch'' \<and> po_is_switch port)
        \<or> (name = ''endpoint'' \<and> po_is_endpoint port) \<or> id2_matches ''decoder'' name (po_id port, de_id decoder)
        \<or> name = de_devname decoder))"

definition util_cxl_region_filter :: "cxl_region \<Rightarrow> string option \<Rightarrow> bool" where
  "util_cxl_region_filter region ident =
     some_token ident (\<lambda>name. name = ''all'' \<or> id_matches ''region'' name (rg_id region) \<or> name = rg_devname region)"

subsection \<open>Identifier filters of daxctl\<close>

definition util_daxctl_dev_filter :: "int \<Rightarrow> int \<Rightarrow> string \<Rightarrow> string option \<Rightarrow> bool" where
  "util_daxctl_dev_filter region_id dev_id devname ident =
     (case ident of
        None \<Rightarrow> True
      | Some s \<Rightarrow> s = ''all'' \<or> s = devname \<or> scan_id2 [] s = Some (region_id, dev_id))"

definition util_daxctl_region_filter :: "int \<Rightarrow> string option \<Rightarrow> bool" where
  "util_daxctl_region_filter region_id ident =
     (case ident of None \<Rightarrow> True | Some s \<Rightarrow> s = ''all'' \<or> id_matches ''region'' s region_id)"

subsection \<open>Filters of ndctl\<close>

record fl_dimm =
  fd_id :: u64
  fd_devname :: string

record fl_namespace =
  fn_id :: int
  fn_devname :: string
  fn_mode :: ndctl_namespace_mode
  fn_numa_node :: int

record fl_region =
  fr_id :: u64
  fr_devname :: string
  fr_type :: nd_device_type
  fr_has_numa :: bool
  fr_numa_node :: int
  fr_dimms :: "fl_dimm list"
  fr_namespaces :: "fl_namespace list"

record fl_bus =
  fb_id :: u64
  fb_devname :: string
  fb_provider :: string
  fb_dimms :: "fl_dimm list"
  fb_regions :: "fl_region list"

text \<open>What \<open>ident\<close> holds while its tokens are visited: \<open>strtok_r\<close> has ended the string behind the first one.\<close>

definition first_chunk :: "string \<Rightarrow> string" where
  "first_chunk s = takeWhile (\<lambda>c. c = CHR '' '') s @ takeWhile (\<lambda>c. c \<noteq> CHR '' '') (dropWhile (\<lambda>c. c = CHR '' '') s)"

text \<open>\<open>strtoul(ident, &end, 0)\<close>, or \<open>ULONG_MAX\<close> if this is not a number.\<close>

definition ident_number :: "string \<Rightarrow> u64" where
  "ident_number s =
     (case strtoull (first_chunk s) of (n, end) \<Rightarrow> if end = first_chunk s \<or> end \<noteq> [] then ULLONG_MAX else n)"

definition ident_filter :: "u64 \<Rightarrow> string list \<Rightarrow> string option \<Rightarrow> bool" where
  "ident_filter dev names ident =
     (case ident of
        None \<Rightarrow> True
      | Some s \<Rightarrow> list_ex (\<lambda>name. name = ''all'' \<or>
          (let n = ident_number s in (n < ULLONG_MAX \<and> n = dev) \<or> (n = ULLONG_MAX \<and> name \<in> set names)))
          (strtoks (CHR '' '') s))"

definition util_bus_filter :: "fl_bus \<Rightarrow> string option \<Rightarrow> bool" where
  "util_bus_filter bus = ident_filter (fb_id bus) [fb_provider bus, fb_devname bus]"

definition util_region_filter :: "fl_region \<Rightarrow> string option \<Rightarrow> bool" where
  "util_region_filter region = ident_filter (fr_id region) [fr_devname region]"

definition util_dimm_filter :: "fl_dimm \<Rightarrow> string option \<Rightarrow> bool" where
  "util_dimm_filter dimm = ident_filter (fd_id dimm) [fd_devname dimm]"

definition util_namespace_filter :: "fl_region \<Rightarrow> fl_namespace \<Rightarrow> string option \<Rightarrow> bool" where
  "util_namespace_filter region ndns ident =
     (case ident of
        None \<Rightarrow> True
      | Some s \<Rightarrow> list_ex (\<lambda>name. name = ''all'' \<or> name = fn_devname ndns
          \<or> scan_id2 [] name = Some (int (unat (fr_id region)), fn_id ndns)) (strtoks (CHR '' '') s))"

definition all_ident :: "string option \<Rightarrow> bool" where
  "all_ident ident \<longleftrightarrow> ident = None \<or> ident = Some ''all''"

definition util_bus_filter_by_dimm :: "fl_bus \<Rightarrow> string option \<Rightarrow> bool" where
  "util_bus_filter_by_dimm bus ident = (all_ident ident \<or> list_ex (\<lambda>dimm. util_dimm_filter dimm ident) (fb_dimms bus))"

definition util_bus_filter_by_region :: "fl_bus \<Rightarrow> string option \<Rightarrow> bool" where
  "util_bus_filter_by_region bus ident =
     (all_ident ident \<or> list_ex (\<lambda>region. util_region_filter region ident) (fb_regions bus))"

definition util_bus_filter_by_namespace :: "fl_bus \<Rightarrow> string option \<Rightarrow> bool" where
  "util_bus_filter_by_namespace bus ident =
     (all_ident ident \<or>
      list_ex (\<lambda>region. list_ex (\<lambda>ndns. util_namespace_filter region ndns ident) (fr_namespaces region)) (fb_regions bus))"

definition util_region_filter_by_dimm :: "fl_region \<Rightarrow> string option \<Rightarrow> bool" where
  "util_region_filter_by_dimm region ident =
     (all_ident ident \<or> list_ex (\<lambda>dimm. util_dimm_filter dimm ident) (fr_dimms region))"

definition util_dimm_filter_by_region :: "fl_bus \<Rightarrow> fl_dimm \<Rightarrow> string option \<Rightarrow> bool" where
  "util_dimm_filter_by_region bus dimm ident =
     (all_ident ident \<or>
      list_ex (\<lambda>region. util_region_filter region ident \<and> dimm \<in> set (fr_dimms region)) (fb_regions bus))"

definition util_dimm_filter_by_namespace :: "fl_bus \<Rightarrow> fl_dimm \<Rightarrow> string option \<Rightarrow> bool" where
  "util_dimm_filter_by_namespace bus dimm ident =
     (all_ident ident \<or>
      list_ex (\<lambda>region. list_ex (\<lambda>ndns. util_namespace_filter region ndns ident \<and> dimm \<in> set (fr_dimms region))
        (fr_namespaces region)) (fb_regions bus))"

definition NUMA_NO_NODE :: int where "NUMA_NO_NODE = - 1"

definition util_dimm_filter_by_numa_node :: "fl_bus \<Rightarrow> fl_dimm \<Rightarrow> int \<Rightarrow> bool" where
  "util_dimm_filter_by_numa_node bus dimm numa_node =
     (numa_node = NUMA_NO_NODE \<or>
      list_ex (\<lambda>region. dimm \<in> set (fr_dimms region) \<and> fr_numa_node region = numa_node) (fb_regions bus))"

definition util_region_filter_by_namespace :: "fl_region \<Rightarrow> string option \<Rightarrow> bool" where
  "util_region_filter_by_namespace region ident =
     (all_ident ident \<or> list_ex (\<lambda>ndns. util_namespace_filter region ndns ident) (fr_namespaces region))"

subsection \<open>ndctl_filter_walk\<close>

record ndctl_filter_params =
  fp_bus :: "string option"
  fp_region :: "string option"
  fp_type :: "string option"
  fp_dimm :: "string option"
  fp_mode :: "string option"
  fp_namespace :: "string option"
  fp_numa_node :: "string option"

text \<open>The callbacks; those for DIMMs and namespaces may be NULL.\<close>

record 's ndctl_filter_ctx =
  filter_bus :: "fl_bus \<Rightarrow> 's \<Rightarrow> bool \<times> 's"
  filter_dimm :: "(fl_dimm \<Rightarrow> 's \<Rightarrow> 's) option"
  filter_region :: "fl_region \<Rightarrow> 's \<Rightarrow> bool \<times> 's"
  filter_namespace :: "(fl_namespace \<Rightarrow> 's \<Rightarrow> 's) option"

definition dimm_selected :: "ndctl_filter_params \<Rightarrow> int \<Rightarrow> fl_bus \<Rightarrow> fl_dimm \<Rightarrow> bool" where
  "dimm_selected param numa_node bus dimm =
     (util_dimm_filter dimm (fp_dimm param) \<and> util_dimm_filter_by_region bus dimm (fp_region param)
      \<and> util_dimm_filter_by_namespace bus dimm (fp_namespace param) \<and> util_dimm_filter_by_numa_node bus dimm numa_node)"

definition region_selected :: "ndctl_filter_params \<Rightarrow> int \<Rightarrow> bool \<Rightarrow> fl_region \<Rightarrow> bool" where
  "region_selected param numa_node want_ns region =
     (if \<not> util_region_filter region (fp_region param) \<or> \<not> util_region_filter_by_dimm region (fp_dimm param)
         \<or> \<not> util_region_filter_by_namespace region (fp_namespace param) then False
      else if numa_node \<noteq> NUMA_NO_NODE \<and> \<not> fr_has_numa region \<and> \<not> want_ns then False
      else if fr_has_numa region \<and> numa_node \<noteq> NUMA_NO_NODE \<and> fr_numa_node region \<noteq> numa_node then False
      else (case fp_type param of
              None \<Rightarrow> True
            | Some t \<Rightarrow> fr_type region = (if t = ''pmem'' then ND_DEVICE_REGION_PMEM else ND_DEVICE_REGION_BLK)))"

definition namespace_selected :: "ndctl_filter_params \<Rightarrow> int \<Rightarrow> fl_region \<Rightarrow> fl_namespace \<Rightarrow> bool" where
  "namespace_selected param numa_node region ndns =
     (if \<not> util_namespace_filter region ndns (fp_namespace param) then False
      else if fp_mode param \<noteq> None \<and> util_nsmode (fp_mode param) \<noteq> fn_mode ndns then False
      else \<not> (numa_node \<noteq> NUMA_NO_NODE \<and> fn_numa_node ndns \<noteq> numa_node))"

definition bus_selected :: "ndctl_filter_params \<Rightarrow> fl_bus \<Rightarrow> bool" where
  "bus_selected param bus =
     (util_bus_filter bus (fp_bus param) \<and> util_bus_filter_by_dimm bus (fp_dimm param)
      \<and> util_bus_filter_by_region bus (fp_region param) \<and> util_bus_filter_by_namespace bus (fp_namespace param))"

fun namespace_loop ::
  "'s ndctl_filter_ctx \<Rightarrow> ndctl_filter_params \<Rightarrow> int \<Rightarrow> fl_region \<Rightarrow> fl_namespace list \<Rightarrow> 's \<Rightarrow> 's" where
  "namespace_loop fctx param numa_node region [] s = s"
| "namespace_loop fctx param numa_node region (ndns # rest) s =
     (case filter_namespace fctx of
        None \<Rightarrow> s
      | Some f \<Rightarrow> namespace_loop fctx param numa_node region rest
                    (if namespace_selected param numa_node region ndns then f ndns s else s))"

fun region_loop :: "'s ndctl_filter_ctx \<Rightarrow> ndctl_filter_params \<Rightarrow> int \<Rightarrow> fl_region list \<Rightarrow> 's \<Rightarrow> 's" where
  "region_loop fctx param numa_node [] s = s"
| "region_loop fctx param numa_node (region # rest) s =
     (if \<not> region_selected param numa_node (filter_namespace fctx \<noteq> None) region
      then region_loop fctx param numa_node rest s
      else case filter_region fctx region s of (go, s) \<Rightarrow>
        region_loop fctx param numa_node rest
          (if go then namespace_loop fctx param numa_node region (fr_namespaces region) s else s))"

fun dimm_loop :: "'s ndctl_filter_ctx \<Rightarrow> ndctl_filter_params \<Rightarrow> int \<Rightarrow> fl_bus \<Rightarrow> fl_dimm list \<Rightarrow> 's \<Rightarrow> 's" where
  "dimm_loop fctx param numa_node bus [] s = s"
| "dimm_loop fctx param numa_node bus (dimm # rest) s =
     (case filter_dimm fctx of
        None \<Rightarrow> s
      | Some f \<Rightarrow> dimm_loop fctx param numa_node bus rest (if dimm_selected param numa_node bus dimm then f dimm s else s))"

fun filter_bus_loop :: "'s ndctl_filter_ctx \<Rightarrow> ndctl_filter_params \<Rightarrow> int \<Rightarrow> fl_bus list \<Rightarrow> 's \<Rightarrow> 's" where
  "filter_bus_loop fctx param numa_node [] s = s"
| "filter_bus_loop fctx param numa_node (bus # rest) s =
     (if \<not> bus_selected param bus then filter_bus_loop fctx param numa_node rest s
      else case filter_bus fctx bus s of (go, s) \<Rightarrow>
        filter_bus_loop fctx param numa_node rest
          (if go then region_loop fctx param numa_node (fb_regions bus) (dimm_loop fctx param numa_node bus (fb_dimms bus) s)
           else s))"

text \<open>\<open>strtol\<close> of the node number, read with base 0 to the end of the string, and stored in an \<open>int\<close>: 4294967295 is \<open>NUMA_NO_NODE\<close>.
  \<open>has_numa\<close> says that the node directory exists.\<close>

definition strtol_num :: "string \<Rightarrow> int option" where
  "strtol_num s =
     (case scan_sign (dropWhile is_space s) of (neg, r) \<Rightarrow>
        (case scan_unsigned r of
           None \<Rightarrow> None
         | Some (n, rest) \<Rightarrow> if rest \<noteq> [] then None else Some (to_long neg n)))"

definition param_numa_node :: "bool \<Rightarrow> ndctl_filter_params \<Rightarrow> int option" where
  "param_numa_node has_numa param =
     (case fp_numa_node param of
        None \<Rightarrow> Some NUMA_NO_NODE
      | Some n \<Rightarrow> if n = ''all'' then Some NUMA_NO_NODE else if \<not> has_numa then None else map_option to_int (strtol_num n))"

definition ndctl_filter_walk ::
  "bool \<Rightarrow> fl_bus list \<Rightarrow> 's ndctl_filter_ctx \<Rightarrow> ndctl_filter_params \<Rightarrow> 's \<Rightarrow> int \<times> 's" where
  "ndctl_filter_walk has_numa buses fctx param s =
     (if fp_type param \<noteq> None \<and> fp_type param \<noteq> Some ''pmem'' \<and> fp_type param \<noteq> Some ''blk'' then (- EINVAL, s)
      else if fp_mode param \<noteq> None \<and> util_nsmode (fp_mode param) = NS_MODE_UNKNOWN then (- EINVAL, s)
      else case param_numa_node has_numa param of
        None \<Rightarrow> (- EINVAL, s)
      | Some numa_node \<Rightarrow> (0, filter_bus_loop fctx param numa_node buses s))"

subsection \<open>Lists of names\<close>

fun join_with :: "char \<Rightarrow> string list \<Rightarrow> string" where
  "join_with sep [] = []"
| "join_with sep [x] = x"
| "join_with sep (x # xs) = x @ sep # join_with sep xs"

definition token_ok :: "char \<Rightarrow> string \<Rightarrow> bool" where
  "token_ok sep x \<longleftrightarrow> x \<noteq> [] \<and> sep \<notin> set x"

lemma token_parts:
  assumes "token_ok sep x"
  shows "dropWhile (\<lambda>c. c = sep) (x @ r) = x @ r" and "takeWhile (\<lambda>c. c \<noteq> sep) (x @ sep # r) = x"
    and "dropWhile (\<lambda>c. c \<noteq> sep) (x @ sep # r) = sep # r" and "takeWhile (\<lambda>c. c \<noteq> sep) x = x"
    and "dropWhile (\<lambda>c. c \<noteq> sep) x = []" and "takeWhile (\<lambda>c. c = sep) (x @ r) = []"
proof -
  have all: "\<forall>c \<in> set x. c \<noteq> sep" and ne: "x \<noteq> []" using assms by (auto simp: token_ok_def)
  show "dropWhile (\<lambda>c. c = sep) (x @ r) = x @ r" "takeWhile (\<lambda>c. c = sep) (x @ r) = []"
    using all ne by (cases x; simp)+
  show "takeWhile (\<lambda>c. c \<noteq> sep) (x @ sep # r) = x" "dropWhile (\<lambda>c. c \<noteq> sep) (x @ sep # r) = sep # r"
    "takeWhile (\<lambda>c. c \<noteq> sep) x = x" "dropWhile (\<lambda>c. c \<noteq> sep) x = []"
    using all by (simp_all add: takeWhile_append2 dropWhile_append2)
qed

lemma strtoks_cons: "token_ok sep x \<Longrightarrow> strtoks sep (x @ sep # r) = x # strtoks sep r"
  by (subst strtoks.simps) (auto simp: strtok_def Let_def token_parts)

lemma strtoks_single: "token_ok sep x \<Longrightarrow> strtoks sep x = [x]"
  using token_parts(1) [of sep x "[]"]
  by (subst strtoks.simps) (auto simp: strtok_def Let_def token_parts token_ok_def strtoks.simps [of sep "[]"])

lemma strtoks_join: "\<forall>x \<in> set xs. token_ok sep x \<Longrightarrow> strtoks sep (join_with sep xs) = xs"
proof (induction sep xs rule: join_with.induct)
  case (1 sep)
  then show ?case by (subst strtoks.simps) (simp add: strtok_def)
qed (simp_all add: strtoks_single strtoks_cons)

lemma set_join: "set (join_with sep xs) \<subseteq> insert sep (\<Union> (set ` set xs))"
  by (induction sep xs rule: join_with.induct) auto

lemma join_has_sep: "1 < length xs \<Longrightarrow> sep \<in> set (join_with sep xs)"
  by (induction sep xs rule: join_with.induct) auto

text \<open>Comma-separated lists are split at the commas.\<close>

lemma strtoks_csv:
  assumes "\<forall>x \<in> set xs. token_ok (CHR '','') x \<and> CHR '' '' \<notin> set x" and "xs \<noteq> []"
  shows "strtoks (which_sep (join_with (CHR '','') xs)) (join_with (CHR '','') xs) = xs"
proof -
  let ?s = "join_with (CHR '','') xs"
  have "CHR '' '' \<notin> set ?s" using set_join [of "CHR '',''" xs] assms(1) by auto
  then have sep: "which_sep ?s = (if CHR '','' \<in> set ?s then CHR '','' else CHR '' '')" by (simp add: which_sep_def)
  show ?thesis
  proof (cases "CHR '','' \<in> set ?s")
    case True
    then show ?thesis using sep strtoks_join [of xs "CHR '',''"] assms(1) by simp
  next
    case False
    then have "\<not> 1 < length xs" using join_has_sep by blast
    then obtain x where "xs = [x]" using assms(2) by (cases xs) (auto simp: Suc_lessI)
    then show ?thesis using sep False assms(1) by (simp add: strtoks_single token_ok_def)
  qed
qed

lemma some_token_join:
  assumes "\<forall>x \<in> set xs. token_ok (CHR '','') x \<and> CHR '' '' \<notin> set x" and "xs \<noteq> []"
  shows "some_token (Some (join_with (CHR '','') xs)) P \<longleftrightarrow> (\<exists>x \<in> set xs. P x)"
  using strtoks_csv [OF assms] by (simp add: some_token_def list_ex_iff)

lemma dec_digit_char:
  assumes "c \<in> set (dec_digits n)"
  shows "c \<noteq> CHR '' ''" and "c \<noteq> CHR '',''" and "\<not> is_space c" and "c \<noteq> CHR ''-''" and "c \<noteq> CHR ''+''"
  using dec_digits_valid [OF assms] by (auto simp: digit_value_def is_space_def)

lemma dec_digits_start: "starts_digit 10 (dec_digits n @ r)"
proof (cases "dec_digits n")
  case Nil
  then show ?thesis by (subst (asm) dec_digits.simps) (auto split: if_splits)
next
  case (Cons c cs)
  then have "\<exists>d < 10. digit_value c = Some d" using dec_digits_valid [of c n] by simp
  then show ?thesis using Cons by (auto simp: starts_digit_def)
qed

lemma dec_digits_ne: "dec_digits n \<noteq> []"
  by (subst dec_digits.simps) simp

lemma scan_int_dec: "scan_int (dec_digits n) = Some (to_int (to_long False n), [])"
proof (cases "dec_digits n")
  case Nil
  then show ?thesis using dec_digits_ne by blast
next
  case (Cons c cs)
  then have c: "c \<in> set (dec_digits n)" by simp
  have "dropWhile is_space (dec_digits n) = dec_digits n" using Cons dec_digit_char(3) [OF c] by simp
  moreover have "scan_sign (dec_digits n) = (False, dec_digits n)"
    using Cons dec_digit_char(4,5) [OF c] by (simp add: scan_sign_def)
  ultimately show ?thesis
    using scan_dec_digits [of n "[]"] dec_digits_start [of n "[]"] by (simp add: scan_int_def)
qed

lemma dec_digits_inj: "dec_digits m = dec_digits n \<Longrightarrow> m = n"
  using scan_dec_digits [of m "[]"] scan_dec_digits [of n "[]"] by simp

definition mem_name :: "nat \<Rightarrow> string" where
  "mem_name n = ''mem'' @ dec_digits n"

lemma mem_name_id: "n < 2 ^ 31 \<Longrightarrow> id_matches ''mem'' (mem_name n) dev \<longleftrightarrow> dev = int n"
proof -
  assume n: "n < 2 ^ 31"
  then have "int n < 2 ^ 31" by (metis of_nat_less_iff of_nat_numeral of_nat_power)
  then have "to_int (to_long False n) = int n" by (simp add: to_long_def to_int_small)
  moreover have "scan_id [] (mem_name n) = None"
    by (simp add: scan_id_def mem_name_def scan_int_def scan_sign_def is_space_def starts_digit_def digit_value_def)
  ultimately have "scan_id ''mem'' (mem_name n) = Some (int n) \<and> scan_id [] (mem_name n) = None"
    by (simp add: scan_id_def mem_name_def scan_int_dec)
  then show "id_matches ''mem'' (mem_name n) dev \<longleftrightarrow> dev = int n" by (auto simp: id_matches_def)
qed

lemma mem_name_inj: "mem_name m = mem_name n \<Longrightarrow> m = n"
  by (simp add: mem_name_def dec_digits_inj)

lemma mem_name_token: "token_ok (CHR '','') (mem_name n) \<and> CHR '' '' \<notin> set (mem_name n) \<and> mem_name n \<noteq> ''all''"
  using dec_digit_char [of _ n] by (auto simp: mem_name_def token_ok_def)

lemma memdev_filter_names:
  assumes "ids \<noteq> []" and "md_id memdev = int i" and "md_devname memdev = mem_name i"
    and "\<forall>j \<in> set ids. j < 2 ^ 31 \<and> md_host memdev \<noteq> mem_name j"
  shows "util_cxl_memdev_filter memdev (Some (join_with (CHR '','') (map mem_name ids))) None \<longleftrightarrow> i \<in> set ids"
proof -
  have "\<forall>x \<in> set (map mem_name ids). token_ok (CHR '','') x \<and> CHR '' '' \<notin> set x" using mem_name_token by auto
  then have "util_cxl_memdev_filter memdev (Some (join_with (CHR '','') (map mem_name ids))) None \<longleftrightarrow>
      (\<exists>j \<in> set ids. mem_name j = ''all'' \<or> id_matches ''mem'' (mem_name j) (md_id memdev)
         \<or> mem_name j = md_devname memdev \<or> mem_name j = md_host memdev)"
    using assms(1) by (simp add: util_cxl_memdev_filter_def some_token_join util_cxl_memdev_serial_filter_def
        some_token_def [of None] bex_simps)
  also have "\<dots> \<longleftrightarrow> i \<in> set ids"
    using assms mem_name_token mem_name_inj by (auto simp: mem_name_id)
  finally show ?thesis .
qed

text \<open>A comma-separated list of memdev names selects exactly the memdevs with one of the named numbers.\<close>

theorem memdev_filter_by_names:
  assumes "ids \<noteq> []" and "md_id memdev = int i" and "md_devname memdev = mem_name i"
    and "\<forall>j \<in> set ids. j < 2 ^ 31 \<and> md_host memdev \<noteq> mem_name j"
  shows "util_cxl_memdev_filter memdev (Some (join_with (CHR '','') (map mem_name ids))) None \<longleftrightarrow> i \<in> set ids"
  by (rule memdev_filter_names [OF assms])

definition demo_memdev :: "nat \<Rightarrow> cxl_memdev" where
  "demo_memdev n = \<lparr>md_id = int n, md_devname = mem_name n, md_host = ''0000:35:00.0'', md_serial = 0,
     md_ram_size = 0x40000000, md_pmem_size = 0x80000000, md_ram_qos_class = - 1, md_pmem_qos_class = - 1\<rparr>"

theorem memdev_filter_by_names_witness:
  "util_cxl_memdev_filter (demo_memdev 12) (Some ''mem3,mem12'') None \<and>
   \<not> util_cxl_memdev_filter (demo_memdev 1) (Some ''mem3,mem12'') None"
proof -
  have "join_with (CHR '','') (map mem_name [3, 12]) = ''mem3,mem12''"
    by (simp add: mem_name_def dec_digits.simps dec_chars)
  then show ?thesis
    using memdev_filter_by_names [of "[3, 12]" "demo_memdev 12" 12] memdev_filter_by_names [of "[3, 12]" "demo_memdev 1" 1]
    by (simp add: demo_memdev_def mem_name_def)
qed

text \<open>The tokens of a space-separated list of numbers, and the number the ndctl filters read.\<close>

lemma dec_token: "token_ok (CHR '' '') (dec_digits n)"
  using dec_digit_char [of _ n] dec_digits_ne by (auto simp: token_ok_def)

lemma first_chunk_join:
  assumes "token_ok (CHR '' '') x"
  shows "first_chunk (join_with (CHR '' '') (x # xs)) = x"
  using assms token_parts [OF assms] token_parts(1,6) [OF assms, of "[]"]
  by (cases xs) (simp_all add: first_chunk_def)

lemma ident_number_join:
  assumes "0 < n" and "n < 2 ^ 64 - 1"
  shows "ident_number (join_with (CHR '' '') (dec_digits n # xs)) = of_nat n"
  using strtoull_dec [of n "[]"] assms dec_digits_ne [of n, symmetric]
  by (simp add: ident_number_def first_chunk_join [OF dec_token])

text \<open>Given a list of numbers, the bus, region and DIMM filters of ndctl look at the first number only: they
  convert the whole identifier, which ends behind its first token, instead of the token at hand.\<close>

theorem id_list_selects_first:
  assumes "0 < n" and "n < 2 ^ 64 - 1"
  shows "util_region_filter region (Some (join_with (CHR '' '') (map dec_digits (n # ns)))) \<longleftrightarrow> fr_id region = of_nat n"
proof -
  let ?s = "join_with (CHR '' '') (map dec_digits (n # ns))"
  have num: "ident_number ?s = of_nat n" using ident_number_join [OF assms] by simp
  have lt: "(of_nat n :: u64) < ULLONG_MAX"
    using assms(2) by (simp add: word_less_nat_alt unat_of_nat)
  have "strtoks (CHR '' '') ?s = map dec_digits (n # ns)"
    by (rule strtoks_join) (use dec_token in auto)
  moreover have "dec_digits m \<noteq> ''all''" for m
    using dec_digits_valid [of "CHR ''l''" m] by (auto simp: digit_value_def)
  ultimately show ?thesis
    using num lt by (auto simp: util_region_filter_def ident_filter_def list_ex_iff Let_def simp del: ULLONG_MAX_def)
qed

definition demo_fl_region :: "u64 \<Rightarrow> fl_region" where
  "demo_fl_region n = \<lparr>fr_id = n, fr_devname = ''region'', fr_type = ND_DEVICE_REGION_PMEM, fr_has_numa = False,
     fr_numa_node = 0, fr_dimms = [], fr_namespaces = []\<rparr>"

theorem id_list_selects_first_witness:
  "util_region_filter (demo_fl_region 1) (Some ''1 2'') \<and> \<not> util_region_filter (demo_fl_region 2) (Some ''1 2'')"
proof -
  have "join_with (CHR '' '') (map dec_digits [1, 2]) = ''1 2''"
    by (simp add: dec_digits.simps dec_chars)
  then show ?thesis
    using id_list_selects_first [of 1 "demo_fl_region 1" "[2]"] id_list_selects_first [of 1 "demo_fl_region 2" "[2]"]
    by (simp add: demo_fl_region_def)
qed

subsection \<open>What the walk visits\<close>

text \<open>Callbacks that accept everything and record the namespaces.\<close>

definition log_ctx :: "fl_namespace list ndctl_filter_ctx" where
  "log_ctx = \<lparr>filter_bus = (\<lambda>_ s. (True, s)), filter_dimm = None, filter_region = (\<lambda>_ s. (True, s)),
     filter_namespace = Some (\<lambda>ndns s. s @ [ndns])\<rparr>"

lemma log_ctx_sel [simp]:
  "filter_bus log_ctx bus s = (True, s)" "filter_dimm log_ctx = None" "filter_region log_ctx region s = (True, s)"
  "filter_namespace log_ctx = Some (\<lambda>ndns s. s @ [ndns])"
  by (simp_all add: log_ctx_def)

lemma namespace_loop_log:
  "namespace_loop log_ctx param node region nss s = s @ filter (namespace_selected param node region) nss"
  by (induction nss arbitrary: s) simp_all

lemma region_loop_log:
  "region_loop log_ctx param node regions s =
     s @ concat (map (\<lambda>region. filter (namespace_selected param node region) (fr_namespaces region))
           (filter (region_selected param node True) regions))"
  by (induction regions arbitrary: s) (simp_all add: namespace_loop_log)

lemma dimm_loop_log: "dimm_loop log_ctx param node bus dimms s = s"
  by (cases dimms) simp_all

lemma bus_loop_log:
  "filter_bus_loop log_ctx param node buses s =
     s @ concat (map (\<lambda>bus. region_loop log_ctx param node (fb_regions bus) []) (filter (bus_selected param) buses))"
proof (induction buses arbitrary: s)
  case (Cons bus buses)
  have "region_loop log_ctx param node (fb_regions bus) s = s @ region_loop log_ctx param node (fb_regions bus) []"
    by (simp add: region_loop_log)
  with Cons show ?case by (simp add: dimm_loop_log)
qed simp

text \<open>The attributes a region needs for its namespaces to be visited, apart from the identifiers.\<close>

definition region_attrs_ok :: "ndctl_filter_params \<Rightarrow> int \<Rightarrow> fl_region \<Rightarrow> bool" where
  "region_attrs_ok param node region \<longleftrightarrow>
     (node \<noteq> NUMA_NO_NODE \<longrightarrow> fr_has_numa region \<longrightarrow> fr_numa_node region = node) \<and>
     (fp_type param = Some ''pmem'' \<longrightarrow> fr_type region = ND_DEVICE_REGION_PMEM) \<and>
     (fp_type param = Some ''blk'' \<longrightarrow> fr_type region = ND_DEVICE_REGION_BLK)"

text \<open>The filters of the levels above that follow from the filters of the namespace and its region.\<close>

lemma parent_filters:
  assumes "region \<in> set (fb_regions bus)" and "ndns \<in> set (fr_namespaces region)" and "set (fr_dimms region) \<subseteq> set (fb_dimms bus)"
    and "util_namespace_filter region ndns (fp_namespace param)" and "util_region_filter region (fp_region param)"
    and "util_region_filter_by_dimm region (fp_dimm param)"
  shows "util_region_filter_by_namespace region (fp_namespace param)" and "util_bus_filter_by_namespace bus (fp_namespace param)"
    and "util_bus_filter_by_region bus (fp_region param)" and "util_bus_filter_by_dimm bus (fp_dimm param)"
  using assms
  by (auto simp: util_region_filter_by_namespace_def util_bus_filter_by_namespace_def util_bus_filter_by_region_def
      util_bus_filter_by_dimm_def util_region_filter_by_dimm_def list_ex_iff)

text \<open>C34: a walk that accepts its parameters visits a namespace exactly when its own filter, mode and node match, its
  region passes the region, DIMM, type and node filters (so a DIMM filter hides the namespaces of regions without that
  DIMM), and its bus the bus filter.  The checks whether a bus or region has a matching child, to which buses and
  regions are subjected too, hide no further namespace, provided the DIMMs of a region are on its bus.  The node is
  the number of \<open>--numa-node\<close> as an \<open>int\<close>.\<close>

theorem filter_walk_visits:
  assumes "ndctl_filter_walk has_numa buses log_ctx param [] = (0, visited)" and "param_numa_node has_numa param = Some node"
    and "\<forall>bus \<in> set buses. \<forall>region \<in> set (fb_regions bus). set (fr_dimms region) \<subseteq> set (fb_dimms bus)"
  shows "set visited = {ndns. \<exists>bus \<in> set buses. \<exists>region \<in> set (fb_regions bus).
      ndns \<in> set (fr_namespaces region) \<and> util_bus_filter bus (fp_bus param) \<and>
      util_region_filter region (fp_region param) \<and> util_region_filter_by_dimm region (fp_dimm param) \<and>
      region_attrs_ok param node region \<and> util_namespace_filter region ndns (fp_namespace param) \<and>
      (fp_mode param = None \<or> util_nsmode (fp_mode param) = fn_mode ndns) \<and>
      (node = NUMA_NO_NODE \<or> fn_numa_node ndns = node)}"
proof -
  have v: "visited = filter_bus_loop log_ctx param node buses []"
    and t: "fp_type param = None \<or> fp_type param = Some ''pmem'' \<or> fp_type param = Some ''blk''"
    using assms(1,2) by (auto simp: ndctl_filter_walk_def split: if_splits)
  have attrs: "region_selected param node True region \<longleftrightarrow> util_region_filter region (fp_region param) \<and>
      util_region_filter_by_dimm region (fp_dimm param) \<and> util_region_filter_by_namespace region (fp_namespace param) \<and>
      region_attrs_ok param node region" for region
    using t by (auto simp: region_selected_def region_attrs_ok_def split: if_splits)
  have "set visited = {ndns. \<exists>bus \<in> set buses. \<exists>region \<in> set (fb_regions bus). ndns \<in> set (fr_namespaces region) \<and>
      bus_selected param bus \<and> region_selected param node True region \<and> namespace_selected param node region ndns}"
    by (auto simp: v bus_loop_log region_loop_log)
  moreover have "bus_selected param bus \<and> region_selected param node True region \<and> namespace_selected param node region ndns \<longleftrightarrow>
      util_bus_filter bus (fp_bus param) \<and> util_region_filter region (fp_region param) \<and>
      util_region_filter_by_dimm region (fp_dimm param) \<and> region_attrs_ok param node region \<and>
      util_namespace_filter region ndns (fp_namespace param) \<and>
      (fp_mode param = None \<or> util_nsmode (fp_mode param) = fn_mode ndns) \<and>
      (node = NUMA_NO_NODE \<or> fn_numa_node ndns = node)"
    if "bus \<in> set buses" "region \<in> set (fb_regions bus)" "ndns \<in> set (fr_namespaces region)" for bus region ndns
  proof -
    have "set (fr_dimms region) \<subseteq> set (fb_dimms bus)" using assms(3) that by blast
    note parents = parent_filters [OF that(2,3) this, of param]
    show ?thesis
      using parents unfolding attrs bus_selected_def namespace_selected_def by (simp split: if_split) blast
  qed
  ultimately show ?thesis by blast
qed

definition demo_fl_ns :: fl_namespace where
  "demo_fl_ns = \<lparr>fn_id = 0, fn_devname = ''namespace1.0'', fn_mode = NS_MODE_RAW, fn_numa_node = 0\<rparr>"

definition demo_fl_bus :: fl_bus where
  "demo_fl_bus = \<lparr>fb_id = 0, fb_devname = ''ndbus0'', fb_provider = ''ACPI.NFIT'', fb_dimms = [],
     fb_regions = [(demo_fl_region 1)\<lparr>fr_namespaces := [demo_fl_ns]\<rparr>]\<rparr>"

definition demo_fp :: ndctl_filter_params where
  "demo_fp = \<lparr>fp_bus = Some ''ndbus0'', fp_region = None, fp_type = None, fp_dimm = None, fp_mode = None,
     fp_namespace = Some ''namespace1.0'', fp_numa_node = None\<rparr>"

theorem filter_walk_visits_witness:
  "\<exists>visited. ndctl_filter_walk True [demo_fl_bus] log_ctx demo_fp [] = (0, visited) \<and> demo_fl_ns \<in> set visited"
proof -
  have tok: "strtoks (CHR '' '') ''ndbus0'' = [''ndbus0'']" "strtoks (CHR '' '') ''namespace1.0'' = [''namespace1.0'']"
    by (simp_all add: strtoks_single token_ok_def)
  have num: "ident_number ''ndbus0'' = ULLONG_MAX"
    by (simp add: ident_number_def first_chunk_def strtoull_def scan_sign_def is_space_def scan_unsigned_def
        starts_digit_def digit_value_def)
  let ?v = "snd (ndctl_filter_walk True [demo_fl_bus] log_ctx demo_fp [])"
  have node: "param_numa_node True demo_fp = Some NUMA_NO_NODE" by (simp add: param_numa_node_def demo_fp_def)
  then have run: "ndctl_filter_walk True [demo_fl_bus] log_ctx demo_fp [] = (0, ?v)"
    by (simp add: ndctl_filter_walk_def) (simp add: demo_fp_def)
  have "demo_fl_ns \<in> set ?v"
  proof (subst filter_walk_visits [OF run node])
    show "demo_fl_ns \<in> {ndns. \<exists>bus \<in> set [demo_fl_bus]. \<exists>region \<in> set (fb_regions bus).
      ndns \<in> set (fr_namespaces region) \<and> util_bus_filter bus (fp_bus demo_fp) \<and>
      util_region_filter region (fp_region demo_fp) \<and> util_region_filter_by_dimm region (fp_dimm demo_fp) \<and>
      region_attrs_ok demo_fp NUMA_NO_NODE region \<and> util_namespace_filter region ndns (fp_namespace demo_fp) \<and>
      (fp_mode demo_fp = None \<or> util_nsmode (fp_mode demo_fp) = fn_mode ndns) \<and>
      (NUMA_NO_NODE = NUMA_NO_NODE \<or> fn_numa_node ndns = NUMA_NO_NODE)}"
      by (simp add: demo_fp_def demo_fl_bus_def util_bus_filter_def ident_filter_def tok num util_namespace_filter_def
          demo_fl_region_def util_region_filter_def util_region_filter_by_dimm_def all_ident_def region_attrs_ok_def
          demo_fl_ns_def)
  qed (simp add: demo_fl_bus_def demo_fl_region_def)
  with run show ?thesis by blast
qed

end
