(* ===== verification/Cxl_Region.thy ===== *)
theory Cxl_Region
  imports Dev_Filter
begin

text \<open>
  The region commands of the \<open>cxl\<close> tool, \<open>cxl/region.c\<close>: collecting and ordering the target memdevs, validating
  the parameters, creating a region with roll-back on failure, disabling and destroying regions.

  The topology (buses with their root port and its decoders) is a list; the kernel is a parameter over an arbitrary
  state, addressed by numbers for regions, endpoint decoders and memory devices.  \<open>cxl_filter_walk\<close> and libuuid are
  parameters.  \<open>None\<close> as the result of a command is undefined behaviour of the C code: a memdev index out of range (a
  NULL dereference) or a signed overflow.
\<close>

subsection \<open>Parameters\<close>

datatype cxl_decoder_mode = CXL_DECODER_MODE_NONE | CXL_DECODER_MODE_MIXED | CXL_DECODER_MODE_PMEM | CXL_DECODER_MODE_RAM

definition cxl_decoder_mode_from_ident :: "string \<Rightarrow> cxl_decoder_mode" where
  "cxl_decoder_mode_from_ident ident =
     (if ident = ''ram'' then CXL_DECODER_MODE_RAM
      else if ident = ''volatile'' then CXL_DECODER_MODE_RAM
      else if ident = ''pmem'' then CXL_DECODER_MODE_PMEM
      else CXL_DECODER_MODE_NONE)"

definition INT_MAX :: int where "INT_MAX = 0x7FFFFFFF"

record region_params =
  rp_bus :: "string option"
  rp_size :: "string option"
  rp_type :: "string option"
  rp_uuid :: "string option"
  rp_root_decoder :: "string option"
  rp_ways :: int
  rp_granularity :: int
  rp_memdevs :: bool
  rp_force :: bool
  rp_enforce_qos :: bool

record parsed_params =
  pr_size :: u64
  pr_ep_min_size :: u64
  pr_ways :: nat
  pr_granularity :: int
  pr_uuid :: uuid
  pr_memdevs :: "cxl_memdev list"
  pr_mode :: cxl_decoder_mode
  pr_enforce_qos :: bool

subsection \<open>Target memdevs\<close>

text \<open>The tokens of one argument.  The loop asks \<open>which_sep\<close> again after every token, of a string that \<open>strtok_r\<close> has
  ended behind the first one.\<close>

definition arg_chunk :: "char \<Rightarrow> string \<Rightarrow> string" where
  "arg_chunk sep s = takeWhile (\<lambda>c. c = sep) s @ takeWhile (\<lambda>c. c \<noteq> sep) (dropWhile (\<lambda>c. c = sep) s)"

definition arg_tokens :: "string \<Rightarrow> string list" where
  "arg_tokens s =
     (case strtok (which_sep s) s of
        None \<Rightarrow> []
      | Some (t, rest) \<Rightarrow> t # strtoks (which_sep (arg_chunk (which_sep s) s)) rest)"

text \<open>The string is long enough for all tokens with their commas, so that the copy is never cut short.  The comma
  depends on the index of the argument.\<close>

definition csv_part :: "nat \<Rightarrow> nat \<times> string list \<Rightarrow> string" where
  "csv_part new_count it = concat (map (\<lambda>t. t @ (if fst it + 1 < new_count then '','' else [])) (snd it))"

definition to_csv :: "string list \<Rightarrow> string option \<times> nat" where
  "to_csv strings =
     (if strings = [] then (None, 0)
      else let toks = map arg_tokens strings;
               new_count = length (concat toks)
           in (Some (concat (map (csv_part new_count) (enumerate 0 toks))), new_count))"

fun token_pos :: "cxl_memdev \<Rightarrow> string list \<Rightarrow> nat" where
  "token_pos memdev [] = 0"
| "token_pos memdev (arg # args) = (if util_cxl_memdev_filter memdev (Some arg) None then 0 else Suc (token_pos memdev args))"

definition memdev_filter_pos :: "string \<Rightarrow> cxl_memdev \<Rightarrow> nat" where
  "memdev_filter_pos csv memdev = token_pos memdev (strtoks (which_sep csv) csv)"

text \<open>\<open>walk\<close> is \<open>cxl_filter_walk\<close> with a decoder and a memdev filter.  The result is the memdevs and the number of
  targets named.\<close>

definition collect_memdevs ::
  "(string option \<Rightarrow> string option \<Rightarrow> cxl_memdev list option) \<Rightarrow> string option \<Rightarrow> string list \<Rightarrow> cxl_memdev list option \<times> nat" where
  "collect_memdevs walk decoder mems =
     (case to_csv mems of (csv, count) \<Rightarrow>
        (case walk decoder csv of
           None \<Rightarrow> None
         | Some jmemdevs \<Rightarrow>
             if jmemdevs = [] then None
             else Some (case csv of None \<Rightarrow> jmemdevs | Some csv \<Rightarrow> sort_key (memdev_filter_pos csv) jmemdevs),
         count))"

subsection \<open>Options\<close>

definition validate_ways :: "nat \<Rightarrow> nat \<Rightarrow> nat \<Rightarrow> bool" where
  "validate_ways ways num_memdevs count = (\<not> (ways > num_memdevs \<or> (count \<noteq> 0 \<and> ways \<noteq> num_memdevs)))"

definition parse_ways :: "region_params \<Rightarrow> nat \<Rightarrow> nat \<Rightarrow> nat option" where
  "parse_ways param num_memdevs count =
     (if rp_ways param \<le> 0 then None
      else if rp_ways param < INT_MAX
      then if validate_ways (nat (rp_ways param)) num_memdevs count then Some (nat (rp_ways param)) else None
      else if count \<noteq> 0 then if validate_ways count num_memdevs count then Some count else None
      else Some num_memdevs)"

definition parse_create_options ::
  "ns_sys \<Rightarrow> (string option \<Rightarrow> string option \<Rightarrow> cxl_memdev list option) \<Rightarrow> region_params \<Rightarrow> string list \<Rightarrow> int + parsed_params" where
  "parse_create_options sys walk param mems =
     (if rp_root_decoder param = None then Inl (- EINVAL)
      else if \<not> (mems = [] \<or> rp_memdevs param) then Inl (- EINVAL)
      else case collect_memdevs walk (rp_root_decoder param) mems of
        (None, _) \<Rightarrow> Inl (- ENXIO)
      | (Some memdevs, count) \<Rightarrow>
          let mode = (case rp_type param of None \<Rightarrow> CXL_DECODER_MODE_PMEM | Some t \<Rightarrow> cxl_decoder_mode_from_ident t);
              sz = parse_size64 (rp_size param) in
          if rp_type param \<noteq> None \<and> mode = CXL_DECODER_MODE_RAM \<and> rp_uuid param \<noteq> None then Inl (- EINVAL)
          else if rp_type param \<noteq> None \<and> mode = CXL_DECODER_MODE_NONE then Inl (- EINVAL)
          else if rp_size param \<noteq> None \<and> sz = ULLONG_MAX then Inl (- EINVAL)
          else case parse_ways param (length memdevs) count of
            None \<Rightarrow> Inl (- EINVAL)
          | Some ways \<Rightarrow>
              if rp_granularity param < INT_MAX \<and> rp_granularity param \<le> 0 then Inl (- EINVAL)
              else if sz \<noteq> 0 \<and> ways \<noteq> 0 \<and> sz mod of_nat ways \<noteq> 0 then Inl (- EINVAL)
              else case (case rp_uuid param of None \<Rightarrow> Some (replicate 16 0) | Some u \<Rightarrow> sys_uuid_parse sys u) of
                None \<Rightarrow> Inl (- EINVAL)
              | Some uu \<Rightarrow>
                  Inr \<lparr>pr_size = sz, pr_ep_min_size = 0, pr_ways = ways,
                    pr_granularity = (if rp_granularity param < INT_MAX then rp_granularity param else 0), pr_uuid = uu,
                    pr_memdevs = memdevs, pr_mode = mode, pr_enforce_qos = rp_enforce_qos param\<rparr>)"

subsection \<open>Validation against the topology\<close>

text \<open>A bus with its port and the decoders of the port.\<close>

type_synonym cxl_topology = "(cxl_bus \<times> cxl_port \<times> cxl_decoder list) list"

definition root_decoders :: "region_params \<Rightarrow> cxl_topology \<Rightarrow> cxl_decoder list" where
  "root_decoders param topo =
     concat (map (\<lambda>(bus, port, decoders). filter (\<lambda>d. util_cxl_decoder_filter d (rp_root_decoder param)) decoders)
       (filter (\<lambda>(bus, port, decoders). util_cxl_bus_filter bus (rp_bus param) \<and> po_is_root port) topo))"

definition CXL_QOS_CLASS_NONE :: int where "CXL_QOS_CLASS_NONE = - 1"

text \<open>Loops over the first \<open>ways\<close> memdevs; \<open>None\<close> when there are not that many.\<close>

fun qos_loop :: "cxl_decoder_mode \<Rightarrow> int \<Rightarrow> nat \<Rightarrow> cxl_memdev list \<Rightarrow> int option" where
  "qos_loop mode root_qos 0 memdevs = Some 0"
| "qos_loop mode root_qos (Suc n) [] = None"
| "qos_loop mode root_qos (Suc n) (m # ms) =
     (let qos = (if mode = CXL_DECODER_MODE_RAM then md_ram_qos_class m else md_pmem_qos_class m) in
      if qos = CXL_QOS_CLASS_NONE then Some 0
      else if qos \<noteq> root_qos then Some (- ENXIO)
      else qos_loop mode root_qos n ms)"

definition create_region_validate_qos_class :: "cxl_decoder \<Rightarrow> parsed_params \<Rightarrow> int option" where
  "create_region_validate_qos_class decoder p =
     (if \<not> pr_enforce_qos p then Some 0
      else if de_qos_class decoder = CXL_QOS_CLASS_NONE then Some 0
      else qos_loop (pr_mode p) (de_qos_class decoder) (pr_ways p) (pr_memdevs p))"

definition validate_decoder :: "cxl_decoder \<Rightarrow> parsed_params \<Rightarrow> int option" where
  "validate_decoder decoder p =
     (case pr_mode p of
        CXL_DECODER_MODE_RAM \<Rightarrow>
          if \<not> de_volatile_capable decoder then Some (- EINVAL) else create_region_validate_qos_class decoder p
      | CXL_DECODER_MODE_PMEM \<Rightarrow>
          if \<not> de_pmem_capable decoder then Some (- EINVAL) else create_region_validate_qos_class decoder p
      | _ \<Rightarrow> Some (- EINVAL))"

definition set_type_from_decoder :: "region_params \<Rightarrow> cxl_decoder \<Rightarrow> parsed_params \<Rightarrow> parsed_params" where
  "set_type_from_decoder param decoder p =
     (if rp_type param \<noteq> None then p
      else let p = (if de_volatile_capable decoder then p\<lparr>pr_mode := CXL_DECODER_MODE_RAM\<rparr> else p)
           in if de_pmem_capable decoder then p\<lparr>pr_mode := CXL_DECODER_MODE_PMEM\<rparr> else p)"

fun minsize_loop :: "cxl_decoder_mode \<Rightarrow> nat \<Rightarrow> cxl_memdev list \<Rightarrow> u64 \<Rightarrow> u64 option" where
  "minsize_loop mode 0 memdevs ep_min = Some ep_min"
| "minsize_loop mode (Suc n) [] ep_min = None"
| "minsize_loop mode (Suc n) (m # ms) ep_min =
     (let sz = (case mode of CXL_DECODER_MODE_RAM \<Rightarrow> md_ram_size m | CXL_DECODER_MODE_PMEM \<Rightarrow> md_pmem_size m | _ \<Rightarrow> 0)
      in minsize_loop mode n ms (if ep_min = 0 then sz else min ep_min sz))"

definition collect_minsize :: "parsed_params \<Rightarrow> parsed_params option" where
  "collect_minsize p =
     map_option (\<lambda>m. p\<lparr>pr_ep_min_size := m\<rparr>) (minsize_loop (pr_mode p) (pr_ways p) (pr_memdevs p) (pr_ep_min_size p))"

definition create_region_validate_config ::
  "region_params \<Rightarrow> cxl_topology \<Rightarrow> parsed_params \<Rightarrow> (int + cxl_decoder \<times> parsed_params) option" where
  "create_region_validate_config param topo p =
     (case root_decoders param topo of
        [] \<Rightarrow> Some (Inl (- ENXIO))
      | decoder # _ \<Rightarrow>
          let p = set_type_from_decoder param decoder p in
          (case validate_decoder decoder p of
             None \<Rightarrow> None
           | Some rc \<Rightarrow>
               if rc \<noteq> 0 then Some (Inl rc)
               else (case collect_minsize p of None \<Rightarrow> None | Some p \<Rightarrow> Some (Inr (decoder, p)))))"

text \<open>The result is negative for an error.\<close>

definition cxl_region_determine_granularity :: "cxl_decoder \<Rightarrow> parsed_params \<Rightarrow> int" where
  "cxl_region_determine_granularity decoder p =
     (let granularity = de_interleave_granularity decoder; ways = de_interleave_ways decoder in
      if granularity = 0 \<or> granularity = - 1 then - ENXIO
      else if pr_granularity p = 0 then granularity
      else if ways = 0 \<or> ways = - 1 then - ENXIO
      else if ways = 1 then pr_granularity p
      else if pr_granularity p = granularity then granularity
      else - EINVAL)"

subsection \<open>Kernel requests\<close>

datatype region_req = Set_interleave_granularity int | Set_interleave_ways nat | Set_region_uuid uuid | Set_region_size u64
  | Set_target nat nat | Clear_target nat | Decode_commit | Decode_reset | Region_enable | Region_disable | Region_delete

datatype decoder_req = Set_dpa_size u64 | Set_decoder_mode cxl_decoder_mode

text \<open>\<open>ck_create\<close> creates a region of the given type, \<open>ck_ep_decoders\<close> lists the decoders of a memdev's endpoint port
  (\<open>None\<close> without an endpoint or port), \<open>ck_target\<close> is the endpoint decoder at a position of a region, \<open>ck_siblings\<close>
  the decoders of its port, \<open>ck_dax_devs\<close> the dax devices of a region (\<open>None\<close> without a dax region), each with
  whether it is capable of being system ram and its memory, if there is one.\<close>

record 'd cxl_kern =
  ck_create :: "cxl_decoder_mode \<Rightarrow> 'd \<Rightarrow> nat option \<times> 'd"
  ck_region :: "nat \<Rightarrow> region_req \<Rightarrow> 'd \<Rightarrow> int \<times> 'd"
  ck_decoder :: "nat \<Rightarrow> decoder_req \<Rightarrow> 'd \<Rightarrow> int \<times> 'd"
  ck_ep_decoders :: "cxl_memdev \<Rightarrow> 'd \<Rightarrow> nat list option"
  ck_dec_size :: "nat \<Rightarrow> 'd \<Rightarrow> u64"
  ck_dec_mode :: "nat \<Rightarrow> 'd \<Rightarrow> cxl_decoder_mode"
  ck_locked :: "nat \<Rightarrow> 'd \<Rightarrow> bool"
  ck_enabled :: "nat \<Rightarrow> 'd \<Rightarrow> bool"
  ck_ways :: "nat \<Rightarrow> 'd \<Rightarrow> u32"
  ck_target :: "nat \<Rightarrow> nat \<Rightarrow> 'd \<Rightarrow> nat option"
  ck_siblings :: "nat \<Rightarrow> nat list option"
  ck_dec_memdev :: "nat \<Rightarrow> nat option"
  ck_dec_id :: "nat \<Rightarrow> int"
  ck_dpa_size :: "nat \<Rightarrow> 'd \<Rightarrow> u64"
  ck_dax_devs :: "nat \<Rightarrow> 'd \<Rightarrow> (bool \<times> nat option) list option"
  ck_mem_is_online :: "nat \<Rightarrow> 'd \<Rightarrow> int"
  ck_mem_offline :: "nat \<Rightarrow> 'd \<Rightarrow> int \<times> 'd"
  ck_regions :: "cxl_decoder \<Rightarrow> 'd \<Rightarrow> (nat \<times> cxl_region) list"

text \<open>A command changes the state and returns a code; the next one runs if it was 0.\<close>

type_synonym 'd command = "'d \<Rightarrow> int \<times> 'd"

definition ok_cmd :: "'d command" where
  "ok_cmd d = (0, d)"

definition fail_cmd :: "int \<Rightarrow> 'd command" where
  "fail_cmd rc d = (rc, d)"

definition and_then :: "'d command \<Rightarrow> 'd command \<Rightarrow> 'd command" where
  "and_then f g d = (case f d of (rc, d) \<Rightarrow> if rc \<noteq> 0 then (rc, d) else g d)"

text \<open>The library refuses to delete a region that is enabled; \<open>Region_delete\<close> is the request to the kernel behind it.\<close>

definition cxl_region_delete :: "'d cxl_kern \<Rightarrow> nat \<Rightarrow> 'd command" where
  "cxl_region_delete k r d = (if ck_enabled k r d then (- EBUSY, d) else ck_region k r Region_delete d)"

subsection \<open>Creating a region\<close>

definition cxl_memdev_find_decoder :: "'d cxl_kern \<Rightarrow> cxl_memdev \<Rightarrow> 'd \<Rightarrow> nat option" where
  "cxl_memdev_find_decoder k memdev d =
     (case ck_ep_decoders k memdev d of None \<Rightarrow> None | Some decs \<Rightarrow> List.find (\<lambda>dec. ck_dec_size k dec d = 0) decs)"

definition set_target :: "'d cxl_kern \<Rightarrow> nat \<Rightarrow> cxl_decoder_mode \<Rightarrow> u64 \<Rightarrow> nat \<Rightarrow> cxl_memdev \<Rightarrow> 'd command" where
  "set_target k r mode dpa_size i memdev d =
     (case cxl_memdev_find_decoder k memdev d of
        None \<Rightarrow> (- ENXIO, d)
      | Some dec \<Rightarrow>
          and_then (if ck_dec_mode k dec d \<noteq> mode
                    then and_then (ck_decoder k dec (Set_dpa_size 0)) (ck_decoder k dec (Set_decoder_mode mode)) else ok_cmd)
            (and_then (ck_decoder k dec (Set_dpa_size dpa_size)) (ck_region k r (Set_target i dec))) d)"

fun set_targets :: "'d cxl_kern \<Rightarrow> nat \<Rightarrow> cxl_decoder_mode \<Rightarrow> u64 \<Rightarrow> nat \<Rightarrow> cxl_memdev list \<Rightarrow> 'd command" where
  "set_targets k r mode dpa_size i [] = ok_cmd"
| "set_targets k r mode dpa_size i (m # ms) = and_then (set_target k r mode dpa_size i m) (set_targets k r mode dpa_size (Suc i) ms)"

definition configure_region ::
  "ns_sys \<Rightarrow> 'd cxl_kern \<Rightarrow> region_params \<Rightarrow> cxl_decoder \<Rightarrow> parsed_params \<Rightarrow> u64 \<Rightarrow> nat \<Rightarrow> 'd command" where
  "configure_region sys k param decoder p sz r =
     (let granularity = cxl_region_determine_granularity decoder p in
      if granularity < 0 then fail_cmd granularity
      else and_then (ck_region k r (Set_interleave_granularity granularity))
          (and_then (ck_region k r (Set_interleave_ways (pr_ways p)))
          (and_then (if pr_mode p = CXL_DECODER_MODE_PMEM
                     then ck_region k r (Set_region_uuid (if rp_uuid param = None then sys_uuid_generate sys else pr_uuid p))
                     else ok_cmd)
          (and_then (ck_region k r (Set_region_size sz))
          (and_then (set_targets k r (pr_mode p) (sz div of_nat (pr_ways p)) 0 (take (pr_ways p) (pr_memdevs p)))
          (and_then (ck_region k r Decode_commit) (ck_region k r Region_enable)))))))"

text \<open>The size of the region: \<open>Some (Inl rc)\<close> is an error.  The default size is cut to the available extent; \<open>SZ_256M * ways\<close>
  overflows an \<open>int\<close> from 8 ways on.\<close>

definition clamp_size :: "u64 \<Rightarrow> nat \<Rightarrow> u64 option" where
  "clamp_size max_extent ways =
     (if 8 \<le> ways then None else Some (ALIGN_DOWN max_extent (0x10000000 * of_nat ways)))"

definition create_region_size :: "cxl_decoder \<Rightarrow> parsed_params \<Rightarrow> (int + u64) option" where
  "create_region_size decoder p =
     (let max_extent = de_max_available_extent decoder in
      if pr_size p = 0 \<and> pr_ep_min_size p = 0 then Some (Inl (- ENXIO))
      else let sz = (if pr_size p \<noteq> 0 then pr_size p else pr_ep_min_size p * of_nat (pr_ways p)) in
        if max_extent = ULLONG_MAX then Some (Inl (- EINVAL))
        else if pr_size p \<noteq> 0 \<and> sz > max_extent then Some (Inl (- ENOSPC))
        else if sz > max_extent then map_option Inr (clamp_size max_extent (pr_ways p))
        else Some (Inr sz))"

text \<open>The result code, the number of created regions and the state.\<close>

definition create_region ::
  "ns_sys \<Rightarrow> 'd cxl_kern \<Rightarrow> region_params \<Rightarrow> cxl_topology \<Rightarrow> parsed_params \<Rightarrow> 'd \<Rightarrow> (int \<times> nat \<times> 'd) option" where
  "create_region sys k param topo p d =
     (case create_region_validate_config param topo p of
        None \<Rightarrow> None
      | Some (Inl rc) \<Rightarrow> Some (rc, 0, d)
      | Some (Inr (decoder, p)) \<Rightarrow>
          (case create_region_size decoder p of
             None \<Rightarrow> None
           | Some (Inl rc) \<Rightarrow> Some (rc, 0, d)
           | Some (Inr sz) \<Rightarrow>
               if pr_mode p \<noteq> CXL_DECODER_MODE_PMEM \<and> pr_mode p \<noteq> CXL_DECODER_MODE_RAM then Some (- EOPNOTSUPP, 0, d)
               else (case ck_create k (pr_mode p) d of
                       (None, d) \<Rightarrow> Some (- ENXIO, 0, d)
                     | (Some r, d) \<Rightarrow>
                         (case configure_region sys k param decoder p sz r d of (rc, d) \<Rightarrow>
                            if rc \<noteq> 0 then Some (rc, 0, snd (cxl_region_delete k r d))
                            else Some (0, 1, d)))))"

subsection \<open>Disabling and destroying\<close>

fun offline_loop :: "'d cxl_kern \<Rightarrow> bool \<Rightarrow> (bool \<times> nat option) list \<Rightarrow> 'd command" where
  "offline_loop k force [] d = (0, d)"
| "offline_loop k force ((ram, mem) # devs) d =
     (if \<not> ram then offline_loop k force devs d
      else case mem of
        None \<Rightarrow> (- ENXIO, d)
      | Some mem \<Rightarrow>
          if ck_mem_is_online k mem d \<noteq> 0 then
            (case ck_mem_offline k mem d of (rc, d) \<Rightarrow>
               if rc < 0 \<and> \<not> force then (rc, d) else offline_loop k force devs d)
          else offline_loop k force devs d)"

definition disable_region :: "'d cxl_kern \<Rightarrow> region_params \<Rightarrow> nat \<Rightarrow> 'd command" where
  "disable_region k param r d =
     (case ck_dax_devs k r d of
        None \<Rightarrow> ck_region k r Region_disable d
      | Some devs \<Rightarrow> and_then (offline_loop k (rp_force param) devs) (ck_region k r Region_disable) d)"

text \<open>Is a decoder of the same memdev with a higher number than \<open>dec\<close> in use?\<close>

definition later_active :: "'d cxl_kern \<Rightarrow> nat \<Rightarrow> nat \<Rightarrow> nat \<Rightarrow> 'd \<Rightarrow> bool" where
  "later_active k dec memdev other d \<longleftrightarrow>
     other \<noteq> dec \<and> ck_dec_memdev k other = Some memdev \<and> ck_dec_id k other > ck_dec_id k dec \<and> ck_dpa_size k other d \<noteq> 0"

fun order_loop :: "'d cxl_kern \<Rightarrow> nat \<Rightarrow> nat list \<Rightarrow> 'd \<Rightarrow> int" where
  "order_loop k r [] d = 0"
| "order_loop k r (i # is) d =
     (case ck_target k r i d of
        None \<Rightarrow> - ENXIO
      | Some dec \<Rightarrow>
          (case ck_siblings k dec of
             None \<Rightarrow> - ENXIO
           | Some decs \<Rightarrow>
               (case ck_dec_memdev k dec of
                  None \<Rightarrow> - ENXIO
                | Some memdev \<Rightarrow>
                    if list_ex (\<lambda>other. later_active k dec memdev other d) decs then - EBUSY else order_loop k r is d)))"

definition bad_ways :: "u32 \<Rightarrow> bool" where
  "bad_ways ways \<longleftrightarrow> ways = 0 \<or> ways = 0xFFFFFFFF"

definition region_destroy_validate_order :: "'d cxl_kern \<Rightarrow> nat \<Rightarrow> 'd \<Rightarrow> int" where
  "region_destroy_validate_order k r d =
     (if bad_ways (ck_ways k r d) then - ENXIO else order_loop k r [0..<unat (ck_ways k r d)] d)"

fun clear_targets :: "'d cxl_kern \<Rightarrow> nat \<Rightarrow> nat list \<Rightarrow> 'd command" where
  "clear_targets k r [] d = (0, d)"
| "clear_targets k r (i # is) d =
     (case ck_target k r i d of
        None \<Rightarrow> (- ENXIO, d)
      | Some dec \<Rightarrow>
          and_then (and_then (ck_region k r (Clear_target i)) (ck_decoder k dec (Set_dpa_size 0))) (clear_targets k r is) d)"

definition reset_targets :: "'d cxl_kern \<Rightarrow> nat \<Rightarrow> 'd command" where
  "reset_targets k r d =
     (if bad_ways (ck_ways k r d) then (- ENXIO, d) else clear_targets k r [0..<unat (ck_ways k r d)] d)"

definition destroy_region :: "'d cxl_kern \<Rightarrow> region_params \<Rightarrow> nat \<Rightarrow> 'd command" where
  "destroy_region k param r d =
     (if ck_locked k r d then (- EPERM, d)
      else let rc = region_destroy_validate_order k r d in
        if rc \<noteq> 0 then (rc, d)
        else if ck_enabled k r d \<and> \<not> rp_force param then (- EBUSY, d)
        else and_then (if ck_enabled k r d then disable_region k param r else ok_cmd)
            (and_then (ck_region k r Decode_reset) (and_then (reset_targets k r) (cxl_region_delete k r))) d)"

subsection \<open>Actions on selected regions\<close>

datatype region_actions = REGION_CREATE | REGION_ENABLE | REGION_DISABLE | REGION_DESTROY

definition do_region_xable :: "'d cxl_kern \<Rightarrow> region_params \<Rightarrow> region_actions \<Rightarrow> nat \<Rightarrow> 'd command" where
  "do_region_xable k param action r =
     (case action of
        REGION_ENABLE \<Rightarrow> ck_region k r Region_enable
      | REGION_DISABLE \<Rightarrow> disable_region k param r
      | REGION_DESTROY \<Rightarrow> destroy_region k param r
      | REGION_CREATE \<Rightarrow> fail_cmd (- EINVAL))"

text \<open>The loop carries \<open>rc\<close>, \<open>err_rc\<close> and the count.\<close>

fun xable_loop ::
  "'d cxl_kern \<Rightarrow> region_params \<Rightarrow> region_actions \<Rightarrow> string list \<Rightarrow> (nat \<times> cxl_region) list \<Rightarrow> int \<times> int \<times> nat \<times> 'd \<Rightarrow> int \<times> int \<times> nat \<times> 'd" where
  "xable_loop k param action argv [] st = st"
| "xable_loop k param action argv ((r, region) # rest) (rc, err_rc, count, d) =
     (if \<not> list_ex (\<lambda>a. util_cxl_region_filter region (Some a)) argv
      then xable_loop k param action argv rest (rc, err_rc, count, d)
      else case do_region_xable k param action r d of (rc, d) \<Rightarrow>
        xable_loop k param action argv rest (rc, if rc = 0 then err_rc else rc, if rc = 0 then count + 1 else count, d))"

definition decoder_region_action ::
  "'d cxl_kern \<Rightarrow> region_params \<Rightarrow> region_actions \<Rightarrow> string list \<Rightarrow> cxl_decoder \<Rightarrow> nat \<Rightarrow> 'd \<Rightarrow> int \<times> nat \<times> 'd" where
  "decoder_region_action k param action argv decoder count d =
     (case xable_loop k param action argv (ck_regions k decoder d) (0, 0, count, d) of
        (rc, err_rc, count, d) \<Rightarrow> (if err_rc \<noteq> 0 then err_rc else rc, count, d))"

fun decoders_loop ::
  "'d cxl_kern \<Rightarrow> region_params \<Rightarrow> region_actions \<Rightarrow> string list \<Rightarrow> cxl_decoder list \<Rightarrow> int \<times> int \<times> nat \<times> 'd \<Rightarrow> int \<times> int \<times> nat \<times> 'd" where
  "decoders_loop k param action argv [] st = st"
| "decoders_loop k param action argv (decoder # rest) (rc, err_rc, count, d) =
     (case decoder_region_action k param action argv decoder count d of (rc, count, d) \<Rightarrow>
        decoders_loop k param action argv rest (rc, if rc \<noteq> 0 then rc else err_rc, count, d))"

text \<open>\<open>region_action\<close> after the generic option parser; \<open>argv\<close> are the arguments it leaves.\<close>

definition region_action ::
  "ns_sys \<Rightarrow> (string option \<Rightarrow> string option \<Rightarrow> cxl_memdev list option) \<Rightarrow> 'd cxl_kern \<Rightarrow> region_params \<Rightarrow> cxl_topology \<Rightarrow>
    region_actions \<Rightarrow> string list \<Rightarrow> 'd \<Rightarrow> (int \<times> nat \<times> 'd) option" where
  "region_action sys walk k param topo action argv d =
     (if action = REGION_CREATE
      then (case parse_create_options sys walk param argv of
              Inl rc \<Rightarrow> Some (rc, 0, d)
            | Inr p \<Rightarrow> create_region sys k param topo p d)
      else case decoders_loop k param action argv (root_decoders param topo) (0, 0, 0, d) of
        (rc, err_rc, count, d) \<Rightarrow> Some (if err_rc \<noteq> 0 then err_rc else rc, count, d))"

subsection \<open>Parameters that are accepted\<close>

lemma parse_ways_D:
  assumes "parse_ways param num count = Some ways" and "0 < num"
  shows "0 < ways" and "ways \<le> num" and "count \<noteq> 0 \<Longrightarrow> ways = num"
  using assms by (auto simp: parse_ways_def validate_ways_def split: if_splits)

lemma collect_memdevs_ne: "collect_memdevs walk decoder mems = (Some memdevs, count) \<Longrightarrow> memdevs \<noteq> []"
  by (auto simp: collect_memdevs_def split: prod.splits option.splits if_splits)
    (metis length_0_conv length_sort)

lemma if_error_iff: "(if c then Inl e else x) = Inr p \<longleftrightarrow> \<not> c \<and> x = Inr p"
  by simp

lemma parse_create_D:
  assumes "parse_create_options sys walk param mems = Inr p"
  shows "0 < pr_ways p" and "pr_ways p \<le> length (pr_memdevs p)" and "pr_size p mod of_nat (pr_ways p) = 0"
    and "pr_mode p = CXL_DECODER_MODE_PMEM \<or> pr_mode p = CXL_DECODER_MODE_RAM" and "0 \<le> pr_granularity p"
    and "pr_size p = parse_size64 (rp_size param)" and "pr_ep_min_size p = 0"
proof -
  obtain memdevs count where c: "collect_memdevs walk (rp_root_decoder param) mems = (Some memdevs, count)"
    using assms by (auto simp: parse_create_options_def split: if_splits prod.splits option.splits)
  define mode where "mode = (case rp_type param of None \<Rightarrow> CXL_DECODER_MODE_PMEM | Some t \<Rightarrow> cxl_decoder_mode_from_ident t)"
  define uopt where "uopt = (case rp_uuid param of None \<Rightarrow> Some (replicate 16 0) | Some u \<Rightarrow> sys_uuid_parse sys u)"
  note r = assms [unfolded parse_create_options_def c prod.case option.case Let_def, folded mode_def uopt_def]
  note conds = r [unfolded if_error_iff]
  obtain ways where w: "parse_ways param (length memdevs) count = Some ways"
    using conds by (cases "parse_ways param (length memdevs) count") simp_all
  note conds = conds [unfolded w option.case if_error_iff]
  obtain uu where u: "uopt = Some uu" using conds by (cases uopt) simp_all
  note conds = conds [unfolded u option.case if_error_iff sum.inject]
  have ne: "0 < length memdevs" using collect_memdevs_ne [OF c] by simp
  note w' = parse_ways_D [OF w ne]
  have g: "\<not> (rp_granularity param < INT_MAX \<and> rp_granularity param \<le> 0)"
      "\<not> (parse_size64 (rp_size param) \<noteq> 0 \<and> ways \<noteq> 0 \<and> parse_size64 (rp_size param) mod of_nat ways \<noteq> 0)"
      "\<not> (rp_type param \<noteq> None \<and> mode = CXL_DECODER_MODE_NONE)"
    by (insert conds, elim conjE, assumption)+
  have eq: "\<lparr>pr_size = parse_size64 (rp_size param), pr_ep_min_size = 0, pr_ways = ways,
      pr_granularity = (if rp_granularity param < INT_MAX then rp_granularity param else 0), pr_uuid = uu,
      pr_memdevs = memdevs, pr_mode = mode, pr_enforce_qos = rp_enforce_qos param\<rparr> = p"
    by (insert conds, elim conjE, assumption)
  have p: "pr_ways p = ways" "pr_memdevs p = memdevs" "pr_size p = parse_size64 (rp_size param)" "pr_mode p = mode"
    "pr_granularity p = (if rp_granularity param < INT_MAX then rp_granularity param else 0)" "pr_ep_min_size p = 0"
    by (simp_all add: eq [symmetric])
  show "0 < pr_ways p" "pr_ways p \<le> length (pr_memdevs p)" "0 \<le> pr_granularity p" "pr_size p = parse_size64 (rp_size param)"
    "pr_ep_min_size p = 0" "pr_size p mod of_nat (pr_ways p) = 0"
    using p g w' by (auto split: if_splits)
  show "pr_mode p = CXL_DECODER_MODE_PMEM \<or> pr_mode p = CXL_DECODER_MODE_RAM"
    using p(4) g(3) by (auto simp: mode_def cxl_decoder_mode_from_ident_def split: option.splits if_splits)
qed

lemma qos_loop_defined: "n \<le> length ms \<Longrightarrow> qos_loop mode q n ms \<noteq> None"
  by (induction mode q n ms rule: qos_loop.induct) (auto simp: Let_def)

lemma minsize_loop_defined: "n \<le> length ms \<Longrightarrow> minsize_loop mode n ms x \<noteq> None"
  by (induction mode n ms x rule: minsize_loop.induct) (auto simp: Let_def)

lemma set_type_same [simp]:
  "pr_ways (set_type_from_decoder param decoder p) = pr_ways p" "pr_memdevs (set_type_from_decoder param decoder p) = pr_memdevs p"
  "pr_size (set_type_from_decoder param decoder p) = pr_size p" "pr_ep_min_size (set_type_from_decoder param decoder p) = pr_ep_min_size p"
  "pr_granularity (set_type_from_decoder param decoder p) = pr_granularity p"
  by (simp_all add: set_type_from_decoder_def Let_def)

lemma validate_config_defined:
  assumes "pr_ways p \<le> length (pr_memdevs p)"
  shows "create_region_validate_config param topo p \<noteq> None"
proof -
  have "validate_decoder decoder (set_type_from_decoder param decoder p) \<noteq> None" for decoder
    using qos_loop_defined assms
    by (auto simp: validate_decoder_def create_region_validate_qos_class_def split: cxl_decoder_mode.splits)
  moreover have "collect_minsize (set_type_from_decoder param decoder p) \<noteq> None" for decoder
    using minsize_loop_defined assms by (auto simp: collect_minsize_def)
  ultimately show ?thesis
  proof (cases "root_decoders param topo")
    case (Cons decoder ds)
    obtain v q where "validate_decoder decoder (set_type_from_decoder param decoder p) = Some v"
      "collect_minsize (set_type_from_decoder param decoder p) = Some q"
      using \<open>\<And>decoder. validate_decoder decoder (set_type_from_decoder param decoder p) \<noteq> None\<close>
        \<open>\<And>decoder. collect_minsize (set_type_from_decoder param decoder p) \<noteq> None\<close> by blast
    then show ?thesis by (simp add: create_region_validate_config_def Let_def Cons)
  qed (simp add: create_region_validate_config_def)
qed

lemma validate_config_D:
  assumes "create_region_validate_config param topo p = Some (Inr (decoder, p'))"
  shows "decoder \<in> set (root_decoders param topo)"
    and "\<exists>mode m. p' = p\<lparr>pr_mode := mode, pr_ep_min_size := m\<rparr> \<and>
      minsize_loop mode (pr_ways p) (pr_memdevs p) (pr_ep_min_size p) = Some m"
    and "validate_decoder decoder p' = Some 0"
proof -
  let ?p = "set_type_from_decoder param decoder p"
  obtain ds where ds: "root_decoders param topo = decoder # ds" and v: "validate_decoder decoder ?p = Some 0"
    and m: "collect_minsize ?p = Some p'"
    using assms by (auto simp: create_region_validate_config_def Let_def split: list.splits option.splits if_splits)
  show "decoder \<in> set (root_decoders param topo)" by (simp add: ds)
  obtain m' where loop: "minsize_loop (pr_mode ?p) (pr_ways p) (pr_memdevs p) (pr_ep_min_size p) = Some m'"
    and p': "p' = ?p\<lparr>pr_ep_min_size := m'\<rparr>"
    using m by (auto simp: collect_minsize_def)
  have "?p = p\<lparr>pr_mode := pr_mode ?p\<rparr>" by (simp add: set_type_from_decoder_def Let_def)
  then show "\<exists>mode m. p' = p\<lparr>pr_mode := mode, pr_ep_min_size := m\<rparr> \<and>
      minsize_loop mode (pr_ways p) (pr_memdevs p) (pr_ep_min_size p) = Some m"
    using loop p' by (metis parsed_params.update_convs)
  have "create_region_validate_qos_class decoder (q\<lparr>pr_ep_min_size := m'\<rparr>) = create_region_validate_qos_class decoder q" for q
    by (simp add: create_region_validate_qos_class_def)
  then have "validate_decoder decoder (q\<lparr>pr_ep_min_size := m'\<rparr>) = validate_decoder decoder q" for q
    by (cases "pr_mode q") (simp_all add: validate_decoder_def)
  then show "validate_decoder decoder p' = Some 0" using v by (simp only: p')
qed

text \<open>C33: the options \<open>create-region\<close> accepts lead to no invalid access: the number of ways is positive and at most the
  number of memdevs, a given size is a multiple of it, the type is pmem or ram; and creation then runs to a result, unless
  the default size has to be cut for 8 or more ways (where an \<open>int\<close> overflows).\<close>

theorem create_region_defined:
  assumes "parse_create_options sys walk param mems = Inr p"
  shows "0 < pr_ways p \<and> pr_ways p \<le> length (pr_memdevs p) \<and> pr_size p mod of_nat (pr_ways p) = 0 \<and>
    (pr_mode p = CXL_DECODER_MODE_PMEM \<or> pr_mode p = CXL_DECODER_MODE_RAM) \<and> 0 \<le> pr_granularity p \<and>
    (pr_size p \<noteq> 0 \<or> pr_ways p < 8 \<longrightarrow> (\<exists>r. create_region sys k param topo p d = Some r))"
proof -
  note D = parse_create_D [OF assms]
  have "\<exists>r. create_region sys k param topo p d = Some r" if "pr_size p \<noteq> 0 \<or> pr_ways p < 8"
  proof (cases "create_region_validate_config param topo p")
    case None
    then show ?thesis using validate_config_defined [OF D(2)] by blast
  next
    case (Some r)
    show ?thesis
    proof (cases r)
      case (Inl rc)
      then show ?thesis using Some by (simp add: create_region_def)
    next
      case (Inr dp)
      obtain decoder p' where dp: "dp = (decoder, p')" by (cases dp)
      have "pr_size p' = pr_size p" "pr_ways p' = pr_ways p"
        using validate_config_D(2) [OF Some [unfolded Inr dp]] by auto
      then have "create_region_size decoder p' \<noteq> None"
        using that by (auto simp: create_region_size_def clamp_size_def Let_def)
      then show ?thesis
        using Some Inr dp by (auto simp: create_region_def split: option.splits sum.splits prod.splits)
    qed
  qed
  then show ?thesis using D by blast
qed

subsection \<open>Failed creation leaves no region behind\<close>

text \<open>The regions that exist: creating adds a new one, a deletion that succeeds removes it, nothing else changes them.\<close>

definition region_store :: "'d cxl_kern \<Rightarrow> ('d \<Rightarrow> nat set) \<Rightarrow> bool" where
  "region_store k live \<longleftrightarrow>
     (\<forall>mode d. case ck_create k mode d of
        (None, d') \<Rightarrow> live d' = live d
      | (Some r, d') \<Rightarrow> r \<notin> live d \<and> live d' = insert r (live d)) \<and>
     (\<forall>r req d. live (snd (ck_region k r req d)) = (if req = Region_delete \<and> fst (ck_region k r req d) = 0 then live d - {r} else live d)) \<and>
     (\<forall>dec req d. live (snd (ck_decoder k dec req d)) = live d) \<and>
     (\<forall>mem d. live (snd (ck_mem_offline k mem d)) = live d)"

lemma store_create:
  assumes "region_store k live"
  shows "case ck_create k mode d of (None, d') \<Rightarrow> live d' = live d
    | (Some r, d') \<Rightarrow> r \<notin> live d \<and> live d' = insert r (live d)"
  by (rule assms [unfolded region_store_def, THEN conjunct1, THEN spec, THEN spec])

text \<open>Commands that leave the regions alone.\<close>

definition stable :: "('d \<Rightarrow> nat set) \<Rightarrow> 'd command \<Rightarrow> bool" where
  "stable live f \<longleftrightarrow> (\<forall>d. live (snd (f d)) = live d)"

named_theorems stable_intros \<open>commands that keep the set of regions\<close>

lemma stable_ok [stable_intros]: "stable live ok_cmd"
  by (simp add: stable_def ok_cmd_def)

lemma stable_fail [stable_intros]: "stable live (fail_cmd rc)"
  by (simp add: stable_def fail_cmd_def)

lemma stable_and_then [stable_intros]: "stable live f \<Longrightarrow> stable live g \<Longrightarrow> stable live (and_then f g)"
  unfolding stable_def and_then_def by (auto split: prod.split) (metis snd_conv)+

lemma stable_if [stable_intros]: "stable live f \<Longrightarrow> stable live g \<Longrightarrow> stable live (if c then f else g)"
  by simp

lemma stable_region [stable_intros]: "region_store k live \<Longrightarrow> req \<noteq> Region_delete \<Longrightarrow> stable live (ck_region k r req)"
  by (simp add: region_store_def stable_def)

lemma stable_decoder [stable_intros]: "region_store k live \<Longrightarrow> stable live (ck_decoder k dec req)"
  by (simp add: region_store_def stable_def)

lemma stableD: "stable live f \<Longrightarrow> f d = (rc, d') \<Longrightarrow> live d' = live d"
  unfolding stable_def by (metis snd_conv)

lemma stable_set_target [stable_intros]:
  assumes "region_store k live"
  shows "stable live (set_target k r mode sz i m)"
  unfolding stable_def
proof
  fix d
  show "live (snd (set_target k r mode sz i m d)) = live d"
  proof (cases "cxl_memdev_find_decoder k m d")
    case None
    then show ?thesis by (simp add: set_target_def)
  next
    case (Some dec)
    have "stable live (and_then (if ck_dec_mode k dec d \<noteq> mode
        then and_then (ck_decoder k dec (Set_dpa_size 0)) (ck_decoder k dec (Set_decoder_mode mode)) else ok_cmd)
        (and_then (ck_decoder k dec (Set_dpa_size sz)) (ck_region k r (Set_target i dec))))"
      by (intro stable_intros assms) simp
    then show ?thesis by (simp add: set_target_def Some stable_def)
  qed
qed

lemma stable_set_targets [stable_intros]: "region_store k live \<Longrightarrow> stable live (set_targets k r mode sz i ms)"
  by (induction k r mode sz i ms rule: set_targets.induct) (auto intro: stable_intros)

lemma stable_configure: "region_store k live \<Longrightarrow> stable live (configure_region sys k param decoder p sz r)"
  unfolding configure_region_def Let_def by (intro stable_intros; simp)

lemma store_delete:
  assumes "region_store k live" and "cxl_region_delete k r d = (rc, d')"
  shows "live d' = (if rc = 0 then live d - {r} else live d)"
proof (cases "ck_enabled k r d")
  case False
  then have "ck_region k r Region_delete d = (rc, d')" using assms(2) by (simp add: cxl_region_delete_def)
  moreover have "live (snd (ck_region k r Region_delete d)) =
      (if fst (ck_region k r Region_delete d) = 0 then live d - {r} else live d)"
    using assms(1) by (simp add: region_store_def)
  ultimately show ?thesis by simp
qed (use assms(2) in \<open>auto simp: cxl_region_delete_def\<close>)

text \<open>C13: \<open>create-region\<close> either creates exactly one region or none: whatever step of the configuration fails, the
  region that was created for it is deleted again.  One is left behind only if \<open>cxl_region_delete\<close>, whose result the code
  ignores, refuses that deletion.\<close>

theorem create_region_rolls_back:
  assumes "region_store k live" and "create_region sys k param topo p d = Some (rc, n, d')"
  shows "if rc = 0 then n = 1 \<and> (\<exists>r. r \<notin> live d \<and> live d' = insert r (live d)) else n = 0 \<and>
    (live d' = live d \<or>
     (\<exists>r e rc'. r \<notin> live d \<and> live d' = insert r (live d) \<and> cxl_region_delete k r e = (rc', d') \<and> rc' \<noteq> 0))"
proof -
  consider "rc \<noteq> 0" "n = 0" "d' = d"
    | mode where "ck_create k mode d = (None, d')" "rc \<noteq> 0" "n = 0"
    | mode r d1 decoder p' sz rc1 d2 where "ck_create k mode d = (Some r, d1)"
        "configure_region sys k param decoder p' sz r d1 = (rc1, d2)" "rc = rc1"
        "if rc1 = 0 then n = 1 \<and> d' = d2 else n = 0 \<and> d' = snd (cxl_region_delete k r d2)"
    using assms(2)
    by (auto simp: create_region_def create_region_validate_config_def create_region_size_def Let_def
        split: option.splits sum.splits prod.splits if_splits list.splits)
  then show ?thesis
  proof cases
    case (2 mode)
    show ?thesis using store_create [OF assms(1), where mode = mode and d = d] 2 by simp
  next
    case (3 mode r d1 decoder p' sz rc1 d2)
    have "r \<notin> live d" "live d1 = insert r (live d)" using store_create [OF assms(1), where mode = mode and d = d] by (simp_all add: 3(1))
    moreover have "live d2 = live d1" by (rule stableD [OF stable_configure [OF assms(1)] 3(2)])
    moreover obtain rc3 d3 where del: "cxl_region_delete k r d2 = (rc3, d3)" by fastforce
    moreover note store_delete [OF assms(1) del]
    ultimately show ?thesis using 3(3,4) by (cases "rc1 = 0"; cases "rc3 = 0") (auto, blast)
  qed simp
qed

text \<open>A kernel whose state is the list of its regions, an enabled one twice.  \<open>c\<close> is the result of committing the decoders.\<close>

definition demo_ck :: "int \<Rightarrow> nat list cxl_kern" where
  "demo_ck c = \<lparr>ck_create = (\<lambda>mode d. (Some (Suc (sum_list d)), Suc (sum_list d) # d)),
     ck_region = (\<lambda>r req d. case req of Region_delete \<Rightarrow> (0, removeAll r d) | Region_enable \<Rightarrow> (0, if r \<in> set d then r # d else d)
       | Region_disable \<Rightarrow> (0, if r \<in> set d then r # removeAll r d else d) | Decode_commit \<Rightarrow> (c, d) | _ \<Rightarrow> (0, d)),
     ck_decoder = (\<lambda>dec req d. (0, d)), ck_ep_decoders = (\<lambda>m d. Some [nat (md_id m)]), ck_dec_size = (\<lambda>dec d. 0),
     ck_dec_mode = (\<lambda>dec d. CXL_DECODER_MODE_NONE), ck_locked = (\<lambda>r d. False), ck_enabled = (\<lambda>r d. 1 < count_list d r), ck_ways = (\<lambda>r d. 1),
     ck_target = (\<lambda>r i d. Some i), ck_siblings = (\<lambda>dec. Some [0, 1]), ck_dec_memdev = (\<lambda>dec. Some 0), ck_dec_id = int,
     ck_dpa_size = (\<lambda>dec d. if dec = 1 \<and> 7 \<in> set d then 1 else 0), ck_dax_devs = (\<lambda>r d. Some [(True, Some 3)]),
     ck_mem_is_online = (\<lambda>m d. 1), ck_mem_offline = (\<lambda>m d. (0, d)), ck_regions = (\<lambda>dec d. [])\<rparr>"

lemma demo_ck_store: "region_store (demo_ck c) set"
proof -
  have "Suc (sum_list d) \<notin> set d" for d :: "nat list"
    using member_le_sum_list [of "Suc (sum_list d)" d] by auto
  then show ?thesis by (auto simp: region_store_def demo_ck_def split: region_req.split)
qed

definition demo_cxl_port :: cxl_port where
  "demo_cxl_port = \<lparr>po_id = 0, po_devname = ''root0'', po_host = ''root0'', po_is_root = True, po_is_switch = False,
     po_is_endpoint = False\<rparr>"

definition demo_cxl_decoder :: cxl_decoder where
  "demo_cxl_decoder = \<lparr>de_port = demo_cxl_port, de_id = 0, de_devname = ''decoder0.0'', de_volatile_capable = False,
     de_pmem_capable = True, de_qos_class = - 1, de_max_available_extent = 0x200000000, de_interleave_granularity = 256,
     de_interleave_ways = 1\<rparr>"

definition demo_topology :: cxl_topology where
  "demo_topology = [(\<lparr>cb_id = 0, cb_devname = ''root0'', cb_provider = ''ACPI.CXL''\<rparr>, demo_cxl_port, [demo_cxl_decoder])]"

definition demo_rp :: region_params where
  "demo_rp = \<lparr>rp_bus = None, rp_size = None, rp_type = None, rp_uuid = None, rp_root_decoder = Some ''decoder0.0'',
     rp_ways = INT_MAX, rp_granularity = INT_MAX, rp_memdevs = True, rp_force = False, rp_enforce_qos = False\<rparr>"

definition demo_pp :: parsed_params where
  "demo_pp = \<lparr>pr_size = 0, pr_ep_min_size = 0, pr_ways = 1, pr_granularity = 0, pr_uuid = replicate 16 0,
     pr_memdevs = [demo_memdev 0], pr_mode = CXL_DECODER_MODE_PMEM, pr_enforce_qos = False\<rparr>"

lemma demo_root_decoders: "root_decoders demo_rp demo_topology = [demo_cxl_decoder]"
proof -
  have "strtoks (which_sep ''decoder0.0'') ''decoder0.0'' = [''decoder0.0'']"
    by (simp add: which_sep_def strtoks_single token_ok_def)
  then show ?thesis
    by (simp add: root_decoders_def demo_topology_def util_cxl_bus_filter_def some_token_def demo_rp_def
        demo_cxl_port_def util_cxl_decoder_filter_def Let_def) (simp add: demo_cxl_decoder_def)
qed

lemma demo_parse: "parse_create_options demo_sys (\<lambda>dec csv. Some [demo_memdev 0]) demo_rp [] = Inr demo_pp"
  by (simp add: parse_create_options_def demo_rp_def collect_memdevs_def to_csv_def Let_def parse_ways_def INT_MAX_def
      demo_pp_def parse_size64_def)

lemma demo_region_create:
  "create_region demo_sys (demo_ck c) demo_rp demo_topology demo_pp [3] =
     Some (if c = 0 then (0, 1, [4, 4, 3]) else (c, 0, [3]))"
  by (simp add: create_region_def create_region_validate_config_def demo_root_decoders)
    (simp add: demo_cxl_decoder_def set_type_from_decoder_def demo_rp_def demo_pp_def validate_decoder_def
      create_region_validate_qos_class_def collect_minsize_def Let_def demo_memdev_def create_region_size_def
      configure_region_def cxl_region_determine_granularity_def demo_ck_def and_then_def set_target_def
      cxl_memdev_find_decoder_def cxl_region_delete_def ok_cmd_def)

theorem create_region_defined_witness:
  "0 < pr_ways demo_pp \<and> (\<exists>r. create_region demo_sys (demo_ck 0) demo_rp demo_topology demo_pp [3] = Some r)"
  using create_region_defined [OF demo_parse, of "demo_ck 0" demo_topology "[3]"] by (simp add: demo_pp_def)

theorem create_region_rolls_back_witness:
  "create_region demo_sys (demo_ck (- EIO)) demo_rp demo_topology demo_pp [3] = Some (- EIO, 0, [3]) \<and>
   (\<exists>r. r \<notin> set [3] \<and> set [4, 4, 3] = insert r (set [3::nat]))"
proof
  show "create_region demo_sys (demo_ck (- EIO)) demo_rp demo_topology demo_pp [3] = Some (- EIO, 0, [3])"
    by (subst demo_region_create) simp
  have "create_region demo_sys (demo_ck 0) demo_rp demo_topology demo_pp [3] = Some (0, 1, [4, 4, 3])"
    by (subst demo_region_create) simp
  from create_region_rolls_back [OF demo_ck_store this]
  have "1 = (1::nat) \<and> (\<exists>r. r \<notin> set [3] \<and> set [4, 4, 3] = insert r (set [3::nat]))" by (simp only: if_True refl)
  then show "\<exists>r. r \<notin> set [3] \<and> set [4, 4, 3] = insert r (set [3::nat])" by (rule conjunct2)
qed

subsection \<open>Destroying a region\<close>

text \<open>A region may go when it is unlocked, disabled or forced, and each of its endpoint decoders is the last one in use of
  its memdev: the others have to be released first.\<close>

definition may_destroy :: "'d cxl_kern \<Rightarrow> region_params \<Rightarrow> nat \<Rightarrow> 'd \<Rightarrow> bool" where
  "may_destroy k param r d \<longleftrightarrow> \<not> ck_locked k r d \<and> (ck_enabled k r d \<longrightarrow> rp_force param) \<and> \<not> bad_ways (ck_ways k r d) \<and>
     (\<forall>i < unat (ck_ways k r d). \<exists>dec decs memdev. ck_target k r i d = Some dec \<and> ck_siblings k dec = Some decs \<and>
        ck_dec_memdev k dec = Some memdev \<and>
        (\<forall>other \<in> set decs. other \<noteq> dec \<and> ck_dec_memdev k other = Some memdev \<and> ck_dpa_size k other d \<noteq> 0 \<longrightarrow>
           ck_dec_id k other \<le> ck_dec_id k dec))"

lemma order_loop_iff:
  "order_loop k r is d = 0 \<longleftrightarrow> (\<forall>i \<in> set is. \<exists>dec decs memdev. ck_target k r i d = Some dec \<and> ck_siblings k dec = Some decs \<and>
     ck_dec_memdev k dec = Some memdev \<and> (\<forall>other \<in> set decs. \<not> later_active k dec memdev other d))"
  by (induction "is") (auto simp: list_ex_iff split: option.split)

lemma may_destroy_iff:
  "may_destroy k param r d \<longleftrightarrow> \<not> ck_locked k r d \<and> (ck_enabled k r d \<longrightarrow> rp_force param) \<and> region_destroy_validate_order k r d = 0"
proof -
  have "(other \<noteq> dec \<and> ck_dec_memdev k other = Some memdev \<and> ck_dpa_size k other d \<noteq> 0 \<longrightarrow> ck_dec_id k other \<le> ck_dec_id k dec)
      \<longleftrightarrow> \<not> later_active k dec memdev other d" for other dec memdev
    by (auto simp: later_active_def)
  then show ?thesis
    by (simp add: may_destroy_def region_destroy_validate_order_def order_loop_iff Ball_def)
qed

lemma stable_offline [stable_intros]:
  assumes "region_store k live"
  shows "stable live (offline_loop k force devs)"
proof -
  have off: "live d' = live d" if "ck_mem_offline k mem d = (rc, d')" for mem d rc d'
    using assms that unfolding region_store_def by (metis snd_conv)
  have "live (snd (offline_loop k force devs d)) = live d" for d
  proof (induction devs arbitrary: d)
    case (Cons a devs)
    obtain ram mem where a: "a = (ram, mem)" by (cases a)
    show ?case
    proof (cases mem)
      case (Some m)
      obtain rc d' where "ck_mem_offline k m d = (rc, d')" by (cases "ck_mem_offline k m d")
      then show ?thesis using Cons [of d] Cons [of d'] off a Some by simp
    qed (simp add: a Cons)
  qed simp
  then show ?thesis by (simp add: stable_def)
qed

lemma stable_disable [stable_intros]:
  assumes "region_store k live"
  shows "stable live (disable_region k param r)"
proof -
  have "stable live (ck_region k r Region_disable)"
    "stable live (and_then (offline_loop k (rp_force param) devs) (ck_region k r Region_disable))" for devs
    by (intro stable_intros assms; simp)+
  then show ?thesis by (simp add: stable_def disable_region_def split: option.split)
qed

lemma stable_reset_targets [stable_intros]:
  assumes "region_store k live"
  shows "stable live (reset_targets k r)"
proof -
  have "stable live (clear_targets k r is)" for "is"
  proof (induction "is")
    case (Cons i "is")
    have "stable live (and_then (and_then (ck_region k r (Clear_target i)) (ck_decoder k dec (Set_dpa_size 0))) (clear_targets k r is))" for dec
      by (intro stable_intros assms Cons) simp
    then show ?case by (simp add: stable_def split: option.split)
  qed (simp add: stable_def)
  then show ?thesis by (simp add: stable_def reset_targets_def)
qed

lemma and_then_rc: "and_then f g d = (rc, d') \<Longrightarrow> (\<exists>d1. f d = (0, d1) \<and> g d1 = (rc, d')) \<or> (f d = (rc, d') \<and> rc \<noteq> 0)"
  by (auto simp: and_then_def split: prod.splits if_splits)

text \<open>C14: \<open>destroy-region\<close> refuses a locked region, an enabled one without \<open>--force\<close>, and one whose decoders are not the last
  in use of their memdevs, with an error and no change at all.  When it succeeds exactly this region is gone, and on any
  failure no other region is touched.\<close>

theorem destroy_region_guarded:
  assumes "region_store k live" and "destroy_region k param r d = (rc, d')"
  shows "(\<not> may_destroy k param r d \<longrightarrow> rc \<noteq> 0 \<and> d' = d) \<and> (rc = 0 \<longrightarrow> live d' = live d - {r}) \<and> live d - {r} \<subseteq> live d' \<and> live d' \<subseteq> live d"
proof (cases "may_destroy k param r d")
  case False
  then have "rc \<noteq> 0 \<and> d' = d"
    using assms(2) unfolding may_destroy_iff by (auto simp: destroy_region_def Let_def split: if_splits)
  then show ?thesis using False by auto
next
  case True
  let ?pre = "if ck_enabled k r d then disable_region k param r else ok_cmd"
  let ?reset = "and_then (ck_region k r Decode_reset) (and_then (reset_targets k r) (cxl_region_delete k r))"
  have run: "and_then (and_then ?pre (and_then (ck_region k r Decode_reset) (reset_targets k r))) (cxl_region_delete k r) d = (rc, d')"
  proof -
    have "and_then ?pre ?reset d = (rc, d')"
      using True assms(2) unfolding may_destroy_iff by (simp add: destroy_region_def Let_def split: if_splits)
    then show ?thesis by (auto simp: and_then_def split: prod.splits if_splits)
  qed
  have "stable live (and_then ?pre (and_then (ck_region k r Decode_reset) (reset_targets k r)))"
    by (intro stable_intros assms(1)) simp
  note pre = stableD [OF this]
  note del = store_delete [OF assms(1)]
  from and_then_rc [OF run] show ?thesis
  proof
    assume "\<exists>d1. and_then ?pre (and_then (ck_region k r Decode_reset) (reset_targets k r)) d = (0, d1) \<and>
      cxl_region_delete k r d1 = (rc, d')"
    then have "live d' = (if rc = 0 then live d - {r} else live d)" using pre del by metis
    then show ?thesis using True by auto
  next
    assume "and_then ?pre (and_then (ck_region k r Decode_reset) (reset_targets k r)) d = (rc, d') \<and> rc \<noteq> 0"
    then show ?thesis using pre True by auto
  qed
qed

lemma demo_may_destroy:
  "may_destroy (demo_ck 0) (demo_rp\<lparr>rp_force := f\<rparr>) r d \<longleftrightarrow> (1 < count_list d r \<longrightarrow> f) \<and> 7 \<notin> set d"
  by (simp add: may_destroy_def demo_ck_def demo_rp_def bad_ways_def)

theorem destroy_region_guarded_witness:
  "fst (destroy_region (demo_ck 0) demo_rp 4 [4, 4, 3]) \<noteq> 0 \<and> snd (destroy_region (demo_ck 0) demo_rp 4 [4, 4, 3]) = [4, 4, 3] \<and>
   (\<exists>d'. destroy_region (demo_ck 0) (demo_rp\<lparr>rp_force := True\<rparr>) 4 [4, 4, 3] = (0, d') \<and> set d' = {3})"
proof (intro conjI)
  have "\<not> may_destroy (demo_ck 0) demo_rp 4 [4, 4, 3]"
    using demo_may_destroy [of False 4 "[4, 4, 3]"] by (simp add: demo_rp_def)
  then show "fst (destroy_region (demo_ck 0) demo_rp 4 [4, 4, 3]) \<noteq> 0" "snd (destroy_region (demo_ck 0) demo_rp 4 [4, 4, 3]) = [4, 4, 3]"
    using destroy_region_guarded [OF demo_ck_store prod.collapse [symmetric]] by blast+
next
  have "fst (destroy_region (demo_ck 0) (demo_rp\<lparr>rp_force := True\<rparr>) 4 [4, 4, 3]) = 0"
    by (simp add: destroy_region_def demo_ck_def demo_rp_def Let_def region_destroy_validate_order_def bad_ways_def
        later_active_def disable_region_def and_then_def reset_targets_def cxl_region_delete_def)
  then obtain d' where d': "destroy_region (demo_ck 0) (demo_rp\<lparr>rp_force := True\<rparr>) 4 [4, 4, 3] = (0, d')"
    by (metis prod.collapse)
  then have "set d' = set [4, 4, 3] - {4}" using destroy_region_guarded [OF demo_ck_store d'] by blast
  then show "\<exists>d'. destroy_region (demo_ck 0) (demo_rp\<lparr>rp_force := True\<rparr>) 4 [4, 4, 3] = (0, d') \<and> set d' = {3}"
    using d' by auto
qed

subsection \<open>The targets of a region\<close>

lemma strtoks_Nil [simp]: "strtoks sep [] = []"
  by (subst strtoks.simps) (simp add: strtok_def)

lemma which_sep_name [simp]: "which_sep (mem_name n) = CHR '' ''"
  using mem_name_token [of n] by (simp add: which_sep_def token_ok_def)

lemma name_token: "token_ok (CHR '' '') (mem_name n)"
  using mem_name_token [of n] by (simp add: token_ok_def)

lemma arg_tokens_name: "arg_tokens (mem_name n) = [mem_name n]"
proof -
  have "mem_name n \<noteq> []" using name_token [of n] by (simp add: token_ok_def)
  then show ?thesis
    using token_parts(4,5) [OF name_token [of n]] token_parts(1) [OF name_token [of n], of "[]"]
    by (simp only: arg_tokens_def strtok_def Let_def which_sep_name append_Nil2) simp
qed

lemma csv_parts_join:
  "concat (map (csv_part (i + length xs)) (enumerate i (map (\<lambda>x. [x]) xs))) = join_with (CHR '','') xs"
proof (induction "CHR '',''" xs arbitrary: i rule: join_with.induct)
  case (3 x y zs)
  from 3 [of "Suc i"] show ?case by (simp add: csv_part_def)
qed (simp_all add: csv_part_def)

lemma to_csv_names:
  assumes "ids \<noteq> []"
  shows "to_csv (map mem_name ids) = (Some (join_with (CHR '','') (map mem_name ids)), length ids)"
proof -
  have toks: "map arg_tokens (map mem_name ids) = map (\<lambda>x. [x]) (map mem_name ids)" by (simp add: arg_tokens_name)
  have "length (concat (map (\<lambda>x. [x]) xs)) = length xs" for xs :: "string list" by (induction xs) simp_all
  note len = this [of "map mem_name ids", unfolded length_map]
  show ?thesis
    using assms csv_parts_join [of 0 "map mem_name ids"] unfolding to_csv_def toks Let_def len by simp
qed

text \<open>The position of a memdev is the position of its number, which is an \<open>int\<close> of the kernel.\<close>

definition named_memdev :: "nat set \<Rightarrow> nat \<Rightarrow> cxl_memdev \<Rightarrow> bool" where
  "named_memdev ids i m \<longleftrightarrow> md_id m = int i \<and> md_devname m = mem_name i \<and> (\<forall>j \<in> ids. j < 2 ^ 31 \<and> md_host m \<noteq> mem_name j)"

lemma filter_one_name:
  assumes "named_memdev ids i m" and "j \<in> ids"
  shows "util_cxl_memdev_filter m (Some (mem_name j)) None \<longleftrightarrow> i = j"
  using memdev_filter_names [of "[j]" m i] assms by (simp add: named_memdev_def)

lemma token_pos_nth:
  assumes "distinct ids" and "n < length ids" and "named_memdev (set ids) (ids ! n) m"
  shows "token_pos m (map mem_name ids) = n"
proof -
  have "token_pos m (map mem_name js) = n"
    if "distinct js" "n < length js" "set js \<subseteq> set ids" "named_memdev (set ids) (js ! n) m" for js n
    using that
  proof (induction js arbitrary: n)
    case (Cons j js)
    then show ?case using filter_one_name [of "set ids" "(j # js) ! n" m j] by (cases n) auto
  qed simp
  then show ?thesis using assms by blast
qed

lemma memdev_filter_pos_nth:
  assumes "distinct ids" and "n < length ids" and "named_memdev (set ids) (ids ! n) m"
  shows "memdev_filter_pos (join_with (CHR '','') (map mem_name ids)) m = n"
proof -
  have "ids \<noteq> []" using assms(2) by auto
  then have "strtoks (which_sep (join_with (CHR '','') (map mem_name ids))) (join_with (CHR '','') (map mem_name ids)) = map mem_name ids"
    using strtoks_csv [of "map mem_name ids"] mem_name_token by auto
  then show ?thesis using token_pos_nth [OF assms] by (simp add: memdev_filter_pos_def)
qed

lemma sort_key_to:
  assumes "distinct xs" and "set xs = set ys" and "map f ys = [0..<length ys]"
  shows "sort_key f xs = ys"
proof -
  have "distinct (map f ys)" using assms(3) by simp
  then have inj: "inj_on f (set ys)" by (simp add: distinct_map)
  have "map f (sort_key f xs) = map f ys"
    using assms(1,2) inj \<open>distinct (map f ys)\<close>
    by (intro sorted_distinct_set_unique) (simp_all add: distinct_map, simp add: assms(3))
  then show ?thesis using inj assms(2) by (auto intro: map_inj_on)
qed

text \<open>C32: the memdevs named by number become the targets of the region in the order in which they were given, whatever
  order the walk over the topology finds them in.\<close>

theorem targets_in_given_order:
  assumes "ids \<noteq> []" and "distinct ids" and "\<forall>i \<in> set ids. named_memdev (set ids) i (dev i)"
    and "walk decoder (Some (join_with (CHR '','') (map mem_name ids))) = Some found" and "distinct found"
    and "set found = dev ` set ids"
  shows "collect_memdevs walk decoder (map mem_name ids) = (Some (map dev ids), length ids)"
proof -
  let ?csv = "join_with (CHR '','') (map mem_name ids)"
  have "map (memdev_filter_pos ?csv) (map dev ids) = [0..<length (map dev ids)]"
    using assms(2,3) by (intro nth_equalityI) (simp_all add: memdev_filter_pos_nth)
  then have "sort_key (memdev_filter_pos ?csv) found = map dev ids" using assms(5,6) by (intro sort_key_to) simp_all
  moreover have "found \<noteq> []" using assms(1,6) by auto
  ultimately show ?thesis using assms(1,4) by (simp add: collect_memdevs_def to_csv_names)
qed

lemma demo_memdev_named: "\<forall>j \<in> ids. j < 2 ^ 31 \<Longrightarrow> named_memdev ids i (demo_memdev i)"
  by (simp add: named_memdev_def demo_memdev_def mem_name_def)

theorem targets_in_given_order_witness:
  "collect_memdevs (\<lambda>dec csv. Some (map demo_memdev [0, 1, 2])) None (map mem_name [2, 0, 1]) =
     (Some (map demo_memdev [2, 0, 1]), length [2, 0, 1::nat])"
proof (rule targets_in_given_order)
  show "distinct (map demo_memdev [0, 1, 2])" by (simp add: demo_memdev_def)
  show "set (map demo_memdev [0, 1, 2]) = demo_memdev ` set [2, 0, 1]" by auto
qed (simp_all add: demo_memdev_named)

text \<open>One argument with a comma-separated list: behind its first token the list is split at blanks, where there are none.\<close>

lemma arg_tokens_list:
  assumes "ids \<noteq> []"
  shows "arg_tokens (join_with (CHR '','') (map mem_name (i # ids))) = [mem_name i, join_with (CHR '','') (map mem_name ids)]"
proof -
  let ?rest = "join_with (CHR '','') (map mem_name ids)"
  let ?s = "mem_name i @ CHR '','' # ?rest"
  obtain j js where ids: "ids = j # js" using assms by (cases ids) auto
  have tok: "token_ok (CHR '','') (mem_name i)" using mem_name_token by simp
  note parts = token_parts [OF tok]
  have blank: "CHR '' '' \<notin> set ?rest" using set_join [of "CHR '',''" "map mem_name ids"] mem_name_token by auto
  have "?rest \<noteq> []" using mem_name_token [of j] by (cases js) (auto simp: ids token_ok_def)
  then have "token_ok (CHR '' '') ?rest" using blank by (simp add: token_ok_def)
  moreover have "which_sep ?s = CHR '',''" using blank mem_name_token [of i] by (simp add: which_sep_def)
  moreover have "arg_chunk (CHR '','') ?s = mem_name i" using parts by (simp add: arg_chunk_def)
  ultimately show ?thesis using parts tok by (simp add: ids arg_tokens_def strtok_def Let_def strtoks_single token_ok_def)
qed

text \<open>Three or more memdevs given as one comma-separated argument are refused, though the walk finds each of them: the
  list is counted as two targets, because the separator is looked up again in the list that has been cut.\<close>

theorem comma_list_rejected:
  assumes "2 \<le> length ids" and "rp_ways param = INT_MAX" and "rp_root_decoder param = Some decoder" and "rp_memdevs param"
    and "walk (Some decoder) (Some (join_with (CHR '','') (map mem_name (i # ids)) @ '','')) = Some memdevs"
    and "length memdevs = length (i # ids)"
  shows "parse_create_options sys walk param [join_with (CHR '','') (map mem_name (i # ids))] = Inl (- EINVAL)"
proof -
  obtain j js where ids: "ids = j # js" using assms(1) by (cases ids) auto
  have "to_csv [join_with (CHR '','') (map mem_name (i # ids))] =
      (Some (join_with (CHR '','') (map mem_name (i # ids)) @ '',''), 2)"
    using arg_tokens_list [of ids i] by (simp add: to_csv_def Let_def csv_part_def ids)
  moreover have "memdevs \<noteq> []" using assms(6) by auto
  ultimately have "\<exists>ms. collect_memdevs walk (Some decoder) [join_with (CHR '','') (map mem_name (i # ids))] = (Some ms, 2) \<and>
    length ms = length (i # ids)"
    using assms(5,6) by (simp add: collect_memdevs_def)
  then obtain ms where "collect_memdevs walk (Some decoder) [join_with (CHR '','') (map mem_name (i # ids))] = (Some ms, 2)"
    "length ms = length (i # ids)" by blast
  moreover have "parse_ways param (length (i # ids)) 2 = None"
    using assms(1,2) by (simp add: parse_ways_def validate_ways_def INT_MAX_def)
  ultimately show ?thesis using assms(3,4) by (simp add: parse_create_options_def Let_def)
qed

theorem comma_list_rejected_witness:
  "parse_create_options demo_sys (\<lambda>dec csv. Some (map demo_memdev [0, 1, 2])) demo_rp [''mem0,mem1,mem2''] = Inl (- EINVAL)"
proof -
  have "join_with (CHR '','') (map mem_name [0, 1, 2]) = ''mem0,mem1,mem2''"
    by (simp add: mem_name_def dec_digits.simps dec_chars)
  then show ?thesis
    using comma_list_rejected [of "[1, 2]" demo_rp "''decoder0.0''" "\<lambda>dec csv. Some (map demo_memdev [0, 1, 2])" 0
        "map demo_memdev [0, 1, 2]" demo_sys]
    by (simp add: demo_rp_def)
qed

subsection \<open>The default size\<close>

definition mode_capacity :: "cxl_decoder_mode \<Rightarrow> cxl_memdev \<Rightarrow> u64" where
  "mode_capacity mode m = (case mode of CXL_DECODER_MODE_RAM \<Rightarrow> md_ram_size m | CXL_DECODER_MODE_PMEM \<Rightarrow> md_pmem_size m | _ \<Rightarrow> 0)"

lemma minsize_loop_step:
  "minsize_loop mode (Suc n) (m # ms) x =
     minsize_loop mode n ms (if x = 0 then mode_capacity mode m else min x (mode_capacity mode m))"
  unfolding mode_capacity_def minsize_loop.simps Let_def by (rule refl)

lemma minsize_loop_least:
  assumes "minsize_loop mode n ms x = Some y" and "\<forall>m \<in> set (take n ms). mode_capacity mode m \<noteq> 0"
  shows "(x \<noteq> 0 \<longrightarrow> y \<noteq> 0 \<and> y \<le> x) \<and> (\<forall>m \<in> set (take n ms). y \<le> mode_capacity mode m)"
  using assms
proof (induction n arbitrary: ms x)
  case (Suc n)
  obtain m ms' where ms: "ms = m # ms'" using Suc(2) by (cases ms) simp_all
  let ?x = "if x = 0 then mode_capacity mode m else min x (mode_capacity mode m)"
  have c: "mode_capacity mode m \<noteq> 0" using Suc(3) ms by simp
  have x: "?x \<noteq> 0" using c by (simp add: min_def)
  have "(?x \<noteq> 0 \<longrightarrow> y \<noteq> 0 \<and> y \<le> ?x) \<and> (\<forall>m \<in> set (take n ms'). y \<le> mode_capacity mode m)"
    using Suc(2,3) unfolding ms by (intro Suc(1)) (simp_all only: minsize_loop_step take_Suc_Cons, simp_all)
  then show ?case using x unfolding ms by (cases "x = 0") simp_all
qed simp

lemma clamp_pow2:
  assumes "j \<le> 2" and "clamp_size e (2 ^ j) = Some sz" and "unat e < 2 ^ 63"
  shows "sz \<le> e" and "unat sz mod 2 ^ j = 0"
proof -
  have "(0x10000000 * of_nat (2 ^ j) :: u64) = 2 ^ (28 + j)" by (simp add: power_add)
  moreover have "\<not> 8 \<le> (2::nat) ^ j" using assms(1) by (auto simp: le_Suc_eq numeral_2_eq_2)
  ultimately have "sz = ALIGN_DOWN e (2 ^ (28 + j))" using assms(2) by (simp add: clamp_size_def)
  moreover have "(2::nat) ^ (28 + j) \<le> 2 ^ 30" using assms(1) by (intro power_increasing) simp_all
  ultimately have sz: "unat sz = unat e div 2 ^ (28 + j) * 2 ^ (28 + j)"
    using ALIGN_DOWN_unat [of "28 + j" e] assms(1,3) by simp
  then show "sz \<le> e" by (simp add: word_le_nat_alt)
  have "(2::nat) ^ j dvd unat e div 2 ^ (28 + j) * 2 ^ (28 + j)" by (simp add: power_add)
  then show "unat sz mod 2 ^ j = 0" using sz by (metis dvd_imp_mod_0)
qed

text \<open>Without \<open>--size\<close>, for 1, 2 or 4 ways over memdevs that all have capacity, the size of the new region fits the
  extent the root decoder has left, divides evenly, and each share fits its memdev.\<close>

theorem default_size_fits:
  assumes "create_region_validate_config param topo p = Some (Inr (decoder, p'))" and "pr_size p = 0" and "pr_ep_min_size p = 0"
    and "create_region_size decoder p' = Some (Inr sz)" and "j \<le> 2" and "pr_ways p = 2 ^ j"
    and "unat (de_max_available_extent decoder) < 2 ^ 63"
    and "\<forall>m \<in> set (take (2 ^ j) (pr_memdevs p)). mode_capacity (pr_mode p') m \<noteq> 0 \<and> unat (mode_capacity (pr_mode p') m) < 2 ^ 61"
    and "2 ^ j \<le> length (pr_memdevs p)"
  shows "sz \<le> de_max_available_extent decoder \<and> unat sz mod 2 ^ j = 0 \<and>
    (\<forall>m \<in> set (take (2 ^ j) (pr_memdevs p)). unat sz div 2 ^ j \<le> unat (mode_capacity (pr_mode p') m))"
proof -
  let ?e = "de_max_available_extent decoder"
  obtain y where p': "pr_ep_min_size p' = y" "pr_size p' = 0" "pr_ways p' = 2 ^ j"
    and loop: "minsize_loop (pr_mode p') (2 ^ j) (pr_memdevs p) 0 = Some y"
    using validate_config_D(2) [OF assms(1)] assms(2,3,6) by auto
  have le: "\<forall>m \<in> set (take (2 ^ j) (pr_memdevs p)). y \<le> mode_capacity (pr_mode p') m"
    using minsize_loop_least [OF loop] assms(8) by blast
  obtain m where "m \<in> set (take (2 ^ j) (pr_memdevs p))"
    using assms(9) by (cases "pr_memdevs p") (auto simp: take_Cons')
  then have "unat y < 2 ^ 61" using le assms(8) by (meson le_less_trans word_le_nat_alt)
  moreover have "(2::nat) ^ j \<le> 2 ^ 2" using assms(5) by (intro power_increasing) simp_all
  ultimately have "unat y * 2 ^ j < 2 ^ 61 * 2 ^ 2" by (intro mult_less_le_imp_less) simp_all
  then have prod: "unat (y * of_nat (2 ^ j)) = unat y * 2 ^ j"
    using assms(5) by (simp add: unat_word_ariths unat_pow2)
  have "sz \<le> ?e \<and> unat sz mod 2 ^ j = 0 \<and> unat sz \<le> unat y * 2 ^ j"
  proof (cases "y * of_nat (2 ^ j) > ?e")
    case True
    then have "clamp_size ?e (2 ^ j) = Some sz"
      using assms(4) p' by (auto simp: create_region_size_def Let_def split: if_splits)
    note c = clamp_pow2 [OF assms(5) this assms(7)]
    have "unat ?e < unat y * 2 ^ j" using True prod by (simp add: word_less_nat_alt)
    then show ?thesis using c by (simp add: word_le_nat_alt)
  next
    case False
    then have "sz = y * of_nat (2 ^ j)"
      using assms(4) p' by (auto simp: create_region_size_def Let_def split: if_splits)
    then show ?thesis using False prod by (simp add: not_less)
  qed
  moreover from this have "unat sz div 2 ^ j \<le> unat y"
    using div_le_mono [of "unat sz" "unat y * 2 ^ j" "2 ^ j"] by simp
  ultimately show ?thesis using le by (meson le_trans word_le_nat_alt)
qed

theorem default_size_fits_witness:
  "\<exists>sz. create_region_size demo_cxl_decoder (demo_pp\<lparr>pr_ep_min_size := 0x80000000\<rparr>) = Some (Inr sz) \<and> sz \<le> 0x200000000"
proof -
  have v: "create_region_validate_config demo_rp demo_topology demo_pp =
      Some (Inr (demo_cxl_decoder, demo_pp\<lparr>pr_ep_min_size := 0x80000000\<rparr>))"
    by (simp add: create_region_validate_config_def demo_root_decoders)
      (simp add: demo_cxl_decoder_def set_type_from_decoder_def demo_rp_def demo_pp_def validate_decoder_def
        create_region_validate_qos_class_def collect_minsize_def Let_def demo_memdev_def)
  have s: "create_region_size demo_cxl_decoder (demo_pp\<lparr>pr_ep_min_size := 0x80000000\<rparr>) = Some (Inr 0x80000000)"
    by (simp add: create_region_size_def demo_pp_def demo_cxl_decoder_def)
  have "(0x80000000 :: u64) \<le> de_max_available_extent demo_cxl_decoder"
    using default_size_fits [OF v _ _ s, of 0]
    by (simp add: demo_pp_def demo_cxl_decoder_def mode_capacity_def demo_memdev_def)
  then show ?thesis using s by (auto simp: demo_cxl_decoder_def)
qed

end
