(* ===== verification/Cxl_Dpa.thy ===== *)
theory Cxl_Dpa
  imports Cxl_Region
begin

text \<open>
  Reserving and freeing device physical address space, \<open>__reserve_dpa\<close> of \<open>cxl/memdev.c\<close> (\<open>cxl reserve-dpa\<close> and \<open>cxl free-dpa\<close>), over
  the kernel of \<open>Cxl_Region\<close>: the capacity left for a mode, the size, the choice of the endpoint decoder, and the requests.
  The description of the memdev printed in the end is left out.
\<close>

datatype reserve_dpa_mode = DPA_ALLOC | DPA_FREE

text \<open>The options, the port of the endpoint and the description of a decoder by its number.\<close>

record dpa_params =
  dp_type :: "string option"
  dp_size :: "string option"
  dp_decoder_filter :: "string option"
  dp_force :: bool

record dpa_endpoint =
  dn_port_id :: int
  dn_decoder :: "nat \<Rightarrow> cxl_decoder"

definition dpa_mode :: "dpa_params \<Rightarrow> cxl_decoder_mode option" where
  "dpa_mode p =
     (case dp_type p of
        None \<Rightarrow> Some CXL_DECODER_MODE_RAM
      | Some t \<Rightarrow> let mode = cxl_decoder_mode_from_ident t in if mode = CXL_DECODER_MODE_NONE then None else Some mode)"

text \<open>What is left of the capacity after the decoders of the mode; \<open>None\<close> is the accounting error.\<close>

fun account_dpa :: "'d cxl_kern \<Rightarrow> cxl_decoder_mode \<Rightarrow> nat list \<Rightarrow> u64 \<Rightarrow> 'd \<Rightarrow> u64 option" where
  "account_dpa k mode [] avail_dpa d = Some avail_dpa"
| "account_dpa k mode (dec # decs) avail_dpa d =
     (let sz = ck_dpa_size k dec d in
      if sz = ULLONG_MAX \<or> ck_dec_mode k dec d \<noteq> mode then account_dpa k mode decs avail_dpa d
      else if sz > avail_dpa then None
      else account_dpa k mode decs (avail_dpa - sz) d)"

definition dpa_request_size :: "reserve_dpa_mode \<Rightarrow> dpa_params \<Rightarrow> u64 \<Rightarrow> int + u64" where
  "dpa_request_size alloc_mode p avail_dpa =
     (case dp_size p of
        None \<Rightarrow> if alloc_mode = DPA_ALLOC then (if avail_dpa = 0 then Inl (- ENOSPC) else Inr avail_dpa) else Inr 0
      | Some t \<Rightarrow>
          let sz = parse_size64 (Some t) in
          if sz = ULLONG_MAX then Inl (- EINVAL)
          else if sz > avail_dpa \<and> \<not> dp_force p then Inl (- ENOSPC)
          else Inr sz)"

text \<open>The loop over the decoders in reverse order.\<close>

fun free_target :: "'d cxl_kern \<Rightarrow> nat list \<Rightarrow> 'd \<Rightarrow> nat option" where
  "free_target k [] d = None"
| "free_target k (dec # decs) d =
     (if ck_dpa_size k dec d = 0 then free_target k decs d
      else if ck_dec_size k dec d \<noteq> 0 then None
      else if ck_dpa_size k dec d < ULLONG_MAX then Some dec
      else free_target k decs d)"

definition auto_target :: "'d cxl_kern \<Rightarrow> reserve_dpa_mode \<Rightarrow> nat list \<Rightarrow> 'd \<Rightarrow> nat option" where
  "auto_target k alloc_mode decs d =
     (if alloc_mode = DPA_ALLOC then List.find (\<lambda>dec. ck_dpa_size k dec d = 0) decs else free_target k (rev decs) d)"

text \<open>The decoder named by \<open>--decoder\<close>; a plain number is that of a decoder of the port.  \<open>None\<close> is a name that does not fit.\<close>

definition decoder_ident :: "dpa_endpoint \<Rightarrow> string \<Rightarrow> string option" where
  "decoder_ident ep filt =
     (case strtoull filt of (n, end) \<Rightarrow>
        let buf = (if end = [] then ''decoder'' @ dec_int (dn_port_id ep) @ ''.'' @ dec_int (sint n) else filt) in
        if length buf \<ge> 256 then None else Some buf)"

definition named_target :: "dpa_endpoint \<Rightarrow> reserve_dpa_mode \<Rightarrow> nat list \<Rightarrow> string \<Rightarrow> nat option" where
  "named_target ep alloc_mode decs buf =
     List.find (\<lambda>dec. util_cxl_decoder_filter (dn_decoder ep dec) (Some buf)) (if alloc_mode = DPA_ALLOC then decs else rev decs)"

definition choose_target ::
  "'d cxl_kern \<Rightarrow> dpa_endpoint \<Rightarrow> reserve_dpa_mode \<Rightarrow> dpa_params \<Rightarrow> nat list \<Rightarrow> 'd \<Rightarrow> int + nat" where
  "choose_target k ep alloc_mode p decs d =
     (let auto = auto_target k alloc_mode decs d in
      case dp_decoder_filter p of
        None \<Rightarrow> (case auto of None \<Rightarrow> Inl (- ENXIO) | Some t \<Rightarrow> Inr t)
      | Some filt \<Rightarrow>
          (case decoder_ident ep filt of
             None \<Rightarrow> Inl (- EINVAL)
           | Some buf \<Rightarrow>
               (case named_target ep alloc_mode decs buf of
                  None \<Rightarrow> Inl (- ENXIO)
                | Some t \<Rightarrow> if Some t \<noteq> auto \<and> \<not> dp_force p then Inl (- EINVAL) else Inr t)))"

text \<open>The checks up to the requests: the mode, the decoder and the size.\<close>

definition plan_dpa ::
  "'d cxl_kern \<Rightarrow> dpa_endpoint \<Rightarrow> reserve_dpa_mode \<Rightarrow> dpa_params \<Rightarrow> cxl_memdev \<Rightarrow> 'd \<Rightarrow> int + (cxl_decoder_mode \<times> nat \<times> u64)" where
  "plan_dpa k ep alloc_mode p memdev d =
     (case dpa_mode p of
        None \<Rightarrow> Inl (- EINVAL)
      | Some mode \<Rightarrow>
          (case ck_ep_decoders k memdev d of
             None \<Rightarrow> Inl (- ENXIO)
           | Some decs \<Rightarrow>
               (case account_dpa k mode decs (if mode = CXL_DECODER_MODE_RAM then md_ram_size memdev else md_pmem_size memdev) d of
                  None \<Rightarrow> Inl (- ENXIO)
                | Some avail_dpa \<Rightarrow>
                    (case dpa_request_size alloc_mode p avail_dpa of
                       Inl rc \<Rightarrow> Inl rc
                     | Inr sz \<Rightarrow>
                         (case choose_target k ep alloc_mode p decs d of
                            Inl rc \<Rightarrow> Inl rc
                          | Inr target \<Rightarrow> Inr (mode, target, sz))))))"

definition reserve_dpa ::
  "'d cxl_kern \<Rightarrow> dpa_endpoint \<Rightarrow> reserve_dpa_mode \<Rightarrow> dpa_params \<Rightarrow> cxl_memdev \<Rightarrow> 'd command" where
  "reserve_dpa k ep alloc_mode p memdev d =
     (case plan_dpa k ep alloc_mode p memdev d of
        Inl rc \<Rightarrow> (rc, d)
      | Inr (mode, target, sz) \<Rightarrow>
          and_then (if ck_dec_mode k target d \<noteq> mode
                    then and_then (ck_decoder k target (Set_dpa_size 0)) (ck_decoder k target (Set_decoder_mode mode)) else ok_cmd)
            (ck_decoder k target (Set_dpa_size sz)) d)"

definition action_reserve_dpa :: "'d cxl_kern \<Rightarrow> dpa_endpoint \<Rightarrow> dpa_params \<Rightarrow> cxl_memdev \<Rightarrow> 'd command" where
  "action_reserve_dpa k ep p memdev = reserve_dpa k ep DPA_ALLOC p memdev"

definition action_free_dpa :: "'d cxl_kern \<Rightarrow> dpa_endpoint \<Rightarrow> dpa_params \<Rightarrow> cxl_memdev \<Rightarrow> 'd command" where
  "action_free_dpa k ep p memdev = reserve_dpa k ep DPA_FREE p memdev"

subsection \<open>Properties\<close>

text \<open>The capacity that the decoders of a mode hold.\<close>

definition held_dpa :: "'d cxl_kern \<Rightarrow> cxl_decoder_mode \<Rightarrow> nat list \<Rightarrow> 'd \<Rightarrow> nat" where
  "held_dpa k mode decs d =
     sum_list (map (\<lambda>dec. unat (ck_dpa_size k dec d))
       (filter (\<lambda>dec. ck_dpa_size k dec d \<noteq> ULLONG_MAX \<and> ck_dec_mode k dec d = mode) decs))"

lemma held_dpa_Cons:
  "held_dpa k mode (dec # decs) d =
     (if ck_dpa_size k dec d \<noteq> ULLONG_MAX \<and> ck_dec_mode k dec d = mode then unat (ck_dpa_size k dec d) else 0) + held_dpa k mode decs d"
  by (simp add: held_dpa_def)

lemma account_dpa_left:
  "account_dpa k mode decs avail d = Some left \<Longrightarrow> unat left + held_dpa k mode decs d = unat avail"
proof (induction decs arbitrary: avail)
  case (Cons dec decs)
  show ?case
  proof (cases "ck_dpa_size k dec d = ULLONG_MAX \<or> ck_dec_mode k dec d \<noteq> mode")
    case False
    then have le: "ck_dpa_size k dec d \<le> avail" and "account_dpa k mode decs (avail - ck_dpa_size k dec d) d = Some left"
      using Cons.prems by (auto simp: Let_def split: if_splits)
    then have "unat left + held_dpa k mode decs d = unat avail - unat (ck_dpa_size k dec d)"
      using Cons.IH by (simp add: unat_sub)
    then show ?thesis
      using False le by (simp add: held_dpa_Cons word_le_nat_alt)
  qed (use Cons in \<open>auto simp: held_dpa_Cons Let_def\<close>)
qed (simp add: held_dpa_def)

lemma find_first:
  "List.find P xs = Some x \<Longrightarrow> \<exists>ys zs. xs = ys @ x # zs \<and> P x \<and> (\<forall>y \<in> set ys. \<not> P y)"
proof (induction xs)
  case (Cons a xs)
  show ?case
  proof (cases "P a")
    case True
    then have "a # xs = [] @ x # xs \<and> P x \<and> (\<forall>y \<in> set []. \<not> P y)" using Cons.prems by simp
    then show ?thesis by blast
  next
    case False
    then obtain ys zs where "xs = ys @ x # zs" "P x" "\<forall>y \<in> set ys. \<not> P y" using Cons by auto
    then have "a # xs = (a # ys) @ x # zs \<and> P x \<and> (\<forall>y \<in> set (a # ys). \<not> P y)" using False by simp
    then show ?thesis by blast
  qed
qed simp

lemma free_target_last:
  "free_target k decs d = Some t \<Longrightarrow> \<exists>ys zs. decs = ys @ t # zs \<and> ck_dec_size k t d = 0 \<and> ck_dpa_size k t d \<noteq> 0 \<and>
     (\<forall>y \<in> set ys. ck_dpa_size k y d = 0 \<or> ck_dec_size k y d = 0)"
proof (induction decs)
  case (Cons a decs)
  show ?case
  proof (cases "free_target k decs d = Some t \<and> (ck_dpa_size k a d = 0 \<or> ck_dec_size k a d = 0)")
    case True
    then obtain ys zs where "decs = ys @ t # zs" "ck_dec_size k t d = 0" "ck_dpa_size k t d \<noteq> 0"
      "\<forall>y \<in> set ys. ck_dpa_size k y d = 0 \<or> ck_dec_size k y d = 0"
      using Cons.IH by auto
    then have "a # decs = (a # ys) @ t # zs \<and> ck_dec_size k t d = 0 \<and> ck_dpa_size k t d \<noteq> 0 \<and>
      (\<forall>y \<in> set (a # ys). ck_dpa_size k y d = 0 \<or> ck_dec_size k y d = 0)" using True by simp
    then show ?thesis by blast
  next
    case False
    then have "a # decs = [] @ t # decs \<and> ck_dec_size k t d = 0 \<and> ck_dpa_size k t d \<noteq> 0 \<and>
      (\<forall>y \<in> set []. ck_dpa_size k y d = 0 \<or> ck_dec_size k y d = 0)" using Cons.prems by (auto split: if_splits)
    then show ?thesis by blast
  qed
qed simp

text \<open>C18: Without \<open>--force\<close>, a reservation in either mode stays within the capacity that the other decoders of that mode leave, and goes to
  the first decoder without capacity, so the decoders are filled in order.  The mode is that of \<open>--type\<close>; which one is the default does
  not matter here.\<close>

theorem reserve_dpa_sound:
  assumes "plan_dpa k ep DPA_ALLOC p memdev d = Inr (mode, t, sz)" "\<not> dp_force p" "ck_ep_decoders k memdev d = Some decs"
  shows "held_dpa k mode decs d + unat sz \<le> unat (if mode = CXL_DECODER_MODE_RAM then md_ram_size memdev else md_pmem_size memdev) \<and>
    (\<exists>ys zs. decs = ys @ t # zs \<and> ck_dpa_size k t d = 0 \<and> 0 \<notin> set (map (\<lambda>y. ck_dpa_size k y d) ys))"
proof -
  obtain avail where a: "account_dpa k mode decs (if mode = CXL_DECODER_MODE_RAM then md_ram_size memdev else md_pmem_size memdev) d
      = Some avail" "dpa_request_size DPA_ALLOC p avail = Inr sz" "choose_target k ep DPA_ALLOC p decs d = Inr t"
    using assms by (auto simp: plan_dpa_def split: option.splits sum.splits)
  have "sz \<le> avail"
    using a(2) assms(2) by (auto simp: dpa_request_size_def Let_def not_less split: option.splits if_splits)
  moreover have "auto_target k DPA_ALLOC decs d = Some t"
    using a(3) assms(2) by (auto simp: choose_target_def Let_def split: option.splits if_splits)
  then obtain ys zs where "decs = ys @ t # zs" "ck_dpa_size k t d = 0" "\<forall>y \<in> set ys. ck_dpa_size k y d \<noteq> 0"
    using find_first unfolding auto_target_def by fastforce
  ultimately show ?thesis
    using account_dpa_left [OF a(1)] by (auto simp: word_le_nat_alt)
qed

text \<open>Freeing without \<open>--force\<close> takes the capacity of a decoder that is not active, and no decoder behind it is both active and
  holds capacity.\<close>

theorem free_dpa_sound:
  assumes "plan_dpa k ep DPA_FREE p memdev d = Inr (mode, t, sz)" "\<not> dp_force p" "ck_ep_decoders k memdev d = Some decs"
  shows "ck_dec_size k t d = 0 \<and> ck_dpa_size k t d \<noteq> 0 \<and>
    (\<exists>ys zs. decs = ys @ t # zs \<and> (\<forall>y. y \<in> set zs \<longrightarrow> ck_dpa_size k y d = 0 \<or> ck_dec_size k y d = 0))"
proof -
  have "choose_target k ep DPA_FREE p decs d = Inr t"
    using assms by (auto simp: plan_dpa_def split: option.splits sum.splits)
  then have "free_target k (rev decs) d = Some t"
    using assms(2) by (auto simp: choose_target_def auto_target_def Let_def split: option.splits if_splits)
  then obtain ys zs where f: "rev decs = ys @ t # zs" "ck_dec_size k t d = 0" "ck_dpa_size k t d \<noteq> 0"
    "\<forall>y \<in> set ys. ck_dpa_size k y d = 0 \<or> ck_dec_size k y d = 0"
    using free_target_last [of k "rev decs" d t] by blast
  have "rev (rev decs) = rev (ys @ t # zs)" by (rule arg_cong [OF f(1)])
  then have "decs = rev zs @ t # rev ys" by simp
  then have "decs = rev zs @ t # rev ys \<and> (\<forall>y. y \<in> set (rev ys) \<longrightarrow> ck_dpa_size k y d = 0 \<or> ck_dec_size k y d = 0)"
    using f(4) by simp
  then show ?thesis using f(2,3) by blast
qed

definition demo_dpa :: "nat list cxl_kern" where
  "demo_dpa = (demo_ck 0)\<lparr>ck_ep_decoders := (\<lambda>m d. Some [1, 2]), ck_dpa_size := (\<lambda>dec d. if dec = 1 then 0x100 else 0),
     ck_dec_mode := (\<lambda>dec d. CXL_DECODER_MODE_RAM)\<rparr>"

definition demo_ep :: dpa_endpoint where
  "demo_ep = \<lparr>dn_port_id = 2, dn_decoder = (\<lambda>n. demo_cxl_decoder\<lparr>de_id := int n\<rparr>)\<rparr>"

definition demo_dp :: dpa_params where
  "demo_dp = \<lparr>dp_type = Some ''ram'', dp_size = None, dp_decoder_filter = None, dp_force = False\<rparr>"

theorem reserve_dpa_sound_witness:
  "plan_dpa demo_dpa demo_ep DPA_ALLOC demo_dp ((demo_memdev 0)\<lparr>md_ram_size := 0x300\<rparr>) [] = Inr (CXL_DECODER_MODE_RAM, 2, 0x200) \<and>
   held_dpa demo_dpa CXL_DECODER_MODE_RAM [1, 2] [] + unat (0x200 :: u64) \<le> unat (0x300 :: u64)"
proof -
  have "plan_dpa demo_dpa demo_ep DPA_ALLOC demo_dp ((demo_memdev 0)\<lparr>md_ram_size := 0x300\<rparr>) [] = Inr (CXL_DECODER_MODE_RAM, 2, 0x200)"
    by code_simp
  then show ?thesis
    using reserve_dpa_sound [of demo_dpa demo_ep demo_dp "(demo_memdev 0)\<lparr>md_ram_size := 0x300\<rparr>" "[]" CXL_DECODER_MODE_RAM 2 "0x200" "[1, 2]"]
    by (simp add: demo_dpa_def demo_dp_def)
qed

theorem free_dpa_sound_witness:
  "plan_dpa demo_dpa demo_ep DPA_FREE demo_dp ((demo_memdev 0)\<lparr>md_ram_size := 0x300\<rparr>) [] = Inr (CXL_DECODER_MODE_RAM, 1, 0) \<and>
   ck_dec_size demo_dpa 1 [] = 0 \<and> ck_dpa_size demo_dpa 1 [] \<noteq> 0"
proof -
  have "plan_dpa demo_dpa demo_ep DPA_FREE demo_dp ((demo_memdev 0)\<lparr>md_ram_size := 0x300\<rparr>) [] = Inr (CXL_DECODER_MODE_RAM, 1, 0)"
    by code_simp
  then show ?thesis
    using free_dpa_sound [of demo_dpa demo_ep demo_dp "(demo_memdev 0)\<lparr>md_ram_size := 0x300\<rparr>" "[]" CXL_DECODER_MODE_RAM 1 0 "[1, 2]"]
    by (simp add: demo_dpa_def demo_dp_def)
qed

end
