(* ===== verification/Cxl_Mbox.thy ===== *)
theory Cxl_Mbox
  imports Size "HOL-Library.Monad_Syntax"
begin

text \<open>
  The mailbox commands of a CXL memory device (\<open>cxl/lib/libcxl.c\<close>, \<open>cxl/lib/private.h\<close>, \<open>cxl/cxl_mem.h\<close>): the query of the
  commands the kernel supports, creating a command with its payload buffers, submission, the accessors of the payloads, and
  the transfer of the label storage area in pieces.

  A buffer is a list of bytes and a command holds its own buffers; \<open>None\<close> is the result of code that follows a null or
  dangling pointer, leaves a buffer or frees an object twice.  The kernel behind \<open>ioctl\<close> is a parameter over an arbitrary
  state of the device (\<open>mbox_sys\<close>).  The messages of the library and \<open>errno\<close> are left out.
\<close>

definition EOVERFLOW :: int where [simp]: "EOVERFLOW = 75"
definition ENOENT :: int where [simp]: "ENOENT = 2"

subsection \<open>Buffers\<close>

text \<open>\<open>overlay b new\<close> is the buffer \<open>b\<close> after \<open>new\<close> was stored at its start, \<open>buf_read\<close> and \<open>buf_store\<close> are \<open>memcpy\<close> out of and into
  a buffer, and \<open>buf_get\<close> and \<open>buf_put\<close> access a little-endian field.\<close>

definition overlay :: "'a list \<Rightarrow> 'a list \<Rightarrow> 'a list" where
  "overlay b new = take (length b) new @ drop (length new) b"

definition buf_read :: "nat \<Rightarrow> nat \<Rightarrow> u8 list \<Rightarrow> u8 list option" where
  "buf_read n ofs b = (if ofs + n \<le> length b then Some (take n (drop ofs b)) else None)"

definition buf_store :: "u8 list \<Rightarrow> nat \<Rightarrow> u8 list \<Rightarrow> u8 list option" where
  "buf_store bs ofs b = (if ofs + length bs \<le> length b then Some (take ofs b @ overlay (drop ofs b) bs) else None)"

definition buf_get :: "nat \<Rightarrow> nat \<Rightarrow> u8 list \<Rightarrow> 'a::len word option" where
  "buf_get n ofs b = map_option (\<lambda>bs. le_get n (nth bs) 0) (buf_read n ofs b)"

definition le_bytes :: "nat \<Rightarrow> 'a::len word \<Rightarrow> u8 list" where
  "le_bytes n w = map (le_put n w (\<lambda>_. 0) 0) [0..<n]"

definition buf_put :: "nat \<Rightarrow> 'a::len word \<Rightarrow> nat \<Rightarrow> u8 list \<Rightarrow> u8 list option" where
  "buf_put n w ofs b = buf_store (le_bytes n w) ofs b"

subsection \<open>Commands\<close>

text \<open>A pointer to an object of the library.\<close>

datatype 'a cptr = CNull | CLive 'a | CFreed

record cxl_command_info =
  ci_id :: u32
  ci_flags :: u32
  ci_size_in :: int
  ci_size_out :: int

record cxl_mem_query_commands =
  qc_n_commands :: u32
  qc_commands :: "cxl_command_info list"

text \<open>The payload pointers of \<open>cxl_send_command\<close>: zero, the buffer that libcxl manages, or a buffer of the user with its contents.\<close>

datatype payload = No_Payload | Lib_Payload | User_Payload "u8 list"

record cxl_send_command =
  sc_id :: u32
  sc_opcode :: u16
  sc_retval :: u32
  sc_in_size :: int
  sc_in :: payload
  sc_out_size :: int
  sc_out :: payload

datatype cxl_cmd_query_status = CXL_CMD_QUERY_NOT_RUN | CXL_CMD_QUERY_OK | CXL_CMD_QUERY_UNSUPPORTED

record cxl_cmd =
  mc_query_cmd :: "cxl_mem_query_commands cptr"
  mc_send_cmd :: "cxl_send_command option"
  mc_input_payload :: "u8 list option"
  mc_output_payload :: "u8 list option"
  mc_refcount :: int
  mc_query_status :: cxl_cmd_query_status
  mc_query_idx :: nat
  mc_status :: int

definition CXL_MEM_COMMAND_ID_IDENTIFY :: u32 where [simp]: "CXL_MEM_COMMAND_ID_IDENTIFY = 1"
definition CXL_MEM_COMMAND_ID_RAW :: u32 where [simp]: "CXL_MEM_COMMAND_ID_RAW = 2"
definition CXL_MEM_COMMAND_ID_GET_FW_INFO :: u32 where [simp]: "CXL_MEM_COMMAND_ID_GET_FW_INFO = 4"
definition CXL_MEM_COMMAND_ID_GET_PARTITION_INFO :: u32 where [simp]: "CXL_MEM_COMMAND_ID_GET_PARTITION_INFO = 5"
definition CXL_MEM_COMMAND_ID_GET_LSA :: u32 where [simp]: "CXL_MEM_COMMAND_ID_GET_LSA = 6"
definition CXL_MEM_COMMAND_ID_GET_HEALTH_INFO :: u32 where [simp]: "CXL_MEM_COMMAND_ID_GET_HEALTH_INFO = 7"
definition CXL_MEM_COMMAND_ID_SET_PARTITION_INFO :: u32 where [simp]: "CXL_MEM_COMMAND_ID_SET_PARTITION_INFO = 9"
definition CXL_MEM_COMMAND_ID_SET_LSA :: u32 where [simp]: "CXL_MEM_COMMAND_ID_SET_LSA = 10"
definition CXL_MEM_COMMAND_ID_GET_ALERT_CONFIG :: u32 where [simp]: "CXL_MEM_COMMAND_ID_GET_ALERT_CONFIG = 11"
definition CXL_MEM_COMMAND_ID_SET_ALERT_CONFIG :: u32 where [simp]: "CXL_MEM_COMMAND_ID_SET_ALERT_CONFIG = 12"

text \<open>The number of entries of the table of names, one for each of \<open>CXL_CMDS\<close>.\<close>

definition n_command_names :: nat where [simp]: "n_command_names = 22"

text \<open>\<open>my_open\<close> is the error of forming the path of the device node and opening it, or 0, and \<open>my_valid\<close> whether the node is that of
  the memdev.  The query takes and returns the number of commands and writes the descriptions; sending takes
  the input payload and gives the return value (a negative error number for -1), \<open>retval\<close>, the size of the output and its bytes.\<close>

record 'd mbox_sys =
  my_calloc :: "nat \<Rightarrow> bool"
  my_open :: "'d \<Rightarrow> int"
  my_valid :: "'d \<Rightarrow> bool"
  my_query :: "u32 \<Rightarrow> 'd \<Rightarrow> int \<times> u32 \<times> cxl_command_info list \<times> 'd"
  my_send :: "cxl_send_command \<Rightarrow> u8 list \<Rightarrow> 'd \<Rightarrow> int \<times> u32 \<times> int \<times> u8 list \<times> 'd"

subsection \<open>References\<close>

definition cxl_cmd_unref :: "cxl_cmd cptr \<Rightarrow> cxl_cmd cptr option" where
  "cxl_cmd_unref p =
     (case p of
        CNull \<Rightarrow> Some CNull
      | CFreed \<Rightarrow> None
      | CLive cmd \<Rightarrow>
          if mc_refcount cmd - 1 \<noteq> 0 then Some (CLive (cmd\<lparr>mc_refcount := mc_refcount cmd - 1\<rparr>))
          else if mc_query_cmd cmd = CFreed then None
          else Some CFreed)"

definition cxl_cmd_ref :: "cxl_cmd \<Rightarrow> cxl_cmd" where
  "cxl_cmd_ref cmd = cmd\<lparr>mc_refcount := mc_refcount cmd + 1\<rparr>"

definition cxl_cmd_new :: "'d mbox_sys \<Rightarrow> cxl_cmd option" where
  "cxl_cmd_new sys =
     (if my_calloc sys 56
      then Some (cxl_cmd_ref \<lparr>mc_query_cmd = CNull, mc_send_cmd = None, mc_input_payload = None, mc_output_payload = None,
        mc_refcount = 0, mc_query_status = CXL_CMD_QUERY_NOT_RUN, mc_query_idx = 0, mc_status = 0\<rparr>)
      else None)"

subsection \<open>The ioctls\<close>

datatype mbox_request = CXL_MEM_QUERY_COMMANDS | CXL_MEM_SEND_COMMAND

text \<open>The bytes a payload pointer refers to, given the buffer that libcxl manages.\<close>

definition payload_bytes :: "payload \<Rightarrow> u8 list option \<Rightarrow> u8 list option" where
  "payload_bytes p lib = (case p of No_Payload \<Rightarrow> None | Lib_Payload \<Rightarrow> lib | User_Payload b \<Rightarrow> Some b)"

definition in_bytes :: "cxl_cmd \<Rightarrow> u8 list option" where
  "in_bytes cmd = do {s \<leftarrow> mc_send_cmd cmd; payload_bytes (sc_in s) (mc_input_payload cmd)}"

definition out_bytes :: "cxl_cmd \<Rightarrow> u8 list option" where
  "out_bytes cmd = do {s \<leftarrow> mc_send_cmd cmd; payload_bytes (sc_out s) (mc_output_payload cmd)}"

text \<open>The kernel stores the output where the output pointer says.\<close>

definition store_output :: "u8 list \<Rightarrow> cxl_cmd \<Rightarrow> cxl_cmd" where
  "store_output bs cmd =
     (case mc_send_cmd cmd of
        None \<Rightarrow> cmd
      | Some s \<Rightarrow>
          (case sc_out s of
             No_Payload \<Rightarrow> cmd
           | Lib_Payload \<Rightarrow> cmd\<lparr>mc_output_payload := map_option (\<lambda>b. overlay b bs) (mc_output_payload cmd)\<rparr>
           | User_Payload b \<Rightarrow> cmd\<lparr>mc_send_cmd := Some (s\<lparr>sc_out := User_Payload (overlay b bs)\<rparr>)\<rparr>))"

definition mbox_ioctl :: "'d mbox_sys \<Rightarrow> cxl_cmd \<Rightarrow> mbox_request \<Rightarrow> 'd \<Rightarrow> (int \<times> cxl_cmd \<times> 'd) option" where
  "mbox_ioctl sys cmd ioctl_cmd d =
     (case ioctl_cmd of
        CXL_MEM_QUERY_COMMANDS \<Rightarrow>
          (case mc_query_cmd cmd of
             CNull \<Rightarrow> Some (- EFAULT, cmd, d)
           | CFreed \<Rightarrow> None
           | CLive q \<Rightarrow>
               (case my_query sys (qc_n_commands q) d of (rc, n, cs, d) \<Rightarrow>
                  Some (rc, cmd\<lparr>mc_query_cmd := CLive \<lparr>qc_n_commands = n, qc_commands = overlay (qc_commands q) cs\<rparr>\<rparr>, d)))
      | CXL_MEM_SEND_COMMAND \<Rightarrow>
          (case mc_send_cmd cmd of
             None \<Rightarrow> Some (- EFAULT, cmd, d)
           | Some s \<Rightarrow>
               (case my_send sys s (case in_bytes cmd of None \<Rightarrow> [] | Some b \<Rightarrow> take (nat (sc_in_size s)) b) d of
                  (rc, retval, out_size, bs, d) \<Rightarrow>
                    Some (rc, store_output bs (cmd\<lparr>mc_send_cmd := Some (s\<lparr>sc_retval := retval, sc_out_size := out_size\<rparr>)\<rparr>), d))))"

definition mbox_do_cmd :: "'d mbox_sys \<Rightarrow> cxl_cmd \<Rightarrow> mbox_request \<Rightarrow> 'd \<Rightarrow> (int \<times> cxl_cmd \<times> 'd) option" where
  "mbox_do_cmd sys cmd ioctl_cmd d =
     (if my_open sys d \<noteq> 0 then Some (- my_open sys d, cmd, d)
      else if \<not> my_valid sys d then Some (- ENXIO, cmd, d)
      else mbox_ioctl sys cmd ioctl_cmd d)"

subsection \<open>The query\<close>

definition cxl_cmd_alloc_query :: "'d mbox_sys \<Rightarrow> cxl_cmd \<Rightarrow> int \<Rightarrow> (int \<times> cxl_cmd) option" where
  "cxl_cmd_alloc_query sys cmd num_cmds =
     (if mc_query_cmd cmd = CFreed then None
      else let size = ab_c_size (word_of_int num_cmds) 16 8 in
        if size = - 1 then Some (- EOVERFLOW, if mc_query_cmd cmd = CNull then cmd else cmd\<lparr>mc_query_cmd := CFreed\<rparr>)
        else if \<not> my_calloc sys (unat size) then Some (- ENOMEM, cmd\<lparr>mc_query_cmd := CNull\<rparr>)
        else Some (0, cmd\<lparr>mc_query_cmd := CLive \<lparr>qc_n_commands = word_of_int num_cmds,
               qc_commands = replicate (nat num_cmds) \<lparr>ci_id = 0, ci_flags = 0, ci_size_in = 0, ci_size_out = 0\<rparr>\<rparr>\<rparr>))"

definition alloc_do_query :: "'d mbox_sys \<Rightarrow> cxl_cmd \<Rightarrow> int \<Rightarrow> 'd \<Rightarrow> (int \<times> cxl_cmd \<times> 'd) option" where
  "alloc_do_query sys cmd num_cmds d =
     do {(rc, cmd) \<leftarrow> cxl_cmd_alloc_query sys cmd num_cmds;
         if rc \<noteq> 0 then Some (rc, cmd, d) else mbox_do_cmd sys cmd CXL_MEM_QUERY_COMMANDS d}"

definition cxl_cmd_do_query :: "'d mbox_sys \<Rightarrow> cxl_cmd \<Rightarrow> 'd \<Rightarrow> (int \<times> cxl_cmd \<times> 'd) option" where
  "cxl_cmd_do_query sys cmd d =
     (case mc_query_status cmd of
        CXL_CMD_QUERY_OK \<Rightarrow> Some (0, cmd, d)
      | CXL_CMD_QUERY_UNSUPPORTED \<Rightarrow> Some (- EOPNOTSUPP, cmd, d)
      | CXL_CMD_QUERY_NOT_RUN \<Rightarrow>
          do {(rc, cmd, d) \<leftarrow> alloc_do_query sys cmd 0 d;
              if rc \<noteq> 0 then Some (rc, cmd, d)
              else case mc_query_cmd cmd of
                     CLive q \<Rightarrow> alloc_do_query sys cmd (sint (qc_n_commands q)) d
                   | _ \<Rightarrow> None})"

text \<open>The loop of \<open>cxl_cmd_validate\<close> over the first \<open>n\<close> entries from index \<open>i\<close>; it looks up the name of each entry before it
  compares the number.\<close>

fun find_command :: "cxl_command_info list \<Rightarrow> nat \<Rightarrow> nat \<Rightarrow> u32 \<Rightarrow> nat option option" where
  "find_command cs 0 i cmd_id = Some None"
| "find_command [] (Suc n) i cmd_id = None"
| "find_command (cinfo # cs) (Suc n) i cmd_id =
     (if n_command_names \<le> unat (ci_id cinfo) then None
      else if ci_id cinfo \<noteq> cmd_id then find_command cs n (Suc i) cmd_id
      else Some (Some i))"

definition cxl_cmd_validate :: "cxl_cmd \<Rightarrow> u32 \<Rightarrow> (int \<times> cxl_cmd) option" where
  "cxl_cmd_validate cmd cmd_id =
     (case mc_query_cmd cmd of
        CLive query \<Rightarrow>
          do {found \<leftarrow> find_command (qc_commands query) (unat (qc_n_commands query)) 0 cmd_id;
              case found of
                Some i \<Rightarrow> Some (0, cmd\<lparr>mc_query_idx := i, mc_query_status := CXL_CMD_QUERY_OK\<rparr>)
              | None \<Rightarrow> Some (- EOPNOTSUPP, cmd\<lparr>mc_query_status := CXL_CMD_QUERY_UNSUPPORTED\<rparr>)}
      | _ \<Rightarrow> None)"

subsection \<open>Payload buffers\<close>

text \<open>\<open>buf\<close> is the buffer of the user, or \<open>None\<close> for NULL.\<close>

definition cxl_cmd_set_input_payload ::
  "'d mbox_sys \<Rightarrow> int \<Rightarrow> cxl_cmd \<Rightarrow> u8 list option \<Rightarrow> int \<Rightarrow> (int \<times> cxl_cmd) option" where
  "cxl_cmd_set_input_payload sys payload_max cmd buf sz =
     (if sz > payload_max \<or> sz < 0 then Some (- EINVAL, cmd)
      else case buf of
        None \<Rightarrow>
          if \<not> my_calloc sys (nat sz) then Some (- ENOMEM, cmd\<lparr>mc_input_payload := None\<rparr>)
          else do {s \<leftarrow> mc_send_cmd cmd;
                   Some (0, cmd\<lparr>mc_input_payload := Some (replicate (nat sz) 0),
                                mc_send_cmd := Some (s\<lparr>sc_in := Lib_Payload, sc_in_size := sz\<rparr>)\<rparr>)}
      | Some b \<Rightarrow>
          do {s \<leftarrow> mc_send_cmd cmd; Some (0, cmd\<lparr>mc_send_cmd := Some (s\<lparr>sc_in := User_Payload b, sc_in_size := sz\<rparr>)\<rparr>)})"

definition cxl_cmd_set_output_payload ::
  "'d mbox_sys \<Rightarrow> int \<Rightarrow> cxl_cmd \<Rightarrow> u8 list option \<Rightarrow> int \<Rightarrow> (int \<times> cxl_cmd) option" where
  "cxl_cmd_set_output_payload sys payload_max cmd buf sz =
     (if sz > payload_max \<or> sz < 0 then Some (- EINVAL, cmd)
      else case buf of
        None \<Rightarrow>
          if \<not> my_calloc sys (nat sz) then Some (- ENOMEM, cmd\<lparr>mc_output_payload := None\<rparr>)
          else do {s \<leftarrow> mc_send_cmd cmd;
                   Some (0, cmd\<lparr>mc_output_payload := Some (replicate (nat sz) 0),
                                mc_send_cmd := Some (s\<lparr>sc_out := Lib_Payload, sc_out_size := sz\<rparr>)\<rparr>)}
      | Some b \<Rightarrow>
          do {s \<leftarrow> mc_send_cmd cmd; Some (0, cmd\<lparr>mc_send_cmd := Some (s\<lparr>sc_out := User_Payload b, sc_out_size := sz\<rparr>)\<rparr>)})"

text \<open>The buffers of fixed size that the query announces.\<close>

definition alloc_in :: "'d mbox_sys \<Rightarrow> int \<Rightarrow> cxl_send_command \<Rightarrow> cxl_cmd \<Rightarrow> int \<times> cxl_cmd" where
  "alloc_in sys sz s cmd =
     (if sz \<le> 0 then (0, cmd\<lparr>mc_send_cmd := Some s\<rparr>)
      else if \<not> my_calloc sys (nat sz) then (- ENOMEM, cmd\<lparr>mc_send_cmd := Some s, mc_input_payload := None\<rparr>)
      else (0, cmd\<lparr>mc_send_cmd := Some (s\<lparr>sc_in := Lib_Payload, sc_in_size := sz\<rparr>),
                   mc_input_payload := Some (replicate (nat sz) 0)\<rparr>))"

definition alloc_out :: "'d mbox_sys \<Rightarrow> int \<Rightarrow> cxl_send_command \<Rightarrow> cxl_cmd \<Rightarrow> int \<times> cxl_cmd" where
  "alloc_out sys sz s cmd =
     (if sz \<le> 0 then (0, cmd\<lparr>mc_send_cmd := Some s\<rparr>)
      else if \<not> my_calloc sys (nat sz) then (- ENOMEM, cmd\<lparr>mc_send_cmd := Some s, mc_output_payload := None\<rparr>)
      else (0, cmd\<lparr>mc_send_cmd := Some (s\<lparr>sc_out := Lib_Payload, sc_out_size := sz\<rparr>),
                   mc_output_payload := Some (replicate (nat sz) 0)\<rparr>))"

definition zero_send :: cxl_send_command where
  "zero_send = \<lparr>sc_id = 0, sc_opcode = 0, sc_retval = 0, sc_in_size = 0, sc_in = No_Payload, sc_out_size = 0, sc_out = No_Payload\<rparr>"

definition cxl_cmd_alloc_send :: "'d mbox_sys \<Rightarrow> cxl_cmd \<Rightarrow> u32 \<Rightarrow> (int \<times> cxl_cmd) option" where
  "cxl_cmd_alloc_send sys cmd cmd_id =
     (case mc_query_cmd cmd of
        CLive query \<Rightarrow>
          if \<not> my_calloc sys 48 then Some (- ENOMEM, cmd\<lparr>mc_send_cmd := None\<rparr>)
          else if length (qc_commands query) \<le> mc_query_idx cmd then None
          else let cinfo = qc_commands query ! mc_query_idx cmd in
            if ci_id cinfo \<noteq> cmd_id then Some (- EINVAL, cmd\<lparr>mc_send_cmd := Some zero_send\<rparr>)
            else (case alloc_in sys (ci_size_in cinfo) (zero_send\<lparr>sc_id := cmd_id\<rparr>) cmd of (rc, cmd) \<Rightarrow>
                    if rc \<noteq> 0 then Some (rc, cmd)
                    else do {s \<leftarrow> mc_send_cmd cmd; Some (alloc_out sys (ci_size_out cinfo) s cmd)})
      | _ \<Rightarrow> None)"

text \<open>Creation fails by releasing the command.\<close>

definition drop_cmd :: "cxl_cmd \<Rightarrow> 'd \<Rightarrow> (cxl_cmd option \<times> 'd) option" where
  "drop_cmd cmd d = do {_ \<leftarrow> cxl_cmd_unref (CLive cmd); Some (None, d)}"

definition cxl_cmd_new_generic :: "'d mbox_sys \<Rightarrow> u32 \<Rightarrow> 'd \<Rightarrow> (cxl_cmd option \<times> 'd) option" where
  "cxl_cmd_new_generic sys cmd_id d =
     (case cxl_cmd_new sys of
        None \<Rightarrow> Some (None, d)
      | Some cmd \<Rightarrow>
          do {(rc, cmd, d) \<leftarrow> cxl_cmd_do_query sys cmd d;
              if rc \<noteq> 0 then drop_cmd cmd d
              else do {
                (rc, cmd) \<leftarrow> cxl_cmd_validate cmd cmd_id;
                if rc \<noteq> 0 then drop_cmd cmd d
                else do {
                  (rc, cmd) \<leftarrow> cxl_cmd_alloc_send sys cmd cmd_id;
                  if rc \<noteq> 0 then drop_cmd cmd d
                  else Some (Some (cmd\<lparr>mc_status := 1\<rparr>), d)}}})"

definition cxl_cmd_submit :: "'d mbox_sys \<Rightarrow> cxl_cmd \<Rightarrow> 'd \<Rightarrow> (int \<times> cxl_cmd \<times> 'd) option" where
  "cxl_cmd_submit sys cmd d =
     (case mc_query_status cmd of
        CXL_CMD_QUERY_UNSUPPORTED \<Rightarrow> Some (- EOPNOTSUPP, cmd, d)
      | CXL_CMD_QUERY_NOT_RUN \<Rightarrow> Some (- EINVAL, cmd, d)
      | CXL_CMD_QUERY_OK \<Rightarrow>
          do {(rc, cmd, d) \<leftarrow> mbox_do_cmd sys cmd CXL_MEM_SEND_COMMAND d;
              s \<leftarrow> mc_send_cmd cmd;
              Some (rc, cmd\<lparr>mc_status := sint (sc_retval s)\<rparr>, d)})"

definition cxl_cmd_get_mbox_status :: "cxl_cmd \<Rightarrow> int" where
  "cxl_cmd_get_mbox_status cmd = mc_status cmd"

definition cxl_cmd_get_out_size :: "cxl_cmd \<Rightarrow> int option" where
  "cxl_cmd_get_out_size cmd = map_option sc_out_size (mc_send_cmd cmd)"

subsection \<open>Accessors\<close>

definition cxl_cmd_validate_status :: "cxl_cmd \<Rightarrow> u32 \<Rightarrow> int option" where
  "cxl_cmd_validate_status cmd cid =
     do {s \<leftarrow> mc_send_cmd cmd; Some (if sc_id s \<noteq> cid then - EINVAL else if mc_status cmd < 0 then mc_status cmd else 0)}"

definition CXL_CAPACITY_MULTIPLIER :: u64 where [simp]: "CXL_CAPACITY_MULTIPLIER = 0x10000000"

definition cxl_capacity_to_bytes :: "u64 \<Rightarrow> u64" where
  "cxl_capacity_to_bytes sz = sz * CXL_CAPACITY_MULTIPLIER"

text \<open>The macros of the field accessors, with the number of the command and the offset of the field.\<close>

definition get_out :: "cxl_cmd \<Rightarrow> u32 \<Rightarrow> (u8 list \<Rightarrow> int option) \<Rightarrow> int option" where
  "get_out cmd cid get =
     do {rc \<leftarrow> cxl_cmd_validate_status cmd cid; if rc \<noteq> 0 then Some rc else do {c \<leftarrow> out_bytes cmd; get c}}"

definition cmd_get_field_u8 :: "cxl_cmd \<Rightarrow> u32 \<Rightarrow> nat \<Rightarrow> int option" where
  "cmd_get_field_u8 cmd cid ofs = get_out cmd cid (\<lambda>c. do {v \<leftarrow> buf_get 1 ofs c; Some (uint (v :: u8))})"

definition cmd_get_field_u16 :: "cxl_cmd \<Rightarrow> u32 \<Rightarrow> nat \<Rightarrow> int option" where
  "cmd_get_field_u16 cmd cid ofs = get_out cmd cid (\<lambda>c. do {v \<leftarrow> buf_get 2 ofs c; Some (uint (v :: u16))})"

definition cmd_get_field_u32 :: "cxl_cmd \<Rightarrow> u32 \<Rightarrow> nat \<Rightarrow> int option" where
  "cmd_get_field_u32 cmd cid ofs = get_out cmd cid (\<lambda>c. do {v \<leftarrow> buf_get 4 ofs c; Some (sint (v :: u32))})"

definition cmd_get_field_u8_mask :: "cxl_cmd \<Rightarrow> u32 \<Rightarrow> nat \<Rightarrow> u8 \<Rightarrow> int option" where
  "cmd_get_field_u8_mask cmd cid ofs m = get_out cmd cid (\<lambda>c. do {v \<leftarrow> buf_get 1 ofs c; Some (if v AND m \<noteq> 0 then 1 else 0)})"

subsection \<open>Alert configuration\<close>

definition cxl_cmd_new_get_alert_config :: "'d mbox_sys \<Rightarrow> 'd \<Rightarrow> (cxl_cmd option \<times> 'd) option" where
  "cxl_cmd_new_get_alert_config sys d = cxl_cmd_new_generic sys CXL_MEM_COMMAND_ID_GET_ALERT_CONFIG d"

definition cmd_alert_get_valid_alerts_field :: "cxl_cmd \<Rightarrow> u8 \<Rightarrow> int option" where
  "cmd_alert_get_valid_alerts_field cmd m = cmd_get_field_u8_mask cmd CXL_MEM_COMMAND_ID_GET_ALERT_CONFIG 0 m"

definition cmd_alert_get_prog_alerts_field :: "cxl_cmd \<Rightarrow> u8 \<Rightarrow> int option" where
  "cmd_alert_get_prog_alerts_field cmd m = cmd_get_field_u8_mask cmd CXL_MEM_COMMAND_ID_GET_ALERT_CONFIG 1 m"

definition cxl_cmd_alert_config_life_used_prog_warn_threshold_valid :: "cxl_cmd \<Rightarrow> int option" where
  "cxl_cmd_alert_config_life_used_prog_warn_threshold_valid cmd = cmd_alert_get_valid_alerts_field cmd 1"

definition cxl_cmd_alert_config_dev_over_temperature_prog_warn_threshold_valid :: "cxl_cmd \<Rightarrow> int option" where
  "cxl_cmd_alert_config_dev_over_temperature_prog_warn_threshold_valid cmd = cmd_alert_get_valid_alerts_field cmd 2"

definition cxl_cmd_alert_config_dev_under_temperature_prog_warn_threshold_valid :: "cxl_cmd \<Rightarrow> int option" where
  "cxl_cmd_alert_config_dev_under_temperature_prog_warn_threshold_valid cmd = cmd_alert_get_valid_alerts_field cmd 4"

definition cxl_cmd_alert_config_corrected_volatile_mem_err_prog_warn_threshold_valid :: "cxl_cmd \<Rightarrow> int option" where
  "cxl_cmd_alert_config_corrected_volatile_mem_err_prog_warn_threshold_valid cmd = cmd_alert_get_valid_alerts_field cmd 8"

definition cxl_cmd_alert_config_corrected_pmem_err_prog_warn_threshold_valid :: "cxl_cmd \<Rightarrow> int option" where
  "cxl_cmd_alert_config_corrected_pmem_err_prog_warn_threshold_valid cmd = cmd_alert_get_valid_alerts_field cmd 16"

definition cxl_cmd_alert_config_life_used_prog_warn_threshold_writable :: "cxl_cmd \<Rightarrow> int option" where
  "cxl_cmd_alert_config_life_used_prog_warn_threshold_writable cmd = cmd_alert_get_prog_alerts_field cmd 1"

definition cxl_cmd_alert_config_dev_over_temperature_prog_warn_threshold_writable :: "cxl_cmd \<Rightarrow> int option" where
  "cxl_cmd_alert_config_dev_over_temperature_prog_warn_threshold_writable cmd = cmd_alert_get_prog_alerts_field cmd 2"

definition cxl_cmd_alert_config_dev_under_temperature_prog_warn_threshold_writable :: "cxl_cmd \<Rightarrow> int option" where
  "cxl_cmd_alert_config_dev_under_temperature_prog_warn_threshold_writable cmd = cmd_alert_get_prog_alerts_field cmd 4"

definition cxl_cmd_alert_config_corrected_volatile_mem_err_prog_warn_threshold_writable :: "cxl_cmd \<Rightarrow> int option" where
  "cxl_cmd_alert_config_corrected_volatile_mem_err_prog_warn_threshold_writable cmd = cmd_alert_get_prog_alerts_field cmd 8"

definition cxl_cmd_alert_config_corrected_pmem_err_prog_warn_threshold_writable :: "cxl_cmd \<Rightarrow> int option" where
  "cxl_cmd_alert_config_corrected_pmem_err_prog_warn_threshold_writable cmd = cmd_alert_get_prog_alerts_field cmd 16"

definition cxl_cmd_alert_config_get_life_used_crit_alert_threshold :: "cxl_cmd \<Rightarrow> int option" where
  "cxl_cmd_alert_config_get_life_used_crit_alert_threshold cmd = cmd_get_field_u8 cmd CXL_MEM_COMMAND_ID_GET_ALERT_CONFIG 2"

definition cxl_cmd_alert_config_get_life_used_prog_warn_threshold :: "cxl_cmd \<Rightarrow> int option" where
  "cxl_cmd_alert_config_get_life_used_prog_warn_threshold cmd = cmd_get_field_u8 cmd CXL_MEM_COMMAND_ID_GET_ALERT_CONFIG 3"

definition cxl_cmd_alert_config_get_dev_over_temperature_crit_alert_threshold :: "cxl_cmd \<Rightarrow> int option" where
  "cxl_cmd_alert_config_get_dev_over_temperature_crit_alert_threshold cmd = cmd_get_field_u16 cmd CXL_MEM_COMMAND_ID_GET_ALERT_CONFIG 4"

definition cxl_cmd_alert_config_get_dev_under_temperature_crit_alert_threshold :: "cxl_cmd \<Rightarrow> int option" where
  "cxl_cmd_alert_config_get_dev_under_temperature_crit_alert_threshold cmd = cmd_get_field_u16 cmd CXL_MEM_COMMAND_ID_GET_ALERT_CONFIG 6"

definition cxl_cmd_alert_config_get_dev_over_temperature_prog_warn_threshold :: "cxl_cmd \<Rightarrow> int option" where
  "cxl_cmd_alert_config_get_dev_over_temperature_prog_warn_threshold cmd = cmd_get_field_u16 cmd CXL_MEM_COMMAND_ID_GET_ALERT_CONFIG 8"

definition cxl_cmd_alert_config_get_dev_under_temperature_prog_warn_threshold :: "cxl_cmd \<Rightarrow> int option" where
  "cxl_cmd_alert_config_get_dev_under_temperature_prog_warn_threshold cmd = cmd_get_field_u16 cmd CXL_MEM_COMMAND_ID_GET_ALERT_CONFIG 10"

definition cxl_cmd_alert_config_get_corrected_volatile_mem_err_prog_warn_threshold :: "cxl_cmd \<Rightarrow> int option" where
  "cxl_cmd_alert_config_get_corrected_volatile_mem_err_prog_warn_threshold cmd = cmd_get_field_u16 cmd CXL_MEM_COMMAND_ID_GET_ALERT_CONFIG 12"

definition cxl_cmd_alert_config_get_corrected_pmem_err_prog_warn_threshold :: "cxl_cmd \<Rightarrow> int option" where
  "cxl_cmd_alert_config_get_corrected_pmem_err_prog_warn_threshold cmd = cmd_get_field_u16 cmd CXL_MEM_COMMAND_ID_GET_ALERT_CONFIG 14"

subsection \<open>Health\<close>

definition cxl_cmd_new_get_health_info :: "'d mbox_sys \<Rightarrow> 'd \<Rightarrow> (cxl_cmd option \<times> 'd) option" where
  "cxl_cmd_new_get_health_info sys d = cxl_cmd_new_generic sys CXL_MEM_COMMAND_ID_GET_HEALTH_INFO d"

definition cmd_health_get_status_field :: "cxl_cmd \<Rightarrow> u8 \<Rightarrow> int option" where
  "cmd_health_get_status_field cmd m = cmd_get_field_u8_mask cmd CXL_MEM_COMMAND_ID_GET_HEALTH_INFO 0 m"

definition cxl_cmd_health_info_get_maintenance_needed :: "cxl_cmd \<Rightarrow> int option" where
  "cxl_cmd_health_info_get_maintenance_needed cmd = cmd_health_get_status_field cmd 1"

definition cxl_cmd_health_info_get_performance_degraded :: "cxl_cmd \<Rightarrow> int option" where
  "cxl_cmd_health_info_get_performance_degraded cmd = cmd_health_get_status_field cmd 2"

definition cxl_cmd_health_info_get_hw_replacement_needed :: "cxl_cmd \<Rightarrow> int option" where
  "cxl_cmd_health_info_get_hw_replacement_needed cmd = cmd_health_get_status_field cmd 4"

definition cmd_health_check_media_field :: "cxl_cmd \<Rightarrow> u8 \<Rightarrow> int option" where
  "cmd_health_check_media_field cmd f =
     get_out cmd CXL_MEM_COMMAND_ID_GET_HEALTH_INFO (\<lambda>c. do {v \<leftarrow> buf_get 1 1 c; Some (if v = f then 1 else 0)})"

definition cxl_cmd_health_info_get_media_normal :: "cxl_cmd \<Rightarrow> int option" where
  "cxl_cmd_health_info_get_media_normal cmd = cmd_health_check_media_field cmd 0"

definition cxl_cmd_health_info_get_media_not_ready :: "cxl_cmd \<Rightarrow> int option" where
  "cxl_cmd_health_info_get_media_not_ready cmd = cmd_health_check_media_field cmd 1"

definition cxl_cmd_health_info_get_media_persistence_lost :: "cxl_cmd \<Rightarrow> int option" where
  "cxl_cmd_health_info_get_media_persistence_lost cmd = cmd_health_check_media_field cmd 2"

definition cxl_cmd_health_info_get_media_data_lost :: "cxl_cmd \<Rightarrow> int option" where
  "cxl_cmd_health_info_get_media_data_lost cmd = cmd_health_check_media_field cmd 3"

definition cxl_cmd_health_info_get_media_powerloss_persistence_loss :: "cxl_cmd \<Rightarrow> int option" where
  "cxl_cmd_health_info_get_media_powerloss_persistence_loss cmd = cmd_health_check_media_field cmd 4"

definition cxl_cmd_health_info_get_media_shutdown_persistence_loss :: "cxl_cmd \<Rightarrow> int option" where
  "cxl_cmd_health_info_get_media_shutdown_persistence_loss cmd = cmd_health_check_media_field cmd 5"

definition cxl_cmd_health_info_get_media_persistence_loss_imminent :: "cxl_cmd \<Rightarrow> int option" where
  "cxl_cmd_health_info_get_media_persistence_loss_imminent cmd = cmd_health_check_media_field cmd 6"

definition cxl_cmd_health_info_get_media_powerloss_data_loss :: "cxl_cmd \<Rightarrow> int option" where
  "cxl_cmd_health_info_get_media_powerloss_data_loss cmd = cmd_health_check_media_field cmd 7"

definition cxl_cmd_health_info_get_media_shutdown_data_loss :: "cxl_cmd \<Rightarrow> int option" where
  "cxl_cmd_health_info_get_media_shutdown_data_loss cmd = cmd_health_check_media_field cmd 8"

definition cxl_cmd_health_info_get_media_data_loss_imminent :: "cxl_cmd \<Rightarrow> int option" where
  "cxl_cmd_health_info_get_media_data_loss_imminent cmd = cmd_health_check_media_field cmd 9"

text \<open>\<open>FIELD_GET\<close> with the mask given by its lowest bit and its width.\<close>

definition cmd_health_check_ext_field :: "cxl_cmd \<Rightarrow> nat \<Rightarrow> nat \<Rightarrow> u8 \<Rightarrow> int option" where
  "cmd_health_check_ext_field cmd shift width type =
     get_out cmd CXL_MEM_COMMAND_ID_GET_HEALTH_INFO
       (\<lambda>c. do {v \<leftarrow> buf_get 1 2 c; Some (if drop_bit shift (v AND push_bit shift (mask width)) = type then 1 else 0)})"

definition cxl_cmd_health_info_get_ext_life_used_normal :: "cxl_cmd \<Rightarrow> int option" where
  "cxl_cmd_health_info_get_ext_life_used_normal cmd = cmd_health_check_ext_field cmd 0 2 0"

definition cxl_cmd_health_info_get_ext_life_used_warning :: "cxl_cmd \<Rightarrow> int option" where
  "cxl_cmd_health_info_get_ext_life_used_warning cmd = cmd_health_check_ext_field cmd 0 2 1"

definition cxl_cmd_health_info_get_ext_life_used_critical :: "cxl_cmd \<Rightarrow> int option" where
  "cxl_cmd_health_info_get_ext_life_used_critical cmd = cmd_health_check_ext_field cmd 0 2 2"

definition cxl_cmd_health_info_get_ext_temperature_normal :: "cxl_cmd \<Rightarrow> int option" where
  "cxl_cmd_health_info_get_ext_temperature_normal cmd = cmd_health_check_ext_field cmd 2 2 0"

definition cxl_cmd_health_info_get_ext_temperature_warning :: "cxl_cmd \<Rightarrow> int option" where
  "cxl_cmd_health_info_get_ext_temperature_warning cmd = cmd_health_check_ext_field cmd 2 2 1"

definition cxl_cmd_health_info_get_ext_temperature_critical :: "cxl_cmd \<Rightarrow> int option" where
  "cxl_cmd_health_info_get_ext_temperature_critical cmd = cmd_health_check_ext_field cmd 2 2 2"

definition cxl_cmd_health_info_get_ext_corrected_volatile_normal :: "cxl_cmd \<Rightarrow> int option" where
  "cxl_cmd_health_info_get_ext_corrected_volatile_normal cmd = cmd_health_check_ext_field cmd 4 1 0"

definition cxl_cmd_health_info_get_ext_corrected_volatile_warning :: "cxl_cmd \<Rightarrow> int option" where
  "cxl_cmd_health_info_get_ext_corrected_volatile_warning cmd = cmd_health_check_ext_field cmd 4 1 1"

definition cxl_cmd_health_info_get_ext_corrected_persistent_normal :: "cxl_cmd \<Rightarrow> int option" where
  "cxl_cmd_health_info_get_ext_corrected_persistent_normal cmd = cmd_health_check_ext_field cmd 5 1 0"

definition cxl_cmd_health_info_get_ext_corrected_persistent_warning :: "cxl_cmd \<Rightarrow> int option" where
  "cxl_cmd_health_info_get_ext_corrected_persistent_warning cmd = cmd_health_check_ext_field cmd 5 1 1"

definition health_info_get_life_used_raw :: "cxl_cmd \<Rightarrow> int option" where
  "health_info_get_life_used_raw cmd = cmd_get_field_u8 cmd CXL_MEM_COMMAND_ID_GET_HEALTH_INFO 3"

definition cxl_cmd_health_info_get_life_used :: "cxl_cmd \<Rightarrow> int option" where
  "cxl_cmd_health_info_get_life_used cmd =
     do {rc \<leftarrow> health_info_get_life_used_raw cmd; Some (if rc < 0 then rc else if rc = 0xff then - EOPNOTSUPP else rc)}"

definition health_info_get_temperature_raw :: "cxl_cmd \<Rightarrow> int option" where
  "health_info_get_temperature_raw cmd = cmd_get_field_u16 cmd CXL_MEM_COMMAND_ID_GET_HEALTH_INFO 4"

definition cxl_cmd_health_info_get_temperature :: "cxl_cmd \<Rightarrow> int option" where
  "cxl_cmd_health_info_get_temperature cmd =
     do {rc \<leftarrow> health_info_get_temperature_raw cmd; Some (if rc < 0 then rc else if rc = 0xffff then - EOPNOTSUPP else rc)}"

definition cxl_cmd_health_info_get_dirty_shutdowns :: "cxl_cmd \<Rightarrow> int option" where
  "cxl_cmd_health_info_get_dirty_shutdowns cmd = cmd_get_field_u32 cmd CXL_MEM_COMMAND_ID_GET_HEALTH_INFO 6"

definition cxl_cmd_health_info_get_volatile_errors :: "cxl_cmd \<Rightarrow> int option" where
  "cxl_cmd_health_info_get_volatile_errors cmd = cmd_get_field_u32 cmd CXL_MEM_COMMAND_ID_GET_HEALTH_INFO 10"

definition cxl_cmd_health_info_get_pmem_errors :: "cxl_cmd \<Rightarrow> int option" where
  "cxl_cmd_health_info_get_pmem_errors cmd = cmd_get_field_u32 cmd CXL_MEM_COMMAND_ID_GET_HEALTH_INFO 14"

subsection \<open>Identification\<close>

definition cxl_cmd_new_identify :: "'d mbox_sys \<Rightarrow> 'd \<Rightarrow> (cxl_cmd option \<times> 'd) option" where
  "cxl_cmd_new_identify sys d = cxl_cmd_new_generic sys CXL_MEM_COMMAND_ID_IDENTIFY d"

text \<open>\<open>cmd_to_identify\<close> and its likes return the buffer of the library, \<open>Some None\<close> for NULL.\<close>

definition lib_output :: "cxl_cmd \<Rightarrow> u32 \<Rightarrow> u8 list option option" where
  "lib_output cmd cid =
     do {rc \<leftarrow> cxl_cmd_validate_status cmd cid; Some (if rc \<noteq> 0 then None else mc_output_payload cmd)}"

definition capacity_field :: "nat \<Rightarrow> u8 list option \<Rightarrow> u64 option" where
  "capacity_field ofs c =
     (case c of None \<Rightarrow> Some ULLONG_MAX | Some b \<Rightarrow> do {v \<leftarrow> buf_get 8 ofs b; Some (cxl_capacity_to_bytes v)})"

definition cmd_to_identify :: "cxl_cmd \<Rightarrow> u8 list option option" where
  "cmd_to_identify cmd = lib_output cmd CXL_MEM_COMMAND_ID_IDENTIFY"

text \<open>The bytes copied to the caller's buffer.\<close>

definition cxl_cmd_identify_get_fw_rev :: "cxl_cmd \<Rightarrow> int \<Rightarrow> (int \<times> u8 list) option" where
  "cxl_cmd_identify_get_fw_rev cmd fw_len =
     do {s \<leftarrow> mc_send_cmd cmd;
         if sc_id s \<noteq> CXL_MEM_COMMAND_ID_IDENTIFY then Some (- EINVAL, [])
         else if mc_status cmd < 0 then Some (mc_status cmd, [])
         else if fw_len > 0 then do {b \<leftarrow> out_bytes cmd; bs \<leftarrow> buf_read (nat (min fw_len 16)) 0 b; Some (0, bs)}
         else Some (0, [])}"

definition cxl_cmd_identify_get_partition_align :: "cxl_cmd \<Rightarrow> u64 option" where
  "cxl_cmd_identify_get_partition_align cmd = do {c \<leftarrow> cmd_to_identify cmd; capacity_field 40 c}"

text \<open>An error becomes a huge unsigned number.\<close>

definition cxl_cmd_identify_get_label_size :: "cxl_cmd \<Rightarrow> u32 option" where
  "cxl_cmd_identify_get_label_size cmd =
     do {s \<leftarrow> mc_send_cmd cmd;
         if sc_id s \<noteq> CXL_MEM_COMMAND_ID_IDENTIFY then Some (word_of_int (- EINVAL))
         else if mc_status cmd < 0 then Some (word_of_int (mc_status cmd))
         else do {b \<leftarrow> out_bytes cmd; buf_get 4 56 b}}"

definition cxl_cmd_identify_get_total_size :: "cxl_cmd \<Rightarrow> u64 option" where
  "cxl_cmd_identify_get_total_size cmd = do {c \<leftarrow> cmd_to_identify cmd; capacity_field 16 c}"

definition cxl_cmd_identify_get_volatile_only_size :: "cxl_cmd \<Rightarrow> u64 option" where
  "cxl_cmd_identify_get_volatile_only_size cmd = do {c \<leftarrow> cmd_to_identify cmd; capacity_field 24 c}"

definition cxl_cmd_identify_get_persistent_only_size :: "cxl_cmd \<Rightarrow> u64 option" where
  "cxl_cmd_identify_get_persistent_only_size cmd = do {c \<leftarrow> cmd_to_identify cmd; capacity_field 32 c}"

definition cxl_cmd_new_raw :: "'d mbox_sys \<Rightarrow> int \<Rightarrow> 'd \<Rightarrow> (cxl_cmd option \<times> 'd) option" where
  "cxl_cmd_new_raw sys opcode d =
     (if opcode \<le> 0 then Some (None, d)
      else do {(p, d) \<leftarrow> cxl_cmd_new_generic sys CXL_MEM_COMMAND_ID_RAW d;
               case p of
                 None \<Rightarrow> Some (None, d)
               | Some cmd \<Rightarrow> do {s \<leftarrow> mc_send_cmd cmd;
                               Some (Some (cmd\<lparr>mc_send_cmd := Some (s\<lparr>sc_opcode := word_of_int opcode\<rparr>)\<rparr>), d)}})"

subsection \<open>Label commands\<close>

text \<open>Storing into the input payload, through \<open>send_cmd->in.payload\<close> and through \<open>input_payload\<close>.\<close>

definition update_in :: "(u8 list \<Rightarrow> u8 list option) \<Rightarrow> cxl_cmd \<Rightarrow> cxl_cmd option" where
  "update_in f cmd =
     do {s \<leftarrow> mc_send_cmd cmd;
         b \<leftarrow> in_bytes cmd;
         b' \<leftarrow> f b;
         case sc_in s of
           User_Payload _ \<Rightarrow> Some (cmd\<lparr>mc_send_cmd := Some (s\<lparr>sc_in := User_Payload b'\<rparr>)\<rparr>)
         | _ \<Rightarrow> Some (cmd\<lparr>mc_input_payload := Some b'\<rparr>)}"

definition update_lib_in :: "(u8 list \<Rightarrow> u8 list option) \<Rightarrow> cxl_cmd \<Rightarrow> cxl_cmd option" where
  "update_lib_in f cmd = do {b \<leftarrow> mc_input_payload cmd; b' \<leftarrow> f b; Some (cmd\<lparr>mc_input_payload := Some b'\<rparr>)}"

definition cxl_cmd_new_read_label :: "'d mbox_sys \<Rightarrow> u32 \<Rightarrow> u32 \<Rightarrow> 'd \<Rightarrow> (cxl_cmd option \<times> 'd) option" where
  "cxl_cmd_new_read_label sys offset len d =
     do {(p, d) \<leftarrow> cxl_cmd_new_generic sys CXL_MEM_COMMAND_ID_GET_LSA d;
         case p of
           None \<Rightarrow> Some (None, d)
         | Some cmd \<Rightarrow> do {cmd \<leftarrow> update_in (buf_put 4 offset 0) cmd;
                         cmd \<leftarrow> update_in (buf_put 4 len 4) cmd;
                         Some (Some cmd, d)}}"

text \<open>The result is the return value and the bytes copied to \<open>buf\<close>.\<close>

definition cxl_cmd_read_label_get_payload :: "cxl_cmd \<Rightarrow> u32 \<Rightarrow> (int \<times> u8 list) option" where
  "cxl_cmd_read_label_get_payload cmd len =
     do {rc \<leftarrow> cxl_cmd_validate_status cmd CXL_MEM_COMMAND_ID_GET_LSA;
         if rc \<noteq> 0 then Some (rc, [])
         else do {b \<leftarrow> in_bytes cmd;
                  n \<leftarrow> buf_get 4 4 b;
                  if len > n then Some (- EINVAL, [])
                  else do {ob \<leftarrow> out_bytes cmd; bs \<leftarrow> buf_read (unat len) 0 ob; Some (uint len, bs)}}}"

definition cxl_cmd_new_write_label :: "'d mbox_sys \<Rightarrow> int \<Rightarrow> u8 list \<Rightarrow> u32 \<Rightarrow> u32 \<Rightarrow> 'd \<Rightarrow> (cxl_cmd option \<times> 'd) option" where
  "cxl_cmd_new_write_label sys payload_max lsa_buf offset len d =
     do {(p, d) \<leftarrow> cxl_cmd_new_generic sys CXL_MEM_COMMAND_ID_SET_LSA d;
         case p of
           None \<Rightarrow> Some (None, d)
         | Some cmd \<Rightarrow>
             do {(rc, cmd) \<leftarrow> cxl_cmd_set_input_payload sys payload_max cmd None (sint (ucast (8 + ucast len :: u64) :: u32));
                 if rc \<noteq> 0 then drop_cmd cmd d
                 else do {cmd \<leftarrow> update_in (buf_put 4 offset 0) cmd;
                          bs \<leftarrow> buf_read (unat len) 0 lsa_buf;
                          cmd \<leftarrow> update_in (buf_store bs 8) cmd;
                          Some (Some cmd, d)}}}"

subsection \<open>Partitions\<close>

definition cxl_cmd_new_get_partition :: "'d mbox_sys \<Rightarrow> 'd \<Rightarrow> (cxl_cmd option \<times> 'd) option" where
  "cxl_cmd_new_get_partition sys d = cxl_cmd_new_generic sys CXL_MEM_COMMAND_ID_GET_PARTITION_INFO d"

definition cmd_to_get_partition :: "cxl_cmd \<Rightarrow> u8 list option option" where
  "cmd_to_get_partition cmd = lib_output cmd CXL_MEM_COMMAND_ID_GET_PARTITION_INFO"

definition cxl_cmd_partition_get_active_volatile_size :: "cxl_cmd \<Rightarrow> u64 option" where
  "cxl_cmd_partition_get_active_volatile_size cmd = do {c \<leftarrow> cmd_to_get_partition cmd; capacity_field 0 c}"

definition cxl_cmd_partition_get_active_persistent_size :: "cxl_cmd \<Rightarrow> u64 option" where
  "cxl_cmd_partition_get_active_persistent_size cmd = do {c \<leftarrow> cmd_to_get_partition cmd; capacity_field 8 c}"

definition cxl_cmd_partition_get_next_volatile_size :: "cxl_cmd \<Rightarrow> u64 option" where
  "cxl_cmd_partition_get_next_volatile_size cmd = do {c \<leftarrow> cmd_to_get_partition cmd; capacity_field 16 c}"

definition cxl_cmd_partition_get_next_persistent_size :: "cxl_cmd \<Rightarrow> u64 option" where
  "cxl_cmd_partition_get_next_persistent_size cmd = do {c \<leftarrow> cmd_to_get_partition cmd; capacity_field 24 c}"

datatype cxl_setpartition_mode = CXL_SETPART_NEXTBOOT | CXL_SETPART_IMMEDIATE

definition cxl_cmd_partition_set_mode :: "cxl_cmd \<Rightarrow> cxl_setpartition_mode \<Rightarrow> cxl_cmd option" where
  "cxl_cmd_partition_set_mode cmd mode =
     update_lib_in (buf_put 1 (if mode = CXL_SETPART_IMMEDIATE then 1 else 0 :: u8) 8) cmd"

text \<open>The command is not compared with NULL.\<close>

definition cxl_cmd_new_set_partition :: "'d mbox_sys \<Rightarrow> u64 \<Rightarrow> 'd \<Rightarrow> (cxl_cmd \<times> 'd) option" where
  "cxl_cmd_new_set_partition sys volatile_size d =
     do {(p, d) \<leftarrow> cxl_cmd_new_generic sys CXL_MEM_COMMAND_ID_SET_PARTITION_INFO d;
         cmd \<leftarrow> p;
         cmd \<leftarrow> update_lib_in (buf_put 8 (volatile_size div CXL_CAPACITY_MULTIPLIER) 0) cmd;
         Some (cmd, d)}"

subsection \<open>Firmware information\<close>

definition cxl_cmd_new_get_fw_info :: "'d mbox_sys \<Rightarrow> 'd \<Rightarrow> (cxl_cmd option \<times> 'd) option" where
  "cxl_cmd_new_get_fw_info sys d = cxl_cmd_new_generic sys CXL_MEM_COMMAND_ID_GET_FW_INFO d"

definition cmd_to_get_fw_info :: "cxl_cmd \<Rightarrow> u8 list option option" where
  "cmd_to_get_fw_info cmd = lib_output cmd CXL_MEM_COMMAND_ID_GET_FW_INFO"

definition fw_info_byte :: "nat \<Rightarrow> u8 list option \<Rightarrow> u8 option" where
  "fw_info_byte ofs c = (case c of None \<Rightarrow> Some 0 | Some b \<Rightarrow> buf_get 1 ofs b)"

definition cxl_cmd_fw_info_get_num_slots :: "cxl_cmd \<Rightarrow> nat option" where
  "cxl_cmd_fw_info_get_num_slots cmd = do {c \<leftarrow> cmd_to_get_fw_info cmd; v \<leftarrow> fw_info_byte 0 c; Some (unat v)}"

definition cxl_cmd_fw_info_get_active_slot :: "cxl_cmd \<Rightarrow> nat option" where
  "cxl_cmd_fw_info_get_active_slot cmd = do {c \<leftarrow> cmd_to_get_fw_info cmd; v \<leftarrow> fw_info_byte 1 c; Some (unat (v AND mask 3))}"

definition cxl_cmd_fw_info_get_staged_slot :: "cxl_cmd \<Rightarrow> nat option" where
  "cxl_cmd_fw_info_get_staged_slot cmd =
     do {c \<leftarrow> cmd_to_get_fw_info cmd; v \<leftarrow> fw_info_byte 1 c; Some (unat (drop_bit 3 (v AND push_bit 3 (mask 3))))}"

definition cxl_cmd_fw_info_get_online_activate_capable :: "cxl_cmd \<Rightarrow> bool option" where
  "cxl_cmd_fw_info_get_online_activate_capable cmd =
     do {c \<leftarrow> cmd_to_get_fw_info cmd; v \<leftarrow> fw_info_byte 2 c; Some (v AND 1 \<noteq> 0)}"

definition cxl_cmd_fw_info_get_fw_ver :: "cxl_cmd \<Rightarrow> int \<Rightarrow> u32 \<Rightarrow> (int \<times> u8 list) option" where
  "cxl_cmd_fw_info_get_fw_ver cmd slot len =
     do {c \<leftarrow> cmd_to_get_fw_info cmd;
         case c of
           None \<Rightarrow> Some (- ENXIO, [])
         | Some b \<Rightarrow>
             if len = 0 then Some (- EINVAL, [])
             else if slot \<notin> {1, 2, 3, 4} then Some (- EINVAL, [])
             else do {v \<leftarrow> buf_get 1 (16 * nat slot) b;
                      if v = (0 :: u8) then Some (- ENOENT, [])
                      else do {bs \<leftarrow> buf_read (min (unat len) 16) (16 * nat slot) b; Some (0, bs)}}}"

subsection \<open>Setting alerts\<close>

definition cxl_cmd_new_set_alert_config :: "'d mbox_sys \<Rightarrow> 'd \<Rightarrow> (cxl_cmd option \<times> 'd) option" where
  "cxl_cmd_new_set_alert_config sys d = cxl_cmd_new_generic sys CXL_MEM_COMMAND_ID_SET_ALERT_CONFIG d"

text \<open>The macro of the setters; the offset and the width are those of the field.\<close>

definition cxl_alert_config_set_field :: "nat \<Rightarrow> nat \<Rightarrow> cxl_cmd \<Rightarrow> int \<Rightarrow> cxl_cmd option" where
  "cxl_alert_config_set_field n ofs cmd val = update_lib_in (buf_put n (word_of_int val :: u32) ofs) cmd"

definition cxl_cmd_alert_config_set_life_used_prog_warn_threshold :: "cxl_cmd \<Rightarrow> int \<Rightarrow> cxl_cmd option" where
  "cxl_cmd_alert_config_set_life_used_prog_warn_threshold = cxl_alert_config_set_field 1 2"

definition cxl_cmd_alert_config_set_dev_over_temperature_prog_warn_threshold :: "cxl_cmd \<Rightarrow> int \<Rightarrow> cxl_cmd option" where
  "cxl_cmd_alert_config_set_dev_over_temperature_prog_warn_threshold = cxl_alert_config_set_field 2 4"

definition cxl_cmd_alert_config_set_dev_under_temperature_prog_warn_threshold :: "cxl_cmd \<Rightarrow> int \<Rightarrow> cxl_cmd option" where
  "cxl_cmd_alert_config_set_dev_under_temperature_prog_warn_threshold = cxl_alert_config_set_field 2 6"

definition cxl_cmd_alert_config_set_corrected_volatile_mem_err_prog_warn_threshold :: "cxl_cmd \<Rightarrow> int \<Rightarrow> cxl_cmd option" where
  "cxl_cmd_alert_config_set_corrected_volatile_mem_err_prog_warn_threshold = cxl_alert_config_set_field 2 8"

definition cxl_cmd_alert_config_set_corrected_pmem_err_prog_warn_threshold :: "cxl_cmd \<Rightarrow> int \<Rightarrow> cxl_cmd option" where
  "cxl_cmd_alert_config_set_corrected_pmem_err_prog_warn_threshold = cxl_alert_config_set_field 2 10"

definition cxl_cmd_alert_config_set_valid_alert_actions :: "cxl_cmd \<Rightarrow> int \<Rightarrow> cxl_cmd option" where
  "cxl_cmd_alert_config_set_valid_alert_actions = cxl_alert_config_set_field 1 0"

definition cxl_cmd_alert_config_set_enable_alert_actions :: "cxl_cmd \<Rightarrow> int \<Rightarrow> cxl_cmd option" where
  "cxl_cmd_alert_config_set_enable_alert_actions = cxl_alert_config_set_field 1 1"

subsection \<open>The label storage area in pieces\<close>

datatype lsa_oper = LSA_OP_GET | LSA_OP_SET | LSA_OP_ZERO

text \<open>One piece.  \<open>buf\<close> is the rest of the caller's buffer from the piece on; the result has what becomes of it.\<close>

definition submit_lsa :: "'d mbox_sys \<Rightarrow> cxl_cmd \<Rightarrow> 'd \<Rightarrow> (int \<times> cxl_cmd \<times> 'd) option" where
  "submit_lsa sys cmd d =
     do {(rc, cmd, d) \<leftarrow> cxl_cmd_submit sys cmd d;
         Some (if rc < 0 then rc else if cxl_cmd_get_mbox_status cmd \<noteq> 0 then - ENXIO else 0, cmd, d)}"

definition lsa_get :: "'d mbox_sys \<Rightarrow> int \<Rightarrow> u8 list \<Rightarrow> u64 \<Rightarrow> u64 \<Rightarrow> 'd \<Rightarrow> (int \<times> u8 list \<times> 'd) option" where
  "lsa_get sys payload_max buf len offset d =
     do {(p, d) \<leftarrow> cxl_cmd_new_read_label sys (ucast offset) (ucast len) d;
         case p of
           None \<Rightarrow> Some (- ENOMEM, buf, d)
         | Some cmd \<Rightarrow>
             do {(rc, cmd) \<leftarrow> cxl_cmd_set_output_payload sys payload_max cmd (Some buf) (sint (ucast len :: u32));
                 if rc \<noteq> 0 then do {_ \<leftarrow> cxl_cmd_unref (CLive cmd); Some (rc, buf, d)}
                 else do {
                   (rc, cmd, d) \<leftarrow> submit_lsa sys cmd d;
                   buf \<leftarrow> out_bytes cmd;
                   if rc \<noteq> 0 then do {_ \<leftarrow> cxl_cmd_unref (CLive cmd); Some (rc, buf, d)}
                   else do {
                     (ret_len, bs) \<leftarrow> cxl_cmd_read_label_get_payload cmd (ucast len);
                     _ \<leftarrow> cxl_cmd_unref (CLive cmd);
                     Some (if ret_len < 0 then ret_len else 0, overlay buf bs, d)}}}}"

definition lsa_set :: "'d mbox_sys \<Rightarrow> int \<Rightarrow> u8 list \<Rightarrow> u64 \<Rightarrow> u64 \<Rightarrow> 'd \<Rightarrow> (int \<times> 'd) option" where
  "lsa_set sys payload_max buf len offset d =
     do {(p, d) \<leftarrow> cxl_cmd_new_write_label sys payload_max buf (ucast offset) (ucast len) d;
         case p of
           None \<Rightarrow> Some (- ENOMEM, d)
         | Some cmd \<Rightarrow>
             do {(rc, cmd, d) \<leftarrow> submit_lsa sys cmd d;
                 _ \<leftarrow> cxl_cmd_unref (CLive cmd);
                 Some (rc, d)}}"

definition lsa_op_piece :: "'d mbox_sys \<Rightarrow> int \<Rightarrow> lsa_oper \<Rightarrow> u8 list \<Rightarrow> u64 \<Rightarrow> u64 \<Rightarrow> 'd \<Rightarrow> (int \<times> u8 list \<times> 'd) option" where
  "lsa_op_piece sys payload_max oper buf len offset d =
     (case oper of
        LSA_OP_GET \<Rightarrow> lsa_get sys payload_max buf len offset d
      | LSA_OP_ZERO \<Rightarrow>
          if \<not> my_calloc sys (unat len) then Some (- ENOMEM, buf, d)
          else do {(rc, d) \<leftarrow> lsa_set sys payload_max (replicate (unat len) 0) len offset d; Some (rc, buf, d)}
      | LSA_OP_SET \<Rightarrow> do {(rc, d) \<leftarrow> lsa_set sys payload_max buf len offset d; Some (rc, buf, d)})"

text \<open>The loop; the outer \<open>None\<close> is that it has not ended after \<open>fuel\<close> rounds.\<close>

fun lsa_loop ::
  "'d mbox_sys \<Rightarrow> int \<Rightarrow> lsa_oper \<Rightarrow> int \<Rightarrow> u64 \<Rightarrow> nat \<Rightarrow> u8 list \<Rightarrow> u64 \<Rightarrow> u64 \<Rightarrow> 'd \<Rightarrow> (int \<times> u8 list \<times> 'd) option option" where
  "lsa_loop sys payload_max oper label_iter_max offset 0 buf remaining cur_off d = None"
| "lsa_loop sys payload_max oper label_iter_max offset (Suc fuel) buf remaining cur_off d =
     (if remaining = 0 then Some (Some (0, buf, d))
      else let cur_len = min (word_of_int label_iter_max) remaining in
        case lsa_op_piece sys payload_max oper (drop (unat cur_off) buf) cur_len (offset + cur_off) d of
          None \<Rightarrow> Some None
        | Some (rc, rest, d) \<Rightarrow>
            let buf = take (unat cur_off) buf @ rest in
            if rc \<noteq> 0 then Some (Some (rc, buf, d))
            else lsa_loop sys payload_max oper label_iter_max offset fuel buf (remaining - cur_len) (cur_off + cur_len) d)"

definition lsa_op :: "'d mbox_sys \<Rightarrow> int \<Rightarrow> nat \<Rightarrow> lsa_oper \<Rightarrow> u8 list option \<Rightarrow> u64 \<Rightarrow> u64 \<Rightarrow> 'd \<Rightarrow> (int \<times> u8 list \<times> 'd) option option" where
  "lsa_op sys payload_max fuel oper buf len offset d =
     (if oper \<noteq> LSA_OP_ZERO \<and> buf = None then Some (Some (- EINVAL, [], d))
      else let bs = (case buf of None \<Rightarrow> [] | Some b \<Rightarrow> b) in
        if len = 0 then Some (Some (0, bs, d))
        else if payload_max < 0 then Some (Some (- EINVAL, bs, d))
        else lsa_loop sys payload_max oper (payload_max - 8) offset fuel bs len 0 d)"

definition cxl_memdev_zero_label :: "'d mbox_sys \<Rightarrow> int \<Rightarrow> nat \<Rightarrow> u64 \<Rightarrow> u64 \<Rightarrow> 'd \<Rightarrow> (int \<times> u8 list \<times> 'd) option option" where
  "cxl_memdev_zero_label sys payload_max fuel len offset d = lsa_op sys payload_max fuel LSA_OP_ZERO None len offset d"

definition cxl_memdev_write_label ::
  "'d mbox_sys \<Rightarrow> int \<Rightarrow> nat \<Rightarrow> u8 list option \<Rightarrow> u64 \<Rightarrow> u64 \<Rightarrow> 'd \<Rightarrow> (int \<times> u8 list \<times> 'd) option option" where
  "cxl_memdev_write_label sys payload_max fuel buf len offset d = lsa_op sys payload_max fuel LSA_OP_SET buf len offset d"

definition cxl_memdev_read_label ::
  "'d mbox_sys \<Rightarrow> int \<Rightarrow> nat \<Rightarrow> u8 list option \<Rightarrow> u64 \<Rightarrow> u64 \<Rightarrow> 'd \<Rightarrow> (int \<times> u8 list \<times> 'd) option option" where
  "cxl_memdev_read_label sys payload_max fuel buf len offset d = lsa_op sys payload_max fuel LSA_OP_GET buf len offset d"

subsection \<open>Lemmas on buffers\<close>

text \<open>A list with \<open>bs\<close> in place of the elements from \<open>ofs\<close> on.\<close>

definition list_splice :: "nat \<Rightarrow> 'a list \<Rightarrow> 'a list \<Rightarrow> 'a list" where
  "list_splice ofs bs xs = take ofs xs @ bs @ drop (ofs + length bs) xs"

lemma length_overlay [simp]: "length (overlay b new) = length b"
  by (simp add: overlay_def)

lemma overlay_prefix: "length new \<le> length b \<Longrightarrow> overlay b new = new @ drop (length new) b"
  by (simp add: overlay_def)

lemma overlay_same: "length new = length b \<Longrightarrow> overlay b new = new"
  by (simp add: overlay_def)

lemma overlay_overlay: "length new \<le> length b \<Longrightarrow> overlay (overlay b new) new = overlay b new"
  by (simp add: overlay_def)

lemma length_splice [simp]: "ofs + length bs \<le> length xs \<Longrightarrow> length (list_splice ofs bs xs) = length xs"
  by (simp add: list_splice_def)

lemma splice_nil [simp]: "list_splice ofs [] xs = xs"
  by (simp add: list_splice_def)

lemma splice_append:
  "ofs + length bs + length cs \<le> length xs \<Longrightarrow>
   list_splice (ofs + length bs) cs (list_splice ofs bs xs) = list_splice ofs (bs @ cs) xs"
  by (auto simp: list_splice_def ac_simps min_def)

lemma take_drop_splice: "ofs + length bs \<le> length xs \<Longrightarrow> take (length bs) (drop ofs (list_splice ofs bs xs)) = bs"
  by (simp add: list_splice_def)

lemma length_le_bytes [simp]: "length (le_bytes n w) = n"
  by (simp add: le_bytes_def)

lemma le_get_le_bytes: "LENGTH('a) \<le> 8 * n \<Longrightarrow> le_get n (nth (le_bytes n w)) 0 = (w :: 'a::len word)"
proof -
  assume n: "LENGTH('a) \<le> 8 * n"
  have "le_get n (nth (le_bytes n w)) 0 = (le_get n (le_put n w (\<lambda>_. 0) 0) 0 :: 'a word)"
    by (rule le_get_cong) (simp add: le_bytes_def)
  then show ?thesis using n by (simp add: le_get_put_same)
qed

lemma buf_store_splice: "buf_store bs ofs b = (if ofs + length bs \<le> length b then Some (list_splice ofs bs b) else None)"
  by (simp add: buf_store_def list_splice_def overlay_def add.commute)

lemma buf_put_splice: "buf_put n w ofs b = (if ofs + n \<le> length b then Some (list_splice ofs (le_bytes n w) b) else None)"
  by (simp add: buf_put_def buf_store_splice)

lemma buf_get_splice:
  "LENGTH('a) \<le> 8 * n \<Longrightarrow> ofs + n \<le> length b \<Longrightarrow> buf_get n ofs (list_splice ofs (le_bytes n w) b) = Some (w :: 'a::len word)"
  using take_drop_splice [of ofs "le_bytes n w" b] by (simp add: buf_get_def buf_read_def le_get_le_bytes)

lemmas buffer_simps = buf_read_def buf_store_splice buf_put_splice overlay_same

subsection \<open>Creating a command\<close>

text \<open>The kernel answers the queries for the table of commands \<open>cs\<close>, memory is available, and the device node opens; the
  commands are ones that libcxl has a name for.\<close>

definition answers :: "'d mbox_sys \<Rightarrow> cxl_command_info list \<Rightarrow> bool" where
  "answers sys cs =
     ((\<forall>n. my_calloc sys n) \<and> (\<forall>d. my_open sys d = 0 \<and> my_valid sys d) \<and>
      (\<forall>d. my_query sys 0 d = (0, of_nat (length cs), [], d)) \<and>
      (\<forall>d. my_query sys (of_nat (length cs)) d = (0, of_nat (length cs), cs, d)) \<and> length cs < 2 ^ 27)"

definition reports :: "'d mbox_sys \<Rightarrow> cxl_command_info list \<Rightarrow> bool" where
  "reports sys cs = (answers sys cs \<and> (\<forall>c \<in> set cs. unat (ci_id c) < n_command_names))"

definition declares :: "cxl_command_info list \<Rightarrow> u32 \<Rightarrow> int \<Rightarrow> int \<Rightarrow> bool" where
  "declares cs cmd_id si so =
     ((\<exists>c \<in> set cs. ci_id c = cmd_id) \<and> (\<forall>c \<in> set cs. ci_id c = cmd_id \<longrightarrow> ci_size_in c = si \<and> ci_size_out c = so))"

lemma find_command_found:
  assumes "\<exists>c \<in> set cs. ci_id c = cmd_id" "\<forall>c \<in> set cs. unat (ci_id c) < n_command_names"
  shows "\<exists>j < length cs. find_command cs (length cs) i cmd_id = Some (Some (i + j)) \<and> ci_id (cs ! j) = cmd_id"
  using assms
proof (induction cs arbitrary: i)
  case (Cons c cs)
  show ?case
  proof (cases "ci_id c = cmd_id")
    case False
    then obtain j where "j < length cs" "find_command cs (length cs) (Suc i) cmd_id = Some (Some (Suc i + j))"
      "ci_id (cs ! j) = cmd_id"
      using Cons.IH [of "Suc i"] Cons.prems by auto
    then show ?thesis
      using False Cons.prems by (intro exI [of _ "Suc j"]) (auto simp: not_le)
  qed (use Cons.prems in \<open>auto simp: not_le\<close>)
qed simp

lemma size_query: "0 \<le> n \<Longrightarrow> n < 2 ^ 27 \<Longrightarrow> ab_c_size (word_of_int n) 16 8 \<noteq> - 1"
proof -
  assume n: "0 \<le> n" "n < 2 ^ 27"
  then have "unat (word_of_int n :: u64) = nat n"
    by (simp add: unsigned_of_int take_bit_eq_mod nat_mod_distrib)
  then have "unat (ab_c_size (word_of_int n) 16 8) < unat (- 1 :: u64)"
    using n by (simp add: ab_c_size_saturates unsigned_minus_1_eq_mask mask_eq_exp_minus_1 nat_less_iff)
  then show ?thesis by fastforce
qed

text \<open>The send part of a new command and the whole command.\<close>

definition fresh_send :: "u32 \<Rightarrow> int \<Rightarrow> int \<Rightarrow> cxl_send_command" where
  "fresh_send cmd_id si so =
     \<lparr>sc_id = cmd_id, sc_opcode = 0, sc_retval = 0,
      sc_in_size = (if si > 0 then si else 0), sc_in = (if si > 0 then Lib_Payload else No_Payload),
      sc_out_size = (if so > 0 then so else 0), sc_out = (if so > 0 then Lib_Payload else No_Payload)\<rparr>"

definition fresh_cmd :: "cxl_command_info list \<Rightarrow> nat \<Rightarrow> u32 \<Rightarrow> int \<Rightarrow> int \<Rightarrow> cxl_cmd" where
  "fresh_cmd cs j cmd_id si so =
     \<lparr>mc_query_cmd = CLive \<lparr>qc_n_commands = of_nat (length cs), qc_commands = cs\<rparr>,
      mc_send_cmd = Some (fresh_send cmd_id si so),
      mc_input_payload = (if si > 0 then Some (replicate (nat si) 0) else None),
      mc_output_payload = (if so > 0 then Some (replicate (nat so) 0) else None),
      mc_refcount = 1, mc_query_status = CXL_CMD_QUERY_OK, mc_query_idx = j, mc_status = 1\<rparr>"

lemma do_query_ok:
  assumes "answers sys cs" "mc_query_status cmd = CXL_CMD_QUERY_NOT_RUN" "mc_query_cmd cmd = CNull"
  shows "cxl_cmd_do_query sys cmd d =
    Some (0, cmd\<lparr>mc_query_cmd := CLive \<lparr>qc_n_commands = of_nat (length cs), qc_commands = cs\<rparr>\<rparr>, d)"
proof -
  have len: "length cs < 2 ^ 27" and env: "\<And>n. my_calloc sys n" "\<And>d. my_open sys d = 0" "\<And>d. my_valid sys d"
    "\<And>d. my_query sys 0 d = (0, of_nat (length cs), [], d)"
    "\<And>d. my_query sys (of_nat (length cs)) d = (0, of_nat (length cs), cs, d)"
    using assms(1) by (auto simp: reports_def answers_def)
  have "sint (of_nat (length cs) :: u32) = int (length cs)"
    using len by (simp add: signed_of_nat signed_take_bit_int_eq_self)
  moreover have "ab_c_size (word_of_int (int (length cs))) 16 8 \<noteq> - 1" "ab_c_size 0 16 8 \<noteq> - 1"
    using len size_query [of "int (length cs)"] size_query [of 0] by simp_all
  ultimately show ?thesis
    using assms(2,3) env
    by (simp add: cxl_cmd_do_query_def alloc_do_query_def cxl_cmd_alloc_query_def mbox_do_cmd_def mbox_ioctl_def overlay_same)
qed

lemma new_generic_ok:
  assumes "reports sys cs" "declares cs cmd_id si so"
  shows "\<exists>j. cxl_cmd_new_generic sys cmd_id d = Some (Some (fresh_cmd cs j cmd_id si so), d)"
proof -
  have ids: "\<forall>c \<in> set cs. unat (ci_id c) < n_command_names" and len: "length cs < 2 ^ 27"
    and calloc: "\<And>n. my_calloc sys n"
    using assms(1) by (auto simp: reports_def answers_def)
  obtain j where j: "j < length cs" "find_command cs (length cs) 0 cmd_id = Some (Some j)" "ci_id (cs ! j) = cmd_id"
    using find_command_found [OF _ ids, of cmd_id 0] assms(2) by (auto simp: declares_def)
  moreover have "ci_size_in (cs ! j) = si" "ci_size_out (cs ! j) = so"
    using assms(2) j by (auto simp: declares_def)
  moreover have "unat (of_nat (length cs) :: u32) = length cs"
    using len by (simp add: unat_of_nat_u32)
  ultimately show ?thesis
    using calloc do_query_ok [of sys cs] assms(1)
    by (auto simp: cxl_cmd_new_generic_def cxl_cmd_new_def cxl_cmd_ref_def cxl_cmd_validate_def cxl_cmd_alloc_send_def
        alloc_in_def alloc_out_def fresh_cmd_def fresh_send_def zero_send_def reports_def
        intro!: exI [of _ j])
qed

subsection \<open>The label area\<close>

text \<open>What the CXL specification documents of the two label commands, for a label area of \<open>n\<close> bytes with the content \<open>lsa d\<close>.\<close>

definition label_kernel :: "'d mbox_sys \<Rightarrow> cxl_command_info list \<Rightarrow> ('d \<Rightarrow> u8 list) \<Rightarrow> nat \<Rightarrow> bool" where
  "label_kernel sys cs lsa n =
     (reports sys cs \<and> declares cs CXL_MEM_COMMAND_ID_GET_LSA 8 (- 1) \<and> declares cs CXL_MEM_COMMAND_ID_SET_LSA (- 1) 0 \<and>
      n < 2 ^ 32 \<and> (\<forall>d. length (lsa d) = n) \<and>
      (\<forall>s d ofs len. sc_id s = CXL_MEM_COMMAND_ID_GET_LSA \<and> unat ofs + unat len \<le> n \<longrightarrow>
         (\<exists>d'. my_send sys s (le_bytes 4 (ofs :: u32) @ le_bytes 4 (len :: u32)) d
                 = (0, 0, int (unat len), take (unat len) (drop (unat ofs) (lsa d)), d') \<and> lsa d' = lsa d)) \<and>
      (\<forall>s d ofs bs. sc_id s = CXL_MEM_COMMAND_ID_SET_LSA \<and> unat ofs + length bs \<le> n \<longrightarrow>
         (\<exists>d'. my_send sys s (le_bytes 4 (ofs :: u32) @ replicate 4 0 @ bs) d = (0, 0, 0, [], d') \<and>
               lsa d' = list_splice (unat ofs) bs (lsa d))))"

lemma label_kernelD:
  assumes "label_kernel sys cs lsa n"
  shows "reports sys cs" "declares cs CXL_MEM_COMMAND_ID_GET_LSA 8 (- 1)" "declares cs CXL_MEM_COMMAND_ID_SET_LSA (- 1) 0"
    "n < 2 ^ 32" "length (lsa d) = n" "my_calloc sys k" "my_open sys d = 0" "my_valid sys d"
  using assms by (auto simp: label_kernel_def reports_def answers_def)

lemma label_kernel_get:
  assumes "label_kernel sys cs lsa n" "sc_id s = CXL_MEM_COMMAND_ID_GET_LSA" "unat ofs + unat len \<le> n"
  obtains d' where "my_send sys s (le_bytes 4 (ofs :: u32) @ le_bytes 4 (len :: u32)) d
      = (0, 0, int (unat len), take (unat len) (drop (unat ofs) (lsa d)), d')" "lsa d' = lsa d"
  using assms unfolding label_kernel_def by blast

lemma label_kernel_set:
  assumes "label_kernel sys cs lsa n" "sc_id s = CXL_MEM_COMMAND_ID_SET_LSA" "unat ofs + length bs \<le> n"
  obtains d' where "my_send sys s (le_bytes 4 (ofs :: u32) @ replicate 4 0 @ bs) d = (0, 0, 0, [], d')"
    "lsa d' = list_splice (unat ofs) bs (lsa d)"
  using assms unfolding label_kernel_def by blast

lemma splice_le_bytes:
  "list_splice 4 (le_bytes 4 w) (list_splice 0 (le_bytes 4 v) (replicate 8 0)) = le_bytes 4 v @ le_bytes 4 w"
  "list_splice 0 (le_bytes 4 v) (replicate 8 0 @ bs) = le_bytes 4 v @ replicate 4 0 @ bs"
  by (simp_all add: list_splice_def numeral_eq_Suc)

lemma read_label_ok:
  assumes "label_kernel sys cs lsa n"
  shows "\<exists>j. cxl_cmd_new_read_label sys ofs len d =
    Some (Some ((fresh_cmd cs j CXL_MEM_COMMAND_ID_GET_LSA 8 (- 1))\<lparr>mc_input_payload := Some (le_bytes 4 ofs @ le_bytes 4 len)\<rparr>), d)"
proof -
  obtain j where "cxl_cmd_new_generic sys CXL_MEM_COMMAND_ID_GET_LSA d
      = Some (Some (fresh_cmd cs j CXL_MEM_COMMAND_ID_GET_LSA 8 (- 1)), d)"
    using new_generic_ok [OF label_kernelD(1) [OF assms] label_kernelD(2) [OF assms]] by blast
  then show ?thesis
    by (auto simp: cxl_cmd_new_read_label_def update_in_def in_bytes_def payload_bytes_def fresh_cmd_def fresh_send_def
        buffer_simps splice_le_bytes)
qed

lemma unat_ucast_small: "unat w < 2 ^ 32 \<Longrightarrow> unat (ucast (w :: u64) :: u32) = unat w"
  by (simp add: unsigned_ucast_eq take_bit_nat_eq_self)

lemma sint_ucast_small:
  assumes "unat w < 2 ^ 31"
  shows "sint (ucast (w :: u64) :: u32) = int (unat w)"
proof -
  have "int (unat w) < int (2 ^ 31)"
    using assms by (simp only: of_nat_less_iff)
  then have "uint w < 2 ^ 31" by simp
  moreover have "- (2 ^ 31) \<le> uint w" by (rule order_trans [of _ 0]) simp_all
  ultimately have "signed_take_bit 31 (uint w) = uint w"
    by (intro signed_take_bit_int_eq_self)
  then show ?thesis by (simp add: signed_ucast_eq)
qed

lemma unat_less_of_int: "int (unat w) \<le> k \<Longrightarrow> k < 2 ^ 31 \<Longrightarrow> unat w < 2 ^ 31"
  by (metis of_nat_less_iff of_nat_numeral of_nat_power order_le_less_trans)

lemma lsa_get_ok:
  assumes lk: "label_kernel sys cs lsa n" and range: "unat offset + unat len \<le> n"
    and fits: "int (unat len) \<le> payload_max" "payload_max < 2 ^ 31" and buf: "unat len \<le> length buf"
  shows "\<exists>d'. lsa_get sys payload_max buf len offset d
      = Some (0, overlay buf (take (unat len) (drop (unat offset) (lsa d))), d') \<and> lsa d' = lsa d"
proof -
  have len: "unat (ucast len :: u32) = unat len" "sint (ucast len :: u32) = int (unat len)"
    and ofs: "unat (ucast offset :: u32) = unat offset"
    using unat_ucast_small [of len] sint_ucast_small [OF unat_less_of_int [OF fits]] unat_ucast_small [of offset]
      range label_kernelD(4) [OF lk] by simp_all
  obtain j where new: "cxl_cmd_new_read_label sys (ucast offset) (ucast len) d =
      Some (Some ((fresh_cmd cs j CXL_MEM_COMMAND_ID_GET_LSA 8 (- 1))
        \<lparr>mc_input_payload := Some (le_bytes 4 (ucast offset :: u32) @ le_bytes 4 (ucast len :: u32))\<rparr>), d)"
    using read_label_ok [OF lk] by blast
  let ?s = "(fresh_send CXL_MEM_COMMAND_ID_GET_LSA 8 (- 1))\<lparr>sc_out := User_Payload buf, sc_out_size := int (unat len)\<rparr>"
  let ?bs = "take (unat len) (drop (unat offset) (lsa d))"
  obtain d' where send: "my_send sys ?s (le_bytes 4 (ucast offset :: u32) @ le_bytes 4 (ucast len :: u32)) d
      = (0, 0, int (unat len), ?bs, d')" "lsa d' = lsa d"
    using label_kernel_get [OF lk, of ?s "ucast offset" "ucast len" d] range len ofs by (auto simp: fresh_send_def)
  have blen: "length ?bs = unat len"
    using range label_kernelD(5) [OF lk] by simp
  then have tk: "take (unat len) (overlay buf ?bs) = ?bs"
    using buf by (simp add: overlay_prefix)
  have "buf_get 4 4 (le_bytes 4 (ucast offset :: u32) @ le_bytes 4 (ucast len :: u32)) = Some (ucast len :: u32)"
    by (simp add: buf_get_def buf_read_def le_get_le_bytes)
  then show ?thesis
    using fits buf new send len tk blen label_kernelD(6,7,8) [OF lk]
    by (auto simp: lsa_get_def cxl_cmd_set_output_payload_def submit_lsa_def cxl_cmd_submit_def mbox_do_cmd_def mbox_ioctl_def
        fresh_cmd_def fresh_send_def in_bytes_def out_bytes_def payload_bytes_def store_output_def cxl_cmd_get_mbox_status_def
        cxl_cmd_read_label_get_payload_def cxl_cmd_validate_status_def cxl_cmd_unref_def buf_read_def overlay_overlay)
qed

lemma write_size:
  assumes "8 + int (unat len) \<le> payload_max" "payload_max < 2 ^ 31"
  shows "sint (ucast (8 + ucast (ucast (len :: u64) :: u32) :: u64) :: u32) = 8 + int (unat len)"
proof -
  have "int (unat len + 8) < int (2 ^ 31)"
    using assms by (simp only: of_nat_add of_nat_power of_nat_numeral)
  then have small: "unat len + 8 < 2 ^ 31"
    by (simp only: of_nat_less_iff)
  then have "unat (ucast (ucast len :: u32) :: u64) = unat len"
    by (simp add: unat_ucast_small)
  then have eq: "unat (8 + ucast (ucast len :: u32) :: u64) = 8 + unat len"
    using small by (simp add: unat_word_ariths)
  show ?thesis
    using sint_ucast_small [of "8 + ucast (ucast len :: u32)"] small unfolding eq by simp
qed

lemma lsa_set_ok:
  assumes lk: "label_kernel sys cs lsa n" and range: "unat offset + unat len \<le> n"
    and fits: "8 + int (unat len) \<le> payload_max" "payload_max < 2 ^ 31" and buf: "unat len \<le> length buf"
  shows "\<exists>d'. lsa_set sys payload_max buf len offset d = Some (0, d') \<and>
      lsa d' = list_splice (unat offset) (take (unat len) buf) (lsa d)"
proof -
  have len: "unat (ucast len :: u32) = unat len" and ofs: "unat (ucast offset :: u32) = unat offset"
    using unat_ucast_small [of len] unat_ucast_small [of offset] range label_kernelD(4) [OF lk] by simp_all
  let ?bs = "take (unat len) buf"
  let ?s = "(fresh_send CXL_MEM_COMMAND_ID_SET_LSA (- 1) 0)\<lparr>sc_in := Lib_Payload, sc_in_size := 8 + int (unat len)\<rparr>"
  obtain j where new: "cxl_cmd_new_generic sys CXL_MEM_COMMAND_ID_SET_LSA d
      = Some (Some (fresh_cmd cs j CXL_MEM_COMMAND_ID_SET_LSA (- 1) 0), d)"
    using new_generic_ok [OF label_kernelD(1) [OF lk] label_kernelD(3) [OF lk]] by blast
  obtain d' where send: "my_send sys ?s (le_bytes 4 (ucast offset :: u32) @ replicate 4 0 @ ?bs) d = (0, 0, 0, [], d')"
      "lsa d' = list_splice (unat offset) ?bs (lsa d)"
    using label_kernel_set [OF lk, of ?s "ucast offset" ?bs d] range ofs buf by (auto simp: fresh_send_def)
  have pay: "list_splice 8 ?bs (list_splice 0 (le_bytes 4 (ucast offset :: u32)) (replicate (8 + unat len) 0))
      = le_bytes 4 (ucast offset :: u32) @ replicate 4 0 @ ?bs"
    using buf by (simp add: list_splice_def replicate_add numeral_eq_Suc)
  have nat8: "nat (8 + uint len) = 8 + unat len" "\<not> 8 + uint len < 0"
    by (simp_all add: nat_add_distrib not_less)
  show ?thesis
    using fits buf new send pay len label_kernelD(6,7,8) [OF lk] write_size [OF fits]
    by (auto simp: lsa_set_def cxl_cmd_new_write_label_def cxl_cmd_set_input_payload_def submit_lsa_def cxl_cmd_submit_def
        mbox_do_cmd_def mbox_ioctl_def fresh_cmd_def fresh_send_def in_bytes_def payload_bytes_def update_in_def
        store_output_def cxl_cmd_get_mbox_status_def cxl_cmd_unref_def buffer_simps nat8 not_less)
qed

text \<open>The size of a piece and the counters after it.\<close>

lemma unat_piece:
  assumes "0 < m" "m < 2 ^ 31"
  shows "unat (min (word_of_int m :: u64) r) = min (nat m) (unat r)"
proof -
  have "unat (word_of_int m :: u64) = nat m"
    using assms by (simp add: unsigned_of_int take_bit_eq_mod nat_mod_distrib)
  then show ?thesis by (auto simp: min_def word_le_nat_alt)
qed

lemma unat_plus_small: "unat a + unat b < 2 ^ 32 \<Longrightarrow> unat ((a :: u64) + b) = unat a + unat b"
  by (simp add: unat_word_ariths)

lemma unat_minus_piece: "unat p \<le> unat r \<Longrightarrow> unat ((r :: u64) - p) = unat r - unat p"
  by (simp add: unat_sub word_le_nat_alt)

definition write_data :: "lsa_oper \<Rightarrow> u8 list \<Rightarrow> nat \<Rightarrow> u8 list" where
  "write_data oper buf len = (if oper = LSA_OP_ZERO then replicate len 0 else take len buf)"

lemma write_data_add: "write_data oper buf (k + l) = write_data oper buf k @ write_data oper (drop k buf) l"
  by (simp add: write_data_def replicate_add take_add)

lemma length_write_data: "oper = LSA_OP_ZERO \<or> len \<le> length buf \<Longrightarrow> length (write_data oper buf len) = len"
  by (auto simp: write_data_def)

lemma splice_write_data:
  assumes "oper = LSA_OP_ZERO \<or> cur + r \<le> length buf" "p \<le> r" "ofs + r \<le> length xs"
  shows "list_splice (ofs + p) (write_data oper (drop (cur + p) buf) (r - p)) (list_splice ofs (write_data oper (drop cur buf) p) xs)
    = list_splice ofs (write_data oper (drop cur buf) r) xs"
proof -
  have len: "length (write_data oper (drop cur buf) p) = p"
    "length (write_data oper (drop (cur + p) buf) (r - p)) = r - p"
    using assms by (auto intro!: length_write_data)
  then have "list_splice (ofs + p) (write_data oper (drop (cur + p) buf) (r - p)) (list_splice ofs (write_data oper (drop cur buf) p) xs)
    = list_splice ofs (write_data oper (drop cur buf) p @ write_data oper (drop (cur + p) buf) (r - p)) xs"
    using splice_append [of ofs "write_data oper (drop cur buf) p" "write_data oper (drop (cur + p) buf) (r - p)" xs] assms by simp
  then show ?thesis
    using write_data_add [of oper "drop cur buf" p "r - p"] assms(2) by (simp add: add.commute)
qed

lemma write_piece_ok:
  assumes "label_kernel sys cs lsa n" "oper \<noteq> LSA_OP_GET" "unat offset + unat len \<le> n"
    "8 + int (unat len) \<le> payload_max" "payload_max < 2 ^ 31" "oper = LSA_OP_ZERO \<or> unat len \<le> length buf"
  shows "\<exists>d'. lsa_op_piece sys payload_max oper buf len offset d = Some (0, buf, d') \<and>
    lsa d' = list_splice (unat offset) (write_data oper buf (unat len)) (lsa d)"
proof (cases "oper = LSA_OP_ZERO")
  case True
  then show ?thesis
    using lsa_set_ok [OF assms(1,3,4,5), of "replicate (unat len) 0" d] label_kernelD(6) [OF assms(1)]
    by (auto simp: lsa_op_piece_def write_data_def)
next
  case False
  then have "oper = LSA_OP_SET" using assms(2) by (cases oper) auto
  then show ?thesis
    using lsa_set_ok [OF assms(1,3,4,5), of buf d] assms(6) by (auto simp: lsa_op_piece_def write_data_def)
qed

lemma lsa_loop_step:
  assumes "rem \<noteq> 0" "p = min (word_of_int m) rem"
    "lsa_op_piece sys payload_max oper (drop (unat cur) buf) p (offset + cur) d = Some (0, rest, d1)"
  shows "lsa_loop sys payload_max oper m offset (Suc fuel) buf rem cur d
    = lsa_loop sys payload_max oper m offset fuel (take (unat cur) buf @ rest) (rem - p) (cur + p) d1"
  using assms by (simp add: Let_def)

lemma loop_piece:
  fixes rem offset cur p :: u64
  assumes "8 < payload_max" "payload_max < 2 ^ 31" "n < 2 ^ 32" "rem \<noteq> 0" "p = min (word_of_int (payload_max - 8)) rem"
    "unat offset + unat cur + unat rem \<le> n" "unat rem < Suc fuel"
  shows "unat p \<le> unat rem" "8 + int (unat p) \<le> payload_max" "unat (offset + cur) = unat offset + unat cur"
    "unat (cur + p) = unat cur + unat p" "unat (rem - p) = unat rem - unat p"
    "unat offset + (unat cur + unat p) + (unat rem - unat p) \<le> n" "unat rem - unat p < fuel"
proof -
  have p: "unat p = min (nat (payload_max - 8)) (unat rem)"
    unfolding assms(5) using assms(1,2) by (intro unat_piece) auto
  then have pos: "0 < unat p" "unat p \<le> unat rem" "8 + int (unat p) \<le> payload_max"
    using assms(1,4) by (auto simp: unat_gt_0)
  then show "unat p \<le> unat rem" "8 + int (unat p) \<le> payload_max" by auto
  show "unat (offset + cur) = unat offset + unat cur" "unat (cur + p) = unat cur + unat p"
    using assms(3,6) pos by (auto intro!: unat_plus_small)
  show "unat (rem - p) = unat rem - unat p"
    using pos by (simp add: unat_minus_piece)
  show "unat offset + (unat cur + unat p) + (unat rem - unat p) \<le> n" "unat rem - unat p < fuel"
    using assms(6,7) pos by linarith+
qed

lemma write_loop_ok:
  assumes lk: "label_kernel sys cs lsa n" and oper: "oper \<noteq> LSA_OP_GET" and pm: "8 < payload_max" "payload_max < 2 ^ 31"
  shows "unat offset + unat cur + unat rem \<le> n \<Longrightarrow> oper = LSA_OP_ZERO \<or> unat cur + unat rem \<le> length buf \<Longrightarrow>
    unat rem < fuel \<Longrightarrow>
    \<exists>d'. lsa_loop sys payload_max oper (payload_max - 8) offset fuel buf rem cur d = Some (Some (0, buf, d')) \<and>
      lsa d' = list_splice (unat offset + unat cur) (write_data oper (drop (unat cur) buf) (unat rem)) (lsa d)"
proof (induction fuel arbitrary: rem cur d)
  case (Suc fuel)
  show ?case
  proof (cases "rem = 0")
    case True
    then show ?thesis by (simp add: write_data_def)
  next
    case False
    define p :: u64 where p_def: "p = min (word_of_int (payload_max - 8)) rem"
    note lp = loop_piece [OF pm label_kernelD(4) [OF lk] False p_def Suc.prems(1,3)]
    have data: "oper = LSA_OP_ZERO \<or> unat p \<le> length (drop (unat cur) buf)"
      using Suc.prems(2) lp(1) by auto
    have nxt: "oper = LSA_OP_ZERO \<or> unat cur + unat p + (unat rem - unat p) \<le> length buf"
      using Suc.prems(2) lp(1) by linarith
    obtain d1 where d1: "lsa_op_piece sys payload_max oper (drop (unat cur) buf) p (offset + cur) d
        = Some (0, drop (unat cur) buf, d1)"
      "lsa d1 = list_splice (unat offset + unat cur) (write_data oper (drop (unat cur) buf) (unat p)) (lsa d)"
      using write_piece_ok [OF lk oper, of "offset + cur" p payload_max "drop (unat cur) buf" d]
        Suc.prems(1) lp(1-3) data pm by auto
    obtain d' where d': "lsa_loop sys payload_max oper (payload_max - 8) offset fuel buf (rem - p) (cur + p) d1
        = Some (Some (0, buf, d'))"
      "lsa d' = list_splice (unat offset + unat cur + unat p)
         (write_data oper (drop (unat cur + unat p) buf) (unat rem - unat p)) (lsa d1)"
      using Suc.IH [of "cur + p" "rem - p" d1] lp(4-7) nxt by (auto simp: add.assoc)
    have "lsa d' = list_splice (unat offset + unat cur) (write_data oper (drop (unat cur) buf) (unat rem)) (lsa d)"
      unfolding d'(2) d1(2) using Suc.prems lp(1) label_kernelD(5) [OF lk, of d] by (intro splice_write_data) auto
    then show ?thesis
      using lsa_loop_step [OF False p_def d1(1)] d'(1) by (simp only: append_take_drop_id) blast
  qed
qed simp

lemma splice_read_data:
  assumes "cur + r \<le> length buf" "p \<le> r" "ofs + r \<le> length xs"
  shows "list_splice (cur + p) (take (r - p) (drop (ofs + p) xs)) (take cur buf @ overlay (drop cur buf) (take p (drop ofs xs)))
    = list_splice cur (take r (drop ofs xs)) buf"
proof -
  let ?a = "take p (drop ofs xs)" and ?b = "take (r - p) (drop (ofs + p) xs)"
  have len: "length ?a = p" "length ?b = r - p" using assms by auto
  have "take cur buf @ overlay (drop cur buf) ?a = list_splice cur ?a buf"
    using assms len by (simp add: list_splice_def overlay_prefix add.commute)
  moreover have "take r (drop ofs xs) = ?a @ ?b"
    using assms(2) take_add [of p "r - p" "drop ofs xs"] by (simp add: add.commute)
  ultimately show ?thesis
    using splice_append [of cur ?a ?b buf] assms len by simp
qed

lemma read_loop_ok:
  assumes lk: "label_kernel sys cs lsa n" and pm: "8 < payload_max" "payload_max < 2 ^ 31"
  shows "unat offset + unat cur + unat rem \<le> n \<Longrightarrow> unat cur + unat rem \<le> length buf \<Longrightarrow> unat rem < fuel \<Longrightarrow>
    \<exists>d'. lsa_loop sys payload_max LSA_OP_GET (payload_max - 8) offset fuel buf rem cur d =
      Some (Some (0, list_splice (unat cur) (take (unat rem) (drop (unat offset + unat cur) (lsa d))) buf, d')) \<and> lsa d' = lsa d"
proof (induction fuel arbitrary: rem cur buf d)
  case (Suc fuel)
  show ?case
  proof (cases "rem = 0")
    case True
    then show ?thesis by simp
  next
    case False
    define p :: u64 where p_def: "p = min (word_of_int (payload_max - 8)) rem"
    note lp = loop_piece [OF pm label_kernelD(4) [OF lk] False p_def Suc.prems(1,3)]
    have nxt: "unat cur + unat p + (unat rem - unat p) \<le> length buf" "unat p \<le> length (drop (unat cur) buf)"
      using Suc.prems(2) lp(1) by auto
    let ?rest = "overlay (drop (unat cur) buf) (take (unat p) (drop (unat offset + unat cur) (lsa d)))"
    obtain d1 where d1: "lsa_op_piece sys payload_max LSA_OP_GET (drop (unat cur) buf) p (offset + cur) d = Some (0, ?rest, d1)"
      "lsa d1 = lsa d"
      using lsa_get_ok [OF lk, of "offset + cur" p payload_max "drop (unat cur) buf" d] Suc.prems pm lp(1-3) nxt(2)
      by (auto simp: lsa_op_piece_def)
    let ?buf = "take (unat cur) buf @ ?rest"
    have "length ?buf = length buf" using Suc.prems(2) by simp
    then obtain d' where d': "lsa_loop sys payload_max LSA_OP_GET (payload_max - 8) offset fuel ?buf (rem - p) (cur + p) d1 =
        Some (Some (0, list_splice (unat cur + unat p)
          (take (unat rem - unat p) (drop (unat offset + unat cur + unat p) (lsa d))) ?buf, d'))" "lsa d' = lsa d"
      using Suc.IH [of "cur + p" "rem - p" ?buf d1] lp(4-7) nxt(1) d1(2) by (auto simp: add.assoc)
    then show ?thesis
      using lsa_loop_step [OF False p_def d1(1)] splice_read_data [of "unat cur" "unat rem" buf "unat p" "unat offset + unat cur" "lsa d"]
        Suc.prems lp(1) label_kernelD(5) [OF lk, of d] by auto
  qed
qed simp

lemma write_label_ok:
  assumes "label_kernel sys cs lsa n" "8 < payload_max" "payload_max < 2 ^ 31" "unat offset + unat len \<le> n"
    "unat len \<le> length buf" "unat len < fuel"
  shows "\<exists>d'. cxl_memdev_write_label sys payload_max fuel (Some buf) len offset d = Some (Some (0, buf, d')) \<and>
    lsa d' = list_splice (unat offset) (take (unat len) buf) (lsa d)"
  using assms write_loop_ok [OF assms(1) _ assms(2,3), of LSA_OP_SET offset 0 len buf fuel d]
  by (auto simp: cxl_memdev_write_label_def lsa_op_def write_data_def)

lemma zero_label_ok:
  assumes "label_kernel sys cs lsa n" "8 < payload_max" "payload_max < 2 ^ 31" "unat offset + unat len \<le> n"
    "unat len < fuel"
  shows "\<exists>d'. cxl_memdev_zero_label sys payload_max fuel len offset d = Some (Some (0, [], d')) \<and>
    lsa d' = list_splice (unat offset) (replicate (unat len) 0) (lsa d)"
  using assms write_loop_ok [OF assms(1) _ assms(2,3), of LSA_OP_ZERO offset 0 len "[]" fuel d]
  by (auto simp: cxl_memdev_zero_label_def lsa_op_def write_data_def)

lemma read_label_area_ok:
  assumes "label_kernel sys cs lsa n" "8 < payload_max" "payload_max < 2 ^ 31" "unat offset + unat len \<le> n"
    "unat len \<le> length buf" "unat len < fuel"
  shows "\<exists>d'. cxl_memdev_read_label sys payload_max fuel (Some buf) len offset d
      = Some (Some (0, list_splice 0 (take (unat len) (drop (unat offset) (lsa d))) buf, d')) \<and> lsa d' = lsa d"
  using assms read_loop_ok [OF assms(1,2,3), of offset 0 len buf fuel d]
  by (auto simp: cxl_memdev_read_label_def lsa_op_def)

text \<open>Writing and reading the label area: a write of any length, split into pieces of what the mailbox holds, changes exactly the
  bytes of its range on the device, and a read of the range then fills the buffer with the bytes written and leaves the device as it
  is.\<close>

theorem label_write_read:
  assumes "label_kernel sys cs lsa n" "8 < payload_max" "payload_max < 2 ^ 31" "unat offset + unat len \<le> n"
    "length buf = unat len" "length rbuf = unat len" "unat len < fuel"
  shows "\<exists>d1 d2. cxl_memdev_write_label sys payload_max fuel (Some buf) len offset d = Some (Some (0, buf, d1)) \<and>
    lsa d1 = list_splice (unat offset) buf (lsa d) \<and>
    cxl_memdev_read_label sys payload_max fuel (Some rbuf) len offset d1 = Some (Some (0, buf, d2)) \<and> lsa d2 = lsa d1"
proof -
  obtain d1 where d1: "cxl_memdev_write_label sys payload_max fuel (Some buf) len offset d = Some (Some (0, buf, d1))"
    "lsa d1 = list_splice (unat offset) buf (lsa d)"
    using write_label_ok [OF assms(1-4), of buf fuel d] assms by auto
  have "take (unat len) (drop (unat offset) (lsa d1)) = buf"
    unfolding d1(2) using take_drop_splice [of "unat offset" buf "lsa d"] assms label_kernelD(5) [OF assms(1), of d] by simp
  moreover have "list_splice 0 buf rbuf = buf"
    using assms by (simp add: list_splice_def)
  ultimately show ?thesis
    using d1 read_label_area_ok [OF assms(1-4), of rbuf fuel d1] assms by auto
qed

lemma stalled_loop:
  assumes "label_kernel sys cs lsa n" "oper \<noteq> LSA_OP_GET" "rem \<noteq> 0" "unat (offset + cur) \<le> n"
  shows "lsa_loop sys 8 oper 0 offset fuel buf rem cur d = None"
proof (induction fuel arbitrary: d)
  case (Suc fuel)
  obtain d1 where "lsa_op_piece sys 8 oper (drop (unat cur) buf) 0 (offset + cur) d = Some (0, drop (unat cur) buf, d1)"
    using write_piece_ok [OF assms(1,2), of "offset + cur" 0 8 "drop (unat cur) buf" d] assms(4) by auto
  then show ?case
    using lsa_loop_step [of rem 0 0 sys 8 oper cur buf offset d "drop (unat cur) buf" d1] assms(3) Suc.IH by simp
qed simp

text \<open>A payload that is smaller than the header makes the length of a piece wrap around: the first piece is everything.\<close>

lemma one_piece_ends:
  assumes "unat len < 2 ^ 63" "0 \<le> payload_max" "payload_max < 8"
  shows "lsa_loop sys payload_max oper (payload_max - 8) offset (Suc (Suc 0)) buf len cur d \<noteq> None"
proof -
  have "(payload_max - 8) mod 2 ^ 64 = (payload_max - 8 + 2 ^ 64) mod 2 ^ 64" by (rule mod_add_self2 [symmetric])
  also have "\<dots> = payload_max - 8 + 2 ^ 64" using assms(2,3) by (intro mod_pos_pos_trivial) simp_all
  finally have w: "uint (word_of_int (payload_max - 8) :: u64) = payload_max - 8 + 2 ^ 64"
    by (simp only: uint_word_of_int len_num0 len_bit0 len_num1 mult_1_right) simp
  have "uint len < 2 ^ 63"
    using assms(1) [folded of_nat_less_iff [where 'a = int]] by (simp only: uint_nat of_nat_power of_nat_numeral)
  then have "uint len \<le> payload_max - 8 + 2 ^ 64" using assms(2) by simp
  then have "len \<le> word_of_int (payload_max - 8)" unfolding word_le_def w .
  then have "min (word_of_int (payload_max - 8)) len = len" by (simp add: min_def)
  then show ?thesis by (simp add: Let_def split: option.splits prod.splits)
qed

text \<open>C20: A write of labels inside the label area ends exactly if there is nothing to write or the payload of the mailbox is not just the
  eight bytes of the header.  With eight bytes every piece is empty and the loop goes on forever, although every command succeeds; a
  smaller payload ends with its first piece.\<close>

theorem label_write_ends_iff:
  assumes "label_kernel sys cs lsa n" "payload_max < 2 ^ 31" "unat offset + unat len \<le> n" "unat len \<le> length buf"
  shows "(\<exists>fuel. cxl_memdev_write_label sys payload_max fuel (Some buf) len offset d \<noteq> None) \<longleftrightarrow> (payload_max \<noteq> 8 \<or> len = 0)"
proof (cases "len = 0 \<or> payload_max < 0")
  case True
  then show ?thesis by (auto simp: cxl_memdev_write_label_def lsa_op_def)
next
  case False
  consider "payload_max < 8" | "payload_max = 8" | "8 < payload_max" by linarith
  then show ?thesis
  proof cases
    case 1
    then have "lsa_loop sys payload_max LSA_OP_SET (payload_max - 8) offset (Suc (Suc 0)) buf len 0 d \<noteq> None"
      using False assms(3) label_kernelD(4) [OF assms(1)] by (intro one_piece_ends) simp_all
    then have "cxl_memdev_write_label sys payload_max (Suc (Suc 0)) (Some buf) len offset d \<noteq> None"
      using False unfolding cxl_memdev_write_label_def lsa_op_def by (simp del: lsa_loop.simps)
    then show ?thesis using 1 by blast
  next
    case 2
    then show ?thesis
      using False stalled_loop [OF assms(1), of LSA_OP_SET len offset 0] assms(3)
      by (simp add: cxl_memdev_write_label_def lsa_op_def)
  next
    case 3
    then show ?thesis
      using write_label_ok [OF assms(1) 3 assms(2,3,4), of "Suc (unat len)" d] by auto
  qed
qed

subsection \<open>A device\<close>

text \<open>A memory device with a label area of 20 bytes, for the examples.\<close>

definition demo_lsa :: "u8 list \<Rightarrow> u8 list" where
  "demo_lsa d = take 20 (d @ replicate 20 0)"

definition demo_send :: "cxl_send_command \<Rightarrow> u8 list \<Rightarrow> u8 list \<Rightarrow> int \<times> u32 \<times> int \<times> u8 list \<times> u8 list" where
  "demo_send s ib d =
     (let ofs = unat (le_get 4 (nth ib) 0 :: u32); len = unat (le_get 4 (nth (drop 4 ib)) 0 :: u32) in
      if sc_id s = CXL_MEM_COMMAND_ID_GET_LSA then (0, 0, int len, take len (drop ofs (demo_lsa d)), d)
      else if sc_id s = CXL_MEM_COMMAND_ID_SET_LSA then (0, 0, 0, [], list_splice ofs (drop 8 ib) (demo_lsa d))
      else (- EIO, 0, 0, [], d))"

definition demo_cmds :: "cxl_command_info list" where
  "demo_cmds = map (\<lambda>(i, si, so). \<lparr>ci_id = i, ci_flags = 0, ci_size_in = si, ci_size_out = so\<rparr>)
     [(1, 0, 67), (6, 8, - 1), (7, 0, 18), (9, 9, 0), (10, - 1, 0), (12, 12, 0)]"

definition mbox_of :: "cxl_command_info list \<Rightarrow> (cxl_send_command \<Rightarrow> u8 list \<Rightarrow> 'd \<Rightarrow> int \<times> u32 \<times> int \<times> u8 list \<times> 'd) \<Rightarrow> 'd mbox_sys" where
  "mbox_of cs send =
     \<lparr>my_calloc = (\<lambda>_. True), my_open = (\<lambda>_. 0), my_valid = (\<lambda>_. True),
      my_query = (\<lambda>n d. (0, of_nat (length cs), if n = 0 then [] else cs, d)), my_send = send\<rparr>"

lemma answers_mbox_of: "length cs < 2 ^ 27 \<Longrightarrow> answers (mbox_of cs send) cs"
  by (auto simp: answers_def mbox_of_def dest!: arg_cong [where f = unat] simp: unat_of_nat_u32)

lemma le_get_append: "n \<le> length xs \<Longrightarrow> le_get n (nth (xs @ ys)) 0 = le_get n (nth xs) 0"
  by (rule le_get_cong) (simp add: nth_append)

lemma demo_reports: "reports (mbox_of demo_cmds send) demo_cmds"
  using answers_mbox_of [of demo_cmds] by (auto simp: reports_def demo_cmds_def)

lemma length_demo_lsa [simp]: "length (demo_lsa d) = 20"
  by (simp add: demo_lsa_def)

lemma demo_get:
  "sc_id s = CXL_MEM_COMMAND_ID_GET_LSA \<Longrightarrow> demo_send s (le_bytes 4 (ofs :: u32) @ le_bytes 4 (len :: u32)) d
     = (0, 0, int (unat len), take (unat len) (drop (unat ofs) (demo_lsa d)), d)"
  by (simp add: demo_send_def Let_def le_get_append le_get_le_bytes)

lemma demo_set:
  assumes "sc_id s = CXL_MEM_COMMAND_ID_SET_LSA" "unat ofs + length bs \<le> 20"
  shows "\<exists>d'. demo_send s (le_bytes 4 (ofs :: u32) @ replicate 4 0 @ bs) d = (0, 0, 0, [], d') \<and>
    demo_lsa d' = list_splice (unat ofs) bs (demo_lsa d)"
proof -
  have "demo_lsa x = x" if "length x = 20" for x
    using that by (simp add: demo_lsa_def)
  then show ?thesis
    using assms by (simp add: demo_send_def Let_def le_get_append le_get_le_bytes)
qed

lemma demo_declares:
  "declares demo_cmds CXL_MEM_COMMAND_ID_GET_LSA 8 (- 1)" "declares demo_cmds CXL_MEM_COMMAND_ID_SET_LSA (- 1) 0"
  "declares demo_cmds CXL_MEM_COMMAND_ID_GET_HEALTH_INFO 0 18" "declares demo_cmds CXL_MEM_COMMAND_ID_IDENTIFY 0 67"
  "declares demo_cmds CXL_MEM_COMMAND_ID_SET_PARTITION_INFO 9 0" "declares demo_cmds CXL_MEM_COMMAND_ID_SET_ALERT_CONFIG 12 0"
  by (simp_all add: declares_def demo_cmds_def)

lemma demo_label_kernel: "label_kernel (mbox_of demo_cmds demo_send) demo_cmds demo_lsa 20"
  unfolding label_kernel_def using demo_reports demo_declares(1,2) demo_get demo_set by (simp add: mbox_of_def)

theorem label_write_read_witness:
  "\<exists>d1 d2. cxl_memdev_write_label (mbox_of demo_cmds demo_send) 12 11 (Some [1, 2, 3, 4, 5, 6, 7, 8, 9, 10]) 10 3 []
      = Some (Some (0, [1, 2, 3, 4, 5, 6, 7, 8, 9, 10], d1)) \<and>
    demo_lsa d1 = list_splice 3 [1, 2, 3, 4, 5, 6, 7, 8, 9, 10] (demo_lsa []) \<and>
    cxl_memdev_read_label (mbox_of demo_cmds demo_send) 12 11 (Some (replicate 10 0)) 10 3 d1
      = Some (Some (0, [1, 2, 3, 4, 5, 6, 7, 8, 9, 10], d2)) \<and> demo_lsa d2 = demo_lsa d1"
  using label_write_read [OF demo_label_kernel, of 12 3 10 "[1, 2, 3, 4, 5, 6, 7, 8, 9, 10]" "replicate 10 0" 11 "[]"] by simp

theorem label_write_ends_iff_witness:
  "\<not> (\<exists>fuel. cxl_memdev_write_label (mbox_of demo_cmds demo_send) 8 fuel (Some [1, 2, 3]) 3 0 [] \<noteq> None)"
  using label_write_ends_iff [OF demo_label_kernel, of 8 0 3 "[1, 2, 3]" "[]"] by simp

subsection \<open>Errors of the accessors\<close>

text \<open>An accessor of the output of a command: an error is returned for a command of another kind and for one with a negative
  status, and a field of the output is not negative.\<close>

locale payload_getter =
  fixes get :: "cxl_cmd \<Rightarrow> int option" and cid :: u32
  assumes rejects: "mc_send_cmd cmd = Some s \<Longrightarrow> sc_id s \<noteq> cid \<Longrightarrow> get cmd = Some (- EINVAL)"
    and fails: "mc_send_cmd cmd = Some s \<Longrightarrow> sc_id s = cid \<Longrightarrow> mc_status cmd < 0 \<Longrightarrow> get cmd = Some (mc_status cmd)"
    and field: "mc_send_cmd cmd = Some s \<Longrightarrow> sc_id s = cid \<Longrightarrow> 0 \<le> mc_status cmd \<Longrightarrow> get cmd = Some v \<Longrightarrow> 0 \<le> v"
begin

lemma negative_iff:
  assumes "mc_send_cmd cmd = Some s" "get cmd = Some v"
  shows "v < 0 \<longleftrightarrow> sc_id s \<noteq> cid \<or> mc_status cmd < 0"
proof (cases "sc_id s = cid")
  case True
  then show ?thesis
    using assms fails [OF assms(1) True] field [OF assms(1) True _ assms(2)] by (cases "mc_status cmd < 0") auto
next
  case False
  then show ?thesis using assms rejects [OF assms(1) False] by simp
qed

end

lemma get_out_error:
  assumes "mc_send_cmd cmd = Some s"
  shows "sc_id s \<noteq> cid \<Longrightarrow> get_out cmd cid f = Some (- EINVAL)"
    "sc_id s = cid \<Longrightarrow> mc_status cmd < 0 \<Longrightarrow> get_out cmd cid f = Some (mc_status cmd)"
    "sc_id s = cid \<Longrightarrow> 0 \<le> mc_status cmd \<Longrightarrow> get_out cmd cid f = do {c \<leftarrow> out_bytes cmd; f c}"
  using assms by (simp_all add: get_out_def cxl_cmd_validate_status_def)

lemmas getter_simps = cmd_get_field_u8_def cmd_get_field_u16_def cmd_get_field_u8_mask_def cmd_health_check_media_field_def
  cmd_health_check_ext_field_def get_out_error Option.bind_eq_Some_conv

interpretation field_u8: payload_getter "\<lambda>cmd. cmd_get_field_u8 cmd cid ofs" cid for cid ofs
  by unfold_locales (auto simp: getter_simps)

interpretation field_u16: payload_getter "\<lambda>cmd. cmd_get_field_u16 cmd cid ofs" cid for cid ofs
  by unfold_locales (auto simp: getter_simps)

interpretation field_mask: payload_getter "\<lambda>cmd. cmd_get_field_u8_mask cmd cid ofs m" cid for cid ofs m
  by unfold_locales (auto simp: getter_simps split: if_splits)

interpretation media_field: payload_getter "\<lambda>cmd. cmd_health_check_media_field cmd f" CXL_MEM_COMMAND_ID_GET_HEALTH_INFO for f
  by unfold_locales (auto simp: getter_simps split: if_splits)

interpretation ext_field: payload_getter "\<lambda>cmd. cmd_health_check_ext_field cmd sh w t" CXL_MEM_COMMAND_ID_GET_HEALTH_INFO for sh w t
  by unfold_locales (auto simp: getter_simps split: if_splits)

text \<open>A negative media status or life used threshold is an error of the command; but a counter of 32 bits is
  returned as an \<open>int\<close>, so that the count of dirty shutdowns of a healthy command can be any negative number, and also an error number.\<close>

theorem getters_signed:
  assumes "mc_send_cmd cmd = Some s" "sc_id s = CXL_MEM_COMMAND_ID_GET_HEALTH_INFO" "mc_status cmd = 0" "out_bytes cmd = Some b"
    "18 \<le> length b"
  shows "(\<exists>v \<ge> 0. cxl_cmd_health_info_get_media_normal cmd = Some v) \<and>
    (\<exists>v \<ge> 0. health_info_get_temperature_raw cmd = Some v) \<and>
    cxl_cmd_health_info_get_dirty_shutdowns cmd = Some (sint (le_get 4 (nth (take 4 (drop 6 b))) 0 :: u32))"
proof -
  have "0 \<le> v" if "cxl_cmd_health_info_get_media_normal cmd = Some v" for v
    using media_field.negative_iff [OF assms(1), of 0 v] that assms by (simp add: cxl_cmd_health_info_get_media_normal_def)
  moreover have "0 \<le> v" if "health_info_get_temperature_raw cmd = Some v" for v
    using field_u16.negative_iff [OF assms(1), of CXL_MEM_COMMAND_ID_GET_HEALTH_INFO 4 v] that assms(2,3) by (simp add: health_info_get_temperature_raw_def)
  moreover have "\<exists>v. cxl_cmd_health_info_get_media_normal cmd = Some v" "\<exists>v. health_info_get_temperature_raw cmd = Some v"
    "cxl_cmd_health_info_get_dirty_shutdowns cmd = Some (sint (le_get 4 (nth (take 4 (drop 6 b))) 0 :: u32))"
    using assms by (simp_all add: cxl_cmd_health_info_get_media_normal_def health_info_get_temperature_raw_def
        cxl_cmd_health_info_get_dirty_shutdowns_def cmd_get_field_u32_def getter_simps buf_get_def buf_read_def)
  ultimately show ?thesis by blast
qed

lemma find_command_unknown:
  "\<forall>x \<in> set xs. ci_id x \<noteq> cmd_id \<Longrightarrow> n_command_names \<le> unat (ci_id c) \<Longrightarrow>
   find_command (xs @ c # ys) (length (xs @ c # ys)) i cmd_id = None"
  by (induction xs arbitrary: i) auto

text \<open>The library looks up the name of every command of the query in its own table, before it knows whether it is the one it
  looks for, so a command that a newer kernel reports first is read outside the table.\<close>

theorem unknown_command_faults:
  assumes "answers sys (xs @ c # ys)" "\<forall>x \<in> set xs. ci_id x \<noteq> cmd_id" "n_command_names \<le> unat (ci_id c)"
  shows "cxl_cmd_new_generic sys cmd_id d = None"
proof -
  let ?cs = "xs @ c # ys"
  have "length ?cs < 2 ^ 27" "\<And>n. my_calloc sys n"
    using assms(1) by (auto simp: answers_def)
  moreover from this have "unat (of_nat (length ?cs) :: u32) = length ?cs"
    by (simp add: unat_of_nat_u32 del: length_append)
  ultimately show ?thesis
    using do_query_ok [OF assms(1)] find_command_unknown [OF assms(2,3), of ys 0]
    by (simp add: cxl_cmd_new_generic_def cxl_cmd_new_def cxl_cmd_ref_def cxl_cmd_validate_def del: length_append)
qed

theorem unknown_command_faults_witness:
  "cxl_cmd_new_generic (mbox_of (\<lparr>ci_id = 22, ci_flags = 0, ci_size_in = 0, ci_size_out = 0\<rparr> # demo_cmds) demo_send)
     CXL_MEM_COMMAND_ID_IDENTIFY [] = None"
  by (rule unknown_command_faults [of _ "[]" "\<lparr>ci_id = 22, ci_flags = 0, ci_size_in = 0, ci_size_out = 0\<rparr>" demo_cmds])
    (simp_all add: answers_mbox_of demo_cmds_def)

lemma buf_get_zeros: "ofs + n \<le> k \<Longrightarrow> buf_get n ofs (replicate k 0) = Some (0 :: 'a::len word)"
proof -
  assume "ofs + n \<le> k"
  moreover have "le_get n (nth (replicate n 0)) 0 = (le_get n (\<lambda>_. 0) 0 :: 'a word)"
    by (rule le_get_cong) simp
  moreover have "le_get m (\<lambda>_. 0) x = (0 :: 'a word)" for m x
    by (induction m arbitrary: x) simp_all
  ultimately show ?thesis by (simp add: buf_get_def buf_read_def)
qed

lemma health_of_zeros:
  assumes "mc_send_cmd c = Some s" "sc_id s = CXL_MEM_COMMAND_ID_GET_HEALTH_INFO" "0 \<le> mc_status c"
    "out_bytes c = Some (replicate 18 0)"
  shows "cxl_cmd_health_info_get_media_normal c = Some 1" "cxl_cmd_health_info_get_temperature c = Some 0"
  using assms
  by (simp_all add: cxl_cmd_health_info_get_media_normal_def cxl_cmd_health_info_get_temperature_def
      health_info_get_temperature_raw_def cmd_health_check_media_field_def cmd_get_field_u16_def get_out_error buf_get_zeros)

text \<open>The accessors take a command that was never submitted, and one whose submission failed, for a successful one: the status of
  the first is 1, that of the second is the zero of the fresh \<open>send_cmd\<close>, and the device reads as healthy.\<close>

theorem failed_health_reads_healthy:
  assumes "reports sys cs" "declares cs CXL_MEM_COMMAND_ID_GET_HEALTH_INFO 0 18"
    "\<And>s ib d. my_send sys s ib d = (- EIO, sc_retval s, sc_out_size s, [], d)"
  shows "\<exists>cmd cmd'. cxl_cmd_new_get_health_info sys d = Some (Some cmd, d) \<and> cxl_cmd_submit sys cmd d = Some (- EIO, cmd', d) \<and>
    cxl_cmd_health_info_get_media_normal cmd = Some 1 \<and> cxl_cmd_health_info_get_temperature cmd = Some 0 \<and>
    cxl_cmd_get_mbox_status cmd' = 0 \<and>
    cxl_cmd_health_info_get_media_normal cmd' = Some 1 \<and> cxl_cmd_health_info_get_temperature cmd' = Some 0"
proof -
  obtain j where new: "cxl_cmd_new_get_health_info sys d
      = Some (Some (fresh_cmd cs j CXL_MEM_COMMAND_ID_GET_HEALTH_INFO 0 18), d)"
    using new_generic_ok [OF assms(1,2)] by (auto simp: cxl_cmd_new_get_health_info_def)
  have env: "my_open sys d = 0" "my_valid sys d"
    using assms(1) by (auto simp: reports_def answers_def)
  have sub: "cxl_cmd_submit sys (fresh_cmd cs j CXL_MEM_COMMAND_ID_GET_HEALTH_INFO 0 18) d
      = Some (- EIO, (fresh_cmd cs j CXL_MEM_COMMAND_ID_GET_HEALTH_INFO 0 18)\<lparr>mc_status := 0\<rparr>, d)"
    using env by (simp add: cxl_cmd_submit_def mbox_do_cmd_def mbox_ioctl_def assms(3) fresh_cmd_def fresh_send_def store_output_def
        overlay_def in_bytes_def payload_bytes_def)
  have "cxl_cmd_health_info_get_media_normal c = Some 1" "cxl_cmd_health_info_get_temperature c = Some 0"
    if "c = fresh_cmd cs j CXL_MEM_COMMAND_ID_GET_HEALTH_INFO 0 18
      \<or> c = (fresh_cmd cs j CXL_MEM_COMMAND_ID_GET_HEALTH_INFO 0 18)\<lparr>mc_status := 0\<rparr>" for c
    using that health_of_zeros [of c] by (auto simp: fresh_cmd_def fresh_send_def out_bytes_def payload_bytes_def)
  then show ?thesis
    using new sub by (intro exI [of _ "fresh_cmd cs j CXL_MEM_COMMAND_ID_GET_HEALTH_INFO 0 18"]
        exI [of _ "(fresh_cmd cs j CXL_MEM_COMMAND_ID_GET_HEALTH_INFO 0 18)\<lparr>mc_status := 0\<rparr>"])
      (simp add: cxl_cmd_get_mbox_status_def)
qed

theorem failed_health_reads_healthy_witness:
  "\<exists>cmd cmd'. cxl_cmd_new_get_health_info (mbox_of demo_cmds (\<lambda>s ib d. (- EIO, sc_retval s, sc_out_size s, [], d))) ()
       = Some (Some cmd, ()) \<and>
     cxl_cmd_submit (mbox_of demo_cmds (\<lambda>s ib d. (- EIO, sc_retval s, sc_out_size s, [], d))) cmd () = Some (- EIO, cmd', ()) \<and>
     cxl_cmd_health_info_get_media_normal cmd = Some 1 \<and> cxl_cmd_health_info_get_temperature cmd = Some 0 \<and>
     cxl_cmd_get_mbox_status cmd' = 0 \<and>
     cxl_cmd_health_info_get_media_normal cmd' = Some 1 \<and> cxl_cmd_health_info_get_temperature cmd' = Some 0"
  by (rule failed_health_reads_healthy [OF demo_reports demo_declares(3)]) (simp add: mbox_of_def)

theorem getters_signed_witness:
  "cxl_cmd_health_info_get_dirty_shutdowns
     ((fresh_cmd demo_cmds 2 CXL_MEM_COMMAND_ID_GET_HEALTH_INFO 0 18)
        \<lparr>mc_status := 0, mc_output_payload := Some (replicate 6 0 @ [0xea, 0xff, 0xff, 0xff] @ replicate 8 0)\<rparr>) = Some (- EINVAL)"
proof -
  have "sint (le_get 4 (nth (take 4 (drop 6 (replicate 6 0 @ [0xea, 0xff, 0xff, 0xff] @ replicate 8 0)))) 0 :: u32) = - EINVAL"
    by code_simp
  then show ?thesis
    using getters_signed [of "(fresh_cmd demo_cmds 2 CXL_MEM_COMMAND_ID_GET_HEALTH_INFO 0 18)
        \<lparr>mc_status := 0, mc_output_payload := Some (replicate 6 0 @ [0xea, 0xff, 0xff, 0xff] @ replicate 8 0)\<rparr>"
        "fresh_send CXL_MEM_COMMAND_ID_GET_HEALTH_INFO 0 18" "replicate 6 0 @ [0xea, 0xff, 0xff, 0xff] @ replicate 8 0"]
    by (simp add: fresh_cmd_def fresh_send_def out_bytes_def payload_bytes_def)
qed

end
