(* ===== verification/Cxl_Memdev.thy ===== *)
theory Cxl_Memdev
  imports Cxl_Mbox Dev_Filter
begin

text \<open>
  The memdev commands of the \<open>cxl\<close> tool (\<open>cxl/memdev.c\<close>) over the mailbox of \<open>Cxl_Mbox\<close>: reading, writing and zeroing labels,
  setting the partition and the alerts, updating the firmware, disabling and enabling, waiting for the end of a sanitize
  operation, and the loop over the memdevs of the command line; with the functions of libcxl these actions use.

  The device and the file system are parameters over an arbitrary state (\<open>memdev_sys\<close>).  An action returns its code and the state;
  \<open>None\<close> is an action that does not return or that makes an invalid access.  Messages are left out.
\<close>

subsection \<open>Parameters and environment\<close>

record memdev_params =
  mp_bus :: "string option"
  mp_len :: u32
  mp_offset :: u32
  mp_serial :: bool
  mp_force :: bool
  mp_align :: bool
  mp_cancel :: bool
  mp_wait :: bool
  mp_fw_file :: "string option"
  mp_type :: "string option"
  mp_size :: "string option"
  mp_timeout :: int

text \<open>The label functions: the mailbox, the size of the label area (\<open>SIZE_MAX\<close> if unknown), whether the nvdimm bridge is active,
  \<open>calloc\<close>, the input file and the result of \<open>ftell\<close> at its end (a \<open>size_t\<close>), and how many bytes \<open>fwrite\<close> takes.
  Binding: \<open>ms_enabled\<close> whether a driver is bound, \<open>ms_bind\<close> and \<open>ms_unbind\<close> the requests, \<open>ms_committed\<close> the number of committed
  decoders of the endpoint's port (\<open>None\<close> without endpoint or port), \<open>ms_bus\<close> the bus of a memdev.  \<open>ms_json\<close> says whether the
  description of a memdev can be created.\<close>

record 'd memdev_sys =
  ms_mbox :: "cxl_memdev \<Rightarrow> 'd mbox_sys"
  ms_payload_max :: "cxl_memdev \<Rightarrow> int"
  ms_label_size :: "cxl_memdev \<Rightarrow> u64"
  ms_bridge_active :: "cxl_memdev \<Rightarrow> 'd \<Rightarrow> bool"
  ms_calloc :: "nat \<Rightarrow> bool"
  ms_infile :: "u8 list"
  ms_ftell :: u64
  ms_fwrite :: "u8 list \<Rightarrow> nat"
  ms_enabled :: "cxl_memdev \<Rightarrow> 'd \<Rightarrow> bool"
  ms_bind :: "cxl_memdev \<Rightarrow> 'd \<Rightarrow> 'd"
  ms_unbind :: "cxl_memdev \<Rightarrow> 'd \<Rightarrow> 'd"
  ms_committed :: "cxl_memdev \<Rightarrow> 'd \<Rightarrow> int option"
  ms_bus :: "cxl_memdev \<Rightarrow> 'd \<Rightarrow> cxl_bus option"
  ms_invalidate :: "cxl_bus \<Rightarrow> 'd \<Rightarrow> 'd"
  ms_json :: "cxl_memdev \<Rightarrow> 'd \<Rightarrow> bool"

text \<open>The state of a run: the device, what was written to the output file, and the memdevs in the JSON array.\<close>

record 'd cli =
  cl_dev :: 'd
  cl_out :: "u8 list"
  cl_jdevs :: "cxl_memdev list"

definition with_dev :: "'d cli \<Rightarrow> int \<times> 'd \<Rightarrow> int \<times> 'd cli" where
  "with_dev s r = (fst r, s\<lparr>cl_dev := snd r\<rparr>)"

definition add_jdev :: "'d memdev_sys \<Rightarrow> cxl_memdev \<Rightarrow> 'd cli \<Rightarrow> 'd cli" where
  "add_jdev sys memdev s = (if ms_json sys memdev (cl_dev s) then s\<lparr>cl_jdevs := cl_jdevs s @ [memdev]\<rparr> else s)"

subsection \<open>Labels\<close>

definition label_len :: "'d memdev_sys \<Rightarrow> memdev_params \<Rightarrow> cxl_memdev \<Rightarrow> u64 option" where
  "label_len sys p memdev =
     (if mp_len p \<noteq> 0 then Some (ucast (mp_len p))
      else if ms_label_size sys memdev = - 1 then None
      else Some (ms_label_size sys memdev))"

definition action_zero :: "'d memdev_sys \<Rightarrow> nat \<Rightarrow> memdev_params \<Rightarrow> cxl_memdev \<Rightarrow> 'd cli \<Rightarrow> (int \<times> 'd cli) option" where
  "action_zero sys fuel p memdev s =
     (case label_len sys p memdev of
        None \<Rightarrow> Some (- EINVAL, s)
      | Some sz \<Rightarrow>
          if ms_bridge_active sys memdev (cl_dev s) then Some (- EBUSY, s)
          else do {r \<leftarrow> cxl_memdev_zero_label (ms_mbox sys memdev) (ms_payload_max sys memdev) fuel sz (ucast (mp_offset p)) (cl_dev s);
                   (rc, _, d) \<leftarrow> r;
                   Some (rc, s\<lparr>cl_dev := d\<rparr>)})"

text \<open>The size of a write: \<open>--size\<close> or that of the input file.\<close>

definition write_len :: "'d memdev_sys \<Rightarrow> memdev_params \<Rightarrow> cxl_memdev \<Rightarrow> u64 option" where
  "write_len sys p memdev =
     (if mp_len p \<noteq> 0 then Some (ucast (mp_len p))
      else if ms_label_size sys memdev = - 1 then None
      else if ms_ftell sys > ms_label_size sys memdev then None
      else Some (ms_ftell sys))"

definition action_write :: "'d memdev_sys \<Rightarrow> nat \<Rightarrow> memdev_params \<Rightarrow> cxl_memdev \<Rightarrow> 'd cli \<Rightarrow> (int \<times> 'd cli) option" where
  "action_write sys fuel p memdev s =
     (if ms_bridge_active sys memdev (cl_dev s) then Some (- EBUSY, s)
      else case write_len sys p memdev of
        None \<Rightarrow> Some (- EINVAL, s)
      | Some sz \<Rightarrow>
          if \<not> ms_calloc sys (unat sz) then Some (- ENOMEM, s)
          else if length (ms_infile sys) < unat sz then Some (- ENXIO, s)
          else do {r \<leftarrow> cxl_memdev_write_label (ms_mbox sys memdev) (ms_payload_max sys memdev) fuel
                          (Some (take (unat sz) (ms_infile sys))) sz (ucast (mp_offset p)) (cl_dev s);
                   (rc, _, d) \<leftarrow> r;
                   Some (rc, s\<lparr>cl_dev := d\<rparr>)})"

definition action_read :: "'d memdev_sys \<Rightarrow> nat \<Rightarrow> memdev_params \<Rightarrow> cxl_memdev \<Rightarrow> 'd cli \<Rightarrow> (int \<times> 'd cli) option" where
  "action_read sys fuel p memdev s =
     (case label_len sys p memdev of
        None \<Rightarrow> Some (- EINVAL, s)
      | Some sz \<Rightarrow>
          if \<not> ms_calloc sys (unat sz) then Some (- ENOMEM, s)
          else do {r \<leftarrow> cxl_memdev_read_label (ms_mbox sys memdev) (ms_payload_max sys memdev) fuel
                          (Some (replicate (unat sz) 0)) sz (ucast (mp_offset p)) (cl_dev s);
                   (rc, buf, d) \<leftarrow> r;
                   if rc < 0 then Some (rc, s\<lparr>cl_dev := d\<rparr>)
                   else let n = ms_fwrite sys buf in
                     Some (if n \<noteq> unat sz then - ENXIO else rc, s\<lparr>cl_dev := d, cl_out := cl_out s @ take n buf\<rparr>)})"

subsection \<open>Partitions\<close>

datatype cxl_setpart_type = CXL_SETPART_PMEM | CXL_SETPART_VOLATILE

definition partition_align :: "memdev_params \<Rightarrow> cxl_setpart_type \<Rightarrow> u64 \<Rightarrow> u64 \<Rightarrow> u64 \<Rightarrow> u64" where
  "partition_align p type volatile_size alignment available =
     (if IS_ALIGNED volatile_size alignment then volatile_size
      else if \<not> mp_align p then ULLONG_MAX
      else let volatile_size = (if type = CXL_SETPART_PMEM then ALIGN_DOWN volatile_size alignment else ALIGN volatile_size alignment)
        in if volatile_size > available then ULLONG_MAX else volatile_size)"

definition param_size_to_volatile_size :: "cxl_setpart_type \<Rightarrow> u64 \<Rightarrow> u64 \<Rightarrow> u64" where
  "param_size_to_volatile_size type sz available =
     (if sz = ULLONG_MAX then (if type = CXL_SETPART_PMEM then 0 else available)
      else if sz > available then ULLONG_MAX
      else if type = CXL_SETPART_PMEM then available - sz
      else sz)"

text \<open>The part of \<open>validate_partition\<close> behind the identification, over the four capacities.\<close>

definition partition_request :: "memdev_params \<Rightarrow> cxl_setpart_type \<Rightarrow> u64 \<Rightarrow> u64 \<Rightarrow> u64 \<Rightarrow> u64 \<Rightarrow> u64 \<Rightarrow> u64" where
  "partition_request p type sz alignment total_cap volatile_only persistent_only =
     (if alignment = 0 then ULLONG_MAX
      else let available = total_cap - volatile_only - persistent_only;
               volatile_size = param_size_to_volatile_size type sz available
        in if volatile_size = ULLONG_MAX then ULLONG_MAX
           else partition_align p type volatile_size alignment available)"

definition validate_partition :: "'d mbox_sys \<Rightarrow> memdev_params \<Rightarrow> cxl_setpart_type \<Rightarrow> u64 \<Rightarrow> 'd \<Rightarrow> (u64 \<times> 'd) option" where
  "validate_partition mb p type sz d =
     do {(q, d) \<leftarrow> cxl_cmd_new_identify mb d;
         case q of
           None \<Rightarrow> Some (ULLONG_MAX, d)
         | Some cmd \<Rightarrow>
             do {(rc, cmd, d) \<leftarrow> cxl_cmd_submit mb cmd d;
                 if rc < 0 \<or> cxl_cmd_get_mbox_status cmd \<noteq> 0
                 then do {_ \<leftarrow> cxl_cmd_unref (CLive cmd); Some (ULLONG_MAX, d)}
                 else do {
                   alignment \<leftarrow> cxl_cmd_identify_get_partition_align cmd;
                   if alignment = 0 then do {_ \<leftarrow> cxl_cmd_unref (CLive cmd); Some (ULLONG_MAX, d)}
                   else do {
                     total_cap \<leftarrow> cxl_cmd_identify_get_total_size cmd;
                     volatile_only \<leftarrow> cxl_cmd_identify_get_volatile_only_size cmd;
                     persistent_only \<leftarrow> cxl_cmd_identify_get_persistent_only_size cmd;
                     _ \<leftarrow> cxl_cmd_unref (CLive cmd);
                     Some (partition_request p type sz alignment total_cap volatile_only persistent_only, d)}}}}"

definition partition_type :: "string option \<Rightarrow> cxl_setpart_type option" where
  "partition_type type =
     (case type of
        None \<Rightarrow> Some CXL_SETPART_PMEM
      | Some t \<Rightarrow> if t = ''pmem'' then Some CXL_SETPART_PMEM
                  else if t = ''volatile'' \<or> t = ''ram'' then Some CXL_SETPART_VOLATILE
                  else None)"

text \<open>Submission as \<open>action_setpartition\<close> and \<open>action_set_alert_config\<close> do it, with the description of the memdev behind it.\<close>

definition submit_and_report :: "'d memdev_sys \<Rightarrow> cxl_memdev \<Rightarrow> cxl_cmd \<Rightarrow> 'd cli \<Rightarrow> (int \<times> 'd cli) option" where
  "submit_and_report sys memdev cmd s =
     do {(rc, cmd, d) \<leftarrow> cxl_cmd_submit (ms_mbox sys memdev) cmd (cl_dev s);
         _ \<leftarrow> cxl_cmd_unref (CLive cmd);
         Some (if rc < 0 then rc else if cxl_cmd_get_mbox_status cmd \<noteq> 0 then - ENXIO else 0,
               add_jdev sys memdev (s\<lparr>cl_dev := d\<rparr>))}"

definition action_setpartition :: "'d memdev_sys \<Rightarrow> memdev_params \<Rightarrow> cxl_memdev \<Rightarrow> 'd cli \<Rightarrow> (int \<times> 'd cli) option" where
  "action_setpartition sys p memdev s =
     (case partition_type (mp_type p) of
        None \<Rightarrow> Some (- EINVAL, s)
      | Some type \<Rightarrow>
          let sz = (case mp_size p of None \<Rightarrow> ULLONG_MAX | Some t \<Rightarrow> parse_size64 (Some t)) in
          if mp_size p \<noteq> None \<and> sz = ULLONG_MAX then Some (- EINVAL, s)
          else do {
            (sz, d) \<leftarrow> validate_partition (ms_mbox sys memdev) p type sz (cl_dev s);
            let s = s\<lparr>cl_dev := d\<rparr> in
            if sz = ULLONG_MAX then Some (- EINVAL, s)
            else do {(cmd, d) \<leftarrow> cxl_cmd_new_set_partition (ms_mbox sys memdev) sz d;
                     submit_and_report sys memdev cmd (s\<lparr>cl_dev := d\<rparr>)}})"

subsection \<open>Alerts\<close>

datatype cxl_setalert_event = CXL_SETALERT_LIFE_USED | CXL_SETALERT_OVER_TEMP | CXL_SETALERT_UNDER_TEMP
  | CXL_SETALERT_VOLATILE_MEM_ERROR | CXL_SETALERT_PMEM_ERROR

definition event_num :: "cxl_setalert_event \<Rightarrow> nat" where
  "event_num e = (case e of CXL_SETALERT_LIFE_USED \<Rightarrow> 0 | CXL_SETALERT_OVER_TEMP \<Rightarrow> 1 | CXL_SETALERT_UNDER_TEMP \<Rightarrow> 2
     | CXL_SETALERT_VOLATILE_MEM_ERROR \<Rightarrow> 3 | CXL_SETALERT_PMEM_ERROR \<Rightarrow> 4)"

definition validate_alert_threshold :: "cxl_setalert_event \<Rightarrow> int \<Rightarrow> int" where
  "validate_alert_threshold event threshold =
     (if event = CXL_SETALERT_LIFE_USED then (if threshold < 0 \<or> threshold > 100 then - EINVAL else 0)
      else if event = CXL_SETALERT_OVER_TEMP \<or> event = CXL_SETALERT_UNDER_TEMP
      then (if threshold < - 32768 \<or> threshold > 32767 then - EINVAL else 0)
      else (if threshold < 0 \<or> threshold > 65535 then - EINVAL else 0))"

text \<open>The macro \<open>alert_param_set_threshold\<close>: the new masks of valid and enabled alerts and the threshold, 0 if there is none.\<close>

definition alert_param_set_threshold ::
  "cxl_setalert_event \<Rightarrow> string option \<Rightarrow> string option \<Rightarrow> u32 \<Rightarrow> u32 \<Rightarrow> int + (u32 \<times> u32 \<times> int)" where
  "alert_param_set_threshold event alert threshold valid enable =
     (case alert of
        None \<Rightarrow> if threshold \<noteq> None then Inl (- EINVAL) else Inr (valid, enable, 0)
      | Some a \<Rightarrow>
          if a = ''on'' then
            (case threshold of
               None \<Rightarrow> Inl (- EINVAL)
             | Some t \<Rightarrow>
                 (case strtol10 t of (v, rest) \<Rightarrow>
                    if rest \<noteq> [] then Inl (- EINVAL)
                    else if validate_alert_threshold event (to_int v) \<noteq> 0 then Inl (validate_alert_threshold event (to_int v))
                    else Inr (valid OR 2 ^ event_num event, enable OR 2 ^ event_num event, to_int v)))
          else if a = ''off'' then
            (if threshold = None then Inr (valid OR 2 ^ event_num event, enable AND NOT (2 ^ event_num event), 0)
             else Inl (- EINVAL))
          else Inl (- EINVAL))"

text \<open>The five alerts in the order of the command, each with its \<open>--...-alert\<close> and \<open>--...-threshold\<close> options.\<close>

type_synonym alert_arg = "cxl_setalert_event \<times> string option \<times> string option"

record alert_opts =
  ao_life_used :: "string option \<times> string option"
  ao_over_temp :: "string option \<times> string option"
  ao_under_temp :: "string option \<times> string option"
  ao_volatile_err :: "string option \<times> string option"
  ao_pmem_err :: "string option \<times> string option"

definition alert_args :: "alert_opts \<Rightarrow> alert_arg list" where
  "alert_args opts = [(CXL_SETALERT_LIFE_USED, ao_life_used opts), (CXL_SETALERT_OVER_TEMP, ao_over_temp opts),
     (CXL_SETALERT_UNDER_TEMP, ao_under_temp opts), (CXL_SETALERT_VOLATILE_MEM_ERROR, ao_volatile_err opts),
     (CXL_SETALERT_PMEM_ERROR, ao_pmem_err opts)]"

fun alert_params :: "alert_arg list \<Rightarrow> u32 \<Rightarrow> u32 \<Rightarrow> int + (u32 \<times> u32 \<times> int list)" where
  "alert_params [] valid enable = Inr (valid, enable, [])"
| "alert_params ((event, alert, threshold) # args) valid enable =
     (case alert_param_set_threshold event alert threshold valid enable of
        Inl rc \<Rightarrow> Inl rc
      | Inr (valid, enable, v) \<Rightarrow>
          (case alert_params args valid enable of
             Inl rc \<Rightarrow> Inl rc
           | Inr (valid, enable, vs) \<Rightarrow> Inr (valid, enable, v # vs)))"

definition alert_setter :: "cxl_setalert_event \<Rightarrow> cxl_cmd \<Rightarrow> int \<Rightarrow> cxl_cmd option" where
  "alert_setter event =
     (case event of
        CXL_SETALERT_LIFE_USED \<Rightarrow> cxl_cmd_alert_config_set_life_used_prog_warn_threshold
      | CXL_SETALERT_OVER_TEMP \<Rightarrow> cxl_cmd_alert_config_set_dev_over_temperature_prog_warn_threshold
      | CXL_SETALERT_UNDER_TEMP \<Rightarrow> cxl_cmd_alert_config_set_dev_under_temperature_prog_warn_threshold
      | CXL_SETALERT_VOLATILE_MEM_ERROR \<Rightarrow> cxl_cmd_alert_config_set_corrected_volatile_mem_err_prog_warn_threshold
      | CXL_SETALERT_PMEM_ERROR \<Rightarrow> cxl_cmd_alert_config_set_corrected_pmem_err_prog_warn_threshold)"

fun setup_threshold_fields :: "alert_arg list \<Rightarrow> int list \<Rightarrow> cxl_cmd \<Rightarrow> cxl_cmd option" where
  "setup_threshold_fields ((event, alert, threshold) # args) (v # vs) cmd =
     do {cmd \<leftarrow> (if threshold \<noteq> None then alert_setter event cmd v else Some cmd); setup_threshold_fields args vs cmd}"
| "setup_threshold_fields _ _ cmd = Some cmd"

text \<open>The command up to its submission; NULL is \<open>Some (None, d)\<close>.\<close>

definition alert_command :: "'d mbox_sys \<Rightarrow> alert_arg list \<Rightarrow> u32 \<Rightarrow> u32 \<Rightarrow> int list \<Rightarrow> 'd \<Rightarrow> (cxl_cmd option \<times> 'd) option" where
  "alert_command mb args valid enable vs d =
     do {(q, d) \<leftarrow> cxl_cmd_new_set_alert_config mb d;
         case q of
           None \<Rightarrow> Some (None, d)
         | Some cmd \<Rightarrow>
             do {cmd \<leftarrow> setup_threshold_fields args vs cmd;
                 cmd \<leftarrow> cxl_cmd_alert_config_set_valid_alert_actions cmd (sint valid);
                 cmd \<leftarrow> cxl_cmd_alert_config_set_enable_alert_actions cmd (sint enable);
                 Some (Some cmd, d)}}"

definition action_set_alert_config :: "'d memdev_sys \<Rightarrow> alert_opts \<Rightarrow> cxl_memdev \<Rightarrow> 'd cli \<Rightarrow> (int \<times> 'd cli) option" where
  "action_set_alert_config sys opts memdev s =
     (case alert_params (alert_args opts) 0 0 of
        Inl rc \<Rightarrow> Some (rc, s)
      | Inr (valid, enable, vs) \<Rightarrow>
          if valid = 0 then Some (- EINVAL, s)
          else do {(q, d) \<leftarrow> alert_command (ms_mbox sys memdev) (alert_args opts) valid enable vs (cl_dev s);
                   let s = s\<lparr>cl_dev := d\<rparr> in
                   case q of
                     None \<Rightarrow> Some (- ENXIO, add_jdev sys memdev s)
                   | Some cmd \<Rightarrow> submit_and_report sys memdev cmd s})"

subsection \<open>Firmware\<close>

text \<open>The firmware loader: its attributes \<open>status\<close> and \<open>remaining_size\<close> (\<open>None\<close> if they cannot be read), writing to \<open>loading\<close>, \<open>data\<close>
  (an error of opening it or the number of bytes taken) and \<open>cancel\<close>, a second of sleep, and the image (a negative error or its
  contents).\<close>

record 'd fwl_sys =
  fl_status :: "'d \<Rightarrow> string option"
  fl_remaining :: "'d \<Rightarrow> string option"
  fl_loading :: "int \<Rightarrow> 'd \<Rightarrow> int \<times> 'd"
  fl_data :: "u8 list \<Rightarrow> 'd \<Rightarrow> (int + nat) \<times> 'd"
  fl_cancel :: "'d \<Rightarrow> int \<times> 'd"
  fl_sleep :: "'d \<Rightarrow> 'd"
  fl_file :: "string \<Rightarrow> int + u8 list"

datatype cxl_fwl_status = CXL_FWL_STATUS_UNKNOWN | CXL_FWL_STATUS_IDLE | CXL_FWL_STATUS_RECEIVING | CXL_FWL_STATUS_PREPARING
  | CXL_FWL_STATUS_TRANSFERRING | CXL_FWL_STATUS_PROGRAMMING

definition cxl_fwl_status_from_ident :: "string \<Rightarrow> cxl_fwl_status" where
  "cxl_fwl_status_from_ident status =
     (if status = ''idle'' then CXL_FWL_STATUS_IDLE
      else if status = ''receiving'' then CXL_FWL_STATUS_RECEIVING
      else if status = ''preparing'' then CXL_FWL_STATUS_PREPARING
      else if status = ''transferring'' then CXL_FWL_STATUS_TRANSFERRING
      else if status = ''programming'' then CXL_FWL_STATUS_PROGRAMMING
      else CXL_FWL_STATUS_UNKNOWN)"

definition cxl_fwl_get_status :: "'d fwl_sys \<Rightarrow> 'd \<Rightarrow> cxl_fwl_status" where
  "cxl_fwl_get_status fw d =
     (case fl_status fw d of None \<Rightarrow> CXL_FWL_STATUS_UNKNOWN | Some buf \<Rightarrow> cxl_fwl_status_from_ident buf)"

definition cxl_memdev_fw_update_in_progress :: "'d fwl_sys \<Rightarrow> 'd \<Rightarrow> bool" where
  "cxl_memdev_fw_update_in_progress fw d = (cxl_fwl_get_status fw d \<noteq> CXL_FWL_STATUS_IDLE)"

definition cxl_memdev_fw_update_get_remaining :: "'d fwl_sys \<Rightarrow> 'd \<Rightarrow> u64" where
  "cxl_memdev_fw_update_get_remaining fw d = (case fl_remaining fw d of None \<Rightarrow> 0 | Some buf \<Rightarrow> fst (strtoull buf))"

definition CXL_FWL_LOADING_END :: int where [simp]: "CXL_FWL_LOADING_END = 0"
definition CXL_FWL_LOADING_START :: int where [simp]: "CXL_FWL_LOADING_START = 1"

definition cxl_memdev_fwl_set_loading :: "'d fwl_sys \<Rightarrow> int \<Rightarrow> 'd \<Rightarrow> int \<times> 'd" where
  "cxl_memdev_fwl_set_loading fw loadval d = (case fl_loading fw loadval d of (rc, d) \<Rightarrow> (if rc < 0 then rc else 0, d))"

definition cxl_memdev_fwl_copy_data :: "'d fwl_sys \<Rightarrow> u8 list \<Rightarrow> 'd \<Rightarrow> int \<times> 'd" where
  "cxl_memdev_fwl_copy_data fw fw_buf d =
     (case fl_data fw fw_buf d of
        (Inl e, d) \<Rightarrow> (e, d)
      | (Inr rw_len, d) \<Rightarrow> (if rw_len \<noteq> length fw_buf then - ENXIO else 0, d))"

definition cxl_memdev_update_fw :: "'d fwl_sys \<Rightarrow> string \<Rightarrow> 'd \<Rightarrow> int \<times> 'd" where
  "cxl_memdev_update_fw fw fw_path d =
     (case fl_file fw fw_path of
        Inl e \<Rightarrow> (e, d)
      | Inr fw_buf \<Rightarrow>
          (case cxl_memdev_fwl_set_loading fw CXL_FWL_LOADING_START d of (rc, d) \<Rightarrow>
             if rc \<noteq> 0 then (rc, d)
             else (case cxl_memdev_fwl_copy_data fw fw_buf d of (rc, d) \<Rightarrow>
                     if rc \<noteq> 0 then (rc, d) else cxl_memdev_fwl_set_loading fw CXL_FWL_LOADING_END d)))"

definition cxl_memdev_cancel_fw_update :: "'d fwl_sys \<Rightarrow> 'd \<Rightarrow> int \<times> 'd" where
  "cxl_memdev_cancel_fw_update fw d =
     (if \<not> cxl_memdev_fw_update_in_progress fw d \<and> cxl_memdev_fw_update_get_remaining fw d = 0 then (- ENXIO, d)
      else case fl_cancel fw d of (rc, d) \<Rightarrow> (if rc < 0 then rc else 0, d))"

text \<open>The wait for the end of the update; \<open>None\<close> is that it has not ended after \<open>fuel\<close> seconds.\<close>

definition fw_busy :: "'d fwl_sys \<Rightarrow> 'd \<Rightarrow> bool" where
  "fw_busy fw d = (cxl_memdev_fw_update_in_progress fw d \<or> cxl_memdev_fw_update_get_remaining fw d > 0)"

fun fw_wait :: "'d fwl_sys \<Rightarrow> nat \<Rightarrow> 'd \<Rightarrow> 'd option" where
  "fw_wait fw 0 d = (if fw_busy fw d then None else Some d)"
| "fw_wait fw (Suc fuel) d = (if fw_busy fw d then fw_wait fw fuel (fl_sleep fw d) else Some d)"

definition action_update_fw ::
  "'d memdev_sys \<Rightarrow> 'd fwl_sys \<Rightarrow> nat \<Rightarrow> memdev_params \<Rightarrow> cxl_memdev \<Rightarrow> 'd cli \<Rightarrow> (int \<times> 'd cli) option" where
  "action_update_fw sys fw fuel p memdev s =
     (if mp_cancel p then Some (with_dev s (cxl_memdev_cancel_fw_update fw (cl_dev s)))
      else let (rc, d) = (case mp_fw_file p of None \<Rightarrow> (0, cl_dev s) | Some f \<Rightarrow> cxl_memdev_update_fw fw f (cl_dev s)) in
        do {d \<leftarrow> (if mp_wait p then fw_wait fw fuel d else Some d);
            Some (rc, add_jdev sys memdev (s\<lparr>cl_dev := d\<rparr>))})"

subsection \<open>Enabling and disabling\<close>

definition cxl_memdev_enable :: "'d memdev_sys \<Rightarrow> cxl_memdev \<Rightarrow> 'd \<Rightarrow> int \<times> 'd" where
  "cxl_memdev_enable sys memdev d =
     (if ms_enabled sys memdev d then (0, d)
      else let d = ms_bind sys memdev d in (if \<not> ms_enabled sys memdev d then - ENXIO else 0, d))"

definition cxl_memdev_disable_invalidate :: "'d memdev_sys \<Rightarrow> cxl_memdev \<Rightarrow> 'd \<Rightarrow> int \<times> 'd" where
  "cxl_memdev_disable_invalidate sys memdev d =
     (if \<not> ms_enabled sys memdev d then (0, d)
      else case ms_bus sys memdev d of
        None \<Rightarrow> (- ENXIO, d)
      | Some bus \<Rightarrow>
          let d = ms_unbind sys memdev d in
          if ms_enabled sys memdev d then (- EBUSY, d) else (0, ms_invalidate sys bus d))"

definition action_disable :: "'d memdev_sys \<Rightarrow> memdev_params \<Rightarrow> cxl_memdev \<Rightarrow> 'd cli \<Rightarrow> (int \<times> 'd cli) option" where
  "action_disable sys p memdev s =
     (if \<not> ms_enabled sys memdev (cl_dev s) then Some (0, s)
      else case ms_committed sys memdev (cl_dev s) of
        None \<Rightarrow> Some (- ENODEV, s)
      | Some committed \<Rightarrow>
          if committed \<noteq> 0 \<and> \<not> mp_force p then Some (- EBUSY, s)
          else Some (with_dev s (cxl_memdev_disable_invalidate sys memdev (cl_dev s))))"

definition action_enable :: "'d memdev_sys \<Rightarrow> cxl_memdev \<Rightarrow> 'd cli \<Rightarrow> (int \<times> 'd cli) option" where
  "action_enable sys memdev s = Some (with_dev s (cxl_memdev_enable sys memdev (cl_dev s)))"

subsection \<open>Sanitize\<close>

text \<open>Opening the state attribute (0 or an error number), reading it (\<open>None\<close> is an error) and polling it.\<close>

record 'd sanitize_sys =
  sn_open :: "'d \<Rightarrow> int"
  sn_read :: "'d \<Rightarrow> string option"
  sn_poll :: "int \<Rightarrow> 'd \<Rightarrow> int \<times> 'd"

definition sanitizing :: "string \<Rightarrow> bool" where
  "sanitizing buf = (take 8 buf = ''sanitize'')"

text \<open>The value of \<open>poll\<close> is negative, -errno, for an error; the path fits the buffer.\<close>

definition cxl_memdev_wait_sanitize :: "'d sanitize_sys \<Rightarrow> int \<Rightarrow> 'd \<Rightarrow> int \<times> 'd" where
  "cxl_memdev_wait_sanitize sn timeout_ms d =
     (if sn_open sn d \<noteq> 0 then (if sn_open sn d = ENOENT then 0 else - sn_open sn d, d)
      else case sn_read sn d of
        None \<Rightarrow> (- EOPNOTSUPP, d)
      | Some buf \<Rightarrow>
          if \<not> sanitizing buf then (0, d)
          else (case sn_poll sn timeout_ms d of (rc, d) \<Rightarrow>
                  if rc = 0 then (- ETIMEDOUT, d)
                  else if rc < 0 then (rc, d)
                  else (case sn_read sn d of
                          None \<Rightarrow> (- ENXIO, d)
                        | Some buf \<Rightarrow> (if sanitizing buf then - ENXIO else 0, d))))"

definition action_wait_sanitize :: "'d sanitize_sys \<Rightarrow> memdev_params \<Rightarrow> cxl_memdev \<Rightarrow> 'd cli \<Rightarrow> (int \<times> 'd cli) option" where
  "action_wait_sanitize sn p memdev s = Some (with_dev s (cxl_memdev_wait_sanitize sn (mp_timeout p) (cl_dev s)))"

subsection \<open>The loop over memdevs\<close>

definition util_cxl_memdev_filter_by_bus :: "cxl_bus list \<Rightarrow> cxl_bus option \<Rightarrow> string option \<Rightarrow> bool" where
  "util_cxl_memdev_filter_by_bus buses bus ident =
     (ident = None \<or> list_ex (\<lambda>b. util_cxl_bus_filter b ident \<and> bus = Some b) buses)"

text \<open>The check of the arguments: the number of invalid ones and the number of arguments left, which \<open>all\<close> sets to 1.\<close>

fun check_args :: "bool \<Rightarrow> string list \<Rightarrow> nat \<Rightarrow> nat \<Rightarrow> nat \<times> nat" where
  "check_args serial [] err argc = (err, argc)"
| "check_args serial (a # as) err argc =
     (if serial then check_args serial as (if snd (strtoull a) = [] then err else Suc err) argc
      else if a = ''all'' then (err, 1)
      else check_args serial as (if scan_id ''mem'' a \<noteq> None \<or> scan_id [] a \<noteq> None then err else Suc err) argc)"

definition memdev_matches :: "'d memdev_sys \<Rightarrow> cxl_bus list \<Rightarrow> memdev_params \<Rightarrow> string \<Rightarrow> 'd cli \<Rightarrow> cxl_memdev \<Rightarrow> bool" where
  "memdev_matches sys buses p arg s memdev =
     (util_cxl_memdev_filter memdev (if mp_serial p then None else Some arg) (if mp_serial p then Some arg else None) \<and>
      util_cxl_memdev_filter_by_bus buses (ms_bus sys memdev (cl_dev s)) (mp_bus p))"

text \<open>The loops; \<open>action_write\<close> is put off and the last memdev remembered.  The counters are the number of successes, the
  first error and the memdev.\<close>

type_synonym 'd action = "cxl_memdev \<Rightarrow> 'd cli \<Rightarrow> (int \<times> 'd cli) option"

fun act_on ::
  "'d memdev_sys \<Rightarrow> cxl_bus list \<Rightarrow> memdev_params \<Rightarrow> bool \<Rightarrow> 'd action \<Rightarrow> string \<Rightarrow> cxl_memdev list \<Rightarrow>
    nat \<times> int \<times> cxl_memdev option \<Rightarrow> 'd cli \<Rightarrow> ((nat \<times> int \<times> cxl_memdev option) \<times> 'd cli) option" where
  "act_on sys buses p put_off action arg [] c s = Some (c, s)"
| "act_on sys buses p put_off action arg (m # ms) (count, err, single) s =
     (if \<not> memdev_matches sys buses p arg s m then act_on sys buses p put_off action arg ms (count, err, single) s
      else if put_off then act_on sys buses p put_off action arg ms (Suc count, err, Some m) s
      else do {(rc, s) \<leftarrow> action m s;
               act_on sys buses p put_off action arg ms
                 (if rc = 0 then Suc count else count, if rc \<noteq> 0 \<and> err = 0 then rc else err, single) s})"

fun act_on_args ::
  "'d memdev_sys \<Rightarrow> cxl_bus list \<Rightarrow> memdev_params \<Rightarrow> bool \<Rightarrow> 'd action \<Rightarrow> string list \<Rightarrow> cxl_memdev list \<Rightarrow>
    nat \<times> int \<times> cxl_memdev option \<Rightarrow> 'd cli \<Rightarrow> ((nat \<times> int \<times> cxl_memdev option) \<times> 'd cli) option" where
  "act_on_args sys buses p put_off action [] devs c s = Some (c, s)"
| "act_on_args sys buses p put_off action (a # as) devs c s =
     do {(c, s) \<leftarrow> act_on sys buses p put_off action a devs c s; act_on_args sys buses p put_off action as devs c s}"

text \<open>\<open>usage_with_options\<close> ends the program; the model has the \<open>-EINVAL\<close> behind it.  \<open>open_err\<close> is the error of opening the output and
  input files, or 0.\<close>

definition memdev_action ::
  "'d memdev_sys \<Rightarrow> cxl_bus list \<Rightarrow> cxl_memdev list \<Rightarrow> memdev_params \<Rightarrow> bool \<Rightarrow> 'd action \<Rightarrow> int \<Rightarrow> string list \<Rightarrow> 'd cli \<Rightarrow>
    (int \<times> 'd cli) option" where
  "memdev_action sys buses devs p put_off action open_err argv s =
     (case check_args (mp_serial p) argv 0 (length argv) of (err, argc) \<Rightarrow>
        if argv = [] \<or> err = argc then Some (- EINVAL, s)
        else if open_err \<noteq> 0 then Some (open_err, s)
        else do {
          ((count, rc, single), s) \<leftarrow> act_on_args sys buses p put_off action (take argc argv) devs (0, 0, None) s;
          (count, rc, s) \<leftarrow>
            (if \<not> put_off then Some (count, rc, s)
             else if count > 1 then Some (0, - EINVAL, s)
             else case single of
                    None \<Rightarrow> Some (count, rc, s)
                  | Some m \<Rightarrow> do {(rc, s) \<leftarrow> action m s; Some (if rc \<noteq> 0 then 0 else count, rc, s)});
          Some (if count > 0 then int count else rc, s)})"

text \<open>The commands turn the count into an exit code.\<close>

definition EXIT_FAILURE :: int where [simp]: "EXIT_FAILURE = 1"

definition exit_code :: "(int \<times> 'd cli) option \<Rightarrow> (int \<times> 'd cli) option" where
  "exit_code r = map_option (\<lambda>(count, s). (if count \<ge> 0 then 0 else EXIT_FAILURE, s)) r"

definition cmd_write_labels ::
  "'d memdev_sys \<Rightarrow> nat \<Rightarrow> cxl_bus list \<Rightarrow> cxl_memdev list \<Rightarrow> memdev_params \<Rightarrow> int \<Rightarrow> string list \<Rightarrow> 'd cli \<Rightarrow> (int \<times> 'd cli) option" where
  "cmd_write_labels sys fuel buses devs p open_err argv s =
     exit_code (memdev_action sys buses devs p True (action_write sys fuel p) open_err argv s)"

definition cmd_read_labels ::
  "'d memdev_sys \<Rightarrow> nat \<Rightarrow> cxl_bus list \<Rightarrow> cxl_memdev list \<Rightarrow> memdev_params \<Rightarrow> int \<Rightarrow> string list \<Rightarrow> 'd cli \<Rightarrow> (int \<times> 'd cli) option" where
  "cmd_read_labels sys fuel buses devs p open_err argv s =
     exit_code (memdev_action sys buses devs p False (action_read sys fuel p) open_err argv s)"

definition cmd_zero_labels ::
  "'d memdev_sys \<Rightarrow> nat \<Rightarrow> cxl_bus list \<Rightarrow> cxl_memdev list \<Rightarrow> memdev_params \<Rightarrow> int \<Rightarrow> string list \<Rightarrow> 'd cli \<Rightarrow> (int \<times> 'd cli) option" where
  "cmd_zero_labels sys fuel buses devs p open_err argv s =
     exit_code (memdev_action sys buses devs p False (action_zero sys fuel p) open_err argv s)"

definition cmd_disable_memdev ::
  "'d memdev_sys \<Rightarrow> cxl_bus list \<Rightarrow> cxl_memdev list \<Rightarrow> memdev_params \<Rightarrow> int \<Rightarrow> string list \<Rightarrow> 'd cli \<Rightarrow> (int \<times> 'd cli) option" where
  "cmd_disable_memdev sys buses devs p open_err argv s =
     exit_code (memdev_action sys buses devs p False (action_disable sys p) open_err argv s)"

definition cmd_enable_memdev ::
  "'d memdev_sys \<Rightarrow> cxl_bus list \<Rightarrow> cxl_memdev list \<Rightarrow> memdev_params \<Rightarrow> int \<Rightarrow> string list \<Rightarrow> 'd cli \<Rightarrow> (int \<times> 'd cli) option" where
  "cmd_enable_memdev sys buses devs p open_err argv s =
     exit_code (memdev_action sys buses devs p False (action_enable sys) open_err argv s)"

definition cmd_set_partition ::
  "'d memdev_sys \<Rightarrow> cxl_bus list \<Rightarrow> cxl_memdev list \<Rightarrow> memdev_params \<Rightarrow> int \<Rightarrow> string list \<Rightarrow> 'd cli \<Rightarrow> (int \<times> 'd cli) option" where
  "cmd_set_partition sys buses devs p open_err argv s =
     exit_code (memdev_action sys buses devs p False (action_setpartition sys p) open_err argv s)"

definition cmd_update_fw ::
  "'d memdev_sys \<Rightarrow> 'd fwl_sys \<Rightarrow> nat \<Rightarrow> cxl_bus list \<Rightarrow> cxl_memdev list \<Rightarrow> memdev_params \<Rightarrow> int \<Rightarrow> string list \<Rightarrow> 'd cli \<Rightarrow>
    (int \<times> 'd cli) option" where
  "cmd_update_fw sys fw fuel buses devs p open_err argv s =
     exit_code (memdev_action sys buses devs p False (action_update_fw sys fw fuel p) open_err argv s)"

definition cmd_set_alert_config ::
  "'d memdev_sys \<Rightarrow> alert_opts \<Rightarrow> cxl_bus list \<Rightarrow> cxl_memdev list \<Rightarrow> memdev_params \<Rightarrow> int \<Rightarrow> string list \<Rightarrow> 'd cli \<Rightarrow>
    (int \<times> 'd cli) option" where
  "cmd_set_alert_config sys opts buses devs p open_err argv s =
     exit_code (memdev_action sys buses devs p False (action_set_alert_config sys opts) open_err argv s)"

definition cmd_wait_sanitize ::
  "'d memdev_sys \<Rightarrow> 'd sanitize_sys \<Rightarrow> cxl_bus list \<Rightarrow> cxl_memdev list \<Rightarrow> memdev_params \<Rightarrow> int \<Rightarrow> string list \<Rightarrow> 'd cli \<Rightarrow>
    (int \<times> 'd cli) option" where
  "cmd_wait_sanitize sys sn buses devs p open_err argv s =
     exit_code (memdev_action sys buses devs p False (action_wait_sanitize sn p) open_err argv s)"

subsection \<open>Writing and reading labels\<close>

text \<open>C15: \<open>write-labels\<close> with an input file that fits the label area stores the file at the offset, and \<open>read-labels\<close> with its size
  prints the file.\<close>

theorem write_labels_read_labels:
  assumes lk: "label_kernel (ms_mbox sys memdev) cs lsa n"
    and pm: "8 < ms_payload_max sys memdev" "ms_payload_max sys memdev < 2 ^ 31"
    and env: "\<not> ms_bridge_active sys memdev (cl_dev s)" "\<And>k. ms_calloc sys k" "\<And>b. ms_fwrite sys b = length b"
    and size: "ms_label_size sys memdev = of_nat n" "ms_ftell sys = of_nat (length (ms_infile sys))"
    and p: "mp_len p = 0" "unat (mp_offset p) + length (ms_infile sys) \<le> n" "ms_infile sys \<noteq> []"
    and fuel: "length (ms_infile sys) < fuel"
  shows "\<exists>s1 s2. action_write sys fuel p memdev s = Some (0, s1) \<and>
    lsa (cl_dev s1) = list_splice (unat (mp_offset p)) (ms_infile sys) (lsa (cl_dev s)) \<and>
    action_read sys fuel (p\<lparr>mp_len := of_nat (length (ms_infile sys))\<rparr>) memdev s1 = Some (0, s2) \<and>
    cl_out s2 = cl_out s @ ms_infile sys \<and> lsa (cl_dev s2) = lsa (cl_dev s1)"
proof -
  let ?f = "ms_infile sys" and ?ofs = "ucast (mp_offset p) :: u64"
  define len :: u64 where "len = of_nat (length ?f)"
  have n: "n < 2 ^ 32" using label_kernelD(4) [OF lk] .
  have len: "unat len = length ?f" and un: "unat (of_nat n :: u64) = n"
    using n p(2) by (simp_all add: len_def unat_of_nat_u64)
  have len32: "unat (of_nat (length ?f) :: u32) = length ?f"
    using n p(2) by (simp add: unat_of_nat_u32)
  then have nz: "(of_nat (length ?f) :: u32) \<noteq> 0"
    using p(3) by (metis length_0_conv unat_0)
  have uc: "ucast (of_nat (length ?f) :: u32) = len"
    using len len32 by (metis unat_ucast_u32_u64 word_unat_eq_iff)
  have nm: "of_nat n \<noteq> (- 1 :: u64)"
  proof
    assume "of_nat n = (- 1 :: u64)"
    then have "n = unat (- 1 :: u64)" using un by simp
    with n show False by (simp add: unsigned_minus_1_eq_mask mask_eq_exp_minus_1)
  qed
  have wl: "write_len sys p memdev = Some len"
    using p nm size len un by (simp add: write_len_def len_def word_less_nat_alt not_less)
  have rng: "unat ?ofs + unat len \<le> n" using p(2) len by simp
  obtain d1 where d1: "cxl_memdev_write_label (ms_mbox sys memdev) (ms_payload_max sys memdev) fuel (Some ?f) len ?ofs (cl_dev s)
      = Some (Some (0, ?f, d1))" "lsa d1 = list_splice (unat (mp_offset p)) ?f (lsa (cl_dev s))"
    using write_label_ok [OF lk pm rng, of ?f fuel "cl_dev s"] len fuel by auto
  have rd: "take (unat len) (drop (unat (mp_offset p)) (lsa d1)) = ?f"
    unfolding d1(2) using take_drop_splice [of "unat (mp_offset p)" ?f "lsa (cl_dev s)"] p(2) len
      label_kernelD(5) [OF lk, of "cl_dev s"] by simp
  have "list_splice 0 ?f (replicate (unat len) 0) = ?f"
    using len by (simp add: list_splice_def)
  then obtain d2 where d2: "cxl_memdev_read_label (ms_mbox sys memdev) (ms_payload_max sys memdev) fuel
      (Some (replicate (unat len) 0)) len ?ofs d1 = Some (Some (0, ?f, d2))" "lsa d2 = lsa d1"
    using read_label_area_ok [OF lk pm rng, of "replicate (unat len) 0" fuel d1] len fuel rd by auto
  show ?thesis
    using d1 d2 wl env len nz uc
    by (intro exI [of _ "s\<lparr>cl_dev := d1\<rparr>"] exI [of _ "s\<lparr>cl_dev := d2, cl_out := cl_out s @ ?f\<rparr>"])
      (simp add: action_write_def action_read_def label_len_def)
qed

subsection \<open>Partition sizes\<close>

lemma unat_available:
  assumes "unat vol + unat pers \<le> unat cap"
  shows "unat (cap - vol - pers :: u64) = unat cap - unat vol - unat pers"
proof -
  have "unat (cap - vol) = unat cap - unat vol"
    using assms by (intro unat_sub) (simp add: word_le_nat_alt)
  moreover from this have "unat (cap - vol - pers) = unat (cap - vol) - unat pers"
    using assms by (intro unat_sub) (simp add: word_le_nat_alt)
  ultimately show ?thesis by simp
qed

lemma volatile_size_bounds:
  assumes "param_size_to_volatile_size type sz available = vs" "vs \<noteq> ULLONG_MAX"
  shows "unat vs \<le> unat available"
    "sz \<noteq> ULLONG_MAX \<Longrightarrow> type = CXL_SETPART_PMEM \<Longrightarrow> unat sz + unat vs = unat available"
    "sz \<noteq> ULLONG_MAX \<Longrightarrow> type = CXL_SETPART_VOLATILE \<Longrightarrow> vs = sz"
  using assms by (auto simp: param_size_to_volatile_size_def not_less word_le_nat_alt unat_sub split: if_splits)

lemma partition_align_bounds:
  assumes "partition_align p type x (2 ^ k) available = vs" "vs \<noteq> ULLONG_MAX" "k < 63" "unat available < 2 ^ 63"
    "unat x \<le> unat available"
  shows "2 ^ k dvd unat vs \<and> unat vs \<le> unat available \<and>
    (if type = CXL_SETPART_PMEM then unat vs \<le> unat x else unat x \<le> unat vs)"
proof -
  have "(2 :: nat) ^ k < 2 ^ 63" using assms(3) by (intro power_strict_increasing) auto
  moreover have "(2 :: nat) ^ 64 = 2 ^ 63 + 2 ^ 63" by simp
  ultimately have sum: "unat x + 2 ^ k < 2 ^ 64" and k: "k < 64"
    using assms(3-5) by linarith+
  note al = ALIGN_unat [OF k] ALIGN_DOWN_unat [OF k] IS_ALIGNED_iff [OF k]
  have up: "unat x \<le> (unat x + 2 ^ k - 1) div 2 ^ k * 2 ^ k"
    using dividend_less_div_times [of "2 ^ k" "unat x + 2 ^ k - 1"] by simp
  show ?thesis
    using assms sum al up by (auto simp: partition_align_def Let_def not_less word_le_nat_alt split: if_splits)
qed

text \<open>C16: The partition that \<open>set-partition\<close> asks for: a multiple of the alignment of the device, within its partitionable
  capacity, that gives the requested type at least the size that the user asked for.\<close>

theorem partition_request_sound:
  assumes "partition_request p type sz (2 ^ k) cap vol pers = vs" "vs \<noteq> ULLONG_MAX" "k < 63"
    "unat vol + unat pers \<le> unat cap" "unat cap < 2 ^ 63"
  shows "2 ^ k dvd unat vs \<and> unat vs \<le> unat cap - unat vol - unat pers \<and>
    (sz = ULLONG_MAX \<or> unat sz \<le> (if type = CXL_SETPART_PMEM then unat cap - unat vol - unat pers - unat vs else unat vs))"
proof -
  define av where "av = cap - vol - pers"
  have av: "unat av = unat cap - unat vol - unat pers" "unat av < 2 ^ 63"
    using unat_available [OF assms(4)] assms(5) by (simp_all add: av_def)
  define x where "x = param_size_to_volatile_size type sz av"
  have x: "x \<noteq> ULLONG_MAX" "partition_align p type x (2 ^ k) av = vs"
    using assms(1,2) by (auto simp: partition_request_def Let_def av_def x_def split: if_splits)
  note xb = volatile_size_bounds [OF x_def [symmetric] x(1)]
  have b: "2 ^ k dvd unat vs" "unat vs \<le> unat av" "if type = CXL_SETPART_PMEM then unat vs \<le> unat x else unat x \<le> unat vs"
    using partition_align_bounds [OF x(2) assms(2,3) av(2) xb(1)] by auto
  have "unat sz \<le> (if type = CXL_SETPART_PMEM then unat av - unat vs else unat vs)" if "sz \<noteq> ULLONG_MAX"
  proof (cases type)
    case CXL_SETPART_PMEM
    then show ?thesis using xb(2) [OF that] b by simp
  next
    case CXL_SETPART_VOLATILE
    then show ?thesis using xb(3) [OF that] b by simp
  qed
  then show ?thesis unfolding av(1) [symmetric] using b(1,2) by blast
qed

definition no_params :: memdev_params where
  "no_params = \<lparr>mp_bus = None, mp_len = 0, mp_offset = 0, mp_serial = False, mp_force = False, mp_align = True, mp_cancel = False,
     mp_wait = False, mp_fw_file = None, mp_type = None, mp_size = None, mp_timeout = - 1\<rparr>"

theorem partition_request_sound_witness:
  "partition_request no_params CXL_SETPART_PMEM 0x30000001 (2 ^ 28) 0x100000000 0 0x40000000 = 0x80000000 \<and>
   2 ^ 28 dvd unat (0x80000000 :: u64) \<and> unat (0x30000001 :: u64) \<le> 0x100000000 - 0x40000000 - unat (0x80000000 :: u64)"
proof -
  have "partition_request no_params CXL_SETPART_PMEM 0x30000001 (2 ^ 28) 0x100000000 0 0x40000000 = 0x80000000"
    by (simp add: partition_request_def param_size_to_volatile_size_def partition_align_def IS_ALIGNED_def ALIGN_DOWN_def no_params_def)
  then show ?thesis
    using partition_request_sound [where k = 28] by fastforce
qed

subsection \<open>The alert payload\<close>

text \<open>The input of the set-alert command as the specification lays it out: the valid and the enabled alerts, the life used, and
  the four thresholds of 16 bits.\<close>

definition alert_bytes :: "u8 \<Rightarrow> u8 \<Rightarrow> u8 \<Rightarrow> u16 \<Rightarrow> u16 \<Rightarrow> u16 \<Rightarrow> u16 \<Rightarrow> u8 list" where
  "alert_bytes va en l ot ut ve pe = [va, en, l, 0] @ le_bytes 2 ot @ le_bytes 2 ut @ le_bytes 2 ve @ le_bytes 2 pe"

lemma le_bytes_2: "le_bytes (Suc (Suc 0)) (w :: 'a::len word) = [ucast w, ucast (drop_bit 8 w)]"
  by (simp add: le_bytes_def numeral_eq_Suc upt_rec)

lemma le_bytes_1: "le_bytes (Suc 0) (w :: 'a::len word) = [ucast w]"
  by (simp add: le_bytes_def)

lemma ucast_bytes_u16:
  "ucast (ucast (w :: u32) :: u16) = (ucast w :: u8)" "ucast (drop_bit 8 (ucast (w :: u32) :: u16)) = (ucast (drop_bit 8 w) :: u8)"
  by (rule bit_word_eqI; auto simp: bit_simps)+

lemma le_bytes_u16: "le_bytes (Suc (Suc 0)) (ucast (w :: u32) :: u16) = le_bytes (Suc (Suc 0)) w"
  by (simp add: le_bytes_2 ucast_bytes_u16)

lemma put_alert:
  "buf_put 1 (w :: u32) 0 (alert_bytes va en l ot ut ve pe) = Some (alert_bytes (ucast w) en l ot ut ve pe)"
  "buf_put 1 (w :: u32) 1 (alert_bytes va en l ot ut ve pe) = Some (alert_bytes va (ucast w) l ot ut ve pe)"
  "buf_put 1 (w :: u32) 2 (alert_bytes va en l ot ut ve pe) = Some (alert_bytes va en (ucast w) ot ut ve pe)"
  "buf_put 2 (w :: u32) 4 (alert_bytes va en l ot ut ve pe) = Some (alert_bytes va en l (ucast w) ut ve pe)"
  "buf_put 2 (w :: u32) 6 (alert_bytes va en l ot ut ve pe) = Some (alert_bytes va en l ot (ucast w) ve pe)"
  "buf_put 2 (w :: u32) 8 (alert_bytes va en l ot ut ve pe) = Some (alert_bytes va en l ot ut (ucast w) pe)"
  "buf_put 2 (w :: u32) 10 (alert_bytes va en l ot ut ve pe) = Some (alert_bytes va en l ot ut ve (ucast w))"
  by (simp_all add: buf_put_splice alert_bytes_def le_bytes_1 le_bytes_u16 list_splice_def numeral_eq_Suc)

text \<open>One alert option: what it accepts and what it does to the masks.\<close>

lemma alert_param_result:
  assumes "alert_param_set_threshold event alert threshold valid enable = Inr (valid', enable', v)"
  shows "(threshold \<noteq> None) = (alert = Some ''on'')" "threshold = None \<Longrightarrow> v = 0"
    "threshold \<noteq> None \<Longrightarrow> validate_alert_threshold event v = 0"
    "bit valid' i \<longleftrightarrow> bit valid i \<or> (i = event_num event \<and> alert \<noteq> None)"
    "bit enable' i \<longleftrightarrow> (if i = event_num event \<and> alert \<noteq> None then alert = Some ''on'' else bit enable i)"
proof -
  have n: "event_num event < 32" by (cases event) (simp_all add: event_num_def)
  show "(threshold \<noteq> None) = (alert = Some ''on'')" "threshold = None \<Longrightarrow> v = 0"
    "threshold \<noteq> None \<Longrightarrow> validate_alert_threshold event v = 0"
    using assms by (auto simp: alert_param_set_threshold_def split: option.splits if_splits prod.splits)
  show "bit valid' i \<longleftrightarrow> bit valid i \<or> (i = event_num event \<and> alert \<noteq> None)"
    "bit enable' i \<longleftrightarrow> (if i = event_num event \<and> alert \<noteq> None then alert = Some ''on'' else bit enable i)"
    using assms n bit_imp_le_length [of enable i] by (auto simp: alert_param_set_threshold_def bit_simps split: option.splits if_splits prod.splits)
qed

text \<open>All options: one threshold for each, the bits of the masks.\<close>

lemma alert_params_result:
  assumes "alert_params args valid enable = Inr (valid', enable', vs)" "distinct (map fst args)"
  shows "length vs = length args \<and>
    (\<forall>i. bit valid' i \<longleftrightarrow> bit valid i \<or> (\<exists>(e, a, t) \<in> set args. event_num e = i \<and> a \<noteq> None)) \<and>
    (\<forall>i. bit enable' i \<longleftrightarrow> (\<exists>(e, a, t) \<in> set args. event_num e = i \<and> a = Some ''on'') \<or>
       bit enable i \<and> (\<forall>(e, a, t) \<in> set args. event_num e = i \<longrightarrow> a = None)) \<and>
    list_all2 (\<lambda>(e, a, t) v. (t = None \<longrightarrow> v = 0) \<and> (t \<noteq> None \<longrightarrow> validate_alert_threshold e v = 0)) args vs"
  using assms
proof (induction args valid enable arbitrary: valid' enable' vs rule: alert_params.induct)
  case (2 e a t args valid enable)
  obtain valid1 enable1 v ws where one: "alert_param_set_threshold e a t valid enable = Inr (valid1, enable1, v)"
    and rest: "alert_params args valid1 enable1 = Inr (valid', enable', ws)" and vs: "vs = v # ws"
    using "2.prems"(1) by (auto split: sum.splits prod.splits)
  note IH = "2.IH" [OF one refl refl rest]
  have ne: "event_num e \<noteq> event_num e'" if "(e', a', t') \<in> set args" for e' a' t'
    using that "2.prems"(2) by (cases e; cases e') (force simp: event_num_def)+
  have IH: "length ws = length args"
    "\<And>i. bit valid' i \<longleftrightarrow> bit valid1 i \<or> (\<exists>(e, a, t) \<in> set args. event_num e = i \<and> a \<noteq> None)"
    "\<And>i. bit enable' i \<longleftrightarrow> (\<exists>(e, a, t) \<in> set args. event_num e = i \<and> a = Some ''on'') \<or>
       bit enable1 i \<and> (\<forall>(e, a, t) \<in> set args. event_num e = i \<longrightarrow> a = None)"
    "list_all2 (\<lambda>(e, a, t) v. (t = None \<longrightarrow> v = 0) \<and> (t \<noteq> None \<longrightarrow> validate_alert_threshold e v = 0)) args ws"
    using IH "2.prems"(2) by auto
  note r = alert_param_result [OF one]
  show ?case
  proof (intro conjI allI)
    show "length vs = length ((e, a, t) # args)" using IH(1) vs by simp
    show "bit valid' i \<longleftrightarrow> bit valid i \<or> (\<exists>(e, a, t) \<in> set ((e, a, t) # args). event_num e = i \<and> a \<noteq> None)" for i
      using IH(2) [of i] r(4) [of i] by auto
    show "bit enable' i \<longleftrightarrow> (\<exists>(e, a, t) \<in> set ((e, a, t) # args). event_num e = i \<and> a = Some ''on'') \<or>
       bit enable i \<and> (\<forall>(e, a, t) \<in> set ((e, a, t) # args). event_num e = i \<longrightarrow> a = None)" for i
      using IH(3) [of i] r(5) [of i] ne by (cases "event_num e = i"; cases a) (fastforce split: if_splits)+
    show "list_all2 (\<lambda>(e, a, t) v. (t = None \<longrightarrow> v = 0) \<and> (t \<noteq> None \<longrightarrow> validate_alert_threshold e v = 0)) ((e, a, t) # args) vs"
      using IH(4) r(2,3) vs by simp
  qed
qed simp

text \<open>Every threshold is the number of its option, and a number that fits \<open>int\<close> is taken as it is written.\<close>

definition threshold_of :: "string option \<Rightarrow> int \<Rightarrow> bool" where
  "threshold_of t v =
     ((t = None \<longrightarrow> v = 0) \<and> (\<forall>s. t = Some s \<longrightarrow> snd (strtol10 s) = [] \<and> v = to_int (fst (strtol10 s))) \<and>
      (\<forall>z. - (2 ^ 31) \<le> z \<and> z < 2 ^ 31 \<and> t = Some (dec_int z) \<longrightarrow> v = z))"

lemma threshold_ofI:
  assumes "alert_param_set_threshold event alert t valid enable = Inr (valid', enable', v)"
  shows "threshold_of t v"
proof -
  have "snd (strtol10 s) = [] \<and> v = to_int (fst (strtol10 s))" if "t = Some s" for s
    using assms that by (auto simp: alert_param_set_threshold_def split: option.splits if_splits prod.splits)
  then show ?thesis
    using alert_param_result(2) [OF assms] by (auto simp: threshold_of_def strtol10_dec_int to_int_small)
qed

lemma alert_params_values:
  "alert_params args valid enable = Inr (valid', enable', vs) \<Longrightarrow> list_all2 (\<lambda>(e, a, t) v. threshold_of t v) args vs"
  by (induction args valid enable arbitrary: valid' enable' vs rule: alert_params.induct)
    (auto intro: threshold_ofI split: sum.splits prod.splits)

lemma ucast_of_int: "ucast (word_of_int k :: u32) = (word_of_int k :: u8)" "ucast (word_of_int k :: u32) = (word_of_int k :: u16)"
  by (rule bit_word_eqI; simp add: bit_simps)+

text \<open>The setters on a command whose input has the layout.\<close>

lemma alert_setters:
  "mc_input_payload cmd = Some (alert_bytes va en l ot ut ve pe) \<Longrightarrow>
   cxl_cmd_alert_config_set_valid_alert_actions cmd v = Some (cmd\<lparr>mc_input_payload := Some (alert_bytes (word_of_int v) en l ot ut ve pe)\<rparr>)"
  "mc_input_payload cmd = Some (alert_bytes va en l ot ut ve pe) \<Longrightarrow>
   cxl_cmd_alert_config_set_enable_alert_actions cmd v = Some (cmd\<lparr>mc_input_payload := Some (alert_bytes va (word_of_int v) l ot ut ve pe)\<rparr>)"
  "mc_input_payload cmd = Some (alert_bytes va en l ot ut ve pe) \<Longrightarrow>
   alert_setter CXL_SETALERT_LIFE_USED cmd v = Some (cmd\<lparr>mc_input_payload := Some (alert_bytes va en (word_of_int v) ot ut ve pe)\<rparr>)"
  "mc_input_payload cmd = Some (alert_bytes va en l ot ut ve pe) \<Longrightarrow>
   alert_setter CXL_SETALERT_OVER_TEMP cmd v = Some (cmd\<lparr>mc_input_payload := Some (alert_bytes va en l (word_of_int v) ut ve pe)\<rparr>)"
  "mc_input_payload cmd = Some (alert_bytes va en l ot ut ve pe) \<Longrightarrow>
   alert_setter CXL_SETALERT_UNDER_TEMP cmd v = Some (cmd\<lparr>mc_input_payload := Some (alert_bytes va en l ot (word_of_int v) ve pe)\<rparr>)"
  "mc_input_payload cmd = Some (alert_bytes va en l ot ut ve pe) \<Longrightarrow>
   alert_setter CXL_SETALERT_VOLATILE_MEM_ERROR cmd v = Some (cmd\<lparr>mc_input_payload := Some (alert_bytes va en l ot ut (word_of_int v) pe)\<rparr>)"
  "mc_input_payload cmd = Some (alert_bytes va en l ot ut ve pe) \<Longrightarrow>
   alert_setter CXL_SETALERT_PMEM_ERROR cmd v = Some (cmd\<lparr>mc_input_payload := Some (alert_bytes va en l ot ut ve (word_of_int v))\<rparr>)"
  by (simp_all add: alert_setter_def cxl_cmd_alert_config_set_valid_alert_actions_def
      cxl_cmd_alert_config_set_enable_alert_actions_def cxl_cmd_alert_config_set_life_used_prog_warn_threshold_def
      cxl_cmd_alert_config_set_dev_over_temperature_prog_warn_threshold_def
      cxl_cmd_alert_config_set_dev_under_temperature_prog_warn_threshold_def
      cxl_cmd_alert_config_set_corrected_volatile_mem_err_prog_warn_threshold_def
      cxl_cmd_alert_config_set_corrected_pmem_err_prog_warn_threshold_def
      cxl_alert_config_set_field_def update_lib_in_def put_alert put_alert [unfolded One_nat_def] ucast_of_int)

lemma zero_alert_bytes: "replicate 12 0 = alert_bytes 0 0 0 0 0 0 0"
  by (simp add: alert_bytes_def le_bytes_2 numeral_eq_Suc)

lemma setup_fields_ok:
  assumes "list_all2 (\<lambda>(e, a, t) v. t = None \<longrightarrow> v = 0) (alert_args opts) [l, ot, ut, ve, pe]"
    "mc_input_payload cmd = Some (alert_bytes 0 0 0 0 0 0 0)"
  shows "setup_threshold_fields (alert_args opts) [l, ot, ut, ve, pe] cmd = Some (cmd\<lparr>mc_input_payload :=
    Some (alert_bytes 0 0 (word_of_int l) (word_of_int ot) (word_of_int ut) (word_of_int ve) (word_of_int pe))\<rparr>)"
proof -
  obtain a1 t1 a2 t2 a3 t3 a4 t4 a5 t5 where o: "ao_life_used opts = (a1, t1)" "ao_over_temp opts = (a2, t2)"
    "ao_under_temp opts = (a3, t3)" "ao_volatile_err opts = (a4, t4)" "ao_pmem_err opts = (a5, t5)"
    by (metis surj_pair)
  have z: "t1 = None \<Longrightarrow> l = 0" "t2 = None \<Longrightarrow> ot = 0" "t3 = None \<Longrightarrow> ut = 0" "t4 = None \<Longrightarrow> ve = 0" "t5 = None \<Longrightarrow> pe = 0"
    using assms(1) by (auto simp: alert_args_def o)
  have "cmd = cmd\<lparr>mc_input_payload := Some (alert_bytes 0 0 0 0 0 0 0)\<rparr>" using assms(2) by simp
  then show ?thesis
    using z assms(2) by (cases t1; cases t2; cases t3; cases t4; cases t5) (simp_all add: alert_args_def o alert_setters)
qed

text \<open>C17: \<open>set-alert-config\<close> sends the configuration given on the command line: the valid mask names the alerts with an option, the
  enable mask those that are switched on, and the thresholds stand at their places in the payload, the rest is zero.  Each threshold is
  in range and the number of its option, cut to 32 bits: the number itself if it fits an \<open>int\<close>.\<close>

theorem set_alert_payload:
  assumes "reports mb cs" "declares cs CXL_MEM_COMMAND_ID_SET_ALERT_CONFIG 12 0"
    "alert_params (alert_args opts) 0 0 = Inr (valid, enable, vs)"
  shows "\<exists>cmd l ot ut ve pe. alert_command mb (alert_args opts) valid enable vs d = Some (Some cmd, d) \<and>
    in_bytes cmd = Some (alert_bytes (ucast valid) (ucast enable) (word_of_int l) (word_of_int ot) (word_of_int ut)
      (word_of_int ve) (word_of_int pe)) \<and>
    vs = [l, ot, ut, ve, pe] \<and> l \<in> {0..100} \<and> ot \<in> {- 32768..32767} \<and> ut \<in> {- 32768..32767} \<and> ve \<in> {0..65535} \<and>
    pe \<in> {0..65535} \<and>
    list_all2 (\<lambda>(e, a, t) v. threshold_of t v) (alert_args opts) vs \<and>
    (\<forall>i. bit valid i \<longleftrightarrow> (\<exists>(e, a, t) \<in> set (alert_args opts). event_num e = i \<and> a \<noteq> None)) \<and>
    (\<forall>i. bit enable i \<longleftrightarrow> (\<exists>(e, a, t) \<in> set (alert_args opts). event_num e = i \<and> a = Some ''on''))"
proof -
  note r = alert_params_result [OF assms(3)]
  have d: "distinct (map fst (alert_args opts))" by (simp add: alert_args_def)
  have "length vs = 5" using r [OF d] by (simp add: alert_args_def)
  then obtain l ot ut ve pe where vs: "vs = [l, ot, ut, ve, pe]"
    by (auto simp: numeral_eq_Suc length_Suc_conv)
  have ok: "list_all2 (\<lambda>(e, a, t) v. t = None \<longrightarrow> v = 0) (alert_args opts) [l, ot, ut, ve, pe]"
    using r [OF d] vs by (auto elim: list.rel_mono_strong)
  have rng: "l \<in> {0..100}" "ot \<in> {- 32768..32767}" "ut \<in> {- 32768..32767}" "ve \<in> {0..65535}" "pe \<in> {0..65535}"
    using r [OF d] vs
    by (auto simp: alert_args_def validate_alert_threshold_def split: prod.splits if_splits)
  obtain j where new: "cxl_cmd_new_set_alert_config mb d = Some (Some (fresh_cmd cs j CXL_MEM_COMMAND_ID_SET_ALERT_CONFIG 12 0), d)"
    using new_generic_ok [OF assms(1,2)] by (auto simp: cxl_cmd_new_set_alert_config_def)
  let ?b = "\<lambda>va en. alert_bytes va en (word_of_int l) (word_of_int ot) (word_of_int ut) (word_of_int ve) (word_of_int pe)"
  let ?c = "fresh_cmd cs j CXL_MEM_COMMAND_ID_SET_ALERT_CONFIG 12 0"
  have "setup_threshold_fields (alert_args opts) vs ?c = Some (?c\<lparr>mc_input_payload := Some (?b 0 0)\<rparr>)"
    unfolding vs by (rule setup_fields_ok [OF ok]) (simp add: fresh_cmd_def zero_alert_bytes)
  then have "alert_command mb (alert_args opts) valid enable vs d
      = Some (Some (?c\<lparr>mc_input_payload := Some (?b (word_of_int (sint valid)) (word_of_int (sint enable)))\<rparr>), d)"
    by (simp add: alert_command_def new alert_setters)
  moreover have "word_of_int (sint w) = (ucast w :: u8)" for w :: u32
    using ucast_of_int(1) [of "sint w"] by simp
  ultimately show ?thesis
    using r [OF d] rng vs alert_params_values [OF assms(3)] by (auto simp: in_bytes_def payload_bytes_def fresh_cmd_def fresh_send_def)
qed

definition demo_opts :: alert_opts where
  "demo_opts = \<lparr>ao_life_used = (None, None), ao_over_temp = (Some ''on'', Some ''40''), ao_under_temp = (None, None),
     ao_volatile_err = (Some ''off'', None), ao_pmem_err = (None, None)\<rparr>"

theorem set_alert_payload_witness:
  "\<exists>cmd. alert_command (mbox_of demo_cmds demo_send) (alert_args demo_opts) 10 2 [0, 40, 0, 0, 0] [] = Some (Some cmd, []) \<and>
     in_bytes cmd = Some [10, 2, 0, 0, 40, 0, 0, 0, 0, 0, 0, 0]"
proof -
  have "alert_params (alert_args demo_opts) 0 0 = Inr (10, 2, [0, 40, 0, 0, 0])"
    by code_simp
  moreover have "alert_bytes 10 2 0 40 0 0 0 = [10, 2, 0, 0, 40, 0, 0, 0, 0, 0, 0, 0]"
    by code_simp
  ultimately show ?thesis
    using set_alert_payload [OF demo_reports demo_declares(6), of demo_opts 10 2 "[0, 40, 0, 0, 0]" demo_send "[]"] by auto
qed

text \<open>The threshold is converted to \<open>int\<close> before it is checked, so a number beyond its range is taken for its remainder.\<close>

theorem alert_threshold_wraps:
  assumes "n \<le> 100"
  shows "alert_param_set_threshold CXL_SETALERT_LIFE_USED (Some ''on'') (Some (dec_digits (2 ^ 32 + n))) valid enable
    = Inr (valid OR 1, enable OR 1, int n)"
proof -
  have "(word_of_int (int (2 ^ 32 + n)) :: u32) = of_nat n" by simp
  moreover have "sint (of_nat n :: u32) = int n"
    using assms by (simp add: signed_of_nat signed_take_bit_int_eq_self)
  ultimately have "to_int (int (2 ^ 32 + n)) = int n" by (simp only: to_int_def)
  then show ?thesis
    using assms strtol10_dec [of "2 ^ 32 + n"]
    by (simp add: alert_param_set_threshold_def validate_alert_threshold_def event_num_def)
qed

theorem alert_threshold_wraps_witness:
  "alert_param_set_threshold CXL_SETALERT_LIFE_USED (Some ''on'') (Some (dec_digits 4294967346)) 0 0 = Inr (1, 1, 50)"
  using alert_threshold_wraps [of 50 0 0] by simp

subsection \<open>Waiting for the firmware\<close>

lemma fw_wait_iff:
  "(\<exists>fuel. fw_wait fw fuel d \<noteq> None) \<longleftrightarrow> (\<exists>k. \<not> fw_busy fw ((fl_sleep fw ^^ k) d))"
proof
  have "fw_wait fw fuel d \<noteq> None \<Longrightarrow> \<exists>k. \<not> fw_busy fw ((fl_sleep fw ^^ k) d)" for fuel
  proof (induction fuel arbitrary: d)
    case 0
    then show ?case by (intro exI [of _ 0]) (simp split: if_splits)
  next
    case (Suc fuel)
    show ?case
    proof (cases "fw_busy fw d")
      case True
      then obtain k where "\<not> fw_busy fw ((fl_sleep fw ^^ k) (fl_sleep fw d))"
        using Suc.IH [of "fl_sleep fw d"] Suc.prems by auto
      then show ?thesis by (intro exI [of _ "Suc k"]) (simp add: funpow_swap1)
    qed (auto intro: exI [of _ 0])
  qed
  then show "\<exists>fuel. fw_wait fw fuel d \<noteq> None \<Longrightarrow> \<exists>k. \<not> fw_busy fw ((fl_sleep fw ^^ k) d)" by blast
next
  have "\<not> fw_busy fw ((fl_sleep fw ^^ k) d) \<Longrightarrow> fw_wait fw k d \<noteq> None" for k
    by (induction k arbitrary: d) (auto simp: funpow_swap1)
  then show "\<exists>k. \<not> fw_busy fw ((fl_sleep fw ^^ k) d) \<Longrightarrow> \<exists>fuel. fw_wait fw fuel d \<noteq> None" by blast
qed

text \<open>C24: \<open>update-firmware\<close>, with all its options, returns exactly if it cancels, does not wait, or at some second after the transfer of the
  file the loader reports itself idle with nothing remaining at the same time.  A status that cannot be read counts as an update in
  progress, so with \<open>--wait\<close> and without a firmware loader the command does not return.\<close>

theorem fw_wait_ends_iff:
  "(\<exists>fuel. action_update_fw sys fw fuel p memdev s \<noteq> None) \<longleftrightarrow>
    (mp_cancel p \<or> \<not> mp_wait p \<or>
     (\<exists>k. let d = (fl_sleep fw ^^ k) (case mp_fw_file p of None \<Rightarrow> cl_dev s | Some f \<Rightarrow> snd (cxl_memdev_update_fw fw f (cl_dev s))) in
        fl_status fw d = Some ''idle'' \<and> cxl_memdev_fw_update_get_remaining fw d = 0))"
proof -
  define d where "d = (case mp_fw_file p of None \<Rightarrow> cl_dev s | Some f \<Rightarrow> snd (cxl_memdev_update_fw fw f (cl_dev s)))"
  have idle: "cxl_fwl_get_status fw d = CXL_FWL_STATUS_IDLE \<longleftrightarrow> fl_status fw d = Some ''idle''" for d
    by (cases "fl_status fw d") (auto simp: cxl_fwl_get_status_def cxl_fwl_status_from_ident_def)
  have busy: "\<not> fw_busy fw d \<longleftrightarrow> fl_status fw d = Some ''idle'' \<and> cxl_memdev_fw_update_get_remaining fw d = 0" for d
    by (simp add: fw_busy_def cxl_memdev_fw_update_in_progress_def idle word_greater_zero_iff)
  have "action_update_fw sys fw fuel p memdev s \<noteq> None \<longleftrightarrow> mp_cancel p \<or> \<not> mp_wait p \<or> fw_wait fw fuel d \<noteq> None" for fuel
    by (cases "fw_wait fw fuel d") (auto simp: action_update_fw_def d_def split: option.splits prod.splits)
  then show ?thesis using fw_wait_iff [of fw d] by (auto simp: busy d_def [symmetric] Let_def)
qed

definition demo_memdev_sys :: "unit memdev_sys" where
  "demo_memdev_sys = \<lparr>ms_mbox = (\<lambda>_. mbox_of demo_cmds (\<lambda>s ib d. (0, 0, 0, [], d))), ms_payload_max = (\<lambda>_. 256),
     ms_label_size = (\<lambda>_. 20), ms_bridge_active = (\<lambda>_ _. False), ms_calloc = (\<lambda>_. True), ms_infile = [], ms_ftell = 0,
     ms_fwrite = length, ms_enabled = (\<lambda>_ _. True), ms_bind = (\<lambda>_ d. d), ms_unbind = (\<lambda>_ d. d), ms_committed = (\<lambda>_ _. Some 1),
     ms_bus = (\<lambda>_ _. None), ms_invalidate = (\<lambda>_ d. d), ms_json = (\<lambda>_ _. True)\<rparr>"

theorem fw_wait_ends_iff_witness:
  "\<not> (\<exists>fuel. action_update_fw demo_memdev_sys
         \<lparr>fl_status = (\<lambda>_. None), fl_remaining = (\<lambda>_. None), fl_loading = (\<lambda>_ d. (0, d)), fl_data = (\<lambda>b d. (Inr (length b), d)),
          fl_cancel = (\<lambda>d. (0, d)), fl_sleep = (\<lambda>d. d), fl_file = (\<lambda>_. Inr [])\<rparr>
         fuel (no_params\<lparr>mp_wait := True\<rparr>) (demo_memdev 0) \<lparr>cl_dev = (), cl_out = [], cl_jdevs = []\<rparr> \<noteq> None)"
  unfolding fw_wait_ends_iff by (simp add: no_params_def)

subsection \<open>The arguments\<close>

definition memdev_name :: "string \<Rightarrow> bool" where
  "memdev_name a = (a \<noteq> ''all'' \<and> (scan_id ''mem'' a \<noteq> None \<or> scan_id [] a \<noteq> None))"

lemma check_args_all:
  "\<forall>a \<in> set as. memdev_name a \<Longrightarrow> check_args False (as @ ''all'' # bs) err argc = (err, 1)"
  by (induction as) (auto simp: memdev_name_def)

lemma check_args_names: "\<forall>a \<in> set as. memdev_name a \<Longrightarrow> check_args False as err argc = (err, argc)"
  by (induction as) (auto simp: memdev_name_def)

text \<open>\<open>all\<close> reduces the arguments to one, but that one is the first: behind other names, \<open>all\<close> and the rest of the
  names are ignored.\<close>

theorem all_keeps_first_only:
  assumes "\<not> mp_serial p" "\<forall>x \<in> set (a # as). memdev_name x"
  shows "memdev_action sys buses devs p put_off action open_err ((a # as) @ ''all'' # bs) s
    = memdev_action sys buses devs p put_off action open_err [a] s"
proof -
  have "check_args (mp_serial p) ((a # as) @ ''all'' # bs) 0 (length ((a # as) @ ''all'' # bs)) = (0, 1)"
    using check_args_all [OF assms(2)] assms(1) by simp
  moreover have "check_args (mp_serial p) [a] 0 (length [a]) = (0, 1)"
    using check_args_names [of "[a]"] assms by simp
  ultimately show ?thesis by (simp add: memdev_action_def)
qed

text \<open>Disabling a memdev in an active region is refused without \<open>--force\<close>, with no request to the kernel; if the command reports
  success for an enabled memdev, its driver is unbound.\<close>

theorem disable_memdev_guarded:
  assumes "action_disable sys p memdev s = Some (rc, s')"
    "\<And>b m d. ms_enabled sys m (ms_invalidate sys b d) = ms_enabled sys m d"
  shows "(ms_enabled sys memdev (cl_dev s) \<and> ms_committed sys memdev (cl_dev s) \<noteq> Some 0 \<and> \<not> mp_force p \<longrightarrow> rc < 0 \<and> s' = s) \<and>
    (rc = 0 \<longrightarrow> \<not> ms_enabled sys memdev (cl_dev s'))"
  using assms
  by (auto simp: action_disable_def cxl_memdev_disable_invalidate_def with_dev_def Let_def split: if_splits option.splits)

theorem disable_memdev_guarded_witness:
  "action_disable demo_memdev_sys no_params (demo_memdev 0) \<lparr>cl_dev = (), cl_out = [], cl_jdevs = []\<rparr>
     = Some (- EBUSY, \<lparr>cl_dev = (), cl_out = [], cl_jdevs = []\<rparr>)"
proof -
  obtain rc s' where r: "action_disable demo_memdev_sys no_params (demo_memdev 0) \<lparr>cl_dev = (), cl_out = [], cl_jdevs = []\<rparr> = Some (rc, s')"
    by (simp add: action_disable_def demo_memdev_sys_def no_params_def)
  then show ?thesis
    using disable_memdev_guarded [OF r] by (simp add: action_disable_def demo_memdev_sys_def no_params_def)
qed

definition label_memdev_sys :: "u8 list \<Rightarrow> u8 list memdev_sys" where
  "label_memdev_sys f = \<lparr>ms_mbox = (\<lambda>_. mbox_of demo_cmds demo_send), ms_payload_max = (\<lambda>_. 12),
     ms_label_size = (\<lambda>_. 20), ms_bridge_active = (\<lambda>_ _. False), ms_calloc = (\<lambda>_. True), ms_infile = f,
     ms_ftell = of_nat (length f), ms_fwrite = length, ms_enabled = (\<lambda>_ _. True), ms_bind = (\<lambda>_ d. d), ms_unbind = (\<lambda>_ d. d),
     ms_committed = (\<lambda>_ _. Some 0), ms_bus = (\<lambda>_ _. None), ms_invalidate = (\<lambda>_ d. d), ms_json = (\<lambda>_ _. True)\<rparr>"

theorem write_labels_read_labels_witness:
  "\<exists>s1 s2. action_write (label_memdev_sys [1, 2, 3, 4, 5, 6]) 7 (no_params\<lparr>mp_offset := 3\<rparr>) (demo_memdev 0)
      \<lparr>cl_dev = [], cl_out = [], cl_jdevs = []\<rparr> = Some (0, s1) \<and>
    action_read (label_memdev_sys [1, 2, 3, 4, 5, 6]) 7 (no_params\<lparr>mp_offset := 3, mp_len := 6\<rparr>) (demo_memdev 0) s1 = Some (0, s2) \<and>
    cl_out s2 = [1, 2, 3, 4, 5, 6]"
  using write_labels_read_labels [of "label_memdev_sys [1, 2, 3, 4, 5, 6]" "demo_memdev 0" demo_cmds demo_lsa 20
      "\<lparr>cl_dev = [], cl_out = [], cl_jdevs = []\<rparr>" "no_params\<lparr>mp_offset := 3\<rparr>" 7] demo_label_kernel
  by (auto simp: label_memdev_sys_def no_params_def)

theorem all_keeps_first_only_witness:
  "memdev_action demo_memdev_sys [] [demo_memdev 0, demo_memdev 1] no_params False (\<lambda>m s. Some (0, add_jdev demo_memdev_sys m s)) 0
     [''mem0'', ''all''] \<lparr>cl_dev = (), cl_out = [], cl_jdevs = []\<rparr>
   = Some (1, \<lparr>cl_dev = (), cl_out = [], cl_jdevs = [demo_memdev 0]\<rparr>)"
proof -
  have "memdev_name ''mem0''" by code_simp
  then have "memdev_action demo_memdev_sys [] [demo_memdev 0, demo_memdev 1] no_params False
      (\<lambda>m s. Some (0, add_jdev demo_memdev_sys m s)) 0 [''mem0'', ''all''] \<lparr>cl_dev = (), cl_out = [], cl_jdevs = []\<rparr>
    = memdev_action demo_memdev_sys [] [demo_memdev 0, demo_memdev 1] no_params False
      (\<lambda>m s. Some (0, add_jdev demo_memdev_sys m s)) 0 [''mem0''] \<lparr>cl_dev = (), cl_out = [], cl_jdevs = []\<rparr>"
    using all_keeps_first_only [of no_params "''mem0''" "[]" demo_memdev_sys "[]" "[demo_memdev 0, demo_memdev 1]" False
        "\<lambda>m s. Some (0, add_jdev demo_memdev_sys m s)" 0 "[]"] by (simp add: no_params_def)
  also have "\<dots> = Some (1, \<lparr>cl_dev = (), cl_out = [], cl_jdevs = [demo_memdev 0]\<rparr>)"
    by code_simp
  finally show ?thesis .
qed

end
