(* ===== verification/Dax_Memory.thy ===== *)
theory Dax_Memory
  imports Dev_Filter
begin

text \<open>
  Devices and memory blocks of libdaxctl, \<open>daxctl/lib/libdaxctl.c\<close>: the driver a device is bound to, its memory blocks, and
  bringing them online and offline.

  sysfs, the driver directory and libkmod are a parameter over an arbitrary state, addressed by a datatype of the
  paths the code builds (they fit their buffers, and allocations succeed).  Reading fails with a result code.  The
  fields of a device and of its memory object that the code changes are passed explicitly.
\<close>

subsection \<open>Types\<close>

datatype memory_zones = MEM_ZONE_UNKNOWN | MEM_ZONE_MOVABLE | MEM_ZONE_NORMAL

datatype memory_op = MEM_SET_OFFLINE | MEM_SET_ONLINE | MEM_SET_ONLINE_NO_MOVABLE | MEM_IS_ONLINE | MEM_COUNT | MEM_GET_ZONE

datatype daxctl_dev_mode = DAXCTL_DEV_MODE_DEVDAX | DAXCTL_DEV_MODE_RAM | DAXCTL_DEV_MODE_FAMFS | DAXCTL_DEV_MODE_UNKNOWN

text \<open>\<open>mm_zone\<close> is \<open>None\<close> for the value 0.\<close>

record daxctl_memory =
  mm_node_path :: "string option"
  mm_block_size :: u64
  mm_zone :: "memory_zones option"

record daxctl_dev =
  dd_id :: int
  dd_region_id :: int
  dd_devname :: string
  dd_resource :: u64
  dd_size :: u64
  dd_align :: u64
  dd_target_node :: int
  dd_mem :: "daxctl_memory option"

datatype dax_path =
    Block_attr string string string
  | Phys_index string
  | Block_size_bytes
  | Auto_online_blocks
  | Driver_attr string string
  | Dev_attr string string
  | Region_attr int string

datatype attr_value = Text string | Hex u64 | Hex_range u64 u64

text \<open>\<open>ds_readdir\<close> lists a node directory, with the error at its end; \<open>ds_dax_bus\<close> tells whether the device is of the dax
  bus, \<open>ds_driver\<close> is the name its driver link leads to, \<open>ds_drivers\<close> the driver directory, \<open>ds_insert\<close> loads a
  module, \<open>ds_region_devs\<close> enumerates the devices of a region.\<close>

record 'd dax_sys =
  ds_read :: "dax_path \<Rightarrow> 'd \<Rightarrow> int + string"
  ds_write :: "dax_path \<Rightarrow> attr_value \<Rightarrow> 'd \<Rightarrow> int \<times> 'd"
  ds_readdir :: "string \<Rightarrow> 'd \<Rightarrow> int + string list \<times> int"
  ds_dax_bus :: "string \<Rightarrow> 'd \<Rightarrow> bool"
  ds_driver :: "string \<Rightarrow> 'd \<Rightarrow> string option"
  ds_drivers :: "'d \<Rightarrow> string list option"
  ds_insert :: "string \<Rightarrow> 'd \<Rightarrow> int \<times> 'd"
  ds_region_devs :: "int \<Rightarrow> 'd \<Rightarrow> daxctl_dev list"

fun zone_string :: "memory_zones \<Rightarrow> string" where
  "zone_string MEM_ZONE_UNKNOWN = ''mixed''"
| "zone_string MEM_ZONE_NORMAL = ''Normal''"
| "zone_string MEM_ZONE_MOVABLE = ''Movable''"

fun state_string :: "memory_zones \<Rightarrow> string option" where
  "state_string MEM_ZONE_UNKNOWN = None"
| "state_string MEM_ZONE_NORMAL = Some ''online''"
| "state_string MEM_ZONE_MOVABLE = Some ''online_movable''"

fun dax_module :: "daxctl_dev_mode \<Rightarrow> string option" where
  "dax_module DAXCTL_DEV_MODE_DEVDAX = Some ''device_dax''"
| "dax_module DAXCTL_DEV_MODE_RAM = Some ''kmem''"
| "dax_module DAXCTL_DEV_MODE_FAMFS = Some ''fsdev_dax''"
| "dax_module DAXCTL_DEV_MODE_UNKNOWN = None"

subsection \<open>Memory blocks\<close>

definition memblock_is_online :: "'d dax_sys \<Rightarrow> daxctl_memory \<Rightarrow> string \<Rightarrow> 'd \<Rightarrow> int" where
  "memblock_is_online sys mem memblock d =
     (case mm_node_path mem of
        None \<Rightarrow> - ENXIO
      | Some node \<Rightarrow>
          (case ds_read sys (Block_attr node memblock ''state'') d of
             Inl rc \<Rightarrow> rc
           | Inr buf \<Rightarrow> if take 6 buf = ''online'' then 1 else 0))"

definition memblock_is_removable :: "'d dax_sys \<Rightarrow> daxctl_memory \<Rightarrow> string \<Rightarrow> 'd \<Rightarrow> int" where
  "memblock_is_removable sys mem memblock d =
     (case mm_node_path mem of
        None \<Rightarrow> - ENXIO
      | Some node \<Rightarrow>
          (case ds_read sys (Block_attr node memblock ''removable'') d of
             Inl rc \<Rightarrow> rc
           | Inr buf \<Rightarrow> if fst (strtoull buf) = 0 then - EOPNOTSUPP else 0))"

definition online_one_memblock :: "'d dax_sys \<Rightarrow> daxctl_memory \<Rightarrow> string \<Rightarrow> memory_zones \<Rightarrow> 'd \<Rightarrow> int \<times> 'd" where
  "online_one_memblock sys mem memblock zone d =
     (case mm_node_path mem of
        None \<Rightarrow> (- ENXIO, d)
      | Some node \<Rightarrow>
          let rc = memblock_is_online sys mem memblock d in
          if rc \<noteq> 0 then (rc, d)
          else (case (case state_string zone of
                        None \<Rightarrow> (- EINVAL, d)
                      | Some s \<Rightarrow> ds_write sys (Block_attr node memblock ''state'') (Text s) d) of
                  (rc, d) \<Rightarrow> if rc \<noteq> 0 \<and> memblock_is_online sys mem memblock d = 1 then (0, d) else (rc, d)))"

definition offline_one_memblock :: "'d dax_sys \<Rightarrow> daxctl_memory \<Rightarrow> string \<Rightarrow> 'd \<Rightarrow> int \<times> 'd" where
  "offline_one_memblock sys mem memblock d =
     (let rc = memblock_is_online sys mem memblock d in
      if rc < 0 then (rc, d)
      else if rc = 0 then (1, d)
      else let rc = memblock_is_removable sys mem memblock d in
        if rc \<noteq> 0 then (rc, d)
        else (case mm_node_path mem of
          None \<Rightarrow> (- ENXIO, d)
        | Some node \<Rightarrow>
            (case ds_write sys (Block_attr node memblock ''state'') (Text ''offline'') d of
               (rc, d) \<Rightarrow> if rc \<noteq> 0 \<and> memblock_is_online sys mem memblock d = 0 then (1, d) else (rc, d))))"

text \<open>The result carries the memory object and the flag \<open>MEM_ST_ZONE_INCONSISTENT\<close>.\<close>

definition memblock_find_zone ::
  "'d dax_sys \<Rightarrow> daxctl_memory \<Rightarrow> string \<Rightarrow> bool \<Rightarrow> 'd \<Rightarrow> int \<times> daxctl_memory \<times> bool" where
  "memblock_find_zone sys mem memblock status d =
     (let rc = memblock_is_online sys mem memblock d in
      if rc < 0 then (rc, mem, status)
      else if rc = 0 then (- ENXIO, mem, status)
      else case mm_node_path mem of
        None \<Rightarrow> (- ENXIO, mem, status)
      | Some node \<Rightarrow>
          (case ds_read sys (Block_attr node memblock ''valid_zones'') d of
             Inl rc \<Rightarrow> (rc, mem, status)
           | Inr buf \<Rightarrow>
               let cur_zone = (if buf = zone_string MEM_ZONE_MOVABLE then MEM_ZONE_MOVABLE
                               else if buf = zone_string MEM_ZONE_NORMAL then MEM_ZONE_NORMAL
                               else MEM_ZONE_UNKNOWN)
               in (case mm_zone mem of
                     Some z \<Rightarrow> if z = cur_zone then (0, mem, status) else (0, mem, True)
                   | None \<Rightarrow> (0, mem\<lparr>mm_zone := Some cur_zone\<rparr>, status))))"

text \<open>\<open>strtoul\<close> with base 16.\<close>

definition strtoul16 :: "string \<Rightarrow> nat \<times> bool" where
  "strtoul16 str =
     (case scan_sign (dropWhile is_space str) of (neg, s) \<Rightarrow>
        (fst (scan_digits 16 (if take 2 s = ''0x'' \<and> starts_digit 16 (drop 2 s) then drop 2 s else s) 0), neg))"

text \<open>Where a block begins, in units of the block size.  \<open>strtoul\<close> sets \<open>errno\<close> only for a value that does not fit.\<close>

definition read_phys_index :: "'d dax_sys \<Rightarrow> string \<Rightarrow> 'd \<Rightarrow> int + u64" where
  "read_phys_index sys memblock d =
     (case ds_read sys (Phys_index memblock) d of
        Inl rc \<Rightarrow> Inl rc
      | Inr buf \<Rightarrow>
          (case strtoul16 buf of (n, neg) \<Rightarrow>
             if 2 ^ 64 \<le> n then Inl (- ERANGE)
             else let w = (if neg then - of_nat n else of_nat n :: u64) in if w = ULLONG_MAX then Inl 0 else Inr w))"

definition memblock_in_dev :: "'d dax_sys \<Rightarrow> daxctl_dev \<Rightarrow> daxctl_memory \<Rightarrow> string \<Rightarrow> 'd \<Rightarrow> int" where
  "memblock_in_dev sys dev mem memblock d =
     (case read_phys_index sys memblock d of
        Inl rc \<Rightarrow> rc
      | Inr phys_index \<Rightarrow>
          let dev_start = dd_resource dev; dev_end = dev_start + dd_size dev - 1 in
          if dev_start = 0 then - EACCES
          else if mm_block_size mem = 0 then - ENXIO
          else let memblock_res = phys_index * mm_block_size mem in
            if memblock_res \<ge> dev_start \<and> memblock_res \<le> dev_end then 1 else 0)"

definition op_for_one_memblock ::
  "'d dax_sys \<Rightarrow> daxctl_memory \<Rightarrow> string \<Rightarrow> memory_op \<Rightarrow> bool \<Rightarrow> 'd \<Rightarrow> int \<times> daxctl_memory \<times> bool \<times> 'd" where
  "op_for_one_memblock sys mem memblock op status d =
     (case op of
        MEM_SET_ONLINE \<Rightarrow>
          (case online_one_memblock sys mem memblock MEM_ZONE_MOVABLE d of (rc, d) \<Rightarrow> (rc, mem, status, d))
      | MEM_SET_ONLINE_NO_MOVABLE \<Rightarrow>
          (case online_one_memblock sys mem memblock MEM_ZONE_NORMAL d of (rc, d) \<Rightarrow> (rc, mem, status, d))
      | MEM_SET_OFFLINE \<Rightarrow> (case offline_one_memblock sys mem memblock d of (rc, d) \<Rightarrow> (rc, mem, status, d))
      | MEM_IS_ONLINE \<Rightarrow>
          let rc = memblock_is_online sys mem memblock d in
          if rc < 0 then (rc, mem, status, d) else (if rc = 0 then 1 else 0, mem, status, d)
      | MEM_COUNT \<Rightarrow> (0, mem, status, d)
      | MEM_GET_ZONE \<Rightarrow> (case memblock_find_zone sys mem memblock status d of (rc, mem, status) \<Rightarrow> (rc, mem, status, d)))"

text \<open>The loop over the directory; the first component of the result is the error that ended it, or the count.\<close>

definition is_memblock_name :: "string \<Rightarrow> bool" where
  "is_memblock_name name \<longleftrightarrow> take 6 name = ''memory'' \<and> take 7 name \<noteq> ''memory_''"

fun memory_op_loop ::
  "'d dax_sys \<Rightarrow> daxctl_dev \<Rightarrow> memory_op \<Rightarrow> string list \<Rightarrow> int \<Rightarrow> daxctl_memory \<Rightarrow> bool \<Rightarrow> 'd \<Rightarrow>
    (int + int) \<times> daxctl_memory \<times> bool \<times> 'd" where
  "memory_op_loop sys dev op [] count mem status d = (Inr count, mem, status, d)"
| "memory_op_loop sys dev op (name # names) count mem status d =
     (if \<not> is_memblock_name name then memory_op_loop sys dev op names count mem status d
      else let rc = memblock_in_dev sys dev mem name d in
        if rc < 0 then (Inl rc, mem, status, d)
        else if rc = 0 then memory_op_loop sys dev op names count mem status d
        else case op_for_one_memblock sys mem name op status d of (rc, mem, status, d) \<Rightarrow>
          if rc < 0 then (Inl rc, mem, status, d)
          else memory_op_loop sys dev op names (if rc = 0 then count + 1 else count) mem status d)"

definition daxctl_memory_op ::
  "'d dax_sys \<Rightarrow> daxctl_dev \<Rightarrow> daxctl_memory \<Rightarrow> memory_op \<Rightarrow> 'd \<Rightarrow> int \<times> daxctl_memory \<times> 'd" where
  "daxctl_memory_op sys dev mem op d =
     (case mm_node_path mem of
        None \<Rightarrow> (- ENXIO, mem, d)
      | Some node \<Rightarrow>
          (case ds_readdir sys node d of
             Inl err \<Rightarrow> (- err, mem, d)
           | Inr (names, errno) \<Rightarrow>
               (case memory_op_loop sys dev op names 0 mem False d of
                  (Inl rc, mem, status, d) \<Rightarrow> (rc, mem, d)
                | (Inr count, mem, status, d) \<Rightarrow>
                    let mem = (if status then mem\<lparr>mm_zone := Some MEM_ZONE_UNKNOWN\<rparr> else mem)
                    in if errno \<noteq> 0 then (- errno, mem, d) else (count, mem, d))))"

definition daxctl_memory_online_with_zone ::
  "'d dax_sys \<Rightarrow> daxctl_dev \<Rightarrow> daxctl_memory \<Rightarrow> memory_zones \<Rightarrow> 'd \<Rightarrow> int \<times> daxctl_memory \<times> 'd" where
  "daxctl_memory_online_with_zone sys dev mem zone d =
     (case (case zone of
              MEM_ZONE_MOVABLE \<Rightarrow> daxctl_memory_op sys dev mem MEM_SET_ONLINE d
            | MEM_ZONE_NORMAL \<Rightarrow> daxctl_memory_op sys dev mem MEM_SET_ONLINE_NO_MOVABLE d
            | MEM_ZONE_UNKNOWN \<Rightarrow> (- EINVAL, mem, d)) of
        (rc, mem, d) \<Rightarrow>
          if rc \<noteq> 0 then (rc, mem, d)
          else (case daxctl_memory_op sys dev (mem\<lparr>mm_zone := None\<rparr>) MEM_GET_ZONE d of
                  (rc, mem, d) \<Rightarrow>
                    if rc < 0 then (rc, mem, d)
                    else if mm_zone mem \<noteq> Some zone then (- EBUSY, mem, d)
                    else (rc, mem, d)))"

definition daxctl_memory_online :: "'d dax_sys \<Rightarrow> daxctl_dev \<Rightarrow> daxctl_memory \<Rightarrow> 'd \<Rightarrow> int \<times> daxctl_memory \<times> 'd" where
  "daxctl_memory_online sys dev mem = daxctl_memory_online_with_zone sys dev mem MEM_ZONE_MOVABLE"

definition daxctl_memory_online_no_movable :: "'d dax_sys \<Rightarrow> daxctl_dev \<Rightarrow> daxctl_memory \<Rightarrow> 'd \<Rightarrow> int \<times> daxctl_memory \<times> 'd" where
  "daxctl_memory_online_no_movable sys dev mem = daxctl_memory_online_with_zone sys dev mem MEM_ZONE_NORMAL"

definition daxctl_memory_offline :: "'d dax_sys \<Rightarrow> daxctl_dev \<Rightarrow> daxctl_memory \<Rightarrow> 'd \<Rightarrow> int \<times> daxctl_memory \<times> 'd" where
  "daxctl_memory_offline sys dev mem = daxctl_memory_op sys dev mem MEM_SET_OFFLINE"

definition daxctl_memory_is_online :: "'d dax_sys \<Rightarrow> daxctl_dev \<Rightarrow> daxctl_memory \<Rightarrow> 'd \<Rightarrow> int" where
  "daxctl_memory_is_online sys dev mem d = fst (daxctl_memory_op sys dev mem MEM_IS_ONLINE d)"

definition daxctl_memory_num_sections :: "'d dax_sys \<Rightarrow> daxctl_dev \<Rightarrow> daxctl_memory \<Rightarrow> 'd \<Rightarrow> int" where
  "daxctl_memory_num_sections sys dev mem d = fst (daxctl_memory_op sys dev mem MEM_COUNT d)"

definition daxctl_memory_is_movable :: "'d dax_sys \<Rightarrow> daxctl_dev \<Rightarrow> daxctl_memory \<Rightarrow> 'd \<Rightarrow> int" where
  "daxctl_memory_is_movable sys dev mem d =
     (case daxctl_memory_op sys dev (mem\<lparr>mm_zone := None\<rparr>) MEM_GET_ZONE d of
        (rc, mem, d) \<Rightarrow> if rc < 0 then rc else if mm_zone mem = Some MEM_ZONE_MOVABLE then 1 else 0)"

subsection \<open>Devices\<close>

definition daxctl_dev_is_enabled :: "'d dax_sys \<Rightarrow> daxctl_dev \<Rightarrow> 'd \<Rightarrow> bool" where
  "daxctl_dev_is_enabled sys dev d =
     (if \<not> ds_dax_bus sys (dd_devname dev) d then True else ds_driver sys (dd_devname dev) d \<noteq> None)"

definition daxctl_dev_bound_to_module :: "'d dax_sys \<Rightarrow> daxctl_dev \<Rightarrow> daxctl_dev_mode \<Rightarrow> 'd \<Rightarrow> bool" where
  "daxctl_dev_bound_to_module sys dev mode d =
     (if \<not> ds_dax_bus sys (dd_devname dev) d then False
      else if \<not> daxctl_dev_is_enabled sys dev d then False
      else dax_module mode \<noteq> None \<and> ds_driver sys (dd_devname dev) d = dax_module mode)"

definition daxctl_dev_get_mode :: "'d dax_sys \<Rightarrow> daxctl_dev \<Rightarrow> 'd \<Rightarrow> daxctl_dev_mode" where
  "daxctl_dev_get_mode sys dev d =
     (if daxctl_dev_bound_to_module sys dev DAXCTL_DEV_MODE_RAM d then DAXCTL_DEV_MODE_RAM
      else if daxctl_dev_bound_to_module sys dev DAXCTL_DEV_MODE_FAMFS d then DAXCTL_DEV_MODE_FAMFS
      else if daxctl_dev_bound_to_module sys dev DAXCTL_DEV_MODE_DEVDAX d then DAXCTL_DEV_MODE_DEVDAX
      else DAXCTL_DEV_MODE_UNKNOWN)"

definition node_path :: "int \<Rightarrow> string option" where
  "node_path node_num = (if node_num \<ge> 0 then Some (''/sys/devices/system/node/node'' @ dec_digits (nat node_num)) else None)"

definition daxctl_dev_alloc_mem :: "'d dax_sys \<Rightarrow> daxctl_dev \<Rightarrow> 'd \<Rightarrow> daxctl_memory option" where
  "daxctl_dev_alloc_mem sys dev d =
     (if \<not> daxctl_dev_bound_to_module sys dev DAXCTL_DEV_MODE_RAM d then None
      else Some \<lparr>mm_node_path = node_path (dd_target_node dev),
             mm_block_size = (case ds_read sys Block_size_bytes d of
                                Inl rc \<Rightarrow> 0
                              | Inr buf \<Rightarrow>
                                  (case strtoul16 buf of (n, neg) \<Rightarrow>
                                     let w = (if 2 ^ 64 \<le> n then ULLONG_MAX else if neg then - of_nat n else of_nat n :: u64)
                                     in if w = ULLONG_MAX then 0 else w)),
             mm_zone = None\<rparr>)"

text \<open>The memory object is created on first use and kept in the device.\<close>

definition daxctl_dev_get_memory :: "'d dax_sys \<Rightarrow> daxctl_dev \<Rightarrow> 'd \<Rightarrow> daxctl_memory option \<times> daxctl_dev" where
  "daxctl_dev_get_memory sys dev d =
     (case dd_mem dev of
        Some mem \<Rightarrow> (Some mem, dev)
      | None \<Rightarrow> let mem = daxctl_dev_alloc_mem sys dev d in (mem, dev\<lparr>dd_mem := mem\<rparr>))"

definition daxctl_bind :: "'d dax_sys \<Rightarrow> string \<Rightarrow> string \<Rightarrow> 'd \<Rightarrow> int \<times> 'd" where
  "daxctl_bind sys devname mod_name d =
     (case ds_drivers sys d of
        None \<Rightarrow> (- ENXIO, d)
      | Some names \<Rightarrow>
          if mod_name \<notin> set names then (0, d)
          else (case ds_write sys (Driver_attr mod_name ''new_id'') (Text devname) d of
                  (_, d) \<Rightarrow> ds_write sys (Driver_attr mod_name ''bind'') (Text devname) d))"

definition daxctl_unbind :: "'d dax_sys \<Rightarrow> string \<Rightarrow> 'd \<Rightarrow> int \<times> 'd" where
  "daxctl_unbind sys devname d =
     (case ds_write sys (Dev_attr devname ''driver/remove_id'') (Text devname) d of
        (rc, d) \<Rightarrow> if rc \<noteq> 0 then (rc, d) else ds_write sys (Dev_attr devname ''driver/unbind'') (Text devname) d)"

definition daxctl_dev_enable :: "'d dax_sys \<Rightarrow> daxctl_dev \<Rightarrow> daxctl_dev_mode \<Rightarrow> 'd \<Rightarrow> int \<times> 'd" where
  "daxctl_dev_enable sys dev mode d =
     (if \<not> ds_dax_bus sys (dd_devname dev) d then (- EOPNOTSUPP, d)
      else if daxctl_dev_is_enabled sys dev d then (0, d)
      else case dax_module mode of
        None \<Rightarrow> (- EINVAL, d)
      | Some mod_name \<Rightarrow>
          (case ds_insert sys mod_name d of
             (rc, d) \<Rightarrow>
               if rc < 0 then (rc, d)
               else (case daxctl_bind sys (dd_devname dev) mod_name d of
                       (rc, d) \<Rightarrow>
                         if \<not> daxctl_dev_is_enabled sys dev d then (if rc \<noteq> 0 then rc else - ENXIO, d) else (0, d))))"

definition daxctl_dev_disable :: "'d dax_sys \<Rightarrow> daxctl_dev \<Rightarrow> 'd \<Rightarrow> int \<times> daxctl_dev \<times> 'd" where
  "daxctl_dev_disable sys dev d =
     (if \<not> ds_dax_bus sys (dd_devname dev) d then (- EOPNOTSUPP, dev, d)
      else if \<not> daxctl_dev_is_enabled sys dev d then (0, dev, d)
      else let dev = dev\<lparr>dd_mem := None\<rparr> in
        case daxctl_unbind sys (dd_devname dev) d of
          (_, d) \<Rightarrow> if daxctl_dev_is_enabled sys dev d then (- EBUSY, dev, d) else (0, dev, d))"

definition daxctl_dev_set_size :: "'d dax_sys \<Rightarrow> daxctl_dev \<Rightarrow> u64 \<Rightarrow> 'd \<Rightarrow> int \<times> daxctl_dev \<times> 'd" where
  "daxctl_dev_set_size sys dev sz d =
     (case ds_write sys (Dev_attr (dd_devname dev) ''size'') (Hex sz) d of
        (rc, d) \<Rightarrow> if rc < 0 then (- ENXIO, dev, d) else (0, dev\<lparr>dd_size := sz\<rparr>, d))"

definition daxctl_dev_set_align :: "'d dax_sys \<Rightarrow> daxctl_dev \<Rightarrow> u64 \<Rightarrow> 'd \<Rightarrow> int \<times> daxctl_dev \<times> 'd" where
  "daxctl_dev_set_align sys dev al d =
     (case ds_write sys (Dev_attr (dd_devname dev) ''align'') (Hex al) d of
        (rc, d) \<Rightarrow> if rc < 0 then (- ENXIO, dev, d) else (0, dev\<lparr>dd_align := al\<rparr>, d))"

definition daxctl_dev_set_mapping :: "'d dax_sys \<Rightarrow> daxctl_dev \<Rightarrow> u64 \<Rightarrow> u64 \<Rightarrow> 'd \<Rightarrow> int \<times> daxctl_dev \<times> 'd" where
  "daxctl_dev_set_mapping sys dev start end d =
     (case ds_write sys (Dev_attr (dd_devname dev) ''mapping'') (Hex_range start end) d of
        (rc, d) \<Rightarrow> if rc < 0 then (- ENXIO, dev, d) else (0, dev\<lparr>dd_size := dd_size dev + (end - start + 1)\<rparr>, d))"

definition daxctl_region_get_available_size :: "'d dax_sys \<Rightarrow> int \<Rightarrow> 'd \<Rightarrow> u64" where
  "daxctl_region_get_available_size sys region d =
     (case ds_read sys (Region_attr region ''available_size'') d of
        Inl rc \<Rightarrow> 0
      | Inr buf \<Rightarrow> (case strtoull buf of (avail, end) \<Rightarrow> if buf \<noteq> [] \<and> end = [] then avail else 0))"

definition daxctl_region_create_dev :: "'d dax_sys \<Rightarrow> int \<Rightarrow> 'd \<Rightarrow> int \<times> 'd" where
  "daxctl_region_create_dev sys region d = ds_write sys (Region_attr region ''create'') (Text ''1'') d"

definition daxctl_region_destroy_dev :: "'d dax_sys \<Rightarrow> int \<Rightarrow> daxctl_dev \<Rightarrow> 'd \<Rightarrow> int \<times> 'd" where
  "daxctl_region_destroy_dev sys region dev d = ds_write sys (Region_attr region ''delete'') (Text (dd_devname dev)) d"

definition daxctl_region_get_dev_seed :: "'d dax_sys \<Rightarrow> int \<Rightarrow> 'd \<Rightarrow> daxctl_dev option" where
  "daxctl_region_get_dev_seed sys region d =
     (case ds_read sys (Region_attr region ''seed'') d of
        Inl rc \<Rightarrow> None
      | Inr buf \<Rightarrow> List.find (\<lambda>dev. buf = dd_devname dev) (ds_region_devs sys region d))"

text \<open>When the policy cannot be read the code looks at a buffer that has not been written, taken as empty here.\<close>

definition daxctl_dev_will_auto_online_memory :: "'d dax_sys \<Rightarrow> 'd \<Rightarrow> bool" where
  "daxctl_dev_will_auto_online_memory sys d =
     (case ds_read sys Auto_online_blocks d of Inl rc \<Rightarrow> False | Inr buf \<Rightarrow> take 6 buf = ''online'')"

definition daxctl_dev_has_online_memory :: "'d dax_sys \<Rightarrow> daxctl_dev \<Rightarrow> 'd \<Rightarrow> int" where
  "daxctl_dev_has_online_memory sys dev d =
     (case daxctl_dev_get_memory sys dev d of (None, _) \<Rightarrow> 0 | (Some mem, _) \<Rightarrow> daxctl_memory_is_online sys dev mem d)"

subsection \<open>What the kernel promises\<close>

text \<open>The names of the memory blocks of a node and where they begin do not change; the state of a block reads as it
  is, and a successful write changes the state of this block and no other.  Result codes are 0 or negative.\<close>

definition block_kern :: "'d dax_sys \<Rightarrow> string \<Rightarrow> string list \<Rightarrow> ('d \<Rightarrow> string \<Rightarrow> bool) \<Rightarrow> bool" where
  "block_kern sys node names onl \<longleftrightarrow>
     (\<forall>d. ds_readdir sys node d = Inr (names, 0)) \<and>
     (\<forall>b d. ds_read sys (Block_attr node b ''state'') d = Inr (if onl d b then ''online'' else ''offline'')) \<and>
     (\<forall>b d d'. ds_read sys (Phys_index b) d = ds_read sys (Phys_index b) d') \<and>
     (\<forall>p d rc. ds_read sys p d = Inl rc \<longrightarrow> rc < 0) \<and>
     (\<forall>b d rc d'. ds_write sys (Block_attr node b ''state'') (Text ''offline'') d = (rc, d') \<longrightarrow>
        rc \<le> 0 \<and> onl d' = (if rc = 0 then (onl d)(b := False) else onl d)) \<and>
     (\<forall>b zone s d rc d'. state_string zone = Some s \<longrightarrow> ds_write sys (Block_attr node b ''state'') (Text s) d = (rc, d') \<longrightarrow>
        rc \<le> 0 \<and> onl d' = (if rc = 0 then (onl d)(b := True) else onl d))"

lemma block_kernD:
  assumes "block_kern sys node names onl"
  shows "ds_readdir sys node d = Inr (names, 0)"
    and "ds_read sys (Block_attr node b ''state'') d = Inr (if onl d b then ''online'' else ''offline'')"
    and "ds_read sys (Phys_index b) d = ds_read sys (Phys_index b) d'"
    and "ds_read sys p d = Inl rc \<Longrightarrow> rc < 0"
    and "ds_write sys (Block_attr node b ''state'') (Text ''offline'') d = (rc, d') \<Longrightarrow>
      rc \<le> 0 \<and> onl d' = (if rc = 0 then (onl d)(b := False) else onl d)"
    and "state_string zone = Some s \<Longrightarrow> ds_write sys (Block_attr node b ''state'') (Text s) d = (rc, d') \<Longrightarrow>
      rc \<le> 0 \<and> onl d' = (if rc = 0 then (onl d)(b := True) else onl d)"
  using assms unfolding block_kern_def by blast+

text \<open>The blocks of a device.\<close>

definition dev_blocks :: "'d dax_sys \<Rightarrow> daxctl_dev \<Rightarrow> daxctl_memory \<Rightarrow> string list \<Rightarrow> 'd \<Rightarrow> string list" where
  "dev_blocks sys dev mem names d = filter (\<lambda>b. is_memblock_name b \<and> memblock_in_dev sys dev mem b d = 1) names"

definition blocks_readable :: "'d dax_sys \<Rightarrow> daxctl_dev \<Rightarrow> daxctl_memory \<Rightarrow> string list \<Rightarrow> 'd \<Rightarrow> bool" where
  "blocks_readable sys dev mem names d \<longleftrightarrow> (\<forall>b \<in> set names. is_memblock_name b \<longrightarrow> 0 \<le> memblock_in_dev sys dev mem b d)"

lemma in_dev_zone [simp]: "memblock_in_dev sys dev (mem\<lparr>mm_zone := z\<rparr>) = memblock_in_dev sys dev mem"
proof (intro ext)
  fix b d
  have "mm_block_size (mem\<lparr>mm_zone := z\<rparr>) = mm_block_size mem" by simp
  then show "memblock_in_dev sys dev (mem\<lparr>mm_zone := z\<rparr>) b d = memblock_in_dev sys dev mem b d"
    unfolding memblock_in_dev_def by (simp only:)
qed

lemma in_dev_const:
  assumes "block_kern sys node names onl"
  shows "memblock_in_dev sys dev mem b d = memblock_in_dev sys dev mem b d'"
  using block_kernD(3) [OF assms, of b d d'] by (simp add: memblock_in_dev_def read_phys_index_def)

lemma in_dev_le_1:
  assumes "block_kern sys node names onl"
  shows "memblock_in_dev sys dev mem b d \<le> 1"
proof (cases "read_phys_index sys b d")
  case (Inl rc)
  then have "rc \<le> 0" using block_kernD(4) [OF assms, of "Phys_index b" d]
    by (auto simp: read_phys_index_def Let_def split: sum.splits prod.splits if_splits)
  then show ?thesis using Inl by (simp add: memblock_in_dev_def)
qed (simp add: memblock_in_dev_def Let_def)

lemma block_state:
  assumes "block_kern sys node names onl" and "mm_node_path mem = Some node"
  shows "memblock_is_online sys mem b d = (if onl d b then 1 else 0)"
  using block_kernD(2) [OF assms(1), of b d] assms(2) by (simp add: memblock_is_online_def)

subsection \<open>Counting\<close>

lemma count_loop:
  assumes kern: "block_kern sys node names onl" and mem: "mm_node_path mem = Some node"
    and readable: "blocks_readable sys dev mem ns d"
  shows "memory_op_loop sys dev MEM_COUNT ns count mem status d =
      (Inr (count + int (length (dev_blocks sys dev mem ns d))), mem, status, d)"
    and "memory_op_loop sys dev MEM_IS_ONLINE ns count mem status d =
      (Inr (count + int (length (filter (onl d) (dev_blocks sys dev mem ns d)))), mem, status, d)"
  using readable
proof (induction ns arbitrary: count)
  case (Cons b ns)
  have le: "memblock_in_dev sys dev mem b d \<le> 1" by (rule in_dev_le_1 [OF kern])
  { case 1
    then show ?case using Cons(1) le
      by (auto simp: dev_blocks_def blocks_readable_def Let_def op_for_one_memblock_def)
  next
    case 2
    then show ?case using Cons(2) le block_state [OF kern mem, of b d]
      by (auto simp: dev_blocks_def blocks_readable_def Let_def op_for_one_memblock_def) }
qed (simp_all add: dev_blocks_def)

lemma memory_counts:
  assumes "block_kern sys node names onl" and "mm_node_path mem = Some node" and "blocks_readable sys dev mem names d"
  shows "daxctl_memory_num_sections sys dev mem d = int (length (dev_blocks sys dev mem names d))"
    and "daxctl_memory_is_online sys dev mem d = int (length (filter (onl d) (dev_blocks sys dev mem names d)))"
  using count_loop [OF assms] block_kernD(1) [OF assms(1)] assms(2)
  by (simp_all add: daxctl_memory_num_sections_def daxctl_memory_is_online_def daxctl_memory_op_def)

subsection \<open>Bringing blocks online and offline\<close>

text \<open>An operation on one block that changes no other block, changes this one at most to \<open>target\<close>, and has
  succeeded only if the block is there.\<close>

definition settles :: "('d \<Rightarrow> string \<Rightarrow> bool) \<Rightarrow> bool \<Rightarrow> (string \<Rightarrow> 'd \<Rightarrow> int \<times> 'd) \<Rightarrow> bool" where
  "settles onl target f \<longleftrightarrow> (\<forall>b d rc d'. f b d = (rc, d') \<longrightarrow>
     (onl d' = onl d \<or> onl d' = (onl d)(b := target)) \<and> (0 \<le> rc \<longrightarrow> onl d' b = target))"

lemma settlesD:
  assumes "settles onl target f" and "f b d = (rc, d')"
  shows "onl d' = onl d \<or> onl d' = (onl d)(b := target)" and "0 \<le> rc \<Longrightarrow> onl d' b = target"
  using assms unfolding settles_def by blast+

lemma online_settles:
  assumes kern: "block_kern sys node names onl" and mem: "mm_node_path mem = Some node" and zone: "state_string zone = Some s"
  shows "settles onl True (\<lambda>b. online_one_memblock sys mem b zone)"
  unfolding settles_def
proof (intro allI impI)
  fix b d rc d'
  assume run: "online_one_memblock sys mem b zone d = (rc, d')"
  note st = block_state [OF kern mem]
  obtain rc1 d1 where w: "ds_write sys (Block_attr node b ''state'') (Text s) d = (rc1, d1)" by fastforce
  have k: "rc1 \<le> 0 \<and> onl d1 = (if rc1 = 0 then (onl d)(b := True) else onl d)" by (rule block_kernD(6) [OF kern zone w])
  show "(onl d' = onl d \<or> onl d' = (onl d)(b := True)) \<and> (0 \<le> rc \<longrightarrow> onl d' b = True)"
  proof (cases "onl d b")
    case True
    then show ?thesis using run by (simp add: online_one_memblock_def mem st)
  next
    case False
    then have "(rc, d') = (if rc1 \<noteq> 0 \<and> onl d1 b then (0, d1) else (rc1, d1))"
      using run by (simp add: online_one_memblock_def mem st zone w split: if_splits)
    then show ?thesis using k by (auto split: if_splits)
  qed
qed

lemma removable_le_0:
  assumes "block_kern sys node names onl" and "mm_node_path mem = Some node"
  shows "memblock_is_removable sys mem b d \<le> 0"
  using block_kernD(4) [OF assms(1), of "Block_attr node b ''removable''" d] assms(2)
  by (auto simp: memblock_is_removable_def split: sum.splits)

lemma offline_settles:
  assumes kern: "block_kern sys node names onl" and mem: "mm_node_path mem = Some node"
  shows "settles onl False (offline_one_memblock sys mem)"
  unfolding settles_def
proof (intro allI impI)
  fix b d rc d'
  assume run: "offline_one_memblock sys mem b d = (rc, d')"
  note st = block_state [OF kern mem]
  obtain rc1 d1 where w: "ds_write sys (Block_attr node b ''state'') (Text ''offline'') d = (rc1, d1)" by fastforce
  have k: "rc1 \<le> 0 \<and> onl d1 = (if rc1 = 0 then (onl d)(b := False) else onl d)" by (rule block_kernD(5) [OF kern w])
  show "(onl d' = onl d \<or> onl d' = (onl d)(b := False)) \<and> (0 \<le> rc \<longrightarrow> onl d' b = False)"
  proof (cases "onl d b \<and> memblock_is_removable sys mem b d = 0")
    case True
    then have "(rc, d') = (if rc1 \<noteq> 0 \<and> \<not> onl d1 b then (1, d1) else (rc1, d1))"
      using run by (simp add: offline_one_memblock_def mem st w split: if_splits)
    then show ?thesis using k by (auto split: if_splits)
  next
    case False
    then show ?thesis using run removable_le_0 [OF assms, of b d]
      by (auto simp: offline_one_memblock_def mem st Let_def split: if_splits)
  qed
qed

text \<open>What a loop of such operations does to the blocks of a device.\<close>

lemma settle_loop:
  assumes kern: "block_kern sys node names onl" and set: "settles onl target f"
    and op: "\<And>b status d. op_for_one_memblock sys mem b op status d = (case f b d of (rc, d) \<Rightarrow> (rc, mem, status, d))"
    and run: "memory_op_loop sys dev op ns count mem status d = (r, mem', status', d')"
  shows "mem' = mem \<and> status' = status \<and> (\<forall>b. b \<notin> set (dev_blocks sys dev mem ns d) \<longrightarrow> onl d' b = onl d b) \<and>
    (\<forall>b. onl d' b \<noteq> onl d b \<longrightarrow> onl d' b = target) \<and>
    (\<forall>n. r = Inr n \<longrightarrow> (\<forall>b \<in> set (dev_blocks sys dev mem ns d). onl d' b = target))"
  using run
proof (induction ns arbitrary: count status d)
  case (Cons b ns)
  let ?in = "memblock_in_dev sys dev mem b d"
  show ?case
  proof (cases "is_memblock_name b \<and> 0 < ?in")
    case False
    then show ?thesis
      using Cons in_dev_le_1 [OF kern, of dev mem b d] by (auto simp: dev_blocks_def Let_def split: if_splits)
  next
    case True
    then have one: "?in = 1" using in_dev_le_1 [OF kern, of dev mem b d] by simp
    obtain rc1 d1 where f: "f b d = (rc1, d1)" by fastforce
    note S = settlesD [OF set f]
    have blocks: "dev_blocks sys dev mem ns d1 = dev_blocks sys dev mem ns d"
      using in_dev_const [OF kern, of dev mem _ d1 d] by (simp add: dev_blocks_def)
    have here: "dev_blocks sys dev mem (b # ns) d = b # dev_blocks sys dev mem ns d" using True one by (simp add: dev_blocks_def)
    show ?thesis
    proof (cases "rc1 < 0")
      case True
      then have "d' = d1" "mem' = mem" "status' = status" "r = Inl rc1"
        using Cons.prems \<open>is_memblock_name b \<and> 0 < ?in\<close> one by (auto simp: op f Let_def)
      then show ?thesis using S(1) unfolding here by (auto split: if_splits)
    next
      case False
      then have "memory_op_loop sys dev op ns (if rc1 = 0 then count + 1 else count) mem status d1 = (r, mem', status', d')"
        using Cons.prems \<open>is_memblock_name b \<and> 0 < ?in\<close> one by (simp add: op f Let_def)
      from Cons.IH [OF this] show ?thesis
        using S False unfolding here blocks by (auto split: if_splits)
    qed
  qed
qed (simp add: dev_blocks_def)

lemma loop_error:
  "memory_op_loop sys dev op ns count mem status d = (Inl rc, rest) \<Longrightarrow> rc < 0"
  by (induction sys dev op ns count mem status d rule: memory_op_loop.induct)
    (auto simp: Let_def split: if_splits prod.splits)

text \<open>The operations on all blocks of a device.\<close>

lemma memory_op_settles:
  assumes kern: "block_kern sys node names onl" and mem: "mm_node_path mem = Some node" and set: "settles onl target f"
    and op: "\<And>b status d. op_for_one_memblock sys mem b op status d = (case f b d of (rc, d) \<Rightarrow> (rc, mem, status, d))"
    and run: "daxctl_memory_op sys dev mem op d = (rc, mem', d')"
  shows "mem' = mem \<and> (\<forall>b. b \<notin> set (dev_blocks sys dev mem names d) \<longrightarrow> onl d' b = onl d b) \<and>
    (\<forall>b. onl d' b \<noteq> onl d b \<longrightarrow> onl d' b = target) \<and>
    (0 \<le> rc \<longrightarrow> (\<forall>b \<in> set (dev_blocks sys dev mem names d). onl d' b = target))"
proof -
  obtain r mem1 status1 d1 where loop: "memory_op_loop sys dev op names 0 mem False d = (r, mem1, status1, d1)"
    by (metis surj_pair)
  note L = settle_loop [OF kern set op loop]
  show ?thesis
  proof (cases r)
    case (Inl e)
    then have "rc = e" "d' = d1" "mem' = mem1"
      using run by (simp_all add: daxctl_memory_op_def mem block_kernD(1) [OF kern] loop)
    then show ?thesis using L loop_error [of sys dev op names 0 mem False d e] loop Inl by auto
  next
    case (Inr n)
    then have "d' = d1" "mem' = mem1"
      using run L by (simp_all add: daxctl_memory_op_def mem block_kernD(1) [OF kern] loop)
    then show ?thesis using L Inr by auto
  qed
qed

lemma offline_blocks:
  assumes "block_kern sys node names onl" and "mm_node_path mem = Some node"
    and "daxctl_memory_offline sys dev mem d = (rc, mem', d')"
  shows "mem' = mem \<and> (\<forall>b. b \<notin> set (dev_blocks sys dev mem names d) \<longrightarrow> onl d' b = onl d b) \<and>
    (\<forall>b. onl d' b \<longrightarrow> onl d b) \<and> (0 \<le> rc \<longrightarrow> (\<forall>b \<in> set (dev_blocks sys dev mem names d). \<not> onl d' b))"
  using memory_op_settles [OF assms(1,2) offline_settles [OF assms(1,2)] _ assms(3) [unfolded daxctl_memory_offline_def]]
  by (simp add: op_for_one_memblock_def) blast

lemma online_blocks:
  assumes kern: "block_kern sys node names onl" and mem: "mm_node_path mem = Some node"
    and op: "op = MEM_SET_ONLINE \<or> op = MEM_SET_ONLINE_NO_MOVABLE" and run: "daxctl_memory_op sys dev mem op d = (rc, mem', d')"
  shows "mem' = mem \<and> (\<forall>b. b \<notin> set (dev_blocks sys dev mem names d) \<longrightarrow> onl d' b = onl d b) \<and>
    (\<forall>b. onl d b \<longrightarrow> onl d' b) \<and> (0 \<le> rc \<longrightarrow> (\<forall>b \<in> set (dev_blocks sys dev mem names d). onl d' b))"
proof -
  define zone where "zone = (if op = MEM_SET_ONLINE then MEM_ZONE_MOVABLE else MEM_ZONE_NORMAL)"
  have "state_string zone = Some (if op = MEM_SET_ONLINE then ''online_movable'' else ''online'')" by (simp add: zone_def)
  note S = online_settles [OF kern mem this]
  have "op_for_one_memblock sys mem b op status d =
      (case online_one_memblock sys mem b zone d of (rc, d) \<Rightarrow> (rc, mem, status, d))" for b status d
    using op by (auto simp: op_for_one_memblock_def zone_def)
  from memory_op_settles [OF kern mem S this run] show ?thesis by blast
qed

subsection \<open>The zone check\<close>

lemma online_loop_count:
  assumes kern: "block_kern sys node names onl" and mem: "mm_node_path mem = Some node"
    and ok: "\<And>b s d. fst (ds_write sys (Block_attr node b ''state'') (Text s) d) = 0"
    and "blocks_readable sys dev mem ns d"
  shows "\<exists>n d'. memory_op_loop sys dev MEM_SET_ONLINE ns count mem status d = (Inr n, mem, status, d') \<and>
    (if \<exists>b \<in> set (dev_blocks sys dev mem ns d). \<not> onl d b then count < n else count \<le> n)"
  using assms(4)
proof (induction ns arbitrary: count d)
  case (Cons b ns)
  have readable: "blocks_readable sys dev mem ns d'" for d'
    using Cons.prems in_dev_const [OF kern, of dev mem _ d' d] by (simp add: blocks_readable_def)
  have blocks: "dev_blocks sys dev mem ns d' = dev_blocks sys dev mem ns d" for d'
    using in_dev_const [OF kern, of dev mem _ d' d] by (simp add: dev_blocks_def)
  show ?case
  proof (cases "is_memblock_name b \<and> memblock_in_dev sys dev mem b d = 1")
    case False
    then show ?thesis
      using Cons.IH [OF readable [of d]] Cons.prems in_dev_le_1 [OF kern, of dev mem b d]
      by (auto simp: dev_blocks_def blocks_readable_def Let_def)
  next
    case True
    show ?thesis
    proof (cases "onl d b")
      case on: True
      then show ?thesis
        using Cons.IH [OF readable [of d]] True block_state [OF kern mem, of b d]
        by (simp add: dev_blocks_def Let_def op_for_one_memblock_def online_one_memblock_def mem)
    next
      case off: False
      obtain d1 where "ds_write sys (Block_attr node b ''state'') (Text ''online_movable'') d = (0, d1)"
        using ok by (metis prod.collapse)
      then have step: "memory_op_loop sys dev MEM_SET_ONLINE (b # ns) count mem status d =
          memory_op_loop sys dev MEM_SET_ONLINE ns (count + 1) mem status d1"
        using True off block_state [OF kern mem, of b d]
        by (simp add: Let_def op_for_one_memblock_def online_one_memblock_def mem)
      obtain n d' where "memory_op_loop sys dev MEM_SET_ONLINE ns (count + 1) mem status d1 = (Inr n, mem, status, d')" "count + 1 \<le> n"
        using Cons.IH [OF readable [of d1], of "count + 1"] by (auto split: if_splits)
      then show ?thesis using step by auto
    qed
  qed
qed (simp add: dev_blocks_def)

lemma zone_loop_normal:
  assumes kern: "block_kern sys node names onl" and "mm_node_path mem = Some node"
    and "\<And>b. ds_read sys (Block_attr node b ''valid_zones'') d = Inr ''Normal''"
    and "blocks_readable sys dev mem ns d" and "\<forall>b \<in> set (dev_blocks sys dev mem ns d). onl d b"
    and "mm_zone mem \<noteq> Some MEM_ZONE_MOVABLE" and "mm_zone mem \<noteq> Some MEM_ZONE_UNKNOWN"
  shows "\<exists>n mem'. memory_op_loop sys dev MEM_GET_ZONE ns count mem status d = (Inr n, mem', status, d) \<and> count \<le> n \<and>
    mm_zone mem' \<noteq> Some MEM_ZONE_MOVABLE"
  using assms(2-)
proof (induction ns arbitrary: count mem)
  case (Cons b ns)
  have readable: "blocks_readable sys dev mem ns d" and on: "\<forall>b \<in> set (dev_blocks sys dev mem ns d). onl d b"
    using Cons.prems(3,4) by (auto simp: blocks_readable_def dev_blocks_def)
  show ?case
  proof (cases "is_memblock_name b \<and> memblock_in_dev sys dev mem b d = 1")
    case False
    then show ?thesis
      using Cons.IH [OF Cons.prems(1) Cons.prems(2) readable on Cons.prems(5,6)] Cons.prems(3) in_dev_le_1 [OF kern, of dev mem b d]
      by (auto simp: dev_blocks_def blocks_readable_def Let_def)
  next
    case True
    define mem1 where "mem1 = mem\<lparr>mm_zone := Some MEM_ZONE_NORMAL\<rparr>"
    have "onl d b" using Cons.prems(4) True by (simp add: dev_blocks_def)
    have zone: "mm_zone mem = None \<or> mm_zone mem = Some MEM_ZONE_NORMAL"
      using Cons.prems(5,6) by (metis memory_zones.exhaust option.exhaust)
    then have "memblock_find_zone sys mem b status d = (0, mem1, status)"
      using \<open>onl d b\<close> block_state [OF kern Cons.prems(1), of b d] Cons.prems(1,2)
      by (auto simp: memblock_find_zone_def Let_def mem1_def)
    then have step: "memory_op_loop sys dev MEM_GET_ZONE (b # ns) count mem status d =
        memory_op_loop sys dev MEM_GET_ZONE ns (count + 1) mem1 status d"
      using True by (simp add: Let_def op_for_one_memblock_def)
    have "blocks_readable sys dev mem1 ns d" "\<forall>b \<in> set (dev_blocks sys dev mem1 ns d). onl d b"
      using readable on by (simp_all add: mem1_def blocks_readable_def dev_blocks_def)
    from Cons.IH [OF _ Cons.prems(2) this, of "count + 1"] show ?thesis
      using Cons.prems(1) unfolding step by (auto simp: mem1_def)
  qed
qed simp

text \<open>\<open>daxctl_memory_online\<close> means to report an error when blocks do not end up in the movable zone, but whenever it
  brings a block online it returns before that check: the memory may all be in the normal zone.\<close>

theorem online_skips_zone_check:
  assumes kern: "block_kern sys node names onl" and mem: "mm_node_path mem = Some node"
    and ok: "\<And>b s d. fst (ds_write sys (Block_attr node b ''state'') (Text s) d) = 0"
    and normal: "\<And>b d. ds_read sys (Block_attr node b ''valid_zones'') d = Inr ''Normal''"
    and readable: "blocks_readable sys dev mem names d" and off: "\<exists>b \<in> set (dev_blocks sys dev mem names d). \<not> onl d b"
  shows "\<exists>n d'. daxctl_memory_online sys dev mem d = (n, mem, d') \<and> 0 < n \<and>
    (\<forall>b \<in> set (dev_blocks sys dev mem names d). onl d' b) \<and> daxctl_memory_is_movable sys dev mem d' = 0"
proof -
  obtain n d' where loop: "memory_op_loop sys dev MEM_SET_ONLINE names 0 mem False d = (Inr n, mem, False, d')" and n: "0 < n"
    using online_loop_count [OF kern mem ok readable, of 0 False] off by auto
  then have op: "daxctl_memory_op sys dev mem MEM_SET_ONLINE d = (n, mem, d')"
    by (simp add: daxctl_memory_op_def mem block_kernD(1) [OF kern])
  then have run: "daxctl_memory_online sys dev mem d = (n, mem, d')"
    using n by (simp add: daxctl_memory_online_def daxctl_memory_online_with_zone_def)
  have on: "\<forall>b \<in> set (dev_blocks sys dev mem names d). onl d' b"
    using online_blocks [OF kern mem _ op] n by simp
  let ?mem = "mem\<lparr>mm_zone := None\<rparr>"
  have "dev_blocks sys dev ?mem names d' = dev_blocks sys dev mem names d"
    "blocks_readable sys dev ?mem names d'"
    using readable in_dev_const [OF kern, of dev mem _ d' d] by (simp_all add: dev_blocks_def blocks_readable_def)
  then obtain m mem' where "memory_op_loop sys dev MEM_GET_ZONE names 0 ?mem False d' = (Inr m, mem', False, d')" "0 \<le> m"
    "mm_zone mem' \<noteq> Some MEM_ZONE_MOVABLE"
    using zone_loop_normal [OF kern, where mem = ?mem and d = d' and dev = dev and ns = names and count = 0 and status = False] normal mem on
    by auto
  then have "daxctl_memory_is_movable sys dev mem d' = 0"
    by (simp add: daxctl_memory_is_movable_def daxctl_memory_op_def mem block_kernD(1) [OF kern])
  then show ?thesis using run n on by blast
qed

text \<open>A node with three memory blocks, two of them of the device; all blocks go to the normal zone.  The state is the
  list of the blocks that are online, and the driver.\<close>

definition demo_dax_sys :: "(string list \<times> string option) dax_sys" where
  "demo_dax_sys = \<lparr>
     ds_read = (\<lambda>p d. case p of
         Block_attr n b a \<Rightarrow>
           if a = ''state'' then Inr (if b \<in> set (fst d) then ''online'' else ''offline'')
           else if a = ''removable'' then Inr ''1'' else Inr ''Normal''
       | Phys_index b \<Rightarrow> Inr (drop 6 b)
       | Block_size_bytes \<Rightarrow> Inr ''8000000''
       | Auto_online_blocks \<Rightarrow> Inr ''offline''
       | Region_attr r a \<Rightarrow> Inr (if a = ''seed'' then ''dax0.1'' else ''0x10000000'')
       | _ \<Rightarrow> Inl (- ENXIO)),
     ds_write = (\<lambda>p v d. case p of
         Block_attr n b a \<Rightarrow> (0, if v = Text ''offline'' then removeAll b (fst d) else b # fst d, snd d)
       | Driver_attr m a \<Rightarrow> (0, if a = ''bind'' then (fst d, Some m) else d)
       | Dev_attr n a \<Rightarrow> (0, if a = ''driver/unbind'' then (fst d, None) else d)
       | _ \<Rightarrow> (0, d)),
     ds_readdir = (\<lambda>n d. Inr ([''power'', ''memory_x'', ''memory2'', ''memory3'', ''memory9''], 0)),
     ds_dax_bus = (\<lambda>n d. True), ds_driver = (\<lambda>n d. snd d), ds_drivers = (\<lambda>d. Some [''device_dax'', ''kmem'', ''fsdev_dax'']),
     ds_insert = (\<lambda>m d. (0, d)), ds_region_devs = (\<lambda>r d. [])\<rparr>"

definition demo_dax_mem :: daxctl_memory where
  "demo_dax_mem = \<lparr>mm_node_path = Some ''/sys/devices/system/node/node1'', mm_block_size = 0x8000000, mm_zone = None\<rparr>"

definition demo_dax_dev :: daxctl_dev where
  "demo_dax_dev = \<lparr>dd_id = 1, dd_region_id = 0, dd_devname = ''dax0.1'', dd_resource = 0x10000000, dd_size = 0x10000000,
     dd_align = 0x200000, dd_target_node = 1, dd_mem = Some demo_dax_mem\<rparr>"

definition demo_names :: "string list" where
  "demo_names = [''power'', ''memory_x'', ''memory2'', ''memory3'', ''memory9'']"

lemma demo_block_kern: "block_kern demo_dax_sys ''/sys/devices/system/node/node1'' demo_names (\<lambda>d b. b \<in> set (fst d))"
proof -
  have "s \<noteq> ''offline''" if "state_string zone = Some s" for zone s using that by (cases zone) auto
  then show ?thesis
    unfolding block_kern_def by (auto simp: demo_dax_sys_def demo_names_def fun_eq_iff split: dax_path.splits if_splits)
qed

lemma demo_in_dev:
  "memblock_in_dev demo_dax_sys demo_dax_dev demo_dax_mem ''memory2'' d = 1"
  "memblock_in_dev demo_dax_sys demo_dax_dev demo_dax_mem ''memory3'' d = 1"
  "memblock_in_dev demo_dax_sys demo_dax_dev demo_dax_mem ''memory9'' d = 0"
  by (simp_all add: memblock_in_dev_def read_phys_index_def demo_dax_sys_def demo_dax_dev_def demo_dax_mem_def
      strtoul16_def scan_sign_def is_space_def digit_value_def Let_def)

lemma demo_blocks:
  "dev_blocks demo_dax_sys demo_dax_dev demo_dax_mem demo_names d = [''memory2'', ''memory3'']"
  "blocks_readable demo_dax_sys demo_dax_dev demo_dax_mem demo_names d"
  by (simp_all add: dev_blocks_def blocks_readable_def demo_names_def is_memblock_name_def demo_in_dev)

theorem online_skips_zone_check_witness:
  "\<exists>n d'. daxctl_memory_online demo_dax_sys demo_dax_dev demo_dax_mem ([''memory9''], Some ''kmem'') = (n, demo_dax_mem, d') \<and>
     0 < n \<and> daxctl_memory_is_movable demo_dax_sys demo_dax_dev demo_dax_mem d' = 0"
proof -
  have "\<exists>n d'. daxctl_memory_online demo_dax_sys demo_dax_dev demo_dax_mem ([''memory9''], Some ''kmem'') = (n, demo_dax_mem, d') \<and>
      0 < n \<and> (\<forall>b \<in> set (dev_blocks demo_dax_sys demo_dax_dev demo_dax_mem demo_names ([''memory9''], Some ''kmem'')). b \<in> set (fst d')) \<and>
      daxctl_memory_is_movable demo_dax_sys demo_dax_dev demo_dax_mem d' = 0"
  proof (rule online_skips_zone_check [OF demo_block_kern])
    show "mm_node_path demo_dax_mem = Some ''/sys/devices/system/node/node1''" by (simp add: demo_dax_mem_def)
    show "blocks_readable demo_dax_sys demo_dax_dev demo_dax_mem demo_names ([''memory9''], Some ''kmem'')" by (rule demo_blocks)
    show "\<exists>b \<in> set (dev_blocks demo_dax_sys demo_dax_dev demo_dax_mem demo_names ([''memory9''], Some ''kmem'')).
        b \<notin> set (fst ([''memory9''], Some ''kmem''))" by (simp add: demo_blocks)
  qed (simp_all add: demo_dax_sys_def)
  then show ?thesis by blast
qed

end
