(* ===== verification/Dax_Device.thy ===== *)
theory Dax_Device
  imports Dax_Memory
begin

text \<open>
  The device commands of \<open>daxctl\<close>, \<open>daxctl/device.c\<close>: creating, destroying, reconfiguring, enabling and disabling dax
  devices, and bringing their memory online and offline, over the operations of \<open>Dax_Memory\<close>.

  Handlers return a result code, the device with its memory object, and the state.  The regions and their devices are
  those enumerated when the command starts.  Parsing of \<open>--input\<close> files and of configuration files is left out: their
  outcome is part of the parameters.
\<close>

subsection \<open>Parameters\<close>

datatype reconfig_mode = RECONFIG_MODE_UNKNOWN | RECONFIG_MODE_DEVDAX | RECONFIG_MODE_RAM | RECONFIG_MODE_FAMFS

datatype dax_action = DAX_RECONFIG | DAX_ONLINE | DAX_OFFLINE | DAX_CREATE | DAX_DISABLE | DAX_ENABLE | DAX_DESTROY

record dax_params =
  xp_mode :: "string option"
  xp_region :: "string option"
  xp_size :: "string option"
  xp_align :: "string option"
  xp_no_online :: bool
  xp_no_movable :: bool
  xp_force :: bool

text \<open>\<open>None\<close> stands for \<open>INT_MAX\<close>.\<close>

definition conf_string_to_bool :: "string option \<Rightarrow> bool option" where
  "conf_string_to_bool str =
     (case str of
        None \<Rightarrow> None
      | Some s \<Rightarrow>
          if take 1 s \<in> {''t'', ''T'', ''y'', ''Y'', ''1''} then Some True
          else if take 1 s \<in> {''f'', ''F'', ''n'', ''N'', ''0''} then Some False
          else None)"

definition conf_assign_inverted_bool :: "bool \<Rightarrow> string option \<Rightarrow> bool" where
  "conf_assign_inverted_bool p conf_var = (case conf_string_to_bool conf_var of None \<Rightarrow> p | Some b \<Rightarrow> \<not> b)"

text \<open>\<open>__parse_size64\<close> assigned to a \<open>long long\<close> that is initially -1.\<close>

definition parse_ll :: "string option \<Rightarrow> int" where
  "parse_ll s = (case s of None \<Rightarrow> - 1 | Some s \<Rightarrow> sint (fst (parse_size64_units s)))"

text \<open>The options of \<open>reconfigure-device\<close>: mode, size and alignment; an error leaves through the usage message.\<close>

definition parse_reconfig :: "dax_params \<Rightarrow> int + reconfig_mode \<times> int \<times> int" where
  "parse_reconfig param =
     (if xp_size param = None \<and> xp_align param = None \<and> xp_mode param = None then Inl (- EINVAL)
      else if xp_size param \<noteq> None \<or> xp_align param \<noteq> None
      then Inr (RECONFIG_MODE_UNKNOWN, parse_ll (xp_size param), parse_ll (xp_align param))
      else if xp_mode param = Some ''system-ram'' then Inr (RECONFIG_MODE_RAM, - 1, - 1)
      else if xp_mode param = Some ''devdax''
      then if xp_no_online param then Inl (- EINVAL) else Inr (RECONFIG_MODE_DEVDAX, - 1, - 1)
      else if xp_mode param = Some ''famfs''
      then if xp_no_online param then Inl (- EINVAL) else Inr (RECONFIG_MODE_FAMFS, - 1, - 1)
      else Inr (RECONFIG_MODE_UNKNOWN, - 1, - 1))"

definition parse_create :: "dax_params \<Rightarrow> int \<times> int" where
  "parse_create param = (parse_ll (xp_size param), parse_ll (xp_align param))"

subsection \<open>Memory\<close>

definition dev_online_memory :: "'d dax_sys \<Rightarrow> dax_params \<Rightarrow> daxctl_dev \<Rightarrow> 'd \<Rightarrow> int \<times> daxctl_dev \<times> 'd" where
  "dev_online_memory sys param dev d =
     (case daxctl_dev_get_memory sys dev d of
        (None, dev) \<Rightarrow> (- ENXIO, dev, d)
      | (Some mem, dev) \<Rightarrow>
          let num_sections = daxctl_memory_num_sections sys dev mem d;
              num_on = daxctl_memory_is_online sys dev mem d in
          if num_sections < 0 then (num_sections, dev, d)
          else if num_on < 0 then (num_on, dev, d)
          else if num_on = num_sections then (1, dev, d)
          else (case (if xp_no_movable param then daxctl_memory_online_no_movable sys dev mem d
                      else daxctl_memory_online sys dev mem d) of
                  (rc, mem, d) \<Rightarrow>
                    let dev = dev\<lparr>dd_mem := Some mem\<rparr> in
                    if rc < 0 then (rc, dev, d)
                    else let num_on = daxctl_memory_is_online sys dev mem d in
                      if num_on < 0 then (num_on, dev, d)
                      else if num_on < num_sections then (- ENXIO, dev, d)
                      else (0, dev, d)))"

definition dev_offline_memory :: "'d dax_sys \<Rightarrow> daxctl_dev \<Rightarrow> 'd \<Rightarrow> int \<times> daxctl_dev \<times> 'd" where
  "dev_offline_memory sys dev d =
     (case daxctl_dev_get_memory sys dev d of
        (None, dev) \<Rightarrow> (- ENXIO, dev, d)
      | (Some mem, dev) \<Rightarrow>
          let num_sections = daxctl_memory_num_sections sys dev mem d;
              num_on = daxctl_memory_is_online sys dev mem d in
          if num_sections < 0 then (num_sections, dev, d)
          else if num_on < 0 then (num_on, dev, d)
          else if num_sections - num_on = num_sections then (1, dev, d)
          else (case daxctl_memory_offline sys dev mem d of
                  (rc, mem, d) \<Rightarrow>
                    let dev = dev\<lparr>dd_mem := Some mem\<rparr> in
                    if rc < 0 then (rc, dev, d)
                    else let num_on = daxctl_memory_is_online sys dev mem d in
                      if num_on < 0 then (num_on, dev, d)
                      else if num_on \<noteq> 0 then (- ENXIO, dev, d)
                      else (0, dev, d)))"

definition do_xline :: "'d dax_sys \<Rightarrow> dax_params \<Rightarrow> daxctl_dev \<Rightarrow> dax_action \<Rightarrow> 'd \<Rightarrow> int \<times> daxctl_dev \<times> 'd" where
  "do_xline sys param dev action d =
     (case daxctl_dev_get_memory sys dev d of
        (None, dev) \<Rightarrow> (- ENXIO, dev, d)
      | (Some mem, dev) \<Rightarrow>
          (case action of
             DAX_ONLINE \<Rightarrow> dev_online_memory sys param dev d
           | DAX_OFFLINE \<Rightarrow> dev_offline_memory sys dev d
           | _ \<Rightarrow> (- EINVAL, dev, d)))"

subsection \<open>Reconfiguring\<close>

definition dev_resize :: "'d dax_sys \<Rightarrow> daxctl_dev \<Rightarrow> int \<Rightarrow> 'd \<Rightarrow> int \<times> daxctl_dev \<times> 'd" where
  "dev_resize sys dev val d =
     (case daxctl_dev_set_size sys dev (word_of_int val) d of (rc, dev, d) \<Rightarrow> if rc < 0 then (rc, dev, d) else (0, dev, d))"

definition disable_mode_device :: "'d dax_sys \<Rightarrow> daxctl_dev \<Rightarrow> 'd \<Rightarrow> int \<times> daxctl_dev \<times> 'd" where
  "disable_mode_device sys dev d = daxctl_dev_disable sys dev d"

definition reconfig_mode_system_ram :: "'d dax_sys \<Rightarrow> dax_params \<Rightarrow> daxctl_dev \<Rightarrow> 'd \<Rightarrow> int \<times> daxctl_dev \<times> 'd" where
  "reconfig_mode_system_ram sys param dev d =
     (if (xp_no_online param \<or> \<not> xp_no_movable param) \<and> \<not> xp_force param \<and> daxctl_dev_will_auto_online_memory sys d
      then (- EBUSY, dev, d)
      else case (if daxctl_dev_is_enabled sys dev d
                 then (case daxctl_dev_get_mode sys dev d of
                         DAXCTL_DEV_MODE_RAM \<Rightarrow> (0, True, dev, d)
                       | DAXCTL_DEV_MODE_UNKNOWN \<Rightarrow> (- EINVAL, True, dev, d)
                       | _ \<Rightarrow> (case disable_mode_device sys dev d of (rc, dev, d) \<Rightarrow> (rc, False, dev, d)))
                 else (0, False, dev, d)) of
        (rc, skip_enable, dev, d) \<Rightarrow>
          if rc \<noteq> 0 then (rc, dev, d)
          else (case (if skip_enable then (0, d) else daxctl_dev_enable sys dev DAXCTL_DEV_MODE_RAM d) of
                  (rc, d) \<Rightarrow>
                    if rc \<noteq> 0 then (rc, dev, d)
                    else if xp_no_online param then (0, dev, d)
                    else dev_online_memory sys param dev d))"

definition disable_system_ram_device :: "'d dax_sys \<Rightarrow> dax_params \<Rightarrow> daxctl_dev \<Rightarrow> 'd \<Rightarrow> int \<times> daxctl_dev \<times> 'd" where
  "disable_system_ram_device sys param dev d =
     (case daxctl_dev_get_memory sys dev d of
        (None, dev) \<Rightarrow> (1, dev, d)
      | (Some mem, dev) \<Rightarrow>
          (case (if xp_force param then dev_offline_memory sys dev d else (0, dev, d)) of
             (rc, dev, d) \<Rightarrow>
               if rc < 0 then (rc, dev, d)
               else let rc = daxctl_memory_is_online sys dev mem d in
                 if rc < 0 then (rc, dev, d)
                 else if rc > 0 then (- EBUSY, dev, d)
                 else daxctl_dev_disable sys dev d))"

definition reconfig_mode_devdax :: "'d dax_sys \<Rightarrow> dax_params \<Rightarrow> daxctl_dev \<Rightarrow> 'd \<Rightarrow> int \<times> daxctl_dev \<times> 'd" where
  "reconfig_mode_devdax sys param dev d =
     (case (if daxctl_dev_is_enabled sys dev d
            then (case daxctl_dev_get_mode sys dev d of
                    DAXCTL_DEV_MODE_RAM \<Rightarrow> disable_system_ram_device sys param dev d
                  | DAXCTL_DEV_MODE_UNKNOWN \<Rightarrow> (- EINVAL, dev, d)
                  | _ \<Rightarrow> disable_mode_device sys dev d)
            else (0, dev, d)) of
        (rc, dev, d) \<Rightarrow>
          if rc \<noteq> 0 then (rc, dev, d)
          else (case daxctl_dev_enable sys dev DAXCTL_DEV_MODE_DEVDAX d of (rc, d) \<Rightarrow> (rc, dev, d)))"

definition reconfig_mode_famfs :: "'d dax_sys \<Rightarrow> daxctl_dev \<Rightarrow> 'd \<Rightarrow> int \<times> daxctl_dev \<times> 'd" where
  "reconfig_mode_famfs sys dev d =
     (case (if daxctl_dev_is_enabled sys dev d
            then (case daxctl_dev_get_mode sys dev d of
                    DAXCTL_DEV_MODE_RAM \<Rightarrow> (- EINVAL, dev, d)
                  | DAXCTL_DEV_MODE_UNKNOWN \<Rightarrow> (- EINVAL, dev, d)
                  | _ \<Rightarrow> disable_mode_device sys dev d)
            else (0, dev, d)) of
        (rc, dev, d) \<Rightarrow>
          if rc \<noteq> 0 then (rc, dev, d)
          else (case daxctl_dev_enable sys dev DAXCTL_DEV_MODE_FAMFS d of (rc, d) \<Rightarrow> (rc, dev, d)))"

definition do_reconfig ::
  "'d dax_sys \<Rightarrow> dax_params \<Rightarrow> reconfig_mode \<Rightarrow> int \<Rightarrow> int \<Rightarrow> daxctl_dev \<Rightarrow> 'd \<Rightarrow> int \<times> daxctl_dev \<times> 'd" where
  "do_reconfig sys param mode sz align dev d =
     (case (if align > 0 then daxctl_dev_set_align sys dev (word_of_int align) d else (0, dev, d)) of
        (rc, dev, d) \<Rightarrow>
          if rc < 0 then (rc, dev, d)
          else if sz \<ge> 0 then dev_resize sys dev sz d
          else (case (case mode of
                        RECONFIG_MODE_RAM \<Rightarrow> reconfig_mode_system_ram sys param dev d
                      | RECONFIG_MODE_DEVDAX \<Rightarrow> reconfig_mode_devdax sys param dev d
                      | RECONFIG_MODE_FAMFS \<Rightarrow> reconfig_mode_famfs sys dev d
                      | RECONFIG_MODE_UNKNOWN \<Rightarrow> (- EINVAL, dev, d)) of
                  (rc, dev, d) \<Rightarrow> if rc < 0 then (rc, dev, d) else (0, dev, d)))"

subsection \<open>Creating, destroying, enabling and disabling\<close>

definition dev_destroy :: "'d dax_sys \<Rightarrow> dax_params \<Rightarrow> daxctl_dev \<Rightarrow> 'd \<Rightarrow> int \<times> daxctl_dev \<times> 'd" where
  "dev_destroy sys param dev d =
     (if daxctl_dev_is_enabled sys dev d \<and> \<not> xp_force param then (- ENXIO, dev, d)
      else case daxctl_dev_disable sys dev d of (rc, dev, d) \<Rightarrow>
        if rc \<noteq> 0 then (rc, dev, d)
        else (case daxctl_dev_set_size sys dev 0 d of
                (rc, dev, d) \<Rightarrow>
                  if rc < 0 then (rc, dev, d)
                  else (case daxctl_region_destroy_dev sys (dd_region_id dev) dev d of
                          (rc, d) \<Rightarrow>
                            if dd_id dev = 0 \<and> rc = - EBUSY then (0, dev, d)
                            else if rc < 0 then (rc, dev, d) else (0, dev, d))))"

fun set_mappings :: "'d dax_sys \<Rightarrow> (u64 \<times> u64) list \<Rightarrow> daxctl_dev \<Rightarrow> u64 \<Rightarrow> 'd \<Rightarrow> int \<times> u64 \<times> daxctl_dev \<times> 'd" where
  "set_mappings sys [] dev alloc d = (0, alloc, dev, d)"
| "set_mappings sys ((start, end) # maps) dev alloc d =
     (case daxctl_dev_set_mapping sys dev start end d of
        (rc, dev, d) \<Rightarrow> if rc < 0 then (rc, alloc, dev, d) else set_mappings sys maps dev (alloc + (end - start + 1)) d)"

text \<open>\<open>maps\<close> are the mappings of the input file in the order of their page offsets.\<close>

definition do_create :: "'d dax_sys \<Rightarrow> int \<Rightarrow> int \<Rightarrow> int \<Rightarrow> (u64 \<times> u64) list \<Rightarrow> 'd \<Rightarrow> int \<times> 'd" where
  "do_create sys region val align maps d =
     (case daxctl_region_create_dev sys region d of
        (rc, d) \<Rightarrow>
          if rc \<noteq> 0 then (- ENOSPC, d)
          else (case daxctl_region_get_dev_seed sys region d of
                  None \<Rightarrow> (- ENOSPC, d)
                | Some dev \<Rightarrow>
                    let val = (if val = - 1 then sint (daxctl_region_get_available_size sys region d) else val) in
                    if val \<le> 0 then (- ENOSPC, d)
                    else (case (if align > 0 then daxctl_dev_set_align sys dev (word_of_int align) d else (0, dev, d)) of
                            (rc, dev, d) \<Rightarrow>
                              if rc < 0 then (rc, d)
                              else (case set_mappings sys maps dev 0 d of
                                      (rc, alloc, dev, d) \<Rightarrow>
                                        if rc < 0 then (rc, d)
                                        else (case (if maps \<noteq> [] \<and> alloc \<noteq> word_of_int val then (0, dev, d)
                                                    else daxctl_dev_set_size sys dev (word_of_int val) d) of
                                                (rc, dev, d) \<Rightarrow>
                                                  if rc < 0 then (rc, d)
                                                  else daxctl_dev_enable sys dev DAXCTL_DEV_MODE_DEVDAX d)))))"

definition do_xble :: "'d dax_sys \<Rightarrow> daxctl_dev \<Rightarrow> dax_action \<Rightarrow> 'd \<Rightarrow> int \<times> daxctl_dev \<times> 'd" where
  "do_xble sys dev action d =
     (case daxctl_dev_get_memory sys dev d of
        (Some mem, dev) \<Rightarrow> (- ENXIO, dev, d)
      | (None, dev) \<Rightarrow>
          (case action of
             DAX_ENABLE \<Rightarrow> (case daxctl_dev_enable sys dev DAXCTL_DEV_MODE_DEVDAX d of (rc, d) \<Rightarrow> (rc, dev, d))
           | DAX_DISABLE \<Rightarrow> daxctl_dev_disable sys dev d
           | _ \<Rightarrow> (- EINVAL, dev, d)))"

subsection \<open>The commands\<close>

fun do_xaction_region ::
  "'d dax_sys \<Rightarrow> dax_params \<Rightarrow> dax_action \<Rightarrow> int \<Rightarrow> int \<Rightarrow> (u64 \<times> u64) list \<Rightarrow> int list \<Rightarrow> int \<times> nat \<times> 'd \<Rightarrow> int \<times> nat \<times> 'd" where
  "do_xaction_region sys param action sz align maps [] st = st"
| "do_xaction_region sys param action sz align maps (region # regions) (rc, processed, d) =
     (if \<not> util_daxctl_region_filter region (xp_region param)
      then do_xaction_region sys param action sz align maps regions (rc, processed, d)
      else if action = DAX_CREATE
      then (case do_create sys region sz align maps d of
              (rc, d) \<Rightarrow> do_xaction_region sys param action sz align maps regions (rc, if rc = 0 then processed + 1 else processed, d))
      else do_xaction_region sys param action sz align maps regions (- EINVAL, processed, d))"

definition dax_dev_action ::
  "'d dax_sys \<Rightarrow> dax_params \<Rightarrow> dax_action \<Rightarrow> reconfig_mode \<Rightarrow> int \<Rightarrow> int \<Rightarrow> daxctl_dev \<Rightarrow> 'd \<Rightarrow> int \<times> daxctl_dev \<times> 'd" where
  "dax_dev_action sys param action mode sz align dev d =
     (case action of
        DAX_RECONFIG \<Rightarrow> do_reconfig sys param mode sz align dev d
      | DAX_ONLINE \<Rightarrow> do_xline sys param dev action d
      | DAX_OFFLINE \<Rightarrow> do_xline sys param dev action d
      | DAX_ENABLE \<Rightarrow> do_xble sys dev action d
      | DAX_DISABLE \<Rightarrow> do_xble sys dev action d
      | DAX_DESTROY \<Rightarrow> dev_destroy sys param dev d
      | DAX_CREATE \<Rightarrow> (- EINVAL, dev, d))"

text \<open>The loop over the devices of all selected regions carries \<open>saved_rc\<close> and \<open>processed\<close>.\<close>

fun do_xaction_device ::
  "'d dax_sys \<Rightarrow> dax_params \<Rightarrow> dax_action \<Rightarrow> reconfig_mode \<Rightarrow> int \<Rightarrow> int \<Rightarrow> string option \<Rightarrow> daxctl_dev list \<Rightarrow>
    int \<times> nat \<times> 'd \<Rightarrow> int \<times> nat \<times> 'd" where
  "do_xaction_device sys param action mode sz align device [] st = st"
| "do_xaction_device sys param action mode sz align device (dev # devs) (saved_rc, processed, d) =
     (if \<not> util_daxctl_region_filter (dd_region_id dev) (xp_region param)
         \<or> \<not> util_daxctl_dev_filter (dd_region_id dev) (dd_id dev) (dd_devname dev) device
      then do_xaction_device sys param action mode sz align device devs (saved_rc, processed, d)
      else (case dax_dev_action sys param action mode sz align dev d of
              (rc, _, d) \<Rightarrow>
                do_xaction_device sys param action mode sz align device devs
                  (if rc \<noteq> 0 then rc else saved_rc, if rc = 0 then processed + 1 else processed, d)))"

definition cmd_create_device :: "'d dax_sys \<Rightarrow> dax_params \<Rightarrow> (u64 \<times> u64) list \<Rightarrow> int list \<Rightarrow> 'd \<Rightarrow> int \<times> nat \<times> 'd" where
  "cmd_create_device sys param maps regions d =
     (case parse_create param of (sz, align) \<Rightarrow> do_xaction_region sys param DAX_CREATE sz align maps regions (- ENXIO, 0, d))"

definition cmd_reconfig_device :: "'d dax_sys \<Rightarrow> dax_params \<Rightarrow> string \<Rightarrow> daxctl_dev list \<Rightarrow> 'd \<Rightarrow> int \<times> nat \<times> 'd" where
  "cmd_reconfig_device sys param device devs d =
     (case parse_reconfig param of
        Inl rc \<Rightarrow> (rc, 0, d)
      | Inr (mode, sz, align) \<Rightarrow> do_xaction_device sys param DAX_RECONFIG mode sz align (Some device) devs (0, 0, d))"

definition cmd_device :: "'d dax_sys \<Rightarrow> dax_params \<Rightarrow> dax_action \<Rightarrow> string \<Rightarrow> daxctl_dev list \<Rightarrow> 'd \<Rightarrow> int \<times> nat \<times> 'd" where
  "cmd_device sys param action device devs d =
     do_xaction_device sys param action RECONFIG_MODE_UNKNOWN (- 1) (- 1) (Some device) devs (0, 0, d)"

subsection \<open>Online and offline memory\<close>

text \<open>A device whose memory object belongs to the node of a kernel that keeps its promises.\<close>

definition mem_ready :: "'d dax_sys \<Rightarrow> daxctl_dev \<Rightarrow> string list \<Rightarrow> ('d \<Rightarrow> string \<Rightarrow> bool) \<Rightarrow> daxctl_memory \<Rightarrow> 'd \<Rightarrow> bool" where
  "mem_ready sys dev names onl mem d \<longleftrightarrow> dd_mem dev = Some mem \<and>
     (\<exists>node. mm_node_path mem = Some node \<and> block_kern sys node names onl) \<and> blocks_readable sys dev mem names d"

lemma in_dev_mem [simp]: "memblock_in_dev sys (dev\<lparr>dd_mem := m\<rparr>) = memblock_in_dev sys dev"
  by (rule ext)+ (simp add: memblock_in_dev_def Let_def split: sum.split)

lemma blocks_mem [simp]:
  "dev_blocks sys (dev\<lparr>dd_mem := m\<rparr>) = dev_blocks sys dev" "blocks_readable sys (dev\<lparr>dd_mem := m\<rparr>) = blocks_readable sys dev"
  by (intro ext; simp add: dev_blocks_def blocks_readable_def)+

lemma blocks_zone [simp]:
  "dev_blocks sys dev (mem\<lparr>mm_zone := z\<rparr>) = dev_blocks sys dev mem"
  "blocks_readable sys dev (mem\<lparr>mm_zone := z\<rparr>) = blocks_readable sys dev mem"
  by (intro ext; simp add: dev_blocks_def blocks_readable_def)+

lemma blocks_const:
  assumes "block_kern sys node names onl"
  shows "dev_blocks sys dev mem ns d = dev_blocks sys dev mem ns d'" and "blocks_readable sys dev mem ns d = blocks_readable sys dev mem ns d'"
  using in_dev_const [OF assms, of dev mem _ d d'] by (simp_all add: dev_blocks_def blocks_readable_def)

lemma filter_length_all: "length xs \<le> length (filter P xs) \<Longrightarrow> \<forall>x \<in> set xs. P x"
  by (metis filter_True filter_id_conv le_antisym length_filter_le length_filter_less nat_less_le)

text \<open>Looking at the zones changes nothing but the zone of the memory object.\<close>

lemma zone_loop_keeps:
  "memory_op_loop sys dev MEM_GET_ZONE ns count mem status d = (r, mem', status', d') \<Longrightarrow>
    d' = d \<and> (\<exists>z. mem' = mem\<lparr>mm_zone := z\<rparr>)"
proof (induction ns arbitrary: count mem status)
  case (Cons b ns)
  obtain rc mem1 st1 where z: "memblock_find_zone sys mem b status d = (rc, mem1, st1)" by (metis surj_pair)
  then have "\<exists>z. mem1 = mem\<lparr>mm_zone := z\<rparr>"
    by (auto simp: memblock_find_zone_def Let_def split: if_splits option.splits sum.splits) (metis daxctl_memory.surjective daxctl_memory.update_convs(3))+
  then show ?case using Cons z
    by (auto simp: Let_def op_for_one_memblock_def split: if_splits) (metis daxctl_memory.surjective daxctl_memory.update_convs(3))+
next
  case Nil
  then show ?case by (auto intro: exI [of _ "mm_zone mem"])
qed

lemma zone_op_keeps:
  assumes "daxctl_memory_op sys dev mem MEM_GET_ZONE d = (rc, mem', d')"
  shows "d' = d \<and> (\<exists>z. mem' = mem\<lparr>mm_zone := z\<rparr>)"
proof (cases "mm_node_path mem")
  case (Some node)
  show ?thesis
  proof (cases "ds_readdir sys node d")
    case (Inr r)
    obtain names errno where r: "r = (names, errno)" by (cases r)
    obtain l mem1 st d1 where l: "memory_op_loop sys dev MEM_GET_ZONE names 0 mem False d = (l, mem1, st, d1)"
      by (metis surj_pair)
    obtain z where z: "d1 = d" "mem1 = mem\<lparr>mm_zone := z\<rparr>" using zone_loop_keeps [OF l] by auto
    show ?thesis using assms Some Inr r l z
      by (cases l) (auto simp: daxctl_memory_op_def Let_def split: if_splits)
  next
    case (Inl e)
    then show ?thesis using assms Some by (auto simp: daxctl_memory_op_def intro: exI [of _ "mm_zone mem"])
  qed
next
  case None
  then show ?thesis using assms by (auto simp: daxctl_memory_op_def intro: exI [of _ "mm_zone mem"])
qed

lemma online_with_zone:
  assumes kern: "block_kern sys node names onl" and mem: "mm_node_path mem = Some node" and zone: "zone \<noteq> MEM_ZONE_UNKNOWN"
    and run: "daxctl_memory_online_with_zone sys dev mem zone d = (rc, mem', d')"
  shows "(\<exists>z. mem' = mem\<lparr>mm_zone := z\<rparr>) \<and> (\<forall>b. b \<notin> set (dev_blocks sys dev mem names d) \<longrightarrow> onl d' b = onl d b) \<and>
    (\<forall>b. onl d b \<longrightarrow> onl d' b)"
proof -
  define op where "op = (if zone = MEM_ZONE_MOVABLE then MEM_SET_ONLINE else MEM_SET_ONLINE_NO_MOVABLE)"
  obtain rc1 mem1 d1 where o: "daxctl_memory_op sys dev mem op d = (rc1, mem1, d1)" by (metis surj_pair)
  have "(case zone of MEM_ZONE_MOVABLE \<Rightarrow> daxctl_memory_op sys dev mem MEM_SET_ONLINE d
      | MEM_ZONE_NORMAL \<Rightarrow> daxctl_memory_op sys dev mem MEM_SET_ONLINE_NO_MOVABLE d
      | MEM_ZONE_UNKNOWN \<Rightarrow> (- EINVAL, mem, d)) = (rc1, mem1, d1)"
    using o zone by (cases zone) (simp_all add: op_def)
  note run' = run [unfolded daxctl_memory_online_with_zone_def this prod.case]
  note B = online_blocks [OF kern mem _ o]
  have "op = MEM_SET_ONLINE \<or> op = MEM_SET_ONLINE_NO_MOVABLE" by (simp add: op_def)
  note B = B [OF this]
  obtain rc2 mem2 d2 where g: "daxctl_memory_op sys dev (mem1\<lparr>mm_zone := None\<rparr>) MEM_GET_ZONE d1 = (rc2, mem2, d2)" by (metis surj_pair)
  obtain z where z: "d2 = d1" "mem2 = mem\<lparr>mm_zone := z\<rparr>" using zone_op_keeps [OF g] B by auto
  have "d' = d1 \<and> (mem' = mem1 \<or> mem' = mem2)" using run' g z by (auto split: if_splits)
  then show ?thesis using B z by (auto intro: exI [of _ "mm_zone mem"])
qed

lemma ready_memory: "mem_ready sys dev names onl mem d \<Longrightarrow> daxctl_dev_get_memory sys dev d = (Some mem, dev)"
  by (simp add: mem_ready_def daxctl_dev_get_memory_def)

lemma ready_counts:
  assumes "mem_ready sys dev names onl mem d"
  shows "daxctl_memory_num_sections sys dev mem d = int (length (dev_blocks sys dev mem names d))"
    and "daxctl_memory_is_online sys dev mem d = int (length (filter (onl d) (dev_blocks sys dev mem names d)))"
proof -
  obtain node where "mm_node_path mem = Some node" "block_kern sys node names onl" "blocks_readable sys dev mem names d"
    using assms unfolding mem_ready_def by blast
  then show "daxctl_memory_num_sections sys dev mem d = int (length (dev_blocks sys dev mem names d))"
    "daxctl_memory_is_online sys dev mem d = int (length (filter (onl d) (dev_blocks sys dev mem names d)))"
    by (simp_all add: memory_counts)
qed

lemma ready_later:
  assumes "mem_ready sys dev names onl mem d"
  shows "mem_ready sys (dev\<lparr>dd_mem := Some (mem\<lparr>mm_zone := z\<rparr>)\<rparr>) names onl (mem\<lparr>mm_zone := z\<rparr>) d'"
proof -
  obtain node where "mm_node_path mem = Some node" "block_kern sys node names onl" "blocks_readable sys dev mem names d"
    using assms unfolding mem_ready_def by blast
  then show ?thesis using blocks_const(2) [of sys node names onl dev mem names d' d] by (simp add: mem_ready_def)
qed

lemma dev_offline_settles:
  assumes ready: "mem_ready sys dev names onl mem d" and run: "dev_offline_memory sys dev d = (rc, dev', d')"
  shows "(\<forall>b. b \<notin> set (dev_blocks sys dev mem names d) \<longrightarrow> onl d' b = onl d b) \<and> (\<forall>b. onl d' b \<longrightarrow> onl d b) \<and>
    (0 \<le> rc \<longrightarrow> (\<forall>b \<in> set (dev_blocks sys dev mem names d). \<not> onl d' b)) \<and> dev' = dev"
proof -
  let ?B = "dev_blocks sys dev mem names d"
  obtain node where node: "mm_node_path mem = Some node" and kern: "block_kern sys node names onl" and mem: "dd_mem dev = Some mem"
    using ready unfolding mem_ready_def by blast
  obtain rc1 mem1 d1 where off: "daxctl_memory_offline sys dev mem d = (rc1, mem1, d1)" by (metis surj_pair)
  note O = offline_blocks [OF kern node off]
  have keep: "dev\<lparr>dd_mem := Some mem\<rparr> = dev" using mem by simp
  note run' = run [unfolded dev_offline_memory_def ready_memory [OF ready] prod.case option.case ready_counts [OF ready] Let_def off]
  show ?thesis
  proof (cases "filter (onl d) ?B = []")
    case True
    then have "rc = 1" "d' = d" "dev' = dev" using run' by simp_all
    then show ?thesis using True by (simp add: filter_empty_conv)
  next
    case False
    have "d' = d1 \<and> dev' = dev \<and> (0 \<le> rc \<longrightarrow> 0 \<le> rc1)"
      using run' False O by (auto simp: keep split: if_splits)
    then show ?thesis using O by auto
  qed
qed

lemma dev_online_settles:
  assumes ready: "mem_ready sys dev names onl mem d" and run: "dev_online_memory sys param dev d = (rc, dev', d')"
  shows "(\<forall>b. b \<notin> set (dev_blocks sys dev mem names d) \<longrightarrow> onl d' b = onl d b) \<and> (\<forall>b. onl d b \<longrightarrow> onl d' b) \<and>
    (0 \<le> rc \<longrightarrow> (\<forall>b \<in> set (dev_blocks sys dev mem names d). onl d' b))"
proof -
  let ?B = "dev_blocks sys dev mem names d"
  obtain node where node: "mm_node_path mem = Some node" and kern: "block_kern sys node names onl"
    using ready unfolding mem_ready_def by blast
  define zone where "zone = (if xp_no_movable param then MEM_ZONE_NORMAL else MEM_ZONE_MOVABLE)"
  obtain rc1 mem1 d1 where on: "daxctl_memory_online_with_zone sys dev mem zone d = (rc1, mem1, d1)" by (metis surj_pair)
  have on': "(if xp_no_movable param then daxctl_memory_online_no_movable sys dev mem d else daxctl_memory_online sys dev mem d) = (rc1, mem1, d1)"
    using on by (cases "xp_no_movable param") (simp_all add: zone_def daxctl_memory_online_no_movable_def daxctl_memory_online_def)
  have "zone \<noteq> MEM_ZONE_UNKNOWN" by (simp add: zone_def)
  note O = online_with_zone [OF kern node this on]
  then obtain z where mem1: "mem1 = mem\<lparr>mm_zone := z\<rparr>" by blast
  note later = ready_later [OF ready, of z d1, folded mem1]
  have B1: "dev_blocks sys (dev\<lparr>dd_mem := Some mem1\<rparr>) mem1 names d1 = ?B"
    using blocks_const(1) [OF kern, of dev mem names d1 d] by (simp add: mem1)
  note run' = run [unfolded dev_online_memory_def ready_memory [OF ready] prod.case option.case ready_counts [OF ready] Let_def on'
      ready_counts(2) [OF later] B1]
  show ?thesis
  proof (cases "length (filter (onl d) ?B) = length ?B")
    case True
    then have "d' = d" using run' by simp
    then show ?thesis using filter_length_all [of ?B "onl d"] True by simp
  next
    case False
    have "d' = d1 \<and> (0 \<le> rc \<longrightarrow> length ?B \<le> length (filter (onl d1) ?B))"
      using run' False by (auto split: if_splits)
    then show ?thesis using O filter_length_all [of ?B "onl d1"] by auto
  qed
qed

text \<open>C26: \<open>online-memory\<close> and \<open>offline-memory\<close> touch no memory block outside the device, change blocks only in the
  requested direction, and report success only when every block of the device is in the requested state.\<close>

theorem xline_settles_blocks:
  assumes "mem_ready sys dev names onl mem d" and "do_xline sys param dev action d = (rc, dev', d')"
    and "action = DAX_ONLINE \<or> action = DAX_OFFLINE"
  shows "(\<forall>b. b \<notin> set (dev_blocks sys dev mem names d) \<longrightarrow> onl d' b = onl d b) \<and>
    (\<forall>b. onl d' b \<noteq> onl d b \<longrightarrow> onl d' b = (action = DAX_ONLINE)) \<and>
    (0 \<le> rc \<longrightarrow> (\<forall>b \<in> set (dev_blocks sys dev mem names d). onl d' b = (action = DAX_ONLINE)))"
  using assms(3)
proof
  assume a: "action = DAX_ONLINE"
  then have "dev_online_memory sys param dev d = (rc, dev', d')"
    using assms(2) by (simp add: do_xline_def ready_memory [OF assms(1)])
  from dev_online_settles [OF assms(1) this] show ?thesis using a by auto
next
  assume a: "action = DAX_OFFLINE"
  then have "dev_offline_memory sys dev d = (rc, dev', d')"
    using assms(2) by (simp add: do_xline_def ready_memory [OF assms(1)])
  from dev_offline_settles [OF assms(1) this] show ?thesis using a by auto
qed

lemma demo_dax_ready: "mem_ready demo_dax_sys demo_dax_dev demo_names (\<lambda>d b. b \<in> set (fst d)) demo_dax_mem d"
proof -
  have "block_kern demo_dax_sys ''/sys/devices/system/node/node1'' demo_names (\<lambda>d b. b \<in> set (fst d))" by (rule demo_block_kern)
  then show ?thesis using demo_blocks(2) by (simp add: mem_ready_def demo_dax_dev_def demo_dax_mem_def)
qed

definition demo_dax_params :: dax_params where
  "demo_dax_params = \<lparr>xp_mode = Some ''devdax'', xp_region = None, xp_size = None, xp_align = None, xp_no_online = False,
     xp_no_movable = False, xp_force = False\<rparr>"

lemma demo_dir: "ds_readdir demo_dax_sys n d = Inr (demo_names, 0)"
  by (simp add: demo_dax_sys_def demo_names_def)

lemma demo_offline_op:
  "daxctl_memory_offline demo_dax_sys demo_dax_dev demo_dax_mem ([''memory2'', ''memory9''], Some ''kmem'') =
     (1, demo_dax_mem, ([''memory9''], Some ''kmem''))"
proof -
  have st: "memblock_is_online demo_dax_sys demo_dax_mem b d = (if b \<in> set (fst d) then 1 else 0)" for b d
    by (simp add: memblock_is_online_def demo_dax_mem_def demo_dax_sys_def)
  have rm: "memblock_is_removable demo_dax_sys demo_dax_mem b d = 0" for b d
    by (simp add: memblock_is_removable_def demo_dax_mem_def demo_dax_sys_def strtoull_def scan_sign_def is_space_def
        scan_unsigned_def starts_digit_def digit_value_def)
  have wr: "ds_write demo_dax_sys (Block_attr n b a) (Text ''offline'') d = (0, removeAll b (fst d), snd d)" for n b a d
    by (simp add: demo_dax_sys_def)
  have "offline_one_memblock demo_dax_sys demo_dax_mem b d = (if b \<in> set (fst d) then (0, removeAll b (fst d), snd d) else (1, d))" for b d
    by (simp add: offline_one_memblock_def st rm wr) (simp add: demo_dax_mem_def wr)
  then have op: "op_for_one_memblock demo_dax_sys demo_dax_mem b MEM_SET_OFFLINE status d =
      (if b \<in> set (fst d) then (0, demo_dax_mem, status, removeAll b (fst d), snd d) else (1, demo_dax_mem, status, d))" for b status d
    by (simp add: op_for_one_memblock_def)
  have "memory_op_loop demo_dax_sys demo_dax_dev MEM_SET_OFFLINE demo_names 0 demo_dax_mem False ([''memory2'', ''memory9''], Some ''kmem'') =
      (Inr 1, demo_dax_mem, False, ([''memory9''], Some ''kmem''))"
    by (simp add: demo_names_def is_memblock_name_def demo_in_dev op)
  moreover have "mm_node_path demo_dax_mem = Some ''/sys/devices/system/node/node1''" by (simp add: demo_dax_mem_def)
  ultimately show ?thesis by (simp add: daxctl_memory_offline_def daxctl_memory_op_def demo_dir)
qed

lemma demo_offline:
  "dev_offline_memory demo_dax_sys demo_dax_dev ([''memory2'', ''memory9''], Some ''kmem'') =
     (0, demo_dax_dev, ([''memory9''], Some ''kmem''))"
proof -
  have "demo_dax_dev\<lparr>dd_mem := Some demo_dax_mem\<rparr> = demo_dax_dev" by (simp add: demo_dax_dev_def)
  then show ?thesis
    by (simp add: dev_offline_memory_def ready_memory [OF demo_dax_ready] ready_counts [OF demo_dax_ready] demo_blocks demo_offline_op)
qed

theorem xline_settles_blocks_witness:
  "\<exists>d'. do_xline demo_dax_sys demo_dax_params demo_dax_dev DAX_OFFLINE ([''memory2'', ''memory9''], Some ''kmem'') = (0, demo_dax_dev, d') \<and>
     set (fst d') \<inter> {''memory2'', ''memory3''} = {}"
proof -
  have run: "do_xline demo_dax_sys demo_dax_params demo_dax_dev DAX_OFFLINE ([''memory2'', ''memory9''], Some ''kmem'') =
      (0, demo_dax_dev, ([''memory9''], Some ''kmem''))"
    by (simp add: do_xline_def ready_memory [OF demo_dax_ready] demo_offline)
  from xline_settles_blocks [OF demo_dax_ready run]
  have "\<forall>b \<in> set (dev_blocks demo_dax_sys demo_dax_dev demo_dax_mem demo_names ([''memory2'', ''memory9''], Some ''kmem'')).
      b \<notin> set (fst ([''memory9''], Some ''kmem''))"
    by simp
  then show ?thesis using run unfolding demo_blocks by auto
qed

subsection \<open>Leaving system-ram mode\<close>

text \<open>Writing to memory blocks does not change the driver, and binding drivers does not change the memory blocks.\<close>

definition driver_kern :: "'d dax_sys \<Rightarrow> ('d \<Rightarrow> string \<Rightarrow> bool) \<Rightarrow> bool" where
  "driver_kern sys onl \<longleftrightarrow>
     (\<forall>n b a v d m. ds_driver sys m (snd (ds_write sys (Block_attr n b a) v d)) = ds_driver sys m d \<and>
        ds_dax_bus sys m (snd (ds_write sys (Block_attr n b a) v d)) = ds_dax_bus sys m d) \<and>
     (\<forall>n a v d. onl (snd (ds_write sys (Driver_attr n a) v d)) = onl d \<and> onl (snd (ds_write sys (Dev_attr n a) v d)) = onl d) \<and>
     (\<forall>m d. onl (snd (ds_insert sys m d)) = onl d)"

lemma loop_keeps:
  assumes "\<And>n b a v d. g (snd (ds_write sys (Block_attr n b a) v d)) = g d"
    and "memory_op_loop sys dev op ns count mem status d = (r, mem', status', d')"
  shows "g d' = g d"
  using assms(2)
proof (induction ns arbitrary: count mem status d)
  case (Cons b ns)
  obtain rc mem1 st1 d1 where o: "op_for_one_memblock sys mem b op status d = (rc, mem1, st1, d1)" by (metis surj_pair)
  have w: "g d2 = g d" if "ds_write sys (Block_attr n b a) v d = (rc2, d2)" for n b a v rc2 d2
    using assms(1) [of n b a v d] that by simp
  have on: "g (snd (online_one_memblock sys mem b zone d)) = g d" for zone
    by (auto simp: online_one_memblock_def Let_def dest: w split: option.splits prod.splits)
  have off: "g (snd (offline_one_memblock sys mem b d)) = g d"
    by (auto simp: offline_one_memblock_def Let_def dest: w split: option.splits prod.splits)
  have "g d1 = g d"
    using o on [of MEM_ZONE_MOVABLE] on [of MEM_ZONE_NORMAL] off
    by (cases op) (auto simp: op_for_one_memblock_def Let_def split: prod.splits if_splits)
  then show ?case using Cons o by (auto simp: Let_def split: if_splits)
qed simp

lemma memory_op_keeps:
  assumes "\<And>n b a v d. g (snd (ds_write sys (Block_attr n b a) v d)) = g d" and "daxctl_memory_op sys dev mem op d = (rc, mem', d')"
  shows "g d' = g d"
  using assms(2) loop_keeps [where g = g, OF assms(1)]
  by (auto simp: daxctl_memory_op_def Let_def split: option.splits sum.splits prod.splits if_splits)

lemma disable_keeps_blocks:
  assumes "driver_kern sys onl" and "daxctl_dev_disable sys dev d = (rc, dev', d')"
  shows "onl d' = onl d"
proof -
  have w: "onl d2 = onl d1" if "ds_write sys (Dev_attr n a) v d1 = (rc2, d2)" for n a v d1 rc2 d2
    using assms(1) that unfolding driver_kern_def by (metis snd_conv)
  show ?thesis using assms(2)
    by (auto simp: daxctl_dev_disable_def daxctl_unbind_def Let_def split: if_splits prod.splits) (metis w)+
qed

lemma enable_keeps_blocks:
  assumes "driver_kern sys onl" and "daxctl_dev_enable sys dev mode d = (rc, d')"
  shows "onl d' = onl d"
proof -
  have w: "onl d2 = onl d1" if "ds_write sys (Driver_attr n a) v d1 = (rc2, d2)" for n a v d1 rc2 d2
    using assms(1) that unfolding driver_kern_def by (metis snd_conv)
  have i: "onl d2 = onl d1" if "ds_insert sys m d1 = (rc2, d2)" for m d1 rc2 d2
    using assms(1) that unfolding driver_kern_def by (metis snd_conv)
  show ?thesis using assms(2)
    by (auto simp: daxctl_dev_enable_def daxctl_bind_def split: if_splits prod.splits option.splits) (metis w i)+
qed

lemma offline_keeps_driver:
  assumes kern: "driver_kern sys onl" and ready: "mem_ready sys dev names onl mem d" and run: "dev_offline_memory sys dev d = (rc, dev', d')"
  shows "ds_driver sys m d' = ds_driver sys m d" and "ds_dax_bus sys m d' = ds_dax_bus sys m d"
proof -
  obtain rc1 mem1 d1 where off: "daxctl_memory_offline sys dev mem d = (rc1, mem1, d1)" by (metis surj_pair)
  have drv: "ds_driver sys m (snd (ds_write sys (Block_attr n b a) v d)) = ds_driver sys m d"
    and bus: "ds_dax_bus sys m (snd (ds_write sys (Block_attr n b a) v d)) = ds_dax_bus sys m d" for n b a v d
    using kern unfolding driver_kern_def by blast+
  have "ds_driver sys m d1 = ds_driver sys m d" "ds_dax_bus sys m d1 = ds_dax_bus sys m d"
    using memory_op_keeps [where g = "ds_driver sys m", OF drv off [unfolded daxctl_memory_offline_def]]
      memory_op_keeps [where g = "ds_dax_bus sys m", OF bus off [unfolded daxctl_memory_offline_def]] by simp_all
  moreover have "d' = d \<or> d' = d1"
    using run by (auto simp: dev_offline_memory_def ready_memory [OF ready] Let_def off split: if_splits)
  ultimately show "ds_driver sys m d' = ds_driver sys m d" "ds_dax_bus sys m d' = ds_dax_bus sys m d" by auto
qed

lemma disable_ram_guard:
  assumes kern: "driver_kern sys onl" and ready: "mem_ready sys dev names onl mem d"
    and run: "disable_system_ram_device sys param dev d = (rc, dev', d')"
  shows "ds_driver sys (dd_devname dev) d' = ds_driver sys (dd_devname dev) d \<and> rc \<noteq> 0 \<or>
      (\<forall>b \<in> set (dev_blocks sys dev mem names d). \<not> onl d' b)"
    and "\<not> xp_force param \<Longrightarrow> \<exists>b \<in> set (dev_blocks sys dev mem names d). onl d b \<Longrightarrow> rc = - EBUSY \<and> d' = d"
proof -
  let ?B = "dev_blocks sys dev mem names d"
  obtain node where bk: "block_kern sys node names onl" and mem: "dd_mem dev = Some mem" using ready unfolding mem_ready_def by blast
  obtain rc1 dev1 d1 where off: "(if xp_force param then dev_offline_memory sys dev d else (0, dev, d)) = (rc1, dev1, d1)"
    by (metis surj_pair)
  have same: "dev1 = dev" "ds_driver sys (dd_devname dev) d1 = ds_driver sys (dd_devname dev) d"
    using off dev_offline_settles [OF ready, of rc1 dev1 d1] offline_keeps_driver(1) [OF kern ready, of rc1 dev1 d1]
    by (auto split: if_splits)
  have "mem_ready sys dev names onl mem d1"
    using ready blocks_const(2) [OF bk, of dev mem names d1 d] unfolding mem_ready_def by auto
  note count = ready_counts(2) [OF this, unfolded blocks_const(1) [OF bk, of dev mem names d1 d]]
  note run' = run [unfolded disable_system_ram_device_def ready_memory [OF ready] prod.case option.case off same(1) count Let_def]
  show "ds_driver sys (dd_devname dev) d' = ds_driver sys (dd_devname dev) d \<and> rc \<noteq> 0 \<or> (\<forall>b \<in> set ?B. \<not> onl d' b)"
  proof (cases "rc1 < 0 \<or> filter (onl d1) ?B \<noteq> []")
    case True
    then have "d' = d1 \<and> rc \<noteq> 0" using run' by (auto split: if_splits)
    then show ?thesis using same(2) by simp
  next
    case False
    then have "daxctl_dev_disable sys dev d1 = (rc, dev', d')" using run' by simp
    from disable_keeps_blocks [OF kern this] False show ?thesis by (simp add: filter_empty_conv)
  qed
  show "rc = - EBUSY \<and> d' = d" if "\<not> xp_force param" "\<exists>b \<in> set ?B. onl d b"
  proof -
    have "d1 = d" "rc1 = 0" using off that(1) by simp_all
    moreover have "filter (onl d) ?B \<noteq> []" using that(2) by (auto simp: filter_empty_conv)
    ultimately show ?thesis using run' by (auto split: if_splits)
  qed
qed

text \<open>C25: reconfiguring a device that serves as system memory to devdax mode (\<open>reconfig_mode_devdax\<close>) does not take it out of the former
  mode while one of its memory blocks is online.  Without \<open>--force\<close> the attempt ends with \<open>EBUSY\<close> and no change; with it the blocks are
  taken offline first, and if one stays online the reconfiguration fails and the device keeps its driver.\<close>

theorem reconfig_guards_online_memory:
  assumes kern: "driver_kern sys onl" and ready: "mem_ready sys dev names onl mem d"
    and ram: "ds_dax_bus sys (dd_devname dev) d" "ds_driver sys (dd_devname dev) d = Some ''kmem''"
    and run: "reconfig_mode_devdax sys param dev d = (rc, dev', d')"
  shows "((\<exists>b \<in> set (dev_blocks sys dev mem names d). onl d' b) \<longrightarrow> rc \<noteq> 0 \<and> ds_driver sys (dd_devname dev) d' = Some ''kmem'') \<and>
    (\<not> xp_force param \<and> (\<exists>b \<in> set (dev_blocks sys dev mem names d). onl d b) \<longrightarrow> rc = - EBUSY \<and> d' = d)"
proof -
  obtain rc1 dev1 d1 where dis: "disable_system_ram_device sys param dev d = (rc1, dev1, d1)" by (metis surj_pair)
  have "daxctl_dev_is_enabled sys dev d" "daxctl_dev_get_mode sys dev d = DAXCTL_DEV_MODE_RAM"
    using ram by (simp_all add: daxctl_dev_is_enabled_def daxctl_dev_get_mode_def daxctl_dev_bound_to_module_def)
  note run' = run [unfolded reconfig_mode_devdax_def, simplified this dis, simplified]
  note G = disable_ram_guard [OF kern ready dis]
  show ?thesis
  proof (cases "rc1 = 0")
    case False
    then have "rc = rc1" "d' = d1" using run' by simp_all
    then show ?thesis using G ram False by auto
  next
    case True
    obtain rc2 d2 where en: "daxctl_dev_enable sys dev1 DAXCTL_DEV_MODE_DEVDAX d1 = (rc2, d2)" by fastforce
    then have "d' = d2" using run' True by simp
    then have "onl d' = onl d1" using enable_keeps_blocks [OF kern en] by simp
    then show ?thesis using G True by auto
  qed
qed

lemma demo_driver_kern: "driver_kern demo_dax_sys (\<lambda>d b. b \<in> set (fst d))"
  by (simp add: driver_kern_def demo_dax_sys_def)

theorem reconfig_guards_online_memory_witness:
  "fst (reconfig_mode_devdax demo_dax_sys demo_dax_params demo_dax_dev ([''memory2''], Some ''kmem'')) = - EBUSY"
proof -
  have bus: "ds_dax_bus demo_dax_sys (dd_devname demo_dax_dev) ([''memory2''], Some ''kmem'')"
    and drv: "ds_driver demo_dax_sys (dd_devname demo_dax_dev) ([''memory2''], Some ''kmem'') = Some ''kmem''"
    by (simp_all add: demo_dax_sys_def)
  obtain rc dev' d' where run: "reconfig_mode_devdax demo_dax_sys demo_dax_params demo_dax_dev ([''memory2''], Some ''kmem'') = (rc, dev', d')"
    by (metis surj_pair)
  have "\<not> xp_force demo_dax_params" by (simp add: demo_dax_params_def)
  then have "rc = - EBUSY"
    using reconfig_guards_online_memory [OF demo_driver_kern demo_dax_ready bus drv run] unfolding demo_blocks by simp
  then show ?thesis using run by simp
qed

subsection \<open>Sizes and alignments\<close>

lemma parse_ll_invalid: "parse_size64 (Some s) = ULLONG_MAX \<Longrightarrow> parse_ll (Some s) = - 1"
  by (simp add: parse_size64_def parse_ll_def)

text \<open>A size that cannot be parsed is taken for no size at all: \<open>create-device\<close> with it does exactly what it does
  without \<open>--size\<close>, and uses all the space that is available.\<close>

theorem create_ignores_invalid_size:
  assumes "parse_size64 (Some s) = ULLONG_MAX"
  shows "cmd_create_device sys (param\<lparr>xp_size := Some s\<rparr>) maps regions d = cmd_create_device sys (param\<lparr>xp_size := None\<rparr>) maps regions d"
proof -
  have parse: "parse_create (param\<lparr>xp_size := Some s\<rparr>) = parse_create (param\<lparr>xp_size := None\<rparr>)"
    using parse_ll_invalid [OF assms] by (simp add: parse_create_def) (simp add: parse_ll_def)
  have "do_xaction_region sys (param\<lparr>xp_size := x\<rparr>) DAX_CREATE sz align maps regions st =
      do_xaction_region sys (param\<lparr>xp_size := y\<rparr>) DAX_CREATE sz align maps regions st" for x y sz align st
  proof (induction regions arbitrary: st)
    case (Cons r rs)
    obtain rc n d where "st = (rc, n, d)" by (metis surj_pair)
    then show ?case using Cons by (simp split: prod.split)
  qed simp
  then show ?thesis unfolding cmd_create_device_def parse by (simp split: prod.split)
qed

theorem create_ignores_invalid_size_witness:
  "cmd_create_device demo_dax_sys (demo_dax_params\<lparr>xp_size := Some ''4GB''\<rparr>) [] [0] ([], None) =
   cmd_create_device demo_dax_sys (demo_dax_params\<lparr>xp_size := None\<rparr>) [] [0] ([], None)"
proof -
  have "parse_size64 (Some ''4GB'') = ULLONG_MAX"
    by (simp add: parse_size64_def parse_size64_units_def strtoull_def scan_sign_def is_space_def scan_unsigned_def
        starts_digit_def digit_value_def size_unit_def SZ_1G_def)
  then show ?thesis by (rule create_ignores_invalid_size)
qed

text \<open>\<open>reconfigure-device\<close> with an alignment and no size reports \<open>EINVAL\<close> after it has changed the alignment: the
  mode is never looked at when an alignment is given.\<close>

theorem align_only_reports_error:
  assumes "xp_align param = Some a" and "xp_size param = None" and "0 < parse_ll (Some a)"
    and "daxctl_dev_set_align sys dev (word_of_int (parse_ll (Some a))) d = (0, dev1, d1)"
  shows "parse_reconfig param = Inr (RECONFIG_MODE_UNKNOWN, - 1, parse_ll (Some a)) \<and>
    do_reconfig sys param RECONFIG_MODE_UNKNOWN (- 1) (parse_ll (Some a)) dev d = (- EINVAL, dev1, d1)"
  using assms by (simp add: parse_reconfig_def do_reconfig_def parse_ll_def)

theorem align_only_reports_error_witness:
  "\<exists>dev1 d1. do_reconfig demo_dax_sys (demo_dax_params\<lparr>xp_align := Some ''2M''\<rparr>) RECONFIG_MODE_UNKNOWN (- 1) 0x200000 demo_dax_dev ([], None) =
     (- EINVAL, dev1, d1) \<and> dd_align dev1 = 0x200000"
proof -
  have a: "parse_ll (Some ''2M'') = 0x200000"
    by (simp add: parse_ll_def parse_size64_units_def strtoull_def scan_sign_def is_space_def scan_unsigned_def
        starts_digit_def digit_value_def size_unit_def SZ_1M_def SZ_1K_def)
  obtain dev1 d1 where set: "daxctl_dev_set_align demo_dax_sys demo_dax_dev (word_of_int 0x200000) ([], None) = (0, dev1, d1)"
    and "dd_align dev1 = 0x200000"
    by (simp add: daxctl_dev_set_align_def demo_dax_sys_def)
  then show ?thesis
    using align_only_reports_error [of "demo_dax_params\<lparr>xp_align := Some ''2M''\<rparr>" "''2M''" demo_dax_sys demo_dax_dev "([], None)" dev1 d1]
    by (simp add: a demo_dax_params_def)
qed

end
