(* ===== verification/Dimm_Cmd.thy ===== *)
theory Dimm_Cmd
  imports Ndctl_Prelude
begin

text \<open>
  Commands to a DIMM that are passed through to its firmware (\<open>ND_CMD_CALL\<close>): the DIMM, the command with its \<open>nd_cmd_pkg\<close>
  header, and submission (\<open>ndctl/lib/private.h\<close>, \<open>ndctl/lib/libndctl.c\<close>).  The vendor theories fill in the payloads.

  The payload is a byte memory, as the union of packed structures is in C; fields are read and written at their offsets in
  little-endian order, the byte order of the machines that have these DIMMs.  The pointer \<open>cmd->dimm\<close> is an argument of the
  functions that follow it.
\<close>

subsection \<open>DIMMs and commands\<close>

definition ENOMSG :: int where [simp]: "ENOMSG = 42"
definition EBADF :: int where [simp]: "EBADF = 9"
definition UINT32_MAX :: u32 where [simp]: "UINT32_MAX = 0xFFFFFFFF"
definition ND_CMD_SMART :: nat where [simp]: "ND_CMD_SMART = 1"
definition ND_CMD_CALL :: nat where [simp]: "ND_CMD_CALL = 10"

text \<open>The table of vendor operations a DIMM points to; \<open>No_Ops\<close> is \<open>NULL\<close>.\<close>

datatype dimm_ops = No_Ops | Intel_Ops | Hpe1_Ops | Msft_Ops | Hyperv_Ops | Papr_Ops

definition NVDIMM_FAMILY_INTEL :: u64 where [simp]: "NVDIMM_FAMILY_INTEL = 0"
definition NVDIMM_FAMILY_HPE1 :: u64 where [simp]: "NVDIMM_FAMILY_HPE1 = 1"
definition NVDIMM_FAMILY_MSFT :: u64 where [simp]: "NVDIMM_FAMILY_MSFT = 3"
definition NVDIMM_FAMILY_HYPERV :: u64 where [simp]: "NVDIMM_FAMILY_HYPERV = 4"
definition NVDIMM_FAMILY_PAPR :: u64 where [simp]: "NVDIMM_FAMILY_PAPR = 5"

definition family_ops :: "u64 \<Rightarrow> dimm_ops" where
  "family_ops cmd_family =
     (if cmd_family = NVDIMM_FAMILY_INTEL then Intel_Ops
      else if cmd_family = NVDIMM_FAMILY_HPE1 then Hpe1_Ops
      else if cmd_family = NVDIMM_FAMILY_MSFT then Msft_Ops
      else if cmd_family = NVDIMM_FAMILY_HYPERV then Hyperv_Ops
      else if cmd_family = NVDIMM_FAMILY_PAPR then Papr_Ops
      else No_Ops)"

record dimm_dev =
  dm_ops :: dimm_ops
  dm_cmd_mask :: u64
  dm_nfit_dsm_mask :: u64
  dm_f_arm :: bool
  dm_f_flush :: bool
  dm_f_smart :: bool
  dm_f_restore :: bool

text \<open>\<open>dc_get\<close> names the vendor whose function \<open>get_firmware_status\<close> points to.\<close>

record dimm_cmd =
  dc_type :: nat
  dc_size :: nat
  dc_status :: int
  dc_get :: dimm_ops
  dc_family :: u64
  dc_command :: u64
  dc_size_in :: u32
  dc_size_out :: u32
  dc_buf :: mem

definition zero_mem :: mem where
  "zero_mem = (\<lambda>_. 0)"

datatype dsm_support = DIMM_DSM_UNSUPPORTED | DIMM_DSM_SUPPORTED | DIMM_DSM_UNKNOWN

definition test_dimm_dsm :: "dimm_dev \<Rightarrow> nat \<Rightarrow> dsm_support" where
  "test_dimm_dsm dimm fn =
     (if dm_nfit_dsm_mask dimm = - 1 then DIMM_DSM_UNKNOWN
      else if bit (dm_nfit_dsm_mask dimm) fn then DIMM_DSM_SUPPORTED
      else DIMM_DSM_UNSUPPORTED)"

text \<open>Three of the vendors answer for \<open>ND_CMD_SMART\<close> themselves, which they emulate for the monitor.\<close>

definition msft_cmd_is_supported :: "dimm_dev \<Rightarrow> nat \<Rightarrow> bool" where
  "msft_cmd_is_supported dimm cmd = (if cmd = ND_CMD_SMART then True else bit (dm_cmd_mask dimm) cmd)"

definition hyperv_cmd_is_supported :: "dimm_dev \<Rightarrow> nat \<Rightarrow> bool" where
  "hyperv_cmd_is_supported dimm cmd = (if cmd = ND_CMD_SMART then True else bit (dm_cmd_mask dimm) cmd)"

definition papr_cmd_is_supported :: "dimm_dev \<Rightarrow> nat \<Rightarrow> bool" where
  "papr_cmd_is_supported dimm cmd = (if cmd = ND_CMD_SMART then True else bit (dm_cmd_mask dimm) cmd)"

definition ndctl_dimm_is_cmd_supported :: "dimm_dev \<Rightarrow> nat \<Rightarrow> bool" where
  "ndctl_dimm_is_cmd_supported dimm cmd =
     (case dm_ops dimm of
        Msft_Ops \<Rightarrow> msft_cmd_is_supported dimm cmd
      | Hyperv_Ops \<Rightarrow> hyperv_cmd_is_supported dimm cmd
      | Papr_Ops \<Rightarrow> papr_cmd_is_supported dimm cmd
      | _ \<Rightarrow> bit (dm_cmd_mask dimm) cmd)"

subsection \<open>Submission\<close>

text \<open>\<open>dy_calloc\<close> says whether an allocation of that size succeeds; \<open>dy_open\<close> is the error of opening the DIMM's device node, or
  0, \<open>dy_valid\<close> whether the node is the control node of the DIMM, and \<open>dy_ioctl\<close> what the kernel makes of a command: the return
  value, a negative error number for -1, and the payload it leaves.  The kernel does not change the family and the
  number of the command.\<close>

record 'd dimm_sys =
  dy_calloc :: "nat \<Rightarrow> bool"
  dy_open :: "'d \<Rightarrow> int"
  dy_valid :: "'d \<Rightarrow> bool"
  dy_ioctl :: "dimm_cmd \<Rightarrow> 'd \<Rightarrow> int \<times> mem \<times> 'd"

text \<open>The iterator of these commands is empty, so \<open>do_cmd\<close> is one \<open>ioctl\<close>.\<close>

definition dimm_do_cmd :: "'d dimm_sys \<Rightarrow> dimm_cmd \<Rightarrow> 'd \<Rightarrow> int \<times> dimm_cmd \<times> 'd" where
  "dimm_do_cmd sys cmd d = (case dy_ioctl sys cmd d of (rc, buf, d) \<Rightarrow> (rc, cmd\<lparr>dc_buf := buf\<rparr>, d))"

definition dimm_cmd_submit :: "'d dimm_sys \<Rightarrow> dimm_cmd \<Rightarrow> 'd \<Rightarrow> int \<times> dimm_cmd \<times> 'd" where
  "dimm_cmd_submit sys cmd d =
     (if dc_get cmd = No_Ops then (- EINVAL, cmd, d)
      else if dc_type cmd \<noteq> ND_CMD_CALL then (- EINVAL, cmd\<lparr>dc_status := - EINVAL\<rparr>, d)
      else if dy_open sys d \<noteq> 0 then (- dy_open sys d, cmd\<lparr>dc_status := - dy_open sys d\<rparr>, d)
      else if \<not> dy_valid sys d then (- ENXIO, cmd\<lparr>dc_status := - ENXIO\<rparr>, d)
      else case dimm_do_cmd sys cmd d of (rc, cmd, d) \<Rightarrow> (rc, cmd\<lparr>dc_status := rc\<rparr>, d))"

text \<open>Submission followed by the translation of the firmware status by the DIMM's vendor.\<close>

definition submit_with_xlat :: "(dimm_cmd \<Rightarrow> int) \<Rightarrow> 'd dimm_sys \<Rightarrow> dimm_cmd \<Rightarrow> 'd \<Rightarrow> int \<times> dimm_cmd \<times> 'd" where
  "submit_with_xlat xlat sys cmd d =
     (case dimm_cmd_submit sys cmd d of
        (rc, cmd, d) \<Rightarrow> if rc < 0 then (rc, cmd, d) else (if xlat cmd = 0 then rc else xlat cmd, cmd, d))"

subsection \<open>Lemmas\<close>

lemma submit_status:
  "dimm_cmd_submit sys cmd d = (rc, cmd', d') \<Longrightarrow> dc_get cmd \<noteq> No_Ops \<Longrightarrow> dc_status cmd' = rc"
  by (auto simp: dimm_cmd_submit_def dimm_do_cmd_def split: if_splits prod.splits)

lemma submit_header:
  assumes "dimm_cmd_submit sys cmd d = (rc, cmd', d')"
  shows "dc_type cmd' = dc_type cmd" "dc_size cmd' = dc_size cmd" "dc_get cmd' = dc_get cmd"
    "dc_family cmd' = dc_family cmd" "dc_command cmd' = dc_command cmd"
    "dc_size_in cmd' = dc_size_in cmd" "dc_size_out cmd' = dc_size_out cmd"
  using assms by (auto simp: dimm_cmd_submit_def dimm_do_cmd_def split: if_splits prod.splits)

text \<open>A submission that does not fail went through the \<open>ioctl\<close>.\<close>

lemma submit_ioctl:
  assumes "dimm_cmd_submit sys cmd d = (rc, cmd', d')" "0 \<le> rc" "\<And>d. 0 \<le> dy_open sys d"
  shows "dy_ioctl sys cmd d = (rc, dc_buf cmd', d')" "cmd' = cmd\<lparr>dc_buf := dc_buf cmd', dc_status := rc\<rparr>"
  using assms(1,2) assms(3) [of d]
  by (auto simp: dimm_cmd_submit_def dimm_do_cmd_def split: if_splits prod.splits)

lemma submit_ok:
  assumes "dc_get cmd \<noteq> No_Ops" "dc_type cmd = ND_CMD_CALL" "dy_open sys d = 0" "dy_valid sys d"
    "dy_ioctl sys cmd d = (rc, buf, d')"
  shows "dimm_cmd_submit sys cmd d = (rc, cmd\<lparr>dc_buf := buf, dc_status := rc\<rparr>, d')"
  using assms by (simp add: dimm_cmd_submit_def dimm_do_cmd_def)

text \<open>Storing a value in a field cuts it to the width of the field.\<close>

lemma le_put_cut: "n * 8 \<le> LENGTH('b) \<Longrightarrow> le_put n (w :: 'a::len word) m ofs = le_put n (ucast w :: 'b::len word) m ofs"
proof (rule ext)
  fix a
  assume n: "n * 8 \<le> LENGTH('b)"
  have "ucast (drop_bit (8 * (a - ofs)) w) = (ucast (drop_bit (8 * (a - ofs)) (ucast w :: 'b word)) :: u8)"
    if "ofs \<le> a" "a < ofs + n"
  proof (rule bit_word_eqI)
    fix i assume "i < LENGTH(8)"
    moreover have "8 * (a - ofs) + 8 \<le> LENGTH('b)" using that n by linarith
    ultimately show "bit (ucast (drop_bit (8 * (a - ofs)) w) :: u8) i
        = bit (ucast (drop_bit (8 * (a - ofs)) (ucast w :: 'b word)) :: u8) i"
      by (auto simp: bit_simps)
  qed
  then show "le_put n w m ofs a = le_put n (ucast w :: 'b word) m ofs a"
    by (simp add: le_put_at)
qed

lemma le_get_put_cut:
  "LENGTH('b) = n * 8 \<Longrightarrow> le_get n (le_put n (w :: 'a::len word) m ofs) ofs = (ucast w :: 'b::len word)"
  by (simp add: le_put_cut [where 'b = 'b and w = w] le_get_put_same)

end
