(* ===== verification/Intel_Cmd.thy ===== *)
theory Intel_Cmd
  imports Dimm_Cmd
begin

text \<open>
  The commands of Intel DIMMs, \<open>ndctl/lib/intel.c\<close> with the structures of \<open>intel.h\<close>: SMART data and thresholds, injection
  of SMART values and the steps of a firmware update.  A structure is given by the offsets of its fields.
\<close>

subsection \<open>Numbers\<close>

definition ND_INTEL_SMART :: nat where [simp]: "ND_INTEL_SMART = 1"
definition ND_INTEL_SMART_THRESHOLD :: nat where [simp]: "ND_INTEL_SMART_THRESHOLD = 2"
definition ND_INTEL_ENABLE_LSS_STATUS :: nat where [simp]: "ND_INTEL_ENABLE_LSS_STATUS = 10"
definition ND_INTEL_FW_GET_INFO :: nat where [simp]: "ND_INTEL_FW_GET_INFO = 12"
definition ND_INTEL_FW_START_UPDATE :: nat where [simp]: "ND_INTEL_FW_START_UPDATE = 13"
definition ND_INTEL_FW_SEND_DATA :: nat where [simp]: "ND_INTEL_FW_SEND_DATA = 14"
definition ND_INTEL_FW_FINISH_UPDATE :: nat where [simp]: "ND_INTEL_FW_FINISH_UPDATE = 15"
definition ND_INTEL_FW_FINISH_STATUS_QUERY :: nat where [simp]: "ND_INTEL_FW_FINISH_STATUS_QUERY = 16"
definition ND_INTEL_SMART_SET_THRESHOLD :: nat where [simp]: "ND_INTEL_SMART_SET_THRESHOLD = 17"
definition ND_INTEL_SMART_INJECT :: nat where [simp]: "ND_INTEL_SMART_INJECT = 18"

definition ND_INTEL_STATUS_MASK :: u32 where [simp]: "ND_INTEL_STATUS_MASK = 0xFFFF"
definition ND_INTEL_STATUS_EXTEND_MASK :: u32 where [simp]: "ND_INTEL_STATUS_EXTEND_MASK = 0xFFFF0000"

datatype fw_status =
    FW_SUCCESS | FW_ENOTSUPP | FW_ENOTEXIST | FW_EINVAL | FW_EHWERR | FW_ERETRY | FW_EUNKNOWN | FW_ENORES | FW_ENOTREADY
  | FW_EBUSY | FW_EINVAL_CTX | FW_ALREADY_DONE | FW_EBADFW | FW_ABORTED | FW_ESEQUENCE

text \<open>The sizes of \<open>struct ndctl_cmd\<close>, \<open>struct nd_cmd_pkg\<close> and \<open>struct nd_pkg_intel\<close>.\<close>

definition sizeof_dimm_cmd :: nat where "sizeof_dimm_cmd = 120"
definition sizeof_nd_pkg :: nat where "sizeof_nd_pkg = 64"
definition sizeof_nd_pkg_intel :: nat where "sizeof_nd_pkg_intel = 200"

subsection \<open>Status of the firmware\<close>

text \<open>The status is in a different place in each payload; after \<open>FW_SEND_DATA\<close> it follows the data.\<close>

definition intel_cmd_get_firmware_status :: "dimm_cmd \<Rightarrow> u32" where
  "intel_cmd_get_firmware_status cmd =
     (let c = unat (dc_command cmd); buf = dc_buf cmd in
      if c = ND_INTEL_SMART then le_get 4 buf 0
      else if c = ND_INTEL_SMART_THRESHOLD then le_get 4 buf 0
      else if c = ND_INTEL_SMART_SET_THRESHOLD then le_get 4 buf 7
      else if c = ND_INTEL_SMART_INJECT then le_get 4 buf 15
      else if c = ND_INTEL_FW_GET_INFO then le_get 4 buf 0
      else if c = ND_INTEL_FW_START_UPDATE then le_get 4 buf 0
      else if c = ND_INTEL_FW_SEND_DATA then le_get 4 buf (12 + unat (le_get 4 buf 8 :: u32))
      else if c = ND_INTEL_FW_FINISH_UPDATE then le_get 4 buf 8
      else if c = ND_INTEL_FW_FINISH_STATUS_QUERY then le_get 4 buf 4
      else if c = ND_INTEL_ENABLE_LSS_STATUS then le_get 4 buf 1
      else - 1)"

definition intel_cmd_xlat_firmware_status :: "dimm_cmd \<Rightarrow> int" where
  "intel_cmd_xlat_firmware_status cmd =
     (let status = intel_cmd_get_firmware_status cmd AND ND_INTEL_STATUS_MASK;
          ext_status = intel_cmd_get_firmware_status cmd AND ND_INTEL_STATUS_EXTEND_MASK in
      if status = 0 then 0
      else if status = 1 then - EOPNOTSUPP
      else if status = 2 then - ENXIO
      else if status = 3 then - EINVAL
      else if status = 4 then - EIO
      else if status = 5 then - EAGAIN
      else if status = 8 then - EAGAIN
      else if status = 9 then - EBUSY
      else if unat (dc_command cmd) = ND_INTEL_SMART_INJECT \<and> ext_status = 0x10000 then - ENXIO
      else - ENOMSG)"

definition intel_cmd_fw_xlat_extend_firmware_status :: "dimm_cmd \<Rightarrow> u32 \<Rightarrow> fw_status" where
  "intel_cmd_fw_xlat_extend_firmware_status cmd status =
     (let ext = status AND ND_INTEL_STATUS_EXTEND_MASK; c = unat (dc_command cmd) in
      if ext = 0x10000 then (if c = ND_INTEL_FW_START_UPDATE then FW_EBUSY else FW_EINVAL_CTX)
      else if ext = 0x20000 then (if c = ND_INTEL_FW_FINISH_UPDATE then FW_ALREADY_DONE else FW_EBUSY)
      else if ext = 0x30000 then FW_EBADFW
      else if ext = 0x40000 then (if c = ND_INTEL_FW_FINISH_UPDATE then FW_ABORTED else FW_ESEQUENCE)
      else FW_EUNKNOWN)"

definition intel_cmd_fw_xlat_firmware_status :: "dimm_cmd \<Rightarrow> fw_status" where
  "intel_cmd_fw_xlat_firmware_status cmd =
     (let status = intel_cmd_get_firmware_status cmd; s = status AND ND_INTEL_STATUS_MASK in
      if s = 0 then FW_SUCCESS
      else if s = 1 then FW_ENOTSUPP
      else if s = 2 then FW_ENOTEXIST
      else if s = 3 then FW_EINVAL
      else if s = 4 then FW_EHWERR
      else if s = 5 then FW_ERETRY
      else if s = 7 then intel_cmd_fw_xlat_extend_firmware_status cmd status
      else if s = 8 then FW_ENORES
      else if s = 9 then FW_ENOTREADY
      else FW_EUNKNOWN)"

subsection \<open>Allocation\<close>

definition alloc_intel_cmd :: "'d dimm_sys \<Rightarrow> dimm_dev \<Rightarrow> nat \<Rightarrow> nat \<Rightarrow> nat \<Rightarrow> dimm_cmd option" where
  "alloc_intel_cmd sys dimm func in_size out_size =
     (if \<not> ndctl_dimm_is_cmd_supported dimm ND_CMD_CALL then None
      else if test_dimm_dsm dimm func = DIMM_DSM_UNSUPPORTED then None
      else let size = sizeof_dimm_cmd + sizeof_nd_pkg_intel + in_size + out_size in
        if \<not> dy_calloc sys size then None
        else Some \<lparr>dc_type = ND_CMD_CALL, dc_size = size, dc_status = 1, dc_get = Intel_Ops,
                   dc_family = NVDIMM_FAMILY_INTEL, dc_command = of_nat func,
                   dc_size_in = of_nat in_size, dc_size_out = of_nat out_size, dc_buf = zero_mem\<rparr>)"

text \<open>The part that the validity checks of \<open>intel.c\<close> share: a command of the family and number that was submitted without
  error.\<close>

definition intel_submitted :: "dimm_cmd \<Rightarrow> nat \<Rightarrow> int \<Rightarrow> bool" where
  "intel_submitted cmd func status \<longleftrightarrow>
     dc_type cmd = ND_CMD_CALL \<and> dc_status cmd = status \<and> dc_family cmd = NVDIMM_FAMILY_INTEL
     \<and> dc_command cmd = of_nat func"

subsection \<open>SMART data\<close>

definition intel_dimm_cmd_new_smart :: "'d dimm_sys \<Rightarrow> dimm_dev \<Rightarrow> dimm_cmd option" where
  "intel_dimm_cmd_new_smart sys dimm = alloc_intel_cmd sys dimm ND_INTEL_SMART 0 132"

definition intel_smart_valid :: "dimm_cmd \<Rightarrow> int" where
  "intel_smart_valid cmd =
     (if \<not> intel_submitted cmd ND_INTEL_SMART 0 then (if dc_status cmd < 0 then dc_status cmd else - EINVAL) else 0)"

text \<open>\<open>intel_smart_get_field\<close> reads a field of so many bytes at an offset, \<open>UINT32_MAX\<close> if the command is not valid.\<close>

definition intel_smart_get_field :: "nat \<Rightarrow> nat \<Rightarrow> dimm_cmd \<Rightarrow> u32" where
  "intel_smart_get_field bytes ofs cmd = (if intel_smart_valid cmd < 0 then UINT32_MAX else le_get bytes (dc_buf cmd) ofs)"

definition take_flags :: "u32 \<Rightarrow> (u32 \<times> u32) list \<Rightarrow> u32" where
  "take_flags w fs = fold (\<lambda>(from, to) flags. if w AND from \<noteq> 0 then flags OR to else flags) fs 0"

definition ND_SMART_HEALTH_VALID :: u32 where [simp]: "ND_SMART_HEALTH_VALID = 0x1"
definition ND_SMART_SPARES_VALID :: u32 where [simp]: "ND_SMART_SPARES_VALID = 0x2"
definition ND_SMART_USED_VALID :: u32 where [simp]: "ND_SMART_USED_VALID = 0x4"
definition ND_SMART_MTEMP_VALID :: u32 where [simp]: "ND_SMART_MTEMP_VALID = 0x8"
definition ND_SMART_CTEMP_VALID :: u32 where [simp]: "ND_SMART_CTEMP_VALID = 0x10"
definition ND_SMART_SHUTDOWN_COUNT_VALID :: u32 where [simp]: "ND_SMART_SHUTDOWN_COUNT_VALID = 0x20"
definition ND_SMART_AIT_STATUS_VALID :: u32 where [simp]: "ND_SMART_AIT_STATUS_VALID = 0x40"
definition ND_SMART_PTEMP_VALID :: u32 where [simp]: "ND_SMART_PTEMP_VALID = 0x80"
definition ND_SMART_ALARM_VALID :: u32 where [simp]: "ND_SMART_ALARM_VALID = 0x200"
definition ND_SMART_SHUTDOWN_VALID :: u32 where [simp]: "ND_SMART_SHUTDOWN_VALID = 0x400"
definition ND_SMART_VENDOR_VALID :: u32 where [simp]: "ND_SMART_VENDOR_VALID = 0x800"
definition ND_SMART_SPARE_TRIP :: u32 where [simp]: "ND_SMART_SPARE_TRIP = 0x1"
definition ND_SMART_MTEMP_TRIP :: u32 where [simp]: "ND_SMART_MTEMP_TRIP = 0x2"
definition ND_SMART_CTEMP_TRIP :: u32 where [simp]: "ND_SMART_CTEMP_TRIP = 0x4"
definition ND_SMART_NON_CRITICAL_HEALTH :: u32 where [simp]: "ND_SMART_NON_CRITICAL_HEALTH = 0x1"
definition ND_SMART_CRITICAL_HEALTH :: u32 where [simp]: "ND_SMART_CRITICAL_HEALTH = 0x2"
definition ND_SMART_FATAL_HEALTH :: u32 where [simp]: "ND_SMART_FATAL_HEALTH = 0x4"

text \<open>The table of flags of \<open>intel_cmd_smart_get_flags\<close>: Intel's bit and the library's.\<close>

definition intel_smart_flags :: "(u32 \<times> u32) list" where
  "intel_smart_flags = [
(0x1, ND_SMART_HEALTH_VALID),
     (0x2, ND_SMART_SPARES_VALID),
     (0x4, ND_SMART_USED_VALID),
     (0x8, ND_SMART_MTEMP_VALID),
     (0x10, ND_SMART_CTEMP_VALID),
     (0x20, ND_SMART_SHUTDOWN_COUNT_VALID),
     (0x40, ND_SMART_AIT_STATUS_VALID),
     (0x80, ND_SMART_PTEMP_VALID),
     (0x200, ND_SMART_ALARM_VALID),
     (0x400, ND_SMART_SHUTDOWN_VALID),
     (0x800, ND_SMART_VENDOR_VALID)]"

definition intel_cmd_smart_get_flags :: "dimm_cmd \<Rightarrow> u32" where
  "intel_cmd_smart_get_flags cmd =
     (if intel_smart_valid cmd < 0 then 0 else take_flags (le_get 4 (dc_buf cmd) 4) intel_smart_flags)"

definition intel_cmd_smart_get_health :: "dimm_cmd \<Rightarrow> u32" where
  "intel_cmd_smart_get_health cmd =
     (if intel_smart_valid cmd < 0 then 0
      else take_flags (le_get 1 (dc_buf cmd) 12)
             [(1, ND_SMART_NON_CRITICAL_HEALTH), (2, ND_SMART_CRITICAL_HEALTH), (4, ND_SMART_FATAL_HEALTH)])"

definition intel_cmd_smart_get_media_temperature :: "dimm_cmd \<Rightarrow> u32" where
  "intel_cmd_smart_get_media_temperature cmd = intel_smart_get_field 2 16 cmd"

definition intel_cmd_smart_get_ctrl_temperature :: "dimm_cmd \<Rightarrow> u32" where
  "intel_cmd_smart_get_ctrl_temperature cmd = intel_smart_get_field 2 18 cmd"

definition intel_cmd_smart_get_spares :: "dimm_cmd \<Rightarrow> u32" where
  "intel_cmd_smart_get_spares cmd = intel_smart_get_field 1 13 cmd"

definition intel_cmd_smart_get_alarm_flags :: "dimm_cmd \<Rightarrow> u32" where
  "intel_cmd_smart_get_alarm_flags cmd = intel_smart_get_field 1 15 cmd"

definition intel_cmd_smart_get_life_used :: "dimm_cmd \<Rightarrow> u32" where
  "intel_cmd_smart_get_life_used cmd = intel_smart_get_field 1 14 cmd"

definition intel_cmd_smart_get_shutdown_state :: "dimm_cmd \<Rightarrow> u32" where
  "intel_cmd_smart_get_shutdown_state cmd = intel_smart_get_field 1 35 cmd"

definition intel_cmd_smart_get_shutdown_count :: "dimm_cmd \<Rightarrow> u32" where
  "intel_cmd_smart_get_shutdown_count cmd = intel_smart_get_field 4 20 cmd"

definition intel_cmd_smart_get_vendor_size :: "dimm_cmd \<Rightarrow> u32" where
  "intel_cmd_smart_get_vendor_size cmd = intel_smart_get_field 4 36 cmd"

definition intel_cmd_smart_get_vendor_data :: "dimm_cmd \<Rightarrow> u8 list option" where
  "intel_cmd_smart_get_vendor_data cmd = (if intel_smart_valid cmd < 0 then None else Some (mem_bytes (dc_buf cmd) 40 92))"

subsection \<open>SMART thresholds\<close>

definition intel_smart_threshold_valid :: "dimm_cmd \<Rightarrow> int" where
  "intel_smart_threshold_valid cmd =
     (if \<not> intel_submitted cmd ND_INTEL_SMART_THRESHOLD 0 then (if dc_status cmd < 0 then dc_status cmd else - EINVAL)
      else 0)"

definition intel_smart_threshold_get_field :: "nat \<Rightarrow> nat \<Rightarrow> dimm_cmd \<Rightarrow> u32" where
  "intel_smart_threshold_get_field bytes ofs cmd =
     (if intel_smart_threshold_valid cmd < 0 then UINT32_MAX else le_get bytes (dc_buf cmd) ofs)"

definition intel_cmd_smart_threshold_get_alarm_control :: "dimm_cmd \<Rightarrow> u32" where
  "intel_cmd_smart_threshold_get_alarm_control cmd =
     (if intel_smart_threshold_valid cmd < 0 then 0
      else take_flags (le_get 2 (dc_buf cmd) 4) [(1, ND_SMART_SPARE_TRIP), (2, ND_SMART_MTEMP_TRIP), (4, ND_SMART_CTEMP_TRIP)])"

definition intel_cmd_smart_threshold_get_media_temperature :: "dimm_cmd \<Rightarrow> u32" where
  "intel_cmd_smart_threshold_get_media_temperature cmd = intel_smart_threshold_get_field 2 7 cmd"

definition intel_cmd_smart_threshold_get_ctrl_temperature :: "dimm_cmd \<Rightarrow> u32" where
  "intel_cmd_smart_threshold_get_ctrl_temperature cmd = intel_smart_threshold_get_field 2 9 cmd"

definition intel_cmd_smart_threshold_get_spares :: "dimm_cmd \<Rightarrow> u32" where
  "intel_cmd_smart_threshold_get_spares cmd = intel_smart_threshold_get_field 1 6 cmd"

definition intel_dimm_cmd_new_smart_threshold :: "'d dimm_sys \<Rightarrow> dimm_dev \<Rightarrow> dimm_cmd option" where
  "intel_dimm_cmd_new_smart_threshold sys dimm = alloc_intel_cmd sys dimm ND_INTEL_SMART_THRESHOLD 0 12"

text \<open>Setting starts from the thresholds that a completed threshold command read.\<close>

definition intel_dimm_cmd_new_smart_set_threshold :: "'d dimm_sys \<Rightarrow> dimm_dev \<Rightarrow> dimm_cmd \<Rightarrow> dimm_cmd option" where
  "intel_dimm_cmd_new_smart_set_threshold sys dimm cmd_thresh =
     (if intel_smart_threshold_valid cmd_thresh < 0 then None
      else case alloc_intel_cmd sys dimm ND_INTEL_SMART_SET_THRESHOLD 7 4 of
        None \<Rightarrow> None
      | Some cmd \<Rightarrow>
          let thresh = dc_buf cmd_thresh;
              buf = le_put 2 (le_get 2 thresh 4 :: u16) (dc_buf cmd) 0;
              buf = le_put 1 (le_get 1 thresh 6 :: u8) buf 2;
              buf = le_put 2 (le_get 2 thresh 7 :: u16) buf 3;
              buf = le_put 2 (le_get 2 thresh 9 :: u16) buf 5
          in Some (cmd\<lparr>dc_buf := buf\<rparr>))"

definition intel_smart_set_threshold_valid :: "dimm_cmd \<Rightarrow> int" where
  "intel_smart_set_threshold_valid cmd = (if \<not> intel_submitted cmd ND_INTEL_SMART_SET_THRESHOLD 1 then - EINVAL else 0)"

text \<open>A value is cut to the width of its field.\<close>

definition intel_smart_set_threshold_field :: "nat \<Rightarrow> nat \<Rightarrow> dimm_cmd \<Rightarrow> u32 \<Rightarrow> int \<times> dimm_cmd" where
  "intel_smart_set_threshold_field bytes ofs cmd val =
     (if intel_smart_set_threshold_valid cmd < 0 then (- EINVAL, cmd)
      else (0, cmd\<lparr>dc_buf := le_put bytes val (dc_buf cmd) ofs\<rparr>))"

definition intel_cmd_smart_threshold_get_supported_alarms :: "dimm_cmd \<Rightarrow> u32" where
  "intel_cmd_smart_threshold_get_supported_alarms cmd =
     (if intel_smart_set_threshold_valid cmd < 0 then 0
      else ND_SMART_SPARE_TRIP OR ND_SMART_MTEMP_TRIP OR ND_SMART_CTEMP_TRIP)"

definition intel_cmd_smart_threshold_set_alarm_control :: "dimm_cmd \<Rightarrow> u32 \<Rightarrow> int \<times> dimm_cmd" where
  "intel_cmd_smart_threshold_set_alarm_control = intel_smart_set_threshold_field 2 0"

definition intel_cmd_smart_threshold_set_spares :: "dimm_cmd \<Rightarrow> u32 \<Rightarrow> int \<times> dimm_cmd" where
  "intel_cmd_smart_threshold_set_spares = intel_smart_set_threshold_field 1 2"

definition intel_cmd_smart_threshold_set_media_temperature :: "dimm_cmd \<Rightarrow> u32 \<Rightarrow> int \<times> dimm_cmd" where
  "intel_cmd_smart_threshold_set_media_temperature = intel_smart_set_threshold_field 2 3"

definition intel_cmd_smart_threshold_set_ctrl_temperature :: "dimm_cmd \<Rightarrow> u32 \<Rightarrow> int \<times> dimm_cmd" where
  "intel_cmd_smart_threshold_set_ctrl_temperature = intel_smart_set_threshold_field 2 5"

subsection \<open>SMART injection\<close>

definition intel_smart_inject_valid :: "dimm_cmd \<Rightarrow> int" where
  "intel_smart_inject_valid cmd =
     (if \<not> intel_submitted cmd ND_INTEL_SMART_INJECT 1 then (if dc_status cmd < 0 then dc_status cmd else - EINVAL) else 0)"

definition intel_new_smart_inject :: "'d dimm_sys \<Rightarrow> dimm_dev \<Rightarrow> dimm_cmd option" where
  "intel_new_smart_inject sys dimm = alloc_intel_cmd sys dimm ND_INTEL_SMART_INJECT 15 4"

text \<open>Sets a bit of the flags and the byte that enables the injection.\<close>

definition intel_inject_enable :: "u64 \<Rightarrow> nat \<Rightarrow> bool \<Rightarrow> mem \<Rightarrow> mem" where
  "intel_inject_enable flag ofs enable buf =
     le_put 1 (of_bool enable :: u8) (le_put 8 ((le_get 8 buf 0 :: u64) OR flag) buf 0) ofs"

definition intel_cmd_smart_inject_media_temperature :: "dimm_cmd \<Rightarrow> bool \<Rightarrow> u32 \<Rightarrow> int \<times> dimm_cmd" where
  "intel_cmd_smart_inject_media_temperature cmd enable mtemp =
     (if intel_smart_inject_valid cmd < 0 then (- EINVAL, cmd)
      else (0, cmd\<lparr>dc_buf := le_put 2 mtemp (intel_inject_enable 1 8 enable (dc_buf cmd)) 9\<rparr>))"

definition intel_cmd_smart_inject_spares :: "dimm_cmd \<Rightarrow> bool \<Rightarrow> u32 \<Rightarrow> int \<times> dimm_cmd" where
  "intel_cmd_smart_inject_spares cmd enable spares =
     (if intel_smart_inject_valid cmd < 0 then (- EINVAL, cmd)
      else (0, cmd\<lparr>dc_buf := le_put 1 spares (intel_inject_enable 2 11 enable (dc_buf cmd)) 12\<rparr>))"

definition intel_cmd_smart_inject_fatal :: "dimm_cmd \<Rightarrow> bool \<Rightarrow> int \<times> dimm_cmd" where
  "intel_cmd_smart_inject_fatal cmd enable =
     (if intel_smart_inject_valid cmd < 0 then (- EINVAL, cmd)
      else (0, cmd\<lparr>dc_buf := intel_inject_enable 4 13 enable (dc_buf cmd)\<rparr>))"

definition intel_cmd_smart_inject_unsafe_shutdown :: "dimm_cmd \<Rightarrow> bool \<Rightarrow> int \<times> dimm_cmd" where
  "intel_cmd_smart_inject_unsafe_shutdown cmd enable =
     (if intel_smart_inject_valid cmd < 0 then (- EINVAL, cmd)
      else (0, cmd\<lparr>dc_buf := intel_inject_enable 8 14 enable (dc_buf cmd)\<rparr>))"

definition ND_SMART_INJECT_SPARES_REMAINING :: u32 where [simp]: "ND_SMART_INJECT_SPARES_REMAINING = 0x1"
definition ND_SMART_INJECT_MEDIA_TEMPERATURE :: u32 where [simp]: "ND_SMART_INJECT_MEDIA_TEMPERATURE = 0x2"
definition ND_SMART_INJECT_CTRL_TEMPERATURE :: u32 where [simp]: "ND_SMART_INJECT_CTRL_TEMPERATURE = 0x4"
definition ND_SMART_INJECT_HEALTH_STATE :: u32 where [simp]: "ND_SMART_INJECT_HEALTH_STATE = 0x8"
definition ND_SMART_INJECT_UNCLEAN_SHUTDOWN :: u32 where [simp]: "ND_SMART_INJECT_UNCLEAN_SHUTDOWN = 0x10"

text \<open>The supported injections as a bitmap, or an error.\<close>

definition intel_dimm_smart_inject_supported :: "dimm_dev \<Rightarrow> int" where
  "intel_dimm_smart_inject_supported dimm =
     (if \<not> ndctl_dimm_is_cmd_supported dimm ND_CMD_CALL then - EOPNOTSUPP
      else if test_dimm_dsm dimm ND_INTEL_SMART_INJECT = DIMM_DSM_UNSUPPORTED then - EIO
      else uint (ND_SMART_INJECT_SPARES_REMAINING OR ND_SMART_INJECT_MEDIA_TEMPERATURE OR ND_SMART_INJECT_CTRL_TEMPERATURE
             OR ND_SMART_INJECT_HEALTH_STATE OR ND_SMART_INJECT_UNCLEAN_SHUTDOWN))"

text \<open>The table of names has 19 entries and is read before the bound is checked; \<open>None\<close> is a read out of bounds.\<close>

definition intel_cmd_desc :: "int \<Rightarrow> string option" where
  "intel_cmd_desc fn =
     (if fn < 0 \<or> 19 \<le> fn then None
      else Some (if fn = 1 then ''smart'' else if fn = 18 then ''smart_inject'' else if fn = 2 then ''smart_thresh''
        else if fn = 12 then ''firmware_get_info'' else if fn = 13 then ''firmware_start_update''
        else if fn = 14 then ''firmware_send_data'' else if fn = 15 then ''firmware_finish_update''
        else if fn = 16 then ''firmware_finish_query'' else if fn = 17 then ''smart_set_thresh'' else ''unknown''))"

subsection \<open>Firmware update\<close>

definition intel_dimm_cmd_new_fw_get_info :: "'d dimm_sys \<Rightarrow> dimm_dev \<Rightarrow> dimm_cmd option" where
  "intel_dimm_cmd_new_fw_get_info sys dimm = alloc_intel_cmd sys dimm ND_INTEL_FW_GET_INFO 0 44"

definition intel_fw_get_info_valid :: "dimm_cmd \<Rightarrow> int" where
  "intel_fw_get_info_valid cmd = (if \<not> intel_submitted cmd ND_INTEL_FW_GET_INFO 0 then - EINVAL else 0)"

definition intel_fw_info_get_field32 :: "nat \<Rightarrow> dimm_cmd \<Rightarrow> u32" where
  "intel_fw_info_get_field32 ofs cmd = (if intel_fw_get_info_valid cmd < 0 then UINT32_MAX else le_get 4 (dc_buf cmd) ofs)"

definition intel_fw_info_get_field64 :: "nat \<Rightarrow> dimm_cmd \<Rightarrow> u64" where
  "intel_fw_info_get_field64 ofs cmd = (if intel_fw_get_info_valid cmd < 0 then ULLONG_MAX else le_get 8 (dc_buf cmd) ofs)"

definition intel_cmd_fw_info_get_storage_size :: "dimm_cmd \<Rightarrow> u32" where
  "intel_cmd_fw_info_get_storage_size = intel_fw_info_get_field32 4"

definition intel_cmd_fw_info_get_max_send_len :: "dimm_cmd \<Rightarrow> u32" where
  "intel_cmd_fw_info_get_max_send_len = intel_fw_info_get_field32 8"

definition intel_cmd_fw_info_get_query_interval :: "dimm_cmd \<Rightarrow> u32" where
  "intel_cmd_fw_info_get_query_interval = intel_fw_info_get_field32 12"

definition intel_cmd_fw_info_get_max_query_time :: "dimm_cmd \<Rightarrow> u32" where
  "intel_cmd_fw_info_get_max_query_time = intel_fw_info_get_field32 16"

definition intel_cmd_fw_info_get_run_version :: "dimm_cmd \<Rightarrow> u64" where
  "intel_cmd_fw_info_get_run_version = intel_fw_info_get_field64 28"

definition intel_cmd_fw_info_get_updated_version :: "dimm_cmd \<Rightarrow> u64" where
  "intel_cmd_fw_info_get_updated_version = intel_fw_info_get_field64 36"

definition intel_dimm_cmd_new_fw_start :: "'d dimm_sys \<Rightarrow> dimm_dev \<Rightarrow> dimm_cmd option" where
  "intel_dimm_cmd_new_fw_start sys dimm = alloc_intel_cmd sys dimm ND_INTEL_FW_START_UPDATE 0 8"

definition intel_fw_start_valid :: "dimm_cmd \<Rightarrow> int" where
  "intel_fw_start_valid cmd = (if \<not> intel_submitted cmd ND_INTEL_FW_START_UPDATE 0 then - EINVAL else 0)"

definition intel_cmd_fw_start_get_context :: "dimm_cmd \<Rightarrow> u32" where
  "intel_cmd_fw_start_get_context cmd = (if intel_fw_start_valid cmd < 0 then UINT32_MAX else le_get 4 (dc_buf cmd) 4)"

text \<open>The context that the start command returned, without a check.\<close>

definition start_context :: "dimm_cmd \<Rightarrow> u32" where
  "start_context start = le_get 4 (dc_buf start) 4"

definition intel_dimm_cmd_new_fw_send :: "'d dimm_sys \<Rightarrow> dimm_dev \<Rightarrow> dimm_cmd \<Rightarrow> u32 \<Rightarrow> u32 \<Rightarrow> u8 list \<Rightarrow> dimm_cmd option" where
  "intel_dimm_cmd_new_fw_send sys dimm start offset len data =
     (case alloc_intel_cmd sys dimm ND_INTEL_FW_SEND_DATA (12 + unat len) 4 of
        None \<Rightarrow> None
      | Some cmd \<Rightarrow>
          let buf = le_put 4 (start_context start) (dc_buf cmd) 0;
              buf = le_put 4 offset buf 4;
              buf = le_put 4 len buf 8
          in Some (cmd\<lparr>dc_buf := mem_store buf 12 (take (unat len) data)\<rparr>))"

definition intel_new_fw_finish_update :: "u8 \<Rightarrow> 'd dimm_sys \<Rightarrow> dimm_dev \<Rightarrow> dimm_cmd \<Rightarrow> dimm_cmd option" where
  "intel_new_fw_finish_update ctrl_flags sys dimm start =
     (case alloc_intel_cmd sys dimm ND_INTEL_FW_FINISH_UPDATE 8 4 of
        None \<Rightarrow> None
      | Some cmd \<Rightarrow> Some (cmd\<lparr>dc_buf := le_put 1 ctrl_flags (le_put 4 (start_context start) (dc_buf cmd) 4) 0\<rparr>))"

definition intel_dimm_cmd_new_fw_finish :: "'d dimm_sys \<Rightarrow> dimm_dev \<Rightarrow> dimm_cmd \<Rightarrow> dimm_cmd option" where
  "intel_dimm_cmd_new_fw_finish = intel_new_fw_finish_update 0"

definition intel_dimm_cmd_new_fw_abort :: "'d dimm_sys \<Rightarrow> dimm_dev \<Rightarrow> dimm_cmd \<Rightarrow> dimm_cmd option" where
  "intel_dimm_cmd_new_fw_abort = intel_new_fw_finish_update 1"

definition intel_dimm_cmd_new_fw_finish_query :: "'d dimm_sys \<Rightarrow> dimm_dev \<Rightarrow> dimm_cmd \<Rightarrow> dimm_cmd option" where
  "intel_dimm_cmd_new_fw_finish_query sys dimm start =
     (case alloc_intel_cmd sys dimm ND_INTEL_FW_FINISH_STATUS_QUERY 4 12 of
        None \<Rightarrow> None
      | Some cmd \<Rightarrow> Some (cmd\<lparr>dc_buf := le_put 4 (start_context start) (dc_buf cmd) 0\<rparr>))"

definition intel_fw_fquery_valid :: "dimm_cmd \<Rightarrow> int" where
  "intel_fw_fquery_valid cmd = (if \<not> intel_submitted cmd ND_INTEL_FW_FINISH_STATUS_QUERY 0 then - EINVAL else 0)"

definition intel_cmd_fw_fquery_get_fw_rev :: "dimm_cmd \<Rightarrow> u64" where
  "intel_cmd_fw_fquery_get_fw_rev cmd = (if intel_fw_fquery_valid cmd < 0 then ULLONG_MAX else le_get 8 (dc_buf cmd) 8)"

definition intel_dimm_cmd_new_lss :: "'d dimm_sys \<Rightarrow> dimm_dev \<Rightarrow> dimm_cmd option" where
  "intel_dimm_cmd_new_lss sys dimm =
     (case alloc_intel_cmd sys dimm ND_INTEL_ENABLE_LSS_STATUS 1 4 of
        None \<Rightarrow> None
      | Some cmd \<Rightarrow> Some (cmd\<lparr>dc_buf := le_put 1 (1 :: u8) (dc_buf cmd) 0\<rparr>))"

definition intel_dimm_fw_update_supported :: "dimm_dev \<Rightarrow> int" where
  "intel_dimm_fw_update_supported dimm =
     (if \<not> ndctl_dimm_is_cmd_supported dimm ND_CMD_CALL then - EOPNOTSUPP
      else if test_dimm_dsm dimm ND_INTEL_FW_GET_INFO = DIMM_DSM_UNSUPPORTED
           \<or> test_dimm_dsm dimm ND_INTEL_FW_START_UPDATE = DIMM_DSM_UNSUPPORTED
           \<or> test_dimm_dsm dimm ND_INTEL_FW_SEND_DATA = DIMM_DSM_UNSUPPORTED
           \<or> test_dimm_dsm dimm ND_INTEL_FW_FINISH_UPDATE = DIMM_DSM_UNSUPPORTED
           \<or> test_dimm_dsm dimm ND_INTEL_FW_FINISH_STATUS_QUERY = DIMM_DSM_UNSUPPORTED
      then - EIO else 0)"

end
