(* ===== verification/Vendor_Cmd.thy ===== *)
theory Vendor_Cmd
  imports Intel_Cmd
begin

text \<open>
  The SMART commands of HPE, Microsoft, Hyper-V and PAPR DIMMs: \<open>ndctl/lib/hpe1.c\<close>, \<open>msft.c\<close>, \<open>hyperv.c\<close> and \<open>papr.c\<close>, with the
  structures of their headers given by the offsets of the fields.
\<close>

subsection \<open>HPE\<close>

definition NDN_HPE1_CMD_SMART :: nat where [simp]: "NDN_HPE1_CMD_SMART = 1"
definition NDN_HPE1_CMD_SMART_THRESHOLD :: nat where [simp]: "NDN_HPE1_CMD_SMART_THRESHOLD = 2"
definition sizeof_ndn_pkg_hpe1 :: nat where "sizeof_ndn_pkg_hpe1 = 200"

definition hpe1_get_firmware_status :: "dimm_cmd \<Rightarrow> u32" where
  "hpe1_get_firmware_status cmd =
     (if dc_command cmd = of_nat NDN_HPE1_CMD_SMART then le_get 4 (dc_buf cmd) 4
      else if dc_command cmd = of_nat NDN_HPE1_CMD_SMART_THRESHOLD then le_get 4 (dc_buf cmd) 0
      else - 1)"

text \<open>Both constructors differ in the command and the initial payload only.\<close>

definition hpe1_new_cmd :: "'d dimm_sys \<Rightarrow> dimm_dev \<Rightarrow> nat \<Rightarrow> u32 \<Rightarrow> mem \<Rightarrow> dimm_cmd option" where
  "hpe1_new_cmd sys dimm func size_in buf =
     (if \<not> ndctl_dimm_is_cmd_supported dimm ND_CMD_CALL then None
      else if test_dimm_dsm dimm func = DIMM_DSM_UNSUPPORTED then None
      else let size = sizeof_dimm_cmd + sizeof_ndn_pkg_hpe1 in
        if \<not> dy_calloc sys size then None
        else Some \<lparr>dc_type = ND_CMD_CALL, dc_size = size, dc_status = 1, dc_get = Hpe1_Ops,
                   dc_family = NVDIMM_FAMILY_HPE1, dc_command = of_nat func,
                   dc_size_in = size_in, dc_size_out = 132, dc_buf = buf\<rparr>)"

text \<open>The flags ask for health, temperature, spares, alarms, life, shutdown and vendor data.\<close>

definition hpe1_dimm_cmd_new_smart :: "'d dimm_sys \<Rightarrow> dimm_dev \<Rightarrow> dimm_cmd option" where
  "hpe1_dimm_cmd_new_smart sys dimm =
     hpe1_new_cmd sys dimm NDN_HPE1_CMD_SMART 4
       (le_put 4 (0x23F :: u32) (le_put 4 (3 :: u32) zero_mem 4) 0)"

definition hpe1_cmd_valid :: "nat \<Rightarrow> dimm_cmd \<Rightarrow> int" where
  "hpe1_cmd_valid func cmd =
     (if dc_type cmd \<noteq> ND_CMD_CALL \<or> dc_size cmd \<noteq> sizeof_dimm_cmd + sizeof_ndn_pkg_hpe1
         \<or> dc_family cmd \<noteq> NVDIMM_FAMILY_HPE1 \<or> dc_command cmd \<noteq> of_nat func \<or> dc_status cmd \<noteq> 0
      then (if dc_status cmd < 0 then dc_status cmd else - EINVAL) else 0)"

definition hpe1_smart_valid :: "dimm_cmd \<Rightarrow> int" where
  "hpe1_smart_valid = hpe1_cmd_valid NDN_HPE1_CMD_SMART"

definition hpe1_smart_get_field :: "nat \<Rightarrow> nat \<Rightarrow> dimm_cmd \<Rightarrow> u32" where
  "hpe1_smart_get_field bytes ofs cmd = (if hpe1_smart_valid cmd < 0 then UINT32_MAX else le_get bytes (dc_buf cmd) ofs)"

definition hpe1_cmd_smart_get_flags :: "dimm_cmd \<Rightarrow> u32" where
  "hpe1_cmd_smart_get_flags cmd =
     (if hpe1_smart_valid cmd < 0 then UINT32_MAX
      else take_flags (le_get 4 (dc_buf cmd) 8)
             [(0x1, ND_SMART_HEALTH_VALID), (0x2, ND_SMART_MTEMP_VALID), (0x4, ND_SMART_SPARES_VALID),
              (0x8, ND_SMART_ALARM_VALID), (0x10, ND_SMART_USED_VALID), (0x20, ND_SMART_SHUTDOWN_VALID),
              (0x200, ND_SMART_VENDOR_VALID)])"

definition hpe1_cmd_smart_get_health :: "dimm_cmd \<Rightarrow> u32" where
  "hpe1_cmd_smart_get_health cmd =
     (if hpe1_smart_valid cmd < 0 then UINT32_MAX
      else take_flags (le_get 1 (dc_buf cmd) 12)
             [(1, ND_SMART_NON_CRITICAL_HEALTH), (2, ND_SMART_CRITICAL_HEALTH), (4, ND_SMART_FATAL_HEALTH)])"

definition hpe1_cmd_smart_get_media_temperature :: "dimm_cmd \<Rightarrow> u32" where
  "hpe1_cmd_smart_get_media_temperature = hpe1_smart_get_field 2 13"

definition hpe1_cmd_smart_get_spares :: "dimm_cmd \<Rightarrow> u32" where
  "hpe1_cmd_smart_get_spares = hpe1_smart_get_field 1 15"

definition hpe1_cmd_smart_get_alarm_flags :: "dimm_cmd \<Rightarrow> u32" where
  "hpe1_cmd_smart_get_alarm_flags cmd =
     (if hpe1_smart_valid cmd < 0 then UINT32_MAX
      else take_flags (le_get 2 (dc_buf cmd) 16) [(1, ND_SMART_MTEMP_TRIP), (2, ND_SMART_SPARE_TRIP)])"

definition hpe1_cmd_smart_get_life_used :: "dimm_cmd \<Rightarrow> u32" where
  "hpe1_cmd_smart_get_life_used = hpe1_smart_get_field 1 18"

definition hpe1_cmd_smart_get_shutdown_state :: "dimm_cmd \<Rightarrow> u32" where
  "hpe1_cmd_smart_get_shutdown_state cmd =
     (if hpe1_smart_valid cmd < 0 then UINT32_MAX else if (le_get 1 (dc_buf cmd) 19 :: u32) = 2 then 0 else 1)"

definition hpe1_cmd_smart_get_vendor_size :: "dimm_cmd \<Rightarrow> u32" where
  "hpe1_cmd_smart_get_vendor_size = hpe1_smart_get_field 2 70"

definition hpe1_cmd_smart_get_vendor_data :: "dimm_cmd \<Rightarrow> u8 list option" where
  "hpe1_cmd_smart_get_vendor_data cmd = (if hpe1_smart_valid cmd < 0 then None else Some (mem_bytes (dc_buf cmd) 72 60))"

definition hpe1_dimm_cmd_new_smart_threshold :: "'d dimm_sys \<Rightarrow> dimm_dev \<Rightarrow> dimm_cmd option" where
  "hpe1_dimm_cmd_new_smart_threshold sys dimm =
     hpe1_new_cmd sys dimm NDN_HPE1_CMD_SMART_THRESHOLD 0 (le_put 4 (3 :: u32) zero_mem 0)"

definition hpe1_smart_threshold_valid :: "dimm_cmd \<Rightarrow> int" where
  "hpe1_smart_threshold_valid = hpe1_cmd_valid NDN_HPE1_CMD_SMART_THRESHOLD"

definition hpe1_cmd_smart_threshold_get_alarm_control :: "dimm_cmd \<Rightarrow> u32" where
  "hpe1_cmd_smart_threshold_get_alarm_control cmd =
     (if hpe1_smart_threshold_valid cmd < 0 then UINT32_MAX
      else take_flags (le_get 2 (dc_buf cmd) 4) [(1, ND_SMART_MTEMP_TRIP), (2, ND_SMART_SPARE_TRIP)])"

definition hpe1_cmd_smart_threshold_get_media_temperature :: "dimm_cmd \<Rightarrow> u32" where
  "hpe1_cmd_smart_threshold_get_media_temperature cmd =
     (if hpe1_smart_threshold_valid cmd < 0 then UINT32_MAX else le_get 2 (dc_buf cmd) 6)"

definition hpe1_cmd_smart_threshold_get_spares :: "dimm_cmd \<Rightarrow> u32" where
  "hpe1_cmd_smart_threshold_get_spares cmd =
     (if hpe1_smart_threshold_valid cmd < 0 then UINT32_MAX else le_get 1 (dc_buf cmd) 8)"

subsection \<open>Microsoft\<close>

definition NDN_MSFT_CMD_NHEALTH :: nat where [simp]: "NDN_MSFT_CMD_NHEALTH = 11"

text \<open>\<open>None\<close> is a read out of bounds, for negative numbers.\<close>

definition msft_cmd_desc :: "int \<Rightarrow> string option" where
  "msft_cmd_desc fn =
     (if 13 \<le> fn then Some ''unknown'' else if fn < 0 then None
      else Some (if fn = 10 then ''critical_health'' else if fn = 11 then ''nvdimm_health''
        else if fn = 12 then ''es_health'' else ''unknown''))"

definition msft_get_firmware_status :: "dimm_cmd \<Rightarrow> u32" where
  "msft_get_firmware_status cmd = le_get 4 (dc_buf cmd) 0"

definition alloc_msft_cmd :: "'d dimm_sys \<Rightarrow> dimm_dev \<Rightarrow> nat \<Rightarrow> nat \<Rightarrow> nat \<Rightarrow> dimm_cmd option" where
  "alloc_msft_cmd sys dimm func in_size out_size =
     (if \<not> ndctl_dimm_is_cmd_supported dimm ND_CMD_CALL then None
      else if test_dimm_dsm dimm func = DIMM_DSM_UNSUPPORTED then None
      else let size = sizeof_dimm_cmd + sizeof_nd_pkg + in_size + out_size in
        if \<not> dy_calloc sys size then None
        else Some \<lparr>dc_type = ND_CMD_CALL, dc_size = size, dc_status = 1, dc_get = Msft_Ops,
                   dc_family = NVDIMM_FAMILY_MSFT, dc_command = of_nat func,
                   dc_size_in = of_nat in_size, dc_size_out = of_nat out_size, dc_buf = le_put 4 (0 :: u32) zero_mem 0\<rparr>)"

definition msft_dimm_cmd_new_smart :: "'d dimm_sys \<Rightarrow> dimm_dev \<Rightarrow> dimm_cmd option" where
  "msft_dimm_cmd_new_smart sys dimm = alloc_msft_cmd sys dimm NDN_MSFT_CMD_NHEALTH 0 13"

definition msft_smart_valid :: "dimm_cmd \<Rightarrow> int" where
  "msft_smart_valid cmd =
     (if dc_type cmd \<noteq> ND_CMD_CALL \<or> dc_family cmd \<noteq> NVDIMM_FAMILY_MSFT \<or> dc_command cmd \<noteq> of_nat NDN_MSFT_CMD_NHEALTH
         \<or> dc_status cmd \<noteq> 0
      then (if dc_status cmd < 0 then dc_status cmd else - EINVAL) else 0)"

definition msft_cmd_smart_get_flags :: "dimm_cmd \<Rightarrow> u32" where
  "msft_cmd_smart_get_flags cmd =
     (if msft_smart_valid cmd < 0 then UINT32_MAX
      else ND_SMART_HEALTH_VALID OR ND_SMART_MTEMP_VALID OR ND_SMART_USED_VALID OR ND_SMART_ALARM_VALID)"

definition msft_cmd_smart_get_health :: "dimm_cmd \<Rightarrow> u32" where
  "msft_cmd_smart_get_health cmd =
     (if msft_smart_valid cmd < 0 then UINT32_MAX
      else let buf = dc_buf cmd;
               health = 0;
               health = (if (le_get 1 buf 10 :: u8) = 0 then health OR ND_SMART_FATAL_HEALTH else health);
               health = (if (le_get 2 buf 4 :: u16) \<noteq> 0 \<or> (le_get 1 buf 8 :: u8) \<noteq> 0
                         then health OR ND_SMART_CRITICAL_HEALTH else health)
           in if (le_get 1 buf 9 :: u8) \<noteq> 0 then health OR ND_SMART_NON_CRITICAL_HEALTH else health)"

definition msft_cmd_smart_get_media_temperature :: "dimm_cmd \<Rightarrow> u32" where
  "msft_cmd_smart_get_media_temperature cmd =
     (if msft_smart_valid cmd < 0 then UINT32_MAX else le_get 2 (dc_buf cmd) 6 * 16)"

definition msft_cmd_smart_get_alarm_flags :: "dimm_cmd \<Rightarrow> u32" where
  "msft_cmd_smart_get_alarm_flags cmd =
     (if msft_smart_valid cmd < 0 then UINT32_MAX
      else take_flags (le_get 1 (dc_buf cmd) 8 OR le_get 1 (dc_buf cmd) 9) [(3, ND_SMART_SPARE_TRIP), (4, ND_SMART_CTEMP_TRIP)])"

definition msft_cmd_smart_get_life_used :: "dimm_cmd \<Rightarrow> u32" where
  "msft_cmd_smart_get_life_used cmd = (if msft_smart_valid cmd < 0 then UINT32_MAX else 100 - le_get 1 (dc_buf cmd) 10)"

definition msft_cmd_xlat_firmware_status :: "dimm_cmd \<Rightarrow> int" where
  "msft_cmd_xlat_firmware_status cmd =
     (let status = msft_get_firmware_status cmd AND 0xFFFF in
      if status = 0 then 0 else if status = 1 then - EOPNOTSUPP else if status = 2 then - EINVAL
      else if status = 3 then - EIO else - ENOMSG)"

subsection \<open>Hyper-V\<close>

definition ND_HYPERV_CMD_GET_HEALTH_INFO :: nat where [simp]: "ND_HYPERV_CMD_GET_HEALTH_INFO = 1"
definition ND_HYPERV_CMD_GET_SHUTDOWN_INFO :: nat where [simp]: "ND_HYPERV_CMD_GET_SHUTDOWN_INFO = 2"
definition sizeof_nd_pkg_hyperv :: nat where "sizeof_nd_pkg_hyperv = 72"

definition hyperv_get_firmware_status :: "dimm_cmd \<Rightarrow> u32" where
  "hyperv_get_firmware_status cmd = le_get 4 (dc_buf cmd) 0"

definition alloc_hyperv_cmd :: "'d dimm_sys \<Rightarrow> dimm_dev \<Rightarrow> nat \<Rightarrow> dimm_cmd option" where
  "alloc_hyperv_cmd sys dimm command =
     (if \<not> ndctl_dimm_is_cmd_supported dimm ND_CMD_CALL then None
      else if test_dimm_dsm dimm command = DIMM_DSM_UNSUPPORTED then None
      else let size = sizeof_dimm_cmd + sizeof_nd_pkg_hyperv in
        if \<not> dy_calloc sys size then None
        else Some \<lparr>dc_type = ND_CMD_CALL, dc_size = size, dc_status = 1, dc_get = Hyperv_Ops,
                   dc_family = NVDIMM_FAMILY_HYPERV, dc_command = of_nat command,
                   dc_size_in = 0, dc_size_out = 8, dc_buf = zero_mem\<rparr>)"

definition hyperv_dimm_cmd_new_smart :: "'d dimm_sys \<Rightarrow> dimm_dev \<Rightarrow> dimm_cmd option" where
  "hyperv_dimm_cmd_new_smart sys dimm = alloc_hyperv_cmd sys dimm ND_HYPERV_CMD_GET_HEALTH_INFO"

definition hyperv_cmd_valid :: "dimm_cmd \<Rightarrow> nat \<Rightarrow> int" where
  "hyperv_cmd_valid cmd command =
     (if dc_type cmd \<noteq> ND_CMD_CALL \<or> dc_size cmd \<noteq> sizeof_dimm_cmd + sizeof_nd_pkg_hyperv
         \<or> dc_family cmd \<noteq> NVDIMM_FAMILY_HYPERV \<or> dc_command cmd \<noteq> of_nat command \<or> dc_status cmd \<noteq> 0
         \<or> hyperv_get_firmware_status cmd \<noteq> 0
      then (if dc_status cmd < 0 then dc_status cmd else - EINVAL) else 0)"

definition hyperv_valid_health_info :: "dimm_cmd \<Rightarrow> int" where
  "hyperv_valid_health_info cmd = hyperv_cmd_valid cmd ND_HYPERV_CMD_GET_HEALTH_INFO"

definition hyperv_cmd_xlat_firmware_status :: "dimm_cmd \<Rightarrow> int" where
  "hyperv_cmd_xlat_firmware_status cmd = (if hyperv_get_firmware_status cmd = 0 then 0 else - EINVAL)"

text \<open>The shutdown count takes a command of its own; \<open>Inl\<close> is the error.\<close>

definition hyperv_get_shutdown_count :: "'d dimm_sys \<Rightarrow> dimm_dev \<Rightarrow> 'd \<Rightarrow> (int + u32) \<times> 'd" where
  "hyperv_get_shutdown_count sys dimm d =
     (case alloc_hyperv_cmd sys dimm ND_HYPERV_CMD_GET_SHUTDOWN_INFO of
        None \<Rightarrow> (Inl (- EINVAL), d)
      | Some cmd \<Rightarrow>
          (case submit_with_xlat hyperv_cmd_xlat_firmware_status sys cmd d of
             (rc, cmd, d) \<Rightarrow>
               if rc < 0 \<or> hyperv_cmd_valid cmd ND_HYPERV_CMD_GET_SHUTDOWN_INFO < 0 then (Inl (- EINVAL), d)
               else (Inr (le_get 4 (dc_buf cmd) 4), d)))"

definition hyperv_cmd_get_flags :: "'d dimm_sys \<Rightarrow> dimm_dev \<Rightarrow> dimm_cmd \<Rightarrow> 'd \<Rightarrow> u32 \<times> 'd" where
  "hyperv_cmd_get_flags sys dimm cmd d =
     (if hyperv_valid_health_info cmd < 0 then (0, d)
      else case hyperv_get_shutdown_count sys dimm d of
        (Inr _, d) \<Rightarrow> (ND_SMART_HEALTH_VALID OR ND_SMART_SHUTDOWN_COUNT_VALID, d)
      | (Inl _, d) \<Rightarrow> (ND_SMART_HEALTH_VALID, d))"

definition hyperv_cmd_get_health :: "dimm_cmd \<Rightarrow> u32" where
  "hyperv_cmd_get_health cmd =
     (if hyperv_valid_health_info cmd < 0 then UINT32_MAX
      else take_flags (le_get 4 (dc_buf cmd) 4 AND 0x3F)
             [(3, ND_SMART_CRITICAL_HEALTH), (4, ND_SMART_FATAL_HEALTH), (0x38, ND_SMART_NON_CRITICAL_HEALTH)])"

definition hyperv_cmd_get_shutdown_count :: "'d dimm_sys \<Rightarrow> dimm_dev \<Rightarrow> 'd \<Rightarrow> u32 \<times> 'd" where
  "hyperv_cmd_get_shutdown_count sys dimm d =
     (case hyperv_get_shutdown_count sys dimm d of (Inl _, d) \<Rightarrow> (UINT32_MAX, d) | (Inr count, d) \<Rightarrow> (count, d))"

subsection \<open>PAPR\<close>

definition PAPR_PDSM_HEALTH :: nat where [simp]: "PAPR_PDSM_HEALTH = 1"
definition PAPR_PDSM_SMART_INJECT :: nat where [simp]: "PAPR_PDSM_SMART_INJECT = 2"
definition ND_PDSM_PAYLOAD_MAX_SIZE :: nat where [simp]: "ND_PDSM_PAYLOAD_MAX_SIZE = 184"
definition ND_PDSM_HDR_SIZE :: nat where [simp]: "ND_PDSM_HDR_SIZE = 8"
definition sizeof_nd_pkg_papr :: nat where "sizeof_nd_pkg_papr = 256"

definition papr_get_firmware_status :: "dimm_cmd \<Rightarrow> u32" where
  "papr_get_firmware_status cmd = le_get 4 (dc_buf cmd) 0"

text \<open>The status is a signed error number.\<close>

definition papr_xlat_firmware_status :: "dimm_cmd \<Rightarrow> int" where
  "papr_xlat_firmware_status cmd = (if dc_type cmd = ND_CMD_CALL then sint (papr_get_firmware_status cmd) else 0)"

definition cmd_is_valid :: "dimm_cmd \<Rightarrow> bool" where
  "cmd_is_valid cmd \<longleftrightarrow> dc_family cmd = NVDIMM_FAMILY_PAPR \<and> 0 < dc_command cmd \<and> dc_command cmd < 3"

definition allocate_cmd :: "'d dimm_sys \<Rightarrow> nat \<Rightarrow> nat \<Rightarrow> dimm_cmd option" where
  "allocate_cmd sys pdsm_cmd payload_size =
     (if payload_size > ND_PDSM_PAYLOAD_MAX_SIZE then None
      else if \<not> dy_calloc sys (sizeof_dimm_cmd + sizeof_nd_pkg_papr) then None
      else Some \<lparr>dc_type = ND_CMD_CALL, dc_size = 0, dc_status = 0, dc_get = Papr_Ops,
                 dc_family = NVDIMM_FAMILY_PAPR, dc_command = of_nat pdsm_cmd,
                 dc_size_in = 0, dc_size_out = of_nat (ND_PDSM_HDR_SIZE + payload_size), dc_buf = zero_mem\<rparr>)"

text \<open>The flags of the DIMM are bit fields of one bit.\<close>

definition update_dimm_flags :: "dimm_dev \<Rightarrow> mem \<Rightarrow> dimm_dev" where
  "update_dimm_flags dimm buf =
     dimm\<lparr>dm_f_arm := bit (buf 12) 0, dm_f_flush := bit (buf 13) 0, dm_f_restore := bit (buf 14) 0,
          dm_f_smart := (le_get 2 buf 18 :: u16) \<noteq> 0\<rparr>"

text \<open>What the accessors of the health payload require; the return value of the submission is not among it.\<close>

definition papr_health_ready :: "dimm_cmd \<Rightarrow> bool" where
  "papr_health_ready cmd \<longleftrightarrow>
     cmd_is_valid cmd \<and> papr_get_firmware_status cmd = 0 \<and> dc_command cmd = of_nat PAPR_PDSM_HEALTH"

definition papr_smart_get_flags :: "dimm_dev \<Rightarrow> dimm_cmd \<Rightarrow> u32 \<times> dimm_dev" where
  "papr_smart_get_flags dimm cmd =
     (if \<not> cmd_is_valid cmd then (0, dimm)
      else if papr_get_firmware_status cmd \<noteq> 0 then (0, dimm)
      else if dc_command cmd = of_nat PAPR_PDSM_HEALTH then
        (let ext = le_get 4 (dc_buf cmd) 8 in
         (ND_SMART_HEALTH_VALID OR ND_SMART_SHUTDOWN_VALID
            OR take_flags ext [(1, ND_SMART_USED_VALID), (2, ND_SMART_SHUTDOWN_COUNT_VALID)],
          update_dimm_flags dimm (dc_buf cmd)))
      else (0, dimm))"

definition papr_new_smart_health :: "'d dimm_sys \<Rightarrow> dimm_cmd option" where
  "papr_new_smart_health sys = allocate_cmd sys PAPR_PDSM_HEALTH 184"

text \<open>\<open>1 << (health - 1)\<close>; a shift past the sign bit is undefined, \<open>None\<close>.\<close>

definition papr_smart_get_health :: "dimm_cmd \<Rightarrow> u32 option" where
  "papr_smart_get_health cmd =
     (if \<not> papr_health_ready cmd then Some 0
      else let health = unat (le_get 2 (dc_buf cmd) 18 :: u16) in
        if health = 0 then Some 0 else if 31 < health then None else Some (push_bit (health - 1) 1))"

definition papr_smart_get_shutdown_state :: "dimm_cmd \<Rightarrow> u32" where
  "papr_smart_get_shutdown_state cmd = (if \<not> papr_health_ready cmd then 0 else le_get 1 (dc_buf cmd) 13)"

definition papr_smart_inject_supported :: "dimm_dev \<Rightarrow> int" where
  "papr_smart_inject_supported dimm =
     (if \<not> ndctl_dimm_is_cmd_supported dimm ND_CMD_CALL then - EOPNOTSUPP
      else if test_dimm_dsm dimm PAPR_PDSM_SMART_INJECT = DIMM_DSM_UNSUPPORTED then - EIO
      else uint (ND_SMART_INJECT_HEALTH_STATE OR ND_SMART_INJECT_UNCLEAN_SHUTDOWN))"

definition papr_smart_inject_valid :: "dimm_cmd \<Rightarrow> int" where
  "papr_smart_inject_valid cmd =
     (if dc_type cmd \<noteq> ND_CMD_CALL \<or> papr_get_firmware_status cmd \<noteq> 0 \<or> dc_command cmd \<noteq> of_nat PAPR_PDSM_SMART_INJECT
      then - EINVAL else 0)"

definition papr_new_smart_inject :: "'d dimm_sys \<Rightarrow> dimm_cmd option" where
  "papr_new_smart_inject sys =
     (case allocate_cmd sys PAPR_PDSM_SMART_INJECT 184 of
        None \<Rightarrow> None
      | Some cmd \<Rightarrow> Some (cmd\<lparr>dc_size_in := of_nat (ND_PDSM_HDR_SIZE + 184)\<rparr>))"

definition papr_smart_get_life_used :: "dimm_cmd \<Rightarrow> u32" where
  "papr_smart_get_life_used cmd =
     (if \<not> papr_health_ready cmd then 0
      else if bit (le_get 4 (dc_buf cmd) 8 :: u32) 0 then 100 - le_get 2 (dc_buf cmd) 20 else 0)"

definition papr_smart_get_shutdown_count :: "dimm_cmd \<Rightarrow> u32" where
  "papr_smart_get_shutdown_count cmd =
     (if \<not> papr_health_ready cmd then 0
      else if bit (le_get 4 (dc_buf cmd) 8 :: u32) 1 then ucast (le_get 8 (dc_buf cmd) 24 :: u64) else 0)"

definition papr_inject :: "u32 \<Rightarrow> nat \<Rightarrow> dimm_cmd \<Rightarrow> bool \<Rightarrow> int \<times> dimm_cmd" where
  "papr_inject flag ofs cmd enable =
     (if papr_smart_inject_valid cmd < 0 then (- EINVAL, cmd)
      else (0, cmd\<lparr>dc_buf := le_put 1 (of_bool enable :: u8)
                 (le_put 4 ((le_get 4 (dc_buf cmd) 8 :: u32) OR flag) (dc_buf cmd) 8) ofs\<rparr>))"

definition papr_cmd_smart_inject_fatal :: "dimm_cmd \<Rightarrow> bool \<Rightarrow> int \<times> dimm_cmd" where
  "papr_cmd_smart_inject_fatal = papr_inject 1 12"

definition papr_cmd_smart_inject_unsafe_shutdown :: "dimm_cmd \<Rightarrow> bool \<Rightarrow> int \<times> dimm_cmd" where
  "papr_cmd_smart_inject_unsafe_shutdown = papr_inject 2 13"

end
