(* ===== verification/Smart_Cmd.thy ===== *)
theory Smart_Cmd
  imports Complex_Main Vendor_Cmd
begin

text \<open>
  The vendor-independent interface to SMART data and firmware updates: \<open>ndctl/lib/smart.c\<close>, \<open>ndctl/lib/firmware.c\<close>, the
  encoding of temperatures and \<open>ndctl_cmd_submit_xlat\<close> of \<open>ndctl/lib/libndctl.c\<close>.  A wrapper calls the operation of the DIMM's
  vendor, or returns a default when the vendor has none.
\<close>

subsection \<open>Submission with translated status\<close>

definition dimm_xlat_firmware_status :: "dimm_dev \<Rightarrow> dimm_cmd \<Rightarrow> int" where
  "dimm_xlat_firmware_status dimm cmd =
     (case dm_ops dimm of
        Intel_Ops \<Rightarrow> intel_cmd_xlat_firmware_status cmd
      | Msft_Ops \<Rightarrow> msft_cmd_xlat_firmware_status cmd
      | Hyperv_Ops \<Rightarrow> hyperv_cmd_xlat_firmware_status cmd
      | Papr_Ops \<Rightarrow> papr_xlat_firmware_status cmd
      | _ \<Rightarrow> 0)"

definition dimm_submit_xlat :: "'d dimm_sys \<Rightarrow> dimm_dev \<Rightarrow> dimm_cmd \<Rightarrow> 'd \<Rightarrow> int \<times> dimm_cmd \<times> 'd" where
  "dimm_submit_xlat sys dimm = submit_with_xlat (dimm_xlat_firmware_status dimm) sys"

subsection \<open>SMART data and thresholds\<close>

definition ndctl_dimm_cmd_new_smart :: "'d dimm_sys \<Rightarrow> dimm_dev \<Rightarrow> dimm_cmd option" where
  "ndctl_dimm_cmd_new_smart sys dimm =
     (case dm_ops dimm of
        Intel_Ops \<Rightarrow> intel_dimm_cmd_new_smart sys dimm
      | Hpe1_Ops \<Rightarrow> hpe1_dimm_cmd_new_smart sys dimm
      | Msft_Ops \<Rightarrow> msft_dimm_cmd_new_smart sys dimm
      | Hyperv_Ops \<Rightarrow> hyperv_dimm_cmd_new_smart sys dimm
      | Papr_Ops \<Rightarrow> papr_new_smart_health sys
      | No_Ops \<Rightarrow> None)"

definition ndctl_dimm_cmd_new_smart_threshold :: "'d dimm_sys \<Rightarrow> dimm_dev \<Rightarrow> dimm_cmd option" where
  "ndctl_dimm_cmd_new_smart_threshold sys dimm =
     (case dm_ops dimm of
        Intel_Ops \<Rightarrow> intel_dimm_cmd_new_smart_threshold sys dimm
      | Hpe1_Ops \<Rightarrow> hpe1_dimm_cmd_new_smart_threshold sys dimm
      | _ \<Rightarrow> None)"

definition ndctl_dimm_cmd_new_smart_set_threshold :: "'d dimm_sys \<Rightarrow> dimm_dev \<Rightarrow> dimm_cmd \<Rightarrow> dimm_cmd option" where
  "ndctl_dimm_cmd_new_smart_set_threshold sys dimm cmd =
     (case dm_ops dimm of Intel_Ops \<Rightarrow> intel_dimm_cmd_new_smart_set_threshold sys dimm cmd | _ \<Rightarrow> None)"

text \<open>Reading the flags may send a command (Hyper-V) or update the flags of the DIMM (PAPR).\<close>

definition ndctl_cmd_smart_get_flags :: "'d dimm_sys \<Rightarrow> dimm_dev \<Rightarrow> dimm_cmd \<Rightarrow> 'd \<Rightarrow> u32 \<times> dimm_dev \<times> 'd" where
  "ndctl_cmd_smart_get_flags sys dimm cmd d =
     (case dm_ops dimm of
        Intel_Ops \<Rightarrow> (intel_cmd_smart_get_flags cmd, dimm, d)
      | Hpe1_Ops \<Rightarrow> (hpe1_cmd_smart_get_flags cmd, dimm, d)
      | Msft_Ops \<Rightarrow> (msft_cmd_smart_get_flags cmd, dimm, d)
      | Hyperv_Ops \<Rightarrow> (case hyperv_cmd_get_flags sys dimm cmd d of (flags, d) \<Rightarrow> (flags, dimm, d))
      | Papr_Ops \<Rightarrow> (case papr_smart_get_flags dimm cmd of (flags, dimm) \<Rightarrow> (flags, dimm, d))
      | No_Ops \<Rightarrow> (0, dimm, d))"

definition ndctl_cmd_smart_get_health :: "dimm_dev \<Rightarrow> dimm_cmd \<Rightarrow> u32 option" where
  "ndctl_cmd_smart_get_health dimm cmd =
     (case dm_ops dimm of
        Intel_Ops \<Rightarrow> Some (intel_cmd_smart_get_health cmd)
      | Hpe1_Ops \<Rightarrow> Some (hpe1_cmd_smart_get_health cmd)
      | Msft_Ops \<Rightarrow> Some (msft_cmd_smart_get_health cmd)
      | Hyperv_Ops \<Rightarrow> Some (hyperv_cmd_get_health cmd)
      | Papr_Ops \<Rightarrow> papr_smart_get_health cmd
      | No_Ops \<Rightarrow> Some 0)"

definition ndctl_cmd_smart_get_media_temperature :: "dimm_dev \<Rightarrow> dimm_cmd \<Rightarrow> u32" where
  "ndctl_cmd_smart_get_media_temperature dimm cmd =
     (case dm_ops dimm of Intel_Ops \<Rightarrow> intel_cmd_smart_get_media_temperature cmd | Hpe1_Ops \<Rightarrow> hpe1_cmd_smart_get_media_temperature cmd | Msft_Ops \<Rightarrow> msft_cmd_smart_get_media_temperature cmd | _ \<Rightarrow> 0)"

definition ndctl_cmd_smart_get_ctrl_temperature :: "dimm_dev \<Rightarrow> dimm_cmd \<Rightarrow> u32" where
  "ndctl_cmd_smart_get_ctrl_temperature dimm cmd =
     (case dm_ops dimm of Intel_Ops \<Rightarrow> intel_cmd_smart_get_ctrl_temperature cmd | _ \<Rightarrow> 0)"

definition ndctl_cmd_smart_get_spares :: "dimm_dev \<Rightarrow> dimm_cmd \<Rightarrow> u32" where
  "ndctl_cmd_smart_get_spares dimm cmd =
     (case dm_ops dimm of Intel_Ops \<Rightarrow> intel_cmd_smart_get_spares cmd | Hpe1_Ops \<Rightarrow> hpe1_cmd_smart_get_spares cmd | _ \<Rightarrow> 0)"

definition ndctl_cmd_smart_get_alarm_flags :: "dimm_dev \<Rightarrow> dimm_cmd \<Rightarrow> u32" where
  "ndctl_cmd_smart_get_alarm_flags dimm cmd =
     (case dm_ops dimm of Intel_Ops \<Rightarrow> intel_cmd_smart_get_alarm_flags cmd | Hpe1_Ops \<Rightarrow> hpe1_cmd_smart_get_alarm_flags cmd | Msft_Ops \<Rightarrow> msft_cmd_smart_get_alarm_flags cmd | _ \<Rightarrow> 0)"

definition ndctl_cmd_smart_get_life_used :: "dimm_dev \<Rightarrow> dimm_cmd \<Rightarrow> u32" where
  "ndctl_cmd_smart_get_life_used dimm cmd =
     (case dm_ops dimm of Intel_Ops \<Rightarrow> intel_cmd_smart_get_life_used cmd | Hpe1_Ops \<Rightarrow> hpe1_cmd_smart_get_life_used cmd | Msft_Ops \<Rightarrow> msft_cmd_smart_get_life_used cmd | Papr_Ops \<Rightarrow> papr_smart_get_life_used cmd | _ \<Rightarrow> 0)"

definition ndctl_cmd_smart_get_shutdown_state :: "dimm_dev \<Rightarrow> dimm_cmd \<Rightarrow> u32" where
  "ndctl_cmd_smart_get_shutdown_state dimm cmd =
     (case dm_ops dimm of Intel_Ops \<Rightarrow> intel_cmd_smart_get_shutdown_state cmd | Hpe1_Ops \<Rightarrow> hpe1_cmd_smart_get_shutdown_state cmd | Papr_Ops \<Rightarrow> papr_smart_get_shutdown_state cmd | _ \<Rightarrow> 0)"

definition ndctl_cmd_smart_get_vendor_size :: "dimm_dev \<Rightarrow> dimm_cmd \<Rightarrow> u32" where
  "ndctl_cmd_smart_get_vendor_size dimm cmd =
     (case dm_ops dimm of Intel_Ops \<Rightarrow> intel_cmd_smart_get_vendor_size cmd | Hpe1_Ops \<Rightarrow> hpe1_cmd_smart_get_vendor_size cmd | _ \<Rightarrow> 0)"

definition ndctl_cmd_smart_get_shutdown_count :: "'d dimm_sys \<Rightarrow> dimm_dev \<Rightarrow> dimm_cmd \<Rightarrow> 'd \<Rightarrow> u32 \<times> 'd" where
  "ndctl_cmd_smart_get_shutdown_count sys dimm cmd d =
     (case dm_ops dimm of
        Intel_Ops \<Rightarrow> (intel_cmd_smart_get_shutdown_count cmd, d)
      | Hyperv_Ops \<Rightarrow> hyperv_cmd_get_shutdown_count sys dimm d
      | Papr_Ops \<Rightarrow> (papr_smart_get_shutdown_count cmd, d)
      | _ \<Rightarrow> (0, d))"

definition ndctl_cmd_smart_get_vendor_data :: "dimm_dev \<Rightarrow> dimm_cmd \<Rightarrow> u8 list option" where
  "ndctl_cmd_smart_get_vendor_data dimm cmd =
     (case dm_ops dimm of
        Intel_Ops \<Rightarrow> intel_cmd_smart_get_vendor_data cmd
      | Hpe1_Ops \<Rightarrow> hpe1_cmd_smart_get_vendor_data cmd
      | _ \<Rightarrow> None)"

definition ndctl_cmd_smart_get_temperature :: "dimm_dev \<Rightarrow> dimm_cmd \<Rightarrow> u32" where
  "ndctl_cmd_smart_get_temperature = ndctl_cmd_smart_get_media_temperature"

definition ndctl_cmd_smart_threshold_get_alarm_control :: "dimm_dev \<Rightarrow> dimm_cmd \<Rightarrow> u32" where
  "ndctl_cmd_smart_threshold_get_alarm_control dimm cmd =
     (case dm_ops dimm of Intel_Ops \<Rightarrow> intel_cmd_smart_threshold_get_alarm_control cmd | Hpe1_Ops \<Rightarrow> hpe1_cmd_smart_threshold_get_alarm_control cmd | _ \<Rightarrow> 0)"

definition ndctl_cmd_smart_threshold_get_media_temperature :: "dimm_dev \<Rightarrow> dimm_cmd \<Rightarrow> u32" where
  "ndctl_cmd_smart_threshold_get_media_temperature dimm cmd =
     (case dm_ops dimm of Intel_Ops \<Rightarrow> intel_cmd_smart_threshold_get_media_temperature cmd | Hpe1_Ops \<Rightarrow> hpe1_cmd_smart_threshold_get_media_temperature cmd | _ \<Rightarrow> 0)"

definition ndctl_cmd_smart_threshold_get_ctrl_temperature :: "dimm_dev \<Rightarrow> dimm_cmd \<Rightarrow> u32" where
  "ndctl_cmd_smart_threshold_get_ctrl_temperature dimm cmd =
     (case dm_ops dimm of Intel_Ops \<Rightarrow> intel_cmd_smart_threshold_get_ctrl_temperature cmd | _ \<Rightarrow> 0)"

definition ndctl_cmd_smart_threshold_get_spares :: "dimm_dev \<Rightarrow> dimm_cmd \<Rightarrow> u32" where
  "ndctl_cmd_smart_threshold_get_spares dimm cmd =
     (case dm_ops dimm of Intel_Ops \<Rightarrow> intel_cmd_smart_threshold_get_spares cmd | Hpe1_Ops \<Rightarrow> hpe1_cmd_smart_threshold_get_spares cmd | _ \<Rightarrow> 0)"

definition ndctl_cmd_smart_threshold_get_supported_alarms :: "dimm_dev \<Rightarrow> dimm_cmd \<Rightarrow> u32" where
  "ndctl_cmd_smart_threshold_get_supported_alarms dimm cmd =
     (case dm_ops dimm of Intel_Ops \<Rightarrow> intel_cmd_smart_threshold_get_supported_alarms cmd | _ \<Rightarrow> 0)"

definition ndctl_cmd_smart_threshold_get_temperature :: "dimm_dev \<Rightarrow> dimm_cmd \<Rightarrow> u32" where
  "ndctl_cmd_smart_threshold_get_temperature = ndctl_cmd_smart_threshold_get_media_temperature"

text \<open>A setter returns a result code and the changed command.\<close>

definition ndctl_cmd_smart_threshold_set_alarm_control :: "dimm_dev \<Rightarrow> dimm_cmd \<Rightarrow> u32 \<Rightarrow> int \<times> dimm_cmd" where
  "ndctl_cmd_smart_threshold_set_alarm_control dimm cmd val =
     (case dm_ops dimm of Intel_Ops \<Rightarrow> intel_cmd_smart_threshold_set_alarm_control cmd val | _ \<Rightarrow> (- ENXIO, cmd))"

definition ndctl_cmd_smart_threshold_set_media_temperature :: "dimm_dev \<Rightarrow> dimm_cmd \<Rightarrow> u32 \<Rightarrow> int \<times> dimm_cmd" where
  "ndctl_cmd_smart_threshold_set_media_temperature dimm cmd val =
     (case dm_ops dimm of Intel_Ops \<Rightarrow> intel_cmd_smart_threshold_set_media_temperature cmd val | _ \<Rightarrow> (- ENXIO, cmd))"

definition ndctl_cmd_smart_threshold_set_ctrl_temperature :: "dimm_dev \<Rightarrow> dimm_cmd \<Rightarrow> u32 \<Rightarrow> int \<times> dimm_cmd" where
  "ndctl_cmd_smart_threshold_set_ctrl_temperature dimm cmd val =
     (case dm_ops dimm of Intel_Ops \<Rightarrow> intel_cmd_smart_threshold_set_ctrl_temperature cmd val | _ \<Rightarrow> (- ENXIO, cmd))"

definition ndctl_cmd_smart_threshold_set_spares :: "dimm_dev \<Rightarrow> dimm_cmd \<Rightarrow> u32 \<Rightarrow> int \<times> dimm_cmd" where
  "ndctl_cmd_smart_threshold_set_spares dimm cmd val =
     (case dm_ops dimm of Intel_Ops \<Rightarrow> intel_cmd_smart_threshold_set_spares cmd val | _ \<Rightarrow> (- ENXIO, cmd))"

definition ndctl_cmd_smart_threshold_set_temperature :: "dimm_dev \<Rightarrow> dimm_cmd \<Rightarrow> u32 \<Rightarrow> int \<times> dimm_cmd" where
  "ndctl_cmd_smart_threshold_set_temperature = ndctl_cmd_smart_threshold_set_media_temperature"

subsection \<open>SMART injection\<close>

definition ndctl_dimm_cmd_new_smart_inject :: "'d dimm_sys \<Rightarrow> dimm_dev \<Rightarrow> dimm_cmd option" where
  "ndctl_dimm_cmd_new_smart_inject sys dimm =
     (case dm_ops dimm of Intel_Ops \<Rightarrow> intel_new_smart_inject sys dimm | Papr_Ops \<Rightarrow> papr_new_smart_inject sys | _ \<Rightarrow> None)"

definition ndctl_cmd_smart_inject_media_temperature :: "dimm_dev \<Rightarrow> dimm_cmd \<Rightarrow> bool \<Rightarrow> u32 \<Rightarrow> int \<times> dimm_cmd" where
  "ndctl_cmd_smart_inject_media_temperature dimm cmd enable val =
     (case dm_ops dimm of Intel_Ops \<Rightarrow> intel_cmd_smart_inject_media_temperature cmd enable val | _ \<Rightarrow> (- ENXIO, cmd))"

text \<open>No vendor implements the injection of a controller temperature.\<close>

definition ndctl_cmd_smart_inject_ctrl_temperature :: "dimm_dev \<Rightarrow> dimm_cmd \<Rightarrow> bool \<Rightarrow> u32 \<Rightarrow> int \<times> dimm_cmd" where
  "ndctl_cmd_smart_inject_ctrl_temperature dimm cmd enable val = (- ENXIO, cmd)"

definition ndctl_cmd_smart_inject_spares :: "dimm_dev \<Rightarrow> dimm_cmd \<Rightarrow> bool \<Rightarrow> u32 \<Rightarrow> int \<times> dimm_cmd" where
  "ndctl_cmd_smart_inject_spares dimm cmd enable val =
     (case dm_ops dimm of Intel_Ops \<Rightarrow> intel_cmd_smart_inject_spares cmd enable val | _ \<Rightarrow> (- ENXIO, cmd))"

definition ndctl_cmd_smart_inject_fatal :: "dimm_dev \<Rightarrow> dimm_cmd \<Rightarrow> bool \<Rightarrow> int \<times> dimm_cmd" where
  "ndctl_cmd_smart_inject_fatal dimm cmd enable =
     (case dm_ops dimm of
        Intel_Ops \<Rightarrow> intel_cmd_smart_inject_fatal cmd enable
      | Papr_Ops \<Rightarrow> papr_cmd_smart_inject_fatal cmd enable
      | _ \<Rightarrow> (- ENXIO, cmd))"

definition ndctl_cmd_smart_inject_unsafe_shutdown :: "dimm_dev \<Rightarrow> dimm_cmd \<Rightarrow> bool \<Rightarrow> int \<times> dimm_cmd" where
  "ndctl_cmd_smart_inject_unsafe_shutdown dimm cmd enable =
     (case dm_ops dimm of
        Intel_Ops \<Rightarrow> intel_cmd_smart_inject_unsafe_shutdown cmd enable
      | Papr_Ops \<Rightarrow> papr_cmd_smart_inject_unsafe_shutdown cmd enable
      | _ \<Rightarrow> (- ENXIO, cmd))"

definition ndctl_dimm_cmd_new_ack_shutdown_count :: "'d dimm_sys \<Rightarrow> dimm_dev \<Rightarrow> dimm_cmd option" where
  "ndctl_dimm_cmd_new_ack_shutdown_count sys dimm =
     (case dm_ops dimm of Intel_Ops \<Rightarrow> intel_dimm_cmd_new_lss sys dimm | _ \<Rightarrow> None)"

definition ndctl_dimm_smart_inject_supported :: "dimm_dev \<Rightarrow> int" where
  "ndctl_dimm_smart_inject_supported dimm =
     (case dm_ops dimm of
        Intel_Ops \<Rightarrow> intel_dimm_smart_inject_supported dimm
      | Papr_Ops \<Rightarrow> papr_smart_inject_supported dimm
      | _ \<Rightarrow> - ENOTTY)"

subsection \<open>Firmware update\<close>

definition ndctl_dimm_cmd_new_fw_get_info :: "'d dimm_sys \<Rightarrow> dimm_dev \<Rightarrow> dimm_cmd option" where
  "ndctl_dimm_cmd_new_fw_get_info sys dimm =
     (case dm_ops dimm of Intel_Ops \<Rightarrow> intel_dimm_cmd_new_fw_get_info sys dimm | _ \<Rightarrow> None)"

definition ndctl_dimm_cmd_new_fw_start_update :: "'d dimm_sys \<Rightarrow> dimm_dev \<Rightarrow> dimm_cmd option" where
  "ndctl_dimm_cmd_new_fw_start_update sys dimm =
     (case dm_ops dimm of Intel_Ops \<Rightarrow> intel_dimm_cmd_new_fw_start sys dimm | _ \<Rightarrow> None)"

definition ndctl_dimm_cmd_new_fw_send :: "'d dimm_sys \<Rightarrow> dimm_dev \<Rightarrow> dimm_cmd \<Rightarrow> u32 \<Rightarrow> u32 \<Rightarrow> u8 list \<Rightarrow> dimm_cmd option" where
  "ndctl_dimm_cmd_new_fw_send sys dimm start offset len data =
     (case dm_ops dimm of Intel_Ops \<Rightarrow> intel_dimm_cmd_new_fw_send sys dimm start offset len data | _ \<Rightarrow> None)"

definition ndctl_dimm_cmd_new_fw_finish :: "'d dimm_sys \<Rightarrow> dimm_dev \<Rightarrow> dimm_cmd \<Rightarrow> dimm_cmd option" where
  "ndctl_dimm_cmd_new_fw_finish sys dimm start =
     (case dm_ops dimm of Intel_Ops \<Rightarrow> intel_dimm_cmd_new_fw_finish sys dimm start | _ \<Rightarrow> None)"

definition ndctl_dimm_cmd_new_fw_abort :: "'d dimm_sys \<Rightarrow> dimm_dev \<Rightarrow> dimm_cmd \<Rightarrow> dimm_cmd option" where
  "ndctl_dimm_cmd_new_fw_abort sys dimm start =
     (case dm_ops dimm of Intel_Ops \<Rightarrow> intel_dimm_cmd_new_fw_abort sys dimm start | _ \<Rightarrow> None)"

definition ndctl_dimm_cmd_new_fw_finish_query :: "'d dimm_sys \<Rightarrow> dimm_dev \<Rightarrow> dimm_cmd \<Rightarrow> dimm_cmd option" where
  "ndctl_dimm_cmd_new_fw_finish_query sys dimm start =
     (case dm_ops dimm of Intel_Ops \<Rightarrow> intel_dimm_cmd_new_fw_finish_query sys dimm start | _ \<Rightarrow> None)"

definition ndctl_cmd_fw_info_get_storage_size :: "dimm_dev \<Rightarrow> dimm_cmd \<Rightarrow> u32" where
  "ndctl_cmd_fw_info_get_storage_size dimm cmd = (case dm_ops dimm of Intel_Ops \<Rightarrow> intel_cmd_fw_info_get_storage_size cmd | _ \<Rightarrow> 0)"

definition ndctl_cmd_fw_info_get_max_send_len :: "dimm_dev \<Rightarrow> dimm_cmd \<Rightarrow> u32" where
  "ndctl_cmd_fw_info_get_max_send_len dimm cmd = (case dm_ops dimm of Intel_Ops \<Rightarrow> intel_cmd_fw_info_get_max_send_len cmd | _ \<Rightarrow> 0)"

definition ndctl_cmd_fw_info_get_query_interval :: "dimm_dev \<Rightarrow> dimm_cmd \<Rightarrow> u32" where
  "ndctl_cmd_fw_info_get_query_interval dimm cmd = (case dm_ops dimm of Intel_Ops \<Rightarrow> intel_cmd_fw_info_get_query_interval cmd | _ \<Rightarrow> 0)"

definition ndctl_cmd_fw_info_get_max_query_time :: "dimm_dev \<Rightarrow> dimm_cmd \<Rightarrow> u32" where
  "ndctl_cmd_fw_info_get_max_query_time dimm cmd = (case dm_ops dimm of Intel_Ops \<Rightarrow> intel_cmd_fw_info_get_max_query_time cmd | _ \<Rightarrow> 0)"

definition ndctl_cmd_fw_info_get_run_version :: "dimm_dev \<Rightarrow> dimm_cmd \<Rightarrow> u64" where
  "ndctl_cmd_fw_info_get_run_version dimm cmd = (case dm_ops dimm of Intel_Ops \<Rightarrow> intel_cmd_fw_info_get_run_version cmd | _ \<Rightarrow> 0)"

definition ndctl_cmd_fw_info_get_updated_version :: "dimm_dev \<Rightarrow> dimm_cmd \<Rightarrow> u64" where
  "ndctl_cmd_fw_info_get_updated_version dimm cmd = (case dm_ops dimm of Intel_Ops \<Rightarrow> intel_cmd_fw_info_get_updated_version cmd | _ \<Rightarrow> 0)"

definition ndctl_cmd_fw_start_get_context :: "dimm_dev \<Rightarrow> dimm_cmd \<Rightarrow> u32" where
  "ndctl_cmd_fw_start_get_context dimm cmd = (case dm_ops dimm of Intel_Ops \<Rightarrow> intel_cmd_fw_start_get_context cmd | _ \<Rightarrow> 0)"

definition ndctl_cmd_fw_fquery_get_fw_rev :: "dimm_dev \<Rightarrow> dimm_cmd \<Rightarrow> u64" where
  "ndctl_cmd_fw_fquery_get_fw_rev dimm cmd = (case dm_ops dimm of Intel_Ops \<Rightarrow> intel_cmd_fw_fquery_get_fw_rev cmd | _ \<Rightarrow> 0)"

definition ndctl_cmd_fw_xlat_firmware_status :: "dimm_dev \<Rightarrow> dimm_cmd \<Rightarrow> fw_status" where
  "ndctl_cmd_fw_xlat_firmware_status dimm cmd =
     (case dm_ops dimm of Intel_Ops \<Rightarrow> intel_cmd_fw_xlat_firmware_status cmd | _ \<Rightarrow> FW_EUNKNOWN)"

definition ndctl_dimm_fw_update_supported :: "dimm_dev \<Rightarrow> int" where
  "ndctl_dimm_fw_update_supported dimm =
     (case dm_ops dimm of Intel_Ops \<Rightarrow> intel_dimm_fw_update_supported dimm | _ \<Rightarrow> - ENOTTY)"

subsection \<open>Temperatures\<close>

text \<open>A \<open>double\<close>: a finite one is a rational number.  \<open>Huge\<close> is an overflow of either sign.\<close>

datatype c_double = Num rat | Huge | NaN

definition ndctl_decode_smart_temperature :: "u32 \<Rightarrow> rat" where
  "ndctl_decode_smart_temperature temp =
     (let negative = bit temp 15;
          t = of_nat (unat (unset_bit 15 temp)) / 16
      in if negative then t * - 1 else t)"

text \<open>\<open>None\<close> is a conversion to \<open>unsigned int\<close> that C leaves undefined.\<close>

definition ndctl_encode_smart_temperature :: "c_double \<Rightarrow> u32 option" where
  "ndctl_encode_smart_temperature temp =
     (case temp of
        Num temp \<Rightarrow>
          (let negative = temp < 0;
               temp = (if negative then temp * - 1 else temp)
           in if 2 ^ 32 \<le> temp then None
              else let t = of_int \<lfloor>temp\<rfloor> * 16 in Some (if negative then set_bit 15 t else t))
      | _ \<Rightarrow> None)"

subsection \<open>Translated flags\<close>

lemma take_flags_nil [simp]: "take_flags w [] = 0"
  by (simp add: take_flags_def)

lemma fold_flags:
  "fold (\<lambda>(from, to) flags. if w AND from \<noteq> 0 then flags OR to else flags) fs acc = acc OR take_flags w fs" for w :: u32
proof (induction fs arbitrary: acc)
  case (Cons f fs)
  let ?F = "\<lambda>(from, to) flags. if w AND from \<noteq> 0 then flags OR to else flags"
  have "fold ?F (f # fs) acc = ?F f acc OR take_flags w fs"
    using Cons [of "?F f acc"] by (simp only: fold_simps)
  moreover have "take_flags w (f # fs) = ?F f 0 OR take_flags w fs"
    using Cons [of "?F f 0"] by (simp only: take_flags_def [of w "f # fs"] fold_simps)
  ultimately show ?case by (cases f) (simp add: or.assoc)
qed (simp add: take_flags_def)

lemma take_flags_cons: "take_flags w ((a, b) # fs) = (if w AND a \<noteq> 0 then b else 0) OR take_flags w fs"
proof -
  have "take_flags w ((a, b) # fs)
      = fold (\<lambda>(from, to) flags. if w AND from \<noteq> 0 then flags OR to else flags) fs (if w AND a \<noteq> 0 then b else 0)"
    by (simp add: take_flags_def)
  then show ?thesis by (simp only: fold_flags)
qed

lemma keep_flag: "(if w AND 2 ^ n \<noteq> 0 then 2 ^ n else 0) = (w AND 2 ^ n :: u32)"
proof -
  have "w AND 2 ^ n = (if bit w n then 2 ^ n else 0)" by (rule bit_word_eqI) (auto simp: bit_simps)
  then show ?thesis by simp
qed

text \<open>A table that maps bits to themselves cuts out these bits.\<close>

lemma take_flags_same: "take_flags w (map (\<lambda>n. (2 ^ n, 2 ^ n)) ns) = w AND foldr (\<lambda>n m. 2 ^ n OR m) ns 0"
proof (induction ns)
  case (Cons n ns)
  then show ?case
    by (simp only: list.map take_flags_cons keep_flag bit.conj_disj_distrib foldr.simps comp_def)
qed simp

lemma intel_smart_flags_bits: "intel_smart_flags = map (\<lambda>n. (2 ^ n, 2 ^ n)) [0, 1, 2, 3, 4, 5, 6, 7, 9, 10, 11]"
  by (simp add: intel_smart_flags_def)

lemma three_flags: "take_flags w [(1, 1), (2, 2), (4, 4)] = w AND 7"
  using take_flags_same [of w "[0, 1, 2]"] by simp

text \<open>The flags, the health and the alarms that an Intel DIMM reports are passed on bit for bit; reserved bits are
  dropped.\<close>

theorem intel_flags_exact:
  assumes "intel_smart_valid cmd = 0"
  shows "intel_cmd_smart_get_flags cmd = le_get 4 (dc_buf cmd) 4 AND 0xEFF"
    and "intel_cmd_smart_get_health cmd = le_get 1 (dc_buf cmd) 12 AND 7"
proof -
  have "take_flags w intel_smart_flags = w AND 0xEFF" for w
    using take_flags_same [of w "[0, 1, 2, 3, 4, 5, 6, 7, 9, 10, 11]"] by (simp add: intel_smart_flags_bits)
  then show "intel_cmd_smart_get_flags cmd = le_get 4 (dc_buf cmd) 4 AND 0xEFF"
    using assms by (simp add: intel_cmd_smart_get_flags_def)
  show "intel_cmd_smart_get_health cmd = le_get 1 (dc_buf cmd) 12 AND 7"
    using assms by (simp add: intel_cmd_smart_get_health_def three_flags)
qed

text \<open>A health command as an Intel DIMM answers it: the health and the spares are valid, a non-critical condition holds.\<close>

definition demo_smart :: dimm_cmd where
  "demo_smart =
     \<lparr>dc_type = ND_CMD_CALL, dc_size = 452, dc_status = 0, dc_get = Intel_Ops, dc_family = NVDIMM_FAMILY_INTEL,
      dc_command = 1, dc_size_in = 0, dc_size_out = 132,
      dc_buf = le_put 1 (0x81 :: u8) (le_put 4 (0x103 :: u32) zero_mem 4) 12\<rparr>"

theorem intel_flags_exact_witness:
  "intel_cmd_smart_get_flags demo_smart = ND_SMART_HEALTH_VALID OR ND_SMART_SPARES_VALID"
  "intel_cmd_smart_get_health demo_smart = ND_SMART_NON_CRITICAL_HEALTH"
proof -
  have v: "intel_smart_valid demo_smart = 0"
    by (simp add: intel_smart_valid_def intel_submitted_def demo_smart_def)
  have f: "(le_get 4 (dc_buf demo_smart) 4 :: u32) = 0x103"
    by (simp add: demo_smart_def le_get_upd_disj le_get_put_same)
  have h: "(le_get 1 (dc_buf demo_smart) 12 :: u32) = 0x81"
    by (simp add: demo_smart_def)
  show "intel_cmd_smart_get_flags demo_smart = ND_SMART_HEALTH_VALID OR ND_SMART_SPARES_VALID"
    using intel_flags_exact(1) [OF v] by (simp add: f)
  show "intel_cmd_smart_get_health demo_smart = ND_SMART_NON_CRITICAL_HEALTH"
    using intel_flags_exact(2) [OF v] by (simp only: h) simp
qed

subsection \<open>Commands that were not submitted\<close>

text \<open>The contract of a vendor's constructor and validity check: a new command is marked as not submitted, and the check of
  this command with any payload gives back the outcome of its submission.\<close>

locale smart_source =
  fixes new_cmd :: "'d dimm_sys \<Rightarrow> dimm_dev \<Rightarrow> dimm_cmd option"
    and valid :: "dimm_cmd \<Rightarrow> int"
  assumes new_pending: "new_cmd sys dimm = Some cmd \<Longrightarrow> dc_status cmd = 1 \<and> dc_get cmd \<noteq> No_Ops"
    and valid_outcome: "new_cmd sys dimm = Some cmd
      \<Longrightarrow> valid (cmd\<lparr>dc_buf := buf, dc_status := rc\<rparr>) = (if rc = 0 then 0 else if rc < 0 then rc else - EINVAL)"
begin

lemma pending_invalid: "new_cmd sys dimm = Some cmd \<Longrightarrow> valid cmd = - EINVAL"
proof -
  assume new: "new_cmd sys dimm = Some cmd"
  then have "cmd\<lparr>dc_buf := dc_buf cmd, dc_status := 1\<rparr> = cmd" using new_pending by auto
  then show ?thesis using valid_outcome [OF new, where buf = "dc_buf cmd" and rc = 1] by simp
qed

lemma submitted_outcome:
  assumes "new_cmd sys dimm = Some cmd" "dimm_cmd_submit sys' cmd d = (rc, cmd', d')"
  shows "valid cmd' = (if rc = 0 then 0 else if rc < 0 then rc else - EINVAL)"
proof -
  have "cmd' = cmd\<lparr>dc_buf := dc_buf cmd', dc_status := rc\<rparr>"
    using assms(2) new_pending [OF assms(1)]
    by (auto simp: dimm_cmd_submit_def dimm_do_cmd_def split: if_splits prod.splits)
  then show ?thesis using valid_outcome [OF assms(1)] by metis
qed

end

interpretation intel_smart: smart_source intel_dimm_cmd_new_smart intel_smart_valid
  by unfold_locales (auto simp: intel_dimm_cmd_new_smart_def alloc_intel_cmd_def Let_def intel_smart_valid_def
      intel_submitted_def split: if_splits)

interpretation intel_threshold: smart_source intel_dimm_cmd_new_smart_threshold intel_smart_threshold_valid
  by unfold_locales (auto simp: intel_dimm_cmd_new_smart_threshold_def alloc_intel_cmd_def Let_def
      intel_smart_threshold_valid_def intel_submitted_def split: if_splits)

interpretation hpe1_smart: smart_source hpe1_dimm_cmd_new_smart hpe1_smart_valid
  by unfold_locales (auto simp: hpe1_dimm_cmd_new_smart_def hpe1_new_cmd_def Let_def hpe1_smart_valid_def hpe1_cmd_valid_def
      split: if_splits)

interpretation hpe1_threshold: smart_source hpe1_dimm_cmd_new_smart_threshold hpe1_smart_threshold_valid
  by unfold_locales (auto simp: hpe1_dimm_cmd_new_smart_threshold_def hpe1_new_cmd_def Let_def hpe1_smart_threshold_valid_def
      hpe1_cmd_valid_def split: if_splits)

interpretation msft_smart: smart_source msft_dimm_cmd_new_smart msft_smart_valid
  by unfold_locales (auto simp: msft_dimm_cmd_new_smart_def alloc_msft_cmd_def Let_def msft_smart_valid_def
      split: if_splits)

text \<open>C29: the SMART and threshold commands of Intel, HPE and Microsoft DIMMs are valid to read only after a submission that
  returned 0: before it they are not, and afterwards the check tells a failure and a short transfer.\<close>

theorem smart_valid_after_submit:
  assumes "(new_cmd, valid) \<in> {(intel_dimm_cmd_new_smart, intel_smart_valid),
      (intel_dimm_cmd_new_smart_threshold, intel_smart_threshold_valid), (hpe1_dimm_cmd_new_smart, hpe1_smart_valid),
      (hpe1_dimm_cmd_new_smart_threshold, hpe1_smart_threshold_valid), (msft_dimm_cmd_new_smart, msft_smart_valid)}"
    and "new_cmd sys dimm = Some cmd" "dimm_cmd_submit sys cmd d = (rc, cmd', d')"
  shows "valid cmd = - EINVAL \<and> valid cmd' = (if rc = 0 then 0 else if rc < 0 then rc else - EINVAL)"
proof -
  have src: "smart_source new_cmd valid"
    using assms(1) intel_smart.smart_source_axioms intel_threshold.smart_source_axioms hpe1_smart.smart_source_axioms
      hpe1_threshold.smart_source_axioms msft_smart.smart_source_axioms
    by auto
  show ?thesis
    using smart_source.pending_invalid [OF src assms(2)] smart_source.submitted_outcome [OF src assms(2,3)] by blast
qed

definition demo_intel :: dimm_dev where
  "demo_intel = \<lparr>dm_ops = Intel_Ops, dm_cmd_mask = 0x400, dm_nfit_dsm_mask = - 1, dm_f_arm = False, dm_f_flush = False,
     dm_f_smart = False, dm_f_restore = False\<rparr>"

lemma demo_intel_call [simp]: "ndctl_dimm_is_cmd_supported demo_intel 10" "test_dimm_dsm demo_intel fn = DIMM_DSM_UNKNOWN"
  by (simp_all add: ndctl_dimm_is_cmd_supported_def demo_intel_def test_dimm_dsm_def)

definition shut_node :: "unit dimm_sys" where
  "shut_node = \<lparr>dy_calloc = (\<lambda>_. True), dy_open = (\<lambda>_. 2), dy_valid = (\<lambda>_. True), dy_ioctl = (\<lambda>c d. (0, dc_buf c, d))\<rparr>"

theorem smart_valid_after_submit_witness:
  "\<exists>cmd cmd'. intel_dimm_cmd_new_smart shut_node demo_intel = Some cmd \<and> dimm_cmd_submit shut_node cmd () = (- 2, cmd', ())
     \<and> intel_smart_valid cmd = - EINVAL \<and> intel_smart_valid cmd' = - 2"
proof -
  obtain cmd where new: "intel_dimm_cmd_new_smart shut_node demo_intel = Some cmd"
    by (auto simp: intel_dimm_cmd_new_smart_def alloc_intel_cmd_def shut_node_def)
  then have "dc_get cmd = Intel_Ops" "dc_type cmd = ND_CMD_CALL"
    by (auto simp: intel_dimm_cmd_new_smart_def alloc_intel_cmd_def Let_def split: if_splits)
  then have sub: "dimm_cmd_submit shut_node cmd () = (- 2, cmd\<lparr>dc_status := - 2\<rparr>, ())"
    by (simp add: dimm_cmd_submit_def shut_node_def)
  have "(intel_dimm_cmd_new_smart :: unit dimm_sys \<Rightarrow> _, intel_smart_valid) \<in> {(intel_dimm_cmd_new_smart, intel_smart_valid),
      (intel_dimm_cmd_new_smart_threshold, intel_smart_threshold_valid), (hpe1_dimm_cmd_new_smart, hpe1_smart_valid),
      (hpe1_dimm_cmd_new_smart_threshold, hpe1_smart_threshold_valid), (msft_dimm_cmd_new_smart, msft_smart_valid)}"
    by simp
  from smart_valid_after_submit [OF this new sub] show ?thesis using new sub by auto
qed

text \<open>What a command reads as when it never reached the firmware: Microsoft and HPE claim that every field is valid, PAPR
  reports a healthy DIMM, since it looks at the status in the payload only.\<close>

lemma failed_smart_flags:
  assumes "dm_ops dimm \<in> {Hpe1_Ops, Msft_Ops}" "ndctl_dimm_cmd_new_smart sys dimm = Some cmd"
    and "dimm_cmd_submit sys cmd d = (rc, cmd', d')" "rc < 0"
  shows "fst (ndctl_cmd_smart_get_flags sys dimm cmd' d') = UINT32_MAX"
  using assms hpe1_smart.submitted_outcome [of sys dimm cmd sys d rc cmd' d']
    msft_smart.submitted_outcome [of sys dimm cmd sys d rc cmd' d']
  by (auto simp: ndctl_dimm_cmd_new_smart_def ndctl_cmd_smart_get_flags_def hpe1_cmd_smart_get_flags_def
      msft_cmd_smart_get_flags_def)

lemma zero_get [simp]: "le_get n zero_mem ofs = 0"
  by (induction n arbitrary: ofs) (simp_all add: zero_mem_def)

lemma failed_papr_healthy:
  assumes "dm_ops dimm = Papr_Ops" "ndctl_dimm_cmd_new_smart sys dimm = Some cmd" "0 < dy_open sys d"
  shows "\<exists>cmd'. dimm_submit_xlat sys dimm cmd d = (- dy_open sys d, cmd', d) \<and> ndctl_cmd_smart_get_health dimm cmd' = Some 0
    \<and> fst (ndctl_cmd_smart_get_flags sys dimm cmd' d) = ND_SMART_HEALTH_VALID OR ND_SMART_SHUTDOWN_VALID"
proof -
  have "cmd = \<lparr>dc_type = ND_CMD_CALL, dc_size = 0, dc_status = 0, dc_get = Papr_Ops, dc_family = NVDIMM_FAMILY_PAPR,
      dc_command = 1, dc_size_in = 0, dc_size_out = 192, dc_buf = zero_mem\<rparr>"
    using assms(1,2)
    by (auto simp: ndctl_dimm_cmd_new_smart_def papr_new_smart_health_def allocate_cmd_def split: if_splits)
  then show ?thesis
    using assms(1,3)
    by (simp add: dimm_submit_xlat_def submit_with_xlat_def dimm_cmd_submit_def ndctl_cmd_smart_get_health_def
        papr_smart_get_health_def papr_health_ready_def cmd_is_valid_def papr_get_firmware_status_def
        ndctl_cmd_smart_get_flags_def papr_smart_get_flags_def take_flags_cons)
qed

subsection \<open>Temperatures\<close>

lemma unat_times_16: "0 \<le> n \<Longrightarrow> n < 2048 \<Longrightarrow> unat (of_int n * 16 :: u32) = nat n * 16"
proof -
  assume "0 \<le> n" "n < 2048"
  then have "(of_int n * 16 :: u32) = of_nat (nat n * 16)" "nat n * 16 < 4294967296" by auto
  then show ?thesis by (metis unat_of_nat_u32)
qed

lemma not_bit_15: "unat (w :: u32) < 32768 \<Longrightarrow> \<not> bit w 15"
proof -
  assume "unat w < 32768"
  then have "\<not> bit (unat w) 15" by (simp add: bit_iff_odd)
  then show ?thesis by (simp add: bit_unsigned_iff)
qed

lemma bit_32768: "bit (32768 :: u32) n \<Longrightarrow> n = 15"
  using bit_exp_iff [where n = n and m = 15 and 'a = u32] by simp

text \<open>A temperature below 2048 degrees that is encoded and decoded again comes back without its fraction.\<close>

theorem temperature_roundtrip:
  assumes "\<bar>t\<bar> < 2048"
  shows "\<exists>w. ndctl_encode_smart_temperature (Num t) = Some w \<and> unat w < 65536 \<and>
    ndctl_decode_smart_temperature w = (if t < 0 then - of_int \<lfloor>- t\<rfloor> else of_int \<lfloor>t\<rfloor>)"
proof -
  define n where "n = \<lfloor>\<bar>t\<bar>\<rfloor>"
  define w :: u32 where "w = of_int n * 16"
  have n: "0 \<le> n" "n < 2048" using assms by (auto simp: n_def floor_less_iff)
  have w: "unat w = nat n * 16" using unat_times_16 [OF n] by (simp add: w_def)
  have lt: "unat w < 32768" using w n by simp
  have nb: "\<not> bit w 15" using lt by (rule not_bit_15)
  have e: "ndctl_encode_smart_temperature (Num t) = Some (if t < 0 then set_bit 15 w else w)"
    using assms by (auto simp: ndctl_encode_smart_temperature_def Let_def w_def n_def abs_if)
  have us: "unset_bit 15 (set_bit 15 w) = w" "unset_bit 15 w = w"
    using nb by (auto intro!: bit_word_eqI simp: bit_unset_bit_iff bit_set_bit_iff)
  have dec: "ndctl_decode_smart_temperature w = of_int n"
    using nb w n us by (simp add: ndctl_decode_smart_temperature_def Let_def)
  have decn: "ndctl_decode_smart_temperature (set_bit 15 w) = - of_int n"
    using w n us by (simp add: ndctl_decode_smart_temperature_def Let_def bit_set_bit_iff)
  have "set_bit 15 w = w + 32768"
  proof -
    have "w + 32768 = w OR 32768" using nb bit_32768 by (intro disjunctive_add) blast
    then show ?thesis by (simp add: set_bit_eq_or push_bit_eq_mult)
  qed
  then have "unat (set_bit 15 w) < 65536" using lt by (simp add: unat_word_ariths)
  then show ?thesis using e dec decn lt by (cases "t < 0") (auto simp: n_def abs_if)
qed

theorem temperature_roundtrip_witness:
  "\<exists>w. ndctl_encode_smart_temperature (Num (- (41 / 2))) = Some w \<and> ndctl_decode_smart_temperature w = - 20"
proof -
  have "\<bar>- (41 / 2) :: rat\<bar> < 2048" by simp
  moreover have "\<lfloor>41 / 2 :: rat\<rfloor> = 20" by (simp add: floor_eq_iff)
  ultimately show ?thesis using temperature_roundtrip [of "- (41 / 2)"] by auto
qed

end
