(* ===== verification/Inject_Smart.thy ===== *)
theory Inject_Smart
  imports Smart_Cmd Dev_Filter
begin

text \<open>
  The command \<open>ndctl inject-smart\<close>, \<open>ndctl/inject-smart.c\<close>: preparing the parameters, changing SMART thresholds and injecting
  SMART values.  The result of a call is \<open>None\<close> where C leaves the behaviour undefined: a conversion out of range, \<open>NULL\<close>
  followed, or a command used after it was freed.  Listing the DIMM at the end is left out.
\<close>

subsection \<open>Parameters\<close>

record smart_params =
  sp_bus :: "string option"
  sp_media_temperature :: "string option"
  sp_ctrl_temperature :: "string option"
  sp_spares :: "string option"
  sp_media_temperature_threshold :: "string option"
  sp_ctrl_temperature_threshold :: "string option"
  sp_spares_threshold :: "string option"
  sp_media_temperature_alarm :: "string option"
  sp_ctrl_temperature_alarm :: "string option"
  sp_spares_alarm :: "string option"
  sp_fatal :: bool
  sp_unsafe_shutdown :: bool
  sp_media_temperature_uninject :: bool
  sp_ctrl_temperature_uninject :: bool
  sp_spares_uninject :: bool
  sp_fatal_uninject :: bool
  sp_unsafe_shutdown_uninject :: bool
  sp_uninject_all :: bool

datatype alarm = ALARM_UNSET | ALARM_ON | ALARM_OFF

text \<open>\<open>sc_set\<close> and \<open>sc_inject\<close> are the two bits of \<open>op_mask\<close>.\<close>

record smart_ctx =
  sc_alarms_present :: bool
  sc_err_continue :: bool
  sc_set :: bool
  sc_inject :: bool
  sc_media_temperature :: u32
  sc_ctrl_temperature :: u32
  sc_spares :: u32
  sc_media_temperature_threshold :: u32
  sc_ctrl_temperature_threshold :: u32
  sc_spares_threshold :: u32
  sc_media_temperature_alarm :: alarm
  sc_ctrl_temperature_alarm :: alarm
  sc_spares_alarm :: alarm

definition zero_smart_ctx :: smart_ctx where
  "zero_smart_ctx =
     \<lparr>sc_alarms_present = False, sc_err_continue = False, sc_set = False, sc_inject = False, sc_media_temperature = 0,
      sc_ctrl_temperature = 0, sc_spares = 0, sc_media_temperature_threshold = 0, sc_ctrl_temperature_threshold = 0,
      sc_spares_threshold = 0, sc_media_temperature_alarm = ALARM_UNSET, sc_ctrl_temperature_alarm = ALARM_UNSET,
      sc_spares_alarm = ALARM_UNSET\<rparr>"

text \<open>A step of the preparation gives an error (\<open>Inl\<close>), a value, or undefined behaviour (\<open>None\<close>).\<close>

definition setup_then :: "(int + 'a) option \<Rightarrow> ('a \<Rightarrow> (int + 'b) option) \<Rightarrow> (int + 'b) option" where
  "setup_then x f = (case x of None \<Rightarrow> None | Some (Inl e) \<Rightarrow> Some (Inl e) | Some (Inr v) \<Rightarrow> f v)"

text \<open>\<open>smart_param_setup_temps\<close> for a value or a threshold, with \<open>strtod\<close> as a parameter; \<open>Inr None\<close> when it is not given.\<close>

definition setup_temp :: "(string \<Rightarrow> c_double) \<Rightarrow> string option \<Rightarrow> (int + u32 option) option" where
  "setup_temp strtod arg =
     (case arg of
        None \<Rightarrow> Some (Inr None)
      | Some s \<Rightarrow>
          (case strtod s of
             Huge \<Rightarrow> Some (Inl (- EINVAL))
           | temp \<Rightarrow> (case ndctl_encode_smart_temperature temp of None \<Rightarrow> None | Some w \<Rightarrow> Some (Inr (Some w)))))"

definition setup_uint :: "string option \<Rightarrow> (int + u32 option) option" where
  "setup_uint arg =
     (case arg of
        None \<Rightarrow> Some (Inr None)
      | Some s \<Rightarrow>
          (let v = fst (strtoull s) in
           if v = ULLONG_MAX \<or> v > ucast UINT32_MAX then Some (Inl (- EINVAL)) else Some (Inr (Some (ucast v)))))"

definition setup_alarm :: "string option \<Rightarrow> alarm" where
  "setup_alarm arg =
     (case arg of
        None \<Rightarrow> ALARM_UNSET
      | Some s \<Rightarrow> if take 2 s = ''on'' then ALARM_ON else if take 3 s = ''off'' then ALARM_OFF else ALARM_UNSET)"

definition or_zero :: "u32 option \<Rightarrow> u32" where
  "or_zero x = (case x of None \<Rightarrow> 0 | Some v \<Rightarrow> v)"

definition setup_values :: "(string \<Rightarrow> c_double) \<Rightarrow> smart_params \<Rightarrow> (int + smart_ctx) option" where
  "setup_values strtod param =
     setup_then (setup_temp strtod (sp_media_temperature param)) (\<lambda>mt.
     setup_then (setup_temp strtod (sp_media_temperature_threshold param)) (\<lambda>mth.
     setup_then (setup_temp strtod (sp_ctrl_temperature param)) (\<lambda>ct.
     setup_then (setup_temp strtod (sp_ctrl_temperature_threshold param)) (\<lambda>cth.
     setup_then (setup_uint (sp_spares param)) (\<lambda>sp.
     setup_then (setup_uint (sp_spares_threshold param)) (\<lambda>sth.
       Some (Inr (zero_smart_ctx\<lparr>
         sc_media_temperature := or_zero mt, sc_media_temperature_threshold := or_zero mth,
         sc_ctrl_temperature := or_zero ct, sc_ctrl_temperature_threshold := or_zero cth,
         sc_spares := or_zero sp, sc_spares_threshold := or_zero sth,
         sc_inject := mt \<noteq> None \<or> ct \<noteq> None \<or> sp \<noteq> None,
         sc_set := mth \<noteq> None \<or> cth \<noteq> None \<or> sth \<noteq> None\<rparr>))))))))"

definition setup_alarms :: "smart_params \<Rightarrow> smart_ctx \<Rightarrow> smart_ctx" where
  "setup_alarms param sctx =
     (let present = sp_media_temperature_alarm param \<noteq> None \<or> sp_ctrl_temperature_alarm param \<noteq> None
                    \<or> sp_spares_alarm param \<noteq> None
      in sctx\<lparr>sc_media_temperature_alarm := setup_alarm (sp_media_temperature_alarm param),
              sc_ctrl_temperature_alarm := setup_alarm (sp_ctrl_temperature_alarm param),
              sc_spares_alarm := setup_alarm (sp_spares_alarm param),
              sc_alarms_present := present, sc_set := sc_set sctx \<or> present\<rparr>)"

text \<open>\<open>smart_param_setup_uninj\<close>: an error when the value is to be injected too, otherwise the parameter is set, to a string for
  the values and, through its address, to true for the others.\<close>

definition setup_uninj :: "smart_params \<Rightarrow> smart_ctx \<Rightarrow> (int + smart_params \<times> smart_ctx) option" where
  "setup_uninj param sctx =
     (if sp_media_temperature_uninject param \<and> sp_media_temperature param \<noteq> None
         \<or> sp_ctrl_temperature_uninject param \<and> sp_ctrl_temperature param \<noteq> None
         \<or> sp_spares_uninject param \<and> sp_spares param \<noteq> None
         \<or> sp_fatal_uninject param \<and> sp_fatal param
         \<or> sp_unsafe_shutdown_uninject param \<and> sp_unsafe_shutdown param
      then Some (Inl (- EINVAL))
      else Some (Inr (
        param\<lparr>sp_media_temperature := (if sp_media_temperature_uninject param then Some ''0'' else sp_media_temperature param),
              sp_ctrl_temperature := (if sp_ctrl_temperature_uninject param then Some ''0'' else sp_ctrl_temperature param),
              sp_spares := (if sp_spares_uninject param then Some ''0'' else sp_spares param),
              sp_fatal := (sp_fatal_uninject param \<or> sp_fatal param),
              sp_unsafe_shutdown := (sp_unsafe_shutdown_uninject param \<or> sp_unsafe_shutdown param)\<rparr>,
        sctx\<lparr>sc_inject := sc_inject sctx \<or> sp_media_temperature_uninject param \<or> sp_ctrl_temperature_uninject param
               \<or> sp_spares_uninject param \<or> sp_fatal_uninject param \<or> sp_unsafe_shutdown_uninject param\<rparr>)))"

definition smart_init :: "(string \<Rightarrow> c_double) \<Rightarrow> smart_params \<Rightarrow> (int + smart_params \<times> smart_ctx) option" where
  "smart_init strtod param =
     setup_then (setup_values strtod param) (\<lambda>sctx.
       let sctx = setup_alarms param sctx;
           sctx = sctx\<lparr>sc_inject := sc_inject sctx \<or> sp_fatal param \<or> sp_unsafe_shutdown param\<rparr>;
           all = sp_uninject_all param;
           param = (if all then param\<lparr>sp_media_temperature_uninject := True, sp_ctrl_temperature_uninject := True,
                                      sp_spares_uninject := True, sp_fatal_uninject := True,
                                      sp_unsafe_shutdown_uninject := True\<rparr> else param);
           sctx = (if all then sctx\<lparr>sc_err_continue := True\<rparr> else sctx)
       in setup_then (setup_uninj param sctx) (\<lambda>(param, sctx).
            if \<not> sc_set sctx \<and> \<not> sc_inject sctx then Some (Inl (- EINVAL)) else Some (Inr (param, sctx))))"

subsection \<open>Thresholds\<close>

text \<open>\<open>setup_thresh_field\<close>; the result of the setter is ignored.\<close>

definition setup_thresh_field :: "(dimm_cmd \<Rightarrow> u32 \<Rightarrow> int \<times> dimm_cmd) \<Rightarrow> string option \<Rightarrow> u32 \<Rightarrow> dimm_cmd \<Rightarrow> dimm_cmd" where
  "setup_thresh_field setter arg val cmd = (if arg \<noteq> None then snd (setter cmd val) else cmd)"

definition apply_alarm :: "alarm \<Rightarrow> u32 \<Rightarrow> u32 \<Rightarrow> u32" where
  "apply_alarm a flag control =
     (case a of ALARM_ON \<Rightarrow> control OR flag | ALARM_OFF \<Rightarrow> control AND NOT flag | ALARM_UNSET \<Rightarrow> control)"

definition new_alarms :: "smart_ctx \<Rightarrow> u32 \<Rightarrow> u32" where
  "new_alarms sctx control =
     apply_alarm (sc_spares_alarm sctx) ND_SMART_SPARE_TRIP
       (apply_alarm (sc_ctrl_temperature_alarm sctx) ND_SMART_CTEMP_TRIP
         (apply_alarm (sc_media_temperature_alarm sctx) ND_SMART_MTEMP_TRIP control))"

text \<open>The set-threshold command filled in from the parameters.\<close>

definition fill_thresholds :: "dimm_dev \<Rightarrow> smart_params \<Rightarrow> smart_ctx \<Rightarrow> dimm_cmd \<Rightarrow> dimm_cmd \<Rightarrow> dimm_cmd" where
  "fill_thresholds dimm param sctx st_cmd sst_cmd =
     (let sst_cmd = setup_thresh_field (ndctl_cmd_smart_threshold_set_media_temperature dimm)
                      (sp_media_temperature_threshold param) (sc_media_temperature_threshold sctx) sst_cmd;
          sst_cmd = setup_thresh_field (ndctl_cmd_smart_threshold_set_ctrl_temperature dimm)
                      (sp_ctrl_temperature_threshold param) (sc_ctrl_temperature_threshold sctx) sst_cmd;
          sst_cmd = setup_thresh_field (ndctl_cmd_smart_threshold_set_spares dimm)
                      (sp_spares_threshold param) (sc_spares_threshold sctx) sst_cmd
      in if sc_alarms_present sctx
         then snd (ndctl_cmd_smart_threshold_set_alarm_control dimm sst_cmd
                     (new_alarms sctx (ndctl_cmd_smart_threshold_get_alarm_control dimm st_cmd)))
         else sst_cmd)"

definition smart_set_thresh :: "'d dimm_sys \<Rightarrow> dimm_dev \<Rightarrow> smart_params \<Rightarrow> smart_ctx \<Rightarrow> 'd \<Rightarrow> int \<times> 'd" where
  "smart_set_thresh sys dimm param sctx d =
     (case ndctl_dimm_cmd_new_smart_threshold sys dimm of
        None \<Rightarrow> (- EOPNOTSUPP, d)
      | Some st_cmd \<Rightarrow>
          (case dimm_submit_xlat sys dimm st_cmd d of
             (rc, st_cmd, d) \<Rightarrow>
               if rc < 0 then (rc, d)
               else (case ndctl_dimm_cmd_new_smart_set_threshold sys dimm st_cmd of
                       None \<Rightarrow> (- EOPNOTSUPP, d)
                     | Some sst_cmd \<Rightarrow>
                         (case dimm_submit_xlat sys dimm (fill_thresholds dimm param sctx st_cmd sst_cmd) d of
                            (rc, sst_cmd, d) \<Rightarrow> (rc, d)))))"

subsection \<open>Injection\<close>

text \<open>The pointer to the command of an injection.  The code holds the only reference to it, so releasing it frees it.\<close>

datatype cmd_ptr = Null | Live dimm_cmd | Freed

fun cmd_unref :: "cmd_ptr \<Rightarrow> cmd_ptr option" where
  "cmd_unref Null = Some Null"
| "cmd_unref (Live cmd) = Some Freed"
| "cmd_unref Freed = None"

text \<open>\<open>send_inject_val\<close> and \<open>send_inject_bool\<close>, given how the command is filled in.  The first component of the result says
  that the code jumps to \<open>out\<close>.\<close>

definition send_inject :: "'d dimm_sys \<Rightarrow> dimm_dev \<Rightarrow> bool \<Rightarrow> (dimm_cmd \<Rightarrow> int \<times> dimm_cmd) \<Rightarrow> int \<Rightarrow> 'd
    \<Rightarrow> (bool \<times> int \<times> cmd_ptr \<times> 'd) option" where
  "send_inject sys dimm err_continue fill rc d =
     (case ndctl_dimm_cmd_new_smart_inject sys dimm of
        None \<Rightarrow> if err_continue then None else Some (True, rc, Null, d)
      | Some si_cmd \<Rightarrow>
          (case fill si_cmd of
             (rc, si_cmd) \<Rightarrow>
               if rc \<noteq> 0 \<and> \<not> err_continue then Some (True, rc, Live si_cmd, d)
               else (case dimm_submit_xlat sys dimm si_cmd d of
                       (rc, si_cmd, d) \<Rightarrow>
                         if rc < 0 \<and> \<not> err_continue then Some (True, rc, Live si_cmd, d)
                         else (case cmd_unref (Live si_cmd) of
                                 None \<Rightarrow> None | Some si_cmd \<Rightarrow> Some (False, rc, si_cmd, d)))))"

text \<open>The injections in the order of the code: the type, whether it is asked for, and how its command is filled in.\<close>

definition inject_list :: "dimm_dev \<Rightarrow> smart_params \<Rightarrow> smart_ctx \<Rightarrow> (u32 \<times> bool \<times> (dimm_cmd \<Rightarrow> int \<times> dimm_cmd)) list" where
  "inject_list dimm param sctx =
     [(ND_SMART_INJECT_MEDIA_TEMPERATURE, sp_media_temperature param \<noteq> None,
        \<lambda>cmd. ndctl_cmd_smart_inject_media_temperature dimm cmd (\<not> sp_media_temperature_uninject param)
                (sc_media_temperature sctx)),
      (ND_SMART_INJECT_CTRL_TEMPERATURE, sp_ctrl_temperature param \<noteq> None,
        \<lambda>cmd. ndctl_cmd_smart_inject_ctrl_temperature dimm cmd (\<not> sp_ctrl_temperature_uninject param)
                (sc_ctrl_temperature sctx)),
      (ND_SMART_INJECT_SPARES_REMAINING, sp_spares param \<noteq> None,
        \<lambda>cmd. ndctl_cmd_smart_inject_spares dimm cmd (\<not> sp_spares_uninject param) (sc_spares sctx)),
      (ND_SMART_INJECT_HEALTH_STATE, sp_fatal param,
        \<lambda>cmd. ndctl_cmd_smart_inject_fatal dimm cmd (\<not> sp_fatal_uninject param)),
      (ND_SMART_INJECT_UNCLEAN_SHUTDOWN, sp_unsafe_shutdown param,
        \<lambda>cmd. ndctl_cmd_smart_inject_unsafe_shutdown dimm cmd (\<not> sp_unsafe_shutdown_uninject param))]"

fun inject_loop :: "'d dimm_sys \<Rightarrow> dimm_dev \<Rightarrow> bool \<Rightarrow> u32 \<Rightarrow> (u32 \<times> bool \<times> (dimm_cmd \<Rightarrow> int \<times> dimm_cmd)) list
    \<Rightarrow> int \<Rightarrow> cmd_ptr \<Rightarrow> 'd \<Rightarrow> (int \<times> cmd_ptr \<times> 'd) option" where
  "inject_loop sys dimm err_continue types [] rc si_cmd d = Some (rc, si_cmd, d)"
| "inject_loop sys dimm err_continue types ((type, asked, fill) # rest) rc si_cmd d =
     (if types AND type \<noteq> 0 \<and> asked then
        (case send_inject sys dimm err_continue fill rc d of
           None \<Rightarrow> None
         | Some (True, rc, si_cmd, d) \<Rightarrow> Some (rc, si_cmd, d)
         | Some (False, rc, si_cmd, d) \<Rightarrow> inject_loop sys dimm err_continue types rest rc si_cmd d)
      else inject_loop sys dimm err_continue types rest rc si_cmd d)"

definition smart_inject :: "'d dimm_sys \<Rightarrow> dimm_dev \<Rightarrow> smart_params \<Rightarrow> smart_ctx \<Rightarrow> u32 \<Rightarrow> 'd \<Rightarrow> (int \<times> 'd) option" where
  "smart_inject sys dimm param sctx inject_types d =
     (case inject_loop sys dimm (sc_err_continue sctx) inject_types (inject_list dimm param sctx) (- EOPNOTSUPP) Null d of
        None \<Rightarrow> None
      | Some (rc, si_cmd, d) \<Rightarrow> (case cmd_unref si_cmd of None \<Rightarrow> None | Some _ \<Rightarrow> Some (rc, d)))"

subsection \<open>The command\<close>

definition dimm_inject_smart :: "'d dimm_sys \<Rightarrow> dimm_dev \<Rightarrow> smart_params \<Rightarrow> smart_ctx \<Rightarrow> 'd \<Rightarrow> (int \<times> 'd) option" where
  "dimm_inject_smart sys dimm param sctx d =
     (let rc = ndctl_dimm_smart_inject_supported dimm in
      if rc < 0 then Some (rc, d)
      else let supported_types = word_of_int rc in
        (case (if sc_set sctx then smart_set_thresh sys dimm param sctx d else (0, d)) of
           (rc, d) \<Rightarrow>
             if rc \<noteq> 0 then Some (rc, d)
             else if sc_inject sctx then smart_inject sys dimm param sctx supported_types d
             else Some (0, d)))"

text \<open>Only the first DIMM that matches is treated.\<close>

definition do_smart :: "'d dimm_sys \<Rightarrow> (fl_bus \<times> (fl_dimm \<times> dimm_dev) list) list \<Rightarrow> smart_params \<Rightarrow> smart_ctx \<Rightarrow> string \<Rightarrow> 'd
    \<Rightarrow> (int \<times> 'd) option" where
  "do_smart sys buses param sctx dimm_arg d =
     (case filter (\<lambda>(dimm, _). util_dimm_filter dimm (Some dimm_arg))
             (concat (map snd (filter (\<lambda>(bus, _). util_bus_filter bus (sp_bus param)) buses))) of
        [] \<Rightarrow> Some (- ENXIO, d)
      | (_, dimm) # _ \<Rightarrow> dimm_inject_smart sys dimm param sctx d)"

definition cmd_inject_smart :: "'d dimm_sys \<Rightarrow> (string \<Rightarrow> c_double) \<Rightarrow> (fl_bus \<times> (fl_dimm \<times> dimm_dev) list) list
    \<Rightarrow> smart_params \<Rightarrow> string list \<Rightarrow> 'd \<Rightarrow> (int \<times> 'd) option" where
  "cmd_inject_smart sys strtod buses param argv d =
     (case smart_init strtod param of
        None \<Rightarrow> None
      | Some (Inl rc) \<Rightarrow> Some (rc, d)
      | Some (Inr (param, sctx)) \<Rightarrow>
          (case argv of [dimm_arg] \<Rightarrow> do_smart sys buses param sctx dimm_arg d | _ \<Rightarrow> Some (- ENODEV, d)))"

subsection \<open>Releasing the command of an injection\<close>

lemma fill_result: "\<forall>x \<in> set (inject_list dimm param sctx). \<forall>cmd. fst (snd (snd x) cmd) \<le> 0"
  by (auto simp: inject_list_def ndctl_cmd_smart_inject_media_temperature_def ndctl_cmd_smart_inject_ctrl_temperature_def
      ndctl_cmd_smart_inject_spares_def ndctl_cmd_smart_inject_fatal_def ndctl_cmd_smart_inject_unsafe_shutdown_def
      intel_cmd_smart_inject_media_temperature_def intel_cmd_smart_inject_spares_def intel_cmd_smart_inject_fatal_def
      intel_cmd_smart_inject_unsafe_shutdown_def papr_cmd_smart_inject_fatal_def papr_cmd_smart_inject_unsafe_shutdown_def
      papr_inject_def split: dimm_ops.splits)

text \<open>A result that is not negative comes with a pointer to a freed command.\<close>

lemma send_inject_freed:
  assumes "send_inject sys dimm err_continue fill rc d = Some (out, rc', ptr, d')" "\<And>cmd. fst (fill cmd) \<le> 0"
    and "rc < 0 \<or> ndctl_dimm_cmd_new_smart_inject sys dimm \<noteq> None"
  shows "rc' < 0 \<or> ptr = Freed \<and> ndctl_dimm_cmd_new_smart_inject sys dimm \<noteq> None"
    and "\<not> out \<Longrightarrow> ptr = Freed \<and> ndctl_dimm_cmd_new_smart_inject sys dimm \<noteq> None"
proof -
  have le: "fill cmd = (r, c) \<Longrightarrow> r \<le> 0" for cmd r c using assms(2) [of cmd] by simp
  show "rc' < 0 \<or> ptr = Freed \<and> ndctl_dimm_cmd_new_smart_inject sys dimm \<noteq> None"
    using assms(1,3) by (auto simp: send_inject_def split: option.splits if_splits prod.splits dest!: le)
  show "\<not> out \<Longrightarrow> ptr = Freed \<and> ndctl_dimm_cmd_new_smart_inject sys dimm \<noteq> None"
    using assms(1) by (auto simp: send_inject_def split: option.splits if_splits prod.splits)
qed

lemma inject_loop_freed:
  assumes "inject_loop sys dimm err_continue types l rc ptr d = Some (rc', ptr', d')"
    and "\<forall>x \<in> set l. \<forall>cmd. fst (snd (snd x) cmd) \<le> 0"
    and "rc < 0 \<or> ptr = Freed \<and> ndctl_dimm_cmd_new_smart_inject sys dimm \<noteq> None"
  shows "rc' < 0 \<or> ptr' = Freed"
  using assms
proof (induction l arbitrary: rc ptr d)
  case (Cons x l)
  obtain type asked fill where x: "x = (type, asked, fill)" by (cases x)
  have fill: "fst (fill cmd) \<le> 0" for cmd using Cons.prems(2) x by auto
  have l: "\<forall>x \<in> set l. \<forall>cmd. fst (snd (snd x) cmd) \<le> 0" using Cons.prems(2) by auto
  show ?case
  proof (cases "types AND type \<noteq> 0 \<and> asked")
    case True
    then obtain out rc1 ptr1 d1 where send: "send_inject sys dimm err_continue fill rc d = Some (out, rc1, ptr1, d1)"
      using Cons.prems(1) x by (auto split: option.splits)
    note freed = send_inject_freed [OF send fill]
    have "rc < 0 \<or> ndctl_dimm_cmd_new_smart_inject sys dimm \<noteq> None" using Cons.prems(3) by auto
    note freed = freed [OF this]
    show ?thesis
    proof (cases out)
      case True
      then show ?thesis using Cons.prems(1) x send freed(1) \<open>types AND type \<noteq> 0 \<and> asked\<close> by auto
    next
      case False
      then have "inject_loop sys dimm err_continue types l rc1 ptr1 d1 = Some (rc', ptr', d')"
        using Cons.prems(1) x send \<open>types AND type \<noteq> 0 \<and> asked\<close> by auto
      then show ?thesis using Cons.IH [OF _ l] freed(2) False by auto
    qed
  next
    case False
    then have "inject_loop sys dimm err_continue types l rc ptr d = Some (rc', ptr', d')" using Cons.prems(1) x by auto
    then show ?thesis using Cons.IH [OF _ l] Cons.prems(3) by auto
  qed
qed auto

text \<open>C39: \<open>smart_inject\<close> never succeeds: when its injections go through, the last command is freed after its submission and
  released once more at \<open>out\<close>.  A call that returns without using freed memory returns an error.\<close>

theorem smart_inject_releases_twice:
  assumes "inject_loop sys dimm (sc_err_continue sctx) types (inject_list dimm param sctx) (- EOPNOTSUPP) Null d
      = Some (rc, ptr, d')"
    and "0 \<le> rc"
  shows "ptr = Freed \<and> smart_inject sys dimm param sctx types d = None"
proof -
  have "ptr = Freed"
    using inject_loop_freed [OF assms(1) fill_result] assms(2) by auto
  then show ?thesis using assms(1) by (simp add: smart_inject_def)
qed

definition demo_node :: "unit dimm_sys" where
  "demo_node = \<lparr>dy_calloc = (\<lambda>_. True), dy_open = (\<lambda>_. 0), dy_valid = (\<lambda>_. True), dy_ioctl = (\<lambda>c d. (0, dc_buf c, d))\<rparr>"

definition demo_fatal :: smart_params where
  "demo_fatal = \<lparr>sp_bus = None, sp_media_temperature = None, sp_ctrl_temperature = None, sp_spares = None,
     sp_media_temperature_threshold = None, sp_ctrl_temperature_threshold = None, sp_spares_threshold = None,
     sp_media_temperature_alarm = None, sp_ctrl_temperature_alarm = None, sp_spares_alarm = None,
     sp_fatal = True, sp_unsafe_shutdown = False, sp_media_temperature_uninject = False,
     sp_ctrl_temperature_uninject = False, sp_spares_uninject = False, sp_fatal_uninject = False,
     sp_unsafe_shutdown_uninject = False, sp_uninject_all = False\<rparr>"

theorem smart_inject_releases_twice_witness:
  "smart_inject demo_node demo_intel demo_fatal zero_smart_ctx 0x1F () = None"
proof -
  obtain cmd where new: "intel_new_smart_inject demo_node demo_intel = Some cmd"
    by (auto simp: intel_new_smart_inject_def alloc_intel_cmd_def demo_node_def)
  then have pending: "intel_smart_inject_valid cmd = 0" "dc_get cmd = Intel_Ops" "dc_type cmd = ND_CMD_CALL"
    and cmd: "unat (dc_command cmd) = ND_INTEL_SMART_INJECT" "dc_buf cmd = zero_mem"
    by (auto simp: intel_new_smart_inject_def alloc_intel_cmd_def intel_smart_inject_valid_def intel_submitted_def Let_def
        split: if_splits)
  have ops: "dm_ops demo_intel = Intel_Ops" by (simp add: demo_intel_def)
  let ?buf = "intel_inject_enable 4 13 True zero_mem"
  have st: "(le_get 4 ?buf 15 :: u32) = 0"
    unfolding intel_inject_enable_def by (simp add: le_get_put_disj del: le_get.simps le_put.simps)
  have sub: "dimm_submit_xlat demo_node demo_intel (cmd\<lparr>dc_buf := ?buf\<rparr>) ()
      = (0, cmd\<lparr>dc_buf := ?buf, dc_status := 0\<rparr>, ())"
    using pending cmd st ops
    by (simp add: dimm_submit_xlat_def submit_with_xlat_def dimm_cmd_submit_def dimm_do_cmd_def demo_node_def
        dimm_xlat_firmware_status_def intel_cmd_xlat_firmware_status_def intel_cmd_get_firmware_status_def
        del: le_get.simps le_put.simps)
  have fill: "ndctl_cmd_smart_inject_fatal demo_intel cmd True = (0, cmd\<lparr>dc_buf := ?buf\<rparr>)"
    using pending(1) cmd(2) ops by (simp add: ndctl_cmd_smart_inject_fatal_def intel_cmd_smart_inject_fatal_def)
  have "send_inject demo_node demo_intel False (\<lambda>cmd. ndctl_cmd_smart_inject_fatal demo_intel cmd True) (- EOPNOTSUPP) ()
      = Some (False, 0, Freed, ())"
    using new ops fill sub by (simp add: send_inject_def ndctl_dimm_cmd_new_smart_inject_def)
  then have "inject_loop demo_node demo_intel (sc_err_continue zero_smart_ctx) 0x1F
      (inject_list demo_intel demo_fatal zero_smart_ctx) (- EOPNOTSUPP) Null () = Some (0, Freed, ())"
    by (simp add: inject_list_def demo_fatal_def zero_smart_ctx_def)
  from smart_inject_releases_twice [OF this] show ?thesis by simp
qed

subsection \<open>Read, modify, write\<close>

lemma set_field_valid:
  "intel_smart_set_threshold_valid cmd = 0
    \<Longrightarrow> intel_smart_set_threshold_field n ofs cmd val = (0, cmd\<lparr>dc_buf := le_put n val (dc_buf cmd) ofs\<rparr>)"
  by (simp add: intel_smart_set_threshold_field_def)

lemma set_valid_buf [simp]: "intel_smart_set_threshold_valid (cmd\<lparr>dc_buf := b\<rparr>) = intel_smart_set_threshold_valid cmd"
  by (simp add: intel_smart_set_threshold_valid_def intel_submitted_def)

definition put_if :: "bool \<Rightarrow> nat \<Rightarrow> u32 \<Rightarrow> nat \<Rightarrow> mem \<Rightarrow> mem" where
  "put_if asked n val ofs buf = (if asked then le_put n val buf ofs else buf)"

lemma fill_intel:
  assumes "dm_ops dimm = Intel_Ops" "intel_smart_set_threshold_valid sst = 0"
  shows "fill_thresholds dimm param sctx st sst =
    sst\<lparr>dc_buf :=
      put_if (sc_alarms_present sctx) 2 (new_alarms sctx (intel_cmd_smart_threshold_get_alarm_control st)) 0
       (put_if (sp_spares_threshold param \<noteq> None) 1 (sc_spares_threshold sctx) 2
        (put_if (sp_ctrl_temperature_threshold param \<noteq> None) 2 (sc_ctrl_temperature_threshold sctx) 5
         (put_if (sp_media_temperature_threshold param \<noteq> None) 2 (sc_media_temperature_threshold sctx) 3 (dc_buf sst))))\<rparr>"
  using assms
  by (auto simp: fill_thresholds_def setup_thresh_field_def put_if_def set_field_valid Let_def
      ndctl_cmd_smart_threshold_set_media_temperature_def ndctl_cmd_smart_threshold_set_ctrl_temperature_def
      ndctl_cmd_smart_threshold_set_spares_def ndctl_cmd_smart_threshold_set_alarm_control_def
      ndctl_cmd_smart_threshold_get_alarm_control_def intel_cmd_smart_threshold_set_media_temperature_def
      intel_cmd_smart_threshold_set_ctrl_temperature_def intel_cmd_smart_threshold_set_spares_def
      intel_cmd_smart_threshold_set_alarm_control_def simp del: le_put.simps)

lemma put_if_disj: "o1 + n1 \<le> o2 \<or> o2 + n2 \<le> o1 \<Longrightarrow> le_get n1 (put_if asked n2 v o2 m) o1 = le_get n1 m o1"
  by (simp add: put_if_def le_get_put_disj)

lemma put_if_same:
  "LENGTH('b) = n * 8 \<Longrightarrow> le_get n (put_if asked n v ofs m) ofs = (if asked then ucast v else le_get n m ofs :: 'b::len word)"
  by (simp add: put_if_def le_get_put_cut)

text \<open>The thresholds that a set-threshold command carries, and those that a threshold command has read.\<close>

definition set_thresholds :: "dimm_cmd \<Rightarrow> u16 \<times> u8 \<times> u16 \<times> u16" where
  "set_thresholds cmd = (le_get 2 (dc_buf cmd) 0, le_get 1 (dc_buf cmd) 2, le_get 2 (dc_buf cmd) 3, le_get 2 (dc_buf cmd) 5)"

definition read_thresholds :: "dimm_cmd \<Rightarrow> u16 \<times> u8 \<times> u16 \<times> u16" where
  "read_thresholds cmd = (le_get 2 (dc_buf cmd) 4, le_get 1 (dc_buf cmd) 6, le_get 2 (dc_buf cmd) 7, le_get 2 (dc_buf cmd) 9)"

text \<open>What is asked for: a threshold is replaced when it was given, the alarms when there are any.\<close>

definition asked_thresholds :: "smart_params \<Rightarrow> smart_ctx \<Rightarrow> u16 \<times> u8 \<times> u16 \<times> u16 \<Rightarrow> u16 \<times> u8 \<times> u16 \<times> u16" where
  "asked_thresholds param sctx old = (case old of (alarms, spares, media, ctrl) \<Rightarrow>
     (if sc_alarms_present sctx then ucast (new_alarms sctx (ucast alarms AND 7)) else alarms,
      if sp_spares_threshold param \<noteq> None then ucast (sc_spares_threshold sctx) else spares,
      if sp_media_temperature_threshold param \<noteq> None then ucast (sc_media_temperature_threshold sctx) else media,
      if sp_ctrl_temperature_threshold param \<noteq> None then ucast (sc_ctrl_temperature_threshold sctx) else ctrl))"

lemma new_set_thresholds:
  assumes "intel_dimm_cmd_new_smart_set_threshold sys dimm st = Some sst"
  shows "intel_smart_set_threshold_valid sst = 0" "set_thresholds sst = read_thresholds st"
    "intel_smart_threshold_valid st = 0" "unat (dc_command sst) = ND_INTEL_SMART_SET_THRESHOLD"
proof -
  obtain cmd where alloc: "alloc_intel_cmd sys dimm ND_INTEL_SMART_SET_THRESHOLD 7 4 = Some cmd"
    and sst: "sst = cmd\<lparr>dc_buf := le_put 2 (le_get 2 (dc_buf st) 9 :: u16)
      (le_put 2 (le_get 2 (dc_buf st) 7 :: u16)
        (le_put 1 (le_get 1 (dc_buf st) 6 :: u8) (le_put 2 (le_get 2 (dc_buf st) 4 :: u16) (dc_buf cmd) 0) 2) 3) 5\<rparr>"
    and v: "\<not> intel_smart_threshold_valid st < 0"
    using assms by (auto simp: intel_dimm_cmd_new_smart_set_threshold_def Let_def split: if_splits option.splits)
  show "intel_smart_set_threshold_valid sst = 0" "unat (dc_command sst) = ND_INTEL_SMART_SET_THRESHOLD"
    using alloc unfolding sst
    by (auto simp: intel_smart_set_threshold_valid_def intel_submitted_def alloc_intel_cmd_def Let_def
        split: if_splits simp del: le_put.simps)
  show "set_thresholds sst = read_thresholds st"
    unfolding sst set_thresholds_def read_thresholds_def
    by (simp add: le_get_put_disj le_get_put_same del: le_put.simps le_get.simps)
  show "intel_smart_threshold_valid st = 0" using v by (auto simp: intel_smart_threshold_valid_def split: if_splits)
qed

lemma ucast_get_2: "(le_get 2 m ofs :: u32) = ucast (le_get 2 m ofs :: u16)"
proof -
  have b: "unat (m x) < 256" for x using unsigned_less [of "m x"] by simp
  define n where "n = unat (m ofs) + 256 * unat (m (Suc ofs))"
  have "n < 2 ^ 16" using b [of ofs] b [of "Suc ofs"] by (simp add: n_def)
  then have "take_bit 16 n = n" by (simp add: take_bit_nat_eq_self)
  then have "ucast (of_nat n :: u16) = (of_nat n :: u32)" by (simp add: unsigned_of_nat)
  moreover have "le_get 2 m ofs = (of_nat n :: u16)" "le_get 2 m ofs = (of_nat n :: u32)"
    by (simp_all add: numeral_2_eq_2 n_def)
  ultimately show ?thesis by simp
qed

text \<open>C28: changing SMART thresholds is a read-modify-write.  When it succeeds, one command was sent that carries the thresholds
  just read, with those replaced that were asked for and the alarms switched on or off as asked.\<close>

theorem set_thresh_keeps_rest:
  assumes "dm_ops dimm = Intel_Ops" "smart_set_thresh sys dimm param sctx d = (rc, d')" "0 \<le> rc"
  shows "\<exists>get rc1 st d1 set sst.
    intel_dimm_cmd_new_smart_threshold sys dimm = Some get \<and> dimm_submit_xlat sys dimm get d = (rc1, st, d1) \<and> 0 \<le> rc1 \<and>
    unat (dc_command set) = ND_INTEL_SMART_SET_THRESHOLD \<and> set_thresholds set = asked_thresholds param sctx (read_thresholds st) \<and>
    dimm_submit_xlat sys dimm set d1 = (rc, sst, d')"
proof -
  obtain "get" rc1 st d1 sst0 sst where new: "intel_dimm_cmd_new_smart_threshold sys dimm = Some get"
    and sub: "dimm_submit_xlat sys dimm get d = (rc1, st, d1)" "0 \<le> rc1"
    and set0: "intel_dimm_cmd_new_smart_set_threshold sys dimm st = Some sst0"
    and sub2: "dimm_submit_xlat sys dimm (fill_thresholds dimm param sctx st sst0) d1 = (rc, sst, d')"
    using assms
    by (auto simp: smart_set_thresh_def ndctl_dimm_cmd_new_smart_threshold_def ndctl_dimm_cmd_new_smart_set_threshold_def
        split: option.splits prod.splits if_splits)
  note sst0 = new_set_thresholds [OF set0]
  have ctl: "intel_cmd_smart_threshold_get_alarm_control st = ucast (le_get 2 (dc_buf st) 4 :: u16) AND 7"
    using sst0(3) three_flags by (simp add: intel_cmd_smart_threshold_get_alarm_control_def ucast_get_2 del: le_get.simps)
  have "set_thresholds (fill_thresholds dimm param sctx st sst0) = asked_thresholds param sctx (read_thresholds st)"
    using sst0(2)
    by (simp add: fill_intel [OF assms(1) sst0(1)] set_thresholds_def read_thresholds_def asked_thresholds_def ctl
        put_if_disj put_if_same del: le_get.simps)
  moreover have "unat (dc_command (fill_thresholds dimm param sctx st sst0)) = ND_INTEL_SMART_SET_THRESHOLD"
    using sst0(4) by (simp add: fill_intel [OF assms(1) sst0(1)])
  ultimately show ?thesis using new sub sub2 by blast
qed

lemma demo_node_submit:
  assumes "dc_get cmd = Intel_Ops" "dc_type cmd = ND_CMD_CALL" "intel_cmd_get_firmware_status cmd = 0"
  shows "dimm_submit_xlat demo_node demo_intel cmd () = (0, cmd\<lparr>dc_status := 0\<rparr>, ())"
proof -
  have "intel_cmd_get_firmware_status (cmd\<lparr>dc_status := 0\<rparr>) = 0"
    using assms(3) by (simp add: intel_cmd_get_firmware_status_def Let_def del: le_get.simps)
  then show ?thesis
    using assms(1,2)
    by (simp add: dimm_submit_xlat_def submit_with_xlat_def dimm_cmd_submit_def dimm_do_cmd_def demo_node_def
        dimm_xlat_firmware_status_def intel_cmd_xlat_firmware_status_def demo_intel_def)
qed

definition demo_hot :: smart_params where
  "demo_hot = demo_fatal\<lparr>sp_fatal := False, sp_media_temperature_threshold := Some ''50''\<rparr>"

theorem set_thresh_keeps_rest_witness:
  "\<exists>set sst. set_thresholds set = (0, 0, 0x320, 0) \<and> dimm_submit_xlat demo_node demo_intel set () = (0, sst, ())"
proof -
  let ?ctx = "zero_smart_ctx\<lparr>sc_set := True, sc_media_temperature_threshold := 0x320\<rparr>"
  have ops: "dm_ops demo_intel = Intel_Ops" by (simp add: demo_intel_def)
  obtain "get" where new: "intel_dimm_cmd_new_smart_threshold demo_node demo_intel = Some get"
    and g: "dc_get get = Intel_Ops" "dc_type get = ND_CMD_CALL" "dc_command get = 2" "dc_buf get = zero_mem"
      "dc_family get = NVDIMM_FAMILY_INTEL"
    by (auto simp: intel_dimm_cmd_new_smart_threshold_def alloc_intel_cmd_def demo_node_def)
  have sub: "dimm_submit_xlat demo_node demo_intel get () = (0, get\<lparr>dc_status := 0\<rparr>, ())"
    using g by (intro demo_node_submit) (simp_all add: intel_cmd_get_firmware_status_def del: le_get.simps)
  let ?st = "get\<lparr>dc_status := 0\<rparr>"
  have "\<not> intel_smart_threshold_valid ?st < 0"
    using g by (simp add: intel_smart_threshold_valid_def intel_submitted_def)
  then obtain sst where set: "intel_dimm_cmd_new_smart_set_threshold demo_node demo_intel ?st = Some sst"
    by (auto simp: intel_dimm_cmd_new_smart_set_threshold_def alloc_intel_cmd_def demo_node_def Let_def)
  then have sst: "dc_get sst = Intel_Ops" "dc_type sst = ND_CMD_CALL" "(le_get 4 (dc_buf sst) 7 :: u32) = 0"
    by (auto simp: intel_dimm_cmd_new_smart_set_threshold_def alloc_intel_cmd_def Let_def le_get_put_disj
        split: if_splits option.splits simp del: le_put.simps le_get.simps)
  let ?fill = "fill_thresholds demo_intel demo_hot ?ctx ?st sst"
  have "dimm_submit_xlat demo_node demo_intel ?fill () = (0, ?fill\<lparr>dc_status := 0\<rparr>, ())"
    using sst new_set_thresholds(4) [OF set]
    by (intro demo_node_submit)
      (simp_all add: fill_intel [OF ops new_set_thresholds(1) [OF set]] intel_cmd_get_firmware_status_def put_if_disj
        del: le_get.simps)
  then have "smart_set_thresh demo_node demo_intel demo_hot ?ctx () = (0, ())"
    using new sub set ops
    by (simp add: smart_set_thresh_def ndctl_dimm_cmd_new_smart_threshold_def ndctl_dimm_cmd_new_smart_set_threshold_def)
  from set_thresh_keeps_rest [OF ops this] new sub
  obtain set' sst' where "set_thresholds set' = asked_thresholds demo_hot ?ctx (read_thresholds ?st)"
    "dimm_submit_xlat demo_node demo_intel set' () = (0, sst', ())" by auto
  moreover have "asked_thresholds demo_hot ?ctx (read_thresholds ?st) = (0, 0, 0x320, 0)"
    using g by (simp add: read_thresholds_def asked_thresholds_def demo_hot_def demo_fatal_def zero_smart_ctx_def
        del: le_get.simps)
  ultimately show ?thesis by auto
qed

text \<open>Two smaller observations: the injection of a controller temperature is announced by Intel DIMMs and refused, and when
  everything is to be uninjected, a DIMM without the injection command makes the code follow \<open>NULL\<close>.\<close>

lemma ctrl_temperature_refused:
  "dm_ops dimm = Intel_Ops \<Longrightarrow> 0 \<le> ndctl_dimm_smart_inject_supported dimm \<Longrightarrow>
    word_of_int (ndctl_dimm_smart_inject_supported dimm) AND ND_SMART_INJECT_CTRL_TEMPERATURE \<noteq> 0 \<and>
    ndctl_cmd_smart_inject_ctrl_temperature dimm cmd enable val = (- ENXIO, cmd)"
  by (auto simp: ndctl_dimm_smart_inject_supported_def intel_dimm_smart_inject_supported_def
      ndctl_cmd_smart_inject_ctrl_temperature_def split: if_splits)

lemma uninject_all_null:
  "ndctl_dimm_cmd_new_smart_inject sys dimm = None \<Longrightarrow> send_inject sys dimm True fill rc d = None"
  by (simp add: send_inject_def)

end
