(* ===== verification/Scrub.thy ===== *)
theory Scrub
  imports Size
begin

text \<open>
  Waiting for an address range scrub, \<open>ndctl/lib/libndctl.c\<close>: reading the state of a scrub from sysfs, starting one and the
  polling loop of \<open>ndctl_bus_poll_scrub_completion\<close>.

  The sysfs file and \<open>poll\<close> are parameters over a state in which time passes.  The loop may run forever, so it is a
  partial function: \<open>None\<close> is a call that does not return.
\<close>

subsection \<open>The scrub file\<close>

text \<open>\<open>ss_path\<close> says that the bus has a scrub file, \<open>ss_open\<close> is the error of opening it or 0, \<open>ss_read\<close> reads it (\<open>None\<close> is an
  error), \<open>ss_write\<close> writes to it, \<open>ss_poll\<close> waits for at most so many milliseconds and returns what \<open>poll\<close> returns,
  a negative error number for -1, \<open>ss_pread\<close> is the error of the \<open>pread\<close> after it, or 0.\<close>

record 'd scrub_sys =
  ss_path :: bool
  ss_open :: "'d \<Rightarrow> int"
  ss_read :: "'d \<Rightarrow> string option \<times> 'd"
  ss_write :: "string \<Rightarrow> 'd \<Rightarrow> int \<times> 'd"
  ss_poll :: "int \<Rightarrow> 'd \<Rightarrow> int \<times> 'd"
  ss_pread :: "'d \<Rightarrow> int"

text \<open>\<open>sscanf(buf, "%u%c", &scrub_count, &in_progress)\<close>: what it returns, the number and the character.\<close>

definition scan_scrub :: "string \<Rightarrow> int \<times> u32 \<times> char" where
  "scan_scrub buf =
     (let s = dropWhile is_space buf in
      if s = [] then (- 1, 0, CHR 0x00)
      else case scan_sign s of (neg, s) \<Rightarrow>
        if \<not> starts_digit 10 s then (0, 0, CHR 0x00)
        else case scan_digits 10 s 0 of (n, rest) \<Rightarrow>
          let scrub_count = (if neg then - of_nat n else of_nat n) in
          (case rest of [] \<Rightarrow> (1, scrub_count, CHR 0x00) | c # _ \<Rightarrow> (2, scrub_count, c)))"

text \<open>The result code, the count and whether a scrub is active.\<close>

definition get_scrub_state :: "'d scrub_sys \<Rightarrow> 'd \<Rightarrow> int \<times> u32 \<times> bool \<times> 'd" where
  "get_scrub_state sys d =
     (case ss_read sys d of
        (None, d) \<Rightarrow> (- EOPNOTSUPP, 0, False, d)
      | (Some buf, d) \<Rightarrow>
          (case scan_scrub buf of (rc, scrub_count, in_progress) \<Rightarrow>
             if rc < 0 then (- ENXIO, 0, False, d)
             else if rc = 1 then (0, scrub_count, False, d)
             else if rc = 2 \<and> in_progress = CHR ''+'' then (0, scrub_count, True, d)
             else (- ENXIO, scrub_count, False, d)))"

definition ndctl_bus_get_scrub_state :: "'d scrub_sys \<Rightarrow> 'd \<Rightarrow> int \<times> 'd" where
  "ndctl_bus_get_scrub_state sys d =
     (case get_scrub_state sys d of (rc, scrub_count, active, d) \<Rightarrow> if rc < 0 then (rc, d) else (if active then 1 else 0, d))"

definition ndctl_bus_get_scrub_count :: "'d scrub_sys \<Rightarrow> 'd \<Rightarrow> u32 \<times> 'd" where
  "ndctl_bus_get_scrub_count sys d =
     (case get_scrub_state sys d of (rc, scrub_count, active, d) \<Rightarrow> if rc \<noteq> 0 then (- 1, d) else (scrub_count, d))"

subsection \<open>Polling\<close>

text \<open>The time to wait, in milliseconds; -1 is forever.  \<open>poll\<close> takes an \<open>int\<close>.\<close>

definition poll_tmo :: "u32 \<Rightarrow> u32 \<Rightarrow> int" where
  "poll_tmo poll_interval timeout =
     (let tmo = (if timeout = 0 then uint poll_interval
                 else if poll_interval = 0 then uint timeout
                 else uint (min poll_interval timeout)) * 1000
      in if tmo = 0 then - 1 else sint (word_of_int tmo :: 32 word))"

text \<open>What happens after a poll that timed out: give up, or go on with a new interval and timeout.\<close>

definition after_timeout :: "u32 \<Rightarrow> u32 \<Rightarrow> (u32 \<times> u32) option" where
  "after_timeout poll_interval timeout =
     (if timeout = 0 then Some (poll_interval, timeout)
      else if poll_interval = 0 \<or> poll_interval > timeout then None
      else if timeout > poll_interval then Some (poll_interval, timeout - poll_interval)
      else Some (0, 1))"

partial_function (option) poll_loop :: "'d scrub_sys \<Rightarrow> u32 \<Rightarrow> u32 \<Rightarrow> 'd \<Rightarrow> (int \<times> 'd) option" where
  "poll_loop sys poll_interval timeout d =
     (case ss_read sys d of
        (None, d) \<Rightarrow> Some (- EOPNOTSUPP, d)
      | (Some buf, d) \<Rightarrow>
          (case scan_scrub buf of (rc, scrub_count, in_progress) \<Rightarrow>
             if rc < 0 then Some (- EOPNOTSUPP, d)
             else if rc = 1 then Some (0, d)
             else if rc = 2 \<and> in_progress = CHR ''+'' then
               (case ss_poll sys (poll_tmo poll_interval timeout) d of
                  (rc, d) \<Rightarrow>
                    if ss_pread sys d \<noteq> 0 then Some (- ss_pread sys d, d)
                    else if rc < 0 then Some (rc, d)
                    else if rc = 0 then
                      (case after_timeout poll_interval timeout of
                         None \<Rightarrow> Some (- ETIMEDOUT, d)
                       | Some (poll_interval, timeout) \<Rightarrow> poll_loop sys poll_interval timeout d)
                    else poll_loop sys poll_interval timeout d)
             else poll_loop sys poll_interval timeout d))"

definition ndctl_bus_poll_scrub_completion :: "'d scrub_sys \<Rightarrow> u32 \<Rightarrow> u32 \<Rightarrow> 'd \<Rightarrow> (int \<times> 'd) option" where
  "ndctl_bus_poll_scrub_completion sys poll_interval timeout d =
     (if \<not> ss_path sys then Some (- EOPNOTSUPP, d)
      else if ss_open sys d \<noteq> 0 then Some (- ss_open sys d, d)
      else poll_loop sys poll_interval timeout d)"

definition ndctl_bus_wait_for_scrub_completion :: "'d scrub_sys \<Rightarrow> 'd \<Rightarrow> (int \<times> 'd) option" where
  "ndctl_bus_wait_for_scrub_completion sys d = ndctl_bus_poll_scrub_completion sys 0 0 d"

definition ndctl_bus_start_scrub :: "'d scrub_sys \<Rightarrow> 'd \<Rightarrow> (int \<times> 'd) option" where
  "ndctl_bus_start_scrub sys d =
     (if \<not> ss_path sys then Some (- EOPNOTSUPP, d)
      else case ss_write sys (''1'' @ [CHR 0x0A]) d of (rc, d) \<Rightarrow>
        if rc \<noteq> - EBUSY then Some (rc, d)
        else (case ndctl_bus_poll_scrub_completion sys 1 1 d of
                None \<Rightarrow> None
              | Some (prc, d) \<Rightarrow> if prc = 0 then Some (ss_write sys (''1'' @ [CHR 0x0A]) d) else Some (rc, d)))"

subsection \<open>The contents of the file\<close>

definition scrub_idle :: "string \<Rightarrow> bool" where
  "scrub_idle buf \<longleftrightarrow> fst (scan_scrub buf) = 1"

definition scrub_active :: "string \<Rightarrow> bool" where
  "scrub_active buf \<longleftrightarrow> fst (scan_scrub buf) = 2 \<and> snd (snd (scan_scrub buf)) = CHR ''+''"

definition scrub_other :: "string \<Rightarrow> bool" where
  "scrub_other buf \<longleftrightarrow> 0 \<le> fst (scan_scrub buf) \<and> \<not> scrub_idle buf \<and> \<not> scrub_active buf"

lemma loop_idle: "ss_read sys d = (Some buf, d1) \<Longrightarrow> scrub_idle buf \<Longrightarrow> poll_loop sys i t d = Some (0, d1)"
  by (cases "scan_scrub buf") (subst poll_loop.simps, simp add: scrub_idle_def)

lemma loop_active:
  assumes "ss_read sys d = (Some buf, d1)" and "scrub_active buf" and "ss_poll sys (poll_tmo i t) d1 = (rc, d2)" and "ss_pread sys d2 = 0"
    and "0 \<le> rc"
  shows "poll_loop sys i t d =
    (if rc = 0 then (case after_timeout i t of None \<Rightarrow> Some (- ETIMEDOUT, d2) | Some (i, t) \<Rightarrow> poll_loop sys i t d2)
     else poll_loop sys i t d2)"
  using assms by (cases "scan_scrub buf") (subst poll_loop.simps, simp add: scrub_active_def)

lemma loop_other: "ss_read sys d = (Some buf, d1) \<Longrightarrow> scrub_other buf \<Longrightarrow> poll_loop sys i t d = poll_loop sys i t d1"
  by (cases "scan_scrub buf") (subst poll_loop.simps, auto simp: scrub_other_def scrub_idle_def scrub_active_def)

subsection \<open>Waiting ends\<close>

text \<open>A scrub that finishes: \<open>left\<close> counts the wake-ups that are left until it is done.\<close>

definition scrub_finishes :: "'d scrub_sys \<Rightarrow> ('d \<Rightarrow> nat) \<Rightarrow> bool" where
  "scrub_finishes sys left \<longleftrightarrow>
     (\<forall>d. \<exists>buf d1. ss_read sys d = (Some buf, d1) \<and> left d1 = left d \<and> (if left d = 0 then scrub_idle buf else scrub_active buf)) \<and>
     (\<forall>tmo d. 0 \<le> fst (ss_poll sys tmo d) \<and> ss_pread sys (snd (ss_poll sys tmo d)) = 0 \<and>
        (0 < left d \<longrightarrow> left (snd (ss_poll sys tmo d)) < left d))"

text \<open>C31: without a timeout, waiting for a scrub that finishes returns, with success, and only when the scrub is done.\<close>

theorem scrub_wait_completes:
  assumes "ss_path sys" and "ss_open sys d = 0" and fin: "scrub_finishes sys left"
  shows "\<exists>d'. ndctl_bus_poll_scrub_completion sys poll_interval 0 d = Some (0, d') \<and> left d' = 0"
proof -
  have "\<exists>d'. poll_loop sys poll_interval 0 d = Some (0, d') \<and> left d' = 0" for d
  proof (induction "left d" arbitrary: d rule: less_induct)
    case less
    obtain buf d1 where r: "ss_read sys d = (Some buf, d1)" "left d1 = left d" "if left d = 0 then scrub_idle buf else scrub_active buf"
      using fin unfolding scrub_finishes_def by blast
    show ?case
    proof (cases "left d = 0")
      case True
      then show ?thesis using r loop_idle by metis
    next
      case False
      obtain rc d2 where p: "ss_poll sys (poll_tmo poll_interval 0) d1 = (rc, d2)" by fastforce
      have "0 \<le> rc" "ss_pread sys d2 = 0" "left d2 < left d"
        using fin p r(2) False unfolding scrub_finishes_def by (metis fst_conv snd_conv neq0_conv)+
      then show ?thesis
        using loop_active [OF r(1) _ p] r(3) False less [of d2] by (simp add: after_timeout_def)
    qed
  qed
  then show ?thesis using assms(1,2) by (simp add: ndctl_bus_poll_scrub_completion_def)
qed

text \<open>A scrub that never ends, with a clock in milliseconds that only \<open>poll\<close> advances, by the whole time it was given.\<close>

definition scrub_stuck :: "'d scrub_sys \<Rightarrow> ('d \<Rightarrow> int) \<Rightarrow> bool" where
  "scrub_stuck sys clock \<longleftrightarrow>
     (\<forall>d. \<exists>buf d1. ss_read sys d = (Some buf, d1) \<and> scrub_active buf \<and> clock d1 = clock d) \<and>
     (\<forall>tmo d. fst (ss_poll sys tmo d) = 0 \<and> ss_pread sys (snd (ss_poll sys tmo d)) = 0 \<and>
        (0 \<le> tmo \<longrightarrow> clock (snd (ss_poll sys tmo d)) = clock d + tmo))"

lemma sint_ms:
  assumes "uint (t::u32) * 1000 < 2 ^ 31"
  shows "sint (word_of_int (uint t * 1000) :: 32 word) = uint t * 1000"
proof -
  define k where "k = uint t * 1000"
  have "0 \<le> k" by (simp add: k_def)
  then have "signed_take_bit 31 k = k" using assms unfolding k_def [symmetric] by (intro signed_take_bit_int_eq_self) simp_all
  then show ?thesis unfolding k_def [symmetric] by (simp add: sint_sbintrunc')
qed

lemma uint_int: "uint (x::u32) = int (unat x)"
  by simp

text \<open>How long one round waits.\<close>

definition round_wait :: "u32 \<Rightarrow> u32 \<Rightarrow> u32" where
  "round_wait i t = (if i = 0 then t else min i t)"

lemma loop_stuck:
  assumes stuck: "scrub_stuck sys clock" and t: "t \<noteq> 0" and small: "uint t * 1000 < 2 ^ 31"
  shows "\<exists>d2. clock d2 = clock d + 1000 * uint (round_wait i t) \<and>
    poll_loop sys i t d = (case after_timeout i t of None \<Rightarrow> Some (- ETIMEDOUT, d2) | Some (i, t) \<Rightarrow> poll_loop sys i t d2)"
proof -
  obtain buf d1 where r: "ss_read sys d = (Some buf, d1)" "scrub_active buf" "clock d1 = clock d"
    using stuck unfolding scrub_stuck_def by blast
  have "round_wait i t \<le> t" by (simp add: round_wait_def)
  then have "uint (round_wait i t) \<le> uint t" by (simp add: word_le_def)
  then have "uint (round_wait i t) * 1000 < 2 ^ 31" using small by linarith
  note ms = sint_ms [OF this]
  have "round_wait i t \<noteq> 0" using t by (simp add: round_wait_def min_def)
  then have "uint (round_wait i t) \<noteq> 0" by (simp only: unsigned_eq_0_iff not_False_eq_True)
  then have tmo: "poll_tmo i t = uint (round_wait i t) * 1000"
    using t ms unfolding poll_tmo_def Let_def round_wait_def by (cases "i = 0") simp_all
  obtain rc d2 where p: "ss_poll sys (poll_tmo i t) d1 = (rc, d2)" by fastforce
  have "rc = 0 \<and> ss_pread sys d2 = 0 \<and> (0 \<le> poll_tmo i t \<longrightarrow> clock d2 = clock d1 + poll_tmo i t)"
    using stuck p unfolding scrub_stuck_def by (metis fst_conv snd_conv)
  then have "rc = 0" "ss_pread sys d2 = 0" "clock d2 = clock d + 1000 * uint (round_wait i t)"
    using tmo r(3) by simp_all
  then show ?thesis using loop_active [OF r(1,2) p] by auto
qed

text \<open>With a timeout, waiting for a scrub that never ends returns \<open>ETIMEDOUT\<close> after exactly the timeout, or a second
  later when the interval divides it.\<close>

theorem scrub_poll_times_out:
  assumes path: "ss_path sys" "ss_open sys d = 0" and stuck: "scrub_stuck sys clock"
    and "timeout \<noteq> 0" and "uint timeout * 1000 < 2 ^ 31"
  shows "\<exists>d'. ndctl_bus_poll_scrub_completion sys poll_interval timeout d = Some (- ETIMEDOUT, d') \<and>
    clock d' = clock d + 1000 * uint timeout + (if poll_interval \<noteq> 0 \<and> unat poll_interval dvd unat timeout then 1000 else 0)"
proof -
  have "\<exists>d'. poll_loop sys poll_interval t d = Some (- ETIMEDOUT, d') \<and>
    clock d' = clock d + 1000 * uint t + (if poll_interval \<noteq> 0 \<and> unat poll_interval dvd unat t then 1000 else 0)"
    if "t \<noteq> 0" "uint t * 1000 < 2 ^ 31" for t d
    using that
  proof (induction "unat t" arbitrary: t d rule: less_induct)
    case less
    obtain d2 where c: "clock d2 = clock d + 1000 * uint (round_wait poll_interval t)"
      and l: "poll_loop sys poll_interval t d =
        (case after_timeout poll_interval t of None \<Rightarrow> Some (- ETIMEDOUT, d2) | Some (i, t) \<Rightarrow> poll_loop sys i t d2)"
      using loop_stuck [OF stuck less.prems] by blast
    consider "poll_interval = 0 \<or> poll_interval > t" | "poll_interval \<noteq> 0" "poll_interval < t" | "poll_interval \<noteq> 0" "poll_interval = t"
      by fastforce
    then show ?case
    proof cases
      case 1
      have "\<not> unat poll_interval dvd unat t \<or> poll_interval = 0"
        using 1 less.prems(1) by (auto simp: word_less_nat_alt dvd_imp_le unat_gt_0 dest!: dvd_imp_le)
      moreover have "after_timeout poll_interval t = None" "round_wait poll_interval t = t"
        using 1 less.prems(1) by (auto simp: after_timeout_def round_wait_def min_def)
      ultimately show ?thesis using l c by auto
    next
      case 2
      have a: "after_timeout poll_interval t = Some (poll_interval, t - poll_interval)" "round_wait poll_interval t = poll_interval"
        using 2 less.prems(1) by (auto simp: after_timeout_def round_wait_def min_def)
      have u: "unat (t - poll_interval) = unat t - unat poll_interval" using 2(2) by (simp add: unat_sub)
      have "unat poll_interval < unat t" "0 < unat poll_interval" using 2 by (simp_all add: word_less_nat_alt unat_gt_0)
      then have dvd: "unat poll_interval dvd unat (t - poll_interval) \<longleftrightarrow> unat poll_interval dvd unat t"
        unfolding u by (simp add: dvd_minus_self)
      have uu: "uint (t - poll_interval) = uint t - uint poll_interval" unfolding uint_int u using \<open>unat poll_interval < unat t\<close>
        by (simp only: of_nat_diff less_imp_le)
      have "\<exists>d'. poll_loop sys poll_interval (t - poll_interval) d2 = Some (- ETIMEDOUT, d') \<and>
          clock d' = clock d2 + 1000 * uint (t - poll_interval) +
            (if poll_interval \<noteq> 0 \<and> unat poll_interval dvd unat (t - poll_interval) then 1000 else 0)"
      proof (rule less.hyps)
        show "unat (t - poll_interval) < unat t" using u \<open>unat poll_interval < unat t\<close> \<open>0 < unat poll_interval\<close> by linarith
        show "t - poll_interval \<noteq> 0" using 2(2) by auto
        have "uint (t - poll_interval) * 1000 \<le> uint t * 1000" unfolding uu by simp
        then show "uint (t - poll_interval) * 1000 < 2 ^ 31" using less.prems(2) by (rule le_less_trans)
      qed
      then show ?thesis using l a c unfolding dvd uu by auto
    next
      case 3
      have a: "after_timeout poll_interval t = Some (0, 1)" "round_wait poll_interval t = t"
        using 3 less.prems(1) by (auto simp: after_timeout_def round_wait_def min_def)
      obtain d3 where "clock d3 = clock d2 + 1000" "poll_loop sys 0 1 d2 = Some (- ETIMEDOUT, d3)"
        using loop_stuck [OF stuck, of 1 d2 0] by (auto simp: round_wait_def after_timeout_def)
      then show ?thesis using l a c 3 by auto
    qed
  qed
  then show ?thesis using assms by (simp add: ndctl_bus_poll_scrub_completion_def)
qed

text \<open>Contents that are neither a count nor a count with a plus sign make the polling loop spin without waiting and
  without an end, whatever the timeout.\<close>

theorem scrub_poll_spins:
  assumes "ss_path sys" and "ss_open sys d = 0" and "\<forall>d. \<exists>buf d1. ss_read sys d = (Some buf, d1) \<and> scrub_other buf"
  shows "ndctl_bus_poll_scrub_completion sys poll_interval timeout d = None"
proof -
  have "\<not> (\<forall>d. \<exists>buf d1. ss_read sys d = (Some buf, d1) \<and> scrub_other buf)" if "poll_loop sys i t d = Some y" for i t d y
  proof (rule poll_loop.raw_induct [where P = "\<lambda>sys i t d y. \<not> (\<forall>d. \<exists>buf d1. ss_read sys d = (Some buf, d1) \<and> scrub_other buf)",
        OF _ that])
    fix loop and sys :: "'a scrub_sys" and i t d y
    assume IH: "\<And>sys i t d y. loop sys i t d = Some y \<Longrightarrow> \<not> (\<forall>d. \<exists>buf d1. ss_read sys d = (Some buf, d1) \<and> scrub_other buf)"
      and run: "(case ss_read sys d of
        (None, d) \<Rightarrow> Some (- EOPNOTSUPP, d)
      | (Some buf, d) \<Rightarrow>
          (case scan_scrub buf of (rc, scrub_count, in_progress) \<Rightarrow>
             if rc < 0 then Some (- EOPNOTSUPP, d)
             else if rc = 1 then Some (0, d)
             else if rc = 2 \<and> in_progress = CHR ''+'' then
               (case ss_poll sys (poll_tmo i t) d of
                  (rc, d) \<Rightarrow>
                    if ss_pread sys d \<noteq> 0 then Some (- ss_pread sys d, d)
                    else if rc < 0 then Some (rc, d)
                    else if rc = 0 then
                      (case after_timeout i t of
                         None \<Rightarrow> Some (- ETIMEDOUT, d)
                       | Some (i, t) \<Rightarrow> loop sys i t d)
                    else loop sys i t d)
             else loop sys i t d)) = Some y"
    show "\<not> (\<forall>d. \<exists>buf d1. ss_read sys d = (Some buf, d1) \<and> scrub_other buf)"
    proof
      assume other: "\<forall>d. \<exists>buf d1. ss_read sys d = (Some buf, d1) \<and> scrub_other buf"
      then obtain buf d1 where r: "ss_read sys d = (Some buf, d1)" "scrub_other buf" by blast
      obtain rc n c where s: "scan_scrub buf = (rc, n, c)" by (metis surj_pair)
      then have "loop sys i t d1 = Some y"
        using run r by (simp add: scrub_other_def scrub_idle_def scrub_active_def split: if_splits)
      from IH [OF this] other show False by blast
    qed
  qed
  then have "poll_loop sys poll_interval timeout d = None" using assms(3) by (meson not_None_eq)
  then show ?thesis using assms(1,2) by (simp add: ndctl_bus_poll_scrub_completion_def)
qed

subsection \<open>Examples\<close>

text \<open>A clock in milliseconds; the scrub ends after so many wake-ups, if at all.\<close>

definition demo_scrub :: "string \<Rightarrow> (nat \<times> int) scrub_sys" where
  "demo_scrub contents = \<lparr>ss_path = True, ss_open = (\<lambda>d. 0),
     ss_read = (\<lambda>d. (Some (if fst d = 0 then ''12'' else contents), d)),
     ss_write = (\<lambda>s d. (0, d)), ss_poll = (\<lambda>tmo d. (0, fst d - 1, snd d + tmo)), ss_pread = (\<lambda>d. 0)\<rparr>"

lemma demo_contents: "scrub_idle ''12''" "scrub_active ''12+''" "scrub_other ''12-''"
  by (simp_all add: scrub_idle_def scrub_active_def scrub_other_def scan_scrub_def is_space_def scan_sign_def starts_digit_def
      digit_value_def Let_def)

theorem scrub_wait_completes_witness:
  "\<exists>d'. ndctl_bus_poll_scrub_completion (demo_scrub ''12+'') 0 0 (3, 0) = Some (0, d') \<and> fst d' = 0"
proof (rule scrub_wait_completes)
  show "scrub_finishes (demo_scrub ''12+'') fst"
    by (simp add: scrub_finishes_def demo_scrub_def demo_contents)
qed (simp_all add: demo_scrub_def)

definition stuck_scrub :: "string \<Rightarrow> int scrub_sys" where
  "stuck_scrub contents = \<lparr>ss_path = True, ss_open = (\<lambda>d. 0), ss_read = (\<lambda>d. (Some contents, d)), ss_write = (\<lambda>s d. (0, d)),
     ss_poll = (\<lambda>tmo d. (0, d + tmo)), ss_pread = (\<lambda>d. 0)\<rparr>"

theorem scrub_poll_times_out_witness:
  "ndctl_bus_poll_scrub_completion (stuck_scrub ''12+'') 2 5 0 = Some (- ETIMEDOUT, 5000) \<and>
   ndctl_bus_poll_scrub_completion (stuck_scrub ''12+'') 5 5 0 = Some (- ETIMEDOUT, 6000)"
proof -
  have "scrub_stuck (stuck_scrub ''12+'') id" by (simp add: scrub_stuck_def stuck_scrub_def demo_contents)
  then show ?thesis
    using scrub_poll_times_out [of "stuck_scrub ''12+''" 0 id 5 2] scrub_poll_times_out [of "stuck_scrub ''12+''" 0 id 5 5]
    by (simp add: stuck_scrub_def)
qed

theorem scrub_poll_spins_witness: "ndctl_bus_poll_scrub_completion (stuck_scrub ''12-'') 2 5 0 = None"
  by (rule scrub_poll_spins) (simp_all add: stuck_scrub_def demo_contents)

end
