(* ===== verification/Fw_Update.thy ===== *)
theory Fw_Update
  imports Smart_Cmd Scrub
begin

text \<open>
  Updating the firmware of a DIMM: \<open>action_update\<close> of \<open>ndctl/dimm.c\<close> with the steps it is made of, the context of
  \<open>ndctl/firmware-update.h\<close>, and arming the activation of the new firmware (\<open>ndctl/lib/libndctl.c\<close>).

  The commands are those of \<open>Smart_Cmd\<close>.  The result of a step is \<open>None\<close> where the code follows \<open>NULL\<close> or, in the loop that waits
  for the update to finish, does not return.  Listing the DIMM is left out.
\<close>

subsection \<open>State\<close>

datatype ndctl_fwa_state = NDCTL_FWA_INVALID | NDCTL_FWA_IDLE | NDCTL_FWA_ARMED | NDCTL_FWA_BUSY | NDCTL_FWA_ARM_OVERFLOW

record fw_info =
  fi_store_size :: u32
  fi_update_size :: u32
  fi_query_interval :: u32
  fi_max_query :: u32
  fi_run_version :: u64
  fi_context :: u32

text \<open>The context of an update: the size found by \<open>fstat\<close>, what the DIMM told about itself, the start command (\<open>None\<close> is
  \<open>NULL\<close>), the position in the file, and the activation states cached in the bus and the DIMM.\<close>

record update_context =
  uc_fw_size :: u64
  uc_dimm_fw :: fw_info
  uc_start :: "dimm_cmd option"
  uc_pos :: nat
  uc_bus_fwa :: ndctl_fwa_state
  uc_dimm_fwa :: ndctl_fwa_state

record fw_params =
  fp_infile :: bool
  fp_force :: bool
  fp_arm :: bool
  fp_disarm :: bool

text \<open>\<open>fu_stat\<close> is the errno of \<open>fstat\<close>, or whether the file is regular and its size; \<open>fu_file\<close> are its bytes.  \<open>fu_clock\<close> is the
  errno of \<open>clock_gettime\<close> or the monotonic clock in nanoseconds, \<open>fu_sleep\<close> returns the errno of \<open>nanosleep\<close> or 0.
  \<open>fu_read_bus\<close> reads the activation state of the bus, \<open>fu_write_dimm\<close> writes that of the DIMM.\<close>

record 'd fw_sys =
  fu_dimm :: "'d dimm_sys"
  fu_scrub :: "'d scrub_sys"
  fu_stat :: "int + bool \<times> u64"
  fu_file :: "u8 list"
  fu_malloc :: "u32 \<Rightarrow> bool"
  fu_clock :: "'d \<Rightarrow> int + nat"
  fu_sleep :: "nat \<Rightarrow> 'd \<Rightarrow> int \<times> 'd"
  fu_read_bus :: "'d \<Rightarrow> string option"
  fu_write_dimm :: "string \<Rightarrow> 'd \<Rightarrow> int \<times> 'd"

subsection \<open>Activation\<close>

definition fwa_to_state :: "string \<Rightarrow> ndctl_fwa_state" where
  "fwa_to_state fwa =
     (if fwa = ''idle'' then NDCTL_FWA_IDLE
      else if fwa = ''busy'' then NDCTL_FWA_BUSY
      else if fwa = ''armed'' then NDCTL_FWA_ARMED
      else if fwa = ''overflow'' then NDCTL_FWA_ARM_OVERFLOW
      else NDCTL_FWA_INVALID)"

definition ndctl_bus_get_fw_activate_state :: "'d fw_sys \<Rightarrow> update_context \<Rightarrow> 'd \<Rightarrow> ndctl_fwa_state \<times> update_context" where
  "ndctl_bus_get_fw_activate_state sys uctx d =
     (if uc_bus_fwa uctx = NDCTL_FWA_INVALID then (NDCTL_FWA_INVALID, uctx)
      else case fu_read_bus sys d of
        None \<Rightarrow> (NDCTL_FWA_INVALID, uctx)
      | Some buf \<Rightarrow> (fwa_to_state buf, uctx\<lparr>uc_bus_fwa := fwa_to_state buf\<rparr>))"

definition dimm_set_arm :: "'d fw_sys \<Rightarrow> update_context \<Rightarrow> bool \<Rightarrow> 'd \<Rightarrow> ndctl_fwa_state \<times> 'd" where
  "dimm_set_arm sys uctx arm d =
     (if uc_dimm_fwa uctx = NDCTL_FWA_INVALID then (NDCTL_FWA_INVALID, d)
      else case fu_write_dimm sys (if arm then ''arm'' else ''disarm'') d of
        (rc, d) \<Rightarrow> if rc < 0 then (NDCTL_FWA_INVALID, d) else (NDCTL_FWA_ARMED, d))"

definition ndctl_dimm_fw_activate_disarm :: "'d fw_sys \<Rightarrow> update_context \<Rightarrow> 'd \<Rightarrow> ndctl_fwa_state \<times> 'd" where
  "ndctl_dimm_fw_activate_disarm sys uctx d = dimm_set_arm sys uctx False d"

definition ndctl_dimm_fw_activate_arm :: "'d fw_sys \<Rightarrow> update_context \<Rightarrow> 'd \<Rightarrow> ndctl_fwa_state \<times> 'd" where
  "ndctl_dimm_fw_activate_arm sys uctx d = dimm_set_arm sys uctx True d"

definition fw_update_arm :: "'d fw_sys \<Rightarrow> fw_params \<Rightarrow> update_context \<Rightarrow> 'd \<Rightarrow> ndctl_fwa_state \<times> update_context \<times> 'd" where
  "fw_update_arm sys param uctx d =
     (case ndctl_bus_get_fw_activate_state sys uctx d of
        (state, uctx) \<Rightarrow>
          if state = NDCTL_FWA_INVALID then (NDCTL_FWA_INVALID, uctx, d)
          else if state = NDCTL_FWA_ARM_OVERFLOW \<and> \<not> fp_force param then (NDCTL_FWA_INVALID, uctx, d)
          else (case ndctl_dimm_fw_activate_arm sys uctx d of
                  (state, d) \<Rightarrow>
                    if state \<noteq> NDCTL_FWA_ARMED then (NDCTL_FWA_INVALID, uctx, d)
                    else if fp_force param then (state, uctx, d)
                    else (case ndctl_bus_get_fw_activate_state sys uctx d of
                            (state, uctx) \<Rightarrow>
                              if state = NDCTL_FWA_ARM_OVERFLOW
                              then (NDCTL_FWA_INVALID, uctx, snd (ndctl_dimm_fw_activate_disarm sys uctx d))
                              else (NDCTL_FWA_ARMED, uctx, d))))"

definition fw_update_toggle_arm :: "'d fw_sys \<Rightarrow> fw_params \<Rightarrow> bool \<Rightarrow> update_context \<Rightarrow> 'd \<Rightarrow> int \<times> update_context \<times> 'd" where
  "fw_update_toggle_arm sys param arm_fatal uctx d =
     (case (if fp_disarm param then
              (case ndctl_dimm_fw_activate_disarm sys uctx d of (state, d) \<Rightarrow> (state, uctx, d))
            else if fp_arm param then fw_update_arm sys param uctx d
            else (NDCTL_FWA_INVALID, uctx, d)) of
        (state, uctx, d) \<Rightarrow> (if state = NDCTL_FWA_INVALID \<and> arm_fatal then - ENXIO else 0, uctx, d))"

subsection \<open>Steps of an update\<close>

definition update_verify_input :: "'d fw_sys \<Rightarrow> update_context \<Rightarrow> int \<times> update_context" where
  "update_verify_input sys uctx =
     (case fu_stat sys of
        Inl errno \<Rightarrow> (- errno, uctx)
      | Inr (regular, st_size) \<Rightarrow>
          if \<not> regular then (- EINVAL, uctx)
          else if st_size = 0 then (- EINVAL, uctx)
          else (0, uctx\<lparr>uc_fw_size := st_size\<rparr>))"

definition verify_fw_size :: "update_context \<Rightarrow> int" where
  "verify_fw_size uctx = (if uc_fw_size uctx > ucast (fi_store_size (uc_dimm_fw uctx)) then - ENOSPC else 0)"

text \<open>The fields are stored one by one, so that the ones before an invalid field stay changed.\<close>

definition submit_get_firmware_info :: "'d fw_sys \<Rightarrow> dimm_dev \<Rightarrow> update_context \<Rightarrow> 'd \<Rightarrow> int \<times> update_context \<times> 'd" where
  "submit_get_firmware_info sys dimm uctx d =
     (case ndctl_dimm_cmd_new_fw_get_info (fu_dimm sys) dimm of
        None \<Rightarrow> (- ENXIO, uctx, d)
      | Some cmd \<Rightarrow>
          (case dimm_cmd_submit (fu_dimm sys) cmd d of
             (rc, cmd, d) \<Rightarrow>
               if rc < 0 then (rc, uctx, d)
               else if ndctl_cmd_fw_xlat_firmware_status dimm cmd \<noteq> FW_SUCCESS then (- ENXIO, uctx, d)
               else let fw = uc_dimm_fw uctx; fw = fw\<lparr>fi_store_size := ndctl_cmd_fw_info_get_storage_size dimm cmd\<rparr> in
                 if fi_store_size fw = UINT32_MAX then (- ENXIO, uctx\<lparr>uc_dimm_fw := fw\<rparr>, d)
               else let fw = fw\<lparr>fi_update_size := ndctl_cmd_fw_info_get_max_send_len dimm cmd\<rparr> in
                 if fi_update_size fw = UINT32_MAX then (- ENXIO, uctx\<lparr>uc_dimm_fw := fw\<rparr>, d)
               else let fw = fw\<lparr>fi_query_interval := ndctl_cmd_fw_info_get_query_interval dimm cmd\<rparr> in
                 if fi_query_interval fw = UINT32_MAX then (- ENXIO, uctx\<lparr>uc_dimm_fw := fw\<rparr>, d)
               else let fw = fw\<lparr>fi_max_query := ndctl_cmd_fw_info_get_max_query_time dimm cmd\<rparr> in
                 if fi_max_query fw = UINT32_MAX then (- ENXIO, uctx\<lparr>uc_dimm_fw := fw\<rparr>, d)
               else let fw = fw\<lparr>fi_run_version := ndctl_cmd_fw_info_get_run_version dimm cmd\<rparr> in
                 if fi_run_version fw = ULLONG_MAX then (- ENXIO, uctx\<lparr>uc_dimm_fw := fw\<rparr>, d)
               else (verify_fw_size (uctx\<lparr>uc_dimm_fw := fw\<rparr>), uctx\<lparr>uc_dimm_fw := fw\<rparr>, d)))"

definition submit_abort_firmware :: "'d fw_sys \<Rightarrow> dimm_dev \<Rightarrow> update_context \<Rightarrow> 'd \<Rightarrow> (int \<times> 'd) option" where
  "submit_abort_firmware sys dimm uctx d =
     (case uc_start uctx of
        None \<Rightarrow> None
      | Some start \<Rightarrow>
          (case ndctl_dimm_cmd_new_fw_abort (fu_dimm sys) dimm start of
             None \<Rightarrow> Some (- ENXIO, d)
           | Some cmd \<Rightarrow>
               (case dimm_cmd_submit (fu_dimm sys) cmd d of
                  (rc, cmd, d) \<Rightarrow>
                    if rc < 0 then Some (rc, d)
                    else if ndctl_cmd_fw_xlat_firmware_status dimm cmd \<noteq> FW_ABORTED then Some (- ENXIO, d)
                    else Some (rc, d))))"

definition submit_start_firmware_upload :: "'d fw_sys \<Rightarrow> dimm_dev \<Rightarrow> fw_params \<Rightarrow> update_context \<Rightarrow> 'd
    \<Rightarrow> (int \<times> update_context \<times> 'd) option" where
  "submit_start_firmware_upload sys dimm param uctx d =
     (case ndctl_dimm_cmd_new_fw_start_update (fu_dimm sys) dimm of
        None \<Rightarrow> Some (- ENXIO, uctx, d)
      | Some cmd \<Rightarrow>
          (case dimm_cmd_submit (fu_dimm sys) cmd d of
             (rc, cmd, d) \<Rightarrow>
               if rc < 0 then Some (rc, uctx\<lparr>uc_start := None\<rparr>, d)
               else let status = ndctl_cmd_fw_xlat_firmware_status dimm cmd in
                 if status = FW_EBUSY then
                   (if fp_force param then
                      (case submit_abort_firmware sys dimm (uctx\<lparr>uc_start := Some cmd\<rparr>) d of
                         None \<Rightarrow> None
                       | Some (rc, d) \<Rightarrow> Some (if rc < 0 then - EBUSY else - EAGAIN, uctx\<lparr>uc_start := None\<rparr>, d))
                    else Some (- EBUSY, uctx\<lparr>uc_start := None\<rparr>, d))
                 else if status \<noteq> FW_SUCCESS then Some (- ENXIO, uctx\<lparr>uc_start := None\<rparr>, d)
                 else let context = ndctl_cmd_fw_start_get_context dimm cmd;
                          uctx = uctx\<lparr>uc_dimm_fw := (uc_dimm_fw uctx)\<lparr>fi_context := context\<rparr>\<rparr> in
                   if context = UINT32_MAX then Some (- ENXIO, uctx\<lparr>uc_start := None\<rparr>, d)
                   else Some (0, uctx\<lparr>uc_start := Some cmd\<rparr>, d)))"

text \<open>\<open>fread\<close> of one item of \<open>len\<close> bytes: it fails at the end of the file, and for an item of no bytes.  The length is
  returned as an \<open>int\<close>, then the bytes and the new position.\<close>

definition get_fw_data_from_file :: "u8 list \<Rightarrow> nat \<Rightarrow> u32 \<Rightarrow> int \<times> u8 list \<times> nat" where
  "get_fw_data_from_file file pos len =
     (if len = 0 then (- EBADF, [], pos)
      else if length file < pos + unat len then (- EBADF, [], max pos (length file))
      else (sint len, take (unat len) (drop pos file), pos + unat len))"

lemma unat_minus_less: "len \<noteq> 0 \<Longrightarrow> len \<le> remain \<Longrightarrow> unat (remain - len) < unat (remain :: u32)"
proof -
  assume "len \<noteq> 0" "len \<le> remain"
  then have "0 < unat len" "unat len \<le> unat remain" "unat (remain - len) = unat remain - unat len"
    by (simp_all add: unat_gt_0 word_le_nat_alt unat_sub)
  then show ?thesis by simp
qed

function send_loop :: "'d fw_sys \<Rightarrow> dimm_dev \<Rightarrow> u32 \<Rightarrow> dimm_cmd option \<Rightarrow> nat \<Rightarrow> u32 \<Rightarrow> u32 \<Rightarrow> int \<Rightarrow> 'd
    \<Rightarrow> (int \<times> nat \<times> 'd) option" where
  "send_loop sys dimm update_size start pos copied remain rc d =
     (if remain = 0 then Some (rc, pos, d)
      else let len = min update_size remain in
        case get_fw_data_from_file (fu_file sys) pos len of
          (read, buf, pos) \<Rightarrow>
            if read < 0 then Some (read, pos, d)
            else (case start of
                    None \<Rightarrow> None
                  | Some st \<Rightarrow>
                      (case ndctl_dimm_cmd_new_fw_send (fu_dimm sys) dimm st copied (word_of_int read) buf of
                         None \<Rightarrow> Some (- ENOMEM, pos, d)
                       | Some cmd \<Rightarrow>
                           (case dimm_cmd_submit (fu_dimm sys) cmd d of
                              (rc, cmd, d) \<Rightarrow>
                                if rc < 0 then Some (rc, pos, d)
                                else if ndctl_cmd_fw_xlat_firmware_status dimm cmd \<noteq> FW_SUCCESS then Some (- EIO, pos, d)
                                else send_loop sys dimm update_size start pos (copied + word_of_int read)
                                       (remain - word_of_int read) rc d))))"
  by pat_completeness auto

termination
proof (relation "measure (\<lambda>(sys, dimm, update_size, start, pos, copied, remain, rc, d). unat remain)", goal_cases)
  case 2
  then show ?case
    using unat_minus_less by (auto simp: get_fw_data_from_file_def split: if_splits)
qed simp

declare send_loop.simps [simp del]

definition send_firmware :: "'d fw_sys \<Rightarrow> dimm_dev \<Rightarrow> update_context \<Rightarrow> 'd \<Rightarrow> (int \<times> update_context \<times> 'd) option" where
  "send_firmware sys dimm uctx d =
     (let fw = uc_dimm_fw uctx in
      if \<not> fu_malloc sys (fi_update_size fw) then Some (- ENOMEM, uctx, d)
      else case send_loop sys dimm (fi_update_size fw) (uc_start uctx) (uc_pos uctx) 0 (ucast (uc_fw_size uctx)) (- ENXIO) d of
        None \<Rightarrow> None
      | Some (rc, pos, d) \<Rightarrow> Some (rc, uctx\<lparr>uc_pos := pos\<rparr>, d))"

text \<open>Only \<open>FW_SUCCESS\<close> sets the result; with the other states the result of the submission stands.\<close>

definition submit_finish_firmware :: "'d fw_sys \<Rightarrow> dimm_dev \<Rightarrow> update_context \<Rightarrow> 'd \<Rightarrow> (int \<times> 'd) option" where
  "submit_finish_firmware sys dimm uctx d =
     (case uc_start uctx of
        None \<Rightarrow> None
      | Some start \<Rightarrow>
          (case ndctl_dimm_cmd_new_fw_finish (fu_dimm sys) dimm start of
             None \<Rightarrow> Some (- ENXIO, d)
           | Some cmd \<Rightarrow>
               (case dimm_cmd_submit (fu_dimm sys) cmd d of
                  (rc, cmd, d) \<Rightarrow>
                    if rc < 0 then Some (rc, d)
                    else if ndctl_cmd_fw_xlat_firmware_status dimm cmd = FW_SUCCESS then Some (0, d)
                    else Some (rc, d))))"

text \<open>The wait for the end of the update.  \<open>None\<close> is a call that does not return.\<close>

partial_function (option) query_loop :: "'d fw_sys \<Rightarrow> dimm_dev \<Rightarrow> fw_info \<Rightarrow> nat \<Rightarrow> dimm_cmd \<Rightarrow> 'd
    \<Rightarrow> (int \<times> dimm_cmd \<times> bool \<times> 'd) option" where
  "query_loop sys dimm fw before cmd d =
     (case dimm_cmd_submit (fu_dimm sys) cmd d of
        (rc, cmd, d) \<Rightarrow>
          if rc < 0 then Some (rc, cmd, False, d)
          else if ndctl_cmd_fw_xlat_firmware_status dimm cmd = FW_EBUSY then
            (case fu_clock sys d of
               Inl errno \<Rightarrow> Some (- errno, cmd, False, d)
             | Inr after \<Rightarrow>
                 if int (after div 1000000000) - int (before div 1000000000) > int (unat (fi_max_query fw div 1000000))
                 then Some (- ETIMEDOUT, cmd, False, d)
                 else (case fu_sleep sys (unat (fi_query_interval fw div 1000)) d of
                         (errno, d) \<Rightarrow>
                           if errno \<noteq> 0 then Some (- errno, cmd, False, d) else query_loop sys dimm fw before cmd d))
          else Some (0, cmd, True, d))"

text \<open>The third component of the loop's result says that the firmware has answered.  The failure of the first
  \<open>clock_gettime\<close> is returned as -1.\<close>

definition query_fw_finish_status :: "'d fw_sys \<Rightarrow> dimm_dev \<Rightarrow> fw_params \<Rightarrow> update_context \<Rightarrow> 'd
    \<Rightarrow> (int \<times> update_context \<times> 'd) option" where
  "query_fw_finish_status sys dimm param uctx d =
     (case uc_start uctx of
        None \<Rightarrow> None
      | Some start \<Rightarrow>
          (case ndctl_dimm_cmd_new_fw_finish_query (fu_dimm sys) dimm start of
             None \<Rightarrow> Some (- ENXIO, uctx, d)
           | Some cmd \<Rightarrow>
               (case fu_clock sys d of
                  Inl _ \<Rightarrow> Some (- 1, uctx, d)
                | Inr before \<Rightarrow>
                    (case query_loop sys dimm (uc_dimm_fw uctx) before cmd d of
                       None \<Rightarrow> None
                     | Some (rc, cmd, answered, d) \<Rightarrow>
                         if \<not> answered then Some (rc, uctx, d)
                         else (case ndctl_cmd_fw_xlat_firmware_status dimm cmd of
                                 FW_SUCCESS \<Rightarrow>
                                   if ndctl_cmd_fw_fquery_get_fw_rev dimm cmd = 0 then Some (- EIO, uctx, d)
                                   else (case fw_update_toggle_arm sys param False uctx d of
                                           (_, uctx, d) \<Rightarrow> Some (0, uctx, d))
                               | FW_EBADFW \<Rightarrow> Some (- EINVAL, uctx, d)
                               | FW_ENORES \<Rightarrow> Some (- ETIMEDOUT, uctx, d)
                               | _ \<Rightarrow> Some (- EIO, uctx, d))))))"

subsection \<open>The update\<close>

text \<open>A few attempts to start; the result of the last one is not looked at.\<close>

fun start_attempts :: "nat \<Rightarrow> 'd fw_sys \<Rightarrow> dimm_dev \<Rightarrow> fw_params \<Rightarrow> update_context \<Rightarrow> 'd
    \<Rightarrow> (int \<times> update_context \<times> 'd) option" where
  "start_attempts 0 sys dimm param uctx d = Some (0, uctx, d)"
| "start_attempts (Suc n) sys dimm param uctx d =
     (case submit_start_firmware_upload sys dimm param uctx d of
        None \<Rightarrow> None
      | Some (rc, uctx, d) \<Rightarrow>
          if rc = - EAGAIN then start_attempts n sys dimm param uctx d
          else if rc < 0 then Some (rc, uctx, d)
          else Some (0, uctx, d))"

definition abort_update :: "'d fw_sys \<Rightarrow> dimm_dev \<Rightarrow> update_context \<Rightarrow> 'd \<Rightarrow> (int \<times> update_context \<times> 'd) option" where
  "abort_update sys dimm uctx d =
     (case submit_abort_firmware sys dimm uctx d of None \<Rightarrow> None | Some (rc, d) \<Rightarrow> Some (rc, uctx, d))"

definition update_firmware :: "'d fw_sys \<Rightarrow> dimm_dev \<Rightarrow> fw_params \<Rightarrow> update_context \<Rightarrow> 'd
    \<Rightarrow> (int \<times> update_context \<times> 'd) option" where
  "update_firmware sys dimm param uctx d =
     (case submit_get_firmware_info sys dimm uctx d of
        (rc, uctx, d) \<Rightarrow>
          if rc < 0 then Some (rc, uctx, d)
          else (case start_attempts 3 sys dimm param uctx d of
                  None \<Rightarrow> None
                | Some (rc, uctx, d) \<Rightarrow>
                    if rc < 0 then Some (rc, uctx, d)
                    else (case send_firmware sys dimm uctx d of
                            None \<Rightarrow> None
                          | Some (rc, uctx, d) \<Rightarrow>
                              if rc < 0 then abort_update sys dimm uctx d
                              else let uctx = uctx\<lparr>uc_pos := 0\<rparr> in
                                (case submit_finish_firmware sys dimm uctx d of
                                   None \<Rightarrow> None
                                 | Some (rc, d) \<Rightarrow>
                                     if rc < 0 then abort_update sys dimm uctx d
                                     else (case query_fw_finish_status sys dimm param uctx d of
                                             None \<Rightarrow> None
                                           | Some (rc, uctx, d) \<Rightarrow> Some (if rc < 0 then rc else 0, uctx, d))))))"

definition action_update :: "'d fw_sys \<Rightarrow> dimm_dev \<Rightarrow> fw_params \<Rightarrow> update_context \<Rightarrow> 'd
    \<Rightarrow> (int \<times> update_context \<times> 'd) option" where
  "action_update sys dimm param uctx d =
     (if \<not> fp_infile param then Some (fw_update_toggle_arm sys param True uctx d)
      else let rc = ndctl_dimm_fw_update_supported dimm in
        if rc = - ENOTTY \<or> rc = - EOPNOTSUPP \<or> rc = - EIO then Some (rc, uctx, d)
        else case ndctl_bus_get_scrub_state (fu_scrub sys) d of
          (scrub, d) \<Rightarrow>
            if scrub > 0 \<and> \<not> fp_force param then Some (- EBUSY, uctx, d)
            else (case update_verify_input sys uctx of
                    (rc, uctx) \<Rightarrow>
                      if rc < 0 then Some (rc, uctx, d) else update_firmware sys dimm param uctx d))"

subsection \<open>The image that is sent\<close>

text \<open>What is relied on: a send command that the firmware accepts stores its data at its offset in the image.  \<open>errno\<close> is not
  negative.\<close>

definition stores_image :: "'d dimm_sys \<Rightarrow> ('d \<Rightarrow> mem) \<Rightarrow> bool" where
  "stores_image sys img \<longleftrightarrow> (\<forall>d. 0 \<le> dy_open sys d) \<and>
     (\<forall>cmd d rc buf d'. dy_ioctl sys cmd d = (rc, buf, d') \<longrightarrow> unat (dc_command cmd) = ND_INTEL_FW_SEND_DATA \<longrightarrow> 0 \<le> rc \<longrightarrow>
        intel_cmd_fw_xlat_firmware_status (cmd\<lparr>dc_buf := buf, dc_status := rc\<rparr>) = FW_SUCCESS \<longrightarrow>
        img d' = mem_store (img d) (unat (le_get 4 (dc_buf cmd) 4 :: u32))
                     (mem_bytes (dc_buf cmd) 12 (unat (le_get 4 (dc_buf cmd) 8 :: u32))))"

lemma new_send:
  assumes "dm_ops dimm = Intel_Ops" "ndctl_dimm_cmd_new_fw_send sys dimm st offset len data = Some cmd"
    and "length data = unat len"
  shows "unat (dc_command cmd) = ND_INTEL_FW_SEND_DATA" "le_get 4 (dc_buf cmd) 4 = offset" "le_get 4 (dc_buf cmd) 8 = len"
    "mem_bytes (dc_buf cmd) 12 (unat len) = data"
proof -
  obtain c where alloc: "alloc_intel_cmd sys dimm ND_INTEL_FW_SEND_DATA (12 + unat len) 4 = Some c"
    and cmd: "cmd = c\<lparr>dc_buf := mem_store (le_put 4 len (le_put 4 offset (le_put 4 (start_context st) (dc_buf c) 0) 4) 8) 12 data\<rparr>"
    using assms by (auto simp: ndctl_dimm_cmd_new_fw_send_def intel_dimm_cmd_new_fw_send_def Let_def split: option.splits)
  show "unat (dc_command cmd) = ND_INTEL_FW_SEND_DATA"
    using alloc unfolding cmd by (auto simp: alloc_intel_cmd_def Let_def split: if_splits)
  show "le_get 4 (dc_buf cmd) 4 = offset" "le_get 4 (dc_buf cmd) 8 = len" "mem_bytes (dc_buf cmd) 12 (unat len) = data"
    unfolding cmd using assms(3)
    by (simp_all add: le_get_store_disj le_get_put_disj le_get_put_same del: le_get.simps le_put.simps)
qed

lemma send_stores:
  assumes "stores_image sys img" "dm_ops dimm = Intel_Ops"
    and "ndctl_dimm_cmd_new_fw_send sys dimm st offset len data = Some cmd" "length data = unat len"
    and "dimm_cmd_submit sys cmd d = (rc, cmd', d')" "0 \<le> rc" "ndctl_cmd_fw_xlat_firmware_status dimm cmd' = FW_SUCCESS"
  shows "img d' = mem_store (img d) (unat offset) data"
proof -
  have nonneg: "0 \<le> dy_open sys d" for d using assms(1) by (simp add: stores_image_def)
  note io = submit_ioctl [OF assms(5,6) nonneg]
  have st: "intel_cmd_fw_xlat_firmware_status (cmd\<lparr>dc_buf := dc_buf cmd', dc_status := rc\<rparr>) = FW_SUCCESS"
    using assms(2,7) io(2) by (simp add: ndctl_cmd_fw_xlat_firmware_status_def)
  note f = new_send [OF assms(2-4)]
  have "img d' = mem_store (img d) (unat (le_get 4 (dc_buf cmd) 4 :: u32))
      (mem_bytes (dc_buf cmd) 12 (unat (le_get 4 (dc_buf cmd) 8 :: u32)))"
    using assms(1,6) io(1) f(1) st unfolding stores_image_def by blast
  then show ?thesis using f(2-4) by simp
qed

lemma mem_bytes_append: "mem_bytes (mem_store m n bs) 0 (n + length bs) = mem_bytes m 0 n @ bs"
  by (rule nth_equalityI) (auto simp: nth_append mem_store_def)

lemma get_data:
  assumes "get_fw_data_from_file file pos len = (read, buf, pos')" "0 \<le> read"
  shows "word_of_int read = len" "buf = take (unat len) (drop pos file)" "pos' = pos + unat len"
    "pos + unat len \<le> length file" "length buf = unat len"
  using assms by (auto simp: get_fw_data_from_file_def split: if_splits)

lemma send_loop_stores:
  assumes "send_loop sys dimm update_size start pos copied remain rc d = Some (rc', pos', d')" "0 \<le> rc'"
    and "stores_image (fu_dimm sys) img" "dm_ops dimm = Intel_Ops"
    and "unat copied + unat remain < 2 ^ 32" "pos = unat copied" "pos \<le> length (fu_file sys)"
    and "mem_bytes (img d) 0 pos = take pos (fu_file sys)"
  shows "mem_bytes (img d') 0 (pos + unat remain) = take (pos + unat remain) (fu_file sys)
    \<and> pos + unat remain \<le> length (fu_file sys)"
  using assms
proof (induction sys dimm update_size start pos copied remain rc d rule: send_loop.induct)
  case (1 sys dimm update_size start pos copied remain rc d)
  show ?case
  proof (cases "remain = 0")
    case True
    then have "d' = d" using "1.prems"(1) by (simp add: send_loop.simps [where remain = 0])
    then show ?thesis using "1.prems" True by simp
  next
    case False
    let ?len = "min update_size remain"
    note step = "1.prems"(1) [unfolded send_loop.simps [of sys dimm update_size start pos copied remain rc d]]
    obtain read buf pos1 where data: "get_fw_data_from_file (fu_file sys) pos ?len = (read, buf, pos1)"
      by (metis prod_cases3)
    have read: "\<not> read < 0"
      using step "1.prems"(2) False data by (auto simp: Let_def)
    then obtain st cmd where st: "start = Some st"
      and new: "ndctl_dimm_cmd_new_fw_send (fu_dimm sys) dimm st copied (word_of_int read) buf = Some cmd"
      using step "1.prems"(2) False data by (auto simp: Let_def split: option.splits)
    obtain rc1 cmd1 d1 where sub: "dimm_cmd_submit (fu_dimm sys) cmd d = (rc1, cmd1, d1)" by (metis prod_cases3)
    have ok: "\<not> rc1 < 0" "ndctl_cmd_fw_xlat_firmware_status dimm cmd1 = FW_SUCCESS"
      and rec: "send_loop sys dimm update_size start pos1 (copied + word_of_int read) (remain - word_of_int read) rc1 d1
        = Some (rc', pos', d')"
      using step "1.prems"(2) False data read st new sub by (auto simp: Let_def split: if_splits)
    note g = get_data [OF data] 
    have g': "word_of_int read = ?len" "buf = take (unat ?len) (drop pos (fu_file sys))" "pos1 = pos + unat ?len"
      "pos + unat ?len \<le> length (fu_file sys)" "length buf = unat ?len" using g read by auto
    have le: "?len \<le> remain" by simp
    then have nat: "unat ?len \<le> unat remain" "unat (remain - ?len) = unat remain - unat ?len"
      by (simp_all add: word_le_nat_alt unat_sub)
    have add: "unat (copied + ?len) = unat copied + unat ?len"
      using "1.prems"(5) nat(1) by (simp add: unat_word_ariths)
    have im: "img d1 = mem_store (img d) (unat copied) buf"
      using send_stores [OF "1.prems"(3,4) new _ sub _ ok(2)] g'(1,5) ok(1) by simp
    have "mem_bytes (img d1) 0 pos1 = take pos1 (fu_file sys)"
      using mem_bytes_append [of "img d" pos buf] im "1.prems"(6,8) g'(2,3,5) by (simp add: take_add)
    then have "mem_bytes (img d') 0 (pos1 + unat (remain - word_of_int read))
        = take (pos1 + unat (remain - word_of_int read)) (fu_file sys)
        \<and> pos1 + unat (remain - word_of_int read) \<le> length (fu_file sys)"
      using "1.IH" [OF False refl data [symmetric] refl read st new sub [symmetric] refl ok(1) _ rec]
        "1.prems"(2-6) ok g' nat add by simp
    then show ?thesis using g'(1,3) nat by simp
  qed
qed

text \<open>C27: when \<open>send_firmware\<close> reports success the DIMM holds exactly the bytes of the file, for the whole size of the image.\<close>

theorem send_firmware_stores_image:
  assumes "stores_image (fu_dimm sys) img" "dm_ops dimm = Intel_Ops" "uc_fw_size uctx < 2 ^ 32" "uc_pos uctx = 0"
    and "send_firmware sys dimm uctx d = Some (rc, uctx', d')" "0 \<le> rc"
  shows "unat (uc_fw_size uctx) \<le> length (fu_file sys) \<and>
    mem_bytes (img d') 0 (unat (uc_fw_size uctx)) = take (unat (uc_fw_size uctx)) (fu_file sys)"
proof -
  let ?n = "ucast (uc_fw_size uctx) :: u32"
  have n: "unat ?n = unat (uc_fw_size uctx)"
    using assms(3) by (simp add: unsigned_ucast_eq take_bit_nat_eq_self word_less_nat_alt)
  obtain pos where "send_loop sys dimm (fi_update_size (uc_dimm_fw uctx)) (uc_start uctx) 0 0 ?n (- ENXIO) d = Some (rc, pos, d')"
    using assms(4-6) by (auto simp: send_firmware_def Let_def split: if_splits option.splits)
  from send_loop_stores [OF this assms(6,1,2)] show ?thesis
    using n unat_u32_less [of ?n] by (simp add: mem_bytes_def)
qed

text \<open>A DIMM for the examples: its state is the image it holds and the time; the parameters are the states its firmware reports
  for a start, for a send and for a query.  It aborts when asked to.\<close>

definition demo_ioctl :: "u32 \<Rightarrow> u32 \<Rightarrow> u32 \<Rightarrow> dimm_cmd \<Rightarrow> mem \<times> nat \<Rightarrow> int \<times> mem \<times> mem \<times> nat" where
  "demo_ioctl started sent query cmd d =
     (let c = unat (dc_command cmd); b = dc_buf cmd; len = unat (le_get 4 b 8 :: u32) in
      if c = 12 then (0, le_put 8 (1 :: u64) (le_put 4 (2000000 :: u32) (le_put 4 (1000 :: u32) (le_put 4 (2 :: u32)
                           (le_put 4 (16 :: u32) b 4) 8) 12) 16) 28, d)
      else if c = 13 then (0, le_put 4 (7 :: u32) (le_put 4 started b 0) 4, d)
      else if c = 14 then
        (0, le_put 4 sent b (12 + len),
         if sent AND 0xFFFF = 0 then (mem_store (fst d) (unat (le_get 4 b 4 :: u32)) (mem_bytes b 12 len), snd d) else d)
      else if c = 15 then (0, le_put 4 (if b 0 = 1 then 0x40007 else 0 :: u32) b 8, d)
      else (0, le_put 8 (2 :: u64) (le_put 4 query b 4) 8, d))"

definition demo_fw_sys :: "u32 \<Rightarrow> u32 \<Rightarrow> u32 \<Rightarrow> (mem \<times> nat) fw_sys" where
  "demo_fw_sys started sent query =
     \<lparr>fu_dimm = \<lparr>dy_calloc = (\<lambda>_. True), dy_open = (\<lambda>_. 0), dy_valid = (\<lambda>_. True), dy_ioctl = demo_ioctl started sent query\<rparr>,
      fu_scrub = \<lparr>ss_path = True, ss_open = (\<lambda>_. 0), ss_read = (\<lambda>d. (Some ''1'', d)), ss_write = (\<lambda>_ d. (0, d)),
                  ss_poll = (\<lambda>_ d. (1, d)), ss_pread = (\<lambda>_. 0)\<rparr>,
      fu_stat = Inr (True, 3), fu_file = [10, 20, 30], fu_malloc = (\<lambda>_. True), fu_clock = (\<lambda>d. Inr (snd d)),
      fu_sleep = (\<lambda>ns d. (0, (fst d, snd d + ns + 1))), fu_read_bus = (\<lambda>_. None), fu_write_dimm = (\<lambda>_ d. (0, d))\<rparr>"

definition demo_uctx :: update_context where
  "demo_uctx =
     \<lparr>uc_fw_size = 3, uc_dimm_fw = \<lparr>fi_store_size = 16, fi_update_size = 2, fi_query_interval = 1000, fi_max_query = 2000000,
        fi_run_version = 1, fi_context = 7\<rparr>, uc_start = None, uc_pos = 0, uc_bus_fwa = NDCTL_FWA_INVALID,
      uc_dimm_fwa = NDCTL_FWA_INVALID\<rparr>"

definition demo_force :: fw_params where
  "demo_force = \<lparr>fp_infile = True, fp_force = True, fp_arm = False, fp_disarm = False\<rparr>"

definition result_code :: "(int \<times> update_context \<times> 'd) option \<Rightarrow> int option" where
  "result_code r = (case r of None \<Rightarrow> None | Some (rc, _, _) \<Rightarrow> Some rc)"

lemma demo_stores: "stores_image (fu_dimm (demo_fw_sys started sent query)) fst"
proof -
  have "fst d' = mem_store (fst d) (unat (le_get 4 (dc_buf cmd) 4 :: u32))
      (mem_bytes (dc_buf cmd) 12 (unat (le_get 4 (dc_buf cmd) 8 :: u32)))"
    if io: "demo_ioctl started sent query cmd d = (rc, buf, d')" and c: "unat (dc_command cmd) = 14"
      and st: "intel_cmd_fw_xlat_firmware_status (cmd\<lparr>dc_buf := buf, dc_status := rc\<rparr>) = FW_SUCCESS" for cmd d rc buf d'
  proof -
    let ?len = "unat (le_get 4 (dc_buf cmd) 8 :: u32)"
    have buf: "buf = le_put 4 sent (dc_buf cmd) (12 + ?len)"
      using io c by (simp add: demo_ioctl_def Let_def del: le_get.simps le_put.simps)
    have "(le_get 4 buf (12 + unat (le_get 4 buf 8 :: u32)) :: u32) = sent"
      unfolding buf by (simp add: le_get_put_disj le_get_put_same del: le_get.simps le_put.simps)
    then have "sent AND 0xFFFF = 0"
      using st c by (simp add: intel_cmd_fw_xlat_firmware_status_def intel_cmd_get_firmware_status_def Let_def
          intel_cmd_fw_xlat_extend_firmware_status_def split: if_splits del: le_get.simps)
    then show ?thesis using io c by (auto simp: demo_ioctl_def Let_def split: if_splits simp del: le_get.simps le_put.simps)
  qed
  then show ?thesis by (simp add: stores_image_def demo_fw_sys_def del: le_get.simps)
qed

theorem send_firmware_stores_image_witness:
  "\<exists>uctx d. send_firmware (demo_fw_sys 0 0 0) demo_intel (demo_uctx\<lparr>uc_start := Some demo_smart\<rparr>) (zero_mem, 0) = Some (0, uctx, d)
     \<and> mem_bytes (fst d) 0 3 = [10, 20, 30]"
proof -
  let ?u = "demo_uctx\<lparr>uc_start := Some demo_smart\<rparr>"
  have "result_code (send_firmware (demo_fw_sys 0 0 0) demo_intel ?u (zero_mem, 0)) = Some 0" by code_simp
  then obtain uctx d where send: "send_firmware (demo_fw_sys 0 0 0) demo_intel ?u (zero_mem, 0) = Some (0, uctx, d)"
    by (auto simp: result_code_def split: option.splits)
  have "mem_bytes (fst d) 0 (unat (uc_fw_size ?u)) = take (unat (uc_fw_size ?u)) (fu_file (demo_fw_sys 0 0 0))"
    using send_firmware_stores_image [OF demo_stores _ _ _ send] by (simp add: demo_intel_def demo_uctx_def)
  then show ?thesis using send by (simp add: demo_uctx_def demo_fw_sys_def)
qed

subsection \<open>Failures that are not reported\<close>

text \<open>A DIMM whose node can be opened and whose firmware aborts an update when it is asked to: a finish command with the
  abort flag is answered with the extended status for it.\<close>

definition aborts_ok :: "'d dimm_sys \<Rightarrow> bool" where
  "aborts_ok sys \<longleftrightarrow> (\<forall>n. dy_calloc sys n) \<and> (\<forall>d. dy_open sys d = 0 \<and> dy_valid sys d) \<and>
     (\<forall>cmd d. unat (dc_command cmd) = ND_INTEL_FW_FINISH_UPDATE \<longrightarrow> (le_get 1 (dc_buf cmd) 0 :: u8) = 1 \<longrightarrow>
        (\<exists>buf d'. dy_ioctl sys cmd d = (0, buf, d') \<and> (le_get 4 buf 8 :: u32) = 0x40007))"

lemma supported_alloc:
  assumes "dm_ops dimm = Intel_Ops" "ndctl_dimm_fw_update_supported dimm = 0" "\<And>n. dy_calloc sys n" "func \<in> {12, 13, 14, 15, 16}"
  shows "alloc_intel_cmd sys dimm func a b = Some \<lparr>dc_type = ND_CMD_CALL, dc_size = sizeof_dimm_cmd + sizeof_nd_pkg_intel + a + b,
    dc_status = 1, dc_get = Intel_Ops, dc_family = NVDIMM_FAMILY_INTEL, dc_command = of_nat func,
    dc_size_in = of_nat a, dc_size_out = of_nat b, dc_buf = zero_mem\<rparr>"
  using assms
  by (auto simp: alloc_intel_cmd_def Let_def ndctl_dimm_fw_update_supported_def intel_dimm_fw_update_supported_def
      split: if_splits)

lemma abort_succeeds:
  assumes "aborts_ok (fu_dimm sys)" "dm_ops dimm = Intel_Ops" "ndctl_dimm_fw_update_supported dimm = 0" "uc_start uctx = Some st"
  shows "\<exists>d'. submit_abort_firmware sys dimm uctx d = Some (0, d')"
proof -
  let ?sys = "fu_dimm sys"
  obtain cmd where new: "ndctl_dimm_cmd_new_fw_abort ?sys dimm st = Some cmd"
    and c: "dc_get cmd = Intel_Ops" "dc_type cmd = ND_CMD_CALL" "unat (dc_command cmd) = 15" "(le_get 1 (dc_buf cmd) 0 :: u8) = 1"
    using assms(1-3) supported_alloc [of dimm ?sys 15 8 4]
    by (auto simp: ndctl_dimm_cmd_new_fw_abort_def intel_dimm_cmd_new_fw_abort_def intel_new_fw_finish_update_def aborts_ok_def)
  obtain buf d' where io: "dy_ioctl ?sys cmd d = (0, buf, d')" and st: "(le_get 4 buf 8 :: u32) = 0x40007"
    using assms(1) c(3,4) unfolding aborts_ok_def by fastforce
  have sub: "dimm_cmd_submit ?sys cmd d = (0, cmd\<lparr>dc_buf := buf, dc_status := 0\<rparr>, d')"
    using submit_ok [OF _ _ _ _ io] c(1,2) assms(1) by (simp add: aborts_ok_def)
  have "ndctl_cmd_fw_xlat_firmware_status dimm (cmd\<lparr>dc_buf := buf, dc_status := 0\<rparr>) = FW_ABORTED"
    using assms(2) c(3) st
    by (simp add: ndctl_cmd_fw_xlat_firmware_status_def intel_cmd_fw_xlat_firmware_status_def Let_def
        intel_cmd_get_firmware_status_def intel_cmd_fw_xlat_extend_firmware_status_def del: le_get.simps)
  then show ?thesis using assms(4) new sub by (simp add: submit_abort_firmware_def)
qed

text \<open>C40: when sending the image fails, the update is aborted and the result of the abort is returned: if the DIMM accepts the
  abort, the failed update is reported as a success.\<close>

theorem failed_update_reports_success:
  assumes "aborts_ok (fu_dimm sys)" "dm_ops dimm = Intel_Ops" "ndctl_dimm_fw_update_supported dimm = 0"
    and "submit_get_firmware_info sys dimm uctx d = (rc1, u1, d1)" "0 \<le> rc1"
    and "start_attempts 3 sys dimm param u1 d1 = Some (rc2, u2, d2)" "0 \<le> rc2" "uc_start u2 \<noteq> None"
    and "send_firmware sys dimm u2 d2 = Some (rc3, u3, d3)" "rc3 < 0"
  shows "\<exists>d'. update_firmware sys dimm param uctx d = Some (0, u3, d')"
proof -
  have "uc_start u3 = uc_start u2"
    using assms(9) by (auto simp: send_firmware_def Let_def split: if_splits option.splits)
  then obtain st where "uc_start u3 = Some st" using assms(8) by auto
  from abort_succeeds [OF assms(1-3) this]
  obtain d' where "submit_abort_firmware sys dimm u3 d3 = Some (0, d')" by blast
  then show ?thesis using assms(4-10) by (simp add: update_firmware_def abort_update_def)
qed

lemma demo_aborts: "aborts_ok (fu_dimm (demo_fw_sys started sent query))"
  by (auto simp: aborts_ok_def demo_fw_sys_def demo_ioctl_def Let_def le_get_put_same simp del: le_put.simps)

lemma demo_supported: "ndctl_dimm_fw_update_supported demo_intel = 0" "dm_ops demo_intel = Intel_Ops"
proof -
  show ops: "dm_ops demo_intel = Intel_Ops" by (simp add: demo_intel_def)
  show "ndctl_dimm_fw_update_supported demo_intel = 0"
    using ops by (simp add: ndctl_dimm_fw_update_supported_def intel_dimm_fw_update_supported_def)
qed

theorem failed_update_reports_success_witness:
  "\<exists>uctx d. update_firmware (demo_fw_sys 0 4 0) demo_intel demo_force demo_uctx (zero_mem, 0) = Some (0, uctx, d)"
proof -
  let ?sys = "demo_fw_sys 0 4 0"
  let ?i = "submit_get_firmware_info ?sys demo_intel demo_uctx (zero_mem, 0)"
  have i: "fst ?i = 0" by code_simp
  let ?s = "start_attempts 3 ?sys demo_intel demo_force (fst (snd ?i)) (snd (snd ?i))"
  have s: "result_code ?s = Some 0" by code_simp
  have st: "map_option (\<lambda>(_, u, _). uc_start u = None) ?s = Some False" by code_simp
  have f: "result_code (case ?s of None \<Rightarrow> None | Some (_, u, d) \<Rightarrow> send_firmware ?sys demo_intel u d) = Some (- EIO)" by code_simp
  obtain rc1 u1 d1 where i': "?i = (rc1, u1, d1)" by (metis prod_cases3)
  obtain u2 d2 where s': "start_attempts 3 ?sys demo_intel demo_force u1 d1 = Some (0, u2, d2)"
    using s i' by (auto simp: result_code_def split: option.splits)
  have "uc_start u2 \<noteq> None" using st i' s' by simp
  moreover obtain u3 d3 where "send_firmware ?sys demo_intel u2 d2 = Some (- EIO, u3, d3)"
    using f i' s' by (auto simp: result_code_def split: option.splits)
  ultimately show ?thesis
    using failed_update_reports_success [OF demo_aborts demo_supported(2,1) i' _ s'] i i' by fastforce
qed

text \<open>An image that the firmware rejects at the end is not noticed by \<open>submit_finish_firmware\<close>.\<close>

lemma rejected_image_unnoticed:
  assumes "uc_start uctx = Some st" "ndctl_dimm_cmd_new_fw_finish (fu_dimm sys) dimm st = Some cmd"
    and "dimm_cmd_submit (fu_dimm sys) cmd d = (rc, cmd', d')" "0 \<le> rc" "ndctl_cmd_fw_xlat_firmware_status dimm cmd' = FW_EBADFW"
  shows "submit_finish_firmware sys dimm uctx d = Some (rc, d')"
  using assms by (simp add: submit_finish_firmware_def)

subsection \<open>A DIMM that stays busy\<close>

definition always_busy :: "'d dimm_sys \<Rightarrow> bool" where
  "always_busy sys \<longleftrightarrow> (\<forall>cmd d. unat (dc_command cmd) = ND_INTEL_FW_START_UPDATE \<longrightarrow>
     (\<exists>buf d'. dy_ioctl sys cmd d = (0, buf, d') \<and> (le_get 4 buf 0 :: u32) = 0x10007))"

lemma busy_start:
  assumes "aborts_ok (fu_dimm sys)" "always_busy (fu_dimm sys)" "dm_ops dimm = Intel_Ops"
    and "ndctl_dimm_fw_update_supported dimm = 0" "fp_force param"
  shows "\<exists>d'. submit_start_firmware_upload sys dimm param uctx d = Some (- EAGAIN, uctx\<lparr>uc_start := None\<rparr>, d')"
proof -
  let ?sys = "fu_dimm sys"
  obtain cmd where new: "ndctl_dimm_cmd_new_fw_start_update ?sys dimm = Some cmd"
    and c: "dc_get cmd = Intel_Ops" "dc_type cmd = ND_CMD_CALL" "unat (dc_command cmd) = 13"
    using assms(1,3,4) supported_alloc [of dimm ?sys 13 0 8]
    by (auto simp: ndctl_dimm_cmd_new_fw_start_update_def intel_dimm_cmd_new_fw_start_def aborts_ok_def)
  obtain buf d1 where io: "dy_ioctl ?sys cmd d = (0, buf, d1)" and st: "(le_get 4 buf 0 :: u32) = 0x10007"
    using assms(2) c(3) unfolding always_busy_def by fastforce
  let ?cmd = "cmd\<lparr>dc_buf := buf, dc_status := 0\<rparr>"
  have sub: "dimm_cmd_submit ?sys cmd d = (0, ?cmd, d1)"
    using submit_ok [OF _ _ _ _ io] c(1,2) assms(1) by (simp add: aborts_ok_def)
  have "ndctl_cmd_fw_xlat_firmware_status dimm ?cmd = FW_EBUSY"
    using assms(3) c(3) st
    by (simp add: ndctl_cmd_fw_xlat_firmware_status_def intel_cmd_fw_xlat_firmware_status_def Let_def
        intel_cmd_get_firmware_status_def intel_cmd_fw_xlat_extend_firmware_status_def del: le_get.simps)
  moreover obtain d' where "submit_abort_firmware sys dimm (uctx\<lparr>uc_start := Some ?cmd\<rparr>) d1 = Some (0, d')"
    using abort_succeeds [OF assms(1,3,4), of "uctx\<lparr>uc_start := Some ?cmd\<rparr>"] by auto
  ultimately show ?thesis using new sub assms(5) by (simp add: submit_start_firmware_upload_def)
qed

lemma busy_attempts:
  assumes "aborts_ok (fu_dimm sys)" "always_busy (fu_dimm sys)" "dm_ops dimm = Intel_Ops"
    and "ndctl_dimm_fw_update_supported dimm = 0" "fp_force param" "0 < n"
  shows "\<exists>d'. start_attempts n sys dimm param uctx d = Some (0, uctx\<lparr>uc_start := None\<rparr>, d')"
  using assms(6)
proof (induction n arbitrary: uctx d)
  case (Suc n)
  obtain d1 where one: "submit_start_firmware_upload sys dimm param uctx d = Some (- EAGAIN, uctx\<lparr>uc_start := None\<rparr>, d1)"
    using busy_start [OF assms(1-5)] by blast
  show ?case
    using one Suc.IH [of "uctx\<lparr>uc_start := None\<rparr>" d1] by (cases "n = 0") auto
qed simp

lemma sint_nonneg: "unat (w :: u32) < 2 ^ 31 \<Longrightarrow> 0 \<le> sint w"
proof -
  assume "unat w < 2 ^ 31"
  then have "\<not> bit (unat w) 31" by (simp add: bit_iff_odd)
  then have "\<not> bit w 31" by (simp add: bit_unsigned_iff)
  then show ?thesis by (simp add: sint_uint signed_take_bit_nonnegative_iff bit_unsigned_iff)
qed

text \<open>With \<open>--force\<close> on a DIMM that answers every start with busy and accepts the aborts, the code gives up after three
  attempts without noticing, and sending the image follows the start command, which is \<open>NULL\<close>.\<close>

theorem busy_start_follows_null:
  assumes "aborts_ok (fu_dimm sys)" "always_busy (fu_dimm sys)" "dm_ops dimm = Intel_Ops"
    and "ndctl_dimm_fw_update_supported dimm = 0" "fp_force param"
    and "submit_get_firmware_info sys dimm uctx d = (rc, u, d1)" "0 \<le> rc"
    and "\<And>n. fu_malloc sys n" "0 < fi_update_size (uc_dimm_fw u)"
    and "0 < uc_fw_size u" "uc_fw_size u < 2 ^ 31" "uc_pos u + unat (uc_fw_size u) \<le> length (fu_file sys)"
  shows "update_firmware sys dimm param uctx d = None"
proof -
  obtain d2 where att: "start_attempts 3 sys dimm param u d1 = Some (0, u\<lparr>uc_start := None\<rparr>, d2)"
    using busy_attempts [OF assms(1-5), of 3] by auto
  let ?n = "ucast (uc_fw_size u) :: u32" and ?len = "min (fi_update_size (uc_dimm_fw u)) (ucast (uc_fw_size u))"
  have n: "unat ?n = unat (uc_fw_size u)" "unat (uc_fw_size u) < 2 ^ 31"
    using assms(11) by (simp_all add: unsigned_ucast_eq take_bit_nat_eq_self word_less_nat_alt)
  have len: "unat ?len \<le> unat ?n" "?len \<noteq> 0"
    using assms(9,10) n by (auto simp: min_def word_le_nat_alt word_less_nat_alt simp flip: unat_eq_zero)
  have "unat ?len < 2 ^ 31" using len(1) n by simp
  then have "0 \<le> sint ?len" by (rule sint_nonneg)
  moreover have "get_fw_data_from_file (fu_file sys) (uc_pos u) ?len
      = (sint ?len, take (unat ?len) (drop (uc_pos u) (fu_file sys)), uc_pos u + unat ?len)"
    using len n assms(12) by (simp add: get_fw_data_from_file_def)
  moreover have "?n \<noteq> 0" using n assms(10) by (auto simp: word_less_nat_alt simp flip: unat_eq_zero)
  ultimately have "send_firmware sys dimm (u\<lparr>uc_start := None\<rparr>) d2 = None"
    using assms(8) send_loop.simps [of sys dimm "fi_update_size (uc_dimm_fw u)" None "uc_pos u" 0 ?n "- ENXIO" d2]
    by (simp add: send_firmware_def Let_def)
  then show ?thesis using assms(6,7) att by (simp add: update_firmware_def)
qed

lemma demo_busy: "always_busy (fu_dimm (demo_fw_sys 0x10007 sent query))"
  by (auto simp: always_busy_def demo_fw_sys_def demo_ioctl_def Let_def le_get_put_same le_get_put_disj simp del: le_put.simps le_get.simps)

theorem busy_start_follows_null_witness:
  "update_firmware (demo_fw_sys 0x10007 0 0) demo_intel demo_force demo_uctx (zero_mem, 0) = None"
proof -
  let ?sys = "demo_fw_sys 0x10007 0 0"
  let ?i = "submit_get_firmware_info ?sys demo_intel demo_uctx (zero_mem, 0)"
  have i: "fst ?i = 0" by code_simp
  have u: "uc_fw_size (fst (snd ?i)) = 3" "uc_pos (fst (snd ?i)) = 0" "fi_update_size (uc_dimm_fw (fst (snd ?i))) = 2"
    by code_simp+
  obtain rc u d1 where i': "?i = (rc, u, d1)" by (metis prod_cases3)
  show ?thesis
    by (rule busy_start_follows_null [OF demo_aborts demo_busy demo_supported(2,1) _ i'])
      (use i u i' in \<open>simp_all add: demo_force_def demo_fw_sys_def\<close>)
qed

subsection \<open>Waiting for the end\<close>

text \<open>Time passes: the clock can be read, a command does not set it back, and it has moved on after a sleep.\<close>

definition time_passes :: "'d fw_sys \<Rightarrow> ('d \<Rightarrow> nat) \<Rightarrow> bool" where
  "time_passes sys now \<longleftrightarrow> (\<forall>d. fu_clock sys d = Inr (now d)) \<and>
     (\<forall>cmd d rc buf d'. dy_ioctl (fu_dimm sys) cmd d = (rc, buf, d') \<longrightarrow> now d \<le> now d') \<and>
     (\<forall>n d errno d'. fu_sleep sys n d = (errno, d') \<longrightarrow> now d < now d')"

lemma submit_time:
  "time_passes sys now \<Longrightarrow> dimm_cmd_submit (fu_dimm sys) cmd d = (rc, cmd', d') \<Longrightarrow> now d \<le> now d'"
  by (auto simp: time_passes_def dimm_cmd_submit_def dimm_do_cmd_def split: if_splits prod.splits)

lemma query_loop_returns:
  assumes "time_passes sys now"
  shows "\<exists>r. query_loop sys dimm fw before cmd d = Some r"
proof -
  define limit where "limit = (before div 1000000000 + unat (fi_max_query fw div 1000000) + 1) * 1000000000"
  show ?thesis
  proof (induction "limit - now d" arbitrary: cmd d rule: less_induct)
    case less
    obtain rc cmd1 d1 where sub: "dimm_cmd_submit (fu_dimm sys) cmd d = (rc, cmd1, d1)" by (metis prod_cases3)
    obtain errno d2 where slp: "fu_sleep sys (unat (fi_query_interval fw div 1000)) d1 = (errno, d2)" by fastforce
    have clock: "fu_clock sys d1 = Inr (now d1)" "now d \<le> now d1" "now d1 < now d2"
      using assms slp submit_time [OF assms sub] by (auto simp: time_passes_def)
    show ?case
    proof (cases "int (now d1 div 1000000000) - int (before div 1000000000) > int (unat (fi_max_query fw div 1000000))")
      case True
      then show ?thesis
        using sub clock(1) by (subst query_loop.simps) auto
    next
      case False
      then have "now d1 div 1000000000 < before div 1000000000 + unat (fi_max_query fw div 1000000) + 1" by linarith
      then have "now d1 < limit" by (simp add: limit_def div_less_iff_less_mult)
      then have "limit - now d2 < limit - now d" using clock by linarith
      from less [OF this, of cmd1] show ?thesis
        using sub clock(1) slp False by (subst query_loop.simps) auto
    qed
  qed
qed

text \<open>C30: the wait for the end of an update returns as long as time passes, whatever the firmware answers.\<close>

theorem query_returns:
  assumes "time_passes sys now" "uc_start uctx \<noteq> None"
  shows "\<exists>rc uctx' d'. query_fw_finish_status sys dimm param uctx d = Some (rc, uctx', d')"
proof -
  obtain st where st: "uc_start uctx = Some st" using assms(2) by auto
  show ?thesis
  proof (cases "ndctl_dimm_cmd_new_fw_finish_query (fu_dimm sys) dimm st")
    case (Some cmd)
    obtain rc cmd' answered d' where "query_loop sys dimm (uc_dimm_fw uctx) (now d) cmd d = Some (rc, cmd', answered, d')"
      using query_loop_returns [OF assms(1)] by (metis prod_cases4)
    then show ?thesis
      using Some st assms(1)
      by (cases "ndctl_cmd_fw_xlat_firmware_status dimm cmd'")
        (auto simp: query_fw_finish_status_def time_passes_def split: prod.splits)
  qed (simp add: query_fw_finish_status_def st)
qed

lemma demo_time: "time_passes (demo_fw_sys started sent query) snd"
  by (auto simp: time_passes_def demo_fw_sys_def demo_ioctl_def Let_def split: if_splits)

theorem query_returns_witness:
  "\<exists>rc uctx d. query_fw_finish_status (demo_fw_sys 0 0 0x20007) demo_intel demo_force
     (demo_uctx\<lparr>uc_start := Some demo_smart\<rparr>) (zero_mem, 0) = Some (rc, uctx, d)"
  by (rule query_returns [OF demo_time]) simp

end
