(* ===== verification/Strbuf.thy ===== *)
theory Strbuf
  imports Ndctl_Prelude
begin

text \<open>
  The growing string buffer of \<open>util/strbuf.c\<close> and \<open>util/strbuf.h\<close> with the allocation wrapper of \<open>util/wrapper.c\<close>, and the file
  name prefixing of \<open>util/abspath.c\<close> on top of it.  The bytes of an allocation are a list in which a byte that was never written is
  \<open>None\<close>; \<open>mem\<close> says for which sizes the allocator has memory.  A run of a function ends with a value, with \<open>exit\<close> (the status
  and what was written), or abnormally (a failed assertion, a \<open>NULL\<close> that is followed, or a write
  outside of an object), or it does not end.

  The contract is the one of the comment at the head of \<open>strbuf.h\<close>: \<open>strbuf_ok\<close> is its second invariant, and in terms of
  \<open>strbuf_str\<close>, the C string the buffer holds, every operation that returns appends.
\<close>

datatype 'a run = Ret 'a | Exit int string | Fault | Hang

fun run_bind :: "'a run \<Rightarrow> ('a \<Rightarrow> 'b run) \<Rightarrow> 'b run" where
  "run_bind (Ret a) f = f a"
| "run_bind (Exit n err) f = Exit n err"
| "run_bind Fault f = Fault"
| "run_bind Hang f = Hang"

lemma run_bind_Ret [simp]: "run_bind m f = Ret b \<longleftrightarrow> (\<exists>a. m = Ret a \<and> f a = Ret b)"
  by (cases m) auto

lemma run_bind_split:
  "P (run_bind m f) \<longleftrightarrow> (\<forall>a. m = Ret a \<longrightarrow> P (f a)) \<and> (\<forall>n e. m = Exit n e \<longrightarrow> P (Exit n e)) \<and> (m = Fault \<longrightarrow> P Fault) \<and> (m = Hang \<longrightarrow> P Hang)"
  by (cases m) auto

lemma run_bind_split_asm:
  "P (run_bind m f) \<longleftrightarrow> \<not> ((\<exists>a. m = Ret a \<and> \<not> P (f a)) \<or> (\<exists>n e. m = Exit n e \<and> \<not> P (Exit n e)) \<or> (m = Fault \<and> \<not> P Fault) \<or> (m = Hang \<and> \<not> P Hang))"
  by (cases m) auto

lemmas run_bind_splits = run_bind_split run_bind_split_asm

lemma run_bind_cong [fundef_cong]: "m = m' \<Longrightarrow> (\<And>a. m' = Ret a \<Longrightarrow> f a = f' a) \<Longrightarrow> run_bind m f = run_bind m' f'"
  by (cases m') auto

text \<open>\<open>report\<close> of \<open>util/usage.c\<close> formats into a buffer of 1024 bytes; \<open>die\<close> ends the program with status 128.\<close>

definition report :: "string \<Rightarrow> string \<Rightarrow> string" where
  "report prefix msg = '' '' @ prefix @ take 1023 msg @ [CHR 0x0A]"

definition die :: "string \<Rightarrow> 'a run" where
  "die msg = Exit 128 (report '' Fatal: '' msg)"

type_synonym heap_bytes = "char option list"

text \<open>\<open>realloc\<close> keeps the old bytes as far as they fit.\<close>

definition xrealloc :: "(u64 \<Rightarrow> bool) \<Rightarrow> heap_bytes \<Rightarrow> u64 \<Rightarrow> heap_bytes run" where
  "xrealloc mem ptr sz =
     (if sz = 0 then Ret [None]
      else if mem sz then Ret (take (unat sz) ptr @ replicate (unat sz - length ptr) None)
      else die ''Out of memory, realloc failed'')"

subsection \<open>The buffer\<close>

text \<open>With \<open>sb_alloc = 0\<close> the buffer is \<open>strbuf_slopbuf\<close>, the shared empty string.\<close>

record strbuf =
  sb_alloc :: u64
  sb_len :: u64
  sb_buf :: heap_bytes

definition strbuf_slopbuf :: heap_bytes where
  "strbuf_slopbuf = [Some (CHR 0x00)]"

definition STRBUF_INIT :: strbuf where
  "STRBUF_INIT = \<lparr> sb_alloc = 0, sb_len = 0, sb_buf = strbuf_slopbuf \<rparr>"

text \<open>The code returns the room as \<open>ssize_t\<close>; it is the same number for every buffer below \<open>2 ^ 63\<close> bytes.\<close>

definition strbuf_avail :: "strbuf \<Rightarrow> u64" where
  "strbuf_avail sb = (if sb_alloc sb \<noteq> 0 then sb_alloc sb - sb_len sb - 1 else 0)"

definition alloc_nr :: "u64 \<Rightarrow> u64" where
  "alloc_nr x = ((x + 16) * 3) div 2"

text \<open>The macro \<open>ALLOC_GROW\<close> for a buffer of bytes.\<close>

definition ALLOC_GROW :: "(u64 \<Rightarrow> bool) \<Rightarrow> heap_bytes \<Rightarrow> u64 \<Rightarrow> u64 \<Rightarrow> (heap_bytes \<times> u64) run" where
  "ALLOC_GROW mem x nr alloc =
     (if nr > alloc
      then (let alloc' = (if alloc_nr alloc < nr then nr else alloc_nr alloc) in
            run_bind (xrealloc mem x alloc') (\<lambda>x'. Ret (x', alloc')))
      else Ret (x, alloc))"

definition strbuf_grow :: "(u64 \<Rightarrow> bool) \<Rightarrow> strbuf \<Rightarrow> u64 \<Rightarrow> strbuf run" where
  "strbuf_grow mem sb extra =
     (if sb_len sb + extra + 1 \<le> sb_len sb then die ''you want to use way too much memory''
      else let buf = (if sb_alloc sb = 0 then [] else sb_buf sb) in
        run_bind (ALLOC_GROW mem buf (sb_len sb + extra + 1) (sb_alloc sb))
          (\<lambda>(buf', alloc'). Ret (sb\<lparr> sb_buf := buf', sb_alloc := alloc' \<rparr>)))"

definition strbuf_init :: "(u64 \<Rightarrow> bool) \<Rightarrow> u64 \<Rightarrow> strbuf run" where
  "strbuf_init mem hint = (if hint \<noteq> 0 then strbuf_grow mem STRBUF_INIT hint else Ret STRBUF_INIT)"

definition strbuf_release :: "strbuf \<Rightarrow> strbuf" where
  "strbuf_release sb = (if sb_alloc sb \<noteq> 0 then STRBUF_INIT else sb)"

definition strbuf_setlen :: "(u64 \<Rightarrow> bool) \<Rightarrow> strbuf \<Rightarrow> u64 \<Rightarrow> strbuf run" where
  "strbuf_setlen mem sb len =
     run_bind (if sb_alloc sb = 0 then strbuf_grow mem sb 0 else Ret sb)
       (\<lambda>sb. if len < sb_alloc sb
             then Ret (sb\<lparr> sb_len := len, sb_buf := (sb_buf sb)[unat len := Some (CHR 0x00)] \<rparr>)
             else Fault)"

text \<open>\<open>memcpy\<close> into an allocation, which must have room.\<close>

definition poke :: "heap_bytes \<Rightarrow> nat \<Rightarrow> string \<Rightarrow> heap_bytes run" where
  "poke buf ofs s =
     (if ofs + length s \<le> length buf then Ret (take ofs buf @ map Some s @ drop (ofs + length s) buf) else Fault)"

definition strbuf_add :: "(u64 \<Rightarrow> bool) \<Rightarrow> strbuf \<Rightarrow> string \<Rightarrow> u64 \<Rightarrow> strbuf run" where
  "strbuf_add mem sb data len =
     run_bind (strbuf_grow mem sb len)
       (\<lambda>sb. run_bind (poke (sb_buf sb) (unat (sb_len sb)) (take (unat len) data))
         (\<lambda>buf. strbuf_setlen mem (sb\<lparr> sb_buf := buf \<rparr>) (sb_len sb + len)))"

definition strbuf_addstr :: "(u64 \<Rightarrow> bool) \<Rightarrow> strbuf \<Rightarrow> string \<Rightarrow> strbuf run" where
  "strbuf_addstr mem sb s = strbuf_add mem sb s (of_nat (length s))"

definition strbuf_addch :: "(u64 \<Rightarrow> bool) \<Rightarrow> strbuf \<Rightarrow> char \<Rightarrow> strbuf run" where
  "strbuf_addch mem sb c =
     run_bind (strbuf_grow mem sb 1)
       (\<lambda>sb. run_bind (poke (sb_buf sb) (unat (sb_len sb)) [c])
         (\<lambda>buf. run_bind (poke buf (unat (sb_len sb + 1)) [CHR 0x00])
           (\<lambda>buf. Ret (sb\<lparr> sb_len := sb_len sb + 1, sb_buf := buf \<rparr>))))"

text \<open>\<open>vsnprintf\<close> writes as much of the formatted text \<open>s\<close> as fits before the terminating zero, and returns its whole length, or an
  error if that is beyond \<open>INT_MAX\<close>.\<close>

definition vsnprintf :: "heap_bytes \<Rightarrow> nat \<Rightarrow> u64 \<Rightarrow> string \<Rightarrow> heap_bytes run" where
  "vsnprintf buf ofs sz s =
     (if sz = 0 then Ret buf else poke buf ofs (take (unat sz - 1) s @ [CHR 0x00]))"

definition strbuf_addf :: "(u64 \<Rightarrow> bool) \<Rightarrow> strbuf \<Rightarrow> string \<Rightarrow> strbuf run" where
  "strbuf_addf mem sb s =
     (let len = of_nat (length s) in
      run_bind (if strbuf_avail sb = 0 then strbuf_grow mem sb 64 else Ret sb)
       (\<lambda>sb. if length s > 2147483647 then die ''your vsnprintf is broken'' else
         run_bind (vsnprintf (sb_buf sb) (unat (sb_len sb)) (sb_alloc sb - sb_len sb) s)
         (\<lambda>buf. let sb = sb\<lparr> sb_buf := buf \<rparr> in
           run_bind
            (if len > strbuf_avail sb
             then run_bind (strbuf_grow mem sb len)
               (\<lambda>sb. run_bind (vsnprintf (sb_buf sb) (unat (sb_len sb)) (sb_alloc sb - sb_len sb) s)
                 (\<lambda>buf. if len > strbuf_avail sb then die ''this should not happen, your vsnprintf is broken''
                        else Ret (sb\<lparr> sb_buf := buf \<rparr>)))
             else Ret sb)
            (\<lambda>sb. strbuf_setlen mem sb (sb_len sb + len)))))"

text \<open>What is detached is a C string, or \<open>NULL\<close> if nothing was ever allocated.\<close>

definition strbuf_detach :: "strbuf \<Rightarrow> heap_bytes option \<times> u64 \<times> strbuf" where
  "strbuf_detach sb = (if sb_alloc sb \<noteq> 0 then Some (sb_buf sb) else None, sb_len sb, STRBUF_INIT)"

subsection \<open>File names\<close>

definition is_absolute_path :: "string \<Rightarrow> bool" where
  "is_absolute_path path = (case path of [] \<Rightarrow> False | c # _ \<Rightarrow> c = CHR ''/'')"

definition prefix_filename :: "(u64 \<Rightarrow> bool) \<Rightarrow> string option \<Rightarrow> string \<Rightarrow> heap_bytes option run" where
  "prefix_filename mem pfx arg =
     (let pfx_len = (case pfx of None \<Rightarrow> 0 | Some s \<Rightarrow> of_nat (length s)) in
      run_bind
        (if pfx_len \<noteq> 0 \<and> \<not> is_absolute_path arg
         then strbuf_add mem STRBUF_INIT (case pfx of None \<Rightarrow> [] | Some s \<Rightarrow> s) pfx_len else Ret STRBUF_INIT)
        (\<lambda>path. run_bind (strbuf_addstr mem path arg) (\<lambda>path. Ret (fst (strbuf_detach path)))))"

text \<open>The C string at the head of an allocation.\<close>

fun c_string :: "heap_bytes \<Rightarrow> string" where
  "c_string (Some c # cs) = (if c = CHR 0x00 then [] else c # c_string cs)"
| "c_string _ = []"

definition fix_filename :: "(u64 \<Rightarrow> bool) \<Rightarrow> string option \<Rightarrow> string option \<Rightarrow> string option run" where
  "fix_filename mem prefix file =
     (case (file, prefix) of
        (Some f, Some _) \<Rightarrow>
          if is_absolute_path f \<or> f = ''-'' then Ret file
          else run_bind (prefix_filename mem prefix f) (\<lambda>r. Ret (map_option c_string r))
      | _ \<Rightarrow> Ret file)"

subsection \<open>The invariant\<close>

definition strbuf_str :: "strbuf \<Rightarrow> string" where
  "strbuf_str sb = map the (take (unat (sb_len sb)) (sb_buf sb))"

text \<open>\<open>strbuf_wf\<close> leaves out the terminating zero, which \<open>strbuf_grow\<close> does not write; \<open>strbuf_ok\<close> is the whole invariant.\<close>

definition strbuf_wf :: "strbuf \<Rightarrow> bool" where
  "strbuf_wf sb =
     (if sb_alloc sb = 0 then sb_len sb = 0 \<and> sb_buf sb = strbuf_slopbuf
      else sb_len sb < sb_alloc sb \<and> length (sb_buf sb) = unat (sb_alloc sb) \<and>
           take (unat (sb_len sb)) (sb_buf sb) = map Some (strbuf_str sb))"

definition strbuf_ok :: "strbuf \<Rightarrow> bool" where
  "strbuf_ok sb = (strbuf_wf sb \<and> sb_buf sb ! unat (sb_len sb) = Some (CHR 0x00))"

lemma strbuf_init_ok [simp]: "strbuf_ok STRBUF_INIT" "strbuf_str STRBUF_INIT = []"
  by (simp_all add: strbuf_ok_def strbuf_wf_def STRBUF_INIT_def strbuf_slopbuf_def strbuf_str_def)

lemma strbuf_str_empty: "sb_len sb = 0 \<Longrightarrow> strbuf_str sb = []"
  by (simp add: strbuf_str_def)

lemma strbuf_str_eqI: "take (unat (sb_len sb)) (sb_buf sb) = map Some s \<Longrightarrow> strbuf_str sb = s"
  by (simp add: strbuf_str_def comp_def)

lemma length_strbuf_str: "strbuf_wf sb \<Longrightarrow> length (strbuf_str sb) = unat (sb_len sb)"
  by (auto simp: strbuf_wf_def strbuf_str_def word_less_nat_alt split: if_splits)

lemma grow_size_mod: "unat (len + extra + 1 :: u64) = (unat len + unat extra + 1) mod 18446744073709551616"
  by (simp add: unat_word_ariths mod_simps)

lemma grow_size_unat:
  "unat len + unat extra + 1 < 18446744073709551616 \<Longrightarrow> unat (len + extra + 1 :: u64) = unat len + unat extra + 1"
  by (simp add: grow_size_mod)

lemma grow_size_exact:
  "\<not> (len + extra + 1 \<le> len) \<longleftrightarrow> unat len + unat extra + 1 < 18446744073709551616" for len extra :: u64
proof (cases "unat len + unat extra + 1 < 18446744073709551616")
  case True
  then show ?thesis by (simp add: word_le_nat_alt grow_size_unat)
next
  case False
  moreover have "unat extra < 18446744073709551616" "unat len < 18446744073709551616"
    by (rule unat_u64_less)+
  ultimately have "(unat len + unat extra + 1) mod 18446744073709551616 = unat len + unat extra + 1 - 18446744073709551616"
    by (simp add: mod_if)
  then have "unat (len + extra + 1) \<le> unat len"
    using \<open>unat extra < _\<close> unfolding grow_size_mod by linarith
  with False show ?thesis by (simp only: word_le_nat_alt) simp
qed

lemma strbuf_grow_props:
  assumes "strbuf_wf sb" and "strbuf_grow mem sb extra = Ret sb'"
  shows "strbuf_wf sb' \<and> sb_len sb' = sb_len sb \<and> strbuf_str sb' = strbuf_str sb \<and> sb_alloc sb' \<noteq> 0 \<and>
    unat (sb_len sb) + unat extra < unat (sb_alloc sb')"
proof -
  let ?nr = "sb_len sb + extra + 1"
  let ?buf = "if sb_alloc sb = 0 then [] else sb_buf sb"
  have "\<not> ?nr \<le> sb_len sb"
    using assms(2) by (auto simp only: strbuf_grow_def die_def if_True run.distinct)
  then have fits: "unat (sb_len sb) + unat extra + 1 < 18446744073709551616"
    by (simp only: grow_size_exact)
  then have nr: "unat ?nr = unat (sb_len sb) + unat extra + 1" by (rule grow_size_unat)
  obtain buf' alloc' where g: "ALLOC_GROW mem ?buf ?nr (sb_alloc sb) = Ret (buf', alloc')"
      and sb': "sb' = sb\<lparr> sb_buf := buf', sb_alloc := alloc' \<rparr>"
    using assms(2) \<open>\<not> ?nr \<le> sb_len sb\<close> unfolding strbuf_grow_def Let_def by (auto simp del: not_le)
  have buf: "length ?buf = unat (sb_alloc sb)" "take (unat (sb_len sb)) ?buf = map Some (strbuf_str sb)"
    "unat (sb_len sb) \<le> length ?buf"
    using assms(1) by (auto simp: strbuf_wf_def strbuf_str_empty word_less_nat_alt split: if_splits)
  have "?nr \<le> alloc' \<and> length buf' = unat alloc' \<and> take (unat (sb_len sb)) buf' = take (unat (sb_len sb)) ?buf"
  proof (cases "?nr > sb_alloc sb")
    case False
    with g buf show ?thesis by (auto simp: ALLOC_GROW_def)
  next
    case True
    let ?al = "if alloc_nr (sb_alloc sb) < ?nr then ?nr else alloc_nr (sb_alloc sb)"
    have le: "?nr \<le> ?al" by auto
    then have "length ?buf \<le> unat ?al"
      using True buf(1) by (simp add: word_less_nat_alt word_le_nat_alt)
    moreover have "?al \<noteq> 0" using le nr by (auto simp: word_le_nat_alt)
    then have "alloc' = ?al" "buf' = take (unat ?al) ?buf @ replicate (unat ?al - length ?buf) None"
      using g True by (auto simp: ALLOC_GROW_def Let_def xrealloc_def die_def split: if_splits)
    ultimately show ?thesis using le buf(3) by auto
  qed
  moreover from this buf(2) have "strbuf_str sb' = strbuf_str sb"
    unfolding sb' by (intro strbuf_str_eqI) simp
  moreover have "unat alloc' \<noteq> 0" using calculation(1) nr by (simp add: word_le_nat_alt)
  ultimately show ?thesis
    using nr buf(2) unfolding sb' by (auto simp: strbuf_wf_def word_le_nat_alt word_less_nat_alt)
qed

lemma strbuf_grow_returns:
  assumes "unat (sb_len sb) + unat extra + 1 < 18446744073709551616" and "\<And>n. mem n"
  shows "\<exists>sb'. strbuf_grow mem sb extra = Ret sb'"
  using assms grow_size_exact [of "sb_len sb" extra]
  by (simp add: strbuf_grow_def ALLOC_GROW_def xrealloc_def Let_def del: not_le)

text \<open>What an operation leaves behind the old contents becomes part of the string by \<open>strbuf_setlen\<close>.\<close>

lemma strbuf_setlen_appends:
  assumes "sb_alloc sb \<noteq> 0" and "length (sb_buf sb) = unat (sb_alloc sb)"
    and "take (unat (sb_len sb) + length s) (sb_buf sb) = map Some (old @ s)"
    and "unat (sb_len sb) + length s < unat (sb_alloc sb)"
  shows "\<exists>sb'. strbuf_setlen mem sb (sb_len sb + of_nat (length s)) = Ret sb' \<and> strbuf_ok sb' \<and> strbuf_str sb' = old @ s"
proof -
  let ?len = "sb_len sb + of_nat (length s)"
  let ?sb = "sb\<lparr> sb_len := ?len, sb_buf := (sb_buf sb)[unat ?len := Some (CHR 0x00)] \<rparr>"
  have len: "unat ?len = unat (sb_len sb) + length s"
    using assms(4) unat_u64_less [of "sb_alloc sb"]
    by (simp add: unat_word_ariths unat_of_nat take_bit_nat_eq_self)
  then have lt: "?len < sb_alloc sb" using assms(4) by (simp add: word_less_nat_alt)
  have "strbuf_setlen mem sb ?len = Ret ?sb"
    using assms(1) lt by (simp add: strbuf_setlen_def)
  moreover have str: "strbuf_str ?sb = old @ s"
    using assms(3) by (intro strbuf_str_eqI) (simp add: len)
  moreover have "strbuf_ok ?sb"
    using assms lt by (simp add: strbuf_ok_def strbuf_wf_def str) (simp add: len)
  ultimately show ?thesis by blast
qed

lemma poke_behind:
  assumes "strbuf_wf sb" and "sb_alloc sb \<noteq> 0" and "unat (sb_len sb) + length t \<le> unat (sb_alloc sb)"
  shows "\<exists>buf. poke (sb_buf sb) (unat (sb_len sb)) t = Ret buf \<and> length buf = unat (sb_alloc sb) \<and>
    take (unat (sb_len sb) + length t) buf = map Some (strbuf_str sb @ t)"
  using assms length_strbuf_str [OF assms(1)] by (auto simp: strbuf_wf_def poke_def word_less_nat_alt)

subsection \<open>Appending\<close>

lemma strbuf_add_ret:
  assumes "strbuf_wf sb" and "strbuf_grow mem sb (of_nat (length s)) = Ret g" and "length s < 18446744073709551616"
  shows "\<exists>sb'. strbuf_addstr mem sb s = Ret sb' \<and> strbuf_ok sb' \<and> strbuf_str sb' = strbuf_str sb @ s"
proof -
  have n: "unat (of_nat (length s) :: u64) = length s" using assms(3) by (rule unat_of_nat_u64)
  have g: "strbuf_wf g" "sb_len g = sb_len sb" "strbuf_str g = strbuf_str sb" "sb_alloc g \<noteq> 0"
      "unat (sb_len g) + length s < unat (sb_alloc g)"
    using strbuf_grow_props [OF assms(1,2)] by (simp_all add: n)
  then obtain buf where buf: "poke (sb_buf g) (unat (sb_len g)) s = Ret buf" "length buf = unat (sb_alloc g)"
      "take (unat (sb_len g) + length s) buf = map Some (strbuf_str sb @ s)"
    using poke_behind [of g s] by auto
  then show ?thesis
    using strbuf_setlen_appends [of "g\<lparr> sb_buf := buf \<rparr>" s "strbuf_str sb" mem] g(4,5)
    by (simp add: strbuf_addstr_def strbuf_add_def assms(2) n)
qed

lemma strbuf_addch_ret:
  assumes "strbuf_wf sb" and "strbuf_grow mem sb 1 = Ret g"
  shows "\<exists>sb'. strbuf_addch mem sb c = Ret sb' \<and> strbuf_ok sb' \<and> strbuf_str sb' = strbuf_str sb @ [c]"
proof -
  have g: "strbuf_wf g" "sb_len g = sb_len sb" "strbuf_str g = strbuf_str sb" "sb_alloc g \<noteq> 0"
      "unat (sb_len g) + 1 < unat (sb_alloc g)"
    using strbuf_grow_props [OF assms] by simp_all
  then obtain buf where buf: "poke (sb_buf g) (unat (sb_len g)) [c] = Ret buf" "length buf = unat (sb_alloc g)"
      "take (unat (sb_len g) + 1) buf = map Some (strbuf_str sb @ [c])"
    using poke_behind [of g "[c]"] by auto
  have len: "unat (sb_len g + 1) = Suc (unat (sb_len g))"
    using g(5) unat_u64_less [of "sb_alloc g"] by (simp add: unat_word_ariths)
  let ?b = "take (Suc (unat (sb_len g))) buf @ [Some (CHR 0x00)] @ drop (Suc (Suc (unat (sb_len g)))) buf"
  let ?sb = "g\<lparr> sb_len := sb_len g + 1, sb_buf := ?b \<rparr>"
  have "strbuf_addch mem sb c = Ret ?sb"
    using g(5) buf(1,2) by (simp add: strbuf_addch_def assms(2) poke_def len)
  moreover have str: "strbuf_str ?sb = strbuf_str sb @ [c]"
    using buf g(5) length_strbuf_str [OF g(1)] by (intro strbuf_str_eqI) (simp add: len g(3))
  moreover have "strbuf_ok ?sb"
    using buf g(4,5) length_strbuf_str [OF g(1)] unfolding strbuf_ok_def strbuf_wf_def str
    by (simp add: word_less_nat_alt len nth_append g(3))
  ultimately show ?thesis by blast
qed

text \<open>\<open>vsnprintf\<close> behind the contents leaves them alone, and the whole text if there is room.\<close>

lemma vsnprintf_behind:
  assumes "strbuf_wf sb" and "sb_alloc sb \<noteq> 0"
  shows "\<exists>buf. vsnprintf (sb_buf sb) (unat (sb_len sb)) (sb_alloc sb - sb_len sb) s = Ret buf \<and>
    length buf = unat (sb_alloc sb) \<and> take (unat (sb_len sb)) buf = map Some (strbuf_str sb) \<and>
    (unat (sb_len sb) + length s < unat (sb_alloc sb) \<longrightarrow>
      take (unat (sb_len sb) + length s) buf = map Some (strbuf_str sb @ s))"
proof -
  let ?room = "unat (sb_alloc sb - sb_len sb)"
  let ?t = "take (?room - 1) s @ [CHR 0x00]"
  have lt: "sb_len sb < sb_alloc sb" using assms by (simp add: strbuf_wf_def)
  then have room: "?room = unat (sb_alloc sb) - unat (sb_len sb)" by (simp add: unat_sub)
  have "unat (sb_len sb) + length ?t \<le> unat (sb_alloc sb)"
    using lt room by (simp add: word_less_nat_alt)
  then obtain buf where buf: "poke (sb_buf sb) (unat (sb_len sb)) ?t = Ret buf" "length buf = unat (sb_alloc sb)"
      "take (unat (sb_len sb) + length ?t) buf = map Some (strbuf_str sb @ ?t)"
    using poke_behind [OF assms] by blast
  have tk: "take k buf = take k (map Some (strbuf_str sb @ ?t))" if "k \<le> unat (sb_len sb) + length ?t" for k
    using arg_cong [OF buf(3), of "take k"] that by (simp add: min_absorb1 del: length_append)
  have "take (unat (sb_len sb)) buf = map Some (strbuf_str sb)"
    using tk [of "unat (sb_len sb)"] length_strbuf_str [OF assms(1)] by simp
  moreover have "take (unat (sb_len sb) + length s) buf = map Some (strbuf_str sb @ s)"
    if "unat (sb_len sb) + length s < unat (sb_alloc sb)"
  proof -
    have "length s \<le> ?room - 1" using that room by simp
    then show ?thesis using tk [of "unat (sb_len sb) + length s"] length_strbuf_str [OF assms(1)] by simp
  qed
  ultimately show ?thesis
    using buf(1,2) lt by (auto simp: vsnprintf_def)
qed

lemma avail_unat:
  assumes "strbuf_wf sb" and "sb_alloc sb \<noteq> 0"
  shows "unat (strbuf_avail sb) = unat (sb_alloc sb) - unat (sb_len sb) - 1"
proof -
  have lt: "sb_len sb < sb_alloc sb" using assms by (simp add: strbuf_wf_def)
  then have room: "unat (sb_alloc sb - sb_len sb) = unat (sb_alloc sb) - unat (sb_len sb)" by (simp add: unat_sub)
  then have "1 \<le> sb_alloc sb - sb_len sb" using lt by (simp add: word_less_nat_alt word_le_nat_alt)
  then show ?thesis using assms(2) room by (simp add: strbuf_avail_def unat_sub)
qed

lemma strbuf_addf_tail:
  assumes "strbuf_wf sb" and "sb_alloc sb \<noteq> 0" and "unat (sb_len sb) + length s < unat (sb_alloc sb)"
  shows "\<exists>buf. vsnprintf (sb_buf sb) (unat (sb_len sb)) (sb_alloc sb - sb_len sb) s = Ret buf \<and>
    \<not> of_nat (length s) > strbuf_avail sb \<and>
    (\<exists>sb'. strbuf_setlen mem (sb\<lparr> sb_buf := buf \<rparr>) (sb_len sb + of_nat (length s)) = Ret sb' \<and>
       strbuf_ok sb' \<and> strbuf_str sb' = strbuf_str sb @ s)"
proof -
  obtain buf where buf: "vsnprintf (sb_buf sb) (unat (sb_len sb)) (sb_alloc sb - sb_len sb) s = Ret buf"
      "length buf = unat (sb_alloc sb)" "take (unat (sb_len sb) + length s) buf = map Some (strbuf_str sb @ s)"
    using vsnprintf_behind [OF assms(1,2)] assms(3) by blast
  moreover have "unat (of_nat (length s) :: u64) = length s"
    using assms(3) unat_u64_less [of "sb_alloc sb"] by (intro unat_of_nat_u64) linarith
  then have "\<not> of_nat (length s) > strbuf_avail sb"
    using assms(3) by (simp add: word_less_nat_alt avail_unat [OF assms(1,2)])
  ultimately show ?thesis
    using strbuf_setlen_appends [of "sb\<lparr> sb_buf := buf \<rparr>" s "strbuf_str sb" mem] assms by simp
qed

text \<open>The contract of an operation that appends: it succeeds and has appended, or the program has ended for lack of memory.\<close>

definition appended :: "strbuf \<Rightarrow> string \<Rightarrow> strbuf run \<Rightarrow> bool" where
  "appended sb s r =
     (case r of Ret sb' \<Rightarrow> strbuf_ok sb' \<and> strbuf_str sb' = strbuf_str sb @ s | Exit n err \<Rightarrow> n = 128 | _ \<Rightarrow> False)"

lemma strbuf_grow_outcome:
  obtains (ret) g where "strbuf_grow mem sb extra = Ret g" | (die) err where "strbuf_grow mem sb extra = Exit 128 err"
proof -
  have "(\<exists>g. strbuf_grow mem sb extra = Ret g) \<or> (\<exists>err. strbuf_grow mem sb extra = Exit 128 err)"
    unfolding strbuf_grow_def ALLOC_GROW_def xrealloc_def die_def Let_def by (simp del: not_le)
  then show thesis using ret die by blast
qed

lemma strbuf_avail_buf [simp]: "strbuf_avail (g\<lparr> sb_buf := buf \<rparr>) = strbuf_avail g"
  by (simp add: strbuf_avail_def)

lemma strbuf_addstr_appended:
  assumes "strbuf_wf sb" and "length s < 18446744073709551616"
  shows "appended sb s (strbuf_addstr mem sb s)"
proof (cases rule: strbuf_grow_outcome [of mem sb "of_nat (length s)"])
  case (ret g)
  then show ?thesis using strbuf_add_ret [OF assms(1) ret assms(2)] by (auto simp: appended_def)
next
  case (die err)
  then show ?thesis by (simp add: appended_def strbuf_addstr_def strbuf_add_def)
qed

lemma strbuf_addch_appended:
  assumes "strbuf_wf sb"
  shows "appended sb [c] (strbuf_addch mem sb c)"
proof (cases rule: strbuf_grow_outcome [of mem sb 1])
  case (ret g)
  then show ?thesis using strbuf_addch_ret [OF assms ret, of c] by (auto simp: appended_def)
next
  case (die err)
  then show ?thesis by (simp add: appended_def strbuf_addch_def)
qed

lemma strbuf_addf_from:
  assumes g: "strbuf_wf g" "sb_alloc g \<noteq> 0" "strbuf_str g = strbuf_str sb" and "length s \<le> 2147483647"
    and start: "(if strbuf_avail sb = 0 then strbuf_grow mem sb 64 else Ret sb) = Ret g"
  shows "appended sb s (strbuf_addf mem sb s)"
proof (cases "of_nat (length s) > strbuf_avail g")
  have n: "unat (of_nat (length s) :: u64) = length s" using assms(4) by (intro unat_of_nat_u64) simp
  case False
  moreover have "unat (sb_len g) < unat (sb_alloc g)" using g(1,2) by (simp add: strbuf_wf_def word_less_nat_alt)
  ultimately have "unat (sb_len g) + length s < unat (sb_alloc g)"
    using avail_unat [OF g(1,2)] by (simp add: word_less_nat_alt n)
  then show ?thesis
    using strbuf_addf_tail [OF g(1,2), of s mem] start g(3) assms(4)
    by (auto simp: strbuf_addf_def Let_def appended_def)
next
  have n: "unat (of_nat (length s) :: u64) = length s" using assms(4) by (intro unat_of_nat_u64) simp
  case True
  obtain buf where buf: "vsnprintf (sb_buf g) (unat (sb_len g)) (sb_alloc g - sb_len g) s = Ret buf"
      "length buf = unat (sb_alloc g)" "take (unat (sb_len g)) buf = map Some (strbuf_str g)"
    using vsnprintf_behind [OF g(1,2)] by blast
  let ?g = "g\<lparr> sb_buf := buf \<rparr>"
  have str: "strbuf_str ?g = strbuf_str g" using buf(3) by (intro strbuf_str_eqI) simp
  have wf: "strbuf_wf ?g" using g(1,2) buf(2,3) str by (simp add: strbuf_wf_def)
  show ?thesis
  proof (cases rule: strbuf_grow_outcome [of mem ?g "of_nat (length s)"])
    case (ret h)
    have hp: "strbuf_wf h" "sb_alloc h \<noteq> 0" "strbuf_str h = strbuf_str sb" "unat (sb_len h) + length s < unat (sb_alloc h)"
      using strbuf_grow_props [OF wf ret] str g(3) by (simp_all add: n)
    then show ?thesis
      using strbuf_addf_tail [OF hp(1,2,4), of mem] start buf(1) ret True assms(4)
      by (auto simp: strbuf_addf_def Let_def appended_def)
  next
    case (die err)
    then show ?thesis
      using start buf(1) True assms(4) by (auto simp: strbuf_addf_def Let_def appended_def)
  qed
qed

lemma strbuf_addf_appended:
  assumes "strbuf_wf sb"
  shows "appended sb s (strbuf_addf mem sb s)"
proof -
  consider (old) "strbuf_avail sb \<noteq> 0" | (grown) g where "strbuf_avail sb = 0" "strbuf_grow mem sb 64 = Ret g"
    | (die) err where "strbuf_avail sb = 0" "strbuf_grow mem sb 64 = Exit 128 err"
    using strbuf_grow_outcome [of mem sb 64] by blast
  then show ?thesis
  proof cases
    case old
    then show ?thesis
      using assms strbuf_addf_from [of sb sb s mem]
      by (cases "length s > 2147483647") (auto simp: strbuf_addf_def appended_def die_def strbuf_avail_def split: if_splits)
  next
    case grown
    then show ?thesis
      using strbuf_grow_props [OF assms grown(2)] strbuf_addf_from [of g sb s mem]
      by (cases "length s > 2147483647") (auto simp: strbuf_addf_def appended_def die_def)
  next
    case die
    then show ?thesis by (simp add: strbuf_addf_def appended_def)
  qed
qed

subsection \<open>Building a string in pieces\<close>

fun append_all :: "(strbuf \<Rightarrow> string \<Rightarrow> strbuf run) \<Rightarrow> string list \<Rightarrow> strbuf \<Rightarrow> strbuf run" where
  "append_all add [] sb = Ret sb"
| "append_all add (s # ss) sb = run_bind (add sb s) (append_all add ss)"

locale string_builder =
  fixes add :: "strbuf \<Rightarrow> string \<Rightarrow> strbuf run"
  assumes add_appends: "strbuf_ok sb \<Longrightarrow> length s < 18446744073709551616 \<Longrightarrow> appended sb s (add sb s)"
begin

lemma append_all_concat:
  "strbuf_ok sb \<Longrightarrow> (\<And>s. s \<in> set ss \<Longrightarrow> length s < 18446744073709551616) \<Longrightarrow>
    appended sb (concat ss) (append_all add ss sb)"
proof (induction ss arbitrary: sb)
  case Nil
  then show ?case by (simp add: appended_def)
next
  case (Cons s ss)
  have a: "appended sb s (add sb s)" using Cons.prems by (intro add_appends) auto
  show ?case
  proof (cases "add sb s")
    case (Ret sb')
    then have "strbuf_ok sb'" and str: "strbuf_str sb' = strbuf_str sb @ s" using a by (auto simp: appended_def)
    then have "appended sb' (concat ss) (append_all add ss sb')" using Cons by auto
    then show ?thesis by (simp add: Ret appended_def str split: run.splits)
  next
    case (Exit n err)
    then show ?thesis using a by (simp add: appended_def)
  qed (use a in \<open>simp_all add: appended_def\<close>)
qed

end

lemma strbuf_ok_wf: "strbuf_ok sb \<Longrightarrow> strbuf_wf sb"
  by (simp add: strbuf_ok_def)

interpretation addstr: string_builder "strbuf_addstr mem" for mem
  by unfold_locales (simp add: strbuf_addstr_appended strbuf_ok_wf)

interpretation addf: string_builder "strbuf_addf mem" for mem
  by unfold_locales (simp add: strbuf_addf_appended strbuf_ok_wf)

text \<open>C23: Whatever the allocator does, formatting pieces of text into a \<open>strbuf\<close> one after the other never writes outside the
  allocation, even when a piece did not fit at first and is formatted twice: either the program ends with status 128, or the buffer
  keeps its invariant (more room than text, and a zero behind it) and holds the pieces joined.\<close>

theorem strbuf_addf_builds:
  assumes "strbuf_ok sb" and "list_all (\<lambda>s. length s < 18446744073709551616) ss"
  shows "appended sb (concat ss) (append_all (strbuf_addf mem) ss sb)"
  using assms by (intro addf.append_all_concat) (auto simp: list_all_iff)

theorem strbuf_addf_builds_witness:
  "appended STRBUF_INIT ''ndctl list <a>'' (append_all (strbuf_addf (\<lambda>n. n < 4096)) [''ndctl '', ''list '', ''<a>''] STRBUF_INIT)"
  using strbuf_addf_builds [of STRBUF_INIT "[''ndctl '', ''list '', ''<a>'']" "\<lambda>n. n < 4096"] by simp

text \<open>On its own \<open>strbuf_grow\<close> keeps only a part of the invariant: it turns a fresh buffer into an allocation whose first byte was
  never written, so \<open>buf\<close> is no C string (\<open>strbuf_init\<close> with a hint returns such a buffer).\<close>

lemma strbuf_init_hint_unterminated:
  assumes "hint \<noteq> 0" and "hint + 1 \<noteq> 0" and "\<And>n. mem n"
  shows "\<exists>sb. strbuf_init mem hint = Ret sb \<and> \<not> strbuf_ok sb"
proof -
  have "0 < hint + 1" using assms(2) by (simp add: word_neq_0_conv)
  then show ?thesis
    using assms
    by (auto simp: strbuf_init_def strbuf_grow_def STRBUF_INIT_def ALLOC_GROW_def xrealloc_def Let_def strbuf_ok_def
      unat_gt_0 nth_replicate)
qed

subsection \<open>File names\<close>

lemma c_string_text:
  "CHR 0x00 \<notin> set s \<Longrightarrow> c_string (map Some s @ Some (CHR 0x00) # rest) = s"
  by (induction s) auto

lemma c_string_strbuf:
  assumes "strbuf_ok sb" and "sb_alloc sb \<noteq> 0" and "CHR 0x00 \<notin> set (strbuf_str sb)"
  shows "c_string (sb_buf sb) = strbuf_str sb"
proof -
  have lt: "unat (sb_len sb) < length (sb_buf sb)"
    using assms(1,2) by (simp add: strbuf_ok_def strbuf_wf_def word_less_nat_alt)
  have "sb_buf sb = map Some (strbuf_str sb) @ Some (CHR 0x00) # drop (Suc (unat (sb_len sb))) (sb_buf sb)"
    using id_take_nth_drop [OF lt] assms(1,2) by (simp add: strbuf_ok_def strbuf_wf_def)
  then show ?thesis using c_string_text [OF assms(3)] by metis
qed

lemma strbuf_addstr_allocs:
  assumes "strbuf_ok sb" and "length s < 18446744073709551616" and "strbuf_addstr mem sb s = Ret sb'"
  shows "sb_alloc sb' \<noteq> 0"
proof -
  obtain g where g: "strbuf_grow mem sb (of_nat (length s)) = Ret g"
    using assms(3) by (auto simp: strbuf_addstr_def strbuf_add_def)
  have "sb_alloc g \<noteq> 0" using strbuf_grow_props [OF strbuf_ok_wf [OF assms(1)] g] by simp
  then show ?thesis
    using assms(3) by (auto simp: strbuf_addstr_def strbuf_add_def strbuf_setlen_def g split: if_splits)
qed

lemma strbuf_addstr_string:
  assumes "strbuf_ok sb" and "CHR 0x00 \<notin> set (strbuf_str sb @ s)" and "length s < 18446744073709551616"
  shows "run_bind (strbuf_addstr mem sb s) (\<lambda>path. Ret (map_option c_string (fst (strbuf_detach path)))) \<in>
    {Ret (Some (strbuf_str sb @ s))} \<union> range (Exit 128)"
proof -
  have "appended sb s (strbuf_addstr mem sb s)" using assms by (intro strbuf_addstr_appended strbuf_ok_wf) auto
  moreover have "c_string (sb_buf sb') = strbuf_str sb @ s \<and> sb_alloc sb' \<noteq> 0"
    if "strbuf_addstr mem sb s = Ret sb'" "strbuf_ok sb'" "strbuf_str sb' = strbuf_str sb @ s" for sb'
    using strbuf_addstr_allocs [OF assms(1,3) that(1)] c_string_strbuf [OF that(2)] assms(2) that(3) by simp
  ultimately show ?thesis
    by (cases "strbuf_addstr mem sb s") (auto simp: appended_def strbuf_detach_def)
qed

text \<open>The file name that reaches the program: absolute names and \<open>-\<close> stay, all others go under the prefix.\<close>

lemma run_bind_assoc: "run_bind (run_bind m f) g = run_bind m (\<lambda>x. run_bind (f x) g)"
  by (cases m) auto

lemma fix_filename_correct:
  assumes "CHR 0x00 \<notin> set (p @ f)" and "length p < 18446744073709551616" "length f < 18446744073709551616"
  shows "fix_filename mem (Some p) (Some f) \<in>
    {Ret (Some (if is_absolute_path f \<or> f = ''-'' then f else p @ f))} \<union> range (Exit 128)"
proof (cases "is_absolute_path f \<or> f = ''-''")
  case True
  then show ?thesis by (simp add: fix_filename_def)
next
  case False
  let ?start = "if p \<noteq> [] then strbuf_addstr mem STRBUF_INIT p else Ret STRBUF_INIT"
  have "(of_nat (length p) :: u64) \<noteq> 0 \<longleftrightarrow> p \<noteq> []"
    using unat_of_nat_u64 [OF assms(2)] unat_gt_0 [of "of_nat (length p) :: u64"] by auto
  then have fx: "fix_filename mem (Some p) (Some f) =
      run_bind ?start (\<lambda>sb. run_bind (strbuf_addstr mem sb f) (\<lambda>path. Ret (map_option c_string (fst (strbuf_detach path)))))"
    using False by (simp add: fix_filename_def prefix_filename_def strbuf_addstr_def run_bind_assoc)
  have "appended STRBUF_INIT p ?start"
  proof (cases "p = []")
    case True
    then show ?thesis by (simp add: appended_def)
  next
    case False
    have "strbuf_wf STRBUF_INIT" by (rule strbuf_ok_wf) (rule strbuf_init_ok)
    from strbuf_addstr_appended [OF this assms(2)] False show ?thesis by simp
  qed
  then consider sb where "?start = Ret sb" "strbuf_ok sb" "strbuf_str sb = p" | err where "?start = Exit 128 err"
    by (cases ?start) (simp_all add: appended_def)
  then show ?thesis
  proof cases
    case (1 sb)
    then show ?thesis
      using strbuf_addstr_string [of sb f mem] assms(1,3) False unfolding fx 1(1) by simp
  next
    case (2 err)
    show ?thesis unfolding fx 2 by simp
  qed
qed

end
