(* ===== verification/Parse_Opt.thy ===== *)
theory Parse_Opt
  imports Strbuf Size "HOL-Library.Sublist"
begin

text \<open>
  The option parser of \<open>util/parse-options.c\<close>, through which every command of the three tools reads its arguments, and the dispatch of
  commands in \<open>util/main.c\<close>.  The parser compacts \<open>argv\<close> in place: \<open>out\<close> and \<open>argv\<close> of the C context point into one array, here
  \<open>px_vec\<close> (a \<open>None\<close> is the \<open>NULL\<close> behind the last argument) with the indices \<open>px_cpidx\<close> and \<open>px_argv\<close>.  A position inside an
  argument is the rest of its text.

  An option refers to its variables by address in a typed store; an \<open>int\<close> and an \<open>unsigned int\<close> share the 32-bit variables, a
  \<open>long\<close> and an \<open>uint64_t\<close> the 64-bit ones (\<open>check_vtype\<close> makes the compiler check the type of the variable).  \<open>defval\<close> is read as
  an integer or as a string, so there is one field for each reading.  A callback is a function on the store, which has a component for
  what it keeps.  Everything printed on standard error is collected in \<open>px_err\<close>.
\<close>

datatype parse_opt_type =
    OPTION_END | OPTION_ARGUMENT | OPTION_GROUP
  | OPTION_BIT | OPTION_BOOLEAN | OPTION_INCR | OPTION_SET_UINT | OPTION_SET_PTR
  | OPTION_STRING | OPTION_INTEGER | OPTION_LONG | OPTION_CALLBACK | OPTION_U64 | OPTION_UINTEGER | OPTION_FILENAME

datatype parse_opt_flags =
    PARSE_OPT_KEEP_DASHDASH | PARSE_OPT_STOP_AT_NON_OPTION | PARSE_OPT_KEEP_ARGV0
  | PARSE_OPT_KEEP_UNKNOWN | PARSE_OPT_NO_INTERNAL_HELP

datatype parse_opt_option_flags =
    PARSE_OPT_OPTARG | PARSE_OPT_NOARG | PARSE_OPT_NONEG | PARSE_OPT_HIDDEN | PARSE_OPT_LASTARG_DEFAULT

datatype parse_opt_code = PARSE_OPT_HELP | PARSE_OPT_DONE | PARSE_OPT_LIST_OPTS | PARSE_OPT_LIST_SUBCMDS | PARSE_OPT_UNKNOWN

record 'c opt_store =
  os_w32 :: "nat \<Rightarrow> u32"
  os_w64 :: "nat \<Rightarrow> u64"
  os_bool :: "nat \<Rightarrow> bool"
  os_str :: "nat \<Rightarrow> string option"
  os_cb :: 'c

text \<open>\<open>struct option\<close>; a \<open>short_name\<close> of 0 is none.  Masks of flags are lists of them.\<close>

record 'c opt_desc =
  od_type :: parse_opt_type
  od_short :: char
  od_long :: "string option"
  od_value :: nat
  od_argh :: "string option"
  od_help :: string
  od_flags :: "parse_opt_option_flags list"
  od_callback :: "string option \<Rightarrow> bool \<Rightarrow> 'c opt_store \<Rightarrow> int \<times> 'c opt_store"
  od_defval :: u64
  od_defstr :: "string option"
  od_set :: "nat option"

record opt_ctx =
  px_vec :: "string option list"
  px_argv :: nat
  px_argc :: nat
  px_cpidx :: nat
  px_opt :: "string option"
  px_flags :: "parse_opt_flags list"
  px_prefix :: "string option"
  px_err :: string

subsection \<open>Strings\<close>

fun prefixcmp :: "string \<Rightarrow> string \<Rightarrow> int" where
  "prefixcmp str [] = 0"
| "prefixcmp [] (p # ps) = of_char p"
| "prefixcmp (c # cs) (p # ps) = (if c = p then prefixcmp cs ps else of_char p - of_char c)"

definition skip_prefix :: "string \<Rightarrow> string \<Rightarrow> string option" where
  "skip_prefix str pfx = (if take (length pfx) str = pfx then Some (drop (length pfx) str) else None)"

text \<open>The first character of a C string, and the argument at an index.\<close>

definition char0 :: "string \<Rightarrow> char" where
  "char0 s = (case s of [] \<Rightarrow> CHR 0x00 | c # _ \<Rightarrow> c)"

definition arg_at :: "opt_ctx \<Rightarrow> nat \<Rightarrow> string" where
  "arg_at p i = (if i < length (px_vec p) then (case px_vec p ! i of None \<Rightarrow> [] | Some s \<Rightarrow> s) else [])"

definition put_out :: "opt_ctx \<Rightarrow> string \<Rightarrow> opt_ctx" where
  "put_out p s = p\<lparr> px_vec := (px_vec p)[px_cpidx p := Some s], px_cpidx := Suc (px_cpidx p) \<rparr>"

definition error :: "string \<Rightarrow> opt_ctx \<Rightarrow> opt_ctx" where
  "error msg p = p\<lparr> px_err := px_err p @ report '' Error: '' msg \<rparr>"

text \<open>\<open>strtoull\<close> with base 10: a value that does not fit is \<open>ULLONG_MAX\<close>, and a sign negates.\<close>

definition strtoull10 :: "string \<Rightarrow> u64 \<times> string" where
  "strtoull10 s =
     (case scan_sign (dropWhile is_space s) of (neg, t) \<Rightarrow>
        if starts_digit 10 t
        then (case scan_digits 10 t 0 of (n, rest) \<Rightarrow>
                (if n \<ge> 2 ^ 64 then ULLONG_MAX else if neg then - of_nat n else of_nat n, rest))
        else (0, s))"

subsection \<open>Values\<close>

definition opterror :: "'c opt_desc \<Rightarrow> string \<Rightarrow> bool \<Rightarrow> bool \<Rightarrow> opt_ctx \<Rightarrow> opt_ctx" where
  "opterror opt reason is_short unset p =
     (let name = (case od_long opt of None \<Rightarrow> ''(null)'' | Some n \<Rightarrow> n) in
      if is_short then error (''switch `'' @ [od_short opt] @ [CHR 0x27] @ '' '' @ reason) p
      else if unset then error (''option `no-'' @ name @ [CHR 0x27] @ '' '' @ reason) p
      else error (''option `'' @ name @ [CHR 0x27] @ '' '' @ reason) p)"

text \<open>\<open>Inl\<close> is a failure, which has been reported.\<close>

definition get_arg :: "opt_ctx \<Rightarrow> 'c opt_desc \<Rightarrow> bool \<Rightarrow> bool \<Rightarrow> opt_ctx + (string option \<times> opt_ctx)" where
  "get_arg p opt is_short unset =
     (case px_opt p of
        Some s \<Rightarrow> Inr (Some s, p\<lparr> px_opt := None \<rparr>)
      | None \<Rightarrow>
          if PARSE_OPT_LASTARG_DEFAULT \<in> set (od_flags opt) \<and>
             (px_argc p = 1 \<or> char0 (arg_at p (px_argv p + 1)) = CHR ''-'')
          then Inr (od_defstr opt, p)
          else if px_argc p > 1
          then Inr (Some (arg_at p (px_argv p + 1)), p\<lparr> px_argc := px_argc p - 1, px_argv := px_argv p + 1 \<rparr>)
          else Inl (opterror opt ''requires a value'' is_short unset p))"

definition takes_no_value :: "'c opt_desc \<Rightarrow> bool" where
  "takes_no_value opt =
     (case od_type opt of
        OPTION_CALLBACK \<Rightarrow> PARSE_OPT_NOARG \<in> set (od_flags opt)
      | OPTION_BOOLEAN \<Rightarrow> True | OPTION_INCR \<Rightarrow> True | OPTION_BIT \<Rightarrow> True | OPTION_SET_UINT \<Rightarrow> True | OPTION_SET_PTR \<Rightarrow> True
      | _ \<Rightarrow> False)"

definition no_optarg :: "opt_ctx \<Rightarrow> 'c opt_desc \<Rightarrow> bool" where
  "no_optarg p opt = (PARSE_OPT_OPTARG \<in> set (od_flags opt) \<and> px_opt p = None)"

definition put_w32 :: "'c opt_desc \<Rightarrow> u32 \<Rightarrow> 'c opt_store \<Rightarrow> 'c opt_store" where
  "put_w32 opt v st = st\<lparr> os_w32 := (os_w32 st)(od_value opt := v) \<rparr>"

definition put_w64 :: "'c opt_desc \<Rightarrow> u64 \<Rightarrow> 'c opt_store \<Rightarrow> 'c opt_store" where
  "put_w64 opt v st = st\<lparr> os_w64 := (os_w64 st)(od_value opt := v) \<rparr>"

definition put_str :: "'c opt_desc \<Rightarrow> string option \<Rightarrow> 'c opt_store \<Rightarrow> 'c opt_store" where
  "put_str opt v st = st\<lparr> os_str := (os_str st)(od_value opt := v) \<rparr>"

text \<open>The cases of the four numeric types differ in the conversion \<open>conv\<close> and the type of the variable.\<close>

definition get_number ::
  "(u64 \<Rightarrow> 'c opt_store \<Rightarrow> 'c opt_store) \<Rightarrow> (string \<Rightarrow> u64 \<times> string) \<Rightarrow> opt_ctx \<Rightarrow> 'c opt_store \<Rightarrow> 'c opt_desc \<Rightarrow> bool \<Rightarrow> bool \<Rightarrow>
     (int \<times> opt_ctx \<times> 'c opt_store) run" where
  "get_number put conv p st opt is_short unset =
     (if unset then Ret (0, p, put 0 st)
      else if no_optarg p opt then Ret (0, p, put (od_defval opt) st)
      else (case get_arg p opt is_short unset of
              Inl p' \<Rightarrow> Ret (- 1, p', st)
            | Inr (None, p') \<Rightarrow> Fault
            | Inr (Some arg, p') \<Rightarrow>
                (case conv arg of (v, s) \<Rightarrow>
                   if s \<noteq> [] then Ret (- 1, opterror opt ''expects a numerical value'' is_short unset p', put v st)
                   else Ret (0, p', put v st))))"

definition get_string ::
  "opt_ctx \<Rightarrow> 'c opt_store \<Rightarrow> 'c opt_desc \<Rightarrow> bool \<Rightarrow> bool \<Rightarrow> int \<times> opt_ctx \<times> 'c opt_store" where
  "get_string p st opt is_short unset =
     (if unset then (0, p, put_str opt None st)
      else if no_optarg p opt then (0, p, put_str opt (od_defstr opt) st)
      else (case get_arg p opt is_short unset of
              Inl p' \<Rightarrow> (- 1, p', st)
            | Inr (arg, p') \<Rightarrow> (0, p', put_str opt arg st)))"

definition call_back ::
  "opt_ctx \<Rightarrow> 'c opt_store \<Rightarrow> 'c opt_desc \<Rightarrow> string option \<Rightarrow> bool \<Rightarrow> (int \<times> opt_ctx \<times> 'c opt_store) run" where
  "call_back p st opt arg unset =
     (case od_callback opt arg unset st of (rc, st') \<Rightarrow> Ret (if rc \<noteq> 0 then - 1 else 0, p, st'))"

definition get_callback ::
  "opt_ctx \<Rightarrow> 'c opt_store \<Rightarrow> 'c opt_desc \<Rightarrow> bool \<Rightarrow> bool \<Rightarrow> (int \<times> opt_ctx \<times> 'c opt_store) run" where
  "get_callback p st opt is_short unset =
     (if unset then call_back p st opt None True
      else if PARSE_OPT_NOARG \<in> set (od_flags opt) then call_back p st opt None False
      else if no_optarg p opt then call_back p st opt None False
      else (case get_arg p opt is_short unset of
              Inl p' \<Rightarrow> Ret (- 1, p', st)
            | Inr (arg, p') \<Rightarrow> call_back p' st opt arg False))"

definition get_value ::
  "(u64 \<Rightarrow> bool) \<Rightarrow> opt_ctx \<Rightarrow> 'c opt_store \<Rightarrow> 'c opt_desc \<Rightarrow> bool \<Rightarrow> bool \<Rightarrow> (int \<times> opt_ctx \<times> 'c opt_store) run" where
  "get_value mem p st opt is_short unset =
     (if unset \<and> px_opt p \<noteq> None then Ret (- 1, opterror opt ''takes no value'' is_short unset p, st)
      else if unset \<and> PARSE_OPT_NONEG \<in> set (od_flags opt)
      then Ret (- 1, opterror opt (''isn'' @ [CHR 0x27] @ ''t available'') is_short unset p, st)
      else if \<not> is_short \<and> px_opt p \<noteq> None \<and> takes_no_value opt
      then Ret (- 1, opterror opt ''takes no value'' is_short unset p, st)
      else (case od_type opt of
          OPTION_BIT \<Rightarrow>
            Ret (0, p, put_w32 opt (if unset then os_w32 st (od_value opt) AND NOT (ucast (od_defval opt))
                                    else os_w32 st (od_value opt) OR ucast (od_defval opt)) st)
        | OPTION_BOOLEAN \<Rightarrow>
            (let st' = st\<lparr> os_bool := (os_bool st)(od_value opt := \<not> unset) \<rparr> in
             Ret (0, p, case od_set opt of None \<Rightarrow> st' | Some a \<Rightarrow> st'\<lparr> os_bool := (os_bool st')(a := True) \<rparr>))
        | OPTION_INCR \<Rightarrow> Ret (0, p, put_w32 opt (if unset then 0 else os_w32 st (od_value opt) + 1) st)
        | OPTION_SET_UINT \<Rightarrow> Ret (0, p, put_w32 opt (if unset then 0 else ucast (od_defval opt)) st)
        | OPTION_SET_PTR \<Rightarrow> Ret (0, p, put_str opt (if unset then None else od_defstr opt) st)
        | OPTION_STRING \<Rightarrow> Ret (get_string p st opt is_short unset)
        | OPTION_FILENAME \<Rightarrow>
            (case get_string p st opt is_short unset of (err, p', st') \<Rightarrow>
               if err = 0
               then run_bind (fix_filename mem (px_prefix p') (os_str st' (od_value opt))) (\<lambda>f. Ret (err, p', put_str opt f st'))
               else Ret (err, p', st'))
        | OPTION_CALLBACK \<Rightarrow> get_callback p st opt is_short unset
        | OPTION_INTEGER \<Rightarrow>
            get_number (\<lambda>v. put_w32 opt (ucast v)) (\<lambda>a. case strtol10 a of (v, s) \<Rightarrow> (word_of_int v, s)) p st opt is_short unset
        | OPTION_UINTEGER \<Rightarrow>
            get_number (\<lambda>v. put_w32 opt (ucast v)) (\<lambda>a. case strtol10 a of (v, s) \<Rightarrow> (word_of_int v, s)) p st opt is_short unset
        | OPTION_LONG \<Rightarrow>
            get_number (put_w64 opt) (\<lambda>a. case strtol10 a of (v, s) \<Rightarrow> (word_of_int v, s)) p st opt is_short unset
        | OPTION_U64 \<Rightarrow> get_number (put_w64 opt) strtoull10 p st opt is_short unset
        | _ \<Rightarrow> die ''should not happen, someone must be hit on the forehead''))"

subsection \<open>Short and long options\<close>

text \<open>The results 0, -1 and -2 are: parsed, an error that was reported, no such option.\<close>

fun parse_short_opt ::
  "(u64 \<Rightarrow> bool) \<Rightarrow> opt_ctx \<Rightarrow> 'c opt_store \<Rightarrow> 'c opt_desc list \<Rightarrow> (int \<times> opt_ctx \<times> 'c opt_store) run" where
  "parse_short_opt mem p st [] = Ret (- 2, p, st)"
| "parse_short_opt mem p st (opt # options) =
     (if od_type opt = OPTION_END then Ret (- 2, p, st)
      else (case px_opt p of
              None \<Rightarrow> Fault
            | Some s \<Rightarrow>
                if od_short opt = char0 s
                then get_value mem (p\<lparr> px_opt := if tl s \<noteq> [] then Some (tl s) else None \<rparr>) st opt True False
                else parse_short_opt mem p st options))"

text \<open>How an argument (without its dashes) relates to the name of an option: it does not, it may abbreviate it, or it contains it up to
  a rest; the flag is \<open>OPT_UNSET\<close>.\<close>

datatype long_match = Long_No | Long_Abbrev bool | Long_Match string bool

definition arg_end :: "string \<Rightarrow> string" where
  "arg_end arg = dropWhile (\<lambda>c. c \<noteq> CHR ''='') arg"

definition classify_negated :: "string \<Rightarrow> string \<Rightarrow> long_match" where
  "classify_negated arg name =
     (let n = length arg - length (arg_end arg) in
      if take n name = take n arg then Long_Abbrev False
      else if prefixcmp ''no-'' arg = 0 then Long_Abbrev True
      else if take 3 arg \<noteq> ''no-'' then Long_No
      else (case skip_prefix (drop 3 arg) name of
              Some rest \<Rightarrow> Long_Match rest True
            | None \<Rightarrow> if prefixcmp name (drop 3 arg) = 0 then Long_Abbrev True else Long_No))"

definition classify_long :: "string \<Rightarrow> string \<Rightarrow> long_match" where
  "classify_long arg name =
     (case skip_prefix arg name of
        Some rest \<Rightarrow> Long_Match rest False
      | None \<Rightarrow>
          if prefixcmp name ''no-'' = 0
          then (case skip_prefix arg (drop 3 name) of
                  Some rest \<Rightarrow> Long_Match rest True
                | None \<Rightarrow> if prefixcmp (drop 3 name) arg = 0 then Long_Abbrev True else classify_negated arg name)
          else classify_negated arg name)"

definition opt_name :: "'c opt_desc \<times> bool \<Rightarrow> string" where
  "opt_name ou = (if snd ou then ''no-'' else []) @ (case od_long (fst ou) of None \<Rightarrow> [] | Some n \<Rightarrow> n)"

text \<open>Behind the loop: an abbreviation counts if there was only one.\<close>

definition long_abbrev ::
  "(u64 \<Rightarrow> bool) \<Rightarrow> opt_ctx \<Rightarrow> 'c opt_store \<Rightarrow> string \<Rightarrow> ('c opt_desc \<times> bool) option \<Rightarrow> ('c opt_desc \<times> bool) option \<Rightarrow>
     (int \<times> opt_ctx \<times> 'c opt_store) run" where
  "long_abbrev mem p st arg abbrev ambiguous =
     (case (ambiguous, abbrev) of
        (Some am, Some ab) \<Rightarrow>
          Ret (- 1, error (''Ambiguous option: '' @ arg @ '' (could be --'' @ opt_name am @ '' or --'' @ opt_name ab @ '')'') p, st)
      | (None, Some ab) \<Rightarrow> get_value mem p st (fst ab) False (snd ab)
      | _ \<Rightarrow> Ret (- 2, p, st))"

fun long_loop ::
  "(u64 \<Rightarrow> bool) \<Rightarrow> opt_ctx \<Rightarrow> 'c opt_store \<Rightarrow> string \<Rightarrow> 'c opt_desc list \<Rightarrow> ('c opt_desc \<times> bool) option \<Rightarrow> ('c opt_desc \<times> bool) option \<Rightarrow>
     (int \<times> opt_ctx \<times> 'c opt_store) run" where
  "long_loop mem p st arg [] abbrev ambiguous = long_abbrev mem p st arg abbrev ambiguous"
| "long_loop mem p st arg (opt # options) abbrev ambiguous =
     (if od_type opt = OPTION_END then long_abbrev mem p st arg abbrev ambiguous
      else (case od_long opt of
          None \<Rightarrow> long_loop mem p st arg options abbrev ambiguous
        | Some name \<Rightarrow>
            if od_type opt = OPTION_ARGUMENT
            then (case skip_prefix arg name of
                    None \<Rightarrow> long_loop mem p st arg options abbrev ambiguous
                  | Some rest \<Rightarrow>
                      if char0 rest = CHR ''='' then Ret (- 1, opterror opt ''takes no value'' False False p, st)
                      else if rest \<noteq> [] then long_loop mem p st arg options abbrev ambiguous
                      else Ret (0, put_out p (''--'' @ arg), st))
            else (case classify_long arg name of
                    Long_No \<Rightarrow> long_loop mem p st arg options abbrev ambiguous
                  | Long_Abbrev unset \<Rightarrow>
                      long_loop mem (if \<not> unset \<and> arg_end arg \<noteq> [] then p\<lparr> px_opt := Some (tl (arg_end arg)) \<rparr> else p) st arg options
                        (Some (opt, unset)) (if abbrev \<noteq> None then abbrev else ambiguous)
                  | Long_Match rest unset \<Rightarrow>
                      if rest = [] then get_value mem p st opt False unset
                      else if char0 rest \<noteq> CHR ''='' then long_loop mem p st arg options abbrev ambiguous
                      else get_value mem (p\<lparr> px_opt := Some (tl rest) \<rparr>) st opt False unset)))"

definition parse_long_opt ::
  "(u64 \<Rightarrow> bool) \<Rightarrow> opt_ctx \<Rightarrow> 'c opt_store \<Rightarrow> string \<Rightarrow> 'c opt_desc list \<Rightarrow> (int \<times> opt_ctx \<times> 'c opt_store) run" where
  "parse_long_opt mem p st arg options = long_loop mem p st arg options None None"

text \<open>The first of several short options that spells a long one; the program ends then.\<close>

fun typo_among :: "string \<Rightarrow> 'c opt_desc list \<Rightarrow> bool" where
  "typo_among arg [] = False"
| "typo_among arg (opt # options) =
     (if od_type opt = OPTION_END then False
      else (case od_long opt of
              None \<Rightarrow> typo_among arg options
            | Some name \<Rightarrow> prefixcmp name arg = 0 \<or> typo_among arg options))"

definition check_typos :: "string \<Rightarrow> 'c opt_desc list \<Rightarrow> opt_ctx \<Rightarrow> unit run" where
  "check_typos arg options p =
     (if length arg < 3 then Ret ()
      else if prefixcmp arg ''no-'' = 0 \<or> typo_among arg options
      then Exit 129 (px_err (error (''did you mean `--'' @ arg @ ''` (with two dashes ?)'') p))
      else Ret ())"

subsection \<open>Usage messages\<close>

definition USAGE_OPTS_WIDTH :: nat where [simp]: "USAGE_OPTS_WIDTH = 24"
definition USAGE_GAP :: nat where [simp]: "USAGE_GAP = 2"

definition newline :: string where
  "newline = [CHR 0x0A]"

text \<open>How the argument of an option is described.\<close>

definition help_argument :: "'c opt_desc \<Rightarrow> string" where
  "help_argument opt =
     (let optional = PARSE_OPT_OPTARG \<in> set (od_flags opt);
          wrap = (\<lambda>a. if optional then (if od_long opt \<noteq> None then ''[='' @ a @ '']'' else ''['' @ a @ '']'') else '' '' @ a);
          name = (case od_argh opt of None \<Rightarrow> ''...'' | Some a \<Rightarrow> ''<'' @ a @ ''>'')
      in case od_type opt of
           OPTION_LONG \<Rightarrow> wrap ''<n>''
         | OPTION_U64 \<Rightarrow> wrap ''<n>''
         | OPTION_INTEGER \<Rightarrow> wrap ''<n>''
         | OPTION_UINTEGER \<Rightarrow> wrap ''<n>''
         | OPTION_CALLBACK \<Rightarrow> if PARSE_OPT_NOARG \<in> set (od_flags opt) then [] else wrap name
         | OPTION_FILENAME \<Rightarrow> wrap name
         | OPTION_STRING \<Rightarrow> wrap name
         | _ \<Rightarrow> [])"

definition help_left :: "'c opt_desc \<Rightarrow> string" where
  "help_left opt =
     ''    '' @ (if od_short opt \<noteq> CHR 0x00 then [CHR ''-'', od_short opt] else ''    '') @
     (if od_long opt \<noteq> None \<and> od_short opt \<noteq> CHR 0x00 then '', '' else []) @
     (case od_long opt of None \<Rightarrow> [] | Some n \<Rightarrow> ''--'' @ n) @ help_argument opt"

definition print_option_help :: "'c opt_desc \<Rightarrow> bool \<Rightarrow> string" where
  "print_option_help opt full =
     (if od_type opt = OPTION_GROUP then newline @ (if od_help opt \<noteq> [] then od_help opt @ newline else [])
      else if \<not> full \<and> PARSE_OPT_HIDDEN \<in> set (od_flags opt) then []
      else let left = help_left opt; pos = length left;
               pad = (if pos \<le> USAGE_OPTS_WIDTH then USAGE_OPTS_WIDTH - pos else USAGE_OPTS_WIDTH)
           in left @ (if pos \<le> USAGE_OPTS_WIDTH then [] else newline) @
              replicate (pad + USAGE_GAP) (CHR '' '') @ od_help opt @ newline)"

definition live_options :: "'c opt_desc list \<Rightarrow> 'c opt_desc list" where
  "live_options opts = takeWhile (\<lambda>opt. od_type opt \<noteq> OPTION_END) opts"

text \<open>The lines of \<open>usagestr\<close>: alternatives up to an empty line, indented text behind it.\<close>

definition usage_lines :: "string list \<Rightarrow> string" where
  "usage_lines us =
     (case us of
        [] \<Rightarrow> newline @ '' usage: (null)'' @ newline
      | u # us \<Rightarrow> newline @ '' usage: '' @ u @ newline @
          concat (map (\<lambda>u. ''    or: '' @ u @ newline) (takeWhile (\<lambda>u. u \<noteq> []) us)) @
          concat (map (\<lambda>u. (if u \<noteq> [] then ''    '' else []) @ u @ newline) (dropWhile (\<lambda>u. u \<noteq> []) us)))"

definition usage_with_options_internal :: "string list option \<Rightarrow> 'c opt_desc list \<Rightarrow> bool \<Rightarrow> opt_ctx \<Rightarrow> opt_ctx" where
  "usage_with_options_internal usagestr opts full p =
     (case usagestr of
        None \<Rightarrow> p
      | Some us \<Rightarrow>
          p\<lparr> px_err := px_err p @ usage_lines us @
               (case opts of opt # _ \<Rightarrow> if od_type opt \<noteq> OPTION_GROUP then newline else [] | [] \<Rightarrow> newline) @
               concat (map (\<lambda>opt. print_option_help opt full) (live_options opts)) @ newline \<rparr>)"

text \<open>The option an error is about, by its short name or by a long name that the argument begins with.\<close>

definition usage_names :: "string \<Rightarrow> bool \<Rightarrow> 'c opt_desc \<Rightarrow> bool" where
  "usage_names optstr short_opt opt =
     (if short_opt then od_short opt = char0 optstr
      else (case od_long opt of
              None \<Rightarrow> False
            | Some name \<Rightarrow>
                prefixcmp optstr name = 0 \<or> prefixcmp optstr ''no-'' = 0 \<and> prefixcmp (drop 3 optstr) name = 0))"

definition parse_options_usage :: "string list option \<Rightarrow> 'c opt_desc list \<Rightarrow> string \<Rightarrow> bool \<Rightarrow> opt_ctx \<Rightarrow> opt_ctx" where
  "parse_options_usage usagestr opts optstr short_opt p =
     p\<lparr> px_err := px_err p @ (case usagestr of None \<Rightarrow> [] | Some us \<Rightarrow> usage_lines us @ newline) @
          (case List.find (usage_names optstr short_opt) (live_options opts) of
             None \<Rightarrow> [] | Some opt \<Rightarrow> print_option_help opt False) \<rparr>"

definition usage_with_options :: "string list option \<Rightarrow> 'c opt_desc list \<Rightarrow> opt_ctx \<Rightarrow> 'a run" where
  "usage_with_options usagestr opts p = Exit 129 (px_err (usage_with_options_internal usagestr opts False p))"

subsection \<open>The parser\<close>

definition parse_options_start :: "string option list \<Rightarrow> nat \<Rightarrow> string option \<Rightarrow> parse_opt_flags list \<Rightarrow> opt_ctx run" where
  "parse_options_start argv argc prfx flags =
     (if PARSE_OPT_KEEP_UNKNOWN \<in> set flags \<and> PARSE_OPT_STOP_AT_NON_OPTION \<in> set flags
      then die (''STOP_AT_NON_OPTION and KEEP_UNKNOWN don'' @ [CHR 0x27] @ ''t go together'')
      else Ret \<lparr> px_vec = argv, px_argv = 1, px_argc = argc - 1,
                 px_cpidx = if PARSE_OPT_KEEP_ARGV0 \<in> set flags then 1 else 0,
                 px_opt = None, px_flags = flags, px_prefix = prfx, px_err = [] \<rparr>)"

text \<open>One argument leads to the next or ends the loop with a code.\<close>

datatype 'c step = Next opt_ctx "'c opt_store" | Stop parse_opt_code opt_ctx "'c opt_store"

definition unknown_option :: "opt_ctx \<Rightarrow> 'c opt_store \<Rightarrow> 'c step" where
  "unknown_option p st =
     (if PARSE_OPT_KEEP_UNKNOWN \<notin> set (px_flags p) then Stop PARSE_OPT_UNKNOWN p st
      else Next ((put_out p (arg_at p (px_argv p)))\<lparr> px_opt := None \<rparr>) st)"

definition internal_help :: "opt_ctx \<Rightarrow> bool" where
  "internal_help p = (PARSE_OPT_NO_INTERNAL_HELP \<notin> set (px_flags p))"

text \<open>What fetching a value may change of the context: it reads on by at most one argument and may use up the rest of the present one,
  but never writes to the array.\<close>

definition ctx_moved :: "opt_ctx \<Rightarrow> opt_ctx \<Rightarrow> bool" where
  "ctx_moved p p' =
     (px_vec p' = px_vec p \<and> px_cpidx p' = px_cpidx p \<and> px_flags p' = px_flags p \<and> px_prefix p' = px_prefix p \<and>
      (px_opt p' = None \<or> px_opt p' = px_opt p) \<and>
      (px_argv p' = px_argv p \<and> px_argc p' = px_argc p \<or>
       px_opt p = None \<and> 1 < px_argc p \<and> px_argv p' = px_argv p + 1 \<and> px_argc p' = px_argc p - 1))"

lemma ctx_moved_refl [simp]: "ctx_moved p p"
  by (simp add: ctx_moved_def)

lemma error_fields [simp]:
  "px_vec (error m p) = px_vec p" "px_cpidx (error m p) = px_cpidx p" "px_flags (error m p) = px_flags p"
  "px_prefix (error m p) = px_prefix p" "px_opt (error m p) = px_opt p" "px_argv (error m p) = px_argv p"
  "px_argc (error m p) = px_argc p"
  by (simp_all add: error_def)

lemma ctx_moved_opterror [simp]: "ctx_moved p (opterror opt reason sh un q) = ctx_moved p q"
  by (simp add: opterror_def Let_def ctx_moved_def)

lemma get_arg_moved:
  "get_arg p opt sh un = Inl p' \<Longrightarrow> ctx_moved p p'"
  "get_arg p opt sh un = Inr (arg, p') \<Longrightarrow> ctx_moved p p' \<and> px_opt p' = None"
  by (auto simp: get_arg_def ctx_moved_def opterror_def Let_def split: option.splits if_splits)

lemma get_number_moved:
  assumes "get_number put conv p st opt sh un = Ret (rc, p', st')"
  shows "ctx_moved p p'"
  using assms get_arg_moved [of p opt sh un]
  by (fastforce simp: get_number_def split: if_splits sum.splits option.splits prod.splits)

lemma get_string_moved:
  assumes "get_string p st opt sh un = (rc, p', st')"
  shows "ctx_moved p p'"
  using assms get_arg_moved [of p opt sh un]
  by (fastforce simp: get_string_def split: if_splits sum.splits prod.splits)

lemma get_callback_moved:
  assumes "get_callback p st opt sh un = Ret (rc, p', st')"
  shows "ctx_moved p p'"
  using assms get_arg_moved [of p opt sh un]
  by (fastforce simp: get_callback_def call_back_def split: if_splits sum.splits prod.splits)

lemma get_value_moved:
  assumes "get_value mem p st opt sh un = Ret (rc, p', st')"
  shows "ctx_moved p p'"
  using assms
  by (auto simp: get_value_def die_def Let_def dest: get_number_moved get_string_moved get_callback_moved
      split: if_splits parse_opt_type.splits prod.splits)

lemma get_value_code:
  assumes "get_value mem p st opt sh un = Ret (rc, p', st')"
  shows "rc = 0 \<or> rc = - 1"
  using assms
  by (auto simp: get_value_def get_number_def get_string_def get_callback_def call_back_def die_def Let_def
      split: if_splits parse_opt_type.splits prod.splits sum.splits option.splits)

lemma parse_short_opt_moved:
  assumes "parse_short_opt mem p st opts = Ret (rc, p', st')" and "px_opt p = Some s"
  shows "rc = - 2 \<and> p' = p \<and> st' = st \<or>
    (rc = 0 \<or> rc = - 1) \<and> ctx_moved (p\<lparr> px_opt := if tl s \<noteq> [] then Some (tl s) else None \<rparr>) p'"
  using assms
  by (induction opts) (auto dest: get_value_moved get_value_code split: if_splits)

text \<open>The rest of an argument with several short options.  An unknown one makes the rest look like an argument of its own.\<close>

function short_loop ::
  "(u64 \<Rightarrow> bool) \<Rightarrow> string list option \<Rightarrow> 'c opt_desc list \<Rightarrow> opt_ctx \<Rightarrow> 'c opt_store \<Rightarrow> 'c step run" where
  "short_loop mem usagestr options p st =
     (case px_opt p of
        None \<Rightarrow> Ret (Next p st)
      | Some s \<Rightarrow>
          if internal_help p \<and> char0 s = CHR ''h''
          then Ret (Stop PARSE_OPT_HELP (usage_with_options_internal usagestr options False p) st)
          else run_bind (parse_short_opt mem p st options) (\<lambda>(rc, p', st').
            if rc = - 1 then Ret (Stop PARSE_OPT_HELP (parse_options_usage usagestr options s True p') st')
            else if rc = - 2
            then Ret (unknown_option (p'\<lparr> px_vec := (px_vec p')[px_argv p' := Some (CHR ''-'' # s)] \<rparr>) st')
            else short_loop mem usagestr options p' st'))"
  by pat_completeness auto
termination
proof (relation "measure (\<lambda>(mem, usagestr, options, p, st). case px_opt p of None \<Rightarrow> 0 | Some s \<Rightarrow> Suc (length s))")
  show "wf (measure (\<lambda>(mem :: u64 \<Rightarrow> bool, usagestr :: string list option, options :: 'c opt_desc list, p, st :: 'c opt_store).
    case px_opt p of None \<Rightarrow> 0 | Some s \<Rightarrow> Suc (length s)))"
    by simp
qed (auto dest!: parse_short_opt_moved simp: ctx_moved_def length_greater_0_conv [symmetric] split: option.splits if_splits
  simp del: length_greater_0_conv)

declare short_loop.simps [simp del]

text \<open>One round of the loop of \<open>parse_options_step\<close>.\<close>

definition parse_one ::
  "(u64 \<Rightarrow> bool) \<Rightarrow> string list option \<Rightarrow> 'c opt_desc list \<Rightarrow> opt_ctx \<Rightarrow> 'c opt_store \<Rightarrow> 'c step run" where
  "parse_one mem usagestr options p st =
     (let arg = arg_at p (px_argv p) in
      if char0 arg \<noteq> CHR ''-'' \<or> tl arg = []
      then Ret (if PARSE_OPT_STOP_AT_NON_OPTION \<in> set (px_flags p) then Stop PARSE_OPT_DONE p st else Next (put_out p arg) st)
      else if char0 (tl arg) \<noteq> CHR ''-''
      then (let p = p\<lparr> px_opt := Some (tl arg) \<rparr> in
            if internal_help p \<and> char0 (tl arg) = CHR ''h''
            then Ret (Stop PARSE_OPT_HELP (usage_with_options_internal usagestr options False p) st)
            else run_bind (parse_short_opt mem p st options) (\<lambda>(rc, p', st').
              if rc = - 1 then Ret (Stop PARSE_OPT_HELP (parse_options_usage usagestr options (tl arg) True p') st')
              else if rc = - 2 then Ret (unknown_option p' st')
              else run_bind (if px_opt p' \<noteq> None then check_typos (tl arg) options p' else Ret ())
                (\<lambda>_. short_loop mem usagestr options p' st')))
      else if drop 2 arg = []
      then Ret (Stop PARSE_OPT_DONE
             (if PARSE_OPT_KEEP_DASHDASH \<notin> set (px_flags p) then p\<lparr> px_argc := px_argc p - 1, px_argv := px_argv p + 1 \<rparr> else p) st)
      else if internal_help p \<and> drop 2 arg = ''help-all''
      then Ret (Stop PARSE_OPT_HELP (usage_with_options_internal usagestr options True p) st)
      else if internal_help p \<and> drop 2 arg = ''help''
      then Ret (Stop PARSE_OPT_HELP (usage_with_options_internal usagestr options False p) st)
      else if drop 2 arg = ''list-opts'' then Ret (Stop PARSE_OPT_LIST_OPTS p st)
      else if drop 2 arg = ''list-cmds'' then Ret (Stop PARSE_OPT_LIST_SUBCMDS p st)
      else run_bind (parse_long_opt mem p st (drop 2 arg) options) (\<lambda>(rc, p', st').
        if rc = - 1 then Ret (Stop PARSE_OPT_HELP (parse_options_usage usagestr options (drop 2 arg) False p') st')
        else if rc = - 2 then Ret (unknown_option p' st')
        else Ret (Next p' st')))"

text \<open>What a round may do to the context, for the termination of the loop and for the invariant of the array: the index of the next
  argument and the number of arguments left move together, and what is behind the present argument stays.\<close>

definition ctx_went :: "string \<Rightarrow> opt_ctx \<Rightarrow> opt_ctx \<Rightarrow> bool" where
  "ctx_went arg p p' =
     (px_flags p' = px_flags p \<and>
      (px_vec p' = px_vec p \<and> px_cpidx p' = px_cpidx p \<and>
       (px_argv p' = px_argv p \<and> px_argc p' = px_argc p \<or>
        1 < px_argc p \<and> px_argv p' = px_argv p + 1 \<and> px_argc p' = px_argc p - 1) \<or>
       px_vec p' = (px_vec p)[px_cpidx p := Some arg] \<and> px_cpidx p' = px_cpidx p + 1 \<and>
       px_argv p' = px_argv p \<and> px_argc p' = px_argc p))"

lemma moved_went: "ctx_moved p p' \<Longrightarrow> ctx_went arg p p'"
  by (auto simp: ctx_moved_def ctx_went_def)

lemma put_out_went: "ctx_went arg p (put_out p arg)"
  by (simp add: ctx_went_def put_out_def)

lemma went_opt [simp]: "ctx_went arg (p\<lparr> px_opt := x \<rparr>) p' = ctx_went arg p p'"
  "ctx_went arg p (p'\<lparr> px_opt := x \<rparr>) = ctx_went arg p p'"
  by (simp_all add: ctx_went_def)

lemma went_argc: "ctx_went arg p p' \<Longrightarrow> px_argc p' \<le> px_argc p"
  by (auto simp: ctx_went_def)

lemma long_abbrev_went:
  assumes "long_abbrev mem p st arg ab am = Ret (rc, p', st')"
  shows "ctx_went a p p' \<and> rc \<in> {0, - 1, - 2}"
  using assms
  by (auto simp: long_abbrev_def intro: moved_went dest: get_value_moved get_value_code split: option.splits)
     (simp add: ctx_went_def)

lemma long_loop_went:
  assumes "long_loop mem p st arg opts ab am = Ret (rc, p', st')"
  shows "ctx_went (''--'' @ arg) p p' \<and> rc \<in> {0, - 1, - 2}"
  using assms
proof (induction opts arbitrary: p ab am)
  case Nil
  then show ?case using long_abbrev_went by fastforce
next
  case (Cons opt opts)
  have err: "ctx_went a p (opterror opt r sh un p)" for a r sh un by (rule moved_went) simp
  have val: "ctx_went a p p' \<and> rc \<in> {0, - 1, - 2}"
    if "get_value mem (p\<lparr> px_opt := x \<rparr>) st opt sh un = Ret (rc, p', st')" for a x sh un
    using moved_went [OF get_value_moved [OF that], of a] get_value_code [OF that] by auto
  have val': "ctx_went a p p' \<and> rc \<in> {0, - 1, - 2}"
    if "get_value mem p st opt sh un = Ret (rc, p', st')" for a sh un
    using val [of "px_opt p" sh un a] that by simp
  from Cons.prems show ?case
    by (auto simp: put_out_went err split: if_splits option.splits long_match.splits
      dest: Cons.IH val val' long_abbrev_went)
qed

lemma unknown_option_argc:
  "unknown_option p st = Next p' st' \<Longrightarrow> px_argc p' = px_argc p"
  by (auto simp: unknown_option_def put_out_def split: if_splits)

lemma short_loop_argc:
  "short_loop mem us opts p st = Ret (Next p' st') \<Longrightarrow> px_argc p' \<le> px_argc p"
proof (induction mem us opts p st rule: short_loop.induct)
  case (1 mem us opts p st)
  show ?case
  proof (cases "px_opt p")
    case None
    then show ?thesis using "1.prems" by (simp add: short_loop.simps [of mem us opts p])
  next
    case (Some s)
    then obtain rc q st1 where q: "parse_short_opt mem p st opts = Ret (rc, q, st1)"
      using "1.prems" by (auto simp: short_loop.simps [of mem us opts p] split: if_splits)
    have "px_argc q \<le> px_argc p"
      using parse_short_opt_moved [OF q Some] by (auto simp: ctx_moved_def)
    then show ?thesis
      using "1.prems" "1.IH" [OF Some _ q refl refl] Some q
      by (auto simp: short_loop.simps [of mem us opts p] dest!: unknown_option_argc split: if_splits)
  qed
qed

lemma parse_one_argc:
  assumes "parse_one mem us opts p st = Ret (Next p' st')"
  shows "px_argc p' \<le> px_argc p"
proof -
  let ?arg = "arg_at p (px_argv p)"
  have short: "px_argc q \<le> px_argc p"
    if "parse_short_opt mem (p\<lparr> px_opt := Some s \<rparr>) st opts = Ret (rc, q, st1)" for rc q st1 s
    using parse_short_opt_moved [OF that, of s] by (auto simp: ctx_moved_def)
  have long: "px_argc q \<le> px_argc p"
    if "parse_long_opt mem p st a opts = Ret (rc, q, st1)" for rc q st1 a
    using that long_loop_went [of mem p st a opts None None rc q st1] went_argc by (auto simp: parse_long_opt_def)
  from assms show ?thesis
    by (auto simp: parse_one_def Let_def put_out_def split: if_splits
      dest: short long dest!: unknown_option_argc short_loop_argc intro: order_trans)
qed

function parse_loop ::
  "(u64 \<Rightarrow> bool) \<Rightarrow> string list option \<Rightarrow> 'c opt_desc list \<Rightarrow> opt_ctx \<Rightarrow> 'c opt_store \<Rightarrow>
     (parse_opt_code \<times> opt_ctx \<times> 'c opt_store) run" where
  "parse_loop mem usagestr options p st =
     (if px_argc p = 0 then Ret (PARSE_OPT_DONE, p, st)
      else run_bind (parse_one mem usagestr options p st) (\<lambda>r. case r of
             Stop code p' st' \<Rightarrow> Ret (code, p', st')
           | Next p' st' \<Rightarrow> parse_loop mem usagestr options (p'\<lparr> px_argc := px_argc p' - 1, px_argv := px_argv p' + 1 \<rparr>) st'))"
  by pat_completeness auto
termination
  by (relation "measure (\<lambda>(mem, usagestr, options, p, st). px_argc p)") (auto dest!: parse_one_argc)

declare parse_loop.simps [simp del]

text \<open>\<open>ctx->opt\<close> is reset because an unknown short option leaves it set.\<close>

definition parse_options_step ::
  "(u64 \<Rightarrow> bool) \<Rightarrow> opt_ctx \<Rightarrow> 'c opt_store \<Rightarrow> 'c opt_desc list \<Rightarrow> string list option \<Rightarrow>
     (parse_opt_code \<times> opt_ctx \<times> 'c opt_store) run" where
  "parse_options_step mem ctx st options usagestr = parse_loop mem usagestr options (ctx\<lparr> px_opt := None \<rparr>) st"

definition parse_options_end :: "opt_ctx \<Rightarrow> nat \<times> string option list" where
  "parse_options_end ctx =
     (let n = px_cpidx ctx + px_argc ctx;
          vec = take (px_cpidx ctx) (px_vec ctx) @ take (px_argc ctx) (drop (px_argv ctx) (px_vec ctx)) @ drop n (px_vec ctx)
      in (n, vec[n := None]))"

definition usage_pieces :: "string list \<Rightarrow> string list" where
  "usage_pieces subcommands = (case subcommands of [] \<Rightarrow> [] | c # cs \<Rightarrow> c # concat (map (\<lambda>c. [''|'', c]) cs)) @ [''}'']"

text \<open>A command with subcommands but without a usage message gets one.\<close>

definition build_usage :: "(u64 \<Rightarrow> bool) \<Rightarrow> string \<Rightarrow> string list option \<Rightarrow> string list \<Rightarrow> string list run" where
  "build_usage mem argv0 subcommands usagestr =
     (case (subcommands, usagestr) of
        (Some cmds, []) \<Rightarrow>
          run_bind (strbuf_addf mem STRBUF_INIT (''ndctl '' @ argv0 @ '' [<options>] {''))
            (\<lambda>sb. run_bind (append_all (strbuf_addstr mem) (usage_pieces cmds) sb) (\<lambda>sb. Ret [c_string (sb_buf sb)]))
      | _ \<Rightarrow> Ret usagestr)"

text \<open>What is left of the arguments, the store and what was printed, if the parser returned \<open>PARSE_OPT_DONE\<close>; otherwise the program ends.\<close>

type_synonym 'c parsed = "(nat \<times> string option list) \<times> 'c opt_store \<times> string"

definition handle_code ::
  "string list \<Rightarrow> 'c opt_desc list \<Rightarrow> string list option \<Rightarrow> parse_opt_code \<Rightarrow> opt_ctx \<Rightarrow> 'c opt_store \<Rightarrow> 'c parsed run" where
  "handle_code usagestr options subcommands code ctx st =
     (case code of
        PARSE_OPT_HELP \<Rightarrow> Exit 129 (px_err ctx)
      | PARSE_OPT_DONE \<Rightarrow> Ret (parse_options_end ctx, st, px_err ctx)
      | PARSE_OPT_LIST_OPTS \<Rightarrow>
          Exit 130 (px_err ctx @
            concat (map (\<lambda>opt. ''--'' @ (case od_long opt of None \<Rightarrow> ''(null)'' | Some n \<Rightarrow> n) @ '' '') (live_options options)))
      | PARSE_OPT_LIST_SUBCMDS \<Rightarrow>
          Exit 130 (px_err ctx @ (case subcommands of None \<Rightarrow> [] | Some cmds \<Rightarrow> concat (map (\<lambda>c. c @ '' '') cmds)))
      | PARSE_OPT_UNKNOWN \<Rightarrow>
          (let arg = arg_at ctx (px_argv ctx) in
           usage_with_options (Some usagestr) options
             (error (if char0 (tl arg) = CHR ''-'' then ''unknown option `'' @ drop 2 arg @ [CHR 0x27]
                     else ''unknown switch `'' @ [char0 (case px_opt ctx of None \<Rightarrow> [] | Some s \<Rightarrow> s)] @ [CHR 0x27]) ctx)))"

lemma handle_code_Ret [simp]:
  "handle_code us options cmds code ctx st = Ret r \<longleftrightarrow> code = PARSE_OPT_DONE \<and> r = (parse_options_end ctx, st, px_err ctx)"
  by (auto simp: handle_code_def usage_with_options_def Let_def split: parse_opt_code.splits)

definition parse_options_subcommand_prefix ::
  "(u64 \<Rightarrow> bool) \<Rightarrow> string option list \<Rightarrow> nat \<Rightarrow> string option \<Rightarrow> 'c opt_desc list \<Rightarrow> string list option \<Rightarrow> string list \<Rightarrow>
     parse_opt_flags list \<Rightarrow> 'c opt_store \<Rightarrow> 'c parsed run" where
  "parse_options_subcommand_prefix mem argv argc prfx options subcommands usagestr flags st =
     run_bind (build_usage mem (case argv of Some s # _ \<Rightarrow> s | _ \<Rightarrow> ''(null)'') subcommands usagestr) (\<lambda>usagestr.
     run_bind (parse_options_start argv argc prfx flags) (\<lambda>ctx.
     run_bind (parse_options_step mem ctx st options (Some usagestr)) (\<lambda>(code, ctx, st).
       handle_code usagestr options subcommands code ctx st)))"

definition parse_options_subcommand ::
  "(u64 \<Rightarrow> bool) \<Rightarrow> string option list \<Rightarrow> nat \<Rightarrow> 'c opt_desc list \<Rightarrow> string list option \<Rightarrow> string list \<Rightarrow> parse_opt_flags list \<Rightarrow>
     'c opt_store \<Rightarrow> 'c parsed run" where
  "parse_options_subcommand mem argv argc options subcommands usagestr flags st =
     parse_options_subcommand_prefix mem argv argc None options subcommands usagestr flags st"

definition parse_options_prefix ::
  "(u64 \<Rightarrow> bool) \<Rightarrow> string option list \<Rightarrow> nat \<Rightarrow> string option \<Rightarrow> 'c opt_desc list \<Rightarrow> string list \<Rightarrow> parse_opt_flags list \<Rightarrow>
     'c opt_store \<Rightarrow> 'c parsed run" where
  "parse_options_prefix mem argv argc prfx options usagestr flags st =
     parse_options_subcommand_prefix mem argv argc prfx options None usagestr flags st"

definition parse_options ::
  "(u64 \<Rightarrow> bool) \<Rightarrow> string option list \<Rightarrow> nat \<Rightarrow> 'c opt_desc list \<Rightarrow> string list \<Rightarrow> parse_opt_flags list \<Rightarrow>
     'c opt_store \<Rightarrow> 'c parsed run" where
  "parse_options mem argv argc options usagestr flags st =
     parse_options_subcommand_prefix mem argv argc None options None usagestr flags st"

text \<open>\<open>parse_opt_verbosity_cb\<close>: the letters \<open>v\<close> and \<open>q\<close> count in opposite directions.\<close>

definition parse_opt_verbosity_cb :: "nat \<Rightarrow> char \<Rightarrow> string option \<Rightarrow> bool \<Rightarrow> 'c opt_store \<Rightarrow> int \<times> 'c opt_store" where
  "parse_opt_verbosity_cb target short_name arg unset st =
     (let v = os_w32 st target;
          v' = (if unset then 0
                else if short_name = CHR ''v'' then (if sint v \<ge> 0 then v + 1 else 1)
                else if sint v \<le> 0 then v - 1 else - 1)
      in (0, st\<lparr> os_w32 := (os_w32 st)(target := v') \<rparr>))"

subsection \<open>The array of arguments\<close>

text \<open>The invariant of the loop: what is ahead has not been touched, and what was kept is a subsequence of what was passed.\<close>

definition vec_inv :: "string list \<Rightarrow> opt_ctx \<Rightarrow> bool" where
  "vec_inv args p =
     (length (px_vec p) = Suc (length args) \<and> px_argv p + px_argc p = length args \<and> px_cpidx p \<le> px_argv p \<and>
      PARSE_OPT_KEEP_UNKNOWN \<notin> set (px_flags p) \<and>
      (\<forall>i. px_argv p \<le> i \<longrightarrow> i < length args \<longrightarrow> px_vec p ! i = Some (args ! i)) \<and>
      (\<exists>kept. take (px_cpidx p) (px_vec p) = map Some kept \<and> subseq kept (take (px_argv p) args)))"

lemma subseq_take_mono: "subseq xs (take m ys) \<Longrightarrow> m \<le> n \<Longrightarrow> subseq xs (take n ys)"
  by (metis min_def prefix_imp_subseq subseq_order.trans take_is_prefix take_take)

lemma vec_inv_present:
  assumes "vec_inv args p" and "px_argc p \<noteq> 0"
  shows "arg_at p (px_argv p) = args ! px_argv p"
  using assms by (auto simp: vec_inv_def arg_at_def)

lemma vec_inv_went:
  assumes inv: "vec_inv args p" and "px_argc p \<noteq> 0" and went: "ctx_went (args ! px_argv p) p p'"
  shows "vec_inv args (p'\<lparr> px_argc := px_argc p' - 1, px_argv := px_argv p' + 1 \<rparr>)"
proof -
  have b: "px_argv p < length args" using assms(1,2) by (auto simp: vec_inv_def)
  obtain kept where kept: "take (px_cpidx p) (px_vec p) = map Some kept" "subseq kept (take (px_argv p) args)"
    using inv by (auto simp: vec_inv_def)
  from went show ?thesis unfolding ctx_went_def
  proof (elim conjE disjE)
    assume p': "px_vec p' = (px_vec p)[px_cpidx p := Some (args ! px_argv p)]" "px_cpidx p' = px_cpidx p + 1"
      "px_argv p' = px_argv p" "px_argc p' = px_argc p" "px_flags p' = px_flags p"
    have "take (Suc (px_cpidx p)) ((px_vec p)[px_cpidx p := Some (args ! px_argv p)])
        = map Some (kept @ [args ! px_argv p])"
      using inv b kept(1) by (simp add: vec_inv_def take_Suc_conv_app_nth)
    moreover have "subseq (kept @ [args ! px_argv p]) (take (Suc (px_argv p)) args)"
      using b kept(2) by (simp add: take_Suc_conv_app_nth list_emb_append_mono)
    ultimately have "\<exists>kept. take (Suc (px_cpidx p)) ((px_vec p)[px_cpidx p := Some (args ! px_argv p)]) = map Some kept \<and>
        subseq kept (take (Suc (px_argv p)) args)"
      by blast
    then show ?thesis
      using inv assms(2) by (simp add: vec_inv_def p') auto
  qed (use inv assms(2) b kept in \<open>auto simp: vec_inv_def intro: subseq_take_mono\<close>)
qed

lemma vec_inv_end:
  assumes "vec_inv args p" and "parse_options_end p = (n, vec)"
  shows "\<exists>kept. take (Suc n) vec = map Some kept @ [None] \<and> subseq kept args"
proof -
  obtain kept where kept: "take (px_cpidx p) (px_vec p) = map Some kept" "subseq kept (take (px_argv p) args)"
    using assms(1) by (auto simp: vec_inv_def)
  have tail: "take (px_argc p) (drop (px_argv p) (px_vec p)) = map Some (drop (px_argv p) args)"
    using assms(1) by (intro nth_equalityI) (auto simp: vec_inv_def)
  have n: "n = px_cpidx p + px_argc p" using assms(2) by (auto simp: parse_options_end_def Let_def)
  have len: "length kept = px_cpidx p" using arg_cong [OF kept(1), of length] assms(1) by (auto simp: vec_inv_def)
  have nl: "n < length (px_vec p)" using assms(1) n by (auto simp: vec_inv_def)
  then have vec: "vec = map Some (kept @ drop (px_argv p) args) @ (drop n (px_vec p))[0 := None]"
    using assms n len by (auto simp: parse_options_end_def Let_def kept(1) tail list_update_append vec_inv_def)
  have ln: "length (kept @ drop (px_argv p) args) = n" using assms(1) n len by (auto simp: vec_inv_def)
  have "take (Suc n) vec = map Some (kept @ drop (px_argv p) args) @ [None]"
    unfolding vec using ln nl by (cases "drop n (px_vec p)") auto
  moreover have "subseq (kept @ drop (px_argv p) args) args"
    using list_emb_append_mono [OF kept(2) subseq_order.order_refl] by (metis append_take_drop_id)
  ultimately show ?thesis by blast
qed

lemma short_loop_went:
  assumes "short_loop mem us opts p st = Ret r" and "PARSE_OPT_KEEP_UNKNOWN \<notin> set (px_flags p)"
  shows "case r of Next p' st' \<Rightarrow> ctx_went a p p' | Stop code p' st' \<Rightarrow> code \<noteq> PARSE_OPT_DONE"
  using assms
proof (induction mem us opts p st rule: short_loop.induct)
  case (1 mem us opts p st)
  show ?case
  proof (cases "px_opt p")
    case None
    then show ?thesis using "1.prems" moved_went [of p p] by (auto simp: short_loop.simps [of mem us opts p])
  next
    case (Some s)
    show ?thesis
    proof (cases "internal_help p \<and> char0 s = CHR ''h''")
      case True
      then show ?thesis using "1.prems" Some by (auto simp: short_loop.simps [of mem us opts p])
    next
      case False
      then obtain rc q st1 where q: "parse_short_opt mem p st opts = Ret (rc, q, st1)"
        using "1.prems" Some by (auto simp: short_loop.simps [of mem us opts p] split: if_splits)
      note m = parse_short_opt_moved [OF q Some]
      show ?thesis
      proof (cases "rc = - 1 \<or> rc = - 2")
        case True
        then show ?thesis
          using "1.prems" Some False q m by (auto simp: short_loop.simps [of mem us opts p] unknown_option_def ctx_moved_def)
      next
        case ok: False
        then have mq: "ctx_moved (p\<lparr> px_opt := if tl s \<noteq> [] then Some (tl s) else None \<rparr>) q" using m by simp
        have rest: "short_loop mem us opts q st1 = Ret r"
          using "1.prems"(1) Some False q ok by (simp add: short_loop.simps [of mem us opts p])
        have fl: "PARSE_OPT_KEEP_UNKNOWN \<notin> set (px_flags q)" using mq "1.prems"(2) by (simp add: ctx_moved_def)
        show ?thesis
        proof (cases "px_opt q")
          case None
          then have "r = Next q st1" using rest by (simp add: short_loop.simps [of mem us opts q])
          then show ?thesis using moved_went [OF mq, of a] by simp
        next
          case (Some t)
          then have "ctx_went a p = ctx_went a q" using mq by (auto simp: ctx_moved_def ctx_went_def split: if_splits)
          then show ?thesis using "1.IH" [OF \<open>px_opt p = Some s\<close> False q refl refl] ok rest fl by (simp split: step.splits)
        qed
      qed
    qed
  qed
qed

lemma dashdash: "char0 arg = CHR ''-'' \<Longrightarrow> char0 (tl arg) = CHR ''-'' \<Longrightarrow> ''--'' @ drop 2 arg = arg"
  by (cases arg; cases "tl arg") (auto simp: char0_def)

lemma parse_one_short_went:
  assumes "parse_short_opt mem (p\<lparr> px_opt := Some s \<rparr>) st opts = Ret (rc, q, st1)" and "rc \<noteq> - 1" "rc \<noteq> - 2"
    and "short_loop mem us opts q st1 = Ret r" and "PARSE_OPT_KEEP_UNKNOWN \<notin> set (px_flags p)"
  shows "case r of Next p' st' \<Rightarrow> ctx_went a p p' | Stop code p' st' \<Rightarrow> code \<noteq> PARSE_OPT_DONE"
proof -
  have mq: "ctx_moved (p\<lparr> px_opt := if tl s \<noteq> [] then Some (tl s) else None \<rparr>) q"
    using parse_short_opt_moved [OF assms(1), of s] assms(2,3) by simp
  then have fl: "PARSE_OPT_KEEP_UNKNOWN \<notin> set (px_flags q)" using assms(5) by (simp add: ctx_moved_def)
  show ?thesis
  proof (cases "px_opt q")
    case None
    then have "r = Next q st1" using assms(4) by (simp add: short_loop.simps [of mem us opts q])
    then show ?thesis using moved_went [OF mq, of a] by simp
  next
    case (Some t)
    then have "ctx_went a p = ctx_went a q" using mq by (auto simp: ctx_moved_def ctx_went_def split: if_splits)
    then show ?thesis using short_loop_went [OF assms(4) fl, of a] by (simp split: step.splits)
  qed
qed

lemma parse_one_went:
  assumes "parse_one mem us opts p st = Ret r" and "PARSE_OPT_KEEP_UNKNOWN \<notin> set (px_flags p)"
  shows "case r of Next p' st' \<Rightarrow> ctx_went (arg_at p (px_argv p)) p p'
    | Stop code p' st' \<Rightarrow> code = PARSE_OPT_DONE \<longrightarrow> p' = p \<or> p' = p\<lparr> px_argc := px_argc p - 1, px_argv := px_argv p + 1 \<rparr>"
proof -
  let ?arg = "arg_at p (px_argv p)"
  consider (plain) "char0 ?arg \<noteq> CHR ''-'' \<or> tl ?arg = []"
    | (short) "char0 ?arg = CHR ''-''" "tl ?arg \<noteq> []" "char0 (tl ?arg) \<noteq> CHR ''-''"
    | (long) "char0 ?arg = CHR ''-''" "tl ?arg \<noteq> []" "char0 (tl ?arg) = CHR ''-''"
    by blast
  then show ?thesis
  proof cases
    case plain
    then show ?thesis using assms(1) put_out_went by (auto simp: parse_one_def Let_def split: if_splits)
  next
    case short
    let ?p = "p\<lparr> px_opt := Some (tl ?arg) \<rparr>"
    show ?thesis
    proof (cases "internal_help ?p \<and> char0 (tl ?arg) = CHR ''h''")
      case True
      then show ?thesis using assms(1) short by (auto simp: parse_one_def Let_def)
    next
      case False
      then obtain rc q st1 where q: "parse_short_opt mem ?p st opts = Ret (rc, q, st1)"
        using assms(1) short by (auto simp: parse_one_def Let_def split: if_splits)
      show ?thesis
      proof (cases "rc = - 1 \<or> rc = - 2")
        case True
        then show ?thesis
          using assms short False q parse_short_opt_moved [OF q, of "tl ?arg"]
          by (auto simp: parse_one_def Let_def unknown_option_def ctx_moved_def)
      next
        case ok: False
        then have "short_loop mem us opts q st1 = Ret r"
          using assms(1) short False q by (simp add: parse_one_def Let_def split: if_splits)
        then have "case r of Next p' st' \<Rightarrow> ctx_went ?arg p p' | Stop code p' st' \<Rightarrow> code \<noteq> PARSE_OPT_DONE"
          using parse_one_short_went [OF q] ok assms(2) by blast
        then show ?thesis by (auto split: step.splits)
      qed
    qed
  next
    case long
    have went: "ctx_went ?arg p q" if "parse_long_opt mem p st (drop 2 ?arg) opts = Ret (rc, q, st1)" for rc q st1
      using that long_loop_went [of mem p st "drop 2 ?arg" opts None None rc q st1] dashdash [OF long(1,3)]
      by (auto simp: parse_long_opt_def)
    then have fl: "PARSE_OPT_KEEP_UNKNOWN \<notin> set (px_flags q)"
      if "parse_long_opt mem p st (drop 2 ?arg) opts = Ret (rc, q, st1)" for rc q st1
      using that assms(2) by (force simp: ctx_went_def)
    from assms(1) long show ?thesis
      by (auto simp: parse_one_def Let_def unknown_option_def split: if_splits dest: went fl)
  qed
qed

lemma parse_loop_inv:
  "parse_loop mem us opts p st = Ret (PARSE_OPT_DONE, p', st') \<Longrightarrow> vec_inv args p \<Longrightarrow> vec_inv args p'"
proof (induction mem us opts p st rule: parse_loop.induct)
  case (1 mem us opts p st)
  show ?case
  proof (cases "px_argc p = 0")
    case True
    then show ?thesis using "1.prems" by (simp add: parse_loop.simps [of mem us opts p])
  next
    case False
    then obtain r where r: "parse_one mem us opts p st = Ret r"
      using "1.prems"(1) by (auto simp: parse_loop.simps [of mem us opts p])
    have fl: "PARSE_OPT_KEEP_UNKNOWN \<notin> set (px_flags p)" using "1.prems"(2) by (simp add: vec_inv_def)
    note w = parse_one_went [OF r fl]
    show ?thesis
    proof (cases r)
      case (Next q st1)
      then have "vec_inv args (q\<lparr> px_argc := px_argc q - 1, px_argv := px_argv q + 1 \<rparr>)"
        using w vec_inv_went [OF "1.prems"(2) False] vec_inv_present [OF "1.prems"(2) False] by simp
      then show ?thesis
        using "1.IH" [OF False r Next] "1.prems"(1) False r Next by (simp add: parse_loop.simps [of mem us opts p])
    next
      case (Stop code q st1)
      then have "p' = p \<or> p' = p\<lparr> px_argc := px_argc p - 1, px_argv := px_argv p + 1 \<rparr>"
        using "1.prems"(1) False r w by (simp add: parse_loop.simps [of mem us opts p])
      moreover have "vec_inv args (p\<lparr> px_argc := px_argc p - 1, px_argv := px_argv p + 1 \<rparr>)"
        using vec_inv_went [OF "1.prems"(2) False, of p] moved_went [of p p] by simp
      ultimately show ?thesis using "1.prems"(2) by blast
    qed
  qed
qed

lemma vec_inv_start:
  assumes "parse_options_start (map Some args @ [None]) (length args) prfx flags = Ret p"
    and "args \<noteq> []" and "PARSE_OPT_KEEP_UNKNOWN \<notin> set flags"
  shows "vec_inv args (p\<lparr> px_opt := x \<rparr>)"
proof -
  obtain a as where args: "args = a # as" using assms(2) by (cases args) auto
  show ?thesis
    using assms by (auto simp: parse_options_start_def vec_inv_def nth_append args)
       (rule exI [of _ "[a]"], simp)
qed

text \<open>C22: Compacting the arguments in place loses nothing it should not: when \<open>parse_options\<close> returns \<open>n\<close>, the array begins with \<open>n\<close>
  of the arguments it was given, in their order, and a \<open>NULL\<close> behind them.  This holds for every table of options, for values taken
  from following arguments and for arguments with several short options; only \<open>PARSE_OPT_KEEP_UNKNOWN\<close> is excluded, with which the rest
  of an argument with an unknown switch is kept as a new argument.\<close>

theorem parse_options_keeps_order:
  assumes "args \<noteq> []" and "PARSE_OPT_KEEP_UNKNOWN \<notin> set flags"
    and "parse_options mem (map Some args @ [None]) (length args) options usagestr flags st = Ret ((n, vec), st', err)"
  shows "\<exists>kept. take (Suc n) vec = map Some kept @ [None] \<and> subseq kept args"
proof -
  obtain us p p' where p: "parse_options_start (map Some args @ [None]) (length args) None flags = Ret p"
      and p': "parse_options_step mem p st options (Some us) = Ret (PARSE_OPT_DONE, p', st')"
      and e: "parse_options_end p' = (n, vec)"
    using assms(3) by (auto simp: parse_options_def parse_options_subcommand_prefix_def)
  have "vec_inv args p'"
    using parse_loop_inv [OF p' [unfolded parse_options_step_def]] vec_inv_start [OF p assms(1,2)] by blast
  then show ?thesis using e by (rule vec_inv_end)
qed

subsection \<open>Options spelled out\<close>

text \<open>What an option with a value promises: the values it accepts and what they do to the variable.\<close>

definition opt_accepts :: "'c opt_desc \<Rightarrow> string \<Rightarrow> bool" where
  "opt_accepts opt v =
     (case od_type opt of
        OPTION_STRING \<Rightarrow> True
      | OPTION_INTEGER \<Rightarrow> snd (strtol10 v) = []
      | OPTION_UINTEGER \<Rightarrow> snd (strtol10 v) = []
      | OPTION_LONG \<Rightarrow> snd (strtol10 v) = []
      | OPTION_U64 \<Rightarrow> snd (strtoull10 v) = []
      | _ \<Rightarrow> False)"

definition opt_effect :: "'c opt_desc \<times> string \<Rightarrow> 'c opt_store \<Rightarrow> 'c opt_store" where
  "opt_effect ov st =
     (case ov of (opt, v) \<Rightarrow>
        case od_type opt of
          OPTION_STRING \<Rightarrow> put_str opt (Some v) st
        | OPTION_INTEGER \<Rightarrow> put_w32 opt (word_of_int (fst (strtol10 v))) st
        | OPTION_UINTEGER \<Rightarrow> put_w32 opt (word_of_int (fst (strtol10 v))) st
        | OPTION_LONG \<Rightarrow> put_w64 opt (word_of_int (fst (strtol10 v))) st
        | OPTION_U64 \<Rightarrow> put_w64 opt (fst (strtoull10 v)) st
        | _ \<Rightarrow> st)"

lemma ucast_word_of_int: "(ucast (word_of_int v :: u64) :: u32) = word_of_int v"
  by (rule bit_word_eqI) (simp add: bit_simps)

lemma get_value_effect:
  assumes "opt_accepts opt v" and "px_opt p = None"
  shows "get_value mem (p\<lparr> px_opt := Some v \<rparr>) st opt False False = Ret (0, p, opt_effect (opt, v) st)"
proof -
  have p: "p\<lparr> px_opt := None \<rparr> = p" using assms(2) by simp
  show ?thesis
    using assms(1)
    by (auto simp: opt_accepts_def opt_effect_def get_value_def takes_no_value_def get_string_def get_number_def no_optarg_def
      get_arg_def p ucast_word_of_int split: parse_opt_type.splits prod.splits)
qed

text \<open>A table in which every long name can be written in full: no name contains \<open>=\<close> and none is the negation of another.\<close>

definition clear_table :: "'c opt_desc list \<Rightarrow> bool" where
  "clear_table options =
     (list_all (\<lambda>o1. od_type o1 \<noteq> OPTION_END) options \<and>
      (let names = List.map_filter od_long options in
       distinct names \<and> list_all (\<lambda>n. CHR ''='' \<notin> set n \<and> (''no-'' @ n) \<notin> set names) names))"

definition spelled :: "'c opt_desc \<times> string \<Rightarrow> string" where
  "spelled ov = ''--'' @ (case od_long (fst ov) of None \<Rightarrow> [] | Some n \<Rightarrow> n) @ ''='' @ snd ov"

lemma takeWhile_name: "CHR ''='' \<notin> set m \<Longrightarrow> takeWhile (\<lambda>c. c \<noteq> CHR ''='') (m @ CHR ''='' # r) = m"
  by (induction m) auto

lemma skip_prefix_name:
  assumes "skip_prefix (name @ CHR ''='' # v) m = Some rest" and "CHR ''='' \<notin> set name" "CHR ''='' \<notin> set m"
  shows "rest \<noteq> [] \<and> (char0 rest = CHR ''='' \<longrightarrow> m = name)"
proof -
  have eq: "name @ CHR ''='' # v = m @ rest"
    using assms(1) by (metis append_take_drop_id option.inject option.simps(3) skip_prefix_def)
  have "rest \<noteq> []"
  proof
    assume "rest = []"
    then have "CHR ''='' \<in> set m" using arg_cong [OF eq, of set] by auto
    with assms(3) show False by blast
  qed
  moreover have "m = name" if c: "char0 rest = CHR ''=''"
  proof -
    have "rest = CHR ''='' # tl rest" using c \<open>rest \<noteq> []\<close> by (cases rest) (auto simp: char0_def)
    then have "name @ CHR ''='' # v = m @ CHR ''='' # tl rest" using eq by simp
    then show ?thesis using takeWhile_name [OF assms(2), of v] takeWhile_name [OF assms(3), of "tl rest"] by metis
  qed
  ultimately show ?thesis by blast
qed

lemma skip_prefix_self [simp]: "skip_prefix (s @ t) s = Some t"
  by (simp add: skip_prefix_def)

lemma prefixcmp_zero: "CHR 0x00 \<notin> set q \<Longrightarrow> prefixcmp s q = 0 \<longleftrightarrow> take (length q) s = q"
proof (induction s q rule: prefixcmp.induct)
  case (2 p ps)
  have "of_char p \<noteq> (of_char (CHR 0x00) :: int)" using "2.prems" by (simp only: of_char_eq_iff) auto
  then show ?case by simp
qed auto

lemma classify_other:
  assumes "classify_long (name @ CHR ''='' # v) m = Long_Match rest un"
    and eqs: "CHR ''='' \<notin> set name" "CHR ''='' \<notin> set m" and "m \<noteq> name" "m \<noteq> ''no-'' @ name" "name \<noteq> ''no-'' @ m"
  shows "rest \<noteq> [] \<and> char0 rest \<noteq> CHR ''=''"
proof -
  let ?arg = "name @ CHR ''='' # v"
  have "skip_prefix ?arg m = Some rest \<or>
    prefixcmp m ''no-'' = 0 \<and> skip_prefix ?arg (drop 3 m) = Some rest \<or>
    take 3 ?arg = ''no-'' \<and> skip_prefix (drop 3 ?arg) m = Some rest"
    using assms(1) by (auto simp: classify_long_def classify_negated_def Let_def split: option.splits if_splits)
  then show ?thesis
  proof (elim disjE conjE)
    assume "skip_prefix ?arg m = Some rest"
    then show ?thesis using skip_prefix_name [OF _ eqs] assms(4) by blast
  next
    assume no: "prefixcmp m ''no-'' = 0" and sk: "skip_prefix ?arg (drop 3 m) = Some rest"
    have "take 3 m = ''no-''" using no by (simp add: prefixcmp_zero eval_nat_numeral)
    then have "m = ''no-'' @ drop 3 m" using append_take_drop_id [of 3 m] by (simp only:)
    moreover have "CHR ''='' \<notin> set (drop 3 m)" using eqs(2) by (meson in_set_dropD)
    ultimately show ?thesis using skip_prefix_name [OF sk eqs(1)] assms(5) by metis
  next
    assume no: "take 3 ?arg = ''no-''" and sk: "skip_prefix (drop 3 ?arg) m = Some rest"
    have len: "3 \<le> length name"
    proof (rule ccontr)
      assume "\<not> 3 \<le> length name"
      then have "CHR ''='' \<in> set (take 3 ?arg)" by (simp add: take_Cons')
      then have "CHR ''='' \<in> set ''no-''" by (simp only: no)
      then show False by simp
    qed
    then have name: "name = ''no-'' @ drop 3 name" using no append_take_drop_id [of 3 name] by simp
    moreover have "CHR ''='' \<notin> set (drop 3 name)" using eqs(1) by (meson in_set_dropD)
    moreover have "skip_prefix (drop 3 name @ CHR ''='' # v) m = Some rest" using sk len by simp
    ultimately show ?thesis using skip_prefix_name [of "drop 3 name" v m rest] eqs(2) assms(6) by metis
  qed
qed

lemma arg_end_name: "CHR ''='' \<notin> set name \<Longrightarrow> arg_end (name @ CHR ''='' # v) = CHR ''='' # v"
  unfolding arg_end_def by (induction name) auto

lemma long_loop_exact:
  assumes "od_long opt = Some name" and "CHR ''='' \<notin> set name" and "od_type opt \<noteq> OPTION_END" "od_type opt \<noteq> OPTION_ARGUMENT"
    and "\<And>o1. o1 \<in> set pre \<Longrightarrow> od_type o1 \<noteq> OPTION_END"
    and "\<And>o1 m. o1 \<in> set pre \<Longrightarrow> od_long o1 = Some m \<Longrightarrow>
      CHR ''='' \<notin> set m \<and> m \<noteq> name \<and> m \<noteq> ''no-'' @ name \<and> name \<noteq> ''no-'' @ m"
  shows "long_loop mem p st (name @ CHR ''='' # v) (pre @ opt # post) ab am =
    get_value mem (p\<lparr> px_opt := Some v \<rparr>) st opt False False"
  using assms(5,6)
proof (induction pre arbitrary: p ab am)
  case Nil
  then show ?case using assms(1,3,4) by (simp add: classify_long_def char0_def)
next
  case (Cons o1 pre)
  have IH: "long_loop mem q st (name @ CHR ''='' # v) (pre @ opt # post) ab am =
    get_value mem (q\<lparr> px_opt := Some v \<rparr>) st opt False False" for q ab am
    by (intro Cons.IH Cons.prems) auto
  show ?case
  proof (cases "od_long o1")
    case None
    then show ?thesis using IH Cons.prems(1) by simp
  next
    case (Some m)
    note m = Cons.prems(2) [of o1, OF _ Some, simplified]
    show ?thesis
    proof (cases "od_type o1 = OPTION_ARGUMENT")
      case True
      have "rest \<noteq> [] \<and> char0 rest \<noteq> CHR ''=''" if "skip_prefix (name @ CHR ''='' # v) m = Some rest" for rest
        using skip_prefix_name [OF that assms(2)] m by blast
      then show ?thesis using True IH Some by (auto split: option.splits)
    next
      case False
      have "rest \<noteq> [] \<and> char0 rest \<noteq> CHR ''=''" if "classify_long (name @ CHR ''='' # v) m = Long_Match rest un" for rest un
        using classify_other [OF that assms(2)] m by simp
      then show ?thesis
        using False IH Some Cons.prems(1) by (auto simp: arg_end_name assms(2) split: long_match.splits)
    qed
  qed
qed

lemma long_name_member: "m \<in> set (List.map_filter od_long opts) \<longleftrightarrow> (\<exists>opt \<in> set opts. od_long opt = Some m)"
  by (auto simp: List.map_filter_def image_iff)

lemma clear_table_split:
  assumes "clear_table (pre @ opt # post)" and "od_long opt = Some name"
  shows "CHR ''='' \<notin> set name" and "od_type opt \<noteq> OPTION_END"
    and "\<And>o1. o1 \<in> set pre \<Longrightarrow> od_type o1 \<noteq> OPTION_END"
    and "\<And>o1 m. o1 \<in> set pre \<Longrightarrow> od_long o1 = Some m \<Longrightarrow>
      CHR ''='' \<notin> set m \<and> m \<noteq> name \<and> m \<noteq> ''no-'' @ name \<and> name \<noteq> ''no-'' @ m"
proof -
  let ?names = "List.map_filter od_long (pre @ opt # post)"
  have names: "?names = List.map_filter od_long pre @ name # List.map_filter od_long post"
    using assms(2) by (simp add: List.map_filter_def)
  have d: "distinct ?names" and n: "\<And>n. n \<in> set ?names \<Longrightarrow> CHR ''='' \<notin> set n \<and> (''no-'' @ n) \<notin> set ?names"
    using assms(1) by (simp_all add: clear_table_def Let_def list_all_iff)
  show "CHR ''='' \<notin> set name" using n [of name] by (simp add: names)
  show "od_type opt \<noteq> OPTION_END" and "\<And>o1. o1 \<in> set pre \<Longrightarrow> od_type o1 \<noteq> OPTION_END"
    using assms(1) by (auto simp: clear_table_def Let_def list_all_iff)
  show "CHR ''='' \<notin> set m \<and> m \<noteq> name \<and> m \<noteq> ''no-'' @ name \<and> name \<noteq> ''no-'' @ m"
    if "o1 \<in> set pre" "od_long o1 = Some m" for o1 m
  proof -
    have m: "m \<in> set (List.map_filter od_long pre)" using that by (auto simp: long_name_member)
    then show ?thesis using d n [of m] n [of name] unfolding names by auto
  qed
qed

text \<open>An option spelled out in full is found, whatever it abbreviates otherwise, and its value reaches its variable.\<close>

lemma parse_one_spelled:
  assumes "clear_table options" and "opt \<in> set options" and "od_long opt \<noteq> None" and "opt_accepts opt v"
    and "px_opt p = None" and "arg_at p (px_argv p) = spelled (opt, v)"
  shows "parse_one mem us options p st = Ret (Next p (opt_effect (opt, v) st))"
proof -
  obtain name where name: "od_long opt = Some name" using assms(3) by auto
  obtain pre post where split: "options = pre @ opt # post" using assms(2) by (meson split_list)
  note ct = clear_table_split [OF assms(1) [unfolded split] name]
  have "od_type opt \<noteq> OPTION_ARGUMENT" using assms(4) by (auto simp: opt_accepts_def)
  then have long: "parse_long_opt mem p st (name @ CHR ''='' # v) options = Ret (0, p, opt_effect (opt, v) st)"
    using long_loop_exact [OF name ct(1,2) _ ct(3,4)] get_value_effect [OF assms(4,5)]
    by (simp add: parse_long_opt_def split)
  have arg: "arg_at p (px_argv p) = ''--'' @ name @ CHR ''='' # v" using assms(6) name by (simp add: spelled_def)
  have no: "name @ CHR ''='' # v \<noteq> w" if "CHR ''='' \<notin> set w" for w using that by auto
  show ?thesis
    unfolding parse_one_def Let_def arg using long
    by (simp add: char0_def no)
qed

text \<open>The arguments ahead, from the present one on.\<close>

definition ahead :: "opt_ctx \<Rightarrow> string list \<Rightarrow> bool" where
  "ahead p args =
     (px_argc p = length args \<and> px_cpidx p \<le> px_argv p \<and> px_argv p + px_argc p < length (px_vec p) \<and>
      take (px_argc p) (drop (px_argv p) (px_vec p)) = map Some args)"

definition skip_arg :: "opt_ctx \<Rightarrow> opt_ctx" where
  "skip_arg p = p\<lparr> px_argc := px_argc p - 1, px_argv := px_argv p + 1 \<rparr>"

lemma skip_arg_fields [simp]:
  "px_cpidx (skip_arg p) = px_cpidx p" "px_vec (skip_arg p) = px_vec p" "px_opt (skip_arg p) = px_opt p"
  "px_flags (skip_arg p) = px_flags p" "px_err (skip_arg p) = px_err p" "px_argv (skip_arg p) = Suc (px_argv p)"
  by (simp_all add: skip_arg_def)

lemma put_out_fields [simp]:
  "px_cpidx (put_out p s) = Suc (px_cpidx p)" "px_vec (put_out p s) = (px_vec p)[px_cpidx p := Some s]" "px_opt (put_out p s) = px_opt p"
  "px_flags (put_out p s) = px_flags p" "px_err (put_out p s) = px_err p" "px_argv (put_out p s) = px_argv p"
  "px_argc (put_out p s) = px_argc p"
  by (simp_all add: put_out_def)

lemma ahead_Cons:
  assumes "ahead p (a # args)"
  shows "px_argc p \<noteq> 0" and "arg_at p (px_argv p) = a" and "ahead (skip_arg p) args" and "ahead (skip_arg (put_out p a)) args"
proof -
  have lt: "px_argv p < length (px_vec p)" and argc: "px_argc p = Suc (length args)" using assms by (auto simp: ahead_def)
  have d: "drop (px_argv p) (px_vec p) = px_vec p ! px_argv p # drop (Suc (px_argv p)) (px_vec p)"
    using lt by (simp add: Cons_nth_drop_Suc)
  show "px_argc p \<noteq> 0" using argc by simp
  show "arg_at p (px_argv p) = a"
    using assms lt by (simp add: ahead_def arg_at_def d argc)
  show "ahead (skip_arg p) args"
    using assms by (simp add: ahead_def skip_arg_def d argc)
  then show "ahead (skip_arg (put_out p a)) args"
    using assms by (simp add: ahead_def skip_arg_def argc)
qed

lemma parse_loop_Next:
  assumes "px_argc p \<noteq> 0" and "parse_one mem us options p st = Ret (Next p' st')"
  shows "parse_loop mem us options p st = parse_loop mem us options (skip_arg p') st'"
  using assms by (simp add: parse_loop.simps [of mem us options p] skip_arg_def)

lemma parse_loop_spelled:
  assumes "clear_table options" and "list_all (\<lambda>(opt, v). opt \<in> set options \<and> od_long opt \<noteq> None \<and> opt_accepts opt v) settings"
    and "ahead p (map spelled settings @ args)" and "px_opt p = None"
  shows "\<exists>p'. parse_loop mem us options p st = parse_loop mem us options p' (fold opt_effect settings st) \<and>
    ahead p' args \<and> px_opt p' = None \<and> px_cpidx p' = px_cpidx p \<and> px_vec p' = px_vec p \<and> px_flags p' = px_flags p \<and> px_err p' = px_err p"
  using assms(2-4)
proof (induction settings arbitrary: p st)
  case Nil
  then show ?case by auto
next
  case (Cons s settings)
  obtain opt v where s: "s = (opt, v)" by (cases s)
  have a: "ahead p (spelled (opt, v) # (map spelled settings @ args))" using Cons.prems(2) by (simp add: s)
  have "parse_one mem us options p st = Ret (Next p (opt_effect s st))"
    using parse_one_spelled [OF assms(1) _ _ _ _ ahead_Cons(2) [OF a]] Cons.prems by (simp add: s)
  then have "parse_loop mem us options p st = parse_loop mem us options (skip_arg p) (opt_effect s st)"
    using parse_loop_Next [OF ahead_Cons(1) [OF a]] by blast
  moreover have "ahead (skip_arg p) (map spelled settings @ args)" by (rule ahead_Cons(3) [OF a])
  ultimately show ?case
    using Cons.IH [of "skip_arg p" "opt_effect s st"] Cons.prems by auto
qed

definition plain_arg :: "string \<Rightarrow> bool" where
  "plain_arg s = (char0 s \<noteq> CHR ''-'' \<or> tl s = [])"

lemma parse_loop_plain:
  assumes "list_all plain_arg plain" and "ahead p (plain @ args)" and "PARSE_OPT_STOP_AT_NON_OPTION \<notin> set (px_flags p)"
  shows "\<exists>p'. parse_loop mem us options p st = parse_loop mem us options p' st \<and> ahead p' args \<and> px_opt p' = px_opt p \<and>
    px_cpidx p' = px_cpidx p + length plain \<and> take (px_cpidx p') (px_vec p') = take (px_cpidx p) (px_vec p) @ map Some plain \<and>
    px_flags p' = px_flags p \<and> px_err p' = px_err p"
  using assms
proof (induction plain arbitrary: p)
  case Nil
  then show ?case by auto
next
  case (Cons s plain)
  have a: "ahead p (s # (plain @ args))" using Cons.prems(2) by simp
  let ?p = "skip_arg (put_out p s)"
  have "parse_one mem us options p st = Ret (Next (put_out p s) st)"
    using Cons.prems(1,3) ahead_Cons(2) [OF a] by (simp add: parse_one_def plain_arg_def)
  then have step: "parse_loop mem us options p st = parse_loop mem us options ?p st"
    using parse_loop_Next [OF ahead_Cons(1) [OF a]] by blast
  have "px_cpidx p < length (px_vec p)" using a by (auto simp: ahead_def)
  then have tk: "take (Suc (px_cpidx p)) (px_vec ?p) = take (px_cpidx p) (px_vec p) @ [Some s]"
    by (simp add: take_Suc_conv_app_nth)
  obtain p' where p': "parse_loop mem us options ?p st = parse_loop mem us options p' st" "ahead p' args" "px_opt p' = px_opt p"
      "px_cpidx p' = Suc (px_cpidx p) + length plain" "px_flags p' = px_flags p" "px_err p' = px_err p"
      "take (px_cpidx p') (px_vec p') = take (Suc (px_cpidx p)) (px_vec ?p) @ map Some plain"
    using Cons.IH [OF _ ahead_Cons(4) [OF a]] Cons.prems(1,3) by auto
  show ?case
    by (rule exI [of _ p']) (use step p' in \<open>simp add: tk del: skip_arg_fields put_out_fields\<close>)
qed

lemma parse_loop_dashdash:
  assumes "ahead p (''--'' # post)" and "PARSE_OPT_KEEP_DASHDASH \<notin> set (px_flags p)"
  shows "parse_loop mem us options p st = Ret (PARSE_OPT_DONE, skip_arg p, st)"
proof -
  have "parse_one mem us options p st = Ret (Stop PARSE_OPT_DONE (skip_arg p) st)"
    using assms(2) ahead_Cons(2) [OF assms(1)] by (simp add: parse_one_def char0_def skip_arg_def)
  then show ?thesis using ahead_Cons(1) [OF assms(1)] by (simp add: parse_loop.simps [of mem us options p])
qed

lemma parse_options_end_ahead:
  assumes "ahead p post" and "take (px_cpidx p) (px_vec p) = map Some kept" and "px_cpidx p = length kept"
  shows "\<exists>vec. parse_options_end p = (length kept + length post, vec) \<and>
    take (length kept + length post) vec = map Some (kept @ post)"
  using assms by (auto simp: parse_options_end_def Let_def ahead_def)

text \<open>C21: The command line of settings \<open>--name=value\<close>, plain arguments, \<open>--\<close> and anything behind it means what it says, for a table in
  which no long name is the negation of another: the store is changed by exactly the settings, one after the other, each by its full
  name even where another name begins with it; the plain arguments and everything behind \<open>--\<close> are what is left, in order; and nothing is
  printed.\<close>

theorem parse_options_assigns:
  assumes "clear_table options"
    and "list_all (\<lambda>(opt, v). opt \<in> set options \<and> od_long opt \<noteq> None \<and> opt_accepts opt v) settings"
    and "list_all plain_arg plain"
    and "args = cmd # map spelled settings @ plain @ ''--'' # post"
  shows "\<exists>vec. parse_options mem (map Some args @ [None]) (length args) options usagestr [] st =
      Ret ((length (plain @ post), vec), fold opt_effect settings st, []) \<and>
    take (length (plain @ post)) vec = map Some (plain @ post)"
proof -
  let ?p = "\<lparr> px_vec = map Some args @ [None], px_argv = 1, px_argc = length args - 1, px_cpidx = 0,
    px_opt = None, px_flags = [], px_prefix = None, px_err = [] \<rparr>"
  have start: "parse_options_start (map Some args @ [None]) (length args) None [] = Ret ?p"
    by (simp add: parse_options_start_def)
  have "ahead ?p (map spelled settings @ plain @ ''--'' # post)" by (simp add: ahead_def assms(4))
  then obtain p1 where p1: "parse_loop mem (Some usagestr) options ?p st = parse_loop mem (Some usagestr) options p1 (fold opt_effect settings st)"
      "ahead p1 (plain @ ''--'' # post)" "px_opt p1 = None" "px_cpidx p1 = 0" "px_flags p1 = []" "px_err p1 = []"
    using parse_loop_spelled [OF assms(1,2), of ?p _ mem "Some usagestr" st] by auto
  then obtain p2 where p2: "parse_loop mem (Some usagestr) options p1 (fold opt_effect settings st)
        = parse_loop mem (Some usagestr) options p2 (fold opt_effect settings st)"
      "ahead p2 (''--'' # post)" "px_cpidx p2 = length plain" "take (length plain) (px_vec p2) = map Some plain"
      "px_flags p2 = []" "px_err p2 = []"
    using parse_loop_plain [OF assms(3) p1(2), of mem "Some usagestr" options "fold opt_effect settings st"] by auto
  have "parse_options_step mem ?p st options (Some usagestr) = Ret (PARSE_OPT_DONE, skip_arg p2, fold opt_effect settings st)"
    using p1(1) p2(1) parse_loop_dashdash [OF p2(2)] by (simp add: parse_options_step_def p2(5))
  then have "parse_options mem (map Some args @ [None]) (length args) options usagestr [] st =
      Ret (parse_options_end (skip_arg p2), fold opt_effect settings st, [])"
    using p2(6) by (simp add: parse_options_def parse_options_subcommand_prefix_def build_usage_def start handle_code_def)
  then show ?thesis
    using parse_options_end_ahead [OF ahead_Cons(3) [OF p2(2)], of plain] p2(3,4) by auto
qed

text \<open>The options of \<open>cxl write-labels\<close> and a store in which nothing is set.\<close>

definition demo_opt :: "parse_opt_type \<Rightarrow> char \<Rightarrow> string \<Rightarrow> nat \<Rightarrow> unit opt_desc" where
  "demo_opt ty c name a =
     \<lparr> od_type = ty, od_short = c, od_long = Some name, od_value = a, od_argh = None, od_help = ''about '' @ name, od_flags = [],
       od_callback = (\<lambda>_ _ st. (0, st)), od_defval = 0, od_defstr = None, od_set = None \<rparr>"

definition demo_table :: "unit opt_desc list" where
  "demo_table =
     [demo_opt OPTION_UINTEGER CHR ''s'' ''size'' 1, demo_opt OPTION_UINTEGER CHR ''O'' ''offset'' 2,
      demo_opt OPTION_STRING CHR ''i'' ''input'' 3, demo_opt OPTION_BOOLEAN CHR ''v'' ''verbose'' 4]"

definition demo_optstore :: "unit opt_store" where
  "demo_optstore = \<lparr> os_w32 = (\<lambda>_. 0), os_w64 = (\<lambda>_. 0), os_bool = (\<lambda>_. False), os_str = (\<lambda>_. None), os_cb = () \<rparr>"

lemma demo_clear: "clear_table demo_table"
  by code_simp

theorem parse_options_assigns_witness:
  "\<exists>vec. parse_options (\<lambda>_. True) (map Some [''write-labels'', ''--size=16'', ''--input=f'', ''mem0'', ''--'', ''--size=9''] @ [None]) 6
      demo_table [''usage''] [] demo_optstore =
      Ret ((2, vec), fold opt_effect [(demo_table ! 0, ''16''), (demo_table ! 2, ''f'')] demo_optstore, []) \<and>
    take 2 vec = map Some [''mem0'', ''--size=9'']"
proof -
  let ?settings = "[(demo_table ! 0, ''16''), (demo_table ! 2, ''f'')]"
  have ok: "list_all (\<lambda>(opt, v). opt \<in> set demo_table \<and> od_long opt \<noteq> None \<and> opt_accepts opt v) ?settings"
  proof -
    have "opt_accepts (demo_table ! 0) ''16''" "opt_accepts (demo_table ! 2) ''f''" by code_simp+
    then show ?thesis by (simp add: demo_table_def demo_opt_def)
  qed
  have plain: "list_all plain_arg [''mem0'']" by code_simp
  have "spelled (demo_table ! 0, ''16'') = ''--size=16''" "spelled (demo_table ! 2, ''f'') = ''--input=f''" by code_simp+
  then have args: "[''write-labels'', ''--size=16'', ''--input=f'', ''mem0'', ''--'', ''--size=9''] =
      ''write-labels'' # map spelled ?settings @ [''mem0''] @ ''--'' # [''--size=9'']" by simp
  have len: "length [''write-labels'', ''--size=16'', ''--input=f'', ''mem0'', ''--'', ''--size=9''] = 6"
    "[''mem0''] @ [''--size=9''] = [''mem0'', ''--size=9'']" "length [''mem0'', ''--size=9''] = 2" by simp_all
  from parse_options_assigns [OF demo_clear ok plain args, of "\<lambda>_. True" "[''usage'']" demo_optstore]
  show ?thesis unfolding len .
qed

theorem parse_options_keeps_order_witness:
  "\<exists>n vec st' err. parse_options (\<lambda>_. True) (map Some [''write-labels'', ''-vs'', ''16'', ''mem0'', ''-i'', ''f'', ''mem1''] @ [None]) 7
      demo_table [''usage''] [] demo_optstore = Ret ((n, vec), st', err) \<and>
    (\<exists>kept. take (Suc n) vec = map Some kept @ [None] \<and>
      subseq kept [''write-labels'', ''-vs'', ''16'', ''mem0'', ''-i'', ''f'', ''mem1''])"
proof -
  let ?r = "parse_options (\<lambda>_. True) (map Some [''write-labels'', ''-vs'', ''16'', ''mem0'', ''-i'', ''f'', ''mem1''] @ [None]) 7
      demo_table [''usage''] [] demo_optstore"
  have "(case ?r of Ret _ \<Rightarrow> True | _ \<Rightarrow> False)" by code_simp
  then obtain n vec st' err where r: "?r = Ret ((n, vec), st', err)" by (auto split: run.splits)
  moreover have "length [''write-labels'', ''-vs'', ''16'', ''mem0'', ''-i'', ''f'', ''mem1''] = 7" by simp
  ultimately show ?thesis
    using parse_options_keeps_order [of "[''write-labels'', ''-vs'', ''16'', ''mem0'', ''-i'', ''f'', ''mem1'']" "[]"
        "\<lambda>_. True" demo_table "[''usage'']" demo_optstore n vec st' err]
    by (metis list.distinct(1) list.set_cases)
qed

subsection \<open>Numbers\<close>

lemma of_nat_mod_u32: "(of_nat (n mod 4294967296) :: u32) = of_nat n"
  by (simp add: word_unat_eq_iff unat_of_nat take_bit_eq_mod)

text \<open>An unsigned option takes its argument through \<open>strtol\<close> and keeps the low 32 bits without a word: \<open>--size=4294967312\<close> asks for
  16 bytes.\<close>

theorem uinteger_option_wraps:
  assumes "clear_table options" and "opt \<in> set options" and "od_long opt \<noteq> None" and "od_type opt = OPTION_UINTEGER"
    and "0 < n" and "int n < 2 ^ 63" and "args = [cmd, spelled (opt, dec_digits n), ''--'']"
  shows "\<exists>vec. parse_options mem (map Some args @ [None]) 3 options usagestr [] st =
    Ret ((0, vec), put_w32 opt (of_nat (n mod 2 ^ 32)) st, [])"
proof -
  have acc: "opt_accepts opt (dec_digits n)" and eff: "opt_effect (opt, dec_digits n) st = put_w32 opt (of_nat (n mod 2 ^ 32)) st"
    using assms(4) strtol10_dec [OF assms(5,6)]
    by (simp_all add: opt_accepts_def opt_effect_def of_nat_mod_u32)
  then show ?thesis
    using parse_options_assigns [OF assms(1), of "[(opt, dec_digits n)]" "[]" args cmd "[]" mem usagestr st] assms(2,3,7)
    by (auto simp: numeral_3_eq_3)
qed

theorem uinteger_option_wraps_witness:
  "\<exists>vec. parse_options (\<lambda>_. True) (map Some [''write-labels'', ''--size=4294967312'', ''--''] @ [None]) 3 demo_table [''usage''] []
      demo_optstore = Ret ((0, vec), put_w32 (demo_table ! 0) 16 demo_optstore, [])"
proof -
  have "spelled (demo_table ! 0, dec_digits 4294967312) = ''--size=4294967312''"
    by (simp add: spelled_def demo_table_def demo_opt_def dec_digits.simps char_of_def bit_Suc_0_iff)
  then have "[''write-labels'', ''--size=4294967312'', ''--''] = [''write-labels'', spelled (demo_table ! 0, dec_digits 4294967312), ''--'']"
    by simp
  from uinteger_option_wraps [OF demo_clear _ _ _ _ _ this, of "\<lambda>_. True" "[''usage'']" demo_optstore]
  show ?thesis by (simp add: demo_table_def demo_opt_def)
qed

subsection \<open>Usage messages\<close>

text \<open>The help texts form a column: whatever the length of the names, the text stands 26 characters behind the last line break.\<close>

lemma help_text_column:
  assumes "od_type opt \<noteq> OPTION_GROUP" and "full \<or> PARSE_OPT_HIDDEN \<notin> set (od_flags opt)"
  shows "\<exists>left. print_option_help opt full = left @ od_help opt @ newline \<and>
    (length left = 26 \<and> prefix (help_left opt) left \<or> left = help_left opt @ newline @ replicate 26 (CHR '' ''))"
proof -
  have "replicate 26 (CHR '' '') = CHR '' '' # CHR '' '' # replicate 24 (CHR '' '')" by (simp add: eval_nat_numeral)
  then show ?thesis using assms by (auto simp: print_option_help_def Let_def prefix_def)
qed

text \<open>The usage message built for a command with subcommands names them all.\<close>

lemma build_usage_text:
  assumes "CHR 0x00 \<notin> set (concat (cmd # cmds))" and "list_all (\<lambda>s. length s < 1000000) (cmd # cmds)"
    and "build_usage mem cmd (Some cmds) [] = Ret us"
  shows "us = [''ndctl '' @ cmd @ '' [<options>] {'' @ concat (usage_pieces cmds)]"
proof -
  let ?head = "''ndctl '' @ cmd @ '' [<options>] {''"
  obtain sb sb' where sb: "strbuf_addf mem STRBUF_INIT ?head = Ret sb"
      and sb': "append_all (strbuf_addstr mem) (usage_pieces cmds) sb = Ret sb'" and us: "us = [c_string (sb_buf sb')]"
    using assms(3) by (auto simp: build_usage_def)
  have "appended STRBUF_INIT ?head (strbuf_addf mem STRBUF_INIT ?head)"
    using assms(2) by (intro addf.add_appends) auto
  then have a: "strbuf_ok sb" "strbuf_str sb = ?head" unfolding sb by (simp_all add: appended_def)
  have pieces: "s \<in> {''|'', ''}''} \<union> set cmds" if "s \<in> set (usage_pieces cmds)" for s
    using that by (auto simp: usage_pieces_def split: list.splits if_splits)
  then have "length s < 18446744073709551616" if "s \<in> set (usage_pieces cmds)" for s
    using pieces [OF that] assms(2) by (auto simp: list_all_iff)
  then have "appended sb (concat (usage_pieces cmds)) (append_all (strbuf_addstr mem) (usage_pieces cmds) sb)"
    using a(1) by (intro addstr.append_all_concat) auto
  then have b: "strbuf_ok sb'" "strbuf_str sb' = ?head @ concat (usage_pieces cmds)" by (simp_all add: sb' appended_def a(2))
  have "sb_alloc sb' \<noteq> 0"
    using b length_strbuf_str [OF strbuf_ok_wf [OF b(1)]] by (auto simp: strbuf_ok_def strbuf_wf_def split: if_splits)
  moreover have "CHR 0x00 \<notin> set (concat (usage_pieces cmds))" using pieces assms(1) by fastforce
  ultimately show ?thesis
    using c_string_strbuf [OF b(1)] assms(1) us b(2) by simp
qed

subsection \<open>Commands\<close>

text \<open>\<open>util/main.c\<close>: options before the command, and the command itself.  A command is its name and what it returns for its arguments;
  \<open>handled\<close> counts options that were consumed, which never happens, since every branch ends the loop or the program.\<close>

type_synonym cmd_struct = "string \<times> (string list \<Rightarrow> int)"

definition main_handle_options :: "string \<Rightarrow> cmd_struct list \<Rightarrow> string list \<Rightarrow> (nat \<times> string list) run" where
  "main_handle_options usage_msg cmds argv =
     (case argv of
        [] \<Rightarrow> Ret (0, argv)
      | cmd # rest \<Rightarrow>
          if char0 cmd \<noteq> CHR ''-'' then Ret (0, argv)
          else if cmd = ''--version'' \<or> cmd = ''--help'' then Ret (0, argv)
          else if cmd = ''-h'' then Ret (0, ''--help'' # rest)
          else if cmd = ''-v'' then Ret (0, ''--version'' # rest)
          else if cmd = ''--list-cmds''
          then Exit 0 (concat (map (\<lambda>c. fst c @ newline)
                 (filter (\<lambda>c. fst c \<noteq> ''create-nfit'' \<and> fst c \<noteq> ''test'' \<and> fst c \<noteq> ''bat'') cmds)))
          else Exit 129 (''Unknown option: '' @ cmd @ newline @ newline @ '' Usage: '' @ usage_msg @ newline))"

text \<open>What the end of a command finds of standard output.\<close>

record stdout_state =
  so_fstat_fails :: bool
  so_pipe_or_socket :: bool
  so_fflush_fails :: bool
  so_ferror :: bool
  so_fclose_fails :: bool

definition run_builtin :: "stdout_state \<Rightarrow> cmd_struct \<Rightarrow> string list \<Rightarrow> int" where
  "run_builtin so c argv =
     (let status = snd c argv in
      if status \<noteq> 0 then status AND 0xff
      else if so_fstat_fails so then 0
      else if so_pipe_or_socket so then 0
      else if so_fflush_fails so then 1
      else if so_ferror so then 1
      else if so_fclose_fails so then 1
      else 0)"

definition main_handle_internal_command :: "stdout_state \<Rightarrow> string list \<Rightarrow> cmd_struct list \<Rightarrow> unit run" where
  "main_handle_internal_command so argv cmds =
     (let argv = (case argv of a0 # a1 # rest \<Rightarrow> if a1 = ''--help'' then ''help'' # a0 # rest else argv | _ \<Rightarrow> argv) in
      case argv of
        [] \<Rightarrow> Fault
      | cmd # _ \<Rightarrow>
          (case List.find (\<lambda>c. fst c = cmd) cmds of
             None \<Rightarrow> Ret ()
           | Some c \<Rightarrow> Exit (run_builtin so c argv) []))"

text \<open>The manual page of a command: \<open>cmd_to_page\<close> of \<open>util/help.c\<close>.\<close>

definition cmd_to_page :: "string option \<Rightarrow> string \<Rightarrow> string" where
  "cmd_to_page cmd util_name =
     (case cmd of
        None \<Rightarrow> util_name
      | Some c \<Rightarrow> if prefixcmp c util_name = 0 then c else util_name @ ''-'' @ c)"

text \<open>The status of the process is what the command returned modulo 256, so a command that returns a multiple of 256 succeeds.\<close>

lemma run_builtin_success:
  assumes "so_fstat_fails so \<or> so_pipe_or_socket so"
  shows "run_builtin so c argv = 0 \<longleftrightarrow> 256 dvd snd c argv"
proof -
  have "(x :: int) AND 255 = x mod 256" for x
    using take_bit_eq_mask [of 8 x] by (simp add: take_bit_eq_mod mask_eq_exp_minus_1)
  then show ?thesis using assms by (auto simp: run_builtin_def Let_def dvd_eq_mod_eq_0)
qed

text \<open>\<open>tool cmd --help\<close> runs the help command on \<open>cmd\<close>, whether \<open>cmd\<close> exists or not.\<close>

lemma command_help:
  assumes "cmds = pre @ (''help'', f) # post" and "list_all (\<lambda>c. fst c \<noteq> ''help'') pre"
  shows "main_handle_internal_command so (cmd # ''--help'' # rest) cmds =
    Exit (run_builtin so (''help'', f) (''help'' # cmd # rest)) []"
proof -
  have "List.find (\<lambda>c. fst c = ''help'') (pre @ (''help'', f) # post) = Some (''help'', f)"
    using assms(2) by (induction pre) auto
  then show ?thesis by (simp add: main_handle_internal_command_def assms(1))
qed

end
