(* ===== verification/Dimm_Keys.thy ===== *)
theory Dimm_Keys
  imports Strbuf Dev_Filter
begin

text \<open>
  The passphrases of DIMMs: \<open>ndctl/keys.c\<close>, the security functions of \<open>ndctl/lib/dimm.c\<close>, the security actions of \<open>ndctl/dimm.c\<close> and
  \<open>ndctl/load-keys.c\<close>.  A passphrase is an encrypted key of the kernel's user keyring; its blob is a file of the keys directory, under
  the name of the current or the old key.  The keyring (libkeyutils), the file system, sysfs and the state of the DIMM are operations of
  \<open>key_sys\<close> on an arbitrary state.  A failing operation returns the negative error number that the code takes from \<open>errno\<close>;
  \<open>keyctl_search\<close> returns -1.  Buffers have their size: a text that does not fit is a \<open>Fault\<close>.  Messages are left out.
\<close>

definition EEXIST :: int where [simp]: "EEXIST = 17"
definition ENOKEY :: int where [simp]: "ENOKEY = 126"

datatype ndctl_key_type = ND_USER_KEY | ND_USER_OLD_KEY | ND_MASTER_KEY | ND_MASTER_OLD_KEY | ND_ZERO_KEY

datatype key_type = KEY_USER | KEY_TRUSTED | KEY_ENCRYPTED

text \<open>A file that was opened: \<open>fstat\<close>, and what the successive calls of \<open>read\<close> return (\<open>None\<close> is an error); behind them it returns 0.\<close>

record blob_file =
  bf_stat :: bool
  bf_regular :: bool
  bf_size :: nat
  bf_reads :: "string option list"

record 'd key_sys =
  ks_dir :: string
  ks_mem :: "nat \<Rightarrow> bool"
  ks_hostname :: "'d \<Rightarrow> int + string"
  ks_search :: "string \<Rightarrow> string \<Rightarrow> 'd \<Rightarrow> int"
  ks_search_errno :: "string \<Rightarrow> string \<Rightarrow> 'd \<Rightarrow> int"
  ks_add :: "string \<Rightarrow> string \<Rightarrow> string \<Rightarrow> 'd \<Rightarrow> int \<times> 'd"
  ks_read :: "int \<Rightarrow> 'd \<Rightarrow> string option"
  ks_unlink :: "int \<Rightarrow> 'd \<Rightarrow> 'd"
  ks_exists :: "string \<Rightarrow> 'd \<Rightarrow> bool"
  ks_open :: "string \<Rightarrow> 'd \<Rightarrow> blob_file option"
  ks_create :: "string \<Rightarrow> 'd \<Rightarrow> int \<times> 'd"
  ks_fwrite :: "string \<Rightarrow> string \<Rightarrow> 'd \<Rightarrow> nat \<times> 'd"
  ks_rename :: "string \<Rightarrow> string \<Rightarrow> 'd \<Rightarrow> int \<times> 'd"
  ks_remove :: "string \<Rightarrow> 'd \<Rightarrow> int \<times> 'd"
  ks_attr :: "string \<Rightarrow> 'd \<Rightarrow> string option"
  ks_store :: "string \<Rightarrow> string \<Rightarrow> 'd \<Rightarrow> int \<times> 'd"
  ks_active :: "'d \<Rightarrow> bool"
  ks_enabled :: "'d \<Rightarrow> bool"
  ks_disable :: "'d \<Rightarrow> int \<times> 'd"
  ks_enable :: "'d \<Rightarrow> int \<times> 'd"
  ks_open_attr :: "string \<Rightarrow> 'd \<Rightarrow> int"
  ks_poll :: "'d \<Rightarrow> int \<times> 'd"

record key_dimm =
  kd_unique_id :: string
  kd_path :: string
  kd_buf_len :: nat

definition sprintf_buf :: "nat \<Rightarrow> string \<Rightarrow> string run" where
  "sprintf_buf n s = (if length s < n then Ret s else Fault)"

definition ND_KEY_DESC_SIZE :: nat where [simp]: "ND_KEY_DESC_SIZE = 128"
definition ND_KEY_CMD_SIZE :: nat where [simp]: "ND_KEY_CMD_SIZE = 128"
definition PATH_MAX :: nat where [simp]: "PATH_MAX = 4096"

subsection \<open>The security attribute\<close>

datatype ndctl_security_state =
  NDCTL_SECURITY_INVALID | NDCTL_SECURITY_DISABLED | NDCTL_SECURITY_UNLOCKED | NDCTL_SECURITY_LOCKED | NDCTL_SECURITY_FROZEN
  | NDCTL_SECURITY_OVERWRITE

definition ndctl_dimm_get_security :: "'d key_sys \<Rightarrow> key_dimm \<Rightarrow> 'd \<Rightarrow> ndctl_security_state" where
  "ndctl_dimm_get_security ks dimm d =
     (let path = kd_path dimm @ ''/security'' in
      if length path \<ge> kd_buf_len dimm then NDCTL_SECURITY_INVALID
      else (case ks_attr ks path d of
              None \<Rightarrow> NDCTL_SECURITY_INVALID
            | Some buf \<Rightarrow>
                if buf = ''disabled'' then NDCTL_SECURITY_DISABLED
                else if buf = ''unlocked'' then NDCTL_SECURITY_UNLOCKED
                else if buf = ''locked'' then NDCTL_SECURITY_LOCKED
                else if buf = ''frozen'' then NDCTL_SECURITY_FROZEN
                else if buf = ''overwrite'' then NDCTL_SECURITY_OVERWRITE
                else NDCTL_SECURITY_INVALID))"

definition ndctl_dimm_security_is_frozen :: "'d key_sys \<Rightarrow> key_dimm \<Rightarrow> 'd \<Rightarrow> bool" where
  "ndctl_dimm_security_is_frozen ks dimm d =
     (let path = kd_path dimm @ ''/frozen'' in
      if ndctl_dimm_get_security ks dimm d = NDCTL_SECURITY_FROZEN then True
      else if length path \<ge> kd_buf_len dimm then False
      else (case ks_attr ks path d of None \<Rightarrow> False | Some buf \<Rightarrow> fst (strtoull buf) \<noteq> 0))"

definition write_security :: "'d key_sys \<Rightarrow> key_dimm \<Rightarrow> string \<Rightarrow> 'd \<Rightarrow> int \<times> 'd" where
  "write_security ks dimm cmd d =
     (let path = kd_path dimm @ ''/security'' in
      if length path \<ge> kd_buf_len dimm then (- ERANGE, d) else ks_store ks path cmd d)"

definition key_cmd :: "string \<Rightarrow> int list \<Rightarrow> string" where
  "key_cmd verb keys = verb @ concat (map (\<lambda>k. '' '' @ dec_int k) keys) @ [CHR 0x0A]"

definition ndctl_dimm_update_passphrase :: "'d key_sys \<Rightarrow> key_dimm \<Rightarrow> int \<Rightarrow> int \<Rightarrow> 'd \<Rightarrow> int \<times> 'd" where
  "ndctl_dimm_update_passphrase ks dimm ckey nkey = write_security ks dimm (key_cmd ''update'' [ckey, nkey])"

definition ndctl_dimm_disable_passphrase :: "'d key_sys \<Rightarrow> key_dimm \<Rightarrow> int \<Rightarrow> 'd \<Rightarrow> int \<times> 'd" where
  "ndctl_dimm_disable_passphrase ks dimm key = write_security ks dimm (key_cmd ''disable'' [key])"

definition ndctl_dimm_disable_master_passphrase :: "'d key_sys \<Rightarrow> key_dimm \<Rightarrow> int \<Rightarrow> 'd \<Rightarrow> int \<times> 'd" where
  "ndctl_dimm_disable_master_passphrase ks dimm key = write_security ks dimm (key_cmd ''disable_master'' [key])"

definition ndctl_dimm_freeze_security :: "'d key_sys \<Rightarrow> key_dimm \<Rightarrow> 'd \<Rightarrow> int \<times> 'd" where
  "ndctl_dimm_freeze_security ks dimm = write_security ks dimm ''freeze''"

definition ndctl_dimm_secure_erase :: "'d key_sys \<Rightarrow> key_dimm \<Rightarrow> int \<Rightarrow> 'd \<Rightarrow> int \<times> 'd" where
  "ndctl_dimm_secure_erase ks dimm key = write_security ks dimm (key_cmd ''erase'' [key])"

definition ndctl_dimm_overwrite :: "'d key_sys \<Rightarrow> key_dimm \<Rightarrow> int \<Rightarrow> 'd \<Rightarrow> int \<times> 'd" where
  "ndctl_dimm_overwrite ks dimm key = write_security ks dimm (key_cmd ''overwrite'' [key])"

definition ndctl_dimm_update_master_passphrase :: "'d key_sys \<Rightarrow> key_dimm \<Rightarrow> int \<Rightarrow> int \<Rightarrow> 'd \<Rightarrow> int \<times> 'd" where
  "ndctl_dimm_update_master_passphrase ks dimm ckey nkey = write_security ks dimm (key_cmd ''master_update'' [ckey, nkey])"

definition ndctl_dimm_master_secure_erase :: "'d key_sys \<Rightarrow> key_dimm \<Rightarrow> int \<Rightarrow> 'd \<Rightarrow> int \<times> 'd" where
  "ndctl_dimm_master_secure_erase ks dimm key = write_security ks dimm (key_cmd ''master_erase'' [key])"

text \<open>The loop that waits for the end of an overwrite; \<open>ks_poll\<close> is \<open>poll\<close> with the \<open>pread\<close> behind it.  \<open>None\<close> is a loop that does not
  end.  A state that is neither \<open>overwrite\<close> nor \<open>disabled\<close> leaves the 0 of the reading.\<close>

partial_function (option) wait_overwrite_loop :: "'d key_sys \<Rightarrow> string \<Rightarrow> 'd \<Rightarrow> (int \<times> 'd) option" where
  "wait_overwrite_loop ks path d =
     (case ks_attr ks path d of
        None \<Rightarrow> Some (- EOPNOTSUPP, d)
      | Some buf \<Rightarrow>
          if take 9 buf = ''overwrite''
          then (let (rc, d) = ks_poll ks d in if rc < 0 then Some (rc, d) else wait_overwrite_loop ks path d)
          else if take 8 buf = ''disabled'' then Some (1, d)
          else Some (0, d))"

definition ndctl_dimm_wait_overwrite :: "'d key_sys \<Rightarrow> key_dimm \<Rightarrow> 'd \<Rightarrow> (int \<times> 'd) option" where
  "ndctl_dimm_wait_overwrite ks dimm d =
     (let path = kd_path dimm @ ''/security'' in
      if length path \<ge> kd_buf_len dimm then Some (- ERANGE, d)
      else if ks_open_attr ks path d < 0 then Some (ks_open_attr ks path d, d)
      else (case ks_attr ks path d of
              None \<Rightarrow> Some (- EOPNOTSUPP, d)
            | Some buf \<Rightarrow> if buf \<noteq> ''overwrite'' then Some (0, d) else wait_overwrite_loop ks path d))"

subsection \<open>Keys and their blobs\<close>

definition get_key_path :: "'d key_sys \<Rightarrow> key_dimm \<Rightarrow> ndctl_key_type \<Rightarrow> 'd \<Rightarrow> (int + string) run" where
  "get_key_path ks dimm key_type d =
     (case ks_hostname ks d of
        Inl rc \<Rightarrow> Ret (Inl rc)
      | Inr hostname \<Rightarrow>
          (let name = (\<lambda>kind. ks_dir ks @ ''/'' @ kind @ ''_'' @ kd_unique_id dimm @ ''_'' @ hostname @ ''.blob'') in
           case key_type of
             ND_USER_OLD_KEY \<Rightarrow> run_bind (sprintf_buf PATH_MAX (name ''nvdimm-old'')) (\<lambda>s. Ret (Inr s))
           | ND_USER_KEY \<Rightarrow> run_bind (sprintf_buf PATH_MAX (name ''nvdimm'')) (\<lambda>s. Ret (Inr s))
           | ND_MASTER_OLD_KEY \<Rightarrow> run_bind (sprintf_buf PATH_MAX (name ''nvdimm-master-old'')) (\<lambda>s. Ret (Inr s))
           | ND_MASTER_KEY \<Rightarrow> run_bind (sprintf_buf PATH_MAX (name ''nvdimm-master'')) (\<lambda>s. Ret (Inr s))
           | ND_ZERO_KEY \<Rightarrow> Ret (Inl (- EINVAL))))"

definition get_key_desc :: "key_dimm \<Rightarrow> ndctl_key_type \<Rightarrow> (int + string) run" where
  "get_key_desc dimm key_type =
     (case key_type of
        ND_USER_OLD_KEY \<Rightarrow> run_bind (sprintf_buf ND_KEY_DESC_SIZE (''nvdimm-old:'' @ kd_unique_id dimm)) (\<lambda>s. Ret (Inr s))
      | ND_USER_KEY \<Rightarrow> run_bind (sprintf_buf ND_KEY_DESC_SIZE (''nvdimm:'' @ kd_unique_id dimm)) (\<lambda>s. Ret (Inr s))
      | ND_MASTER_OLD_KEY \<Rightarrow> run_bind (sprintf_buf ND_KEY_DESC_SIZE (''nvdimm-master-old:'' @ kd_unique_id dimm)) (\<lambda>s. Ret (Inr s))
      | ND_MASTER_KEY \<Rightarrow> run_bind (sprintf_buf ND_KEY_DESC_SIZE (''nvdimm-master:'' @ kd_unique_id dimm)) (\<lambda>s. Ret (Inr s))
      | ND_ZERO_KEY \<Rightarrow> Ret (Inl (- EINVAL)))"

text \<open>The loop that reads the file; a file that has become shorter than its size makes it read forever.\<close>

fun read_blob :: "nat \<Rightarrow> string \<Rightarrow> string option list \<Rightarrow> string option run" where
  "read_blob sz got [] = Hang"
| "read_blob sz got (None # reads) = Ret None"
| "read_blob sz got (Some bytes # reads) =
     (let got' = got @ take (sz - length got) bytes in
      if length got' = sz then Ret (Some got') else read_blob sz got' reads)"

definition blob_prefix :: "key_type \<Rightarrow> string" where
  "blob_prefix key_type = (if key_type = KEY_ENCRYPTED \<or> key_type = KEY_TRUSTED then ''load '' else [])"

definition ndctl_load_key_blob :: "'d key_sys \<Rightarrow> string \<Rightarrow> string option \<Rightarrow> key_type \<Rightarrow> 'd \<Rightarrow> heap_bytes option run" where
  "ndctl_load_key_blob ks path postfix key_type d =
     (case ks_open ks path d of
        None \<Rightarrow> Ret None
      | Some f \<Rightarrow>
          if \<not> bf_stat f \<or> \<not> bf_regular f then Ret None
          else if bf_size f = 0 \<or> bf_size f > 4096 then Ret None
          else let pre = blob_prefix key_type;
                   sz = bf_size f + length pre + (case postfix of None \<Rightarrow> 0 | Some h \<Rightarrow> length h + 10 + 1)
               in if \<not> ks_mem ks sz then Ret None
                  else run_bind (poke (replicate sz None) 0 pre) (\<lambda>blob.
                    run_bind (read_blob (bf_size f) [] (bf_reads f)) (\<lambda>r. case r of
                      None \<Rightarrow> Ret None
                    | Some bytes \<Rightarrow>
                        run_bind (poke blob (length pre) bytes) (\<lambda>blob. case postfix of
                          None \<Rightarrow> Ret (Some blob)
                        | Some h \<Rightarrow>
                            run_bind (poke blob (length pre + bf_size f) '' '') (\<lambda>blob.
                            run_bind (poke blob (length pre + bf_size f + 1) (''keyhandle='' @ h @ [CHR 0x00])) (\<lambda>blob.
                              Ret (Some blob)))))))"

definition blob_text :: "heap_bytes \<Rightarrow> string" where
  "blob_text blob = map the blob"

definition dimm_check_key :: "'d key_sys \<Rightarrow> key_dimm \<Rightarrow> ndctl_key_type \<Rightarrow> 'd \<Rightarrow> int run" where
  "dimm_check_key ks dimm key_type d =
     run_bind (get_key_desc dimm key_type) (\<lambda>r. case r of
       Inl rc \<Rightarrow> Ret rc
     | Inr desc \<Rightarrow> Ret (ks_search ks ''encrypted'' desc d))"

text \<open>The new key is stored in the keyring first and then, wrapped, in its file.  When it cannot be read back, \<open>rc\<close> is still the length
  of \<open>cmd\<close>.\<close>

definition dimm_create_key :: "'d key_sys \<Rightarrow> key_dimm \<Rightarrow> string \<Rightarrow> ndctl_key_type \<Rightarrow> 'd \<Rightarrow> (int \<times> 'd) run" where
  "dimm_create_key ks dimm kek key_type d =
     (if ks_active ks d then Ret (- EBUSY, d)
      else run_bind (get_key_desc dimm key_type) (\<lambda>r. case r of
        Inl rc \<Rightarrow> Ret (rc, d)
      | Inr desc \<Rightarrow>
          if ks_search ks ''encrypted'' desc d > 0 then Ret (- EEXIST, d)
          else run_bind (get_key_path ks dimm key_type d) (\<lambda>r. case r of
            Inl rc \<Rightarrow> Ret (rc, d)
          | Inr path \<Rightarrow>
              if ks_exists ks path d then Ret (- EEXIST, d)
              else run_bind (sprintf_buf ND_KEY_CMD_SIZE (''new enc32 '' @ kek @ '' 32'')) (\<lambda>cmd.
                case ks_add ks ''encrypted'' desc cmd d of (key, d) \<Rightarrow>
                  if key < 0 then Ret (key, d)
                  else (case ks_read ks key d of
                      None \<Rightarrow> Ret (int (length cmd), ks_unlink ks key d)
                    | Some buffer \<Rightarrow>
                        (case ks_create ks path d of (rc, d) \<Rightarrow>
                           if rc < 0 then Ret (rc, d)
                           else (case ks_fwrite ks path buffer d of (wrote, d) \<Rightarrow>
                             if wrote \<noteq> length buffer then Ret (- EIO, d) else Ret (key, d))))))))"

definition dimm_load_key :: "'d key_sys \<Rightarrow> key_dimm \<Rightarrow> ndctl_key_type \<Rightarrow> 'd \<Rightarrow> (int \<times> 'd) run" where
  "dimm_load_key ks dimm key_type d =
     (if ks_active ks d then Ret (- EBUSY, d)
      else run_bind (get_key_desc dimm key_type) (\<lambda>r. case r of
        Inl rc \<Rightarrow> Ret (rc, d)
      | Inr desc \<Rightarrow>
          run_bind (get_key_path ks dimm key_type d) (\<lambda>r. case r of
            Inl rc \<Rightarrow> Ret (rc, d)
          | Inr path \<Rightarrow>
              run_bind (ndctl_load_key_blob ks path None KEY_ENCRYPTED d) (\<lambda>b. case b of
                None \<Rightarrow> Ret (- ENOMEM, d)
              | Some blob \<Rightarrow> Ret (ks_add ks ''encrypted'' desc (blob_text blob) d)))))"

definition old_key_type :: "ndctl_key_type \<Rightarrow> ndctl_key_type option" where
  "old_key_type key_type =
     (if key_type = ND_USER_KEY then Some ND_USER_OLD_KEY
      else if key_type = ND_MASTER_KEY then Some ND_MASTER_OLD_KEY else None)"

definition move_key_to_old :: "'d key_sys \<Rightarrow> key_dimm \<Rightarrow> ndctl_key_type \<Rightarrow> 'd \<Rightarrow> (int \<times> 'd) run" where
  "move_key_to_old ks dimm key_type d =
     (if ks_active ks d then Ret (- EBUSY, d)
      else run_bind (dimm_check_key ks dimm key_type d) (\<lambda>key.
        let d = (if key > 0 then ks_unlink ks key d else d) in
        case old_key_type key_type of
          None \<Rightarrow> Ret (- EINVAL, d)
        | Some okey_type \<Rightarrow>
            run_bind (get_key_path ks dimm key_type d) (\<lambda>r. case r of
              Inl rc \<Rightarrow> Ret (rc, d)
            | Inr old_path \<Rightarrow>
                run_bind (get_key_path ks dimm okey_type d) (\<lambda>r. case r of
                  Inl rc \<Rightarrow> Ret (rc, d)
                | Inr new_path \<Rightarrow>
                    (case ks_rename ks old_path new_path d of (rc, d) \<Rightarrow>
                       if rc < 0 then Ret (rc, d) else dimm_load_key ks dimm okey_type d)))))"

definition dimm_remove_key :: "'d key_sys \<Rightarrow> key_dimm \<Rightarrow> ndctl_key_type \<Rightarrow> 'd \<Rightarrow> (int \<times> 'd) run" where
  "dimm_remove_key ks dimm key_type d =
     run_bind (dimm_check_key ks dimm key_type d) (\<lambda>key.
       let d = (if key > 0 then ks_unlink ks key d else d) in
       run_bind (get_key_path ks dimm key_type d) (\<lambda>r. case r of
         Inl rc \<Rightarrow> Ret (rc, d)
       | Inr path \<Rightarrow> (case ks_remove ks path d of (rc, d) \<Rightarrow> Ret (if rc < 0 then rc else 0, d))))"

definition verify_kek :: "'d key_sys \<Rightarrow> string \<Rightarrow> 'd \<Rightarrow> int" where
  "verify_kek ks kek d =
     (if \<not> ks_mem ks (length kek + 1) then - ENOMEM
      else case strtok (CHR '':'') kek of
        None \<Rightarrow> - EINVAL
      | Some (ty, rest) \<Rightarrow>
          if ty \<noteq> ''trusted'' \<and> ty \<noteq> ''user'' then - EINVAL
          else (case strtok (CHR '':'') rest of
                  None \<Rightarrow> - EINVAL
                | Some (desc, _) \<Rightarrow> (let key = ks_search ks ty desc d in if key < 0 then key else 0)))"

definition change_passphrase :: "'d key_sys \<Rightarrow> key_dimm \<Rightarrow> ndctl_key_type \<Rightarrow> int \<Rightarrow> int \<Rightarrow> 'd \<Rightarrow> int \<times> 'd" where
  "change_passphrase ks dimm key_type ckey nkey =
     (if key_type = ND_MASTER_KEY then ndctl_dimm_update_master_passphrase ks dimm ckey nkey
      else ndctl_dimm_update_passphrase ks dimm ckey nkey)"

definition ndctl_dimm_setup_key :: "'d key_sys \<Rightarrow> key_dimm \<Rightarrow> string \<Rightarrow> ndctl_key_type \<Rightarrow> 'd \<Rightarrow> (int \<times> 'd) run" where
  "ndctl_dimm_setup_key ks dimm kek key_type d =
     (let rc = verify_kek ks kek d in
      if rc < 0 then Ret (rc, d)
      else run_bind (dimm_create_key ks dimm kek key_type d) (\<lambda>(key, d).
        if key < 0 then Ret (key, d)
        else (case change_passphrase ks dimm key_type 0 key d of (rc, d) \<Rightarrow>
          if rc < 0 then run_bind (dimm_remove_key ks dimm key_type d) (\<lambda>(_, d). Ret (rc, d))
          else Ret (0, d))))"

text \<open>The words of \<open>sscanf("%ms %ms")\<close>.  With only one of them \<open>desc\<close> is not set, and it is returned all the same.\<close>

definition scan_word :: "string \<Rightarrow> string \<times> string" where
  "scan_word s = (let t = dropWhile is_space s in (takeWhile (\<lambda>c. \<not> is_space c) t, dropWhile (\<lambda>c. \<not> is_space c) t))"

definition get_current_kek :: "'d key_sys \<Rightarrow> key_dimm \<Rightarrow> ndctl_key_type \<Rightarrow> 'd \<Rightarrow> string option run" where
  "get_current_kek ks dimm key_type d =
     run_bind (dimm_check_key ks dimm key_type d) (\<lambda>key.
       if key < 0 then Ret None
       else (case ks_read ks key d of
               None \<Rightarrow> Ret None
             | Some key_buf \<Rightarrow>
                 (case scan_word key_buf of (ty, rest) \<Rightarrow>
                    if ty = [] then Ret None
                    else (case scan_word rest of (desc, _) \<Rightarrow> if desc = [] then Fault else Ret (Some desc)))))"

text \<open>The new key, or else the one a blob of that name still has.\<close>

definition new_key_or_load :: "'d key_sys \<Rightarrow> key_dimm \<Rightarrow> string \<Rightarrow> ndctl_key_type \<Rightarrow> 'd \<Rightarrow> (int \<times> 'd) run" where
  "new_key_or_load ks dimm kek key_type d =
     run_bind (dimm_create_key ks dimm kek key_type d) (\<lambda>(new_key, d).
       if new_key < 0 then dimm_load_key ks dimm key_type d else Ret (new_key, d))"

definition ndctl_dimm_update_key :: "'d key_sys \<Rightarrow> key_dimm \<Rightarrow> string option \<Rightarrow> ndctl_key_type \<Rightarrow> 'd \<Rightarrow> (int \<times> 'd) run" where
  "ndctl_dimm_update_key ks dimm kek key_type d =
     run_bind (case kek of
         Some k \<Rightarrow> Ret (let rc = verify_kek ks k d in if rc < 0 then Inl rc else Inr k)
       | None \<Rightarrow> run_bind (get_current_kek ks dimm key_type d) (\<lambda>c. Ret (case c of None \<Rightarrow> Inl (- ENOKEY) | Some k \<Rightarrow> Inr k)))
     (\<lambda>r. case r of
       Inl rc \<Rightarrow> Ret (rc, d)
     | Inr kek \<Rightarrow>
         (case old_key_type key_type of
            None \<Rightarrow> Ret (- EINVAL, d)
          | Some okey_type \<Rightarrow>
              run_bind (move_key_to_old ks dimm key_type d) (\<lambda>(old_key, d).
                if old_key < 0 then Ret (old_key, d)
                else run_bind (new_key_or_load ks dimm kek key_type d) (\<lambda>(new_key, d).
                  if new_key < 0 then Ret (new_key, d)
                  else (case change_passphrase ks dimm key_type old_key new_key d of (rc, d) \<Rightarrow>
                    if rc < 0 then Ret (rc, d) else dimm_remove_key ks dimm okey_type d)))))"

definition check_dimm_key :: "'d key_sys \<Rightarrow> key_dimm \<Rightarrow> bool \<Rightarrow> ndctl_key_type \<Rightarrow> 'd \<Rightarrow> (int \<times> 'd) run" where
  "check_dimm_key ks dimm need_key key_type d =
     run_bind (dimm_check_key ks dimm key_type d) (\<lambda>key.
       if key < 0
       then run_bind (dimm_load_key ks dimm key_type d) (\<lambda>(key, d).
              if key < 0 \<and> need_key then Ret (- ENOKEY, d) else Ret (0, d))
       else Ret (key, d))"

definition run_key_op :: "(int \<Rightarrow> 'd \<Rightarrow> int \<times> 'd) \<Rightarrow> int \<Rightarrow> 'd \<Rightarrow> int \<times> 'd" where
  "run_key_op run_op key d = (case run_op key d of (rc, d) \<Rightarrow> (if rc < 0 then rc else 0, d))"

definition discard_key :: "'d key_sys \<Rightarrow> key_dimm \<Rightarrow> ndctl_key_type \<Rightarrow> 'd \<Rightarrow> (int \<times> 'd) run" where
  "discard_key ks dimm key_type d =
     run_bind (dimm_remove_key ks dimm key_type d) (\<lambda>(rc, d). Ret (if rc < 0 then rc else 0, d))"

definition ndctl_dimm_remove_key :: "'d key_sys \<Rightarrow> key_dimm \<Rightarrow> ndctl_key_type \<Rightarrow> 'd \<Rightarrow> (int \<times> 'd) run" where
  "ndctl_dimm_remove_key ks dimm key_type d =
     run_bind (check_dimm_key ks dimm True key_type d) (\<lambda>(key, d).
       if key < 0 then Ret (key, d)
       else (case run_key_op (if key_type = ND_MASTER_KEY then ndctl_dimm_disable_master_passphrase ks dimm
                              else ndctl_dimm_disable_passphrase ks dimm) key d of (rc, d) \<Rightarrow>
         if rc < 0 then Ret (rc, d) else discard_key ks dimm key_type d))"

definition ndctl_dimm_secure_erase_key :: "'d key_sys \<Rightarrow> key_dimm \<Rightarrow> ndctl_key_type \<Rightarrow> 'd \<Rightarrow> (int \<times> 'd) run" where
  "ndctl_dimm_secure_erase_key ks dimm key_type d =
     run_bind (if key_type \<noteq> ND_ZERO_KEY then check_dimm_key ks dimm True key_type d else Ret (0, d)) (\<lambda>(key, d).
       if key < 0 then Ret (key, d)
       else (case (if key_type = ND_MASTER_KEY then run_key_op (ndctl_dimm_master_secure_erase ks dimm) key d
                   else if key_type = ND_USER_KEY \<or> key_type = ND_ZERO_KEY then run_key_op (ndctl_dimm_secure_erase ks dimm) key d
                   else (- EINVAL, d)) of (rc, d) \<Rightarrow>
         if rc < 0 then Ret (rc, d)
         else if key_type = ND_USER_KEY then discard_key ks dimm key_type d
         else Ret (0, d)))"

definition ndctl_dimm_overwrite_key :: "'d key_sys \<Rightarrow> key_dimm \<Rightarrow> 'd \<Rightarrow> (int \<times> 'd) run" where
  "ndctl_dimm_overwrite_key ks dimm d =
     run_bind (check_dimm_key ks dimm False ND_USER_KEY d) (\<lambda>(key, d).
       if key < 0 \<and> key \<noteq> - ENOKEY then Ret (key, d)
       else (case run_key_op (ndctl_dimm_overwrite ks dimm) key d of (rc, d) \<Rightarrow>
         if rc < 0 then Ret (rc, d)
         else if key \<ge> 0 then run_bind (discard_key ks dimm ND_USER_KEY d) (\<lambda>(_, d). Ret (0, d))
         else Ret (0, d)))"

subsection \<open>The security actions\<close>

record sec_params =
  sp_kek :: "string option"
  sp_master_pass :: bool
  sp_crypto_erase :: bool
  sp_overwrite :: bool
  sp_zero_key :: bool

definition pass_type :: "sec_params \<Rightarrow> ndctl_key_type" where
  "pass_type p = (if sp_master_pass p then ND_MASTER_KEY else ND_USER_KEY)"

definition action_setup_passphrase :: "'d key_sys \<Rightarrow> sec_params \<Rightarrow> key_dimm \<Rightarrow> 'd \<Rightarrow> (int \<times> 'd) run" where
  "action_setup_passphrase ks p dimm d =
     (if ndctl_dimm_get_security ks dimm d = NDCTL_SECURITY_INVALID then Ret (- EOPNOTSUPP, d)
      else (case sp_kek p of
              None \<Rightarrow> Ret (- EINVAL, d)
            | Some kek \<Rightarrow> ndctl_dimm_setup_key ks dimm kek (pass_type p) d))"

definition action_update_passphrase :: "'d key_sys \<Rightarrow> sec_params \<Rightarrow> key_dimm \<Rightarrow> 'd \<Rightarrow> (int \<times> 'd) run" where
  "action_update_passphrase ks p dimm d =
     (if ndctl_dimm_get_security ks dimm d = NDCTL_SECURITY_INVALID then Ret (- EOPNOTSUPP, d)
      else ndctl_dimm_update_key ks dimm (sp_kek p) (pass_type p) d)"

definition action_remove_passphrase :: "'d key_sys \<Rightarrow> sec_params \<Rightarrow> key_dimm \<Rightarrow> 'd \<Rightarrow> (int \<times> 'd) run" where
  "action_remove_passphrase ks p dimm d =
     (if ndctl_dimm_get_security ks dimm d = NDCTL_SECURITY_INVALID then Ret (- EOPNOTSUPP, d)
      else ndctl_dimm_remove_key ks dimm (pass_type p) d)"

definition action_security_freeze :: "'d key_sys \<Rightarrow> sec_params \<Rightarrow> key_dimm \<Rightarrow> 'd \<Rightarrow> (int \<times> 'd) run" where
  "action_security_freeze ks p dimm d =
     (if ndctl_dimm_get_security ks dimm d = NDCTL_SECURITY_INVALID then Ret (- EOPNOTSUPP, d)
      else Ret (ndctl_dimm_freeze_security ks dimm d))"

text \<open>A DIMM that is enabled is disabled and enabled again, for the kernel to read its labels anew.\<close>

definition revalidate_labels :: "'d key_sys \<Rightarrow> 'd \<Rightarrow> int \<times> 'd" where
  "revalidate_labels ks d =
     (if \<not> ks_enabled ks d then (0, d)
      else (case ks_disable ks d of (rc, d) \<Rightarrow> if rc \<noteq> 0 then (rc, d) else ks_enable ks d))"

text \<open>Without a method it is crypto erase; the code keeps that choice for the DIMMs that follow, which would make it anyway.\<close>

definition action_sanitize_dimm :: "'d key_sys \<Rightarrow> sec_params \<Rightarrow> key_dimm \<Rightarrow> 'd \<Rightarrow> (int \<times> 'd) run" where
  "action_sanitize_dimm ks p dimm d =
     (if ndctl_dimm_get_security ks dimm d = NDCTL_SECURITY_INVALID then Ret (- EOPNOTSUPP, d)
      else if sp_overwrite p \<and> sp_master_pass p then Ret (- EINVAL, d)
      else let crypto_erase = (sp_crypto_erase p \<or> \<not> sp_overwrite p);
               key_type = (if sp_zero_key p then ND_ZERO_KEY else if sp_master_pass p then ND_MASTER_KEY else ND_USER_KEY)
           in run_bind (if crypto_erase then ndctl_dimm_secure_erase_key ks dimm key_type d else Ret (0, d)) (\<lambda>(rc, d).
                if crypto_erase \<and> rc < 0 then Ret (rc, d)
                else if sp_overwrite p
                then run_bind (ndctl_dimm_overwrite_key ks dimm d) (\<lambda>(rc, d). if rc < 0 then Ret (rc, d) else Ret (revalidate_labels ks d))
                else Ret (rc, d)))"

definition action_wait_overwrite :: "'d key_sys \<Rightarrow> sec_params \<Rightarrow> key_dimm \<Rightarrow> 'd \<Rightarrow> (int \<times> 'd) run" where
  "action_wait_overwrite ks p dimm d =
     (if ndctl_dimm_get_security ks dimm d = NDCTL_SECURITY_INVALID then Ret (- EOPNOTSUPP, d)
      else (case ndctl_dimm_wait_overwrite ks dimm d of None \<Rightarrow> Hang | Some r \<Rightarrow> Ret r))"

subsection \<open>Loading all keys\<close>

text \<open>What \<open>load-keys\<close> uses of the keys directory: the results of \<open>chdir\<close>, \<open>opendir\<close> and \<open>open\<close>, the text of the file \<open>tpm.handle\<close> (or why
  it cannot be opened), the \<open>errno\<close> after a \<open>fscanf\<close> that found no word in it, and the entries (the flag says that an entry is a regular
  file).\<close>

record 'd load_sys =
  ls_chdir :: "string \<Rightarrow> 'd \<Rightarrow> int"
  ls_opendir :: "string \<Rightarrow> 'd \<Rightarrow> int"
  ls_open :: "string \<Rightarrow> 'd \<Rightarrow> int"
  ls_tpm_file :: "'d \<Rightarrow> int + string"
  ls_scan_errno :: "'d \<Rightarrow> int"
  ls_entries :: "'d \<Rightarrow> (string \<times> bool) list"

definition key_name :: "key_type \<Rightarrow> string" where
  "key_name ty = (case ty of KEY_USER \<Rightarrow> ''user'' | KEY_TRUSTED \<Rightarrow> ''trusted'' | KEY_ENCRYPTED \<Rightarrow> ''encrypted'')"

definition load_master_key :: "'d key_sys \<Rightarrow> string \<Rightarrow> string option \<Rightarrow> 'd \<Rightarrow> (int \<times> 'd) run" where
  "load_master_key ks keypath tpm_handle d =
     run_bind (sprintf_buf PATH_MAX (keypath @ ''/nvdimm-master.blob'')) (\<lambda>path.
       let ty = (if tpm_handle \<noteq> None then KEY_TRUSTED else KEY_USER);
           key = ks_search ks (key_name ty) ''nvdimm-master'' d;
           errno = ks_search_errno ks (key_name ty) ''nvdimm-master'' d
       in if key > 0 then Ret (0, d)
          else if key < 0 \<and> errno \<noteq> ENOKEY then Ret (- errno, d)
          else run_bind (ndctl_load_key_blob ks path tpm_handle ty d) (\<lambda>b. case b of
            None \<Rightarrow> Ret (- ENOMEM, d)
          | Some blob \<Rightarrow>
              (case ks_add ks (key_name ty) ''nvdimm-master'' (blob_text blob) d of (key, d) \<Rightarrow> Ret (if key < 0 then key else 0, d))))"

text \<open>The second part of a name \<open>nvdimm_<id>_<host>.blob\<close> is the id.\<close>

definition blob_id :: "string \<Rightarrow> string option" where
  "blob_id name =
     (case strtok (CHR ''_'') name of
        None \<Rightarrow> None
      | Some (kind, rest) \<Rightarrow>
          if kind \<noteq> ''nvdimm'' then None else map_option fst (strtok (CHR ''_'') rest))"

text \<open>The number of keys loaded is only printed; a name that cannot be copied ends the loop.\<close>

fun load_dimm_keys :: "'d key_sys \<Rightarrow> string \<Rightarrow> (string \<times> bool) list \<Rightarrow> nat \<Rightarrow> 'd \<Rightarrow> ((int + nat) \<times> 'd) run" where
  "load_dimm_keys ks dir [] count d = Ret (Inr count, d)"
| "load_dimm_keys ks dir ((name, regular) # entries) count d =
     (if \<not> regular then load_dimm_keys ks dir entries count d
      else if \<not> ks_mem ks (length name + 1) then Ret (Inl (- ENOMEM), d)
      else (case blob_id name of
          None \<Rightarrow> load_dimm_keys ks dir entries count d
        | Some i \<Rightarrow>
            run_bind (ndctl_load_key_blob ks (dir @ ''/'' @ name) None KEY_ENCRYPTED d) (\<lambda>b. case b of
              None \<Rightarrow> load_dimm_keys ks dir entries count d
            | Some blob \<Rightarrow>
                run_bind (sprintf_buf ND_KEY_DESC_SIZE (''nvdimm:'' @ i)) (\<lambda>desc.
                  case ks_add ks ''encrypted'' desc (blob_text blob) d of (key, d) \<Rightarrow>
                    load_dimm_keys ks dir entries (if key < 0 then count else Suc count) d))))"

definition check_tpm_handle :: "'d load_sys \<Rightarrow> 'd \<Rightarrow> int \<times> string option" where
  "check_tpm_handle ls d =
     (case ls_tpm_file ls d of
        Inl rc \<Rightarrow> (rc, None)
      | Inr text \<Rightarrow>
          (let buf = fst (scan_word text) in if buf = [] then (- ls_scan_errno ls d, None) else (0, Some buf)))"

definition load_keys :: "'d key_sys \<Rightarrow> 'd load_sys \<Rightarrow> string \<Rightarrow> string option \<Rightarrow> 'd \<Rightarrow> (int \<times> 'd) run" where
  "load_keys ks ls keypath tpmhandle d =
     (if ls_chdir ls keypath d < 0 then Ret (ls_chdir ls keypath d, d)
      else if ls_opendir ls keypath d < 0 then Ret (ls_opendir ls keypath d, d)
      else if ls_open ls keypath d < 0 then Ret (ls_open ls keypath d, d)
      else let handle = (if tpmhandle = None then snd (check_tpm_handle ls d) else tpmhandle) in
        run_bind (load_master_key ks keypath handle d) (\<lambda>(rc, d).
          if rc < 0 then Ret (rc, d)
          else run_bind (load_dimm_keys ks keypath (ls_entries ls d) 0 d) (\<lambda>(r, d).
            Ret (case r of Inl rc \<Rightarrow> rc | Inr count \<Rightarrow> 0, d))))"

text \<open>After the option parser; a path that cannot be copied is the \<open>NULL\<close> that \<open>chdir\<close> refuses.\<close>

definition cmd_load_keys :: "'d key_sys \<Rightarrow> 'd load_sys \<Rightarrow> string option \<Rightarrow> string option \<Rightarrow> 'd \<Rightarrow> (int \<times> 'd) run" where
  "cmd_load_keys ks ls key_path tpm_handle d =
     (case key_path of
        Some p \<Rightarrow> load_keys ks ls p tpm_handle d
      | None \<Rightarrow>
          if ks_mem ks (length (ks_dir ks) + 1) then load_keys ks ls (ks_dir ks) tpm_handle d else Ret (- EFAULT, d))"

subsection \<open>Blobs in memory\<close>

lemma read_blob_length: "read_blob sz got reads = Ret (Some bytes) \<Longrightarrow> length bytes = sz"
  by (induction sz got reads rule: read_blob.induct) (auto simp: Let_def split: if_splits)

lemma poke_length: "poke buf ofs s = Ret buf' \<Longrightarrow> length buf' = length buf"
  by (auto simp: poke_def split: if_splits)

text \<open>Without a TPM handle the blob is the command \<open>load\<close> and the file.\<close>

lemma load_key_blob_text:
  assumes "ndctl_load_key_blob ks path None ty d = Ret (Some blob)"
  shows "\<exists>f bytes. ks_open ks path d = Some f \<and> read_blob (bf_size f) [] (bf_reads f) = Ret (Some bytes) \<and>
    blob_text blob = blob_prefix ty @ bytes"
proof -
  obtain f bytes b1 where f: "ks_open ks path d = Some f" and r: "read_blob (bf_size f) [] (bf_reads f) = Ret (Some bytes)"
      and b1: "poke (replicate (bf_size f + length (blob_prefix ty)) None) 0 (blob_prefix ty) = Ret b1"
      and b2: "poke b1 (length (blob_prefix ty)) bytes = Ret blob"
    using assms by (auto simp: ndctl_load_key_blob_def Let_def split: option.splits if_splits)
  have "blob = map Some (blob_prefix ty @ bytes)"
    using b1 b2 read_blob_length [OF r] by (auto simp: poke_def split: if_splits)
  then have "blob_text blob = blob_prefix ty @ bytes" by (simp add: blob_text_def comp_def)
  with f r show ?thesis by blast
qed

text \<open>With a TPM handle the buffer of a blob is one byte too short: its size counts the handle, \<open>keyhandle=\<close> and one more byte, but a
  space is written in front and a zero behind.  So whenever the file can be read, \<open>ndctl_load_key_blob\<close> writes behind its buffer.\<close>

theorem tpm_handle_overflows:
  assumes "ks_open ks path d = Some f" and "bf_stat f" "bf_regular f" and "0 < bf_size f" "bf_size f \<le> 4096"
    and "\<And>n. ks_mem ks n" and "read_blob (bf_size f) [] (bf_reads f) = Ret (Some bytes)"
  shows "ndctl_load_key_blob ks path (Some handle) ty d = Fault"
proof -
  let ?pre = "blob_prefix ty"
  let ?buf = "replicate (bf_size f + length ?pre + (length handle + 10 + 1)) None :: heap_bytes"
  obtain b1 where b1: "poke ?buf 0 ?pre = Ret b1" by (auto simp: poke_def)
  obtain b2 where b2: "poke b1 (length ?pre) bytes = Ret b2"
    using poke_length [OF b1] read_blob_length [OF assms(7)] by (auto simp: poke_def)
  obtain b3 where b3: "poke b2 (length ?pre + bf_size f) '' '' = Ret b3"
    using poke_length [OF b1] poke_length [OF b2] by (auto simp: poke_def)
  have "poke b3 (length ?pre + bf_size f + 1) (''keyhandle='' @ handle @ [CHR 0x00]) = Fault"
    using poke_length [OF b1] poke_length [OF b2] poke_length [OF b3] by (auto simp: poke_def)
  then show ?thesis
    using assms b1 b2 b3 by (simp add: ndctl_load_key_blob_def Let_def)
qed

subsection \<open>The files of the keys directory\<close>

text \<open>What the file system promises, in terms of the contents \<open>fs\<close> of the files: the keyring and sysfs leave files alone, \<open>rename\<close> moves a
  file, \<open>fopen\<close> empties it, \<open>fwrite\<close> changes only the file it writes to, and a failing operation has no effect.  The host keeps its name.\<close>

definition blob_files :: "'d key_sys \<Rightarrow> ('d \<Rightarrow> string \<Rightarrow> string option) \<Rightarrow> string \<Rightarrow> bool" where
  "blob_files ks fs host =
     ((\<forall>d. ks_hostname ks d = Inr host) \<and>
      (\<forall>path d. ks_exists ks path d = (fs d path \<noteq> None)) \<and>
      (\<forall>ty desc v d. fs (snd (ks_add ks ty desc v d)) = fs d) \<and>
      (\<forall>key d. fs (ks_unlink ks key d) = fs d) \<and>
      (\<forall>path v d. fs (snd (ks_store ks path v d)) = fs d) \<and>
      (\<forall>a b d. fs (snd (ks_rename ks a b d)) = (if fst (ks_rename ks a b d) < 0 \<or> a = b then fs d else (fs d)(b := fs d a, a := None))) \<and>
      (\<forall>a d. fs (snd (ks_create ks a d)) = (if fst (ks_create ks a d) < 0 then fs d else (fs d)(a := Some []))) \<and>
      (\<forall>a v d. \<exists>c. fs (snd (ks_fwrite ks a v d)) = (fs d)(a := c)) \<and>
      (\<forall>a d. fs (snd (ks_remove ks a d)) = (if fst (ks_remove ks a d) < 0 then fs d else (fs d)(a := None))))"

definition key_file :: "'d key_sys \<Rightarrow> string \<Rightarrow> key_dimm \<Rightarrow> string \<Rightarrow> string" where
  "key_file ks host dimm kind = ks_dir ks @ ''/'' @ kind @ ''_'' @ kd_unique_id dimm @ ''_'' @ host @ ''.blob''"

definition key_kind :: "ndctl_key_type \<Rightarrow> string" where
  "key_kind ty =
     (case ty of ND_USER_KEY \<Rightarrow> ''nvdimm'' | ND_USER_OLD_KEY \<Rightarrow> ''nvdimm-old'' | ND_MASTER_KEY \<Rightarrow> ''nvdimm-master''
      | ND_MASTER_OLD_KEY \<Rightarrow> ''nvdimm-master-old'' | ND_ZERO_KEY \<Rightarrow> [])"

lemma blob_filesD:
  assumes "blob_files ks fs host"
  shows "ks_hostname ks d = Inr host"
    and "ks_exists ks path d = (fs d path \<noteq> None)"
    and "ks_add ks ty desc v d = (rc, d') \<Longrightarrow> fs d' = fs d"
    and "fs (ks_unlink ks key d) = fs d"
    and "ks_store ks path v d = (rc, d') \<Longrightarrow> fs d' = fs d"
    and "ks_rename ks a b d = (rc, d') \<Longrightarrow> fs d' = (if rc < 0 \<or> a = b then fs d else (fs d)(b := fs d a, a := None))"
    and "ks_create ks a d = (rc, d') \<Longrightarrow> fs d' = (if rc < 0 then fs d else (fs d)(a := Some []))"
    and "ks_fwrite ks a v d = (n, d') \<Longrightarrow> c \<noteq> a \<Longrightarrow> fs d' c = fs d c"
    and "ks_remove ks a d = (rc, d') \<Longrightarrow> fs d' = (if rc < 0 then fs d else (fs d)(a := None))"
  using assms unfolding blob_files_def by (metis fst_conv snd_conv fun_upd_other)+

lemma get_key_path_file:
  assumes "blob_files ks fs host" and "get_key_path ks dimm ty d = Ret (Inr path)"
  shows "path = key_file ks host dimm (key_kind ty)"
  using assms(2) blob_filesD(1) [OF assms(1), of d]
  by (auto simp: get_key_path_def sprintf_buf_def key_file_def key_kind_def Let_def split: ndctl_key_type.splits if_splits)

lemma key_file_inj: "key_file ks host dimm k = key_file ks host dimm k' \<longleftrightarrow> k = k'"
  by (simp add: key_file_def)

lemma dimm_load_key_files:
  assumes "blob_files ks fs host" and "dimm_load_key ks dimm ty d = Ret (rc, d')"
  shows "fs d' = fs d"
  using assms(2)
  by (auto simp: dimm_load_key_def simp del: run_bind_Ret dest: blob_filesD(3) [OF assms(1)]
    split: if_splits sum.splits option.splits run_bind_splits)

lemma write_security_files:
  assumes "blob_files ks fs host" and "write_security ks dimm cmd d = (rc, d')"
  shows "fs d' = fs d"
  using assms(2) by (auto simp: write_security_def Let_def dest: blob_filesD(5) [OF assms(1)] split: if_splits)

text \<open>Creating a key touches its own file at most.\<close>

lemma dimm_create_key_files:
  assumes bf: "blob_files ks fs host" and "dimm_create_key ks dimm kek ty d = Ret (rc, d')"
    and "a \<noteq> key_file ks host dimm (key_kind ty)"
  shows "fs d' a = fs d a"
proof -
  have path: "p \<noteq> a" if "get_key_path ks dimm ty d = Ret (Inr p)" for p
    using get_key_path_file [OF bf that] assms(3) by simp
  have created: "fs d2 a = fs d a"
    if "ks_create ks p d1 = (r, d2)" "fs d1 = fs d" "get_key_path ks dimm ty d = Ret (Inr p)" for p d1 r d2
    using blob_filesD(7) [OF bf that(1)] path [OF that(3)] that(2) by simp
  have wrote: "fs d3 a = fs d a"
    if "ks_fwrite ks p v d2 = (n, d3)" "fs d2 a = fs d a" "get_key_path ks dimm ty d = Ret (Inr p)" for p v d2 n d3
    using blob_filesD(8) [OF bf that(1)] path [OF that(3)] that(2) by auto
  note added = blob_filesD(3) [OF bf]
  from assms(2) show ?thesis
    by (auto simp: dimm_create_key_def blob_filesD(4) [OF bf] simp del: run_bind_Ret
      dest: added created [OF _ added] wrote [OF _ created [OF _ added]]
      split: if_splits sum.splits option.splits prod.splits run_bind_splits)
qed

lemma old_key_type_kind:
  "old_key_type ty = Some oty \<Longrightarrow> key_kind oty \<noteq> key_kind ty"
  by (auto simp: old_key_type_def key_kind_def split: if_splits)

lemma move_key_to_old_files:
  assumes bf: "blob_files ks fs host" and "move_key_to_old ks dimm ty d = Ret (rc, d')" and ot: "old_key_type ty = Some oty"
    and cur: "fs d (key_file ks host dimm (key_kind ty)) = Some b"
  shows "fs d' (key_file ks host dimm (key_kind ty)) = Some b \<and> rc < 0 \<or> fs d' (key_file ks host dimm (key_kind oty)) = Some b"
proof -
  let ?cur = "key_file ks host dimm (key_kind ty)" and ?old = "key_file ks host dimm (key_kind oty)"
  have ne: "?old \<noteq> ?cur" using old_key_type_kind [OF ot] by (simp add: key_file_inj)
  have neg: "rc < 0" if "get_key_path ks dimm t e = Ret (Inl rc)" for t e
    using that blob_filesD(1) [OF bf, of e]
    by (auto simp: get_key_path_def sprintf_buf_def Let_def split: ndctl_key_type.splits if_splits)
  have moved: "fs d2 ?old = Some b"
    if "ks_rename ks p q d1 = (r, d2)" "\<not> r < 0" "fs d1 = fs d" "p = ?cur" "q = ?old" for p q d1 r d2
    using blob_filesD(6) [OF bf that(1)] that(2-5) cur ne by simp
  have failed: "fs d2 ?cur = Some b" if "ks_rename ks p q d1 = (r, d2)" "r < 0" "fs d1 = fs d" for p q d1 r d2
    using blob_filesD(6) [OF bf that(1)] that(2,3) cur by simp
  note p = get_key_path_file [OF bf]
  from assms(2) ot cur show ?thesis
    by (auto simp: move_key_to_old_def Let_def blob_filesD(4) [OF bf] neg simp del: run_bind_Ret
      dest: failed moved [OF _ _ blob_filesD(4) [OF bf] refl refl] moved [OF _ _ refl refl refl]
      dest!: dimm_load_key_files [OF bf] p
      split: if_splits sum.splits option.splits prod.splits run_bind_splits)
qed

lemma new_key_or_load_files:
  assumes bf: "blob_files ks fs host" and "new_key_or_load ks dimm kek ty d = Ret (rc, d')"
    and "a \<noteq> key_file ks host dimm (key_kind ty)"
  shows "fs d' a = fs d a"
  using assms(2)
  by (auto simp: new_key_or_load_def simp del: run_bind_Ret split: if_splits prod.splits run_bind_splits
    dest!: dimm_load_key_files [OF bf] dest: dimm_create_key_files [OF bf _ assms(3)])

lemma change_passphrase_files:
  assumes "blob_files ks fs host" and "change_passphrase ks dimm ty k1 k2 d = (rc, d')"
  shows "fs d' = fs d"
  using assms(2)
  by (auto simp: change_passphrase_def ndctl_dimm_update_passphrase_def ndctl_dimm_update_master_passphrase_def
    dest: write_security_files [OF assms(1)] split: if_splits)

text \<open>C19: One refused change of a passphrase keeps the key that still unlocks the DIMM: if its blob is the current one before and the kernel
  accepts no new passphrase, then however the operation ends the blob is in the keys directory, under its own name or that of the old
  key.  (A second refused change overwrites it there: \<open>refused_twice_loses_blob\<close>.)\<close>

theorem update_key_keeps_blob:
  assumes "blob_files ks fs host" and "ty = ND_USER_KEY \<or> ty = ND_MASTER_KEY"
    and "\<And>path cmd d. fst (ks_store ks path cmd d) < 0"
    and "fs d (key_file ks host dimm (key_kind ty)) = Some blob"
    and "ndctl_dimm_update_key ks dimm kek ty d = Ret (rc, d')"
  shows "\<exists>kt \<in> {ty, the (old_key_type ty)}. fs d' (key_file ks host dimm (key_kind kt)) = Some blob"
proof -
  obtain oty where ot: "old_key_type ty = Some oty" using assms(2) by (auto simp: old_key_type_def)
  let ?cur = "key_file ks host dimm (key_kind ty)" and ?old = "key_file ks host dimm (key_kind oty)"
  have refused: "fst (change_passphrase ks dimm ty k1 k2 e) < 0" for k1 k2 e
    using assms(3) by (simp add: change_passphrase_def ndctl_dimm_update_passphrase_def ndctl_dimm_update_master_passphrase_def
      write_security_def Let_def)
  consider "d' = d"
    | r where "move_key_to_old ks dimm ty d = Ret (r, d')"
    | r e r' k where "move_key_to_old ks dimm ty d = Ret (r, e)" "r \<ge> 0" "new_key_or_load ks dimm k ty e = Ret (r', d')"
    | r e r' k e' k1 k2 where "move_key_to_old ks dimm ty d = Ret (r, e)" "r \<ge> 0" "new_key_or_load ks dimm k ty e = Ret (r', e')"
        "d' = snd (change_passphrase ks dimm ty k1 k2 e')"
    using assms(5) ot refused
    by (auto simp: ndctl_dimm_update_key_def Let_def not_less simp del: run_bind_Ret
      split: if_splits sum.splits option.splits prod.splits run_bind_splits) (metis fst_conv snd_conv leD)+
  then have "fs d' ?cur = Some blob \<or> fs d' ?old = Some blob"
  proof cases
    case 1
    then show ?thesis using assms(4) by blast
  next
    case (2 r)
    then show ?thesis using move_key_to_old_files [OF assms(1) _ ot assms(4)] by blast
  next
    case (3 r e r' k)
    then have "fs e ?old = Some blob" using move_key_to_old_files [OF assms(1) 3(1) ot assms(4)] by auto
    moreover have "?old \<noteq> ?cur" using old_key_type_kind [OF ot] by (simp add: key_file_inj)
    ultimately show ?thesis using new_key_or_load_files [OF assms(1) 3(3)] by metis
  next
    case (4 r e r' k e' k1 k2)
    then have "fs e ?old = Some blob" using move_key_to_old_files [OF assms(1) 4(1) ot assms(4)] by auto
    moreover have "?old \<noteq> ?cur" using old_key_type_kind [OF ot] by (simp add: key_file_inj)
    ultimately have "fs e' ?old = Some blob" using new_key_or_load_files [OF assms(1) 4(3)] by metis
    then show ?thesis using change_passphrase_files [OF assms(1)] 4(4) by (metis prod.collapse)
  qed
  then show ?thesis using ot by auto
qed

text \<open>A host that keeps nothing but its files: a key encryption key is in the keyring, keys can be added and read, and the DIMM refuses every
  change.\<close>

type_synonym demo_fs = "string \<Rightarrow> string option"

definition demo_keys :: "int \<Rightarrow> demo_fs key_sys" where
  "demo_keys store_rc =
     \<lparr> ks_dir = ''/k'', ks_mem = (\<lambda>_. True), ks_hostname = (\<lambda>_. Inr ''h''),
       ks_search = (\<lambda>ty desc d. if ty = ''user'' then 5 else - 1), ks_search_errno = (\<lambda>_ _ _. ENOKEY),
       ks_add = (\<lambda>_ _ _ d. (7, d)), ks_read = (\<lambda>_ _. Some ''new''), ks_unlink = (\<lambda>_ d. d),
       ks_exists = (\<lambda>path d. d path \<noteq> None),
       ks_open = (\<lambda>path d. map_option (\<lambda>c. \<lparr> bf_stat = True, bf_regular = True, bf_size = length c, bf_reads = [Some c] \<rparr>) (d path)),
       ks_create = (\<lambda>a d. (0, d(a := Some []))), ks_fwrite = (\<lambda>a v d. (length v, d(a := Some v))),
       ks_rename = (\<lambda>a b d. (0, if a = b then d else d(b := d a, a := None))), ks_remove = (\<lambda>a d. (0, d(a := None))),
       ks_attr = (\<lambda>_ _. Some ''unlocked''), ks_store = (\<lambda>_ _ d. (store_rc, d)), ks_active = (\<lambda>_. False), ks_enabled = (\<lambda>_. False),
       ks_disable = (\<lambda>d. (0, d)), ks_enable = (\<lambda>d. (0, d)), ks_open_attr = (\<lambda>_ _. 0), ks_poll = (\<lambda>d. (1, d)) \<rparr>"

definition demo_kdimm :: key_dimm where
  "demo_kdimm = \<lparr> kd_unique_id = ''8089'', kd_path = ''/sys/nmem0'', kd_buf_len = 100 \<rparr>"

definition demo_files :: demo_fs where
  "demo_files = [''/k/nvdimm_8089_h.blob'' \<mapsto> ''secret'']"

lemma demo_blob_files: "blob_files (demo_keys rc) (\<lambda>d. d) ''h''"
  by (auto simp: blob_files_def demo_keys_def)

theorem update_key_keeps_blob_witness:
  "\<exists>rc d'. ndctl_dimm_update_key (demo_keys (- 5)) demo_kdimm (Some ''user:k'') ND_USER_KEY demo_files = Ret (rc, d') \<and>
    (\<exists>kt \<in> {ND_USER_KEY, ND_USER_OLD_KEY}. d' (key_file (demo_keys (- 5)) ''h'' demo_kdimm (key_kind kt)) = Some ''secret'')"
proof -
  let ?r = "ndctl_dimm_update_key (demo_keys (- 5)) demo_kdimm (Some ''user:k'') ND_USER_KEY demo_files"
  have "(case ?r of Ret _ \<Rightarrow> True | _ \<Rightarrow> False)" by code_simp
  then obtain rc d' where r: "?r = Ret (rc, d')" by (auto split: run.splits)
  have "key_file (demo_keys (- 5)) ''h'' demo_kdimm (key_kind ND_USER_KEY) = ''/k/nvdimm_8089_h.blob''" by code_simp
  then have f: "demo_files (key_file (demo_keys (- 5)) ''h'' demo_kdimm (key_kind ND_USER_KEY)) = Some ''secret''"
    by (simp add: demo_files_def)
  have "fst (ks_store (demo_keys (- 5)) path cmd d) < 0" for path cmd d by (simp add: demo_keys_def)
  then show ?thesis
    using update_key_keeps_blob [OF demo_blob_files _ _ f r] r by (auto simp: old_key_type_def)
qed

text \<open>After a refused change the blob that works has the name of the old key, and the current blob is one the DIMM never accepted.  The next
  change renames the latter over the former: when it is refused too, no blob unlocks the DIMM.\<close>

lemma refused_twice_loses_blob:
  "case ndctl_dimm_update_key (demo_keys (- 5)) demo_kdimm (Some ''user:k'') ND_USER_KEY demo_files of
     Ret (_, d1) \<Rightarrow>
       d1 (key_file (demo_keys (- 5)) ''h'' demo_kdimm (key_kind ND_USER_OLD_KEY)) = Some ''secret'' \<and>
       (case ndctl_dimm_update_key (demo_keys (- 5)) demo_kdimm (Some ''user:k'') ND_USER_KEY d1 of
          Ret (_, d2) \<Rightarrow>
            list_all (\<lambda>kt. d2 (key_file (demo_keys (- 5)) ''h'' demo_kdimm (key_kind kt)) \<noteq> Some ''secret'')
              [ND_USER_KEY, ND_USER_OLD_KEY, ND_MASTER_KEY, ND_MASTER_OLD_KEY]
        | _ \<Rightarrow> False)
   | _ \<Rightarrow> False"
  by code_simp

theorem tpm_handle_overflows_witness:
  "ndctl_load_key_blob (demo_keys 0) ''/k/nvdimm_8089_h.blob'' (Some ''0x81000001'') KEY_TRUSTED demo_files = Fault"
  by (rule tpm_handle_overflows [where f = "\<lparr> bf_stat = True, bf_regular = True, bf_size = 6, bf_reads = [Some ''secret''] \<rparr>"
      and bytes = "''secret''"]) (simp_all add: demo_keys_def demo_files_def)

subsection \<open>Which key is sent\<close>

text \<open>A key that is not in the keyring is loaded from its blob, but then forgotten: \<open>check_dimm_key\<close> returns 0 for it, and
  \<open>remove-passphrase\<close> asks the kernel to disable the passphrase with the key 0 instead of the key that was just loaded.\<close>

theorem remove_key_sends_zero:
  assumes "dimm_check_key ks dimm ND_USER_KEY d = Ret k" and "k < 0"
    and "dimm_load_key ks dimm ND_USER_KEY d = Ret (key, d')" and "0 < key"
  shows "ndctl_dimm_remove_key ks dimm ND_USER_KEY d =
    (case write_security ks dimm (''disable 0'' @ [CHR 0x0A]) d' of (rc, e) \<Rightarrow>
       if rc < 0 then Ret (rc, e) else discard_key ks dimm ND_USER_KEY e)"
proof -
  have "key_cmd ''disable'' [0] = ''disable 0'' @ [CHR 0x0A]"
    by (simp add: key_cmd_def dec_int_def dec_digits.simps char_of_def bit_Suc_0_iff)
  then show ?thesis
    using assms
    by (auto simp: ndctl_dimm_remove_key_def check_dimm_key_def run_key_op_def ndctl_dimm_disable_passphrase_def split: prod.splits)
qed

theorem remove_key_sends_zero_witness:
  "ndctl_dimm_remove_key (demo_keys (- 5)) demo_kdimm ND_USER_KEY demo_files =
    (case write_security (demo_keys (- 5)) demo_kdimm (''disable 0'' @ [CHR 0x0A]) demo_files of (rc, e) \<Rightarrow>
       if rc < 0 then Ret (rc, e) else discard_key (demo_keys (- 5)) demo_kdimm ND_USER_KEY e)"
proof (rule remove_key_sends_zero)
  show "dimm_check_key (demo_keys (- 5)) demo_kdimm ND_USER_KEY demo_files = Ret (- 1)" by code_simp
  show "dimm_load_key (demo_keys (- 5)) demo_kdimm ND_USER_KEY demo_files = Ret (7, demo_files)"
    by (simp add: dimm_load_key_def demo_keys_def get_key_desc_def get_key_path_def sprintf_buf_def demo_kdimm_def Let_def
      ndctl_load_key_blob_def demo_files_def blob_prefix_def poke_def)
qed simp_all

text \<open>A new key that cannot be read back is taken out of the keyring, but \<open>rc\<close> is then the length of the command that created it, and that is
  taken for the key.\<close>

lemma unreadable_key_reported_as_key:
  assumes "\<not> ks_active ks d" and "get_key_desc dimm ty = Ret (Inr desc)" and "ks_search ks ''encrypted'' desc d \<le> 0"
    and "get_key_path ks dimm ty d = Ret (Inr path)" and "\<not> ks_exists ks path d" and "length kek < 115"
    and "ks_add ks ''encrypted'' desc (''new enc32 '' @ kek @ '' 32'') d = (key, e)" and "0 \<le> key" and "ks_read ks key e = None"
  shows "dimm_create_key ks dimm kek ty d = Ret (int (length kek) + 13, ks_unlink ks key e)"
  using assms by (simp add: dimm_create_key_def sprintf_buf_def)

text \<open>A key encryption key with a long name overruns the buffer of that command.\<close>

lemma long_kek_overflows:
  assumes "\<not> ks_active ks d" and "get_key_desc dimm ty = Ret (Inr desc)" and "ks_search ks ''encrypted'' desc d \<le> 0"
    and "get_key_path ks dimm ty d = Ret (Inr path)" and "\<not> ks_exists ks path d" and "115 \<le> length kek"
  shows "dimm_create_key ks dimm kek ty d = Fault"
  using assms by (simp add: dimm_create_key_def sprintf_buf_def)

subsection \<open>Waiting for an overwrite\<close>

text \<open>The wait ends if after some number of wake-ups the DIMM is no longer in the state \<open>overwrite\<close>.\<close>

lemma wait_overwrite_returns:
  assumes "\<And>e. 0 \<le> fst (ks_poll ks e)"
    and "take 9 (case ks_attr ks path (((snd \<circ> ks_poll ks) ^^ n) d) of None \<Rightarrow> [] | Some buf \<Rightarrow> buf) \<noteq> ''overwrite''"
  shows "\<exists>r. wait_overwrite_loop ks path d = Some r"
  using assms(2)
proof (induction n arbitrary: d)
  case 0
  then show ?case by (subst wait_overwrite_loop.simps) (auto split: option.splits)
next
  case (Suc n)
  have "((snd \<circ> ks_poll ks) ^^ Suc n) d = ((snd \<circ> ks_poll ks) ^^ n) (snd (ks_poll ks d))"
    by (simp add: funpow_Suc_right del: funpow.simps)
  then have "\<exists>r. wait_overwrite_loop ks path (snd (ks_poll ks d)) = Some r" using Suc by (simp only:)
  then show ?case
    using assms(1) [of d]
    by (subst wait_overwrite_loop.simps) (auto simp: Let_def not_less split: option.splits prod.splits)
qed

end
