(* ===== verification/Spec2Isabelle.thy ===== *)
theory Spec2Isabelle
  imports Btt_Recover Label_Area Inject Pfn_Infoblock Ns_Action Cxl_Region Cxl_Dpa Cxl_Memdev Dax_Device Inject_Smart Fw_Update Parse_Opt Dimm_Keys
begin

text \<open>
  A verification of the core of \<^bold>\<open>ndctl\<close>, the tools and libraries that manage non-volatile memory devices on Linux.

  \<^bold>\<open>The program.\<close>  libndctl (\<open>ndctl/lib\<close>) represents buses, DIMMs, regions and namespaces, and sends commands to them
  through \<open>ioctl\<close> and sysfs.  The \<open>ndctl\<close> tool (\<open>ndctl/*.c\<close>) creates, reconfigures, checks and destroys namespaces,
  clears and injects media errors, initialises the label areas of DIMMs, injects SMART values, updates the firmware of
  DIMMs and manages their passphrases.  Metadata on the media (the BTT of sector-mode namespaces, the pfn and dax info blocks, the label index blocks) is laid out as little-endian structures
  sealed with a Fletcher checksum.  The models below are translated from the C code, function by function, under the
  names of the code.

  \<^bold>\<open>The theories.\<close>

  \<^item> \<open>Ndctl_Prelude\<close>: machine types, error numbers, byte memories with little-endian access (\<open>le_get\<close>, \<open>le_put\<close>), lists
    of 32-bit indices, and the lemmas on them that all components use.
  \<^item> \<open>Bitmap\<close> (\<open>util/bitmap.c\<close>): the bitmap library on lists of 64-bit words; setting and clearing runs, searching
    (off by one) and fullness.
  \<^item> \<open>Size\<close> (\<open>util/size.c\<close>, \<open>util/size.h\<close>): size parsing with suffixes, saturating size arithmetic, alignment helpers.
  \<^item> \<open>Infoblock\<close> (\<open>util/fletcher.h\<close>, \<open>ndctl/namespace.h\<close>): the checksum and the check of an info block, with an interface
    locale for sealed blocks that the users of info blocks interpret.
  \<^item> \<open>Btt_Model\<close>, \<open>Btt_Check\<close>, \<open>Btt_Recover\<close> (\<open>ndctl/check.c\<close>): the BTT metadata checker.  \<open>Btt_Model\<close> holds the operations on
    an arena (map, log, bitmap, info block copies) over a block device given by its contents and its failures, \<open>Btt_Check\<close>
    the meaning of a consistent arena and the soundness, completeness and repair theorems, \<open>Btt_Recover\<close> the discovery of
    arenas, the recovery of a lost first info block and the whole pass of \<open>namespace_check\<close>.
  \<^item> \<open>Cfg_Cmd\<close> (\<open>ndctl/lib/libndctl.c\<close>): the label area commands, their transfer loop, buffers and reference counts.
  \<^item> \<open>Label_Area\<close> (\<open>ndctl/lib/dimm.c\<close>): layout, validation and initialisation of the label area on top of those commands.
  \<^item> \<open>Bus_Cmd\<close> (\<open>ndctl/lib/ars.c\<close>, \<open>ndctl/lib/nfit.c\<close>): address range scrub, clear error, address translation and
    injection commands, with the \<open>ioctl\<close> of each command as a parameter.
  \<^item> \<open>Inject\<close> (\<open>ndctl/lib/inject.c\<close>): error injection over the bus commands, and the sorted list of bad blocks
    it reports; a locale states what a list of ranges covers.
  \<^item> \<open>Ns_Options\<close> (\<open>ndctl/namespace.c\<close>): defaults, syntax checks and validation of the namespace commands' parameters.
  \<^item> \<open>Pfn_Infoblock\<close> (\<open>ndctl/namespace.c\<close>): \<open>write-infoblock\<close> and \<open>read-infoblock\<close>.
  \<^item> \<open>Ns_Action\<close> (\<open>ndctl/namespace.c\<close>): creating, reconfiguring, destroying, enabling, disabling and clearing namespaces, and
    the walk over buses, regions and namespaces.
  \<^item> \<open>Dev_Filter\<close> (\<open>ndctl/filter.c\<close>, \<open>daxctl/filter.c\<close>, the identifier filters of \<open>cxl/filter.c\<close>): selection of devices
    by names and numbers, and \<open>ndctl_filter_walk\<close>.
  \<^item> \<open>Cxl_Region\<close> (\<open>cxl/region.c\<close>): creating regions over interleaved memory devices, with roll-back, and enabling,
    disabling and destroying them.
  \<^item> \<open>Cxl_Mbox\<close> (\<open>cxl/lib/libcxl.c\<close>): the mailbox commands of a memory device: the query of the supported commands, creating,
    submitting and releasing commands, the accessors of their payloads and the transfer of the label area in pieces; a
    locale states when an accessor reports an error, interpreted for the field macros of the library.
  \<^item> \<open>Cxl_Memdev\<close> (\<open>cxl/memdev.c\<close>): the memdev commands over the mailbox (labels, partitions, alerts, firmware, binding, sanitize)
    and the loop over the memdevs of the command line.
  \<^item> \<open>Cxl_Dpa\<close> (\<open>cxl/memdev.c\<close>): reserving and freeing device physical address space.
  \<^item> \<open>Dax_Memory\<close> (\<open>daxctl/lib/libdaxctl.c\<close>): the memory blocks behind a device-dax instance (online, offline, zones,
    counting), drivers, sizes, alignments and mappings of a device.
  \<^item> \<open>Dax_Device\<close> (\<open>daxctl/device.c\<close>): the commands that reconfigure, online, offline, enable, disable, create and destroy
    device-dax instances.
  \<^item> \<open>Scrub\<close> (\<open>ndctl/lib/libndctl.c\<close>): starting a scrub and waiting for its completion.
  \<^item> \<open>Dimm_Cmd\<close>, \<open>Intel_Cmd\<close>, \<open>Vendor_Cmd\<close>, \<open>Smart_Cmd\<close> (\<open>ndctl/lib/libndctl.c\<close>, \<open>intel.c\<close>, \<open>hpe1.c\<close>, \<open>msft.c\<close>, \<open>hyperv.c\<close>,
    \<open>papr.c\<close>, \<open>smart.c\<close>, \<open>firmware.c\<close>): commands that are passed through to the firmware of a DIMM, the payloads of the
    vendors as byte memories, and the vendor-independent interface to SMART data and firmware updates; a locale
    states the contract between a vendor's constructor of commands and its validity check.
  \<^item> \<open>Inject_Smart\<close> (\<open>ndctl/inject-smart.c\<close>): setting SMART thresholds and injecting SMART values.
  \<^item> \<open>Fw_Update\<close> (\<open>ndctl/dimm.c\<close>): updating the firmware of a DIMM and arming its activation.
  \<^item> \<open>Dimm_Keys\<close> (\<open>ndctl/keys.c\<close>, \<open>ndctl/load-keys.c\<close>, \<open>ndctl/lib/dimm.c\<close>, \<open>ndctl/dimm.c\<close>): the passphrases of DIMMs: keys in the kernel's
    keyring and their blobs in the keys directory, the requests to the \<open>security\<close> attribute, the security actions and \<open>load-keys\<close>.
  \<^item> \<open>Strbuf\<close> (\<open>util/strbuf.c\<close>, \<open>util/wrapper.c\<close>, \<open>util/abspath.c\<close>): the growing string buffer over a partial allocator, with a locale
    for the operations that append, and the prefixing of file names.
  \<^item> \<open>Parse_Opt\<close> (\<open>util/parse-options.c\<close>, \<open>util/main.c\<close>): the option parser of all three tools, which compacts \<open>argv\<close> in place and writes
    to the variables of a typed store, its usage messages, and the dispatch of commands.

  \<^bold>\<open>State and effects.\<close>  The C code's global and heap state is passed explicitly (records for structures, lists of words
  for arrays, functions from offsets to bytes for media).  Result codes are integers as in the code, with 0 for success
  and negative error numbers; a division by zero, a read out of bounds and \<open>NULL\<close> are \<open>None\<close>.  Kernel, firmware and
  libuuid are record fields or arguments over an arbitrary state type; theorems that need something of them name it in
  a definition (\<open>lsa_ioctl\<close>, \<open>size_ioctl\<close>, \<open>label_env_ok\<close>, \<open>media_kern\<close>, \<open>keeps\<close>, \<open>media_keeps\<close>, \<open>clear_keeps\<close>, \<open>uuids_wf\<close>, \<open>region_store\<close>, \<open>block_kern\<close>, \<open>driver_kern\<close>,
  \<open>scrub_finishes\<close>, \<open>scrub_stuck\<close>, \<open>stores_image\<close>, \<open>aborts_ok\<close>, \<open>always_busy\<close>, \<open>time_passes\<close>, \<open>answers\<close>, \<open>reports\<close>,
  \<open>declares\<close>, \<open>label_kernel\<close>, \<open>blob_files\<close>), and their witnesses instantiate it.

  \<^bold>\<open>What is shown.\<close>  The checker accepts exactly consistent BTTs, repairs as it should and writes nothing without
  \<open>--repair\<close>, and it ends if the arenas it finds lie inside the device; label initialisation produces an area that validates
  and leaves the label slots on the device as they were; the transfer loop moves exactly the bytes asked for;
  injected errors are requested exactly (unless the addresses wrap around), and the ranges reported that start inside the
  namespace are read back exactly; validated parameters are ones the kernel can honour and only such requests are sent, for
  new and for reconfigured namespaces; destroying erases the info block if the namespace can be opened in raw mode;
  clearing stays inside the namespace; written info blocks read back field by field.  The walk of the filters visits what
  was asked for; a failed region creation leaves no region behind unless its deletion is refused, and a region
  is destroyed only when that is safe.  Onlining and offlining settle every memory block of a device, and a device whose
  memory is online is not reconfigured to devdax mode; waiting for a scrub ends when the scrub does or when the timeout
  has passed.  A firmware image that was sent is on the DIMM byte for byte, the wait for an update ends, and setting a SMART
  threshold keeps the others.  Labels written to a CXL memory device read back, its partition and alert requests are what the
  user asked for, and without \<open>--force\<close> address space is reserved within the capacity and in order.  The option parser assigns exactly what the
  command line says and leaves the other arguments in order; string buffers are never overrun.  One refused change of
  the passphrase of a DIMM keeps the key that still unlocks it.  Theorems of kind \<open>error\<close> pin down where the code does less than it means to.

  \<^bold>\<open>Bounds and fuel.\<close>  Loops are structural recursions over the lists the C code iterates, or over index lists; the arena
  discovery, which follows offsets found on the media and may not end, takes the number of arenas as fuel and
  returns \<open>None\<close> without it; the transfer of CXL labels and the wait for CXL firmware take the number of rounds, and when some number
  suffices is characterised exactly.  The polling loops of a scrub, of a firmware update and of an overwrite are \<open>partial_function (option)\<close>s: \<open>None\<close> means
  that the code does not return, and that they return is proved (for the overwrite, if some wake-up finds it ended).  The loops of the option parser are total by the number of arguments and of characters left.  Integers keep their width; hypotheses that exclude wrap-around are stated where
  the code relies on them.

  \<^bold>\<open>Not modelled.\<close>  The enumeration of sysfs, the label actions of \<open>ndctl/dimm.c\<close> and its loop over the DIMMs, JSON output and listing, the monitor,
  logging and the viewer of manual pages, the enumeration in libcxl and libdaxctl and the other commands of the \<open>cxl\<close> and
  \<open>daxctl\<close> tools.  Messages are left out everywhere but in the option parser.
\<close>

end
